(* ===== verification/Control_Prelude.thy ===== *)
theory Control_Prelude
  imports Main "HOL-Library.AList" "HOL-Library.Char_ord" "HOL-Library.List_Lexorder"
begin

text \<open>
  The shared vocabulary of the development.

  \<^item> Python values: strings are lists of code points below 256, UUIDs are represented by their
    canonical text \<open>str(u)\<close>, aware datetimes by the number of microseconds since the Unix epoch,
    and a \<open>dict\<close> whose insertion order is observable by an association list, for which
    \<open>AList.update\<close> is exactly the assignment \<open>d[k] = v\<close> (an existing key keeps its position,
    a new key goes to the end).
  \<^item> Exceptions: the hierarchy of \<open>prodkit_control_core/exceptions.py\<close> and the built-in
    exceptions the code raises, as the datatype \<open>exn\<close>.
  \<^item> Results: \<open>exn + 'a\<close> for code that only raises, and \<open>'s \<Rightarrow> (exn + 'a) \<times> 's\<close> for code that
    mutates a state \<open>'s\<close> and keeps the mutations made before a raise.
\<close>

section \<open>Names of the model's types\<close>

type_synonym uuid = string
type_synonym datetime = int
type_synonym timedelta = int
type_synonym sha256_fn = "string \<Rightarrow> string"

named_theorems model_simps \<open>characteristic equations of the model's operations\<close>
named_theorems inv_intros \<open>invariant preservation facts\<close>

section \<open>Exceptions\<close>

datatype exn =
    ValueError string
  | KeyError string
  | TypeError string
  | PermissionError string
  | AssertionError string
  | ProdKitControlError string
  | IntegrityViolationError string
  | AuthorizationDeniedError string
  | ApprovalRequiredError string string
  | ApprovalDeniedError string
  | DuplicateActionError string
  | ExecutorNotFoundError string
  | UnsupportedSchemaError string
  | IncompleteLineageError "string list"
  | LeaseLostError string
  | QueueOverloadedError string
  | CapacityExceededError string
  | RuntimeDrainingError string
  | ForeignException string string

section \<open>Results and state-passing programs\<close>

type_synonym 'a result = "exn + 'a"
type_synonym ('s, 'a) prog = "'s \<Rightarrow> (exn + 'a) \<times> 's"

definition rbind :: "'a result \<Rightarrow> ('a \<Rightarrow> 'b result) \<Rightarrow> 'b result" where
  "rbind r f = (case r of Inl e \<Rightarrow> Inl e | Inr x \<Rightarrow> f x)"

definition raise_if :: "bool \<Rightarrow> exn \<Rightarrow> unit result" where
  "raise_if b e = (if b then Inl e else Inr ())"

lemma rbind_simps [simp]:
  "rbind (Inl e) f = Inl e"
  "rbind (Inr x) f = f x"
  by (simp_all add: rbind_def)

lemma rbind_eq_Inr [simp]: "rbind r f = Inr y \<longleftrightarrow> (\<exists>x. r = Inr x \<and> f x = Inr y)"
  by (cases r) auto

lemma rbind_eq_Inl: "rbind r f = Inl e \<longleftrightarrow> r = Inl e \<or> (\<exists>x. r = Inr x \<and> f x = Inl e)"
  by (cases r) auto

lemma raise_if_eq_Inr [simp]: "raise_if b e = Inr u \<longleftrightarrow> \<not> b"
  by (simp add: raise_if_def)

lemma raise_if_eq_Inl [simp]: "raise_if b e = Inl e' \<longleftrightarrow> b \<and> e = e'"
  by (simp add: raise_if_def)

definition ret :: "'a \<Rightarrow> ('s, 'a) prog" where
  "ret x = (\<lambda>s. (Inr x, s))"

definition raise :: "exn \<Rightarrow> ('s, 'a) prog" where
  "raise e = (\<lambda>s. (Inl e, s))"

definition lift_result :: "'a result \<Rightarrow> ('s, 'a) prog" where
  "lift_result r = (\<lambda>s. (r, s))"

definition bindE :: "('s, 'a) prog \<Rightarrow> ('a \<Rightarrow> ('s, 'b) prog) \<Rightarrow> ('s, 'b) prog" where
  "bindE m f = (\<lambda>s. case m s of (Inl e, s') \<Rightarrow> (Inl e, s') | (Inr x, s') \<Rightarrow> f x s')"

text \<open>\<open>try_prog\<close> is \<open>try: m except Exception as e: h(e)\<close>: the handler runs on the state at the raise.\<close>

definition try_prog :: "('s, 'a) prog \<Rightarrow> (exn \<Rightarrow> ('s, 'a) prog) \<Rightarrow> ('s, 'a) prog" where
  "try_prog m h = (\<lambda>s. case m s of (Inl e, s') \<Rightarrow> h e s' | (Inr x, s') \<Rightarrow> (Inr x, s'))"

lemma prog_simps [simp]:
  "ret x s = (Inr x, s)"
  "raise e s = (Inl e, s)"
  "lift_result r s = (r, s)"
  by (simp_all add: ret_def raise_def lift_result_def)

lemma bindE_ret [simp]: "bindE (ret x) f = f x"
  by (simp add: bindE_def fun_eq_iff)

lemma bindE_raise [simp]: "bindE (raise e) f = raise e"
  by (simp add: bindE_def raise_def fun_eq_iff)

lemma bindE_pure: "bindE (lift_result x) f s = (case x of Inl e \<Rightarrow> (Inl e, s) | Inr y \<Rightarrow> f y s)"
  by (simp add: bindE_def split: sum.splits)

lemma raisedI: "Inl e = x \<Longrightarrow> \<exists>e. x = Inl e"
  by metis

lemma bindE_Inr: "m s = (Inr x, s') \<Longrightarrow> bindE m f s = f x s'"
  by (simp add: bindE_def)

lemma bindE_Inl: "m s = (Inl e, s') \<Longrightarrow> bindE m f s = (Inl e, s')"
  by (simp add: bindE_def)

lemma bindE_eq_Inr:
  "bindE m f s = (Inr y, t) \<longleftrightarrow> (\<exists>x s'. m s = (Inr x, s') \<and> f x s' = (Inr y, t))"
  by (auto simp: bindE_def split: prod.splits sum.splits)

lemma bindE_cases:
  assumes "bindE m f s = (r, t)"
  obtains (raised) e where "m s = (Inl e, t)" "r = Inl e"
    | (returned) x s' where "m s = (Inr x, s')" "f x s' = (r, t)"
  using assms by (auto simp: bindE_def split: prod.splits sum.splits)

text \<open>Programs on a store, and on the world outside it that adapters act on.\<close>

definition on_store :: "('s, 'a) prog \<Rightarrow> ('s \<times> 'w, 'a) prog" where
  "on_store m sw = (case m (fst sw) of (r, s') \<Rightarrow> (r, (s', snd sw)))"

definition on_world :: "('w, 'a) prog \<Rightarrow> ('s \<times> 'w, 'a) prog" where
  "on_world m sw = (case m (snd sw) of (r, w') \<Rightarrow> (r, (fst sw, w')))"

text \<open>A property of states that every step keeps is kept by the composition.\<close>

definition keeps :: "('s \<Rightarrow> 's \<Rightarrow> bool) \<Rightarrow> ('s, 'a) prog \<Rightarrow> bool" where
  "keeps R m \<longleftrightarrow> (\<forall>s. R s (snd (m s)))"

lemma keepsI: "(\<And>s r t. m s = (r, t) \<Longrightarrow> R s t) \<Longrightarrow> keeps R m"
  by (simp add: keeps_def) (metis prod.collapse)

lemma keepsD: "keeps R m \<Longrightarrow> m s = (r, t) \<Longrightarrow> R s t"
  by (auto simp: keeps_def dest: spec [of _ s])

lemma keeps_ret [intro]: "reflp R \<Longrightarrow> keeps R (ret x)"
  by (simp add: keeps_def reflp_def)

lemma keeps_raise [intro]: "reflp R \<Longrightarrow> keeps R (raise e)"
  by (simp add: keeps_def reflp_def)

lemma keeps_lift [intro]: "reflp R \<Longrightarrow> keeps R (lift_result r)"
  by (simp add: keeps_def reflp_def)

lemma keeps_bindE [intro]:
  assumes "transp R" "keeps R m" "\<And>x. keeps R (f x)"
  shows "keeps R (bindE m f)"
proof (rule keepsI)
  fix s r t
  assume "bindE m f s = (r, t)"
  then show "R s t"
    by (cases rule: bindE_cases) (use assms in \<open>auto dest: keepsD transpD\<close>)
qed

lemma keeps_try [intro]:
  assumes "transp R" "keeps R m" "\<And>e. keeps R (h e)"
  shows "keeps R (try_prog m h)"
proof (rule keepsI)
  fix s r t
  assume eq: "try_prog m h s = (r, t)"
  show "R s t"
  proof (cases "m s")
    case (Pair r' s')
    with assms(2) have "R s s'" by (auto dest: keepsD)
    with eq Pair assms show ?thesis
      by (cases r') (auto simp: try_prog_def dest: keepsD transpD)
  qed
qed

text \<open>A sequence of calls, ended by the first one that raises.\<close>

fun run_all :: "('a \<Rightarrow> ('s, 'b) prog) \<Rightarrow> 'a list \<Rightarrow> ('s, 'b list) prog" where
  "run_all f [] = ret []"
| "run_all f (x # xs) = bindE (f x) (\<lambda>y. bindE (run_all f xs) (\<lambda>ys. ret (y # ys)))"

lemma keeps_run_all [intro]:
  assumes "reflp R" "transp R" "\<And>x. keeps R (f x)"
  shows "keeps R (run_all f xs)"
proof (induction xs)
  case Nil
  show ?case unfolding run_all.simps using assms(1) by (rule keeps_ret)
next
  case (Cons x xs)
  then show ?case unfolding run_all.simps using assms by (intro keeps_bindE keeps_ret)
qed

section \<open>Python strings\<close>

text \<open>\<open>str.isspace\<close> on the code points below 256, and \<open>str.strip()\<close>.\<close>

definition py_isspace :: "char \<Rightarrow> bool" where
  "py_isspace c = (let n = of_char c :: nat in (9 \<le> n \<and> n \<le> 13) \<or> (28 \<le> n \<and> n \<le> 32) \<or> n = 133 \<or> n = 160)"

definition strip :: "string \<Rightarrow> string" where
  "strip s = rev (dropWhile py_isspace (rev (dropWhile py_isspace s)))"

definition is_blank :: "string \<Rightarrow> bool" where
  "is_blank s = (strip s = [])"

lemma dropWhile_idem: "dropWhile P (dropWhile P xs) = dropWhile P xs"
  by (induction xs) auto

lemma dropWhile_rev_dropWhile:
  "dropWhile P (rev (dropWhile P (rev (dropWhile P xs)))) = rev (dropWhile P (rev (dropWhile P xs)))"
proof -
  let ?ys = "dropWhile P xs"
  let ?zs = "rev (dropWhile P (rev ?ys))"
  show ?thesis
  proof (cases ?zs)
    case Nil
    then show ?thesis by (metis dropWhile.simps(1))
  next
    case (Cons z zs)
    have "rev ?ys = takeWhile P (rev ?ys) @ dropWhile P (rev ?ys)" by simp
    then have "?ys = ?zs @ rev (takeWhile P (rev ?ys))" by (metis rev_append rev_rev_ident)
    with Cons have "?ys = z # (zs @ rev (takeWhile P (rev ?ys)))" by simp
    then have "\<not> P z" by (metis dropWhile_eq_Cons_conv)
    with Cons show ?thesis by simp
  qed
qed

lemma strip_idem [simp]: "strip (strip s) = strip s"
  by (simp add: strip_def dropWhile_rev_dropWhile dropWhile_idem)

lemma is_blank_iff: "is_blank s \<longleftrightarrow> (\<forall>c \<in> set s. py_isspace c)"
proof -
  have "strip s = [] \<longleftrightarrow> (\<forall>c \<in> set (dropWhile py_isspace s). py_isspace c)"
    by (simp add: strip_def dropWhile_eq_Nil_conv)
  also have "\<dots> \<longleftrightarrow> (\<forall>c \<in> set s. py_isspace c)"
    by (metis dropWhile_eq_Nil_conv hd_dropWhile hd_in_set set_dropWhileD)
  finally show ?thesis by (simp add: is_blank_def)
qed

text \<open>\<open>str(i)\<close> for an \<open>int\<close>.\<close>

definition digit_char :: "nat \<Rightarrow> char" where
  "digit_char n = char_of (48 + n)"

fun nat_str :: "nat \<Rightarrow> string" where
  "nat_str n = (if n < 10 then [digit_char n] else nat_str (n div 10) @ [digit_char (n mod 10)])"

declare nat_str.simps [simp del]

definition int_str :: "int \<Rightarrow> string" where
  "int_str i = (if i < 0 then CHR ''-'' # nat_str (nat (- i)) else nat_str (nat i))"

definition is_digit :: "char \<Rightarrow> bool" where
  "is_digit c = (let n = of_char c :: nat in 48 \<le> n \<and> n \<le> 57)"

definition digit_val :: "char \<Rightarrow> nat" where
  "digit_val c = of_char c - 48"

definition digits_val :: "string \<Rightarrow> nat" where
  "digits_val s = foldl (\<lambda>a c. 10 * a + digit_val c) 0 s"

lemma of_char_digit [simp]: "n < 10 \<Longrightarrow> of_char (digit_char n) = 48 + n"
  by (simp add: digit_char_def of_char_of)

lemma digit_val_digit [simp]: "n < 10 \<Longrightarrow> digit_val (digit_char n) = n"
  by (simp add: digit_val_def)

lemma is_digit_digit [simp]: "n < 10 \<Longrightarrow> is_digit (digit_char n)"
  by (simp add: is_digit_def)

lemma nat_str_digits: "list_all is_digit (nat_str n)"
proof (induction n rule: nat_str.induct)
  case (1 n)
  then show ?case by (subst nat_str.simps) auto
qed

lemma nat_str_not_Nil [simp]: "nat_str n \<noteq> []"
  by (subst nat_str.simps) simp

lemma digits_val_nat_str [simp]: "digits_val (nat_str n) = n"
proof (induction n rule: nat_str.induct)
  case (1 n)
  show ?case
  proof (cases "n < 10")
    case True
    then show ?thesis by (subst nat_str.simps) (simp add: digits_val_def)
  next
    case False
    with 1 have "digits_val (nat_str (n div 10)) = n div 10" by simp
    with False show ?thesis
      by (subst nat_str.simps) (simp add: digits_val_def)
  qed
qed

lemma nat_str_inject [simp]: "nat_str m = nat_str n \<longleftrightarrow> m = n"
  by (metis digits_val_nat_str)

lemma nat_str_no_minus: "nat_str n \<noteq> CHR ''-'' # s"
proof
  assume "nat_str n = CHR ''-'' # s"
  with nat_str_digits [of n] show False by (simp add: is_digit_def)
qed

lemma int_str_inject [simp]: "int_str i = int_str j \<longleftrightarrow> i = j"
  using nat_str_no_minus by (auto simp: int_str_def nat_eq_iff) (metis nat_str_no_minus)+

text \<open>Lower-case hexadecimal, and the \<open>Sha256\<close>, \<open>TraceId\<close> and \<open>SpanId\<close> patterns of \<open>base.py\<close>.\<close>

definition hex_char :: "nat \<Rightarrow> char" where
  "hex_char n = (if n < 10 then char_of (48 + n) else char_of (87 + n))"

definition is_hex :: "char \<Rightarrow> bool" where
  "is_hex c = (let n = of_char c :: nat in (48 \<le> n \<and> n \<le> 57) \<or> (97 \<le> n \<and> n \<le> 102))"

definition hex_pattern :: "nat \<Rightarrow> string \<Rightarrow> bool" where
  "hex_pattern n s = (length s = n \<and> list_all is_hex s)"

lemma of_char_hex [simp]: "n < 16 \<Longrightarrow> of_char (hex_char n) = (if n < 10 then 48 + n else 87 + n)"
  by (simp add: hex_char_def of_char_of)

lemma hex_char_inject: "m < 16 \<Longrightarrow> n < 16 \<Longrightarrow> hex_char m = hex_char n \<longleftrightarrow> m = n"
proof
  assume "m < 16" "n < 16" and eq: "hex_char m = hex_char n"
  then have "(if m < 10 then 48 + m else 87 + m) = (if n < 10 then 48 + n else 87 + n)"
    by (metis of_char_hex)
  then show "m = n" by (auto split: if_splits)
qed simp

text \<open>\<open>sep.join(xs)\<close>, and zero padding as in the format \<open>:0kd\<close>.\<close>

fun join :: "string \<Rightarrow> string list \<Rightarrow> string" where
  "join sep [] = []"
| "join sep [x] = x"
| "join sep (x # y # ys) = x @ sep @ join sep (y # ys)"

lemma join_Cons: "join sep (x # xs) = (if xs = [] then x else x @ sep @ join sep xs)"
  by (cases xs) auto

definition pad0 :: "nat \<Rightarrow> nat \<Rightarrow> string" where
  "pad0 k n = replicate (k - length (nat_str n)) (CHR ''0'') @ nat_str n"

text \<open>\<open>repr(s)\<close> of a string: the quote, the escapes and the unprintable characters below 256.\<close>

definition repr_char :: "char \<Rightarrow> char \<Rightarrow> string" where
  "repr_char quote c =
    (let n = of_char c :: nat
     in if c = quote \<or> n = 92 then [CHR 0x5C, c]
        else if n = 9 then [CHR 0x5C, CHR ''t''] else if n = 10 then [CHR 0x5C, CHR ''n'']
        else if n = 13 then [CHR 0x5C, CHR ''r'']
        else if (32 \<le> n \<and> n \<le> 126) \<or> (161 \<le> n \<and> n \<noteq> 173) then [c]
        else [CHR 0x5C, CHR ''x'', hex_char (n div 16), hex_char (n mod 16)])"

definition str_repr :: "string \<Rightarrow> string" where
  "str_repr s =
    (let quote = (if CHR 0x27 \<in> set s \<and> CHR 0x22 \<notin> set s then CHR 0x22 else CHR 0x27)
     in quote # concat (map (repr_char quote) s) @ [quote])"

text \<open>\<open>type(e).__name__\<close> and \<open>str(e)\<close> of an exception.\<close>

fun exn_type :: "exn \<Rightarrow> string" where
  "exn_type (ValueError m) = ''ValueError''"
| "exn_type (KeyError m) = ''KeyError''"
| "exn_type (TypeError m) = ''TypeError''"
| "exn_type (PermissionError m) = ''PermissionError''"
| "exn_type (AssertionError m) = ''AssertionError''"
| "exn_type (ProdKitControlError m) = ''ProdKitControlError''"
| "exn_type (IntegrityViolationError m) = ''IntegrityViolationError''"
| "exn_type (AuthorizationDeniedError m) = ''AuthorizationDeniedError''"
| "exn_type (ApprovalRequiredError a d) = ''ApprovalRequiredError''"
| "exn_type (ApprovalDeniedError m) = ''ApprovalDeniedError''"
| "exn_type (DuplicateActionError m) = ''DuplicateActionError''"
| "exn_type (ExecutorNotFoundError m) = ''ExecutorNotFoundError''"
| "exn_type (UnsupportedSchemaError m) = ''UnsupportedSchemaError''"
| "exn_type (IncompleteLineageError ms) = ''IncompleteLineageError''"
| "exn_type (LeaseLostError m) = ''LeaseLostError''"
| "exn_type (QueueOverloadedError m) = ''QueueOverloadedError''"
| "exn_type (CapacityExceededError m) = ''CapacityExceededError''"
| "exn_type (RuntimeDrainingError m) = ''RuntimeDrainingError''"
| "exn_type (ForeignException t m) = t"

fun exn_str :: "exn \<Rightarrow> string" where
  "exn_str (ValueError m) = m"
| "exn_str (KeyError m) = CHR 0x27 # m @ [CHR 0x27]"
| "exn_str (TypeError m) = m"
| "exn_str (PermissionError m) = m"
| "exn_str (AssertionError m) = m"
| "exn_str (ProdKitControlError m) = m"
| "exn_str (IntegrityViolationError m) = m"
| "exn_str (AuthorizationDeniedError m) = m"
| "exn_str (ApprovalRequiredError a d) = ''Approval required for action '' @ a @ '' ('' @ d @ '')''"
| "exn_str (ApprovalDeniedError m) = m"
| "exn_str (DuplicateActionError m) = m"
| "exn_str (ExecutorNotFoundError m) = m"
| "exn_str (UnsupportedSchemaError m) = m"
| "exn_str (IncompleteLineageError ms) = ''Production lineage is incomplete: '' @ join '', '' ms"
| "exn_str (LeaseLostError m) = m"
| "exn_str (QueueOverloadedError m) = m"
| "exn_str (CapacityExceededError m) = m"
| "exn_str (RuntimeDrainingError m) = m"
| "exn_str (ForeignException t m) = m"

section \<open>Insertion-ordered dictionaries\<close>

text \<open>\<open>dict_of\<close> is a dict comprehension: a later pair with the same key overwrites the value in place.\<close>

definition dict_of :: "('k \<times> 'v) list \<Rightarrow> ('k \<times> 'v) list" where
  "dict_of xs = foldl (\<lambda>d p. AList.update (fst p) (snd p) d) [] xs"

lemma map_fst_update [simp]:
  "map fst (AList.update k v d) = (if k \<in> fst ` set d then map fst d else map fst d @ [k])"
  by (induction d) auto

lemma distinct_update [simp]: "distinct (map fst d) \<Longrightarrow> distinct (map fst (AList.update k v d))"
  by (rule distinct_update)

lemma update_absent: "k \<notin> fst ` set d \<Longrightarrow> AList.update k v d = d @ [(k, v)]"
  by (induction d) auto

lemma foldl_update_distinct:
  "distinct (map fst d) \<Longrightarrow> distinct (map fst (foldl (\<lambda>d p. AList.update (fst p) (snd p) d) d xs))"
  by (induction xs arbitrary: d) (simp_all del: map_fst_update)

lemma distinct_dict_of: "distinct (map fst (dict_of xs))"
  unfolding dict_of_def by (rule foldl_update_distinct) simp

lemma foldl_update_fresh:
  "distinct (map fst (d @ xs)) \<Longrightarrow> foldl (\<lambda>d p. AList.update (fst p) (snd p) d) d xs = d @ xs"
proof (induction xs arbitrary: d)
  case Nil
  then show ?case by simp
next
  case (Cons p xs)
  then have "fst p \<notin> fst ` set d" by auto
  then have "AList.update (fst p) (snd p) d = d @ [p]" by (simp add: update_absent)
  with Cons show ?case by simp
qed

lemma dict_of_distinct [simp]: "distinct (map fst xs) \<Longrightarrow> dict_of xs = xs"
  by (simp add: dict_of_def foldl_update_fresh)

lemma set_update_cases:
  "(k', v') \<in> set (AList.update k v d) \<Longrightarrow> (k' = k \<and> v' = v) \<or> (k', v') \<in> set d"
  by (induction d) (auto split: if_splits)

lemma set_foldl_update:
  "(k, v) \<in> set (foldl (\<lambda>d p. AList.update (fst p) (snd p) d) d xs) \<Longrightarrow> (k, v) \<in> set d \<union> set xs"
proof (induction xs arbitrary: d)
  case Nil
  then show ?case by simp
next
  case (Cons p xs)
  then have "(k, v) \<in> set (AList.update (fst p) (snd p) d) \<union> set xs" by simp
  then show ?case by (cases p) (auto dest: set_update_cases)
qed

lemma set_dict_of: "(k, v) \<in> set (dict_of xs) \<Longrightarrow> (k, v) \<in> set xs"
  using set_foldl_update [of k v "[]" xs] by (simp add: dict_of_def)

end
