(* ===== verification/Canonical.thy ===== *)
theory Canonical
  imports Control_Prelude "HOL-Library.Multiset"
begin

text \<open>
  \<open>prodkit_control_core/canonical.py\<close>: the value normalisation \<open>_normalize\<close>, the canonical JSON
  encoding \<open>canonical_json_bytes\<close>, the portable profile \<open>canonical_portable_json\<close> and
  \<open>sha256_hex\<close>. The main facts: the encoding does not depend on the order of dictionary entries
  and is injective up to that order, and the portable encoder accepts exactly the portable
  values and agrees there with the general one.

  The value type holds what the contract models can put into a JSON document: finite floats (by
  their \<open>repr\<close> text), dates, decimals and paths by the text \<open>_normalize\<close> renders them to, and
  dictionary keys that are not strings by their \<open>str()\<close> text. Sets, non-finite floats and
  objects that \<open>json.dumps\<close> rejects are not values of the type. The digest function of
  \<open>hashlib\<close> is a parameter of every definition that hashes.
\<close>

section \<open>Values\<close>

datatype pykey = KStr string | KOther string

datatype pyval =
    PNone
  | PBool bool
  | PInt int
  | PFloat string
  | PStr string
  | PList "pyval list"
  | PTuple "pyval list"
  | PDict "(pykey \<times> pyval) list"
  | PDatetime datetime
  | PDate string
  | PDecimal string
  | PUuid uuid
  | PPath string
  | PEnum string
  | PBytes string

datatype json =
    JNull
  | JBool bool
  | JInt int
  | JFloat string
  | JStr string
  | JList "json list"
  | JObj "(string \<times> json) list"

fun key_str :: "pykey \<Rightarrow> string" where
  "key_str (KStr s) = s"
| "key_str (KOther t) = t"

section \<open>Rendering of datetimes and bytes\<close>

text \<open>
  \<open>datetime.isoformat()\<close> of a UTC datetime with \<open>+00:00\<close> replaced by \<open>Z\<close>; the date is
  computed from the day number in the proleptic Gregorian calendar.
\<close>

definition civil_from_days :: "int \<Rightarrow> nat \<times> nat \<times> nat" where
  "civil_from_days days =
    (let z = days + 719468;
         era = z div 146097;
         doe = z mod 146097;
         yoe = (doe - doe div 1460 + doe div 36524 - doe div 146096) div 365;
         doy = doe - (365 * yoe + yoe div 4 - yoe div 100);
         mp = (5 * doy + 2) div 153;
         d = doy - (153 * mp + 2) div 5 + 1;
         m = (if mp < 10 then mp + 3 else mp - 9);
         y = yoe + era * 400 + (if m \<le> 2 then 1 else 0)
     in (nat y, nat m, nat d))"

definition isoformat_utc :: "datetime \<Rightarrow> string" where
  "isoformat_utc t =
    (let days = t div 86400000000;
         us = t mod 86400000000;
         secs = nat (us div 1000000);
         frac = nat (us mod 1000000)
     in case civil_from_days days of (y, m, d) \<Rightarrow>
          pad0 4 y @ ''-'' @ pad0 2 m @ ''-'' @ pad0 2 d @ ''T'' @
          pad0 2 (secs div 3600) @ '':'' @ pad0 2 (secs div 60 mod 60) @ '':'' @ pad0 2 (secs mod 60) @
          (if frac = 0 then [] else ''.'' @ pad0 6 frac) @ ''Z'')"

definition hex_of :: "string \<Rightarrow> string" where
  "hex_of bs = concat (map (\<lambda>b. let n = of_char b :: nat in [hex_char (n div 16), hex_char (n mod 16)]) bs)"

section \<open>Normalisation and encoding\<close>

fun normalize_value :: "pyval \<Rightarrow> json" where
  "normalize_value PNone = JNull"
| "normalize_value (PBool b) = JBool b"
| "normalize_value (PInt i) = JInt i"
| "normalize_value (PFloat t) = JFloat t"
| "normalize_value (PStr s) = JStr s"
| "normalize_value (PList vs) = JList (map normalize_value vs)"
| "normalize_value (PTuple vs) = JList (map normalize_value vs)"
| "normalize_value (PDict kvs) = JObj (dict_of (map (\<lambda>(k, v). (key_str k, normalize_value v)) kvs))"
| "normalize_value (PDatetime t) = JStr (isoformat_utc t)"
| "normalize_value (PDate s) = JStr s"
| "normalize_value (PDecimal s) = JStr s"
| "normalize_value (PUuid u) = JStr u"
| "normalize_value (PPath s) = JStr s"
| "normalize_value (PEnum s) = JStr s"
| "normalize_value (PBytes b) = JStr (hex_of b)"

text \<open>String literals of \<open>json.dumps(..., ensure_ascii=False)\<close>.\<close>

definition esc_char :: "char \<Rightarrow> string" where
  "esc_char c =
    (if c = CHR 0x22 then [CHR 0x5C, CHR 0x22]
     else if c = CHR 0x5C then [CHR 0x5C, CHR 0x5C]
     else if c = CHR 0x0A then [CHR 0x5C, CHR ''n'']
     else if c = CHR 0x0D then [CHR 0x5C, CHR ''r'']
     else if c = CHR 0x09 then [CHR 0x5C, CHR ''t'']
     else if c = CHR 0x0C then [CHR 0x5C, CHR ''f'']
     else if c = CHR 0x08 then [CHR 0x5C, CHR ''b'']
     else if (of_char c :: nat) < 32
       then [CHR 0x5C, CHR ''u'', CHR ''0'', CHR ''0'', hex_char (of_char c div 16), hex_char (of_char c mod 16)]
     else [c])"

definition json_str :: "string \<Rightarrow> string" where
  "json_str s = CHR 0x22 # concat (map esc_char s) @ [CHR 0x22]"

definition json_member :: "string \<times> string \<Rightarrow> string" where
  "json_member kt = json_str (fst kt) @ CHR '':'' # snd kt"

text \<open>\<open>json.dumps\<close> with \<open>sort_keys=True\<close> and compact separators.\<close>

fun dumps :: "json \<Rightarrow> string" where
  "dumps JNull = ''null''"
| "dumps (JBool b) = (if b then ''true'' else ''false'')"
| "dumps (JInt i) = int_str i"
| "dumps (JFloat t) = t"
| "dumps (JStr s) = json_str s"
| "dumps (JList vs) = CHR ''['' # join '','' (map dumps vs) @ '']''"
| "dumps (JObj kvs) =
     CHR ''{'' # join '','' (map json_member (sort_key fst (map (\<lambda>(k, v). (k, dumps v)) kvs))) @ ''}''"

text \<open>\<open>str.encode("utf-8")\<close> on code points below 256.\<close>

definition utf8_char :: "char \<Rightarrow> string" where
  "utf8_char c = (let n = of_char c :: nat in
     if n < 128 then [c] else [char_of (192 + n div 64), char_of (128 + n mod 64)])"

definition utf8 :: "string \<Rightarrow> string" where
  "utf8 s = concat (map utf8_char s)"

definition canonical_json_bytes :: "pyval \<Rightarrow> string" where
  "canonical_json_bytes v = utf8 (dumps (normalize_value v))"

text \<open>\<open>sha256_hex\<close> on bytes, on text and on any other value; \<open>sha\<close> is \<open>hashlib.sha256(_).hexdigest()\<close>.\<close>

definition sha256_hex_bytes :: "sha256_fn \<Rightarrow> string \<Rightarrow> string" where
  "sha256_hex_bytes sha b = sha b"

definition sha256_hex_text :: "sha256_fn \<Rightarrow> string \<Rightarrow> string" where
  "sha256_hex_text sha s = sha (utf8 s)"

definition sha256_hex :: "sha256_fn \<Rightarrow> pyval \<Rightarrow> string" where
  "sha256_hex sha v = sha (canonical_json_bytes v)"

section \<open>The portable profile\<close>

definition max_portable_integer :: int where
  "max_portable_integer = 9007199254740991"

fun rmap :: "('a \<Rightarrow> 'b result) \<Rightarrow> 'a list \<Rightarrow> 'b list result" where
  "rmap f [] = Inr []"
| "rmap f (x # xs) = rbind (f x) (\<lambda>y. rbind (rmap f xs) (\<lambda>ys. Inr (y # ys)))"

lemma rmap_cong [fundef_cong]:
  "xs = ys \<Longrightarrow> (\<And>x. x \<in> set ys \<Longrightarrow> f x = g x) \<Longrightarrow> rmap f xs = rmap g ys"
  by (induction ys arbitrary: xs) auto

text \<open>The loop over the keys of an object: the first key that is not a string raises.\<close>

fun portable_keys :: "(pykey \<times> 'a) list \<Rightarrow> (string \<times> 'a) list result" where
  "portable_keys [] = Inr []"
| "portable_keys ((KStr s, v) # kvs) = rbind (portable_keys kvs) (\<lambda>r. Inr ((s, v) # r))"
| "portable_keys ((KOther t, v) # kvs) = Inl (TypeError ''prodkit-json-v1 object keys must be strings'')"

lemma portable_keys_set:
  "portable_keys kvs = Inr r \<Longrightarrow> (k, v) \<in> set r \<Longrightarrow> (KStr k, v) \<in> set kvs"
  by (induction kvs arbitrary: r rule: portable_keys.induct) auto

lemma portable_keys_Inr: "portable_keys kvs = Inr r \<longleftrightarrow> kvs = map (\<lambda>(k, v). (KStr k, v)) r"
  by (induction kvs arbitrary: r rule: portable_keys.induct) (auto simp: Cons_eq_map_conv)

lemma rbind_cong [fundef_cong]:
  "r = r' \<Longrightarrow> (\<And>x. r' = Inr x \<Longrightarrow> f x = g x) \<Longrightarrow> rbind r f = rbind r' g"
  by (cases r') auto

lemma size_dict_elem:
  "(KStr k, v) \<in> set kvs \<Longrightarrow> size v < Suc (size_list (size_prod (\<lambda>x. 0) size) kvs)"
  by (induction kvs) auto

function canonical_portable_json :: "pyval \<Rightarrow> string result" where
  "canonical_portable_json PNone = Inr ''null''"
| "canonical_portable_json (PBool b) = Inr (if b then ''true'' else ''false'')"
| "canonical_portable_json (PStr s) = Inr (json_str s)"
| "canonical_portable_json (PEnum s) = Inr (json_str s)"
| "canonical_portable_json (PInt i) =
     (if \<not> (- max_portable_integer \<le> i \<and> i \<le> max_portable_integer)
      then Inl (ValueError ''prodkit-json-v1 permits only JavaScript-safe integers'')
      else Inr (int_str i))"
| "canonical_portable_json (PFloat t) =
     Inl (TypeError ''prodkit-json-v1 does not permit binary floating-point numbers'')"
| "canonical_portable_json (PList vs) =
     rbind (rmap canonical_portable_json vs) (\<lambda>ts. Inr (CHR ''['' # join '','' ts @ '']''))"
| "canonical_portable_json (PDict kvs) =
     rbind (portable_keys kvs) (\<lambda>items.
     rbind (rmap (\<lambda>kv. rbind (canonical_portable_json (snd kv)) (\<lambda>t. Inr (json_member (fst kv, t))))
              (sort_key fst items)) (\<lambda>ts.
     Inr (CHR ''{'' # join '','' ts @ ''}'')))"
| "canonical_portable_json (PTuple vs) = Inl (TypeError ''value is outside prodkit-json-v1'')"
| "canonical_portable_json (PDatetime t) = Inl (TypeError ''value is outside prodkit-json-v1'')"
| "canonical_portable_json (PDate s) = Inl (TypeError ''value is outside prodkit-json-v1'')"
| "canonical_portable_json (PDecimal s) = Inl (TypeError ''value is outside prodkit-json-v1'')"
| "canonical_portable_json (PUuid u) = Inl (TypeError ''value is outside prodkit-json-v1'')"
| "canonical_portable_json (PPath s) = Inl (TypeError ''value is outside prodkit-json-v1'')"
| "canonical_portable_json (PBytes b) = Inl (TypeError ''value is outside prodkit-json-v1'')"
  by pat_completeness auto
termination
  by (relation "measure size") (auto dest!: portable_keys_set size_dict_elem simp: less_Suc_eq_le size_list_estimation')


section \<open>The encoding is uniquely readable\<close>

lemma esc_char_prefix: "esc_char c @ x = esc_char d @ y \<Longrightarrow> c = d \<and> x = y"
proof -
  assume eq: "esc_char c @ x = esc_char d @ y"
  have small: "of_char c = (of_char d :: nat)"
    if "(of_char c :: nat) < 32" "(of_char d :: nat) < 32"
      "hex_char (of_char c div 16) = hex_char (of_char d div 16)"
      "hex_char (of_char c mod 16) = hex_char (of_char d mod 16)"
  proof -
    have "of_char c div 16 = (of_char d div 16 :: nat)" "of_char c mod 16 = (of_char d mod 16 :: nat)"
      using that by (auto simp: hex_char_inject less_mult_imp_div_less)
    then show ?thesis by (metis div_mult_mod_eq)
  qed
  from eq small show ?thesis
    by (auto simp: esc_char_def split: if_splits)
qed

lemma esc_char_not_quote: "esc_char c @ x \<noteq> CHR 0x22 # y"
  by (simp add: esc_char_def)

lemma json_str_prefix_aux:
  "concat (map esc_char s) @ CHR 0x22 # x = concat (map esc_char t) @ CHR 0x22 # y \<Longrightarrow> s = t \<and> x = y"
proof (induction s arbitrary: t)
  case Nil
  show ?case
  proof (cases t)
    case (Cons d t')
    with Nil show ?thesis
      using esc_char_not_quote [of d "concat (map esc_char t') @ CHR 0x22 # y" x] by simp
  qed (use Nil in simp)
next
  case (Cons c s)
  show ?case
  proof (cases t)
    case Nil
    with Cons.prems show ?thesis
      using esc_char_not_quote [of c "concat (map esc_char s) @ CHR 0x22 # x" y] by simp
  next
    case (Cons d t')
    with Cons.prems have "c = d" "concat (map esc_char s) @ CHR 0x22 # x = concat (map esc_char t') @ CHR 0x22 # y"
      by (auto dest!: esc_char_prefix)
    with Cons.IH Cons show ?thesis by auto
  qed
qed

lemma json_str_prefix: "json_str s @ x = json_str t @ y \<Longrightarrow> s = t \<and> x = y"
  by (auto simp: json_str_def dest: json_str_prefix_aux)

text \<open>Number tokens are not self-delimiting: they end at the first character that is not theirs.\<close>

definition num_char :: "char \<Rightarrow> bool" where
  "num_char c = (is_digit c \<or> c \<in> {CHR ''-'', CHR ''+'', CHR ''.'', CHR ''e''})"

definition float_tok :: "string \<Rightarrow> bool" where
  "float_tok t = (list_all num_char t \<and> list_ex (\<lambda>c. c \<in> {CHR ''.'', CHR ''e''}) t)"

definition delimited :: "string \<Rightarrow> bool" where
  "delimited s = (case s of [] \<Rightarrow> True | c # _ \<Rightarrow> \<not> num_char c)"

lemma num_token_prefix:
  assumes "list_all num_char a" "list_all num_char b" "a @ s = b @ t" "delimited s" "delimited t"
  shows "a = b \<and> s = t"
proof -
  have munch: "takeWhile num_char (u @ r) = u" if "list_all num_char u" "delimited r" for u r
    using that by (cases r) (auto simp: delimited_def list_all_iff takeWhile_append)
  from assms(1,4) assms(2,5) have "takeWhile num_char (a @ s) = a" "takeWhile num_char (b @ t) = b"
    by (simp_all add: munch)
  with assms(3) show ?thesis by simp
qed

lemma int_str_chars: "list_all (\<lambda>c. is_digit c \<or> c = CHR ''-'') (int_str i)"
  using nat_str_digits by (auto simp: int_str_def list_all_iff)

lemma int_str_num_chars: "list_all num_char (int_str i)"
  using int_str_chars [of i] by (auto simp: num_char_def list_all_iff)

lemma int_str_not_Nil [simp]: "int_str i \<noteq> []"
  by (simp add: int_str_def)

lemma int_str_not_float: "\<not> float_tok (int_str i)"
  using int_str_chars [of i] by (auto simp: float_tok_def list_all_iff list_ex_iff is_digit_def)

text \<open>
  The encoding of a value whose keys are already sorted, and the recursive key sort. A value is
  well formed when the keys of each object are distinct and its floats are number tokens.
\<close>

fun jsort :: "json \<Rightarrow> json" where
  "jsort (JList vs) = JList (map jsort vs)"
| "jsort (JObj kvs) = JObj (sort_key fst (map (\<lambda>(k, v). (k, jsort v)) kvs))"
| "jsort v = v"

fun render :: "json \<Rightarrow> string" where
  "render JNull = ''null''"
| "render (JBool b) = (if b then ''true'' else ''false'')"
| "render (JInt i) = int_str i"
| "render (JFloat t) = t"
| "render (JStr s) = json_str s"
| "render (JList vs) = CHR ''['' # join '','' (map render vs) @ '']''"
| "render (JObj kvs) = CHR ''{'' # join '','' (map (\<lambda>(k, v). json_member (k, render v)) kvs) @ ''}''"

fun floats_ok :: "json \<Rightarrow> bool" where
  "floats_ok (JFloat t) = float_tok t"
| "floats_ok (JList vs) = (\<forall>v \<in> set vs. floats_ok v)"
| "floats_ok (JObj kvs) = (\<forall>kv \<in> set kvs. floats_ok (snd kv))"
| "floats_ok v = True"

lemma insort_key_map_snd:
  "insort_key fst (fst p, f (snd p)) (map (\<lambda>q. (fst q, f (snd q))) ps)
    = map (\<lambda>q. (fst q, f (snd q))) (insort_key fst p ps)"
  by (induction ps) auto

lemma sort_key_map_snd:
  "sort_key fst (map (\<lambda>q. (fst q, f (snd q))) ps) = map (\<lambda>q. (fst q, f (snd q))) (sort_key fst ps)"
  by (induction ps) (simp_all add: insort_key_map_snd)

lemma dumps_eq_render: "dumps v = render (jsort v)"
proof (induction v rule: dumps.induct)
  case (6 vs)
  then show ?case by (simp add: comp_def cong: map_cong)
next
  case (7 kvs)
  have "map (\<lambda>(k, v). (k, dumps v)) kvs
      = map (\<lambda>q. (fst q, render (snd q))) (map (\<lambda>(k, v). (k, jsort v)) kvs)"
    using 7 by auto
  with 7 show ?case by (auto simp: sort_key_map_snd comp_def case_prod_unfold intro!: arg_cong [where f = "join '',''"])
qed simp_all

lemma member_prefix: "json_member (k, a) @ x = json_member (l, b) @ y \<Longrightarrow> k = l \<and> a @ x = b @ y"
  using json_str_prefix [of k "CHR '':'' # a @ x" l "CHR '':'' # b @ y"] by (simp add: json_member_def)

lemma delimited_simps [simp]:
  "delimited []" "delimited (CHR '','' # s)" "delimited (CHR '']'' # s)" "delimited (CHR ''}'' # s)"
  by (simp_all add: delimited_def num_char_def is_digit_def)

text \<open>
  A list of uniquely readable pieces, joined by commas and closed by a bracket, is uniquely
  readable: the argument for arrays and for objects.
\<close>

lemma joined_prefix:
  assumes read: "\<And>x y s t. x \<in> set xs \<Longrightarrow> y \<in> set ys \<Longrightarrow> f x @ s = f y @ t \<Longrightarrow> delimited s \<Longrightarrow>
      delimited t \<Longrightarrow> x = y \<and> s = t"
    and start: "\<And>x. x \<in> set xs \<union> set ys \<Longrightarrow> \<exists>c r. f x = c # r \<and> c \<noteq> b \<and> c \<noteq> CHR '',''"
    and b: "b = CHR '']'' \<or> b = CHR ''}''"
    and eq: "join '','' (map f xs) @ b # s = join '','' (map f ys) @ b # t"
  shows "xs = ys \<and> s = t"
  using read start eq
proof (induction xs arbitrary: ys)
  case Nil
  then show ?case by (cases ys) (fastforce simp: join_Cons split: if_splits)+
next
  case (Cons x xs)
  show ?case
  proof (cases ys)
    case Nil
    with Cons.prems show ?thesis by (fastforce simp: join_Cons split: if_splits)
  next
    case (Cons y ys')
    let ?tail = "\<lambda>zs r. if zs = [] then b # r else '','' @ join '','' (map f zs) @ b # r"
    have "f x @ ?tail xs s = f y @ ?tail ys' t"
      using Cons.prems(3) Cons by (simp add: join_Cons split: if_splits)
    moreover have "delimited (?tail xs s)" "delimited (?tail ys' t)" using b by auto
    ultimately have xy: "x = y" and tl: "?tail xs s = ?tail ys' t"
      using Cons.prems(1) [of x y "?tail xs s" "?tail ys' t"] Cons by auto
    from tl b have "join '','' (map f xs) @ b # s = join '','' (map f ys') @ b # t"
      by (auto split: if_splits)
    moreover have "\<And>z. z \<in> set xs \<union> set ys' \<Longrightarrow> \<exists>c r. f z = c # r \<and> c \<noteq> b \<and> c \<noteq> CHR '',''"
      using Cons.prems(2) Cons by auto
    moreover have "\<And>z w s t. z \<in> set xs \<Longrightarrow> w \<in> set ys' \<Longrightarrow> f z @ s = f w @ t \<Longrightarrow> delimited s \<Longrightarrow>
        delimited t \<Longrightarrow> z = w \<and> s = t"
      using Cons.prems(1) Cons by auto
    ultimately have "xs = ys' \<and> s = t" using Cons.IH by blast
    with xy Cons show ?thesis by simp
  qed
qed


fun head_ok :: "json \<Rightarrow> char \<Rightarrow> bool" where
  "head_ok JNull c = (c = CHR ''n'')"
| "head_ok (JBool b) c = (c = (if b then CHR ''t'' else CHR ''f''))"
| "head_ok (JInt i) c = num_char c"
| "head_ok (JFloat t) c = num_char c"
| "head_ok (JStr s) c = (c = CHR 0x22)"
| "head_ok (JList vs) c = (c = CHR ''['')"
| "head_ok (JObj kvs) c = (c = CHR ''{'')"

lemma render_head:
  assumes "floats_ok v"
  obtains c r where "render v = c # r" "head_ok v c"
proof (cases v)
  case (JInt i)
  then show ?thesis
    using that int_str_num_chars [of i] by (cases "int_str i") auto
next
  case (JFloat t)
  with assms show ?thesis
    using that by (cases t) (auto simp: float_tok_def)
next
  case (JBool b)
  then show ?thesis using that by (cases b) auto
qed (use that in \<open>simp_all add: json_str_def\<close>)

lemma head_ok_not_num:
  "head_ok v c \<Longrightarrow> num_char c \<Longrightarrow> (\<exists>i. v = JInt i) \<or> (\<exists>t. v = JFloat t)"
  by (cases v) (auto simp: num_char_def is_digit_def split: if_splits)

lemma head_ok_start: "head_ok v c \<Longrightarrow> c \<noteq> CHR '']'' \<and> c \<noteq> CHR '',''"
  by (cases v) (auto simp: num_char_def is_digit_def split: if_splits)

lemma render_number_prefix:
  assumes v: "(\<exists>i. v = JInt i) \<or> (\<exists>t. v = JFloat t)" and w: "(\<exists>i. w = JInt i) \<or> (\<exists>t. w = JFloat t)"
    and ok: "floats_ok v" "floats_ok w" and eq: "render v @ s = render w @ t"
    and del: "delimited s" "delimited t"
  shows "v = w \<and> s = t"
proof -
  have "list_all num_char (render v)" "list_all num_char (render w)"
    using v w ok int_str_num_chars by (auto simp: float_tok_def)
  then have "render v = render w \<and> s = t" using num_token_prefix eq del by blast
  with v w ok show ?thesis using int_str_not_float by auto
qed

lemma render_same_head:
  assumes "floats_ok v" "floats_ok w" "render v @ s = render w @ t"
  obtains c where "head_ok v c" "head_ok w c"
proof -
  obtain c r where "render v = c # r" "head_ok v c" using assms(1) by (rule render_head)
  moreover obtain d q where "render w = d # q" "head_ok w d" using assms(2) by (rule render_head)
  ultimately show thesis using assms(3) that by simp
qed

lemma head_ok_same:
  "head_ok JNull c \<Longrightarrow> head_ok w c \<Longrightarrow> w = JNull"
  "head_ok (JBool b) c \<Longrightarrow> head_ok w c \<Longrightarrow> w = JBool b"
  "head_ok (JStr x) c \<Longrightarrow> head_ok w c \<Longrightarrow> \<exists>s. w = JStr s"
  "head_ok (JList vs) c \<Longrightarrow> head_ok w c \<Longrightarrow> \<exists>ws. w = JList ws"
  "head_ok (JObj kvs) c \<Longrightarrow> head_ok w c \<Longrightarrow> \<exists>ws. w = JObj ws"
  "head_ok (JInt i) c \<Longrightarrow> head_ok w c \<Longrightarrow> (\<exists>i. w = JInt i) \<or> (\<exists>t. w = JFloat t)"
  "head_ok (JFloat f) c \<Longrightarrow> head_ok w c \<Longrightarrow> (\<exists>i. w = JInt i) \<or> (\<exists>t. w = JFloat t)"
  by (cases w; auto simp: num_char_def is_digit_def split: if_splits)+

lemma render_prefix:
  assumes "floats_ok v" "floats_ok w" "render v @ s = render w @ t" "delimited s" "delimited t"
  shows "v = w \<and> s = t"
  using assms
proof (induction v arbitrary: w s t rule: render.induct)
  case 1
  then have "w = JNull" by (metis render_same_head head_ok_same(1))
  with 1 show ?case by simp
next
  case (2 b)
  then have "w = JBool b" by (metis render_same_head head_ok_same(2))
  with 2 show ?case by simp
next
  case (3 i)
  then have "(\<exists>i. w = JInt i) \<or> (\<exists>t. w = JFloat t)"
    by (metis render_same_head head_ok_same(6))
  with 3 show ?case by (intro render_number_prefix) auto
next
  case (4 f)
  then have "(\<exists>i. w = JInt i) \<or> (\<exists>t. w = JFloat t)"
    by (metis render_same_head head_ok_same(7))
  with 4 show ?case by (intro render_number_prefix) auto
next
  case (5 str)
  then obtain str' where "w = JStr str'"
    by (metis render_same_head head_ok_same(3))
  with "5.prems"(3) show ?case by (auto dest: json_str_prefix)
next
  case (6 vs)
  then obtain ws where w: "w = JList ws"
    by (metis render_same_head head_ok_same(4))
  have "vs = ws \<and> s = t"
  proof (rule joined_prefix [where f = render and b = "CHR '']''"])
    fix x y s t
    assume "x \<in> set vs" "y \<in> set ws" "render x @ s = render y @ t" "delimited s" "delimited t"
    then show "x = y \<and> s = t" using "6.IH" [of x y s t] "6.prems"(1,2) w by simp
  next
    show "\<exists>c r. render x = c # r \<and> c \<noteq> CHR '']'' \<and> c \<noteq> CHR '',''" if "x \<in> set vs \<union> set ws" for x
    proof -
      from that "6.prems"(1,2) w have "floats_ok x" by auto
      then show ?thesis by (metis render_head head_ok_start)
    qed
  qed (use "6.prems"(3) w in simp_all)
  with w show ?case by simp
next
  case (7 kvs)
  then obtain ws where w: "w = JObj ws"
    by (metis render_same_head head_ok_same(5))
  let ?f = "\<lambda>(k, v). json_member (k, render v)"
  have "kvs = ws \<and> s = t"
  proof (rule joined_prefix [where f = ?f and b = "CHR ''}''"])
    fix x y s t
    assume xy: "x \<in> set kvs" "y \<in> set ws" "?f x @ s = ?f y @ t" "delimited s" "delimited t"
    obtain k v l u where kl: "x = (k, v)" "y = (l, u)" by (cases x, cases y)
    with xy(3) have "k = l" "render v @ s = render u @ t" by (auto dest: member_prefix)
    moreover have "floats_ok v" "floats_ok u" using "7.prems"(1,2) w xy(1,2) kl by auto
    ultimately show "x = y \<and> s = t" using "7.IH" [of x k v u s t] xy kl by simp
  qed (use "7.prems"(3) w in \<open>auto simp: json_member_def json_str_def\<close>)
  with w show ?case by simp
qed

lemma floats_ok_jsort [simp]: "floats_ok (jsort v) = floats_ok v"
  by (induction v rule: jsort.induct) auto

lemma dumps_inject:
  assumes "floats_ok v" "floats_ok w"
  shows "dumps v = dumps w \<longleftrightarrow> jsort v = jsort w"
  using render_prefix [of "jsort v" "jsort w" "[]" "[]"] assms by (auto simp: dumps_eq_render)


lemma utf8_char_prefix: "utf8_char c @ x = utf8_char d @ y \<Longrightarrow> c = d \<and> x = y"
proof -
  assume eq: "utf8_char c @ x = utf8_char d @ y"
  have bound: "(of_char e :: nat) < 256" for e by simp
  have lead: "(of_char (char_of (192 + of_char e div 64 :: nat) :: char) :: nat) = 192 + of_char e div 64" for e
  proof -
    have "of_char e div 64 < (4 :: nat)" using bound [of e] by (simp add: less_mult_imp_div_less)
    then show ?thesis by simp
  qed
  have cont: "(of_char (char_of (128 + of_char e mod 64 :: nat) :: char) :: nat) = 128 + of_char e mod 64" for e
    by simp
  have "c = d" if "char_of (192 + of_char c div 64 :: nat) = (char_of (192 + of_char d div 64 :: nat) :: char)"
    "char_of (128 + of_char c mod 64 :: nat) = (char_of (128 + of_char d mod 64 :: nat) :: char)"
  proof -
    have "of_char c div 64 = (of_char d div 64 :: nat)" "of_char c mod 64 = (of_char d mod 64 :: nat)"
      using that lead cont by (metis add_left_cancel)+
    then have "(of_char c :: nat) = of_char d" by (metis div_mult_mod_eq)
    then show ?thesis by simp
  qed
  moreover have "e \<noteq> char_of (192 + of_char e' div 64 :: nat)" if "(of_char e :: nat) < 128" for e e'
    using lead [of e'] that by auto
  ultimately show ?thesis using eq
    by (auto simp: utf8_char_def Let_def split: if_splits)
qed

lemma utf8_char_not_Nil: "utf8_char c \<noteq> []"
  by (simp add: utf8_char_def Let_def)

lemma utf8_inject [simp]: "utf8 s = utf8 t \<longleftrightarrow> s = t"
proof
  show "utf8 s = utf8 t \<Longrightarrow> s = t"
  proof (induction s arbitrary: t)
    case Nil
    then show ?case by (cases t) (auto simp: utf8_def utf8_char_not_Nil)
  next
    case (Cons c s)
    then obtain d t' where t: "t = d # t'"
      by (cases t) (auto simp: utf8_def utf8_char_not_Nil)
    with Cons.prems have "c = d" "utf8 s = utf8 t'"
      by (auto simp: utf8_def dest!: utf8_char_prefix)
    with Cons.IH t show ?case by simp
  qed
qed simp

section \<open>Well-formed values\<close>

text \<open>
  A value of the type stands for a Python value when the keys of each dictionary are distinct as
  text and each float is a number token.
\<close>

fun py_wf :: "pyval \<Rightarrow> bool" where
  "py_wf (PFloat t) = float_tok t"
| "py_wf (PList vs) = (\<forall>v \<in> set vs. py_wf v)"
| "py_wf (PTuple vs) = (\<forall>v \<in> set vs. py_wf v)"
| "py_wf (PDict kvs) = (distinct (map (key_str \<circ> fst) kvs) \<and> (\<forall>kv \<in> set kvs. py_wf (snd kv)))"
| "py_wf v = True"

lemma floats_ok_normalize: "py_wf v \<Longrightarrow> floats_ok (normalize_value v)"
proof (induction v rule: normalize_value.induct)
  case (8 kvs)
  show ?case
  proof (simp, intro ballI)
    fix kv
    assume "kv \<in> set (dict_of (map (\<lambda>(k, v). (key_str k, normalize_value v)) kvs))"
    then have "kv \<in> set (map (\<lambda>(k, v). (key_str k, normalize_value v)) kvs)"
      using set_dict_of by (metis surj_pair)
    then show "floats_ok (snd kv)" using 8 by (auto simp: case_prod_unfold)
  qed
qed auto

lemma normalize_PDict:
  "py_wf (PDict kvs) \<Longrightarrow> normalize_value (PDict kvs) = JObj (map (\<lambda>(k, v). (key_str k, normalize_value v)) kvs)"
  by (simp add: comp_def case_prod_unfold)

fun portable :: "pyval \<Rightarrow> bool" where
  "portable PNone = True"
| "portable (PBool b) = True"
| "portable (PStr s) = True"
| "portable (PEnum s) = True"
| "portable (PInt i) = (\<bar>i\<bar> \<le> max_portable_integer)"
| "portable (PList vs) = (\<forall>v \<in> set vs. portable v)"
| "portable (PDict kvs) = (\<forall>kv \<in> set kvs. (\<exists>s. fst kv = KStr s) \<and> portable (snd kv))"
| "portable v = False"

lemma rmap_eq_Inr: "rmap f xs = Inr ys \<longleftrightarrow> list_all2 (\<lambda>x y. f x = Inr y) xs ys"
  by (induction xs arbitrary: ys) (auto simp: list_all2_Cons1)

lemma rmap_Inr_iff:
  assumes "\<And>x. x \<in> set xs \<Longrightarrow> f x = Inr y \<longleftrightarrow> P x \<and> y = g x" and "\<And>x z. x \<in> set xs \<Longrightarrow> f x = Inr z \<longleftrightarrow> P x \<and> z = g x"
  shows "rmap f xs = Inr ys \<longleftrightarrow> (\<forall>x \<in> set xs. P x) \<and> ys = map g xs"
  using assms(2) by (induction xs arbitrary: ys) auto

lemma portable_keys_portable:
  "(\<forall>kv \<in> set kvs. \<exists>s. fst kv = KStr s) \<longleftrightarrow> portable_keys kvs = Inr (map (\<lambda>(k, v). (key_str k, v)) kvs)"
  by (induction kvs rule: portable_keys.induct) auto

lemma portable_keys_cases:
  "portable_keys kvs = (if \<forall>kv \<in> set kvs. \<exists>s. fst kv = KStr s
     then Inr (map (\<lambda>(k, v). (key_str k, v)) kvs)
     else Inl (TypeError ''prodkit-json-v1 object keys must be strings''))"
  by (induction kvs rule: portable_keys.induct) auto

lemma canonical_portable_json_iff:
  "py_wf v \<Longrightarrow> canonical_portable_json v = Inr s \<longleftrightarrow> portable v \<and> s = dumps (normalize_value v)"
proof (induction v arbitrary: s rule: canonical_portable_json.induct)
  case (7 vs)
  have "rmap canonical_portable_json vs = Inr ts \<longleftrightarrow>
      (\<forall>v \<in> set vs. portable v) \<and> ts = map (\<lambda>v. dumps (normalize_value v)) vs" for ts
    using 7 by (intro rmap_Inr_iff) auto
  then show ?case by (auto simp: comp_def)
next
  case (8 kvs)
  show ?case
  proof (cases "\<forall>kv \<in> set kvs. \<exists>s. fst kv = KStr s")
    case True
    let ?items = "map (\<lambda>(k, v). (key_str k, v)) kvs"
    let ?enc = "\<lambda>kv. rbind (canonical_portable_json (snd kv)) (\<lambda>t. Inr (json_member (fst kv, t)))"
    have items: "portable_keys kvs = Inr ?items" using True by (simp add: portable_keys_cases)
    have IH: "canonical_portable_json (snd kv) = Inr t \<longleftrightarrow> portable (snd kv) \<and> t = dumps (normalize_value (snd kv))"
      if "kv \<in> set (sort_key fst ?items)" for kv t
    proof -
      from that "8.prems" have "py_wf (snd kv)" by (auto simp: case_prod_unfold)
      then show ?thesis using "8.IH" [OF items that] by blast
    qed
    have "rmap ?enc (sort_key fst ?items) = Inr ts \<longleftrightarrow>
        (\<forall>kv \<in> set (sort_key fst ?items). portable (snd kv)) \<and>
        ts = map (\<lambda>kv. json_member (fst kv, dumps (normalize_value (snd kv)))) (sort_key fst ?items)" for ts
      using IH by (intro rmap_Inr_iff) auto
    moreover have "sort_key fst (map (\<lambda>(k, v). (k, dumps v)) (map (\<lambda>(k, v). (key_str k, normalize_value v)) kvs))
        = map (\<lambda>q. (fst q, dumps (normalize_value (snd q)))) (sort_key fst ?items)"
      using sort_key_map_snd [of "\<lambda>v. dumps (normalize_value v)" ?items] by (simp add: comp_def case_prod_unfold)
    ultimately show ?thesis
      using True items "8.prems"
      by (auto simp: normalize_PDict comp_def case_prod_unfold simp del: normalize_value.simps)
  next
    case False
    then show ?thesis by (auto simp: portable_keys_cases)
  qed
qed (auto simp: max_portable_integer_def)


section \<open>Properties\<close>

text \<open>
  The canonical bytes of two values agree exactly when the values have the same normal form with
  sorted keys: equal content is always hashed to the same bytes, and different content never is.
\<close>

lemma canonical_json_bytes_eq_iff:
  assumes "py_wf v" "py_wf w"
  shows "canonical_json_bytes v = canonical_json_bytes w \<longleftrightarrow> jsort (normalize_value v) = jsort (normalize_value w)"
  using assms by (simp add: canonical_json_bytes_def dumps_inject floats_ok_normalize)

lemma sort_key_mset_eq:
  assumes "mset xs = mset ys" "distinct (map fst xs)"
  shows "sort_key fst xs = sort_key fst ys"
proof (rule sort_key_inj_key_eq)
  show "mset xs = mset (sort_key fst ys)" using assms(1) by simp
  show "inj_on fst (set xs)" using assms(2) by (simp add: distinct_map)
qed simp

lemma canonical_json_bytes_perm:
  assumes "mset kvs = mset kvs'" "py_wf (PDict kvs)"
  shows "canonical_json_bytes (PDict kvs) = canonical_json_bytes (PDict kvs')"
proof -
  let ?n = "\<lambda>(k, v). (key_str k, normalize_value v)"
  let ?d = "\<lambda>(k, v). (k, dumps v)"
  have dist: "distinct (map (key_str \<circ> fst) kvs')"
    using assms by (metis mset_eq_imp_distinct_iff mset_map py_wf.simps(4))
  have wf': "py_wf (PDict kvs')" using assms dist by (auto dest: mset_eq_setD)
  have "sort_key fst (map ?d (map ?n kvs)) = sort_key fst (map ?d (map ?n kvs'))"
  proof (rule sort_key_mset_eq)
    show "mset (map ?d (map ?n kvs)) = mset (map ?d (map ?n kvs'))" using assms(1) by simp
    show "distinct (map fst (map ?d (map ?n kvs)))"
      using assms(2) by (simp add: comp_def case_prod_unfold)
  qed
  then show ?thesis
    using assms(2) wf' by (simp add: canonical_json_bytes_def normalize_PDict del: normalize_value.simps)
qed

text \<open>
  C36: Canonical bytes identify content. Two well-formed values have the same canonical JSON bytes
  exactly when their normal forms with recursively sorted keys are equal, so everything hashed
  through \<open>sha256_hex\<close> is independent of dictionary order and distinguishes different content.
\<close>

theorem canonical_bytes_identify_content:
  assumes "py_wf v" "py_wf w"
  shows "canonical_json_bytes v = canonical_json_bytes w \<longleftrightarrow> jsort (normalize_value v) = jsort (normalize_value w)"
  using assms by (rule canonical_json_bytes_eq_iff)

theorem canonical_bytes_identify_content_witness:
  "let v = PDict [(KStr ''b'', PInt 1), (KStr ''a'', PList [PNone, PStr ''x''])];
       w = PDict [(KStr ''a'', PTuple [PNone, PStr ''x'']), (KStr ''b'', PInt 1)];
       u = PDict [(KStr ''a'', PTuple [PNone, PStr ''x'']), (KStr ''b'', PBool True)]
   in canonical_json_bytes v = canonical_json_bytes w \<and> canonical_json_bytes v \<noteq> canonical_json_bytes u"
  by (simp add: Let_def canonical_bytes_identify_content dict_of_def)

text \<open>
  The portable profile \<open>prodkit-json-v1\<close>. The portable encoder succeeds exactly on the portable
  subset of values (no floats, byte strings, tuples or non-string keys; integers within the safe
  range), and then its text is what \<open>json.dumps\<close> prints for the normalised value, so both encoders
  agree wherever both apply.
\<close>

theorem portable_encoder_agrees:
  assumes "py_wf v"
  shows "canonical_portable_json v = Inr s \<longleftrightarrow> portable v \<and> utf8 s = canonical_json_bytes v"
  using assms by (simp add: canonical_portable_json_iff canonical_json_bytes_def)

theorem portable_encoder_agrees_witness:
  "let v = PDict [(KStr ''b'', PInt 1), (KStr ''a'', PList [PNone])]
   in canonical_portable_json v = Inr (dumps (normalize_value v))
      \<and> canonical_portable_json (PTuple [PNone]) \<noteq> Inr ''[null]''"
  by (simp add: Let_def portable_encoder_agrees canonical_json_bytes_def max_portable_integer_def
      del: normalize_value.simps canonical_portable_json.simps)

end
