(* ===== verification/Contracts.thy ===== *)
theory Contracts
  imports Canonical
begin

text \<open>
  The canonical contracts of \<open>prodkit_control_core/contracts\<close> used by the action broker, the
  event ledger and the standalone stores: identity, artifacts, events, actions, approvals, policy
  decisions, execution attempts, runs, verification and evidence transfers. A pydantic model is a
  record; its \<open>StrEnum\<close>s are datatypes with their values; \<open>X_fields\<close> is what the field types
  and \<open>Field\<close> bounds demand of a constructed value; \<open>validate_X\<close> is its \<open>model_validator\<close>, with
  the checks in the order of the code; \<open>dump_X\<close> is \<open>model_dump(mode="python")\<close>. A constructed
  \<open>NonBlankStr\<close> is already stripped, which \<open>nonblank\<close> says.
\<close>

section \<open>base.py\<close>

definition nonblank :: "string \<Rightarrow> bool" where
  "nonblank s = (s \<noteq> [] \<and> strip s = s)"

definition is_sha256 :: "string \<Rightarrow> bool" where
  "is_sha256 s = hex_pattern 64 s"

definition is_trace_id :: "string \<Rightarrow> bool" where
  "is_trace_id s = hex_pattern 32 s"

definition is_span_id :: "string \<Rightarrow> bool" where
  "is_span_id s = hex_pattern 16 s"

text \<open>Parsing a raw string into a \<open>NonBlankStr\<close>: strip, then require a character.\<close>

definition nonblank_str :: "string \<Rightarrow> string result" where
  "nonblank_str s = (if strip s = [] then Inl (ValueError ''String should have at least 1 character'')
     else Inr (strip s))"

lemma nonblank_str_nonblank: "nonblank_str s = Inr t \<Longrightarrow> nonblank t"
  by (auto simp: nonblank_str_def nonblank_def split: if_splits)

lemma nonblank_str_id [simp]: "nonblank s \<Longrightarrow> nonblank_str s = Inr s"
  by (simp add: nonblank_str_def nonblank_def)

lemma strip_ends: "s \<noteq> [] \<Longrightarrow> \<not> py_isspace (hd s) \<Longrightarrow> \<not> py_isspace (last s) \<Longrightarrow> strip s = s"
proof -
  assume "s \<noteq> []" "\<not> py_isspace (hd s)" "\<not> py_isspace (last s)"
  moreover from this have "dropWhile py_isspace s = s" by (cases s) simp_all
  moreover have "dropWhile py_isspace (rev s) = rev s" if "s \<noteq> []" "\<not> py_isspace (last s)"
    using that by (cases s rule: rev_cases) simp_all
  ultimately show "strip s = s" by (simp add: strip_def)
qed

lemma nonblankI: "s \<noteq> [] \<Longrightarrow> \<not> py_isspace (hd s) \<Longrightarrow> \<not> py_isspace (last s) \<Longrightarrow> nonblank s"
  by (simp add: nonblank_def strip_ends)

lemma nonblank_last:
  assumes "nonblank s"
  shows "\<not> py_isspace (last s)"
proof -
  have s: "s \<noteq> []" "strip s = s" using assms by (simp_all add: nonblank_def)
  let ?t = "dropWhile py_isspace (rev (dropWhile py_isspace s))"
  have "rev ?t = s" using s(2) by (simp add: strip_def)
  with s(1) have "?t \<noteq> []" "last s = hd ?t" by (metis rev_is_Nil_conv, metis last_rev rev_is_Nil_conv)
  then show ?thesis by (simp add: hd_dropWhile)
qed

lemma nonblank_not_blank: "nonblank s \<Longrightarrow> \<not> is_blank s"
  by (simp add: nonblank_def is_blank_def)

text \<open>Constructing a model: pydantic validates the fields and raises a \<open>ValidationError\<close>, a \<open>ValueError\<close>.\<close>

definition check_fields :: "string \<Rightarrow> ('a \<Rightarrow> bool) \<Rightarrow> 'a \<Rightarrow> 'a result" where
  "check_fields name valid x = (if valid x then Inr x else Inl (ValueError (''validation error for '' @ name)))"

lemma check_fields_eq_Inr [simp]: "check_fields name ok x = Inr y \<longleftrightarrow> ok x \<and> y = x"
  by (auto simp: check_fields_def)

text \<open>Pieces of \<open>model_dump\<close>, and the conversion \<open>mode="json"\<close> applies to a dump.\<close>

fun dump_opt :: "('a \<Rightarrow> pyval) \<Rightarrow> 'a option \<Rightarrow> pyval" where
  "dump_opt f None = PNone"
| "dump_opt f (Some x) = f x"

definition dump_dict :: "('a \<Rightarrow> pyval) \<Rightarrow> (string \<times> 'a) list \<Rightarrow> pyval" where
  "dump_dict f d = PDict (map (\<lambda>(k, v). (KStr k, f v)) d)"

fun json_mode :: "pyval \<Rightarrow> pyval" where
  "json_mode (PList vs) = PList (map json_mode vs)"
| "json_mode (PTuple vs) = PList (map json_mode vs)"
| "json_mode (PDict kvs) = PDict (map (\<lambda>(k, v). (k, json_mode v)) kvs)"
| "json_mode (PDatetime t) = PStr (isoformat_utc t)"
| "json_mode (PUuid u) = PStr u"
| "json_mode (PEnum s) = PStr s"
| "json_mode v = v"

text \<open>\<open>datetime.isoformat()\<close> of a UTC datetime.\<close>

definition isoformat_offset :: "datetime \<Rightarrow> string" where
  "isoformat_offset t = butlast (isoformat_utc t) @ ''+00:00''"

section \<open>identity.py\<close>

datatype actor_kind =
    ActorKind_HUMAN
  | ActorKind_AGENT
  | ActorKind_SERVICE
  | ActorKind_WORKFLOW
  | ActorKind_EXECUTOR

fun actor_kind_value :: "actor_kind \<Rightarrow> string" where
  "actor_kind_value ActorKind_HUMAN = ''human''"
| "actor_kind_value ActorKind_AGENT = ''agent''"
| "actor_kind_value ActorKind_SERVICE = ''service''"
| "actor_kind_value ActorKind_WORKFLOW = ''workflow''"
| "actor_kind_value ActorKind_EXECUTOR = ''executor''"

record actor_ref =
  actor_kind :: actor_kind
  actor_id :: string
  actor_display_name :: "string option"
  actor_tenant_id :: string
  actor_workload_identity :: "string option"
  actor_attributes :: "(string \<times> string) list"

definition actor_ref_fields :: "actor_ref \<Rightarrow> bool" where
  "actor_ref_fields r = (nonblank (actor_id r) \<and>
     pred_option nonblank (actor_display_name r) \<and>
     nonblank (actor_tenant_id r) \<and>
     pred_option nonblank (actor_workload_identity r))"

definition dump_actor_ref :: "actor_ref \<Rightarrow> pyval" where
  "dump_actor_ref r = PDict
    [(KStr ''kind'', PEnum (actor_kind_value (actor_kind r))),
     (KStr ''id'', PStr (actor_id r)),
     (KStr ''display_name'', dump_opt PStr (actor_display_name r)),
     (KStr ''tenant_id'', PStr (actor_tenant_id r)),
     (KStr ''workload_identity'', dump_opt PStr (actor_workload_identity r)),
     (KStr ''attributes'', dump_dict PStr (actor_attributes r))]"

section \<open>artifacts.py\<close>

datatype content_storage_mode =
    StorageMode_NONE
  | StorageMode_HASH_ONLY
  | StorageMode_REDACTED
  | StorageMode_FULL

fun content_storage_mode_value :: "content_storage_mode \<Rightarrow> string" where
  "content_storage_mode_value StorageMode_NONE = ''none''"
| "content_storage_mode_value StorageMode_HASH_ONLY = ''hash_only''"
| "content_storage_mode_value StorageMode_REDACTED = ''redacted''"
| "content_storage_mode_value StorageMode_FULL = ''full''"

record artifact_ref =
  art_tenant_id :: string
  art_artifact_id :: string
  art_media_type :: string
  art_sha256 :: string
  art_size_bytes :: int
  art_storage_mode :: content_storage_mode
  art_location :: "string option"
  art_encrypted :: bool
  art_redacted :: bool
  art_redaction_version :: "string option"
  art_retention_until :: "datetime option"
  art_classification :: string

definition artifact_ref_fields :: "artifact_ref \<Rightarrow> bool" where
  "artifact_ref_fields r = (nonblank (art_tenant_id r) \<and>
     nonblank (art_artifact_id r) \<and>
     nonblank (art_media_type r) \<and>
     is_sha256 (art_sha256 r) \<and>
     pred_option nonblank (art_location r) \<and>
     pred_option nonblank (art_redaction_version r) \<and>
     nonblank (art_classification r))"

definition dump_artifact_ref :: "artifact_ref \<Rightarrow> pyval" where
  "dump_artifact_ref r = PDict
    [(KStr ''tenant_id'', PStr (art_tenant_id r)),
     (KStr ''artifact_id'', PStr (art_artifact_id r)),
     (KStr ''media_type'', PStr (art_media_type r)),
     (KStr ''sha256'', PStr (art_sha256 r)),
     (KStr ''size_bytes'', PInt (art_size_bytes r)),
     (KStr ''storage_mode'', PEnum (content_storage_mode_value (art_storage_mode r))),
     (KStr ''location'', dump_opt PStr (art_location r)),
     (KStr ''encrypted'', PBool (art_encrypted r)),
     (KStr ''redacted'', PBool (art_redacted r)),
     (KStr ''redaction_version'', dump_opt PStr (art_redaction_version r)),
     (KStr ''retention_until'', dump_opt PDatetime (art_retention_until r)),
     (KStr ''classification'', PStr (art_classification r))]"

definition truthy :: "string option \<Rightarrow> bool" where
  "truthy s = (case s of None \<Rightarrow> False | Some t \<Rightarrow> t \<noteq> [])"

definition validate_artifact_ref :: "artifact_ref \<Rightarrow> artifact_ref result" where
  "validate_artifact_ref r =
    (if art_size_bytes r < 0 then Inl (ValueError ''artifact size cannot be negative'')
     else if art_storage_mode r \<in> {StorageMode_NONE, StorageMode_HASH_ONLY} \<and> truthy (art_location r)
       then Inl (ValueError ''none/hash_only artifacts cannot include a storage location'')
     else if art_storage_mode r \<in> {StorageMode_REDACTED, StorageMode_FULL} \<and> \<not> truthy (art_location r)
       then Inl (ValueError ''redacted/full artifacts require a storage location'')
     else if art_redacted r \<and> \<not> truthy (art_redaction_version r)
       then Inl (ValueError ''redacted artifacts require a redaction version'')
     else Inr r)"

section \<open>Lineage references (lineage.py)\<close>

datatype lineage_node_kind =
    NodeKind_SPECIFICATION_REVISION
  | NodeKind_DECISION_SET
  | NodeKind_GENERATOR_CONFIGURATION
  | NodeKind_SOURCE_TREE
  | NodeKind_VERIFICATION
  | NodeKind_BUILD_ARTIFACT
  | NodeKind_AUTHORIZATION
  | NodeKind_AGENT_ACTION
  | NodeKind_DEPLOYMENT
  | NodeKind_PRODUCTION_OBSERVATION
  | NodeKind_RECONCILIATION

fun lineage_node_kind_value :: "lineage_node_kind \<Rightarrow> string" where
  "lineage_node_kind_value NodeKind_SPECIFICATION_REVISION = ''specification_revision''"
| "lineage_node_kind_value NodeKind_DECISION_SET = ''decision_set''"
| "lineage_node_kind_value NodeKind_GENERATOR_CONFIGURATION = ''generator_configuration''"
| "lineage_node_kind_value NodeKind_SOURCE_TREE = ''source_tree''"
| "lineage_node_kind_value NodeKind_VERIFICATION = ''verification''"
| "lineage_node_kind_value NodeKind_BUILD_ARTIFACT = ''build_artifact''"
| "lineage_node_kind_value NodeKind_AUTHORIZATION = ''authorization''"
| "lineage_node_kind_value NodeKind_AGENT_ACTION = ''agent_action''"
| "lineage_node_kind_value NodeKind_DEPLOYMENT = ''deployment''"
| "lineage_node_kind_value NodeKind_PRODUCTION_OBSERVATION = ''production_observation''"
| "lineage_node_kind_value NodeKind_RECONCILIATION = ''reconciliation''"

record lineage_node_ref =
  ref_kind :: lineage_node_kind
  ref_node_id :: uuid
  ref_digest :: string

definition lineage_node_ref_fields :: "lineage_node_ref \<Rightarrow> bool" where
  "lineage_node_ref_fields r = (is_sha256 (ref_digest r))"

definition dump_lineage_node_ref :: "lineage_node_ref \<Rightarrow> pyval" where
  "dump_lineage_node_ref r = PDict
    [(KStr ''kind'', PEnum (lineage_node_kind_value (ref_kind r))),
     (KStr ''node_id'', PUuid (ref_node_id r)),
     (KStr ''digest'', PStr (ref_digest r))]"

section \<open>events.py\<close>

datatype event_type =
    Event_RUN_STARTED
  | Event_RUN_COMPLETED
  | Event_MODEL_REQUESTED
  | Event_MODEL_RESPONDED
  | Event_CONTEXT_ACCESSED
  | Event_ACTION_PROPOSED
  | Event_POLICY_EVALUATED
  | Event_APPROVAL_REQUESTED
  | Event_APPROVAL_DECIDED
  | Event_CREDENTIAL_LEASE_ISSUED
  | Event_CREDENTIAL_LEASE_REVOKED
  | Event_CREDENTIAL_LEASE_REVOCATION_FAILED
  | Event_EXECUTION_STARTED
  | Event_EXECUTION_COMPLETED
  | Event_EXECUTION_UNCERTAIN
  | Event_STATE_OBSERVED
  | Event_VERIFICATION_COMPLETED
  | Event_RECONCILIATION_COMPLETED
  | Event_ARTIFACT_RECORDED
  | Event_LINEAGE_NODE_RECORDED
  | Event_LINEAGE_RELATION_RECORDED
  | Event_LINEAGE_ASSESSED
  | Event_ROLLBACK_STARTED
  | Event_ROLLBACK_COMPLETED
  | Event_CORRECTION_RECORDED

fun event_type_value :: "event_type \<Rightarrow> string" where
  "event_type_value Event_RUN_STARTED = ''run.started''"
| "event_type_value Event_RUN_COMPLETED = ''run.completed''"
| "event_type_value Event_MODEL_REQUESTED = ''model.requested''"
| "event_type_value Event_MODEL_RESPONDED = ''model.responded''"
| "event_type_value Event_CONTEXT_ACCESSED = ''context.accessed''"
| "event_type_value Event_ACTION_PROPOSED = ''action.proposed''"
| "event_type_value Event_POLICY_EVALUATED = ''policy.evaluated''"
| "event_type_value Event_APPROVAL_REQUESTED = ''approval.requested''"
| "event_type_value Event_APPROVAL_DECIDED = ''approval.decided''"
| "event_type_value Event_CREDENTIAL_LEASE_ISSUED = ''credential.lease_issued''"
| "event_type_value Event_CREDENTIAL_LEASE_REVOKED = ''credential.lease_revoked''"
| "event_type_value Event_CREDENTIAL_LEASE_REVOCATION_FAILED = ''credential.lease_revocation_failed''"
| "event_type_value Event_EXECUTION_STARTED = ''execution.started''"
| "event_type_value Event_EXECUTION_COMPLETED = ''execution.completed''"
| "event_type_value Event_EXECUTION_UNCERTAIN = ''execution.uncertain''"
| "event_type_value Event_STATE_OBSERVED = ''state.observed''"
| "event_type_value Event_VERIFICATION_COMPLETED = ''verification.completed''"
| "event_type_value Event_RECONCILIATION_COMPLETED = ''reconciliation.completed''"
| "event_type_value Event_ARTIFACT_RECORDED = ''artifact.recorded''"
| "event_type_value Event_LINEAGE_NODE_RECORDED = ''lineage.node_recorded''"
| "event_type_value Event_LINEAGE_RELATION_RECORDED = ''lineage.relation_recorded''"
| "event_type_value Event_LINEAGE_ASSESSED = ''lineage.assessed''"
| "event_type_value Event_ROLLBACK_STARTED = ''rollback.started''"
| "event_type_value Event_ROLLBACK_COMPLETED = ''rollback.completed''"
| "event_type_value Event_CORRECTION_RECORDED = ''correction.recorded''"

record event_integrity =
  integ_algorithm :: string
  integ_canonicalization :: string
  integ_previous_event_hash :: "string option"
  integ_event_hash :: string
  integ_signature :: "string option"
  integ_signing_key_id :: "string option"

definition event_integrity_fields :: "event_integrity \<Rightarrow> bool" where
  "event_integrity_fields r = (pred_option is_sha256 (integ_previous_event_hash r) \<and>
     is_sha256 (integ_event_hash r) \<and>
     pred_option nonblank (integ_signature r) \<and>
     pred_option nonblank (integ_signing_key_id r))"

record control_event_draft =
  ev_schema_name :: string
  ev_schema_version :: string
  ev_event_id :: uuid
  ev_run_id :: uuid
  ev_tenant_id :: string
  ev_event_type :: event_type
  ev_occurred_at :: datetime
  ev_recorded_at :: datetime
  ev_actor :: actor_ref
  ev_trace_id :: string
  ev_span_id :: string
  ev_parent_event_id :: "uuid option"
  ev_causation_event_id :: "uuid option"
  ev_correlation_id :: "string option"
  ev_action_id :: "uuid option"
  ev_lineage :: "lineage_node_ref list"
  ev_payload :: "(string \<times> pyval) list"
  ev_evidence :: "artifact_ref list"

definition control_event_draft_fields :: "control_event_draft \<Rightarrow> bool" where
  "control_event_draft_fields r = (nonblank (ev_tenant_id r) \<and>
     actor_ref_fields (ev_actor r) \<and>
     is_trace_id (ev_trace_id r) \<and>
     is_span_id (ev_span_id r) \<and>
     pred_option nonblank (ev_correlation_id r) \<and>
     (list_all lineage_node_ref_fields) (ev_lineage r) \<and>
     (list_all artifact_ref_fields) (ev_evidence r))"

definition validate_control_event_draft :: "'a control_event_draft_scheme \<Rightarrow> 'a control_event_draft_scheme result" where
  "validate_control_event_draft d =
    (if actor_tenant_id (ev_actor d) \<noteq> ev_tenant_id d
     then Inl (ValueError ''event actor tenant must match event tenant'')
     else Inr d)"

record control_event = control_event_draft +
  ev_sequence :: int
  ev_integrity :: event_integrity

definition draft_items :: "'a control_event_draft_scheme \<Rightarrow> (pykey \<times> pyval) list" where
  "draft_items r =
    [(KStr ''schema_name'', PStr (ev_schema_name r)),
     (KStr ''schema_version'', PStr (ev_schema_version r)),
     (KStr ''event_id'', PUuid (ev_event_id r)),
     (KStr ''run_id'', PUuid (ev_run_id r)),
     (KStr ''tenant_id'', PStr (ev_tenant_id r)),
     (KStr ''event_type'', PEnum (event_type_value (ev_event_type r))),
     (KStr ''occurred_at'', PDatetime (ev_occurred_at r)),
     (KStr ''recorded_at'', PDatetime (ev_recorded_at r)),
     (KStr ''actor'', dump_actor_ref (ev_actor r)),
     (KStr ''trace_id'', PStr (ev_trace_id r)),
     (KStr ''span_id'', PStr (ev_span_id r)),
     (KStr ''parent_event_id'', dump_opt PUuid (ev_parent_event_id r)),
     (KStr ''causation_event_id'', dump_opt PUuid (ev_causation_event_id r)),
     (KStr ''correlation_id'', dump_opt PStr (ev_correlation_id r)),
     (KStr ''action_id'', dump_opt PUuid (ev_action_id r)),
     (KStr ''lineage'', PTuple (map dump_lineage_node_ref (ev_lineage r))),
     (KStr ''payload'', dump_dict (\<lambda>v. v) (ev_payload r)),
     (KStr ''evidence'', PTuple (map dump_artifact_ref (ev_evidence r)))]"

definition hash_material :: "control_event \<Rightarrow> pyval" where
  "hash_material e = PDict (draft_items e @ [(KStr ''sequence'', PInt (ev_sequence e))])"
section \<open>actions.py\<close>

datatype risk_class =
    Risk_LOW
  | Risk_MEDIUM
  | Risk_HIGH
  | Risk_CRITICAL

fun risk_class_value :: "risk_class \<Rightarrow> string" where
  "risk_class_value Risk_LOW = ''low''"
| "risk_class_value Risk_MEDIUM = ''medium''"
| "risk_class_value Risk_HIGH = ''high''"
| "risk_class_value Risk_CRITICAL = ''critical''"

datatype effect_class =
    Effect_READ
  | Effect_WRITE
  | Effect_DESTRUCTIVE
  | Effect_PRIVILEGED

fun effect_class_value :: "effect_class \<Rightarrow> string" where
  "effect_class_value Effect_READ = ''read''"
| "effect_class_value Effect_WRITE = ''write''"
| "effect_class_value Effect_DESTRUCTIVE = ''destructive''"
| "effect_class_value Effect_PRIVILEGED = ''privileged''"

datatype action_status =
    ActionStatus_PROPOSED
  | ActionStatus_POLICY_DENIED
  | ActionStatus_APPROVAL_REQUIRED
  | ActionStatus_APPROVAL_DENIED
  | ActionStatus_AUTHORIZED
  | ActionStatus_EXECUTION_STARTED
  | ActionStatus_EXECUTION_SUCCEEDED
  | ActionStatus_EXECUTION_FAILED
  | ActionStatus_EFFECT_VERIFIED
  | ActionStatus_EFFECT_MISMATCHED
  | ActionStatus_RECONCILED

fun action_status_value :: "action_status \<Rightarrow> string" where
  "action_status_value ActionStatus_PROPOSED = ''proposed''"
| "action_status_value ActionStatus_POLICY_DENIED = ''policy_denied''"
| "action_status_value ActionStatus_APPROVAL_REQUIRED = ''approval_required''"
| "action_status_value ActionStatus_APPROVAL_DENIED = ''approval_denied''"
| "action_status_value ActionStatus_AUTHORIZED = ''authorized''"
| "action_status_value ActionStatus_EXECUTION_STARTED = ''execution_started''"
| "action_status_value ActionStatus_EXECUTION_SUCCEEDED = ''execution_succeeded''"
| "action_status_value ActionStatus_EXECUTION_FAILED = ''execution_failed''"
| "action_status_value ActionStatus_EFFECT_VERIFIED = ''effect_verified''"
| "action_status_value ActionStatus_EFFECT_MISMATCHED = ''effect_mismatched''"
| "action_status_value ActionStatus_RECONCILED = ''reconciled''"

record action_target =
  target_system :: string
  target_environment :: string
  target_resource_type :: string
  target_resource_id :: string
  target_region :: "string option"
  target_expected_pre_state_digest :: "string option"

definition action_target_fields :: "action_target \<Rightarrow> bool" where
  "action_target_fields r = (nonblank (target_system r) \<and>
     nonblank (target_environment r) \<and>
     nonblank (target_resource_type r) \<and>
     nonblank (target_resource_id r) \<and>
     pred_option nonblank (target_region r) \<and>
     pred_option is_sha256 (target_expected_pre_state_digest r))"

definition dump_action_target :: "action_target \<Rightarrow> pyval" where
  "dump_action_target r = PDict
    [(KStr ''system'', PStr (target_system r)),
     (KStr ''environment'', PStr (target_environment r)),
     (KStr ''resource_type'', PStr (target_resource_type r)),
     (KStr ''resource_id'', PStr (target_resource_id r)),
     (KStr ''region'', dump_opt PStr (target_region r)),
     (KStr ''expected_pre_state_digest'', dump_opt PStr (target_expected_pre_state_digest r))]"

record action_spec =
  act_schema_name :: string
  act_schema_version :: string
  act_action_id :: uuid
  act_run_id :: uuid
  act_tenant_id :: string
  act_executor :: string
  act_operation :: string
  act_effect_class :: effect_class
  act_risk_class :: risk_class
  act_target :: action_target
  act_arguments :: "(string \<times> pyval) list"
  act_argument_artifact :: "artifact_ref option"
  act_idempotency_key :: string
  act_proposed_at :: datetime
  act_expires_at :: "datetime option"
  act_work_pack_id :: "string option"
  act_repository_operation_id :: "string option"
  act_policy_context :: "(string \<times> pyval) list"
  act_expected_effect :: "(string \<times> pyval) list"

definition action_spec_fields :: "action_spec \<Rightarrow> bool" where
  "action_spec_fields r = (nonblank (act_tenant_id r) \<and>
     nonblank (act_executor r) \<and>
     nonblank (act_operation r) \<and>
     action_target_fields (act_target r) \<and>
     (pred_option artifact_ref_fields) (act_argument_artifact r) \<and>
     nonblank (act_idempotency_key r) \<and>
     pred_option nonblank (act_work_pack_id r) \<and>
     pred_option nonblank (act_repository_operation_id r))"

definition dump_action_spec :: "action_spec \<Rightarrow> pyval" where
  "dump_action_spec r = PDict
    [(KStr ''schema_name'', PStr (act_schema_name r)),
     (KStr ''schema_version'', PStr (act_schema_version r)),
     (KStr ''action_id'', PUuid (act_action_id r)),
     (KStr ''run_id'', PUuid (act_run_id r)),
     (KStr ''tenant_id'', PStr (act_tenant_id r)),
     (KStr ''executor'', PStr (act_executor r)),
     (KStr ''operation'', PStr (act_operation r)),
     (KStr ''effect_class'', PEnum (effect_class_value (act_effect_class r))),
     (KStr ''risk_class'', PEnum (risk_class_value (act_risk_class r))),
     (KStr ''target'', dump_action_target (act_target r)),
     (KStr ''arguments'', dump_dict (\<lambda>v. v) (act_arguments r)),
     (KStr ''argument_artifact'', dump_opt dump_artifact_ref (act_argument_artifact r)),
     (KStr ''idempotency_key'', PStr (act_idempotency_key r)),
     (KStr ''proposed_at'', PDatetime (act_proposed_at r)),
     (KStr ''expires_at'', dump_opt PDatetime (act_expires_at r)),
     (KStr ''work_pack_id'', dump_opt PStr (act_work_pack_id r)),
     (KStr ''repository_operation_id'', dump_opt PStr (act_repository_operation_id r)),
     (KStr ''policy_context'', dump_dict (\<lambda>v. v) (act_policy_context r)),
     (KStr ''expected_effect'', dump_dict (\<lambda>v. v) (act_expected_effect r))]"

record execution_result =
  res_action_id :: uuid
  res_execution_attempt_id :: uuid
  res_executor_name :: string
  res_executor_version :: string
  res_executor_identity :: string
  res_started_at :: datetime
  res_completed_at :: datetime
  res_succeeded :: bool
  res_exit_code :: "int option"
  res_provider_operation_id :: "string option"
  res_result :: "(string \<times> pyval) list"
  res_result_artifact :: "artifact_ref option"
  res_retryable :: bool
  res_error_type :: "string option"
  res_error_message :: "string option"

definition execution_result_fields :: "execution_result \<Rightarrow> bool" where
  "execution_result_fields r = (nonblank (res_executor_name r) \<and>
     nonblank (res_executor_version r) \<and>
     nonblank (res_executor_identity r) \<and>
     pred_option nonblank (res_provider_operation_id r) \<and>
     (pred_option artifact_ref_fields) (res_result_artifact r) \<and>
     pred_option nonblank (res_error_type r) \<and>
     pred_option nonblank (res_error_message r))"

definition dump_execution_result :: "execution_result \<Rightarrow> pyval" where
  "dump_execution_result r = PDict
    [(KStr ''action_id'', PUuid (res_action_id r)),
     (KStr ''execution_attempt_id'', PUuid (res_execution_attempt_id r)),
     (KStr ''executor_name'', PStr (res_executor_name r)),
     (KStr ''executor_version'', PStr (res_executor_version r)),
     (KStr ''executor_identity'', PStr (res_executor_identity r)),
     (KStr ''started_at'', PDatetime (res_started_at r)),
     (KStr ''completed_at'', PDatetime (res_completed_at r)),
     (KStr ''succeeded'', PBool (res_succeeded r)),
     (KStr ''exit_code'', dump_opt PInt (res_exit_code r)),
     (KStr ''provider_operation_id'', dump_opt PStr (res_provider_operation_id r)),
     (KStr ''result'', dump_dict (\<lambda>v. v) (res_result r)),
     (KStr ''result_artifact'', dump_opt dump_artifact_ref (res_result_artifact r)),
     (KStr ''retryable'', PBool (res_retryable r)),
     (KStr ''error_type'', dump_opt PStr (res_error_type r)),
     (KStr ''error_message'', dump_opt PStr (res_error_message r))]"

definition validate_action_spec :: "action_spec \<Rightarrow> action_spec result" where
  "validate_action_spec a =
    (case act_expires_at a of
       Some t \<Rightarrow> if t \<le> act_proposed_at a then Inl (ValueError ''expires_at must be later than proposed_at'') else Inr a
     | None \<Rightarrow> Inr a)"

fun dict_without :: "string \<Rightarrow> pyval \<Rightarrow> pyval" where
  "dict_without k (PDict kvs) = PDict (filter (\<lambda>kv. fst kv \<noteq> KStr k) kvs)"
| "dict_without k v = v"

definition digest_material :: "action_spec \<Rightarrow> pyval" where
  "digest_material a = dict_without ''argument_artifact'' (dump_action_spec a)"

definition action_digest :: "sha256_fn \<Rightarrow> action_spec \<Rightarrow> string" where
  "action_digest sha a = sha256_hex sha (digest_material a)"

definition validate_execution_result :: "execution_result \<Rightarrow> execution_result result" where
  "validate_execution_result r =
    (if res_completed_at r < res_started_at r then Inl (ValueError ''completed_at cannot precede started_at'')
     else if res_succeeded r \<and> (truthy (res_error_type r) \<or> truthy (res_error_message r))
       then Inl (ValueError ''successful results cannot carry an error'')
     else if \<not> res_succeeded r \<and> \<not> truthy (res_error_type r)
       then Inl (ValueError ''failed results require error_type'')
     else Inr r)"
section \<open>policy.py\<close>

datatype policy_outcome =
    Policy_ALLOW
  | Policy_DENY
  | Policy_REQUIRE_APPROVAL

fun policy_outcome_value :: "policy_outcome \<Rightarrow> string" where
  "policy_outcome_value Policy_ALLOW = ''allow''"
| "policy_outcome_value Policy_DENY = ''deny''"
| "policy_outcome_value Policy_REQUIRE_APPROVAL = ''require_approval''"

record policy_decision =
  pol_schema_name :: string
  pol_schema_version :: string
  pol_decision_id :: uuid
  pol_action_id :: uuid
  pol_action_digest :: string
  pol_tenant_id :: string
  pol_policy_engine :: string
  pol_policy_bundle :: string
  pol_policy_revision :: string
  pol_evaluated_at :: datetime
  pol_outcome :: policy_outcome
  pol_reason_codes :: "string list"
  pol_constraints :: "(string \<times> pyval) list"
  pol_required_approval_roles :: "string list"
  pol_expires_at :: "datetime option"
  pol_raw_decision_artifact_sha256 :: "string option"

definition policy_decision_fields :: "policy_decision \<Rightarrow> bool" where
  "policy_decision_fields r = (is_sha256 (pol_action_digest r) \<and>
     nonblank (pol_tenant_id r) \<and>
     nonblank (pol_policy_engine r) \<and>
     nonblank (pol_policy_bundle r) \<and>
     nonblank (pol_policy_revision r) \<and>
     (list_all nonblank) (pol_reason_codes r) \<and>
     (list_all nonblank) (pol_required_approval_roles r) \<and>
     pred_option is_sha256 (pol_raw_decision_artifact_sha256 r))"

definition dump_policy_decision :: "policy_decision \<Rightarrow> pyval" where
  "dump_policy_decision r = PDict
    [(KStr ''schema_name'', PStr (pol_schema_name r)),
     (KStr ''schema_version'', PStr (pol_schema_version r)),
     (KStr ''decision_id'', PUuid (pol_decision_id r)),
     (KStr ''action_id'', PUuid (pol_action_id r)),
     (KStr ''action_digest'', PStr (pol_action_digest r)),
     (KStr ''tenant_id'', PStr (pol_tenant_id r)),
     (KStr ''policy_engine'', PStr (pol_policy_engine r)),
     (KStr ''policy_bundle'', PStr (pol_policy_bundle r)),
     (KStr ''policy_revision'', PStr (pol_policy_revision r)),
     (KStr ''evaluated_at'', PDatetime (pol_evaluated_at r)),
     (KStr ''outcome'', PEnum (policy_outcome_value (pol_outcome r))),
     (KStr ''reason_codes'', PTuple (map PStr (pol_reason_codes r))),
     (KStr ''constraints'', dump_dict (\<lambda>v. v) (pol_constraints r)),
     (KStr ''required_approval_roles'', PTuple (map PStr (pol_required_approval_roles r))),
     (KStr ''expires_at'', dump_opt PDatetime (pol_expires_at r)),
     (KStr ''raw_decision_artifact_sha256'', dump_opt PStr (pol_raw_decision_artifact_sha256 r))]"

section \<open>approvals.py\<close>

datatype approval_outcome =
    Approval_APPROVED
  | Approval_DENIED
  | Approval_REVOKED
  | Approval_EXPIRED

fun approval_outcome_value :: "approval_outcome \<Rightarrow> string" where
  "approval_outcome_value Approval_APPROVED = ''approved''"
| "approval_outcome_value Approval_DENIED = ''denied''"
| "approval_outcome_value Approval_REVOKED = ''revoked''"
| "approval_outcome_value Approval_EXPIRED = ''expired''"

record approval_decision =
  appr_schema_name :: string
  appr_schema_version :: string
  appr_approval_id :: uuid
  appr_action_id :: uuid
  appr_action_digest :: string
  appr_target_digest :: string
  appr_tenant_id :: string
  appr_environment :: string
  appr_policy_decision_id :: uuid
  appr_policy_revision :: string
  appr_approver :: actor_ref
  appr_approver_role :: string
  appr_decided_at :: datetime
  appr_outcome :: approval_outcome
  appr_expires_at :: datetime
  appr_reason :: string

definition approval_decision_fields :: "approval_decision \<Rightarrow> bool" where
  "approval_decision_fields r = (is_sha256 (appr_action_digest r) \<and>
     is_sha256 (appr_target_digest r) \<and>
     nonblank (appr_tenant_id r) \<and>
     nonblank (appr_environment r) \<and>
     nonblank (appr_policy_revision r) \<and>
     actor_ref_fields (appr_approver r) \<and>
     nonblank (appr_approver_role r) \<and>
     nonblank (appr_reason r))"

definition dump_approval_decision :: "approval_decision \<Rightarrow> pyval" where
  "dump_approval_decision r = PDict
    [(KStr ''schema_name'', PStr (appr_schema_name r)),
     (KStr ''schema_version'', PStr (appr_schema_version r)),
     (KStr ''approval_id'', PUuid (appr_approval_id r)),
     (KStr ''action_id'', PUuid (appr_action_id r)),
     (KStr ''action_digest'', PStr (appr_action_digest r)),
     (KStr ''target_digest'', PStr (appr_target_digest r)),
     (KStr ''tenant_id'', PStr (appr_tenant_id r)),
     (KStr ''environment'', PStr (appr_environment r)),
     (KStr ''policy_decision_id'', PUuid (appr_policy_decision_id r)),
     (KStr ''policy_revision'', PStr (appr_policy_revision r)),
     (KStr ''approver'', dump_actor_ref (appr_approver r)),
     (KStr ''approver_role'', PStr (appr_approver_role r)),
     (KStr ''decided_at'', PDatetime (appr_decided_at r)),
     (KStr ''outcome'', PEnum (approval_outcome_value (appr_outcome r))),
     (KStr ''expires_at'', PDatetime (appr_expires_at r)),
     (KStr ''reason'', PStr (appr_reason r))]"

definition validate_approval_decision :: "approval_decision \<Rightarrow> approval_decision result" where
  "validate_approval_decision d =
    (if appr_expires_at d \<le> appr_decided_at d
     then Inl (ValueError ''approval expiry must be later than decision time'')
     else Inr d)"

definition authorizes ::
  "approval_decision \<Rightarrow> string \<Rightarrow> string \<Rightarrow> uuid \<Rightarrow> string \<Rightarrow> string \<Rightarrow> string \<Rightarrow> datetime \<Rightarrow> bool" where
  "authorizes d action_dig target_dig policy_decision_id policy_revision tenant environment at =
    (appr_outcome d = Approval_APPROVED
     \<and> appr_action_digest d = action_dig
     \<and> appr_target_digest d = target_dig
     \<and> appr_policy_decision_id d = policy_decision_id
     \<and> appr_policy_revision d = policy_revision
     \<and> appr_tenant_id d = tenant
     \<and> appr_environment d = environment
     \<and> at < appr_expires_at d)"
section \<open>execution.py\<close>

datatype execution_attempt_state =
    Attempt_CLAIMED
  | Attempt_STARTED
  | Attempt_SUCCEEDED
  | Attempt_FAILED
  | Attempt_UNCERTAIN

fun execution_attempt_state_value :: "execution_attempt_state \<Rightarrow> string" where
  "execution_attempt_state_value Attempt_CLAIMED = ''claimed''"
| "execution_attempt_state_value Attempt_STARTED = ''started''"
| "execution_attempt_state_value Attempt_SUCCEEDED = ''succeeded''"
| "execution_attempt_state_value Attempt_FAILED = ''failed''"
| "execution_attempt_state_value Attempt_UNCERTAIN = ''uncertain''"

record execution_attempt_record =
  att_schema_name :: string
  att_schema_version :: string
  att_attempt_id :: uuid
  att_action_id :: uuid
  att_run_id :: uuid
  att_tenant_id :: string
  att_idempotency_key :: string
  att_action_digest :: string
  att_executor_name :: string
  att_executor_version :: string
  att_executor_identity :: string
  att_state :: execution_attempt_state
  att_claimed_at :: datetime
  att_started_at :: "datetime option"
  att_finished_at :: "datetime option"
  att_result_digest :: "string option"
  att_provider_operation_id :: "string option"
  att_error_type :: "string option"
  att_error_message :: "string option"
  att_uncertainty_reason :: "string option"

definition execution_attempt_record_fields :: "execution_attempt_record \<Rightarrow> bool" where
  "execution_attempt_record_fields r = (nonblank (att_tenant_id r) \<and>
     nonblank (att_idempotency_key r) \<and>
     is_sha256 (att_action_digest r) \<and>
     nonblank (att_executor_name r) \<and>
     nonblank (att_executor_version r) \<and>
     nonblank (att_executor_identity r) \<and>
     pred_option is_sha256 (att_result_digest r) \<and>
     pred_option nonblank (att_provider_operation_id r) \<and>
     pred_option nonblank (att_error_type r))"

record credential_lease =
  lease_schema_name :: string
  lease_schema_version :: string
  lease_lease_id :: uuid
  lease_tenant_id :: string
  lease_action_id :: uuid
  lease_executor_identity :: string
  lease_audience :: string
  lease_scopes :: "string list"
  lease_credential_reference :: string
  lease_issued_at :: datetime
  lease_expires_at :: datetime

definition credential_lease_fields :: "credential_lease \<Rightarrow> bool" where
  "credential_lease_fields r = (nonblank (lease_tenant_id r) \<and>
     nonblank (lease_executor_identity r) \<and>
     nonblank (lease_audience r) \<and>
     (list_all nonblank) (lease_scopes r) \<and>
     nonblank (lease_credential_reference r))"

definition validate_execution_attempt :: "execution_attempt_record \<Rightarrow> execution_attempt_record result" where
  "validate_execution_attempt r =
    (let before_claim = (case att_started_at r of None \<Rightarrow> False | Some t \<Rightarrow> t < att_claimed_at r);
         floor_at = (case att_started_at r of None \<Rightarrow> att_claimed_at r | Some t \<Rightarrow> t);
         before_floor = (case att_finished_at r of None \<Rightarrow> False | Some t \<Rightarrow> t < floor_at)
     in if before_claim then Inl (ValueError ''started_at cannot precede claimed_at'')
        else if before_floor then Inl (ValueError ''finished_at cannot precede the attempt start'')
        else if att_state r = Attempt_CLAIMED \<and> (att_started_at r \<noteq> None \<or> att_finished_at r \<noteq> None)
          then Inl (ValueError ''claimed attempts cannot have execution timestamps'')
        else if att_state r = Attempt_STARTED \<and> (att_started_at r = None \<or> att_finished_at r \<noteq> None)
          then Inl (ValueError ''started attempts require started_at and no finished_at'')
        else if att_state r \<notin> {Attempt_CLAIMED, Attempt_STARTED} \<and> (att_started_at r = None \<or> att_finished_at r = None)
          then Inl (ValueError ''terminal attempts require started_at and finished_at'')
        else if att_state r = Attempt_SUCCEEDED \<and> att_result_digest r = None
          then Inl (ValueError ''successful attempts require result_digest'')
        else if att_state r = Attempt_UNCERTAIN \<and> \<not> truthy (att_uncertainty_reason r)
          then Inl (ValueError ''uncertain attempts require uncertainty_reason'')
        else Inr r)"

definition validate_credential_lease :: "credential_lease \<Rightarrow> credential_lease result" where
  "validate_credential_lease l =
    (if lease_expires_at l \<le> lease_issued_at l
     then Inl (ValueError ''credential lease must expire after issuance'')
     else Inr l)"
section \<open>runs.py\<close>

datatype run_status =
    Run_PENDING
  | Run_RUNNING
  | Run_WAITING_FOR_APPROVAL
  | Run_SUCCEEDED
  | Run_FAILED
  | Run_CANCELLED
  | Run_INCOMPLETE

fun run_status_value :: "run_status \<Rightarrow> string" where
  "run_status_value Run_PENDING = ''pending''"
| "run_status_value Run_RUNNING = ''running''"
| "run_status_value Run_WAITING_FOR_APPROVAL = ''waiting_for_approval''"
| "run_status_value Run_SUCCEEDED = ''succeeded''"
| "run_status_value Run_FAILED = ''failed''"
| "run_status_value Run_CANCELLED = ''cancelled''"
| "run_status_value Run_INCOMPLETE = ''incomplete''"

record run_record =
  run_schema_name :: string
  run_schema_version :: string
  run_run_id :: uuid
  run_tenant_id :: string
  run_status :: run_status
  run_initiated_by :: actor_ref
  run_environment :: string
  run_purpose :: string
  run_trace_id :: string
  run_started_at :: datetime
  run_completed_at :: "datetime option"
  run_source_intent_digest :: "string option"
  run_specification_revision :: "lineage_node_ref option"
  run_lineage_graph_digest :: "string option"
  run_workflow_id :: "string option"
  run_metadata :: "(string \<times> pyval) list"

definition run_record_fields :: "run_record \<Rightarrow> bool" where
  "run_record_fields r = (nonblank (run_tenant_id r) \<and>
     actor_ref_fields (run_initiated_by r) \<and>
     nonblank (run_environment r) \<and>
     nonblank (run_purpose r) \<and>
     nonblank (run_trace_id r) \<and>
     pred_option is_sha256 (run_source_intent_digest r) \<and>
     (pred_option lineage_node_ref_fields) (run_specification_revision r) \<and>
     pred_option is_sha256 (run_lineage_graph_digest r) \<and>
     pred_option nonblank (run_workflow_id r))"

definition dump_run_record :: "run_record \<Rightarrow> pyval" where
  "dump_run_record r = PDict
    [(KStr ''schema_name'', PStr (run_schema_name r)),
     (KStr ''schema_version'', PStr (run_schema_version r)),
     (KStr ''run_id'', PUuid (run_run_id r)),
     (KStr ''tenant_id'', PStr (run_tenant_id r)),
     (KStr ''status'', PEnum (run_status_value (run_status r))),
     (KStr ''initiated_by'', dump_actor_ref (run_initiated_by r)),
     (KStr ''environment'', PStr (run_environment r)),
     (KStr ''purpose'', PStr (run_purpose r)),
     (KStr ''trace_id'', PStr (run_trace_id r)),
     (KStr ''started_at'', PDatetime (run_started_at r)),
     (KStr ''completed_at'', dump_opt PDatetime (run_completed_at r)),
     (KStr ''source_intent_digest'', dump_opt PStr (run_source_intent_digest r)),
     (KStr ''specification_revision'', dump_opt dump_lineage_node_ref (run_specification_revision r)),
     (KStr ''lineage_graph_digest'', dump_opt PStr (run_lineage_graph_digest r)),
     (KStr ''workflow_id'', dump_opt PStr (run_workflow_id r)),
     (KStr ''metadata'', dump_dict (\<lambda>v. v) (run_metadata r))]"

section \<open>verification.py\<close>

datatype verification_outcome =
    Verification_PASSED
  | Verification_FAILED
  | Verification_INCONCLUSIVE

fun verification_outcome_value :: "verification_outcome \<Rightarrow> string" where
  "verification_outcome_value Verification_PASSED = ''passed''"
| "verification_outcome_value Verification_FAILED = ''failed''"
| "verification_outcome_value Verification_INCONCLUSIVE = ''inconclusive''"

datatype reconciliation_outcome =
    Recon_MATCHED
  | Recon_MISSING_EXTERNAL_EVIDENCE
  | Recon_UNEXPECTED_EXTERNAL_ACTION
  | Recon_STATE_MISMATCH
  | Recon_CONFLICTING_EVIDENCE
  | Recon_UNVERIFIABLE

fun reconciliation_outcome_value :: "reconciliation_outcome \<Rightarrow> string" where
  "reconciliation_outcome_value Recon_MATCHED = ''matched''"
| "reconciliation_outcome_value Recon_MISSING_EXTERNAL_EVIDENCE = ''missing_external_evidence''"
| "reconciliation_outcome_value Recon_UNEXPECTED_EXTERNAL_ACTION = ''unexpected_external_action''"
| "reconciliation_outcome_value Recon_STATE_MISMATCH = ''state_mismatch''"
| "reconciliation_outcome_value Recon_CONFLICTING_EVIDENCE = ''conflicting_evidence''"
| "reconciliation_outcome_value Recon_UNVERIFIABLE = ''unverifiable''"

record state_observation =
  obs_observation_id :: uuid
  obs_action_id :: uuid
  obs_source :: string
  obs_observed_at :: datetime
  obs_state_digest :: string
  obs_state :: "(string \<times> pyval) list"
  obs_evidence :: "artifact_ref list"

definition state_observation_fields :: "state_observation \<Rightarrow> bool" where
  "state_observation_fields r = (nonblank (obs_source r) \<and>
     is_sha256 (obs_state_digest r) \<and>
     (list_all artifact_ref_fields) (obs_evidence r))"

definition dump_state_observation :: "state_observation \<Rightarrow> pyval" where
  "dump_state_observation r = PDict
    [(KStr ''observation_id'', PUuid (obs_observation_id r)),
     (KStr ''action_id'', PUuid (obs_action_id r)),
     (KStr ''source'', PStr (obs_source r)),
     (KStr ''observed_at'', PDatetime (obs_observed_at r)),
     (KStr ''state_digest'', PStr (obs_state_digest r)),
     (KStr ''state'', dump_dict (\<lambda>v. v) (obs_state r)),
     (KStr ''evidence'', PTuple (map dump_artifact_ref (obs_evidence r)))]"

record verification_result =
  ver_verification_id :: uuid
  ver_action_id :: uuid
  ver_verifier :: string
  ver_verifier_version :: string
  ver_verified_at :: datetime
  ver_outcome :: verification_outcome
  ver_expected_digest :: "string option"
  ver_observed_digest :: "string option"
  ver_checks :: "string list"
  ver_details :: "(string \<times> pyval) list"
  ver_evidence :: "artifact_ref list"

definition verification_result_fields :: "verification_result \<Rightarrow> bool" where
  "verification_result_fields r = (nonblank (ver_verifier r) \<and>
     nonblank (ver_verifier_version r) \<and>
     pred_option is_sha256 (ver_expected_digest r) \<and>
     pred_option is_sha256 (ver_observed_digest r) \<and>
     (list_all nonblank) (ver_checks r) \<and>
     (list_all artifact_ref_fields) (ver_evidence r))"

definition dump_verification_result :: "verification_result \<Rightarrow> pyval" where
  "dump_verification_result r = PDict
    [(KStr ''verification_id'', PUuid (ver_verification_id r)),
     (KStr ''action_id'', PUuid (ver_action_id r)),
     (KStr ''verifier'', PStr (ver_verifier r)),
     (KStr ''verifier_version'', PStr (ver_verifier_version r)),
     (KStr ''verified_at'', PDatetime (ver_verified_at r)),
     (KStr ''outcome'', PEnum (verification_outcome_value (ver_outcome r))),
     (KStr ''expected_digest'', dump_opt PStr (ver_expected_digest r)),
     (KStr ''observed_digest'', dump_opt PStr (ver_observed_digest r)),
     (KStr ''checks'', PTuple (map PStr (ver_checks r))),
     (KStr ''details'', dump_dict (\<lambda>v. v) (ver_details r)),
     (KStr ''evidence'', PTuple (map dump_artifact_ref (ver_evidence r)))]"

record reconciliation_finding =
  find_finding_id :: uuid
  find_run_id :: uuid
  find_action_id :: "uuid option"
  find_reconciler :: string
  find_source_system :: string
  find_observed_at :: datetime
  find_outcome :: reconciliation_outcome
  find_severity :: string
  find_summary :: string
  find_external_reference :: "string option"
  find_details :: "(string \<times> pyval) list"
  find_evidence :: "artifact_ref list"

definition reconciliation_finding_fields :: "reconciliation_finding \<Rightarrow> bool" where
  "reconciliation_finding_fields r = (nonblank (find_reconciler r) \<and>
     nonblank (find_source_system r) \<and>
     nonblank (find_severity r) \<and>
     nonblank (find_summary r) \<and>
     pred_option nonblank (find_external_reference r) \<and>
     (list_all artifact_ref_fields) (find_evidence r))"

section \<open>transfers.py\<close>

record evidence_transfer_verification =
  tv_schema_name :: string
  tv_schema_version :: string
  tv_verification_id :: uuid
  tv_transfer_id :: uuid
  tv_tenant_id :: string
  tv_verified_at :: datetime
  tv_source_control_version :: string
  tv_source_schema_version :: int
  tv_package_sha256 :: string
  tv_bundle_manifest_sha256 :: string
  tv_trust_anchor_sha256 :: string
  tv_verified_offline :: bool

definition evidence_transfer_verification_fields :: "evidence_transfer_verification \<Rightarrow> bool" where
  "evidence_transfer_verification_fields r = (nonblank (tv_tenant_id r) \<and>
     nonblank (tv_source_control_version r) \<and>
     1 \<le> tv_source_schema_version r \<and>
     is_sha256 (tv_package_sha256 r) \<and>
     is_sha256 (tv_bundle_manifest_sha256 r) \<and>
     is_sha256 (tv_trust_anchor_sha256 r))"

definition validate_transfer_verification ::
  "evidence_transfer_verification \<Rightarrow> evidence_transfer_verification result" where
  "validate_transfer_verification v =
    (if \<not> tv_verified_offline v
     then Inl (ValueError ''evidence transfer verification must be offline verified'')
     else Inr v)"

section \<open>Facts shared by the components\<close>

lemma dict_without_items:
  "digest_material a = digest_material (a\<lparr>act_argument_artifact := x\<rparr>)"
  by (simp add: digest_material_def dump_action_spec_def)

lemma authorizes_iff [model_simps]:
  "authorizes d a t i v n e at \<longleftrightarrow>
    appr_outcome d = Approval_APPROVED \<and> appr_action_digest d = a \<and> appr_target_digest d = t \<and>
    appr_policy_decision_id d = i \<and> appr_policy_revision d = v \<and> appr_tenant_id d = n \<and>
    appr_environment d = e \<and> at < appr_expires_at d"
  by (simp add: authorizes_def)

text \<open>
  What \<open>validate_lifecycle\<close> guarantees of an attempt: the timestamps that its state calls for are
  there, in order, and terminal states carry their evidence.
\<close>

lemma validate_execution_attempt_ok:
  "validate_execution_attempt r = Inr r \<longleftrightarrow>
    (case att_state r of
       Attempt_CLAIMED \<Rightarrow> att_started_at r = None \<and> att_finished_at r = None
     | Attempt_STARTED \<Rightarrow> (\<exists>s. att_started_at r = Some s \<and> att_claimed_at r \<le> s) \<and> att_finished_at r = None
     | _ \<Rightarrow> (\<exists>s f. att_started_at r = Some s \<and> att_finished_at r = Some f \<and> att_claimed_at r \<le> s \<and> s \<le> f)
         \<and> (att_state r = Attempt_SUCCEEDED \<longrightarrow> att_result_digest r \<noteq> None)
         \<and> (att_state r = Attempt_UNCERTAIN \<longrightarrow> truthy (att_uncertainty_reason r)))"
  by (cases "att_state r"; cases "att_started_at r"; cases "att_finished_at r")
     (auto simp: validate_execution_attempt_def Let_def)
end
