(* ===== verification/Sample_Data.thy ===== *)
theory Sample_Data
  imports Contracts
begin

text \<open>
  Concrete contract values on which the witnesses of the development evaluate the operations: an
  agent of the tenant \<open>acme\<close> that proposes a write to a production database. They model no code.
\<close>

definition sample_actor :: actor_ref where
  "sample_actor = \<lparr>actor_kind = ActorKind_AGENT, actor_id = ''agent-7'', actor_display_name = None,
     actor_tenant_id = ''acme'', actor_workload_identity = None, actor_attributes = []\<rparr>"

definition sample_draft :: control_event_draft where
  "sample_draft = \<lparr>ev_schema_name = ''control-event'', ev_schema_version = ''1'', ev_event_id = ''e1'',
     ev_run_id = ''r1'', ev_tenant_id = ''acme'', ev_event_type = Event_ACTION_PROPOSED,
     ev_occurred_at = 1000, ev_recorded_at = 1000, ev_actor = sample_actor, ev_trace_id = ''0a'',
     ev_span_id = ''0b'', ev_parent_event_id = None, ev_causation_event_id = None,
     ev_correlation_id = None, ev_action_id = Some ''a1'', ev_lineage = [],
     ev_payload = [(''n'', PInt 1)], ev_evidence = []\<rparr>"

definition sample_target :: action_target where
  "sample_target = \<lparr>target_system = ''db'', target_environment = ''production'',
     target_resource_type = ''table'', target_resource_id = ''orders'', target_region = None,
     target_expected_pre_state_digest = None\<rparr>"

definition sample_action :: action_spec where
  "sample_action = \<lparr>act_schema_name = ''action'', act_schema_version = ''1'', act_action_id = ''a1'',
     act_run_id = ''r1'', act_tenant_id = ''acme'', act_executor = ''dry-run'', act_operation = ''update'',
     act_effect_class = Effect_WRITE, act_risk_class = Risk_MEDIUM, act_target = sample_target,
     act_arguments = [(''rows'', PInt 2)], act_argument_artifact = None, act_idempotency_key = ''k1'',
     act_proposed_at = 900, act_expires_at = None, act_work_pack_id = None,
     act_repository_operation_id = None, act_policy_context = [], act_expected_effect = []\<rparr>"

definition sample_result :: execution_result where
  "sample_result = \<lparr>res_action_id = ''a1'', res_execution_attempt_id = ''t1'', res_executor_name = ''dry-run'',
     res_executor_version = ''1.0.0'', res_executor_identity = ''spiffe://dry'', res_started_at = 1000,
     res_completed_at = 1001, res_succeeded = True, res_exit_code = Some 0, res_provider_operation_id = None,
     res_result = [], res_result_artifact = None, res_retryable = False, res_error_type = None,
     res_error_message = None\<rparr>"

definition sample_policy :: "sha256_fn \<Rightarrow> policy_outcome \<Rightarrow> policy_decision" where
  "sample_policy sha outcome = \<lparr>pol_schema_name = ''policy'', pol_schema_version = ''1'', pol_decision_id = ''p1'',
     pol_action_id = ''a1'', pol_action_digest = action_digest sha sample_action, pol_tenant_id = ''acme'',
     pol_policy_engine = ''prodkit-default'', pol_policy_bundle = ''builtin'', pol_policy_revision = ''v1'',
     pol_evaluated_at = 1000, pol_outcome = outcome, pol_reason_codes = [''r''], pol_constraints = [],
     pol_required_approval_roles = [''production_approver''], pol_expires_at = Some 2000,
     pol_raw_decision_artifact_sha256 = None\<rparr>"

definition sample_approval :: "sha256_fn \<Rightarrow> approval_decision" where
  "sample_approval sha = \<lparr>appr_schema_name = ''approval'', appr_schema_version = ''1'', appr_approval_id = ''ap1'',
     appr_action_id = ''a1'', appr_action_digest = action_digest sha sample_action,
     appr_target_digest = sha256_hex sha (dump_action_target sample_target), appr_tenant_id = ''acme'',
     appr_environment = ''production'', appr_policy_decision_id = ''p1'', appr_policy_revision = ''v1'',
     appr_approver = sample_actor, appr_approver_role = ''production_approver'', appr_decided_at = 950,
     appr_outcome = Approval_APPROVED, appr_expires_at = 1500, appr_reason = ''ok''\<rparr>"

definition sample_attempt :: execution_attempt_record where
  "sample_attempt = \<lparr>att_schema_name = ''attempt'', att_schema_version = ''1'', att_attempt_id = ''t1'',
     att_action_id = ''a1'', att_run_id = ''r1'', att_tenant_id = ''acme'', att_idempotency_key = ''k1'',
     att_action_digest = ''d1'', att_executor_name = ''dry-run'', att_executor_version = ''1.0.0'',
     att_executor_identity = ''spiffe://dry'', att_state = Attempt_CLAIMED, att_claimed_at = 1000,
     att_started_at = None, att_finished_at = None, att_result_digest = None,
     att_provider_operation_id = None, att_error_type = None, att_error_message = None,
     att_uncertainty_reason = None\<rparr>"

text \<open>A hash function with digests of the right shape.\<close>

definition zero_hash :: sha256_fn where
  "zero_hash x = replicate 64 (CHR ''0'')"

lemma hex_pattern_replicate: "is_hex c \<Longrightarrow> hex_pattern n (replicate n c)"
  by (induction n) (simp_all add: hex_pattern_def)

lemma zero_hash_sha256 [simp]: "is_sha256 (zero_hash x)"
  unfolding is_sha256_def zero_hash_def by (rule hex_pattern_replicate) (simp add: is_hex_def)

lemmas sample_defs = sample_actor_def sample_draft_def sample_target_def sample_action_def
  sample_result_def sample_policy_def sample_approval_def sample_attempt_def

end
