(* ===== verification/Event_Ledger.thy ===== *)
theory Event_Ledger
  imports Sample_Data "HOL-Library.Sublist"
begin

text \<open>
  The hash-chained event ledger: \<open>InMemoryEventLedger\<close> of \<open>prodkit_control_runtime/memory.py\<close> and
  the interface its clients (broker, coordinator) rely on, as the locale \<open>event_ledger\<close>. The
  interpretation shows that the in-memory ledger keeps its chains verifiable, append-only and
  inside one tenant per run; the tamper-evidence lemma compares any two chains that verify.
  The per-run \<open>asyncio.Lock\<close> makes \<open>append\<close> atomic, so an append is one step.
\<close>

section \<open>State and operations\<close>

record event_ledger_state =
  led_events :: "((string \<times> uuid) \<times> control_event list) list"

definition empty_ledger :: event_ledger_state where
  "empty_ledger = \<lparr>led_events = []\<rparr>"

definition list_run_events :: "string \<Rightarrow> uuid \<Rightarrow> event_ledger_state \<Rightarrow> control_event list" where
  "list_run_events tenant run L =
    (case map_of (led_events L) (tenant, run) of None \<Rightarrow> [] | Some evs \<Rightarrow> evs)"

definition event_envelope :: "pyval \<Rightarrow> string option \<Rightarrow> pyval" where
  "event_envelope material previous =
    PDict [(KStr ''event'', material), (KStr ''previous_event_hash'', dump_opt PStr previous)]"

definition last_event_hash :: "control_event list \<Rightarrow> string option" where
  "last_event_hash evs = (if evs = [] then None else Some (integ_event_hash (ev_integrity (last evs))))"

definition make_event :: "sha256_fn \<Rightarrow> control_event_draft \<Rightarrow> control_event list \<Rightarrow> control_event" where
  "make_event sha d run_events =
    (let sequence = int (length run_events) + 1;
         previous = last_event_hash run_events;
         material = PDict (draft_items d @ [(KStr ''sequence'', PInt sequence)]);
         event_hash = sha256_hex sha (event_envelope material previous)
     in control_event_draft.extend d
          (control_event.fields sequence
            \<lparr>integ_algorithm = ''sha256'', integ_canonicalization = ''prodkit-json-v1'',
             integ_previous_event_hash = previous, integ_event_hash = event_hash,
             integ_signature = None, integ_signing_key_id = None\<rparr>))"

definition ledger_append ::
  "sha256_fn \<Rightarrow> control_event_draft \<Rightarrow> (event_ledger_state, control_event) prog" where
  "ledger_append sha d L =
    (let identity = (ev_tenant_id d, ev_run_id d)
     in if list_ex (\<lambda>((tenant, run), evs). run = ev_run_id d \<and> tenant \<noteq> ev_tenant_id d \<and> evs \<noteq> [])
             (led_events L)
        then (Inl (IntegrityViolationError ''a control run cannot cross tenant ledgers''), L)
        else let run_events = list_run_events (ev_tenant_id d) (ev_run_id d) L;
                 event = make_event sha d run_events
             in (Inr event, L\<lparr>led_events := AList.update identity (run_events @ [event]) (led_events L)\<rparr>))"

fun verify_events ::
  "sha256_fn \<Rightarrow> string \<Rightarrow> uuid \<Rightarrow> string option \<Rightarrow> int \<Rightarrow> control_event list \<Rightarrow> unit result" where
  "verify_events sha tenant run previous expected_sequence [] = Inr ()"
| "verify_events sha tenant run previous expected_sequence (e # es) =
    (if ev_sequence e \<noteq> expected_sequence then
       Inl (IntegrityViolationError (''run '' @ run @ '' expected sequence '' @ int_str expected_sequence @
              '', got '' @ int_str (ev_sequence e)))
     else if ev_tenant_id e \<noteq> tenant then
       Inl (IntegrityViolationError ''tenant-scoped ledger returned a foreign-tenant event'')
     else if integ_previous_event_hash (ev_integrity e) \<noteq> previous then
       Inl (IntegrityViolationError (''run '' @ run @ '' sequence '' @ int_str (ev_sequence e) @
              '' has invalid previous hash''))
     else if integ_event_hash (ev_integrity e) \<noteq> sha256_hex sha (event_envelope (hash_material e) previous) then
       Inl (IntegrityViolationError (''run '' @ run @ '' sequence '' @ int_str (ev_sequence e) @
              '' has invalid event hash''))
     else verify_events sha tenant run (Some (integ_event_hash (ev_integrity e))) (expected_sequence + 1) es)"

definition verify_run :: "sha256_fn \<Rightarrow> string \<Rightarrow> uuid \<Rightarrow> event_ledger_state \<Rightarrow> unit result" where
  "verify_run sha tenant run L = verify_events sha tenant run None 1 (list_run_events tenant run L)"

text \<open>The testing hook that overwrites a chain.\<close>

definition replace_for_test ::
  "string \<Rightarrow> uuid \<Rightarrow> control_event list \<Rightarrow> event_ledger_state \<Rightarrow> event_ledger_state" where
  "replace_for_test tenant run evs L = L\<lparr>led_events := AList.update (tenant, run) evs (led_events L)\<rparr>"

section \<open>Chains\<close>

text \<open>One link of a chain, and verification as a property of all its links.\<close>

definition link_ok ::
  "sha256_fn \<Rightarrow> string \<Rightarrow> string option \<Rightarrow> int \<Rightarrow> control_event \<Rightarrow> bool" where
  "link_ok sha tenant previous n e \<longleftrightarrow>
    ev_sequence e = n \<and> ev_tenant_id e = tenant \<and>
    integ_previous_event_hash (ev_integrity e) = previous \<and>
    integ_event_hash (ev_integrity e) = sha256_hex sha (event_envelope (hash_material e) previous)"

lemma verify_events_Cons [simp]:
  "verify_events sha t r p n (e # es) = Inr () \<longleftrightarrow>
    link_ok sha t p n e \<and> verify_events sha t r (Some (integ_event_hash (ev_integrity e))) (n + 1) es = Inr ()"
  by (auto simp: link_ok_def)

declare verify_events.simps(2) [simp del]

lemma verify_events_snoc:
  "verify_events sha t r p n (es @ [e]) = Inr () \<longleftrightarrow>
    verify_events sha t r p n es = Inr () \<and>
    link_ok sha t (if es = [] then p else last_event_hash es) (n + int (length es)) e"
  by (induction es arbitrary: p n) (auto simp: last_event_hash_def add.assoc)

lemma verify_events_error:
  "verify_events sha t r p n es = Inl x \<Longrightarrow> \<exists>m. x = IntegrityViolationError m"
  by (induction es arbitrary: p n) (auto simp: verify_events.simps(2) split: if_splits)

lemma make_event_simps [simp]:
  "ev_sequence (make_event sha d evs) = int (length evs) + 1"
  "ev_tenant_id (make_event sha d evs) = ev_tenant_id d"
  "ev_run_id (make_event sha d evs) = ev_run_id d"
  "ev_event_type (make_event sha d evs) = ev_event_type d"
  "ev_action_id (make_event sha d evs) = ev_action_id d"
  "ev_payload (make_event sha d evs) = ev_payload d"
  "ev_actor (make_event sha d evs) = ev_actor d"
  "control_event_draft.truncate (make_event sha d evs) = d"
  by (simp_all add: make_event_def Let_def control_event_draft.defs control_event.defs)

lemma hash_material_make_event [simp]:
  "hash_material (make_event sha d evs) = PDict (draft_items d @ [(KStr ''sequence'', PInt (int (length evs) + 1))])"
  by (simp add: hash_material_def draft_items_def make_event_def Let_def control_event_draft.defs control_event.defs)

lemma integrity_make_event:
  "integ_previous_event_hash (ev_integrity (make_event sha d evs)) = last_event_hash evs"
  "integ_event_hash (ev_integrity (make_event sha d evs))
    = sha256_hex sha (event_envelope (hash_material (make_event sha d evs)) (last_event_hash evs))"
  unfolding hash_material_make_event
  by (simp_all add: make_event_def Let_def control_event_draft.defs control_event.defs)

lemma verify_make_event:
  assumes "verify_events sha t r None 1 evs = Inr ()" "ev_tenant_id d = t"
  shows "verify_events sha t r None 1 (evs @ [make_event sha d evs]) = Inr ()"
  using assms
  by (simp add: verify_events_snoc link_ok_def integrity_make_event last_event_hash_def del: hash_material_make_event)

subsection \<open>Tamper evidence\<close>

lemma event_envelope_inject:
  assumes "canonical_json_bytes (event_envelope m p) = canonical_json_bytes (event_envelope m' p')"
    and "py_wf m" "py_wf m'"
  shows "canonical_json_bytes m = canonical_json_bytes m' \<and> p = p'"
proof -
  have wf: "py_wf (event_envelope x q)" if "py_wf x" for x q
    using that by (cases q) (simp_all add: event_envelope_def)
  with assms have eq: "jsort (normalize_value (event_envelope m p)) = jsort (normalize_value (event_envelope m' p'))"
    by (simp add: canonical_json_bytes_eq_iff)
  have "dict_of [(''event'', x), (''previous_event_hash'', y)] = [(''event'', x), (''previous_event_hash'', y)]" for x y :: json
    by (simp add: dict_of_def)
  with eq have "jsort (normalize_value m) = jsort (normalize_value m')"
    and p: "jsort (normalize_value (dump_opt PStr p)) = jsort (normalize_value (dump_opt PStr p'))"
    by (simp_all add: event_envelope_def split: if_splits)
  with assms(2,3) have "canonical_json_bytes m = canonical_json_bytes m'"
    by (simp add: canonical_json_bytes_eq_iff)
  moreover from p have "p = p'" by (cases p; cases p') simp_all
  ultimately show ?thesis ..
qed

definition event_content :: "control_event \<Rightarrow> string" where
  "event_content e = canonical_json_bytes (hash_material e)"

definition hashed_bytes :: "control_event \<Rightarrow> string" where
  "hashed_bytes e = canonical_json_bytes
     (event_envelope (hash_material e) (integ_previous_event_hash (ev_integrity e)))"

lemma chains_agree:
  assumes "verify_events sha t r None 1 es = Inr ()" "verify_events sha t' r' None 1 fs = Inr ()"
    and "last_event_hash es = last_event_hash fs"
    and "\<forall>e \<in> set es \<union> set fs. py_wf (hash_material e)"
    and "inj_on sha (hashed_bytes ` (set es \<union> set fs))"
  shows "map event_content es = map event_content fs"
  using assms
proof (induction es arbitrary: fs rule: rev_induct)
  case Nil
  then show ?case by (cases fs) (simp_all add: last_event_hash_def)
next
  case (snoc e es)
  from snoc.prems(3) obtain f fs' where fs: "fs = fs' @ [f]"
    by (cases fs rule: rev_cases) (simp_all add: last_event_hash_def)
  let ?p = "last_event_hash es" and ?q = "last_event_hash fs'"
  have e: "link_ok sha t ?p (1 + int (length es)) e" and es: "verify_events sha t r None 1 es = Inr ()"
    using snoc.prems(1) by (auto simp: verify_events_snoc last_event_hash_def split: if_splits)
  have f: "link_ok sha t' ?q (1 + int (length fs')) f" and fs': "verify_events sha t' r' None 1 fs' = Inr ()"
    using snoc.prems(2) fs by (auto simp: verify_events_snoc last_event_hash_def split: if_splits)
  have "integ_event_hash (ev_integrity e) = integ_event_hash (ev_integrity f)"
    using snoc.prems(3) fs by (simp add: last_event_hash_def)
  with e f have "sha (hashed_bytes e) = sha (hashed_bytes f)"
    by (simp add: link_ok_def hashed_bytes_def sha256_hex_def)
  moreover have "hashed_bytes e \<in> hashed_bytes ` (set (es @ [e]) \<union> set fs)"
    "hashed_bytes f \<in> hashed_bytes ` (set (es @ [e]) \<union> set fs)" using fs by auto
  ultimately have "hashed_bytes e = hashed_bytes f" using snoc.prems(5) by (meson inj_onD)
  moreover have "integ_previous_event_hash (ev_integrity e) = ?p" "integ_previous_event_hash (ev_integrity f) = ?q"
    using e f by (simp_all only: link_ok_def)
  moreover have "py_wf (hash_material e)" "py_wf (hash_material f)" using snoc.prems(4) fs by auto
  ultimately have "event_content e = event_content f \<and> ?p = ?q"
    using event_envelope_inject [of "hash_material e" ?p "hash_material f" ?q]
    by (simp only: hashed_bytes_def event_content_def)
  moreover have "map event_content es = map event_content fs'"
  proof (rule snoc.IH [OF es fs'])
    show "inj_on sha (hashed_bytes ` (set es \<union> set fs'))"
      using snoc.prems(5) fs by (auto intro: inj_on_subset)
    show "last_event_hash es = last_event_hash fs'" using calculation by blast
    show "\<forall>e \<in> set es \<union> set fs'. py_wf (hash_material e)" using snoc.prems(4) fs by auto
  qed
  ultimately show ?case using fs by simp
qed


section \<open>The ledger interface\<close>

text \<open>
  What the clients of a ledger rely on: an append either changes nothing and raises, or adds one
  event with the content of the draft at the end of its own run; every chain verifies; a run
  belongs to one tenant, whose further appends to it are accepted.
\<close>

locale event_ledger =
  fixes append_event :: "control_event_draft \<Rightarrow> ('s, control_event) prog"
    and run_events :: "string \<Rightarrow> uuid \<Rightarrow> 's \<Rightarrow> control_event list"
    and check_run :: "string \<Rightarrow> uuid \<Rightarrow> 's \<Rightarrow> unit result"
    and invar :: "'s \<Rightarrow> bool"
  assumes append_invar: "invar s \<Longrightarrow> append_event d s = (res, s') \<Longrightarrow> invar s'"
    and append_raises: "append_event d s = (Inl x, s') \<Longrightarrow> s' = s"
    and append_returns: "append_event d s = (Inr e, s') \<Longrightarrow>
      run_events t r s' = (if t = ev_tenant_id d \<and> r = ev_run_id d then run_events t r s @ [e] else run_events t r s)"
    and append_content: "append_event d s = (Inr e, s') \<Longrightarrow> control_event_draft.truncate e = d"
    and chains_verify: "invar s \<Longrightarrow> check_run t r s = Inr ()"
    and one_tenant: "invar s \<Longrightarrow> run_events t r s \<noteq> [] \<Longrightarrow> run_events t' r s \<noteq> [] \<Longrightarrow> t = t'"
    and append_accepts: "invar s \<Longrightarrow> run_events (ev_tenant_id d) (ev_run_id d) s \<noteq> [] \<Longrightarrow>
      \<exists>e s'. append_event d s = (Inr e, s')"
begin

lemma append_prefix: "append_event d s = (x, s') \<Longrightarrow> prefix (run_events t r s) (run_events t r s')"
  by (cases x) (auto dest: append_raises simp: append_returns)

text \<open>No sequence of appends, failing or not, rewrites or removes a recorded event.\<close>

lemma appends_prefix:
  "run_all append_event ds s = (x, s') \<Longrightarrow> prefix (run_events t r s) (run_events t r s')"
proof (induction ds arbitrary: s x)
  case Nil
  then show ?case by simp
next
  case (Cons d ds)
  from Cons.prems have "bindE (append_event d) (\<lambda>y. bindE (run_all append_event ds) (\<lambda>ys. ret (y # ys))) s = (x, s')"
    by simp
  then show ?case
  proof (cases rule: bindE_cases)
    case raised
    then show ?thesis by (blast dest: append_prefix)
  next
    case (returned e s1)
    obtain y s2 where tail: "run_all append_event ds s1 = (y, s2)" by (cases "run_all append_event ds s1")
    with returned(2) have "s2 = s'" by (cases y) (auto simp: bindE_def)
    with tail Cons.IH have "prefix (run_events t r s1) (run_events t r s')" by blast
    with append_prefix [OF returned(1)] show ?thesis by (rule prefix_order.trans)
  qed
qed

lemma appends_invar:
  assumes "invar s" "run_all append_event ds s = (x, s')"
  shows "invar s'"
proof -
  let ?R = "\<lambda>s s'. invar s \<longrightarrow> invar s'"
  have "keeps ?R (run_all append_event ds)"
    by (rule keeps_run_all) (auto intro!: reflpI transpI keepsI dest: append_invar)
  with assms show ?thesis by (blast dest: keepsD)
qed

lemma appends_verify:
  assumes "invar s" "run_all append_event ds s = (x, s')"
  shows "check_run t r s' = Inr ()"
  using appends_invar [OF assms] by (rule chains_verify)

end

subsection \<open>The in-memory ledger provides the interface\<close>

definition ledger_inv :: "sha256_fn \<Rightarrow> event_ledger_state \<Rightarrow> bool" where
  "ledger_inv sha L \<longleftrightarrow>
    distinct (map fst (led_events L)) \<and>
    (\<forall>t r evs. ((t, r), evs) \<in> set (led_events L) \<longrightarrow> verify_events sha t r None 1 evs = Inr ()) \<and>
    (\<forall>t t' r evs evs'. ((t, r), evs) \<in> set (led_events L) \<longrightarrow> ((t', r), evs') \<in> set (led_events L) \<longrightarrow>
       evs \<noteq> [] \<longrightarrow> evs' \<noteq> [] \<longrightarrow> t = t')"

lemma list_run_events_update:
  "list_run_events t r (L\<lparr>led_events := AList.update (u, q) evs (led_events L)\<rparr>)
    = (if t = u \<and> r = q then evs else list_run_events t r L)"
  by (simp add: list_run_events_def update_conv' split: option.splits)

lemma list_run_events_member:
  "list_run_events t r L \<noteq> [] \<Longrightarrow> ((t, r), list_run_events t r L) \<in> set (led_events L)"
  by (auto simp: list_run_events_def dest: map_of_SomeD split: option.splits)

lemma ledger_inv_verify: "ledger_inv sha L \<Longrightarrow> verify_run sha t r L = Inr ()"
  by (cases "list_run_events t r L = []")
     (auto simp: verify_run_def ledger_inv_def dest: list_run_events_member)

lemma ledger_inv_one_tenant:
  assumes "ledger_inv sha L" "list_run_events t r L \<noteq> []" "list_run_events t' r L \<noteq> []"
  shows "t = t'"
  using assms list_run_events_member [of t r L] list_run_events_member [of t' r L]
  unfolding ledger_inv_def by blast

lemma ledger_append_inv:
  assumes inv: "ledger_inv sha L" and app: "ledger_append sha d L = (x, L')"
  shows "ledger_inv sha L'"
proof (cases x)
  case (Inl e)
  with app inv show ?thesis by (auto simp: ledger_append_def Let_def split: if_splits)
next
  case (Inr e)
  let ?t = "ev_tenant_id d" and ?r = "ev_run_id d"
  let ?evs = "list_run_events ?t ?r L"
  have fresh: "\<And>t evs. ((t, ?r), evs) \<in> set (led_events L) \<Longrightarrow> evs \<noteq> [] \<Longrightarrow> t = ?t"
    and L': "L' = L\<lparr>led_events := AList.update (?t, ?r) (?evs @ [make_event sha d ?evs]) (led_events L)\<rparr>"
    using app Inr by (force simp: ledger_append_def Let_def list_ex_iff split: if_splits)+
  have "verify_events sha ?t ?r None 1 (?evs @ [make_event sha d ?evs]) = Inr ()"
    using ledger_inv_verify [OF inv] by (intro verify_make_event) (simp_all add: verify_run_def)
  with inv fresh show ?thesis
    unfolding L' ledger_inv_def by (auto dest!: set_update_cases simp del: map_fst_update intro: distinct_update)
qed

lemma ledger_append_accepts:
  assumes "ledger_inv sha L" "list_run_events (ev_tenant_id d) (ev_run_id d) L \<noteq> []"
  shows "\<exists>e L'. ledger_append sha d L = (Inr e, L')"
proof -
  have "t = ev_tenant_id d" if "((t, ev_run_id d), evs) \<in> set (led_events L)" "evs \<noteq> []" for t evs
    using assms(1) list_run_events_member [OF assms(2)] that assms(2) unfolding ledger_inv_def by blast
  then have "\<not> list_ex (\<lambda>((tenant, run), evs). run = ev_run_id d \<and> tenant \<noteq> ev_tenant_id d \<and> evs \<noteq> []) (led_events L)"
    by (auto simp: list_ex_iff)
  then show ?thesis by (simp add: ledger_append_def Let_def)
qed

interpretation mem_ledger: event_ledger "ledger_append sha" list_run_events "verify_run sha" "ledger_inv sha"
  for sha
proof
  show "\<And>s d r s'. ledger_inv sha s \<Longrightarrow> ledger_append sha d s = (r, s') \<Longrightarrow> ledger_inv sha s'"
    by (rule ledger_append_inv)
  show "\<And>d s x s'. ledger_append sha d s = (Inl x, s') \<Longrightarrow> s' = s"
    by (auto simp: ledger_append_def Let_def split: if_splits)
  show "\<And>d s e s' t r. ledger_append sha d s = (Inr e, s') \<Longrightarrow> list_run_events t r s' =
      (if t = ev_tenant_id d \<and> r = ev_run_id d then list_run_events t r s @ [e] else list_run_events t r s)"
    by (auto simp: ledger_append_def Let_def list_run_events_update split: if_splits)
  show "\<And>d s e s'. ledger_append sha d s = (Inr e, s') \<Longrightarrow> control_event_draft.truncate e = d"
    by (auto simp: ledger_append_def Let_def split: if_splits)
  show "\<And>s t r. ledger_inv sha s \<Longrightarrow> verify_run sha t r s = Inr ()"
    by (rule ledger_inv_verify)
  show "\<And>s t r t'. ledger_inv sha s \<Longrightarrow> list_run_events t r s \<noteq> [] \<Longrightarrow> list_run_events t' r s \<noteq> [] \<Longrightarrow> t = t'"
    by (rule ledger_inv_one_tenant)
  show "\<exists>e s'. ledger_append sha d s = (Inr e, s')"
    if "ledger_inv sha s" "list_run_events (ev_tenant_id d) (ev_run_id d) s \<noteq> []" for s d
    using that by (rule ledger_append_accepts)
qed

lemma empty_ledger_inv [simp]: "ledger_inv sha empty_ledger"
  by (simp add: ledger_inv_def empty_ledger_def)

section \<open>Properties\<close>

text \<open>
  C6: Integrity of every history. Whatever drafts are appended to an empty ledger, and wherever an
  append is refused, every run of every tenant passes \<open>verify_run\<close> afterwards.
\<close>

theorem ledger_histories_verify:
  "verify_run sha tenant run (snd (run_all (ledger_append sha) drafts empty_ledger)) = Inr ()"
  using mem_ledger.appends_verify [OF empty_ledger_inv] by (metis prod.collapse)

text \<open>
  The ledger is append-only. No sequence of appends, failing or not, rewrites, reorders or
  removes an event of any run: the old chain is a prefix of the new one.
\<close>

theorem ledger_append_only:
  "prefix (list_run_events tenant run L) (list_run_events tenant run (snd (run_all (ledger_append sha) drafts L)))"
  using mem_ledger.appends_prefix by (metis prod.collapse)

text \<open>
  Tenant isolation of runs. In every ledger reached by appends, two tenants never both hold
  events of one run.
\<close>

theorem ledger_one_tenant_per_run:
  assumes "L = snd (run_all (ledger_append sha) drafts empty_ledger)"
    and "list_run_events t run L \<noteq> []" "list_run_events t' run L \<noteq> []"
  shows "t = t'"
proof -
  have "ledger_inv sha L"
    using mem_ledger.appends_invar [OF empty_ledger_inv] assms(1) by (metis prod.collapse)
  with assms(2,3) show ?thesis by (blast dest: ledger_inv_one_tenant)
qed

lemma append_sample_draft:
  "ledger_append sha sample_draft empty_ledger =
    (Inr (make_event sha sample_draft []), \<lparr>led_events = [((''acme'', ''r1''), [make_event sha sample_draft []])]\<rparr>)"
  by (simp add: ledger_append_def Let_def empty_ledger_def list_run_events_def sample_draft_def)

theorem ledger_one_tenant_per_run_witness:
  "let L = snd (run_all (ledger_append (\<lambda>x. x)) [sample_draft, sample_draft\<lparr>ev_tenant_id := ''beta''\<rparr>] empty_ledger)
   in list_run_events ''acme'' ''r1'' L \<noteq> [] \<and> list_run_events ''beta'' ''r1'' L = []"
proof -
  let ?ds = "[sample_draft, sample_draft\<lparr>ev_tenant_id := ''beta''\<rparr>]"
  let ?L = "snd (run_all (ledger_append (\<lambda>x. x)) ?ds empty_ledger)"
  have "list_run_events ''acme'' ''r1'' ?L \<noteq> []"
    by (simp add: bindE_def append_sample_draft)
       (simp add: ledger_append_def Let_def sample_draft_def list_run_events_def split: prod.splits)
  moreover from this have "list_run_events ''beta'' ''r1'' ?L = []"
    using ledger_one_tenant_per_run [of ?L "\<lambda>x. x" ?ds "''acme''" "''r1''" "''beta''"] by auto
  ultimately show ?thesis by (simp only: Let_def) simp
qed

text \<open>
  C11: Tamper evidence. Two chains that both verify and end in the same event hash record the same
  contents event by event, unless two hashed envelopes among their events collide under the hash
  function; so a rewritten history that still verifies has another head hash or exhibits a
  collision.
\<close>

theorem ledger_tamper_evident:
  assumes "verify_events sha t r None 1 es = Inr ()" "verify_events sha t' r' None 1 fs = Inr ()"
    and "last_event_hash es = last_event_hash fs"
    and "\<forall>e \<in> set es \<union> set fs. py_wf (hash_material e)"
  shows "map event_content es = map event_content fs \<or>
    (\<exists>e \<in> set es \<union> set fs. \<exists>f \<in> set es \<union> set fs.
       hashed_bytes e \<noteq> hashed_bytes f \<and> sha (hashed_bytes e) = sha (hashed_bytes f))"
  using chains_agree [OF assms] by (auto simp: inj_on_def)

theorem ledger_tamper_evident_witness:
  "let e = make_event (\<lambda>x. x) sample_draft [] in
     verify_events (\<lambda>x. x) ''acme'' ''r1'' None 1 [e] = Inr () \<and> py_wf (hash_material e) \<and>
     (map event_content [e] = map event_content [e] \<or> (\<exists>x \<in> {e}. hashed_bytes x \<noteq> hashed_bytes x))"
proof -
  let ?e = "make_event (\<lambda>x. x) sample_draft []"
  have "verify_events (\<lambda>x. x) ''acme'' ''r1'' None 1 [?e] = Inr ()"
    using verify_make_event [of "\<lambda>x. x" "''acme''" "''r1''" "[]" sample_draft] by (simp add: sample_draft_def)
  moreover have "py_wf (hash_material ?e)"
    by (simp add: draft_items_def sample_draft_def sample_actor_def dump_actor_ref_def dump_dict_def)
  ultimately show ?thesis
    using ledger_tamper_evident [of "\<lambda>x. x" "''acme''" "''r1''" "[?e]" "''acme''" "''r1''" "[?e]"]
    by (simp add: Let_def del: verify_events_Cons hash_material_make_event)
qed

end
