(* ===== verification/Stores.thy ===== *)
theory Stores
  imports Event_Ledger
begin

text \<open>
  The standalone stores of the runtime: \<open>InMemoryApprovalStore\<close>, \<open>InMemoryIdempotencyStore\<close> and
  \<open>InMemoryArtifactStore\<close> of \<open>memory.py\<close>, \<open>InMemoryExecutionAttemptStore\<close> of \<open>attempts.py\<close> and
  \<open>InMemoryRunStore\<close> of \<open>runs.py\<close>. Every operation runs under its store's lock (or without an
  \<open>await\<close>), so each is one atomic step. The clock is read once by \<open>find_valid_approval\<close> and is
  passed to it. The artifact store is modelled without a filesystem root.
\<close>

section \<open>Approvals\<close>

record approval_store =
  apps_approvals :: "(uuid \<times> approval_decision list) list"

definition empty_approvals :: approval_store where
  "empty_approvals = \<lparr>apps_approvals = []\<rparr>"

definition approvals_for :: "uuid \<Rightarrow> approval_store \<Rightarrow> approval_decision list" where
  "approvals_for aid S = (case map_of (apps_approvals S) aid of None \<Rightarrow> [] | Some ds \<Rightarrow> ds)"

definition record_approval :: "approval_decision \<Rightarrow> approval_store \<Rightarrow> approval_store" where
  "record_approval d S =
    S\<lparr>apps_approvals := AList.update (appr_action_id d) (approvals_for (appr_action_id d) S @ [d]) (apps_approvals S)\<rparr>"

definition approval_authorizes ::
  "sha256_fn \<Rightarrow> datetime \<Rightarrow> action_spec \<Rightarrow> policy_decision \<Rightarrow> string \<Rightarrow> approval_decision \<Rightarrow> bool" where
  "approval_authorizes sha now action policy target_digest d =
    authorizes d (action_digest sha action) target_digest (pol_decision_id policy) (pol_policy_revision policy)
      (act_tenant_id action) (target_environment (act_target action)) now"

definition find_valid_approval ::
  "sha256_fn \<Rightarrow> datetime \<Rightarrow> action_spec \<Rightarrow> policy_decision \<Rightarrow> string \<Rightarrow> approval_store \<Rightarrow> approval_decision option" where
  "find_valid_approval sha now action policy target_digest S =
    find (approval_authorizes sha now action policy target_digest) (rev (approvals_for (act_action_id action) S))"

lemma approvals_for_record [simp]:
  "approvals_for aid (record_approval d S) =
    (if aid = appr_action_id d then approvals_for aid S @ [d] else approvals_for aid S)"
  by (auto simp: approvals_for_def record_approval_def update_conv')

lemma find_rev_Some:
  "find P (rev xs) = Some x \<longleftrightarrow> (\<exists>ys zs. xs = ys @ x # zs \<and> P x \<and> (\<forall>z \<in> set zs. \<not> P z))"
proof
  assume "find P (rev xs) = Some x"
  then obtain i where i: "i < length (rev xs)" "P (rev xs ! i)" "x = rev xs ! i" "\<forall>j < i. \<not> P (rev xs ! j)"
    by (auto simp: find_Some_iff)
  have "rev xs = take i (rev xs) @ x # drop (Suc i) (rev xs)"
    using i(1,3) by (simp add: id_take_nth_drop)
  then have "xs = rev (drop (Suc i) (rev xs)) @ x # rev (take i (rev xs))"
    by (metis append.assoc append_Cons append_Nil rev.simps(2) rev_append rev_rev_ident)
  moreover have "\<forall>z \<in> set (rev (take i (rev xs))). \<not> P z"
    using i(1,4) by (auto simp: in_set_conv_nth)
  ultimately show "\<exists>ys zs. xs = ys @ x # zs \<and> P x \<and> (\<forall>z \<in> set zs. \<not> P z)" using i(2,3) by blast
next
  assume "\<exists>ys zs. xs = ys @ x # zs \<and> P x \<and> (\<forall>z \<in> set zs. \<not> P z)"
  then obtain ys zs where "xs = ys @ x # zs" "P x" "\<forall>z \<in> set zs. \<not> P z" by blast
  moreover have "find P (ws @ x # us) = Some x" if "\<forall>w \<in> set ws. \<not> P w" "P x" for ws us
    using that by (induction ws) auto
  ultimately have "find P (rev zs @ x # rev ys) = Some x" by simp
  with \<open>xs = ys @ x # zs\<close> show "find P (rev xs) = Some x" by simp
qed

section \<open>Idempotency claims\<close>

record idempotency_entry =
  ide_action_digest :: string
  ide_result :: "execution_result option"

record idempotency_store =
  ids_entries :: "((string \<times> string) \<times> idempotency_entry) list"

definition empty_idempotency :: idempotency_store where
  "empty_idempotency = \<lparr>ids_entries = []\<rparr>"

definition entry_of :: "string \<Rightarrow> string \<Rightarrow> idempotency_store \<Rightarrow> idempotency_entry option" where
  "entry_of tenant key S = map_of (ids_entries S) (tenant, key)"

definition claim :: "string \<Rightarrow> string \<Rightarrow> string \<Rightarrow> (idempotency_store, bool) prog" where
  "claim tenant key dig S =
    (case entry_of tenant key S of
       None \<Rightarrow> (Inr True, S\<lparr>ids_entries := AList.update (tenant, key)
                  \<lparr>ide_action_digest = dig, ide_result = None\<rparr> (ids_entries S)\<rparr>)
     | Some current \<Rightarrow>
         if ide_action_digest current \<noteq> dig
         then (Inl (DuplicateActionError (''idempotency key '' @ key @ '' already belongs to another action digest'')), S)
         else (Inr False, S))"

definition complete :: "string \<Rightarrow> string \<Rightarrow> execution_result \<Rightarrow> (idempotency_store, unit) prog" where
  "complete tenant key result S =
    (case entry_of tenant key S of
       None \<Rightarrow> (Inl (KeyError (''idempotency key '' @ key @ '' was not claimed'')), S)
     | Some entry \<Rightarrow>
         (Inr (), S\<lparr>ids_entries := AList.update (tenant, key) (entry\<lparr>ide_result := Some result\<rparr>) (ids_entries S)\<rparr>))"

definition idempotency_result :: "string \<Rightarrow> string \<Rightarrow> idempotency_store \<Rightarrow> execution_result option" where
  "idempotency_result tenant key S =
    (case entry_of tenant key S of None \<Rightarrow> None | Some entry \<Rightarrow> ide_result entry)"

lemma entry_of_update [simp]:
  "entry_of t k (S\<lparr>ids_entries := AList.update (u, l) e (ids_entries S)\<rparr>)
    = (if t = u \<and> k = l then Some e else entry_of t k S)"
  by (simp add: entry_of_def update_conv')

text \<open>
  The contract a client relies on: a key has one owner digest for ever; a claim is granted
  exactly when the key is free; the recorded result is the last completed one.
\<close>

locale idempotency =
  fixes claim_key :: "string \<Rightarrow> string \<Rightarrow> string \<Rightarrow> ('s, bool) prog"
    and complete_key :: "string \<Rightarrow> string \<Rightarrow> execution_result \<Rightarrow> ('s, unit) prog"
    and owner :: "string \<Rightarrow> string \<Rightarrow> 's \<Rightarrow> string option"
    and stored :: "string \<Rightarrow> string \<Rightarrow> 's \<Rightarrow> execution_result option"
  assumes claim_granted: "claim_key t k d s = (Inr True, s') \<Longrightarrow>
      owner t k s = None \<and> owner u l s' = (if u = t \<and> l = k then Some d else owner u l s) \<and>
      stored u l s' = stored u l s"
    and claim_refused: "claim_key t k d s = (Inr False, s') \<Longrightarrow> owner t k s = Some d \<and> s' = s"
    and claim_raises: "claim_key t k d s = (Inl e, s') \<Longrightarrow> (\<exists>d'. owner t k s = Some d' \<and> d' \<noteq> d) \<and> s' = s"
    and complete_returns: "complete_key t k x s = (Inr u', s') \<Longrightarrow>
      owner u l s' = owner u l s \<and> stored u l s' = (if u = t \<and> l = k then Some x else stored u l s)"
    and complete_raises: "complete_key t k x s = (Inl e, s') \<Longrightarrow> owner t k s = None \<and> s' = s"
begin

lemma claim_owner_mono: "claim_key t k d s = (r, s') \<Longrightarrow> owner u l s = Some o' \<Longrightarrow> owner u l s' = Some o'"
proof (cases r)
  case (Inr b)
  assume "claim_key t k d s = (r, s')" "owner u l s = Some o'"
  with Inr show ?thesis by (cases b) (auto simp: claim_granted dest: claim_granted claim_refused)
qed (auto dest: claim_raises)

lemma complete_owner: "complete_key t k x s = (r, s') \<Longrightarrow> owner u l s' = owner u l s"
  by (cases r) (auto simp: complete_returns dest: complete_raises)

text \<open>Two grants of one key cannot both happen, whatever runs between them.\<close>

lemma claim_once:
  assumes "claim_key t k d s = (Inr True, s1)"
    and "\<And>o'. owner t k s1 = Some o' \<Longrightarrow> owner t k s2 = Some o'"
  shows "claim_key t k d' s2 \<noteq> (Inr True, s3)"
proof
  assume "claim_key t k d' s2 = (Inr True, s3)"
  then have "owner t k s2 = None" by (auto dest: claim_granted)
  moreover have "owner t k s1 = Some d" using claim_granted [OF assms(1)] by simp
  ultimately show False using assms(2) by simp
qed

end

definition claim_owner :: "string \<Rightarrow> string \<Rightarrow> idempotency_store \<Rightarrow> string option" where
  "claim_owner tenant key S = map_option ide_action_digest (entry_of tenant key S)"

interpretation mem_idem: idempotency claim complete claim_owner idempotency_result
  by standard
     (auto simp: claim_def complete_def claim_owner_def idempotency_result_def split: option.splits if_splits)

text \<open>The operations of the store as one step relation, for histories of claims and completions.\<close>

inductive idem_step :: "idempotency_store \<Rightarrow> idempotency_store \<Rightarrow> bool" where
  claim_step: "claim t k d S = (r, S') \<Longrightarrow> idem_step S S'"
| complete_step: "complete t k x S = (r, S') \<Longrightarrow> idem_step S S'"

lemma idem_steps_owner:
  "idem_step\<^sup>*\<^sup>* S S' \<Longrightarrow> claim_owner t k S = Some d \<Longrightarrow> claim_owner t k S' = Some d"
proof (induction rule: rtranclp_induct)
  case (step S1 S2)
  note owned = step.IH [OF step.prems]
  from step(2) show ?case
  proof (cases rule: idem_step.cases)
    case (claim_step t' k' d' r)
    then show ?thesis using owned by (rule mem_idem.claim_owner_mono)
  next
    case (complete_step t' k' x r)
    with owned show ?thesis by (simp add: mem_idem.complete_owner)
  qed
qed simp

section \<open>Execution attempts\<close>

record attempt_store =
  ats_records :: "((string \<times> uuid) \<times> execution_attempt_record) list"
  ats_latest :: "((string \<times> uuid) \<times> uuid) list"

definition empty_attempts :: attempt_store where
  "empty_attempts = \<lparr>ats_records = [], ats_latest = []\<rparr>"

definition store_attempt :: "execution_attempt_record \<Rightarrow> attempt_store \<Rightarrow> attempt_store" where
  "store_attempt a S =
    S\<lparr>ats_records := AList.update (att_tenant_id a, att_attempt_id a) a (ats_records S),
      ats_latest := AList.update (att_tenant_id a, att_action_id a) (att_attempt_id a) (ats_latest S)\<rparr>"

definition attempt_create :: "execution_attempt_record \<Rightarrow> (attempt_store, unit) prog" where
  "attempt_create a S =
    (if (att_tenant_id a, att_attempt_id a) \<in> fst ` set (ats_records S)
     then (Inl (ValueError (''execution attempt '' @ att_attempt_id a @ '' already exists'')), S)
     else if list_ex (\<lambda>((_, i), _). i = att_attempt_id a) (ats_records S)
     then (Inl (ValueError ''execution attempt id is already owned by another tenant''), S)
     else (Inr (), store_attempt a S))"

definition attempt_replace :: "execution_attempt_record \<Rightarrow> (attempt_store, unit) prog" where
  "attempt_replace a S =
    (case map_of (ats_records S) (att_tenant_id a, att_attempt_id a) of
       None \<Rightarrow> (Inl (KeyError (''execution attempt '' @ att_attempt_id a @ '' does not exist'')), S)
     | Some current \<Rightarrow>
         if att_action_id current \<noteq> att_action_id a \<or> att_run_id current \<noteq> att_run_id a
         then (Inl (ValueError ''execution-attempt identity is immutable''), S)
         else (Inr (), store_attempt a S))"

definition attempt_get :: "string \<Rightarrow> uuid \<Rightarrow> attempt_store \<Rightarrow> execution_attempt_record option" where
  "attempt_get tenant aid S = map_of (ats_records S) (tenant, aid)"

definition latest_for_action :: "string \<Rightarrow> uuid \<Rightarrow> attempt_store \<Rightarrow> execution_attempt_record option" where
  "latest_for_action tenant action S =
    (case map_of (ats_latest S) (tenant, action) of
       None \<Rightarrow> None
     | Some aid \<Rightarrow> map_of (ats_records S) (tenant, aid))"

text \<open>
  The invariant: a record is filed under its own tenant and id, an attempt id has one tenant,
  the latest pointer of an action leads to a record of that action, and every recorded action has
  such a pointer.
\<close>

definition attempts_inv :: "attempt_store \<Rightarrow> bool" where
  "attempts_inv S \<longleftrightarrow>
    (\<forall>t i a. attempt_get t i S = Some a \<longrightarrow> att_tenant_id a = t \<and> att_attempt_id a = i) \<and>
    (\<forall>t t' i. attempt_get t i S \<noteq> None \<longrightarrow> attempt_get t' i S \<noteq> None \<longrightarrow> t = t') \<and>
    (\<forall>t x i. map_of (ats_latest S) (t, x) = Some i \<longrightarrow>
       (\<exists>a. attempt_get t i S = Some a \<and> att_action_id a = x)) \<and>
    (\<forall>t i a. attempt_get t i S = Some a \<longrightarrow> map_of (ats_latest S) (t, att_action_id a) \<noteq> None)"

lemma store_attempt_lookup [simp]:
  "attempt_get t i (store_attempt a S) =
    (if t = att_tenant_id a \<and> i = att_attempt_id a then Some a else attempt_get t i S)"
  "map_of (ats_latest (store_attempt a S)) (t, x) =
    (if t = att_tenant_id a \<and> x = att_action_id a then Some (att_attempt_id a) else map_of (ats_latest S) (t, x))"
  by (simp_all add: store_attempt_def attempt_get_def update_conv')

text \<open>Storing an attempt whose id is free, or already this action's, keeps the invariant.\<close>

lemma store_attempt_inv:
  assumes inv: "attempts_inv S"
    and own: "\<And>t b. attempt_get t (att_attempt_id a) S = Some b \<Longrightarrow> t = att_tenant_id a \<and> att_action_id b = att_action_id a"
  shows "attempts_inv (store_attempt a S)"
  unfolding attempts_inv_def
proof (intro conjI allI impI)
  fix t i b
  assume "attempt_get t i (store_attempt a S) = Some b"
  with inv show "att_tenant_id b = t" "att_attempt_id b = i"
    by (auto simp: attempts_inv_def split: if_splits)
next
  fix t t' i
  assume "attempt_get t i (store_attempt a S) \<noteq> None" "attempt_get t' i (store_attempt a S) \<noteq> None"
  then show "t = t'"
    using own inv unfolding attempts_inv_def store_attempt_lookup by (metis option.exhaust_sel)
next
  fix t x i
  assume latest: "map_of (ats_latest (store_attempt a S)) (t, x) = Some i"
  show "\<exists>b. attempt_get t i (store_attempt a S) = Some b \<and> att_action_id b = x"
  proof (cases "t = att_tenant_id a \<and> x = att_action_id a")
    case True
    with latest show ?thesis by simp
  next
    case False
    with latest have "map_of (ats_latest S) (t, x) = Some i" by auto
    with inv obtain b where "attempt_get t i S = Some b" "att_action_id b = x"
      unfolding attempts_inv_def by blast
    with own False show ?thesis by (cases "i = att_attempt_id a") auto
  qed
next
  fix t i b
  assume "attempt_get t i (store_attempt a S) = Some b"
  with inv show "map_of (ats_latest (store_attempt a S)) (t, att_action_id b) \<noteq> None"
    by (auto simp: attempts_inv_def split: if_splits)
qed

lemma attempt_create_inv [inv_intros]:
  assumes "attempts_inv S" "attempt_create a S = (r, S')"
  shows "attempts_inv S'"
proof (cases r)
  case (Inl e)
  with assms show ?thesis by (auto simp: attempt_create_def split: if_splits)
next
  case (Inr u)
  with assms(2) have "\<And>t. attempt_get t (att_attempt_id a) S = None" and S': "S' = store_attempt a S"
    by (auto simp: attempt_create_def attempt_get_def list_ex_iff map_of_eq_None_iff split: if_splits)
  with assms(1) show ?thesis by (auto intro: store_attempt_inv)
qed

lemma attempt_replace_inv [inv_intros]:
  assumes "attempts_inv S" "attempt_replace a S = (r, S')"
  shows "attempts_inv S'"
proof (cases r)
  case (Inl e)
  with assms show ?thesis by (auto simp: attempt_replace_def split: if_splits option.splits)
next
  case (Inr u)
  with assms(2) obtain current where current: "attempt_get (att_tenant_id a) (att_attempt_id a) S = Some current"
    "att_action_id current = att_action_id a" and S': "S' = store_attempt a S"
    by (auto simp: attempt_replace_def attempt_get_def split: if_splits option.splits)
  have "t = att_tenant_id a" if "attempt_get t (att_attempt_id a) S = Some b" for t b
    using assms(1) that current(1) unfolding attempts_inv_def by (metis option.distinct(1))
  with current assms(1) show ?thesis unfolding S' by (intro store_attempt_inv) auto
qed

text \<open>The attempt store as the broker sees it.\<close>

locale attempt_storage =
  fixes create_attempt :: "execution_attempt_record \<Rightarrow> ('s, unit) prog"
    and replace_attempt :: "execution_attempt_record \<Rightarrow> ('s, unit) prog"
    and lookup_attempt :: "string \<Rightarrow> uuid \<Rightarrow> 's \<Rightarrow> execution_attempt_record option"
    and valid :: "'s \<Rightarrow> bool"
  assumes create_returns: "create_attempt a s = (Inr u, s') \<Longrightarrow>
      (\<forall>t. lookup_attempt t (att_attempt_id a) s = None) \<and>
      lookup_attempt t i s' = (if t = att_tenant_id a \<and> i = att_attempt_id a then Some a else lookup_attempt t i s)"
    and create_raises: "create_attempt a s = (Inl e, s') \<Longrightarrow> s' = s"
    and create_valid: "valid s \<Longrightarrow> create_attempt a s = (r, s') \<Longrightarrow> valid s'"
    and replace_returns: "replace_attempt a s = (Inr u, s') \<Longrightarrow>
      (\<exists>b. lookup_attempt (att_tenant_id a) (att_attempt_id a) s = Some b \<and>
           att_action_id b = att_action_id a \<and> att_run_id b = att_run_id a) \<and>
      lookup_attempt t i s' = (if t = att_tenant_id a \<and> i = att_attempt_id a then Some a else lookup_attempt t i s)"
    and replace_raises: "replace_attempt a s = (Inl e, s') \<Longrightarrow> s' = s"
    and replace_valid: "valid s \<Longrightarrow> replace_attempt a s = (r, s') \<Longrightarrow> valid s'"
    and replace_accepts: "lookup_attempt (att_tenant_id a) (att_attempt_id a) s = Some b \<Longrightarrow>
      att_action_id b = att_action_id a \<Longrightarrow> att_run_id b = att_run_id a \<Longrightarrow> \<exists>s'. replace_attempt a s = (Inr (), s')"
begin

lemma attempt_lifecycle:
  assumes "create_attempt a s = (Inr u, s1)" "replace_attempt b s1 = (Inr v, s2)"
    and "att_tenant_id b = att_tenant_id a" "att_attempt_id b = att_attempt_id a"
  shows "lookup_attempt (att_tenant_id a) (att_attempt_id a) s2 = Some b
    \<and> att_action_id b = att_action_id a \<and> att_run_id b = att_run_id a"
  using create_returns [OF assms(1)] replace_returns [OF assms(2)] assms(3,4) by simp

end

interpretation mem_attempts: attempt_storage attempt_create attempt_replace attempt_get attempts_inv
proof
  show "\<And>a s u s' t i. attempt_create a s = (Inr u, s') \<Longrightarrow>
      (\<forall>t. attempt_get t (att_attempt_id a) s = None) \<and>
      attempt_get t i s' = (if t = att_tenant_id a \<and> i = att_attempt_id a then Some a else attempt_get t i s)"
    by (auto simp: attempt_create_def attempt_get_def store_attempt_def update_conv' list_ex_iff map_of_eq_None_iff
        split: if_splits)
  show "\<And>a s u s' t i. attempt_replace a s = (Inr u, s') \<Longrightarrow>
      (\<exists>b. attempt_get (att_tenant_id a) (att_attempt_id a) s = Some b \<and>
           att_action_id b = att_action_id a \<and> att_run_id b = att_run_id a) \<and>
      attempt_get t i s' = (if t = att_tenant_id a \<and> i = att_attempt_id a then Some a else attempt_get t i s)"
    by (auto simp: attempt_replace_def attempt_get_def store_attempt_def update_conv' split: if_splits option.splits)
  show "\<And>a s e s'. attempt_create a s = (Inl e, s') \<Longrightarrow> s' = s"
    by (auto simp: attempt_create_def split: if_splits)
  show "\<And>a s e s'. attempt_replace a s = (Inl e, s') \<Longrightarrow> s' = s"
    by (auto simp: attempt_replace_def split: if_splits option.splits)
  show "\<And>a s b. attempt_get (att_tenant_id a) (att_attempt_id a) s = Some b \<Longrightarrow> att_action_id b = att_action_id a \<Longrightarrow>
      att_run_id b = att_run_id a \<Longrightarrow> \<exists>s'. attempt_replace a s = (Inr (), s')"
    by (simp add: attempt_replace_def attempt_get_def)
qed (rule inv_intros, assumption+)+

section \<open>Runs\<close>

record run_store =
  rs_runs :: "((string \<times> uuid) \<times> run_record) list"

definition empty_runs :: run_store where
  "empty_runs = \<lparr>rs_runs = []\<rparr>"

definition run_create :: "run_record \<Rightarrow> (run_store, unit) prog" where
  "run_create run S =
    (if (run_tenant_id run, run_run_id run) \<in> fst ` set (rs_runs S)
     then (Inl (ValueError (''run '' @ run_run_id run @ '' already exists'')), S)
     else if list_ex (\<lambda>((_, i), _). i = run_run_id run) (rs_runs S)
     then (Inl (ValueError (''run '' @ run_run_id run @ '' is already owned by another tenant'')), S)
     else (Inr (), S\<lparr>rs_runs := AList.update (run_tenant_id run, run_run_id run) run (rs_runs S)\<rparr>))"

definition run_replace :: "run_record \<Rightarrow> (run_store, unit) prog" where
  "run_replace run S =
    (case map_of (rs_runs S) (run_tenant_id run, run_run_id run) of
       None \<Rightarrow> (Inl (KeyError (run_run_id run)), S)
     | Some current \<Rightarrow>
         if run_started_at current \<noteq> run_started_at run
         then (Inl (ValueError ''run identity is immutable''), S)
         else (Inr (), S\<lparr>rs_runs := AList.update (run_tenant_id run, run_run_id run) run (rs_runs S)\<rparr>))"

definition run_get :: "string \<Rightarrow> uuid \<Rightarrow> run_store \<Rightarrow> run_record option" where
  "run_get tenant rid S = map_of (rs_runs S) (tenant, rid)"

text \<open>The run store as its clients see it.\<close>

locale run_storage =
  fixes create_run :: "run_record \<Rightarrow> ('s, unit) prog"
    and replace_run :: "run_record \<Rightarrow> ('s, unit) prog"
    and lookup_run :: "string \<Rightarrow> uuid \<Rightarrow> 's \<Rightarrow> run_record option"
  assumes create_returns: "create_run run s = (Inr u, s') \<Longrightarrow>
      (\<forall>t. lookup_run t (run_run_id run) s = None) \<and>
      lookup_run t i s' = (if t = run_tenant_id run \<and> i = run_run_id run then Some run else lookup_run t i s)"
    and create_raises: "create_run run s = (Inl e, s') \<Longrightarrow> s' = s"
    and replace_returns: "replace_run run s = (Inr u, s') \<Longrightarrow>
      (\<exists>old. lookup_run (run_tenant_id run) (run_run_id run) s = Some old \<and> run_started_at old = run_started_at run) \<and>
      lookup_run t i s' = (if t = run_tenant_id run \<and> i = run_run_id run then Some run else lookup_run t i s)"
    and replace_raises: "replace_run run s = (Inl e, s') \<Longrightarrow> s' = s"
begin

lemma create_lookup: "create_run run s = (Inr u, s') \<Longrightarrow> lookup_run (run_tenant_id run) (run_run_id run) s' = Some run"
  using create_returns by force

lemma create_twice: "create_run run s = (Inr u, s') \<Longrightarrow> run_run_id run' = run_run_id run \<Longrightarrow> create_run run' s' \<noteq> (Inr v, s'')"
  using create_lookup create_returns by (metis option.distinct(1))

end

interpretation mem_runs: run_storage run_create run_replace run_get
  by standard
     (auto simp: run_create_def run_replace_def run_get_def update_conv' map_of_eq_None_iff list_ex_iff
        split: if_splits option.splits)

section \<open>Artifacts\<close>

record artifact_store =
  arts_content :: "((string \<times> string) \<times> string) list"

definition empty_artifacts :: artifact_store where
  "empty_artifacts = \<lparr>arts_content = []\<rparr>"

definition redaction_record :: "string \<Rightarrow> pyval" where
  "redaction_record original =
    PDict [(KStr ''redacted'', PBool True), (KStr ''original_sha256'', PStr original),
           (KStr ''redaction_version'', PStr ''runtime-redaction-v1'')]"

definition stored_bytes :: "sha256_fn \<Rightarrow> string \<Rightarrow> bool \<Rightarrow> string" where
  "stored_bytes sha content redact =
    (if redact then canonical_json_bytes (redaction_record (sha256_hex_bytes sha content)) else content)"

definition artifact_put ::
  "sha256_fn \<Rightarrow> string \<Rightarrow> string \<Rightarrow> string \<Rightarrow> string \<Rightarrow> bool \<Rightarrow> artifact_store \<Rightarrow> artifact_ref \<times> artifact_store" where
  "artifact_put sha tenant media content classification redact S =
    (let stored = stored_bytes sha content redact;
         digest = sha256_hex_bytes sha stored;
         location = ''memory://'' @ tenant @ ''/'' @ digest
     in (\<lparr>art_tenant_id = tenant, art_artifact_id = ''artifact-'' @ digest, art_media_type = media,
          art_sha256 = digest, art_size_bytes = int (length stored),
          art_storage_mode = (if redact then StorageMode_REDACTED else StorageMode_FULL),
          art_location = Some location, art_encrypted = False, art_redacted = redact,
          art_redaction_version = (if redact then Some ''runtime-redaction-v1'' else None),
          art_retention_until = None, art_classification = classification\<rparr>,
         S\<lparr>arts_content := AList.update (tenant, location) stored (arts_content S)\<rparr>))"

definition artifact_get :: "sha256_fn \<Rightarrow> string \<Rightarrow> artifact_ref \<Rightarrow> artifact_store \<Rightarrow> string result" where
  "artifact_get sha tenant artifact S =
    (if art_tenant_id artifact \<noteq> tenant
     then Inl (AuthorizationDeniedError ''artifact is not owned by the requested tenant'')
     else case art_location artifact of
       None \<Rightarrow> Inl (KeyError ''artifact has no retrievable location'')
     | Some location \<Rightarrow>
         if take 5 location = ''file:'' then Inl (KeyError ''filesystem artifacts require a configured root'')
         else case map_of (arts_content S) (tenant, location) of
           None \<Rightarrow> Inl (KeyError location)
         | Some content \<Rightarrow>
             if sha256_hex_bytes sha content \<noteq> art_sha256 artifact
             then Inl (IntegrityViolationError (''artifact '' @ art_artifact_id artifact @ '' failed digest verification''))
             else Inr content)"

text \<open>Content addressing: what is stored under a location has the digest the location names.\<close>

definition artifacts_inv :: "sha256_fn \<Rightarrow> artifact_store \<Rightarrow> bool" where
  "artifacts_inv sha S \<longleftrightarrow>
    (\<forall>t l c. map_of (arts_content S) (t, l) = Some c \<longrightarrow> l = ''memory://'' @ t @ ''/'' @ sha c)"

lemma artifact_put_inv [inv_intros]:
  "artifacts_inv sha S \<Longrightarrow> artifacts_inv sha (snd (artifact_put sha t m c k r S))"
  by (auto simp: artifacts_inv_def artifact_put_def Let_def update_conv' sha256_hex_bytes_def split: if_splits)

lemma artifact_put_keeps:
  assumes "artifacts_inv sha S" "map_of (arts_content S) (u, l) = Some d"
    and "inj_on sha {d, stored_bytes sha c r}"
  shows "map_of (arts_content (snd (artifact_put sha t m c k r S))) (u, l) = Some d"
  using assms
  by (auto simp: artifacts_inv_def artifact_put_def Let_def update_conv' sha256_hex_bytes_def inj_on_def)

lemma artifact_get_put:
  "artifact_get sha t (fst (artifact_put sha t m c k r S)) (snd (artifact_put sha t m c k r S)) = Inr (stored_bytes sha c r)"
  by (simp add: artifact_get_def artifact_put_def Let_def update_conv')

section \<open>Histories\<close>

text \<open>The operations of the attempt store as one step relation.\<close>

inductive attempt_step :: "attempt_store \<Rightarrow> attempt_store \<Rightarrow> bool" where
  create_step: "attempt_create a S = (r, S') \<Longrightarrow> attempt_step S S'"
| replace_step: "attempt_replace a S = (r, S') \<Longrightarrow> attempt_step S S'"

lemma empty_attempts_inv [simp]: "attempts_inv empty_attempts"
  by (simp add: attempts_inv_def empty_attempts_def attempt_get_def)

lemma attempt_steps_inv: "attempt_step\<^sup>*\<^sup>* S S' \<Longrightarrow> attempts_inv S \<Longrightarrow> attempts_inv S'"
proof (induction rule: rtranclp_induct)
  case (step S1 S2)
  from step(2) step.IH [OF step.prems] show ?case
    by (cases rule: attempt_step.cases) (auto intro: inv_intros)
qed

lemma attempt_step_identity:
  assumes "attempt_step S S'" "attempts_inv S" "attempt_get t i S = Some a"
  shows "\<exists>b. attempt_get t i S' = Some b \<and> att_action_id b = att_action_id a \<and> att_run_id b = att_run_id a"
  using assms(1)
proof (cases rule: attempt_step.cases)
  case (create_step c r)
  show ?thesis
  proof (cases r)
    case (Inl e)
    with create_step assms(3) show ?thesis by (auto dest: mem_attempts.create_raises)
  next
    case (Inr u)
    with create_step have new: "attempt_create c S = (Inr u, S')" by simp
    then have "attempt_get t (att_attempt_id c) S = None" by (auto dest: mem_attempts.create_returns)
    with new assms(3) show ?thesis by (auto simp: mem_attempts.create_returns [OF new])
  qed
next
  case (replace_step c r)
  show ?thesis
  proof (cases r)
    case (Inl e)
    with replace_step assms(3) show ?thesis by (auto dest: mem_attempts.replace_raises)
  next
    case (Inr u)
    with replace_step have "attempt_replace c S = (Inr u, S')" by simp
    from mem_attempts.replace_returns [OF this] assms(3) show ?thesis by auto
  qed
qed

lemma attempt_steps_identity:
  assumes "attempt_step\<^sup>*\<^sup>* S S'" "attempts_inv S" "attempt_get t i S = Some a"
  shows "\<exists>b. attempt_get t i S' = Some b \<and> att_action_id b = att_action_id a \<and> att_run_id b = att_run_id a"
  using assms
proof (induction rule: rtranclp_induct)
  case (step S1 S2)
  then obtain b where "attempt_get t i S1 = Some b" "att_action_id b = att_action_id a" "att_run_id b = att_run_id a"
    by blast
  moreover have "attempts_inv S1" using step by (blast intro: attempt_steps_inv)
  ultimately show ?case using attempt_step_identity [OF step(2)] by metis
qed simp

text \<open>A sequence of further puts, given by their arguments.\<close>

definition artifact_puts ::
  "sha256_fn \<Rightarrow> (string \<times> string \<times> string \<times> string \<times> bool) list \<Rightarrow> artifact_store \<Rightarrow> artifact_store" where
  "artifact_puts sha ops S = fold (\<lambda>(t, m, c, k, r) S. snd (artifact_put sha t m c k r S)) ops S"

lemma artifact_puts_keep:
  assumes "artifacts_inv sha S" "map_of (arts_content S) (u, l) = Some d"
    and "\<forall>(t, m, c, k, r) \<in> set ops. sha (stored_bytes sha c r) = sha d \<longrightarrow> stored_bytes sha c r = d"
  shows "map_of (arts_content (artifact_puts sha ops S)) (u, l) = Some d"
  using assms
proof (induction ops arbitrary: S)
  case Nil
  then show ?case by (simp add: artifact_puts_def)
next
  case (Cons p ops)
  obtain t m c k r where p: "p = (t, m, c, k, r)" by (cases p) blast
  let ?S = "snd (artifact_put sha t m c k r S)"
  have "inj_on sha {d, stored_bytes sha c r}" using Cons.prems(3) p by (auto simp: inj_on_def)
  with Cons.prems have "map_of (arts_content ?S) (u, l) = Some d" by (intro artifact_put_keeps)
  with Cons.prems have "map_of (arts_content (artifact_puts sha ops ?S)) (u, l) = Some d"
    by (intro Cons.IH artifact_put_inv) auto
  then show ?case by (simp add: artifact_puts_def p)
qed

section \<open>Properties\<close>

text \<open>
  At most one execution per idempotency key. Once a tenant's key has been granted to an action
  digest, then after any history of claims and completions a further claim of it is never granted:
  the same digest is told that the key is taken, any other digest raises \<open>DuplicateActionError\<close>.
\<close>

theorem idempotency_key_granted_once:
  assumes "claim tenant key dig S = (Inr True, S1)" "idem_step\<^sup>*\<^sup>* S1 S2"
  shows "fst (claim tenant key dig' S2) =
    (if dig' = dig then Inr False
     else Inl (DuplicateActionError (''idempotency key '' @ key @ '' already belongs to another action digest'')))"
proof -
  have "claim_owner tenant key S1 = Some dig" using mem_idem.claim_granted [OF assms(1)] by simp
  with assms(2) have "claim_owner tenant key S2 = Some dig" by (rule idem_steps_owner)
  then show ?thesis by (auto simp: claim_def claim_owner_def)
qed

theorem idempotency_key_granted_once_witness:
  "\<exists>S1. claim ''acme'' ''k1'' ''d1'' empty_idempotency = (Inr True, S1)
    \<and> fst (claim ''acme'' ''k1'' ''d1'' (snd (complete ''acme'' ''k1'' sample_result S1))) = Inr False"
proof -
  obtain S1 where S1: "claim ''acme'' ''k1'' ''d1'' empty_idempotency = (Inr True, S1)"
    by (simp add: claim_def empty_idempotency_def entry_of_def)
  have "idem_step S1 (snd (complete ''acme'' ''k1'' sample_result S1))"
    by (rule idem_step.complete_step [of "''acme''" "''k1''" sample_result _ "fst (complete ''acme'' ''k1'' sample_result S1)"]) simp
  then have "idem_step\<^sup>*\<^sup>* S1 (snd (complete ''acme'' ''k1'' sample_result S1))" by (rule r_into_rtranclp)
  from idempotency_key_granted_once [OF S1 this, of "''d1''"] S1 show ?thesis by auto
qed

text \<open>
  Exact approvals. \<open>find_valid_approval\<close> returns an approval exactly when it is recorded for the
  action, was approved for this action digest, target digest, policy decision and revision, tenant
  and environment, has not expired, and no later recorded approval qualifies too.
\<close>

theorem find_valid_approval_exact:
  "find_valid_approval sha now action policy target_digest S = Some d \<longleftrightarrow>
    (\<exists>earlier later. approvals_for (act_action_id action) S = earlier @ d # later
      \<and> appr_outcome d = Approval_APPROVED \<and> appr_action_digest d = action_digest sha action
      \<and> appr_target_digest d = target_digest \<and> appr_policy_decision_id d = pol_decision_id policy
      \<and> appr_policy_revision d = pol_policy_revision policy \<and> appr_tenant_id d = act_tenant_id action
      \<and> appr_environment d = target_environment (act_target action) \<and> now < appr_expires_at d
      \<and> \<not> list_ex (approval_authorizes sha now action policy target_digest) later)"
  unfolding find_valid_approval_def find_rev_Some approval_authorizes_def authorizes_iff list_ex_iff by blast

text \<open>
  Execution attempts are durable. From the empty store, through any history of creates and
  replaces, a recorded attempt stays recorded under its tenant and id and keeps its action and run,
  and the latest attempt of an action belongs to that tenant and action.
\<close>

theorem attempts_durable:
  assumes "attempt_step\<^sup>*\<^sup>* empty_attempts S" "attempt_get tenant aid S = Some a" "attempt_step\<^sup>*\<^sup>* S S'"
  shows "(\<exists>b. attempt_get tenant aid S' = Some b \<and> att_tenant_id b = tenant \<and> att_attempt_id b = aid
           \<and> att_action_id b = att_action_id a \<and> att_run_id b = att_run_id a)
    \<and> (\<exists>c. latest_for_action tenant (att_action_id a) S' = Some c
           \<and> att_tenant_id c = tenant \<and> att_action_id c = att_action_id a)"
proof -
  have inv: "attempts_inv S" using attempt_steps_inv [OF assms(1)] by simp
  with assms(3) have inv': "attempts_inv S'" by (rule attempt_steps_inv)
  obtain b where b: "attempt_get tenant aid S' = Some b" "att_action_id b = att_action_id a" "att_run_id b = att_run_id a"
    using attempt_steps_identity [OF assms(3) inv assms(2)] by blast
  with inv' obtain i where "map_of (ats_latest S') (tenant, att_action_id a) = Some i"
    unfolding attempts_inv_def by (metis option.exhaust_sel)
  moreover from this inv' obtain c where "attempt_get tenant i S' = Some c" "att_action_id c = att_action_id a"
    unfolding attempts_inv_def by blast
  ultimately have "latest_for_action tenant (att_action_id a) S' = Some c" "att_tenant_id c = tenant"
      "att_action_id c = att_action_id a"
    using inv' by (auto simp: latest_for_action_def attempt_get_def attempts_inv_def)
  with b inv' show ?thesis unfolding attempts_inv_def by blast
qed

theorem attempts_durable_witness:
  "\<exists>c. latest_for_action ''acme'' ''a1'' (store_attempt sample_attempt empty_attempts) = Some c \<and> att_action_id c = ''a1''"
proof -
  let ?S = "store_attempt sample_attempt empty_attempts"
  have "attempt_create sample_attempt empty_attempts = (Inr (), ?S)"
    by (simp add: attempt_create_def empty_attempts_def)
  then have "attempt_step\<^sup>*\<^sup>* empty_attempts ?S" by (blast intro: attempt_step.create_step)
  moreover have "attempt_get ''acme'' ''t1'' ?S = Some sample_attempt" by (simp add: sample_attempt_def)
  ultimately show ?thesis
    using attempts_durable [of ?S "''acme''" "''t1''" sample_attempt ?S] by (auto simp: sample_attempt_def)
qed

text \<open>
  Artifacts are retrievable and content-addressed. After a put, and any further puts of any
  tenant, the returned reference retrieves exactly the stored bytes (the content, or its redaction
  record), unless some later stored content collides with them under the hash function.
\<close>

theorem artifact_round_trip:
  assumes "artifact_put sha tenant media content classification redact empty_artifacts = (artifact, S)"
    and "\<forall>(t, m, c, k, r) \<in> set later.
      sha (stored_bytes sha c r) = sha (stored_bytes sha content redact) \<longrightarrow> stored_bytes sha c r = stored_bytes sha content redact"
  shows "artifact_get sha tenant artifact (artifact_puts sha later S) = Inr (stored_bytes sha content redact)"
proof -
  let ?l = "''memory://'' @ tenant @ ''/'' @ sha (stored_bytes sha content redact)"
  have art: "art_tenant_id artifact = tenant" "art_location artifact = Some ?l"
      "art_sha256 artifact = sha (stored_bytes sha content redact)"
    and S: "map_of (arts_content S) (tenant, ?l) = Some (stored_bytes sha content redact)"
    using assms(1) by (auto simp: artifact_put_def Let_def sha256_hex_bytes_def update_conv')
  have "artifacts_inv sha empty_artifacts" by (simp add: artifacts_inv_def empty_artifacts_def)
  with assms(1) have "artifacts_inv sha S" by (metis artifact_put_inv snd_conv)
  with S assms(2) have "map_of (arts_content (artifact_puts sha later S)) (tenant, ?l) = Some (stored_bytes sha content redact)"
    by (intro artifact_puts_keep)
  with art show ?thesis by (simp add: artifact_get_def sha256_hex_bytes_def)
qed

theorem artifact_round_trip_witness:
  "\<exists>artifact S. artifact_put (\<lambda>x. x) ''acme'' ''text/plain'' ''hello'' ''internal'' False empty_artifacts = (artifact, S)
    \<and> artifact_get (\<lambda>x. x) ''acme'' artifact
        (artifact_puts (\<lambda>x. x) [(''acme'', ''text/plain'', ''bye'', ''internal'', True)] S) = Inr ''hello''"
proof -
  obtain artifact S where
    put: "artifact_put (\<lambda>x. x) ''acme'' ''text/plain'' ''hello'' ''internal'' False empty_artifacts = (artifact, S)"
    by (meson surj_pair)
  have "artifact_get (\<lambda>x. x) ''acme'' artifact
      (artifact_puts (\<lambda>x. x) [(''acme'', ''text/plain'', ''bye'', ''internal'', True)] S) = Inr (stored_bytes (\<lambda>x. x) ''hello'' False)"
    by (rule artifact_round_trip [OF put]) simp
  with put show ?thesis by (auto simp: stored_bytes_def)
qed

end
