(* ===== verification/Policy.thy ===== *)
theory Policy
  imports Sample_Data "HOL-Library.Sublist"
begin

text \<open>
  Policy evaluation: the language-neutral semantics of \<open>policy_semantics.py\<close> (the default profile
  and the fail-closed conjunction) and the two engines of \<open>policy.py\<close> built on them. A policy
  engine is an argument of the conjunction: the decision, or the exception, its one call returns.
  \<open>uuid5\<close> is \<open>uuid.uuid5(NAMESPACE_URL, _)\<close> and \<open>now\<close> the one clock reading of a call.
\<close>

section \<open>Semantics (policy\_semantics.py)\<close>

record policy_semantic_decision =
  sem_engine :: string
  sem_outcome :: policy_outcome
  sem_reason_codes :: "string list"
  sem_required_approval_roles :: "string list"
  sem_constraints :: "(string \<times> pyval) list"

record policy_semantic_result =
  semr_outcome :: policy_outcome
  semr_reason_codes :: "string list"
  semr_required_approval_roles :: "string list"
  semr_constraints :: "(string \<times> pyval) list"

definition evaluate_default_policy_semantics :: "effect_class \<Rightarrow> risk_class \<Rightarrow> policy_semantic_result" where
  "evaluate_default_policy_semantics effect_class risk_class =
    (if effect_class = Effect_PRIVILEGED \<and> risk_class = Risk_CRITICAL
     then \<lparr>semr_outcome = Policy_DENY,
           semr_reason_codes = [''critical_privileged_action_denied_by_default''],
           semr_required_approval_roles = [], semr_constraints = []\<rparr>
     else if effect_class \<in> {Effect_WRITE, Effect_DESTRUCTIVE, Effect_PRIVILEGED} \<or> risk_class \<in> {Risk_HIGH, Risk_CRITICAL}
     then \<lparr>semr_outcome = Policy_REQUIRE_APPROVAL,
           semr_reason_codes = [''side_effect_requires_exact_approval''],
           semr_required_approval_roles = [''production_approver''], semr_constraints = []\<rparr>
     else \<lparr>semr_outcome = Policy_ALLOW, semr_reason_codes = [''low_risk_action_allowed''],
           semr_required_approval_roles = [], semr_constraints = []\<rparr>)"

text \<open>
  Python's \<open>==\<close> on constraint values: booleans and integers compare as numbers, a float whose
  \<open>repr\<close> ends in \<open>.0\<close> compares as that integer, other floats by their \<open>repr\<close>, and \<open>nan\<close> differs
  from everything. (Integral floats of magnitude \<open>1e16\<close> and more print with an exponent and are
  compared by their \<open>repr\<close> only.)
\<close>

definition float_int :: "string \<Rightarrow> int option" where
  "float_int t =
    (let n = length t - 2; d = take n t; neg = (d \<noteq> [] \<and> hd d = CHR ''-''); ds = (if neg then tl d else d)
     in if 2 \<le> length t \<and> drop n t = ''.0'' \<and> ds \<noteq> [] \<and> list_all is_digit ds
        then Some (if neg then - int (digits_val ds) else int (digits_val ds))
        else None)"

fun num_of :: "pyval \<Rightarrow> int option" where
  "num_of (PBool b) = Some (if b then 1 else 0)"
| "num_of (PInt i) = Some i"
| "num_of (PFloat t) = float_int t"
| "num_of _ = None"

definition py_eq :: "pyval \<Rightarrow> pyval \<Rightarrow> bool" where
  "py_eq v w =
    (case num_of v of
       Some i \<Rightarrow> num_of w = Some i
     | None \<Rightarrow> v = w \<and> v \<noteq> PFloat ''nan'')"

text \<open>Python's \<open>==\<close> on nested values: containers element-wise, dictionaries by key, scalars as \<open>py_eq\<close>.\<close>

function (sequential) value_eq :: "pyval \<Rightarrow> pyval \<Rightarrow> bool" where
  "value_eq (PList vs) (PList ws) = (length vs = length ws \<and> list_all (\<lambda>i. value_eq (vs ! i) (ws ! i)) [0..<length vs])"
| "value_eq (PTuple vs) (PTuple ws) = (length vs = length ws \<and> list_all (\<lambda>i. value_eq (vs ! i) (ws ! i)) [0..<length vs])"
| "value_eq (PDict kvs) (PDict lws) =
    (length kvs = length lws \<and>
     list_all (\<lambda>(k, v). case map_of lws k of None \<Rightarrow> False | Some w \<Rightarrow> value_eq v w) kvs)"
| "value_eq v w = py_eq v w"
  by pat_completeness auto

termination value_eq
  by (relation "measure (\<lambda>(v, w). size v)")
    (auto simp: less_Suc_eq_le intro: size_list_estimation' [OF nth_mem] size_list_estimation')

fun outcome_rank :: "policy_outcome \<Rightarrow> nat" where
  "outcome_rank Policy_ALLOW = 0"
| "outcome_rank Policy_REQUIRE_APPROVAL = 1"
| "outcome_rank Policy_DENY = 2"

text \<open>\<open>max(..., key=rank)\<close> keeps the first of the largest elements.\<close>

fun max_outcome :: "policy_outcome \<Rightarrow> policy_outcome list \<Rightarrow> policy_outcome" where
  "max_outcome best [] = best"
| "max_outcome best (x # xs) = max_outcome (if outcome_rank best < outcome_rank x then x else best) xs"

text \<open>One iteration of the loop that merges constraints, over all pairs in order.\<close>

definition merge_constraint ::
  "(string \<times> pyval) list \<times> string list \<Rightarrow> string \<times> pyval \<Rightarrow> (string \<times> pyval) list \<times> string list" where
  "merge_constraint st kv =
    (let constraints = fst st; conflicts = snd st; key = fst kv; value = snd kv
     in case map_of constraints key of
          Some old \<Rightarrow> if \<not> py_eq old value then (constraints, List.insert key conflicts)
                       else (AList.update key value constraints, conflicts)
        | None \<Rightarrow> (AList.update key value constraints, conflicts))"

definition merge_constraints :: "policy_semantic_decision list \<Rightarrow> (string \<times> pyval) list \<times> string list" where
  "merge_constraints ds = foldl (\<lambda>st d. foldl merge_constraint st (sem_constraints d)) ([], []) ds"

definition combine_policy_semantics :: "policy_semantic_decision list \<Rightarrow> policy_semantic_result result" where
  "combine_policy_semantics ds =
    (case ds of
       [] \<Rightarrow> Inl (ValueError ''conjunctive policy requires at least one decision'')
     | d # rest \<Rightarrow>
         let outcome = max_outcome (sem_outcome d) (map sem_outcome rest);
             reasons = concat (map (\<lambda>d. map (\<lambda>r. sem_engine d @ '':'' @ r) (sem_reason_codes d)) ds);
             roles = sort (remdups (concat (map sem_required_approval_roles ds)));
             (constraints, conflicts) = merge_constraints ds;
             outcome' = (if conflicts \<noteq> [] then Policy_DENY else outcome);
             reasons' = (if conflicts \<noteq> []
                         then reasons @ map (\<lambda>key. ''constraint_conflict:'' @ key) (sort conflicts) else reasons)
         in Inr \<lparr>semr_outcome = outcome',
                 semr_reason_codes = (if reasons' = [] then [''all_policy_engines_returned_no_reason''] else reasons'),
                 semr_required_approval_roles = roles, semr_constraints = constraints\<rparr>)"

section \<open>Engines (policy.py)\<close>

text \<open>Construction of a \<open>PolicyDecision\<close>: text fields are stripped, then the field types checked.\<close>

definition new_policy_decision :: "policy_decision \<Rightarrow> policy_decision result" where
  "new_policy_decision d =
    (let d' = d\<lparr>pol_tenant_id := strip (pol_tenant_id d), pol_policy_engine := strip (pol_policy_engine d),
               pol_policy_bundle := strip (pol_policy_bundle d), pol_policy_revision := strip (pol_policy_revision d),
               pol_reason_codes := map strip (pol_reason_codes d),
               pol_required_approval_roles := map strip (pol_required_approval_roles d)\<rparr>
     in if policy_decision_fields d' then Inr d' else Inl (ValueError ''validation error for PolicyDecision''))"

definition default_policy_evaluate ::
  "sha256_fn \<Rightarrow> (string \<Rightarrow> uuid) \<Rightarrow> datetime \<Rightarrow> string \<Rightarrow> action_spec \<Rightarrow> policy_decision result" where
  "default_policy_evaluate sha uuid5 now revision action =
    (let semantic = evaluate_default_policy_semantics (act_effect_class action) (act_risk_class action)
     in new_policy_decision
          \<lparr>pol_schema_name = ''prodkit.policy-decision'', pol_schema_version = ''1.0.0'',
           pol_decision_id = uuid5 (''prodkit-policy:'' @ revision @ '':'' @ action_digest sha action),
           pol_action_id = act_action_id action, pol_action_digest = action_digest sha action,
           pol_tenant_id = act_tenant_id action, pol_policy_engine = ''prodkit-default'',
           pol_policy_bundle = ''builtin'', pol_policy_revision = revision, pol_evaluated_at = now,
           pol_outcome = semr_outcome semantic, pol_reason_codes = semr_reason_codes semantic,
           pol_constraints = semr_constraints semantic,
           pol_required_approval_roles = semr_required_approval_roles semantic,
           pol_expires_at = Some (now + 900000000), pol_raw_decision_artifact_sha256 = None\<rparr>)"

type_synonym policy_engine = "action_spec \<Rightarrow> policy_decision result"

definition new_conjunctive_engine :: "policy_engine list \<Rightarrow> policy_engine list result" where
  "new_conjunctive_engine engines =
    (if engines = [] then Inl (ValueError ''conjunctive policy requires at least one engine'') else Inr engines)"

fun check_bindings :: "sha256_fn \<Rightarrow> action_spec \<Rightarrow> policy_decision list \<Rightarrow> unit result" where
  "check_bindings sha action [] = Inr ()"
| "check_bindings sha action (d # ds) =
    (if pol_action_id d \<noteq> act_action_id action \<or> pol_action_digest d \<noteq> action_digest sha action
     then Inl (IntegrityViolationError ''policy adapter returned a decision for another action'')
     else if pol_tenant_id d \<noteq> act_tenant_id action
     then Inl (IntegrityViolationError ''policy adapter returned a cross-tenant decision'')
     else check_bindings sha action ds)"

definition semantic_of :: "policy_decision \<Rightarrow> policy_semantic_decision" where
  "semantic_of d = \<lparr>sem_engine = pol_policy_engine d, sem_outcome = pol_outcome d,
     sem_reason_codes = pol_reason_codes d, sem_required_approval_roles = pol_required_approval_roles d,
     sem_constraints = pol_constraints d\<rparr>"

definition decision_fingerprint :: "sha256_fn \<Rightarrow> policy_decision list \<Rightarrow> string" where
  "decision_fingerprint sha ds = sha256_hex sha (PList (map (\<lambda>d. PDict
     [(KStr ''engine'', PStr (pol_policy_engine d)), (KStr ''bundle'', PStr (pol_policy_bundle d)),
      (KStr ''revision'', PStr (pol_policy_revision d)), (KStr ''decision_id'', PStr (pol_decision_id d)),
      (KStr ''outcome'', PStr (policy_outcome_value (pol_outcome d)))]) ds))"

definition min_expiry :: "policy_decision list \<Rightarrow> datetime option" where
  "min_expiry ds = (case List.map_filter pol_expires_at ds of [] \<Rightarrow> None | t # ts \<Rightarrow> Some (fold min ts t))"

definition conjunctive_policy_evaluate ::
  "sha256_fn \<Rightarrow> (string \<Rightarrow> uuid) \<Rightarrow> datetime \<Rightarrow> string \<Rightarrow> policy_engine list \<Rightarrow> action_spec \<Rightarrow> policy_decision result" where
  "conjunctive_policy_evaluate sha uuid5 now revision engines action =
    rbind (rmap (\<lambda>engine. engine action) engines) (\<lambda>ds.
    rbind (check_bindings sha action ds) (\<lambda>_.
    rbind (combine_policy_semantics (map semantic_of ds)) (\<lambda>semantic.
      new_policy_decision
        \<lparr>pol_schema_name = ''prodkit.policy-decision'', pol_schema_version = ''1.0.0'',
         pol_decision_id = uuid5 (''prodkit-policy:'' @ revision @ '':'' @ action_digest sha action @ '':'' @
           decision_fingerprint sha ds),
         pol_action_id = act_action_id action, pol_action_digest = action_digest sha action,
         pol_tenant_id = act_tenant_id action, pol_policy_engine = ''prodkit-conjunctive'',
         pol_policy_bundle = ''composed'', pol_policy_revision = revision, pol_evaluated_at = now,
         pol_outcome = semr_outcome semantic, pol_reason_codes = semr_reason_codes semantic,
         pol_constraints = semr_constraints semantic,
         pol_required_approval_roles = semr_required_approval_roles semantic,
         pol_expires_at = min_expiry ds, pol_raw_decision_artifact_sha256 = None\<rparr>)))"

section \<open>The merge of constraints\<close>

lemma py_eq_trans: "py_eq u v \<Longrightarrow> py_eq v w \<Longrightarrow> py_eq u w"
  by (auto simp: py_eq_def split: option.splits)

text \<open>The values given for a key, in order; the engines agree on it when no later one differs from an earlier one.\<close>

definition values_of :: "'k \<Rightarrow> ('k \<times> 'v) list \<Rightarrow> 'v list" where
  "values_of k xs = map snd (filter (\<lambda>kv. fst kv = k) xs)"

definition agreed :: "policy_semantic_decision list \<Rightarrow> string \<Rightarrow> bool" where
  "agreed ds k = sorted_wrt py_eq (values_of k (concat (map sem_constraints ds)))"

lemma values_of_snoc: "values_of k (xs @ [(l, w)]) = values_of k xs @ (if l = k then [w] else [])"
  by (simp add: values_of_def)

lemma merge_constraints_concat:
  "merge_constraints ds = foldl merge_constraint ([], []) (concat (map sem_constraints ds))"
proof -
  have "foldl (\<lambda>st d. foldl merge_constraint st (sem_constraints d)) st ds
      = foldl merge_constraint st (concat (map sem_constraints ds))" for st
    by (induction ds arbitrary: st) simp_all
  then show ?thesis by (simp add: merge_constraints_def)
qed

definition merge_inv :: "(string \<times> pyval) list \<Rightarrow> (string \<times> pyval) list \<times> string list \<Rightarrow> bool" where
  "merge_inv xs st \<longleftrightarrow>
    (\<forall>k. (map_of (fst st) k = None \<longleftrightarrow> values_of k xs = []) \<and>
         (k \<in> set (snd st) \<longleftrightarrow> \<not> sorted_wrt py_eq (values_of k xs)) \<and>
         (k \<notin> set (snd st) \<longrightarrow> values_of k xs \<noteq> [] \<longrightarrow> map_of (fst st) k = Some (last (values_of k xs))))"

lemma sorted_wrt_snoc_last:
  assumes "sorted_wrt R xs" "xs \<noteq> []" "R (last xs) y" "\<And>a b c. R a b \<Longrightarrow> R b c \<Longrightarrow> R a c"
  shows "sorted_wrt R (xs @ [y])"
proof -
  from assms(2) obtain ys x where xs: "xs = ys @ [x]" by (cases xs rule: rev_cases) auto
  with assms show ?thesis by (auto simp: sorted_wrt_append)
qed

lemma merge_step_inv:
  assumes inv: "merge_inv xs (c, conf)"
  shows "merge_inv (xs @ [(l, w)]) (merge_constraint (c, conf) (l, w))"
  unfolding merge_inv_def
proof (intro allI)
  fix k
  let ?st = "merge_constraint (c, conf) (l, w)"
  let ?vs = "values_of k xs"
  let ?ws = "values_of k (xs @ [(l, w)])"
  have k: "(map_of c k = None \<longleftrightarrow> ?vs = []) \<and> (k \<in> set conf \<longleftrightarrow> \<not> sorted_wrt py_eq ?vs) \<and>
      (k \<notin> set conf \<longrightarrow> ?vs \<noteq> [] \<longrightarrow> map_of c k = Some (last ?vs))"
    using inv by (simp add: merge_inv_def)
  show "(map_of (fst ?st) k = None \<longleftrightarrow> ?ws = []) \<and> (k \<in> set (snd ?st) \<longleftrightarrow> \<not> sorted_wrt py_eq ?ws) \<and>
      (k \<notin> set (snd ?st) \<longrightarrow> ?ws \<noteq> [] \<longrightarrow> map_of (fst ?st) k = Some (last ?ws))"
  proof (cases "l = k")
    case False
    with k show ?thesis
      by (auto simp: merge_constraint_def values_of_snoc update_conv' split: option.splits)
  next
    case l: True
    then have ws: "?ws = ?vs @ [w]" by (simp add: values_of_snoc)
    show ?thesis
    proof (cases "map_of c k")
      case None
      with k have "?vs = []" "k \<notin> set conf" by auto
      with None l ws show ?thesis by (simp add: merge_constraint_def update_conv')
    next
      case (Some v)
      with k have vs: "?vs \<noteq> []" by auto
      show ?thesis
      proof (cases "k \<in> set conf")
        case True
        with k have "\<not> sorted_wrt py_eq ?ws" by (simp add: ws sorted_wrt_append)
        with True Some l ws show ?thesis by (auto simp: merge_constraint_def update_conv')
      next
        case fresh: False
        with k vs Some have v: "v = last ?vs" and sorted: "sorted_wrt py_eq ?vs" by auto
        show ?thesis
        proof (cases "py_eq v w")
          case True
          with v sorted vs have "sorted_wrt py_eq ?ws"
            unfolding ws by (intro sorted_wrt_snoc_last) (auto intro: py_eq_trans)
          with True fresh Some l ws show ?thesis by (simp add: merge_constraint_def update_conv')
        next
          case False
          with v vs have "\<not> sorted_wrt py_eq ?ws" unfolding ws sorted_wrt_append using last_in_set by auto
          with False Some l ws show ?thesis by (simp add: merge_constraint_def)
        qed
      qed
    qed
  qed
qed

lemma merge_all_inv: "merge_inv xs (foldl merge_constraint ([], []) xs)"
proof (induction xs rule: rev_induct)
  case Nil
  then show ?case by (simp add: merge_inv_def values_of_def)
next
  case (snoc kv xs)
  obtain l w where kv: "kv = (l, w)" by fastforce
  obtain c conf where st: "foldl merge_constraint ([], []) xs = (c, conf)" by fastforce
  with snoc have "merge_inv (xs @ [(l, w)]) (merge_constraint (c, conf) (l, w))"
    by (intro merge_step_inv) simp
  then show ?case by (simp add: kv st)
qed

lemma conflicts_iff: "k \<in> set (snd (merge_constraints ds)) \<longleftrightarrow> \<not> agreed ds k"
  using merge_all_inv [of "concat (map sem_constraints ds)"]
  by (simp add: merge_inv_def merge_constraints_concat agreed_def)

lemma merged_constraint:
  assumes "agreed ds k"
  shows "map_of (fst (merge_constraints ds)) k =
    (let vs = values_of k (concat (map sem_constraints ds)) in if vs = [] then None else Some (last vs))"
  using merge_all_inv [of "concat (map sem_constraints ds)"] assms
  by (simp add: merge_inv_def merge_constraints_concat agreed_def Let_def)

section \<open>The combined outcome\<close>

definition strictest :: "policy_outcome list \<Rightarrow> policy_outcome" where
  "strictest xs = (if Policy_DENY \<in> set xs then Policy_DENY
     else if Policy_REQUIRE_APPROVAL \<in> set xs then Policy_REQUIRE_APPROVAL else Policy_ALLOW)"

lemma max_outcome_strictest: "max_outcome best xs = strictest (best # xs)"
proof (induction xs arbitrary: best)
  case Nil
  then show ?case by (cases best) (simp_all add: strictest_def)
next
  case (Cons x xs)
  then show ?case by (cases best; cases x) (simp_all add: strictest_def)
qed

lemma combine_outcome:
  assumes "combine_policy_semantics ds = Inr r"
  shows "semr_outcome r = (if \<exists>k. \<not> agreed ds k then Policy_DENY else strictest (map sem_outcome ds))"
proof -
  from assms obtain d rest where ds: "ds = d # rest" by (cases ds) (auto simp: combine_policy_semantics_def)
  have "snd (merge_constraints ds) \<noteq> [] \<longleftrightarrow> (\<exists>k. \<not> agreed ds k)"
    using conflicts_iff [of _ ds] by (metis list.set_intros(1) list.set_cases empty_iff list.set(1) neq_Nil_conv)
  with assms ds show ?thesis
    by (auto simp: combine_policy_semantics_def Let_def max_outcome_strictest split: prod.splits)
qed

lemma combine_total: "ds \<noteq> [] \<Longrightarrow> \<exists>r. combine_policy_semantics ds = Inr r"
  by (cases ds) (auto simp: combine_policy_semantics_def Let_def split: prod.splits)

lemma combine_roles:
  "combine_policy_semantics ds = Inr r \<Longrightarrow>
    set (semr_required_approval_roles r) = (\<Union>d \<in> set ds. set (sem_required_approval_roles d))"
  by (cases ds) (auto simp: combine_policy_semantics_def Let_def split: prod.splits)

lemma subseq_subset: "subseq xs ys \<Longrightarrow> set xs \<subseteq> set ys"
  by (induction rule: list_emb.induct) auto

lemma sorted_wrt_subseq: "subseq xs ys \<Longrightarrow> sorted_wrt R ys \<Longrightarrow> sorted_wrt R xs"
  by (induction rule: list_emb.induct) (auto dest: subseq_subset)

lemma agreed_subseq:
  assumes "subseq ds ds'" "agreed ds' k"
  shows "agreed ds k"
proof -
  have "subseq (concat (map sem_constraints ds)) (concat (map sem_constraints ds'))"
    using assms(1) by (induction) (auto intro: list_emb_append_mono subseq_order.trans)
  then have "subseq (values_of k (concat (map sem_constraints ds))) (values_of k (concat (map sem_constraints ds')))"
    unfolding values_of_def by (intro subseq_map subseq_filter)
  with assms(2) show ?thesis unfolding agreed_def by (blast intro: sorted_wrt_subseq)
qed

lemma strictest_mono: "set xs \<subseteq> set ys \<Longrightarrow> outcome_rank (strictest xs) \<le> outcome_rank (strictest ys)"
  by (auto simp: strictest_def)

lemma outcome_rank_le_2: "outcome_rank x \<le> 2"
  by (cases x) simp_all

lemma combine_mono:
  assumes "combine_policy_semantics ds = Inr r" "combine_policy_semantics ds' = Inr r'" "subseq ds ds'"
  shows "outcome_rank (semr_outcome r) \<le> outcome_rank (semr_outcome r')"
proof -
  have "set (map sem_outcome ds) \<subseteq> set (map sem_outcome ds')"
    using subseq_subset [OF assms(3)] by auto
  then show ?thesis
    using agreed_subseq [OF assms(3)] strictest_mono outcome_rank_le_2
    by (auto simp: combine_outcome [OF assms(1)] combine_outcome [OF assms(2)])
qed

lemma check_bindings_iff:
  "check_bindings sha action ds = Inr () \<longleftrightarrow>
    (\<forall>d \<in> set ds. pol_action_id d = act_action_id action \<and> pol_action_digest d = action_digest sha action
       \<and> pol_tenant_id d = act_tenant_id action)"
  by (induction ds) auto

lemma new_policy_decision_keeps:
  assumes "new_policy_decision d = Inr d'"
  shows "pol_outcome d' = pol_outcome d \<and> pol_action_id d' = pol_action_id d \<and>
    pol_action_digest d' = pol_action_digest d \<and> pol_expires_at d' = pol_expires_at d \<and>
    pol_tenant_id d' = strip (pol_tenant_id d) \<and>
    pol_required_approval_roles d' = map strip (pol_required_approval_roles d)"
  using assms by (auto simp: new_policy_decision_def Let_def split: if_splits)

lemma conjunctive_returns:
  assumes "conjunctive_policy_evaluate sha uuid5 now revision engines action = Inr p"
  obtains ds semantic where "rmap (\<lambda>engine. engine action) engines = Inr ds" "check_bindings sha action ds = Inr ()"
    "combine_policy_semantics (map semantic_of ds) = Inr semantic"
    "pol_outcome p = semr_outcome semantic" "pol_action_id p = act_action_id action"
    "pol_action_digest p = action_digest sha action" "pol_expires_at p = min_expiry ds"
    "pol_required_approval_roles p = map strip (semr_required_approval_roles semantic)"
proof -
  from assms obtain ds u semantic where steps: "rmap (\<lambda>engine. engine action) engines = Inr ds"
      "check_bindings sha action ds = Inr u" "combine_policy_semantics (map semantic_of ds) = Inr semantic"
    and new: "new_policy_decision
        \<lparr>pol_schema_name = ''prodkit.policy-decision'', pol_schema_version = ''1.0.0'',
         pol_decision_id = uuid5 (''prodkit-policy:'' @ revision @ '':'' @ action_digest sha action @ '':'' @
           decision_fingerprint sha ds),
         pol_action_id = act_action_id action, pol_action_digest = action_digest sha action,
         pol_tenant_id = act_tenant_id action, pol_policy_engine = ''prodkit-conjunctive'',
         pol_policy_bundle = ''composed'', pol_policy_revision = revision, pol_evaluated_at = now,
         pol_outcome = semr_outcome semantic, pol_reason_codes = semr_reason_codes semantic,
         pol_constraints = semr_constraints semantic,
         pol_required_approval_roles = semr_required_approval_roles semantic,
         pol_expires_at = min_expiry ds, pol_raw_decision_artifact_sha256 = None\<rparr> = Inr p"
    unfolding conjunctive_policy_evaluate_def rbind_eq_Inr by blast
  show thesis using that [of ds semantic] steps new_policy_decision_keeps [OF new] by simp
qed

lemma rmap_mem: "rmap f xs = Inr ys \<Longrightarrow> x \<in> set xs \<Longrightarrow> \<exists>y \<in> set ys. f x = Inr y"
  by (induction xs arbitrary: ys) auto

lemma fold_min_le: "fold min ts t \<le> t \<and> (\<forall>x \<in> set ts. fold min ts t \<le> (x :: int))"
proof (induction ts arbitrary: t)
  case (Cons a ts)
  from Cons [of "min a t"] show ?case by fastforce
qed simp

lemma min_expiry_le:
  assumes "d \<in> set ds" "pol_expires_at d = Some t"
  shows "\<exists>u. min_expiry ds = Some u \<and> u \<le> t"
proof -
  have "t \<in> set (List.map_filter pol_expires_at ds)"
    using assms by (force simp: List.map_filter_def)
  then show ?thesis
    using fold_min_le by (fastforce simp: min_expiry_def split: list.splits)
qed

section \<open>Properties\<close>

text \<open>
  C3: The conjunction is fail-closed and exact. The combined outcome is \<open>DENY\<close> when the engines give
  unequal values for one constraint key, and otherwise the strictest outcome any engine returned;
  with no decision at all the combination raises.
\<close>

theorem policy_conjunction_exact:
  "combine_policy_semantics [] = Inl (ValueError ''conjunctive policy requires at least one decision'') \<and>
   (\<exists>r. combine_policy_semantics (d # ds) = Inr r \<and>
     semr_outcome r = (if \<exists>k. \<not> agreed (d # ds) k then Policy_DENY else strictest (map sem_outcome (d # ds))) \<and>
     set (semr_required_approval_roles r) = (\<Union>x \<in> set (d # ds). set (sem_required_approval_roles x)))"
proof -
  obtain r where "combine_policy_semantics (d # ds) = Inr r" using combine_total by blast
  then show ?thesis
    using combine_outcome combine_roles by (auto simp: combine_policy_semantics_def [of "[]"])
qed

text \<open>
  No engine can weaken a stricter decision. Adding engines anywhere in the conjunction never
  lowers the rank of the combined outcome (\<open>ALLOW\<close>, \<open>REQUIRE_APPROVAL\<close>, \<open>DENY\<close>).
\<close>

theorem policy_engines_only_tighten:
  assumes "combine_policy_semantics ds = Inr r" "combine_policy_semantics ds' = Inr r'" "subseq ds ds'"
  shows "outcome_rank (semr_outcome r) \<le> outcome_rank (semr_outcome r')"
  using assms by (rule combine_mono)

definition sample_semantic :: "policy_outcome \<Rightarrow> pyval \<Rightarrow> policy_semantic_decision" where
  "sample_semantic x v = \<lparr>sem_engine = ''opa'', sem_outcome = x, sem_reason_codes = [''ok''],
     sem_required_approval_roles = [], sem_constraints = [(''max_rows'', v)]\<rparr>"

theorem policy_engines_only_tighten_witness:
  "\<exists>r r'. combine_policy_semantics [sample_semantic Policy_ALLOW (PInt 1)] = Inr r \<and>
     combine_policy_semantics [sample_semantic Policy_ALLOW (PInt 2), sample_semantic Policy_ALLOW (PInt 1)] = Inr r' \<and>
     semr_outcome r' = Policy_DENY \<and> outcome_rank (semr_outcome r) \<le> outcome_rank (semr_outcome r')"
proof -
  let ?a = "sample_semantic Policy_ALLOW (PInt 1)" and ?b = "sample_semantic Policy_ALLOW (PInt 2)"
  obtain r r' where r: "combine_policy_semantics [?a] = Inr r" "combine_policy_semantics [?b, ?a] = Inr r'"
    using combine_total by (metis list.distinct(1))
  moreover from this have "semr_outcome r' = Policy_DENY"
    by (auto simp: combine_policy_semantics_def merge_constraints_def merge_constraint_def sample_semantic_def py_eq_def Let_def)
  ultimately show ?thesis using policy_engines_only_tighten [OF r] by auto
qed

text \<open>
  C33: What a conjunctive decision is bound to. When the engine returns, every composed engine
  returned a decision for this action, digest and tenant; the result is bound to the same action
  and digest, is at least as strict as each of them, requires every role they require and expires
  no later than any of them.
\<close>

theorem conjunctive_decision_bound:
  assumes "conjunctive_policy_evaluate sha uuid5 now revision engines action = Inr p" "engine \<in> set engines"
  shows "\<exists>d. engine action = Inr d \<and> pol_action_id d = act_action_id action
     \<and> pol_action_digest d = action_digest sha action \<and> pol_tenant_id d = act_tenant_id action
     \<and> pol_action_id p = act_action_id action \<and> pol_action_digest p = action_digest sha action
     \<and> outcome_rank (pol_outcome d) \<le> outcome_rank (pol_outcome p)
     \<and> strip ` set (pol_required_approval_roles d) \<subseteq> set (pol_required_approval_roles p)
     \<and> (\<forall>t. pol_expires_at d = Some t \<longrightarrow> (\<exists>u. pol_expires_at p = Some u \<and> u \<le> t))"
proof -
  obtain ds semantic where
    ds: "rmap (\<lambda>engine. engine action) engines = Inr ds" and bind: "check_bindings sha action ds = Inr ()"
    and sem: "combine_policy_semantics (map semantic_of ds) = Inr semantic"
    and p: "pol_outcome p = semr_outcome semantic" "pol_action_id p = act_action_id action"
      "pol_action_digest p = action_digest sha action" "pol_expires_at p = min_expiry ds"
      "pol_required_approval_roles p = map strip (semr_required_approval_roles semantic)"
    using assms(1) by (rule conjunctive_returns)
  from ds assms(2) obtain d where d: "engine action = Inr d" "d \<in> set ds"
    using rmap_mem by (metis (lifting))
  obtain r where r: "combine_policy_semantics [semantic_of d] = Inr r" using combine_total by blast
  have "subseq [semantic_of d] (map semantic_of ds)" using d(2) by (simp add: subseq_singleton_left)
  with r sem have "outcome_rank (semr_outcome r) \<le> outcome_rank (pol_outcome p)" unfolding p by (rule combine_mono)
  moreover have "outcome_rank (pol_outcome d) \<le> outcome_rank (semr_outcome r)"
    using outcome_rank_le_2 by (cases "pol_outcome d") (auto simp: combine_outcome [OF r] strictest_def semantic_of_def)
  moreover have "strip ` set (pol_required_approval_roles d) \<subseteq> set (pol_required_approval_roles p)"
    using combine_roles [OF sem] d(2) p(5) by (force simp: semantic_of_def)
  moreover have "pol_action_id d = act_action_id action \<and> pol_action_digest d = action_digest sha action
      \<and> pol_tenant_id d = act_tenant_id action" using bind d(2) by (simp add: check_bindings_iff)
  ultimately show ?thesis
    using d(1) p(2-4) min_expiry_le [OF d(2)] by auto
qed

lemma strip_literals [simp]:
  "strip ''prodkit-default'' = ''prodkit-default''" "strip ''builtin'' = ''builtin''"
  "strip ''production_approver'' = ''production_approver''" "strip ''v1'' = ''v1''" "strip ''acme'' = ''acme''"
  "strip ''side_effect_requires_exact_approval'' = ''side_effect_requires_exact_approval''"
  "strip ''prodkit-conjunctive'' = ''prodkit-conjunctive''" "strip ''composed'' = ''composed''"
  "strip ''prodkit-default:side_effect_requires_exact_approval'' = ''prodkit-default:side_effect_requires_exact_approval''"
  by (simp_all add: strip_def py_isspace_def)

definition sample_default_decision :: policy_decision where
  "sample_default_decision =
    \<lparr>pol_schema_name = ''prodkit.policy-decision'', pol_schema_version = ''1.0.0'', pol_decision_id = ''p2'',
     pol_action_id = ''a1'', pol_action_digest = action_digest zero_hash sample_action,
     pol_tenant_id = ''acme'', pol_policy_engine = ''prodkit-default'',
     pol_policy_bundle = ''builtin'', pol_policy_revision = ''v1'', pol_evaluated_at = 1000,
     pol_outcome = Policy_REQUIRE_APPROVAL, pol_reason_codes = [''side_effect_requires_exact_approval''],
     pol_constraints = [], pol_required_approval_roles = [''production_approver''],
     pol_expires_at = Some 900001000, pol_raw_decision_artifact_sha256 = None\<rparr>"

lemma sample_default_evaluate:
  "default_policy_evaluate zero_hash (\<lambda>_. ''p2'') 1000 ''v1'' sample_action = Inr sample_default_decision"
  by (simp add: default_policy_evaluate_def new_policy_decision_def policy_decision_fields_def Let_def
      evaluate_default_policy_semantics_def action_digest_def sha256_hex_def nonblank_def sample_default_decision_def)
     (simp add: sample_action_def)

theorem conjunctive_decision_bound_witness:
  "\<exists>p d. conjunctive_policy_evaluate zero_hash (\<lambda>_. ''p2'') 1000 ''v1''
            [default_policy_evaluate zero_hash (\<lambda>_. ''p2'') 1000 ''v1''] sample_action = Inr p \<and>
        default_policy_evaluate zero_hash (\<lambda>_. ''p2'') 1000 ''v1'' sample_action = Inr d \<and>
        pol_outcome d = Policy_REQUIRE_APPROVAL \<and> outcome_rank (pol_outcome d) \<le> outcome_rank (pol_outcome p)"
proof -
  let ?eng = "default_policy_evaluate zero_hash (\<lambda>_. ''p2'') 1000 ''v1''"
  have bound: "check_bindings zero_hash sample_action [sample_default_decision] = Inr ()"
    by (simp add: sample_default_decision_def) (simp add: sample_action_def)
  have sem: "combine_policy_semantics [semantic_of sample_default_decision] = Inr
      \<lparr>semr_outcome = Policy_REQUIRE_APPROVAL,
       semr_reason_codes = [''prodkit-default:side_effect_requires_exact_approval''],
       semr_required_approval_roles = [''production_approver''], semr_constraints = []\<rparr>"
    by (simp add: combine_policy_semantics_def merge_constraints_def semantic_of_def sample_default_decision_def)
  have tenant: "act_tenant_id sample_action = ''acme''" by (simp add: sample_action_def)
  obtain p where p: "conjunctive_policy_evaluate zero_hash (\<lambda>_. ''p2'') 1000 ''v1'' [?eng] sample_action = Inr p"
    by (simp add: conjunctive_policy_evaluate_def sample_default_evaluate bound sem new_policy_decision_def tenant
        policy_decision_fields_def action_digest_def sha256_hex_def nonblank_def Let_def del: check_bindings.simps)
  from conjunctive_decision_bound [OF p, of ?eng] p sample_default_evaluate show ?thesis
    by (auto simp: sample_default_decision_def)
qed

text \<open>
  The default profile. Only reads of low or medium risk are allowed outright, a privileged
  action of critical risk is always denied, and everything else requires the approval of a
  \<open>production_approver\<close>; the decision is bound to the action and expires 15 minutes later.
\<close>

theorem default_policy_table:
  assumes "default_policy_evaluate sha uuid5 now revision action = Inr p"
  shows "pol_action_id p = act_action_id action \<and> pol_action_digest p = action_digest sha action
    \<and> pol_expires_at p = Some (now + 15 * 60 * 1000000)
    \<and> (pol_outcome p = Policy_ALLOW \<longleftrightarrow>
        act_effect_class action = Effect_READ \<and> act_risk_class action \<in> {Risk_LOW, Risk_MEDIUM})
    \<and> (pol_outcome p = Policy_DENY \<longleftrightarrow>
        act_effect_class action = Effect_PRIVILEGED \<and> act_risk_class action = Risk_CRITICAL)
    \<and> pol_required_approval_roles p = (if pol_outcome p = Policy_REQUIRE_APPROVAL then [''production_approver''] else [])"
proof -
  let ?s = "evaluate_default_policy_semantics (act_effect_class action) (act_risk_class action)"
  have p: "pol_outcome p = semr_outcome ?s" "pol_action_id p = act_action_id action"
      "pol_action_digest p = action_digest sha action" "pol_expires_at p = Some (now + 900000000)"
      "pol_required_approval_roles p = map strip (semr_required_approval_roles ?s)"
    using new_policy_decision_keeps [OF assms [unfolded default_policy_evaluate_def Let_def]] by simp_all
  show ?thesis unfolding p
    by (cases "act_effect_class action"; cases "act_risk_class action"; simp add: evaluate_default_policy_semantics_def)
qed

theorem default_policy_table_witness:
  "\<exists>p. default_policy_evaluate zero_hash (\<lambda>_. ''p2'') 1000 ''v1'' sample_action = Inr p \<and>
     pol_outcome p \<noteq> Policy_ALLOW \<and> pol_outcome p \<noteq> Policy_DENY"
  using default_policy_table [OF sample_default_evaluate] sample_default_evaluate by (auto simp: sample_action_def)

end
