(* ===== verification/Broker.thy ===== *)
theory Broker
  imports Stores Policy
begin

text \<open>
  The action broker (\<open>broker.py\<close>): the fail-closed lifecycle of an externally visible action. The
  ports the broker is built with (\<open>core/ports.py\<close>) are the record \<open>broker\<close>: the stores it mutates
  are state-passing operations on their own state, and the adapters that live outside the control
  plane (policy engine, approval provider, executors, credential leases, verifier) are functions of
  the tick of the call, so that every call may return or raise anything. A tick also selects what
  the clock, \<open>uuid4\<close> and \<open>new_span_id\<close> return. \<open>w_calls\<close> is a ghost log of the executor calls.
  \<open>execute\<close> is modelled without interruption by other tasks; what the shared stores guarantee
  under interleaving is stated with the stores.
\<close>

section \<open>Executors and ports\<close>

record controlled_executor =
  exe_name :: string
  exe_version :: string
  exe_identity :: string
  exe_attempt_aware :: bool
  exe_lease_aware :: bool
  exe_execute :: "nat \<Rightarrow> action_spec \<Rightarrow> execution_result result"
  exe_execute_attempt :: "nat \<Rightarrow> action_spec \<Rightarrow> uuid \<Rightarrow> execution_result result"
  exe_execute_attempt_with_lease :: "nat \<Rightarrow> action_spec \<Rightarrow> uuid \<Rightarrow> credential_lease \<Rightarrow> execution_result result"
  exe_observe :: "nat \<Rightarrow> action_spec \<Rightarrow> execution_result \<Rightarrow> state_observation result"

text \<open>\<open>ExecutorRegistry\<close> of \<open>executors.py\<close>.\<close>

type_synonym executor_registry = "(string \<times> controlled_executor) list"

definition registry_register :: "controlled_executor \<Rightarrow> executor_registry \<Rightarrow> executor_registry result" where
  "registry_register executor R =
    (if exe_name executor \<in> fst ` set R
     then Inl (ValueError (''executor '' @ CHR 0x27 # exe_name executor @ CHR 0x27 # '' already registered''))
     else Inr (AList.update (exe_name executor) executor R))"

definition registry_get :: "string \<Rightarrow> executor_registry \<Rightarrow> controlled_executor result" where
  "registry_get name R =
    (case map_of R name of
       None \<Rightarrow> Inl (ExecutorNotFoundError (''no controlled executor named '' @ CHR 0x27 # name @ [CHR 0x27]))
     | Some e \<Rightarrow> Inr e)"

record lease_provider =
  lp_issue :: "nat \<Rightarrow> action_spec \<Rightarrow> string \<Rightarrow> credential_lease result"
  lp_revoke :: "nat \<Rightarrow> uuid \<Rightarrow> unit result"

record ('l, 'i, 'a) broker =
  brk_sha :: sha256_fn
  brk_clock :: "nat \<Rightarrow> datetime"
  brk_uuid4 :: "nat \<Rightarrow> uuid"
  brk_span :: "nat \<Rightarrow> string"
  brk_append :: "control_event_draft \<Rightarrow> ('l, control_event) prog"
  brk_policy :: "nat \<Rightarrow> action_spec \<Rightarrow> policy_decision result"
  brk_approvals :: "nat \<Rightarrow> action_spec \<Rightarrow> policy_decision \<Rightarrow> string \<Rightarrow> approval_decision option result"
  brk_claim :: "string \<Rightarrow> string \<Rightarrow> string \<Rightarrow> ('i, bool) prog"
  brk_complete :: "string \<Rightarrow> string \<Rightarrow> execution_result \<Rightarrow> ('i, unit) prog"
  brk_result :: "string \<Rightarrow> string \<Rightarrow> 'i \<Rightarrow> execution_result option"
  brk_executors :: executor_registry
  brk_verifier :: "nat \<Rightarrow> action_spec \<Rightarrow> execution_result \<Rightarrow> state_observation \<Rightarrow> verification_result result"
  brk_attempts :: bool
  brk_create_attempt :: "execution_attempt_record \<Rightarrow> ('a, unit) prog"
  brk_replace_attempt :: "execution_attempt_record \<Rightarrow> ('a, unit) prog"
  brk_leases :: "lease_provider option"

record executor_call =
  call_tenant :: string
  call_key :: string
  call_digest :: string
  call_executor :: string
  call_attempt :: "uuid option"
  call_lease :: "uuid option"

record ('l, 'i, 'a) world =
  w_ledger :: 'l
  w_idem :: 'i
  w_attempts :: 'a
  w_tick :: nat
  w_calls :: "executor_call list"

record broker_outcome =
  out_action :: action_spec
  out_result :: execution_result
  out_observation :: state_observation
  out_verification :: verification_result
  out_reused_idempotent_result :: bool

section \<open>Effects\<close>

definition ticked :: "(nat \<Rightarrow> 'r result) \<Rightarrow> (('l, 'i, 'a) world, 'r) prog" where
  "ticked f w = (f (w_tick w), w\<lparr>w_tick := Suc (w_tick w)\<rparr>)"

definition now :: "('l, 'i, 'a) broker \<Rightarrow> (('l, 'i, 'a) world, datetime) prog" where
  "now B = ticked (\<lambda>n. Inr (brk_clock B n))"

definition uuid4 :: "('l, 'i, 'a) broker \<Rightarrow> (('l, 'i, 'a) world, uuid) prog" where
  "uuid4 B = ticked (\<lambda>n. Inr (brk_uuid4 B n))"

definition new_span_id :: "('l, 'i, 'a) broker \<Rightarrow> (('l, 'i, 'a) world, string) prog" where
  "new_span_id B = ticked (\<lambda>n. Inr (brk_span B n))"

definition on_ledger :: "('l, 'r) prog \<Rightarrow> (('l, 'i, 'a) world, 'r) prog" where
  "on_ledger m w = (case m (w_ledger w) of (r, l) \<Rightarrow> (r, w\<lparr>w_ledger := l\<rparr>))"

definition on_idem :: "('i, 'r) prog \<Rightarrow> (('l, 'i, 'a) world, 'r) prog" where
  "on_idem m w = (case m (w_idem w) of (r, i) \<Rightarrow> (r, w\<lparr>w_idem := i\<rparr>))"

definition on_attempts :: "('a, 'r) prog \<Rightarrow> (('l, 'i, 'a) world, 'r) prog" where
  "on_attempts m w = (case m (w_attempts w) of (r, a) \<Rightarrow> (r, w\<lparr>w_attempts := a\<rparr>))"

definition log_call :: "executor_call \<Rightarrow> (('l, 'i, 'a) world, unit) prog" where
  "log_call c w = (Inr (), w\<lparr>w_calls := w_calls w @ [c]\<rparr>)"

text \<open>Construction of the contract models: field types, then the validator.\<close>

definition new_event_draft :: "control_event_draft \<Rightarrow> control_event_draft result" where
  "new_event_draft d =
    (if control_event_draft_fields d then validate_control_event_draft d
     else Inl (ValueError ''validation error for ControlEventDraft''))"

definition new_attempt_record :: "execution_attempt_record \<Rightarrow> execution_attempt_record result" where
  "new_attempt_record a =
    (let a' = a\<lparr>att_executor_name := strip (att_executor_name a), att_executor_version := strip (att_executor_version a),
               att_executor_identity := strip (att_executor_identity a)\<rparr>
     in if execution_attempt_record_fields a' then validate_execution_attempt a'
        else Inl (ValueError ''validation error for ExecutionAttemptRecord''))"

section \<open>Events\<close>

definition event ::
  "('l, 'i, 'a) broker \<Rightarrow> action_spec \<Rightarrow> actor_ref \<Rightarrow> string \<Rightarrow> event_type \<Rightarrow> (string \<times> pyval) list \<Rightarrow>
   (('l, 'i, 'a) world, unit) prog" where
  "event B action actor trace_id ty payload =
    bindE (now B) (\<lambda>now. bindE (uuid4 B) (\<lambda>event_id. bindE (new_span_id B) (\<lambda>span_id.
    bindE (lift_result (new_event_draft
      \<lparr>ev_schema_name = ''prodkit.control-event'', ev_schema_version = ''1.0.0'', ev_event_id = event_id,
       ev_run_id = act_run_id action, ev_tenant_id = act_tenant_id action, ev_event_type = ty,
       ev_occurred_at = now, ev_recorded_at = now, ev_actor = actor, ev_trace_id = trace_id,
       ev_span_id = span_id, ev_parent_event_id = None, ev_causation_event_id = None,
       ev_correlation_id = None, ev_action_id = Some (act_action_id action), ev_lineage = [],
       ev_payload = payload, ev_evidence = []\<rparr>)) (\<lambda>draft.
    bindE (on_ledger (brk_append B draft)) (\<lambda>_. ret ())))))"

section \<open>Authorisation\<close>

text \<open>The guards of \<open>execute\<close> up to the policy decision that may go on.\<close>

definition evaluate_policy ::
  "('l, 'i, 'a) broker \<Rightarrow> action_spec \<Rightarrow> actor_ref \<Rightarrow> string \<Rightarrow> (('l, 'i, 'a) world, policy_decision) prog" where
  "evaluate_policy B action actor trace_id =
    bindE (lift_result (raise_if (actor_tenant_id actor \<noteq> act_tenant_id action)
      (AuthorizationDeniedError ''actor tenant does not match action tenant''))) (\<lambda>_.
    bindE (case act_expires_at action of
        None \<Rightarrow> ret ()
      | Some t \<Rightarrow> bindE (now B) (\<lambda>now. lift_result (raise_if (t \<le> now)
          (AuthorizationDeniedError ''action has expired'')))) (\<lambda>_.
    bindE (event B action actor trace_id Event_ACTION_PROPOSED
      [(''action'', json_mode (dump_action_spec action)), (''action_digest'', PStr (action_digest (brk_sha B) action))]) (\<lambda>_.
    bindE (ticked (\<lambda>n. brk_policy B n action)) (\<lambda>policy.
    bindE (lift_result (raise_if (pol_action_digest policy \<noteq> action_digest (brk_sha B) action)
      (AuthorizationDeniedError ''policy decision is not bound to the action digest''))) (\<lambda>_.
    bindE (event B action actor trace_id Event_POLICY_EVALUATED
      [(''decision'', json_mode (dump_policy_decision policy))]) (\<lambda>_.
    bindE (lift_result (raise_if (pol_outcome policy = Policy_DENY)
      (AuthorizationDeniedError (''policy denied action: '' @
        (let reasons = join '', '' (pol_reason_codes policy) in if reasons = [] then ''no reason supplied'' else reasons))))) (\<lambda>_.
    ret policy)))))))"

definition decide_approval ::
  "('l, 'i, 'a) broker \<Rightarrow> action_spec \<Rightarrow> actor_ref \<Rightarrow> string \<Rightarrow> policy_decision \<Rightarrow> string \<Rightarrow>
   approval_decision option \<Rightarrow> (('l, 'i, 'a) world, unit) prog" where
  "decide_approval B action actor trace_id policy target_digest found =
    (case found of
       None \<Rightarrow>
         bindE (event B action actor trace_id Event_APPROVAL_REQUESTED
           [(''action_digest'', PStr (action_digest (brk_sha B) action)), (''target_digest'', PStr target_digest),
            (''policy_decision_id'', PStr (pol_decision_id policy)),
            (''required_roles'', PList (map PStr (pol_required_approval_roles policy)))]) (\<lambda>_.
         raise (ApprovalRequiredError (act_action_id action) (action_digest (brk_sha B) action)))
     | Some approval \<Rightarrow>
         bindE (event B action (appr_approver approval) trace_id Event_APPROVAL_DECIDED
           [(''approval'', json_mode (dump_approval_decision approval))]) (\<lambda>_.
         lift_result (raise_if (appr_outcome approval \<noteq> Approval_APPROVED)
           (ApprovalDeniedError (''approval '' @ appr_approval_id approval @ '' is not approved'')))))"

definition require_approval ::
  "('l, 'i, 'a) broker \<Rightarrow> action_spec \<Rightarrow> actor_ref \<Rightarrow> string \<Rightarrow> policy_decision \<Rightarrow> (('l, 'i, 'a) world, unit) prog" where
  "require_approval B action actor trace_id policy =
    (let target_digest = sha256_hex (brk_sha B) (dump_action_target (act_target action))
     in if pol_outcome policy = Policy_REQUIRE_APPROVAL then
          bindE (ticked (\<lambda>n. brk_approvals B n action policy target_digest))
            (decide_approval B action actor trace_id policy target_digest)
        else ret ())"

section \<open>Executor selection and credential leases\<close>

definition select_executor :: "('l, 'i, 'a) broker \<Rightarrow> action_spec \<Rightarrow> controlled_executor result" where
  "select_executor B action =
    rbind (registry_get (act_executor action) (brk_executors B)) (\<lambda>executor.
    rbind (raise_if ((brk_attempts B \<or> brk_leases B \<noteq> None) \<and> \<not> exe_attempt_aware executor)
      (AuthorizationDeniedError (''executor '' @ CHR 0x27 # exe_name executor @ CHR 0x27 #
        '' does not support durable attempt ownership''))) (\<lambda>_.
    rbind (raise_if (brk_leases B \<noteq> None \<and> \<not> exe_lease_aware executor)
      (AuthorizationDeniedError (''executor '' @ CHR 0x27 # exe_name executor @ CHR 0x27 #
        '' cannot consume an isolated credential lease''))) (\<lambda>_.
    Inr executor)))"

definition issue_lease ::
  "('l, 'i, 'a) broker \<Rightarrow> action_spec \<Rightarrow> actor_ref \<Rightarrow> string \<Rightarrow> controlled_executor \<Rightarrow>
   (('l, 'i, 'a) world, credential_lease option) prog" where
  "issue_lease B action actor trace_id executor =
    (case brk_leases B of
       None \<Rightarrow> ret None
     | Some provider \<Rightarrow>
         bindE (ticked (\<lambda>n. lp_issue provider n action (exe_identity executor))) (\<lambda>lease.
         bindE (event B action actor trace_id Event_CREDENTIAL_LEASE_ISSUED
           [(''lease_id'', PStr (lease_lease_id lease)), (''executor_identity'', PStr (lease_executor_identity lease)),
            (''audience'', PStr (lease_audience lease)), (''scopes'', PList (map PStr (lease_scopes lease))),
            (''issued_at'', PStr (isoformat_offset (lease_issued_at lease))),
            (''expires_at'', PStr (isoformat_offset (lease_expires_at lease)))]) (\<lambda>_.
         ret (Some lease))))"

definition revoke_lease ::
  "('l, 'i, 'a) broker \<Rightarrow> action_spec \<Rightarrow> actor_ref \<Rightarrow> string \<Rightarrow> credential_lease \<Rightarrow> (('l, 'i, 'a) world, unit) prog" where
  "revoke_lease B action actor trace_id lease =
    (case brk_leases B of
       None \<Rightarrow> ret ()
     | Some provider \<Rightarrow>
         bindE (try_prog (ticked (\<lambda>n. lp_revoke provider n (lease_lease_id lease))) (\<lambda>exc.
           bindE (event B action actor trace_id Event_CREDENTIAL_LEASE_REVOCATION_FAILED
             [(''lease_id'', PStr (lease_lease_id lease)), (''error_type'', PStr (exn_type exc))]) (\<lambda>_.
           raise exc))) (\<lambda>_.
         event B action actor trace_id Event_CREDENTIAL_LEASE_REVOKED [(''lease_id'', PStr (lease_lease_id lease))]))"

definition revoke_lease_opt ::
  "('l, 'i, 'a) broker \<Rightarrow> action_spec \<Rightarrow> actor_ref \<Rightarrow> string \<Rightarrow> credential_lease option \<Rightarrow> (('l, 'i, 'a) world, unit) prog" where
  "revoke_lease_opt B action actor trace_id lease =
    (case lease of None \<Rightarrow> ret () | Some l \<Rightarrow> revoke_lease B action actor trace_id l)"

section \<open>Observation and verification\<close>

definition validate_result ::
  "action_spec \<Rightarrow> controlled_executor \<Rightarrow> execution_result \<Rightarrow> bool \<Rightarrow> unit result" where
  "validate_result action executor result require_current_version =
    (if res_action_id result \<noteq> act_action_id action
     then Inl (IntegrityViolationError ''execution result is not bound to the requested action'')
     else if res_executor_name result \<noteq> exe_name executor
     then Inl (IntegrityViolationError ''execution result does not match the selected executor'')
     else if require_current_version \<and> res_executor_version result \<noteq> exe_version executor
     then Inl (IntegrityViolationError ''execution result does not match the selected executor version'')
     else Inr ())"

definition observe_and_verify ::
  "('l, 'i, 'a) broker \<Rightarrow> action_spec \<Rightarrow> actor_ref \<Rightarrow> string \<Rightarrow> controlled_executor \<Rightarrow> execution_result \<Rightarrow> bool \<Rightarrow>
   (('l, 'i, 'a) world, state_observation \<times> verification_result) prog" where
  "observe_and_verify B action actor trace_id executor result reused =
    bindE (ticked (\<lambda>n. exe_observe executor n action result)) (\<lambda>observation.
    bindE (lift_result (raise_if (obs_action_id observation \<noteq> act_action_id action)
      (IntegrityViolationError ''state observation is not bound to the requested action''))) (\<lambda>_.
    bindE (event B action actor trace_id Event_STATE_OBSERVED
      [(''observation'', json_mode (dump_state_observation observation)), (''reused_idempotent_result'', PBool reused)]) (\<lambda>_.
    bindE (ticked (\<lambda>n. brk_verifier B n action result observation)) (\<lambda>verification.
    bindE (lift_result (raise_if (ver_action_id verification \<noteq> act_action_id action)
      (IntegrityViolationError ''verification is not bound to the requested action''))) (\<lambda>_.
    bindE (event B action actor trace_id Event_VERIFICATION_COMPLETED
      [(''verification'', json_mode (dump_verification_result verification)), (''reused_idempotent_result'', PBool reused)]) (\<lambda>_.
    ret (observation, verification)))))))"

section \<open>Execution\<close>

text \<open>The durable attempt: recorded as claimed, then as started, before the executor is called.\<close>

definition start_attempt ::
  "('l, 'i, 'a) broker \<Rightarrow> action_spec \<Rightarrow> controlled_executor \<Rightarrow> (('l, 'i, 'a) world, execution_attempt_record option) prog" where
  "start_attempt B action executor =
    (if brk_attempts B then
       bindE (uuid4 B) (\<lambda>attempt_id. bindE (now B) (\<lambda>claimed_at.
       bindE (lift_result (new_attempt_record
         \<lparr>att_schema_name = ''prodkit.execution-attempt'', att_schema_version = ''1.0.0'', att_attempt_id = attempt_id,
          att_action_id = act_action_id action, att_run_id = act_run_id action, att_tenant_id = act_tenant_id action,
          att_idempotency_key = act_idempotency_key action, att_action_digest = action_digest (brk_sha B) action,
          att_executor_name = exe_name executor, att_executor_version = exe_version executor,
          att_executor_identity = exe_identity executor, att_state = Attempt_CLAIMED, att_claimed_at = claimed_at,
          att_started_at = None, att_finished_at = None, att_result_digest = None, att_provider_operation_id = None,
          att_error_type = None, att_error_message = None, att_uncertainty_reason = None\<rparr>)) (\<lambda>attempt.
       bindE (on_attempts (brk_create_attempt B attempt)) (\<lambda>_. bindE (now B) (\<lambda>started_at.
       let started = attempt\<lparr>att_state := Attempt_STARTED, att_started_at := Some started_at\<rparr>
       in bindE (on_attempts (brk_replace_attempt B started)) (\<lambda>_. ret (Some started)))))))
     else ret None)"

text \<open>The call of the executor: with the lease and the attempt, with the attempt, or plainly.\<close>

definition invoke_executor ::
  "('l, 'i, 'a) broker \<Rightarrow> action_spec \<Rightarrow> controlled_executor \<Rightarrow> uuid option \<Rightarrow> credential_lease option \<Rightarrow>
   (('l, 'i, 'a) world, execution_result) prog" where
  "invoke_executor B action executor attempt_id lease =
    (let call = (\<lambda>l. \<lparr>call_tenant = act_tenant_id action, call_key = act_idempotency_key action,
           call_digest = action_digest (brk_sha B) action, call_executor = exe_name executor,
           call_attempt = attempt_id, call_lease = l\<rparr>)
     in case (attempt_id, lease) of
          (Some a, Some l) \<Rightarrow>
            bindE (log_call (call (Some (lease_lease_id l)))) (\<lambda>_.
            ticked (\<lambda>n. exe_execute_attempt_with_lease executor n action a l))
        | (Some a, None) \<Rightarrow>
            bindE (log_call (call None)) (\<lambda>_. ticked (\<lambda>n. exe_execute_attempt executor n action a))
        | (None, _) \<Rightarrow>
            bindE (log_call (call None)) (\<lambda>_. ticked (\<lambda>n. exe_execute executor n action)))"

definition mark_uncertain ::
  "('l, 'i, 'a) broker \<Rightarrow> execution_attempt_record option \<Rightarrow> exn \<Rightarrow> string \<Rightarrow> (('l, 'i, 'a) world, unit) prog" where
  "mark_uncertain B attempt exc reason =
    (case attempt of
       None \<Rightarrow> ret ()
     | Some a \<Rightarrow>
         bindE (now B) (\<lambda>finished_at.
         on_attempts (brk_replace_attempt B
           (a\<lparr>att_state := Attempt_UNCERTAIN, att_finished_at := Some finished_at,
              att_error_type := Some (exn_type exc), att_error_message := Some (exn_str exc),
              att_uncertainty_reason := Some reason\<rparr>))))"

text \<open>The handler of a raising executor; it ends by raising the executor's exception again.\<close>

definition executor_failed ::
  "('l, 'i, 'a) broker \<Rightarrow> action_spec \<Rightarrow> actor_ref \<Rightarrow> string \<Rightarrow> controlled_executor \<Rightarrow>
   execution_attempt_record option \<Rightarrow> credential_lease option \<Rightarrow> exn \<Rightarrow> (('l, 'i, 'a) world, execution_result) prog" where
  "executor_failed B action actor trace_id executor attempt lease exc =
    bindE (mark_uncertain B attempt exc ''executor raised after execution was marked started'') (\<lambda>_.
    bindE (try_prog
        (bindE (revoke_lease_opt B action actor trace_id lease) (\<lambda>_. ret False))
        (\<lambda>revoke_exc. ret True)) (\<lambda>revocation_failed.
    bindE (event B action actor trace_id Event_EXECUTION_UNCERTAIN
      [(''executor'', PStr (exe_name executor)), (''executor_version'', PStr (exe_version executor)),
       (''action_digest'', PStr (action_digest (brk_sha B) action)),
       (''execution_attempt_id'', dump_opt PStr (map_option att_attempt_id attempt)),
       (''error_type'', PStr (exn_type exc)), (''idempotency_key_retained'', PBool True),
       (''automatic_retry_permitted'', PBool False),
       (''credential_revocation_failed'', PBool revocation_failed)]) (\<lambda>_.
    raise exc)))"

text \<open>After the executor returned: the result is checked, the lease revoked, the attempt closed and the claim completed.\<close>

definition revoke_after_execution ::
  "('l, 'i, 'a) broker \<Rightarrow> action_spec \<Rightarrow> actor_ref \<Rightarrow> string \<Rightarrow> controlled_executor \<Rightarrow>
   execution_attempt_record option \<Rightarrow> credential_lease option \<Rightarrow> (('l, 'i, 'a) world, unit) prog" where
  "revoke_after_execution B action actor trace_id executor attempt lease =
    try_prog (revoke_lease_opt B action actor trace_id lease) (\<lambda>exc.
      bindE (mark_uncertain B attempt exc ''executor returned but credential lease revocation failed'') (\<lambda>_.
      bindE (event B action actor trace_id Event_EXECUTION_UNCERTAIN
        [(''executor'', PStr (exe_name executor)),
         (''execution_attempt_id'', dump_opt PStr (map_option att_attempt_id attempt)),
         (''reason'', PStr ''credential_lease_revocation_failed''), (''idempotency_key_retained'', PBool True),
         (''automatic_retry_permitted'', PBool False)]) (\<lambda>_.
      raise (IntegrityViolationError ''credential lease revocation failed after external execution''))))"

definition close_attempt ::
  "('l, 'i, 'a) broker \<Rightarrow> execution_attempt_record option \<Rightarrow> execution_result \<Rightarrow> (('l, 'i, 'a) world, unit) prog" where
  "close_attempt B attempt result =
    (case attempt of
       None \<Rightarrow> ret ()
     | Some a \<Rightarrow> on_attempts (brk_replace_attempt B
         (a\<lparr>att_state := (if res_succeeded result then Attempt_SUCCEEDED else Attempt_FAILED),
            att_finished_at := Some (res_completed_at result),
            att_result_digest := Some (sha256_hex (brk_sha B) (dump_execution_result result)),
            att_provider_operation_id := res_provider_operation_id result,
            att_error_type := res_error_type result, att_error_message := res_error_message result\<rparr>)))"

definition finish_execution ::
  "('l, 'i, 'a) broker \<Rightarrow> action_spec \<Rightarrow> actor_ref \<Rightarrow> string \<Rightarrow> controlled_executor \<Rightarrow>
   execution_attempt_record option \<Rightarrow> credential_lease option \<Rightarrow> execution_result \<Rightarrow> (('l, 'i, 'a) world, broker_outcome) prog" where
  "finish_execution B action actor trace_id executor attempt lease result =
    bindE (lift_result (validate_result action executor result True)) (\<lambda>_.
    bindE (lift_result (raise_if (case attempt of None \<Rightarrow> False
        | Some a \<Rightarrow> res_execution_attempt_id result \<noteq> att_attempt_id a)
      (IntegrityViolationError ''executor changed the broker-owned execution attempt id''))) (\<lambda>_.
    bindE (revoke_after_execution B action actor trace_id executor attempt lease) (\<lambda>_.
    bindE (close_attempt B attempt result) (\<lambda>_.
    bindE (on_idem (brk_complete B (act_tenant_id action) (act_idempotency_key action) result)) (\<lambda>_.
    bindE (event B action actor trace_id Event_EXECUTION_COMPLETED
      [(''result'', json_mode (dump_execution_result result))]) (\<lambda>_.
    bindE (observe_and_verify B action actor trace_id executor result False) (\<lambda>(observation, verification).
    ret \<lparr>out_action = action, out_result = result, out_observation = observation,
         out_verification = verification, out_reused_idempotent_result = False\<rparr>)))))))"

text \<open>The two branches after the claim: a fresh claim executes, a held one reuses the recorded result.\<close>

definition execute_claimed ::
  "('l, 'i, 'a) broker \<Rightarrow> action_spec \<Rightarrow> actor_ref \<Rightarrow> string \<Rightarrow> controlled_executor \<Rightarrow>
   credential_lease option \<Rightarrow> (('l, 'i, 'a) world, broker_outcome) prog" where
  "execute_claimed B action actor trace_id executor lease =
    bindE (start_attempt B action executor) (\<lambda>attempt.
    bindE (event B action actor trace_id Event_EXECUTION_STARTED
      [(''executor'', PStr (exe_name executor)), (''executor_version'', PStr (exe_version executor)),
       (''action_digest'', PStr (action_digest (brk_sha B) action)),
       (''execution_attempt_id'', dump_opt PStr (map_option att_attempt_id attempt)),
       (''credential_lease_id'', dump_opt PStr (map_option lease_lease_id lease))]) (\<lambda>_.
    bindE (try_prog (invoke_executor B action executor (map_option att_attempt_id attempt) lease)
      (executor_failed B action actor trace_id executor attempt lease)) (\<lambda>result.
    finish_execution B action actor trace_id executor attempt lease result)))"

definition reuse_result ::
  "('l, 'i, 'a) broker \<Rightarrow> action_spec \<Rightarrow> actor_ref \<Rightarrow> string \<Rightarrow> controlled_executor \<Rightarrow>
   credential_lease option \<Rightarrow> (('l, 'i, 'a) world, broker_outcome) prog" where
  "reuse_result B action actor trace_id executor lease =
    bindE (revoke_lease_opt B action actor trace_id lease) (\<lambda>_.
    bindE (on_idem (\<lambda>i. (Inr (brk_result B (act_tenant_id action) (act_idempotency_key action) i), i))) (\<lambda>existing.
    case existing of
      None \<Rightarrow> raise (DuplicateActionError
        ''an identical action is already in progress or uncertain; execution is not duplicated'')
    | Some result \<Rightarrow>
        bindE (lift_result (validate_result action executor result False)) (\<lambda>_.
        bindE (observe_and_verify B action actor trace_id executor result True) (\<lambda>(observation, verification).
        ret \<lparr>out_action = action, out_result = result, out_observation = observation,
             out_verification = verification, out_reused_idempotent_result = True\<rparr>))))"

definition execute ::
  "('l, 'i, 'a) broker \<Rightarrow> action_spec \<Rightarrow> actor_ref \<Rightarrow> string \<Rightarrow> (('l, 'i, 'a) world, broker_outcome) prog" where
  "execute B action actor trace_id =
    bindE (evaluate_policy B action actor trace_id) (\<lambda>policy.
    bindE (require_approval B action actor trace_id policy) (\<lambda>_.
    bindE (lift_result (select_executor B action)) (\<lambda>executor.
    bindE (issue_lease B action actor trace_id executor) (\<lambda>lease.
    bindE (on_idem (brk_claim B (act_tenant_id action) (act_idempotency_key action) (action_digest (brk_sha B) action))) (\<lambda>claimed.
    if claimed then execute_claimed B action actor trace_id executor lease
    else reuse_result B action actor trace_id executor lease)))))"

end
