(* ===== verification/Broker_Safety.thy ===== *)
theory Broker_Safety
  imports Broker
begin

text \<open>
  What the broker guarantees. The locale \<open>broker_stores\<close> collects the contracts of the stores it is
  built with (ledger, idempotency, attempts); its lemmas hold for every such broker, and the
  interpretation at the end instantiates them with the in-memory stores of the standalone runtime.
\<close>

section \<open>Frames of the effects\<close>

text \<open>A step is quiet when it touches neither the idempotency store nor the log of executor calls.\<close>

definition quiet :: "('l, 'i, 'a) world \<Rightarrow> ('l, 'i, 'a) world \<Rightarrow> bool" where
  "quiet w w' \<longleftrightarrow> w_idem w' = w_idem w \<and> w_calls w' = w_calls w"

definition ledger_only :: "('l, 'i, 'a) world \<Rightarrow> ('l, 'i, 'a) world \<Rightarrow> bool" where
  "ledger_only w w' \<longleftrightarrow> w_idem w' = w_idem w \<and> w_calls w' = w_calls w \<and> w_attempts w' = w_attempts w"

lemma frame_orders [intro, simp]: "reflp quiet" "transp quiet" "reflp ledger_only" "transp ledger_only"
  by (auto simp: quiet_def ledger_only_def reflp_def transp_def)

lemma ledger_only_quiet: "keeps ledger_only m \<Longrightarrow> keeps quiet m"
  by (auto simp: keeps_def ledger_only_def quiet_def)

lemma effect_frames [intro]:
  "keeps ledger_only (ticked f)" "keeps ledger_only (on_ledger m)" "keeps quiet (on_attempts k)"
  by (auto simp: keeps_def ticked_def on_ledger_def on_attempts_def ledger_only_def quiet_def split: prod.splits)

lemma keeps_case_option [intro]:
  "keeps R m \<Longrightarrow> (\<And>x. keeps R (f x)) \<Longrightarrow> keeps R (case y of None \<Rightarrow> m | Some x \<Rightarrow> f x)"
  by (cases y) auto

lemma keeps_if [intro]: "keeps R m \<Longrightarrow> keeps R n \<Longrightarrow> keeps R (if b then m else n)"
  by simp

lemma event_frame [intro]: "keeps ledger_only (event B action actor trace ty payload)"
  unfolding event_def now_def uuid4_def new_span_id_def
  by (intro keeps_bindE keeps_ret keeps_lift effect_frames frame_orders)

lemma revoke_lease_frame [intro]: "keeps ledger_only (revoke_lease_opt B action actor trace lease)"
  unfolding revoke_lease_opt_def revoke_lease_def
  by (intro keeps_case_option keeps_bindE keeps_try keeps_raise keeps_ret event_frame effect_frames frame_orders)

lemma evaluate_policy_frame: "keeps ledger_only (evaluate_policy B action actor trace)"
  unfolding evaluate_policy_def now_def
  by (intro keeps_case_option keeps_bindE keeps_lift keeps_ret event_frame effect_frames frame_orders)

lemma require_approval_frame: "keeps ledger_only (require_approval B action actor trace policy)"
  unfolding require_approval_def decide_approval_def Let_def
  by (intro keeps_if keeps_case_option keeps_bindE keeps_lift keeps_ret keeps_raise event_frame effect_frames frame_orders)

lemma issue_lease_frame: "keeps ledger_only (issue_lease B action actor trace executor)"
  unfolding issue_lease_def
  by (intro keeps_case_option keeps_bindE keeps_lift keeps_ret event_frame effect_frames frame_orders)

lemma observe_and_verify_frame: "keeps ledger_only (observe_and_verify B action actor trace executor result reused)"
  unfolding observe_and_verify_def
  by (intro keeps_bindE keeps_lift keeps_ret event_frame effect_frames frame_orders)

lemma start_attempt_frame: "keeps quiet (start_attempt B action executor)"
  unfolding start_attempt_def now_def uuid4_def Let_def
  by (intro keeps_if keeps_bindE keeps_lift keeps_ret effect_frames ledger_only_quiet [OF effect_frames(1)] frame_orders)

lemma mark_uncertain_frame: "keeps quiet (mark_uncertain B attempt exc reason)"
  unfolding mark_uncertain_def now_def
  by (intro keeps_case_option keeps_bindE keeps_ret effect_frames ledger_only_quiet [OF effect_frames(1)] frame_orders)

lemma executor_failed_frame:
  "keeps quiet (executor_failed B action actor trace executor attempt lease exc)"
  unfolding executor_failed_def
  by (intro keeps_bindE keeps_try keeps_ret keeps_raise mark_uncertain_frame
      ledger_only_quiet [OF event_frame] ledger_only_quiet [OF revoke_lease_frame] frame_orders)

lemma revoke_after_execution_frame: "keeps quiet (revoke_after_execution B action actor trace executor attempt lease)"
  unfolding revoke_after_execution_def
  by (intro keeps_bindE keeps_try keeps_raise mark_uncertain_frame
      ledger_only_quiet [OF event_frame] ledger_only_quiet [OF revoke_lease_frame] frame_orders)

lemma close_attempt_frame: "keeps quiet (close_attempt B attempt result)"
  unfolding close_attempt_def by (intro keeps_case_option keeps_ret effect_frames frame_orders)

lemma try_prog_eq_Inr:
  "try_prog m h s = (Inr x, t) \<longleftrightarrow> m s = (Inr x, t) \<or> (\<exists>e s'. m s = (Inl e, s') \<and> h e s' = (Inr x, t))"
  by (auto simp: try_prog_def split: prod.splits sum.splits)

section \<open>Calls of the executor\<close>

text \<open>A step that makes no executor call.\<close>

definition no_call :: "('l, 'i, 'a) world \<Rightarrow> ('l, 'i, 'a) world \<Rightarrow> bool" where
  "no_call w w' \<longleftrightarrow> w_calls w' = w_calls w"

lemma no_call_orders [intro, simp]: "reflp no_call" "transp no_call"
  by (auto simp: no_call_def reflp_def transp_def)

lemma quiet_no_call: "keeps quiet m \<Longrightarrow> keeps no_call m"
  by (auto simp: keeps_def quiet_def no_call_def)

lemma on_idem_no_call: "keeps no_call (on_idem m)"
  by (auto simp: keeps_def on_idem_def no_call_def split: prod.splits)

lemma finish_execution_no_call:
  "keeps no_call (finish_execution B action actor trace executor attempt lease result)"
  unfolding finish_execution_def case_prod_unfold
  by (intro keeps_bindE keeps_ret keeps_lift on_idem_no_call quiet_no_call [OF revoke_after_execution_frame]
      quiet_no_call [OF close_attempt_frame] quiet_no_call [OF ledger_only_quiet [OF event_frame]]
      quiet_no_call [OF ledger_only_quiet [OF observe_and_verify_frame]] no_call_orders)

lemma reuse_result_no_call: "keeps no_call (reuse_result B action actor trace executor lease)"
  unfolding reuse_result_def case_prod_unfold
  by (intro keeps_case_option keeps_bindE keeps_ret keeps_lift keeps_raise on_idem_no_call
      quiet_no_call [OF ledger_only_quiet [OF revoke_lease_frame]]
      quiet_no_call [OF ledger_only_quiet [OF observe_and_verify_frame]] no_call_orders)

lemma frame_calls:
  "keeps quiet m \<Longrightarrow> m w = (r, w') \<Longrightarrow> w_calls w' = w_calls w \<and> w_idem w' = w_idem w"
  "keeps ledger_only k \<Longrightarrow> k w = (q, w') \<Longrightarrow> w_calls w' = w_calls w \<and> w_idem w' = w_idem w \<and> w_attempts w' = w_attempts w"
  "keeps no_call n \<Longrightarrow> n w = (p, w') \<Longrightarrow> w_calls w' = w_calls w"
  by (auto dest!: keepsD simp: quiet_def ledger_only_def no_call_def)

definition call_for :: "('l, 'i, 'a) broker \<Rightarrow> action_spec \<Rightarrow> executor_call \<Rightarrow> bool" where
  "call_for B action c \<longleftrightarrow> call_tenant c = act_tenant_id action \<and> call_key c = act_idempotency_key action \<and>
    call_digest c = action_digest (brk_sha B) action"

text \<open>The executor is called exactly once, and the call changes no store.\<close>

lemma invoke_executor_call:
  assumes "invoke_executor B action executor attempt_id lease w = (r, w')"
  shows "\<exists>c. w_calls w' = w_calls w @ [c] \<and> call_tenant c = act_tenant_id action \<and>
    call_key c = act_idempotency_key action \<and> call_digest c = action_digest (brk_sha B) action \<and>
    call_executor c = exe_name executor \<and> call_attempt c = attempt_id \<and>
    w_idem w' = w_idem w \<and> w_attempts w' = w_attempts w \<and> w_ledger w' = w_ledger w"
  using assms
  by (cases attempt_id; cases lease)
     (auto simp: invoke_executor_def Let_def bindE_def log_call_def ticked_def split: prod.splits sum.splits)

text \<open>An event as one step: the draft is built from three consecutive ticks.\<close>

definition event_draft ::
  "('l, 'i, 'a) broker \<Rightarrow> action_spec \<Rightarrow> actor_ref \<Rightarrow> string \<Rightarrow> event_type \<Rightarrow> (string \<times> pyval) list \<Rightarrow> nat \<Rightarrow> control_event_draft" where
  "event_draft B action actor trace ty payload n =
    \<lparr>ev_schema_name = ''prodkit.control-event'', ev_schema_version = ''1.0.0'', ev_event_id = brk_uuid4 B (Suc n),
     ev_run_id = act_run_id action, ev_tenant_id = act_tenant_id action, ev_event_type = ty,
     ev_occurred_at = brk_clock B n, ev_recorded_at = brk_clock B n, ev_actor = actor, ev_trace_id = trace,
     ev_span_id = brk_span B (Suc (Suc n)), ev_parent_event_id = None, ev_causation_event_id = None,
     ev_correlation_id = None, ev_action_id = Some (act_action_id action), ev_lineage = [],
     ev_payload = payload, ev_evidence = []\<rparr>"

lemma event_draft_simps [simp]:
  "ev_tenant_id (event_draft B action actor trace ty payload n) = act_tenant_id action"
  "ev_run_id (event_draft B action actor trace ty payload n) = act_run_id action"
  "ev_event_type (event_draft B action actor trace ty payload n) = ty"
  "ev_actor (event_draft B action actor trace ty payload n) = actor"
  by (simp_all add: event_draft_def)

lemma new_event_draft_Inr: "new_event_draft d = Inr d' \<Longrightarrow> d' = d"
  by (auto simp: new_event_draft_def validate_control_event_draft_def split: if_splits)

lemma event_eq:
  "event B action actor trace ty payload w =
    (case new_event_draft (event_draft B action actor trace ty payload (w_tick w)) of
       Inl e \<Rightarrow> (Inl e, w\<lparr>w_tick := w_tick w + 3\<rparr>)
     | Inr d \<Rightarrow> (case brk_append B d (w_ledger w) of
         (Inl e, l) \<Rightarrow> (Inl e, w\<lparr>w_ledger := l, w_tick := w_tick w + 3\<rparr>)
       | (Inr ev, l) \<Rightarrow> (Inr (), w\<lparr>w_ledger := l, w_tick := w_tick w + 3\<rparr>)))"
  by (simp add: event_def bindE_def now_def uuid4_def new_span_id_def ticked_def on_ledger_def event_draft_def
      numeral_3_eq_3 split: sum.splits prod.splits)

lemma new_event_draft_again:
  assumes "new_event_draft (event_draft B action actor trace ty payload n) = Inr d" "is_span_id (brk_span B (Suc (Suc m)))"
  shows "\<exists>d'. new_event_draft (event_draft B action actor trace ty' payload' m) = Inr d'"
  using assms
  by (auto simp: new_event_draft_def event_draft_def control_event_draft_fields_def validate_control_event_draft_def
      split: if_splits)

text \<open>An executor whose every call raises.\<close>

definition always_raises :: "controlled_executor \<Rightarrow> bool" where
  "always_raises executor \<longleftrightarrow> (\<forall>n a i l. (\<exists>e. exe_execute executor n a = Inl e) \<and>
     (\<exists>e. exe_execute_attempt executor n a i = Inl e) \<and> (\<exists>e. exe_execute_attempt_with_lease executor n a i l = Inl e))"

lemma always_raises_invoke:
  "always_raises executor \<Longrightarrow> \<exists>e w'. invoke_executor B action executor attempt_id lease w = (Inl e, w')"
  by (cases attempt_id; cases lease)
     (auto simp: always_raises_def invoke_executor_def Let_def bindE_def log_call_def ticked_def)

section \<open>Brokers over contract-abiding stores\<close>

locale broker_stores =
  ledger: event_ledger "brk_append B" run_events check_run linv +
  idem: idempotency "brk_claim B" "brk_complete B" owner "brk_result B" +
  attempts: attempt_storage "brk_create_attempt B" "brk_replace_attempt B" lookup valid
  for B :: "('l, 'i, 'a) broker" and run_events check_run linv owner lookup valid
begin

text \<open>
  A sound step keeps the stores' invariants, never rewrites the ledger, never frees an
  idempotency key and never goes back in time.
\<close>

definition sound :: "('l, 'i, 'a) world \<Rightarrow> ('l, 'i, 'a) world \<Rightarrow> bool" where
  "sound w w' \<longleftrightarrow>
    (linv (w_ledger w) \<longrightarrow> linv (w_ledger w')) \<and>
    (\<forall>t r. prefix (run_events t r (w_ledger w)) (run_events t r (w_ledger w'))) \<and>
    (valid (w_attempts w) \<longrightarrow> valid (w_attempts w')) \<and>
    (\<forall>t k d. owner t k (w_idem w) = Some d \<longrightarrow> owner t k (w_idem w') = Some d) \<and>
    w_tick w \<le> w_tick w'"

lemma sound_refl [intro, simp]: "reflp sound"
  by (simp add: sound_def reflp_def)

lemma sound_trans [intro, simp]: "transp sound"
proof (rule transpI)
  fix u v w
  assume uv: "sound u v" and vw: "sound v w"
  have "prefix (run_events t r (w_ledger u)) (run_events t r (w_ledger w))" for t r
    using uv vw unfolding sound_def by (blast intro: prefix_order.trans)
  with uv vw show "sound u w" by (simp add: sound_def)
qed

lemma ticked_sound [intro]: "keeps sound (ticked f)"
  by (simp add: keeps_def ticked_def sound_def)

lemma log_call_sound [intro]: "keeps sound (log_call c)"
  by (simp add: keeps_def log_call_def sound_def)

lemma read_idem_sound [intro]: "keeps sound (on_idem (\<lambda>i. (f i, i)))"
  by (simp add: keeps_def on_idem_def sound_def)

lemma append_sound [intro]: "keeps sound (on_ledger (brk_append B d))"
  by (auto simp: keeps_def on_ledger_def sound_def split: prod.splits intro: ledger.append_invar ledger.append_prefix)

lemma claim_sound [intro]: "keeps sound (on_idem (brk_claim B t k d))"
  by (auto simp: keeps_def on_idem_def sound_def split: prod.splits intro: idem.claim_owner_mono)

lemma complete_sound [intro]: "keeps sound (on_idem (brk_complete B t k x))"
  by (auto simp: keeps_def on_idem_def sound_def split: prod.splits simp: idem.complete_owner)

lemma create_sound [intro]: "keeps sound (on_attempts (brk_create_attempt B a))"
  by (auto simp: keeps_def on_attempts_def sound_def split: prod.splits intro: attempts.create_valid)

lemma replace_sound [intro]: "keeps sound (on_attempts (brk_replace_attempt B a))"
  by (auto simp: keeps_def on_attempts_def sound_def split: prod.splits intro: attempts.replace_valid)

lemmas sound_effects = ticked_sound log_call_sound read_idem_sound append_sound claim_sound complete_sound
  create_sound replace_sound sound_refl sound_trans

lemmas sound_rules = keeps_if keeps_case_option keeps_bindE keeps_try keeps_ret keeps_lift keeps_raise

lemma event_sound [intro]: "keeps sound (event B action actor trace ty payload)"
  unfolding event_def now_def uuid4_def new_span_id_def by (intro sound_rules sound_effects)

lemma revoke_lease_sound [intro]: "keeps sound (revoke_lease_opt B action actor trace lease)"
  unfolding revoke_lease_opt_def revoke_lease_def by (intro sound_rules event_sound sound_effects)

lemma mark_uncertain_sound [intro]: "keeps sound (mark_uncertain B attempt exc reason)"
  unfolding mark_uncertain_def now_def by (intro sound_rules sound_effects)

lemma start_attempt_sound [intro]: "keeps sound (start_attempt B action executor)"
  unfolding start_attempt_def now_def uuid4_def Let_def by (intro sound_rules sound_effects)

lemma invoke_executor_sound [intro]: "keeps sound (invoke_executor B action executor attempt_id lease)"
  by (cases attempt_id; cases lease) (auto simp: invoke_executor_def Let_def intro!: sound_rules sound_effects)

lemma executor_failed_sound [intro]:
  "keeps sound (executor_failed B action actor trace executor attempt lease exc)"
  unfolding executor_failed_def
  by (intro sound_rules mark_uncertain_sound revoke_lease_sound event_sound sound_effects)

lemma observe_and_verify_sound [intro]: "keeps sound (observe_and_verify B action actor trace executor result reused)"
  unfolding observe_and_verify_def by (intro sound_rules event_sound sound_effects)

lemma finish_execution_sound [intro]: "keeps sound (finish_execution B action actor trace executor attempt lease result)"
  unfolding finish_execution_def revoke_after_execution_def close_attempt_def case_prod_unfold
  by (intro sound_rules mark_uncertain_sound revoke_lease_sound event_sound observe_and_verify_sound sound_effects)

lemma execute_claimed_sound [intro]: "keeps sound (execute_claimed B action actor trace executor lease)"
  unfolding execute_claimed_def
  by (intro sound_rules start_attempt_sound event_sound invoke_executor_sound executor_failed_sound
      finish_execution_sound sound_effects)

lemma execute_sound: "keeps sound (execute B action actor trace)"
  unfolding execute_def evaluate_policy_def require_approval_def decide_approval_def issue_lease_def reuse_result_def Let_def
    case_prod_unfold now_def
  by (intro sound_rules event_sound revoke_lease_sound execute_claimed_sound observe_and_verify_sound sound_effects)

text \<open>The executor is called at most once, only after this call's own claim was granted.\<close>

lemma execute_claimed_calls:
  assumes "execute_claimed B action actor trace executor lease w = (r, w')"
  shows "w_calls w' = w_calls w \<or> (\<exists>c. w_calls w' = w_calls w @ [c] \<and> call_for B action c)"
  using assms unfolding execute_claimed_def
proof (cases rule: bindE_cases)
  case raised
  then show ?thesis using frame_calls(1) [OF start_attempt_frame] by blast
next
  case (returned attempt w1)
  note w1 = frame_calls(1) [OF start_attempt_frame returned(1)]
  from returned(2) show ?thesis
  proof (cases rule: bindE_cases)
    case raised
    then show ?thesis using frame_calls(2) [OF event_frame raised(1)] w1 by simp
  next
    case (returned u w2)
    note w2 = frame_calls(2) [OF event_frame returned(1)]
    obtain q w3 where inv: "invoke_executor B action executor (map_option att_attempt_id attempt) lease w2 = (q, w3)"
      by fastforce
    obtain c where c: "w_calls w3 = w_calls w2 @ [c]" "call_for B action c"
      using invoke_executor_call [OF inv] unfolding call_for_def by blast
    have "w_calls w' = w_calls w3"
    proof (cases q)
      case (Inl e)
      obtain y :: "execution_result result" and w4
        where fail: "executor_failed B action actor trace executor attempt lease e w3 = (y, w4)" by fastforce
      have "(\<exists>e'. y = Inl e' \<and> w' = w4) \<or>
          (\<exists>x. y = Inr x \<and> finish_execution B action actor trace executor attempt lease x w4 = (r, w'))"
        using returned(2) inv Inl fail by (auto simp: bindE_def try_prog_def split: sum.splits)
      then show ?thesis
        using frame_calls(1) [OF executor_failed_frame fail] frame_calls(3) [OF finish_execution_no_call] by metis
    next
      case (Inr x)
      then have "finish_execution B action actor trace executor attempt lease x w3 = (r, w')"
        using returned(2) inv by (simp add: bindE_def try_prog_def)
      then show ?thesis by (rule frame_calls(3) [OF finish_execution_no_call])
    qed
    with c w1 w2 show ?thesis by auto
  qed
qed

lemma soundD:
  assumes "keeps sound m" "m w = (r, w')"
  shows "linv (w_ledger w) \<Longrightarrow> linv (w_ledger w')" "prefix (run_events t q (w_ledger w)) (run_events t q (w_ledger w'))"
    "valid (w_attempts w) \<Longrightarrow> valid (w_attempts w')" "owner t k (w_idem w) = Some d \<Longrightarrow> owner t k (w_idem w') = Some d"
    "w_tick w \<le> w_tick w'"
  using keepsD [OF assms] unfolding sound_def by blast+

lemma evaluate_policy_sound: "keeps sound (evaluate_policy B action actor trace)"
  unfolding evaluate_policy_def now_def by (intro sound_rules event_sound sound_effects)

lemma require_approval_sound: "keeps sound (require_approval B action actor trace policy)"
  unfolding require_approval_def decide_approval_def Let_def by (intro sound_rules event_sound sound_effects)

lemma issue_lease_sound: "keeps sound (issue_lease B action actor trace executor)"
  unfolding issue_lease_def by (intro sound_rules event_sound sound_effects)

lemma claim_step_sound: "brk_claim B t k d (w_idem w) = (x, i) \<Longrightarrow> sound w (w\<lparr>w_idem := i\<rparr>)"
  using keepsD [OF claim_sound, of t k d w x "w\<lparr>w_idem := i\<rparr>"] by (simp add: on_idem_def)

text \<open>When the executor was called, every earlier phase of \<open>execute\<close> returned and the claim was granted.\<close>

lemma execute_called:
  assumes "execute B action actor trace w = (r, w')" "w_calls w' \<noteq> w_calls w"
  obtains policy w1 u w2 executor lease w3 i where
    "evaluate_policy B action actor trace w = (Inr policy, w1)"
    "require_approval B action actor trace policy w1 = (Inr u, w2)"
    "select_executor B action = Inr executor"
    "issue_lease B action actor trace executor w2 = (Inr lease, w3)"
    "brk_claim B (act_tenant_id action) (act_idempotency_key action) (action_digest (brk_sha B) action) (w_idem w3) = (Inr True, i)"
    "execute_claimed B action actor trace executor lease (w3\<lparr>w_idem := i\<rparr>) = (r, w')"
    "w_idem w3 = w_idem w" "w_calls w3 = w_calls w"
  using assms(1) unfolding execute_def
proof (cases rule: bindE_cases)
  case raised
  then show thesis using frame_calls(2) [OF evaluate_policy_frame] assms(2) by blast
next
  case (returned policy w1)
  note p1 = returned(1) and f1 = frame_calls(2) [OF evaluate_policy_frame returned(1)]
  from returned(2) show thesis
  proof (cases rule: bindE_cases)
    case raised
    then show thesis using frame_calls(2) [OF require_approval_frame] f1 assms(2) by metis
  next
    case (returned u w2)
    note p2 = returned(1) and f2 = frame_calls(2) [OF require_approval_frame returned(1)]
    from returned(2) obtain executor where p3: "select_executor B action = Inr executor"
      and rest: "bindE (issue_lease B action actor trace executor) (\<lambda>lease.
        bindE (on_idem (brk_claim B (act_tenant_id action) (act_idempotency_key action) (action_digest (brk_sha B) action))) (\<lambda>claimed.
        if claimed then execute_claimed B action actor trace executor lease
        else reuse_result B action actor trace executor lease)) w2 = (r, w')"
      using f1 f2 assms(2) by (cases "select_executor B action") (auto simp: bindE_def)
    from rest show thesis
    proof (cases rule: bindE_cases)
      case raised
      then show thesis using frame_calls(2) [OF issue_lease_frame] f1 f2 assms(2) by metis
    next
      case (returned lease w3)
      note p4 = returned(1) and f3 = frame_calls(2) [OF issue_lease_frame returned(1)]
      from returned(2) show thesis
      proof (cases rule: bindE_cases)
        case (raised e)
        then show thesis using frame_calls(3) [OF on_idem_no_call raised(1)] f1 f2 f3 assms(2) by simp
      next
        case (returned claimed w4)
        note f4 = frame_calls(3) [OF on_idem_no_call returned(1)]
        show thesis
        proof (cases claimed)
          case False
          with returned(2) have "reuse_result B action actor trace executor lease w4 = (r, w')" by simp
          then show thesis using frame_calls(3) [OF reuse_result_no_call] f1 f2 f3 f4 assms(2) by metis
        next
          case True
          with returned show thesis using that [OF p1 p2 p3 p4] f1 f2 f3
            by (auto simp: on_idem_def split: prod.splits)
        qed
      qed
    qed
  qed
qed

lemma execute_call_owns:
  assumes "execute B action actor trace w = (r, w')" "w_calls w' \<noteq> w_calls w"
  shows "\<exists>c. w_calls w' = w_calls w @ [c] \<and> call_for B action c \<and>
    owner (act_tenant_id action) (act_idempotency_key action) (w_idem w) = None \<and>
    owner (act_tenant_id action) (act_idempotency_key action) (w_idem w') = Some (action_digest (brk_sha B) action)"
  using assms
proof (rule execute_called)
  fix policy w1 u w2 executor lease w3 i
  let ?t = "act_tenant_id action" and ?k = "act_idempotency_key action" and ?d = "action_digest (brk_sha B) action"
  assume claim: "brk_claim B ?t ?k ?d (w_idem w3) = (Inr True, i)"
    and run: "execute_claimed B action actor trace executor lease (w3\<lparr>w_idem := i\<rparr>) = (r, w')"
    and w3: "w_idem w3 = w_idem w" "w_calls w3 = w_calls w"
  from idem.claim_granted [OF claim] w3 have free: "owner ?t ?k (w_idem w) = None" and own: "owner ?t ?k i = Some ?d"
    by simp_all
  from soundD(4) [OF execute_claimed_sound run] own have "owner ?t ?k (w_idem w') = Some ?d" by simp
  moreover have "\<exists>c. w_calls w' = w_calls w @ [c] \<and> call_for B action c"
    using execute_claimed_calls [OF run] w3 assms(2) by simp
  ultimately show ?thesis using free by blast
qed

text \<open>What a returned authorisation says.\<close>

lemma evaluate_policy_returns:
  assumes "evaluate_policy B action actor trace w = (Inr policy, w')"
  shows "actor_tenant_id actor = act_tenant_id action"
    "act_expires_at action = Some t \<Longrightarrow> \<exists>n. w_tick w \<le> n \<and> n < w_tick w' \<and> brk_clock B n < t"
    "\<exists>n. w_tick w \<le> n \<and> n < w_tick w' \<and> brk_policy B n action = Inr policy"
    "pol_action_digest policy = action_digest (brk_sha B) action" "pol_outcome policy \<noteq> Policy_DENY"
proof -
  from assms obtain w1 w2 w3 where
    tenant: "actor_tenant_id actor = act_tenant_id action"
    and fresh: "(case act_expires_at action of None \<Rightarrow> ret ()
      | Some t \<Rightarrow> bindE (now B) (\<lambda>now. lift_result (raise_if (t \<le> now) (AuthorizationDeniedError ''action has expired'')))) w = (Inr (), w1)"
    and ev1: "event B action actor trace Event_ACTION_PROPOSED
      [(''action'', json_mode (dump_action_spec action)), (''action_digest'', PStr (action_digest (brk_sha B) action))] w1 = (Inr (), w2)"
    and pol: "ticked (\<lambda>n. brk_policy B n action) w2 = (Inr policy, w3)"
    and dig: "pol_action_digest policy = action_digest (brk_sha B) action" "pol_outcome policy \<noteq> Policy_DENY"
    and ev2: "event B action actor trace Event_POLICY_EVALUATED [(''decision'', json_mode (dump_policy_decision policy))] w3 = (Inr (), w')"
    unfolding evaluate_policy_def by (auto simp: bindE_eq_Inr)
  have t1: "w_tick w \<le> w_tick w1"
    using fresh by (auto simp: bindE_def now_def ticked_def split: option.splits if_splits)
  have t3: "brk_policy B (w_tick w2) action = Inr policy" "w_tick w3 = Suc (w_tick w2)"
    using pol by (auto simp: ticked_def)
  note t2 = soundD(5) [OF event_sound ev1] and t4 = soundD(5) [OF event_sound ev2]
  show "actor_tenant_id actor = act_tenant_id action" "pol_action_digest policy = action_digest (brk_sha B) action"
    "pol_outcome policy \<noteq> Policy_DENY" using tenant dig by simp_all
  show "\<exists>n. w_tick w \<le> n \<and> n < w_tick w' \<and> brk_policy B n action = Inr policy"
    using t1 t2 t3 t4 by (intro exI [of _ "w_tick w2"]) simp
  show "\<exists>n. w_tick w \<le> n \<and> n < w_tick w' \<and> brk_clock B n < t" if "act_expires_at action = Some t"
    using fresh that t2 t3 t4
    by (intro exI [of _ "w_tick w"]) (auto simp: bindE_def now_def ticked_def raise_if_def split: if_splits)
qed

lemma require_approval_returns:
  assumes "require_approval B action actor trace policy w = (Inr u, w')" "pol_outcome policy = Policy_REQUIRE_APPROVAL"
  shows "\<exists>n d. w_tick w \<le> n \<and> n < w_tick w' \<and> appr_outcome d = Approval_APPROVED \<and>
    brk_approvals B n action policy (sha256_hex (brk_sha B) (dump_action_target (act_target action))) = Inr (Some d)"
proof -
  let ?td = "sha256_hex (brk_sha B) (dump_action_target (act_target action))"
  from assms obtain found w1 where found: "ticked (\<lambda>n. brk_approvals B n action policy ?td) w = (Inr found, w1)"
    and rest: "decide_approval B action actor trace policy ?td found w1 = (Inr u, w')"
    unfolding require_approval_def Let_def by (auto simp: bindE_eq_Inr)
  from rest obtain d where d: "found = Some d" by (cases found) (auto simp: decide_approval_def bindE_eq_Inr)
  with rest obtain x where ev: "event B action (appr_approver d) trace Event_APPROVAL_DECIDED
      [(''approval'', json_mode (dump_approval_decision d))] w1 = (Inr x, w')" "appr_outcome d = Approval_APPROVED"
    by (auto simp: decide_approval_def bindE_eq_Inr)
  from soundD(5) [OF event_sound ev(1)] found d ev(2) show ?thesis
    by (intro exI [of _ "w_tick w"] exI [of _ d]) (auto simp: ticked_def)
qed

text \<open>The types of the events a step adds to the action's run.\<close>

definition recorded :: "action_spec \<Rightarrow> ('l, 'i, 'a) world \<Rightarrow> ('l, 'i, 'a) world \<Rightarrow> event_type list \<Rightarrow> bool" where
  "recorded action w w' tys \<longleftrightarrow>
    (\<exists>evs. run_events (act_tenant_id action) (act_run_id action) (w_ledger w') =
       run_events (act_tenant_id action) (act_run_id action) (w_ledger w) @ evs \<and> map ev_event_type evs = tys)"

lemma recorded_refl: "w_ledger w' = w_ledger w \<Longrightarrow> recorded action w w' []"
  by (simp add: recorded_def)

lemma recorded_trans: "recorded action u v xs \<Longrightarrow> recorded action v w ys \<Longrightarrow> recorded action u w (xs @ ys)"
  unfolding recorded_def by (metis append.assoc map_append)

lemma event_recorded:
  assumes "event B action actor trace ty payload w = (Inr u, w')"
  shows "recorded action w w' [ty]"
proof -
  let ?d = "event_draft B action actor trace ty payload (w_tick w)"
  from assms obtain e where app: "brk_append B ?d (w_ledger w) = (Inr e, w_ledger w')"
    by (auto simp: event_eq dest: new_event_draft_Inr split: sum.splits prod.splits)
  have "ev_event_type e = ev_event_type (control_event_draft.truncate e)" by (simp add: control_event_draft.defs)
  with ledger.append_content [OF app] have "ev_event_type e = ty" by simp
  with ledger.append_returns [OF app] show ?thesis by (simp add: recorded_def)
qed

lemma event_recorded_after:
  "event B action actor trace ty payload v = (Inr u, w') \<Longrightarrow> w_ledger v = w_ledger w \<Longrightarrow> recorded action w w' [ty]"
  using recorded_trans [OF recorded_refl event_recorded] by fastforce

lemma events_recorded_after:
  assumes "event B action actor trace ty p v = (Inr u, v')" "event B action actor' trace ty' p' v'' = (Inr u', w')"
    and "w_ledger v = w_ledger w" "w_ledger v'' = w_ledger v'"
  shows "recorded action w w' [ty, ty']"
  using recorded_trans [OF event_recorded_after [OF assms(1,3)] event_recorded_after [OF assms(2,4)]] by simp

lemma evaluate_policy_recorded:
  assumes "evaluate_policy B action actor trace w = (Inr policy, w')"
  shows "recorded action w w' [Event_ACTION_PROPOSED, Event_POLICY_EVALUATED]"
  using assms unfolding evaluate_policy_def now_def
  by (auto simp: bindE_eq_Inr ticked_def split: option.splits elim!: events_recorded_after)

lemma require_approval_recorded:
  assumes "require_approval B action actor trace policy w = (Inr u, w')"
  shows "recorded action w w' (if pol_outcome policy = Policy_REQUIRE_APPROVAL then [Event_APPROVAL_DECIDED] else [])"
  using assms unfolding require_approval_def Let_def
  by (auto simp: bindE_eq_Inr decide_approval_def ticked_def split: option.splits if_splits
      intro: recorded_refl elim!: event_recorded_after)

lemma issue_lease_recorded:
  assumes "issue_lease B action actor trace executor w = (Inr lease, w')"
  shows "recorded action w w' (if lease = None then [] else [Event_CREDENTIAL_LEASE_ISSUED])"
    "lease = None \<longleftrightarrow> brk_leases B = None"
proof -
  show "lease = None \<longleftrightarrow> brk_leases B = None"
    using assms by (auto simp: issue_lease_def bindE_eq_Inr split: option.splits)
  show "recorded action w w' (if lease = None then [] else [Event_CREDENTIAL_LEASE_ISSUED])"
    using assms
    by (auto simp: issue_lease_def bindE_eq_Inr ticked_def split: option.splits intro: recorded_refl elim!: event_recorded_after)
qed

lemma revoke_lease_recorded:
  assumes "revoke_lease_opt B action actor trace lease w = (Inr u, w')" "lease = None \<longleftrightarrow> brk_leases B = None"
  shows "recorded action w w' (if lease = None then [] else [Event_CREDENTIAL_LEASE_REVOKED])"
proof (cases lease)
  case None
  with assms show ?thesis by (auto simp: revoke_lease_opt_def intro: recorded_refl)
next
  case (Some l)
  with assms(2) obtain provider where "brk_leases B = Some provider" by auto
  with assms(1) Some show ?thesis
    by (auto simp: revoke_lease_opt_def revoke_lease_def bindE_def try_prog_def ticked_def
        split: sum.splits prod.splits elim!: event_recorded_after)
qed

lemma observe_and_verify_recorded:
  assumes "observe_and_verify B action actor trace executor result reused w = (Inr (obs, ver), w')"
  shows "recorded action w w' [Event_STATE_OBSERVED, Event_VERIFICATION_COMPLETED]"
    "obs_action_id obs = act_action_id action \<and> ver_action_id ver = act_action_id action"
  using assms unfolding observe_and_verify_def
  by (auto simp: bindE_eq_Inr ticked_def elim!: events_recorded_after)

text \<open>A started attempt is durably recorded before the executor is called.\<close>

definition attempt_of :: "action_spec \<Rightarrow> execution_attempt_record \<Rightarrow> 'a \<Rightarrow> bool" where
  "attempt_of action a A \<longleftrightarrow> lookup (act_tenant_id action) (att_attempt_id a) A = Some a \<and>
    att_tenant_id a = act_tenant_id action \<and> att_action_id a = act_action_id action \<and> att_run_id a = act_run_id action"

lemma new_attempt_record_Inr:
  "new_attempt_record a = Inr a' \<Longrightarrow> att_tenant_id a' = att_tenant_id a \<and> att_attempt_id a' = att_attempt_id a \<and>
    att_action_id a' = att_action_id a \<and> att_run_id a' = att_run_id a \<and> att_state a' = att_state a"
  by (auto simp: new_attempt_record_def validate_execution_attempt_def Let_def split: if_splits)

lemma on_attempts_Inr: "on_attempts m w = (Inr x, w') \<longleftrightarrow> (\<exists>A. m (w_attempts w) = (Inr x, A) \<and> w' = w\<lparr>w_attempts := A\<rparr>)"
  by (auto simp: on_attempts_def split: prod.splits)

lemma on_idem_Inr: "on_idem m w = (Inr x, w') \<longleftrightarrow> (\<exists>i. m (w_idem w) = (Inr x, i) \<and> w' = w\<lparr>w_idem := i\<rparr>)"
  by (auto simp: on_idem_def split: prod.splits)

lemma ticked_Inr: "ticked f w = (Inr x, w') \<longleftrightarrow> f (w_tick w) = Inr x \<and> w' = w\<lparr>w_tick := Suc (w_tick w)\<rparr>"
  by (auto simp: ticked_def)

lemma start_attempt_returns:
  assumes "start_attempt B action executor w = (Inr attempt, w')"
  shows "w_ledger w' = w_ledger w" "attempt = None \<longleftrightarrow> \<not> brk_attempts B"
    "attempt = Some a \<Longrightarrow> attempt_of action a (w_attempts w') \<and> att_state a = Attempt_STARTED"
proof -
  show "w_ledger w' = w_ledger w" "attempt = None \<longleftrightarrow> \<not> brk_attempts B"
    using assms by (auto simp: start_attempt_def Let_def bindE_eq_Inr on_attempts_Inr ticked_Inr now_def uuid4_def split: if_splits)
  assume some: "attempt = Some a"
  with assms obtain A A' where "att_tenant_id a = act_tenant_id action \<and> att_action_id a = act_action_id action \<and>
      att_run_id a = act_run_id action \<and> att_state a = Attempt_STARTED"
    and rep: "brk_replace_attempt B a A = (Inr (), A')" "w_attempts w' = A'"
    by (auto simp: start_attempt_def Let_def bindE_eq_Inr on_attempts_Inr ticked_Inr now_def uuid4_def
        dest!: new_attempt_record_Inr split: if_splits)
  with attempts.replace_returns [OF rep(1)] rep(2) show "attempt_of action a (w_attempts w') \<and> att_state a = Attempt_STARTED"
    by (simp add: attempt_of_def)
qed

lemma executor_failed_raises: "executor_failed B action actor trace executor attempt lease exc w \<noteq> (Inr x, w')"
  by (simp add: executor_failed_def bindE_eq_Inr)

lemma revoke_after_execution_recorded:
  assumes "revoke_after_execution B action actor trace executor attempt lease w = (Inr u, w')"
    and "lease = None \<longleftrightarrow> brk_leases B = None"
  shows "recorded action w w' (if lease = None then [] else [Event_CREDENTIAL_LEASE_REVOKED])"
    "w_attempts w' = w_attempts w" "w_idem w' = w_idem w"
proof -
  from assms(1) have rev: "revoke_lease_opt B action actor trace lease w = (Inr u, w')"
    by (auto simp: revoke_after_execution_def try_prog_def bindE_def split: prod.splits sum.splits)
  show "recorded action w w' (if lease = None then [] else [Event_CREDENTIAL_LEASE_REVOKED])"
    by (rule revoke_lease_recorded [OF rev assms(2)])
  show "w_attempts w' = w_attempts w" "w_idem w' = w_idem w"
    using frame_calls(2) [OF revoke_lease_frame rev] by simp_all
qed

text \<open>
  A finished execution: the claim carries the result, the attempt is closed with its digest and the
  result, observation and verification are bound to the action.
\<close>

definition closed_attempt :: "execution_attempt_record \<Rightarrow> execution_result \<Rightarrow> execution_attempt_record" where
  "closed_attempt a result = a\<lparr>att_state := (if res_succeeded result then Attempt_SUCCEEDED else Attempt_FAILED),
     att_finished_at := Some (res_completed_at result),
     att_result_digest := Some (sha256_hex (brk_sha B) (dump_execution_result result)),
     att_provider_operation_id := res_provider_operation_id result,
     att_error_type := res_error_type result, att_error_message := res_error_message result\<rparr>"

lemma finish_execution_returns:
  assumes fin: "finish_execution B action actor trace executor attempt lease result w = (Inr out, w')"
    and lease: "lease = None \<longleftrightarrow> brk_leases B = None"
  shows "recorded action w w' ((if lease = None then [] else [Event_CREDENTIAL_LEASE_REVOKED]) @
      [Event_EXECUTION_COMPLETED, Event_STATE_OBSERVED, Event_VERIFICATION_COMPLETED])" (is ?recorded)
    and "out_result out = result \<and> out_action out = action \<and> \<not> out_reused_idempotent_result out" (is ?out)
    and "res_action_id result = act_action_id action \<and> res_executor_name result = exe_name executor \<and>
      res_executor_version result = exe_version executor \<and>
      obs_action_id (out_observation out) = act_action_id action \<and>
      ver_action_id (out_verification out) = act_action_id action" (is ?bound)
    and "brk_result B (act_tenant_id action) (act_idempotency_key action) (w_idem w') = Some result" (is ?stored)
    and "attempt = Some a \<Longrightarrow> att_tenant_id a = act_tenant_id action \<Longrightarrow>
      res_execution_attempt_id result = att_attempt_id a \<and>
      lookup (act_tenant_id action) (att_attempt_id a) (w_attempts w') = Some (closed_attempt a result)"
proof -
  from fin obtain w1 w2 w3 w4 obs ver p where
    val: "validate_result action executor result True = Inr ()"
    and aid: "\<not> (case attempt of None \<Rightarrow> False | Some a \<Rightarrow> res_execution_attempt_id result \<noteq> att_attempt_id a)"
    and rev: "revoke_after_execution B action actor trace executor attempt lease w = (Inr (), w1)"
    and clo: "close_attempt B attempt result w1 = (Inr (), w2)"
    and com: "on_idem (brk_complete B (act_tenant_id action) (act_idempotency_key action) result) w2 = (Inr (), w3)"
    and ev: "event B action actor trace Event_EXECUTION_COMPLETED p w3 = (Inr (), w4)"
    and ob: "observe_and_verify B action actor trace executor result False w4 = (Inr (obs, ver), w')"
    and out: "out = \<lparr>out_action = action, out_result = result, out_observation = obs,
         out_verification = ver, out_reused_idempotent_result = False\<rparr>"
    unfolding finish_execution_def by (auto simp: bindE_eq_Inr)
  have l2: "w_ledger w2 = w_ledger w1" using clo by (auto simp: close_attempt_def on_attempts_Inr split: option.splits)
  have l3: "w_ledger w3 = w_ledger w2" "w_attempts w3 = w_attempts w2" using com by (auto simp: on_idem_Inr)
  have "recorded action w1 w4 [Event_EXECUTION_COMPLETED]" using event_recorded_after [OF ev] l2 l3 by simp
  from recorded_trans [OF recorded_trans [OF revoke_after_execution_recorded(1) [OF rev lease] this]
      observe_and_verify_recorded(1) [OF ob]]
  show ?recorded by simp
  show ?out by (simp add: out)
  show ?bound using val observe_and_verify_recorded(2) [OF ob] out
    by (auto simp: validate_result_def split: if_splits)
  have frame: "w_idem w' = w_idem w3" "w_attempts w' = w_attempts w2"
    using frame_calls(2) [OF event_frame ev] frame_calls(2) [OF observe_and_verify_frame ob] l3 by simp_all
  from com obtain i where "brk_complete B (act_tenant_id action) (act_idempotency_key action) result (w_idem w2) = (Inr (), i)"
      "w_idem w3 = i" by (auto simp: on_idem_Inr)
  from idem.complete_returns [OF this(1)] this(2) frame show ?stored by simp
  assume a: "attempt = Some a" "att_tenant_id a = act_tenant_id action"
  with clo obtain A where rep: "brk_replace_attempt B (closed_attempt a result) (w_attempts w1) = (Inr (), A)" "w_attempts w2 = A"
    by (auto simp: close_attempt_def closed_attempt_def on_attempts_Inr)
  from attempts.replace_returns [OF rep(1)] rep(2) frame a aid
  show "res_execution_attempt_id result = att_attempt_id a \<and>
      lookup (act_tenant_id action) (att_attempt_id a) (w_attempts w') = Some (closed_attempt a result)"
    by (simp add: closed_attempt_def)
qed

lemma execute_claimed_returns:
  assumes run: "execute_claimed B action actor trace executor lease w = (Inr out, w')"
    and lease: "lease = None \<longleftrightarrow> brk_leases B = None"
  shows "recorded action w w' (Event_EXECUTION_STARTED # (if lease = None then [] else [Event_CREDENTIAL_LEASE_REVOKED]) @
      [Event_EXECUTION_COMPLETED, Event_STATE_OBSERVED, Event_VERIFICATION_COMPLETED])" (is ?recorded)
    and "\<not> out_reused_idempotent_result out \<and> out_action out = action \<and>
      res_action_id (out_result out) = act_action_id action \<and>
      obs_action_id (out_observation out) = act_action_id action \<and>
      ver_action_id (out_verification out) = act_action_id action" (is ?bound)
    and "brk_result B (act_tenant_id action) (act_idempotency_key action) (w_idem w') = Some (out_result out)" (is ?stored)
    and "w_calls w' \<noteq> w_calls w" (is ?called)
    and "brk_attempts B \<Longrightarrow> \<exists>a. lookup (act_tenant_id action) (res_execution_attempt_id (out_result out)) (w_attempts w') = Some a \<and>
      att_action_id a = act_action_id action \<and>
      att_state a = (if res_succeeded (out_result out) then Attempt_SUCCEEDED else Attempt_FAILED) \<and>
      att_result_digest a = Some (sha256_hex (brk_sha B) (dump_execution_result (out_result out)))"
proof -
  from run obtain attempt w1 p w2 result w3 where
    st: "start_attempt B action executor w = (Inr attempt, w1)"
    and ev: "event B action actor trace Event_EXECUTION_STARTED p w1 = (Inr (), w2)"
    and inv: "invoke_executor B action executor (map_option att_attempt_id attempt) lease w2 = (Inr result, w3)"
    and fin: "finish_execution B action actor trace executor attempt lease result w3 = (Inr out, w')"
    unfolding execute_claimed_def bindE_eq_Inr
    by (auto simp: try_prog_eq_Inr executor_failed_raises)
  note f = finish_execution_returns [OF fin lease]
  obtain c where c: "w_calls w3 = w_calls w2 @ [c]" "w_ledger w3 = w_ledger w2"
    using invoke_executor_call [OF inv] by blast
  have "recorded action w w3 [Event_EXECUTION_STARTED]"
    using event_recorded_after [OF ev start_attempt_returns(1) [OF st]] c(2) by (simp add: recorded_def)
  from recorded_trans [OF this f(1)] show ?recorded by simp
  show ?bound ?stored using f(2-4) by auto
  show ?called
    using c(1) frame_calls(3) [OF finish_execution_no_call fin] frame_calls(2) [OF event_frame ev]
      frame_calls(1) [OF start_attempt_frame st] by simp
  assume "brk_attempts B"
  with start_attempt_returns(2) [OF st] obtain a where a: "attempt = Some a" by auto
  with start_attempt_returns(3) [OF st] have "att_tenant_id a = act_tenant_id action" "att_action_id a = act_action_id action"
    by (auto simp: attempt_of_def)
  with f(2) f(5) [OF a] show "\<exists>a. lookup (act_tenant_id action) (res_execution_attempt_id (out_result out)) (w_attempts w') = Some a \<and>
      att_action_id a = act_action_id action \<and>
      att_state a = (if res_succeeded (out_result out) then Attempt_SUCCEEDED else Attempt_FAILED) \<and>
      att_result_digest a = Some (sha256_hex (brk_sha B) (dump_execution_result (out_result out)))"
    by (auto simp: closed_attempt_def)
qed

lemma reuse_result_returns:
  assumes run: "reuse_result B action actor trace executor lease w = (Inr out, w')"
    and lease: "lease = None \<longleftrightarrow> brk_leases B = None"
  shows "recorded action w w' ((if lease = None then [] else [Event_CREDENTIAL_LEASE_REVOKED]) @
      [Event_STATE_OBSERVED, Event_VERIFICATION_COMPLETED])" (is ?recorded)
    and "out_reused_idempotent_result out \<and> res_action_id (out_result out) = act_action_id action \<and>
      brk_result B (act_tenant_id action) (act_idempotency_key action) (w_idem w) = Some (out_result out)" (is ?stored)
    and "w_calls w' = w_calls w \<and> w_idem w' = w_idem w \<and> w_attempts w' = w_attempts w" (is ?frame)
proof -
  from run obtain w1 result obs ver where
    rev: "revoke_lease_opt B action actor trace lease w = (Inr (), w1)"
    and result: "brk_result B (act_tenant_id action) (act_idempotency_key action) (w_idem w1) = Some result"
    and val: "validate_result action executor result False = Inr ()"
    and ob: "observe_and_verify B action actor trace executor result True w1 = (Inr (obs, ver), w')"
    and out: "out = \<lparr>out_action = action, out_result = result, out_observation = obs,
         out_verification = ver, out_reused_idempotent_result = True\<rparr>"
    unfolding reuse_result_def bindE_eq_Inr by (auto simp: on_idem_Inr bindE_eq_Inr split: option.splits)
  from recorded_trans [OF revoke_lease_recorded [OF rev lease] observe_and_verify_recorded(1) [OF ob]]
  show ?recorded .
  show ?stored using val result out frame_calls(2) [OF revoke_lease_frame rev]
    by (auto simp: validate_result_def split: if_splits)
  show ?frame using frame_calls(2) [OF revoke_lease_frame rev] frame_calls(2) [OF observe_and_verify_frame ob] by simp
qed

text \<open>The phases of \<open>execute\<close> before the claim, when it returns.\<close>

lemma execute_returns:
  assumes "execute B action actor trace w = (Inr out, w')"
  obtains policy executor lease w3 claimed i where
    "select_executor B action = Inr executor"
    "lease = None \<longleftrightarrow> brk_leases B = None"
    "recorded action w w3 ([Event_ACTION_PROPOSED, Event_POLICY_EVALUATED] @
      (if pol_outcome policy = Policy_REQUIRE_APPROVAL then [Event_APPROVAL_DECIDED] else []) @
      (if lease = None then [] else [Event_CREDENTIAL_LEASE_ISSUED]))"
    "\<exists>n. w_tick w \<le> n \<and> n < w_tick w' \<and> brk_policy B n action = Inr policy" "pol_outcome policy \<noteq> Policy_DENY"
    "brk_claim B (act_tenant_id action) (act_idempotency_key action) (action_digest (brk_sha B) action) (w_idem w) = (Inr claimed, i)"
    "(if claimed then execute_claimed B action actor trace executor lease
      else reuse_result B action actor trace executor lease) (w3\<lparr>w_idem := i\<rparr>) = (Inr out, w')"
    "w_calls w3 = w_calls w" "w_attempts w3 = w_attempts w"
proof -
  from assms obtain policy w1 w2 executor lease w3 claimed i where
    p1: "evaluate_policy B action actor trace w = (Inr policy, w1)"
    and p2: "require_approval B action actor trace policy w1 = (Inr (), w2)"
    and p3: "select_executor B action = Inr executor"
    and p4: "issue_lease B action actor trace executor w2 = (Inr lease, w3)"
    and p5: "brk_claim B (act_tenant_id action) (act_idempotency_key action) (action_digest (brk_sha B) action) (w_idem w3) = (Inr claimed, i)"
    and p6: "(if claimed then execute_claimed B action actor trace executor lease
      else reuse_result B action actor trace executor lease) (w3\<lparr>w_idem := i\<rparr>) = (Inr out, w')"
    unfolding execute_def by (auto simp: bindE_eq_Inr on_idem_Inr)
  note frames = frame_calls(2) [OF evaluate_policy_frame p1] frame_calls(2) [OF require_approval_frame p2]
    frame_calls(2) [OF issue_lease_frame p4]
  have "keeps sound (if claimed then execute_claimed B action actor trace executor lease
      else reuse_result B action actor trace executor lease)"
    unfolding reuse_result_def case_prod_unfold
    by (intro sound_rules execute_claimed_sound revoke_lease_sound observe_and_verify_sound sound_effects)
  from soundD(5) [OF this p6] have "w_tick w1 \<le> w_tick w'"
    using soundD(5) [OF require_approval_sound p2] soundD(5) [OF issue_lease_sound p4] by simp
  then have policy: "\<exists>n. w_tick w \<le> n \<and> n < w_tick w' \<and> brk_policy B n action = Inr policy"
    using evaluate_policy_returns(3) [OF p1] by force
  from recorded_trans [OF recorded_trans [OF evaluate_policy_recorded [OF p1] require_approval_recorded [OF p2]]
      issue_lease_recorded(1) [OF p4]]
  show thesis
    by (intro that [OF p3 issue_lease_recorded(2) [OF p4] _ policy evaluate_policy_returns(5) [OF p1] _ p6])
       (use p5 frames in simp_all)
qed

text \<open>Once a run has events, further events of the same actor and trace are always accepted.\<close>

definition open_run :: "action_spec \<Rightarrow> actor_ref \<Rightarrow> string \<Rightarrow> ('l, 'i, 'a) world \<Rightarrow> bool" where
  "open_run action actor trace w \<longleftrightarrow> linv (w_ledger w) \<and>
    run_events (act_tenant_id action) (act_run_id action) (w_ledger w) \<noteq> [] \<and>
    (\<forall>n. is_span_id (brk_span B n)) \<and>
    (\<exists>ty p n d. new_event_draft (event_draft B action actor trace ty p n) = Inr d)"

lemma open_run_step: "keeps sound m \<Longrightarrow> m w = (r, w') \<Longrightarrow> open_run action actor trace w \<Longrightarrow> open_run action actor trace w'"
  using soundD(1,2) [of m w r w'] unfolding open_run_def by (metis prefix_Nil)

lemma event_accepted:
  assumes "open_run action actor trace w"
  shows "\<exists>w'. event B action actor trace ty payload w = (Inr (), w')"
proof -
  let ?d = "event_draft B action actor trace ty payload (w_tick w)"
  from assms obtain d where "new_event_draft ?d = Inr d"
    unfolding open_run_def using new_event_draft_again by blast
  then have "new_event_draft ?d = Inr ?d" using new_event_draft_Inr by blast
  moreover obtain e l where "brk_append B ?d (w_ledger w) = (Inr e, l)"
    using assms ledger.append_accepts [of "w_ledger w" ?d] by (auto simp: open_run_def)
  ultimately show ?thesis by (simp add: event_eq)
qed

lemma event_open_run:
  assumes "event B action actor trace ty payload w = (Inr u, w')" "linv (w_ledger w)" "\<forall>n. is_span_id (brk_span B n)"
  shows "open_run action actor trace w'"
proof -
  have "run_events (act_tenant_id action) (act_run_id action) (w_ledger w') \<noteq> []"
    using event_recorded [OF assms(1)] by (auto simp: recorded_def)
  moreover have "\<exists>d. new_event_draft (event_draft B action actor trace ty payload (w_tick w)) = Inr d"
    using assms(1) by (auto simp: event_eq split: sum.splits)
  ultimately show ?thesis
    using soundD(1) [OF event_sound assms(1)] assms(2,3) unfolding open_run_def by blast
qed

lemma mark_uncertain_accepted:
  assumes "attempt_of action a (w_attempts w)"
  shows "\<exists>w' b. mark_uncertain B (Some a) exc reason w = (Inr (), w') \<and>
    lookup (act_tenant_id action) (att_attempt_id a) (w_attempts w') = Some b \<and> att_action_id b = act_action_id action \<and>
    att_state b = Attempt_UNCERTAIN \<and> att_error_type b = Some (exn_type exc) \<and> att_uncertainty_reason b = Some reason"
proof -
  let ?b = "a\<lparr>att_state := Attempt_UNCERTAIN, att_finished_at := Some (brk_clock B (w_tick w)),
      att_error_type := Some (exn_type exc), att_error_message := Some (exn_str exc), att_uncertainty_reason := Some reason\<rparr>"
  obtain A where rep: "brk_replace_attempt B ?b (w_attempts w) = (Inr (), A)"
    using attempts.replace_accepts [of ?b "w_attempts w" a] assms by (auto simp: attempt_of_def)
  have "mark_uncertain B (Some a) exc reason w = (Inr (), w\<lparr>w_tick := Suc (w_tick w), w_attempts := A\<rparr>)"
    by (simp add: mark_uncertain_def now_def ticked_def bindE_def on_attempts_def rep)
  moreover have "lookup (act_tenant_id action) (att_attempt_id a) A = Some ?b"
    using attempts.replace_returns [OF rep] assms by (simp add: attempt_of_def)
  ultimately show ?thesis using assms
    by (intro exI [of _ "w\<lparr>w_tick := Suc (w_tick w), w_attempts := A\<rparr>"] exI [of _ ?b]) (simp add: attempt_of_def)
qed

text \<open>The handler of a raising executor always completes: nothing the lease provider does can stop it.\<close>

lemma executor_failed_completes:
  assumes "open_run action actor trace w" "\<And>a. attempt = Some a \<Longrightarrow> attempt_of action a (w_attempts w)"
  shows "\<exists>w'. executor_failed B action actor trace executor attempt lease exc w = (Inl exc, w') \<and>
    (\<exists>tys. recorded action w w' (tys @ [Event_EXECUTION_UNCERTAIN])) \<and>
    (\<forall>a. attempt = Some a \<longrightarrow> (\<exists>b. lookup (act_tenant_id action) (att_attempt_id a) (w_attempts w') = Some b \<and>
       att_action_id b = act_action_id action \<and> att_state b = Attempt_UNCERTAIN \<and> att_error_type b = Some (exn_type exc)))"
proof -
  let ?mark = "mark_uncertain B attempt exc ''executor raised after execution was marked started''"
  let ?rev = "try_prog (bindE (revoke_lease_opt B action actor trace lease) (\<lambda>_. ret False)) (\<lambda>revoke_exc. ret True)"
  obtain w1 where mark: "?mark w = (Inr (), w1)" and w1: "\<And>a. attempt = Some a \<Longrightarrow>
      (\<exists>b. lookup (act_tenant_id action) (att_attempt_id a) (w_attempts w1) = Some b \<and>
       att_action_id b = act_action_id action \<and> att_state b = Attempt_UNCERTAIN \<and> att_error_type b = Some (exn_type exc))"
    using assms(2) mark_uncertain_accepted [of action _ w exc "''executor raised after execution was marked started''"]
    by (cases attempt) (auto simp: mark_uncertain_def, blast+)
  have "\<exists>x w2. ?rev w1 = (Inr x, w2)"
    by (cases "revoke_lease_opt B action actor trace lease w1"; cases "fst (revoke_lease_opt B action actor trace lease w1)")
       (auto simp: try_prog_def bindE_def intro: exI [of _ True] exI [of _ False])
  then obtain x w2 where rev: "?rev w1 = (Inr x, w2)" by blast
  have rev_sound: "keeps sound ?rev" and rev_frame: "keeps ledger_only ?rev"
    by (intro sound_rules revoke_lease_sound revoke_lease_frame frame_orders sound_effects)+
  have open1: "open_run action actor trace w1" by (rule open_run_step [OF mark_uncertain_sound mark assms(1)])
  have open2: "open_run action actor trace w2" by (rule open_run_step [OF rev_sound rev open1])
  define p where "p = [(''executor'', PStr (exe_name executor)), (''executor_version'', PStr (exe_version executor)),
       (''action_digest'', PStr (action_digest (brk_sha B) action)),
       (''execution_attempt_id'', dump_opt PStr (map_option att_attempt_id attempt)),
       (''error_type'', PStr (exn_type exc)), (''idempotency_key_retained'', PBool True),
       (''automatic_retry_permitted'', PBool False), (''credential_revocation_failed'', PBool x)]"
  obtain w3 where ev: "event B action actor trace Event_EXECUTION_UNCERTAIN p w2 = (Inr (), w3)"
    using event_accepted [OF open2] by blast
  have "executor_failed B action actor trace executor attempt lease exc w = (Inl exc, w3)"
    unfolding executor_failed_def
    by (simp add: bindE_def [of ?mark] bindE_def [of ?rev] bindE_def [of "event B action actor trace Event_EXECUTION_UNCERTAIN _"]
        mark rev ev [unfolded p_def])
  moreover have "\<exists>tys. recorded action w w3 (tys @ [Event_EXECUTION_UNCERTAIN])"
  proof -
    have "prefix (run_events (act_tenant_id action) (act_run_id action) (w_ledger w))
        (run_events (act_tenant_id action) (act_run_id action) (w_ledger w2))"
      using soundD(2) [OF mark_uncertain_sound mark] soundD(2) [OF rev_sound rev] by (rule prefix_order.trans)
    then obtain tys where "recorded action w w2 tys" by (auto simp: recorded_def prefix_def)
    from recorded_trans [OF this event_recorded [OF ev]] show ?thesis by blast
  qed
  moreover have "w_attempts w3 = w_attempts w1"
    using frame_calls(2) [OF rev_frame rev] frame_calls(2) [OF event_frame ev] by simp
  ultimately show ?thesis using w1 by (intro exI [of _ w3]) simp
qed

lemma execute_claimed_raises:
  assumes "execute_claimed B action actor trace executor lease w = (r, w')" "w_calls w' \<noteq> w_calls w" "always_raises executor"
  obtains attempt w1 p u w2 e w3 e' where "start_attempt B action executor w = (Inr attempt, w1)"
    "event B action actor trace Event_EXECUTION_STARTED p w1 = (Inr u, w2)"
    "invoke_executor B action executor (map_option att_attempt_id attempt) lease w2 = (Inl e, w3)"
    "executor_failed B action actor trace executor attempt lease e w3 = (Inl e', w')" "r = Inl e'"
  using assms(1) unfolding execute_claimed_def
proof (cases rule: bindE_cases)
  case raised
  then show thesis using frame_calls(1) [OF start_attempt_frame] assms(2) by blast
next
  case (returned attempt w1)
  note st = returned(1)
  from returned(2) show thesis
  proof (cases rule: bindE_cases)
    case raised
    then show thesis using frame_calls(1) [OF start_attempt_frame st] frame_calls(2) [OF event_frame raised(1)] assms(2) by simp
  next
    case (returned u w2)
    obtain e w3 where inv: "invoke_executor B action executor (map_option att_attempt_id attempt) lease w2 = (Inl e, w3)"
      using always_raises_invoke [OF assms(3)] by blast
    obtain e' w4 where fail: "executor_failed B action actor trace executor attempt lease e w3 = (Inl e', w4)"
      using executor_failed_raises by (metis (no_types, lifting) obj_sumE surj_pair)
    have "r = Inl e' \<and> w' = w4" using returned(2) inv fail by (simp add: bindE_def try_prog_def)
    then show thesis using that [OF st returned(1) inv] fail by blast
  qed
qed

lemma execute_failure:
  assumes run: "execute B action actor trace w = (r, w')" and called: "w_calls w' \<noteq> w_calls w"
    and raises: "select_executor B action = Inr executor" "always_raises executor"
    and ok: "linv (w_ledger w)" "\<forall>n. is_span_id (brk_span B n)"
  shows "\<exists>e. r = Inl e \<and> (\<exists>tys. recorded action w w' (tys @ [Event_EXECUTION_UNCERTAIN])) \<and>
    brk_result B (act_tenant_id action) (act_idempotency_key action) (w_idem w') =
      brk_result B (act_tenant_id action) (act_idempotency_key action) (w_idem w) \<and>
    (brk_attempts B \<longrightarrow> (\<exists>i b. lookup (act_tenant_id action) i (w_attempts w') = Some b \<and>
       att_action_id b = act_action_id action \<and> att_state b = Attempt_UNCERTAIN \<and> att_error_type b = Some (exn_type e)))"
  using run called
proof (rule execute_called)
  fix policy w1 u w2 ex lease w3 i
  let ?t = "act_tenant_id action" and ?k = "act_idempotency_key action"
  assume p: "evaluate_policy B action actor trace w = (Inr policy, w1)"
      "require_approval B action actor trace policy w1 = (Inr u, w2)"
      "issue_lease B action actor trace ex w2 = (Inr lease, w3)"
    and sel: "select_executor B action = Inr ex"
    and claim: "brk_claim B ?t ?k (action_digest (brk_sha B) action) (w_idem w3) = (Inr True, i)"
    and body: "execute_claimed B action actor trace ex lease (w3\<lparr>w_idem := i\<rparr>) = (r, w')"
    and w3: "w_idem w3 = w_idem w" "w_calls w3 = w_calls w"
  let ?v = "w3\<lparr>w_idem := i\<rparr>"
  have ex: "ex = executor" using sel raises(1) by simp
  have v: "linv (w_ledger ?v)"
    using ok(1) soundD(1) [OF evaluate_policy_sound p(1)] soundD(1) [OF require_approval_sound p(2)]
      soundD(1) [OF issue_lease_sound p(3)] by simp
  have called': "w_calls w' \<noteq> w_calls ?v" using called w3 by simp
  obtain attempt v1 q u' v2 e v3 e' where st: "start_attempt B action ex ?v = (Inr attempt, v1)"
    and ev: "event B action actor trace Event_EXECUTION_STARTED q v1 = (Inr u', v2)"
    and inv: "invoke_executor B action ex (map_option att_attempt_id attempt) lease v2 = (Inl e, v3)"
    and fail: "executor_failed B action actor trace ex attempt lease e v3 = (Inl e', w')" "r = Inl e'"
    using body called' raises(2) unfolding ex by (rule execute_claimed_raises)
  have "open_run action actor trace v2"
    using event_open_run [OF ev] soundD(1) [OF start_attempt_sound st v] ok(2) by blast
  moreover obtain c where c: "w_ledger v3 = w_ledger v2" "w_attempts v3 = w_attempts v2" "w_idem v3 = w_idem v2"
    using invoke_executor_call [OF inv] by blast
  ultimately have "open_run action actor trace v3" by (simp add: open_run_def)
  moreover have att: "\<And>a. attempt = Some a \<Longrightarrow> attempt_of action a (w_attempts v3)"
    using start_attempt_returns(3) [OF st] c frame_calls(2) [OF event_frame ev] by simp
  ultimately obtain tys where r: "r = Inl e" "recorded action v3 w' (tys @ [Event_EXECUTION_UNCERTAIN])"
    and unc: "\<forall>a. attempt = Some a \<longrightarrow> (\<exists>b. lookup ?t (att_attempt_id a) (w_attempts w') = Some b \<and>
       att_action_id b = act_action_id action \<and> att_state b = Attempt_UNCERTAIN \<and> att_error_type b = Some (exn_type e))"
    using executor_failed_completes [of action actor trace v3 attempt ex lease e] fail by force
  have "prefix (run_events ?t (act_run_id action) (w_ledger w)) (run_events ?t (act_run_id action) (w_ledger v3))"
    using soundD(2) [OF evaluate_policy_sound p(1)] soundD(2) [OF require_approval_sound p(2)]
      soundD(2) [OF issue_lease_sound p(3)] soundD(2) [OF start_attempt_sound st] soundD(2) [OF event_sound ev] c
    by (metis (no_types, lifting) prefix_order.trans world.select_convs(1) world.surjective world.update_convs(2))
  then have "\<exists>xs. recorded action w v3 xs" by (auto simp: recorded_def prefix_def)
  with r(2) have rec: "\<exists>tys. recorded action w w' (tys @ [Event_EXECUTION_UNCERTAIN])"
    using recorded_trans by (metis append.assoc)
  have "w_idem w' = i"
    using frame_calls(1) [OF executor_failed_frame fail(1)] c frame_calls(2) [OF event_frame ev]
      frame_calls(1) [OF start_attempt_frame st] by simp
  then have stored: "brk_result B ?t ?k (w_idem w') = brk_result B ?t ?k (w_idem w)"
    using idem.claim_granted [OF claim] w3 by simp
  have "brk_attempts B \<longrightarrow> attempt \<noteq> None" using start_attempt_returns(2) [OF st] by simp
  with rec stored r(1) unc show ?thesis by auto
qed

text \<open>
  Progress in the basic profile (no durable attempts, no leases): an allowed action with a free key
  reaches its executor, and when the adapters answer for this action \<open>execute\<close> returns.
\<close>

definition admitted :: "action_spec \<Rightarrow> actor_ref \<Rightarrow> string \<Rightarrow> controlled_executor \<Rightarrow> ('l, 'i, 'a) world \<Rightarrow> bool" where
  "admitted action actor trace executor w \<longleftrightarrow> open_run action actor trace w \<and>
    actor_tenant_id actor = act_tenant_id action \<and> act_expires_at action = None \<and>
    (\<forall>n. \<exists>policy. brk_policy B n action = Inr policy \<and> pol_action_digest policy = action_digest (brk_sha B) action \<and>
       pol_outcome policy = Policy_ALLOW) \<and>
    select_executor B action = Inr executor \<and> \<not> brk_attempts B \<and> brk_leases B = None"

definition ready :: "action_spec \<Rightarrow> actor_ref \<Rightarrow> string \<Rightarrow> controlled_executor \<Rightarrow> ('l, 'i, 'a) world \<Rightarrow> bool" where
  "ready action actor trace executor w \<longleftrightarrow> admitted action actor trace executor w \<and>
    (\<exists>i. brk_claim B (act_tenant_id action) (act_idempotency_key action) (action_digest (brk_sha B) action) (w_idem w) = (Inr True, i))"

lemma event_run:
  assumes "open_run action actor trace w"
  obtains w' where "event B action actor trace ty payload w = (Inr (), w')" "open_run action actor trace w'"
    "w_idem w' = w_idem w" "w_calls w' = w_calls w" "w_attempts w' = w_attempts w"
  using event_accepted [OF assms] open_run_step [OF event_sound _ assms] frame_calls(2) [OF event_frame] by metis

lemma open_run_updates [simp]:
  "open_run action actor trace (w\<lparr>w_tick := n\<rparr>) = open_run action actor trace w"
  "open_run action actor trace (w\<lparr>w_idem := i\<rparr>) = open_run action actor trace w"
  "open_run action actor trace (w\<lparr>w_calls := cs\<rparr>) = open_run action actor trace w"
  by (simp_all add: open_run_def)

lemma execute_reaches_claim:
  assumes "admitted action actor trace executor w"
    and claim: "brk_claim B (act_tenant_id action) (act_idempotency_key action) (action_digest (brk_sha B) action) (w_idem w) = (Inr claimed, i)"
  obtains w2 where "open_run action actor trace w2" "w_idem w2 = i" "w_calls w2 = w_calls w"
    "execute B action actor trace w = (if claimed then execute_claimed B action actor trace executor None
      else reuse_result B action actor trace executor None) w2"
proof -
  let ?dig = "action_digest (brk_sha B) action"
  from assms have r: "open_run action actor trace w" "actor_tenant_id actor = act_tenant_id action" "act_expires_at action = None"
      "select_executor B action = Inr executor" "\<not> brk_attempts B" "brk_leases B = None"
    and pol: "\<And>n. \<exists>policy. brk_policy B n action = Inr policy \<and> pol_action_digest policy = ?dig \<and> pol_outcome policy = Policy_ALLOW"
    unfolding admitted_def by blast+
  define p1 where "p1 = [(''action'', json_mode (dump_action_spec action)), (''action_digest'', PStr ?dig)]"
  obtain w1 where e1: "event B action actor trace Event_ACTION_PROPOSED p1 w = (Inr (), w1)" "open_run action actor trace w1"
    "w_idem w1 = w_idem w" "w_calls w1 = w_calls w" using event_run [OF r(1)] by blast
  obtain policy where p: "brk_policy B (w_tick w1) action = Inr policy" "pol_action_digest policy = ?dig"
      "pol_outcome policy = Policy_ALLOW" using pol by blast
  define p2 where "p2 = [(''decision'', json_mode (dump_policy_decision policy))]"
  obtain w2 where e2: "event B action actor trace Event_POLICY_EVALUATED p2 (w1\<lparr>w_tick := Suc (w_tick w1)\<rparr>) = (Inr (), w2)"
      "open_run action actor trace w2" "w_idem w2 = w_idem w" "w_calls w2 = w_calls w"
    using event_run [of action actor trace "w1\<lparr>w_tick := Suc (w_tick w1)\<rparr>"] e1 by simp metis
  have pre: "evaluate_policy B action actor trace w = (Inr policy, w2)"
    unfolding evaluate_policy_def p1_def [symmetric] p2_def [symmetric]
    using r p e1(1) e2(1) by (simp add: bindE_def ticked_def p2_def raise_if_def)
  have "execute B action actor trace w = (if claimed then execute_claimed B action actor trace executor None
      else reuse_result B action actor trace executor None) (w2\<lparr>w_idem := i\<rparr>)"
    using r p claim e2(3) by (simp add: execute_def pre require_approval_def issue_lease_def
        Let_def bindE_def on_idem_def)
  then show thesis using that [of "w2\<lparr>w_idem := i\<rparr>"] e2 by simp
qed

lemma execute_reaches_executor:
  assumes "ready action actor trace executor w"
  obtains w2 i where "open_run action actor trace w2" "w_calls w2 = w_calls w" "w_idem w2 = i"
    "brk_claim B (act_tenant_id action) (act_idempotency_key action) (action_digest (brk_sha B) action) (w_idem w) = (Inr True, i)"
    "execute B action actor trace w = bindE (try_prog (invoke_executor B action executor None None)
        (executor_failed B action actor trace executor None None))
      (finish_execution B action actor trace executor None None) w2"
proof -
  let ?dig = "action_digest (brk_sha B) action"
  from assms obtain i where adm: "admitted action actor trace executor w"
    and claim: "brk_claim B (act_tenant_id action) (act_idempotency_key action) ?dig (w_idem w) = (Inr True, i)"
    unfolding ready_def by blast
  obtain w2 where w2: "open_run action actor trace w2" "w_idem w2 = i" "w_calls w2 = w_calls w"
    and run: "execute B action actor trace w = execute_claimed B action actor trace executor None w2"
    using execute_reaches_claim [OF adm claim] by auto
  define p3 where "p3 = [(''executor'', PStr (exe_name executor)), (''executor_version'', PStr (exe_version executor)),
       (''action_digest'', PStr ?dig), (''execution_attempt_id'', dump_opt PStr (map_option att_attempt_id None)),
       (''credential_lease_id'', dump_opt PStr (map_option lease_lease_id None))]"
  obtain w3 where e3: "event B action actor trace Event_EXECUTION_STARTED p3 w2 = (Inr (), w3)"
      "open_run action actor trace w3" "w_idem w3 = i" "w_calls w3 = w_calls w"
    using event_run [OF w2(1)] w2 by metis
  have "execute_claimed B action actor trace executor None w2 = bindE (try_prog (invoke_executor B action executor None None)
        (executor_failed B action actor trace executor None None))
      (finish_execution B action actor trace executor None None) w3"
    using adm e3(1) by (simp add: admitted_def execute_claimed_def start_attempt_def p3_def bindE_def
        [of "event B action actor trace Event_EXECUTION_STARTED _"])
  then show thesis using that e3 claim run by simp
qed

lemma execute_reaches_call:
  assumes "ready action actor trace executor w" "execute B action actor trace w = (r, w')"
  shows "w_calls w' \<noteq> w_calls w"
  using assms(1)
proof (rule execute_reaches_executor)
  fix w2
  assume w2: "w_calls w2 = w_calls w"
    and run: "execute B action actor trace w = bindE (try_prog (invoke_executor B action executor None None)
        (executor_failed B action actor trace executor None None))
      (finish_execution B action actor trace executor None None) w2"
  obtain q w3 where inv: "invoke_executor B action executor None None w2 = (q, w3)" by fastforce
  obtain c where c: "w_calls w3 = w_calls w2 @ [c]" using invoke_executor_call [OF inv] by blast
  have keep: "keeps no_call (bindE (executor_failed B action actor trace executor None None e)
      (finish_execution B action actor trace executor None None))" for e
    by (intro keeps_bindE no_call_orders quiet_no_call [OF executor_failed_frame] finish_execution_no_call)
  have "w_calls w' = w_calls w3"
  proof (cases q)
    case (Inl e)
    with assms(2) run inv have "bindE (executor_failed B action actor trace executor None None e)
        (finish_execution B action actor trace executor None None) w3 = (r, w')"
      by (simp add: bindE_def try_prog_def)
    then show ?thesis by (rule frame_calls(3) [OF keep])
  next
    case (Inr x)
    with assms(2) run inv have "finish_execution B action actor trace executor None None x w3 = (r, w')"
      by (simp add: bindE_def try_prog_def)
    then show ?thesis by (rule frame_calls(3) [OF finish_execution_no_call])
  qed
  with c w2 show ?thesis by simp
qed

text \<open>Adapters that answer for the action.\<close>

definition observes :: "action_spec \<Rightarrow> controlled_executor \<Rightarrow> execution_result \<Rightarrow> bool" where
  "observes action executor result \<longleftrightarrow>
    (\<forall>n. \<exists>obs. exe_observe executor n action result = Inr obs \<and> obs_action_id obs = act_action_id action) \<and>
    (\<forall>n obs. \<exists>ver. brk_verifier B n action result obs = Inr ver \<and> ver_action_id ver = act_action_id action)"

definition answers :: "action_spec \<Rightarrow> controlled_executor \<Rightarrow> execution_result \<Rightarrow> bool" where
  "answers action executor result \<longleftrightarrow> (\<forall>n. exe_execute executor n action = Inr result) \<and>
    validate_result action executor result True = Inr () \<and> observes action executor result"

lemma observe_and_verify_completes:
  assumes "open_run action actor trace w" "observes action executor result"
  shows "\<exists>obs ver w'. observe_and_verify B action actor trace executor result reused w = (Inr (obs, ver), w')"
proof -
  obtain obs where obs: "exe_observe executor (w_tick w) action result = Inr obs" "obs_action_id obs = act_action_id action"
    using assms(2) unfolding observes_def by blast
  obtain w5 where e5: "event B action actor trace Event_STATE_OBSERVED
      [(''observation'', json_mode (dump_state_observation obs)), (''reused_idempotent_result'', PBool reused)]
      (w\<lparr>w_tick := Suc (w_tick w)\<rparr>) = (Inr (), w5)" "open_run action actor trace w5"
    using event_run [of action actor trace "w\<lparr>w_tick := Suc (w_tick w)\<rparr>"] assms(1) by simp metis
  obtain ver where ver: "brk_verifier B (w_tick w5) action result obs = Inr ver" "ver_action_id ver = act_action_id action"
    using assms(2) unfolding observes_def by blast
  obtain w6 where e6: "event B action actor trace Event_VERIFICATION_COMPLETED
      [(''verification'', json_mode (dump_verification_result ver)), (''reused_idempotent_result'', PBool reused)]
      (w5\<lparr>w_tick := Suc (w_tick w5)\<rparr>) = (Inr (), w6)"
    using event_run [of action actor trace "w5\<lparr>w_tick := Suc (w_tick w5)\<rparr>"] e5 by simp metis
  have "observe_and_verify B action actor trace executor result reused w = (Inr (obs, ver), w6)"
    using obs ver e5 e6 by (simp add: observe_and_verify_def bindE_def ticked_def raise_if_def)
  then show ?thesis by blast
qed

lemma execute_completes:
  assumes "ready action actor trace executor w" "answers action executor result"
  shows "\<exists>out w'. execute B action actor trace w = (Inr out, w') \<and> out_result out = result \<and> \<not> out_reused_idempotent_result out"
  using assms(1)
proof (rule execute_reaches_executor)
  fix w2 i
  assume w2: "open_run action actor trace w2" "w_idem w2 = i"
    and claim: "brk_claim B (act_tenant_id action) (act_idempotency_key action) (action_digest (brk_sha B) action) (w_idem w) = (Inr True, i)"
    and run: "execute B action actor trace w = bindE (try_prog (invoke_executor B action executor None None)
        (executor_failed B action actor trace executor None None))
      (finish_execution B action actor trace executor None None) w2"
  obtain w3 where inv: "invoke_executor B action executor None None w2 = (Inr result, w3)"
      "open_run action actor trace w3" "w_idem w3 = i"
    using assms(2) w2 by (simp add: invoke_executor_def Let_def bindE_def log_call_def ticked_def answers_def)
  have "owner (act_tenant_id action) (act_idempotency_key action) i \<noteq> None" using idem.claim_granted [OF claim] by simp
  then obtain i' where com: "brk_complete B (act_tenant_id action) (act_idempotency_key action) result i = (Inr (), i')"
    using idem.complete_raises
    by (cases "brk_complete B (act_tenant_id action) (act_idempotency_key action) result i";
        cases "fst (brk_complete B (act_tenant_id action) (act_idempotency_key action) result i)") force+
  obtain w4 where e4: "event B action actor trace Event_EXECUTION_COMPLETED
      [(''result'', json_mode (dump_execution_result result))] (w3\<lparr>w_idem := i'\<rparr>) = (Inr (), w4)" "open_run action actor trace w4"
    using event_run [of action actor trace "w3\<lparr>w_idem := i'\<rparr>"] inv by simp metis
  have "observes action executor result" using assms(2) by (simp add: answers_def)
  then obtain obs ver w6 where "observe_and_verify B action actor trace executor result False w4 = (Inr (obs, ver), w6)"
    using observe_and_verify_completes [OF e4(2)] by blast
  then have "finish_execution B action actor trace executor None None result w3 =
      (Inr \<lparr>out_action = action, out_result = result, out_observation = obs, out_verification = ver,
        out_reused_idempotent_result = False\<rparr>, w6)"
    using assms(2) inv com e4
    by (simp add: finish_execution_def answers_def bindE_def raise_if_def revoke_after_execution_def try_prog_def
        revoke_lease_opt_def close_attempt_def on_idem_def)
  then show ?thesis using run inv by (simp add: bindE_def try_prog_def)
qed

text \<open>A held key with a recorded result is answered from the record.\<close>

lemma execute_reuses:
  assumes "admitted action actor trace executor w" "observes action executor result"
    and "brk_claim B (act_tenant_id action) (act_idempotency_key action) (action_digest (brk_sha B) action) (w_idem w) = (Inr False, w_idem w)"
    and "brk_result B (act_tenant_id action) (act_idempotency_key action) (w_idem w) = Some result"
    and "validate_result action executor result False = Inr ()"
  shows "\<exists>out w'. execute B action actor trace w = (Inr out, w') \<and> out_result out = result \<and> out_reused_idempotent_result out"
proof -
  obtain w2 where w2: "open_run action actor trace w2" "w_idem w2 = w_idem w"
    and run: "execute B action actor trace w = reuse_result B action actor trace executor None w2"
    using execute_reaches_claim [OF assms(1,3)] by auto
  obtain obs ver w6 where "observe_and_verify B action actor trace executor result True w2 = (Inr (obs, ver), w6)"
    using observe_and_verify_completes [OF w2(1) assms(2)] by blast
  with run w2 assms(4,5) show ?thesis
    by (simp add: reuse_result_def revoke_lease_opt_def bindE_def on_idem_def)
qed

end

end
