(* ===== verification/Standalone_Broker.thy ===== *)
theory Standalone_Broker
  imports Broker_Safety
begin

text \<open>
  The broker of the standalone runtime: \<open>ActionBroker\<close> over the in-memory ledger, idempotency,
  attempt and approval stores, with arbitrary policy engine, executors, verifier and lease provider,
  and the reference executor and verifier of \<open>executors.py\<close>. The interpretation of \<open>broker_stores\<close>
  turns the lemmas about brokers into the properties below.
\<close>

section \<open>Reference executor and verifier (executors.py)\<close>

definition dry_run_execute_attempt ::
  "sha256_fn \<Rightarrow> datetime \<Rightarrow> datetime \<Rightarrow> action_spec \<Rightarrow> uuid \<Rightarrow> execution_result result" where
  "dry_run_execute_attempt sha started completed action attempt_id =
    validate_execution_result
      \<lparr>res_action_id = act_action_id action, res_execution_attempt_id = attempt_id, res_executor_name = ''dry-run'',
       res_executor_version = ''1.0.0'', res_executor_identity = ''spiffe://prodkit.local/executor/dry-run'',
       res_started_at = started, res_completed_at = completed, res_succeeded = True, res_exit_code = Some 0,
       res_provider_operation_id = None,
       res_result = [(''dry_run'', PBool True), (''operation'', PStr (act_operation action)),
         (''target'', json_mode (dump_action_target (act_target action))),
         (''arguments_digest'', PStr (sha256_hex sha (dump_dict (\<lambda>v. v) (act_arguments action)))),
         (''expected_effect'', dump_dict (\<lambda>v. v) (act_expected_effect action))],
       res_result_artifact = None, res_retryable = False, res_error_type = None, res_error_message = None\<rparr>"

definition dict_get :: "string \<Rightarrow> pyval \<Rightarrow> (string \<times> pyval) list \<Rightarrow> pyval" where
  "dict_get k dflt d = (case map_of d k of None \<Rightarrow> dflt | Some v \<Rightarrow> v)"

definition dry_run_observe ::
  "sha256_fn \<Rightarrow> uuid \<Rightarrow> datetime \<Rightarrow> action_spec \<Rightarrow> execution_result \<Rightarrow> state_observation" where
  "dry_run_observe sha observation_id observed_at action result =
    (let state = [(''target'', json_mode (dump_action_target (act_target action))),
           (''effect'', dict_get ''expected_effect'' (PDict []) (res_result result)), (''dry_run'', PBool True)]
     in \<lparr>obs_observation_id = observation_id, obs_action_id = act_action_id action, obs_source = ''dry-run-executor'',
         obs_observed_at = observed_at, obs_state_digest = sha256_hex sha (dump_dict (\<lambda>v. v) state),
         obs_state = state, obs_evidence = []\<rparr>)"

definition digest_effect_verify ::
  "sha256_fn \<Rightarrow> uuid \<Rightarrow> datetime \<Rightarrow> action_spec \<Rightarrow> execution_result \<Rightarrow> state_observation \<Rightarrow> verification_result" where
  "digest_effect_verify sha verification_id verified_at action result observation =
    (let expected_state = [(''target'', json_mode (dump_action_target (act_target action))),
           (''effect'', dump_dict (\<lambda>v. v) (act_expected_effect action)),
           (''dry_run'', dict_get ''dry_run'' (PBool False) (res_result result))];
         expected_digest = sha256_hex sha (dump_dict (\<lambda>v. v) expected_state);
         passed = (expected_digest = obs_state_digest observation \<and> res_succeeded result)
     in \<lparr>ver_verification_id = verification_id, ver_action_id = act_action_id action,
         ver_verifier = ''digest-effect-verifier'', ver_verifier_version = ''1.0.0'', ver_verified_at = verified_at,
         ver_outcome = (if passed then Verification_PASSED else Verification_FAILED),
         ver_expected_digest = Some expected_digest, ver_observed_digest = Some (obs_state_digest observation),
         ver_checks = [''result_succeeded'', ''expected_observation_digest_matches''],
         ver_details = [(''result_succeeded'', PBool (res_succeeded result))], ver_evidence = []\<rparr>)"

definition dry_run_executor :: "sha256_fn \<Rightarrow> (nat \<Rightarrow> datetime) \<Rightarrow> (nat \<Rightarrow> uuid) \<Rightarrow> controlled_executor" where
  "dry_run_executor sha clock uuid =
    \<lparr>exe_name = ''dry-run'', exe_version = ''1.0.0'', exe_identity = ''spiffe://prodkit.local/executor/dry-run'',
     exe_attempt_aware = True, exe_lease_aware = False,
     exe_execute = (\<lambda>n action. dry_run_execute_attempt sha (clock n) (clock n) action (uuid n)),
     exe_execute_attempt = (\<lambda>n action attempt_id. dry_run_execute_attempt sha (clock n) (clock n) action attempt_id),
     exe_execute_attempt_with_lease = (\<lambda>n action attempt_id lease. Inl (TypeError ''execute_attempt_with_lease'')),
     exe_observe = (\<lambda>n action result. Inr (dry_run_observe sha (uuid n) (clock n) action result))\<rparr>"

section \<open>The standalone broker\<close>

type_synonym mem_broker = "(event_ledger_state, idempotency_store, attempt_store) broker"
type_synonym mem_world = "(event_ledger_state, idempotency_store, attempt_store) world"

definition in_memory_broker :: "mem_broker \<Rightarrow> approval_store \<Rightarrow> mem_broker" where
  "in_memory_broker B S = B
    \<lparr>brk_append := ledger_append (brk_sha B),
     brk_approvals := (\<lambda>n action policy target_digest.
       Inr (find_valid_approval (brk_sha B) (brk_clock B n) action policy target_digest S)),
     brk_claim := claim, brk_complete := complete, brk_result := idempotency_result,
     brk_create_attempt := attempt_create, brk_replace_attempt := attempt_replace\<rparr>"

definition empty_world :: mem_world where
  "empty_world = \<lparr>w_ledger = empty_ledger, w_idem = empty_idempotency, w_attempts = empty_attempts, w_tick = 0, w_calls = []\<rparr>"

lemma in_memory_broker_simps [simp]:
  "brk_sha (in_memory_broker B S) = brk_sha B" "brk_clock (in_memory_broker B S) = brk_clock B"
  "brk_uuid4 (in_memory_broker B S) = brk_uuid4 B" "brk_span (in_memory_broker B S) = brk_span B"
  "brk_append (in_memory_broker B S) = ledger_append (brk_sha B)" "brk_policy (in_memory_broker B S) = brk_policy B"
  "brk_approvals (in_memory_broker B S) = (\<lambda>n action policy target_digest.
     Inr (find_valid_approval (brk_sha B) (brk_clock B n) action policy target_digest S))"
  "brk_claim (in_memory_broker B S) = claim" "brk_complete (in_memory_broker B S) = complete"
  "brk_result (in_memory_broker B S) = idempotency_result" "brk_executors (in_memory_broker B S) = brk_executors B"
  "brk_verifier (in_memory_broker B S) = brk_verifier B" "brk_attempts (in_memory_broker B S) = brk_attempts B"
  "brk_create_attempt (in_memory_broker B S) = attempt_create"
  "brk_replace_attempt (in_memory_broker B S) = attempt_replace" "brk_leases (in_memory_broker B S) = brk_leases B"
  by (simp_all add: in_memory_broker_def)

interpretation mem_broker: broker_stores "in_memory_broker B S" list_run_events "verify_run (brk_sha B)"
    "ledger_inv (brk_sha B)" claim_owner attempt_get attempts_inv
  for B S
  by (rule broker_stores.intro)
     (simp_all add: mem_ledger.event_ledger_axioms mem_idem.idempotency_axioms mem_attempts.attempt_storage_axioms)

lemma select_executor_in_memory [simp]: "select_executor (in_memory_broker B S) = select_executor B"
  by (simp add: select_executor_def fun_eq_iff)

text \<open>
  A history of the standalone runtime: requests served one after the other, each by a broker over
  the shared stores with its own adapters and the approvals recorded by then. All use one hash function.
\<close>

record request =
  req_broker :: mem_broker
  req_approvals :: approval_store
  req_action :: action_spec
  req_actor :: actor_ref
  req_trace :: string

definition serve_one :: "sha256_fn \<Rightarrow> request \<Rightarrow> mem_world \<Rightarrow> (exn + broker_outcome) \<times> mem_world" where
  "serve_one sha q = execute (in_memory_broker (req_broker q\<lparr>brk_sha := sha\<rparr>) (req_approvals q)) (req_action q) (req_actor q) (req_trace q)"

definition serve :: "sha256_fn \<Rightarrow> request list \<Rightarrow> mem_world \<Rightarrow> mem_world" where
  "serve sha qs w = foldl (\<lambda>w q. snd (serve_one sha q w)) w qs"

lemma serve_snoc: "serve sha (qs @ [q]) w = snd (serve_one sha q (serve sha qs w))"
  by (simp add: serve_def)

text \<open>Every executor call holds its idempotency key, and no key has two calls.\<close>

definition calls_inv :: "mem_world \<Rightarrow> bool" where
  "calls_inv w \<longleftrightarrow> distinct (map (\<lambda>c. (call_tenant c, call_key c)) (w_calls w)) \<and>
    (\<forall>c \<in> set (w_calls w). claim_owner (call_tenant c) (call_key c) (w_idem w) = Some (call_digest c))"

lemma serve_one_calls_inv:
  assumes inv: "calls_inv w" and run: "serve_one sha q w = (r, w')"
  shows "calls_inv w'"
proof -
  let ?B = "in_memory_broker (req_broker q\<lparr>brk_sha := sha\<rparr>) (req_approvals q)"
  have exec: "execute ?B (req_action q) (req_actor q) (req_trace q) w = (r, w')"
    using run by (simp add: serve_one_def)
  note mono = mem_broker.soundD(4) [OF mem_broker.execute_sound exec]
  show ?thesis
  proof (cases "w_calls w' = w_calls w")
    case True
    with inv mono show ?thesis by (simp add: calls_inv_def)
  next
    case False
    from mem_broker.execute_call_owns [OF exec False] obtain c where
      c: "w_calls w' = w_calls w @ [c]" "call_for ?B (req_action q) c"
      "claim_owner (act_tenant_id (req_action q)) (act_idempotency_key (req_action q)) (w_idem w) = None"
      "claim_owner (act_tenant_id (req_action q)) (act_idempotency_key (req_action q)) (w_idem w') =
         Some (action_digest (brk_sha ?B) (req_action q))" by blast
    then have "(call_tenant c, call_key c) \<notin> (\<lambda>c. (call_tenant c, call_key c)) ` set (w_calls w)"
      using inv by (auto simp: calls_inv_def call_for_def)
    with c inv mono show ?thesis by (auto simp: calls_inv_def call_for_def)
  qed
qed

lemma serve_inv:
  "calls_inv (serve sha qs empty_world) \<and> ledger_inv sha (w_ledger (serve sha qs empty_world))
    \<and> attempts_inv (w_attempts (serve sha qs empty_world))"
proof (induction qs rule: rev_induct)
  case Nil
  show ?case by (simp add: serve_def empty_world_def calls_inv_def)
next
  case (snoc q qs)
  let ?w = "serve sha qs empty_world"
  let ?B = "in_memory_broker (req_broker q\<lparr>brk_sha := sha\<rparr>) (req_approvals q)"
  obtain r w' where run: "serve_one sha q ?w = (r, w')" by fastforce
  then have exec: "execute ?B (req_action q) (req_actor q) (req_trace q) ?w = (r, w')" by (simp add: serve_one_def)
  have "ledger_inv sha (w_ledger w')"
    using mem_broker.soundD(1) [OF mem_broker.execute_sound exec] snoc by simp
  moreover have "attempts_inv (w_attempts w')"
    using mem_broker.soundD(3) [OF mem_broker.execute_sound exec] snoc by simp
  moreover have "calls_inv w'" using serve_one_calls_inv [OF _ run] snoc by blast
  ultimately show ?case by (simp add: serve_snoc run)
qed

section \<open>A concrete request\<close>

text \<open>A ledger in which the sample run is already open, and a broker that allows the sample action.\<close>

definition sample_broker :: "controlled_executor \<Rightarrow> policy_outcome \<Rightarrow> mem_broker" where
  "sample_broker executor outcome =
    \<lparr>brk_sha = zero_hash, brk_clock = int, brk_uuid4 = nat_str, brk_span = (\<lambda>n. replicate 16 (CHR ''0'')),
     brk_append = ledger_append zero_hash, brk_policy = (\<lambda>n action. Inr (sample_policy zero_hash outcome)),
     brk_approvals = (\<lambda>n action policy target_digest. Inr None), brk_claim = claim, brk_complete = complete,
     brk_result = idempotency_result, brk_executors = [(''dry-run'', executor)],
     brk_verifier = (\<lambda>n action result obs. Inr (digest_effect_verify zero_hash (nat_str n) (int n) action result obs)),
     brk_attempts = False, brk_create_attempt = attempt_create, brk_replace_attempt = attempt_replace,
     brk_leases = None\<rparr>"

definition sample_world :: mem_world where
  "sample_world = empty_world\<lparr>w_ledger := snd (ledger_append zero_hash sample_draft empty_ledger)\<rparr>"

definition sample_trace :: string where
  "sample_trace = replicate 32 (CHR ''0'')"

lemma sample_events: "list_run_events ''acme'' ''r1'' (w_ledger sample_world) = [make_event zero_hash sample_draft []]"
  by (simp add: sample_world_def append_sample_draft list_run_events_def)

lemma sample_span: "is_span_id (replicate 16 (CHR ''0''))" "is_trace_id sample_trace"
  unfolding is_span_id_def is_trace_id_def sample_trace_def
  by (rule hex_pattern_replicate, simp add: is_hex_def)+

lemma sample_open: "mem_broker.open_run (sample_broker executor outcome) S sample_action sample_actor sample_trace sample_world"
proof -
  let ?B = "in_memory_broker (sample_broker executor outcome) S"
  have "ledger_inv zero_hash (w_ledger sample_world)"
    using ledger_append_inv [OF empty_ledger_inv append_sample_draft] by (simp add: sample_world_def append_sample_draft)
  moreover have "list_run_events ''acme'' ''r1'' (w_ledger sample_world) \<noteq> []" by (simp add: sample_events)
  moreover have "new_event_draft (event_draft ?B sample_action sample_actor sample_trace Event_ACTION_PROPOSED [] 0) =
      Inr (event_draft ?B sample_action sample_actor sample_trace Event_ACTION_PROPOSED [] 0)"
    using sample_span
    by (simp add: new_event_draft_def control_event_draft_fields_def validate_control_event_draft_def event_draft_def
        sample_broker_def sample_action_def sample_actor_def actor_ref_fields_def nonblank_def strip_def py_isspace_def)
  ultimately show ?thesis
    using sample_span unfolding mem_broker.open_run_def
    by (auto simp: sample_broker_def sample_action_def)
qed

lemma sample_admitted:
  assumes "exe_name executor = ''dry-run''"
  shows "mem_broker.admitted (sample_broker executor Policy_ALLOW) S sample_action sample_actor sample_trace executor (sample_world\<lparr>w_idem := i\<rparr>)"
proof -
  have "mem_broker.open_run (sample_broker executor Policy_ALLOW) S sample_action sample_actor sample_trace (sample_world\<lparr>w_idem := i\<rparr>)"
    using sample_open by (simp only: mem_broker.open_run_updates)
  moreover have "actor_tenant_id sample_actor = act_tenant_id sample_action" "act_expires_at sample_action = None"
    "act_executor sample_action = ''dry-run''"
    by (simp_all add: sample_action_def sample_actor_def)
  ultimately show ?thesis
    unfolding mem_broker.admitted_def
    by (simp add: sample_broker_def select_executor_def registry_get_def raise_if_def sample_policy_def)
qed

lemma sample_ready:
  assumes "exe_name executor = ''dry-run''"
  shows "mem_broker.ready (sample_broker executor Policy_ALLOW) S sample_action sample_actor sample_trace executor sample_world"
  using sample_admitted [OF assms, of S "w_idem sample_world"]
  unfolding mem_broker.ready_def
  by (simp add: sample_broker_def claim_def sample_world_def empty_world_def empty_idempotency_def entry_of_def)

definition sample_dry_run :: controlled_executor where
  "sample_dry_run = dry_run_executor zero_hash (\<lambda>_. 5) (\<lambda>_. ''u'')"

lemma sample_dry_run_name [simp]: "exe_name sample_dry_run = ''dry-run''"
  by (simp add: sample_dry_run_def dry_run_executor_def)

lemma sample_observes: "mem_broker.observes (sample_broker sample_dry_run Policy_ALLOW) S sample_action sample_dry_run result"
  unfolding mem_broker.observes_def
  by (simp add: sample_dry_run_def dry_run_executor_def dry_run_observe_def sample_broker_def digest_effect_verify_def Let_def)

lemma sample_answers:
  "\<exists>result. mem_broker.answers (sample_broker sample_dry_run Policy_ALLOW) S sample_action sample_dry_run result"
  unfolding mem_broker.answers_def
  by (simp add: sample_observes)
     (simp add: sample_dry_run_def dry_run_executor_def dry_run_execute_attempt_def validate_execution_result_def truthy_def
      validate_result_def)

section \<open>Properties\<close>

text \<open>
  C1: No unauthorised execution. When a call of \<open>execute\<close> reached the executor, the actor belongs to
  the action's tenant, the action had not expired, a policy decision for exactly this digest was
  returned during the call and did not deny, an approval that is bound to the action, its target,
  the decision and the environment and is unexpired was found if the decision required one, and the
  executor is the registered one; the executor was called exactly once, under a key that was free.
\<close>

theorem broker_executes_only_authorised:
  assumes "execute (in_memory_broker B S) action actor trace w = (r, w')" "w_calls w' \<noteq> w_calls w"
  shows "actor_tenant_id actor = act_tenant_id action
    \<and> (\<forall>t. act_expires_at action = Some t \<longrightarrow> (\<exists>n. w_tick w \<le> n \<and> n < w_tick w' \<and> brk_clock B n < t))
    \<and> (\<exists>n policy. w_tick w \<le> n \<and> n < w_tick w' \<and> brk_policy B n action = Inr policy
         \<and> pol_action_digest policy = action_digest (brk_sha B) action \<and> pol_outcome policy \<noteq> Policy_DENY
         \<and> (pol_outcome policy = Policy_REQUIRE_APPROVAL \<longrightarrow>
             (\<exists>m d. w_tick w \<le> m \<and> m < w_tick w' \<and> d \<in> set (approvals_for (act_action_id action) S)
                \<and> approval_authorizes (brk_sha B) (brk_clock B m) action policy
                    (sha256_hex (brk_sha B) (dump_action_target (act_target action))) d)))
    \<and> (\<exists>executor. map_of (brk_executors B) (act_executor action) = Some executor)
    \<and> (\<exists>c. w_calls w' = w_calls w @ [c] \<and> call_tenant c = act_tenant_id action
         \<and> call_key c = act_idempotency_key action \<and> call_digest c = action_digest (brk_sha B) action)
    \<and> claim_owner (act_tenant_id action) (act_idempotency_key action) (w_idem w) = None"
  using assms
proof (rule mem_broker.execute_called)
  fix policy w1 u w2 executor lease w3 i
  let ?B = "in_memory_broker B S"
  let ?td = "sha256_hex (brk_sha B) (dump_action_target (act_target action))"
  assume p1: "evaluate_policy ?B action actor trace w = (Inr policy, w1)"
    and p2: "require_approval ?B action actor trace policy w1 = (Inr u, w2)"
    and p3: "select_executor ?B action = Inr executor"
    and p4: "issue_lease ?B action actor trace executor w2 = (Inr lease, w3)"
    and run: "execute_claimed ?B action actor trace executor lease (w3\<lparr>w_idem := i\<rparr>) = (r, w')"
  note ep = mem_broker.evaluate_policy_returns [OF p1]
  have ticks: "w_tick w \<le> w_tick w1" "w_tick w1 \<le> w_tick w2" "w_tick w2 \<le> w_tick w'"
    using mem_broker.soundD(5) [OF mem_broker.evaluate_policy_sound p1]
      mem_broker.soundD(5) [OF mem_broker.require_approval_sound p2]
      mem_broker.soundD(5) [OF mem_broker.issue_lease_sound p4]
      mem_broker.soundD(5) [OF mem_broker.execute_claimed_sound run] by simp_all
  obtain n where n: "w_tick w \<le> n" "n < w_tick w'" "brk_policy B n action = Inr policy"
    using ep(3) ticks by force
  have appr: "\<exists>m d. w_tick w \<le> m \<and> m < w_tick w' \<and> d \<in> set (approvals_for (act_action_id action) S)
      \<and> approval_authorizes (brk_sha B) (brk_clock B m) action policy ?td d" if "pol_outcome policy = Policy_REQUIRE_APPROVAL"
  proof -
    from mem_broker.require_approval_returns [OF p2 that] obtain m d where m: "w_tick w1 \<le> m" "m < w_tick w2"
      and d: "find_valid_approval (brk_sha B) (brk_clock B m) action policy ?td S = Some d" by auto
    from d have "approval_authorizes (brk_sha B) (brk_clock B m) action policy ?td d"
        "d \<in> set (approvals_for (act_action_id action) S)"
      by (auto simp: find_valid_approval_def find_rev_Some)
    with m ticks show ?thesis by (intro exI [of _ m] exI [of _ d]) simp
  qed
  have exe: "\<exists>executor. map_of (brk_executors B) (act_executor action) = Some executor"
    using p3 by (auto simp: select_executor_def registry_get_def split: option.splits)
  obtain c where c: "w_calls w' = w_calls w @ [c]" "call_for ?B action c"
    "claim_owner (act_tenant_id action) (act_idempotency_key action) (w_idem w) = None"
    using mem_broker.execute_call_owns [OF assms] by blast
  have expiry: "\<exists>n. w_tick w \<le> n \<and> n < w_tick w' \<and> brk_clock B n < t" if "act_expires_at action = Some t" for t
    using ep(2) [OF that] ticks by force
  show ?thesis using ep(1,4,5) n appr exe c expiry by (auto simp: call_for_def)
qed

theorem broker_executes_only_authorised_witness:
  "let B = sample_broker sample_dry_run Policy_ALLOW;
       w' = snd (execute (in_memory_broker B empty_approvals) sample_action sample_actor sample_trace sample_world)
   in \<exists>c. w_calls w' = [c] \<and> call_tenant c = ''acme'' \<and> call_key c = ''k1''"
proof -
  let ?e = "sample_dry_run"
  let ?B = "sample_broker ?e Policy_ALLOW"
  obtain r w' where run: "execute (in_memory_broker ?B empty_approvals) sample_action sample_actor sample_trace sample_world = (r, w')"
    by fastforce
  have "exe_name ?e = ''dry-run''" by simp
  then have "w_calls w' \<noteq> w_calls sample_world"
    using mem_broker.execute_reaches_call [OF sample_ready run] by blast
  from broker_executes_only_authorised [OF run this] have "\<exists>c. w_calls w' = w_calls sample_world @ [c]
      \<and> call_tenant c = act_tenant_id sample_action \<and> call_key c = act_idempotency_key sample_action" by blast
  then show ?thesis using run by (simp add: Let_def sample_world_def empty_world_def sample_action_def)
qed

text \<open>
  C2: At most one execution per idempotency key. Whatever requests are served, with whatever
  adapters, approvals, failures and results, the log of executor calls never has two calls for one
  tenant and idempotency key.
\<close>

theorem broker_executes_at_most_once:
  "distinct (map (\<lambda>c. (call_tenant c, call_key c)) (w_calls (serve sha qs empty_world)))"
  using serve_inv by (simp add: calls_inv_def)

text \<open>
  C16: The evidence stays verifiable. After any history of requests every run's hash chain verifies,
  no event recorded by an earlier prefix of the history has been changed, and an idempotency key
  once owned keeps its owner.
\<close>

theorem broker_history_sound:
  "verify_run sha t run (w_ledger (serve sha (qs @ qs') empty_world)) = Inr ()
   \<and> prefix (list_run_events t run (w_ledger (serve sha qs empty_world)))
       (list_run_events t run (w_ledger (serve sha (qs @ qs') empty_world)))
   \<and> (claim_owner t key (w_idem (serve sha qs empty_world)) = Some d \<longrightarrow>
       claim_owner t key (w_idem (serve sha (qs @ qs') empty_world)) = Some d)"
proof (intro conjI)
  show "verify_run sha t run (w_ledger (serve sha (qs @ qs') empty_world)) = Inr ()"
    using serve_inv by (blast intro: ledger_inv_verify)
  have step: "prefix (list_run_events t run (w_ledger w)) (list_run_events t run (w_ledger (snd (serve_one sha q w))))
      \<and> (claim_owner t key (w_idem w) = Some d \<longrightarrow> claim_owner t key (w_idem (snd (serve_one sha q w))) = Some d)" for q w
    using mem_broker.soundD(2,4) [OF mem_broker.execute_sound prod.collapse [symmetric]] by (simp add: serve_one_def)
  have "prefix (list_run_events t run (w_ledger (serve sha qs w))) (list_run_events t run (w_ledger (serve sha (qs @ qs') w)))
      \<and> (claim_owner t key (w_idem (serve sha qs w)) = Some d \<longrightarrow> claim_owner t key (w_idem (serve sha (qs @ qs') w)) = Some d)" for w
  proof (induction qs' rule: rev_induct)
    case (snoc q qs')
    then show ?case
      using step [where w = "serve sha (qs @ qs') w" and q = q] serve_snoc [of sha "qs @ qs'" q w]
      by (auto intro: prefix_order.trans)
  qed simp
  then show "prefix (list_run_events t run (w_ledger (serve sha qs empty_world)))
       (list_run_events t run (w_ledger (serve sha (qs @ qs') empty_world)))"
    "claim_owner t key (w_idem (serve sha qs empty_world)) = Some d \<longrightarrow>
       claim_owner t key (w_idem (serve sha (qs @ qs') empty_world)) = Some d" by blast+
qed

theorem broker_history_sound_witness:
  "\<exists>w'. serve_one zero_hash \<lparr>req_broker = sample_broker sample_dry_run Policy_ALLOW, req_approvals = empty_approvals,
       req_action = sample_action, req_actor = sample_actor, req_trace = sample_trace\<rparr> empty_world = (fst w', snd w')
     \<and> verify_run zero_hash ''acme'' ''r1'' (w_ledger (snd w')) = Inr ()"
  using broker_history_sound [of zero_hash "''acme''" "''r1''" "[]" "[\<lparr>req_broker = sample_broker sample_dry_run Policy_ALLOW,
      req_approvals = empty_approvals, req_action = sample_action, req_actor = sample_actor, req_trace = sample_trace\<rparr>]"]
  by (auto simp: serve_def)

text \<open>
  C18: The record of a completed execution. When \<open>execute\<close> returns a fresh result, the run's ledger has
  gained exactly the events proposed, policy evaluated, approval decided (if required), lease issued
  (if configured), execution started, lease revoked (if configured), execution completed, state
  observed, verification completed, in this order; result, observation and verification are bound
  to the action; the idempotency claim holds the result; and a configured attempt store holds the
  attempt, closed with the digest of the result.
\<close>

theorem broker_completion_recorded:
  assumes "execute (in_memory_broker B S) action actor trace w = (Inr out, w')" "\<not> out_reused_idempotent_result out"
  shows "(\<exists>policy evs. (\<exists>n. w_tick w \<le> n \<and> n < w_tick w' \<and> brk_policy B n action = Inr policy) \<and> pol_outcome policy \<noteq> Policy_DENY
      \<and> list_run_events (act_tenant_id action) (act_run_id action) (w_ledger w') =
          list_run_events (act_tenant_id action) (act_run_id action) (w_ledger w) @ evs
      \<and> map ev_event_type evs = [Event_ACTION_PROPOSED, Event_POLICY_EVALUATED] @
          (if pol_outcome policy = Policy_REQUIRE_APPROVAL then [Event_APPROVAL_DECIDED] else []) @
          (if brk_leases B = None then [] else [Event_CREDENTIAL_LEASE_ISSUED]) @ [Event_EXECUTION_STARTED] @
          (if brk_leases B = None then [] else [Event_CREDENTIAL_LEASE_REVOKED]) @
          [Event_EXECUTION_COMPLETED, Event_STATE_OBSERVED, Event_VERIFICATION_COMPLETED])
    \<and> res_action_id (out_result out) = act_action_id action \<and> obs_action_id (out_observation out) = act_action_id action
    \<and> ver_action_id (out_verification out) = act_action_id action
    \<and> idempotency_result (act_tenant_id action) (act_idempotency_key action) (w_idem w') = Some (out_result out)
    \<and> (brk_attempts B \<longrightarrow> (\<exists>a. attempt_get (act_tenant_id action) (res_execution_attempt_id (out_result out)) (w_attempts w') = Some a
         \<and> att_action_id a = act_action_id action
         \<and> att_state a = (if res_succeeded (out_result out) then Attempt_SUCCEEDED else Attempt_FAILED)
         \<and> att_result_digest a = Some (sha256_hex (brk_sha B) (dump_execution_result (out_result out)))))"
  using assms(1)
proof (rule mem_broker.execute_returns)
  fix policy executor lease w3 claimed i
  let ?B = "in_memory_broker B S"
  assume lease: "lease = None \<longleftrightarrow> brk_leases ?B = None"
    and pre: "mem_broker.recorded action w w3 ([Event_ACTION_PROPOSED, Event_POLICY_EVALUATED] @
      (if pol_outcome policy = Policy_REQUIRE_APPROVAL then [Event_APPROVAL_DECIDED] else []) @
      (if lease = None then [] else [Event_CREDENTIAL_LEASE_ISSUED]))"
    and pol: "\<exists>n. w_tick w \<le> n \<and> n < w_tick w' \<and> brk_policy ?B n action = Inr policy" "pol_outcome policy \<noteq> Policy_DENY"
    and run: "(if claimed then execute_claimed ?B action actor trace executor lease
      else reuse_result ?B action actor trace executor lease) (w3\<lparr>w_idem := i\<rparr>) = (Inr out, w')"
  have claimed
    using run assms(2) mem_broker.reuse_result_returns(2) [OF _ lease] by (cases claimed) auto
  with run have run': "execute_claimed ?B action actor trace executor lease (w3\<lparr>w_idem := i\<rparr>) = (Inr out, w')" by simp
  note f = mem_broker.execute_claimed_returns [OF run' lease]
  have "mem_broker.recorded action w (w3\<lparr>w_idem := i\<rparr>) ([Event_ACTION_PROPOSED, Event_POLICY_EVALUATED] @
      (if pol_outcome policy = Policy_REQUIRE_APPROVAL then [Event_APPROVAL_DECIDED] else []) @
      (if lease = None then [] else [Event_CREDENTIAL_LEASE_ISSUED]))"
    using pre by (simp add: mem_broker.recorded_def)
  from mem_broker.recorded_trans [OF this f(1)] obtain evs where
    "list_run_events (act_tenant_id action) (act_run_id action) (w_ledger w') =
        list_run_events (act_tenant_id action) (act_run_id action) (w_ledger w) @ evs"
    "map ev_event_type evs = [Event_ACTION_PROPOSED, Event_POLICY_EVALUATED] @
          (if pol_outcome policy = Policy_REQUIRE_APPROVAL then [Event_APPROVAL_DECIDED] else []) @
          (if brk_leases B = None then [] else [Event_CREDENTIAL_LEASE_ISSUED]) @ [Event_EXECUTION_STARTED] @
          (if brk_leases B = None then [] else [Event_CREDENTIAL_LEASE_REVOKED]) @
          [Event_EXECUTION_COMPLETED, Event_STATE_OBSERVED, Event_VERIFICATION_COMPLETED]"
    using lease by (auto simp: mem_broker.recorded_def)
  with pol f(2,3,5) show ?thesis by auto
qed

theorem broker_completion_recorded_witness:
  "let B = in_memory_broker (sample_broker sample_dry_run Policy_ALLOW) empty_approvals
   in \<exists>out w'. execute B sample_action sample_actor sample_trace sample_world = (Inr out, w') \<and>
     \<not> out_reused_idempotent_result out \<and> idempotency_result ''acme'' ''k1'' (w_idem w') = Some (out_result out)"
proof -
  let ?e = "sample_dry_run"
  let ?B = "sample_broker ?e Policy_ALLOW"
  have "exe_name ?e = ''dry-run''" by simp
  then obtain out w' where run: "execute (in_memory_broker ?B empty_approvals) sample_action sample_actor sample_trace sample_world = (Inr out, w')"
      "\<not> out_reused_idempotent_result out"
    using mem_broker.execute_completes [OF sample_ready] sample_answers by metis
  from broker_completion_recorded [OF this] have "idempotency_result (act_tenant_id sample_action) (act_idempotency_key sample_action) (w_idem w')
      = Some (out_result out)" by blast
  then have "idempotency_result ''acme'' ''k1'' (w_idem w') = Some (out_result out)" by (simp add: sample_action_def)
  with run show ?thesis unfolding Let_def by blast
qed

text \<open>
  C37: Repeated requests do not repeat effects. When \<open>execute\<close> returns a reused result, the executor was
  not called, no store but the ledger changed, and the result is the one the idempotency store held
  for exactly this action digest.
\<close>

theorem broker_reuse_is_pure:
  assumes "execute (in_memory_broker B S) action actor trace w = (Inr out, w')" "out_reused_idempotent_result out"
  shows "w_calls w' = w_calls w \<and> w_idem w' = w_idem w \<and> w_attempts w' = w_attempts w
    \<and> idempotency_result (act_tenant_id action) (act_idempotency_key action) (w_idem w) = Some (out_result out)
    \<and> claim_owner (act_tenant_id action) (act_idempotency_key action) (w_idem w) = Some (action_digest (brk_sha B) action)"
  using assms(1)
proof (rule mem_broker.execute_returns)
  fix policy executor lease w3 claimed i
  let ?B = "in_memory_broker B S"
  assume lease: "lease = None \<longleftrightarrow> brk_leases ?B = None"
    and claim: "brk_claim ?B (act_tenant_id action) (act_idempotency_key action) (action_digest (brk_sha ?B) action) (w_idem w) = (Inr claimed, i)"
    and run: "(if claimed then execute_claimed ?B action actor trace executor lease
      else reuse_result ?B action actor trace executor lease) (w3\<lparr>w_idem := i\<rparr>) = (Inr out, w')"
    and w3: "w_calls w3 = w_calls w" "w_attempts w3 = w_attempts w"
  have nc: "\<not> claimed" using run assms(2) mem_broker.execute_claimed_returns(2) [OF _ lease] by (cases claimed) auto
  with run have run': "reuse_result ?B action actor trace executor lease (w3\<lparr>w_idem := i\<rparr>) = (Inr out, w')" by simp
  have "i = w_idem w" "claim_owner (act_tenant_id action) (act_idempotency_key action) (w_idem w) = Some (action_digest (brk_sha B) action)"
    using claim nc mem_idem.claim_refused by auto
  with mem_broker.reuse_result_returns(2,3) [OF run' lease] w3 show ?thesis by simp
qed

theorem broker_reuse_is_pure_witness:
  "let B = in_memory_broker (sample_broker sample_dry_run Policy_ALLOW) empty_approvals;
       held = \<lparr>ids_entries = [((''acme'', ''k1''), \<lparr>ide_action_digest = action_digest zero_hash sample_action, ide_result = Some sample_result\<rparr>)]\<rparr>
   in \<exists>out w'. execute B sample_action sample_actor sample_trace (sample_world\<lparr>w_idem := held\<rparr>) = (Inr out, w') \<and>
     out_reused_idempotent_result out \<and> w_calls w' = []"
proof -
  let ?B = "sample_broker sample_dry_run Policy_ALLOW"
  let ?held = "\<lparr>ids_entries = [((''acme'', ''k1''), \<lparr>ide_action_digest = action_digest zero_hash sample_action, ide_result = Some sample_result\<rparr>)]\<rparr>"
  have sha: "brk_sha ?B = zero_hash" by (simp add: sample_broker_def)
  have key: "act_tenant_id sample_action = ''acme''" "act_idempotency_key sample_action = ''k1''" by (simp_all add: sample_action_def)
  have "\<exists>out w'. execute (in_memory_broker ?B empty_approvals) sample_action sample_actor sample_trace (sample_world\<lparr>w_idem := ?held\<rparr>) = (Inr out, w') \<and>
      out_result out = sample_result \<and> out_reused_idempotent_result out"
    by (rule mem_broker.execute_reuses [OF sample_admitted sample_observes])
       (simp_all add: key sha claim_def entry_of_def idempotency_result_def validate_result_def,
        simp_all add: sample_result_def sample_action_def)
  then obtain out w' where run: "execute (in_memory_broker ?B empty_approvals) sample_action sample_actor sample_trace
      (sample_world\<lparr>w_idem := ?held\<rparr>) = (Inr out, w')" "out_reused_idempotent_result out" by blast
  from broker_reuse_is_pure [OF run] have "w_calls w' = []" by (simp add: sample_world_def empty_world_def)
  with run show ?thesis unfolding Let_def by blast
qed

text \<open>
  C17: A raising executor leaves an explicit uncertain state. If the selected executor raises once it
  has been called, \<open>execute\<close> raises, whatever the lease provider does on revocation; the run's last
  event is \<open>execution.uncertain\<close>; the durable attempt, if attempts are configured, is \<open>UNCERTAIN\<close>
  with the type of the exception; and the idempotency key stays claimed without a new result.
\<close>

theorem broker_failure_is_uncertain:
  assumes "execute (in_memory_broker B S) action actor trace w = (r, w')" "w_calls w' \<noteq> w_calls w"
    and "select_executor B action = Inr executor" "always_raises executor"
    and "ledger_inv (brk_sha B) (w_ledger w)" "\<forall>n. is_span_id (brk_span B n)"
  shows "\<exists>e. r = Inl e
    \<and> ev_event_type (last (list_run_events (act_tenant_id action) (act_run_id action) (w_ledger w'))) = Event_EXECUTION_UNCERTAIN
    \<and> (brk_attempts B \<longrightarrow> (\<exists>i a. attempt_get (act_tenant_id action) i (w_attempts w') = Some a
         \<and> att_action_id a = act_action_id action \<and> att_state a = Attempt_UNCERTAIN \<and> att_error_type a = Some (exn_type e)))
    \<and> claim_owner (act_tenant_id action) (act_idempotency_key action) (w_idem w') = Some (action_digest (brk_sha B) action)
    \<and> idempotency_result (act_tenant_id action) (act_idempotency_key action) (w_idem w') =
        idempotency_result (act_tenant_id action) (act_idempotency_key action) (w_idem w)"
proof -
  from mem_broker.execute_failure [OF assms(1,2) _ assms(4)] assms(3,5,6) obtain e tys where
    e: "r = Inl e" "mem_broker.recorded action w w' (tys @ [Event_EXECUTION_UNCERTAIN])"
      "idempotency_result (act_tenant_id action) (act_idempotency_key action) (w_idem w') =
        idempotency_result (act_tenant_id action) (act_idempotency_key action) (w_idem w)"
      "brk_attempts B \<longrightarrow> (\<exists>i a. attempt_get (act_tenant_id action) i (w_attempts w') = Some a
         \<and> att_action_id a = act_action_id action \<and> att_state a = Attempt_UNCERTAIN \<and> att_error_type a = Some (exn_type e))"
    by auto
  from e(2) obtain evs where evs: "list_run_events (act_tenant_id action) (act_run_id action) (w_ledger w') =
        list_run_events (act_tenant_id action) (act_run_id action) (w_ledger w) @ evs"
      "map ev_event_type evs = tys @ [Event_EXECUTION_UNCERTAIN]"
    by (auto simp: mem_broker.recorded_def)
  then have "evs \<noteq> []" by auto
  moreover from this have "ev_event_type (last evs) = Event_EXECUTION_UNCERTAIN"
    using evs(2) last_map [of evs ev_event_type] by simp
  ultimately have "evs \<noteq> []" "ev_event_type (last evs) = Event_EXECUTION_UNCERTAIN" by simp_all
  with evs(1) have "ev_event_type (last (list_run_events (act_tenant_id action) (act_run_id action) (w_ledger w'))) = Event_EXECUTION_UNCERTAIN"
    by simp
  with e mem_broker.execute_call_owns [OF assms(1,2)] show ?thesis by auto
qed

definition sample_raising :: controlled_executor where
  "sample_raising = sample_dry_run\<lparr>exe_execute := (\<lambda>n a. Inl (ForeignException ''TimeoutError'' ''timed out'')),
     exe_execute_attempt := (\<lambda>n a i. Inl (ForeignException ''TimeoutError'' ''timed out'')),
     exe_execute_attempt_with_lease := (\<lambda>n a i l. Inl (ForeignException ''TimeoutError'' ''timed out''))\<rparr>"

theorem broker_failure_is_uncertain_witness:
  "\<exists>e w'. execute (in_memory_broker (sample_broker sample_raising Policy_ALLOW) empty_approvals) sample_action sample_actor sample_trace
      sample_world = (Inl e, w') \<and>
    ev_event_type (last (list_run_events ''acme'' ''r1'' (w_ledger w'))) = Event_EXECUTION_UNCERTAIN"
proof -
  let ?B = "sample_broker sample_raising Policy_ALLOW"
  obtain r w' where run: "execute (in_memory_broker ?B empty_approvals) sample_action sample_actor sample_trace sample_world = (r, w')"
    by fastforce
  have name: "exe_name sample_raising = ''dry-run''" by (simp add: sample_raising_def)
  have called: "w_calls w' \<noteq> w_calls sample_world"
    using mem_broker.execute_reaches_call [OF sample_ready [OF name] run] .
  have adm: "mem_broker.admitted ?B empty_approvals sample_action sample_actor sample_trace sample_raising sample_world"
    using sample_ready [OF name] by (simp add: mem_broker.ready_def)
  have "always_raises sample_raising" by (simp add: always_raises_def sample_raising_def)
  with broker_failure_is_uncertain [OF run called] adm obtain e where "r = Inl e"
      "ev_event_type (last (list_run_events (act_tenant_id sample_action) (act_run_id sample_action) (w_ledger w'))) = Event_EXECUTION_UNCERTAIN"
    by (auto simp: mem_broker.admitted_def mem_broker.open_run_def)
  with run show ?thesis by (simp add: sample_action_def)
qed

text \<open>
  A dry run always verifies. The observation the reference executor makes of its own dry run has
  the digest the reference verifier expects, for every action.
\<close>

theorem dry_run_verifies:
  assumes "dry_run_execute_attempt sha started completed action attempt_id = Inr result"
  shows "ver_outcome (digest_effect_verify sha v t action result (dry_run_observe sha i t' action result)) = Verification_PASSED"
  using assms
  by (auto simp: dry_run_execute_attempt_def validate_execution_result_def digest_effect_verify_def dry_run_observe_def
      dict_get_def Let_def split: if_splits)

theorem dry_run_verifies_witness:
  "\<exists>result. dry_run_execute_attempt zero_hash 1 2 sample_action ''t1'' = Inr result \<and>
    ver_outcome (digest_effect_verify zero_hash ''v'' 4 sample_action result (dry_run_observe zero_hash ''o'' 3 sample_action result)) = Verification_PASSED"
proof -
  have "\<exists>result. dry_run_execute_attempt zero_hash 1 2 sample_action ''t1'' = Inr result"
    by (simp add: dry_run_execute_attempt_def validate_execution_result_def truthy_def)
  then show ?thesis using dry_run_verifies by blast
qed

section \<open>Gaps\<close>

text \<open>
  Three paths on which the broker does less than its documentation says. A key that belongs to
  another digest raises after the lease was issued, and the lease is not revoked; a result that is
  not bound to the action or the attempt raises after the execution without an uncertain event,
  attempt or revocation; and with leases but without an attempt store the executor is called
  without the lease that was issued for it.
\<close>

lemma duplicate_claim_keeps_lease:
  assumes "evaluate_policy (in_memory_broker B S) action actor trace w = (Inr policy, w1)"
    and "require_approval (in_memory_broker B S) action actor trace policy w1 = (Inr (), w2)"
    and "select_executor B action = Inr executor"
    and "issue_lease (in_memory_broker B S) action actor trace executor w2 = (Inr (Some lease), w3)"
    and "claim_owner (act_tenant_id action) (act_idempotency_key action) (w_idem w3) = Some d" "d \<noteq> action_digest (brk_sha B) action"
  shows "\<exists>m. execute (in_memory_broker B S) action actor trace w = (Inl (DuplicateActionError m), w3)"
  using assms
  by (auto simp: execute_def bindE_def on_idem_def claim_def claim_owner_def split: option.splits)

lemma unbound_result_leaves_attempt_started:
  assumes "validate_result action executor result True = Inl e"
  shows "finish_execution B action actor trace executor attempt lease result w = (Inl e, w)"
  using assms by (simp add: finish_execution_def bindE_def)

lemma lease_without_attempt_is_unused:
  "exe_execute_attempt_with_lease executor = f \<Longrightarrow>
   invoke_executor B action executor None (Some lease) = invoke_executor B action executor None None"
  by (simp add: invoke_executor_def)

end
