(* ===== verification/Coordinator.thy ===== *)
theory Coordinator
  imports Stores
begin

text \<open>
  The run coordinator (\<open>coordinator.py\<close>) over a run store and the event ledger, and the run
  projection (\<open>projectors.py\<close>). A call reads the clock once; \<open>uuid4\<close>, \<open>new_trace_id\<close> and
  \<open>new_span_id\<close> results are arguments. The coordinator's state is the pair of its two stores.
\<close>

section \<open>Operations\<close>

record ('r, 'l) coordinator =
  co_create :: "run_record \<Rightarrow> ('r, unit) prog"
  co_replace :: "run_record \<Rightarrow> ('r, unit) prog"
  co_get :: "string \<Rightarrow> uuid \<Rightarrow> 'r \<Rightarrow> run_record option"
  co_append :: "control_event_draft \<Rightarrow> ('l, control_event) prog"

definition on_runs :: "('r, 'x) prog \<Rightarrow> ('r \<times> 'l, 'x) prog" where
  "on_runs m s = (case m (fst s) of (x, r) \<Rightarrow> (x, (r, snd s)))"

definition on_events :: "('l, 'x) prog \<Rightarrow> ('r \<times> 'l, 'x) prog" where
  "on_events m s = (case m (snd s) of (x, l) \<Rightarrow> (x, (fst s, l)))"

definition terminal_run_status :: "run_status \<Rightarrow> bool" where
  "terminal_run_status s = (s \<in> {Run_SUCCEEDED, Run_FAILED, Run_CANCELLED, Run_INCOMPLETE})"

text \<open>Construction of a \<open>RunRecord\<close> from the arguments of \<open>start_run\<close>: text is stripped, then the fields checked.\<close>

definition new_run_record :: "run_record \<Rightarrow> run_record result" where
  "new_run_record run =
    (let run' = run\<lparr>run_tenant_id := strip (run_tenant_id run), run_environment := strip (run_environment run),
               run_purpose := strip (run_purpose run), run_workflow_id := map_option strip (run_workflow_id run)\<rparr>
     in if run_record_fields run' then Inr run' else Inl (ValueError ''validation error for RunRecord''))"

definition run_event_draft ::
  "uuid \<Rightarrow> uuid \<Rightarrow> string \<Rightarrow> event_type \<Rightarrow> datetime \<Rightarrow> actor_ref \<Rightarrow> string \<Rightarrow> string \<Rightarrow> (string \<times> pyval) list \<Rightarrow> control_event_draft result" where
  "run_event_draft event_id run_id tenant ty now actor trace_id span_id payload =
    (let d = \<lparr>ev_schema_name = ''prodkit.control-event'', ev_schema_version = ''1.0.0'', ev_event_id = event_id,
           ev_run_id = run_id, ev_tenant_id = strip tenant, ev_event_type = ty, ev_occurred_at = now, ev_recorded_at = now,
           ev_actor = actor, ev_trace_id = trace_id, ev_span_id = span_id, ev_parent_event_id = None,
           ev_causation_event_id = None, ev_correlation_id = None, ev_action_id = None, ev_lineage = [],
           ev_payload = payload, ev_evidence = []\<rparr>
     in if control_event_draft_fields d then validate_control_event_draft d
        else Inl (ValueError ''validation error for ControlEventDraft''))"

record start_arguments =
  sta_tenant_id :: string
  sta_initiated_by :: actor_ref
  sta_environment :: string
  sta_purpose :: string
  sta_source_intent :: "pyval option"
  sta_specification_revision :: "lineage_node_ref option"
  sta_workflow_id :: "string option"

definition dump_items :: "pyval \<Rightarrow> (string \<times> pyval) list" where
  "dump_items v = (case v of PDict kvs \<Rightarrow> map (\<lambda>(k, x). (key_str k, x)) kvs | _ \<Rightarrow> [])"

definition start_run ::
  "sha256_fn \<Rightarrow> ('r, 'l) coordinator \<Rightarrow> datetime \<Rightarrow> uuid \<Rightarrow> uuid \<Rightarrow> string \<Rightarrow> string \<Rightarrow> start_arguments \<Rightarrow> ('r \<times> 'l, run_record) prog" where
  "start_run sha C now run_id event_id trace_id span_id args =
    bindE (lift_result (raise_if (actor_tenant_id (sta_initiated_by args) \<noteq> sta_tenant_id args)
      (AuthorizationDeniedError ''initiating actor tenant does not match run tenant''))) (\<lambda>_.
    bindE (lift_result (new_run_record
      \<lparr>run_schema_name = ''prodkit.control-run'', run_schema_version = ''1.0.0'', run_run_id = run_id,
       run_tenant_id = sta_tenant_id args, run_status = Run_RUNNING, run_initiated_by = sta_initiated_by args,
       run_environment = sta_environment args, run_purpose = sta_purpose args, run_trace_id = trace_id,
       run_started_at = now, run_completed_at = None,
       run_source_intent_digest = map_option (sha256_hex sha) (sta_source_intent args),
       run_specification_revision = sta_specification_revision args, run_lineage_graph_digest = None,
       run_workflow_id = sta_workflow_id args, run_metadata = []\<rparr>)) (\<lambda>run.
    bindE (lift_result (run_event_draft event_id (run_run_id run) (sta_tenant_id args) Event_RUN_STARTED now
      (sta_initiated_by args) (run_trace_id run) span_id (dump_items (json_mode (dump_run_record run))))) (\<lambda>event.
    bindE (on_runs (co_create C run)) (\<lambda>_.
    bindE (on_events (co_append C event)) (\<lambda>_.
    ret run)))))"

definition require_run :: "('r, 'l) coordinator \<Rightarrow> uuid \<Rightarrow> string \<Rightarrow> ('r \<times> 'l, run_record) prog" where
  "require_run C run_id tenant s =
    (case co_get C tenant run_id (fst s) of None \<Rightarrow> (Inl (KeyError run_id), s) | Some run \<Rightarrow> (Inr run, s))"

definition complete_run ::
  "('r, 'l) coordinator \<Rightarrow> datetime \<Rightarrow> uuid \<Rightarrow> string \<Rightarrow> uuid \<Rightarrow> actor_ref \<Rightarrow> run_status \<Rightarrow> (string \<times> pyval) list \<Rightarrow> ('r \<times> 'l, run_record) prog" where
  "complete_run C now event_id span_id run_id actor status summary =
    bindE (require_run C run_id (actor_tenant_id actor)) (\<lambda>current.
    bindE (lift_result (raise_if (\<not> terminal_run_status status) (ValueError ''run completion requires a terminal status''))) (\<lambda>_.
    bindE (lift_result (raise_if (terminal_run_status (run_status current)) (ValueError ''run is already terminal''))) (\<lambda>_.
    let completed = current\<lparr>run_status := status, run_completed_at := Some now\<rparr>
    in bindE (lift_result (run_event_draft event_id run_id (run_tenant_id current) Event_RUN_COMPLETED now actor
         (run_trace_id current) span_id
         [(''status'', PStr (run_status_value status)), (''summary'', dump_dict (\<lambda>v. v) summary)])) (\<lambda>event.
       bindE (on_events (co_append C event)) (\<lambda>_.
       bindE (on_runs (co_replace C completed)) (\<lambda>_.
       ret completed))))))"

definition bind_lineage ::
  "('r, 'l) coordinator \<Rightarrow> uuid \<Rightarrow> string \<Rightarrow> string \<Rightarrow> lineage_node_ref option \<Rightarrow> ('r \<times> 'l, run_record) prog" where
  "bind_lineage C run_id tenant lineage_graph_digest revision =
    bindE (require_run C run_id tenant) (\<lambda>current.
    bindE (lift_result (raise_if
      (run_specification_revision current \<noteq> None \<and> revision \<noteq> None \<and> run_specification_revision current \<noteq> revision)
      (ValueError ''a run cannot be rebound to another specification revision''))) (\<lambda>_.
    let updated = current\<lparr>run_lineage_graph_digest := Some lineage_graph_digest,
          run_specification_revision := (if revision = None then run_specification_revision current else revision)\<rparr>
    in bindE (on_runs (co_replace C updated)) (\<lambda>_. ret updated)))"

section \<open>Projection (projectors.py)\<close>

record run_projection =
  proj_run_id :: uuid
  proj_event_count :: nat
  proj_final_event_hash :: "string option"
  proj_counts_by_type :: "(string \<times> nat) list"
  proj_action_ids :: "uuid list"
  proj_completed :: bool

text \<open>\<open>Counter\<close> counts in order of first occurrence; \<open>dict.fromkeys\<close> keeps the first occurrence of each key.\<close>

fun counter :: "('k \<times> nat) list \<Rightarrow> 'k list \<Rightarrow> ('k \<times> nat) list" where
  "counter c [] = c"
| "counter c (x # xs) = counter (AList.update x (case map_of c x of None \<Rightarrow> 1 | Some n \<Rightarrow> n + 1) c) xs"

fun unique_keys :: "'k list \<Rightarrow> 'k list \<Rightarrow> 'k list" where
  "unique_keys seen [] = seen"
| "unique_keys seen (x # xs) = unique_keys (if x \<in> set seen then seen else seen @ [x]) xs"

definition project_run :: "control_event list \<Rightarrow> run_projection result" where
  "project_run events =
    (case events of
       [] \<Rightarrow> Inl (ValueError ''cannot project an empty run'')
     | e # _ \<Rightarrow>
         if list_ex (\<lambda>x. ev_run_id x \<noteq> ev_run_id e) events
         then Inl (ValueError ''all events must belong to the same run'')
         else let counts = counter [] (map (\<lambda>x. event_type_value (ev_event_type x)) events)
              in Inr \<lparr>proj_run_id = ev_run_id e, proj_event_count = length events,
                      proj_final_event_hash = Some (integ_event_hash (ev_integrity (last events))),
                      proj_counts_by_type = sort_key fst counts,
                      proj_action_ids = unique_keys [] (List.map_filter ev_action_id events),
                      proj_completed = (case map_of counts ''run.completed'' of None \<Rightarrow> False | Some n \<Rightarrow> 0 < n)\<rparr>)"

section \<open>Histories\<close>

text \<open>One call of the coordinator, whatever its arguments and result.\<close>

inductive coord_step :: "sha256_fn \<Rightarrow> ('r, 'l) coordinator \<Rightarrow> 'r \<times> 'l \<Rightarrow> 'r \<times> 'l \<Rightarrow> bool" for sha C where
  start: "start_run sha C now run_id event_id trace_id span_id args s = (x, s') \<Longrightarrow> coord_step sha C s s'"
| finish: "complete_run C now event_id span_id run_id actor status summary s = (x, s') \<Longrightarrow> coord_step sha C s s'"
| lineage: "bind_lineage C run_id tenant graph_digest revision s = (x, s') \<Longrightarrow> coord_step sha C s s'"

lemma on_runs_Inr: "on_runs m s = (Inr x, s') \<longleftrightarrow> (\<exists>r. m (fst s) = (Inr x, r) \<and> s' = (r, snd s))"
  by (auto simp: on_runs_def split: prod.splits)

lemma on_runs_Inl: "on_runs m s = (Inl e, s') \<longleftrightarrow> (\<exists>r. m (fst s) = (Inl e, r) \<and> s' = (r, snd s))"
  by (auto simp: on_runs_def split: prod.splits)

lemma on_events_Inr: "on_events m s = (Inr x, s') \<longleftrightarrow> (\<exists>l. m (snd s) = (Inr x, l) \<and> s' = (fst s, l))"
  by (auto simp: on_events_def split: prod.splits)

lemma on_events_Inl: "on_events m s = (Inl e, s') \<longleftrightarrow> (\<exists>l. m (snd s) = (Inl e, l) \<and> s' = (fst s, l))"
  by (auto simp: on_events_def split: prod.splits)

lemma bindE_lift: "bindE (lift_result r) f = (case r of Inl e \<Rightarrow> raise e | Inr x \<Rightarrow> f x)"
  by (auto simp: bindE_def fun_eq_iff split: sum.splits)

lemma run_event_draft_Inr:
  "run_event_draft event_id run_id tenant ty now actor trace_id span_id payload = Inr d \<Longrightarrow>
    ev_run_id d = run_id \<and> ev_event_type d = ty \<and> ev_tenant_id d = strip tenant \<and> ev_occurred_at d = now \<and> ev_payload d = payload"
  by (auto simp: run_event_draft_def validate_control_event_draft_def Let_def split: if_splits)

lemma new_run_record_Inr:
  "new_run_record run = Inr run' \<Longrightarrow> run_run_id run' = run_run_id run \<and> run_status run' = run_status run \<and>
    strip (run_tenant_id run') = run_tenant_id run'"
  by (auto simp: new_run_record_def run_record_fields_def Let_def split: if_splits)

text \<open>
  A run without what \<open>bind_lineage\<close> sets, and without what \<open>complete_run\<close> sets as well; and the event that records
  a completion, with its time and status.
\<close>

definition unbound :: "run_record \<Rightarrow> run_record" where
  "unbound run = run\<lparr>run_lineage_graph_digest := None, run_specification_revision := None\<rparr>"

definition opened :: "run_record \<Rightarrow> run_record" where
  "opened run = (unbound run)\<lparr>run_status := Run_RUNNING, run_completed_at := None\<rparr>"

definition records_completion :: "control_event \<Rightarrow> run_record \<Rightarrow> bool" where
  "records_completion e run \<longleftrightarrow> ev_event_type e = Event_RUN_COMPLETED \<and> run_completed_at run = Some (ev_occurred_at e)
    \<and> map_of (ev_payload e) ''status'' = Some (PStr (run_status_value (run_status run)))"

lemma opened_simps [simp]:
  "run_run_id (opened run) = run_run_id run" "run_tenant_id (opened run) = run_tenant_id run" "run_started_at (opened run) = run_started_at run"
  "run_run_id (unbound run) = run_run_id run" "run_tenant_id (unbound run) = run_tenant_id run"
  "run_status (unbound run) = run_status run" "run_completed_at (unbound run) = run_completed_at run"
  by (simp_all add: opened_def unbound_def)

lemma opened_ids:
  assumes "opened new = opened old"
  shows "run_run_id new = run_run_id old" "run_tenant_id new = run_tenant_id old"
  using arg_cong [OF assms, of run_run_id] arg_cong [OF assms, of run_tenant_id] by simp_all

lemma unbound_status:
  assumes "unbound new = unbound old"
  shows "run_status new = run_status old" "run_completed_at new = run_completed_at old" "opened new = opened old"
proof -
  have "run_status (unbound new) = run_status (unbound old)" "run_completed_at (unbound new) = run_completed_at (unbound old)"
    by (simp_all only: assms)
  then show "run_status new = run_status old" "run_completed_at new = run_completed_at old" by (simp_all only: opened_simps)
  show "opened new = opened old" by (simp only: opened_def assms)
qed

lemma records_completion_unbound: "unbound new = unbound old \<Longrightarrow> records_completion e new = records_completion e old"
  using unbound_status [of new old] by (simp add: records_completion_def)

locale run_coordination =
  runs: run_storage "co_create C" "co_replace C" "co_get C" +
  ledger: event_ledger "co_append C" run_events check_run linv
  for C :: "('r, 'l) coordinator" and run_events check_run linv
begin

text \<open>The ledger only grows, and keeps its invariant.\<close>

definition grows :: "'r \<times> 'l \<Rightarrow> 'r \<times> 'l \<Rightarrow> bool" where
  "grows s s' \<longleftrightarrow> (\<forall>t i. prefix (run_events t i (snd s)) (run_events t i (snd s'))) \<and> (linv (snd s) \<longrightarrow> linv (snd s'))"

lemma grows_refl: "snd s' = snd s \<Longrightarrow> grows s s'"
  by (simp add: grows_def)

lemma grows_trans: "grows s s1 \<Longrightarrow> grows s1 s2 \<Longrightarrow> grows s s2"
  unfolding grows_def by (blast intro: prefix_order.trans)

lemma start_run_cases:
  assumes "start_run sha C now run_id event_id trace_id span_id args s = (x, s')"
  shows "grows s s' \<and> (fst s' = fst s \<or> (\<exists>run u. co_create C run (fst s) = (Inr u, fst s') \<and> run_status run = Run_RUNNING \<and>
      strip (run_tenant_id run) = run_tenant_id run))"
  using assms unfolding start_run_def
proof (cases rule: bindE_cases)
  case raised
  then show ?thesis by (simp add: grows_def)
next
  case (returned u s1)
  then have "s1 = s" by simp
  with returned(2) show ?thesis
  proof (cases rule: bindE_cases)
    case raised
    with \<open>s1 = s\<close> show ?thesis by (simp add: grows_def)
  next
    case (returned run s2)
    then have s2: "s2 = s" and run: "run_status run = Run_RUNNING" "strip (run_tenant_id run) = run_tenant_id run"
      using \<open>s1 = s\<close> by (auto dest: new_run_record_Inr)
    from returned(2) show ?thesis
    proof (cases rule: bindE_cases)
      case raised
      with s2 show ?thesis by (simp add: grows_def)
    next
      case (returned d s3)
      then have s3: "s3 = s" using s2 by simp
      from returned(2) show ?thesis
      proof (cases rule: bindE_cases)
        case raised
        with s3 show ?thesis by (auto simp: on_runs_Inl grows_def dest: runs.create_raises)
      next
        case (returned v s4)
        then obtain r where r: "co_create C run (fst s) = (Inr v, r)" "s4 = (r, snd s)" using s3 by (auto simp: on_runs_Inr)
        from returned(2) have "fst s' = r \<and> grows s s'"
        proof (cases rule: bindE_cases)
          case raised
          with r show ?thesis by (auto simp: on_events_Inl grows_def intro: ledger.append_prefix ledger.append_invar)
        next
          case (returned e s5)
          with r show ?thesis by (auto simp: on_events_Inr grows_def intro: ledger.append_prefix ledger.append_invar)
        qed
        with r run show ?thesis by blast
      qed
    qed
  qed
qed

lemma require_run_cases:
  "require_run C run_id tenant s = (Inl e, s') \<Longrightarrow> s' = s"
  "require_run C run_id tenant s = (Inr run, s') \<Longrightarrow> s' = s \<and> co_get C tenant run_id (fst s) = Some run"
  by (auto simp: require_run_def split: option.splits)

lemma complete_run_cases:
  assumes "complete_run C now event_id span_id run_id actor status summary s = (x, s')"
  shows "grows s s'"
    and "fst s' = fst s \<or> (\<exists>old new u. co_get C (actor_tenant_id actor) run_id (fst s) = Some old \<and>
      co_replace C new (fst s) = (Inr u, fst s') \<and> \<not> terminal_run_status (run_status old) \<and>
      opened new = opened old \<and> run_specification_revision new = run_specification_revision old \<and>
      (\<exists>e \<in> set (run_events (strip (run_tenant_id old)) run_id (snd s')). records_completion e new))"
proof -
  have "fst s' = fst s \<and> grows s s' \<or> grows s s' \<and> (\<exists>old new u. co_get C (actor_tenant_id actor) run_id (fst s) = Some old \<and>
      co_replace C new (fst s) = (Inr u, fst s') \<and> \<not> terminal_run_status (run_status old) \<and>
      opened new = opened old \<and> run_specification_revision new = run_specification_revision old \<and>
      (\<exists>e \<in> set (run_events (strip (run_tenant_id old)) run_id (snd s')). records_completion e new))"
    using assms unfolding complete_run_def
  proof (cases rule: bindE_cases)
    case raised
    then show ?thesis using require_run_cases(1) [OF raised(1)] by (simp add: grows_def)
  next
    case (returned old s1)
    then have s1: "s1 = s" and old: "co_get C (actor_tenant_id actor) run_id (fst s) = Some old"
      using require_run_cases(2) by blast+
    let ?new = "old\<lparr>run_status := status, run_completed_at := Some now\<rparr>"
    show ?thesis
    proof (cases "terminal_run_status status \<and> \<not> terminal_run_status (run_status old)")
      case False
      with returned(2) s1 show ?thesis by (auto simp: bindE_lift raise_if_def grows_def split: if_splits)
    next
      case True
      show ?thesis
      proof (cases "run_event_draft event_id run_id (run_tenant_id old) Event_RUN_COMPLETED now actor (run_trace_id old) span_id
          [(''status'', PStr (run_status_value status)), (''summary'', dump_dict (\<lambda>v. v) summary)]")
        case (Inl e)
        with returned(2) s1 True show ?thesis by (simp add: bindE_lift raise_if_def Let_def grows_def)
      next
        case (Inr d)
        with returned(2) s1 True have rest: "bindE (on_events (co_append C d)) (\<lambda>_. bindE (on_runs (co_replace C ?new)) (\<lambda>_. ret ?new)) s = (x, s')"
          by (simp add: bindE_lift raise_if_def Let_def)
        from rest show ?thesis
        proof (cases rule: bindE_cases)
          case raised
          then show ?thesis by (auto simp: on_events_Inl grows_def intro: ledger.append_prefix ledger.append_invar)
        next
          case (returned ev s2)
          then obtain l where app: "co_append C d (snd s) = (Inr ev, l)" and s2: "s2 = (fst s, l)"
            by (auto simp: on_events_Inr)
          note d = run_event_draft_Inr [OF Inr]
          have "ev_event_type ev = ev_event_type (control_event_draft.truncate ev)" "ev_payload ev = ev_payload (control_event_draft.truncate ev)"
            "ev_occurred_at ev = ev_occurred_at (control_event_draft.truncate ev)" by (simp_all add: control_event_draft.defs)
          with ledger.append_content [OF app] d have "records_completion ev ?new" by (simp add: records_completion_def)
          with ledger.append_returns [OF app] d have completed:
            "\<exists>e \<in> set (run_events (strip (run_tenant_id old)) run_id l). records_completion e ?new" by auto
          have same: "opened ?new = opened old" by (simp add: opened_def unbound_def)
          have grow: "prefix (run_events t i (snd s)) (run_events t i l)" "linv (snd s) \<longrightarrow> linv l" for t i
            using ledger.append_prefix [OF app] ledger.append_invar [OF _ app] by blast+
          from returned(2) show ?thesis
          proof (cases rule: bindE_cases)
            case raised
            with s2 grow show ?thesis by (auto simp: on_runs_Inl grows_def dest: runs.replace_raises)
          next
            case (returned u s3)
            with s2 have "co_replace C ?new (fst s) = (Inr u, fst s')" "snd s' = l" by (auto simp: on_runs_Inr)
            with grow completed old True same show ?thesis
              by (intro disjI2 conjI exI [of _ old] exI [of _ ?new] exI [of _ u]) (auto simp: grows_def)
          qed
        qed
      qed
    qed
  qed
  then show "grows s s'" "fst s' = fst s \<or> (\<exists>old new u. co_get C (actor_tenant_id actor) run_id (fst s) = Some old \<and>
      co_replace C new (fst s) = (Inr u, fst s') \<and> \<not> terminal_run_status (run_status old) \<and>
      opened new = opened old \<and> run_specification_revision new = run_specification_revision old \<and>
      (\<exists>e \<in> set (run_events (strip (run_tenant_id old)) run_id (snd s')). records_completion e new))"
    by blast+
qed

lemma bind_lineage_cases:
  assumes "bind_lineage C run_id tenant graph_digest revision s = (x, s')"
  shows "snd s' = snd s"
    and "fst s' = fst s \<or> (\<exists>old new u. co_get C tenant run_id (fst s) = Some old \<and> co_replace C new (fst s) = (Inr u, fst s') \<and>
      unbound new = unbound old \<and>
      (run_specification_revision old = None \<or> run_specification_revision new = run_specification_revision old))"
proof -
  have "snd s' = snd s \<and> (fst s' = fst s \<or> (\<exists>old new u. co_get C tenant run_id (fst s) = Some old \<and> co_replace C new (fst s) = (Inr u, fst s') \<and>
      unbound new = unbound old \<and>
      (run_specification_revision old = None \<or> run_specification_revision new = run_specification_revision old)))"
    using assms unfolding bind_lineage_def
  proof (cases rule: bindE_cases)
    case raised
    then show ?thesis using require_run_cases(1) [OF raised(1)] by simp
  next
    case (returned old s1)
    then have s1: "s1 = s" and old: "co_get C tenant run_id (fst s) = Some old" using require_run_cases(2) by blast+
    define new where "new = old\<lparr>run_lineage_graph_digest := Some graph_digest,
          run_specification_revision := (if revision = None then run_specification_revision old else revision)\<rparr>"
    show ?thesis
    proof (cases "run_specification_revision old \<noteq> None \<and> revision \<noteq> None \<and> run_specification_revision old \<noteq> revision")
      case True
      with returned(2) s1 show ?thesis by (simp add: bindE_lift raise_if_def)
    next
      case False
      with returned(2) s1 have "bindE (on_runs (co_replace C new)) (\<lambda>_. ret new) s = (x, s')"
        by (auto simp: bindE_lift raise_if_def Let_def new_def split: if_splits)
      then show ?thesis
      proof (cases rule: bindE_cases)
        case raised
        then show ?thesis by (auto simp: on_runs_Inl dest: runs.replace_raises)
      next
        case (returned u s2)
        then have "co_replace C new (fst s) = (Inr u, fst s')" "snd s' = snd s" by (auto simp: on_runs_Inr)
        moreover have "unbound new = unbound old"
          "run_specification_revision old = None \<or> run_specification_revision new = run_specification_revision old"
          using False by (auto simp: new_def unbound_def)
        ultimately show ?thesis using old by blast
      qed
    qed
  qed
  then show "snd s' = snd s" "fst s' = fst s \<or> (\<exists>old new u. co_get C tenant run_id (fst s) = Some old \<and> co_replace C new (fst s) = (Inr u, fst s') \<and>
      unbound new = unbound old \<and>
      (run_specification_revision old = None \<or> run_specification_revision new = run_specification_revision old))" by blast+
qed

text \<open>
  The invariant: a record is filed under its own, stripped tenant and id, and every terminal run has
  its completion event. And what a call may do to an existing run: it keeps all but its status, completion time and
  bindings, a terminal run keeps its status and completion time too, and a bound specification revision stays bound.
\<close>

definition coord_inv :: "'r \<times> 'l \<Rightarrow> bool" where
  "coord_inv s \<longleftrightarrow> (\<forall>t i run. co_get C t i (fst s) = Some run \<longrightarrow> run_tenant_id run = t \<and> run_run_id run = i \<and> strip t = t \<and>
    (terminal_run_status (run_status run) \<longrightarrow> (\<exists>e \<in> set (run_events t i (snd s)). records_completion e run)))"

definition run_kept :: "'r \<times> 'l \<Rightarrow> 'r \<times> 'l \<Rightarrow> bool" where
  "run_kept s s' \<longleftrightarrow> (\<forall>t i run. co_get C t i (fst s) = Some run \<longrightarrow> (\<exists>run'. co_get C t i (fst s') = Some run' \<and>
    opened run' = opened run \<and> (terminal_run_status (run_status run) \<longrightarrow> unbound run' = unbound run) \<and>
    (run_specification_revision run \<noteq> None \<longrightarrow> run_specification_revision run' = run_specification_revision run)))"

lemma run_kept_refl: "fst s' = fst s \<Longrightarrow> run_kept s s'"
  by (simp add: run_kept_def)

lemma run_kept_trans: "run_kept s s1 \<Longrightarrow> run_kept s1 s2 \<Longrightarrow> run_kept s s2"
  unfolding run_kept_def by (metis (no_types, lifting) unbound_status(1))

lemma completed_grows:
  "grows s s' \<Longrightarrow> \<exists>e \<in> set (run_events t i (snd s)). records_completion e run \<Longrightarrow>
    \<exists>e \<in> set (run_events t i (snd s')). records_completion e run"
  unfolding grows_def by (metis set_mono_prefix subset_eq)

lemma same_runs_inv:
  assumes "coord_inv s" "grows s s'" "fst s' = fst s"
  shows "coord_inv s' \<and> run_kept s s' \<and> grows s s'"
  using assms completed_grows [OF assms(2)] run_kept_refl [OF assms(3)] by (simp add: coord_inv_def)

lemma replaced_inv:
  assumes inv: "coord_inv s" and grow: "grows s s'"
    and old: "co_get C tenant run_id (fst s) = Some old" and rep: "co_replace C new (fst s) = (Inr u, fst s')"
    and ids: "opened new = opened old"
    and rev: "run_specification_revision old = None \<or> run_specification_revision new = run_specification_revision old"
    and st: "unbound new = unbound old \<or>
      (\<not> terminal_run_status (run_status old) \<and> (\<exists>e \<in> set (run_events tenant run_id (snd s')). records_completion e new))"
  shows "coord_inv s' \<and> run_kept s s' \<and> grows s s'"
proof -
  have filed: "run_tenant_id old = tenant" "run_run_id old = run_id" "strip tenant = tenant"
    and done_old: "terminal_run_status (run_status old) \<Longrightarrow> \<exists>e \<in> set (run_events tenant run_id (snd s)). records_completion e old"
    using inv old by (auto simp: coord_inv_def)
  have get: "co_get C t i (fst s') = (if t = tenant \<and> i = run_id then Some new else co_get C t i (fst s))" for t i
    using runs.replace_returns [OF rep] opened_ids [OF ids] filed by simp
  have "\<exists>e \<in> set (run_events tenant run_id (snd s')). records_completion e new" if t: "terminal_run_status (run_status new)"
    using st
  proof
    assume same: "unbound new = unbound old"
    then have "\<exists>e \<in> set (run_events tenant run_id (snd s')). records_completion e old"
      using completed_grows [OF grow done_old] t unbound_status(1) [OF same] by simp
    then show ?thesis unfolding records_completion_unbound [OF same] .
  qed blast
  with inv get opened_ids [OF ids] filed completed_grows [OF grow] have "coord_inv s'"
    by (auto simp: coord_inv_def split: if_splits)
  moreover have "run_kept s s'"
    unfolding run_kept_def using get old rev st ids by auto
  ultimately show ?thesis using grow by blast
qed

lemma coord_step_inv:
  assumes "coord_step sha C s s'" "coord_inv s"
  shows "coord_inv s' \<and> run_kept s s' \<and> grows s s'"
  using assms(1)
proof (cases rule: coord_step.cases)
  case (start now run_id event_id trace_id span_id args x)
  have grow: "grows s s'" using start_run_cases [OF start] by blast
  from start_run_cases [OF start, THEN conjunct2] show ?thesis
  proof (elim disjE exE conjE)
    assume "fst s' = fst s"
    with grow assms(2) show ?thesis by (intro same_runs_inv)
  next
    fix run u
    assume new: "co_create C run (fst s) = (Inr u, fst s')" "run_status run = Run_RUNNING" "strip (run_tenant_id run) = run_tenant_id run"
    note get = runs.create_returns [OF new(1)]
    have "coord_inv s'"
      using assms(2) get new(2,3) completed_grows [OF grow]
      by (auto simp: coord_inv_def terminal_run_status_def split: if_splits)
    moreover have "run_kept s s'" using get by (auto simp: run_kept_def)
    ultimately show ?thesis using grow by blast
  qed
next
  case (finish now event_id span_id run_id actor status summary x)
  note grow = complete_run_cases(1) [OF finish]
  from complete_run_cases(2) [OF finish] show ?thesis
  proof (elim disjE exE conjE)
    assume "fst s' = fst s"
    with grow assms(2) show ?thesis by (intro same_runs_inv)
  next
    fix old new u
    assume h: "co_get C (actor_tenant_id actor) run_id (fst s) = Some old" "co_replace C new (fst s) = (Inr u, fst s')"
      "\<not> terminal_run_status (run_status old)" "opened new = opened old"
      "run_specification_revision new = run_specification_revision old"
      "\<exists>e \<in> set (run_events (strip (run_tenant_id old)) run_id (snd s')). records_completion e new"
    have "strip (run_tenant_id old) = actor_tenant_id actor" using assms(2) h(1) unfolding coord_inv_def by metis
    then show ?thesis using replaced_inv [OF assms(2) grow h(1,2,4)] h(3,5,6) by simp
  qed
next
  case (lineage run_id tenant graph_digest revision x)
  have grow: "grows s s'" using bind_lineage_cases(1) [OF lineage] by (simp add: grows_def)
  from bind_lineage_cases(2) [OF lineage] show ?thesis
  proof (elim disjE exE conjE)
    assume "fst s' = fst s"
    with grow assms(2) show ?thesis by (intro same_runs_inv)
  qed (use replaced_inv [OF assms(2) grow] unbound_status(3) in blast)+
qed

lemma coord_steps_inv:
  assumes "(coord_step sha C)\<^sup>*\<^sup>* s s'" "coord_inv s"
  shows "coord_inv s' \<and> run_kept s s' \<and> grows s s'"
  using assms
proof (induction rule: rtranclp_induct)
  case base
  then show ?case by (simp add: run_kept_refl grows_refl)
next
  case (step s1 s2)
  then have 1: "coord_inv s1" "run_kept s s1" "grows s s1" by auto
  from coord_step_inv [OF step(2) 1(1)] have 2: "coord_inv s2" "run_kept s1 s2" "grows s1 s2" by auto
  with 1 show ?case using run_kept_trans [of s s1 s2] grows_trans [of s s1 s2] by blast
qed

end

section \<open>The standalone coordinator\<close>

definition in_memory_coordinator :: "sha256_fn \<Rightarrow> (run_store, event_ledger_state) coordinator" where
  "in_memory_coordinator sha = \<lparr>co_create = run_create, co_replace = run_replace, co_get = run_get, co_append = ledger_append sha\<rparr>"

interpretation mem_coord: run_coordination "in_memory_coordinator sha" list_run_events "verify_run sha" "ledger_inv sha"
  for sha
  by (rule run_coordination.intro)
     (simp_all add: in_memory_coordinator_def mem_runs.run_storage_axioms mem_ledger.event_ledger_axioms)

lemma empty_coord_inv: "mem_coord.coord_inv sha (empty_runs, L)"
  unfolding mem_coord.coord_inv_def by (simp add: in_memory_coordinator_def run_get_def empty_runs_def)

text \<open>Counting and first occurrences.\<close>

lemma counter_count:
  "map_of (counter c xs) x = (if count_list xs x = 0 then map_of c x
     else Some ((case map_of c x of None \<Rightarrow> 0 | Some n \<Rightarrow> n) + count_list xs x))"
  by (induction xs arbitrary: c) (auto simp: update_conv' split: option.splits)

lemma unique_keys_eq: "distinct seen \<Longrightarrow> distinct (unique_keys seen xs) \<and> set (unique_keys seen xs) = set seen \<union> set xs"
  by (induction xs arbitrary: seen) auto

section \<open>Properties\<close>

text \<open>
  C38: Completion is final and never silent. In any history of coordinator calls, failing ones included, a run keeps
  its identity and everything fixed at its start. Once its status is terminal it keeps its status and completion
  time as well, and its ledger holds, at every later moment, a completion event with exactly that time and status:
  the only fields a call can still write are the two that \<open>bind_lineage\<close> binds, the lineage graph digest and the
  specification revision, and a revision that is set is never rebound. The events recorded so far stay the beginning
  of the ledger of every run, and every run passes \<open>verify_run\<close>.
\<close>

theorem run_completion_final:
  assumes "(coord_step sha (in_memory_coordinator sha))\<^sup>*\<^sup>* (empty_runs, empty_ledger) s" "run_get tenant run_id (fst s) = Some run"
    and "(coord_step sha (in_memory_coordinator sha))\<^sup>*\<^sup>* s s'"
  shows "(\<exists>run'. run_get tenant run_id (fst s') = Some run' \<and> run_tenant_id run' = tenant \<and> run_run_id run' = run_id
      \<and> opened run' = opened run
      \<and> (terminal_run_status (run_status run) \<longrightarrow> unbound run' = unbound run
           \<and> (\<exists>e \<in> set (list_run_events tenant run_id (snd s)). records_completion e run')
           \<and> (\<exists>e \<in> set (list_run_events tenant run_id (snd s')). records_completion e run'))
      \<and> (run_specification_revision run \<noteq> None \<longrightarrow> run_specification_revision run' = run_specification_revision run))
    \<and> (\<forall>t i. prefix (list_run_events t i (snd s)) (list_run_events t i (snd s')) \<and> verify_run sha t i (snd s') = Inr ())"
proof -
  let ?C = "in_memory_coordinator sha"
  have get: "co_get ?C = run_get" by (simp add: in_memory_coordinator_def)
  have inv: "mem_coord.coord_inv sha s" and l: "ledger_inv sha (snd s)"
    using mem_coord.coord_steps_inv [OF assms(1) empty_coord_inv] by (auto simp: mem_coord.grows_def)
  from mem_coord.coord_steps_inv [OF assms(3) inv] l have inv': "mem_coord.coord_inv sha s'" and kept: "mem_coord.run_kept sha s s'"
    and ledger: "\<forall>t i. prefix (list_run_events t i (snd s)) (list_run_events t i (snd s')) \<and> verify_run sha t i (snd s') = Inr ()"
    by (auto simp: mem_coord.grows_def ledger_inv_verify)
  from kept assms(2) obtain run' where run': "run_get tenant run_id (fst s') = Some run'" "opened run' = opened run"
      "terminal_run_status (run_status run) \<Longrightarrow> unbound run' = unbound run"
      "run_specification_revision run \<noteq> None \<longrightarrow> run_specification_revision run' = run_specification_revision run"
    unfolding mem_coord.run_kept_def get by blast
  have ids: "run_tenant_id run' = tenant" "run_run_id run' = run_id" using inv' run'(1) unfolding mem_coord.coord_inv_def get by blast+
  have completed: "\<exists>e \<in> set (list_run_events tenant run_id (snd s)). records_completion e run'"
    if t: "terminal_run_status (run_status run)"
    using inv assms(2) t unfolding mem_coord.coord_inv_def get records_completion_unbound [OF run'(3) [OF t]] by blast
  then have "\<exists>e \<in> set (list_run_events tenant run_id (snd s')). records_completion e run'"
    if "terminal_run_status (run_status run)"
    using that ledger by (meson set_mono_prefix subsetD)
  with run' ids completed ledger show ?thesis by blast
qed

definition sample_run :: run_record where
  "sample_run = \<lparr>run_schema_name = ''prodkit.control-run'', run_schema_version = ''1.0.0'', run_run_id = ''r1'', run_tenant_id = ''acme'',
     run_status = Run_RUNNING, run_initiated_by = sample_actor, run_environment = ''production'', run_purpose = ''demo'',
     run_trace_id = replicate 32 (CHR ''0''), run_started_at = 1000, run_completed_at = None, run_source_intent_digest = None,
     run_specification_revision = None, run_lineage_graph_digest = None, run_workflow_id = None, run_metadata = []\<rparr>"

definition sample_start :: start_arguments where
  "sample_start = \<lparr>sta_tenant_id = ''acme'', sta_initiated_by = sample_actor, sta_environment = ''production'', sta_purpose = ''demo'',
     sta_source_intent = None, sta_specification_revision = None, sta_workflow_id = None\<rparr>"

lemma sample_text:
  "strip ''acme'' = ''acme''" "strip ''production'' = ''production''" "strip ''demo'' = ''demo''" "strip ''agent-7'' = ''agent-7''"
  by (simp_all add: strip_def py_isspace_def)

lemma sample_hex: "is_span_id (replicate 16 (CHR ''0''))" "is_trace_id (replicate 32 (CHR ''0''))"
  unfolding is_span_id_def is_trace_id_def by (rule hex_pattern_replicate, simp add: is_hex_def)+

lemma strip_replicate: "\<not> py_isspace c \<Longrightarrow> strip (replicate n c) = replicate n c"
proof -
  assume "\<not> py_isspace c"
  then have "dropWhile py_isspace (replicate n c) = replicate n c" by (cases n) simp_all
  then show ?thesis by (simp add: strip_def)
qed

lemma sample_start_run:
  "\<exists>L. start_run zero_hash (in_memory_coordinator zero_hash) 1000 ''r1'' ''e1'' (replicate 32 (CHR ''0'')) (replicate 16 (CHR ''0'')) sample_start
     (empty_runs, empty_ledger) = (Inr sample_run, (\<lparr>rs_runs = [((''acme'', ''r1''), sample_run)]\<rparr>, L)) \<and>
     ledger_inv zero_hash L \<and> list_run_events ''acme'' ''r1'' L \<noteq> []"
proof -
  have new: "new_run_record sample_run = Inr sample_run"
    using sample_hex by (simp add: new_run_record_def run_record_fields_def sample_run_def sample_actor_def actor_ref_fields_def
        nonblank_def sample_text strip_replicate py_isspace_def Let_def)
  then have new': "new_run_record \<lparr>run_schema_name = ''prodkit.control-run'', run_schema_version = ''1.0.0'', run_run_id = ''r1'',
      run_tenant_id = ''acme'', run_status = Run_RUNNING, run_initiated_by = sample_actor, run_environment = ''production'',
      run_purpose = ''demo'', run_trace_id = replicate 32 (CHR ''0''), run_started_at = 1000, run_completed_at = None,
      run_source_intent_digest = None, run_specification_revision = None, run_lineage_graph_digest = None,
      run_workflow_id = None, run_metadata = []\<rparr> = Inr sample_run"
    by (simp only: sample_run_def)
  have actor: "actor_tenant_id sample_actor = ''acme''" by (simp add: sample_actor_def)
  obtain d where d: "run_event_draft ''e1'' ''r1'' ''acme'' Event_RUN_STARTED 1000 sample_actor (replicate 32 (CHR ''0''))
      (replicate 16 (CHR ''0'')) (dump_items (json_mode (dump_run_record sample_run))) = Inr d"
    using sample_hex by (simp add: run_event_draft_def control_event_draft_fields_def validate_control_event_draft_def sample_actor_def
        actor_ref_fields_def nonblank_def sample_text Let_def)
  have "\<exists>e L. ledger_append zero_hash d empty_ledger = (Inr e, L)"
    by (simp add: ledger_append_def empty_ledger_def Let_def)
  then obtain e L where L: "ledger_append zero_hash d empty_ledger = (Inr e, L)" by blast
  have "ledger_inv zero_hash L" using mem_ledger.append_invar [OF empty_ledger_inv L] .
  moreover have "list_run_events ''acme'' ''r1'' L \<noteq> []"
    using mem_ledger.append_returns [OF L] run_event_draft_Inr [OF d] by (simp add: sample_text)
  moreover have "run_run_id sample_run = ''r1''" "run_tenant_id sample_run = ''acme''" "run_trace_id sample_run = replicate 32 (CHR ''0'')"
    by (simp_all add: sample_run_def)
  with new' d L have "start_run zero_hash (in_memory_coordinator zero_hash) 1000 ''r1'' ''e1'' (replicate 32 (CHR ''0'')) (replicate 16 (CHR ''0'')) sample_start
     (empty_runs, empty_ledger) = (Inr sample_run, (\<lparr>rs_runs = [((''acme'', ''r1''), sample_run)]\<rparr>, L))"
    by (simp add: start_run_def sample_start_def bindE_lift raise_if_def in_memory_coordinator_def bindE_def on_runs_def on_events_def
        run_create_def empty_runs_def actor)
  ultimately show ?thesis by blast
qed

definition sample_completed :: run_record where
  "sample_completed = sample_run\<lparr>run_status := Run_SUCCEEDED, run_completed_at := Some 2000\<rparr>"

lemma sample_complete_run:
  assumes "ledger_inv zero_hash L" "list_run_events ''acme'' ''r1'' L \<noteq> []"
  shows "\<exists>L'. complete_run (in_memory_coordinator zero_hash) 2000 ''e2'' (replicate 16 (CHR ''0'')) ''r1'' sample_actor Run_SUCCEEDED []
     (\<lparr>rs_runs = [((''acme'', ''r1''), sample_run)]\<rparr>, L) = (Inr sample_completed, (\<lparr>rs_runs = [((''acme'', ''r1''), sample_completed)]\<rparr>, L'))"
proof -
  have actor: "actor_tenant_id sample_actor = ''acme''" by (simp add: sample_actor_def)
  have run: "run_run_id sample_run = ''r1''" "run_tenant_id sample_run = ''acme''" "run_trace_id sample_run = replicate 32 (CHR ''0'')"
    "run_status sample_run = Run_RUNNING" by (simp_all add: sample_run_def)
  obtain d where d: "run_event_draft ''e2'' ''r1'' ''acme'' Event_RUN_COMPLETED 2000 sample_actor (replicate 32 (CHR ''0''))
      (replicate 16 (CHR ''0'')) [(''status'', PStr (run_status_value Run_SUCCEEDED)), (''summary'', dump_dict (\<lambda>v. v) [])] = Inr d"
    using sample_hex by (simp add: run_event_draft_def control_event_draft_fields_def validate_control_event_draft_def sample_actor_def
        actor_ref_fields_def nonblank_def sample_text Let_def)
  from run_event_draft_Inr [OF this] obtain e L' where "ledger_append zero_hash d L = (Inr e, L')"
    using mem_ledger.append_accepts [OF assms(1), of d] assms(2) by (auto simp: sample_text)
  with d show ?thesis
    by (simp add: complete_run_def require_run_def bindE_lift raise_if_def in_memory_coordinator_def bindE_def on_runs_def on_events_def
        run_get_def run_replace_def actor run terminal_run_status_def sample_completed_def Let_def)
qed

theorem run_completion_final_witness:
  "\<exists>s s' run run'. (coord_step zero_hash (in_memory_coordinator zero_hash))\<^sup>*\<^sup>* (empty_runs, empty_ledger) s \<and>
     (coord_step zero_hash (in_memory_coordinator zero_hash))\<^sup>*\<^sup>* s s' \<and>
     run_get ''acme'' ''r1'' (fst s) = Some run \<and> run_status run = Run_SUCCEEDED \<and> run_get ''acme'' ''r1'' (fst s') = Some run' \<and>
     run_lineage_graph_digest run = None \<and> run_lineage_graph_digest run' = Some ''g1'' \<and> unbound run' = unbound run \<and>
     (\<exists>e \<in> set (list_run_events ''acme'' ''r1'' (snd s')). records_completion e run')"
proof -
  let ?C = "in_memory_coordinator zero_hash"
  obtain L where st: "start_run zero_hash ?C 1000 ''r1'' ''e1'' (replicate 32 (CHR ''0''))
      (replicate 16 (CHR ''0'')) sample_start (empty_runs, empty_ledger) = (Inr sample_run, (\<lparr>rs_runs = [((''acme'', ''r1''), sample_run)]\<rparr>, L))"
      and L: "ledger_inv zero_hash L" "list_run_events ''acme'' ''r1'' L \<noteq> []"
    using sample_start_run by blast
  obtain L' where fin: "complete_run ?C 2000 ''e2'' (replicate 16 (CHR ''0'')) ''r1'' sample_actor Run_SUCCEEDED []
     (\<lparr>rs_runs = [((''acme'', ''r1''), sample_run)]\<rparr>, L) = (Inr sample_completed, (\<lparr>rs_runs = [((''acme'', ''r1''), sample_completed)]\<rparr>, L'))"
    using sample_complete_run [OF L] by blast
  let ?s = "(\<lparr>rs_runs = [((''acme'', ''r1''), sample_completed)]\<rparr>, L')"
  let ?run' = "sample_completed\<lparr>run_lineage_graph_digest := Some ''g1''\<rparr>"
  let ?s' = "(\<lparr>rs_runs = [((''acme'', ''r1''), ?run')]\<rparr>, L')"
  have steps: "(coord_step zero_hash ?C)\<^sup>*\<^sup>* (empty_runs, empty_ledger) ?s"
    using coord_step.start [OF st] coord_step.finish [OF fin] by (meson rtranclp.rtrancl_into_rtrancl rtranclp.rtrancl_refl)
  have run: "run_run_id sample_completed = ''r1''" "run_tenant_id sample_completed = ''acme''" "run_specification_revision sample_completed = None"
    "run_lineage_graph_digest sample_completed = None" "run_status sample_completed = Run_SUCCEEDED"
    by (simp_all add: sample_completed_def sample_run_def)
  then have "bind_lineage ?C ''r1'' ''acme'' ''g1'' None ?s = (Inr ?run', ?s')"
    by (simp add: bind_lineage_def require_run_def bindE_lift raise_if_def in_memory_coordinator_def bindE_def on_runs_def
        run_get_def run_replace_def sample_completed_def sample_run_def Let_def)
  then have bind: "(coord_step zero_hash ?C)\<^sup>*\<^sup>* ?s ?s'" by (blast intro: coord_step.lineage)
  have got: "run_get ''acme'' ''r1'' (fst ?s) = Some sample_completed" "run_get ''acme'' ''r1'' (fst ?s') = Some ?run'"
    by (simp_all add: run_get_def)
  from run_completion_final [OF steps got(1) bind] got(2) run(5)
  have "unbound ?run' = unbound sample_completed" "\<exists>e \<in> set (list_run_events ''acme'' ''r1'' (snd ?s')). records_completion e ?run'"
    by (simp_all add: terminal_run_status_def)
  with steps bind got run show ?thesis
    by (intro exI [of _ ?s] exI [of _ ?s'] exI [of _ sample_completed] exI [of _ ?run']) simp
qed

lemma event_type_value_completed: "event_type_value ty = ''run.completed'' \<longleftrightarrow> ty = Event_RUN_COMPLETED"
  by (cases ty) simp_all

lemma map_of_sort_key_fst: "distinct (map fst xs) \<Longrightarrow> map_of (sort_key fst xs) = map_of xs"
  by (rule map_of_eqI) (auto simp: distinct_map inj_on_def)

lemma counter_distinct: "distinct (map fst c) \<Longrightarrow> distinct (map fst (counter c xs))"
  by (induction xs arbitrary: c) (simp_all del: map_fst_update)

text \<open>
  The projection of a run. When it is defined, its count of every event type is the number of
  such events, its action ids are the distinct action ids of the events, its hash is the head of the
  chain, and the run is completed exactly when it has a completion event.
\<close>

theorem project_run_counts:
  assumes "project_run events = Inr p"
  shows "(\<forall>e \<in> set events. ev_run_id e = proj_run_id p) \<and> proj_event_count p = length events
    \<and> proj_final_event_hash p = last_event_hash events
    \<and> (\<forall>ty. map_of (proj_counts_by_type p) (event_type_value ty) =
        (let n = length (filter (\<lambda>e. event_type_value (ev_event_type e) = event_type_value ty) events) in if n = 0 then None else Some n))
    \<and> distinct (proj_action_ids p) \<and> set (proj_action_ids p) = {a. \<exists>e \<in> set events. ev_action_id e = Some a}
    \<and> (proj_completed p \<longleftrightarrow> (\<exists>e \<in> set events. ev_event_type e = Event_RUN_COMPLETED))"
proof -
  from assms obtain e es where events: "events = e # es" by (cases events) (auto simp: project_run_def)
  let ?vals = "map (\<lambda>x. event_type_value (ev_event_type x)) events"
  have p: "p = \<lparr>proj_run_id = ev_run_id e, proj_event_count = length events,
      proj_final_event_hash = Some (integ_event_hash (ev_integrity (last events))), proj_counts_by_type = sort_key fst (counter [] ?vals),
      proj_action_ids = unique_keys [] (List.map_filter ev_action_id events),
      proj_completed = (case map_of (counter [] ?vals) ''run.completed'' of None \<Rightarrow> False | Some n \<Rightarrow> 0 < n)\<rparr>"
    and run: "\<forall>x \<in> set events. ev_run_id x = ev_run_id e"
    using assms unfolding project_run_def events by (auto simp: Let_def list_ex_iff split: if_splits)
  have counts: "map_of (counter [] ?vals) v = (if count_list ?vals v = 0 then None else Some (count_list ?vals v))" for v
    by (simp add: counter_count)
  have len: "count_list ?vals v = length (filter (\<lambda>x. event_type_value (ev_event_type x) = v) events)" for v
    by (simp add: count_list_eq_length_filter comp_def filter_map eq_commute [of v])
  have ids: "set (List.map_filter ev_action_id events) = {a. \<exists>x \<in> set events. ev_action_id x = Some a}"
    by (force simp: List.map_filter_def)
  have "proj_completed p \<longleftrightarrow> (\<exists>x \<in> set events. ev_event_type x = Event_RUN_COMPLETED)"
    unfolding p by (auto simp: counts len filter_empty_conv event_type_value_completed)
  moreover have "map_of (proj_counts_by_type p) (event_type_value ty) =
        (let n = length (filter (\<lambda>x. event_type_value (ev_event_type x) = event_type_value ty) events) in if n = 0 then None else Some n)" for ty
    unfolding p by (simp add: map_of_sort_key_fst counter_distinct counts len Let_def)
  moreover have "distinct (proj_action_ids p) \<and> set (proj_action_ids p) = {a. \<exists>x \<in> set events. ev_action_id x = Some a}"
    unfolding p using unique_keys_eq [of "[]" "List.map_filter ev_action_id events"] ids by simp
  moreover have "proj_run_id p = ev_run_id e" "proj_event_count p = length events" "proj_final_event_hash p = last_event_hash events"
    unfolding p by (simp_all add: last_event_hash_def events)
  ultimately show ?thesis using run by metis
qed

theorem project_run_counts_witness:
  "\<exists>p. project_run [make_event zero_hash sample_draft []] = Inr p \<and> \<not> proj_completed p \<and> set (proj_action_ids p) = {''a1''}"
proof -
  let ?e = "make_event zero_hash sample_draft []"
  obtain p where p: "project_run [?e] = Inr p" by (simp add: project_run_def Let_def)
  from project_run_counts [OF p] have "\<not> proj_completed p" "set (proj_action_ids p) = {''a1''}"
    by (auto simp: sample_draft_def)
  with p show ?thesis by blast
qed

end
