(* ===== verification/Binary64.thy ===== *)
theory Binary64
  imports Control_Prelude Complex_Main "HOL-Library.Log_Nat"
begin

text \<open>
  The arithmetic of Python's \<open>float\<close>, IEEE 754 binary64 with round-half-even, on finite values: a float is the
  rational it denotes and the result of an operation is the exact result rounded to a significand of 53 bits by \<open>fl\<close>.
  The exponent is unbounded. Sums and differences of binary64 numbers below the normal range are exact, so \<open>fl\<close>
  agrees with binary64 on them as long as no result exceeds the largest finite float.
\<close>

section \<open>Rounding to integers\<close>

definition round_half_even :: "rat \<Rightarrow> int" where
  "round_half_even q =
    (let f = \<lfloor>q\<rfloor>; d = q - of_int f
     in if d < 1 / 2 then f else if 1 / 2 < d then f + 1 else if even f then f else f + 1)"

lemma round_half_even_of_int [simp]: "round_half_even (of_int n) = n"
  by (simp add: round_half_even_def)

lemma round_half_even_cases: "round_half_even q = \<lfloor>q\<rfloor> \<or> round_half_even q = \<lfloor>q\<rfloor> + 1"
  by (simp add: round_half_even_def Let_def)

lemma round_half_even_mono:
  assumes "q \<le> r"
  shows "round_half_even q \<le> round_half_even r"
proof (cases "\<lfloor>q\<rfloor> = \<lfloor>r\<rfloor>")
  case True
  with assms show ?thesis by (auto simp: round_half_even_def Let_def)
next
  case False
  with floor_mono [OF assms] have "\<lfloor>q\<rfloor> + 1 \<le> \<lfloor>r\<rfloor>" by simp
  then show ?thesis using round_half_even_cases [of q] round_half_even_cases [of r] by linarith
qed

lemma round_half_even_le: "q \<le> of_int n \<Longrightarrow> round_half_even q \<le> n"
  using round_half_even_mono [of q "of_int n"] by simp

lemma round_half_even_ge: "of_int n \<le> q \<Longrightarrow> n \<le> round_half_even q"
  using round_half_even_mono [of "of_int n" q] by simp

lemma round_half_even_nonneg: "0 \<le> q \<Longrightarrow> 0 \<le> round_half_even q"
  using round_half_even_ge [of 0 q] by simp

section \<open>Rounding to 53 bits\<close>

definition pow2 :: "int \<Rightarrow> rat" where
  "pow2 e = (if 0 \<le> e then 2 ^ nat e else 1 / 2 ^ nat (- e))"

text \<open>The binade of a positive number: the exponent \<open>b\<close> with \<open>pow2 b \<le> x < pow2 (b + 1)\<close>.\<close>

definition binade :: "rat \<Rightarrow> int" where
  "binade x = (case quotient_of x of (n, d) \<Rightarrow> let k = bitlen n - bitlen d in if pow2 k \<le> x then k else k - 1)"

definition ulp :: "rat \<Rightarrow> rat" where
  "ulp x = pow2 (binade x - 52)"

definition fl_pos :: "rat \<Rightarrow> rat" where
  "fl_pos x = of_int (round_half_even (x / ulp x)) * ulp x"

definition fl :: "rat \<Rightarrow> rat" where
  "fl x = (if x = 0 then 0 else if 0 < x then fl_pos x else - fl_pos (- x))"

lemma pow2_eq: "pow2 e = 2 powi e"
  by (simp add: pow2_def power_int_def power_one_over)

lemma pow2_pos [simp]: "0 < pow2 e"
  by (simp add: pow2_eq)

lemma pow2_neq_0 [simp]: "pow2 e \<noteq> 0"
  using pow2_pos [of e] by linarith

lemma pow2_add: "pow2 (a + b) = pow2 a * pow2 b"
  by (simp add: pow2_eq power_int_add)

lemma pow2_numeral: "pow2 52 = 2 ^ 52" "pow2 53 = 2 ^ 53"
  by (simp_all add: pow2_def)

lemma pow2_mono: "a \<le> b \<Longrightarrow> pow2 a \<le> pow2 b"
  unfolding pow2_eq by (rule power_int_increasing) simp_all

lemma ulp_pos: "0 < ulp x"
  by (simp add: ulp_def)

lemma ulp_quotient: "x / ulp x = of_int j \<longleftrightarrow> x = of_int j * ulp x"
  using ulp_pos [of x] by (simp add: divide_eq_eq)

lemma bitlen_pow2: "0 < n \<Longrightarrow> pow2 (bitlen n - 1) \<le> of_int n \<and> of_int n < pow2 (bitlen n)"
proof -
  assume n: "0 < n"
  then have b: "0 \<le> bitlen n - 1" by (simp add: bitlen_alt_def)
  from bitlen_bounds [OF n] have "2 ^ nat (bitlen n - 1) \<le> n" "n < 2 ^ nat (bitlen n)" by simp_all
  then have "(of_int (2 ^ nat (bitlen n - 1)) :: rat) \<le> of_int n" "(of_int n :: rat) < of_int (2 ^ nat (bitlen n))"
    by (simp_all only: of_int_le_iff of_int_less_iff)
  with b show ?thesis by (simp add: pow2_def)
qed

lemma binade_bounds:
  assumes "0 < x"
  shows "pow2 (binade x) \<le> x" "x < pow2 (binade x + 1)"
proof -
  obtain n d where q: "quotient_of x = (n, d)" by fastforce
  then have d: "0 < d" and x: "x = of_int n / of_int d" using quotient_of_denom_pos quotient_of_div by blast+
  with assms have n: "0 < n" by (simp add: zero_less_divide_iff)
  define k where "k = bitlen n - bitlen d"
  have "of_int n < pow2 (bitlen n)" "pow2 (bitlen d - 1) \<le> of_int d" using bitlen_pow2 n d by blast+
  then have "x < pow2 (bitlen n) / pow2 (bitlen d - 1)" unfolding x
    using frac_less [of "of_int n :: rat" "pow2 (bitlen n)" "pow2 (bitlen d - 1)" "of_int d"] n by simp
  also have "\<dots> = pow2 (k + 1)" using pow2_add [of "k + 1" "bitlen d - 1"] by (simp add: k_def field_simps)
  finally have up: "x < pow2 (k + 1)" .
  have "pow2 (bitlen n - 1) \<le> of_int n" "of_int d < pow2 (bitlen d)" using bitlen_pow2 n d by blast+
  then have "pow2 (bitlen n - 1) / pow2 (bitlen d) \<le> x" unfolding x
    using frac_le [of "of_int n :: rat" "pow2 (bitlen n - 1)" "of_int d" "pow2 (bitlen d)"] n d by simp
  moreover have "pow2 (bitlen n - 1) / pow2 (bitlen d) = pow2 (k - 1)" using pow2_add [of "k - 1" "bitlen d"] by (simp add: k_def field_simps)
  ultimately have low: "pow2 (k - 1) \<le> x" by simp
  have b: "binade x = (if pow2 k \<le> x then k else k - 1)" by (simp add: binade_def q k_def)
  show "pow2 (binade x) \<le> x" using low by (simp add: b)
  show "x < pow2 (binade x + 1)" using up by (simp add: b)
qed

lemma binade_mono:
  assumes "0 < x" "x \<le> y"
  shows "binade x \<le> binade y"
proof (rule ccontr)
  assume "\<not> binade x \<le> binade y"
  then have "pow2 (binade y + 1) \<le> pow2 (binade x)" by (intro pow2_mono) simp
  with binade_bounds [of x] binade_bounds [of y] assms show False by simp
qed

lemma fl_pos_bounds:
  assumes "0 < x"
  shows "pow2 (binade x) \<le> fl_pos x" "fl_pos x \<le> pow2 (binade x + 1)"
proof -
  let ?u = "ulp x"
  have u: "0 < ?u" "pow2 (binade x) = 2 ^ 52 * ?u" "pow2 (binade x + 1) = 2 ^ 53 * ?u"
    using pow2_add [of 52 "binade x - 52"] pow2_add [of 53 "binade x - 52"] by (simp_all add: ulp_def pow2_numeral add.commute)
  have low: "of_int (2 ^ 52) \<le> x / ?u" using binade_bounds(1) [OF assms] u(1) unfolding u(2) by (simp add: le_divide_eq)
  have up: "x / ?u \<le> of_int (2 ^ 53)" using binade_bounds(2) [OF assms] u(1) unfolding u(3) by (simp add: divide_le_eq)
  have "of_int (2 ^ 52) \<le> (of_int (round_half_even (x / ?u)) :: rat)" unfolding of_int_le_iff by (rule round_half_even_ge [OF low])
  then show "pow2 (binade x) \<le> fl_pos x" unfolding u(2) fl_pos_def using u(1) by (intro mult_right_mono) simp_all
  have "(of_int (round_half_even (x / ?u)) :: rat) \<le> of_int (2 ^ 53)" unfolding of_int_le_iff by (rule round_half_even_le [OF up])
  then show "fl_pos x \<le> pow2 (binade x + 1)" unfolding u(3) fl_pos_def using u(1) by (intro mult_right_mono) simp_all
qed

lemma fl_pos_mono:
  assumes "0 < x" "x \<le> y"
  shows "fl_pos x \<le> fl_pos y"
proof (cases "binade x = binade y")
  case True
  then have u: "ulp x = ulp y" by (simp add: ulp_def)
  have p: "0 < ulp y" by (simp add: ulp_def)
  from assms(2) p have "x / ulp y \<le> y / ulp y" by (simp add: divide_right_mono)
  then have "round_half_even (x / ulp y) \<le> round_half_even (y / ulp y)" by (rule round_half_even_mono)
  with p show ?thesis by (simp add: fl_pos_def u)
next
  case False
  with binade_mono [OF assms] have "pow2 (binade x + 1) \<le> pow2 (binade y)" by (intro pow2_mono) simp
  with fl_pos_bounds(2) [OF assms(1)] fl_pos_bounds(1) [of y] assms show ?thesis by simp
qed

text \<open>Rounding preserves order.\<close>

lemma fl_mono: "x \<le> y \<Longrightarrow> fl x \<le> fl y"
proof -
  assume le: "x \<le> y"
  have pos: "0 < fl_pos z" if "0 < z" for z using fl_pos_bounds(1) [OF that] pow2_pos [of "binade z"] by linarith
  consider "0 < x" | "x \<le> 0" "0 \<le> y" | "y < 0" by linarith
  then show ?thesis
  proof cases
    case 1
    with le fl_pos_mono show ?thesis by (simp add: fl_def)
  next
    case 2
    with pos [of y] pos [of "- x"] show ?thesis by (auto simp: fl_def)
  next
    case 3
    with le fl_pos_mono [of "- y" "- x"] show ?thesis by (simp add: fl_def)
  qed
qed

text \<open>A number with at most 53 significant bits is a float: it is not rounded.\<close>

lemma fl_exact:
  assumes "x = of_int m * pow2 e" "\<bar>m\<bar> \<le> 2 ^ 53"
  shows "fl x = x"
proof -
  have "fl_pos x = x" if x: "0 < x" "x = of_int m * pow2 e" and m: "m \<le> 2 ^ 53" for x m
  proof -
    have "\<exists>j :: int. x / ulp x = of_int j"
    proof (cases "binade x - 52 \<le> e")
      case True
      then have "pow2 e = 2 ^ nat (e - (binade x - 52)) * ulp x"
        using pow2_add [of "e - (binade x - 52)" "binade x - 52"] by (simp add: ulp_def pow2_def)
      then have "x = of_int (m * 2 ^ nat (e - (binade x - 52))) * ulp x" using x(2) by simp
      then have "x / ulp x = of_int (m * 2 ^ nat (e - (binade x - 52)))" by (rule iffD2 [OF ulp_quotient])
      then show ?thesis by blast
    next
      case False
      have "x \<le> of_int (2 ^ 53) * pow2 e" unfolding x(2) using m by (intro mult_right_mono) (simp_all only: of_int_le_iff, simp add: less_imp_le)
      then have "x \<le> pow2 (53 + e)" by (simp add: pow2_add pow2_numeral)
      moreover have "pow2 (53 + e) \<le> pow2 (binade x)" using False by (intro pow2_mono) simp
      ultimately have "x = pow2 (binade x)" using binade_bounds(1) [OF x(1)] by linarith
      then have "x = of_int (2 ^ 52) * ulp x" using pow2_add [of 52 "binade x - 52"] by (simp add: ulp_def pow2_numeral)
      then have "x / ulp x = of_int (2 ^ 52)" by (rule iffD2 [OF ulp_quotient])
      then show ?thesis by blast
    qed
    then obtain j where j: "x / ulp x = of_int j" by blast
    then have "x = of_int j * ulp x" by (rule iffD1 [OF ulp_quotient])
    then show ?thesis by (simp add: fl_pos_def j)
  qed
  note pos = this
  have "fl_pos x = x" if "0 < x" using pos [OF that assms(1)] assms(2) by simp
  moreover have "fl_pos (- x) = - x" if "x < 0" using pos [of "- x" "- m"] that assms by (simp only: neg_0_less_iff_less) simp
  ultimately show ?thesis by (auto simp: fl_def)
qed

lemma fl_of_int [simp]: "\<bar>n\<bar> \<le> 2 ^ 53 \<Longrightarrow> fl (of_int n) = of_int n"
  by (rule fl_exact [of _ n 0]) (simp_all add: pow2_def)

lemma fl_numeral [simp]:
  "(numeral n :: int) \<le> 2 ^ 53 \<Longrightarrow> fl (numeral n) = numeral n"
  "(numeral n :: int) \<le> 2 ^ 53 \<Longrightarrow> fl (- numeral n) = - numeral n"
  using fl_of_int [of "numeral n"] fl_of_int [of "- numeral n"] by simp_all

lemma fl_0 [simp]: "fl 0 = 0"
  by (simp add: fl_def)

end
