(* ===== verification/Leases.thy ===== *)
theory Leases
  imports Complex_Main Policy Binary64
begin

text \<open>
  Fenced leases: the contract \<open>FencedLease\<close> (\<open>contracts/ha.py\<close>) and \<open>InMemoryLeaseStore\<close>
  (\<open>ha.py\<close>). Each method holds the store's lock, so it is one step; the clock reading and the fresh
  \<open>uuid4\<close> are its arguments. A finite Python float is the rational it denotes; \<open>timedelta\<close> rounds
  seconds half-even to microseconds. Fencing itself is stated once, for any system that
  grants tokens per key, in the locale \<open>fencing\<close>.
\<close>

section \<open>Seconds as floats\<close>

definition timedelta_seconds :: "rat \<Rightarrow> timedelta" where
  "timedelta_seconds q = round_half_even (q * 1000000)"

lemma timedelta_seconds_of_int [simp]: "timedelta_seconds (of_int n) = n * 1000000"
proof -
  have "(of_int n * 1000000 :: rat) = of_int (n * 1000000)" by simp
  then have "\<lfloor>of_int n * 1000000 :: rat\<rfloor> = n * 1000000" by (metis floor_of_int)
  then show ?thesis by (simp add: timedelta_seconds_def round_half_even_def)
qed

lemma timedelta_seconds_numeral [simp]: "timedelta_seconds (numeral n) = numeral n * 1000000"
  using timedelta_seconds_of_int [of "numeral n"] by simp

lemma timedelta_seconds_simps [simp]: "timedelta_seconds 0 = 0" "timedelta_seconds 1 = 1000000"
  using timedelta_seconds_of_int [of 0] timedelta_seconds_of_int [of 1] by simp_all

lemma timedelta_seconds_nonneg: "0 \<le> q \<Longrightarrow> 0 \<le> timedelta_seconds q"
  unfolding timedelta_seconds_def by (rule round_half_even_nonneg) simp

section \<open>The contract (contracts/ha.py)\<close>

record fenced_lease =
  fl_schema_name :: string
  fl_schema_version :: string
  fl_lease_id :: uuid
  fl_tenant_id :: string
  fl_resource_key :: string
  fl_owner_id :: string
  fl_fence_token :: int
  fl_acquired_at :: datetime
  fl_expires_at :: datetime

definition fenced_lease_fields :: "fenced_lease \<Rightarrow> bool" where
  "fenced_lease_fields r = (nonblank (fl_tenant_id r) \<and>
     nonblank (fl_resource_key r) \<and>
     nonblank (fl_owner_id r) \<and>
     1 \<le> fl_fence_token r)"

definition validate_fenced_lease :: "fenced_lease \<Rightarrow> fenced_lease result" where
  "validate_fenced_lease l =
    (if fl_expires_at l \<le> fl_acquired_at l then Inl (ValueError ''fenced lease must expire after acquisition'')
     else Inr l)"

definition lease_expired :: "fenced_lease \<Rightarrow> datetime \<Rightarrow> bool" where
  "lease_expired l t = (fl_expires_at l \<le> t)"

definition new_fenced_lease ::
  "uuid \<Rightarrow> string \<Rightarrow> string \<Rightarrow> string \<Rightarrow> int \<Rightarrow> datetime \<Rightarrow> datetime \<Rightarrow> fenced_lease result" where
  "new_fenced_lease lease_id tenant resource own token acquired expires =
    (let l = \<lparr>fl_schema_name = ''prodkit.fenced-lease'', fl_schema_version = ''1.0.0'', fl_lease_id = lease_id,
              fl_tenant_id = strip tenant, fl_resource_key = strip resource, fl_owner_id = strip own,
              fl_fence_token = token, fl_acquired_at = acquired, fl_expires_at = expires\<rparr>
     in if fenced_lease_fields l then validate_fenced_lease l
        else Inl (ValueError ''validation error for FencedLease''))"

lemma new_fenced_lease_Inr:
  "new_fenced_lease lid tenant resource own token acquired expires = Inr l \<Longrightarrow>
    l = \<lparr>fl_schema_name = ''prodkit.fenced-lease'', fl_schema_version = ''1.0.0'', fl_lease_id = lid,
         fl_tenant_id = strip tenant, fl_resource_key = strip resource, fl_owner_id = strip own,
         fl_fence_token = token, fl_acquired_at = acquired, fl_expires_at = expires\<rparr>
    \<and> acquired < expires \<and> 1 \<le> token"
  by (auto simp: new_fenced_lease_def Let_def validate_fenced_lease_def fenced_lease_fields_def split: if_splits)

section \<open>The store (ha.py)\<close>

definition require_positive_ttl :: "rat \<Rightarrow> unit result" where
  "require_positive_ttl ttl =
    raise_if (ttl \<le> 0 \<or> 86400 < ttl) (ValueError ''lease TTL must be > 0 and <= 86400 seconds'')"

record lease_slot =
  slot_fence_token :: int
  slot_current :: "fenced_lease option"

type_synonym lease_store = "(string \<times> string) \<rightharpoonup> lease_slot"

definition lease_matches :: "fenced_lease option \<Rightarrow> fenced_lease \<Rightarrow> bool" where
  "lease_matches current candidate =
    (case current of None \<Rightarrow> False
     | Some c \<Rightarrow> fl_lease_id c = fl_lease_id candidate \<and> fl_owner_id c = fl_owner_id candidate
                 \<and> fl_fence_token c = fl_fence_token candidate)"

definition slot_of :: "lease_store \<Rightarrow> string \<times> string \<Rightarrow> lease_slot" where
  "slot_of s k = (case s k of None \<Rightarrow> \<lparr>slot_fence_token = 0, slot_current = None\<rparr> | Some slot \<Rightarrow> slot)"

definition issue_fenced ::
  "datetime \<Rightarrow> uuid \<Rightarrow> string \<Rightarrow> string \<Rightarrow> string \<Rightarrow> rat \<Rightarrow> lease_slot \<Rightarrow> (lease_store, fenced_lease option) prog" where
  "issue_fenced now lease_id tenant resource own ttl slot s =
    (let slot1 = slot\<lparr>slot_fence_token := slot_fence_token slot + 1\<rparr>
     in case new_fenced_lease lease_id tenant resource own (slot_fence_token slot1) now (now + timedelta_seconds ttl) of
          Inl e \<Rightarrow> (Inl e, s((tenant, resource) \<mapsto> slot1))
        | Inr l \<Rightarrow> (Inr (Some l), s((tenant, resource) \<mapsto> slot1\<lparr>slot_current := Some l\<rparr>)))"

definition lease_acquire ::
  "datetime \<Rightarrow> uuid \<Rightarrow> string \<Rightarrow> string \<Rightarrow> string \<Rightarrow> rat \<Rightarrow> (lease_store, fenced_lease option) prog" where
  "lease_acquire now lease_id tenant resource own ttl =
    bindE (lift_result (require_positive_ttl ttl)) (\<lambda>_.
    bindE (lift_result (raise_if (is_blank tenant \<or> is_blank resource \<or> is_blank own)
      (ValueError ''lease tenant, resource, and owner must be non-blank''))) (\<lambda>_ s.
    let slot = slot_of s (tenant, resource); s1 = s((tenant, resource) \<mapsto> slot)
    in case slot_current slot of
         Some current \<Rightarrow>
           if \<not> lease_expired current now
           then (Inr (if fl_owner_id current = own then Some current else None), s1)
           else issue_fenced now lease_id tenant resource own ttl slot s1
       | None \<Rightarrow> issue_fenced now lease_id tenant resource own ttl slot s1))"

definition live_slot :: "lease_store \<Rightarrow> fenced_lease \<Rightarrow> datetime \<Rightarrow> (lease_slot \<times> fenced_lease) option" where
  "live_slot s lease now =
    (case s (fl_tenant_id lease, fl_resource_key lease) of
       None \<Rightarrow> None
     | Some slot \<Rightarrow>
         (case slot_current slot of
            None \<Rightarrow> None
          | Some current \<Rightarrow>
              if \<not> lease_matches (Some current) lease \<or> lease_expired current now then None
              else Some (slot, current)))"

definition lease_renew :: "datetime \<Rightarrow> fenced_lease \<Rightarrow> rat \<Rightarrow> (lease_store, fenced_lease) prog" where
  "lease_renew now lease ttl =
    bindE (lift_result (require_positive_ttl ttl)) (\<lambda>_ s.
    case live_slot s lease now of
      None \<Rightarrow> (Inl (LeaseLostError ''cannot renew a stale, released, or expired lease''), s)
    | Some (slot, current) \<Rightarrow>
        let renewed = current\<lparr>fl_expires_at := now + timedelta_seconds ttl\<rparr>
        in (Inr renewed, s((fl_tenant_id lease, fl_resource_key lease) \<mapsto> slot\<lparr>slot_current := Some renewed\<rparr>)))"

definition lease_release :: "datetime \<Rightarrow> fenced_lease \<Rightarrow> (lease_store, unit) prog" where
  "lease_release now lease s =
    (case live_slot s lease now of
       None \<Rightarrow> (Inl (LeaseLostError ''cannot release a stale, replaced, or expired lease''), s)
     | Some (slot, current) \<Rightarrow>
         (Inr (), s((fl_tenant_id lease, fl_resource_key lease) \<mapsto> slot\<lparr>slot_current := None\<rparr>)))"

definition lease_is_current :: "datetime \<Rightarrow> fenced_lease \<Rightarrow> lease_store \<Rightarrow> bool" where
  "lease_is_current now lease s = (live_slot s lease now \<noteq> None)"

section \<open>Fencing\<close>

text \<open>The runs of a system whose steps may grant a token for a key, with the grants in order.\<close>

inductive fence_run :: "('s \<Rightarrow> ('k \<times> int) option \<Rightarrow> 's \<Rightarrow> bool) \<Rightarrow> 's \<Rightarrow> ('k \<times> int) list \<Rightarrow> 's \<Rightarrow> bool"
  for step where
  start: "fence_run step s [] s"
| quiet: "fence_run step s gs t \<Longrightarrow> step t None u \<Longrightarrow> fence_run step s gs u"
| grant: "fence_run step s gs t \<Longrightarrow> step t (Some g) u \<Longrightarrow> fence_run step s (gs @ [g]) u"

lemma fence_run_invariant:
  assumes "fence_run step s gs t" "I s" "\<And>s g u. I s \<Longrightarrow> step s g u \<Longrightarrow> I u"
  shows "I t \<and> fence_run (\<lambda>s g u. I s \<and> step s g u) s gs t"
  using assms by induction (auto intro: fence_run.intros)

definition fence_order :: "('k \<times> int) \<Rightarrow> ('k \<times> int) \<Rightarrow> bool" where
  "fence_order g h = (fst g = fst h \<longrightarrow> snd g < snd h)"

locale fencing =
  fixes step :: "'s \<Rightarrow> ('k \<times> int) option \<Rightarrow> 's \<Rightarrow> bool" and last_token :: "'s \<Rightarrow> 'k \<Rightarrow> int"
  assumes grant_fresh: "step s (Some (k, t)) u \<Longrightarrow> last_token s k < t \<and> last_token u k = t"
    and token_mono: "step s g u \<Longrightarrow> last_token s k \<le> last_token u k"
begin

lemma tokens_grow: "fence_run step s gs t \<Longrightarrow> last_token s k \<le> last_token t k"
  by (induction rule: fence_run.induct) (auto intro: order_trans token_mono)

lemma grants_bounded:
  assumes "fence_run step s gs t" "(k, n) \<in> set gs"
  shows "last_token s k < n \<and> n \<le> last_token t k"
  using assms
proof (induction arbitrary: k n)
  case (start s)
  then show ?case by simp
next
  case (quiet s gs t u)
  then show ?case by (meson order_trans token_mono)
next
  case (grant s gs t g u)
  have up: "last_token s k \<le> last_token t k" using grant.hyps(1) by (rule tokens_grow)
  show ?case
  proof (cases "(k, n) \<in> set gs")
    case True
    with grant show ?thesis by (meson order_trans token_mono)
  next
    case False
    with grant.prems have "g = (k, n)" by simp
    with grant_fresh grant.hyps(2) up show ?thesis by fastforce
  qed
qed

lemma grants_increase:
  assumes "fence_run step s gs t"
  shows "sorted_wrt fence_order gs"
  using assms
proof induction
  case (start s)
  show ?case by simp
next
  case (quiet s gs t u)
  then show ?case by simp
next
  case (grant s gs t g u)
  have "fence_order h g" if "h \<in> set gs" for h
  proof (cases g, cases h)
    fix k n k' n'
    assume gh: "g = (k, n)" "h = (k', n')"
    have "n' \<le> last_token t k'" using grants_bounded grant.hyps(1) that gh by blast
    with grant_fresh grant.hyps(2) gh show "fence_order h g" by (fastforce simp: fence_order_def)
  qed
  with grant.IH show ?case by (auto simp: sorted_wrt_append)
qed

end

text \<open>When moreover a key has at most one holder, set by a grant, the holder has the newest token of its key.\<close>

locale fenced_ownership = fencing +
  fixes holder :: "'a \<Rightarrow> 'b \<Rightarrow> int option"
  assumes holder_grant: "step s (Some (k, t)) u \<Longrightarrow> holder u k = Some t"
    and holder_kept: "step s g u \<Longrightarrow> g = None \<or> fst (the g) \<noteq> k \<Longrightarrow> holder u k = None \<or> holder u k = holder s k"
begin

lemma holder_is_newest:
  assumes "fence_run step s gs t" "\<And>k. holder s k = None" "holder t k = Some n" "(k, m) \<in> set gs"
  shows "m \<le> n"
  using assms
proof (induction arbitrary: n)
  case (start s)
  then show ?case by simp
next
  case (quiet s gs t u)
  then show ?case using holder_kept [OF quiet.hyps(2), of k] by auto
next
  case (grant s gs t g u)
  show ?case
  proof (cases "fst g = k")
    case True
    then have g: "g = (k, snd g)" by (cases g) simp
    with grant holder_grant have n: "n = snd g" by (metis option.inject)
    from grant.prems(3) consider "(k, m) \<in> set gs" | "g = (k, m)" by auto
    then show ?thesis
    proof cases
      case 1
      with grants_bounded [OF grant.hyps(1)] grant_fresh [of t k "snd g" u] grant.hyps(2) g n
      show ?thesis by fastforce
    qed (use n in simp)
  next
    case False
    with grant.prems(3) have "(k, m) \<in> set gs" by auto
    with False grant holder_kept [OF grant.hyps(2), of k] show ?thesis by auto
  qed
qed

end

section \<open>The store grants exclusive, fenced leases\<close>

definition lease_token :: "lease_store \<Rightarrow> string \<times> string \<Rightarrow> int" where
  "lease_token s k = slot_fence_token (slot_of s k)"

definition bumped :: "lease_slot \<Rightarrow> lease_slot" where
  "bumped slot = slot\<lparr>slot_fence_token := slot_fence_token slot + 1\<rparr>"

lemma slot_of_upd [simp]: "slot_of (s(k \<mapsto> v)) k' = (if k' = k then v else slot_of s k')"
  by (simp add: slot_of_def)

lemma slot_current_of: "slot_current (slot_of s k) = Some c \<longleftrightarrow> (\<exists>slot. s k = Some slot \<and> slot_current slot = Some c)"
  by (auto simp: slot_of_def split: option.splits)

text \<open>The branches of \<open>acquire\<close>: a bad call, a live lease, a lease that fails its validation, a new lease.\<close>

lemma lease_acquire_cases [consumes 1, case_names invalid held failed issued]:
  assumes "lease_acquire now lid tenant resource own ttl s = (r, s')"
  obtains e where "r = Inl e" "s' = s"
  | current where "slot_current (slot_of s (tenant, resource)) = Some current" "\<not> lease_expired current now"
      "r = Inr (if fl_owner_id current = own then Some current else None)"
      "s' = s((tenant, resource) \<mapsto> slot_of s (tenant, resource))"
  | e where "r = Inl e" "s' = s((tenant, resource) \<mapsto> bumped (slot_of s (tenant, resource)))"
      "\<And>c. slot_current (slot_of s (tenant, resource)) = Some c \<Longrightarrow> lease_expired c now"
  | l where "r = Inr (Some l)"
      "s' = s((tenant, resource) \<mapsto> (bumped (slot_of s (tenant, resource)))\<lparr>slot_current := Some l\<rparr>)"
      "new_fenced_lease lid tenant resource own (lease_token s (tenant, resource) + 1) now (now + timedelta_seconds ttl) = Inr l"
      "\<And>c. slot_current (slot_of s (tenant, resource)) = Some c \<Longrightarrow> lease_expired c now"
proof (cases "require_positive_ttl ttl = Inr () \<and> \<not> (is_blank tenant \<or> is_blank resource \<or> is_blank own)")
  case False
  with assms have "\<exists>e. r = Inl e \<and> s' = s"
    by (auto simp: lease_acquire_def bindE_def require_positive_ttl_def raise_if_def split: if_splits)
  with that(1) show ?thesis by blast
next
  case True
  let ?k = "(tenant, resource)"
  let ?new = "new_fenced_lease lid tenant resource own (lease_token s ?k + 1) now (now + timedelta_seconds ttl)"
  show ?thesis
  proof (cases "\<exists>c. slot_current (slot_of s ?k) = Some c \<and> \<not> lease_expired c now")
    case live: True
    with assms True that(2) show ?thesis by (auto simp: lease_acquire_def bindE_def Let_def raise_if_def)
  next
    case False
    with assms True
    have "issue_fenced now lid tenant resource own ttl (slot_of s ?k) (s(?k \<mapsto> slot_of s ?k)) = (r, s')"
      by (auto simp: lease_acquire_def bindE_def Let_def raise_if_def split: option.splits)
    with False that(3,4) show ?thesis
      by (cases ?new) (auto simp: issue_fenced_def lease_token_def bumped_def)
  qed
qed

lemma live_slot_eq_Some:
  "live_slot s l now = Some (slot, c) \<longleftrightarrow>
    s (fl_tenant_id l, fl_resource_key l) = Some slot \<and> slot_current slot = Some c
    \<and> lease_matches (Some c) l \<and> \<not> lease_expired c now"
  by (auto simp: live_slot_def split: option.splits)

inductive lease_step :: "lease_store \<Rightarrow> ((string \<times> string) \<times> int) option \<Rightarrow> lease_store \<Rightarrow> bool" where
  acquired: "lease_acquire now lid tenant resource own ttl s = (Inr (Some l), s') \<Longrightarrow>
    lease_token s (tenant, resource) < lease_token s' (tenant, resource) \<Longrightarrow>
    lease_step s (Some ((tenant, resource), fl_fence_token l)) s'"
| not_acquired: "lease_acquire now lid tenant resource own ttl s = (r, s') \<Longrightarrow>
    (\<forall>l. r = Inr (Some l) \<longrightarrow> lease_token s' (tenant, resource) = lease_token s (tenant, resource)) \<Longrightarrow>
    lease_step s None s'"
| renewed: "lease_renew now l ttl s = (r, s') \<Longrightarrow> lease_step s None s'"
| released: "lease_release now l s = (r, s') \<Longrightarrow> lease_step s None s'"

lemma lease_renew_cases [consumes 1, case_names failed renewed]:
  assumes "lease_renew now l ttl s = (r, s')"
  obtains e where "r = Inl e" "s' = s"
  | slot c where "live_slot s l now = Some (slot, c)" "r = Inr (c\<lparr>fl_expires_at := now + timedelta_seconds ttl\<rparr>)"
      "s' = s((fl_tenant_id l, fl_resource_key l) \<mapsto> slot\<lparr>slot_current := Some (c\<lparr>fl_expires_at := now + timedelta_seconds ttl\<rparr>)\<rparr>)"
proof (cases "require_positive_ttl ttl = Inr () \<and> live_slot s l now \<noteq> None")
  case True
  then obtain slot c where live: "live_slot s l now = Some (slot, c)" by auto
  with True assms that(2) show ?thesis by (simp add: lease_renew_def bindE_def Let_def)
next
  case False
  with assms have "\<exists>e. r = Inl e \<and> s' = s"
    by (cases "live_slot s l now") (auto simp: lease_renew_def bindE_def require_positive_ttl_def raise_if_def split: if_splits)
  with that(1) show ?thesis by blast
qed

lemma lease_release_cases [consumes 1, case_names failed released]:
  assumes "lease_release now l s = (r, s')"
  obtains e where "r = Inl e" "s' = s"
  | slot c where "live_slot s l now = Some (slot, c)" "r = Inr ()"
      "s' = s((fl_tenant_id l, fl_resource_key l) \<mapsto> slot\<lparr>slot_current := None\<rparr>)"
  using assms by (auto simp: lease_release_def split: option.splits prod.splits)

lemma lease_token_upd [simp]:
  "lease_token (s(k \<mapsto> slot)) k' = (if k' = k then slot_fence_token slot else lease_token s k')"
  by (simp add: lease_token_def)

lemma bumped_simps [simp]:
  "slot_fence_token (bumped slot) = slot_fence_token slot + 1" "slot_current (bumped slot) = slot_current slot"
  by (simp_all add: bumped_def)

lemma lease_acquire_token:
  assumes "lease_acquire now lid tenant resource own ttl s = (r, s')"
  shows "lease_token s k \<le> lease_token s' k"
  using assms by (cases rule: lease_acquire_cases) (auto simp: lease_token_def)

lemma lease_step_token: "lease_step s g s' \<Longrightarrow> lease_token s k \<le> lease_token s' k"
proof (induction rule: lease_step.induct)
  case (renewed now l ttl s r s')
  then show ?case by (cases rule: lease_renew_cases) (auto simp: lease_token_def live_slot_eq_Some slot_of_def)
next
  case (released now l s r s')
  then show ?case by (cases rule: lease_release_cases) (auto simp: lease_token_def live_slot_eq_Some slot_of_def)
qed (auto intro: lease_acquire_token)

definition lease_holder :: "lease_store \<Rightarrow> string \<times> string \<Rightarrow> int option" where
  "lease_holder s k = map_option fl_fence_token (slot_current (slot_of s k))"

lemma lease_grant_effect:
  assumes "lease_step s (Some (k, t)) u"
  shows "lease_token s k < t \<and> lease_token u k = t \<and> lease_holder u k = Some t
    \<and> (\<forall>k'. k' \<noteq> k \<longrightarrow> lease_holder u k' = lease_holder s k')"
  using assms
proof (cases rule: lease_step.cases)
  case (acquired now lid tenant resource own ttl l)
  from acquired(3) show ?thesis
    by (cases rule: lease_acquire_cases)
      (use acquired in \<open>auto simp: lease_token_def lease_holder_def dest!: new_fenced_lease_Inr\<close>)
qed

lemma lease_quiet_holder:
  assumes "lease_step s None u"
  shows "lease_holder u k = None \<or> lease_holder u k = lease_holder s k"
  using assms
proof (cases rule: lease_step.cases)
  case (not_acquired now lid tenant resource own ttl r)
  from not_acquired(1) show ?thesis
    by (cases rule: lease_acquire_cases) (use not_acquired(2) in \<open>auto simp: lease_holder_def lease_token_def\<close>)
next
  case (renewed now l ttl r)
  then show ?thesis
    by (cases rule: lease_renew_cases) (auto simp: lease_holder_def live_slot_eq_Some slot_of_def)
next
  case (released now l r)
  then show ?thesis
    by (cases rule: lease_release_cases) (auto simp: lease_holder_def)
qed

interpretation leases: fenced_ownership lease_step lease_token lease_holder
proof
  show "lease_token s k < t \<and> lease_token u k = t" if "lease_step s (Some (k, t)) u" for s k t u
    using lease_grant_effect [OF that] by blast
  show "lease_holder u k = None \<or> lease_holder u k = lease_holder s k"
    if "lease_step s g u" "g = None \<or> fst (the g) \<noteq> k" for s g u k
  proof (cases g)
    case None
    with that lease_quiet_holder show ?thesis by blast
  next
    case (Some kt)
    with that lease_grant_effect [of s "fst kt" "snd kt" u] show ?thesis by (cases k) simp
  qed
qed (simp_all add: lease_step_token lease_grant_effect)

lemma lease_is_current_iff:
  "lease_is_current now l s \<longleftrightarrow>
    (\<exists>slot c. s (fl_tenant_id l, fl_resource_key l) = Some slot \<and> slot_current slot = Some c
       \<and> lease_matches (Some c) l \<and> \<not> lease_expired c now)"
  by (auto simp: lease_is_current_def live_slot_eq_Some)

lemma lease_acquire_held:
  assumes "lease_is_current now l s" "own \<noteq> fl_owner_id l" "0 < ttl" "ttl \<le> 86400"
    and "\<not> is_blank (fl_tenant_id l)" "\<not> is_blank (fl_resource_key l)" "\<not> is_blank own"
  shows "lease_acquire now lid (fl_tenant_id l) (fl_resource_key l) own ttl s = (Inr None, s)"
  using assms
  by (auto simp: lease_is_current_iff lease_acquire_def bindE_def raise_if_def require_positive_ttl_def slot_of_def
      Let_def lease_matches_def fun_upd_idem_iff)

text \<open>
  C19: Leases are exclusive and fenced. Over any history of \<open>acquire\<close>, \<open>renew\<close> and \<open>release\<close>
  calls, at any clock readings, the fencing tokens granted for a resource strictly increase, a lease that
  \<open>is_current\<close> accepts carries the largest of them, no second lease is accepted for its resource, and
  while it is current \<open>acquire\<close> refuses every other owner and changes nothing.
\<close>

theorem lease_mutual_exclusion:
  assumes "fence_run lease_step Map.empty grants s" "lease_is_current now lease s"
    and "own \<noteq> fl_owner_id lease" "0 < ttl" "ttl \<le> 86400"
    and "\<not> is_blank (fl_tenant_id lease)" "\<not> is_blank (fl_resource_key lease)" "\<not> is_blank own"
  shows "sorted_wrt fence_order grants
    \<and> (\<forall>t. ((fl_tenant_id lease, fl_resource_key lease), t) \<in> set grants \<longrightarrow> t \<le> fl_fence_token lease)
    \<and> (\<forall>other now'. lease_is_current now' other s \<and> fl_tenant_id other = fl_tenant_id lease
          \<and> fl_resource_key other = fl_resource_key lease \<longrightarrow>
        fl_lease_id other = fl_lease_id lease \<and> fl_owner_id other = fl_owner_id lease
        \<and> fl_fence_token other = fl_fence_token lease)
    \<and> lease_acquire now lid (fl_tenant_id lease) (fl_resource_key lease) own ttl s = (Inr None, s)"
proof (intro conjI allI impI)
  show "sorted_wrt fence_order grants" using assms(1) by (rule leases.grants_increase)
  fix t
  assume "((fl_tenant_id lease, fl_resource_key lease), t) \<in> set grants"
  moreover have "lease_holder s (fl_tenant_id lease, fl_resource_key lease) = Some (fl_fence_token lease)"
    using assms(2) by (auto simp: lease_is_current_iff lease_matches_def lease_holder_def slot_of_def)
  ultimately show "t \<le> fl_fence_token lease"
    using leases.holder_is_newest [OF assms(1)] by (auto simp: lease_holder_def slot_of_def)
next
  show "lease_acquire now lid (fl_tenant_id lease) (fl_resource_key lease) own ttl s = (Inr None, s)"
    using assms by (intro lease_acquire_held)
qed (use assms(2) in \<open>auto simp: lease_is_current_iff lease_matches_def\<close>)

definition sample_fenced_lease :: fenced_lease where
  "sample_fenced_lease =
    \<lparr>fl_schema_name = ''prodkit.fenced-lease'', fl_schema_version = ''1.0.0'', fl_lease_id = ''l1'',
     fl_tenant_id = ''acme'', fl_resource_key = ''deploy'', fl_owner_id = ''w1'',
     fl_fence_token = 1, fl_acquired_at = 0, fl_expires_at = 30000000\<rparr>"

definition sample_lease_store :: lease_store where
  "sample_lease_store = [(''acme'', ''deploy'') \<mapsto> \<lparr>slot_fence_token = 1, slot_current = Some sample_fenced_lease\<rparr>]"

lemma sample_lease_acquired:
  "lease_acquire 0 ''l1'' ''acme'' ''deploy'' ''w1'' 30 Map.empty = (Inr (Some sample_fenced_lease), sample_lease_store)"
  by (simp add: lease_acquire_def issue_fenced_def new_fenced_lease_def sample_fenced_lease_def sample_lease_store_def
      bindE_def raise_if_def require_positive_ttl_def slot_of_def Let_def is_blank_def strip_def py_isspace_def
      fenced_lease_fields_def validate_fenced_lease_def nonblank_def)

lemma sample_lease_run: "fence_run lease_step Map.empty [((''acme'', ''deploy''), 1)] sample_lease_store"
proof -
  have "lease_step Map.empty (Some ((''acme'', ''deploy''), fl_fence_token sample_fenced_lease)) sample_lease_store"
    by (rule lease_step.acquired [OF sample_lease_acquired]) (simp add: lease_token_def slot_of_def sample_lease_store_def)
  from fence_run.grant [of lease_step, OF fence_run.start this] show ?thesis by (simp add: sample_fenced_lease_def)
qed

theorem lease_mutual_exclusion_witness:
  "lease_is_current 1000000 sample_fenced_lease sample_lease_store
    \<and> lease_acquire 1000000 ''l2'' ''acme'' ''deploy'' ''w2'' 30 sample_lease_store = (Inr None, sample_lease_store)"
proof
  show cur: "lease_is_current 1000000 sample_fenced_lease sample_lease_store"
    by (simp add: lease_is_current_iff sample_lease_store_def lease_matches_def lease_expired_def sample_fenced_lease_def)
  show "lease_acquire 1000000 ''l2'' ''acme'' ''deploy'' ''w2'' 30 sample_lease_store = (Inr None, sample_lease_store)"
    using lease_mutual_exclusion [OF sample_lease_run cur, of "''w2''" 30 "''l2''"]
    by (simp add: sample_fenced_lease_def is_blank_def strip_def py_isspace_def)
qed

text \<open>
  The store keys a slot by the text it is given while the lease carries the stripped text, so a caller that
  pads the resource gets a second unexpired lease for it, which \<open>is_current\<close> rejects from the start.
\<close>

lemma padded_resource_second_lease:
  "\<exists>l s'. lease_acquire 1000000 ''l2'' ''acme'' ''deploy '' ''w2'' 30 sample_lease_store = (Inr (Some l), s')
     \<and> fl_resource_key l = fl_resource_key sample_fenced_lease \<and> fl_tenant_id l = fl_tenant_id sample_fenced_lease
     \<and> \<not> lease_expired l 1000000 \<and> \<not> lease_expired sample_fenced_lease 1000000 \<and> \<not> lease_is_current 1000000 l s'"
  by (simp add: lease_acquire_def issue_fenced_def new_fenced_lease_def sample_fenced_lease_def sample_lease_store_def
      bindE_def raise_if_def require_positive_ttl_def slot_of_def Let_def is_blank_def strip_def py_isspace_def
      fenced_lease_fields_def validate_fenced_lease_def nonblank_def lease_expired_def lease_is_current_iff lease_matches_def)

end
