(* ===== verification/Work_Queue.thy ===== *)
theory Work_Queue
  imports Leases "HOL-Library.Product_Lexorder"
begin

text \<open>
  The durable work queue: the work contracts of \<open>contracts/ha.py\<close>, \<open>InMemoryDurableWorkQueue\<close> and
  \<open>RecoverableScheduler\<close> of \<open>ha.py\<close>. Each queue method holds the queue's lock, so it is one step;
  every reading of the clock is an argument, and nothing is assumed of the readings. The
  scheduler is built on the interface \<open>DurableWorkQueue\<close>, the locale \<open>durable_queue\<close>.
\<close>

section \<open>Contracts\<close>

datatype work_state =
    Work_QUEUED
  | Work_LEASED
  | Work_SUCCEEDED
  | Work_DEAD_LETTER

record durable_work_item =
  wi_schema_name :: string
  wi_schema_version :: string
  wi_job_id :: uuid
  wi_tenant_id :: string
  wi_queue :: string
  wi_kind :: string
  wi_idempotency_key :: string
  wi_payload :: "(string \<times> pyval) list"
  wi_created_at :: datetime
  wi_available_at :: datetime
  wi_attempt :: int
  wi_max_attempts :: int
  wi_state :: work_state
  wi_completed_at :: "datetime option"
  wi_last_error :: "string option"

definition durable_work_item_fields :: "durable_work_item \<Rightarrow> bool" where
  "durable_work_item_fields r = (nonblank (wi_tenant_id r) \<and>
     nonblank (wi_queue r) \<and>
     nonblank (wi_kind r) \<and>
     nonblank (wi_idempotency_key r) \<and>
     0 \<le> wi_attempt r \<and>
     1 \<le> wi_max_attempts r \<and>
     wi_max_attempts r \<le> 1000)"

definition validate_work_item :: "durable_work_item \<Rightarrow> durable_work_item result" where
  "validate_work_item i =
    (if wi_available_at i < wi_created_at i then Inl (ValueError ''work cannot become available before it is created'')
     else if wi_attempt i > wi_max_attempts i then Inl (ValueError ''work attempt cannot exceed max_attempts'')
     else if wi_state i = Work_SUCCEEDED \<and> wi_completed_at i = None then Inl (ValueError ''succeeded work requires completed_at'')
     else if wi_state i \<noteq> Work_SUCCEEDED \<and> wi_completed_at i \<noteq> None then Inl (ValueError ''only succeeded work may have completed_at'')
     else if wi_state i = Work_DEAD_LETTER \<and> \<not> truthy (wi_last_error i) then Inl (ValueError ''dead-letter work requires last_error'')
     else Inr i)"

definition work_resource_key :: "durable_work_item \<Rightarrow> string" where
  "work_resource_key i = ''queue:'' @ wi_queue i @ '':job:'' @ wi_job_id i"

record leased_work_item =
  lwi_schema_name :: string
  lwi_schema_version :: string
  lwi_item :: durable_work_item
  lwi_lease :: fenced_lease

definition new_leased_work_item :: "durable_work_item \<Rightarrow> fenced_lease \<Rightarrow> leased_work_item result" where
  "new_leased_work_item item lease =
    (if wi_state item \<noteq> Work_LEASED then Inl (ValueError ''leased work item must be in leased state'')
     else if wi_tenant_id item \<noteq> fl_tenant_id lease then Inl (ValueError ''work item and lease tenant differ'')
     else if work_resource_key item \<noteq> fl_resource_key lease then Inl (ValueError ''work item and lease resource differ'')
     else Inr \<lparr>lwi_schema_name = ''prodkit.leased-work-item'', lwi_schema_version = ''1.0.0'',
               lwi_item = item, lwi_lease = lease\<rparr>)"

record queue_snapshot =
  qs_schema_name :: string
  qs_schema_version :: string
  qs_queue :: string
  qs_tenant_id :: string
  qs_queued :: int
  qs_leased :: int
  qs_dead_letter :: int
  qs_succeeded :: int
  qs_captured_at :: datetime

definition active_depth :: "queue_snapshot \<Rightarrow> int" where
  "active_depth q = qs_queued q + qs_leased q"

section \<open>The queue\<close>

record work_queue =
  q_max_queue_depth :: int
  q_items :: "(uuid \<times> durable_work_item) list"
  q_identities :: "(string \<times> string \<times> string) \<rightharpoonup> uuid"
  q_leases :: "uuid \<rightharpoonup> fenced_lease"
  q_fence_tokens :: "uuid \<Rightarrow> int"

definition new_work_queue :: "int \<Rightarrow> work_queue result" where
  "new_work_queue max_queue_depth =
    (if max_queue_depth < 1 then Inl (ValueError ''max_queue_depth must be positive'')
     else Inr \<lparr>q_max_queue_depth = max_queue_depth, q_items = [], q_identities = Map.empty, q_leases = Map.empty,
               q_fence_tokens = (\<lambda>_. 0)\<rparr>)"

definition work_identity :: "durable_work_item \<Rightarrow> string \<times> string \<times> string" where
  "work_identity i = (wi_tenant_id i, wi_queue i, wi_idempotency_key i)"

definition active_in :: "string \<Rightarrow> durable_work_item \<Rightarrow> bool" where
  "active_in queue i = (wi_queue i = queue \<and> wi_state i \<in> {Work_QUEUED, Work_LEASED})"

definition active_count :: "string \<Rightarrow> work_queue \<Rightarrow> int" where
  "active_count queue q = int (length (filter (\<lambda>p. active_in queue (snd p)) (q_items q)))"

definition same_work :: "durable_work_item \<Rightarrow> durable_work_item \<Rightarrow> bool" where
  "same_work existing item =
    (wi_kind existing = wi_kind item
     \<and> value_eq (dump_dict (\<lambda>v. v) (wi_payload existing)) (dump_dict (\<lambda>v. v) (wi_payload item))
     \<and> wi_max_attempts existing = wi_max_attempts item)"

definition enqueue :: "durable_work_item \<Rightarrow> (work_queue, durable_work_item) prog" where
  "enqueue item q =
    (if wi_state item \<noteq> Work_QUEUED \<or> wi_attempt item \<noteq> 0
     then (Inl (ValueError ''new work must be queued with attempt=0''), q)
     else case q_identities q (work_identity item) of
       Some existing_id \<Rightarrow>
         (case map_of (q_items q) existing_id of
            None \<Rightarrow> (Inl (KeyError existing_id), q)
          | Some existing \<Rightarrow>
              if \<not> same_work existing item
              then (Inl (DuplicateActionError ''durable work idempotency key already belongs to different work''), q)
              else (Inr existing, q))
     | None \<Rightarrow>
         if q_max_queue_depth q \<le> active_count (wi_queue item) q
         then (Inl (QueueOverloadedError (''queue '' @ str_repr (wi_queue item) @ '' reached configured depth ''
                 @ int_str (q_max_queue_depth q))), q)
         else (Inr item, q\<lparr>q_items := AList.update (wi_job_id item) item (q_items q),
                            q_identities := (q_identities q)(work_identity item \<mapsto> wi_job_id item)\<rparr>))"

definition eligible :: "datetime \<Rightarrow> work_queue \<Rightarrow> durable_work_item \<Rightarrow> bool" where
  "eligible now q item =
    (case wi_state item of
       Work_QUEUED \<Rightarrow> wi_available_at item \<le> now
     | Work_LEASED \<Rightarrow> (case q_leases q (wi_job_id item) of None \<Rightarrow> True | Some l \<Rightarrow> lease_expired l now)
     | _ \<Rightarrow> False)"

definition candidates :: "datetime \<Rightarrow> string \<Rightarrow> string \<Rightarrow> work_queue \<Rightarrow> durable_work_item list" where
  "candidates now queue tenant q =
    sort_key (\<lambda>i. (wi_available_at i, wi_created_at i, wi_job_id i))
      (filter (\<lambda>i. wi_queue i = queue \<and> wi_tenant_id i = tenant \<and> eligible now q i) (map snd (q_items q)))"

definition put_item :: "durable_work_item \<Rightarrow> work_queue \<Rightarrow> work_queue" where
  "put_item i q = q\<lparr>q_items := AList.update (wi_job_id i) i (q_items q)\<rparr>"

definition drop_lease :: "uuid \<Rightarrow> work_queue \<Rightarrow> work_queue" where
  "drop_lease j q = q\<lparr>q_leases := (q_leases q)(j := None)\<rparr>"

definition dead_lettered :: "durable_work_item \<Rightarrow> durable_work_item" where
  "dead_lettered i = i\<lparr>wi_state := Work_DEAD_LETTER,
     wi_last_error := (if truthy (wi_last_error i) then wi_last_error i else Some ''lease expired after final attempt'')\<rparr>"

definition leased_copy :: "durable_work_item \<Rightarrow> durable_work_item" where
  "leased_copy c = c\<lparr>wi_state := Work_LEASED, wi_attempt := wi_attempt c + 1\<rparr>"

definition lease_item :: "datetime \<Rightarrow> uuid \<Rightarrow> string \<Rightarrow> rat \<Rightarrow> durable_work_item \<Rightarrow> (work_queue, leased_work_item) prog" where
  "lease_item now lease_id own ttl current q =
    (let j = wi_job_id current; token = q_fence_tokens q j + 1; q1 = q\<lparr>q_fence_tokens := (q_fence_tokens q)(j := token)\<rparr>
     in case new_fenced_lease lease_id (wi_tenant_id current) (work_resource_key current) own token now (now + timedelta_seconds ttl) of
          Inl e \<Rightarrow> (Inl e, q1)
        | Inr lease \<Rightarrow>
            let leased_item = leased_copy current
            in (new_leased_work_item leased_item lease, (put_item leased_item q1)\<lparr>q_leases := (q_leases q1)(j \<mapsto> lease)\<rparr>))"

fun lease_first :: "datetime \<Rightarrow> uuid \<Rightarrow> string \<Rightarrow> rat \<Rightarrow> durable_work_item list \<Rightarrow> (work_queue, leased_work_item option) prog" where
  "lease_first now lease_id own ttl [] = ret None"
| "lease_first now lease_id own ttl (current # rest) =
    (if wi_max_attempts current \<le> wi_attempt current
     then (\<lambda>q. lease_first now lease_id own ttl rest (drop_lease (wi_job_id current) (put_item (dead_lettered current) q)))
     else bindE (lease_item now lease_id own ttl current) (\<lambda>leased. ret (Some leased)))"

definition queue_acquire ::
  "datetime \<Rightarrow> uuid \<Rightarrow> string \<Rightarrow> string \<Rightarrow> rat \<Rightarrow> string \<Rightarrow> (work_queue, leased_work_item option) prog" where
  "queue_acquire now lease_id queue own ttl tenant =
    bindE (lift_result (require_positive_ttl ttl)) (\<lambda>_.
    bindE (lift_result (raise_if (is_blank tenant \<or> is_blank queue \<or> is_blank own)
      (ValueError ''tenant, queue, and owner must be non-blank''))) (\<lambda>_ q.
    lease_first now lease_id own ttl (candidates now queue tenant q) q))"

definition require_current :: "datetime \<Rightarrow> leased_work_item \<Rightarrow> work_queue \<Rightarrow> durable_work_item result" where
  "require_current now leased q =
    (case (map_of (q_items q) (wi_job_id (lwi_item leased)), q_leases q (wi_job_id (lwi_item leased))) of
       (Some current, Some active) \<Rightarrow>
         if wi_state current \<noteq> Work_LEASED
            \<or> wi_tenant_id current \<noteq> wi_tenant_id (lwi_item leased)
            \<or> wi_attempt current \<noteq> wi_attempt (lwi_item leased)
            \<or> fl_tenant_id active \<noteq> wi_tenant_id (lwi_item leased)
            \<or> fl_lease_id active \<noteq> fl_lease_id (lwi_lease leased)
            \<or> fl_owner_id active \<noteq> fl_owner_id (lwi_lease leased)
            \<or> fl_fence_token active \<noteq> fl_fence_token (lwi_lease leased)
            \<or> lease_expired active now
         then Inl (LeaseLostError ''work transition rejected because scheduler lease is stale'')
         else Inr current
     | _ \<Rightarrow> Inl (LeaseLostError ''work transition rejected because scheduler lease is stale''))"

definition succeeded :: "datetime \<Rightarrow> durable_work_item \<Rightarrow> durable_work_item" where
  "succeeded later current = current\<lparr>wi_state := Work_SUCCEEDED, wi_completed_at := Some later\<rparr>"

definition queue_complete :: "datetime \<Rightarrow> datetime \<Rightarrow> leased_work_item \<Rightarrow> (work_queue, durable_work_item) prog" where
  "queue_complete now later leased q =
    (case require_current now leased q of
       Inl e \<Rightarrow> (Inl e, q)
     | Inr current \<Rightarrow>
         (Inr (succeeded later current), drop_lease (wi_job_id current) (put_item (succeeded later current) q)))"

definition retried :: "datetime \<Rightarrow> rat \<Rightarrow> string \<Rightarrow> durable_work_item \<Rightarrow> durable_work_item" where
  "retried later delay error current =
    (if wi_max_attempts current \<le> wi_attempt current
     then current\<lparr>wi_state := Work_DEAD_LETTER, wi_last_error := Some error\<rparr>
     else current\<lparr>wi_state := Work_QUEUED, wi_available_at := later + timedelta_seconds delay, wi_last_error := Some error\<rparr>)"

definition queue_retry ::
  "datetime \<Rightarrow> datetime \<Rightarrow> leased_work_item \<Rightarrow> rat \<Rightarrow> string \<Rightarrow> (work_queue, durable_work_item) prog" where
  "queue_retry now later leased delay error q =
    (if delay < 0 then (Inl (ValueError ''retry delay cannot be negative''), q)
     else if is_blank error then (Inl (ValueError ''retry error must be non-blank''), q)
     else case require_current now leased q of
       Inl e \<Rightarrow> (Inl e, q)
     | Inr current \<Rightarrow>
         (Inr (retried later delay error current),
          drop_lease (wi_job_id current) (put_item (retried later delay error current) q)))"

definition state_count :: "work_state \<Rightarrow> durable_work_item list \<Rightarrow> int" where
  "state_count st items = int (length (filter (\<lambda>i. wi_state i = st) items))"

definition queue_snapshot_of :: "datetime \<Rightarrow> string \<Rightarrow> string \<Rightarrow> work_queue \<Rightarrow> queue_snapshot result" where
  "queue_snapshot_of now queue tenant q =
    (if is_blank tenant \<or> is_blank queue then Inl (ValueError ''tenant and queue must be non-blank'')
     else let items = filter (\<lambda>i. wi_queue i = queue \<and> wi_tenant_id i = tenant) (map snd (q_items q))
          in Inr \<lparr>qs_schema_name = ''prodkit.queue-snapshot'', qs_schema_version = ''1.0.0'', qs_queue = strip queue,
                  qs_tenant_id = strip tenant, qs_queued = state_count Work_QUEUED items,
                  qs_leased = state_count Work_LEASED items, qs_dead_letter = state_count Work_DEAD_LETTER items,
                  qs_succeeded = state_count Work_SUCCEEDED items, qs_captured_at = now\<rparr>)"

section \<open>The invariant of the queue\<close>

text \<open>
  What the contract demands of the lifecycle of an item, however it was reached. The text of a \<open>UUID\<close>
  has no blanks.
\<close>

definition work_ok :: "durable_work_item \<Rightarrow> bool" where
  "work_ok i \<longleftrightarrow> durable_work_item_fields i \<and> nonblank (wi_job_id i) \<and> wi_attempt i \<le> wi_max_attempts i
    \<and> (wi_state i = Work_SUCCEEDED \<longleftrightarrow> wi_completed_at i \<noteq> None)
    \<and> (wi_state i = Work_DEAD_LETTER \<longrightarrow> truthy (wi_last_error i))"

definition queue_ok :: "work_queue \<Rightarrow> bool" where
  "queue_ok q \<longleftrightarrow> distinct (map fst (q_items q)) \<and> (\<forall>(j, i) \<in> set (q_items q). wi_job_id i = j \<and> work_ok i)
    \<and> (\<forall>queue. active_count queue q \<le> q_max_queue_depth q)
    \<and> (\<forall>ident j. q_identities q ident = Some j \<longrightarrow> map_of (q_items q) j \<noteq> None)"

lemma valid_item_ok: "durable_work_item_fields i \<Longrightarrow> validate_work_item i = Inr i \<Longrightarrow> nonblank (wi_job_id i) \<Longrightarrow> work_ok i"
  by (auto simp: work_ok_def validate_work_item_def split: if_splits)

lemma count_update:
  "distinct (map fst d) \<Longrightarrow>
    int (length (filter (\<lambda>p. P (snd p)) (AList.update k v d)))
      = int (length (filter (\<lambda>p. P (snd p)) d)) + of_bool (P v) - (case map_of d k of None \<Rightarrow> 0 | Some w \<Rightarrow> of_bool (P w))"
proof (induction d)
  case Nil
  show ?case by simp
next
  case (Cons p d)
  then show ?case by (cases p) (auto split: option.splits)
qed

lemma queue_ok_item: "queue_ok q \<Longrightarrow> map_of (q_items q) j = Some i \<Longrightarrow> wi_job_id i = j \<and> work_ok i"
  by (auto simp: queue_ok_def dest: map_of_SomeD)

lemma q_items_simps [simp]:
  "q_items (put_item i q) = AList.update (wi_job_id i) i (q_items q)"
  "q_items (drop_lease j q) = q_items q"
  "q_max_queue_depth (put_item i q) = q_max_queue_depth q"
  "q_max_queue_depth (drop_lease j q) = q_max_queue_depth q"
  "q_identities (put_item i q) = q_identities q"
  "q_identities (drop_lease j q) = q_identities q"
  "q_leases (put_item i q) = q_leases q"
  "q_leases (drop_lease j q) = (q_leases q)(j := None)"
  "q_fence_tokens (put_item i q) = q_fence_tokens q"
  "q_fence_tokens (drop_lease j q) = q_fence_tokens q"
  by (simp_all add: put_item_def drop_lease_def)

lemma queue_ok_frame:
  "q_items q' = q_items q \<Longrightarrow> q_max_queue_depth q' = q_max_queue_depth q \<Longrightarrow> q_identities q' = q_identities q \<Longrightarrow>
    queue_ok q' = queue_ok q"
  by (simp add: queue_ok_def active_count_def)

lemma queue_ok_put:
  assumes ok: "queue_ok q" and old: "map_of (q_items q) (wi_job_id i) = Some old"
    and i: "work_ok i" "wi_queue i = wi_queue old" "active_in (wi_queue i) i \<Longrightarrow> active_in (wi_queue i) old"
  shows "queue_ok (put_item i q)"
proof -
  have d: "distinct (map fst (q_items q))" using ok by (simp add: queue_ok_def)
  have "active_in queue i \<Longrightarrow> active_in queue old" for queue
    using i(2,3) by (auto simp: active_in_def)
  then have "active_count queue (put_item i q) \<le> active_count queue q" for queue
    using count_update [OF d, of "active_in queue" "wi_job_id i" i] old by (simp add: active_count_def)
  moreover have "active_count queue q \<le> q_max_queue_depth q" for queue using ok by (simp add: queue_ok_def)
  ultimately have "active_count queue (put_item i q) \<le> q_max_queue_depth q" for queue by (metis order_trans)
  moreover have "\<forall>(j, x) \<in> set (q_items (put_item i q)). wi_job_id x = j \<and> work_ok x"
    using ok i(1) by (auto simp: queue_ok_def dest!: set_update_cases)
  ultimately show ?thesis using ok d
    by (auto simp: queue_ok_def update_conv simp del: map_fst_update split: if_splits)
qed

lemma queue_ok_enqueue:
  assumes "queue_ok q" "work_ok i" "enqueue i q = (r, q')"
  shows "queue_ok q'"
proof (cases "q' = q")
  case False
  with assms(3) have below: "active_count (wi_queue i) q < q_max_queue_depth q"
    and q': "q' = q\<lparr>q_items := AList.update (wi_job_id i) i (q_items q),
                    q_identities := (q_identities q)(work_identity i \<mapsto> wi_job_id i)\<rparr>"
    by (auto simp: enqueue_def split: if_splits option.splits)
  have d: "distinct (map fst (q_items q))" using assms(1) by (simp add: queue_ok_def)
  have "active_count queue q' \<le> q_max_queue_depth q" for queue
  proof -
    have "active_count queue q' \<le> active_count queue q + of_bool (active_in queue i)"
      using count_update [OF d, of "active_in queue" "wi_job_id i" i]
      by (auto simp: active_count_def q' split: option.splits)
    moreover have "active_count queue q \<le> q_max_queue_depth q" using assms(1) by (simp add: queue_ok_def)
    ultimately show ?thesis
    proof (cases "active_in queue i")
      case True
      then have "queue = wi_queue i" by (simp add: active_in_def)
      with below \<open>active_count queue q' \<le> _\<close> True show ?thesis by simp
    qed simp
  qed
  moreover have "\<forall>(j, x) \<in> set (q_items q'). wi_job_id x = j \<and> work_ok x"
    using assms(1,2) by (auto simp: queue_ok_def q' dest!: set_update_cases)
  ultimately show ?thesis using assms(1) d
    by (auto simp: queue_ok_def q' update_conv simp del: map_fst_update split: if_splits)
qed (use assms in simp)

text \<open>The candidates not yet handled by \<open>acquire\<close> are still the items of the queue.\<close>

definition pending :: "durable_work_item list \<Rightarrow> work_queue \<Rightarrow> bool" where
  "pending cs q \<longleftrightarrow> distinct (map wi_job_id cs) \<and> (\<forall>c \<in> set cs. map_of (q_items q) (wi_job_id c) = Some c)"

lemma pending_candidates:
  assumes "queue_ok q"
  shows "pending (candidates now queue tenant q) q"
proof -
  have keys: "map wi_job_id (map snd (q_items q)) = map fst (q_items q)"
    using assms by (auto simp: queue_ok_def)
  have d: "distinct (map fst (q_items q))" using assms by (simp add: queue_ok_def)
  have "map_of (q_items q) (wi_job_id c) = Some c" if "c \<in> snd ` set (q_items q)" for c
    using that assms d by (auto simp: queue_ok_def)
  moreover have "distinct (map wi_job_id (filter P (map snd (q_items q))))" for P
    using d keys by (metis distinct_map_filter)
  ultimately show ?thesis
    by (auto simp: pending_def candidates_def distinct_map distinct_sort inj_on_def)
qed

section \<open>Acquisition\<close>

lemma strip_framed: "\<not> py_isspace c \<Longrightarrow> nonblank j \<Longrightarrow> strip (c # xs @ j) = c # xs @ j"
  using nonblank_last [of j] by (intro strip_ends) (simp_all add: nonblank_def)

lemma strip_work_resource_key: "nonblank (wi_job_id i) \<Longrightarrow> strip (work_resource_key i) = work_resource_key i"
  using strip_framed [of "CHR ''q''" "wi_job_id i" "''ueue:'' @ wi_queue i @ '':job:''"]
  by (simp add: work_resource_key_def py_isspace_def)

lemma leased_copy_simps [simp]:
  "wi_job_id (leased_copy c) = wi_job_id c" "wi_tenant_id (leased_copy c) = wi_tenant_id c"
  "wi_queue (leased_copy c) = wi_queue c" "wi_state (leased_copy c) = Work_LEASED"
  "wi_attempt (leased_copy c) = wi_attempt c + 1" "wi_max_attempts (leased_copy c) = wi_max_attempts c"
  "work_resource_key (leased_copy c) = work_resource_key c"
  by (simp_all add: leased_copy_def work_resource_key_def)

lemma dead_lettered_simps [simp]:
  "wi_job_id (dead_lettered c) = wi_job_id c" "wi_queue (dead_lettered c) = wi_queue c"
  "wi_tenant_id (dead_lettered c) = wi_tenant_id c" "wi_state (dead_lettered c) = Work_DEAD_LETTER"
  by (simp_all add: dead_lettered_def)

lemma lease_item_cases [consumes 2, case_names failed leased]:
  assumes "lease_item now lid own ttl c q = (r, q')" "work_ok c"
  obtains e where "r = Inl e" "q' = q\<lparr>q_fence_tokens := (q_fence_tokens q)(wi_job_id c := q_fence_tokens q (wi_job_id c) + 1)\<rparr>"
      "new_fenced_lease lid (wi_tenant_id c) (work_resource_key c) own (q_fence_tokens q (wi_job_id c) + 1) now (now + timedelta_seconds ttl) = Inl e"
  | l where "new_fenced_lease lid (wi_tenant_id c) (work_resource_key c) own (q_fence_tokens q (wi_job_id c) + 1) now (now + timedelta_seconds ttl) = Inr l"
      "r = Inr \<lparr>lwi_schema_name = ''prodkit.leased-work-item'', lwi_schema_version = ''1.0.0'', lwi_item = leased_copy c, lwi_lease = l\<rparr>"
      "q' = (put_item (leased_copy c) (q\<lparr>q_fence_tokens := (q_fence_tokens q)(wi_job_id c := q_fence_tokens q (wi_job_id c) + 1)\<rparr>))
              \<lparr>q_leases := (q_leases q)(wi_job_id c \<mapsto> l)\<rparr>"
proof (cases "new_fenced_lease lid (wi_tenant_id c) (work_resource_key c) own (q_fence_tokens q (wi_job_id c) + 1) now (now + timedelta_seconds ttl)")
  case (Inl e)
  with assms(1) show ?thesis by (intro that(1)) (auto simp: lease_item_def Let_def)
next
  case (Inr l)
  have "strip (wi_tenant_id c) = wi_tenant_id c" "strip (work_resource_key c) = work_resource_key c"
    using assms(2) by (simp_all add: work_ok_def durable_work_item_fields_def strip_work_resource_key) (simp add: nonblank_def)
  with new_fenced_lease_Inr [OF Inr] have "fl_tenant_id l = wi_tenant_id c" "fl_resource_key l = work_resource_key c"
    by auto
  then have "new_leased_work_item (leased_copy c) l =
      Inr \<lparr>lwi_schema_name = ''prodkit.leased-work-item'', lwi_schema_version = ''1.0.0'', lwi_item = leased_copy c, lwi_lease = l\<rparr>"
    by (simp add: new_leased_work_item_def)
  with assms(1) Inr show ?thesis by (intro that(2) [OF Inr]) (simp_all add: lease_item_def Let_def)
qed

lemma pending_put:
  assumes "pending (c # cs) q" "wi_job_id i = wi_job_id c"
  shows "pending cs (put_item i q)"
  unfolding pending_def
proof (intro conjI ballI)
  have fresh: "wi_job_id c \<notin> wi_job_id ` set cs" and kept: "\<forall>d \<in> set cs. map_of (q_items q) (wi_job_id d) = Some d"
    and "distinct (map wi_job_id cs)"
    using assms(1) unfolding pending_def by simp_all
  then show "distinct (map wi_job_id cs)" by blast
  fix d
  assume d: "d \<in> set cs"
  from fresh imageI [OF d, of wi_job_id] have "wi_job_id d \<noteq> wi_job_id c" by metis
  moreover from kept d have "map_of (q_items q) (wi_job_id d) = Some d" by blast
  ultimately show "map_of (q_items (put_item i q)) (wi_job_id d) = Some d" using assms(2) by (simp add: update_conv)
qed

definition leasable :: "durable_work_item \<Rightarrow> bool" where
  "leasable c \<longleftrightarrow> work_ok c \<and> (wi_state c = Work_QUEUED \<or> wi_state c = Work_LEASED)"

lemma work_ok_leased_copy: "leasable c \<Longrightarrow> wi_attempt c < wi_max_attempts c \<Longrightarrow> work_ok (leased_copy c)"
  by (auto simp: leasable_def work_ok_def leased_copy_def durable_work_item_fields_def)

lemma work_ok_dead_lettered: "leasable c \<Longrightarrow> work_ok (dead_lettered c)"
  by (auto simp: leasable_def work_ok_def dead_lettered_def durable_work_item_fields_def truthy_def)

lemma queue_ok_dead:
  assumes "queue_ok q" "pending (c # cs) q" "leasable c"
  shows "queue_ok (drop_lease (wi_job_id c) (put_item (dead_lettered c) q))"
proof -
  have "queue_ok (put_item (dead_lettered c) q)"
    using assms by (intro queue_ok_put [of _ _ c]) (auto simp: pending_def active_in_def work_ok_dead_lettered)
  then show ?thesis by (subst queue_ok_frame [of _ "put_item (dead_lettered c) q"]) simp_all
qed

lemma queue_ok_leased:
  assumes "queue_ok q" "pending (c # cs) q" "leasable c" "wi_attempt c < wi_max_attempts c" "lease_item now lid own ttl c q = (r, q')"
  shows "queue_ok q'"
proof -
  have ok: "work_ok c" using assms(3) by (simp add: leasable_def)
  have "queue_ok (put_item (leased_copy c) q)"
    using assms by (intro queue_ok_put [of _ _ c]) (auto simp: pending_def active_in_def work_ok_leased_copy leasable_def)
  with assms(5) ok assms(1) show ?thesis
    by (cases rule: lease_item_cases) (auto simp: queue_ok_def active_count_def)
qed

lemma queue_ok_lease_first:
  assumes "lease_first now lid own ttl cs q = (r, q')" "queue_ok q" "pending cs q" "list_all leasable cs"
  shows "queue_ok q'"
  using assms
proof (induction cs arbitrary: q)
  case (Cons c cs)
  show ?case
  proof (cases "wi_max_attempts c \<le> wi_attempt c")
    case True
    with Cons.prems have "lease_first now lid own ttl cs (drop_lease (wi_job_id c) (put_item (dead_lettered c) q)) = (r, q')"
      by simp
    then show ?thesis
    proof (rule Cons.IH)
      show "queue_ok (drop_lease (wi_job_id c) (put_item (dead_lettered c) q))"
        using Cons.prems by (intro queue_ok_dead) simp_all
      show "pending cs (drop_lease (wi_job_id c) (put_item (dead_lettered c) q))"
        using pending_put [of c cs q "dead_lettered c"] Cons.prems(3) by (simp add: pending_def)
    qed (use Cons.prems in simp)
  next
    case False
    with Cons.prems obtain r' where "lease_item now lid own ttl c q = (r', q')"
      by (auto elim: bindE_cases)
    with False Cons.prems show ?thesis by (auto intro: queue_ok_leased)
  qed
qed simp

lemma candidates_leasable: "queue_ok q \<Longrightarrow> list_all leasable (candidates now queue tenant q)"
  by (auto simp: list_all_iff candidates_def leasable_def eligible_def queue_ok_def split: work_state.splits)

text \<open>What \<open>acquire\<close> did when it returned work: one candidate with attempts left was leased.\<close>

definition granted :: "datetime \<Rightarrow> uuid \<Rightarrow> string \<Rightarrow> rat \<Rightarrow> durable_work_item list \<Rightarrow> work_queue \<Rightarrow> leased_work_item \<Rightarrow> work_queue \<Rightarrow> bool" where
  "granted now lid own ttl cs q lw q' \<longleftrightarrow>
    (\<exists>c. find (\<lambda>c. wi_attempt c < wi_max_attempts c) cs = Some c \<and> lwi_item lw = leased_copy c
      \<and> new_fenced_lease lid (wi_tenant_id c) (work_resource_key c) own (q_fence_tokens q (wi_job_id c) + 1) now (now + timedelta_seconds ttl)
          = Inr (lwi_lease lw)
      \<and> q_fence_tokens q' = (q_fence_tokens q)(wi_job_id c := q_fence_tokens q (wi_job_id c) + 1)
      \<and> q_leases q' (wi_job_id c) = Some (lwi_lease lw)
      \<and> map_of (q_items q') (wi_job_id c) = Some (leased_copy c)
      \<and> (\<forall>k. k \<noteq> wi_job_id c \<longrightarrow> q_leases q' k = None \<or> q_leases q' k = q_leases q k))"

lemma granted_dead:
  assumes "granted now lid own ttl cs (drop_lease j (put_item i q)) lw q'" "wi_max_attempts c \<le> wi_attempt c"
  shows "granted now lid own ttl (c # cs) q lw q'"
  using assms unfolding granted_def by (fastforce split: if_splits)

lemma lease_first_effect:
  assumes "lease_first now lid own ttl cs q = (r, q')" "list_all leasable cs"
  shows "(\<forall>k. q_fence_tokens q k \<le> q_fence_tokens q' k)
    \<and> (case r of Inr (Some lw) \<Rightarrow> granted now lid own ttl cs q lw q'
       | _ \<Rightarrow> \<forall>k. q_leases q' k = None \<or> q_leases q' k = q_leases q k)"
  using assms
proof (induction cs arbitrary: q)
  case (Cons c cs)
  show ?case
  proof (cases "wi_max_attempts c \<le> wi_attempt c")
    case True
    let ?q = "drop_lease (wi_job_id c) (put_item (dead_lettered c) q)"
    have IH: "(\<forall>k. q_fence_tokens ?q k \<le> q_fence_tokens q' k)
      \<and> (case r of Inr (Some lw) \<Rightarrow> granted now lid own ttl cs ?q lw q'
         | _ \<Rightarrow> \<forall>k. q_leases q' k = None \<or> q_leases q' k = q_leases ?q k)"
      by (rule Cons.IH) (use True Cons.prems in simp_all)
    have kept: "q_leases q' k = None \<or> q_leases q' k = q_leases ?q k \<Longrightarrow> q_leases q' k = None \<or> q_leases q' k = q_leases q k" for k
      by (auto split: if_splits)
    show ?thesis
    proof (cases r)
      case (Inr ol)
      then show ?thesis using IH kept by (cases ol) (auto intro: granted_dead [OF _ True])
    qed (use IH kept in simp)
  next
    case False
    have ok: "work_ok c" using Cons.prems(2) by (simp add: leasable_def)
    from False Cons.prems(1) obtain r' where item: "lease_item now lid own ttl c q = (r', q')"
      and r: "r = (case r' of Inl e \<Rightarrow> Inl e | Inr lw \<Rightarrow> Inr (Some lw))"
      by (auto elim!: bindE_cases)
    from item ok show ?thesis
      by (cases rule: lease_item_cases) (use r False in \<open>auto simp: granted_def update_conv\<close>)
  qed
qed auto

section \<open>Histories of the queue\<close>

inductive queue_step :: "work_queue \<Rightarrow> (uuid \<times> int) option \<Rightarrow> work_queue \<Rightarrow> bool" where
  enqueued: "durable_work_item_fields i \<Longrightarrow> validate_work_item i = Inr i \<Longrightarrow> nonblank (wi_job_id i) \<Longrightarrow>
    enqueue i q = (r, q') \<Longrightarrow> queue_step q None q'"
| acquired: "queue_acquire now lid queue own ttl tenant q = (Inr (Some lw), q') \<Longrightarrow>
    queue_step q (Some (wi_job_id (lwi_item lw), fl_fence_token (lwi_lease lw))) q'"
| not_acquired: "queue_acquire now lid queue own ttl tenant q = (r, q') \<Longrightarrow> (\<forall>lw. r \<noteq> Inr (Some lw)) \<Longrightarrow> queue_step q None q'"
| completed: "queue_complete now later lw q = (r, q') \<Longrightarrow> queue_step q None q'"
| retried: "queue_retry now later lw delay error q = (r, q') \<Longrightarrow> queue_step q None q'"

lemma queue_acquire_cases [consumes 1, case_names invalid run]:
  assumes "queue_acquire now lid queue own ttl tenant q = (r, q')"
  obtains e where "r = Inl e" "q' = q"
  | "lease_first now lid own ttl (candidates now queue tenant q) q = (r, q')"
  using assms
  by (auto simp: queue_acquire_def bindE_def raise_if_def require_positive_ttl_def split: if_splits)

lemma require_current_eq_Inr:
  "require_current now lw q = Inr c \<longleftrightarrow>
    map_of (q_items q) (wi_job_id (lwi_item lw)) = Some c \<and> wi_state c = Work_LEASED
    \<and> wi_tenant_id c = wi_tenant_id (lwi_item lw) \<and> wi_attempt c = wi_attempt (lwi_item lw)
    \<and> (\<exists>l. q_leases q (wi_job_id (lwi_item lw)) = Some l \<and> fl_tenant_id l = wi_tenant_id (lwi_item lw)
         \<and> lease_matches (Some l) (lwi_lease lw) \<and> \<not> lease_expired l now)"
  by (auto simp: require_current_def lease_matches_def split: option.splits if_splits)

lemma queue_complete_cases [consumes 1, case_names stale closed]:
  assumes "queue_complete now later lw q = (r, q')"
  obtains e where "require_current now lw q = Inl e" "r = Inl e" "q' = q"
  | c where "require_current now lw q = Inr c" "r = Inr (succeeded later c)"
      "q' = drop_lease (wi_job_id c) (put_item (succeeded later c) q)"
  using assms by (auto simp: queue_complete_def Let_def split: sum.splits)

lemma queue_retry_cases [consumes 1, case_names failed closed]:
  assumes "queue_retry now later lw delay error q = (r, q')"
  obtains e where "r = Inl e" "q' = q"
  | c where "require_current now lw q = Inr c" "r = Inr (retried later delay error c)" "\<not> is_blank error"
      "q' = drop_lease (wi_job_id c) (put_item (retried later delay error c) q)"
proof (cases "delay < 0 \<or> is_blank error")
  case True
  with assms that(1) show ?thesis by (auto simp: queue_retry_def split: if_splits)
next
  case False
  show ?thesis
  proof (cases "require_current now lw q")
    case (Inl e)
    with assms False have "r = Inl e" "q' = q" by (auto simp: queue_retry_def)
    then show ?thesis by (rule that(1))
  next
    case (Inr c)
    with assms False show ?thesis by (intro that(2) [of c]) (auto simp: queue_retry_def)
  qed
qed

lemma queue_ok_closed:
  assumes "queue_ok q" "map_of (q_items q) (wi_job_id i) = Some c" "wi_state c = Work_LEASED" "wi_queue i = wi_queue c" "work_ok i"
  shows "queue_ok (drop_lease (wi_job_id i) (put_item i q))"
proof -
  have "queue_ok (put_item i q)"
    using assms by (intro queue_ok_put [of _ _ c]) (auto simp: active_in_def)
  then show ?thesis by (subst queue_ok_frame [of _ "put_item i q"]) simp_all
qed

lemma work_ok_succeeded: "work_ok c \<Longrightarrow> work_ok (succeeded later c)"
  by (simp add: succeeded_def work_ok_def durable_work_item_fields_def)

lemma work_ok_retried: "work_ok c \<Longrightarrow> wi_state c = Work_LEASED \<Longrightarrow> \<not> is_blank error \<Longrightarrow> work_ok (retried later delay error c)"
  by (auto simp: work_ok_def retried_def durable_work_item_fields_def truthy_def is_blank_def strip_def)

lemma closed_item_simps [simp]:
  "wi_job_id (succeeded later c) = wi_job_id c" "wi_queue (succeeded later c) = wi_queue c"
  "wi_job_id (retried later delay error c) = wi_job_id c" "wi_queue (retried later delay error c) = wi_queue c"
  by (simp_all add: retried_def succeeded_def)

lemma queue_ok_acquire:
  assumes "queue_acquire now lid queue own ttl tenant q = (r, q')" "queue_ok q"
  shows "queue_ok q'"
  using assms(1)
proof (cases rule: queue_acquire_cases)
  case run
  then show ?thesis
    using assms(2) pending_candidates [OF assms(2)] candidates_leasable [OF assms(2)] by (rule queue_ok_lease_first)
qed (use assms(2) in simp)

lemma queue_step_ok:
  assumes "queue_ok q" "queue_step q g q'"
  shows "queue_ok q'"
  using assms(2,1)
proof cases
  case (enqueued i r)
  from valid_item_ok [OF enqueued(2-4)] enqueued(5) show ?thesis by (rule queue_ok_enqueue [OF assms(1)])
next
  case (acquired now lid queue own ttl tenant lw)
  from acquired(2) assms(1) show ?thesis by (rule queue_ok_acquire)
next
  case (not_acquired now lid queue own ttl tenant r)
  from not_acquired(2) assms(1) show ?thesis by (rule queue_ok_acquire)
next
  case (completed now later lw r)
  from completed(2) show ?thesis
  proof (cases rule: queue_complete_cases)
    case (closed c)
    then have c: "map_of (q_items q) (wi_job_id (lwi_item lw)) = Some c" "wi_state c = Work_LEASED"
      by (simp_all add: require_current_eq_Inr)
    with queue_ok_item [OF assms(1)] have "wi_job_id c = wi_job_id (lwi_item lw)" "work_ok c" by blast+
    with closed c work_ok_succeeded [of c later] queue_ok_closed [OF assms(1), of "succeeded later c" c] show ?thesis by simp
  qed (use assms(1) in simp)
next
  case (retried now later lw delay error r)
  from retried(2) show ?thesis
  proof (cases rule: queue_retry_cases)
    case (closed c)
    then have c: "map_of (q_items q) (wi_job_id (lwi_item lw)) = Some c" "wi_state c = Work_LEASED"
      by (simp_all add: require_current_eq_Inr)
    with queue_ok_item [OF assms(1)] have "wi_job_id c = wi_job_id (lwi_item lw)" "work_ok c" by blast+
    with closed c work_ok_retried [of c error later delay] queue_ok_closed [OF assms(1), of "retried later delay error c" c] show ?thesis by simp
  qed (use assms(1) in simp)
qed

section \<open>Fencing of scheduler ownership\<close>

definition queue_holder :: "work_queue \<Rightarrow> uuid \<Rightarrow> int option" where
  "queue_holder q j = map_option fl_fence_token (q_leases q j)"

lemma acquire_effect:
  assumes "queue_ok q" "queue_acquire now lid queue own ttl tenant q = (r, q')"
  shows "(\<forall>k. q_fence_tokens q k \<le> q_fence_tokens q' k)
    \<and> (case r of Inr (Some lw) \<Rightarrow> granted now lid own ttl (candidates now queue tenant q) q lw q'
       | _ \<Rightarrow> \<forall>k. q_leases q' k = None \<or> q_leases q' k = q_leases q k)"
  using assms(2)
proof (cases rule: queue_acquire_cases)
  case run
  then show ?thesis using candidates_leasable [OF assms(1)] by (rule lease_first_effect)
qed simp

lemma queue_grant_effect:
  assumes "queue_ok q" "queue_step q (Some (j, t)) q'"
  shows "q_fence_tokens q j < t \<and> q_fence_tokens q' j = t \<and> queue_holder q' j = Some t
    \<and> (\<forall>k. k \<noteq> j \<longrightarrow> queue_holder q' k = None \<or> queue_holder q' k = queue_holder q k)"
  using assms(2)
proof cases
  case (acquired now lid queue own ttl tenant lw)
  from acquire_effect [OF assms(1) acquired(3)] obtain c where
    c: "lwi_item lw = leased_copy c" "q_leases q' (wi_job_id c) = Some (lwi_lease lw)"
      "q_fence_tokens q' = (q_fence_tokens q)(wi_job_id c := q_fence_tokens q (wi_job_id c) + 1)"
      "\<forall>k. k \<noteq> wi_job_id c \<longrightarrow> q_leases q' k = None \<or> q_leases q' k = q_leases q k"
    and l: "new_fenced_lease lid (wi_tenant_id c) (work_resource_key c) own (q_fence_tokens q (wi_job_id c) + 1) now
      (now + timedelta_seconds ttl) = Inr (lwi_lease lw)"
    by (auto simp: granted_def)
  from new_fenced_lease_Inr [OF l] have "fl_fence_token (lwi_lease lw) = q_fence_tokens q (wi_job_id c) + 1" by auto
  with acquired c show ?thesis by (auto simp: queue_holder_def)
qed

lemma queue_quiet_effect:
  assumes "queue_ok q" "queue_step q None q'"
  shows "q_fence_tokens q k \<le> q_fence_tokens q' k \<and> (queue_holder q' k = None \<or> queue_holder q' k = queue_holder q k)"
  using assms(2)
proof cases
  case (enqueued i r)
  then show ?thesis by (auto simp: enqueue_def queue_holder_def split: if_splits option.splits)
next
  case (not_acquired now lid queue own ttl tenant r)
  from acquire_effect [OF assms(1) not_acquired(1)] not_acquired(2) show ?thesis
    by (auto simp: queue_holder_def split: sum.splits option.splits)
next
  case (completed now later lw r)
  then show ?thesis by (cases rule: queue_complete_cases) (auto simp: queue_holder_def)
next
  case (retried now later lw delay error r)
  then show ?thesis by (cases rule: queue_retry_cases) (auto simp: queue_holder_def)
qed

interpretation queue: fenced_ownership "\<lambda>q g q'. queue_ok q \<and> queue_step q g q'" q_fence_tokens queue_holder
proof
  show "q_fence_tokens s k < t \<and> q_fence_tokens u k = t" if "queue_ok s \<and> queue_step s (Some (k, t)) u" for s k t u
    using that queue_grant_effect by blast
  show "queue_holder u k = Some t" if "queue_ok s \<and> queue_step s (Some (k, t)) u" for s k t u
    using that queue_grant_effect by blast
  fix s g u k
  assume step: "queue_ok s \<and> queue_step s g u"
  show "q_fence_tokens s k \<le> q_fence_tokens u k"
  proof (cases g)
    case (Some jt)
    with step have q: "queue_ok s" and g: "queue_step s (Some (fst jt, snd jt)) u" by simp_all
    from g q show ?thesis by cases (use acquire_effect in blast)
  qed (use step queue_quiet_effect in blast)
  assume other: "g = None \<or> fst (the g) \<noteq> k"
  show "queue_holder u k = None \<or> queue_holder u k = queue_holder s k"
  proof (cases g)
    case (Some jt)
    with step other queue_grant_effect [of s "fst jt" "snd jt" u] show ?thesis by auto
  qed (use step queue_quiet_effect in blast)
qed

lemma new_work_queue_ok: "new_work_queue n = Inr q \<Longrightarrow> queue_ok q \<and> (\<forall>k. queue_holder q k = None)"
  by (auto simp: new_work_queue_def queue_ok_def active_count_def queue_holder_def split: if_splits)

lemma queue_history:
  assumes "new_work_queue n = Inr q0" "fence_run queue_step q0 grants q"
  shows "queue_ok q" "fence_run (\<lambda>q g q'. queue_ok q \<and> queue_step q g q') q0 grants q"
  using fence_run_invariant [OF assms(2), of queue_ok] new_work_queue_ok [OF assms(1)] queue_step_ok by blast+

lemma closed_rejects:
  assumes "q_leases q j = None" "wi_job_id (lwi_item lw) = j"
  shows "require_current now lw q = Inl (LeaseLostError ''work transition rejected because scheduler lease is stale'')"
  using assms by (auto simp: require_current_def split: option.splits)

lemma transition_holder:
  assumes "(Inr i, q') \<in> {queue_complete now later lw q, queue_retry now later lw delay error q}" "queue_ok q"
  shows "queue_holder q (wi_job_id (lwi_item lw)) = Some (fl_fence_token (lwi_lease lw))"
    and "q_leases q' (wi_job_id (lwi_item lw)) = None"
proof -
  obtain c i' where c: "require_current now lw q = Inr c" and q': "q' = drop_lease (wi_job_id c) (put_item i' q)"
    using assms(1) by (auto elim!: queue_complete_cases [OF sym] queue_retry_cases [OF sym])
  have "wi_job_id c = wi_job_id (lwi_item lw)"
    using c queue_ok_item [OF assms(2)] by (auto simp: require_current_eq_Inr)
  with q' show "q_leases q' (wi_job_id (lwi_item lw)) = None" by simp
  from c show "queue_holder q (wi_job_id (lwi_item lw)) = Some (fl_fence_token (lwi_lease lw))"
    by (auto simp: require_current_eq_Inr queue_holder_def lease_matches_def)
qed

text \<open>
  C7: Scheduler ownership is fenced. Over any history of queue calls at any clock readings, the tokens
  granted for a job strictly increase; a \<open>complete\<close> or \<open>retry\<close> is only accepted with the newest token
  granted for its job; and in the state after an accepted one, any \<open>complete\<close> or \<open>retry\<close> of the job
  raises and changes nothing, whatever lease it presents.
\<close>

theorem queue_fencing:
  assumes "new_work_queue n = Inr q0" "fence_run queue_step q0 grants q"
    and "(Inr i, q') \<in> {queue_complete now later lw q, queue_retry now later lw delay error q}"
  shows "sorted_wrt fence_order grants
    \<and> (\<forall>t. (wi_job_id (lwi_item lw), t) \<in> set grants \<longrightarrow> t \<le> fl_fence_token (lwi_lease lw))
    \<and> (\<forall>now' later' lw' delay' e. wi_job_id (lwi_item lw') = wi_job_id (lwi_item lw) \<longrightarrow>
        queue_complete now' later' lw' q'
          = (Inl (LeaseLostError ''work transition rejected because scheduler lease is stale''), q')
        \<and> (\<exists>e'. queue_retry now' later' lw' delay' e q' = (Inl e', q')))"
proof (intro conjI allI impI)
  note hist = queue_history [OF assms(1,2)]
  note held = transition_holder [OF assms(3) hist(1)]
  show "sorted_wrt fence_order grants" using hist(2) by (rule queue.grants_increase)
  show "t \<le> fl_fence_token (lwi_lease lw)" if "(wi_job_id (lwi_item lw), t) \<in> set grants" for t
    using queue.holder_is_newest [OF hist(2) _ held(1) that] new_work_queue_ok [OF assms(1)] by blast
  fix now' later' delay' and lw' :: leased_work_item and e
  assume "wi_job_id (lwi_item lw') = wi_job_id (lwi_item lw)"
  from closed_rejects [OF held(2) this] show
    "queue_complete now' later' lw' q' = (Inl (LeaseLostError ''work transition rejected because scheduler lease is stale''), q')"
    "\<exists>e'. queue_retry now' later' lw' delay' e q' = (Inl e', q')"
    by (simp_all add: queue_complete_def queue_retry_def)
qed

section \<open>Bounds\<close>

lemma lease_first_frame:
  "q_max_queue_depth (snd (lease_first now lid own ttl cs q)) = q_max_queue_depth q
    \<and> q_identities (snd (lease_first now lid own ttl cs q)) = q_identities q"
proof (induction cs arbitrary: q)
  case (Cons c cs)
  show ?case
  proof (cases "wi_max_attempts c \<le> wi_attempt c")
    case True
    then show ?thesis by (simp add: Cons.IH)
  next
    case False
    then show ?thesis by (auto simp: bindE_def lease_item_def Let_def put_item_def split: sum.splits prod.splits)
  qed
qed simp

lemma acquire_frame:
  assumes "queue_acquire now lid queue own ttl tenant q = (r, q')"
  shows "q_max_queue_depth q' = q_max_queue_depth q" "q_identities q' = q_identities q"
proof -
  have "q_max_queue_depth q' = q_max_queue_depth q \<and> q_identities q' = q_identities q"
    using assms
  proof (cases rule: queue_acquire_cases)
    case run
    with lease_first_frame [of now lid own ttl "candidates now queue tenant q" q] show ?thesis by simp
  qed simp
  then show "q_max_queue_depth q' = q_max_queue_depth q" "q_identities q' = q_identities q" by simp_all
qed

lemma queue_step_depth: "queue_step q g q' \<Longrightarrow> q_max_queue_depth q' = q_max_queue_depth q"
proof (induction rule: queue_step.induct)
  case (enqueued i q r q')
  then show ?case by (auto simp: enqueue_def split: if_splits option.splits)
next
  case (acquired now lid queue own ttl tenant q lw q')
  then show ?case by (rule acquire_frame)
next
  case (not_acquired now lid queue own ttl tenant q r q')
  from not_acquired(1) show ?case by (rule acquire_frame)
next
  case (completed now later lw q r q')
  then show ?case by (cases rule: queue_complete_cases) auto
next
  case (retried now later lw delay error q r q')
  then show ?case by (cases rule: queue_retry_cases) auto
qed

lemma state_counts:
  "state_count Work_QUEUED (filter (\<lambda>i. wi_queue i = queue \<and> wi_tenant_id i = tenant) (map snd items))
    + state_count Work_LEASED (filter (\<lambda>i. wi_queue i = queue \<and> wi_tenant_id i = tenant) (map snd items))
    = int (length (filter (\<lambda>p. active_in queue (snd p) \<and> wi_tenant_id (snd p) = tenant) items))"
  unfolding state_count_def by (induction items) (auto simp: active_in_def)

lemma length_filter_mono: "(\<And>x. P x \<Longrightarrow> Q x) \<Longrightarrow> length (filter P xs) \<le> length (filter Q xs)"
  by (induction xs) auto

lemma snapshot_active:
  assumes "queue_snapshot_of now queue tenant q = Inr s"
  shows "active_depth s \<le> active_count queue q"
proof -
  let ?items = "filter (\<lambda>i. wi_queue i = queue \<and> wi_tenant_id i = tenant) (map snd (q_items q))"
  have "active_depth s = state_count Work_QUEUED ?items + state_count Work_LEASED ?items"
    using assms by (auto simp: queue_snapshot_of_def Let_def active_depth_def split: if_splits)
  also have "\<dots> = int (length (filter (\<lambda>p. active_in queue (snd p) \<and> wi_tenant_id (snd p) = tenant) (q_items q)))"
    by (rule state_counts)
  also have "\<dots> \<le> active_count queue q"
    unfolding active_count_def by (auto intro: length_filter_mono)
  finally show ?thesis .
qed

text \<open>
  C40: The bounds of the queue. After any history of calls, no queue name has more than the configured
  number of queued and leased items, so no tenant's snapshot reports more; every item has used at most
  its maximal number of attempts; it has a completion time exactly when it succeeded, and a
  dead-lettered one has an error.
\<close>

theorem queue_bounds:
  assumes "new_work_queue n = Inr q0" "fence_run queue_step q0 grants q"
  shows "active_count queue q \<le> n
    \<and> (\<forall>s. queue_snapshot_of now queue tenant q = Inr s \<longrightarrow> active_depth s \<le> n)
    \<and> (\<forall>(j, i) \<in> set (q_items q). 0 \<le> wi_attempt i \<and> wi_attempt i \<le> wi_max_attempts i \<and> wi_max_attempts i \<le> 1000
        \<and> (wi_state i = Work_SUCCEEDED \<longleftrightarrow> wi_completed_at i \<noteq> None)
        \<and> (wi_state i = Work_DEAD_LETTER \<longrightarrow> truthy (wi_last_error i)))"
proof -
  have ok: "queue_ok q" using assms by (rule queue_history)
  have "q_max_queue_depth q = n"
    using fence_run_invariant [OF assms(2), of "\<lambda>q. q_max_queue_depth q = n"] assms(1) queue_step_depth
    by (auto simp: new_work_queue_def split: if_splits)
  with ok have depth: "active_count queue q \<le> n" by (auto simp: queue_ok_def)
  moreover have "\<forall>s. queue_snapshot_of now queue tenant q = Inr s \<longrightarrow> active_depth s \<le> n"
    using depth snapshot_active order_trans by blast
  ultimately show ?thesis using ok
    by (auto simp: queue_ok_def work_ok_def durable_work_item_fields_def)
qed

section \<open>Progress\<close>

lemma lease_first_none:
  assumes "lease_first now lid own ttl cs q = (Inr None, q')" "pending cs q"
  shows "(\<forall>c \<in> set cs. wi_max_attempts c \<le> wi_attempt c \<and> map_of (q_items q') (wi_job_id c) = Some (dead_lettered c))
    \<and> (\<forall>j. j \<notin> wi_job_id ` set cs \<longrightarrow> map_of (q_items q') j = map_of (q_items q) j \<and> q_leases q' j = q_leases q j)"
  using assms
proof (induction cs arbitrary: q)
  case (Cons c cs)
  let ?q = "drop_lease (wi_job_id c) (put_item (dead_lettered c) q)"
  have out: "wi_max_attempts c \<le> wi_attempt c" using Cons.prems(1) by (auto elim!: bindE_cases split: if_splits)
  have "pending cs ?q" using pending_put [OF Cons.prems(2), of "dead_lettered c"] by (simp add: pending_def)
  with Cons.IH [of ?q] Cons.prems(1) out have IH:
    "\<forall>c \<in> set cs. wi_max_attempts c \<le> wi_attempt c \<and> map_of (q_items q') (wi_job_id c) = Some (dead_lettered c)"
    "\<forall>j. j \<notin> wi_job_id ` set cs \<longrightarrow> map_of (q_items q') j = map_of (q_items ?q) j \<and> q_leases q' j = q_leases ?q j"
    by simp_all
  have "wi_job_id c \<notin> wi_job_id ` set cs" using Cons.prems(2) by (simp add: pending_def)
  with IH(2) have "map_of (q_items q') (wi_job_id c) = Some (dead_lettered c)" by (simp add: update_conv)
  with IH out show ?case by (simp add: update_conv)
qed simp

lemma lease_first_some:
  assumes "\<exists>c \<in> set cs. wi_attempt c < wi_max_attempts c" "list_all leasable cs"
    and "0 < timedelta_seconds ttl" "\<not> is_blank own" "\<And>k. 0 \<le> q_fence_tokens q k"
  shows "\<exists>lw q'. lease_first now lid own ttl cs q = (Inr (Some lw), q')"
  using assms
proof (induction cs arbitrary: q)
  case (Cons c cs)
  show ?case
  proof (cases "wi_max_attempts c \<le> wi_attempt c")
    case True
    with Cons show ?thesis by simp
  next
    case False
    have ok: "work_ok c" using Cons.prems(2) by (simp add: leasable_def)
    then have "nonblank (wi_tenant_id c)" "nonblank (work_resource_key c)"
      using strip_work_resource_key [of c]
      by (simp_all add: work_ok_def durable_work_item_fields_def nonblank_def work_resource_key_def)
    moreover have "nonblank (strip own)" using Cons.prems(4) by (simp add: nonblank_def is_blank_def)
    moreover have "0 \<le> q_fence_tokens q (wi_job_id c)" by (rule Cons.prems(5))
    ultimately have "\<exists>l. new_fenced_lease lid (wi_tenant_id c) (work_resource_key c) own (q_fence_tokens q (wi_job_id c) + 1) now
        (now + timedelta_seconds ttl) = Inr l"
      using Cons.prems(3)
      by (simp add: new_fenced_lease_def Let_def fenced_lease_fields_def validate_fenced_lease_def nonblank_def)
    then obtain l where l: "new_fenced_lease lid (wi_tenant_id c) (work_resource_key c) own (q_fence_tokens q (wi_job_id c) + 1) now
        (now + timedelta_seconds ttl) = Inr l" by blast
    obtain r q' where item: "lease_item now lid own ttl c q = (r, q')" by fastforce
    from item ok have "\<exists>lw. r = Inr lw" by (cases rule: lease_item_cases) (use l in auto)
    with False item show ?thesis by (auto simp: bindE_def)
  qed
qed simp

lemma candidates_iff:
  assumes "queue_ok q"
  shows "c \<in> set (candidates now queue tenant q) \<longleftrightarrow>
    map_of (q_items q) (wi_job_id c) = Some c \<and> wi_queue c = queue \<and> wi_tenant_id c = tenant \<and> eligible now q c"
proof -
  have "c \<in> snd ` set (q_items q) \<longleftrightarrow> map_of (q_items q) (wi_job_id c) = Some c"
  proof
    assume "c \<in> snd ` set (q_items q)"
    then obtain j where j: "(j, c) \<in> set (q_items q)" by auto
    with assms have "wi_job_id c = j" "distinct (map fst (q_items q))" by (auto simp: queue_ok_def)
    with j show "map_of (q_items q) (wi_job_id c) = Some c" by simp
  next
    assume "map_of (q_items q) (wi_job_id c) = Some c"
    then show "c \<in> snd ` set (q_items q)" by (metis map_of_SomeD imageI snd_conv)
  qed
  then show ?thesis by (auto simp: candidates_def)
qed

lemma no_candidates_left:
  assumes ok: "queue_ok q" "queue_ok q'" and run: "lease_first now lid own ttl (candidates now queue tenant q) q = (Inr None, q')"
  shows "candidates now queue tenant q' = []"
proof (rule ccontr)
  let ?cs = "candidates now queue tenant q"
  note fin = lease_first_none [OF run pending_candidates [OF ok(1)]]
  assume "candidates now queue tenant q' \<noteq> []"
  then obtain i where "i \<in> set (candidates now queue tenant q')" by (meson list.set_sel(1))
  then have i: "map_of (q_items q') (wi_job_id i) = Some i" "wi_queue i = queue" "wi_tenant_id i = tenant" "eligible now q' i"
    by (simp_all add: candidates_iff [OF ok(2)])
  show False
  proof (cases "wi_job_id i \<in> wi_job_id ` set ?cs")
    case True
    with fin i(1) obtain c where "i = dead_lettered c" by fastforce
    with i(4) show False by (simp add: eligible_def)
  next
    case False
    with fin have same: "map_of (q_items q') (wi_job_id i) = map_of (q_items q) (wi_job_id i)"
      "q_leases q' (wi_job_id i) = q_leases q (wi_job_id i)" by blast+
    then have "eligible now q i = eligible now q' i" by (cases "wi_state i") (simp_all add: eligible_def)
    with i same have "i \<in> set ?cs" by (simp add: candidates_iff [OF ok(1)])
    with False show False by simp
  qed
qed

text \<open>
  C39: Acquisition makes progress. In every reachable state, a well-formed \<open>acquire\<close> whose time to live
  is at least a microsecond returns. It leases the first candidate, in the order of availability, that
  has attempts left, with a lease that is live now; it returns nothing only when every eligible item has
  used up its attempts, and then all of them are dead-lettered and no eligible item is left.
\<close>

theorem acquire_progress:
  assumes "new_work_queue n = Inr q0" "fence_run queue_step q0 grants q"
    and "0 < timedelta_seconds ttl" "0 < ttl" "ttl \<le> 86400"
    and "\<not> is_blank tenant" "\<not> is_blank queue" "\<not> is_blank own"
  shows "\<exists>r q'. queue_acquire now lid queue own ttl tenant q = (Inr r, q')
    \<and> (case r of
         Some lw \<Rightarrow> \<exists>c. find (\<lambda>c. wi_attempt c < wi_max_attempts c) (candidates now queue tenant q) = Some c
           \<and> lwi_item lw = leased_copy c \<and> map_of (q_items q') (wi_job_id c) = Some (leased_copy c)
           \<and> q_leases q' (wi_job_id c) = Some (lwi_lease lw) \<and> \<not> lease_expired (lwi_lease lw) now
       | None \<Rightarrow> candidates now queue tenant q' = []
           \<and> (\<forall>c \<in> set (candidates now queue tenant q). wi_max_attempts c \<le> wi_attempt c
                \<and> map_of (q_items q') (wi_job_id c) = Some (dead_lettered c)))"
proof -
  let ?cs = "candidates now queue tenant q"
  have ok: "queue_ok q" using assms(1,2) by (rule queue_history)
  have run: "queue_acquire now lid queue own ttl tenant q = lease_first now lid own ttl ?cs q"
    using assms by (simp add: queue_acquire_def bindE_def raise_if_def require_positive_ttl_def)
  show ?thesis
  proof (cases "\<exists>c \<in> set ?cs. wi_attempt c < wi_max_attempts c")
    case True
    have "0 \<le> q_fence_tokens q k" for k
      using queue.tokens_grow [OF queue_history(2) [OF assms(1,2)], of k] assms(1)
      by (auto simp: new_work_queue_def split: if_splits)
    with lease_first_some [OF True candidates_leasable [OF ok] assms(3,8)] obtain lw q'
      where lf: "lease_first now lid own ttl ?cs q = (Inr (Some lw), q')" by blast
    from lease_first_effect [OF lf candidates_leasable [OF ok]] have g: "granted now lid own ttl ?cs q lw q'" by simp
    then have "\<not> lease_expired (lwi_lease lw) now"
      by (auto simp: granted_def lease_expired_def dest!: new_fenced_lease_Inr)
    with g run lf show ?thesis by (auto simp: granted_def)
  next
    case False
    then have "lease_first now lid own ttl cs q'' = (Inr None, snd (lease_first now lid own ttl cs q''))"
      if "set cs \<subseteq> set ?cs" for cs q''
      using that by (induction cs arbitrary: q'') auto
    then obtain q' where lf: "lease_first now lid own ttl ?cs q = (Inr None, q')" by blast
    have "queue_ok q'" using lf ok pending_candidates [OF ok] candidates_leasable [OF ok] by (rule queue_ok_lease_first)
    with no_candidates_left [OF ok _ lf] lease_first_none [OF lf pending_candidates [OF ok]] run lf show ?thesis by auto
  qed
qed

section \<open>Idempotent admission\<close>

lemma identities_kept:
  assumes "queue_step q g q'" "q_identities q ident = Some j"
  shows "q_identities q' ident = Some j"
  using assms
proof (induction rule: queue_step.induct)
  case (enqueued i q r q')
  then show ?case by (auto simp: enqueue_def split: if_splits option.splits)
next
  case (acquired now lid queue own ttl tenant q lw q')
  then show ?case by (simp add: acquire_frame)
next
  case (not_acquired now lid queue own ttl tenant q r q')
  from not_acquired(3) show ?case by (simp add: acquire_frame(2) [OF not_acquired(1)])
next
  case (completed now later lw q r q')
  from completed(1) show ?case by (cases rule: queue_complete_cases) (use completed in auto)
next
  case (retried now later lw delay error q r q')
  from retried(1) show ?case by (cases rule: queue_retry_cases) (use retried in auto)
qed

lemma identities_kept_run:
  assumes "fence_run queue_step q gs q'" "q_identities q ident = Some j"
  shows "q_identities q' ident = Some j"
  using assms by (induction rule: fence_run.induct) (auto intro: identities_kept)

text \<open>
  Work is admitted at most once. After \<open>enqueue\<close> accepted work for a tenant, queue and idempotency
  key, every later \<open>enqueue\<close> with that identity, in any later state, changes nothing: it returns the item of the
  same job when kind, payload and attempt limit agree, and otherwise raises a duplicate error.
\<close>

theorem enqueue_at_most_once:
  assumes "new_work_queue n = Inr q0" "fence_run queue_step q0 gs q1"
    and "durable_work_item_fields i" "validate_work_item i = Inr i" "nonblank (wi_job_id i)"
    and "enqueue i q1 = (Inr i0, q2)" "fence_run queue_step q2 hs q3"
    and "work_identity k = work_identity i" "wi_state k = Work_QUEUED" "wi_attempt k = 0"
  shows "\<exists>existing. map_of (q_items q3) (wi_job_id i0) = Some existing
    \<and> enqueue k q3 = (if same_work existing k then Inr existing
        else Inl (DuplicateActionError ''durable work idempotency key already belongs to different work''), q3)"
proof -
  have ok1: "queue_ok q1" using assms(1,2) by (rule queue_history)
  have "queue_step q1 None q2" using assms(3-6) by (rule queue_step.enqueued)
  then have ok2: "queue_ok q2" using ok1 queue_step_ok by blast
  have ok3: "queue_ok q3"
    using fence_run_invariant [OF assms(7), of queue_ok] ok2 queue_step_ok by blast
  have "q_identities q2 (work_identity i) = Some (wi_job_id i0)"
    using assms(6) queue_ok_item [OF ok1] by (auto simp: enqueue_def split: if_splits option.splits)
  then have ident: "q_identities q3 (work_identity i) = Some (wi_job_id i0)"
    using assms(7) identities_kept_run by blast
  with ok3 obtain existing where "map_of (q_items q3) (wi_job_id i0) = Some existing" unfolding queue_ok_def by blast
  with ident assms(8-10) show ?thesis by (simp add: enqueue_def)
qed

section \<open>A concrete history\<close>

definition sample_work :: durable_work_item where
  "sample_work =
    \<lparr>wi_schema_name = ''prodkit.durable-work-item'', wi_schema_version = ''1.0.0'', wi_job_id = ''j1'',
     wi_tenant_id = ''acme'', wi_queue = ''q'', wi_kind = ''deploy'', wi_idempotency_key = ''k1'', wi_payload = [],
     wi_created_at = 0, wi_available_at = 0, wi_attempt = 0, wi_max_attempts = 3, wi_state = Work_QUEUED,
     wi_completed_at = None, wi_last_error = None\<rparr>"

definition sample_queue0 :: work_queue where
  "sample_queue0 = \<lparr>q_max_queue_depth = 2, q_items = [], q_identities = Map.empty, q_leases = Map.empty, q_fence_tokens = (\<lambda>_. 0)\<rparr>"

definition sample_queue1 :: work_queue where
  "sample_queue1 = sample_queue0\<lparr>q_items := [(''j1'', sample_work)], q_identities := [(''acme'', ''q'', ''k1'') \<mapsto> ''j1'']\<rparr>"

definition sample_work_lease :: fenced_lease where
  "sample_work_lease =
    \<lparr>fl_schema_name = ''prodkit.fenced-lease'', fl_schema_version = ''1.0.0'', fl_lease_id = ''l1'', fl_tenant_id = ''acme'',
     fl_resource_key = ''queue:q:job:j1'', fl_owner_id = ''w1'', fl_fence_token = 1, fl_acquired_at = 5, fl_expires_at = 30000005\<rparr>"

definition sample_leased :: leased_work_item where
  "sample_leased = \<lparr>lwi_schema_name = ''prodkit.leased-work-item'', lwi_schema_version = ''1.0.0'',
     lwi_item = leased_copy sample_work, lwi_lease = sample_work_lease\<rparr>"

definition sample_queue2 :: work_queue where
  "sample_queue2 = sample_queue1\<lparr>q_items := [(''j1'', leased_copy sample_work)], q_leases := [''j1'' \<mapsto> sample_work_lease],
     q_fence_tokens := (\<lambda>_. 0)(''j1'' := 1)\<rparr>"

lemmas sample_texts = nonblank_def strip_def py_isspace_def is_blank_def

lemma sample_new: "new_work_queue 2 = Inr sample_queue0"
  by (simp add: new_work_queue_def sample_queue0_def)

lemma sample_work_valid:
  "durable_work_item_fields sample_work" "validate_work_item sample_work = Inr sample_work" "nonblank (wi_job_id sample_work)"
  by (simp_all add: durable_work_item_fields_def validate_work_item_def sample_work_def sample_texts)

lemma sample_enqueue: "enqueue sample_work sample_queue0 = (Inr sample_work, sample_queue1)"
  by (simp add: enqueue_def sample_queue0_def sample_queue1_def sample_work_def active_count_def work_identity_def)

lemma sample_candidates: "candidates 5 ''q'' ''acme'' sample_queue1 = [sample_work]"
  by (simp add: candidates_def sample_queue1_def sample_work_def eligible_def)

lemma sample_acquire: "queue_acquire 5 ''l1'' ''q'' ''w1'' 30 ''acme'' sample_queue1 = (Inr (Some sample_leased), sample_queue2)"
proof -
  have lease: "new_fenced_lease ''l1'' ''acme'' ''queue:q:job:j1'' ''w1'' 1 5 30000005 = Inr sample_work_lease"
    by (simp add: new_fenced_lease_def Let_def sample_work_lease_def fenced_lease_fields_def validate_fenced_lease_def sample_texts)
  have leased: "new_leased_work_item (leased_copy sample_work) sample_work_lease = Inr sample_leased"
    by (simp add: new_leased_work_item_def sample_leased_def sample_work_lease_def leased_copy_def sample_work_def work_resource_key_def)
  have item: "lease_item 5 ''l1'' ''w1'' 30 sample_work sample_queue1 = (Inr sample_leased, sample_queue2)"
    using lease leased
    by (simp add: lease_item_def Let_def work_resource_key_def put_item_def sample_queue2_def sample_queue1_def sample_queue0_def)
      (simp add: sample_work_def)
  have "wi_attempt sample_work < wi_max_attempts sample_work" by (simp add: sample_work_def)
  with item show ?thesis
    by (simp add: queue_acquire_def bindE_def raise_if_def require_positive_ttl_def sample_candidates is_blank_def strip_def py_isspace_def)
qed

lemma sample_run1: "fence_run queue_step sample_queue0 [] sample_queue1"
  by (rule fence_run.quiet [of queue_step, OF fence_run.start queue_step.enqueued [OF sample_work_valid sample_enqueue]])

lemma sample_run2: "fence_run queue_step sample_queue0 [(''j1'', 1)] sample_queue2"
proof -
  have "queue_step sample_queue1 (Some (wi_job_id (lwi_item sample_leased), fl_fence_token (lwi_lease sample_leased))) sample_queue2"
    by (rule queue_step.acquired [OF sample_acquire])
  then have "queue_step sample_queue1 (Some (''j1'', 1)) sample_queue2"
    by (simp add: sample_leased_def sample_work_lease_def leased_copy_def sample_work_def)
  from fence_run.grant [of queue_step, OF sample_run1 this] show ?thesis by simp
qed

lemma sample_complete:
  "queue_complete 6 7 sample_leased sample_queue2
    = (Inr (succeeded 7 (leased_copy sample_work)), drop_lease ''j1'' (put_item (succeeded 7 (leased_copy sample_work)) sample_queue2))"
proof -
  have "require_current 6 sample_leased sample_queue2 = Inr (leased_copy sample_work)"
    by (simp add: require_current_eq_Inr sample_leased_def sample_queue2_def sample_work_lease_def lease_matches_def lease_expired_def)
      (simp add: sample_work_def)
  moreover have "wi_job_id sample_work = ''j1''" by (simp add: sample_work_def)
  ultimately show ?thesis by (simp add: queue_complete_def)
qed

theorem queue_fencing_witness:
  "\<exists>q'. queue_complete 6 7 sample_leased sample_queue2 = (Inr (succeeded 7 (leased_copy sample_work)), q')
    \<and> queue_complete 8 9 sample_leased q'
        = (Inl (LeaseLostError ''work transition rejected because scheduler lease is stale''), q')"
  using queue_fencing [OF sample_new sample_run2, of "succeeded 7 (leased_copy sample_work)" _ 6 7 sample_leased 0 "''e''"]
    sample_complete by auto

theorem queue_bounds_witness:
  "active_count ''q'' sample_queue2 \<le> 2 \<and> active_count ''q'' sample_queue2 = 1"
  using queue_bounds [OF sample_new sample_run2, of "''q''"]
  by (simp add: active_count_def sample_queue2_def active_in_def sample_work_def)

theorem acquire_progress_witness:
  "\<exists>lw q'. queue_acquire 5 ''l1'' ''q'' ''w1'' 30 ''acme'' sample_queue1 = (Inr (Some lw), q')
     \<and> lwi_item lw = leased_copy sample_work \<and> \<not> lease_expired (lwi_lease lw) 5"
  using acquire_progress [OF sample_new sample_run1, of 30 "''acme''" "''q''" "''w1''" 5 "''l1''"]
  by (simp add: sample_acquire sample_candidates is_blank_def strip_def py_isspace_def) (simp add: sample_work_def)

theorem enqueue_at_most_once_witness:
  "enqueue (sample_work\<lparr>wi_job_id := ''j2''\<rparr>) sample_queue1 = (Inr sample_work, sample_queue1)"
proof -
  have "same_work sample_work (sample_work\<lparr>wi_job_id := ''j2''\<rparr>)"
    by (simp add: same_work_def sample_work_def dump_dict_def)
  moreover have "map_of (q_items sample_queue1) (wi_job_id sample_work) = Some sample_work"
    by (simp add: sample_queue1_def) (simp add: sample_work_def)
  ultimately show ?thesis
    using enqueue_at_most_once [OF sample_new fence_run.start sample_work_valid sample_enqueue fence_run.start, of "sample_work\<lparr>wi_job_id := ''j2''\<rparr>"]
    by (simp add: work_identity_def) (simp add: sample_work_def)
qed

text \<open>
  \<open>enqueue\<close> checks the identity of new work but not its job id: work of another tenant with the same job
  id replaces the stored item.
\<close>

lemma reused_job_id_overwrites:
  "\<exists>q'. enqueue (sample_work\<lparr>wi_tenant_id := ''other''\<rparr>) sample_queue1 = (Inr (sample_work\<lparr>wi_tenant_id := ''other''\<rparr>), q')
     \<and> map_of (q_items q') ''j1'' = Some (sample_work\<lparr>wi_tenant_id := ''other''\<rparr>)"
  by (simp add: enqueue_def sample_queue1_def sample_queue0_def sample_work_def work_identity_def active_count_def active_in_def)

end
