(* ===== verification/Scheduler.thy ===== *)
theory Scheduler
  imports Work_Queue "HOL-Library.Multiset"
begin

text \<open>
  The worker side of \<open>ha.py\<close>: \<open>RecoverableScheduler.run_once\<close> over any durable queue, and the
  process-local admission state, \<open>RuntimeLifecycle\<close> and \<open>CapacityAdmissionController\<close>. An
  asynchronous context manager is its entry and its exit; other tasks run between them, so the admission
  states are step relations over the admissions that are open.
\<close>

section \<open>The scheduler\<close>

record 's work_queue_port =
  wq_acquire :: "string \<Rightarrow> string \<Rightarrow> rat \<Rightarrow> string \<Rightarrow> ('s, leased_work_item option) prog"
  wq_complete :: "leased_work_item \<Rightarrow> ('s, durable_work_item) prog"
  wq_retry :: "leased_work_item \<Rightarrow> rat \<Rightarrow> string \<Rightarrow> ('s, durable_work_item) prog"

record recoverable_scheduler =
  sch_queue_name :: string
  sch_owner_id :: string
  sch_lease_ttl_seconds :: rat
  sch_retry_delay_seconds :: rat

definition new_scheduler :: "string \<Rightarrow> string \<Rightarrow> rat \<Rightarrow> rat \<Rightarrow> recoverable_scheduler result" where
  "new_scheduler queue_name own ttl delay =
    rbind (require_positive_ttl ttl) (\<lambda>_.
    rbind (raise_if (delay < 0) (ValueError ''retry delay cannot be negative'')) (\<lambda>_.
    Inr \<lparr>sch_queue_name = queue_name, sch_owner_id = own, sch_lease_ttl_seconds = ttl, sch_retry_delay_seconds = delay\<rparr>))"

definition failure_text :: "exn \<Rightarrow> string" where
  "failure_text e = exn_type e @ '': '' @ exn_str e"

definition run_once ::
  "'s work_queue_port \<Rightarrow> recoverable_scheduler \<Rightarrow> (leased_work_item \<Rightarrow> ('s, unit) prog) \<Rightarrow> string \<Rightarrow> ('s, bool) prog" where
  "run_once Q S handler tenant =
    bindE (lift_result (raise_if (is_blank tenant) (ValueError ''scheduler tenant must be non-blank''))) (\<lambda>_.
    bindE (wq_acquire Q (sch_queue_name S) (sch_owner_id S) (sch_lease_ttl_seconds S) tenant) (\<lambda>leased.
    case leased of
      None \<Rightarrow> ret False
    | Some lw \<Rightarrow>
        bindE (try_prog (handler lw) (\<lambda>e.
          bindE (wq_retry Q lw (sch_retry_delay_seconds S) (failure_text e)) (\<lambda>_. raise e))) (\<lambda>_.
        bindE (wq_complete Q lw) (\<lambda>_. ret True))))"

text \<open>What the scheduler relies on: the interface \<open>DurableWorkQueue\<close>.\<close>

locale durable_queue =
  fixes Q :: "'s work_queue_port" and good :: "'s \<Rightarrow> bool"
    and item_at :: "'s \<Rightarrow> uuid \<Rightarrow> durable_work_item option" and owned :: "'s \<Rightarrow> leased_work_item \<Rightarrow> bool"
  assumes acquire_leases: "good s \<Longrightarrow> wq_acquire Q queue own ttl tenant s = (Inr (Some lw), t) \<Longrightarrow>
      good t \<and> item_at t (wi_job_id (lwi_item lw)) = Some (lwi_item lw)"
    and complete_closes: "good t \<Longrightarrow> owned t lw \<Longrightarrow>
      \<exists>i u. wq_complete Q lw t = (Inr i, u) \<and> item_at u (wi_job_id (lwi_item lw)) = Some i \<and> wi_state i = Work_SUCCEEDED"
    and complete_lost: "good t \<Longrightarrow> \<not> owned t lw \<Longrightarrow> \<exists>m. wq_complete Q lw t = (Inl (LeaseLostError m), t)"
    and retry_requeues: "good t \<Longrightarrow> owned t lw \<Longrightarrow> item_at t (wi_job_id (lwi_item lw)) = Some (lwi_item lw) \<Longrightarrow>
      0 \<le> delay \<Longrightarrow> \<not> is_blank error \<Longrightarrow>
      \<exists>i u. wq_retry Q lw delay error t = (Inr i, u) \<and> item_at u (wi_job_id (lwi_item lw)) = Some i
        \<and> wi_last_error i = Some error
        \<and> wi_state i = (if wi_max_attempts (lwi_item lw) \<le> wi_attempt (lwi_item lw) then Work_DEAD_LETTER else Work_QUEUED)"
    and retry_lost: "good t \<Longrightarrow> \<not> owned t lw \<Longrightarrow> 0 \<le> delay \<Longrightarrow> \<not> is_blank error \<Longrightarrow>
      \<exists>m. wq_retry Q lw delay error t = (Inl (LeaseLostError m), t)"

lemma failure_text_not_blank: "\<not> is_blank (failure_text e)"
proof -
  have "CHR '':'' \<in> set (failure_text e)" by (simp add: failure_text_def)
  moreover have "\<not> py_isspace (CHR '':'')" by (simp add: py_isspace_def)
  ultimately show ?thesis by (auto simp: is_blank_iff)
qed

context durable_queue
begin

lemma run_once_acquired:
  assumes "wq_acquire Q (sch_queue_name S) (sch_owner_id S) (sch_lease_ttl_seconds S) tenant s = (Inr (Some lw), t)"
    and "\<not> is_blank tenant" "handler lw t = (h, t)"
  shows "run_once Q S handler tenant s =
    (case h of
       Inl e \<Rightarrow> bindE (wq_retry Q lw (sch_retry_delay_seconds S) (failure_text e)) (\<lambda>_. raise e) t
     | Inr _ \<Rightarrow> bindE (wq_complete Q lw) (\<lambda>_. ret True) t)"
  using assms
  by (cases h) (auto simp: run_once_def bindE_def try_prog_def raise_if_def split: prod.splits sum.splits)

text \<open>Every way a run with work ends, for a handler that leaves the queue itself alone.\<close>

lemma run_once_ends:
  assumes "good s" "wq_acquire Q (sch_queue_name S) (sch_owner_id S) (sch_lease_ttl_seconds S) tenant s = (Inr (Some lw), t)"
    and "\<not> is_blank tenant" "handler lw t = (h, t)" "0 \<le> sch_retry_delay_seconds S"
  shows "\<exists>r u. run_once Q S handler tenant s = (r, u) \<and>
    (if owned t lw
     then (\<exists>i. item_at u (wi_job_id (lwi_item lw)) = Some i \<and>
        (case h of
           Inr _ \<Rightarrow> r = Inr True \<and> wi_state i = Work_SUCCEEDED
         | Inl e \<Rightarrow> r = Inl e \<and> wi_last_error i = Some (failure_text e)
             \<and> wi_state i = (if wi_max_attempts (lwi_item lw) \<le> wi_attempt (lwi_item lw) then Work_DEAD_LETTER else Work_QUEUED)))
     else (\<exists>m. r = Inl (LeaseLostError m)) \<and> u = t)"
proof -
  note t = acquire_leases [OF assms(1,2)]
  note run = run_once_acquired [where handler = handler, OF assms(2-4)]
  show ?thesis
  proof (cases "owned t lw")
    case True
    show ?thesis
    proof (cases h)
      case (Inl e)
      with run t True retry_requeues [of t lw "sch_retry_delay_seconds S" "failure_text e"] assms(5) failure_text_not_blank
      show ?thesis by (auto simp: bindE_def)
    next
      case (Inr v)
      with run t True complete_closes [of t lw] show ?thesis by (auto simp: bindE_def)
    qed
  next
    case False
    show ?thesis
    proof (cases h)
      case (Inl e)
      with run t False retry_lost [of t lw "sch_retry_delay_seconds S" "failure_text e"] assms(5) failure_text_not_blank
      show ?thesis by (auto simp: bindE_def)
    next
      case (Inr v)
      with run t False complete_lost [of t lw] show ?thesis by (auto simp: bindE_def)
    qed
  qed
qed

end

text \<open>The in-memory queue, with the clock readings of the acquisition and of the closing call.\<close>

definition in_memory_port :: "datetime \<Rightarrow> uuid \<Rightarrow> datetime \<Rightarrow> datetime \<Rightarrow> work_queue work_queue_port" where
  "in_memory_port now lid now2 later =
    \<lparr>wq_acquire = queue_acquire now lid, wq_complete = queue_complete now2 later, wq_retry = queue_retry now2 later\<rparr>"

definition queue_item :: "work_queue \<Rightarrow> uuid \<Rightarrow> durable_work_item option" where
  "queue_item q j = map_of (q_items q) j"

definition lease_held :: "datetime \<Rightarrow> work_queue \<Rightarrow> leased_work_item \<Rightarrow> bool" where
  "lease_held now q lw \<longleftrightarrow> (\<exists>c. require_current now lw q = Inr c)"

lemma lease_not_held:
  "\<not> lease_held now q lw \<Longrightarrow> require_current now lw q = Inl (LeaseLostError ''work transition rejected because scheduler lease is stale'')"
  by (auto simp: lease_held_def require_current_def split: option.splits if_splits)

interpretation mem_queue: durable_queue "in_memory_port now lid now2 later" queue_ok queue_item "lease_held now2"
proof
  fix s queue own ttl tenant lw t
  assume ok: "queue_ok s" and "wq_acquire (in_memory_port now lid now2 later) queue own ttl tenant s = (Inr (Some lw), t)"
  then have acq: "queue_acquire now lid queue own ttl tenant s = (Inr (Some lw), t)" by (simp add: in_memory_port_def)
  have "queue_ok t" using acq ok by (rule queue_ok_acquire)
  moreover have "queue_item t (wi_job_id (lwi_item lw)) = Some (lwi_item lw)"
    using acquire_effect [OF ok acq] by (auto simp: granted_def queue_item_def)
  ultimately show "queue_ok t \<and> queue_item t (wi_job_id (lwi_item lw)) = Some (lwi_item lw)" by blast
next
  fix t lw
  assume ok: "queue_ok t" and "lease_held now2 t lw"
  then obtain c where c: "require_current now2 lw t = Inr c" by (auto simp: lease_held_def)
  with queue_ok_item [OF ok] have "wi_job_id c = wi_job_id (lwi_item lw)" by (auto simp: require_current_eq_Inr)
  with c show "\<exists>i u. wq_complete (in_memory_port now lid now2 later) lw t = (Inr i, u)
      \<and> queue_item u (wi_job_id (lwi_item lw)) = Some i \<and> wi_state i = Work_SUCCEEDED"
    by (auto simp: in_memory_port_def queue_complete_def queue_item_def update_conv) (simp add: succeeded_def)
next
  fix t lw delay error
  assume ok: "queue_ok t" and "lease_held now2 t lw" and i: "queue_item t (wi_job_id (lwi_item lw)) = Some (lwi_item lw)"
    and args: "0 \<le> (delay :: rat)" "\<not> is_blank error"
  then obtain c where c: "require_current now2 lw t = Inr c" by (auto simp: lease_held_def)
  with i have "c = lwi_item lw" by (auto simp: require_current_eq_Inr queue_item_def)
  with c args show "\<exists>i u. wq_retry (in_memory_port now lid now2 later) lw delay error t = (Inr i, u)
      \<and> queue_item u (wi_job_id (lwi_item lw)) = Some i \<and> wi_last_error i = Some error
      \<and> wi_state i = (if wi_max_attempts (lwi_item lw) \<le> wi_attempt (lwi_item lw) then Work_DEAD_LETTER else Work_QUEUED)"
    by (auto simp: in_memory_port_def queue_retry_def queue_item_def update_conv) (simp_all add: retried_def)
qed (auto simp: in_memory_port_def queue_complete_def queue_retry_def dest!: lease_not_held)

text \<open>
  One run of the scheduler. With work acquired from any reachable queue and a handler that does not
  touch the queue: while the lease is still accepted, a handler that returns leaves the item succeeded, and
  one that raises leaves it queued again, or dead-lettered after its last attempt, with the
  exception recorded and re-raised. Once the lease has been lost the run raises and changes nothing.
\<close>

theorem scheduler_run_once:
  assumes "new_work_queue n = Inr q0" "fence_run queue_step q0 grants q"
    and "queue_acquire now lid (sch_queue_name S) (sch_owner_id S) (sch_lease_ttl_seconds S) tenant q = (Inr (Some lw), t)"
    and "new_scheduler queue_name own ttl delay = Inr S" "\<not> is_blank tenant" "handler lw t = (h, t)"
  shows "\<exists>r u. run_once (in_memory_port now lid now2 later) S handler tenant q = (r, u) \<and>
    (if \<exists>c. require_current now2 lw t = Inr c
     then (\<exists>i. map_of (q_items u) (wi_job_id (lwi_item lw)) = Some i \<and>
        (case h of
           Inr _ \<Rightarrow> r = Inr True \<and> wi_state i = Work_SUCCEEDED
         | Inl e \<Rightarrow> r = Inl e \<and> wi_last_error i = Some (exn_type e @ '': '' @ exn_str e)
             \<and> wi_state i = (if wi_max_attempts (lwi_item lw) \<le> wi_attempt (lwi_item lw) then Work_DEAD_LETTER else Work_QUEUED)))
     else (\<exists>m. r = Inl (LeaseLostError m)) \<and> u = t)"
proof -
  have ok: "queue_ok q" using assms(1,2) by (rule queue_history)
  have "0 \<le> sch_retry_delay_seconds S" using assms(4) by (auto simp: new_scheduler_def)
  moreover have "wq_acquire (in_memory_port now lid now2 later) (sch_queue_name S) (sch_owner_id S) (sch_lease_ttl_seconds S) tenant q
      = (Inr (Some lw), t)"
    using assms(3) by (simp add: in_memory_port_def)
  ultimately show ?thesis
    by (intro mem_queue.run_once_ends [where handler = handler, OF ok _ assms(5,6),
        unfolded queue_item_def lease_held_def failure_text_def])
qed

definition sample_scheduler :: recoverable_scheduler where
  "sample_scheduler = \<lparr>sch_queue_name = ''q'', sch_owner_id = ''w1'', sch_lease_ttl_seconds = 30, sch_retry_delay_seconds = 1\<rparr>"

theorem scheduler_run_once_witness:
  "\<exists>u i. run_once (in_memory_port 5 ''l1'' 6 7) sample_scheduler (\<lambda>_. raise (ValueError ''boom'')) ''acme'' sample_queue1
      = (Inl (ValueError ''boom''), u)
    \<and> map_of (q_items u) ''j1'' = Some i \<and> wi_state i = Work_QUEUED \<and> wi_last_error i = Some ''ValueError: boom''"
proof -
  have new: "new_scheduler ''q'' ''w1'' 30 1 = Inr sample_scheduler"
    by (simp add: new_scheduler_def require_positive_ttl_def sample_scheduler_def)
  have acq: "queue_acquire 5 ''l1'' (sch_queue_name sample_scheduler) (sch_owner_id sample_scheduler)
      (sch_lease_ttl_seconds sample_scheduler) ''acme'' sample_queue1 = (Inr (Some sample_leased), sample_queue2)"
    using sample_acquire by (simp add: sample_scheduler_def)
  have live: "\<exists>c. require_current 6 sample_leased sample_queue2 = Inr c"
    using sample_complete by (auto simp: queue_complete_def split: sum.splits)
  have job: "wi_job_id (lwi_item sample_leased) = ''j1''"
    "\<not> wi_max_attempts (lwi_item sample_leased) \<le> wi_attempt (lwi_item sample_leased)"
    by (simp_all add: sample_leased_def) (simp_all add: sample_work_def)
  have "\<not> is_blank ''acme''" by (simp add: is_blank_def strip_def py_isspace_def)
  from scheduler_run_once [where handler = "\<lambda>_. raise (ValueError ''boom'')" and h = "Inl (ValueError ''boom'')", OF sample_new sample_run1 acq new this, of 6 7]
    live job show ?thesis by auto
qed

section \<open>Draining\<close>

datatype runtime_state = Runtime_ACCEPTING | Runtime_DRAINING | Runtime_STOPPED

record runtime_lifecycle =
  rl_state :: runtime_state
  rl_in_flight :: int

definition new_lifecycle :: runtime_lifecycle where
  "new_lifecycle = \<lparr>rl_state = Runtime_ACCEPTING, rl_in_flight = 0\<rparr>"

definition lifecycle_enter :: "(runtime_lifecycle, unit) prog" where
  "lifecycle_enter s =
    (if rl_state s \<noteq> Runtime_ACCEPTING
     then (Inl (RuntimeDrainingError ''runtime is draining and is not accepting new work''), s)
     else (Inr (), s\<lparr>rl_in_flight := rl_in_flight s + 1\<rparr>))"

definition lifecycle_exit :: "runtime_lifecycle \<Rightarrow> runtime_lifecycle" where
  "lifecycle_exit s = s\<lparr>rl_in_flight := rl_in_flight s - 1\<rparr>"

definition begin_draining :: "runtime_lifecycle \<Rightarrow> runtime_lifecycle" where
  "begin_draining s = (if rl_state s = Runtime_ACCEPTING then s\<lparr>rl_state := Runtime_DRAINING\<rparr> else s)"

definition lifecycle_stop :: "runtime_lifecycle \<Rightarrow> runtime_lifecycle" where
  "lifecycle_stop s = s\<lparr>rl_state := Runtime_STOPPED\<rparr>"

text \<open>\<open>wakeups\<close> are the states the waiter sees when it is notified before its deadline.\<close>

definition wait_for_drain :: "rat \<Rightarrow> runtime_lifecycle list \<Rightarrow> runtime_lifecycle \<Rightarrow> bool result" where
  "wait_for_drain timeout wakeups s =
    (if timeout < 0 then Inl (ValueError ''drain timeout cannot be negative'')
     else if rl_in_flight s = 0 then Inr True
     else Inr (list_ex (\<lambda>w. rl_in_flight w = 0) wakeups))"

text \<open>A lifecycle and the number of admissions that are open.\<close>

inductive lifecycle_step :: "runtime_lifecycle \<times> nat \<Rightarrow> runtime_lifecycle \<times> nat \<Rightarrow> bool" where
  admitted: "lifecycle_enter s = (Inr u, s') \<Longrightarrow> lifecycle_step (s, n) (s', Suc n)"
| refused: "lifecycle_enter s = (Inl e, s') \<Longrightarrow> lifecycle_step (s, n) (s', n)"
| left: "lifecycle_step (s, Suc n) (lifecycle_exit s, n)"
| draining: "lifecycle_step (s, n) (begin_draining s, n)"
| stopped: "lifecycle_step (s, n) (lifecycle_stop s, n)"

inductive_simps lifecycle_step_iff: "lifecycle_step (s, n) (s', n')"

lemma lifecycle_step_counts:
  assumes "lifecycle_step (s, n) (s', n')" "rl_in_flight s = int n"
  shows "rl_in_flight s' = int n'"
  using assms
  by (auto simp: lifecycle_step_iff lifecycle_enter_def lifecycle_exit_def begin_draining_def lifecycle_stop_def split: if_splits)

lemma lifecycle_counts:
  assumes "lifecycle_step\<^sup>*\<^sup>* (new_lifecycle, 0) (s, n)"
  shows "rl_in_flight s = int n"
  using assms
proof (induction "(s, n)" arbitrary: s n rule: rtranclp_induct)
  case base
  then show ?case by (simp add: new_lifecycle_def)
next
  case (step y)
  then show ?case by (cases y) (auto dest: lifecycle_step_counts)
qed

lemma lifecycle_step_closed:
  assumes "lifecycle_step (s, n) (s', n')" "rl_state s \<noteq> Runtime_ACCEPTING"
  shows "rl_state s' \<noteq> Runtime_ACCEPTING" "n' \<le> n" "rl_state s = Runtime_STOPPED \<Longrightarrow> rl_state s' = Runtime_STOPPED"
  using assms
  by (auto simp: lifecycle_step_iff lifecycle_enter_def lifecycle_exit_def begin_draining_def lifecycle_stop_def split: if_splits)

lemma not_accepting_kept:
  assumes "lifecycle_step\<^sup>*\<^sup>* (s, n) (s', n')" "rl_state s \<noteq> Runtime_ACCEPTING"
  shows "rl_state s' \<noteq> Runtime_ACCEPTING \<and> n' \<le> n \<and> (rl_state s = Runtime_STOPPED \<longrightarrow> rl_state s' = Runtime_STOPPED)"
  using assms
proof (induction "(s', n')" arbitrary: s' n' rule: rtranclp_induct)
  case base
  then show ?case by simp
next
  case (step y)
  obtain s1 n1 where y: "y = (s1, n1)" by fastforce
  from step(3) [OF y assms(2)] lifecycle_step_closed [OF step(2) [unfolded y]] show ?case by auto
qed

lemma all_leave: "lifecycle_step\<^sup>*\<^sup>* (s, n) ((lifecycle_exit ^^ n) s, 0)"
proof (induction n arbitrary: s)
  case (Suc n)
  have "lifecycle_step (s, Suc n) (lifecycle_exit s, n)" by (rule lifecycle_step.left)
  with Suc [of "lifecycle_exit s"] show ?case by (simp add: funpow_swap1 converse_rtranclp_into_rtranclp)
qed simp

text \<open>
  Draining. In every reachable state the counter is the number of open admissions. Once the runtime
  drains or is stopped it stays so, whatever is called: every admission raises, the number of open
  admissions only falls, and when the open ones have left a drain wait returns true.
\<close>

theorem lifecycle_drains:
  assumes "lifecycle_step\<^sup>*\<^sup>* (new_lifecycle, 0) (s, n)" "rl_state s \<noteq> Runtime_ACCEPTING"
    and "lifecycle_step\<^sup>*\<^sup>* (s, n) (s', n')" "0 \<le> timeout"
  shows "lifecycle_enter s' = (Inl (RuntimeDrainingError ''runtime is draining and is not accepting new work''), s')
    \<and> (rl_state s = Runtime_STOPPED \<longrightarrow> rl_state s' = Runtime_STOPPED)
    \<and> rl_in_flight s' = int n' \<and> n' \<le> n
    \<and> (\<exists>w. lifecycle_step\<^sup>*\<^sup>* (s', n') (w, 0) \<and> wait_for_drain timeout [w] s' = Inr True)"
proof -
  have reach: "lifecycle_step\<^sup>*\<^sup>* (new_lifecycle, 0) (s', n')" using assms(1,3) by (rule rtranclp_trans)
  have kept: "rl_state s' \<noteq> Runtime_ACCEPTING \<and> n' \<le> n \<and> (rl_state s = Runtime_STOPPED \<longrightarrow> rl_state s' = Runtime_STOPPED)"
    using assms(3,2) by (rule not_accepting_kept)
  let ?w = "(lifecycle_exit ^^ n') s'"
  have leave: "lifecycle_step\<^sup>*\<^sup>* (s', n') (?w, 0)" by (rule all_leave)
  with reach have "rl_in_flight ?w = 0" using lifecycle_counts [of ?w 0] by (simp add: rtranclp_trans)
  then have "wait_for_drain timeout [?w] s' = Inr True" using assms(4) by (simp add: wait_for_drain_def)
  with kept leave lifecycle_counts [OF reach] show ?thesis by (auto simp: lifecycle_enter_def)
qed

theorem lifecycle_drains_witness:
  "\<exists>s. lifecycle_step\<^sup>*\<^sup>* (new_lifecycle, 0) (s, 1) \<and> rl_state s = Runtime_DRAINING
    \<and> lifecycle_enter s = (Inl (RuntimeDrainingError ''runtime is draining and is not accepting new work''), s)"
proof -
  let ?s = "\<lparr>rl_state = Runtime_DRAINING, rl_in_flight = 1\<rparr>"
  have "lifecycle_step (new_lifecycle, 0) (\<lparr>rl_state = Runtime_ACCEPTING, rl_in_flight = 1\<rparr>, 1)"
    by (simp add: lifecycle_step_iff new_lifecycle_def lifecycle_enter_def)
  moreover have "lifecycle_step (\<lparr>rl_state = Runtime_ACCEPTING, rl_in_flight = 1\<rparr>, 1) (?s, 1)"
    by (simp add: lifecycle_step_iff begin_draining_def)
  ultimately have reach: "lifecycle_step\<^sup>*\<^sup>* (new_lifecycle, 0) (?s, 1)" by (meson rtranclp.simps)
  from lifecycle_drains [OF reach _ rtranclp.rtrancl_refl, of 0] have
    "lifecycle_enter ?s = (Inl (RuntimeDrainingError ''runtime is draining and is not accepting new work''), ?s)" by simp
  with reach show ?thesis by (intro exI [of _ ?s]) simp
qed

section \<open>Capacity\<close>

record capacity_envelope =
  cap_schema_name :: string
  cap_schema_version :: string
  cap_profile_id :: string
  cap_max_queue_depth :: int
  cap_max_in_flight :: int
  cap_max_per_tenant_in_flight :: int
  cap_lease_ttl_seconds :: rat
  cap_shutdown_grace_seconds :: rat
  cap_qualification_concurrency :: int
  cap_qualification_work_items :: int
  cap_qualification_soak_seconds :: rat

definition capacity_envelope_fields :: "capacity_envelope \<Rightarrow> bool" where
  "capacity_envelope_fields r = (nonblank (cap_profile_id r) \<and>
     1 \<le> cap_max_queue_depth r \<and>
     1 \<le> cap_max_in_flight r \<and>
     1 \<le> cap_max_per_tenant_in_flight r \<and>
     0 < cap_lease_ttl_seconds r \<and>
     cap_lease_ttl_seconds r \<le> 86400 \<and>
     0 < cap_shutdown_grace_seconds r \<and>
     cap_shutdown_grace_seconds r \<le> 3600 \<and>
     1 \<le> cap_qualification_concurrency r \<and>
     1 \<le> cap_qualification_work_items r \<and>
     0 < cap_qualification_soak_seconds r)"

definition validate_capacity_envelope :: "capacity_envelope \<Rightarrow> capacity_envelope result" where
  "validate_capacity_envelope e =
    (if cap_max_in_flight e < cap_max_per_tenant_in_flight e
     then Inl (ValueError ''per-tenant in-flight limit cannot exceed global limit'')
     else if cap_max_in_flight e < cap_qualification_concurrency e
     then Inl (ValueError ''qualification concurrency exceeds declared in-flight capacity'')
     else if cap_max_queue_depth e < cap_qualification_work_items e
     then Inl (ValueError ''qualification work items exceed declared queue capacity'')
     else Inr e)"

definition reference_capacity_envelope :: capacity_envelope where
  "reference_capacity_envelope =
    \<lparr>cap_schema_name = ''prodkit.capacity-envelope'', cap_schema_version = ''1.0.0'', cap_profile_id = ''reference-ha'',
     cap_max_queue_depth = 1000, cap_max_in_flight = 128, cap_max_per_tenant_in_flight = 32, cap_lease_ttl_seconds = 30,
     cap_shutdown_grace_seconds = 30, cap_qualification_concurrency = 128, cap_qualification_work_items = 1000,
     cap_qualification_soak_seconds = 10\<rparr>"

record capacity_controller =
  cc_envelope :: capacity_envelope
  cc_total :: int
  cc_per_tenant :: "string \<rightharpoonup> int"

definition new_capacity_controller :: "capacity_envelope \<Rightarrow> capacity_controller" where
  "new_capacity_controller e = \<lparr>cc_envelope = e, cc_total = 0, cc_per_tenant = Map.empty\<rparr>"

text \<open>Reading a \<open>defaultdict(int)\<close> inserts the key.\<close>

definition tenant_count :: "capacity_controller \<Rightarrow> string \<Rightarrow> int" where
  "tenant_count c tenant = (case cc_per_tenant c tenant of None \<Rightarrow> 0 | Some n \<Rightarrow> n)"

definition set_tenant :: "string \<Rightarrow> int option \<Rightarrow> capacity_controller \<Rightarrow> capacity_controller" where
  "set_tenant tenant v c = c\<lparr>cc_per_tenant := (cc_per_tenant c)(tenant := v)\<rparr>"

definition capacity_enter :: "string \<Rightarrow> (capacity_controller, unit) prog" where
  "capacity_enter tenant c =
    (let n = tenant_count c tenant; c1 = set_tenant tenant (Some n) c
     in if cap_max_in_flight (cc_envelope c) \<le> cc_total c
        then (Inl (CapacityExceededError ''global in-flight capacity is exhausted''), c1)
        else if cap_max_per_tenant_in_flight (cc_envelope c) \<le> n
        then (Inl (CapacityExceededError ''tenant in-flight capacity is exhausted''), c1)
        else (Inr (), set_tenant tenant (Some (n + 1)) (c1\<lparr>cc_total := cc_total c + 1\<rparr>)))"

definition capacity_exit :: "string \<Rightarrow> capacity_controller \<Rightarrow> capacity_controller" where
  "capacity_exit tenant c =
    (let remaining = tenant_count c tenant - 1; c1 = c\<lparr>cc_total := cc_total c - 1\<rparr>
     in set_tenant tenant (if remaining \<noteq> 0 then Some remaining else None) c1)"

text \<open>A controller and the tenants of the admissions that are open.\<close>

inductive capacity_step :: "capacity_controller \<times> string multiset \<Rightarrow> capacity_controller \<times> string multiset \<Rightarrow> bool" where
  admitted: "capacity_enter tenant c = (Inr u, c') \<Longrightarrow> capacity_step (c, M) (c', add_mset tenant M)"
| refused: "capacity_enter tenant c = (Inl e, c') \<Longrightarrow> capacity_step (c, M) (c', M)"
| left: "capacity_step (c, add_mset tenant M) (capacity_exit tenant c, M)"

definition capacity_inv :: "capacity_envelope \<Rightarrow> capacity_controller \<times> string multiset \<Rightarrow> bool" where
  "capacity_inv e cM \<longleftrightarrow> (case cM of (c, M) \<Rightarrow>
     cc_envelope c = e \<and> cc_total c = int (size M) \<and> cc_total c \<le> cap_max_in_flight e
     \<and> (\<forall>t. tenant_count c t = int (count M t)) \<and> (\<forall>t. int (count M t) \<le> cap_max_per_tenant_in_flight e))"

lemma tenant_count_set [simp]:
  "tenant_count (set_tenant t v c) t' = (if t' = t then (case v of None \<Rightarrow> 0 | Some n \<Rightarrow> n) else tenant_count c t')"
  "cc_total (set_tenant t v c) = cc_total c" "cc_envelope (set_tenant t v c) = cc_envelope c"
  "tenant_count (c\<lparr>cc_total := n\<rparr>) t = tenant_count c t"
  by (simp_all add: tenant_count_def set_tenant_def)

lemma capacity_step_inv: "capacity_step x y \<Longrightarrow> capacity_inv e x \<Longrightarrow> capacity_inv e y"
proof (induction rule: capacity_step.induct)
  case (admitted tenant c u c' M)
  then show ?case by (auto simp: capacity_inv_def capacity_enter_def Let_def split: if_splits)
next
  case (refused tenant c ex c' M)
  then show ?case by (auto simp: capacity_inv_def capacity_enter_def Let_def split: if_splits)
next
  case (left c tenant M)
  then have count: "tenant_count c t = int (count (add_mset tenant M) t)" "int (count (add_mset tenant M) t) \<le> cap_max_per_tenant_in_flight e" for t
    by (simp_all add: capacity_inv_def)
  from left have "cc_envelope c = e" "cc_total c = int (size M) + 1" "cc_total c \<le> cap_max_in_flight e"
    by (simp_all add: capacity_inv_def)
  moreover have "int (count M t) \<le> cap_max_per_tenant_in_flight e" for t
    using count(2) [of t] by (auto split: if_splits)
  moreover have "tenant_count (capacity_exit tenant c) t = int (count M t)" for t
    using count(1) [of t] by (auto simp: capacity_exit_def Let_def)
  ultimately show ?case by (simp add: capacity_inv_def) (simp add: capacity_exit_def Let_def)
qed

text \<open>
  Capacity. However admissions of any tenants are opened, refused and closed, the open ones never
  exceed the envelope's global limit, nor any tenant its own limit; and an admission is refused
  exactly when one of the two limits is reached.
\<close>

theorem capacity_bounds:
  assumes "capacity_step\<^sup>*\<^sup>* (new_capacity_controller e, {#}) (c, M)" "capacity_envelope_fields e"
  shows "int (size M) \<le> cap_max_in_flight e \<and> int (count M tenant) \<le> cap_max_per_tenant_in_flight e
    \<and> cc_total c = int (size M) \<and> tenant_count c tenant = int (count M tenant)
    \<and> ((\<exists>m. fst (capacity_enter tenant c) = Inl (CapacityExceededError m)) \<longleftrightarrow>
        int (size M) = cap_max_in_flight e \<or> int (count M tenant) = cap_max_per_tenant_in_flight e)"
proof -
  have "capacity_inv e (new_capacity_controller e, {#})"
    using assms(2) by (simp add: capacity_inv_def new_capacity_controller_def tenant_count_def capacity_envelope_fields_def)
  with assms(1) have "capacity_inv e (c, M)"
    by (induction rule: rtranclp_induct) (auto intro: capacity_step_inv)
  then have inv: "cc_envelope c = e" "cc_total c = int (size M)" "int (size M) \<le> cap_max_in_flight e"
    "tenant_count c tenant = int (count M tenant)" "int (count M tenant) \<le> cap_max_per_tenant_in_flight e"
    by (auto simp: capacity_inv_def)
  then have "(\<exists>m. fst (capacity_enter tenant c) = Inl (CapacityExceededError m)) \<longleftrightarrow>
      int (size M) = cap_max_in_flight e \<or> int (count M tenant) = cap_max_per_tenant_in_flight e"
    by (auto simp: capacity_enter_def Let_def)
  with inv show ?thesis by simp
qed

theorem capacity_bounds_witness:
  "\<exists>c. capacity_step (new_capacity_controller reference_capacity_envelope, {#}) (c, {#''acme''#})
    \<and> validate_capacity_envelope reference_capacity_envelope = Inr reference_capacity_envelope
    \<and> tenant_count c ''acme'' = 1 \<and> cc_total c = 1"
proof -
  obtain c where step: "capacity_step (new_capacity_controller reference_capacity_envelope, {#}) (c, {#''acme''#})"
    using capacity_step.admitted [of "''acme''" "new_capacity_controller reference_capacity_envelope"]
    by (fastforce simp: capacity_enter_def new_capacity_controller_def reference_capacity_envelope_def tenant_count_def)
  have "capacity_envelope_fields reference_capacity_envelope"
    by (simp add: capacity_envelope_fields_def reference_capacity_envelope_def nonblank_def strip_def py_isspace_def)
  from capacity_bounds [OF r_into_rtranclp [of capacity_step, OF step] this, of "''acme''"]
  have "tenant_count c ''acme'' = 1" "cc_total c = 1" by simp_all
  with step show ?thesis
    by (auto simp: validate_capacity_envelope_def reference_capacity_envelope_def)
qed

end
