(* ===== verification/Lineage.thy ===== *)
theory Lineage
  imports Policy
begin

text \<open>
  Production lineage: the nodes, relations and graphs of \<open>contracts/lineage.py\<close>, and the
  store and the fail-closed policy of the runtime's \<open>lineage.py\<close>. A node is the record of the
  common fields with one constructor of \<open>lineage_node_detail\<close> per node class, which fixes its
  kind. The depth-first search of \<open>_validate_acyclic\<close> is total here, proved by the number of
  nodes not on the current path.
\<close>

section \<open>Contracts\<close>

datatype lineage_relation_type =
    Relation_GENERATED_FROM
  | Relation_PRODUCED
  | Relation_VERIFIED_BY
  | Relation_BUILT_AS
  | Relation_AUTHORIZED_BY
  | Relation_AUTHORIZED_ACTION
  | Relation_DEPLOYED_AS
  | Relation_OBSERVED_AS
  | Relation_COMPARED_BY

fun lineage_relation_type_value :: "lineage_relation_type \<Rightarrow> string" where
  "lineage_relation_type_value Relation_GENERATED_FROM = ''generated_from''"
| "lineage_relation_type_value Relation_PRODUCED = ''produced''"
| "lineage_relation_type_value Relation_VERIFIED_BY = ''verified_by''"
| "lineage_relation_type_value Relation_BUILT_AS = ''built_as''"
| "lineage_relation_type_value Relation_AUTHORIZED_BY = ''authorized_by''"
| "lineage_relation_type_value Relation_AUTHORIZED_ACTION = ''authorized_action''"
| "lineage_relation_type_value Relation_DEPLOYED_AS = ''deployed_as''"
| "lineage_relation_type_value Relation_OBSERVED_AS = ''observed_as''"
| "lineage_relation_type_value Relation_COMPARED_BY = ''compared_by''"

datatype lineage_node_detail =
    SpecificationRevisionNode (specification_id: string) (specification_revision: string) (constraints_digest: string)
  | DecisionSetNode (decision_set_id: string) (decision_revision: string)
  | GeneratorConfigurationNode (generator_name: string) (generator_version: string) (input_digest: string)
      (provider_name: "string option") (model_name: "string option") (generation_succeeded: bool)
  | SourceTreeNode (repository: "string option") (source_revision: "string option")
  | VerificationNode (verifier_name: string) (verifier_version: string) (requirements_digest: string)
      (results_digest: string) (verification_outcome_of: verification_outcome)
  | BuildArtifactNode (build_id: string) (builder_identity: string) (build_succeeded: bool)
  | AuthorizationNode (policy_digest: string) (action_set_digest: string) (approval_digest: "string option") (authorized: bool)
  | AgentActionNode (node_action_id: uuid) (node_action_digest: string) (executor_identity: string) (action_succeeded: bool)
  | DeploymentNode (deployment_id: string) (deployment_environment: string) (deployment_target: string)
      (deployed_at: datetime) (deployment_succeeded: bool)
  | ProductionObservationNode (observation_id: uuid) (observation_environment: string) (observer_identity: string)
      (observed_at: datetime)
  | ReconciliationNode (reconciliation_id: uuid) (reconciler_name: string) (findings_digest: string)
      (reconciliation_outcome_of: reconciliation_outcome)

fun node_kind :: "lineage_node_detail \<Rightarrow> lineage_node_kind" where
  "node_kind (SpecificationRevisionNode _ _ _) = NodeKind_SPECIFICATION_REVISION"
| "node_kind (DecisionSetNode _ _) = NodeKind_DECISION_SET"
| "node_kind (GeneratorConfigurationNode _ _ _ _ _ _) = NodeKind_GENERATOR_CONFIGURATION"
| "node_kind (SourceTreeNode _ _) = NodeKind_SOURCE_TREE"
| "node_kind (VerificationNode _ _ _ _ _) = NodeKind_VERIFICATION"
| "node_kind (BuildArtifactNode _ _ _) = NodeKind_BUILD_ARTIFACT"
| "node_kind (AuthorizationNode _ _ _ _) = NodeKind_AUTHORIZATION"
| "node_kind (AgentActionNode _ _ _ _) = NodeKind_AGENT_ACTION"
| "node_kind (DeploymentNode _ _ _ _ _) = NodeKind_DEPLOYMENT"
| "node_kind (ProductionObservationNode _ _ _ _) = NodeKind_PRODUCTION_OBSERVATION"
| "node_kind (ReconciliationNode _ _ _ _) = NodeKind_RECONCILIATION"

record lineage_node =
  ln_node_id :: uuid
  ln_run_id :: uuid
  ln_tenant_id :: string
  ln_digest :: string
  ln_recorded_at :: datetime
  ln_external_uri :: "string option"
  ln_evidence :: "artifact_ref list"
  ln_attributes :: "(string \<times> pyval) list"
  ln_detail :: lineage_node_detail

fun detail_fields :: "lineage_node_detail \<Rightarrow> bool" where
  "detail_fields (SpecificationRevisionNode i r c) = (nonblank i \<and> nonblank r \<and> is_sha256 c)"
| "detail_fields (DecisionSetNode i r) = (nonblank i \<and> nonblank r)"
| "detail_fields (GeneratorConfigurationNode n v d p m _) =
    (nonblank n \<and> nonblank v \<and> is_sha256 d \<and> pred_option nonblank p \<and> pred_option nonblank m)"
| "detail_fields (SourceTreeNode repo r) = (pred_option nonblank repo \<and> pred_option nonblank r)"
| "detail_fields (VerificationNode n v q r _) = (nonblank n \<and> nonblank v \<and> is_sha256 q \<and> is_sha256 r)"
| "detail_fields (BuildArtifactNode b i _) = (nonblank b \<and> nonblank i)"
| "detail_fields (AuthorizationNode p a v _) = (is_sha256 p \<and> is_sha256 a \<and> pred_option is_sha256 v)"
| "detail_fields (AgentActionNode _ d e _) = (is_sha256 d \<and> nonblank e)"
| "detail_fields (DeploymentNode d e t _ _) = (nonblank d \<and> nonblank e \<and> nonblank t)"
| "detail_fields (ProductionObservationNode _ e i _) = (nonblank e \<and> nonblank i)"
| "detail_fields (ReconciliationNode _ n f _) = (nonblank n \<and> is_sha256 f)"

definition lineage_node_fields :: "lineage_node \<Rightarrow> bool" where
  "lineage_node_fields n = (nonblank (ln_tenant_id n) \<and> is_sha256 (ln_digest n) \<and> pred_option nonblank (ln_external_uri n)
     \<and> list_all artifact_ref_fields (ln_evidence n) \<and> detail_fields (ln_detail n))"

definition node_ref :: "lineage_node \<Rightarrow> lineage_node_ref" where
  "node_ref n = \<lparr>ref_kind = node_kind (ln_detail n), ref_node_id = ln_node_id n, ref_digest = ln_digest n\<rparr>"

record lineage_relation =
  lr_relation :: lineage_relation_type
  lr_subject :: lineage_node_ref
  lr_object :: lineage_node_ref
  lr_recorded_at :: datetime
  lr_evidence :: "artifact_ref list"

definition validate_lineage_relation :: "lineage_relation \<Rightarrow> lineage_relation result" where
  "validate_lineage_relation r =
    (if lr_subject r = lr_object r then Inl (ValueError ''a lineage relation cannot refer to itself'') else Inr r)"

fun allowed_relations :: "lineage_relation_type \<Rightarrow> (lineage_node_kind \<times> lineage_node_kind) list" where
  "allowed_relations Relation_GENERATED_FROM =
    [(NodeKind_GENERATOR_CONFIGURATION, NodeKind_SPECIFICATION_REVISION),
     (NodeKind_GENERATOR_CONFIGURATION, NodeKind_DECISION_SET)]"
| "allowed_relations Relation_PRODUCED = [(NodeKind_GENERATOR_CONFIGURATION, NodeKind_SOURCE_TREE)]"
| "allowed_relations Relation_VERIFIED_BY = [(NodeKind_SOURCE_TREE, NodeKind_VERIFICATION)]"
| "allowed_relations Relation_BUILT_AS = [(NodeKind_SOURCE_TREE, NodeKind_BUILD_ARTIFACT)]"
| "allowed_relations Relation_AUTHORIZED_BY = [(NodeKind_BUILD_ARTIFACT, NodeKind_AUTHORIZATION)]"
| "allowed_relations Relation_AUTHORIZED_ACTION = [(NodeKind_AUTHORIZATION, NodeKind_AGENT_ACTION)]"
| "allowed_relations Relation_DEPLOYED_AS = [(NodeKind_AGENT_ACTION, NodeKind_DEPLOYMENT)]"
| "allowed_relations Relation_OBSERVED_AS = [(NodeKind_DEPLOYMENT, NodeKind_PRODUCTION_OBSERVATION)]"
| "allowed_relations Relation_COMPARED_BY = [(NodeKind_PRODUCTION_OBSERVATION, NodeKind_RECONCILIATION)]"

record lineage_graph =
  lg_schema_name :: string
  lg_schema_version :: string
  lg_run_id :: uuid
  lg_tenant_id :: string
  lg_nodes :: "lineage_node list"
  lg_relations :: "lineage_relation list"

text \<open>
  \<open>visits\<close> is the loop \<open>for target_id in targets: visit(target_id)\<close>: the path \<open>visiting\<close> is restored when
  a call of \<open>visit\<close> returns, and the set \<open>visited\<close> is threaded through.
\<close>

type_synonym adjacency = "(uuid \<times> uuid list) list"

function visits :: "adjacency \<Rightarrow> uuid set \<Rightarrow> uuid set \<Rightarrow> uuid list \<Rightarrow> uuid set result" where
  "visits adj visiting visited [] = Inr visited"
| "visits adj visiting visited (n # ns) =
    (if n \<in> visiting then Inl (ValueError ''lineage graph must be acyclic'')
     else if n \<in> visited then visits adj visiting visited ns
     else case map_of adj n of
       None \<Rightarrow> Inl (KeyError n)
     | Some targets \<Rightarrow>
         (case visits adj (insert n visiting) visited targets of
            Inl e \<Rightarrow> Inl e
          | Inr visited' \<Rightarrow> visits adj visiting (insert n visited') ns))"
  by pat_completeness auto

lemma unvisited_decreases:
  assumes "map_of adj n = Some ts" "n \<notin> visiting"
  shows "card (fst ` set adj - insert n visiting) < card (fst ` set adj - visiting)"
proof (rule psubset_card_mono)
  have "n \<in> fst ` set adj" using assms(1) by (force dest: map_of_SomeD)
  then show "fst ` set adj - insert n visiting \<subset> fst ` set adj - visiting" using assms(2) by blast
qed simp

termination visits
  by (relation "measures [\<lambda>(adj, visiting, visited, ns). card (fst ` set adj - visiting), \<lambda>(adj, visiting, visited, ns). length ns]")
    (auto intro: unvisited_decreases)

definition validate_acyclic :: "adjacency \<Rightarrow> unit result" where
  "validate_acyclic adj = rbind (visits adj {} {} (map fst adj)) (\<lambda>_. Inr ())"

fun index_nodes :: "lineage_graph \<Rightarrow> (uuid \<times> lineage_node) list \<Rightarrow> lineage_node list \<Rightarrow> (uuid \<times> lineage_node) list result" where
  "index_nodes g by_id [] = Inr by_id"
| "index_nodes g by_id (n # ns) =
    (if ln_run_id n \<noteq> lg_run_id g \<or> ln_tenant_id n \<noteq> lg_tenant_id g
     then Inl (ValueError ''every lineage node must match the graph run and tenant'')
     else if ln_node_id n \<in> fst ` set by_id
     then Inl (ValueError (''duplicate lineage node id: '' @ ln_node_id n))
     else index_nodes g (AList.update (ln_node_id n) n by_id) ns)"

definition relation_key :: "lineage_relation \<Rightarrow> lineage_relation_type \<times> uuid \<times> uuid" where
  "relation_key r = (lr_relation r, ref_node_id (lr_subject r), ref_node_id (lr_object r))"

fun link_relations ::
  "(uuid \<times> lineage_node) list \<Rightarrow> (lineage_relation_type \<times> uuid \<times> uuid) set \<Rightarrow> adjacency \<Rightarrow> lineage_relation list \<Rightarrow> adjacency result" where
  "link_relations by_id keys adj [] = Inr adj"
| "link_relations by_id keys adj (r # rs) =
    (case (map_of by_id (ref_node_id (lr_subject r)), map_of by_id (ref_node_id (lr_object r))) of
       (Some subject, Some object_node) \<Rightarrow>
         if node_ref subject \<noteq> lr_subject r \<or> node_ref object_node \<noteq> lr_object r
         then Inl (ValueError ''lineage relation endpoint digest or kind does not match its node'')
         else if (node_kind (ln_detail subject), node_kind (ln_detail object_node)) \<notin> set (allowed_relations (lr_relation r))
         then Inl (ValueError (lineage_relation_type_value (lr_relation r) @ '' cannot link ''
                @ lineage_node_kind_value (node_kind (ln_detail subject)) @ '' to ''
                @ lineage_node_kind_value (node_kind (ln_detail object_node))))
         else if relation_key r \<in> keys then Inl (ValueError ''duplicate lineage relation'')
         else link_relations by_id (insert (relation_key r) keys)
                (AList.map_entry (ln_node_id subject) (\<lambda>ts. ts @ [ln_node_id object_node]) adj) rs
     | _ \<Rightarrow> Inl (ValueError ''every lineage relation endpoint must exist in the graph''))"

definition validate_graph :: "lineage_graph \<Rightarrow> lineage_graph result" where
  "validate_graph g =
    rbind (index_nodes g [] (lg_nodes g)) (\<lambda>by_id.
    rbind (link_relations by_id {} (map (\<lambda>(i, _). (i, [])) by_id) (lg_relations g)) (\<lambda>adj.
    rbind (validate_acyclic adj) (\<lambda>_. Inr g)))"

definition new_lineage_graph :: "uuid \<Rightarrow> string \<Rightarrow> lineage_node list \<Rightarrow> lineage_relation list \<Rightarrow> lineage_graph result" where
  "new_lineage_graph run_id tenant nodes relations =
    rbind (nonblank_str tenant) (\<lambda>tenant'.
    validate_graph \<lparr>lg_schema_name = ''prodkit.lineage-graph'', lg_schema_version = ''1.0.0'', lg_run_id = run_id,
      lg_tenant_id = tenant', lg_nodes = nodes, lg_relations = relations\<rparr>)"

section \<open>The acyclicity check is exact\<close>

definition edges :: "adjacency \<Rightarrow> (uuid \<times> uuid) set" where
  "edges adj = {(a, b). \<exists>ts. map_of adj a = Some ts \<and> b \<in> set ts}"

definition settled :: "adjacency \<Rightarrow> uuid set \<Rightarrow> bool" where
  "settled adj V \<longleftrightarrow> edges adj `` V \<subseteq> V \<and> (\<forall>x \<in> V. (x, x) \<notin> (edges adj)\<^sup>+)"

lemma closed_trancl: "(x, y) \<in> E\<^sup>+ \<Longrightarrow> E `` V \<subseteq> V \<Longrightarrow> x \<in> V \<Longrightarrow> y \<in> V"
  by (induction rule: trancl_induct) auto

lemma visits_sound:
  assumes "visits adj visiting visited ns = Inr W" "settled adj visited" "visited \<inter> visiting = {}"
  shows "settled adj W \<and> visited \<subseteq> W \<and> set ns \<subseteq> W \<and> W \<inter> visiting = {}"
  using assms
proof (induction adj visiting visited ns arbitrary: W rule: visits.induct)
  case (1 adj visiting visited)
  then show ?case by simp
next
  case (2 adj visiting visited n ns)
  show ?case
  proof (cases "n \<in> visited")
    case True
    with 2 show ?thesis by (auto split: if_splits)
  next
    case False
    from 2(4) False obtain ts V where new: "n \<notin> visiting" "map_of adj n = Some ts"
      "visits adj (insert n visiting) visited ts = Inr V" "visits adj visiting (insert n V) ns = Inr W"
      by (auto split: if_splits option.splits sum.splits)
    have V: "settled adj V" "visited \<subseteq> V" "set ts \<subseteq> V" "V \<inter> insert n visiting = {}"
      using 2(2) [OF new(1) False new(2) new(3)] 2(5,6) False by auto
    have out: "edges adj `` {n} = set ts" using new(2) by (auto simp: edges_def)
    have "(n, n) \<notin> (edges adj)\<^sup>+"
    proof
      assume "(n, n) \<in> (edges adj)\<^sup>+"
      then obtain t where t: "(n, t) \<in> edges adj" "t = n \<or> (t, n) \<in> (edges adj)\<^sup>+" by (metis tranclD rtranclD)
      with out V(3) have "t \<in> V" by blast
      with t(2) V(1) closed_trancl [of t n "edges adj" V] have "n \<in> V" by (auto simp: settled_def)
      with V(4) show False by blast
    qed
    with V(1,3) out have "settled adj (insert n V)" by (auto simp: settled_def)
    with 2(3) [OF new(1) False new(2) new(3) new(4)] V(4) new(1) V(2) show ?thesis by auto
  qed
qed

lemma visits_complete:
  assumes "visits adj visiting visited ns = Inl e" "acyclic (edges adj)"
    and "\<And>a ts. map_of adj a = Some ts \<Longrightarrow> set ts \<subseteq> fst ` set adj" "set ns \<subseteq> fst ` set adj"
    and "\<And>v n. v \<in> visiting \<Longrightarrow> n \<in> set ns \<Longrightarrow> (v, n) \<in> (edges adj)\<^sup>+"
  shows False
  using assms
proof (induction adj visiting visited ns arbitrary: e rule: visits.induct)
  case (1 adj visiting visited)
  then show ?case by simp
next
  case (2 adj visiting visited n ns)
  have fresh: "n \<notin> visiting" using 2(5) 2(8) [of n n] by (auto simp: acyclic_def)
  show ?case
  proof (cases "n \<in> visited")
    case True
    show ?thesis
      by (rule 2(1) [OF fresh True]) (use 2(4-8) True fresh in auto)
  next
    case False
    obtain ts where ts: "map_of adj n = Some ts" using 2(7) by (metis (no_types) list.set_intros(1) map_of_eq_None_iff not_Some_eq subsetD)
    have reach: "(v, t) \<in> (edges adj)\<^sup>+" if "v \<in> insert n visiting" "t \<in> set ts" for v t
    proof -
      have "(n, t) \<in> edges adj" using ts that(2) by (auto simp: edges_def)
      with that(1) 2(8) [of v n] show ?thesis by (auto intro: trancl_into_trancl)
    qed
    show ?thesis
    proof (cases "visits adj (insert n visiting) visited ts")
      case (Inl e')
      show False by (rule 2(2) [OF fresh False ts Inl 2(5) 2(6)]) (use reach 2(6) [OF ts] in auto)
    next
      case (Inr V)
      with 2(4) fresh False ts have "visits adj visiting (insert n V) ns = Inl e" by simp
      with 2(3) [OF fresh False ts Inr] show False using 2(5-8) by auto
    qed
  qed
qed

lemma acyclic_check_iff:
  assumes "\<And>a ts. map_of adj a = Some ts \<Longrightarrow> set ts \<subseteq> fst ` set adj"
  shows "validate_acyclic adj = Inr () \<longleftrightarrow> acyclic (edges adj)"
proof
  assume "validate_acyclic adj = Inr ()"
  then obtain W where W: "visits adj {} {} (map fst adj) = Inr W" by (auto simp: validate_acyclic_def)
  have "settled adj {}" by (simp add: settled_def)
  from visits_sound [OF W this] have "settled adj W" "fst ` set adj \<subseteq> W" by simp_all
  show "acyclic (edges adj)"
    unfolding acyclic_def
  proof (intro allI notI)
    fix x
    assume cycle: "(x, x) \<in> (edges adj)\<^sup>+"
    then obtain y where "(x, y) \<in> edges adj" by (blast dest: tranclD)
    then obtain ts where "map_of adj x = Some ts" by (auto simp: edges_def)
    then have "x \<in> fst ` set adj" by (metis map_of_SomeD fst_conv imageI)
    with \<open>fst ` set adj \<subseteq> W\<close> have "x \<in> W" by blast
    with \<open>settled adj W\<close> cycle show False by (simp add: settled_def)
  qed
next
  assume "acyclic (edges adj)"
  then have "visits adj {} {} (map fst adj) \<noteq> Inl e" for e
    using visits_complete [of adj "{}" "{}" "map fst adj" e] assms by auto
  then show "validate_acyclic adj = Inr ()"
    by (cases "visits adj {} {} (map fst adj)") (auto simp: validate_acyclic_def)
qed

text \<open>
  C35: The acyclicity check of a lineage graph ends on every adjacency dictionary and, when all targets
  are keys, accepts exactly the acyclic ones, with acyclicity as in the library's theory of relations.
\<close>

theorem acyclic_check_exact:
  assumes "\<And>a ts. map_of adj a = Some ts \<Longrightarrow> set ts \<subseteq> fst ` set adj"
  shows "validate_acyclic adj = Inr () \<longleftrightarrow> acyclic (edges adj)"
  using assms by (rule acyclic_check_iff)

theorem acyclic_check_exact_witness:
  "validate_acyclic [(''a'', [''b'', ''c'']), (''b'', [''c'']), (''c'', [])] = Inr ()
    \<and> acyclic (edges [(''a'', [''b'', ''c'']), (''b'', [''c'']), (''c'', [])])
    \<and> validate_acyclic [(''a'', [''b'']), (''b'', [''a''])] = Inl (ValueError ''lineage graph must be acyclic'')"
proof -
  have ok: "validate_acyclic [(''a'', [''b'', ''c'']), (''b'', [''c'']), (''c'', [])] = Inr ()"
    by (simp add: validate_acyclic_def)
  have "acyclic (edges [(''a'', [''b'', ''c'']), (''b'', [''c'']), (''c'', [])])"
    by (subst acyclic_check_exact [symmetric]) (use ok in \<open>auto split: if_splits\<close>)
  with ok show ?thesis by (simp add: validate_acyclic_def)
qed

section \<open>What a valid graph is\<close>

definition related :: "lineage_node list \<Rightarrow> lineage_relation \<Rightarrow> bool" where
  "related nodes r \<longleftrightarrow> (\<exists>a \<in> set nodes. \<exists>b \<in> set nodes. node_ref a = lr_subject r \<and> node_ref b = lr_object r
    \<and> (node_kind (ln_detail a), node_kind (ln_detail b)) \<in> set (allowed_relations (lr_relation r)))"

definition graph_ok :: "lineage_graph \<Rightarrow> bool" where
  "graph_ok g \<longleftrightarrow> (\<forall>n \<in> set (lg_nodes g). ln_run_id n = lg_run_id g \<and> ln_tenant_id n = lg_tenant_id g)
    \<and> distinct (map ln_node_id (lg_nodes g)) \<and> list_all (related (lg_nodes g)) (lg_relations g)
    \<and> distinct (map relation_key (lg_relations g))"

definition by_id :: "lineage_node list \<Rightarrow> (uuid \<times> lineage_node) list" where
  "by_id nodes = map (\<lambda>n. (ln_node_id n, n)) nodes"

lemma map_fst_by_id [simp]: "map fst (by_id nodes) = map ln_node_id nodes"
  by (simp add: by_id_def)

lemma index_nodes_eq:
  assumes "distinct (map fst d)"
  shows "index_nodes g d ns = Inr (d @ by_id ns) \<longleftrightarrow>
    (\<forall>n \<in> set ns. ln_run_id n = lg_run_id g \<and> ln_tenant_id n = lg_tenant_id g) \<and> distinct (map fst d @ map ln_node_id ns)"
  using assms
proof (induction ns arbitrary: d)
  case (Cons n ns)
  show ?case
  proof (cases "ln_run_id n = lg_run_id g \<and> ln_tenant_id n = lg_tenant_id g \<and> ln_node_id n \<notin> fst ` set d")
    case True
    then have upd: "AList.update (ln_node_id n) n d = d @ [(ln_node_id n, n)]" by (simp add: update_absent)
    have "index_nodes g d (n # ns) = index_nodes g (d @ [(ln_node_id n, n)]) ns" using True by (simp add: upd)
    moreover have "d @ by_id (n # ns) = (d @ [(ln_node_id n, n)]) @ by_id ns" by (simp add: by_id_def)
    ultimately show ?thesis using Cons.IH [of "d @ [(ln_node_id n, n)]"] Cons.prems True by auto
  qed auto
qed (simp add: by_id_def)

lemma index_nodes_Inr: "index_nodes g d ns = Inr m \<Longrightarrow> m = d @ by_id ns"
proof (induction ns arbitrary: d)
  case (Cons n ns)
  then have "m = AList.update (ln_node_id n) n d @ by_id ns" "ln_node_id n \<notin> fst ` set d" by (auto split: if_splits)
  then show ?case by (simp add: update_absent by_id_def)
qed (simp add: by_id_def)

lemma map_of_by_id:
  "distinct (map ln_node_id nodes) \<Longrightarrow> map_of (by_id nodes) i = Some n \<longleftrightarrow> n \<in> set nodes \<and> ln_node_id n = i"
  by (subst map_of_eq_Some_iff) (auto simp: by_id_def comp_def)

lemma node_ref_simps [simp]:
  "ref_node_id (node_ref n) = ln_node_id n" "ref_kind (node_ref n) = node_kind (ln_detail n)" "ref_digest (node_ref n) = ln_digest n"
  by (simp_all add: node_ref_def)

lemma related_iff:
  assumes "distinct (map ln_node_id nodes)"
  shows "related nodes r \<longleftrightarrow> (\<exists>a b. map_of (by_id nodes) (ref_node_id (lr_subject r)) = Some a
    \<and> map_of (by_id nodes) (ref_node_id (lr_object r)) = Some b \<and> node_ref a = lr_subject r \<and> node_ref b = lr_object r
    \<and> (node_kind (ln_detail a), node_kind (ln_detail b)) \<in> set (allowed_relations (lr_relation r)))"
  unfolding related_def map_of_by_id [OF assms] by (metis node_ref_simps(1))

text \<open>The kinds of nodes are layered: every allowed relation leads to a later layer.\<close>

fun kind_layer :: "lineage_node_kind \<Rightarrow> nat" where
  "kind_layer NodeKind_GENERATOR_CONFIGURATION = 0"
| "kind_layer NodeKind_SPECIFICATION_REVISION = 1"
| "kind_layer NodeKind_DECISION_SET = 1"
| "kind_layer NodeKind_SOURCE_TREE = 1"
| "kind_layer NodeKind_VERIFICATION = 2"
| "kind_layer NodeKind_BUILD_ARTIFACT = 2"
| "kind_layer NodeKind_AUTHORIZATION = 3"
| "kind_layer NodeKind_AGENT_ACTION = 4"
| "kind_layer NodeKind_DEPLOYMENT = 5"
| "kind_layer NodeKind_PRODUCTION_OBSERVATION = 6"
| "kind_layer NodeKind_RECONCILIATION = 7"

lemma allowed_layered: "(a, b) \<in> set (allowed_relations r) \<Longrightarrow> kind_layer a < kind_layer b"
  by (cases r) auto

definition layered :: "(uuid \<times> lineage_node) list \<Rightarrow> adjacency \<Rightarrow> bool" where
  "layered d adj \<longleftrightarrow> map fst adj = map fst d \<and> (\<forall>a b. (a, b) \<in> edges adj \<longrightarrow>
    (\<exists>m n. map_of d a = Some m \<and> map_of d b = Some n \<and> kind_layer (node_kind (ln_detail m)) < kind_layer (node_kind (ln_detail n))))"

lemma map_entry_edges:
  "(x, y) \<in> edges (AList.map_entry a (\<lambda>ts. ts @ [b]) adj) \<Longrightarrow> (x, y) \<in> edges adj \<or> (x = a \<and> y = b)"
  by (auto simp: edges_def map_of_map_entry split: if_splits option.splits)

lemma map_fst_map_entry [simp]: "map fst (AList.map_entry a f adj) = map fst adj"
  by (induction adj) auto

lemma layered_link:
  assumes "layered d adj" "map_of d a = Some m" "map_of d b = Some n" "kind_layer (node_kind (ln_detail m)) < kind_layer (node_kind (ln_detail n))"
  shows "layered d (AList.map_entry a (\<lambda>ts. ts @ [b]) adj)"
  using assms unfolding layered_def by (auto dest: map_entry_edges)

lemma layered_acyclic: "layered d adj \<Longrightarrow> validate_acyclic adj = Inr ()"
proof -
  assume lay: "layered d adj"
  let ?f = "\<lambda>i. kind_layer (node_kind (ln_detail (the (map_of d i))))"
  have "edges adj \<subseteq> measure ?f" using lay by (fastforce simp: layered_def)
  then have "acyclic (edges adj)" by (rule acyclic_subset [OF wf_acyclic [OF wf_measure]])
  moreover have "set ts \<subseteq> fst ` set adj" if "map_of adj a = Some ts" for a ts
  proof
    fix b
    assume "b \<in> set ts"
    with that have "(a, b) \<in> edges adj" by (auto simp: edges_def)
    with lay have "b \<in> fst ` set d" unfolding layered_def by (metis map_of_eq_None_iff option.distinct(1))
    with lay show "b \<in> fst ` set adj" unfolding layered_def by (metis list.set_map)
  qed
  ultimately show ?thesis using acyclic_check_iff [of adj] by blast
qed

lemma link_relations_related:
  assumes "distinct (map ln_node_id nodes)" "related nodes r" "relation_key r \<notin> keys"
  shows "link_relations (by_id nodes) keys adj (r # rs) = link_relations (by_id nodes) (insert (relation_key r) keys)
       (AList.map_entry (ref_node_id (lr_subject r)) (\<lambda>ts. ts @ [ref_node_id (lr_object r)]) adj) rs"
proof -
  from assms(2) obtain a b where ab: "map_of (by_id nodes) (ref_node_id (lr_subject r)) = Some a"
    "map_of (by_id nodes) (ref_node_id (lr_object r)) = Some b" "node_ref a = lr_subject r" "node_ref b = lr_object r"
    "(node_kind (ln_detail a), node_kind (ln_detail b)) \<in> set (allowed_relations (lr_relation r))"
    unfolding related_iff [OF assms(1)] by blast
  moreover have "ln_node_id a = ref_node_id (lr_subject r)" "ln_node_id b = ref_node_id (lr_object r)"
    using ab(3,4) node_ref_simps(1) by metis+
  ultimately show ?thesis using assms(3) by simp
qed

lemma link_relations_Cons_Inr:
  assumes "distinct (map ln_node_id nodes)" "link_relations (by_id nodes) keys adj (r # rs) = Inr adj'"
  shows "related nodes r" "relation_key r \<notin> keys"
  using assms(2) unfolding related_iff [OF assms(1)] by (auto split: option.splits if_splits)

lemma link_relations_Inr:
  assumes "distinct (map ln_node_id nodes)" "link_relations (by_id nodes) keys adj rs = Inr adj'"
  shows "list_all (related nodes) rs \<and> distinct (map relation_key rs) \<and> relation_key ` set rs \<inter> keys = {}
    \<and> (layered (by_id nodes) adj \<longrightarrow> layered (by_id nodes) adj')"
  using assms(2)
proof (induction rs arbitrary: keys adj)
  case (Cons r rs)
  let ?adj = "AList.map_entry (ref_node_id (lr_subject r)) (\<lambda>ts. ts @ [ref_node_id (lr_object r)]) adj"
  note r = link_relations_Cons_Inr [OF assms(1) Cons.prems]
  with link_relations_related [OF assms(1) r] Cons.prems have rest: "link_relations (by_id nodes) (insert (relation_key r) keys) ?adj rs = Inr adj'" by simp
  have "layered (by_id nodes) adj \<Longrightarrow> layered (by_id nodes) ?adj"
    using r(1) unfolding related_iff [OF assms(1)] by (auto intro: layered_link allowed_layered)
  with Cons.IH [OF rest] r show ?case by auto
qed simp

lemma link_relations_total:
  assumes "distinct (map ln_node_id nodes)" "list_all (related nodes) rs" "distinct (map relation_key rs)" "relation_key ` set rs \<inter> keys = {}"
  shows "\<exists>adj'. link_relations (by_id nodes) keys adj rs = Inr adj'"
  using assms(2-4)
proof (induction rs arbitrary: keys adj)
  case (Cons r rs)
  then have "related nodes r" "relation_key r \<notin> keys" by auto
  with link_relations_related [OF assms(1), of r keys adj rs] Cons show ?case by auto
qed simp

lemma layered_empty: "layered (by_id nodes) (map (\<lambda>(i, _). (i, [])) (by_id nodes))"
  by (auto simp: layered_def edges_def by_id_def comp_def dest!: map_of_SomeD)

lemma validate_graph_iff: "validate_graph g = Inr g' \<longleftrightarrow> graph_ok g \<and> g' = g"
proof
  assume "validate_graph g = Inr g'"
  then obtain d adj where d: "index_nodes g [] (lg_nodes g) = Inr d"
    and adj: "link_relations d {} (map (\<lambda>(i, _). (i, [])) d) (lg_relations g) = Inr adj" and g': "g' = g"
    by (auto simp: validate_graph_def)
  have dd: "d = by_id (lg_nodes g)" using index_nodes_Inr [OF d] by simp
  with d have nodes: "\<forall>n \<in> set (lg_nodes g). ln_run_id n = lg_run_id g \<and> ln_tenant_id n = lg_tenant_id g"
    "distinct (map ln_node_id (lg_nodes g))"
    using index_nodes_eq [of "[]" g "lg_nodes g"] by simp_all
  from link_relations_Inr [OF nodes(2) adj [unfolded dd]] nodes g' show "graph_ok g \<and> g' = g" by (simp add: graph_ok_def)
next
  assume "graph_ok g \<and> g' = g"
  then have ok: "graph_ok g" and g': "g' = g" by simp_all
  have d: "index_nodes g [] (lg_nodes g) = Inr (by_id (lg_nodes g))" and nodes: "distinct (map ln_node_id (lg_nodes g))"
    using ok index_nodes_eq [of "[]" g "lg_nodes g"] by (simp_all add: graph_ok_def)
  from ok link_relations_total [OF nodes] obtain adj where
    adj: "link_relations (by_id (lg_nodes g)) {} (map (\<lambda>(i, _). (i, [])) (by_id (lg_nodes g))) (lg_relations g) = Inr adj"
    by (fastforce simp: graph_ok_def)
  have "validate_acyclic adj = Inr ()"
    using link_relations_Inr [OF nodes adj] layered_empty layered_acyclic by blast
  with d adj g' show "validate_graph g = Inr g'" by (simp add: validate_graph_def)
qed

section \<open>The store\<close>

text \<open>
  A \<open>defaultdict\<close> read may leave an empty entry, which no operation can tell from an absent one; only
  entries with content are kept here. \<open>same_node\<close> is the equality of two nodes, with attribute values compared
  as Python does.
\<close>

record lineage_store =
  ls_nodes :: "((string \<times> uuid) \<times> (uuid \<times> lineage_node) list) list"
  ls_relations :: "string \<times> uuid \<Rightarrow> lineage_relation list"

definition empty_lineage :: lineage_store where
  "empty_lineage = \<lparr>ls_nodes = [], ls_relations = (\<lambda>_. [])\<rparr>"

definition store_nodes :: "lineage_store \<Rightarrow> string \<times> uuid \<Rightarrow> (uuid \<times> lineage_node) list" where
  "store_nodes s k = (case map_of (ls_nodes s) k of None \<Rightarrow> [] | Some d \<Rightarrow> d)"

definition same_node :: "lineage_node \<Rightarrow> lineage_node \<Rightarrow> bool" where
  "same_node a b = (a\<lparr>ln_attributes := []\<rparr> = b\<lparr>ln_attributes := []\<rparr>
     \<and> value_eq (dump_dict (\<lambda>v. v) (ln_attributes a)) (dump_dict (\<lambda>v. v) (ln_attributes b)))"

definition record_node :: "lineage_node \<Rightarrow> (lineage_store, unit) prog" where
  "record_node n s =
    (let k = (ln_tenant_id n, ln_run_id n); d = store_nodes s k
     in if list_ex (\<lambda>((tenant, run), nodes). run = ln_run_id n \<and> tenant \<noteq> ln_tenant_id n \<and> nodes \<noteq> []) (ls_nodes s)
        then (Inl (IntegrityViolationError ''a lineage run cannot cross tenant boundaries''), s)
        else if \<exists>existing. map_of d (ln_node_id n) = Some existing \<and> \<not> same_node existing n
        then (Inl (IntegrityViolationError ''a lineage node id cannot be rewritten''), s)
        else (Inr (), s\<lparr>ls_nodes := AList.update k (AList.update (ln_node_id n) n d) (ls_nodes s)\<rparr>))"

definition store_graph :: "lineage_store \<Rightarrow> string \<Rightarrow> uuid \<Rightarrow> lineage_relation list \<Rightarrow> lineage_graph result" where
  "store_graph s tenant run_id relations =
    (let d = store_nodes s (tenant, run_id)
     in if d = [] then Inl (KeyError (''lineage run '' @ run_id @ '' does not exist''))
        else new_lineage_graph run_id tenant (map snd d) relations)"

definition same_link :: "lineage_relation \<Rightarrow> lineage_relation \<Rightarrow> bool" where
  "same_link a b = (lr_relation a = lr_relation b \<and> lr_subject a = lr_subject b \<and> lr_object a = lr_object b)"

definition record_relation :: "string \<Rightarrow> uuid \<Rightarrow> lineage_relation \<Rightarrow> (lineage_store, unit) prog" where
  "record_relation tenant run_id r s =
    (let k = (tenant, run_id)
     in case find (\<lambda>e. same_link e r) (ls_relations s k) of
          Some existing \<Rightarrow>
            if existing \<noteq> r then (Inl (IntegrityViolationError ''a lineage relation cannot be rewritten''), s)
            else (Inr (), s)
        | None \<Rightarrow>
            (case store_graph s tenant run_id (ls_relations s k @ [r]) of
               Inl e \<Rightarrow> (Inl e, s)
             | Inr g \<Rightarrow> (Inr (), s\<lparr>ls_relations := (ls_relations s)(k := lg_relations g)\<rparr>)))"

definition get_graph :: "string \<Rightarrow> uuid \<Rightarrow> lineage_store \<Rightarrow> lineage_graph result" where
  "get_graph tenant run_id s = store_graph s tenant run_id (ls_relations s (tenant, run_id))"

inductive lineage_step :: "lineage_store \<Rightarrow> lineage_store \<Rightarrow> bool" where
  node: "lineage_node_fields n \<Longrightarrow> record_node n s = (r, s') \<Longrightarrow> lineage_step s s'"
| relation: "record_relation tenant run_id l s = (r, s') \<Longrightarrow> lineage_step s s'"

definition stored_graph :: "lineage_store \<Rightarrow> string \<times> uuid \<Rightarrow> lineage_graph" where
  "stored_graph s k = \<lparr>lg_schema_name = ''prodkit.lineage-graph'', lg_schema_version = ''1.0.0'', lg_run_id = snd k,
     lg_tenant_id = fst k, lg_nodes = map snd (store_nodes s k), lg_relations = ls_relations s k\<rparr>"

definition lineage_inv :: "lineage_store \<Rightarrow> bool" where
  "lineage_inv s \<longleftrightarrow>
    (\<forall>k. map fst (store_nodes s k) = map (\<lambda>p. ln_node_id (snd p)) (store_nodes s k)
       \<and> graph_ok (stored_graph s k) \<and> (store_nodes s k \<noteq> [] \<longrightarrow> nonblank (fst k)))
    \<and> (\<forall>t t' run. store_nodes s (t, run) \<noteq> [] \<and> store_nodes s (t', run) \<noteq> [] \<longrightarrow> t = t')"

lemma related_refs:
  "related nodes r \<longleftrightarrow> lr_subject r \<in> node_ref ` set nodes \<and> lr_object r \<in> node_ref ` set nodes
    \<and> (ref_kind (lr_subject r), ref_kind (lr_object r)) \<in> set (allowed_relations (lr_relation r))"
  unfolding related_def by (auto simp: image_iff) (metis node_ref_simps(2))+

lemma related_mono: "node_ref ` set nodes \<subseteq> node_ref ` set nodes' \<Longrightarrow> related nodes r \<Longrightarrow> related nodes' r"
  unfolding related_refs by blast

lemma same_node_ref: "same_node a b \<Longrightarrow> node_ref a = node_ref b"
  by (cases a; cases b) (simp add: same_node_def node_ref_def)

lemma set_update_keep: "(i, x) \<in> set d \<Longrightarrow> i \<noteq> k \<Longrightarrow> (i, x) \<in> set (AList.update k v d)"
  by (induction d) auto

lemma set_update_new: "(k, v) \<in> set (AList.update k v d)"
  by (induction d) auto

lemma update_refs:
  assumes "distinct (map fst d)" "\<And>e. map_of d k = Some e \<Longrightarrow> node_ref e = node_ref n"
  shows "node_ref ` snd ` set d \<subseteq> node_ref ` snd ` set (AList.update k n d)"
proof
  fix r
  assume "r \<in> node_ref ` snd ` set d"
  then obtain i x where x: "(i, x) \<in> set d" "r = node_ref x" by auto
  show "r \<in> node_ref ` snd ` set (AList.update k n d)"
  proof (cases "i = k")
    case True
    with x assms have "r = node_ref n" by simp
    with set_update_new [of k n d] show ?thesis by force
  next
    case False
    with x set_update_keep [of i x d k n] show ?thesis by force
  qed
qed

lemma store_nodes_set [simp]:
  "store_nodes (s\<lparr>ls_nodes := AList.update k d (ls_nodes s)\<rparr>) k' = (if k' = k then d else store_nodes s k')"
  by (simp add: store_nodes_def update_conv)

lemma record_node_cases [consumes 1, case_names failed stored]:
  assumes "record_node n s = (r, s')"
  obtains e where "r = Inl e" "s' = s"
  | "r = Inr ()"
    "s' = s\<lparr>ls_nodes := AList.update (ln_tenant_id n, ln_run_id n)
       (AList.update (ln_node_id n) n (store_nodes s (ln_tenant_id n, ln_run_id n))) (ls_nodes s)\<rparr>"
    "\<And>t. store_nodes s (t, ln_run_id n) \<noteq> [] \<Longrightarrow> t = ln_tenant_id n"
    "\<And>e. map_of (store_nodes s (ln_tenant_id n, ln_run_id n)) (ln_node_id n) = Some e \<Longrightarrow> node_ref e = node_ref n"
proof (cases r)
  case (Inl e)
  with assms that(1) show ?thesis by (auto simp: record_node_def Let_def split: if_splits)
next
  case (Inr u)
  let ?d = "store_nodes s (ln_tenant_id n, ln_run_id n)"
  from assms Inr have one: "\<not> list_ex (\<lambda>((tenant, run), nodes). run = ln_run_id n \<and> tenant \<noteq> ln_tenant_id n \<and> nodes \<noteq> []) (ls_nodes s)"
    and same: "\<not> (\<exists>existing. map_of ?d (ln_node_id n) = Some existing \<and> \<not> same_node existing n)"
    and s': "s' = s\<lparr>ls_nodes := AList.update (ln_tenant_id n, ln_run_id n) (AList.update (ln_node_id n) n ?d) (ls_nodes s)\<rparr>"
    by (simp_all add: record_node_def Let_def split: if_splits)
  have "t = ln_tenant_id n" if "store_nodes s (t, ln_run_id n) \<noteq> []" for t
  proof -
    from that obtain nodes where "map_of (ls_nodes s) (t, ln_run_id n) = Some nodes" "nodes \<noteq> []"
      by (auto simp: store_nodes_def split: option.splits)
    with one show ?thesis by (auto simp: list_ex_iff dest!: map_of_SomeD)
  qed
  moreover have "node_ref e = node_ref n" if "map_of ?d (ln_node_id n) = Some e" for e
    using same same_node_ref that by blast
  moreover have "r = Inr ()" using Inr by simp
  ultimately show ?thesis using s' by (intro that(2)) blast+
qed

lemma record_relation_cases [consumes 1, case_names kept stored]:
  assumes "record_relation tenant run_id l s = (r, s')"
  obtains "s' = s"
  | g where "store_graph s tenant run_id (ls_relations s (tenant, run_id) @ [l]) = Inr g" "r = Inr ()"
    "s' = s\<lparr>ls_relations := (ls_relations s)((tenant, run_id) := lg_relations g)\<rparr>"
proof (cases "find (\<lambda>e. same_link e l) (ls_relations s (tenant, run_id))")
  case (Some e)
  with assms that(1) show ?thesis by (auto simp: record_relation_def Let_def split: if_splits)
next
  case None
  show ?thesis
  proof (cases "store_graph s tenant run_id (ls_relations s (tenant, run_id) @ [l])")
    case (Inl e)
    with None assms have "s' = s" by (simp add: record_relation_def Let_def)
    then show ?thesis by (rule that(1))
  next
    case (Inr g)
    with None assms show ?thesis by (intro that(2) [OF Inr]) (simp_all add: record_relation_def Let_def)
  qed
qed

lemma store_graph_Inr:
  assumes "store_graph s tenant run_id rs = Inr g" "store_nodes s (tenant, run_id) \<noteq> [] \<Longrightarrow> nonblank tenant"
  shows "g = (stored_graph s (tenant, run_id))\<lparr>lg_relations := rs\<rparr>" "graph_ok g"
proof -
  have some: "store_nodes s (tenant, run_id) \<noteq> []" using assms(1) by (auto simp: store_graph_def Let_def split: if_splits)
  with assms have "validate_graph ((stored_graph s (tenant, run_id))\<lparr>lg_relations := rs\<rparr>) = Inr g"
    by (simp add: store_graph_def Let_def new_lineage_graph_def stored_graph_def)
  then show "g = (stored_graph s (tenant, run_id))\<lparr>lg_relations := rs\<rparr>" "graph_ok g"
    unfolding validate_graph_iff by simp_all
qed

lemma lineage_inv_node:
  assumes inv: "lineage_inv s" and n: "lineage_node_fields n" "record_node n s = (r, s')"
  shows "lineage_inv s'"
  using n(2)
proof (cases rule: record_node_cases)
  case stored
  let ?k = "(ln_tenant_id n, ln_run_id n)" let ?d = "store_nodes s ?k" let ?d' = "AList.update (ln_node_id n) n ?d"
  have nodes: "store_nodes s' k = (if k = ?k then ?d' else store_nodes s k)" for k using stored(2) by simp
  have rels: "ls_relations s' = ls_relations s" using stored(2) by simp
  have ok: "map fst ?d = map (\<lambda>p. ln_node_id (snd p)) ?d" "graph_ok (stored_graph s ?k)"
    using inv by (auto simp: lineage_inv_def)
  have "distinct (map (\<lambda>p. ln_node_id (snd p)) ?d)" using ok(2) by (simp add: graph_ok_def stored_graph_def comp_def)
  then have dist: "distinct (map fst ?d)" unfolding ok(1) .
  have keyed: "fst p = ln_node_id (snd p)" if "p \<in> set ?d'" for p
  proof -
    from that have "(fst p, snd p) \<in> set ?d'" by simp
    from set_update_cases [OF this] ok(1) show ?thesis by auto
  qed
  have keyed_map: "map fst ?d' = map (\<lambda>p. ln_node_id (snd p)) ?d'" by (rule map_cong) (simp_all add: keyed)
  have refs: "node_ref ` set (map snd ?d) \<subseteq> node_ref ` set (map snd ?d')"
    using update_refs [OF dist stored(4)] by (simp add: image_image)
  have graph: "stored_graph s' ?k = \<lparr>lg_schema_name = ''prodkit.lineage-graph'', lg_schema_version = ''1.0.0'',
      lg_run_id = ln_run_id n, lg_tenant_id = ln_tenant_id n, lg_nodes = map snd ?d', lg_relations = ls_relations s ?k\<rparr>"
    by (simp add: stored_graph_def nodes rels)
  have ok_here: "graph_ok (stored_graph s' ?k)"
    unfolding graph graph_ok_def lineage_graph.select_convs map_map comp_def
  proof (intro conjI ballI)
    show "list_all (related (map snd ?d')) (ls_relations s ?k)"
      using ok(2) related_mono [OF refs] by (auto simp: graph_ok_def stored_graph_def list_all_iff)
    show "distinct (map (\<lambda>p. ln_node_id (snd p)) ?d')"
      unfolding keyed_map [symmetric] using dist by (rule distinct_update)
    show "distinct (map relation_key (ls_relations s ?k))" using ok(2) by (simp add: graph_ok_def stored_graph_def)
    fix x
    assume "x \<in> set (map snd ?d')"
    then obtain i where "(i, x) \<in> set ?d'" by auto
    from set_update_cases [OF this] have "x = n \<or> x \<in> set (map snd ?d)" by force
    then show "ln_run_id x = ln_run_id n" "ln_tenant_id x = ln_tenant_id n"
      using ok(2) by (auto simp: graph_ok_def stored_graph_def)
  qed
  have ok_there: "graph_ok (stored_graph s' k)" if "k \<noteq> ?k" for k
  proof -
    have "stored_graph s' k = stored_graph s k" using that by (simp add: stored_graph_def nodes rels)
    with inv show ?thesis unfolding lineage_inv_def by metis
  qed
  have "\<forall>t t' run. store_nodes s' (t, run) \<noteq> [] \<and> store_nodes s' (t', run) \<noteq> [] \<longrightarrow> t = t'"
  proof (intro allI impI)
    fix t t' run
    assume some: "store_nodes s' (t, run) \<noteq> [] \<and> store_nodes s' (t', run) \<noteq> []"
    show "t = t'"
    proof (cases "run = ln_run_id n")
      case True
      have "t = ln_tenant_id n" if "store_nodes s' (t, run) \<noteq> []" for t
      proof (rule ccontr)
        assume ne: "t \<noteq> ln_tenant_id n"
        then have "store_nodes s' (t, run) = store_nodes s (t, ln_run_id n)" using True by (simp add: nodes)
        with that stored(3) [of t] ne show False by metis
      qed
      from this [of t] this [of t'] some show ?thesis by metis
    next
      case False
      with some have "store_nodes s (t, run) \<noteq> [] \<and> store_nodes s (t', run) \<noteq> []" by (simp add: nodes)
      with inv show ?thesis unfolding lineage_inv_def by blast
    qed
  qed
  then show ?thesis
    unfolding lineage_inv_def
  proof (intro conjI allI)
    fix k
    have "(map fst (store_nodes s' k) = map (\<lambda>p. ln_node_id (snd p)) (store_nodes s' k))
      \<and> (store_nodes s' k \<noteq> [] \<longrightarrow> nonblank (fst k))"
    proof (cases "k = ?k")
      case True
      then show ?thesis using keyed_map n(1) by (simp only: nodes) (simp add: lineage_node_fields_def)
    next
      case False
      then show ?thesis using inv unfolding lineage_inv_def by (simp only: nodes if_False) blast
    qed
    then show "map fst (store_nodes s' k) = map (\<lambda>p. ln_node_id (snd p)) (store_nodes s' k)"
      "store_nodes s' k \<noteq> [] \<longrightarrow> nonblank (fst k)" by blast+
    show "graph_ok (stored_graph s' k)" using ok_here ok_there by (cases "k = ?k") blast+
  qed blast
qed (use inv in simp)

lemma lineage_inv_relation:
  assumes inv: "lineage_inv s" and r: "record_relation tenant run_id l s = (r, s')"
  shows "lineage_inv s'"
  using r
proof (cases rule: record_relation_cases)
  case (stored g)
  have nonblank: "store_nodes s (tenant, run_id) \<noteq> [] \<Longrightarrow> nonblank tenant" using inv by (auto simp: lineage_inv_def)
  note g = store_graph_Inr [OF stored(1) nonblank]
  have nodes: "store_nodes s' k = store_nodes s k" for k using stored(3) by (simp add: store_nodes_def)
  have "stored_graph s' (tenant, run_id) = g" using g(1) stored(3) nodes by (simp add: stored_graph_def)
  moreover have "stored_graph s' k = stored_graph s k" if "k \<noteq> (tenant, run_id)" for k
    using that stored(3) nodes by (simp add: stored_graph_def)
  ultimately show ?thesis using inv g(2) unfolding lineage_inv_def nodes by metis
qed (use inv in simp)

lemma lineage_step_inv: "lineage_step s s' \<Longrightarrow> lineage_inv s \<Longrightarrow> lineage_inv s'"
  by (cases rule: lineage_step.cases) (auto intro: lineage_inv_node lineage_inv_relation)

lemma lineage_inv_reach: "lineage_step\<^sup>*\<^sup>* empty_lineage s \<Longrightarrow> lineage_inv s"
proof (induction rule: rtranclp_induct)
  case base
  show ?case
    by (simp add: lineage_inv_def empty_lineage_def store_nodes_def stored_graph_def graph_ok_def)
qed (rule lineage_step_inv)

lemma get_graph_stored:
  assumes "lineage_inv s" "store_nodes s (tenant, run_id) \<noteq> []"
  shows "get_graph tenant run_id s = Inr (stored_graph s (tenant, run_id))"
proof -
  have "nonblank tenant" "graph_ok (stored_graph s (tenant, run_id))"
    using assms unfolding lineage_inv_def by (metis fst_conv)+
  moreover have "get_graph tenant run_id s = validate_graph (stored_graph s (tenant, run_id))"
    using assms(2) calculation(1) by (simp add: get_graph_def store_graph_def Let_def new_lineage_graph_def stored_graph_def)
  ultimately show ?thesis by (simp add: validate_graph_iff)
qed

definition lineage_grows :: "string \<times> uuid \<Rightarrow> lineage_store \<Rightarrow> lineage_store \<Rightarrow> bool" where
  "lineage_grows k s s' \<longleftrightarrow> node_ref ` set (map snd (store_nodes s k)) \<subseteq> node_ref ` set (map snd (store_nodes s' k))
    \<and> prefix (ls_relations s k) (ls_relations s' k)"

lemma lineage_step_grows:
  assumes "lineage_step s s'" "lineage_inv s"
  shows "lineage_grows k s s'"
  using assms(1)
proof (cases rule: lineage_step.cases)
  case (node n r)
  from node(2) show ?thesis
  proof (cases rule: record_node_cases)
    case stored
    let ?d = "store_nodes s (ln_tenant_id n, ln_run_id n)"
    have "map fst ?d = map (\<lambda>p. ln_node_id (snd p)) ?d" "graph_ok (stored_graph s (ln_tenant_id n, ln_run_id n))"
      using assms(2) unfolding lineage_inv_def by metis+
    moreover from this(2) have "distinct (map (\<lambda>p. ln_node_id (snd p)) ?d)"
      by (simp add: graph_ok_def stored_graph_def comp_def)
    ultimately have "distinct (map fst ?d)" by metis
    from update_refs [OF this stored(4)] stored(2) show ?thesis by (auto simp: lineage_grows_def image_image)
  qed (simp add: lineage_grows_def)
next
  case (relation tenant run_id l r)
  from relation show ?thesis
  proof (cases rule: record_relation_cases)
    case (stored g)
    have "nonblank tenant" if "store_nodes s (tenant, run_id) \<noteq> []"
      using assms(2) that unfolding lineage_inv_def by (metis fst_conv)
    from store_graph_Inr(1) [OF stored(1) this] have "lg_relations g = ls_relations s (tenant, run_id) @ [l]" by simp
    with stored(3) show ?thesis by (simp add: lineage_grows_def store_nodes_def)
  qed (simp add: lineage_grows_def)
qed

lemma lineage_reach_grows:
  assumes "lineage_step\<^sup>*\<^sup>* s s'" "lineage_inv s"
  shows "lineage_inv s' \<and> lineage_grows k s s'"
  using assms
proof (induction rule: rtranclp_induct)
  case base
  then show ?case by (simp add: lineage_grows_def)
next
  case (step s1 s2)
  then have "lineage_inv s1" "lineage_grows k s s1" by simp_all
  with step(2) lineage_step_grows [of s1 s2 k] lineage_step_inv [of s1 s2] show ?case
    unfolding lineage_grows_def by (meson prefix_order.trans subset_trans)
qed

text \<open>
  C34: The lineage store only ever holds valid graphs. After any calls, a run with a node has a graph; it is
  exactly the recorded nodes and relations, and it is valid; the run belongs to one tenant; and after any
  further calls its graph still has every node reference and begins with the same relations.
\<close>

theorem lineage_store_sound:
  assumes "lineage_step\<^sup>*\<^sup>* empty_lineage s" "store_nodes s (tenant, run_id) \<noteq> []" "lineage_step\<^sup>*\<^sup>* s s'"
  shows "\<exists>g g'. get_graph tenant run_id s = Inr g \<and> get_graph tenant run_id s' = Inr g'
    \<and> lg_nodes g = map snd (store_nodes s (tenant, run_id)) \<and> lg_relations g = ls_relations s (tenant, run_id)
    \<and> validate_graph g = Inr g \<and> node_ref ` set (lg_nodes g) \<subseteq> node_ref ` set (lg_nodes g')
    \<and> prefix (lg_relations g) (lg_relations g')
    \<and> (\<forall>other. other \<noteq> tenant \<longrightarrow> store_nodes s' (other, run_id) = [])"
proof -
  have inv: "lineage_inv s" using assms(1) by (rule lineage_inv_reach)
  note later = lineage_reach_grows [OF assms(3) inv, of "(tenant, run_id)"]
  have "node_ref ` set (map snd (store_nodes s (tenant, run_id))) \<subseteq> node_ref ` set (map snd (store_nodes s' (tenant, run_id)))"
    using later unfolding lineage_grows_def by blast
  with assms(2) have some: "store_nodes s' (tenant, run_id) \<noteq> []" by auto
  have "graph_ok (stored_graph s (tenant, run_id))" using inv unfolding lineage_inv_def by metis
  moreover have "store_nodes s' (other, run_id) = []" if "other \<noteq> tenant" for other
    using later some that unfolding lineage_inv_def by metis
  ultimately show ?thesis
    using get_graph_stored [OF inv assms(2)] get_graph_stored [OF conjunct1 [OF later] some] later
    by (simp add: validate_graph_iff stored_graph_def lineage_grows_def)
qed

section \<open>The production policy\<close>

datatype production_lineage_requirement =
    Requirement_SPECIFICATION_REVISION
  | Requirement_DECISION_SET
  | Requirement_SUCCESSFUL_GENERATION
  | Requirement_SOURCE_TREE
  | Requirement_PASSING_VERIFICATION
  | Requirement_SUCCESSFUL_BUILD
  | Requirement_AUTHORIZATION
  | Requirement_SUCCESSFUL_AGENT_ACTION
  | Requirement_SUCCESSFUL_DEPLOYMENT
  | Requirement_PRODUCTION_OBSERVATION
  | Requirement_MATCHED_RECONCILIATION

fun production_lineage_requirement_value :: "production_lineage_requirement \<Rightarrow> string" where
  "production_lineage_requirement_value Requirement_SPECIFICATION_REVISION = ''specification_revision''"
| "production_lineage_requirement_value Requirement_DECISION_SET = ''decision_set''"
| "production_lineage_requirement_value Requirement_SUCCESSFUL_GENERATION = ''successful_generation''"
| "production_lineage_requirement_value Requirement_SOURCE_TREE = ''source_tree''"
| "production_lineage_requirement_value Requirement_PASSING_VERIFICATION = ''passing_verification''"
| "production_lineage_requirement_value Requirement_SUCCESSFUL_BUILD = ''successful_build''"
| "production_lineage_requirement_value Requirement_AUTHORIZATION = ''authorization''"
| "production_lineage_requirement_value Requirement_SUCCESSFUL_AGENT_ACTION = ''successful_agent_action''"
| "production_lineage_requirement_value Requirement_SUCCESSFUL_DEPLOYMENT = ''successful_deployment''"
| "production_lineage_requirement_value Requirement_PRODUCTION_OBSERVATION = ''production_observation''"
| "production_lineage_requirement_value Requirement_MATCHED_RECONCILIATION = ''matched_reconciliation''"

record production_lineage_assessment =
  pla_schema_name :: string
  pla_schema_version :: string
  pla_observation :: lineage_node_ref
  pla_complete :: bool
  pla_satisfied_requirements :: "production_lineage_requirement list"
  pla_missing_requirements :: "production_lineage_requirement list"
  pla_lineage_path :: "lineage_node_ref list"

datatype observation_arg = ObservationId uuid | ObservationRef lineage_node_ref

text \<open>
  The candidates of a step are the nodes of the expected kind at the other end of the matching relations;
  the first that satisfies the predicate is chosen, and without one the first candidate.
\<close>

fun lookup_nodes :: "(uuid \<times> lineage_node) list \<Rightarrow> uuid list \<Rightarrow> lineage_node list result" where
  "lookup_nodes nodes [] = Inr []"
| "lookup_nodes nodes (i # is) =
    (case map_of nodes i of
       None \<Rightarrow> Inl (KeyError i)
     | Some n \<Rightarrow> rbind (lookup_nodes nodes is) (\<lambda>ns. Inr (n # ns)))"

definition choose_node :: "lineage_node_kind \<Rightarrow> (lineage_node_detail \<Rightarrow> bool) \<Rightarrow> lineage_node list \<Rightarrow> lineage_node option" where
  "choose_node kind predicate found =
    (let candidates = filter (\<lambda>n. node_kind (ln_detail n) = kind) found
     in case find (\<lambda>n. predicate (ln_detail n)) candidates of
          Some n \<Rightarrow> Some n
        | None \<Rightarrow> (case candidates of [] \<Rightarrow> None | n # _ \<Rightarrow> Some n))"

definition subject_of ::
  "lineage_graph \<Rightarrow> (uuid \<times> lineage_node) list \<Rightarrow> lineage_relation_type \<Rightarrow> lineage_node option \<Rightarrow> lineage_node_kind
    \<Rightarrow> (lineage_node_detail \<Rightarrow> bool) \<Rightarrow> lineage_node option result" where
  "subject_of g nodes relation_type object_node kind predicate =
    (case object_node of
       None \<Rightarrow> Inr None
     | Some ob \<Rightarrow>
         rbind (lookup_nodes nodes (map (\<lambda>r. ref_node_id (lr_subject r))
           (filter (\<lambda>r. lr_relation r = relation_type \<and> lr_object r = node_ref ob) (lg_relations g)))) (\<lambda>found.
         Inr (choose_node kind predicate found)))"

definition object_of ::
  "lineage_graph \<Rightarrow> (uuid \<times> lineage_node) list \<Rightarrow> lineage_relation_type \<Rightarrow> lineage_node option \<Rightarrow> lineage_node_kind
    \<Rightarrow> (lineage_node_detail \<Rightarrow> bool) \<Rightarrow> lineage_node option result" where
  "object_of g nodes relation_type subject kind predicate =
    (case subject of
       None \<Rightarrow> Inr None
     | Some su \<Rightarrow>
         rbind (lookup_nodes nodes (map (\<lambda>r. ref_node_id (lr_object r))
           (filter (\<lambda>r. lr_relation r = relation_type \<and> lr_subject r = node_ref su) (lg_relations g)))) (\<lambda>found.
         Inr (choose_node kind predicate found)))"

definition marks :: "(bool \<times> production_lineage_requirement) list \<Rightarrow> production_lineage_requirement list" where
  "marks cs = map snd (filter fst cs)"

definition holds :: "lineage_node option \<Rightarrow> (lineage_node_detail \<Rightarrow> bool) \<Rightarrow> bool" where
  "holds n predicate = (case n of None \<Rightarrow> False | Some x \<Rightarrow> predicate (ln_detail x))"

definition find_observation :: "lineage_graph \<Rightarrow> (uuid \<times> lineage_node) list \<Rightarrow> observation_arg \<Rightarrow> lineage_node result" where
  "find_observation g nodes observation =
    (case map_of nodes (case observation of ObservationId i \<Rightarrow> i | ObservationRef r \<Rightarrow> ref_node_id r) of
       None \<Rightarrow> Inl (ValueError ''production observation is not present in the lineage graph'')
     | Some n \<Rightarrow>
         if node_kind (ln_detail n) \<noteq> NodeKind_PRODUCTION_OBSERVATION
         then Inl (ValueError ''production observation is not present in the lineage graph'')
         else if (case observation of ObservationId _ \<Rightarrow> False | ObservationRef r \<Rightarrow> node_ref n \<noteq> r)
         then Inl (ValueError ''production observation reference does not match the graph'')
         else Inr n)"

text \<open>The nodes \<open>assess\<close> selects, and the assessment it makes of them.\<close>

record selected_nodes =
  sel_observed :: lineage_node
  sel_deployment :: "lineage_node option"
  sel_action :: "lineage_node option"
  sel_authorization :: "lineage_node option"
  sel_build :: "lineage_node option"
  sel_source_tree :: "lineage_node option"
  sel_generator :: "lineage_node option"
  sel_verification :: "lineage_node option"
  sel_specification :: "lineage_node option"
  sel_decisions :: "lineage_node option"
  sel_reconciliation :: "lineage_node option"

definition passed :: "lineage_node_detail \<Rightarrow> bool" where
  "passed d = (verification_outcome_of d = Verification_PASSED)"

definition matched :: "lineage_node_detail \<Rightarrow> bool" where
  "matched d = (reconciliation_outcome_of d = Recon_MATCHED)"

definition anything :: "lineage_node_detail \<Rightarrow> bool" where
  "anything d = True"

definition select_nodes :: "lineage_graph \<Rightarrow> (uuid \<times> lineage_node) list \<Rightarrow> observation_arg \<Rightarrow> selected_nodes result" where
  "select_nodes g nodes observation =
    rbind (find_observation g nodes observation) (\<lambda>observed.
    rbind (subject_of g nodes Relation_OBSERVED_AS (Some observed) NodeKind_DEPLOYMENT deployment_succeeded) (\<lambda>deployment.
    rbind (subject_of g nodes Relation_DEPLOYED_AS deployment NodeKind_AGENT_ACTION action_succeeded) (\<lambda>action.
    rbind (subject_of g nodes Relation_AUTHORIZED_ACTION action NodeKind_AUTHORIZATION authorized) (\<lambda>authorization.
    rbind (subject_of g nodes Relation_AUTHORIZED_BY authorization NodeKind_BUILD_ARTIFACT build_succeeded) (\<lambda>build.
    rbind (subject_of g nodes Relation_BUILT_AS build NodeKind_SOURCE_TREE anything) (\<lambda>source_tree.
    rbind (subject_of g nodes Relation_PRODUCED source_tree NodeKind_GENERATOR_CONFIGURATION generation_succeeded) (\<lambda>generator.
    rbind (object_of g nodes Relation_VERIFIED_BY source_tree NodeKind_VERIFICATION passed) (\<lambda>verification.
    rbind (object_of g nodes Relation_GENERATED_FROM generator NodeKind_SPECIFICATION_REVISION anything) (\<lambda>specification.
    rbind (object_of g nodes Relation_GENERATED_FROM generator NodeKind_DECISION_SET anything) (\<lambda>decisions.
    rbind (object_of g nodes Relation_COMPARED_BY (Some observed) NodeKind_RECONCILIATION matched) (\<lambda>reconciliation.
    Inr \<lparr>sel_observed = observed, sel_deployment = deployment, sel_action = action, sel_authorization = authorization,
         sel_build = build, sel_source_tree = source_tree, sel_generator = generator, sel_verification = verification,
         sel_specification = specification, sel_decisions = decisions, sel_reconciliation = reconciliation\<rparr>)))))))))))"

definition requirement_checks :: "selected_nodes \<Rightarrow> (bool \<times> production_lineage_requirement) list" where
  "requirement_checks p =
    [(True, Requirement_PRODUCTION_OBSERVATION),
     (holds (sel_deployment p) deployment_succeeded, Requirement_SUCCESSFUL_DEPLOYMENT),
     (holds (sel_action p) action_succeeded, Requirement_SUCCESSFUL_AGENT_ACTION),
     (holds (sel_authorization p) authorized, Requirement_AUTHORIZATION),
     (holds (sel_build p) build_succeeded, Requirement_SUCCESSFUL_BUILD),
     (holds (sel_source_tree p) anything, Requirement_SOURCE_TREE),
     (holds (sel_generator p) generation_succeeded, Requirement_SUCCESSFUL_GENERATION),
     (holds (sel_verification p) passed, Requirement_PASSING_VERIFICATION),
     (holds (sel_specification p) anything, Requirement_SPECIFICATION_REVISION),
     (holds (sel_decisions p) anything, Requirement_DECISION_SET),
     (holds (sel_reconciliation p) matched, Requirement_MATCHED_RECONCILIATION)]"

definition chronological :: "selected_nodes \<Rightarrow> lineage_node option list" where
  "chronological p = [sel_specification p, sel_decisions p, sel_generator p, sel_source_tree p, sel_verification p, sel_build p,
     sel_authorization p, sel_action p, sel_deployment p, Some (sel_observed p), sel_reconciliation p]"

definition assess :: "lineage_graph \<Rightarrow> observation_arg \<Rightarrow> production_lineage_assessment result" where
  "assess g observation =
    rbind (select_nodes g (dict_of (map (\<lambda>n. (ln_node_id n, n)) (lg_nodes g))) observation) (\<lambda>p.
    let missing = marks (map (\<lambda>(c, r). (\<not> c, r)) (requirement_checks p))
    in Inr \<lparr>pla_schema_name = ''prodkit.production-lineage-assessment'', pla_schema_version = ''1.0.0'',
         pla_observation = node_ref (sel_observed p), pla_complete = (missing = []),
         pla_satisfied_requirements = marks (requirement_checks p), pla_missing_requirements = missing,
         pla_lineage_path = map node_ref (concat (map (\<lambda>n. case n of None \<Rightarrow> [] | Some x \<Rightarrow> [x]) (chronological p)))\<rparr>)"

definition enforce :: "lineage_graph \<Rightarrow> observation_arg \<Rightarrow> production_lineage_assessment result" where
  "enforce g observation =
    rbind (assess g observation) (\<lambda>a.
      if \<not> pla_complete a
      then Inl (IncompleteLineageError (map production_lineage_requirement_value (pla_missing_requirements a)))
      else Inr a)"

section \<open>An accepted observation has a complete lineage\<close>

definition linked :: "lineage_graph \<Rightarrow> lineage_relation_type \<Rightarrow> lineage_node \<Rightarrow> lineage_node \<Rightarrow> bool" where
  "linked g ty a b \<longleftrightarrow> a \<in> set (lg_nodes g) \<and> b \<in> set (lg_nodes g)
    \<and> (\<exists>r \<in> set (lg_relations g). lr_relation r = ty \<and> lr_subject r = node_ref a \<and> lr_object r = node_ref b)"

lemma lookup_nodes_Inr: "lookup_nodes d is = Inr ns \<Longrightarrow> n \<in> set ns \<Longrightarrow> \<exists>i \<in> set is. map_of d i = Some n"
  by (induction "is" arbitrary: ns) (auto split: option.splits)

lemma choose_node_Some:
  assumes "choose_node kind P found = Some n"
  shows "n \<in> set found \<and> node_kind (ln_detail n) = kind"
proof -
  let ?cs = "filter (\<lambda>n. node_kind (ln_detail n) = kind) found"
  have "n \<in> set ?cs"
  proof (cases "find (\<lambda>n. P (ln_detail n)) ?cs")
    case None
    with assms show ?thesis by (cases ?cs) (auto simp: choose_node_def Let_def)
  next
    case (Some m)
    with assms have "find (\<lambda>n. P (ln_detail n)) ?cs = Some n" by (simp add: choose_node_def Let_def)
    then show ?thesis unfolding find_Some_iff by (metis nth_mem)
  qed
  then show ?thesis by simp
qed

lemma ref_node_unique:
  assumes "graph_ok g" "map_of (by_id (lg_nodes g)) (ref_node_id x) = Some n" "x \<in> node_ref ` set (lg_nodes g)"
  shows "n \<in> set (lg_nodes g) \<and> node_ref n = x"
proof -
  have d: "distinct (map ln_node_id (lg_nodes g))" using assms(1) by (simp add: graph_ok_def)
  from assms(3) obtain m where m: "m \<in> set (lg_nodes g)" "x = node_ref m" by blast
  then have "map_of (by_id (lg_nodes g)) (ref_node_id x) = Some m" by (simp add: map_of_by_id [OF d])
  with assms(2) m show ?thesis by simp
qed

lemma related_ends:
  assumes "graph_ok g" "r \<in> set (lg_relations g)"
  shows "lr_subject r \<in> node_ref ` set (lg_nodes g)" "lr_object r \<in> node_ref ` set (lg_nodes g)"
  using assms by (auto simp: graph_ok_def list_all_iff related_refs)

lemma subject_of_linked:
  assumes "graph_ok g" "ob \<in> set (lg_nodes g)" "subject_of g (by_id (lg_nodes g)) ty (Some ob) kind P = Inr (Some n)"
  shows "linked g ty n ob \<and> node_kind (ln_detail n) = kind"
proof -
  from assms(3) obtain found where found: "lookup_nodes (by_id (lg_nodes g)) (map (\<lambda>r. ref_node_id (lr_subject r))
      (filter (\<lambda>r. lr_relation r = ty \<and> lr_object r = node_ref ob) (lg_relations g))) = Inr found"
    and n: "choose_node kind P found = Some n"
    by (auto simp: subject_of_def)
  from lookup_nodes_Inr [OF found] choose_node_Some [OF n] obtain r where r: "r \<in> set (lg_relations g)" "lr_relation r = ty"
    "lr_object r = node_ref ob" "map_of (by_id (lg_nodes g)) (ref_node_id (lr_subject r)) = Some n" by auto
  from ref_node_unique [OF assms(1) r(4) related_ends(1) [OF assms(1) r(1)]] r assms(2) choose_node_Some [OF n]
  show ?thesis unfolding linked_def by metis
qed

lemma object_of_linked:
  assumes "graph_ok g" "su \<in> set (lg_nodes g)" "object_of g (by_id (lg_nodes g)) ty (Some su) kind P = Inr (Some n)"
  shows "linked g ty su n \<and> node_kind (ln_detail n) = kind"
proof -
  from assms(3) obtain found where found: "lookup_nodes (by_id (lg_nodes g)) (map (\<lambda>r. ref_node_id (lr_object r))
      (filter (\<lambda>r. lr_relation r = ty \<and> lr_subject r = node_ref su) (lg_relations g))) = Inr found"
    and n: "choose_node kind P found = Some n"
    by (auto simp: object_of_def)
  from lookup_nodes_Inr [OF found] choose_node_Some [OF n] obtain r where r: "r \<in> set (lg_relations g)" "lr_relation r = ty"
    "lr_subject r = node_ref su" "map_of (by_id (lg_nodes g)) (ref_node_id (lr_object r)) = Some n" by auto
  from ref_node_unique [OF assms(1) r(4) related_ends(2) [OF assms(1) r(1)]] r assms(2) choose_node_Some [OF n]
  show ?thesis unfolding linked_def by metis
qed

lemma linked_ends: "linked g ty a b \<Longrightarrow> a \<in> set (lg_nodes g) \<and> b \<in> set (lg_nodes g)"
  by (simp add: linked_def)

lemma holds_Some: "holds n P \<longleftrightarrow> (\<exists>x. n = Some x \<and> P (ln_detail x))"
  by (auto simp: holds_def split: option.splits)

lemma find_observation_Inr:
  assumes "graph_ok g" "find_observation g (by_id (lg_nodes g)) obs = Inr ob"
  shows "ob \<in> set (lg_nodes g) \<and> node_kind (ln_detail ob) = NodeKind_PRODUCTION_OBSERVATION
    \<and> (case obs of ObservationId i \<Rightarrow> ln_node_id ob = i | ObservationRef r \<Rightarrow> node_ref ob = r)"
proof -
  have d: "distinct (map ln_node_id (lg_nodes g))" using assms(1) by (simp add: graph_ok_def)
  show ?thesis
    using assms(2) by (auto simp: find_observation_def map_of_by_id [OF d] split: option.splits if_splits observation_arg.splits)
qed

lemma marks_empty: "marks (map (\<lambda>(c, r). (\<not> c, r)) cs) = [] \<longleftrightarrow> list_all fst cs"
  by (induction cs) (auto simp: marks_def)

lemma select_nodes_Inr:
  assumes "select_nodes g N obs = Inr p"
  shows "find_observation g N obs = Inr (sel_observed p)"
    "subject_of g N Relation_OBSERVED_AS (Some (sel_observed p)) NodeKind_DEPLOYMENT deployment_succeeded = Inr (sel_deployment p)"
    "subject_of g N Relation_DEPLOYED_AS (sel_deployment p) NodeKind_AGENT_ACTION action_succeeded = Inr (sel_action p)"
    "subject_of g N Relation_AUTHORIZED_ACTION (sel_action p) NodeKind_AUTHORIZATION authorized = Inr (sel_authorization p)"
    "subject_of g N Relation_AUTHORIZED_BY (sel_authorization p) NodeKind_BUILD_ARTIFACT build_succeeded = Inr (sel_build p)"
    "subject_of g N Relation_BUILT_AS (sel_build p) NodeKind_SOURCE_TREE anything = Inr (sel_source_tree p)"
    "subject_of g N Relation_PRODUCED (sel_source_tree p) NodeKind_GENERATOR_CONFIGURATION generation_succeeded = Inr (sel_generator p)"
    "object_of g N Relation_VERIFIED_BY (sel_source_tree p) NodeKind_VERIFICATION passed = Inr (sel_verification p)"
    "object_of g N Relation_GENERATED_FROM (sel_generator p) NodeKind_SPECIFICATION_REVISION anything = Inr (sel_specification p)"
    "object_of g N Relation_GENERATED_FROM (sel_generator p) NodeKind_DECISION_SET anything = Inr (sel_decisions p)"
    "object_of g N Relation_COMPARED_BY (Some (sel_observed p)) NodeKind_RECONCILIATION matched = Inr (sel_reconciliation p)"
  using assms by (auto simp: select_nodes_def)

text \<open>The nodes of a complete lineage, in chronological order, and what makes them one.\<close>

definition complete_lineage :: "lineage_graph \<Rightarrow> lineage_node list \<Rightarrow> bool" where
  "complete_lineage g path \<longleftrightarrow> (\<exists>spec dec gen src ver bld aut act dep ob rec.
    path = [spec, dec, gen, src, ver, bld, aut, act, dep, ob, rec]
    \<and> linked g Relation_GENERATED_FROM gen spec \<and> node_kind (ln_detail spec) = NodeKind_SPECIFICATION_REVISION
    \<and> linked g Relation_GENERATED_FROM gen dec \<and> node_kind (ln_detail dec) = NodeKind_DECISION_SET
    \<and> linked g Relation_PRODUCED gen src \<and> generation_succeeded (ln_detail gen)
    \<and> linked g Relation_VERIFIED_BY src ver \<and> passed (ln_detail ver)
    \<and> linked g Relation_BUILT_AS src bld \<and> build_succeeded (ln_detail bld)
    \<and> linked g Relation_AUTHORIZED_BY bld aut \<and> authorized (ln_detail aut)
    \<and> linked g Relation_AUTHORIZED_ACTION aut act \<and> action_succeeded (ln_detail act)
    \<and> linked g Relation_DEPLOYED_AS act dep \<and> deployment_succeeded (ln_detail dep)
    \<and> linked g Relation_OBSERVED_AS dep ob \<and> node_kind (ln_detail ob) = NodeKind_PRODUCTION_OBSERVATION
    \<and> linked g Relation_COMPARED_BY ob rec \<and> matched (ln_detail rec))"

text \<open>
  C9: The production policy is fail-closed. When \<open>enforce\<close> accepts an observation of a valid graph, the path it
  returns is a complete lineage of that very observation: a specification and decisions that a
  successful generation was made from, its source tree, verified and built, and an authorised, successful action and
  deployment that led to the observation, which was reconciled as matching.
\<close>

theorem enforce_sound:
  assumes "validate_graph g = Inr g" "enforce g obs = Inr a"
  shows "\<exists>path. complete_lineage g path \<and> pla_lineage_path a = map node_ref path
    \<and> pla_observation a = node_ref (path ! 9) \<and> pla_missing_requirements a = []
    \<and> (case obs of ObservationId i \<Rightarrow> ln_node_id (path ! 9) = i | ObservationRef r \<Rightarrow> node_ref (path ! 9) = r)"
proof -
  have ok: "graph_ok g" using assms(1) by (simp add: validate_graph_iff)
  have d: "distinct (map ln_node_id (lg_nodes g))" using ok by (simp add: graph_ok_def)
  have nodes: "dict_of (map (\<lambda>n. (ln_node_id n, n)) (lg_nodes g)) = by_id (lg_nodes g)"
    unfolding by_id_def by (rule dict_of_distinct) (use d in \<open>simp add: comp_def\<close>)
  let ?N = "by_id (lg_nodes g)"
  from assms(2) obtain p where p: "select_nodes g ?N obs = Inr p"
    and checks: "list_all fst (requirement_checks p)"
    and a: "pla_lineage_path a = map node_ref (concat (map (\<lambda>n. case n of None \<Rightarrow> [] | Some x \<Rightarrow> [x]) (chronological p)))"
      "pla_observation a = node_ref (sel_observed p)" "pla_missing_requirements a = []"
    by (auto simp: enforce_def assess_def nodes Let_def marks_empty split: if_splits)
  define ob where "ob = sel_observed p"
  from checks obtain dep act aut bld src gen ver spec dec rec where
    sel: "sel_deployment p = Some dep" "sel_action p = Some act" "sel_authorization p = Some aut" "sel_build p = Some bld"
      "sel_source_tree p = Some src" "sel_generator p = Some gen" "sel_verification p = Some ver"
      "sel_specification p = Some spec" "sel_decisions p = Some dec" "sel_reconciliation p = Some rec"
    and good: "deployment_succeeded (ln_detail dep)" "action_succeeded (ln_detail act)" "authorized (ln_detail aut)"
      "build_succeeded (ln_detail bld)" "generation_succeeded (ln_detail gen)" "passed (ln_detail ver)" "matched (ln_detail rec)"
    unfolding requirement_checks_def list.pred_inject fst_conv holds_Some by blast
  note found = select_nodes_Inr [OF p, unfolded sel, folded ob_def]
  have ob: "find_observation g ?N obs = Inr ob" using found by blast
  note obs = find_observation_Inr [OF ok ob]
  from subject_of_linked [OF ok conjunct1 [OF obs] found(2)] have dep': "linked g Relation_OBSERVED_AS dep ob" by blast
  from subject_of_linked [OF ok conjunct1 [OF linked_ends [OF dep']] found(3)] have act': "linked g Relation_DEPLOYED_AS act dep" by blast
  from subject_of_linked [OF ok conjunct1 [OF linked_ends [OF act']] found(4)] have aut': "linked g Relation_AUTHORIZED_ACTION aut act" by blast
  from subject_of_linked [OF ok conjunct1 [OF linked_ends [OF aut']] found(5)] have bld': "linked g Relation_AUTHORIZED_BY bld aut" by blast
  from subject_of_linked [OF ok conjunct1 [OF linked_ends [OF bld']] found(6)] have src': "linked g Relation_BUILT_AS src bld" by blast
  note s = conjunct1 [OF linked_ends [OF src']]
  from subject_of_linked [OF ok s found(7)] have gen': "linked g Relation_PRODUCED gen src" by blast
  note n = conjunct1 [OF linked_ends [OF gen']]
  note rest = object_of_linked [OF ok s found(8)] object_of_linked [OF ok n found(9)]
    object_of_linked [OF ok n found(10)] object_of_linked [OF ok conjunct1 [OF obs] found(11)]
  have "complete_lineage g [spec, dec, gen, src, ver, bld, aut, act, dep, ob, rec]"
    unfolding complete_lineage_def
    by (intro exI conjI, rule refl)
      (use dep' act' aut' bld' src' gen' good rest obs in \<open>simp_all only: simp_thms\<close>)
  with a obs show ?thesis
    by (intro exI [of _ "[spec, dec, gen, src, ver, bld, aut, act, dep, ob, rec]"], cases obs)
      (simp_all add: chronological_def sel ob_def)
qed

section \<open>A concrete lineage\<close>

definition sample_node :: "uuid \<Rightarrow> lineage_node_detail \<Rightarrow> lineage_node" where
  "sample_node i d = \<lparr>ln_node_id = i, ln_run_id = ''run'', ln_tenant_id = ''acme'', ln_digest = zero_hash [], ln_recorded_at = 0,
     ln_external_uri = None, ln_evidence = [], ln_attributes = [], ln_detail = d\<rparr>"

definition sample_lineage_nodes :: "lineage_node list" where
  "sample_lineage_nodes =
    [sample_node ''spec'' (SpecificationRevisionNode ''s'' ''1'' (zero_hash [])),
     sample_node ''dec'' (DecisionSetNode ''d'' ''1''),
     sample_node ''gen'' (GeneratorConfigurationNode ''g'' ''1'' (zero_hash []) None None True),
     sample_node ''src'' (SourceTreeNode None None),
     sample_node ''ver'' (VerificationNode ''v'' ''1'' (zero_hash []) (zero_hash []) Verification_PASSED),
     sample_node ''bld'' (BuildArtifactNode ''b'' ''ci'' True),
     sample_node ''aut'' (AuthorizationNode (zero_hash []) (zero_hash []) None True),
     sample_node ''act'' (AgentActionNode ''a'' (zero_hash []) ''x'' True),
     sample_node ''dep'' (DeploymentNode ''d'' ''prod'' ''t'' 0 True),
     sample_node ''obs'' (ProductionObservationNode ''o'' ''prod'' ''i'' 0),
     sample_node ''rec'' (ReconciliationNode ''r'' ''n'' (zero_hash []) Recon_MATCHED)]"

definition sample_link :: "lineage_relation_type \<Rightarrow> nat \<Rightarrow> nat \<Rightarrow> lineage_relation" where
  "sample_link ty i j = \<lparr>lr_relation = ty, lr_subject = node_ref (sample_lineage_nodes ! i), lr_object = node_ref (sample_lineage_nodes ! j),
     lr_recorded_at = 0, lr_evidence = []\<rparr>"

definition sample_lineage :: lineage_graph where
  "sample_lineage = \<lparr>lg_schema_name = ''prodkit.lineage-graph'', lg_schema_version = ''1.0.0'', lg_run_id = ''run'',
     lg_tenant_id = ''acme'', lg_nodes = sample_lineage_nodes,
     lg_relations = [sample_link Relation_GENERATED_FROM 2 0, sample_link Relation_GENERATED_FROM 2 1, sample_link Relation_PRODUCED 2 3,
       sample_link Relation_VERIFIED_BY 3 4, sample_link Relation_BUILT_AS 3 5, sample_link Relation_AUTHORIZED_BY 5 6,
       sample_link Relation_AUTHORIZED_ACTION 6 7, sample_link Relation_DEPLOYED_AS 7 8, sample_link Relation_OBSERVED_AS 8 9,
       sample_link Relation_COMPARED_BY 9 10]\<rparr>"

lemma sample_lineage_valid: "validate_graph sample_lineage = Inr sample_lineage"
  by (simp add: validate_graph_iff graph_ok_def related_refs sample_lineage_def sample_lineage_nodes_def sample_link_def
      sample_node_def node_ref_def relation_key_def)

lemma sample_lineage_enforced:
  "\<exists>a. enforce sample_lineage (ObservationId ''obs'') = Inr a \<and> pla_observation a = node_ref (sample_lineage_nodes ! 9)"
  by (simp add: enforce_def assess_def select_nodes_def find_observation_def subject_of_def object_of_def choose_node_def Let_def
      requirement_checks_def holds_def marks_def anything_def passed_def matched_def
      sample_lineage_def sample_lineage_nodes_def sample_link_def sample_node_def node_ref_def)

theorem enforce_sound_witness:
  "\<exists>a path. enforce sample_lineage (ObservationId ''obs'') = Inr a \<and> complete_lineage sample_lineage path
    \<and> pla_lineage_path a = map node_ref path"
proof -
  obtain a where a: "enforce sample_lineage (ObservationId ''obs'') = Inr a" using sample_lineage_enforced by blast
  from enforce_sound [OF sample_lineage_valid a] a show ?thesis by blast
qed

theorem lineage_store_sound_witness:
  "\<exists>s g. record_node (sample_lineage_nodes ! 0) empty_lineage = (Inr (), s) \<and> get_graph ''acme'' ''run'' s = Inr g
    \<and> lg_nodes g = [sample_lineage_nodes ! 0]"
proof -
  let ?n = "sample_lineage_nodes ! 0"
  let ?s = "\<lparr>ls_nodes = [((''acme'', ''run''), [(''spec'', ?n)])], ls_relations = (\<lambda>_. [])\<rparr>"
  have rec: "record_node ?n empty_lineage = (Inr (), ?s)"
    by (simp add: record_node_def empty_lineage_def store_nodes_def Let_def sample_lineage_nodes_def sample_node_def)
  have "lineage_node_fields ?n"
    by (simp add: lineage_node_fields_def sample_lineage_nodes_def sample_node_def nonblank_def strip_def py_isspace_def
)
  from lineage_step.node [OF this rec] have reach: "lineage_step\<^sup>*\<^sup>* empty_lineage ?s" by (rule r_into_rtranclp)
  from lineage_store_sound [OF reach _ rtranclp.rtrancl_refl, of "''acme''" "''run''"] rec show ?thesis
    by (auto simp: store_nodes_def)
qed

end
