(* ===== verification/Tenancy.thy ===== *)
theory Tenancy
  imports Sample_Data
begin

text \<open>
  Tenant control: the contracts of \<open>contracts/tenancy.py\<close> and \<open>InMemoryTenantControlStore\<close> of the
  runtime's \<open>tenancy.py\<close>. Every operation runs under the store's lock, so it is one step; a
  clock reading and the \<open>uuid4\<close> results of a call are its arguments. A step keeps the mutations made before it
  raises.
\<close>

section \<open>Contracts\<close>

datatype tenant_access_mode =
    Access_TENANT
  | Access_SUPPORT

datatype tenant_capability =
    Capability_READ
  | Capability_WRITE
  | Capability_EXECUTE
  | Capability_APPROVE
  | Capability_EXPORT
  | Capability_DELETE
  | Capability_LEGAL_HOLD
  | Capability_CONFIGURE

fun tenant_capability_value :: "tenant_capability \<Rightarrow> string" where
  "tenant_capability_value Capability_READ = ''read''"
| "tenant_capability_value Capability_WRITE = ''write''"
| "tenant_capability_value Capability_EXECUTE = ''execute''"
| "tenant_capability_value Capability_APPROVE = ''approve''"
| "tenant_capability_value Capability_EXPORT = ''export''"
| "tenant_capability_value Capability_DELETE = ''delete''"
| "tenant_capability_value Capability_LEGAL_HOLD = ''legal_hold''"
| "tenant_capability_value Capability_CONFIGURE = ''configure''"

record tenant_access_context =
  tac_schema_name :: string
  tac_schema_version :: string
  tac_tenant_id :: string
  tac_actor :: actor_ref
  tac_mode :: tenant_access_mode
  tac_capabilities :: "tenant_capability list"
  tac_elevation_id :: "uuid option"
  tac_reason :: "string option"
  tac_ticket_reference :: "string option"
  tac_issued_at :: datetime
  tac_expires_at :: "datetime option"

definition tenant_access_context_fields :: "tenant_access_context \<Rightarrow> bool" where
  "tenant_access_context_fields r = (nonblank (tac_tenant_id r) \<and>
     actor_ref_fields (tac_actor r) \<and>
     pred_option nonblank (tac_reason r) \<and>
     pred_option nonblank (tac_ticket_reference r))"

record support_elevation_grant =
  seg_schema_name :: string
  seg_schema_version :: string
  seg_grant_id :: uuid
  seg_target_tenant_id :: string
  seg_operator :: actor_ref
  seg_issued_by :: actor_ref
  seg_capabilities :: "tenant_capability list"
  seg_reason :: string
  seg_ticket_reference :: string
  seg_issued_at :: datetime
  seg_expires_at :: datetime
  seg_revoked_at :: "datetime option"

definition support_elevation_grant_fields :: "support_elevation_grant \<Rightarrow> bool" where
  "support_elevation_grant_fields r = (nonblank (seg_target_tenant_id r) \<and>
     actor_ref_fields (seg_operator r) \<and>
     actor_ref_fields (seg_issued_by r) \<and>
     nonblank (seg_reason r) \<and>
     nonblank (seg_ticket_reference r))"

record tenant_isolation_profile =
  tip_schema_name :: string
  tip_schema_version :: string
  tip_tenant_id :: string
  tip_policy_profile :: string
  tip_signing_profile :: string
  tip_retention_profile :: string
  tip_executor_profile :: string
  tip_storage_partition :: string
  tip_cache_namespace :: string
  tip_allow_support_access :: bool
  tip_attributes :: "(string \<times> string) list"

definition tenant_isolation_profile_fields :: "tenant_isolation_profile \<Rightarrow> bool" where
  "tenant_isolation_profile_fields r = (nonblank (tip_tenant_id r) \<and>
     nonblank (tip_policy_profile r) \<and>
     nonblank (tip_signing_profile r) \<and>
     nonblank (tip_retention_profile r) \<and>
     nonblank (tip_executor_profile r) \<and>
     nonblank (tip_storage_partition r) \<and>
     nonblank (tip_cache_namespace r))"

definition dump_tenant_isolation_profile :: "tenant_isolation_profile \<Rightarrow> pyval" where
  "dump_tenant_isolation_profile r = PDict
    [(KStr ''schema_name'', PStr (tip_schema_name r)),
     (KStr ''schema_version'', PStr (tip_schema_version r)),
     (KStr ''tenant_id'', PStr (tip_tenant_id r)),
     (KStr ''policy_profile'', PStr (tip_policy_profile r)),
     (KStr ''signing_profile'', PStr (tip_signing_profile r)),
     (KStr ''retention_profile'', PStr (tip_retention_profile r)),
     (KStr ''executor_profile'', PStr (tip_executor_profile r)),
     (KStr ''storage_partition'', PStr (tip_storage_partition r)),
     (KStr ''cache_namespace'', PStr (tip_cache_namespace r)),
     (KStr ''allow_support_access'', PBool (tip_allow_support_access r)),
     (KStr ''attributes'', dump_dict PStr (tip_attributes r))]"

datatype tenant_lifecycle_status =
    Tenant_ACTIVE
  | Tenant_DELETION_SCHEDULED
  | Tenant_DELETED

record tenant_lifecycle_record =
  tlr_schema_name :: string
  tlr_schema_version :: string
  tlr_tenant_id :: string
  tlr_status :: tenant_lifecycle_status
  tlr_legal_hold :: bool
  tlr_deletion_not_before :: "datetime option"
  tlr_updated_at :: datetime
  tlr_updated_by :: actor_ref
  tlr_elevation_id :: "uuid option"

definition tenant_lifecycle_record_fields :: "tenant_lifecycle_record \<Rightarrow> bool" where
  "tenant_lifecycle_record_fields r = (nonblank (tlr_tenant_id r) \<and>
     actor_ref_fields (tlr_updated_by r))"

datatype tenant_audit_event_type =
    Audit_SUPPORT_ELEVATION_ISSUED
  | Audit_SUPPORT_ELEVATION_USED
  | Audit_SUPPORT_ELEVATION_REVOKED
  | Audit_EXPORT_CREATED
  | Audit_DELETION_SCHEDULED
  | Audit_DELETION_COMPLETED
  | Audit_LEGAL_HOLD_PLACED
  | Audit_LEGAL_HOLD_RELEASED
  | Audit_CONFIGURATION_CHANGED

record tenant_audit_event =
  tae_schema_name :: string
  tae_schema_version :: string
  tae_audit_id :: uuid
  tae_tenant_id :: string
  tae_event_type :: tenant_audit_event_type
  tae_actor :: actor_ref
  tae_occurred_at :: datetime
  tae_elevation_id :: "uuid option"
  tae_reason :: "string option"
  tae_ticket_reference :: "string option"
  tae_attributes :: "(string \<times> string) list"

definition tenant_audit_event_fields :: "tenant_audit_event \<Rightarrow> bool" where
  "tenant_audit_event_fields r = (nonblank (tae_tenant_id r) \<and>
     actor_ref_fields (tae_actor r) \<and>
     pred_option nonblank (tae_reason r) \<and>
     pred_option nonblank (tae_ticket_reference r))"

record tenant_export_manifest =
  tem_schema_name :: string
  tem_schema_version :: string
  tem_export_id :: uuid
  tem_tenant_id :: string
  tem_created_at :: datetime
  tem_created_by :: actor_ref
  tem_elevation_id :: "uuid option"
  tem_record_counts :: "(string \<times> int) list"
  tem_content_digests :: "string list"
  tem_legal_hold_preserved :: bool

definition tenant_export_manifest_fields :: "tenant_export_manifest \<Rightarrow> bool" where
  "tenant_export_manifest_fields r = (nonblank (tem_tenant_id r) \<and>
     actor_ref_fields (tem_created_by r) \<and>
     list_all nonblank (tem_content_digests r))"

definition dump_tenant_export_manifest :: "tenant_export_manifest \<Rightarrow> pyval" where
  "dump_tenant_export_manifest r = PDict
    [(KStr ''schema_name'', PStr (tem_schema_name r)),
     (KStr ''schema_version'', PStr (tem_schema_version r)),
     (KStr ''export_id'', PUuid (tem_export_id r)),
     (KStr ''tenant_id'', PStr (tem_tenant_id r)),
     (KStr ''created_at'', PDatetime (tem_created_at r)),
     (KStr ''created_by'', dump_actor_ref (tem_created_by r)),
     (KStr ''elevation_id'', dump_opt PUuid (tem_elevation_id r)),
     (KStr ''record_counts'', dump_dict PInt (tem_record_counts r)),
     (KStr ''content_digests'', PTuple (map PStr (tem_content_digests r))),
     (KStr ''legal_hold_preserved'', PBool (tem_legal_hold_preserved r))]"

definition validate_tenant_access_context :: "tenant_access_context \<Rightarrow> tenant_access_context result" where
  "validate_tenant_access_context c =
    (if \<exists>e. tac_expires_at c = Some e \<and> e \<le> tac_issued_at c
     then Inl (ValueError ''tenant access context must expire after issuance'')
     else if \<not> distinct (tac_capabilities c) then Inl (ValueError ''tenant capabilities must be unique'')
     else if tac_mode c = Access_TENANT
     then (if actor_tenant_id (tac_actor c) \<noteq> tac_tenant_id c
           then Inl (ValueError ''ordinary tenant access cannot cross tenant boundaries'')
           else if tac_elevation_id c \<noteq> None \<or> tac_reason c \<noteq> None \<or> tac_ticket_reference c \<noteq> None
           then Inl (ValueError ''ordinary tenant access cannot carry support-elevation metadata'')
           else Inr c)
     else if tac_elevation_id c = None \<or> \<not> truthy (tac_reason c) \<or> \<not> truthy (tac_ticket_reference c)
     then Inl (ValueError ''support access requires elevation, reason, and ticket reference'')
     else if tac_capabilities c = [] then Inl (ValueError ''support access requires explicit capabilities'')
     else Inr c)"

definition context_require :: "tenant_access_context \<Rightarrow> tenant_capability \<Rightarrow> datetime \<Rightarrow> unit result" where
  "context_require c capability now =
    (if \<exists>e. tac_expires_at c = Some e \<and> e \<le> now then Inl (PermissionError ''tenant access context has expired'')
     else if capability \<notin> set (tac_capabilities c)
     then Inl (PermissionError (''tenant capability '' @ str_repr (tenant_capability_value capability) @ '' is not granted''))
     else Inr ())"

definition audited_actor :: "tenant_access_context \<Rightarrow> actor_ref result" where
  "audited_actor c =
    (if tac_mode c = Access_TENANT then Inr (tac_actor c)
     else case tac_elevation_id c of
       None \<Rightarrow> Inl (AssertionError [])
     | Some e \<Rightarrow> Inr ((tac_actor c)\<lparr>actor_attributes :=
         AList.update ''prodkit.target_tenant'' (tac_tenant_id c)
           (AList.update ''prodkit.support_elevation'' e (actor_attributes (tac_actor c)))\<rparr>))"

definition validate_support_grant :: "support_elevation_grant \<Rightarrow> support_elevation_grant result" where
  "validate_support_grant g =
    (if seg_capabilities g = [] then Inl (ValueError ''support elevation requires at least one capability'')
     else if \<not> distinct (seg_capabilities g) then Inl (ValueError ''support elevation capabilities must be unique'')
     else if seg_expires_at g \<le> seg_issued_at g then Inl (ValueError ''support elevation must expire after issuance'')
     else if \<exists>r. seg_revoked_at g = Some r \<and> r < seg_issued_at g
     then Inl (ValueError ''support elevation cannot be revoked before issuance'')
     else Inr g)"

definition grant_active :: "support_elevation_grant \<Rightarrow> datetime \<Rightarrow> bool" where
  "grant_active g now = (seg_revoked_at g = None \<and> seg_issued_at g \<le> now \<and> now < seg_expires_at g)"

definition validate_tenant_lifecycle :: "tenant_lifecycle_record \<Rightarrow> tenant_lifecycle_record result" where
  "validate_tenant_lifecycle r =
    (let support_marker = map_of (actor_attributes (tlr_updated_by r)) ''prodkit.support_elevation''
     in if actor_tenant_id (tlr_updated_by r) \<noteq> tlr_tenant_id r
           \<and> (tlr_elevation_id r = None \<or> support_marker \<noteq> tlr_elevation_id r)
        then Inl (ValueError ''cross-tenant lifecycle mutation requires recorded support elevation'')
        else if actor_tenant_id (tlr_updated_by r) = tlr_tenant_id r
           \<and> tlr_elevation_id r \<noteq> None \<and> support_marker \<noteq> tlr_elevation_id r
        then Inl (ValueError ''lifecycle elevation identity does not match the audited actor'')
        else if tlr_legal_hold r \<and> tlr_status r = Tenant_DELETED
        then Inl (ValueError ''a tenant under legal hold cannot be marked deleted'')
        else if tlr_status r = Tenant_DELETION_SCHEDULED \<and> tlr_deletion_not_before r = None
        then Inl (ValueError ''scheduled deletion requires deletion_not_before'')
        else if tlr_status r = Tenant_DELETION_SCHEDULED \<and> tlr_legal_hold r
        then Inl (ValueError ''deletion cannot be scheduled while legal hold is active'')
        else if tlr_status r \<noteq> Tenant_DELETION_SCHEDULED \<and> tlr_deletion_not_before r \<noteq> None
        then Inl (ValueError ''deletion_not_before is only valid for scheduled deletion'')
        else Inr r)"

section \<open>The store\<close>

record tenant_store =
  ts_profiles :: "string \<rightharpoonup> tenant_isolation_profile"
  ts_grants :: "(string \<times> uuid) \<rightharpoonup> support_elevation_grant"
  ts_lifecycle :: "string \<rightharpoonup> tenant_lifecycle_record"
  ts_audit :: "string \<Rightarrow> tenant_audit_event list"

definition empty_tenants :: tenant_store where
  "empty_tenants = \<lparr>ts_profiles = Map.empty, ts_grants = Map.empty, ts_lifecycle = Map.empty, ts_audit = (\<lambda>_. [])\<rparr>"

definition same_actor_identity :: "actor_ref \<Rightarrow> actor_ref \<Rightarrow> bool" where
  "same_actor_identity l r = (actor_kind l = actor_kind r \<and> actor_id l = actor_id r
     \<and> actor_tenant_id l = actor_tenant_id r \<and> actor_workload_identity l = actor_workload_identity r)"

definition require_support_authority :: "actor_ref \<Rightarrow> unit result" where
  "require_support_authority a = raise_if (map_of (actor_attributes a) ''prodkit.support_authority'' \<noteq> Some ''true'')
     (AuthorizationDeniedError ''support elevation issuer lacks support authority'')"

definition require_support_operator :: "actor_ref \<Rightarrow> unit result" where
  "require_support_operator a = raise_if (map_of (actor_attributes a) ''prodkit.support_operator'' \<noteq> Some ''true'')
     (AuthorizationDeniedError ''support elevation recipient is not a support operator'')"

text \<open>Building the audit event of a call, which validates it, and appending it.\<close>

definition append_audit ::
  "uuid \<Rightarrow> string \<Rightarrow> tenant_audit_event_type \<Rightarrow> actor_ref \<Rightarrow> datetime \<Rightarrow> uuid option \<Rightarrow> string option \<Rightarrow> string option
    \<Rightarrow> (string \<times> string) list \<Rightarrow> (tenant_store, unit) prog" where
  "append_audit audit_id tenant ty actor now elevation reason ticket attributes =
    bindE (lift_result (check_fields ''TenantAuditEvent'' tenant_audit_event_fields
      \<lparr>tae_schema_name = ''prodkit.tenant-audit-event'', tae_schema_version = ''1.0.0'', tae_audit_id = audit_id,
       tae_tenant_id = strip tenant, tae_event_type = ty, tae_actor = actor, tae_occurred_at = now,
       tae_elevation_id = elevation, tae_reason = map_option strip reason, tae_ticket_reference = map_option strip ticket,
       tae_attributes = attributes\<rparr>)) (\<lambda>e s.
    (Inr (), s\<lparr>ts_audit := (ts_audit s)(tae_tenant_id e := ts_audit s (tae_tenant_id e) @ [e])\<rparr>))"

definition authorize :: "tenant_access_context \<Rightarrow> tenant_capability \<Rightarrow> datetime \<Rightarrow> tenant_store \<Rightarrow> unit result" where
  "authorize c capability now s =
    (case context_require c capability now of
       Inl e \<Rightarrow> Inl (AuthorizationDeniedError (exn_str e))
     | Inr _ \<Rightarrow>
         if tac_mode c = Access_TENANT then Inr ()
         else case tac_elevation_id c of
           None \<Rightarrow> Inl (AuthorizationDeniedError ''support access has no elevation identity'')
         | Some elevation \<Rightarrow>
             if \<not> (\<exists>p. ts_profiles s (tac_tenant_id c) = Some p \<and> tip_allow_support_access p)
             then Inl (AuthorizationDeniedError ''target tenant has disabled support elevation'')
             else (case ts_grants s (tac_tenant_id c, elevation) of
                     None \<Rightarrow> Inl (AuthorizationDeniedError ''support elevation no longer authorizes this operation'')
                   | Some g \<Rightarrow>
                       if \<not> grant_active g now \<or> \<not> same_actor_identity (seg_operator g) (tac_actor c)
                          \<or> capability \<notin> set (seg_capabilities g) \<or> Some (seg_reason g) \<noteq> tac_reason c
                          \<or> Some (seg_ticket_reference g) \<noteq> tac_ticket_reference c
                       then Inl (AuthorizationDeniedError ''support elevation no longer authorizes this operation'')
                       else Inr ()))"

definition authorized_step :: "tenant_access_context \<Rightarrow> tenant_capability \<Rightarrow> datetime \<Rightarrow> (tenant_store, unit) prog" where
  "authorized_step c capability now s = (authorize c capability now s, s)"

definition put_profile ::
  "sha256_fn \<Rightarrow> datetime \<Rightarrow> datetime \<Rightarrow> uuid \<Rightarrow> tenant_isolation_profile \<Rightarrow> tenant_access_context \<Rightarrow> (tenant_store, unit) prog" where
  "put_profile sha required_at now audit_id profile c =
    bindE (lift_result (raise_if (tac_mode c \<noteq> Access_TENANT)
      (AuthorizationDeniedError ''support elevation cannot change tenant isolation policy''))) (\<lambda>_.
    bindE (lift_result (context_require c Capability_CONFIGURE required_at)) (\<lambda>_.
    bindE (lift_result (raise_if (tac_tenant_id c \<noteq> tip_tenant_id profile)
      (AuthorizationDeniedError ''tenant profile mutation crossed tenant boundary''))) (\<lambda>_.
    bindE (\<lambda>s. (Inr (), s\<lparr>ts_profiles := (ts_profiles s)(tip_tenant_id profile \<mapsto> profile)\<rparr>)) (\<lambda>_.
    append_audit audit_id (tip_tenant_id profile) Audit_CONFIGURATION_CHANGED (tac_actor c) now None None None
      [(''profile_digest'', sha256_hex sha (dump_tenant_isolation_profile profile))]))))"

definition get_profile :: "datetime \<Rightarrow> tenant_access_context \<Rightarrow> tenant_store \<Rightarrow> tenant_isolation_profile option result" where
  "get_profile now c s = rbind (authorize c Capability_READ now s) (\<lambda>_. Inr (ts_profiles s (tac_tenant_id c)))"

record grant_arguments =
  ga_target_tenant_id :: string
  ga_operator :: actor_ref
  ga_issued_by :: actor_ref
  ga_capabilities :: "tenant_capability list"
  ga_reason :: string
  ga_ticket_reference :: string
  ga_ttl_seconds :: int

definition new_support_grant :: "datetime \<Rightarrow> uuid \<Rightarrow> grant_arguments \<Rightarrow> support_elevation_grant result" where
  "new_support_grant now grant_id a =
    rbind (check_fields ''SupportElevationGrant'' support_elevation_grant_fields
      \<lparr>seg_schema_name = ''prodkit.support-elevation-grant'', seg_schema_version = ''1.0.0'', seg_grant_id = grant_id,
       seg_target_tenant_id = strip (ga_target_tenant_id a), seg_operator = ga_operator a, seg_issued_by = ga_issued_by a,
       seg_capabilities = ga_capabilities a, seg_reason = strip (ga_reason a), seg_ticket_reference = strip (ga_ticket_reference a),
       seg_issued_at = now, seg_expires_at = now + ga_ttl_seconds a * 1000000, seg_revoked_at = None\<rparr>)
    validate_support_grant"

definition set_grant :: "string \<times> uuid \<Rightarrow> support_elevation_grant \<Rightarrow> (tenant_store, unit) prog" where
  "set_grant k g s = (Inr (), s\<lparr>ts_grants := (ts_grants s)(k \<mapsto> g)\<rparr>)"

definition allows_support :: "string \<Rightarrow> tenant_store \<Rightarrow> bool" where
  "allows_support tenant s = (\<exists>p. ts_profiles s tenant = Some p \<and> tip_allow_support_access p)"

definition issue_support_grant ::
  "datetime \<Rightarrow> uuid \<Rightarrow> uuid \<Rightarrow> grant_arguments \<Rightarrow> (tenant_store, support_elevation_grant) prog" where
  "issue_support_grant now grant_id audit_id a =
    bindE (lift_result (raise_if (ga_ttl_seconds a < 30 \<or> 3600 < ga_ttl_seconds a)
      (ValueError ''support elevation TTL must be between 30 and 3600 seconds''))) (\<lambda>_.
    bindE (lift_result (require_support_authority (ga_issued_by a))) (\<lambda>_.
    bindE (lift_result (require_support_operator (ga_operator a))) (\<lambda>_.
    bindE (\<lambda>s. (raise_if (\<not> allows_support (ga_target_tenant_id a) s)
      (AuthorizationDeniedError ''target tenant has not enabled support elevation''), s)) (\<lambda>_.
    bindE (lift_result (new_support_grant now grant_id a)) (\<lambda>grant.
    bindE (set_grant (ga_target_tenant_id a, grant_id) grant) (\<lambda>_.
    bindE (append_audit audit_id (ga_target_tenant_id a) Audit_SUPPORT_ELEVATION_ISSUED (ga_issued_by a) now (Some grant_id)
      (Some (ga_reason a)) (Some (ga_ticket_reference a))
      [(''operator_id'', actor_id (ga_operator a)),
       (''capabilities'', join '','' (map tenant_capability_value (ga_capabilities a)))]) (\<lambda>_.
    ret grant)))))))"

definition redeem_support_grant ::
  "datetime \<Rightarrow> uuid \<Rightarrow> string \<Rightarrow> uuid \<Rightarrow> actor_ref \<Rightarrow> (tenant_store, tenant_access_context) prog" where
  "redeem_support_grant now audit_id tenant grant_id operator s =
    (if \<not> allows_support tenant s then (Inl (AuthorizationDeniedError ''target tenant has disabled support elevation''), s)
     else case ts_grants s (tenant, grant_id) of
       None \<Rightarrow> (Inl (AuthorizationDeniedError ''support elevation is missing, expired, or revoked''), s)
     | Some grant \<Rightarrow>
         if \<not> same_actor_identity (seg_operator grant) operator \<or> \<not> grant_active grant now
         then (Inl (AuthorizationDeniedError ''support elevation is missing, expired, or revoked''), s)
         else bindE (lift_result (rbind (check_fields ''TenantAccessContext'' tenant_access_context_fields
             \<lparr>tac_schema_name = ''prodkit.tenant-access-context'', tac_schema_version = ''1.0.0'', tac_tenant_id = strip tenant,
              tac_actor = operator, tac_mode = Access_SUPPORT, tac_capabilities = seg_capabilities grant,
              tac_elevation_id = Some (seg_grant_id grant), tac_reason = Some (seg_reason grant),
              tac_ticket_reference = Some (seg_ticket_reference grant), tac_issued_at = seg_issued_at grant,
              tac_expires_at = Some (seg_expires_at grant)\<rparr>) validate_tenant_access_context)) (\<lambda>c.
           bindE (lift_result (audited_actor c)) (\<lambda>actor.
           bindE (append_audit audit_id tenant Audit_SUPPORT_ELEVATION_USED actor now (Some (seg_grant_id grant))
             (Some (seg_reason grant)) (Some (seg_ticket_reference grant)) []) (\<lambda>_.
           ret c))) s)"

definition revoke_support_grant ::
  "datetime \<Rightarrow> uuid \<Rightarrow> string \<Rightarrow> uuid \<Rightarrow> actor_ref \<Rightarrow> string \<Rightarrow> (tenant_store, unit) prog" where
  "revoke_support_grant now audit_id tenant grant_id actor reason s =
    (case ts_grants s (tenant, grant_id) of
       None \<Rightarrow> (Inl (KeyError grant_id), s)
     | Some grant \<Rightarrow>
         bindE (lift_result (if same_actor_identity (seg_operator grant) actor then Inr () else require_support_authority actor)) (\<lambda>_.
         if seg_revoked_at grant \<noteq> None then ret ()
         else bindE (set_grant (tenant, grant_id) (grant\<lparr>seg_revoked_at := Some now\<rparr>)) (\<lambda>_.
           append_audit audit_id tenant Audit_SUPPORT_ELEVATION_REVOKED actor now (Some grant_id) (Some reason)
             (Some (seg_ticket_reference grant)) [])) s)"

definition put_lifecycle :: "string \<Rightarrow> tenant_lifecycle_record \<Rightarrow> (tenant_store, unit) prog" where
  "put_lifecycle tenant r s = (Inr (), s\<lparr>ts_lifecycle := (ts_lifecycle s)(tenant \<mapsto> r)\<rparr>)"

definition new_tenant_lifecycle ::
  "string \<Rightarrow> tenant_lifecycle_status \<Rightarrow> bool \<Rightarrow> datetime option \<Rightarrow> datetime \<Rightarrow> actor_ref \<Rightarrow> uuid option \<Rightarrow> tenant_lifecycle_record result" where
  "new_tenant_lifecycle tenant status hold not_before now actor elevation =
    rbind (check_fields ''TenantLifecycleRecord'' tenant_lifecycle_record_fields
      \<lparr>tlr_schema_name = ''prodkit.tenant-lifecycle'', tlr_schema_version = ''1.0.0'', tlr_tenant_id = strip tenant,
       tlr_status = status, tlr_legal_hold = hold, tlr_deletion_not_before = not_before, tlr_updated_at = now,
       tlr_updated_by = actor, tlr_elevation_id = elevation\<rparr>)
    validate_tenant_lifecycle"

definition hold_status :: "bool \<Rightarrow> string \<Rightarrow> tenant_store \<Rightarrow> tenant_lifecycle_status" where
  "hold_status enabled tenant s =
    (let status = (case ts_lifecycle s tenant of None \<Rightarrow> Tenant_ACTIVE | Some r \<Rightarrow> tlr_status r)
     in if enabled \<and> status = Tenant_DELETION_SCHEDULED then Tenant_ACTIVE else status)"

definition set_legal_hold ::
  "datetime \<Rightarrow> uuid \<Rightarrow> tenant_access_context \<Rightarrow> bool \<Rightarrow> string \<Rightarrow> (tenant_store, tenant_lifecycle_record) prog" where
  "set_legal_hold now audit_id c enabled reason =
    bindE (authorized_step c Capability_LEGAL_HOLD now) (\<lambda>_.
    bindE (lift_result (audited_actor c)) (\<lambda>actor s.
    bindE (lift_result (new_tenant_lifecycle (tac_tenant_id c) (hold_status enabled (tac_tenant_id c) s) enabled None now actor
      (tac_elevation_id c))) (\<lambda>r.
    bindE (put_lifecycle (tac_tenant_id c) r) (\<lambda>_.
    bindE (append_audit audit_id (tac_tenant_id c) (if enabled then Audit_LEGAL_HOLD_PLACED else Audit_LEGAL_HOLD_RELEASED) actor now
      (tac_elevation_id c) (Some reason) (tac_ticket_reference c) []) (\<lambda>_.
    ret r))) s))"

definition schedule_deletion ::
  "datetime \<Rightarrow> uuid \<Rightarrow> tenant_access_context \<Rightarrow> datetime \<Rightarrow> string \<Rightarrow> (tenant_store, tenant_lifecycle_record) prog" where
  "schedule_deletion now audit_id c not_before reason =
    bindE (lift_result (raise_if (not_before \<le> now)
      (ValueError ''tenant deletion must be scheduled for a future aware datetime''))) (\<lambda>_.
    bindE (authorized_step c Capability_DELETE now) (\<lambda>_.
    bindE (\<lambda>s. (raise_if (\<exists>r. ts_lifecycle s (tac_tenant_id c) = Some r \<and> tlr_legal_hold r)
      (AuthorizationDeniedError ''tenant deletion is blocked by legal hold''), s)) (\<lambda>_.
    bindE (lift_result (audited_actor c)) (\<lambda>actor.
    bindE (lift_result (new_tenant_lifecycle (tac_tenant_id c) Tenant_DELETION_SCHEDULED False (Some not_before) now actor
      (tac_elevation_id c))) (\<lambda>r.
    bindE (put_lifecycle (tac_tenant_id c) r) (\<lambda>_.
    bindE (append_audit audit_id (tac_tenant_id c) Audit_DELETION_SCHEDULED actor now (tac_elevation_id c) (Some reason)
      (tac_ticket_reference c) [(''not_before'', isoformat_offset not_before)]) (\<lambda>_.
    ret r)))))))"

definition deletion_due :: "datetime \<Rightarrow> tenant_lifecycle_record \<Rightarrow> bool" where
  "deletion_due now r = (tlr_status r = Tenant_DELETION_SCHEDULED \<and> (\<exists>t. tlr_deletion_not_before r = Some t \<and> t \<le> now)
     \<and> \<not> tlr_legal_hold r)"

definition complete_deletion ::
  "datetime \<Rightarrow> uuid \<Rightarrow> tenant_access_context \<Rightarrow> (tenant_store, tenant_lifecycle_record) prog" where
  "complete_deletion now audit_id c =
    bindE (authorized_step c Capability_DELETE now) (\<lambda>_ s.
    case ts_lifecycle s (tac_tenant_id c) of
      None \<Rightarrow> (Inl (AuthorizationDeniedError ''tenant deletion is not currently permitted''), s)
    | Some current \<Rightarrow>
        if \<not> deletion_due now current then (Inl (AuthorizationDeniedError ''tenant deletion is not currently permitted''), s)
        else bindE (lift_result (audited_actor c)) (\<lambda>actor.
          bindE (put_lifecycle (tac_tenant_id c) (current\<lparr>tlr_status := Tenant_DELETED, tlr_deletion_not_before := None, tlr_updated_at := now,
            tlr_updated_by := actor, tlr_elevation_id := tac_elevation_id c\<rparr>)) (\<lambda>_.
          bindE (append_audit audit_id (tac_tenant_id c) Audit_DELETION_COMPLETED actor now (tac_elevation_id c) (tac_reason c)
            (tac_ticket_reference c) []) (\<lambda>_.
          ret (current\<lparr>tlr_status := Tenant_DELETED, tlr_deletion_not_before := None, tlr_updated_at := now,
            tlr_updated_by := actor, tlr_elevation_id := tac_elevation_id c\<rparr>)))) s)"

definition export_manifest ::
  "sha256_fn \<Rightarrow> datetime \<Rightarrow> uuid \<Rightarrow> uuid \<Rightarrow> tenant_access_context \<Rightarrow> (string \<times> int) list \<Rightarrow> string list
    \<Rightarrow> (tenant_store, tenant_export_manifest) prog" where
  "export_manifest sha now export_id audit_id c record_counts content_digests =
    bindE (lift_result (raise_if (list_ex (\<lambda>kv. snd kv < 0) record_counts)
      (ValueError ''tenant export record counts cannot be negative''))) (\<lambda>_.
    bindE (authorized_step c Capability_EXPORT now) (\<lambda>_.
    bindE (lift_result (audited_actor c)) (\<lambda>actor.
    bindE (lift_result (check_fields ''TenantExportManifest'' tenant_export_manifest_fields
      \<lparr>tem_schema_name = ''prodkit.tenant-export-manifest'', tem_schema_version = ''1.0.0'', tem_export_id = export_id,
       tem_tenant_id = tac_tenant_id c, tem_created_at = now, tem_created_by = actor, tem_elevation_id = tac_elevation_id c,
       tem_record_counts = record_counts, tem_content_digests = map strip content_digests, tem_legal_hold_preserved = True\<rparr>)) (\<lambda>m.
    bindE (append_audit audit_id (tac_tenant_id c) Audit_EXPORT_CREATED actor now (tac_elevation_id c) (tac_reason c)
      (tac_ticket_reference c) [(''manifest_digest'', sha256_hex sha (dump_tenant_export_manifest m))]) (\<lambda>_.
    ret m)))))"

definition list_audit :: "datetime \<Rightarrow> tenant_access_context \<Rightarrow> tenant_store \<Rightarrow> tenant_audit_event list result" where
  "list_audit now c s = rbind (authorize c Capability_READ now s) (\<lambda>_. Inr (ts_audit s (tac_tenant_id c)))"

definition tenant_cache_key :: "sha256_fn \<Rightarrow> string \<Rightarrow> string \<Rightarrow> string \<Rightarrow> string result" where
  "tenant_cache_key sha tenant namespace key =
    (if is_blank tenant \<or> is_blank namespace \<or> is_blank key
     then Inl (ValueError ''tenant cache key components must be non-blank'')
     else Inr (''prodkit:'' @ sha256_hex sha (PDict [(KStr ''tenant_id'', PStr tenant)]) @ '':'' @ namespace @ '':''
            @ sha256_hex sha (PDict [(KStr ''key'', PStr key)])))"

section \<open>What each operation does\<close>

definition with_audit :: "tenant_audit_event \<Rightarrow> tenant_store \<Rightarrow> tenant_store" where
  "with_audit e s = s\<lparr>ts_audit := (ts_audit s)(tae_tenant_id e := ts_audit s (tae_tenant_id e) @ [e])\<rparr>"

lemma with_audit_simps [simp]:
  "ts_profiles (with_audit e s) = ts_profiles s" "ts_grants (with_audit e s) = ts_grants s"
  "ts_lifecycle (with_audit e s) = ts_lifecycle s"
  "ts_audit (with_audit e s) = (ts_audit s)(tae_tenant_id e := ts_audit s (tae_tenant_id e) @ [e])"
  by (simp_all add: with_audit_def)

text \<open>A call mutated the store to \<open>s1\<close> and then wrote its audit event: it returned with the event, or raised without.\<close>

definition audited_as :: "string \<Rightarrow> 'a \<Rightarrow> tenant_store \<Rightarrow> 'a result \<Rightarrow> tenant_store \<Rightarrow> bool" where
  "audited_as tenant x s1 r s' \<longleftrightarrow> ((\<exists>e. r = Inl e) \<and> s' = s1)
    \<or> (r = Inr x \<and> (\<exists>ev. tae_tenant_id ev = strip tenant \<and> s' = with_audit ev s1))"

lemma append_audit_run:
  "(\<exists>e. append_audit i tenant ty actor now elevation reason ticket attrs s = (Inl e, s))
    \<or> (\<exists>ev. tae_tenant_id ev = strip tenant
        \<and> append_audit i tenant ty actor now elevation reason ticket attrs s = (Inr (), with_audit ev s))"
proof -
  let ?ev = "\<lparr>tae_schema_name = ''prodkit.tenant-audit-event'', tae_schema_version = ''1.0.0'', tae_audit_id = i,
     tae_tenant_id = strip tenant, tae_event_type = ty, tae_actor = actor, tae_occurred_at = now,
     tae_elevation_id = elevation, tae_reason = map_option strip reason, tae_ticket_reference = map_option strip ticket,
     tae_attributes = attrs\<rparr>"
  show ?thesis
  proof (cases "tenant_audit_event_fields ?ev")
    case True
    then have "append_audit i tenant ty actor now elevation reason ticket attrs s = (Inr (), with_audit ?ev s)"
      by (simp add: append_audit_def bindE_def check_fields_def with_audit_def)
    moreover have "tae_tenant_id ?ev = strip tenant" by simp
    ultimately show ?thesis by blast
  next
    case False
    then show ?thesis by (simp add: append_audit_def bindE_def check_fields_def)
  qed
qed

lemma append_audit_effect:
  assumes "bindE (append_audit i tenant ty actor now elevation reason ticket attrs) (\<lambda>_. ret x) s1 = (r, s')"
  shows "audited_as tenant x s1 r s'"
  using append_audit_run [of i tenant ty actor now elevation reason ticket attrs s1] assms
  by (auto simp: bindE_def audited_as_def)

lemma append_audit_effect0:
  assumes "append_audit i tenant ty actor now elevation reason ticket attrs s1 = (r, s')"
  shows "audited_as tenant () s1 r s'"
  using append_audit_run [of i tenant ty actor now elevation reason ticket attrs s1] assms
  by (auto simp: audited_as_def)

definition valid_context :: "tenant_access_context \<Rightarrow> bool" where
  "valid_context c \<longleftrightarrow> tenant_access_context_fields c \<and> validate_tenant_access_context c = Inr c"

lemma put_profile_effect:
  assumes "put_profile sha at1 now i p c s = (r, s')"
  shows "(\<exists>e. r = Inl e) \<and> s' = s \<or> tac_mode c = Access_TENANT \<and> tac_tenant_id c = tip_tenant_id p
    \<and> audited_as (tip_tenant_id p) () (s\<lparr>ts_profiles := (ts_profiles s)(tip_tenant_id p \<mapsto> p)\<rparr>) r s'"
  using assms
  by (auto simp: put_profile_def raise_if_def elim!: bindE_cases dest!: append_audit_effect0 split: if_splits)

lemma bindE_check: "bindE (\<lambda>s. (raise_if (b s) e, s)) f s = (if b s then (Inl e, s) else f () s)"
  by (simp add: bindE_def raise_if_def)

lemma bindE_set_grant: "bindE (set_grant k g) f s = f () (s\<lparr>ts_grants := (ts_grants s)(k \<mapsto> g)\<rparr>)"
  by (simp add: bindE_def set_grant_def)

lemma bindE_put_lifecycle: "bindE (put_lifecycle t x) f s = f () (s\<lparr>ts_lifecycle := (ts_lifecycle s)(t \<mapsto> x)\<rparr>)"
  by (simp add: bindE_def put_lifecycle_def)

lemma bindE_authorized: "bindE (authorized_step c cap now) f s = (case authorize c cap now s of Inl e \<Rightarrow> (Inl e, s) | Inr _ \<Rightarrow> f () s)"
  by (simp add: bindE_def authorized_step_def split: sum.splits)

lemmas tenant_run = bindE_pure bindE_check bindE_set_grant bindE_put_lifecycle bindE_authorized

lemma issue_effect:
  assumes "issue_support_grant now gid i a s = (r, s')"
  shows "(\<exists>e. r = Inl e) \<and> s' = s \<or> (\<exists>g. allows_support (ga_target_tenant_id a) s \<and> new_support_grant now gid a = Inr g
    \<and> audited_as (ga_target_tenant_id a) g (s\<lparr>ts_grants := (ts_grants s)((ga_target_tenant_id a, gid) \<mapsto> g)\<rparr>) r s')"
  using assms unfolding issue_support_grant_def tenant_run
  by (auto split: sum.splits if_splits intro: raisedI dest: append_audit_effect)

lemma redeem_effect:
  assumes "redeem_support_grant now i tenant gid operator s = (r, s')"
  shows "(\<exists>e. r = Inl e) \<and> s' = s \<or> (\<exists>g c. ts_grants s (tenant, gid) = Some g \<and> audited_as tenant c s r s')"
  using assms unfolding redeem_support_grant_def tenant_run
  by (auto split: sum.splits if_splits option.splits intro: raisedI dest: append_audit_effect)

lemma revoke_effect:
  assumes "revoke_support_grant now i tenant gid actor reason s = (r, s')"
  shows "s' = s \<or> (\<exists>g. ts_grants s (tenant, gid) = Some g \<and> seg_revoked_at g = None
    \<and> audited_as tenant () (s\<lparr>ts_grants := (ts_grants s)((tenant, gid) \<mapsto> g\<lparr>seg_revoked_at := Some now\<rparr>)\<rparr>) r s')"
  using assms unfolding revoke_support_grant_def tenant_run
  by (auto split: sum.splits if_splits option.splits intro: raisedI dest: append_audit_effect0 simp: tenant_run)

lemma hold_effect:
  assumes "set_legal_hold now i c enabled reason s = (r, s')"
  shows "(\<exists>e. r = Inl e) \<and> s' = s \<or> (\<exists>actor x. authorize c Capability_LEGAL_HOLD now s = Inr ()
    \<and> new_tenant_lifecycle (tac_tenant_id c) (hold_status enabled (tac_tenant_id c) s) enabled None now actor (tac_elevation_id c) = Inr x
    \<and> audited_as (tac_tenant_id c) x (s\<lparr>ts_lifecycle := (ts_lifecycle s)(tac_tenant_id c \<mapsto> x)\<rparr>) r s')"
  using assms unfolding set_legal_hold_def tenant_run
  by (auto split: sum.splits intro: raisedI dest: append_audit_effect)

lemma schedule_effect:
  assumes "schedule_deletion now i c not_before reason s = (r, s')"
  shows "(\<exists>e. r = Inl e) \<and> s' = s \<or> (\<exists>actor x. authorize c Capability_DELETE now s = Inr ()
    \<and> \<not> (\<exists>y. ts_lifecycle s (tac_tenant_id c) = Some y \<and> tlr_legal_hold y)
    \<and> new_tenant_lifecycle (tac_tenant_id c) Tenant_DELETION_SCHEDULED False (Some not_before) now actor (tac_elevation_id c) = Inr x
    \<and> audited_as (tac_tenant_id c) x (s\<lparr>ts_lifecycle := (ts_lifecycle s)(tac_tenant_id c \<mapsto> x)\<rparr>) r s')"
  using assms unfolding schedule_deletion_def tenant_run
  by (auto split: sum.splits if_splits intro: raisedI dest: append_audit_effect)

definition deleted_copy :: "datetime \<Rightarrow> actor_ref \<Rightarrow> uuid option \<Rightarrow> tenant_lifecycle_record \<Rightarrow> tenant_lifecycle_record" where
  "deleted_copy now actor elevation x = x\<lparr>tlr_status := Tenant_DELETED, tlr_deletion_not_before := None, tlr_updated_at := now,
     tlr_updated_by := actor, tlr_elevation_id := elevation\<rparr>"

lemma complete_effect:
  assumes "complete_deletion now i c s = (r, s')"
  shows "(\<exists>e. r = Inl e) \<and> s' = s \<or> (\<exists>actor x. authorize c Capability_DELETE now s = Inr ()
    \<and> ts_lifecycle s (tac_tenant_id c) = Some x \<and> deletion_due now x \<and> audited_actor c = Inr actor
    \<and> audited_as (tac_tenant_id c) (deleted_copy now actor (tac_elevation_id c) x)
        (s\<lparr>ts_lifecycle := (ts_lifecycle s)(tac_tenant_id c \<mapsto> deleted_copy now actor (tac_elevation_id c) x)\<rparr>) r s')"
  using assms unfolding complete_deletion_def tenant_run
  by (auto split: sum.splits if_splits option.splits intro: raisedI dest: append_audit_effect simp: tenant_run deleted_copy_def)

lemma export_effect:
  assumes "export_manifest sha now eid i c counts digests s = (r, s')"
  shows "(\<exists>e. r = Inl e) \<and> s' = s \<or> (\<exists>m. authorize c Capability_EXPORT now s = Inr () \<and> audited_as (tac_tenant_id c) m s r s')"
  using assms unfolding export_manifest_def tenant_run
  by (auto split: sum.splits if_splits intro: raisedI dest: append_audit_effect)

section \<open>Histories\<close>

text \<open>
  A call of a caller for a tenant, whether it returned, and the store before and after. The tenant is that of the caller's access context,
  also for \<open>put_profile\<close>, whatever tenant its profile names; the operations on support grants have no context and name the
  tenant as an argument. A \<open>uuid4\<close> is fresh.
\<close>

inductive tenant_call :: "sha256_fn \<Rightarrow> string \<Rightarrow> bool \<Rightarrow> tenant_store \<Rightarrow> tenant_store \<Rightarrow> bool" for sha where
  profile: "tenant_isolation_profile_fields p \<Longrightarrow> valid_context c \<Longrightarrow> put_profile sha at1 now i p c s = (r, s') \<Longrightarrow>
    tenant_call sha (tac_tenant_id c) (\<not> isl r) s s'"
| issue: "ts_grants s (ga_target_tenant_id a, gid) = None \<Longrightarrow> issue_support_grant now gid i a s = (r, s') \<Longrightarrow>
    tenant_call sha (ga_target_tenant_id a) (\<not> isl r) s s'"
| redeem: "redeem_support_grant now i tenant gid operator s = (r, s') \<Longrightarrow> tenant_call sha tenant (\<not> isl r) s s'"
| revoke: "revoke_support_grant now i tenant gid actor reason s = (r, s') \<Longrightarrow> tenant_call sha tenant (\<not> isl r) s s'"
| hold: "valid_context c \<Longrightarrow> set_legal_hold now i c enabled reason s = (r, s') \<Longrightarrow> tenant_call sha (tac_tenant_id c) (\<not> isl r) s s'"
| schedule: "valid_context c \<Longrightarrow> schedule_deletion now i c not_before reason s = (r, s') \<Longrightarrow> tenant_call sha (tac_tenant_id c) (\<not> isl r) s s'"
| complete: "valid_context c \<Longrightarrow> complete_deletion now i c s = (r, s') \<Longrightarrow> tenant_call sha (tac_tenant_id c) (\<not> isl r) s s'"
| export: "valid_context c \<Longrightarrow> export_manifest sha now eid i c counts digests s = (r, s') \<Longrightarrow> tenant_call sha (tac_tenant_id c) (\<not> isl r) s s'"

definition tenant_step :: "sha256_fn \<Rightarrow> tenant_store \<Rightarrow> tenant_store \<Rightarrow> bool" where
  "tenant_step sha s s' \<longleftrightarrow> (\<exists>t returned. tenant_call sha t returned s s')"

definition grant_evolves :: "support_elevation_grant option \<Rightarrow> support_elevation_grant option \<Rightarrow> bool" where
  "grant_evolves g g' \<longleftrightarrow> g = None \<or> g' = g \<or> (\<exists>x now. g = Some x \<and> seg_revoked_at x = None \<and> g' = Some (x\<lparr>seg_revoked_at := Some now\<rparr>))"

definition record_ok :: "string \<Rightarrow> tenant_lifecycle_record \<Rightarrow> bool" where
  "record_ok t x \<longleftrightarrow> tlr_tenant_id x = t \<and> validate_tenant_lifecycle x = Inr x"

text \<open>What a call may have done to the store before it wrote its audit event.\<close>

definition mutated :: "string \<Rightarrow> tenant_store \<Rightarrow> tenant_store \<Rightarrow> bool" where
  "mutated t s s1 \<longleftrightarrow> nonblank t \<and> ts_audit s1 = ts_audit s
    \<and> (\<forall>u. u \<noteq> t \<longrightarrow> ts_profiles s1 u = ts_profiles s u \<and> ts_lifecycle s1 u = ts_lifecycle s u
         \<and> (\<forall>i. ts_grants s1 (u, i) = ts_grants s (u, i)))
    \<and> (\<forall>k. grant_evolves (ts_grants s k) (ts_grants s1 k))
    \<and> (ts_lifecycle s1 t = ts_lifecycle s t \<or> (\<exists>x. ts_lifecycle s1 t = Some x \<and> record_ok t x))"

definition tenant_inv :: "tenant_store \<Rightarrow> bool" where
  "tenant_inv s \<longleftrightarrow> (\<forall>t p. ts_profiles s t = Some p \<longrightarrow> nonblank t) \<and> (\<forall>t i g. ts_grants s (t, i) = Some g \<longrightarrow> nonblank t)
    \<and> (\<forall>t x. ts_lifecycle s t = Some x \<longrightarrow> record_ok t x)"

lemma valid_context_tenant: "valid_context c \<Longrightarrow> nonblank (tac_tenant_id c)"
  by (simp add: valid_context_def tenant_access_context_fields_def)

lemma audited_marker:
  assumes "valid_context c" "audited_actor c = Inr a"
  shows "actor_tenant_id a \<noteq> tac_tenant_id c \<Longrightarrow> tac_elevation_id c \<noteq> None"
    "tac_elevation_id c \<noteq> None \<Longrightarrow> map_of (actor_attributes a) ''prodkit.support_elevation'' = tac_elevation_id c"
  using assms
  by (auto simp: valid_context_def validate_tenant_access_context_def audited_actor_def update_conv split: if_splits option.splits)

lemma deleted_copy_ok:
  assumes "valid_context c" "audited_actor c = Inr a" "deletion_due now x" "tlr_tenant_id x = tac_tenant_id c"
  shows "record_ok (tac_tenant_id c) (deleted_copy now a (tac_elevation_id c) x)"
proof -
  have "tac_elevation_id c = None \<Longrightarrow> actor_tenant_id a = tac_tenant_id c" using audited_marker(1) [OF assms(1,2)] by blast
  moreover have "tac_elevation_id c \<noteq> None \<Longrightarrow> map_of (actor_attributes a) ''prodkit.support_elevation'' = tac_elevation_id c"
    by (rule audited_marker(2) [OF assms(1,2)])
  ultimately show ?thesis using assms(3,4)
    by (cases "tac_elevation_id c") (auto simp: record_ok_def validate_tenant_lifecycle_def deleted_copy_def deletion_due_def Let_def)
qed

lemma validate_tenant_lifecycle_id: "validate_tenant_lifecycle x = Inr y \<Longrightarrow> y = x"
  by (simp add: validate_tenant_lifecycle_def Let_def split: if_splits)

lemma new_tenant_lifecycle_ok:
  assumes "new_tenant_lifecycle t status hold nb now actor elevation = Inr x" "nonblank t"
  shows "record_ok t x" "tlr_legal_hold x = hold" "tlr_status x = status"
proof -
  let ?x = "\<lparr>tlr_schema_name = ''prodkit.tenant-lifecycle'', tlr_schema_version = ''1.0.0'', tlr_tenant_id = strip t,
     tlr_status = status, tlr_legal_hold = hold, tlr_deletion_not_before = nb, tlr_updated_at = now,
     tlr_updated_by = actor, tlr_elevation_id = elevation\<rparr>"
  have v: "validate_tenant_lifecycle ?x = Inr x"
    using assms(1) unfolding new_tenant_lifecycle_def rbind_eq_Inr check_fields_eq_Inr by blast
  then have x: "x = ?x" by (rule validate_tenant_lifecycle_id)
  with v have "validate_tenant_lifecycle x = Inr x" by simp
  with x assms(2) show "record_ok t x" "tlr_legal_hold x = hold" "tlr_status x = status"
    by (simp_all add: record_ok_def nonblank_def)
qed

lemma mutatedI:
  assumes "nonblank t"
  shows "mutated t s s"
    "mutated t s (s\<lparr>ts_profiles := (ts_profiles s)(t \<mapsto> p)\<rparr>)"
    "ts_grants s (t, i) = None \<Longrightarrow> mutated t s (s\<lparr>ts_grants := (ts_grants s)((t, i) \<mapsto> g)\<rparr>)"
    "ts_grants s (t, i) = Some g \<Longrightarrow> seg_revoked_at g = None \<Longrightarrow>
      mutated t s (s\<lparr>ts_grants := (ts_grants s)((t, i) \<mapsto> g\<lparr>seg_revoked_at := Some now\<rparr>)\<rparr>)"
    "record_ok t x \<Longrightarrow> mutated t s (s\<lparr>ts_lifecycle := (ts_lifecycle s)(t \<mapsto> x)\<rparr>)"
  using assms by (auto simp: mutated_def grant_evolves_def)

definition call_effect :: "string \<Rightarrow> bool \<Rightarrow> tenant_store \<Rightarrow> tenant_store \<Rightarrow> bool" where
  "call_effect t returned s s' \<longleftrightarrow> s' = s \<or>
    (\<exists>s1. mutated t s s1 \<and> (s' = s1 \<and> \<not> returned \<or> (\<exists>ev. tae_tenant_id ev = t \<and> s' = with_audit ev s1 \<and> returned)))"

lemma audited_effect: "audited_as t x s1 r s' \<Longrightarrow> mutated t s s1 \<Longrightarrow> call_effect t (\<not> isl r) s s'"
proof -
  assume aud: "audited_as t x s1 r s'" and m: "mutated t s s1"
  from m have "strip t = t" by (simp add: mutated_def nonblank_def)
  with aud consider "isl r" "s' = s1" | ev where "\<not> isl r" "tae_tenant_id ev = t" "s' = with_audit ev s1"
    by (auto simp: audited_as_def)
  then show ?thesis using m unfolding call_effect_def by cases blast+
qed

lemma grant_nonblank: "tenant_inv s \<Longrightarrow> ts_grants s (t, i) = Some g \<Longrightarrow> nonblank t"
  unfolding tenant_inv_def by blast

lemma allows_support_nonblank: "tenant_inv s \<Longrightarrow> allows_support t s \<Longrightarrow> nonblank t"
  by (auto simp: tenant_inv_def allows_support_def)

lemma tenant_call_effect:
  assumes "tenant_call sha t returned s s'" "tenant_inv s"
  shows "call_effect t returned s s'"
  using assms(1)
proof cases
  case (profile p c at1 now i r)
  from put_profile_effect [OF profile(5)] show ?thesis
  proof (elim disjE exE conjE)
    assume own: "tac_tenant_id c = tip_tenant_id p"
      and aud: "audited_as (tip_tenant_id p) () (s\<lparr>ts_profiles := (ts_profiles s)(tip_tenant_id p \<mapsto> p)\<rparr>) r s'"
    have "mutated t s (s\<lparr>ts_profiles := (ts_profiles s)(t \<mapsto> p)\<rparr>)"
      using valid_context_tenant [OF profile(4)] profile(1) by (intro mutatedI) simp
    with aud own profile show ?thesis by (auto intro: audited_effect)
  qed (simp add: call_effect_def)
next
  case (issue a gid now i r)
  from issue_effect [OF issue(4)] show ?thesis
  proof (elim disjE exE conjE)
    fix g
    assume "allows_support (ga_target_tenant_id a) s"
      and aud: "audited_as (ga_target_tenant_id a) g (s\<lparr>ts_grants := (ts_grants s)((ga_target_tenant_id a, gid) \<mapsto> g)\<rparr>) r s'"
    then have "mutated t s (s\<lparr>ts_grants := (ts_grants s)((t, gid) \<mapsto> g)\<rparr>)"
      using issue allows_support_nonblank [OF assms(2)] by (intro mutatedI) simp_all
    with aud issue show ?thesis by (auto intro: audited_effect)
  qed (simp add: call_effect_def)
next
  case (redeem now i gid operator r)
  from redeem_effect [OF redeem(2)] show ?thesis
  proof (elim disjE exE conjE)
    fix g c
    assume "ts_grants s (t, gid) = Some g" and aud: "audited_as t c s r s'"
    then have "mutated t s s" using grant_nonblank [OF assms(2)] by (intro mutatedI) blast
    with aud redeem show ?thesis by (auto intro: audited_effect)
  qed (simp add: call_effect_def)
next
  case (revoke now i gid actor reason r)
  from revoke_effect [OF revoke(2)] show ?thesis
  proof (elim disjE exE conjE)
    fix g
    assume g: "ts_grants s (t, gid) = Some g" "seg_revoked_at g = None"
      and aud: "audited_as t () (s\<lparr>ts_grants := (ts_grants s)((t, gid) \<mapsto> g\<lparr>seg_revoked_at := Some now\<rparr>)\<rparr>) r s'"
    then have "mutated t s (s\<lparr>ts_grants := (ts_grants s)((t, gid) \<mapsto> g\<lparr>seg_revoked_at := Some now\<rparr>)\<rparr>)"
      using grant_nonblank [OF assms(2)] by (intro mutatedI) blast+
    with aud revoke show ?thesis by (auto intro: audited_effect)
  qed (simp add: call_effect_def)
next
  case (hold c now i enabled reason r)
  note nb = valid_context_tenant [OF hold(3)]
  from hold_effect [OF hold(4)] show ?thesis
  proof (elim disjE exE conjE)
    fix actor x
    assume x: "new_tenant_lifecycle (tac_tenant_id c) (hold_status enabled (tac_tenant_id c) s) enabled None now actor (tac_elevation_id c) = Inr x"
      and aud: "audited_as (tac_tenant_id c) x (s\<lparr>ts_lifecycle := (ts_lifecycle s)(tac_tenant_id c \<mapsto> x)\<rparr>) r s'"
    note x' = new_tenant_lifecycle_ok(1) [OF x nb]
    with mutatedI(5) [OF nb x', of s] aud hold show ?thesis by (auto simp: record_ok_def intro: audited_effect)
  qed (simp add: call_effect_def)
next
  case (schedule c now i not_before reason r)
  note nb = valid_context_tenant [OF schedule(3)]
  from schedule_effect [OF schedule(4)] show ?thesis
  proof (elim disjE exE conjE)
    fix actor x
    assume x: "new_tenant_lifecycle (tac_tenant_id c) Tenant_DELETION_SCHEDULED False (Some not_before) now actor (tac_elevation_id c) = Inr x"
      and aud: "audited_as (tac_tenant_id c) x (s\<lparr>ts_lifecycle := (ts_lifecycle s)(tac_tenant_id c \<mapsto> x)\<rparr>) r s'"
    note x' = new_tenant_lifecycle_ok(1) [OF x nb]
    with mutatedI(5) [OF nb x', of s] aud schedule show ?thesis by (auto simp: record_ok_def intro: audited_effect)
  qed (simp add: call_effect_def)
next
  case (complete c now i r)
  note nb = valid_context_tenant [OF complete(3)]
  from complete_effect [OF complete(4)] show ?thesis
  proof (elim disjE exE conjE)
    fix actor x
    assume x: "ts_lifecycle s (tac_tenant_id c) = Some x" "deletion_due now x" "audited_actor c = Inr actor"
      and aud: "audited_as (tac_tenant_id c) (deleted_copy now actor (tac_elevation_id c) x)
        (s\<lparr>ts_lifecycle := (ts_lifecycle s)(tac_tenant_id c \<mapsto> deleted_copy now actor (tac_elevation_id c) x)\<rparr>) r s'"
    have tx: "tlr_tenant_id x = tac_tenant_id c" using assms(2) x(1) by (auto simp: tenant_inv_def record_ok_def)
    from mutatedI(5) [OF nb deleted_copy_ok [OF complete(3) x(3,2) tx], of s] aud complete tx
    show ?thesis by (auto intro: audited_effect)
  qed (simp add: call_effect_def)
next
  case (export c now eid i counts digests r)
  from export_effect [OF export(4)] mutatedI(1) [OF valid_context_tenant [OF export(3)], of s] export show ?thesis
    by (auto intro: audited_effect simp: call_effect_def [of _ _ s s])
qed

lemma tenant_call_inv:
  assumes "tenant_call sha t returned s s'" "tenant_inv s"
  shows "tenant_inv s'"
proof -
  have "tenant_inv s1" if m: "mutated t s s1" for s1
  proof -
    have "nonblank u" if "ts_profiles s1 u = Some p" for u p
      using that m assms(2) by (cases "u = t") (auto simp: mutated_def tenant_inv_def)
    moreover have "nonblank u" if g: "ts_grants s1 (u, i) = Some g" for u i g
    proof (cases "u = t")
      case False
      with m g have "ts_grants s (u, i) = Some g" by (simp add: mutated_def)
      then show ?thesis by (rule grant_nonblank [OF assms(2)])
    qed (use m in \<open>simp add: mutated_def\<close>)
    moreover have "record_ok u x" if "ts_lifecycle s1 u = Some x" for u x
      using that m assms(2) by (cases "u = t") (auto simp: mutated_def tenant_inv_def)
    ultimately show ?thesis unfolding tenant_inv_def by blast
  qed
  moreover have "tenant_inv (with_audit ev s1) = tenant_inv s1" for ev s1 by (simp add: tenant_inv_def)
  ultimately show ?thesis using tenant_call_effect [OF assms] assms(2) by (auto simp: call_effect_def)
qed

lemma tenant_inv_reach: "(tenant_step sha)\<^sup>*\<^sup>* empty_tenants s \<Longrightarrow> tenant_inv s"
proof (induction rule: rtranclp_induct)
  case base
  show ?case by (simp add: tenant_inv_def empty_tenants_def)
next
  case (step s s')
  then show ?case by (auto simp: tenant_step_def intro: tenant_call_inv)
qed

text \<open>The part of the store that belongs to one tenant.\<close>

definition same_slice :: "string \<Rightarrow> tenant_store \<Rightarrow> tenant_store \<Rightarrow> bool" where
  "same_slice t s w \<longleftrightarrow> ts_profiles w t = ts_profiles s t \<and> ts_lifecycle w t = ts_lifecycle s t
    \<and> (\<forall>i. ts_grants w (t, i) = ts_grants s (t, i)) \<and> ts_audit w t = ts_audit s t"

lemma authorize_slice: "same_slice (tac_tenant_id c) s w \<Longrightarrow> authorize c cap now w = authorize c cap now s"
  by (auto simp: authorize_def same_slice_def split: sum.split option.split)

lemma reads_slice:
  assumes "same_slice (tac_tenant_id c) s w"
  shows "get_profile now c w = get_profile now c s" "list_audit now c w = list_audit now c s"
  using assms by (simp_all add: get_profile_def list_audit_def authorize_slice) (simp_all add: same_slice_def)

text \<open>
  C26: Tenants are isolated and audited. In every reachable store, a call made under an access context, whatever its arguments name,
  leaves the profile, lifecycle, grants and audit trail of every tenant but the context's untouched, and so does an
  operation on support grants for every tenant but the one it names. A call only ever appends to that tenant's own trail, and when
  it returns after changing anything the trail has exactly one new event, of that tenant. What a context reads,
  and whether it may, depends on the store of its own tenant alone.
\<close>

theorem tenant_isolation:
  assumes "(tenant_step sha)\<^sup>*\<^sup>* empty_tenants s" "tenant_call sha t returned s s'"
  shows "(\<forall>u. u \<noteq> t \<longrightarrow> ts_profiles s' u = ts_profiles s u \<and> ts_lifecycle s' u = ts_lifecycle s u
        \<and> (\<forall>i. ts_grants s' (u, i) = ts_grants s (u, i)) \<and> ts_audit s' u = ts_audit s u)
    \<and> (\<exists>evs. ts_audit s' t = ts_audit s t @ evs \<and> length evs \<le> 1 \<and> (\<forall>ev \<in> set evs. tae_tenant_id ev = t)
         \<and> (returned \<and> s' \<noteq> s \<longrightarrow> evs \<noteq> []))
    \<and> (\<forall>c now w. tac_tenant_id c = t \<longrightarrow> same_slice t s w \<longrightarrow>
         get_profile now c w = get_profile now c s \<and> list_audit now c w = list_audit now c s)"
proof -
  from tenant_call_effect [OF assms(2) tenant_inv_reach [OF assms(1)]]
  consider "s' = s" | "mutated t s s'" "\<not> returned" | s1 ev where "mutated t s s1" "tae_tenant_id ev = t" "s' = with_audit ev s1"
    by (auto simp: call_effect_def)
  then have "(\<forall>u. u \<noteq> t \<longrightarrow> ts_profiles s' u = ts_profiles s u \<and> ts_lifecycle s' u = ts_lifecycle s u
        \<and> (\<forall>i. ts_grants s' (u, i) = ts_grants s (u, i)) \<and> ts_audit s' u = ts_audit s u)
    \<and> (\<exists>evs. ts_audit s' t = ts_audit s t @ evs \<and> length evs \<le> 1 \<and> (\<forall>ev \<in> set evs. tae_tenant_id ev = t)
         \<and> (returned \<and> s' \<noteq> s \<longrightarrow> evs \<noteq> []))"
  proof cases
    case 1
    then show ?thesis by (intro conjI exI [of _ "[]"]) simp_all
  next
    case 2
    then show ?thesis by (intro conjI exI [of _ "[]"]) (simp_all add: mutated_def)
  next
    case (3 s1 ev)
    then show ?thesis by (intro conjI exI [of _ "[ev]"]) (simp_all add: mutated_def)
  qed
  then show ?thesis using reads_slice by blast
qed

section \<open>Support elevation\<close>

lemma authorize_support:
  assumes "authorize c cap now s = Inr ()" "tac_mode c = Access_SUPPORT"
  shows "\<exists>e g. tac_elevation_id c = Some e \<and> allows_support (tac_tenant_id c) s \<and> ts_grants s (tac_tenant_id c, e) = Some g
    \<and> grant_active g now \<and> same_actor_identity (seg_operator g) (tac_actor c) \<and> cap \<in> set (seg_capabilities g)
    \<and> cap \<in> set (tac_capabilities c)"
  using assms
  by (auto simp: authorize_def allows_support_def context_require_def split: option.splits if_splits sum.splits)

lemma grant_evolves_trans: "grant_evolves a b \<Longrightarrow> grant_evolves b c \<Longrightarrow> grant_evolves a c"
  by (auto simp: grant_evolves_def)

lemma grants_evolve:
  assumes "(tenant_step sha)\<^sup>*\<^sup>* s s'" "tenant_inv s"
  shows "grant_evolves (ts_grants s k) (ts_grants s' k)"
  using assms
proof (induction rule: rtranclp_induct)
  case base
  then show ?case by (simp add: grant_evolves_def)
next
  case (step s1 s2)
  have inv: "tenant_inv s1" using step(1,4) by (induction rule: rtranclp_induct) (auto simp: tenant_step_def intro: tenant_call_inv)
  from step(2) obtain t returned where "tenant_call sha t returned s1 s2" by (auto simp: tenant_step_def)
  from tenant_call_effect [OF this inv]
  consider "s2 = s1" | "mutated t s1 s2" | s3 ev where "mutated t s1 s3" "s2 = with_audit ev s3" unfolding call_effect_def by blast
  then have "grant_evolves (ts_grants s1 k) (ts_grants s2 k)"
  proof cases
    case 1
    then show ?thesis by (simp add: grant_evolves_def)
  next
    case 2
    then show ?thesis unfolding mutated_def by blast
  next
    case (3 s3 ev)
    then have "grant_evolves (ts_grants s1 k) (ts_grants s3 k)" unfolding mutated_def by blast
    with 3(2) show ?thesis by simp
  qed
  with step show ?case by (blast intro: grant_evolves_trans)
qed

lemma operation_authorized:
  assumes "(\<exists>p. get_profile now c s = Inr p) \<or> (\<exists>es. list_audit now c s = Inr es)
    \<or> (\<exists>x u. set_legal_hold now i c enabled reason s = (Inr x, u)) \<or> (\<exists>x u. schedule_deletion now i c not_before reason s = (Inr x, u))
    \<or> (\<exists>x u. complete_deletion now i c s = (Inr x, u)) \<or> (\<exists>m u. export_manifest sha now eid i c counts digests s = (Inr m, u))"
  shows "\<exists>cap. authorize c cap now s = Inr ()"
  using assms
proof (elim disjE exE)
  fix x u
  assume "set_legal_hold now i c enabled reason s = (Inr x, u)"
  from hold_effect [OF this] show ?thesis by auto
next
  fix x u
  assume "schedule_deletion now i c not_before reason s = (Inr x, u)"
  from schedule_effect [OF this] show ?thesis by auto
next
  fix x u
  assume "complete_deletion now i c s = (Inr x, u)"
  from complete_effect [OF this] show ?thesis by auto
next
  fix m u
  assume "export_manifest sha now eid i c counts digests s = (Inr m, u)"
  from export_effect [OF this] show ?thesis by auto
qed (auto simp: get_profile_def list_audit_def)

text \<open>
  C24: Support access is live. When any operation on tenant data succeeds with a support context, then at that moment the
  tenant allows support access and the context's grant is active, was issued to that operator and shares a
  capability with the context; and in no earlier state of the store had that grant been revoked. So revocation
  is final and takes effect at once, whatever contexts were redeemed before it.
\<close>

theorem support_access_live:
  assumes "(tenant_step sha)\<^sup>*\<^sup>* empty_tenants s" "(tenant_step sha)\<^sup>*\<^sup>* s s'" "tac_mode c = Access_SUPPORT"
    and "(\<exists>p. get_profile now c s' = Inr p) \<or> (\<exists>es. list_audit now c s' = Inr es)
    \<or> (\<exists>x u. set_legal_hold now i c enabled reason s' = (Inr x, u)) \<or> (\<exists>x u. schedule_deletion now i c not_before reason s' = (Inr x, u))
    \<or> (\<exists>x u. complete_deletion now i c s' = (Inr x, u)) \<or> (\<exists>m u. export_manifest sha now eid i c counts digests s' = (Inr m, u))"
  shows "\<exists>e g. tac_elevation_id c = Some e \<and> allows_support (tac_tenant_id c) s' \<and> ts_grants s' (tac_tenant_id c, e) = Some g
    \<and> grant_active g now \<and> same_actor_identity (seg_operator g) (tac_actor c)
    \<and> set (seg_capabilities g) \<inter> set (tac_capabilities c) \<noteq> {}
    \<and> (\<forall>g0. ts_grants s (tac_tenant_id c, e) = Some g0 \<longrightarrow> seg_revoked_at g0 = None)"
proof -
  obtain cap where "authorize c cap now s' = Inr ()" using operation_authorized [OF assms(4)] by blast
  from authorize_support [OF this assms(3)] obtain e g where eg: "tac_elevation_id c = Some e" "allows_support (tac_tenant_id c) s'"
    "ts_grants s' (tac_tenant_id c, e) = Some g" "grant_active g now" "same_actor_identity (seg_operator g) (tac_actor c)"
    "cap \<in> set (seg_capabilities g)" "cap \<in> set (tac_capabilities c)" by blast
  have "seg_revoked_at g0 = None" if "ts_grants s (tac_tenant_id c, e) = Some g0" for g0
    using grants_evolve [OF assms(2) tenant_inv_reach [OF assms(1)], of "(tac_tenant_id c, e)"] that eg(3,4)
    by (auto simp: grant_evolves_def grant_active_def)
  with eg show ?thesis by blast
qed

section \<open>Legal hold\<close>

lemma held_not_deleting: "record_ok t x \<Longrightarrow> tlr_legal_hold x \<Longrightarrow> tlr_status x = Tenant_ACTIVE"
  by (cases "tlr_status x") (auto simp: record_ok_def validate_tenant_lifecycle_def Let_def split: if_splits)

lemma held_blocks:
  assumes "ts_lifecycle s (tac_tenant_id c) = Some x" "tlr_legal_hold x"
  shows "\<exists>e. schedule_deletion now i c not_before reason s = (Inl e, s)" "\<exists>e. complete_deletion now i c s = (Inl e, s)"
proof -
  obtain r s' where op: "schedule_deletion now i c not_before reason s = (r, s')" by fastforce
  from schedule_effect [OF op] assms op show "\<exists>e. schedule_deletion now i c not_before reason s = (Inl e, s)" by auto
next
  obtain r s' where op: "complete_deletion now i c s = (r, s')" by fastforce
  from complete_effect [OF op] assms op show "\<exists>e. complete_deletion now i c s = (Inl e, s)" by (auto simp: deletion_due_def)
qed

lemma audited_lifecycle: "audited_as t x s1 r s' \<Longrightarrow> ts_lifecycle s' = ts_lifecycle s1"
  by (auto simp: audited_as_def)

text \<open>
  C25: A legal hold blocks deletion. In every reachable store a tenant under legal hold is active, neither scheduled for
  deletion nor deleted; scheduling or completing its deletion raises and changes nothing; and after any further call it is
  still under hold, unless that call was the release of the hold for this very tenant.
\<close>

theorem legal_hold_blocks_deletion:
  assumes "(tenant_step sha)\<^sup>*\<^sup>* empty_tenants s" "ts_lifecycle s t = Some x" "tlr_legal_hold x"
    and "tenant_call sha u returned s s'"
  shows "tlr_status x = Tenant_ACTIVE
    \<and> (\<forall>now i c not_before reason. tac_tenant_id c = t \<longrightarrow>
        (\<exists>e. schedule_deletion now i c not_before reason s = (Inl e, s)) \<and> (\<exists>e. complete_deletion now i c s = (Inl e, s)))
    \<and> ((\<exists>y. ts_lifecycle s' t = Some y \<and> tlr_legal_hold y)
       \<or> (\<exists>now i c reason r. tac_tenant_id c = t \<and> authorize c Capability_LEGAL_HOLD now s = Inr ()
            \<and> set_legal_hold now i c False reason s = (r, s')))"
proof -
  have inv: "tenant_inv s" using assms(1) by (rule tenant_inv_reach)
  then have "record_ok t x" using assms(2) by (auto simp: tenant_inv_def)
  then have active: "tlr_status x = Tenant_ACTIVE" using assms(3) by (rule held_not_deleting)
  have kept: ?thesis if "ts_lifecycle s' t = ts_lifecycle s t"
    using that active assms(2,3) held_blocks [of s _ x] by auto
  have other: ?thesis if "u \<noteq> t"
    using tenant_call_effect [OF assms(4) inv] that kept by (auto simp: call_effect_def mutated_def)
  show ?thesis
  proof (cases "u = t")
    case True
    from assms(4) show ?thesis
    proof cases
      case (profile p c at1 now i r)
      from put_profile_effect [OF profile(5)] show ?thesis by (intro kept) (auto dest: audited_lifecycle)
    next
      case (issue a gid now i r)
      from issue_effect [OF issue(4)] show ?thesis by (intro kept) (auto dest: audited_lifecycle)
    next
      case (redeem now i gid operator r)
      from redeem_effect [OF redeem(2)] show ?thesis by (intro kept) (auto dest: audited_lifecycle)
    next
      case (revoke now i gid actor reason r)
      from revoke_effect [OF revoke(2)] show ?thesis by (intro kept) (auto dest: audited_lifecycle)
    next
      case (export c now eid i counts digests r)
      from export_effect [OF export(4)] show ?thesis by (intro kept) (auto dest: audited_lifecycle)
    next
      case (schedule c now i not_before reason r)
      with held_blocks(1) [of s c x now i not_before reason] assms True show ?thesis by (intro kept) auto
    next
      case (complete c now i r)
      with held_blocks(2) [of s c x now i] assms True show ?thesis by (intro kept) auto
    next
      case (hold c now i enabled reason r)
      note ct = hold(1) [symmetric, unfolded True]
      from hold_effect [OF hold(4)] show ?thesis
      proof (elim disjE exE conjE)
        fix actor y
        assume auth: "authorize c Capability_LEGAL_HOLD now s = Inr ()"
          and y: "new_tenant_lifecycle (tac_tenant_id c) (hold_status enabled (tac_tenant_id c) s) enabled None now actor (tac_elevation_id c) = Inr y"
          and aud: "audited_as (tac_tenant_id c) y (s\<lparr>ts_lifecycle := (ts_lifecycle s)(tac_tenant_id c \<mapsto> y)\<rparr>) r s'"
        note y' = new_tenant_lifecycle_ok [OF y valid_context_tenant [OF hold(3)]]
        have s': "ts_lifecycle s' t = Some y" using audited_lifecycle [OF aud] y'(1) ct by (simp add: record_ok_def)
        have blocks: "\<forall>now i c not_before reason. tac_tenant_id c = t \<longrightarrow>
            (\<exists>e. schedule_deletion now i c not_before reason s = (Inl e, s)) \<and> (\<exists>e. complete_deletion now i c s = (Inl e, s))"
          using held_blocks [of s _ x] assms(2,3) by simp
        show ?thesis
        proof (cases enabled)
          case True
          with y'(2) s' active blocks show ?thesis by blast
        next
          case False
          with hold(4) have "set_legal_hold now i c False reason s = (r, s')" by simp
          with auth ct active blocks show ?thesis by blast
        qed
      qed (intro kept, simp)
    qed
  qed (rule other)
qed

section \<open>Concrete histories\<close>

definition sample_tenant_context :: tenant_access_context where
  "sample_tenant_context = \<lparr>tac_schema_name = ''prodkit.tenant-access-context'', tac_schema_version = ''1.0.0'',
     tac_tenant_id = ''acme'', tac_actor = sample_actor, tac_mode = Access_TENANT,
     tac_capabilities = [Capability_CONFIGURE, Capability_LEGAL_HOLD, Capability_DELETE], tac_elevation_id = None,
     tac_reason = None, tac_ticket_reference = None, tac_issued_at = 0, tac_expires_at = None\<rparr>"

definition sample_profile :: tenant_isolation_profile where
  "sample_profile = \<lparr>tip_schema_name = ''prodkit.tenant-isolation-profile'', tip_schema_version = ''1.0.0'', tip_tenant_id = ''acme'',
     tip_policy_profile = ''default'', tip_signing_profile = ''default'', tip_retention_profile = ''default'',
     tip_executor_profile = ''default'', tip_storage_partition = ''p'', tip_cache_namespace = ''c'',
     tip_allow_support_access = True, tip_attributes = []\<rparr>"

definition sample_operator :: actor_ref where
  "sample_operator = sample_actor\<lparr>actor_id := ''op'', actor_tenant_id := ''vendor'',
     actor_attributes := [(''prodkit.support_authority'', ''true''), (''prodkit.support_operator'', ''true'')]\<rparr>"

definition sample_grant_arguments :: grant_arguments where
  "sample_grant_arguments = \<lparr>ga_target_tenant_id = ''acme'', ga_operator = sample_operator, ga_issued_by = sample_operator,
     ga_capabilities = [Capability_READ], ga_reason = ''r'', ga_ticket_reference = ''t'', ga_ttl_seconds = 60\<rparr>"

definition sample_support_context :: tenant_access_context where
  "sample_support_context = \<lparr>tac_schema_name = ''prodkit.tenant-access-context'', tac_schema_version = ''1.0.0'',
     tac_tenant_id = ''acme'', tac_actor = sample_operator, tac_mode = Access_SUPPORT,
     tac_capabilities = [Capability_READ], tac_elevation_id = Some ''g1'', tac_reason = Some ''r'',
     tac_ticket_reference = Some ''t'', tac_issued_at = 20, tac_expires_at = Some 60000020\<rparr>"

definition profiled_store :: tenant_store where
  "profiled_store = snd (put_profile zero_hash 10 10 ''i1'' sample_profile sample_tenant_context empty_tenants)"

definition granted_store :: tenant_store where
  "granted_store = snd (issue_support_grant 20 ''g1'' ''i2'' sample_grant_arguments profiled_store)"

definition held_store :: tenant_store where
  "held_store = snd (set_legal_hold 20 ''i2'' sample_tenant_context True ''litigation'' profiled_store)"

lemmas sample_tenant_defs = sample_tenant_context_def sample_profile_def sample_operator_def sample_grant_arguments_def
  sample_support_context_def sample_actor_def

lemma sample_tenant_valid: "tenant_isolation_profile_fields sample_profile" "valid_context sample_tenant_context"
  "tip_tenant_id sample_profile = ''acme''" "tac_tenant_id sample_tenant_context = ''acme''"
  by (simp_all add: sample_tenant_defs tenant_isolation_profile_fields_def valid_context_def tenant_access_context_fields_def
      validate_tenant_access_context_def actor_ref_fields_def nonblank_def strip_def py_isspace_def)

lemma tenant_stepI: "tenant_call sha t returned s s' \<Longrightarrow> tenant_step sha s s'"
  by (auto simp: tenant_step_def)

lemma profiled_call: "tenant_call sha ''acme'' (\<not> isl (fst (put_profile sha 10 10 ''i1'' sample_profile sample_tenant_context s))) s
    (snd (put_profile sha 10 10 ''i1'' sample_profile sample_tenant_context s))"
  using tenant_call.profile [OF sample_tenant_valid(1,2) prod.collapse [symmetric], of sha 10 10 "''i1''" s] sample_tenant_valid(4) by simp

lemma profiled_reach: "(tenant_step zero_hash)\<^sup>*\<^sup>* empty_tenants profiled_store"
  unfolding profiled_store_def using profiled_call [of zero_hash empty_tenants] by (blast intro: r_into_rtranclp tenant_stepI)

lemma sample_strip: "strip ''acme'' = ''acme''" "strip ''r'' = ''r''" "strip ''t'' = ''t''" "strip ''litigation'' = ''litigation''"
  by (simp_all add: strip_def py_isspace_def)

lemma sample_actors: "actor_ref_fields sample_actor" "actor_ref_fields sample_operator" "nonblank ''acme''" "nonblank ''r''" "nonblank ''t''"
  "nonblank ''litigation''"
  by (simp_all add: sample_tenant_defs actor_ref_fields_def nonblank_def strip_def py_isspace_def)

lemmas sample_tenant_run = tenant_run raise_if_def context_require_def append_audit_def check_fields_def tenant_audit_event_fields_def
  sample_strip sample_actors sample_tenant_valid bindE_def lift_result_def authorized_step_def authorize_def audited_actor_def

lemma sample_context_sel: "tac_actor sample_tenant_context = sample_actor" "tac_mode sample_tenant_context = Access_TENANT"
  "tac_capabilities sample_tenant_context = [Capability_CONFIGURE, Capability_LEGAL_HOLD, Capability_DELETE]"
  "tac_expires_at sample_tenant_context = None" "tac_elevation_id sample_tenant_context = None" "tac_ticket_reference sample_tenant_context = None"
  "actor_tenant_id sample_actor = ''acme''"
  by (simp_all add: sample_tenant_context_def sample_actor_def)

lemma sample_put_profile: "fst (put_profile sha 10 10 i sample_profile sample_tenant_context s) = Inr ()"
  by (simp add: put_profile_def sample_tenant_run sample_context_sel)

lemma audited_returned: "audited_as t x s1 (Inr y) s' \<Longrightarrow> y = x \<and> (\<exists>ev. tae_tenant_id ev = strip t \<and> s' = with_audit ev s1)"
  by (auto simp: audited_as_def)

lemma profiled_store_sel: "ts_grants profiled_store = Map.empty" "ts_lifecycle profiled_store = Map.empty"
  "ts_profiles profiled_store = [''acme'' \<mapsto> sample_profile]"
  using put_profile_effect [of zero_hash 10 10 "''i1''" sample_profile sample_tenant_context empty_tenants, OF prod.collapse [symmetric]]
  unfolding sample_put_profile profiled_store_def
  by (auto simp: empty_tenants_def sample_tenant_valid dest!: audited_returned)

lemma sample_operator_sel: "map_of (actor_attributes sample_operator) ''prodkit.support_operator'' = Some ''true''"
  "map_of (actor_attributes sample_operator) ''prodkit.support_authority'' = Some ''true''" "tip_allow_support_access sample_profile"
  by (simp_all add: sample_operator_def sample_profile_def)

lemma sample_issue: "\<exists>g. fst (issue_support_grant 20 ''g1'' i sample_grant_arguments profiled_store) = Inr g
    \<and> new_support_grant 20 ''g1'' sample_grant_arguments = Inr g \<and> seg_operator g = sample_operator \<and> seg_capabilities g = [Capability_READ]
    \<and> seg_issued_at g = 20 \<and> seg_expires_at g = 60000020 \<and> seg_revoked_at g = None \<and> seg_reason g = ''r'' \<and> seg_ticket_reference g = ''t''"
  by (simp add: issue_support_grant_def sample_tenant_run sample_grant_arguments_def require_support_authority_def
      require_support_operator_def allows_support_def profiled_store_sel new_support_grant_def support_elevation_grant_fields_def
      validate_support_grant_def set_grant_def ret_def sample_operator_sel)

lemma granted_store_sel: "\<exists>g. ts_grants granted_store (''acme'', ''g1'') = Some g \<and> seg_operator g = sample_operator
    \<and> seg_capabilities g = [Capability_READ] \<and> seg_issued_at g = 20 \<and> seg_expires_at g = 60000020 \<and> seg_revoked_at g = None
    \<and> seg_reason g = ''r'' \<and> seg_ticket_reference g = ''t''"
  "ts_profiles granted_store = [''acme'' \<mapsto> sample_profile]"
proof -
  obtain g where r: "fst (issue_support_grant 20 ''g1'' ''i2'' sample_grant_arguments profiled_store) = Inr g"
    and g: "seg_operator g = sample_operator" "seg_capabilities g = [Capability_READ]"
      "seg_issued_at g = 20" "seg_expires_at g = 60000020" "seg_revoked_at g = None" "seg_reason g = ''r''" "seg_ticket_reference g = ''t''"
    using sample_issue by blast
  have t: "ga_target_tenant_id sample_grant_arguments = ''acme''" by (simp add: sample_grant_arguments_def)
  from issue_effect [of 20 "''g1''" "''i2''" sample_grant_arguments profiled_store, OF prod.collapse [symmetric], unfolded r t]
  obtain ev where eq: "granted_store = with_audit ev (profiled_store\<lparr>ts_grants := (ts_grants profiled_store)((''acme'', ''g1'') \<mapsto> g)\<rparr>)"
    by (auto simp: granted_store_def dest!: audited_returned)
  show "\<exists>g. ts_grants granted_store (''acme'', ''g1'') = Some g \<and> seg_operator g = sample_operator
    \<and> seg_capabilities g = [Capability_READ] \<and> seg_issued_at g = 20 \<and> seg_expires_at g = 60000020 \<and> seg_revoked_at g = None
    \<and> seg_reason g = ''r'' \<and> seg_ticket_reference g = ''t''" "ts_profiles granted_store = [''acme'' \<mapsto> sample_profile]"
    unfolding eq using g by (simp_all add: profiled_store_sel)
qed

lemma granted_reach: "(tenant_step zero_hash)\<^sup>*\<^sup>* empty_tenants granted_store"
proof -
  have "ts_grants profiled_store (ga_target_tenant_id sample_grant_arguments, ''g1'') = None" by (simp add: profiled_store_sel)
  from tenant_call.issue [OF this prod.collapse [symmetric], of zero_hash 20 "''i2''"]
  have "tenant_step zero_hash profiled_store granted_store" unfolding granted_store_def by (rule tenant_stepI)
  with profiled_reach show ?thesis by simp
qed

lemma sample_support_read: "get_profile 30 sample_support_context granted_store = Inr (Some sample_profile)"
  using granted_store_sel(1)
  by (auto simp: get_profile_def authorize_def context_require_def sample_support_context_def granted_store_sel(2) grant_active_def
      sample_operator_sel same_actor_identity_def)

lemma held_store_sel: "\<exists>x. ts_lifecycle held_store ''acme'' = Some x \<and> tlr_legal_hold x"
proof -
  have "\<exists>x. fst (set_legal_hold 20 ''i2'' sample_tenant_context True ''litigation'' profiled_store) = Inr x"
    by (simp add: set_legal_hold_def sample_tenant_run sample_context_sel new_tenant_lifecycle_def tenant_lifecycle_record_fields_def
        validate_tenant_lifecycle_def hold_status_def Let_def profiled_store_sel put_lifecycle_def ret_def)
  then obtain x where r: "fst (set_legal_hold 20 ''i2'' sample_tenant_context True ''litigation'' profiled_store) = Inr x" ..
  from hold_effect [of 20 "''i2''" sample_tenant_context True "''litigation''" profiled_store, OF prod.collapse [symmetric], unfolded r sample_tenant_valid]
  obtain actor y where y: "new_tenant_lifecycle ''acme'' (hold_status True ''acme'' profiled_store) True None 20 actor (tac_elevation_id sample_tenant_context) = Inr y"
    and aud: "audited_as ''acme'' y (profiled_store\<lparr>ts_lifecycle := (ts_lifecycle profiled_store)(''acme'' \<mapsto> y)\<rparr>) (Inr x)
      (snd (set_legal_hold 20 ''i2'' sample_tenant_context True ''litigation'' profiled_store))" by auto
  from new_tenant_lifecycle_ok [OF y sample_actors(3)] audited_lifecycle [OF aud] show ?thesis
    by (simp add: held_store_def record_ok_def)
qed

lemma held_call: "tenant_call sha ''acme'' (\<not> isl (fst (set_legal_hold now i sample_tenant_context enabled reason s))) s
    (snd (set_legal_hold now i sample_tenant_context enabled reason s))"
  using tenant_call.hold [OF sample_tenant_valid(2) prod.collapse [symmetric], of sha] by (simp add: sample_tenant_valid)

lemma held_reach: "(tenant_step zero_hash)\<^sup>*\<^sup>* empty_tenants held_store"
  unfolding held_store_def by (rule rtranclp.rtrancl_into_rtrancl [OF profiled_reach tenant_stepI [OF held_call]])

text \<open>A witness of tenant isolation: a profile change of one tenant leaves the trail of another alone.\<close>

theorem tenant_isolation_witness:
  "ts_audit profiled_store ''globex'' = [] \<and> (\<exists>ev. ts_audit profiled_store ''acme'' = [ev] \<and> tae_tenant_id ev = ''acme'')"
proof -
  have "profiled_store \<noteq> empty_tenants" using profiled_store_sel(3) by (metis empty_tenants_def fun_upd_same option.distinct(1) tenant_store.select_convs(1))
  then show ?thesis
    using tenant_isolation [OF rtranclp.rtrancl_refl profiled_call [of zero_hash empty_tenants]]
    unfolding profiled_store_def [symmetric] sample_put_profile
    by (auto simp: empty_tenants_def le_Suc_eq length_Suc_conv)
qed

text \<open>A witness of live support access: an operator reads the profile under a grant.\<close>

theorem support_access_live_witness:
  "get_profile 30 sample_support_context granted_store = Inr (Some sample_profile)
    \<and> (\<exists>g. ts_grants granted_store (''acme'', ''g1'') = Some g \<and> grant_active g 30)"
  using support_access_live [OF granted_reach rtranclp.rtrancl_refl, of sample_support_context 30] sample_support_read
  by (auto simp: sample_support_context_def)

text \<open>A witness of legal hold: the held tenant stays held when the hold is set again.\<close>

theorem legal_hold_blocks_deletion_witness:
  "(\<exists>e. schedule_deletion 30 ''i3'' sample_tenant_context 40 ''x'' held_store = (Inl e, held_store))
    \<and> (\<exists>x. ts_lifecycle held_store ''acme'' = Some x \<and> tlr_status x = Tenant_ACTIVE)"
proof -
  obtain x where "ts_lifecycle held_store ''acme'' = Some x" "tlr_legal_hold x" using held_store_sel by blast
  from legal_hold_blocks_deletion [OF held_reach this held_call [of zero_hash 30 "''i3''" True "''y''"]] this(1) sample_tenant_valid(4)
  show ?thesis by blast
qed

text \<open>
  A blank reason is only noticed when the audit event is built, after the change: the call raises and the hold stays
  placed without an audit event.
\<close>

lemma blank_reason_unaudited:
  "\<exists>e s'. set_legal_hold 20 ''i2'' sample_tenant_context True [] profiled_store = (Inl e, s')
    \<and> ts_lifecycle s' ''acme'' \<noteq> ts_lifecycle profiled_store ''acme'' \<and> ts_audit s' = ts_audit profiled_store"
  by (simp add: set_legal_hold_def sample_tenant_run sample_context_sel new_tenant_lifecycle_def tenant_lifecycle_record_fields_def
      validate_tenant_lifecycle_def hold_status_def Let_def profiled_store_sel put_lifecycle_def ret_def nonblank_def strip_def py_isspace_def)

end
