(* ===== verification/Reconciliation_Engine.thy ===== *)
theory Reconciliation_Engine
  imports Policy Sample_Data "HOL-Library.Product_Lexorder"
begin

text \<open>
  \<open>contracts/reconciliation.py\<close> and \<open>core/reconciliation/engine.py\<close>: the contracts of the
  reconciliation plane, the comparison of the controlled actions with one batch of external evidence, and
  the production-completeness assessment. \<open>uuid5\<close> over the URL namespace is a parameter \<open>u5\<close> from names to
  identifiers. Findings are built without the model's field checks; \<open>reconcile_well_formed\<close> shows that
  these checks can never fail on validated inputs.
\<close>

type_synonym uuid5_fn = "string \<Rightarrow> uuid"

section \<open>Contracts\<close>

datatype reconciliation_severity =
    Severity_INFO
  | Severity_LOW
  | Severity_MEDIUM
  | Severity_HIGH
  | Severity_CRITICAL

fun reconciliation_severity_value :: "reconciliation_severity \<Rightarrow> string" where
  "reconciliation_severity_value Severity_INFO = ''info''"
| "reconciliation_severity_value Severity_LOW = ''low''"
| "reconciliation_severity_value Severity_MEDIUM = ''medium''"
| "reconciliation_severity_value Severity_HIGH = ''high''"
| "reconciliation_severity_value Severity_CRITICAL = ''critical''"

datatype reconciliation_source_health =
    Health_HEALTHY
  | Health_STALE
  | Health_UNAVAILABLE
  | Health_CONFLICTING

fun reconciliation_source_health_value :: "reconciliation_source_health \<Rightarrow> string" where
  "reconciliation_source_health_value Health_HEALTHY = ''healthy''"
| "reconciliation_source_health_value Health_STALE = ''stale''"
| "reconciliation_source_health_value Health_UNAVAILABLE = ''unavailable''"
| "reconciliation_source_health_value Health_CONFLICTING = ''conflicting''"

record expected_external_action =
  eea_action_id :: uuid
  eea_run_id :: uuid
  eea_tenant_id :: string
  eea_source_system :: string
  eea_expected_state_digest :: "string option"
  eea_external_reference :: "string option"

definition expected_external_action_fields :: "expected_external_action \<Rightarrow> bool" where
  "expected_external_action_fields r = (nonblank (eea_tenant_id r) \<and>
     nonblank (eea_source_system r) \<and>
     (pred_option is_sha256) (eea_expected_state_digest r) \<and>
     (pred_option nonblank) (eea_external_reference r))"

record external_state_observation =
  eso_observation_id :: string
  eso_tenant_id :: string
  eso_source_system :: string
  eso_observed_at :: datetime
  eso_state_digest :: string
  eso_action_id :: "uuid option"
  eso_run_id :: "uuid option"
  eso_external_reference :: "string option"
  eso_state :: "(string \<times> pyval) list"
  eso_evidence :: "artifact_ref list"

definition external_state_observation_fields :: "external_state_observation \<Rightarrow> bool" where
  "external_state_observation_fields r = (nonblank (eso_observation_id r) \<and>
     nonblank (eso_tenant_id r) \<and>
     nonblank (eso_source_system r) \<and>
     is_sha256 (eso_state_digest r) \<and>
     (pred_option nonblank) (eso_external_reference r) \<and>
     (list_all artifact_ref_fields) (eso_evidence r))"

record external_audit_event =
  eae_event_id :: string
  eae_tenant_id :: string
  eae_source_system :: string
  eae_event_type :: string
  eae_occurred_at :: datetime
  eae_payload_digest :: string
  eae_actor :: "string option"
  eae_resource :: "string option"
  eae_action_id :: "uuid option"
  eae_run_id :: "uuid option"
  eae_external_reference :: "string option"
  eae_payload :: "(string \<times> pyval) list"
  eae_evidence :: "artifact_ref list"

definition external_audit_event_fields :: "external_audit_event \<Rightarrow> bool" where
  "external_audit_event_fields r = (nonblank (eae_event_id r) \<and>
     nonblank (eae_tenant_id r) \<and>
     nonblank (eae_source_system r) \<and>
     nonblank (eae_event_type r) \<and>
     is_sha256 (eae_payload_digest r) \<and>
     (pred_option nonblank) (eae_actor r) \<and>
     (pred_option nonblank) (eae_resource r) \<and>
     (pred_option nonblank) (eae_external_reference r) \<and>
     (list_all artifact_ref_fields) (eae_evidence r))"

record reconciliation_cursor =
  rcu_tenant_id :: string
  rcu_source_system :: string
  rcu_cursor :: "string option"
  rcu_high_watermark :: "datetime option"
  rcu_health :: reconciliation_source_health
  rcu_consecutive_failures :: int
  rcu_next_attempt_at :: "datetime option"
  rcu_updated_at :: datetime

definition reconciliation_cursor_fields :: "reconciliation_cursor \<Rightarrow> bool" where
  "reconciliation_cursor_fields r = (nonblank (rcu_tenant_id r) \<and>
     nonblank (rcu_source_system r) \<and>
     (pred_option nonblank) (rcu_cursor r) \<and>
     0 \<le> rcu_consecutive_failures r)"

record reconciliation_source_config =
  rsc_source_system :: string
  rsc_enabled :: bool
  rsc_poll_interval_seconds :: int
  rsc_stale_after_seconds :: int
  rsc_base_backoff_seconds :: int
  rsc_max_backoff_seconds :: int

definition reconciliation_source_config_fields :: "reconciliation_source_config \<Rightarrow> bool" where
  "reconciliation_source_config_fields r = (nonblank (rsc_source_system r) \<and>
     (\<lambda>n. 0 < n) (rsc_poll_interval_seconds r) \<and>
     (\<lambda>n. 0 < n) (rsc_stale_after_seconds r) \<and>
     (\<lambda>n. 0 < n) (rsc_base_backoff_seconds r) \<and>
     (\<lambda>n. 0 < n) (rsc_max_backoff_seconds r))"

record production_completeness_profile =
  pcp_profile_id :: string
  pcp_tenant_id :: string
  pcp_organization_id :: "string option"
  pcp_required_sources :: "string list"
  pcp_max_source_age_seconds :: int
  pcp_require_matched_reconciliation :: bool

definition production_completeness_profile_fields :: "production_completeness_profile \<Rightarrow> bool" where
  "production_completeness_profile_fields r = (nonblank (pcp_profile_id r) \<and>
     nonblank (pcp_tenant_id r) \<and>
     (pred_option nonblank) (pcp_organization_id r) \<and>
     (list_all nonblank) (pcp_required_sources r) \<and>
     (\<lambda>n. 0 < n) (pcp_max_source_age_seconds r))"

record reconciliation_batch =
  rba_tenant_id :: string
  rba_source_system :: string
  rba_collected_at :: datetime
  rba_health :: reconciliation_source_health
  rba_cursor :: "string option"
  rba_high_watermark :: "datetime option"
  rba_observations :: "external_state_observation list"
  rba_audit_events :: "external_audit_event list"

definition reconciliation_batch_fields :: "reconciliation_batch \<Rightarrow> bool" where
  "reconciliation_batch_fields r = (nonblank (rba_tenant_id r) \<and>
     nonblank (rba_source_system r) \<and>
     (pred_option nonblank) (rba_cursor r) \<and>
     (list_all external_state_observation_fields) (rba_observations r) \<and>
     (list_all external_audit_event_fields) (rba_audit_events r))"

record production_completeness_assessment =
  pca_profile_id :: string
  pca_tenant_id :: string
  pca_organization_id :: "string option"
  pca_assessed_at :: datetime
  pca_complete :: bool
  pca_healthy_sources :: "string list"
  pca_stale_sources :: "string list"
  pca_unavailable_sources :: "string list"
  pca_conflicting_sources :: "string list"
  pca_blocking_findings :: "uuid list"

definition production_completeness_assessment_fields :: "production_completeness_assessment \<Rightarrow> bool" where
  "production_completeness_assessment_fields r = (nonblank (pca_profile_id r) \<and>
     nonblank (pca_tenant_id r) \<and>
     (pred_option nonblank) (pca_organization_id r) \<and>
     (list_all nonblank) (pca_healthy_sources r) \<and>
     (list_all nonblank) (pca_stale_sources r) \<and>
     (list_all nonblank) (pca_unavailable_sources r) \<and>
     (list_all nonblank) (pca_conflicting_sources r))"

record reconciliation_run_result =
  rrr_reconciliation_id :: uuid
  rrr_run_id :: uuid
  rrr_tenant_id :: string
  rrr_source_system :: string
  rrr_started_at :: datetime
  rrr_completed_at :: datetime
  rrr_health :: reconciliation_source_health
  rrr_cursor :: "string option"
  rrr_high_watermark :: "datetime option"
  rrr_findings :: "reconciliation_finding list"

definition reconciliation_run_result_fields :: "reconciliation_run_result \<Rightarrow> bool" where
  "reconciliation_run_result_fields r = (nonblank (rrr_tenant_id r) \<and>
     nonblank (rrr_source_system r) \<and>
     (pred_option nonblank) (rrr_cursor r) \<and>
     (list_all reconciliation_finding_fields) (rrr_findings r))"

definition validate_source_config :: "reconciliation_source_config \<Rightarrow> reconciliation_source_config result" where
  "validate_source_config c =
    (if rsc_base_backoff_seconds c > rsc_max_backoff_seconds c
     then Inl (ValueError ''base backoff cannot exceed maximum backoff'')
     else Inr c)"

definition backoff_for :: "reconciliation_source_config \<Rightarrow> int \<Rightarrow> timedelta" where
  "backoff_for c failures =
    (if failures \<le> 0 then rsc_poll_interval_seconds c * 1000000
     else min (rsc_max_backoff_seconds c) (rsc_base_backoff_seconds c * 2 ^ nat (min (failures - 1) 30)) * 1000000)"

definition validate_completeness_profile :: "production_completeness_profile \<Rightarrow> production_completeness_profile result" where
  "validate_completeness_profile p =
    (if pcp_required_sources p = []
     then Inl (ValueError ''production completeness profile requires at least one source'')
     else if \<not> distinct (pcp_required_sources p) then Inl (ValueError ''production completeness sources must be unique'')
     else Inr p)"

definition validate_reconciliation_batch :: "reconciliation_batch \<Rightarrow> reconciliation_batch result" where
  "validate_reconciliation_batch b =
    (if list_ex (\<lambda>ob. eso_tenant_id ob \<noteq> rba_tenant_id b \<or> eso_source_system ob \<noteq> rba_source_system b) (rba_observations b)
     then Inl (ValueError ''observation scope must match reconciliation batch'')
     else if list_ex (\<lambda>e. eae_tenant_id e \<noteq> rba_tenant_id b \<or> eae_source_system e \<noteq> rba_source_system b) (rba_audit_events b)
     then Inl (ValueError ''audit event scope must match reconciliation batch'')
     else if \<exists>w. rba_high_watermark b = Some w \<and> w > rba_collected_at b
     then Inl (ValueError ''high watermark cannot be after collection time'')
     else Inr b)"

section \<open>The engine\<close>

definition severity_rank :: "string \<Rightarrow> int" where
  "severity_rank s =
    (case map_of [(''info'', 0), (''low'', 1), (''medium'', 2), (''high'', 3), (''critical'', 4)] s of
       Some n \<Rightarrow> n
     | None \<Rightarrow> 99)"

definition or_empty :: "string option \<Rightarrow> string" where
  "or_empty s = (case s of None \<Rightarrow> [] | Some x \<Rightarrow> x)"

definition finding_id ::
  "uuid5_fn \<Rightarrow> uuid \<Rightarrow> string \<Rightarrow> reconciliation_outcome \<Rightarrow> uuid option \<Rightarrow> string option \<Rightarrow> string \<Rightarrow> uuid" where
  "finding_id u5 run_id source outcome action_id external_reference discriminator =
    u5 (join ''|'' [''prodkit-control-reconciliation-v1'', run_id, source, reconciliation_outcome_value outcome,
      or_empty action_id, or_empty external_reference, discriminator])"

definition finding ::
  "uuid5_fn \<Rightarrow> uuid \<Rightarrow> string \<Rightarrow> datetime \<Rightarrow> reconciliation_outcome \<Rightarrow> reconciliation_severity \<Rightarrow> string \<Rightarrow> uuid option
    \<Rightarrow> string option \<Rightarrow> string \<Rightarrow> (string \<times> pyval) list \<Rightarrow> reconciliation_finding" where
  "finding u5 run_id source observed_at outcome severity summary action_id external_reference discriminator details =
    \<lparr>find_finding_id = finding_id u5 run_id source outcome action_id external_reference discriminator,
     find_run_id = run_id, find_action_id = action_id, find_reconciler = ''prodkit:'' @ source, find_source_system = source,
     find_observed_at = observed_at, find_outcome = outcome, find_severity = reconciliation_severity_value severity,
     find_summary = summary, find_external_reference = external_reference, find_details = details, find_evidence = []\<rparr>"

text \<open>The expected actions of the batch's tenant and source, as a dictionary by action.\<close>

definition expected_of :: "expected_external_action list \<Rightarrow> reconciliation_batch \<Rightarrow> (uuid \<times> expected_external_action) list" where
  "expected_of actions b = dict_of (map (\<lambda>a. (eea_action_id a, a))
     (filter (\<lambda>a. eea_tenant_id a = rba_tenant_id b \<and> eea_source_system a = rba_source_system b) actions))"

definition uncontrolled :: "(uuid \<times> expected_external_action) list \<Rightarrow> uuid option \<Rightarrow> bool" where
  "uncontrolled expected action_id = (case action_id of None \<Rightarrow> True | Some a \<Rightarrow> map_of expected a = None)"

definition health_findings :: "uuid5_fn \<Rightarrow> uuid \<Rightarrow> reconciliation_batch \<Rightarrow> reconciliation_finding list" where
  "health_findings u5 run_id b =
    (if rba_health b = Health_HEALTHY then []
     else [finding u5 run_id (rba_source_system b) (rba_collected_at b)
       (if rba_health b = Health_CONFLICTING then Recon_CONFLICTING_EVIDENCE else Recon_UNVERIFIABLE)
       (if rba_health b \<in> {Health_UNAVAILABLE, Health_CONFLICTING} then Severity_HIGH else Severity_MEDIUM)
       (''source evidence is '' @ reconciliation_source_health_value (rba_health b) @ ''; reconciliation cannot pass'')
       None None (''source-health:'' @ reconciliation_source_health_value (rba_health b))
       [(''source_health'', PStr (reconciliation_source_health_value (rba_health b)))]])"

definition unexpected_observation :: "uuid5_fn \<Rightarrow> uuid \<Rightarrow> reconciliation_batch \<Rightarrow> external_state_observation \<Rightarrow> reconciliation_finding" where
  "unexpected_observation u5 run_id b ob =
    finding u5 run_id (rba_source_system b) (eso_observed_at ob) Recon_UNEXPECTED_EXTERNAL_ACTION Severity_HIGH
      ''external state has no corresponding controlled action'' (eso_action_id ob) (eso_external_reference ob)
      (''observation:'' @ eso_observation_id ob) [(''observation_id'', PStr (eso_observation_id ob))]"

definition unexpected_audit_event :: "uuid5_fn \<Rightarrow> uuid \<Rightarrow> external_audit_event \<Rightarrow> reconciliation_finding" where
  "unexpected_audit_event u5 run_id e =
    finding u5 run_id (eae_source_system e) (eae_occurred_at e) Recon_UNEXPECTED_EXTERNAL_ACTION Severity_HIGH
      ''external audit event has no corresponding controlled action'' (eae_action_id e) (eae_external_reference e)
      (''audit:'' @ eae_event_id e @ '':'' @ eae_payload_digest e)
      [(''event_id'', PStr (eae_event_id e)), (''event_type'', PStr (eae_event_type e))]"

definition observations_of :: "uuid \<Rightarrow> reconciliation_batch \<Rightarrow> external_state_observation list" where
  "observations_of action_id b = filter (\<lambda>ob. eso_action_id ob = Some action_id) (rba_observations b)"

definition digests_of :: "external_state_observation list \<Rightarrow> string list" where
  "digests_of obs = sort (remdups (map eso_state_digest obs))"

text \<open>\<open>max(\<dots>, key=lambda item: item.observed_at)\<close>: the first observation with the latest time.\<close>

definition latest :: "external_state_observation list \<Rightarrow> external_state_observation" where
  "latest obs = foldl (\<lambda>m x. if eso_observed_at m < eso_observed_at x then x else m) (hd obs) (tl obs)"

definition or_else :: "string option \<Rightarrow> string option \<Rightarrow> string option" where
  "or_else a b = (if truthy a then a else b)"

definition matched_findings ::
  "uuid5_fn \<Rightarrow> uuid \<Rightarrow> reconciliation_batch \<Rightarrow> uuid \<Rightarrow> expected_external_action \<Rightarrow> external_state_observation
    \<Rightarrow> reconciliation_finding list" where
  "matched_findings u5 run_id b action_id a observed =
    (if rba_health b = Health_HEALTHY then
       [finding u5 run_id (rba_source_system b) (eso_observed_at observed) Recon_MATCHED Severity_INFO
         ''external evidence matches controlled action'' (Some action_id)
         (or_else (eso_external_reference observed) (eea_external_reference a)) (''matched:'' @ eso_state_digest observed) []]
     else [])"

text \<open>One iteration of the loop over the expected actions: the findings it appends.\<close>

definition action_findings ::
  "uuid5_fn \<Rightarrow> uuid \<Rightarrow> reconciliation_batch \<Rightarrow> uuid \<Rightarrow> expected_external_action \<Rightarrow> reconciliation_finding list" where
  "action_findings u5 run_id b action_id a =
    (let obs = observations_of action_id b; digests = digests_of obs; observed = latest obs;
         healthy = (rba_health b = Health_HEALTHY)
     in if obs = [] then
          [finding u5 run_id (rba_source_system b) (rba_collected_at b)
            (if \<not> healthy then Recon_UNVERIFIABLE else Recon_MISSING_EXTERNAL_EVIDENCE) Severity_HIGH
            (if \<not> healthy then ''expected action cannot be verified because source evidence is unavailable''
             else ''controlled action has no external evidence'')
            (Some action_id) (eea_external_reference a) ''missing'' []]
        else if 1 < length digests then
          [finding u5 run_id (rba_source_system b) (eso_observed_at observed) Recon_CONFLICTING_EVIDENCE Severity_HIGH
            ''external observations disagree about action state'' (Some action_id) (eea_external_reference a)
            (''conflicting-digests:'' @ join '','' digests) [(''observed_digests'', PList (map PStr digests))]]
        else case eea_expected_state_digest a of
          Some d \<Rightarrow>
            if eso_state_digest observed \<noteq> d then
              [finding u5 run_id (rba_source_system b) (eso_observed_at observed) Recon_STATE_MISMATCH Severity_HIGH
                ''external state digest differs from controlled expectation'' (Some action_id)
                (or_else (eso_external_reference observed) (eea_external_reference a))
                (''mismatch:'' @ d @ '':'' @ eso_state_digest observed)
                [(''expected_digest'', PStr d), (''observed_digest'', PStr (eso_state_digest observed))]]
            else matched_findings u5 run_id b action_id a observed
        | None \<Rightarrow> matched_findings u5 run_id b action_id a observed)"

definition raised_findings ::
  "uuid5_fn \<Rightarrow> uuid \<Rightarrow> expected_external_action list \<Rightarrow> reconciliation_batch \<Rightarrow> reconciliation_finding list" where
  "raised_findings u5 run_id actions b =
    (let expected = expected_of actions b
     in health_findings u5 run_id b
        @ map (unexpected_observation u5 run_id b) (filter (\<lambda>ob. uncontrolled expected (eso_action_id ob)) (rba_observations b))
        @ map (unexpected_audit_event u5 run_id) (filter (\<lambda>e. uncontrolled expected (eae_action_id e)) (rba_audit_events b))
        @ concat (map (\<lambda>(action_id, a). action_findings u5 run_id b action_id a) (sort_key fst expected)))"

definition finding_order :: "reconciliation_finding \<Rightarrow> int \<times> string \<times> string \<times> string" where
  "finding_order f = (- severity_rank (find_severity f), reconciliation_outcome_value (find_outcome f),
     or_empty (find_action_id f), find_finding_id f)"

definition reconcile ::
  "uuid5_fn \<Rightarrow> uuid \<Rightarrow> expected_external_action list \<Rightarrow> reconciliation_batch \<Rightarrow> reconciliation_finding list" where
  "reconcile u5 run_id actions b =
    sort_key finding_order (map snd (dict_of (map (\<lambda>f. (find_finding_id f, f)) (raised_findings u5 run_id actions b))))"

section \<open>Production completeness\<close>

definition source_state ::
  "(string \<times> reconciliation_source_health \<times> datetime option) list \<Rightarrow> string \<Rightarrow> reconciliation_source_health \<times> datetime option" where
  "source_state health source = (case map_of health source of None \<Rightarrow> (Health_UNAVAILABLE, None) | Some h \<Rightarrow> h)"

text \<open>The list a required source is put on; only the first branch counts as fresh.\<close>

definition classify :: "production_completeness_profile \<Rightarrow> datetime \<Rightarrow> reconciliation_source_health \<times> datetime option \<Rightarrow> reconciliation_source_health" where
  "classify p assessed_at st =
    (case st of (health, high_watermark) \<Rightarrow>
       if health = Health_HEALTHY
          \<and> (\<exists>w. high_watermark = Some w \<and> assessed_at - w \<le> pcp_max_source_age_seconds p * 1000000)
       then Health_HEALTHY
       else if health = Health_CONFLICTING then Health_CONFLICTING
       else if health = Health_UNAVAILABLE \<or> high_watermark = None then Health_UNAVAILABLE
       else Health_STALE)"

definition assess_production_completeness ::
  "production_completeness_profile \<Rightarrow> datetime \<Rightarrow> (string \<times> reconciliation_source_health \<times> datetime option) list
    \<Rightarrow> reconciliation_finding list \<Rightarrow> production_completeness_assessment" where
  "assess_production_completeness p assessed_at health findings =
    (let sources = \<lambda>c. filter (\<lambda>s. classify p assessed_at (source_state health s) = c) (pcp_required_sources p);
         stale = sources Health_STALE; unavailable = sources Health_UNAVAILABLE; conflicting = sources Health_CONFLICTING;
         blocking = map find_finding_id (filter (\<lambda>f. find_source_system f \<in> set (pcp_required_sources p)
           \<and> find_outcome f \<noteq> Recon_MATCHED) findings);
         complete = (stale = [] \<and> unavailable = [] \<and> conflicting = [] \<and> blocking = []);
         matched_sources = map find_source_system (filter (\<lambda>f. find_outcome f = Recon_MATCHED) findings)
     in \<lparr>pca_profile_id = pcp_profile_id p, pca_tenant_id = pcp_tenant_id p, pca_organization_id = pcp_organization_id p,
         pca_assessed_at = assessed_at,
         pca_complete = (if pcp_require_matched_reconciliation p
           then complete \<and> set (pcp_required_sources p) \<subseteq> set matched_sources else complete),
         pca_healthy_sources = sort (sources Health_HEALTHY), pca_stale_sources = sort stale,
         pca_unavailable_sources = sort unavailable, pca_conflicting_sources = sort conflicting,
         pca_blocking_findings = blocking\<rparr>)"

section \<open>Facts about the engine\<close>

lemma fst_set_update: "fst ` set (AList.update k v d) = insert k (fst ` set d)"
  by (induction d) auto

lemma fst_set_foldl_update: "fst ` set (foldl (\<lambda>d p. AList.update (fst p) (snd p) d) d xs) = fst ` set d \<union> fst ` set xs"
  by (induction xs arbitrary: d) (simp_all add: fst_set_update)

lemma fst_set_dict_of: "fst ` set (dict_of xs) = fst ` set xs"
  by (simp add: dict_of_def fst_set_foldl_update)

text \<open>Keeping the last item with each key: a sublist with distinct keys that covers every key.\<close>

definition last_by :: "('a \<Rightarrow> 'k) \<Rightarrow> 'a list \<Rightarrow> 'a list" where
  "last_by key xs = map snd (dict_of (map (\<lambda>x. (key x, x)) xs))"

lemma last_by_key: "map key (last_by key xs) = map fst (dict_of (map (\<lambda>x. (key x, x)) xs))"
  unfolding last_by_def map_map using set_dict_of by (fastforce intro!: map_cong)

lemma distinct_last_by: "distinct (map key (last_by key xs))"
  by (simp add: last_by_key distinct_dict_of)

lemma set_last_by: "set (last_by key xs) \<subseteq> set xs"
  by (auto simp: last_by_def dest!: set_dict_of)

lemma last_by_covers: "x \<in> set xs \<Longrightarrow> \<exists>y \<in> set (last_by key xs). key y = key x"
proof -
  assume "x \<in> set xs"
  then have "key x \<in> fst ` set (dict_of (map (\<lambda>x. (key x, x)) xs))" by (force simp: fst_set_dict_of)
  also have "\<dots> = key ` set (last_by key xs)" unfolding set_map [symmetric] last_by_key ..
  finally show ?thesis by auto
qed

lemma reconcile_last_by: "reconcile u5 run actions b = sort_key finding_order (last_by find_finding_id (raised_findings u5 run actions b))"
  by (simp add: reconcile_def last_by_def)

lemma reconcile_raised: "set (reconcile u5 run actions b) \<subseteq> set (raised_findings u5 run actions b)"
  using set_last_by by (fastforce simp: reconcile_last_by)

lemma finding_sel [simp]:
  "find_finding_id (finding u5 run source t oc sev su act ref disc det) = finding_id u5 run source oc act ref disc"
  "find_outcome (finding u5 run source t oc sev su act ref disc det) = oc"
  "find_action_id (finding u5 run source t oc sev su act ref disc det) = act"
  "find_source_system (finding u5 run source t oc sev su act ref disc det) = source"
  "find_run_id (finding u5 run source t oc sev su act ref disc det) = run"
  "find_observed_at (finding u5 run source t oc sev su act ref disc det) = t"
  by (simp_all add: finding_def)

lemma distinct_expected: "distinct (map fst (expected_of actions b))"
  by (simp add: expected_of_def distinct_dict_of)

lemma set_expected: "(k, a) \<in> set (expected_of actions b) \<longleftrightarrow> map_of (expected_of actions b) k = Some a"
  by (simp add: distinct_expected)

lemma latest_in: "obs \<noteq> [] \<Longrightarrow> latest obs \<in> set obs"
proof -
  have "foldl (\<lambda>m x. if eso_observed_at m < eso_observed_at x then x else m) m xs \<in> insert m (set xs)" for m xs
  proof (induction xs arbitrary: m)
    case (Cons x xs)
    show ?case using Cons.IH [of "if eso_observed_at m < eso_observed_at x then x else m"] by auto
  qed simp
  note in_fold = this
  assume "obs \<noteq> []"
  then obtain x xs where "obs = x # xs" by (cases obs) blast+
  then show "latest obs \<in> set obs" using in_fold [of x xs] by (simp only: latest_def list.sel list.set)
qed

lemma several_digests: "1 < length (digests_of obs) \<longleftrightarrow> (\<exists>x \<in> set obs. \<exists>y \<in> set obs. eso_state_digest x \<noteq> eso_state_digest y)"
proof -
  have "1 < length (remdups xs) \<longleftrightarrow> (\<exists>x \<in> set xs. \<exists>y \<in> set xs. x \<noteq> y)" for xs :: "string list"
  proof -
    have "1 < length (remdups xs) \<longleftrightarrow> \<not> card (set xs) \<le> Suc 0" by (auto simp: length_remdups_card_conv)
    then show ?thesis by (auto simp: card_le_Suc0_iff_eq)
  qed
  then show ?thesis by (simp add: digests_of_def)
qed

lemma one_digest: "\<not> 1 < length (digests_of obs) \<Longrightarrow> x \<in> set obs \<Longrightarrow> y \<in> set obs \<Longrightarrow> eso_state_digest x = eso_state_digest y"
  using several_digests by blast

text \<open>The outcomes an expected action deserves, over the set of its observations.\<close>

definition verdict :: "reconciliation_batch \<Rightarrow> uuid \<Rightarrow> expected_external_action \<Rightarrow> reconciliation_outcome set" where
  "verdict b k a =
    (let digests = {eso_state_digest ob | ob. ob \<in> set (rba_observations b) \<and> eso_action_id ob = Some k};
         healthy = (rba_health b = Health_HEALTHY)
     in if digests = {} then {if healthy then Recon_MISSING_EXTERNAL_EVIDENCE else Recon_UNVERIFIABLE}
        else if \<not> (\<exists>d. digests = {d}) then {Recon_CONFLICTING_EVIDENCE}
        else if \<exists>d. eea_expected_state_digest a = Some d \<and> digests \<noteq> {d} then {Recon_STATE_MISMATCH}
        else if healthy then {Recon_MATCHED} else {})"

lemma action_findings_verdict: "find_outcome ` set (action_findings u5 run b k a) = verdict b k a"
proof (cases "observations_of k b = []")
  case True
  then have "{eso_state_digest ob | ob. ob \<in> set (rba_observations b) \<and> eso_action_id ob = Some k} = {}"
    by (auto simp: observations_of_def filter_empty_conv)
  with True show ?thesis by (simp add: action_findings_def verdict_def)
next
  case False
  let ?os = "observations_of k b"
  have ds: "{eso_state_digest ob | ob. ob \<in> set (rba_observations b) \<and> eso_action_id ob = Some k} = eso_state_digest ` set ?os"
    by (auto simp: observations_of_def)
  note l = latest_in [OF False]
  show ?thesis
  proof (cases "1 < length (digests_of ?os)")
    case True
    then obtain x y where xy: "x \<in> set ?os" "y \<in> set ?os" "eso_state_digest x \<noteq> eso_state_digest y"
      unfolding several_digests by blast
    from xy(1,2) have "eso_state_digest x \<in> eso_state_digest ` set ?os" "eso_state_digest y \<in> eso_state_digest ` set ?os"
      by simp_all
    with xy(3) have "\<not> (\<exists>d. eso_state_digest ` set ?os = {d})" by (metis singletonD)
    moreover have "eso_state_digest ` set ?os \<noteq> {}" using False by simp
    ultimately have "verdict b k a = {Recon_CONFLICTING_EVIDENCE}" unfolding verdict_def ds Let_def by (simp only: if_False if_True not_False_eq_True)
    moreover have "find_outcome ` set (action_findings u5 run b k a) = {Recon_CONFLICTING_EVIDENCE}"
      unfolding action_findings_def Let_def if_not_P [OF False] if_P [OF True] by simp
    ultimately show ?thesis by simp
  next
    case one: False
    have "eso_state_digest ` set ?os = {eso_state_digest (latest ?os)}"
    proof (intro equalityI subsetI)
      fix d
      assume "d \<in> eso_state_digest ` set ?os"
      then obtain x where "x \<in> set ?os" "d = eso_state_digest x" by (rule imageE)
      with one_digest [OF one _ l] show "d \<in> {eso_state_digest (latest ?os)}" by simp
    qed (use l in simp)
    moreover have "action_findings u5 run b k a = (case eea_expected_state_digest a of
        Some d \<Rightarrow> if eso_state_digest (latest ?os) \<noteq> d then
            [finding u5 run (rba_source_system b) (eso_observed_at (latest ?os)) Recon_STATE_MISMATCH Severity_HIGH
              ''external state digest differs from controlled expectation'' (Some k)
              (or_else (eso_external_reference (latest ?os)) (eea_external_reference a))
              (''mismatch:'' @ d @ '':'' @ eso_state_digest (latest ?os))
              [(''expected_digest'', PStr d), (''observed_digest'', PStr (eso_state_digest (latest ?os)))]]
          else matched_findings u5 run b k a (latest ?os)
      | None \<Rightarrow> matched_findings u5 run b k a (latest ?os))"
      unfolding action_findings_def Let_def if_not_P [OF False] if_not_P [OF one] ..
    ultimately show ?thesis unfolding verdict_def ds Let_def
      by (cases "eea_expected_state_digest a") (simp_all add: matched_findings_def)
  qed
qed

lemma action_findings_action: "f \<in> set (action_findings u5 run b k a) \<Longrightarrow> find_action_id f = Some k"
  by (auto simp: action_findings_def matched_findings_def Let_def split: option.splits if_splits)

lemma raised_cases:
  "f \<in> set (raised_findings u5 run actions b) \<longleftrightarrow>
    f \<in> set (health_findings u5 run b)
    \<or> (\<exists>ob \<in> set (rba_observations b). uncontrolled (expected_of actions b) (eso_action_id ob) \<and> f = unexpected_observation u5 run b ob)
    \<or> (\<exists>e \<in> set (rba_audit_events b). uncontrolled (expected_of actions b) (eae_action_id e) \<and> f = unexpected_audit_event u5 run e)
    \<or> (\<exists>k a. map_of (expected_of actions b) k = Some a \<and> f \<in> set (action_findings u5 run b k a))"
  by (force simp: raised_findings_def Let_def set_expected [symmetric])

lemma raised_for_action:
  assumes "map_of (expected_of actions b) k = Some a"
  shows "f \<in> set (raised_findings u5 run actions b) \<and> find_action_id f = Some k \<longleftrightarrow> f \<in> set (action_findings u5 run b k a)"
proof
  assume f: "f \<in> set (raised_findings u5 run actions b) \<and> find_action_id f = Some k"
  have "\<not> uncontrolled (expected_of actions b) (Some k)" using assms by (simp add: uncontrolled_def)
  moreover have "find_action_id g = None" if "g \<in> set (health_findings u5 run b)" for g
    using that by (auto simp: health_findings_def split: if_splits)
  moreover have "find_action_id (unexpected_observation u5 run b ob) = eso_action_id ob" for ob by (simp add: unexpected_observation_def)
  moreover have "find_action_id (unexpected_audit_event u5 run e) = eae_action_id e" for e by (simp add: unexpected_audit_event_def)
  ultimately obtain k' a' where "map_of (expected_of actions b) k' = Some a'" "f \<in> set (action_findings u5 run b k' a')"
    using f unfolding raised_cases by (metis option.distinct(1))
  with action_findings_action [OF this(2)] f assms show "f \<in> set (action_findings u5 run b k a)" by simp
qed (use assms action_findings_action in \<open>auto simp: raised_cases\<close>)

definition no_id_collision :: "reconciliation_finding list \<Rightarrow> bool" where
  "no_id_collision fs \<longleftrightarrow> (\<forall>f \<in> set fs. \<forall>g \<in> set fs. find_finding_id f = find_finding_id g \<longrightarrow>
     find_outcome f = find_outcome g \<and> find_action_id f = find_action_id g)"

lemma reconcile_keeps:
  assumes "no_id_collision (raised_findings u5 run actions b)" "f \<in> set (raised_findings u5 run actions b)"
  shows "\<exists>g \<in> set (reconcile u5 run actions b). find_outcome g = find_outcome f \<and> find_action_id g = find_action_id f"
proof -
  obtain g where g: "g \<in> set (reconcile u5 run actions b)" "find_finding_id g = find_finding_id f"
    using last_by_covers [OF assms(2), of find_finding_id] by (auto simp: reconcile_last_by)
  with assms reconcile_raised show ?thesis unfolding no_id_collision_def by (meson subsetD)
qed

lemma health_findings_action: "f \<in> set (health_findings u5 run b) \<Longrightarrow> find_action_id f = None
    \<and> find_outcome f \<in> {Recon_CONFLICTING_EVIDENCE, Recon_UNVERIFIABLE}"
  by (auto simp: health_findings_def split: if_splits)

lemma unexpected_sel [simp]:
  "find_outcome (unexpected_observation u5 run b ob) = Recon_UNEXPECTED_EXTERNAL_ACTION"
  "find_outcome (unexpected_audit_event u5 run e) = Recon_UNEXPECTED_EXTERNAL_ACTION"
  "find_action_id (unexpected_observation u5 run b ob) = eso_action_id ob"
  "find_action_id (unexpected_audit_event u5 run e) = eae_action_id e"
  "find_source_system (unexpected_observation u5 run b ob) = rba_source_system b"
  "find_source_system (unexpected_audit_event u5 run e) = eae_source_system e"
  by (simp_all add: unexpected_observation_def unexpected_audit_event_def)

lemma verdict_not_unexpected: "Recon_UNEXPECTED_EXTERNAL_ACTION \<notin> verdict b k a"
  by (simp add: verdict_def Let_def)

lemma verdict_matched: "Recon_MATCHED \<in> verdict b k a \<Longrightarrow> rba_health b = Health_HEALTHY"
  by (simp add: verdict_def Let_def split: if_splits)

lemma action_findings_outcome: "f \<in> set (action_findings u5 run b k a) \<Longrightarrow> find_outcome f \<in> verdict b k a"
  using action_findings_verdict [of u5 run b k a] by blast

lemma raised_unexpected:
  "f \<in> set (raised_findings u5 run actions b) \<and> find_outcome f = Recon_UNEXPECTED_EXTERNAL_ACTION \<longleftrightarrow>
    (\<exists>ob \<in> set (rba_observations b). uncontrolled (expected_of actions b) (eso_action_id ob) \<and> f = unexpected_observation u5 run b ob)
    \<or> (\<exists>e \<in> set (rba_audit_events b). uncontrolled (expected_of actions b) (eae_action_id e) \<and> f = unexpected_audit_event u5 run e)"
proof -
  have "find_outcome f \<noteq> Recon_UNEXPECTED_EXTERNAL_ACTION" if "f \<in> set (health_findings u5 run b)"
    using health_findings_action [OF that] by auto
  moreover have "find_outcome f \<noteq> Recon_UNEXPECTED_EXTERNAL_ACTION" if "f \<in> set (action_findings u5 run b k a)" for k a
    using action_findings_outcome [OF that] verdict_not_unexpected [of b k a] by auto
  ultimately show ?thesis unfolding raised_cases using unexpected_sel(1) [of u5 run b] unexpected_sel(2) [of u5 run]
    by (elim disjE | rule iffI | elim conjE | blast)+
qed

lemma collect_same:
  assumes "A \<subseteq> B" "\<And>f. f \<in> B \<Longrightarrow> \<exists>g \<in> A. p g = p f \<and> q g = q f"
  shows "{p f | f. f \<in> A \<and> q f = c} = {p f | f. f \<in> B \<and> q f = c}"
proof (intro equalityI subsetI)
  fix x
  assume "x \<in> {p f | f. f \<in> A \<and> q f = c}"
  with assms(1) show "x \<in> {p f | f. f \<in> B \<and> q f = c}" by auto
next
  fix x
  assume "x \<in> {p f | f. f \<in> B \<and> q f = c}"
  then obtain f where f: "f \<in> B" "q f = c" "x = p f" by auto
  from assms(2) [OF f(1)] obtain g where "g \<in> A" "p g = p f" "q g = q f" by blast
  with f show "x \<in> {p f | f. f \<in> A \<and> q f = c}" by (auto intro!: exI [of _ g])
qed

lemma unhealthy_not_matched:
  assumes "f \<in> set (raised_findings u5 run actions b)" "find_outcome f = Recon_MATCHED"
  shows "rba_health b = Health_HEALTHY"
proof -
  from assms obtain k a where "f \<in> set (action_findings u5 run b k a)"
    unfolding raised_cases using health_findings_action [of f u5 run b] by force
  from action_findings_outcome [OF this] assms(2) show ?thesis by (simp add: verdict_matched)
qed

text \<open>
  C10: Reconciliation decides every controlled action exactly. The findings for an expected action of the batch's tenant and
  source have precisely the outcome its observations deserve: missing or unverifiable without any, conflicting when
  they disagree, a mismatch when they agree on another state than expected, matched only when they agree on the expected state
  and the source is healthy, and no verdict otherwise. An unexpected action is reported exactly when the evidence has an observation or audit
  event that belongs to no controlled action. An unhealthy source is always reported and never
  yields a match. The findings have distinct identifiers and are sorted by severity, outcome, action and identifier. Only a
  collision of two finding identifiers of this batch could hide an outcome.
\<close>

theorem reconcile_exact:
  assumes "no_id_collision (raised_findings u5 run actions b)"
  defines "fs \<equiv> reconcile u5 run actions b"
  shows "(\<forall>k a. map_of (expected_of actions b) k = Some a \<longrightarrow>
        {find_outcome f | f. f \<in> set fs \<and> find_action_id f = Some k} = verdict b k a)
    \<and> {find_action_id f | f. f \<in> set fs \<and> find_outcome f = Recon_UNEXPECTED_EXTERNAL_ACTION}
        = {act. uncontrolled (expected_of actions b) act
             \<and> (act \<in> eso_action_id ` set (rba_observations b) \<or> act \<in> eae_action_id ` set (rba_audit_events b))}
    \<and> (rba_health b \<noteq> Health_HEALTHY \<longrightarrow> (\<exists>f \<in> set fs. find_action_id f = None
         \<and> find_outcome f \<in> {Recon_CONFLICTING_EVIDENCE, Recon_UNVERIFIABLE}) \<and> (\<forall>f \<in> set fs. find_outcome f \<noteq> Recon_MATCHED))
    \<and> distinct (map find_finding_id fs) \<and> sorted (map finding_order fs)"
proof (intro conjI allI impI)
  let ?raised = "raised_findings u5 run actions b"
  have sub: "set fs \<subseteq> set ?raised" unfolding fs_def by (rule reconcile_raised)
  have keep: "\<exists>g \<in> set fs. find_outcome g = find_outcome f \<and> find_action_id g = find_action_id f" if "f \<in> set ?raised" for f
    unfolding fs_def by (rule reconcile_keeps [OF assms(1) that])
  show "{find_outcome f | f. f \<in> set fs \<and> find_action_id f = Some k} = verdict b k a"
    if "map_of (expected_of actions b) k = Some a" for k a
  proof -
    have "{find_outcome f | f. f \<in> set fs \<and> find_action_id f = Some k} = {find_outcome f | f. f \<in> set ?raised \<and> find_action_id f = Some k}"
      by (rule collect_same [OF sub keep])
    also have "\<dots> = find_outcome ` set (action_findings u5 run b k a)" unfolding raised_for_action [OF that] by blast
    finally show ?thesis unfolding action_findings_verdict .
  qed
  have "{find_action_id f | f. f \<in> set fs \<and> find_outcome f = Recon_UNEXPECTED_EXTERNAL_ACTION}
      = {find_action_id f | f. f \<in> set ?raised \<and> find_outcome f = Recon_UNEXPECTED_EXTERNAL_ACTION}"
    using sub keep by (intro collect_same) auto
  also have "\<dots> = {act. uncontrolled (expected_of actions b) act
      \<and> (act \<in> eso_action_id ` set (rba_observations b) \<or> act \<in> eae_action_id ` set (rba_audit_events b))}"
    unfolding raised_unexpected by (intro equalityI subsetI) (auto, metis unexpected_sel(3), metis unexpected_sel(4))
  finally show "{find_action_id f | f. f \<in> set fs \<and> find_outcome f = Recon_UNEXPECTED_EXTERNAL_ACTION} = \<dots>" .
  assume unhealthy: "rba_health b \<noteq> Health_HEALTHY"
  then obtain f where f: "f \<in> set (health_findings u5 run b)" unfolding health_findings_def by force
  then have "f \<in> set ?raised" unfolding raised_cases by blast
  from keep [OF this] health_findings_action [OF f] show "\<exists>f \<in> set fs. find_action_id f = None
      \<and> find_outcome f \<in> {Recon_CONFLICTING_EVIDENCE, Recon_UNVERIFIABLE}" by metis
  show "\<forall>f \<in> set fs. find_outcome f \<noteq> Recon_MATCHED" using unhealthy_not_matched sub unhealthy by blast
next
  have perm: "mset fs = mset (last_by find_finding_id (raised_findings u5 run actions b))" by (simp add: fs_def reconcile_last_by)
  have "mset (map find_finding_id fs) = mset (map find_finding_id (last_by find_finding_id (raised_findings u5 run actions b)))"
    using perm by simp
  then show "distinct (map find_finding_id fs)" using distinct_last_by mset_eq_imp_distinct_iff by blast
  show "sorted (map finding_order fs)" by (simp add: fs_def reconcile_def)
qed

section \<open>Findings are well formed\<close>

lemma finding_fields:
  assumes "nonblank source" "nonblank summary" "pred_option nonblank ref"
  shows "reconciliation_finding_fields (finding u5 run source t oc sev summary act ref disc det)"
proof -
  have "nonblank (''prodkit:'' @ source)"
    using assms(1) nonblank_last [OF assms(1)] by (intro nonblankI) (simp_all add: py_isspace_def nonblank_def)
  moreover have "nonblank (reconciliation_severity_value sev)" by (cases sev) (simp_all add: nonblankI py_isspace_def)
  ultimately show ?thesis using assms by (simp add: reconciliation_finding_fields_def finding_def)
qed

lemma or_else_nonblank: "pred_option nonblank a \<Longrightarrow> pred_option nonblank b \<Longrightarrow> pred_option nonblank (or_else a b)"
  by (simp add: or_else_def)

lemma expected_fields:
  "list_all expected_external_action_fields actions \<Longrightarrow> map_of (expected_of actions b) k = Some a \<Longrightarrow> expected_external_action_fields a"
  by (auto simp: expected_of_def list_all_iff dest!: map_of_SomeD set_dict_of)

lemma observations_in: "ob \<in> set (observations_of k b) \<Longrightarrow> ob \<in> set (rba_observations b)"
  by (simp add: observations_of_def)

lemma action_findings_fields:
  assumes "reconciliation_batch_fields b" "expected_external_action_fields a" "f \<in> set (action_findings u5 run b k a)"
  shows "reconciliation_finding_fields f \<and> find_source_system f = rba_source_system b \<and> find_run_id f = run"
proof -
  have src: "nonblank (rba_source_system b)" using assms(1) by (simp add: reconciliation_batch_fields_def)
  have ref: "pred_option nonblank (eea_external_reference a)" using assms(2) by (simp add: expected_external_action_fields_def)
  have obs: "pred_option nonblank (eso_external_reference (latest (observations_of k b)))" if "observations_of k b \<noteq> []"
    using observations_in [OF latest_in [OF that]] assms(1)
    by (auto simp: reconciliation_batch_fields_def list_all_iff external_state_observation_fields_def)
  show ?thesis using assms(3) src ref or_else_nonblank [OF obs ref]
    by (auto simp: action_findings_def matched_findings_def Let_def split: option.splits if_splits
        intro!: finding_fields nonblankI) (simp_all add: py_isspace_def)
qed

lemma reconcile_fields:
  assumes "reconciliation_batch_fields b" "validate_reconciliation_batch b = Inr b" "list_all expected_external_action_fields actions"
    and "f \<in> set (reconcile u5 run actions b)"
  shows "reconciliation_finding_fields f \<and> find_source_system f = rba_source_system b \<and> find_run_id f = run"
proof -
  have src: "nonblank (rba_source_system b)" using assms(1) by (simp add: reconciliation_batch_fields_def)
  from assms(4) reconcile_raised have "f \<in> set (raised_findings u5 run actions b)" by blast
  then consider "f \<in> set (health_findings u5 run b)"
    | ob where "ob \<in> set (rba_observations b)" "f = unexpected_observation u5 run b ob"
    | e where "e \<in> set (rba_audit_events b)" "f = unexpected_audit_event u5 run e"
    | k a where "map_of (expected_of actions b) k = Some a" "f \<in> set (action_findings u5 run b k a)"
    unfolding raised_cases by blast
  then show ?thesis
  proof cases
    case 1
    then show ?thesis using src
      by (cases "rba_health b") (simp_all add: health_findings_def finding_fields nonblankI py_isspace_def)
  next
    case (2 ob)
    then have "external_state_observation_fields ob" using assms(1) by (simp add: reconciliation_batch_fields_def list_all_iff)
    with 2 src show ?thesis
      by (simp add: unexpected_observation_def external_state_observation_fields_def finding_fields nonblankI py_isspace_def)
  next
    case (3 e)
    then have "external_audit_event_fields e" using assms(1) by (simp add: reconciliation_batch_fields_def list_all_iff)
    moreover have "eae_source_system e = rba_source_system b"
      using assms(2) 3(1) by (simp add: validate_reconciliation_batch_def list_ex_iff split: if_splits)
    ultimately show ?thesis using 3(2) src
      by (simp add: unexpected_audit_event_def external_audit_event_fields_def finding_fields nonblankI py_isspace_def)
  next
    case (4 k a)
    from action_findings_fields [OF assms(1) expected_fields [OF assms(3) 4(1)] 4(2)] show ?thesis .
  qed
qed

text \<open>
  The engine only builds well-formed findings. On a validated batch and validated actions every finding satisfies the
  field constraints of \<open>ReconciliationFinding\<close>, so its construction never raises and \<open>reconcile\<close> is
  total; every finding belongs to the run and to the source of the batch.
\<close>

theorem reconcile_well_formed:
  assumes "reconciliation_batch_fields b" "validate_reconciliation_batch b = Inr b" "list_all expected_external_action_fields actions"
    and "f \<in> set (reconcile u5 run actions b)"
  shows "reconciliation_finding_fields f \<and> find_source_system f = rba_source_system b \<and> find_run_id f = run"
  using assms by (rule reconcile_fields)

section \<open>A concrete reconciliation\<close>

definition sample_expected :: expected_external_action where
  "sample_expected = \<lparr>eea_action_id = ''a1'', eea_run_id = ''r1'', eea_tenant_id = ''acme'', eea_source_system = ''git'',
     eea_expected_state_digest = Some (zero_hash []), eea_external_reference = None\<rparr>"

definition sample_observation :: external_state_observation where
  "sample_observation = \<lparr>eso_observation_id = ''o1'', eso_tenant_id = ''acme'', eso_source_system = ''git'', eso_observed_at = 90,
     eso_state_digest = zero_hash [], eso_action_id = Some ''a1'', eso_run_id = None, eso_external_reference = None,
     eso_state = [], eso_evidence = []\<rparr>"

definition sample_batch :: reconciliation_batch where
  "sample_batch = \<lparr>rba_tenant_id = ''acme'', rba_source_system = ''git'', rba_collected_at = 100, rba_health = Health_HEALTHY,
     rba_cursor = None, rba_high_watermark = Some 95, rba_observations = [sample_observation], rba_audit_events = []\<rparr>"

lemma sample_expected_of: "expected_of [sample_expected] sample_batch = [(''a1'', sample_expected)]"
  by (simp add: expected_of_def sample_expected_def sample_batch_def)

lemma sample_raised: "\<exists>f. raised_findings u5 ''r1'' [sample_expected] sample_batch = [f] \<and> find_outcome f = Recon_MATCHED"
proof -
  have obs: "observations_of ''a1'' sample_batch = [sample_observation]"
    by (simp add: observations_of_def sample_batch_def sample_observation_def)
  have "health_findings u5 ''r1'' sample_batch = []" "rba_audit_events sample_batch = []" "rba_observations sample_batch = [sample_observation]"
    "rba_health sample_batch = Health_HEALTHY"
    by (simp_all add: health_findings_def sample_batch_def)
  then show ?thesis
    by (simp add: raised_findings_def sample_expected_of action_findings_def obs digests_of_def latest_def uncontrolled_def matched_findings_def)
      (simp add: sample_expected_def sample_observation_def matched_findings_def sample_batch_def)
qed

text \<open>A witness of exact reconciliation: an agreeing observation of a healthy source is a match.\<close>

theorem reconcile_exact_witness:
  "{find_outcome f | f. f \<in> set (reconcile (\<lambda>n. n) ''r1'' [sample_expected] sample_batch) \<and> find_action_id f = Some ''a1''} = {Recon_MATCHED}"
proof -
  have "no_id_collision (raised_findings (\<lambda>n. n) ''r1'' [sample_expected] sample_batch)"
    using sample_raised [of "\<lambda>n. n"] by (auto simp: no_id_collision_def)
  from conjunct1 [OF reconcile_exact [OF this]]
  have "{find_outcome f | f. f \<in> set (reconcile (\<lambda>n. n) ''r1'' [sample_expected] sample_batch) \<and> find_action_id f = Some ''a1''}
      = verdict sample_batch ''a1'' sample_expected"
    by (simp add: sample_expected_of)
  also have "\<dots> = {Recon_MATCHED}"
    by (simp add: verdict_def sample_batch_def sample_observation_def sample_expected_def)
  finally show ?thesis .
qed

text \<open>A witness of well-formedness: the match found for the sample batch.\<close>

theorem reconcile_well_formed_witness:
  "\<exists>f. set (reconcile (\<lambda>n. n) ''r1'' [sample_expected] sample_batch) = {f} \<and> reconciliation_finding_fields f"
proof -
  obtain g where "raised_findings (\<lambda>n. n) ''r1'' [sample_expected] sample_batch = [g]" using sample_raised by blast
  then have g: "set (reconcile (\<lambda>n. n) ''r1'' [sample_expected] sample_batch) = {g}" by (simp add: reconcile_def dict_of_def)
  have b: "reconciliation_batch_fields sample_batch" "validate_reconciliation_batch sample_batch = Inr sample_batch"
    "list_all expected_external_action_fields [sample_expected]"
    by (simp_all add: sample_batch_def sample_observation_def sample_expected_def reconciliation_batch_fields_def
        external_state_observation_fields_def expected_external_action_fields_def validate_reconciliation_batch_def nonblankI py_isspace_def)
  from reconcile_well_formed [OF b, of g "\<lambda>n. n" "''r1''"] g show ?thesis by auto
qed

end
