(* ===== verification/Reconciliation.thy ===== *)
theory Reconciliation
  imports Reconciliation_Engine
begin

text \<open>
  The runtime's \<open>reconciliation.py\<close>: \<open>InMemoryReconciliationStore\<close> and
  \<open>ReconciliationCoordinator\<close>. A provider's \<open>collect\<close> is a parameter: for a tenant, the stored cursor and the
  time it returns a batch or raises. A poll is one step over the store; a store that refuses a
  result keeps what it wrote before it raised.
\<close>

section \<open>The store\<close>

record recon_store =
  rs_cursors :: "(string \<times> string) \<rightharpoonup> reconciliation_cursor"
  rs_results :: "uuid \<rightharpoonup> reconciliation_run_result"
  rs_findings :: "(uuid \<times> reconciliation_finding) list"
  rs_finding_tenants :: "uuid \<rightharpoonup> string"
  rs_audit_events :: "(string \<times> string \<times> string) list"

definition empty_recon :: recon_store where
  "empty_recon = \<lparr>rs_cursors = Map.empty, rs_results = Map.empty, rs_findings = [], rs_finding_tenants = Map.empty, rs_audit_events = []\<rparr>"

text \<open>Equality of two models: dictionaries compare by content, every other field by value.\<close>

definition finding_eq :: "reconciliation_finding \<Rightarrow> reconciliation_finding \<Rightarrow> bool" where
  "finding_eq f g = (f\<lparr>find_details := []\<rparr> = g\<lparr>find_details := []\<rparr>
     \<and> value_eq (dump_dict (\<lambda>v. v) (find_details f)) (dump_dict (\<lambda>v. v) (find_details g)))"

definition result_eq :: "reconciliation_run_result \<Rightarrow> reconciliation_run_result \<Rightarrow> bool" where
  "result_eq r q = (r\<lparr>rrr_findings := []\<rparr> = q\<lparr>rrr_findings := []\<rparr> \<and> list_all2 finding_eq (rrr_findings r) (rrr_findings q))"

definition get_cursor :: "string \<Rightarrow> string \<Rightarrow> recon_store \<Rightarrow> reconciliation_cursor option" where
  "get_cursor tenant source s = rs_cursors s (tenant, source)"

definition save_cursor :: "reconciliation_cursor \<Rightarrow> (recon_store, unit) prog" where
  "save_cursor c s = (Inr (), s\<lparr>rs_cursors := (rs_cursors s)((rcu_tenant_id c, rcu_source_system c) \<mapsto> c)\<rparr>)"

definition conflicting_finding :: "reconciliation_finding \<Rightarrow> recon_store \<Rightarrow> bool" where
  "conflicting_finding f s = (case map_of (rs_findings s) (find_finding_id f) of None \<Rightarrow> False | Some prior \<Rightarrow> \<not> finding_eq prior f)"

definition put_finding :: "string \<Rightarrow> reconciliation_finding \<Rightarrow> recon_store \<Rightarrow> recon_store" where
  "put_finding tenant f s = s\<lparr>rs_findings := AList.update (find_finding_id f) f (rs_findings s),
     rs_finding_tenants := (rs_finding_tenants s)(find_finding_id f \<mapsto> tenant)\<rparr>"

fun save_findings :: "string \<Rightarrow> reconciliation_finding list \<Rightarrow> (recon_store, unit) prog" where
  "save_findings tenant [] s = (Inr (), s)"
| "save_findings tenant (f # fs) s =
    (if conflicting_finding f s then (Inl (ValueError ''reconciliation finding identity cannot be rewritten''), s)
     else save_findings tenant fs (put_finding tenant f s))"

definition save_result :: "reconciliation_run_result \<Rightarrow> (recon_store, unit) prog" where
  "save_result r s =
    (if \<exists>old. rs_results s (rrr_reconciliation_id r) = Some old \<and> \<not> result_eq old r
     then (Inl (ValueError ''reconciliation result identity cannot be rewritten''), s)
     else save_findings (rrr_tenant_id r) (rrr_findings r) (s\<lparr>rs_results := (rs_results s)(rrr_reconciliation_id r \<mapsto> r)\<rparr>))"

definition ingest_audit_event :: "external_audit_event \<Rightarrow> (recon_store, bool) prog" where
  "ingest_audit_event e s =
    (let key = (eae_tenant_id e, eae_source_system e, eae_event_id e)
     in if key \<in> set (rs_audit_events s) then (Inr False, s)
        else (Inr True, s\<lparr>rs_audit_events := key # rs_audit_events s\<rparr>))"

definition list_findings :: "string \<Rightarrow> recon_store \<Rightarrow> reconciliation_finding list" where
  "list_findings tenant s =
    sort_key (\<lambda>f. (find_observed_at f, find_finding_id f))
      (map snd (filter (\<lambda>kf. rs_finding_tenants s (fst kf) = Some tenant) (rs_findings s)))"

section \<open>The coordinator\<close>

type_synonym collector = "string \<Rightarrow> reconciliation_cursor option \<Rightarrow> datetime \<Rightarrow> reconciliation_batch result"

definition new_cursor ::
  "string \<Rightarrow> string \<Rightarrow> string option \<Rightarrow> datetime option \<Rightarrow> reconciliation_source_health \<Rightarrow> int \<Rightarrow> datetime \<Rightarrow> datetime
    \<Rightarrow> reconciliation_cursor result" where
  "new_cursor tenant source cursor watermark health failures next_attempt now =
    check_fields ''ReconciliationCursor'' reconciliation_cursor_fields
      \<lparr>rcu_tenant_id = strip tenant, rcu_source_system = strip source, rcu_cursor = cursor, rcu_high_watermark = watermark,
       rcu_health = health, rcu_consecutive_failures = failures, rcu_next_attempt_at = Some next_attempt, rcu_updated_at = now\<rparr>"

definition new_result ::
  "uuid \<Rightarrow> uuid \<Rightarrow> string \<Rightarrow> string \<Rightarrow> datetime \<Rightarrow> reconciliation_source_health \<Rightarrow> string option \<Rightarrow> datetime option
    \<Rightarrow> reconciliation_finding list \<Rightarrow> reconciliation_run_result result" where
  "new_result rid run_id tenant source now health cursor watermark findings =
    check_fields ''ReconciliationRunResult'' reconciliation_run_result_fields
      \<lparr>rrr_reconciliation_id = rid, rrr_run_id = run_id, rrr_tenant_id = strip tenant, rrr_source_system = strip source,
       rrr_started_at = now, rrr_completed_at = now, rrr_health = health, rrr_cursor = cursor, rrr_high_watermark = watermark,
       rrr_findings = findings\<rparr>"

definition unavailable_batch :: "string \<Rightarrow> string \<Rightarrow> datetime \<Rightarrow> reconciliation_batch result" where
  "unavailable_batch tenant source now =
    rbind (check_fields ''ReconciliationBatch'' reconciliation_batch_fields
      \<lparr>rba_tenant_id = strip tenant, rba_source_system = strip source, rba_collected_at = now, rba_health = Health_UNAVAILABLE,
       rba_cursor = None, rba_high_watermark = None, rba_observations = [], rba_audit_events = []\<rparr>)
    validate_reconciliation_batch"

definition tag_error :: "exn \<Rightarrow> reconciliation_finding \<Rightarrow> reconciliation_finding" where
  "tag_error e f = f\<lparr>find_details := AList.update ''collection_error_type'' (PStr (exn_type e)) (find_details f)\<rparr>"

text \<open>The \<open>except Exception\<close> branch of \<open>run_source\<close>, and the rest of its body after a successful collection.\<close>

definition poll_failed ::
  "uuid5_fn \<Rightarrow> uuid \<Rightarrow> uuid \<Rightarrow> string \<Rightarrow> string \<Rightarrow> reconciliation_source_config \<Rightarrow> expected_external_action list \<Rightarrow> datetime
    \<Rightarrow> reconciliation_cursor option \<Rightarrow> exn \<Rightarrow> (recon_store, reconciliation_run_result option) prog" where
  "poll_failed u5 rid run_id tenant source config actions now cursor e =
    (let failures = (case cursor of None \<Rightarrow> 0 | Some c \<Rightarrow> rcu_consecutive_failures c) + 1;
         position = Option.bind cursor rcu_cursor; watermark = Option.bind cursor rcu_high_watermark
     in bindE (lift_result (unavailable_batch tenant source now)) (\<lambda>b.
        bindE (lift_result (new_cursor tenant source position watermark Health_UNAVAILABLE failures
          (now + backoff_for config failures) now)) (\<lambda>failure_cursor.
        bindE (save_cursor failure_cursor) (\<lambda>_.
        bindE (lift_result (new_result rid run_id tenant source now Health_UNAVAILABLE (rcu_cursor failure_cursor)
          (rcu_high_watermark failure_cursor) (map (tag_error e) (reconcile u5 run_id actions b)))) (\<lambda>r.
        bindE (save_result r) (\<lambda>_. ret (Some r)))))))"

definition age_batch :: "reconciliation_source_config \<Rightarrow> datetime \<Rightarrow> reconciliation_batch \<Rightarrow> reconciliation_batch" where
  "age_batch config now b =
    (if rba_health b = Health_HEALTHY \<and> (\<exists>w. rba_high_watermark b = Some w \<and> now - w > rsc_stale_after_seconds config * 1000000)
     then b\<lparr>rba_health := Health_STALE\<rparr> else b)"

definition poll_collected ::
  "uuid5_fn \<Rightarrow> uuid \<Rightarrow> uuid \<Rightarrow> string \<Rightarrow> string \<Rightarrow> reconciliation_source_config \<Rightarrow> expected_external_action list \<Rightarrow> datetime
    \<Rightarrow> reconciliation_batch \<Rightarrow> (recon_store, reconciliation_run_result option) prog" where
  "poll_collected u5 rid run_id tenant source config actions now collected =
    bindE (run_all ingest_audit_event (rba_audit_events collected)) (\<lambda>_.
    let b = age_batch config now collected
    in bindE (lift_result (new_cursor tenant source (rba_cursor b) (rba_high_watermark b) (rba_health b) 0
         (now + backoff_for config 0) now)) (\<lambda>next_cursor.
       bindE (lift_result (new_result rid run_id tenant source now (rba_health b) (rba_cursor b) (rba_high_watermark b)
         (reconcile u5 run_id actions b))) (\<lambda>r.
       bindE (save_result r) (\<lambda>_.
       bindE (save_cursor next_cursor) (\<lambda>_. ret (Some r))))))"

definition run_source ::
  "uuid5_fn \<Rightarrow> uuid \<Rightarrow> uuid \<Rightarrow> string \<Rightarrow> string \<Rightarrow> collector \<Rightarrow> reconciliation_source_config \<Rightarrow> expected_external_action list \<Rightarrow> datetime
    \<Rightarrow> (recon_store, reconciliation_run_result option) prog" where
  "run_source u5 rid run_id tenant source collect config actions now s =
    (if \<not> rsc_enabled config then (Inr None, s)
     else if source \<noteq> rsc_source_system config
     then (Inl (ValueError ''source implementation and configuration names differ''), s)
     else let cursor = get_cursor tenant source s
       in if \<exists>c t. cursor = Some c \<and> rcu_next_attempt_at c = Some t \<and> t > now then (Inr None, s)
          else case collect tenant cursor now of
            Inl e \<Rightarrow> poll_failed u5 rid run_id tenant source config actions now cursor e s
          | Inr b \<Rightarrow> poll_collected u5 rid run_id tenant source config actions now b s)"

definition assess_completeness :: "production_completeness_profile \<Rightarrow> datetime \<Rightarrow> recon_store \<Rightarrow> production_completeness_assessment" where
  "assess_completeness p now s =
    assess_production_completeness p now
      (dict_of (map (\<lambda>source. (source, case get_cursor (pcp_tenant_id p) source s of
         None \<Rightarrow> (Health_UNAVAILABLE, None)
       | Some c \<Rightarrow> (rcu_health c, rcu_high_watermark c))) (pcp_required_sources p)))
      (list_findings (pcp_tenant_id p) s)"

section \<open>What a poll does to the store\<close>

definition bare :: "reconciliation_finding \<Rightarrow> reconciliation_finding" where
  "bare f = f\<lparr>find_details := []\<rparr>"

lemma finding_eq_bare: "finding_eq f g \<Longrightarrow> bare f = bare g"
  by (simp add: finding_eq_def bare_def)

lemma bare_sel [simp]:
  "find_outcome (bare f) = find_outcome f" "find_source_system (bare f) = find_source_system f" "find_run_id (bare f) = find_run_id f"
  "find_observed_at (bare f) = find_observed_at f" "find_finding_id (bare f) = find_finding_id f"
  by (simp_all add: bare_def)

definition stored :: "uuid \<Rightarrow> reconciliation_finding \<Rightarrow> recon_store \<Rightarrow> bool" where
  "stored i h s \<longleftrightarrow> (\<exists>f. map_of (rs_findings s) i = Some f \<and> bare f = h)"

lemma map_of_update: "map_of (AList.update k v d) i = (if i = k then Some v else map_of d i)"
  by (simp add: update_conv)

lemma stored_put: "stored i h s \<Longrightarrow> \<not> conflicting_finding f s \<Longrightarrow> stored i h (put_finding tenant f s)"
  using finding_eq_bare by (fastforce simp: stored_def put_finding_def conflicting_finding_def map_of_update split: option.splits)

lemma stored_put_new: "stored (find_finding_id f) (bare f) (put_finding tenant f s)"
  by (simp add: stored_def put_finding_def map_of_update)

lemma stored_agrees: "stored (find_finding_id f) h s \<Longrightarrow> \<not> conflicting_finding f s \<Longrightarrow> bare f = h"
  using finding_eq_bare by (fastforce simp: stored_def conflicting_finding_def)

lemma put_finding_tenant: "rs_finding_tenants (put_finding tenant f s) i = (if i = find_finding_id f then Some tenant else rs_finding_tenants s i)"
  by (simp add: put_finding_def)

lemma save_findings_keeps_stored: "save_findings tenant fs s = (r, s') \<Longrightarrow> stored i h s \<Longrightarrow> stored i h s'"
  by (induction fs arbitrary: s) (auto split: if_splits dest: stored_put)

lemma save_findings_tenant:
  "save_findings tenant fs s = (r, s') \<Longrightarrow> stored i h s \<Longrightarrow>
    rs_finding_tenants s' i = rs_finding_tenants s i \<or> rs_finding_tenants s' i = Some tenant \<and> (\<exists>f \<in> set fs. bare f = h)"
proof (induction fs arbitrary: s)
  case (Cons f fs)
  show ?case
  proof (cases "conflicting_finding f s")
    case False
    with Cons.prems have run: "save_findings tenant fs (put_finding tenant f s) = (r, s')" by simp
    from Cons.IH [OF run stored_put [OF Cons.prems(2) False]] stored_agrees [OF _ False, of h] Cons.prems(2)
    show ?thesis by (cases "i = find_finding_id f") (auto simp: put_finding_tenant)
  qed (use Cons.prems in simp)
qed simp

lemma save_findings_all:
  "save_findings tenant fs s = (Inr u, s') \<Longrightarrow> f \<in> set fs \<Longrightarrow>
    stored (find_finding_id f) (bare f) s' \<and> rs_finding_tenants s' (find_finding_id f) = Some tenant"
proof (induction fs arbitrary: s)
  case (Cons g fs)
  then have run: "save_findings tenant fs (put_finding tenant g s) = (Inr u, s')" by (auto split: if_splits)
  show ?case
  proof (cases "f \<in> set fs")
    case True
    from Cons.IH [OF run True] show ?thesis .
  next
    case False
    with Cons.prems have g: "f = g" by simp
    from save_findings_keeps_stored [OF run stored_put_new] save_findings_tenant [OF run stored_put_new] g
    show ?thesis by (auto simp: put_finding_tenant)
  qed
qed simp

lemma save_findings_cursors: "save_findings tenant fs s = (r, s') \<Longrightarrow> rs_cursors s' = rs_cursors s"
  by (induction fs arbitrary: s) (auto simp: put_finding_def split: if_splits)

lemma save_findings_conflict:
  "save_findings tenant fs s = (r, s') \<Longrightarrow> stored i h s \<Longrightarrow> f \<in> set fs \<Longrightarrow> find_finding_id f = i \<Longrightarrow> bare f \<noteq> h \<Longrightarrow>
    r = Inl (ValueError ''reconciliation finding identity cannot be rewritten'')"
proof (induction fs arbitrary: s)
  case (Cons g fs)
  show ?case
  proof (cases "conflicting_finding g s")
    case False
    with Cons.prems have run: "save_findings tenant fs (put_finding tenant g s) = (r, s')" by simp
    have "f \<noteq> g" using stored_agrees [OF _ False] Cons.prems(2,4,5) by blast
    with Cons.IH [OF run stored_put [OF Cons.prems(2) False]] Cons.prems show ?thesis by simp
  qed (use Cons.prems in simp)
qed simp

definition same_findings :: "recon_store \<Rightarrow> recon_store \<Rightarrow> bool" where
  "same_findings s s' \<longleftrightarrow> rs_findings s' = rs_findings s \<and> rs_finding_tenants s' = rs_finding_tenants s"

lemma ingest_keeps: "keeps (\<lambda>s s'. same_findings s s' \<and> rs_cursors s' = rs_cursors s \<and> rs_results s' = rs_results s) (ingest_audit_event e)"
  by (rule keepsI) (auto simp: ingest_audit_event_def same_findings_def Let_def split: if_splits)

lemma ingest_all_keeps:
  assumes "run_all ingest_audit_event es s = (r, s')"
  shows "same_findings s s' \<and> rs_cursors s' = rs_cursors s \<and> rs_results s' = rs_results s"
  by (rule keepsD [OF keeps_run_all [OF _ _ ingest_keeps] assms]) (auto simp: reflp_def transp_def same_findings_def)

lemma ingest_all_returns: "\<exists>ys s'. run_all ingest_audit_event es s = (Inr ys, s')"
proof (induction es arbitrary: s)
  case (Cons e es)
  obtain y t where "ingest_audit_event e s = (Inr y, t)" by (cases "ingest_audit_event e s") (auto simp: ingest_audit_event_def Let_def split: if_splits)
  moreover obtain ys u where "run_all ingest_audit_event es t = (Inr ys, u)" using Cons.IH by blast
  ultimately show ?case by (simp add: bindE_def ret_def)
qed (simp add: ret_def)

text \<open>
  What one poll of a due source writes: findings \<open>fs\<close> of one \<open>reconcile\<close> for the run are saved for the tenant, and a
  cursor is stored, before them after a failed collection and after them otherwise.
\<close>

definition poll_findings ::
  "uuid5_fn \<Rightarrow> uuid \<Rightarrow> expected_external_action list \<Rightarrow> reconciliation_batch \<Rightarrow> exn option \<Rightarrow> reconciliation_finding list" where
  "poll_findings u5 run_id actions b e =
    (case e of None \<Rightarrow> reconcile u5 run_id actions b | Some x \<Rightarrow> map (tag_error x) (reconcile u5 run_id actions b))"

lemma tag_error_bare [simp]: "bare (tag_error e f) = bare f"
  by (simp add: tag_error_def bare_def)

lemma tag_error_sel [simp]:
  "find_outcome (tag_error e f) = find_outcome f" "find_source_system (tag_error e f) = find_source_system f"
  "find_run_id (tag_error e f) = find_run_id f" "find_finding_id (tag_error e f) = find_finding_id f"
  "find_observed_at (tag_error e f) = find_observed_at f"
  by (simp_all add: tag_error_def)

lemma raised_run:
  assumes "f \<in> set (raised_findings u5 run actions b)"
  shows "find_run_id f = run"
  using assms unfolding raised_cases
proof (elim disjE bexE conjE exE)
  fix k a
  assume "f \<in> set (action_findings u5 run b k a)"
  then show ?thesis by (auto simp: action_findings_def matched_findings_def Let_def split: if_splits option.splits)
qed (auto simp: health_findings_def unexpected_observation_def unexpected_audit_event_def split: if_splits)

lemma reconcile_run: "f \<in> set (reconcile u5 run actions b) \<Longrightarrow> find_run_id f = run"
  using reconcile_raised raised_run by blast

lemma poll_findings_run: "f \<in> set (poll_findings u5 run actions b e) \<Longrightarrow> find_run_id f = run"
  by (cases e) (auto simp: poll_findings_def dest: reconcile_run)

lemma save_result_saves:
  assumes "save_result q s = (r, s')"
  shows "same_findings s s' \<and> isl r
    \<or> (\<exists>s1. same_findings s s1 \<and> rs_cursors s1 = rs_cursors s \<and> save_findings (rrr_tenant_id q) (rrr_findings q) s1 = (r, s'))"
  using assms by (auto simp: save_result_def same_findings_def split: if_splits)

definition saves :: "string \<Rightarrow> reconciliation_finding list \<Rightarrow> recon_store \<Rightarrow> recon_store \<Rightarrow> bool \<Rightarrow> bool" where
  "saves tenant fs s s' returned \<longleftrightarrow>
    (\<exists>s1 s2 r. same_findings s s1 \<and> save_findings tenant fs s1 = (r, s2) \<and> same_findings s2 s' \<and> (returned \<longrightarrow> r = Inr ()))"

lemma save_result_saves':
  assumes "save_result q s1 = (r, s2)" "same_findings s s1" "same_findings s2 s'" "returned \<longrightarrow> r = Inr ()"
  shows "same_findings s s' \<and> \<not> returned \<or> saves (rrr_tenant_id q) (rrr_findings q) s s' returned"
proof -
  from save_result_saves [OF assms(1)] consider "same_findings s1 s2" "isl r"
    | s3 where "same_findings s1 s3" "save_findings (rrr_tenant_id q) (rrr_findings q) s3 = (r, s2)" by blast
  then show ?thesis
  proof cases
    case 1
    with assms show ?thesis by (auto simp: same_findings_def)
  next
    case (2 s3)
    with assms have "same_findings s s3" by (simp add: same_findings_def)
    with 2 assms show ?thesis unfolding saves_def by blast
  qed
qed

lemma new_result_sel:
  assumes "new_result rid run tenant source now health cursor watermark fs = Inr q"
  shows "rrr_tenant_id q = strip tenant" "rrr_findings q = fs" "rrr_health q = health" "nonblank (strip tenant)"
    "rrr_reconciliation_id q = rid"
  using assms by (auto simp: new_result_def reconciliation_run_result_fields_def)

lemma poll_failed_saves:
  assumes "poll_failed u5 rid run tenant source config actions now cursor e s = (r, s')"
  shows "same_findings s s' \<and> isl r \<or> (\<exists>b. unavailable_batch tenant source now = Inr b \<and> nonblank (strip tenant)
    \<and> saves (strip tenant) (poll_findings u5 run actions b (Some e)) s s' (\<not> isl r)
    \<and> (\<forall>res. r = Inr res \<longrightarrow> (\<exists>q. res = Some q \<and> rrr_findings q = poll_findings u5 run actions b (Some e)
         \<and> rrr_health q = Health_UNAVAILABLE)))"
  using assms unfolding poll_failed_def Let_def
proof (elim bindE_cases)
  fix b s1 fc s2 u s3 q s4 v s5
  assume b: "lift_result (unavailable_batch tenant source now) s = (Inr b, s1)"
    and fc: "save_cursor fc s2 = (Inr u, s3)" "lift_result (new_cursor tenant source (Option.bind cursor rcu_cursor) (Option.bind cursor rcu_high_watermark)
      Health_UNAVAILABLE ((case cursor of None \<Rightarrow> 0 | Some c \<Rightarrow> rcu_consecutive_failures c) + 1)
      (now + backoff_for config ((case cursor of None \<Rightarrow> 0 | Some c \<Rightarrow> rcu_consecutive_failures c) + 1)) now) s1 = (Inr fc, s2)"
    and q: "lift_result (new_result rid run tenant source now Health_UNAVAILABLE (rcu_cursor fc) (rcu_high_watermark fc)
      (map (tag_error e) (reconcile u5 run actions b))) s3 = (Inr q, s4)"
    and save: "save_result q s4 = (Inr v, s5)" "ret (Some q) s5 = (r, s')"
  have s: "same_findings s s4" using b fc q by (auto simp: save_cursor_def same_findings_def)
  note q' = new_result_sel [OF q [unfolded prog_simps prod.inject, THEN conjunct1]]
  from save_result_saves' [OF save(1) s, of s' True] save(2) q' b
  show ?thesis by (auto simp: poll_findings_def same_findings_def)
next
  fix b s1 fc s2 u s3 q s4 x
  assume b: "lift_result (unavailable_batch tenant source now) s = (Inr b, s1)"
    and fc: "save_cursor fc s2 = (Inr u, s3)" "lift_result (new_cursor tenant source (Option.bind cursor rcu_cursor) (Option.bind cursor rcu_high_watermark)
      Health_UNAVAILABLE ((case cursor of None \<Rightarrow> 0 | Some c \<Rightarrow> rcu_consecutive_failures c) + 1)
      (now + backoff_for config ((case cursor of None \<Rightarrow> 0 | Some c \<Rightarrow> rcu_consecutive_failures c) + 1)) now) s1 = (Inr fc, s2)"
    and q: "lift_result (new_result rid run tenant source now Health_UNAVAILABLE (rcu_cursor fc) (rcu_high_watermark fc)
      (map (tag_error e) (reconcile u5 run actions b))) s3 = (Inr q, s4)"
    and save: "save_result q s4 = (Inl x, s')" "r = Inl x"
  have s: "same_findings s s4" using b fc q by (auto simp: save_cursor_def same_findings_def)
  note q' = new_result_sel [OF q [unfolded prog_simps prod.inject, THEN conjunct1]]
  from save_result_saves' [OF save(1) s, of s' False] save(2) q' b
  show ?thesis by (auto simp: poll_findings_def same_findings_def)
qed (auto simp: save_cursor_def same_findings_def)

lemma poll_collected_saves:
  assumes "poll_collected u5 rid run tenant source config actions now c s = (r, s')"
  shows "same_findings s s' \<and> isl r \<or> (nonblank (strip tenant)
    \<and> saves (strip tenant) (poll_findings u5 run actions (age_batch config now c) None) s s' (\<not> isl r)
    \<and> (\<forall>res. r = Inr res \<longrightarrow> (\<exists>q. res = Some q \<and> rrr_findings q = poll_findings u5 run actions (age_batch config now c) None
         \<and> rrr_health q = rba_health (age_batch config now c))))"
proof -
  let ?b = "age_batch config now c"
  obtain ys s1 where ingest: "run_all ingest_audit_event (rba_audit_events c) s = (Inr ys, s1)" using ingest_all_returns by blast
  from ingest_all_keeps [OF ingest] have s1: "same_findings s s1" by blast
  have rest: "bindE (lift_result (new_cursor tenant source (rba_cursor ?b) (rba_high_watermark ?b) (rba_health ?b) 0
         (now + backoff_for config 0) now)) (\<lambda>next_cursor.
       bindE (lift_result (new_result rid run tenant source now (rba_health ?b) (rba_cursor ?b) (rba_high_watermark ?b)
         (reconcile u5 run actions ?b))) (\<lambda>r.
       bindE (save_result r) (\<lambda>_.
       bindE (save_cursor next_cursor) (\<lambda>_. ret (Some r))))) s1 = (r, s')"
    using assms unfolding poll_collected_def Let_def by (simp add: bindE_Inr [where m = "run_all ingest_audit_event (rba_audit_events c)", OF ingest])
  from rest show ?thesis
  proof (elim bindE_cases)
    fix nc s2 q s3 u s4 v s5
    assume q: "lift_result (new_cursor tenant source (rba_cursor ?b) (rba_high_watermark ?b) (rba_health ?b) 0
         (now + backoff_for config 0) now) s1 = (Inr nc, s2)"
      "lift_result (new_result rid run tenant source now (rba_health ?b) (rba_cursor ?b) (rba_high_watermark ?b)
         (reconcile u5 run actions ?b)) s2 = (Inr q, s3)"
      and save: "save_result q s3 = (Inr u, s4)" "save_cursor nc s4 = (Inr v, s5)" "ret (Some q) s5 = (r, s')"
    have s: "same_findings s s3" "same_findings s4 s'" using s1 q save by (auto simp: save_cursor_def same_findings_def)
    note q' = new_result_sel [OF q(2) [unfolded prog_simps prod.inject, THEN conjunct1]]
    from save_result_saves' [OF save(1) s, of True] save(3) q' show ?thesis by (auto simp: poll_findings_def)
  next
    fix nc s2 q s3 x
    assume q: "lift_result (new_cursor tenant source (rba_cursor ?b) (rba_high_watermark ?b) (rba_health ?b) 0
         (now + backoff_for config 0) now) s1 = (Inr nc, s2)"
      "lift_result (new_result rid run tenant source now (rba_health ?b) (rba_cursor ?b) (rba_high_watermark ?b)
         (reconcile u5 run actions ?b)) s2 = (Inr q, s3)"
      and save: "save_result q s3 = (Inl x, s')" "r = Inl x"
    have s: "same_findings s s3" "same_findings s' s'" using s1 q by (auto simp: same_findings_def)
    note q' = new_result_sel [OF q(2) [unfolded prog_simps prod.inject, THEN conjunct1]]
    from save_result_saves' [OF save(1) s, of False] save(2) q' show ?thesis by (auto simp: poll_findings_def)
  qed (use s1 in \<open>auto simp: save_cursor_def same_findings_def\<close>)
qed

text \<open>The batch a poll reconciles, and the error of its collection.\<close>

definition polled :: "string \<Rightarrow> string \<Rightarrow> collector \<Rightarrow> reconciliation_source_config \<Rightarrow> datetime \<Rightarrow> recon_store
    \<Rightarrow> reconciliation_batch \<Rightarrow> exn option \<Rightarrow> bool" where
  "polled tenant source collect config now s b e \<longleftrightarrow>
    (case collect tenant (get_cursor tenant source s) now of
       Inl x \<Rightarrow> unavailable_batch tenant source now = Inr b \<and> e = Some x
     | Inr c \<Rightarrow> b = age_batch config now c \<and> e = None)"

lemma unavailable_health: "unavailable_batch tenant source now = Inr b \<Longrightarrow>
    rba_health b = Health_UNAVAILABLE \<and> rba_source_system b = strip source \<and> nonblank (rba_source_system b)"
  by (auto simp: unavailable_batch_def validate_reconciliation_batch_def reconciliation_batch_fields_def split: if_splits)

lemma run_source_saves:
  assumes "run_source u5 rid run tenant source collect config actions now s = (r, s')"
  shows "same_findings s s' \<and> (isl r \<or> r = Inr None) \<or> (\<exists>b e. polled tenant source collect config now s b e \<and> nonblank (strip tenant)
    \<and> saves (strip tenant) (poll_findings u5 run actions b e) s s' (\<not> isl r)
    \<and> (\<forall>res. r = Inr res \<longrightarrow> (\<exists>q. res = Some q \<and> rrr_findings q = poll_findings u5 run actions b e \<and> rrr_health q = rba_health b)))"
proof (cases "\<not> rsc_enabled config \<or> source \<noteq> rsc_source_system config
    \<or> (\<exists>c t. get_cursor tenant source s = Some c \<and> rcu_next_attempt_at c = Some t \<and> t > now)")
  case True
  with assms show ?thesis by (auto simp: run_source_def Let_def same_findings_def split: if_splits)
next
  case False
  show ?thesis
  proof (cases "collect tenant (get_cursor tenant source s) now")
    case (Inl x)
    with False assms have "poll_failed u5 rid run tenant source config actions now (get_cursor tenant source s) x s = (r, s')"
      by (auto simp: run_source_def Let_def split: if_splits)
    from poll_failed_saves [OF this]
    have "same_findings s s' \<and> isl r \<or> (\<exists>b. polled tenant source collect config now s b (Some x) \<and> nonblank (strip tenant)
      \<and> saves (strip tenant) (poll_findings u5 run actions b (Some x)) s s' (\<not> isl r)
      \<and> (\<forall>res. r = Inr res \<longrightarrow> (\<exists>q. res = Some q \<and> rrr_findings q = poll_findings u5 run actions b (Some x) \<and> rrr_health q = rba_health b)))"
      using Inl unavailable_health by (fastforce simp: polled_def)
    then show ?thesis by blast
  next
    case (Inr c)
    with False assms have "poll_collected u5 rid run tenant source config actions now c s = (r, s')"
      by (auto simp: run_source_def Let_def split: if_splits)
    moreover have "polled tenant source collect config now s (age_batch config now c) None" using Inr by (simp add: polled_def)
    moreover note poll_collected_saves [OF calculation(1)]
    ultimately show ?thesis by (elim disjE) (blast, metis)
  qed
qed

section \<open>Unknown evidence never becomes success\<close>

text \<open>
  A history of polls and audit-event ingestions. A run belongs to one tenant (\<open>owner\<close>), as the event ledger guarantees
  for recorded runs.
\<close>

inductive recon_step :: "(uuid \<Rightarrow> string) \<Rightarrow> uuid5_fn \<Rightarrow> recon_store \<Rightarrow> recon_store \<Rightarrow> bool" for owner u5 where
  poll: "strip tenant = owner run \<Longrightarrow> run_source u5 rid run tenant source collect config actions now s = (r, s') \<Longrightarrow>
    recon_step owner u5 s s'"
| ingest: "ingest_audit_event e s = (r, s') \<Longrightarrow> recon_step owner u5 s s'"

definition blocked :: "string \<Rightarrow> string \<Rightarrow> (uuid \<Rightarrow> string) \<Rightarrow> recon_store \<Rightarrow> bool" where
  "blocked tenant source owner s \<longleftrightarrow> (\<exists>i h. stored i h s \<and> rs_finding_tenants s i = Some tenant \<and> owner (find_run_id h) = tenant
     \<and> find_source_system h = source \<and> find_outcome h \<noteq> Recon_MATCHED)"

lemma stored_same: "same_findings s s' \<Longrightarrow> stored i h s' = stored i h s"
  by (simp add: stored_def same_findings_def)

lemma blocked_same: "same_findings s s' \<Longrightarrow> blocked tenant source owner s' = blocked tenant source owner s"
  by (simp add: blocked_def stored_same) (simp add: same_findings_def)

lemma blocked_saves:
  assumes "blocked tenant source owner s" "saves (owner run) fs s s' returned" "\<And>f. f \<in> set fs \<Longrightarrow> find_run_id f = run"
  shows "blocked tenant source owner s'"
proof -
  from assms(2) obtain s1 s2 r where run: "same_findings s s1" "save_findings (owner run) fs s1 = (r, s2)" "same_findings s2 s'"
    by (auto simp: saves_def)
  from assms(1) have "blocked tenant source owner s1" using blocked_same [OF run(1)] by simp
  then obtain i h where h: "stored i h s1" "rs_finding_tenants s1 i = Some tenant"
    "owner (find_run_id h) = tenant" "find_source_system h = source" "find_outcome h \<noteq> Recon_MATCHED" by (auto simp: blocked_def)
  have "rs_finding_tenants s2 i = Some tenant"
    using save_findings_tenant [OF run(2) h(1)]
  proof (elim disjE conjE bexE)
    fix f
    assume "f \<in> set fs" "bare f = h" "rs_finding_tenants s2 i = Some (owner run)"
    with assms(3) h(3) show ?thesis by auto
  qed (use h(2) in simp)
  with h save_findings_keeps_stored [OF run(2) h(1)] have "blocked tenant source owner s2" unfolding blocked_def by blast
  with blocked_same [OF run(3)] show ?thesis by simp
qed

lemma blocked_step:
  assumes "recon_step owner u5 s s'" "blocked tenant source owner s"
  shows "blocked tenant source owner s'"
  using assms(1)
proof cases
  case (poll t run rid src collect config actions now r)
  from run_source_saves [OF poll(2)] show ?thesis
  proof (elim disjE exE conjE)
    fix b e
    assume "saves (strip t) (poll_findings u5 run actions b e) s s' (\<not> isl r)"
    with poll(1) assms(2) show ?thesis by (auto intro: blocked_saves dest: poll_findings_run)
  qed (use assms(2) blocked_same in auto)
next
  case (ingest e r)
  from keepsD [OF ingest_keeps ingest] assms(2) show ?thesis by (auto simp: blocked_same)
qed

lemma blocked_reach: "(recon_step owner u5)\<^sup>*\<^sup>* s s' \<Longrightarrow> blocked tenant source owner s \<Longrightarrow> blocked tenant source owner s'"
  by (induction rule: rtranclp_induct) (auto intro: blocked_step)

lemma blocked_incomplete:
  assumes "blocked (pcp_tenant_id p) source owner s" "source \<in> set (pcp_required_sources p)"
  shows "\<not> pca_complete (assess_completeness p now s)"
proof -
  from assms(1) obtain i f where f: "map_of (rs_findings s) i = Some f" "rs_finding_tenants s i = Some (pcp_tenant_id p)"
    "find_source_system f = source" "find_outcome f \<noteq> Recon_MATCHED" by (auto simp: blocked_def stored_def)
  then have "(i, f) \<in> set (rs_findings s)" by (simp add: map_of_SomeD)
  with f(2) have "f \<in> set (list_findings (pcp_tenant_id p) s)" by (force simp: list_findings_def)
  with f(3,4) assms(2) have "filter (\<lambda>f. find_source_system f \<in> set (pcp_required_sources p) \<and> find_outcome f \<noteq> Recon_MATCHED)
      (list_findings (pcp_tenant_id p) s) \<noteq> []"
    by (auto simp: filter_empty_conv)
  then show ?thesis by (simp add: assess_completeness_def assess_production_completeness_def Let_def)
qed

lemma unhealthy_finding:
  assumes "rba_health b \<noteq> Health_HEALTHY"
  shows "\<exists>f \<in> set (reconcile u5 run actions b). find_outcome f \<noteq> Recon_MATCHED"
proof -
  from assms obtain f where "f \<in> set (health_findings u5 run b)" unfolding health_findings_def by force
  then have "f \<in> set (raised_findings u5 run actions b)" unfolding raised_cases by blast
  from last_by_covers [OF this, of find_finding_id] obtain g where g: "g \<in> set (reconcile u5 run actions b)"
    by (auto simp: reconcile_last_by)
  with reconcile_raised have "g \<in> set (raised_findings u5 run actions b)" by blast
  with unhealthy_not_matched assms g show ?thesis by blast
qed

lemma reconcile_source:
  assumes "f \<in> set (reconcile u5 run actions b)" "\<forall>e \<in> set (rba_audit_events b). eae_source_system e = rba_source_system b"
  shows "find_source_system f = rba_source_system b"
proof -
  from assms(1) reconcile_raised have "f \<in> set (raised_findings u5 run actions b)" by blast
  then show ?thesis unfolding raised_cases
  proof (elim disjE bexE conjE exE)
    fix k a
    assume "f \<in> set (action_findings u5 run b k a)"
    then show ?thesis by (auto simp: action_findings_def matched_findings_def Let_def split: if_splits option.splits)
  qed (use assms(2) in \<open>auto simp: health_findings_def unexpected_observation_def unexpected_audit_event_def split: if_splits\<close>)
qed

lemma poll_blocks:
  assumes "nonblank tenant" "nonblank source" "owner run = tenant"
    and "run_source u5 rid run tenant source collect config actions now s = (Inr (Some q), s')"
    and "\<And>b. collect tenant (get_cursor tenant source s) now = Inr b \<Longrightarrow> rba_source_system b = source \<and> validate_reconciliation_batch b = Inr b"
    and "rrr_health q \<noteq> Health_HEALTHY \<or> (\<exists>f \<in> set (rrr_findings q). find_outcome f \<noteq> Recon_MATCHED)"
  shows "blocked tenant source owner s'"
proof -
  have ts: "strip tenant = tenant" "strip source = source" using assms(1,2) by (simp_all add: nonblank_def)
  from run_source_saves [OF assms(4)] obtain b e where b: "polled tenant source collect config now s b e"
    "saves tenant (poll_findings u5 run actions b e) s s' True" "rrr_findings q = poll_findings u5 run actions b e" "rrr_health q = rba_health b"
    using ts by auto
  have src: "rba_source_system b = source \<and> (\<forall>x \<in> set (rba_audit_events b). eae_source_system x = rba_source_system b)"
  proof (cases "collect tenant (get_cursor tenant source s) now")
    case (Inl x)
    with b(1) ts show ?thesis
      by (auto simp: polled_def unavailable_batch_def validate_reconciliation_batch_def split: if_splits)
  next
    case (Inr c)
    with b(1) assms(5) [OF Inr] show ?thesis
      by (auto simp: polled_def age_batch_def validate_reconciliation_batch_def list_ex_iff split: if_splits)
  qed
  from assms(6) obtain g where g: "g \<in> set (reconcile u5 run actions b)" "find_outcome g \<noteq> Recon_MATCHED"
  proof (elim disjE bexE)
    assume "rrr_health q \<noteq> Health_HEALTHY"
    with b(4) unhealthy_finding that show thesis by metis
  next
    fix f
    assume "f \<in> set (rrr_findings q)" "find_outcome f \<noteq> Recon_MATCHED"
    with b(3) that show thesis by (cases e) (auto simp: poll_findings_def)
  qed
  define f where "f = (case e of None \<Rightarrow> g | Some x \<Rightarrow> tag_error x g)"
  have f: "f \<in> set (poll_findings u5 run actions b e)" "bare f = bare g"
    using g(1) by (cases e; simp add: f_def poll_findings_def)+
  have sel: "find_source_system f = source" "find_run_id f = run" "find_outcome f \<noteq> Recon_MATCHED"
  proof -
    have "find_source_system (bare f) = find_source_system (bare g)" "find_outcome (bare f) = find_outcome (bare g)"
      by (simp_all only: f(2))
    with reconcile_source [OF g(1)] src poll_findings_run [OF f(1)] g(2)
    show "find_source_system f = source" "find_run_id f = run" "find_outcome f \<noteq> Recon_MATCHED" by simp_all
  qed
  from b(2) obtain s1 s2 where save: "save_findings tenant (poll_findings u5 run actions b e) s1 = (Inr (), s2)" "same_findings s2 s'"
    by (auto simp: saves_def)
  from save_findings_all [OF save(1) f(1)] have "stored (find_finding_id f) (bare f) s2"
    "rs_finding_tenants s2 (find_finding_id f) = Some tenant" by blast+
  moreover have "owner (find_run_id (bare f)) = tenant" "find_source_system (bare f) = source" "find_outcome (bare f) \<noteq> Recon_MATCHED"
    using sel assms(3) by simp_all
  ultimately have "blocked tenant source owner s2" unfolding blocked_def by blast
  with blocked_same [OF save(2)] show ?thesis by simp
qed

text \<open>
  C8: Unknown evidence never becomes success. Once a poll returned with an unavailable, stale or conflicting source or with any
  finding other than a match, no later assessment of a completeness profile of that tenant that requires the source is
  complete, whatever polls and audit events follow, including later healthy ones. The provider is assumed
  to answer with a valid batch of its own source.
\<close>

theorem unknown_never_success:
  assumes "nonblank tenant" "nonblank source" "owner run = tenant"
    and "run_source u5 rid run tenant source collect config actions now s0 = (Inr (Some q), s1)"
    and "\<And>b. collect tenant (get_cursor tenant source s0) now = Inr b \<Longrightarrow> rba_source_system b = source \<and> validate_reconciliation_batch b = Inr b"
    and "rrr_health q \<noteq> Health_HEALTHY \<or> (\<exists>f \<in> set (rrr_findings q). find_outcome f \<noteq> Recon_MATCHED)"
    and "(recon_step owner u5)\<^sup>*\<^sup>* s1 s2" "pcp_tenant_id p = tenant" "source \<in> set (pcp_required_sources p)"
  shows "\<not> pca_complete (assess_completeness p later s2)"
proof -
  have "blocked tenant source owner s1" by (rule poll_blocks [where collect = collect and s = s0]) (fact assms)+
  from blocked_incomplete [of p source owner s2] blocked_reach [OF assms(7) this] assms(8,9) show ?thesis by simp
qed

lemma map_of_dict_of_fun: "map_of (dict_of (map (\<lambda>x. (x, g x)) xs)) x = (if x \<in> set xs then Some (g x) else None)"
proof (cases "map_of (dict_of (map (\<lambda>x. (x, g x)) xs)) x")
  case None
  then have "x \<notin> fst ` set (dict_of (map (\<lambda>x. (x, g x)) xs))" by (simp add: map_of_eq_None_iff)
  with None show ?thesis by (force simp: fst_set_dict_of)
next
  case (Some y)
  from set_dict_of [OF map_of_SomeD [OF Some]] Some show ?thesis by auto
qed

lemma classify_healthy: "classify p now st = Health_HEALTHY \<longleftrightarrow>
    fst st = Health_HEALTHY \<and> (\<exists>w. snd st = Some w \<and> now - w \<le> pcp_max_source_age_seconds p * 1000000)"
  by (cases st) (auto simp: classify_def)

lemma only_healthy:
  "(filter (\<lambda>x. g x = Health_STALE) xs = [] \<and> filter (\<lambda>x. g x = Health_UNAVAILABLE) xs = [] \<and> filter (\<lambda>x. g x = Health_CONFLICTING) xs = [])
    \<longleftrightarrow> (\<forall>x \<in> set xs. g x = Health_HEALTHY)"
proof -
  have "h = Health_HEALTHY \<longleftrightarrow> h \<noteq> Health_STALE \<and> h \<noteq> Health_UNAVAILABLE \<and> h \<noteq> Health_CONFLICTING" for h by (cases h) simp_all
  then show ?thesis by (auto simp: filter_empty_conv)
qed

text \<open>Completeness in terms of the store: fresh healthy cursors, only matches, and a match per source where required.\<close>

lemma complete_iff:
  "pca_complete (assess_completeness p now s) \<longleftrightarrow>
    (\<forall>source \<in> set (pcp_required_sources p). \<exists>c w. get_cursor (pcp_tenant_id p) source s = Some c \<and> rcu_health c = Health_HEALTHY
       \<and> rcu_high_watermark c = Some w \<and> now - w \<le> pcp_max_source_age_seconds p * 1000000)
    \<and> (\<forall>f \<in> set (list_findings (pcp_tenant_id p) s). find_source_system f \<in> set (pcp_required_sources p) \<longrightarrow> find_outcome f = Recon_MATCHED)
    \<and> (pcp_require_matched_reconciliation p \<longrightarrow> (\<forall>source \<in> set (pcp_required_sources p).
         \<exists>f \<in> set (list_findings (pcp_tenant_id p) s). find_source_system f = source \<and> find_outcome f = Recon_MATCHED))"
proof -
  let ?req = "pcp_required_sources p"
  let ?st = "source_state (dict_of (map (\<lambda>source. (source, case get_cursor (pcp_tenant_id p) source s of
     None \<Rightarrow> (Health_UNAVAILABLE, None) | Some c \<Rightarrow> (rcu_health c, rcu_high_watermark c))) ?req))"
  have st: "classify p now (?st source) = Health_HEALTHY \<longleftrightarrow> (\<exists>c w. get_cursor (pcp_tenant_id p) source s = Some c \<and> rcu_health c = Health_HEALTHY
       \<and> rcu_high_watermark c = Some w \<and> now - w \<le> pcp_max_source_age_seconds p * 1000000)" if "source \<in> set ?req" for source
    using that by (cases "get_cursor (pcp_tenant_id p) source s")
      (simp_all add: source_state_def map_of_dict_of_fun classify_healthy)
  have "(filter (\<lambda>x. classify p now (?st x) = Health_STALE) ?req = [] \<and> filter (\<lambda>x. classify p now (?st x) = Health_UNAVAILABLE) ?req = []
      \<and> filter (\<lambda>x. classify p now (?st x) = Health_CONFLICTING) ?req = [])
    \<longleftrightarrow> (\<forall>source \<in> set ?req. classify p now (?st source) = Health_HEALTHY)"
    by (rule only_healthy)
  also have "\<dots> \<longleftrightarrow> (\<forall>source \<in> set ?req. \<exists>c w. get_cursor (pcp_tenant_id p) source s = Some c \<and> rcu_health c = Health_HEALTHY
       \<and> rcu_high_watermark c = Some w \<and> now - w \<le> pcp_max_source_age_seconds p * 1000000)"
    using st by blast
  finally have fresh: "(filter (\<lambda>x. classify p now (?st x) = Health_STALE) ?req = [] \<and> filter (\<lambda>x. classify p now (?st x) = Health_UNAVAILABLE) ?req = []
      \<and> filter (\<lambda>x. classify p now (?st x) = Health_CONFLICTING) ?req = [] \<and> rest) \<longleftrightarrow>
    (\<forall>source \<in> set ?req. \<exists>c w. get_cursor (pcp_tenant_id p) source s = Some c \<and> rcu_health c = Health_HEALTHY
       \<and> rcu_high_watermark c = Some w \<and> now - w \<le> pcp_max_source_age_seconds p * 1000000) \<and> rest" for rest
    by (simp only: conj_assoc [symmetric])
  have blocking: "filter (\<lambda>f. find_source_system f \<in> set ?req \<and> find_outcome f \<noteq> Recon_MATCHED) fs = []
      \<longleftrightarrow> (\<forall>f \<in> set fs. find_source_system f \<in> set ?req \<longrightarrow> find_outcome f = Recon_MATCHED)" for fs
    by (auto simp: filter_empty_conv)
  have matched: "set ?req \<subseteq> find_source_system ` {f \<in> set fs. find_outcome f = Recon_MATCHED}
      \<longleftrightarrow> (\<forall>source \<in> set ?req. \<exists>f \<in> set fs. find_source_system f = source \<and> find_outcome f = Recon_MATCHED)" for fs
    by (auto simp: image_iff subset_iff)
  show ?thesis
    unfolding assess_completeness_def assess_production_completeness_def Let_def production_completeness_assessment.select_convs
      map_is_Nil_conv set_map set_filter matched fresh blocking
    by (cases "pcp_require_matched_reconciliation p") (simp_all only: if_True if_False simp_thms conj_assoc)
qed

section \<open>Failed collections\<close>

lemma backoff_bounds:
  assumes "reconciliation_source_config_fields c" "validate_source_config c = Inr c" "1 \<le> n"
  shows "rsc_base_backoff_seconds c * 1000000 \<le> backoff_for c n \<and> backoff_for c n \<le> rsc_max_backoff_seconds c * 1000000"
proof -
  have c: "0 < rsc_base_backoff_seconds c" "rsc_base_backoff_seconds c \<le> rsc_max_backoff_seconds c"
    using assms(1,2) by (auto simp: reconciliation_source_config_fields_def validate_source_config_def split: if_splits)
  have "rsc_base_backoff_seconds c * 1 \<le> rsc_base_backoff_seconds c * 2 ^ k" for k :: nat
    using c(1) by (intro mult_left_mono) simp_all
  then show ?thesis using assms(3) c by (simp add: backoff_for_def)
qed

lemma bindE_save_cursor:
  "bindE (save_cursor c) f s = f () (s\<lparr>rs_cursors := (rs_cursors s)((rcu_tenant_id c, rcu_source_system c) \<mapsto> c)\<rparr>)"
  by (simp add: bindE_def save_cursor_def)

lemma save_result_cursors: "save_result q s = (r, s') \<Longrightarrow> rs_cursors s' = rs_cursors s"
  using save_result_saves [of q s r s'] save_findings_cursors by (fastforce simp: save_result_def split: if_splits)

definition failures_before :: "reconciliation_cursor option \<Rightarrow> int" where
  "failures_before cursor = (case cursor of None \<Rightarrow> 0 | Some c \<Rightarrow> rcu_consecutive_failures c)"

text \<open>The cursor and the result of a failed collection with validated arguments.\<close>

lemma poll_failed_run:
  assumes "nonblank tenant" "nonblank source" "list_all expected_external_action_fields actions"
    and "\<And>c. cursor = Some c \<Longrightarrow> reconciliation_cursor_fields c"
  shows "\<exists>b fc q. unavailable_batch tenant source now = Inr b \<and> rba_source_system b = source \<and> rba_collected_at b = now
    \<and> rba_health b = Health_UNAVAILABLE \<and> rba_observations b = [] \<and> rba_audit_events b = []
    \<and> fc = \<lparr>rcu_tenant_id = tenant, rcu_source_system = source, rcu_cursor = Option.bind cursor rcu_cursor,
        rcu_high_watermark = Option.bind cursor rcu_high_watermark, rcu_health = Health_UNAVAILABLE,
        rcu_consecutive_failures = failures_before cursor + 1,
        rcu_next_attempt_at = Some (now + backoff_for config (failures_before cursor + 1)), rcu_updated_at = now\<rparr>
    \<and> rrr_tenant_id q = tenant \<and> rrr_findings q = poll_findings u5 run actions b (Some e)
    \<and> poll_failed u5 rid run tenant source config actions now cursor e s
      = bindE (save_result q) (\<lambda>_. ret (Some q)) (s\<lparr>rs_cursors := (rs_cursors s)((tenant, source) \<mapsto> fc)\<rparr>)"
proof -
  have ts: "strip tenant = tenant" "strip source = source" using assms(1,2) by (simp_all add: nonblank_def)
  let ?b = "\<lparr>rba_tenant_id = tenant, rba_source_system = source, rba_collected_at = now, rba_health = Health_UNAVAILABLE,
    rba_cursor = None, rba_high_watermark = None, rba_observations = [], rba_audit_events = []\<rparr>"
  let ?fc = "\<lparr>rcu_tenant_id = tenant, rcu_source_system = source, rcu_cursor = Option.bind cursor rcu_cursor,
    rcu_high_watermark = Option.bind cursor rcu_high_watermark, rcu_health = Health_UNAVAILABLE,
    rcu_consecutive_failures = failures_before cursor + 1,
    rcu_next_attempt_at = Some (now + backoff_for config (failures_before cursor + 1)), rcu_updated_at = now\<rparr>"
  let ?fs = "poll_findings u5 run actions ?b (Some e)"
  let ?q = "\<lparr>rrr_reconciliation_id = rid, rrr_run_id = run, rrr_tenant_id = tenant, rrr_source_system = source, rrr_started_at = now,
    rrr_completed_at = now, rrr_health = Health_UNAVAILABLE, rrr_cursor = rcu_cursor ?fc, rrr_high_watermark = rcu_high_watermark ?fc,
    rrr_findings = ?fs\<rparr>"
  have bf: "reconciliation_batch_fields ?b" "validate_reconciliation_batch ?b = Inr ?b"
    using assms(1,2) by (simp_all add: reconciliation_batch_fields_def validate_reconciliation_batch_def)
  then have b: "unavailable_batch tenant source now = Inr ?b" by (simp add: unavailable_batch_def ts)
  have cur: "pred_option nonblank (Option.bind cursor rcu_cursor)" "0 \<le> failures_before cursor"
    using assms(4) by (cases cursor; simp add: reconciliation_cursor_fields_def failures_before_def)+
  then have fc: "new_cursor tenant source (Option.bind cursor rcu_cursor) (Option.bind cursor rcu_high_watermark) Health_UNAVAILABLE
      (failures_before cursor + 1) (now + backoff_for config (failures_before cursor + 1)) now = Inr ?fc"
    using assms(1,2) by (simp add: new_cursor_def ts reconciliation_cursor_fields_def)
  have "reconciliation_finding_fields f" if "f \<in> set ?fs" for f
  proof -
    from that obtain g where "f = tag_error e g" "g \<in> set (reconcile u5 run actions ?b)" by (auto simp: poll_findings_def)
    with reconcile_fields [OF bf assms(3), of g u5 run] assms(2) show ?thesis by (simp add: tag_error_def reconciliation_finding_fields_def)
  qed
  then have q: "new_result rid run tenant source now Health_UNAVAILABLE (rcu_cursor ?fc) (rcu_high_watermark ?fc)
      (map (tag_error e) (reconcile u5 run actions ?b)) = Inr ?q"
    using assms(1,2) cur by (simp add: new_result_def ts reconciliation_run_result_fields_def list_all_iff poll_findings_def)
  have "poll_failed u5 rid run tenant source config actions now cursor e s
      = bindE (save_result ?q) (\<lambda>_. ret (Some ?q)) (s\<lparr>rs_cursors := (rs_cursors s)((tenant, source) \<mapsto> ?fc)\<rparr>)"
    unfolding poll_failed_def Let_def failures_before_def [symmetric] bindE_pure b sum.case fc bindE_save_cursor q
    unfolding reconciliation_cursor.select_convs ..
  with b show ?thesis by (intro exI [of _ ?b] exI [of _ ?fc] exI [of _ ?q]) simp
qed

lemma due_run_source:
  assumes "rsc_enabled config" "rsc_source_system config = source" "collect tenant (get_cursor tenant source s) now = Inl e"
    and "\<And>c t. get_cursor tenant source s = Some c \<Longrightarrow> rcu_next_attempt_at c = Some t \<Longrightarrow> t \<le> now"
  shows "run_source u5 rid run tenant source collect config actions now s
    = poll_failed u5 rid run tenant source config actions now (get_cursor tenant source s) e s"
  using assms by (fastforce simp: run_source_def Let_def)

text \<open>
  A failed collection is recorded and backed off, never lost and never green. When the collection of a due source raises, then
  whether or not the result can be stored, the source's cursor is unavailable with one more failure, keeps the provider cursor and
  the high watermark, and schedules the next attempt after a delay between the base and the maximum backoff; the cursors of all
  other sources stay; and until then every poll of the source returns \<open>None\<close> and changes nothing.
\<close>

theorem failed_poll_backs_off:
  assumes "nonblank tenant" "nonblank source" "list_all expected_external_action_fields actions"
    and "reconciliation_source_config_fields config" "validate_source_config config = Inr config"
    and "rsc_enabled config" "rsc_source_system config = source"
    and "\<And>c. get_cursor tenant source s = Some c \<Longrightarrow> reconciliation_cursor_fields c"
    and "\<And>c t. get_cursor tenant source s = Some c \<Longrightarrow> rcu_next_attempt_at c = Some t \<Longrightarrow> t \<le> now"
    and "collect tenant (get_cursor tenant source s) now = Inl e"
    and "run_source u5 rid run tenant source collect config actions now s = (r, s')"
  shows "\<exists>c d. get_cursor tenant source s' = Some c \<and> rcu_health c = Health_UNAVAILABLE
    \<and> rcu_consecutive_failures c = failures_before (get_cursor tenant source s) + 1
    \<and> rcu_cursor c = Option.bind (get_cursor tenant source s) rcu_cursor
    \<and> rcu_high_watermark c = Option.bind (get_cursor tenant source s) rcu_high_watermark
    \<and> rcu_next_attempt_at c = Some (now + d)
    \<and> rsc_base_backoff_seconds config * 1000000 \<le> d \<and> d \<le> rsc_max_backoff_seconds config * 1000000
    \<and> (\<forall>k. k \<noteq> (tenant, source) \<longrightarrow> rs_cursors s' k = rs_cursors s k)
    \<and> (\<forall>later rid' run' collect' actions'. later < now + d \<longrightarrow>
         run_source u5 rid' run' tenant source collect' config actions' later s' = (Inr None, s'))"
proof -
  let ?n = "failures_before (get_cursor tenant source s) + 1"
  have n: "1 \<le> ?n" using assms(8) by (cases "get_cursor tenant source s") (auto simp: failures_before_def reconciliation_cursor_fields_def)
  have "run_source u5 rid run tenant source collect config actions now s
      = poll_failed u5 rid run tenant source config actions now (get_cursor tenant source s) e s"
    by (rule due_run_source) (use assms in auto)
  with assms(11) assms(8)
    poll_failed_run [where cursor = "get_cursor tenant source s" and now = now and ?u5.0 = u5 and run = run and e = e and rid = rid
      and config = config and s = s, OF assms(1-3)]
  obtain fc q where fc: "fc = \<lparr>rcu_tenant_id = tenant, rcu_source_system = source, rcu_cursor = Option.bind (get_cursor tenant source s) rcu_cursor,
        rcu_high_watermark = Option.bind (get_cursor tenant source s) rcu_high_watermark, rcu_health = Health_UNAVAILABLE,
        rcu_consecutive_failures = ?n, rcu_next_attempt_at = Some (now + backoff_for config ?n), rcu_updated_at = now\<rparr>"
    and run: "bindE (save_result q) (\<lambda>_. ret (Some q)) (s\<lparr>rs_cursors := (rs_cursors s)((tenant, source) \<mapsto> fc)\<rparr>) = (r, s')" by auto
  from run have cur: "rs_cursors s' = (rs_cursors s)((tenant, source) \<mapsto> fc)"
    by (elim bindE_cases) (auto dest: save_result_cursors)
  then have get: "get_cursor tenant source s' = Some fc" by (simp add: get_cursor_def)
  have "run_source u5 rid' run' tenant source collect' config actions' later s' = (Inr None, s')"
    if "later < now + backoff_for config ?n" for later rid' run' collect' actions'
    using that get assms(6,7) by (simp add: run_source_def Let_def fc)
  moreover have "\<forall>k. k \<noteq> (tenant, source) \<longrightarrow> rs_cursors s' k = rs_cursors s k" unfolding cur by simp
  ultimately show ?thesis using get backoff_bounds [OF assms(4,5) n]
    by (intro exI [of _ fc] exI [of _ "backoff_for config ?n"]) (simp add: fc)
qed

section \<open>A second outage of one run\<close>

lemma unavailable_observed:
  assumes "f \<in> set (reconcile u5 run actions b)" "rba_observations b = []" "rba_audit_events b = []"
  shows "find_observed_at f = rba_collected_at b"
proof -
  from assms(1) reconcile_raised have "f \<in> set (raised_findings u5 run actions b)" by blast
  then show ?thesis unfolding raised_cases
  proof (elim disjE bexE conjE exE)
    fix k a
    assume "f \<in> set (action_findings u5 run b k a)"
    moreover have "observations_of k b = []" using assms(2) by (simp add: observations_of_def)
    ultimately show ?thesis by (simp add: action_findings_def Let_def split: if_splits)
  qed (use assms(2,3) in \<open>auto simp: health_findings_def split: if_splits\<close>)
qed

definition outage_id :: "uuid5_fn \<Rightarrow> uuid \<Rightarrow> string \<Rightarrow> uuid" where
  "outage_id u5 run source = finding_id u5 run source Recon_UNVERIFIABLE None None ''source-health:unavailable''"

lemma outage_finding:
  assumes "rba_health b = Health_UNAVAILABLE" "rba_observations b = []" "rba_audit_events b = []"
  shows "\<exists>f \<in> set (poll_findings u5 run actions b (Some e)). find_finding_id f = outage_id u5 run (rba_source_system b)
    \<and> find_observed_at (bare f) = rba_collected_at b"
proof -
  from assms(1) obtain h where h: "h \<in> set (health_findings u5 run b)" "find_finding_id h = outage_id u5 run (rba_source_system b)"
    by (auto simp: health_findings_def outage_id_def)
  then have "h \<in> set (raised_findings u5 run actions b)" unfolding raised_cases by blast
  from last_by_covers [OF this, of find_finding_id] h(2)
  obtain g where g: "g \<in> set (reconcile u5 run actions b)" "find_finding_id g = outage_id u5 run (rba_source_system b)"
    by (auto simp: reconcile_last_by)
  from unavailable_observed [OF g(1) assms(2,3)] g show ?thesis
    by (intro bexI [of _ "tag_error e g"]) (simp_all add: poll_findings_def)
qed

text \<open>
  The identifier of the outage finding depends on neither the time nor the error, while the stored finding carries both. So
  a second failed collection of the same source for the same run at another time cannot be recorded: \<open>run_source\<close> raises, although
  the first outage was recorded normally.
\<close>

lemma repeated_outage_raises:
  assumes "nonblank tenant" "nonblank source" "list_all expected_external_action_fields actions"
    and "rsc_enabled config" "rsc_source_system config = source"
    and "\<And>c. get_cursor tenant source s = Some c \<Longrightarrow> reconciliation_cursor_fields c"
    and "\<And>c t. get_cursor tenant source s = Some c \<Longrightarrow> rcu_next_attempt_at c = Some t \<Longrightarrow> t \<le> now"
    and "collect tenant (get_cursor tenant source s) now = Inl e"
    and "stored (outage_id u5 run source) h s" "find_observed_at h \<noteq> now"
    and "run_source u5 rid run tenant source collect config actions now s = (r, s')"
  shows "\<exists>m. r = Inl (ValueError m)"
proof -
  have "run_source u5 rid run tenant source collect config actions now s
      = poll_failed u5 rid run tenant source config actions now (get_cursor tenant source s) e s"
    by (rule due_run_source) (use assms in auto)
  with assms(11) assms(6)
    poll_failed_run [where cursor = "get_cursor tenant source s" and now = now and ?u5.0 = u5 and run = run and e = e and rid = rid
      and config = config and s = s, OF assms(1-3)]
  obtain b fc q where b: "rba_source_system b = source" "rba_collected_at b = now" "rba_health b = Health_UNAVAILABLE"
      "rba_observations b = []" "rba_audit_events b = []" "rrr_findings q = poll_findings u5 run actions b (Some e)"
    and run: "bindE (save_result q) (\<lambda>_. ret (Some q)) (s\<lparr>rs_cursors := (rs_cursors s)((tenant, source) \<mapsto> fc)\<rparr>) = (r, s')"
    by metis
  let ?s = "s\<lparr>rs_cursors := (rs_cursors s)((tenant, source) \<mapsto> fc)\<rparr>"
  obtain r0 t where save: "save_result q ?s = (r0, t)" by fastforce
  have "\<exists>m. r0 = Inl (ValueError m)"
  proof (cases "\<exists>old. rs_results ?s (rrr_reconciliation_id q) = Some old \<and> \<not> result_eq old q")
    case False
    let ?s1 = "?s\<lparr>rs_results := (rs_results ?s)(rrr_reconciliation_id q \<mapsto> q)\<rparr>"
    from False save have "save_findings (rrr_tenant_id q) (rrr_findings q) ?s1 = (r0, t)" unfolding save_result_def by (simp only: if_False)
    moreover have "stored (outage_id u5 run source) h ?s1" using assms(9) by (simp add: stored_def)
    moreover obtain f where "f \<in> set (rrr_findings q)" "find_finding_id f = outage_id u5 run source" "find_observed_at (bare f) = now"
      using outage_finding [OF b(3-5), of u5 run actions e] b by auto
    ultimately show ?thesis using save_findings_conflict [of "rrr_tenant_id q" "rrr_findings q" ?s1 r0 t] assms(10) by blast
  qed (use save in \<open>auto simp: save_result_def\<close>)
  with run save show ?thesis by (auto simp: bindE_def)
qed

section \<open>A concrete outage\<close>

definition sample_source_config :: reconciliation_source_config where
  "sample_source_config = \<lparr>rsc_source_system = ''git'', rsc_enabled = True, rsc_poll_interval_seconds = 300, rsc_stale_after_seconds = 900,
     rsc_base_backoff_seconds = 30, rsc_max_backoff_seconds = 1800\<rparr>"

definition sample_completeness :: production_completeness_profile where
  "sample_completeness = \<lparr>pcp_profile_id = ''p'', pcp_tenant_id = ''acme'', pcp_organization_id = None, pcp_required_sources = [''git''],
     pcp_max_source_age_seconds = 900, pcp_require_matched_reconciliation = True\<rparr>"

abbreviation (input) outage :: collector where
  "outage \<equiv> \<lambda>tenant cursor now. Inl (ForeignException ''ConnectionError'' ''down'')"

lemma sample_names: "nonblank ''acme''" "nonblank ''git''"
  by (simp_all add: nonblankI py_isspace_def)

lemma sample_outage:
  "\<exists>q s. run_source (\<lambda>n. n) ''x1'' ''r1'' ''acme'' ''git'' outage sample_source_config [] 0 empty_recon = (Inr (Some q), s)
    \<and> rrr_findings q \<noteq> [] \<and> (\<forall>f \<in> set (rrr_findings q). find_outcome f \<noteq> Recon_MATCHED)"
proof -
  have run: "run_source (\<lambda>n. n) ''x1'' ''r1'' ''acme'' ''git'' outage sample_source_config [] 0 empty_recon
      = poll_failed (\<lambda>n. n) ''x1'' ''r1'' ''acme'' ''git'' sample_source_config [] 0 None (ForeignException ''ConnectionError'' ''down'') empty_recon"
    by (simp add: run_source_def sample_source_config_def get_cursor_def empty_recon_def)
  from poll_failed_run [where cursor = None and now = 0 and actions = "[]" and ?u5.0 = "\<lambda>n. n" and run = "''r1''" and e = "ForeignException ''ConnectionError'' ''down''"
      and rid = "''x1''" and config = sample_source_config and s = empty_recon, OF sample_names]
  obtain b fc q where b: "rba_health b = Health_UNAVAILABLE" "rba_observations b = []" "rba_audit_events b = []"
      "rrr_findings q = poll_findings (\<lambda>n. n) ''r1'' [] b (Some (ForeignException ''ConnectionError'' ''down''))"
    and eq: "poll_failed (\<lambda>n. n) ''x1'' ''r1'' ''acme'' ''git'' sample_source_config [] 0 None (ForeignException ''ConnectionError'' ''down'') empty_recon
      = bindE (save_result q) (\<lambda>_. ret (Some q)) (empty_recon\<lparr>rs_cursors := (rs_cursors empty_recon)((''acme'', ''git'') \<mapsto> fc)\<rparr>)"
    by auto
  have "\<exists>f. rrr_findings q = [f] \<and> find_outcome f \<noteq> Recon_MATCHED"
    using b by (simp add: poll_findings_def reconcile_def raised_findings_def expected_of_def health_findings_def dict_of_def)
  then obtain f where f: "rrr_findings q = [f]" "find_outcome f \<noteq> Recon_MATCHED" by blast
  have "\<exists>t. save_result q (empty_recon\<lparr>rs_cursors := (rs_cursors empty_recon)((''acme'', ''git'') \<mapsto> fc)\<rparr>) = (Inr (), t)"
    by (simp add: save_result_def f conflicting_finding_def empty_recon_def)
  then show ?thesis unfolding run eq using f by (auto simp: bindE_def)
qed

text \<open>A witness: the outage of a required source makes the profile incomplete at any later time.\<close>

theorem unknown_never_success_witness:
  "\<exists>s. (\<exists>q. run_source (\<lambda>n. n) ''x1'' ''r1'' ''acme'' ''git'' outage sample_source_config [] 0 empty_recon = (Inr (Some q), s))
    \<and> \<not> pca_complete (assess_completeness sample_completeness 1000 s)"
proof -
  obtain q s where q: "run_source (\<lambda>n. n) ''x1'' ''r1'' ''acme'' ''git'' outage sample_source_config [] 0 empty_recon = (Inr (Some q), s)"
    "rrr_findings q \<noteq> []" "\<forall>f \<in> set (rrr_findings q). find_outcome f \<noteq> Recon_MATCHED" using sample_outage by blast
  have bad: "rrr_health q \<noteq> Health_HEALTHY \<or> (\<exists>f \<in> set (rrr_findings q). find_outcome f \<noteq> Recon_MATCHED)"
    using q(2,3) by (cases "rrr_findings q") auto
  have "\<not> pca_complete (assess_completeness sample_completeness 1000 s)"
    by (rule unknown_never_success [where owner = "\<lambda>_. ''acme''", OF sample_names refl q(1) _ bad rtranclp.rtrancl_refl])
      (simp_all add: sample_completeness_def)
  with q(1) show ?thesis by blast
qed

text \<open>A witness: the first outage of the sample source is retried after thirty seconds at the earliest.\<close>

theorem failed_poll_backs_off_witness:
  "\<exists>r s. run_source (\<lambda>n. n) ''x1'' ''r1'' ''acme'' ''git'' outage sample_source_config [] 0 empty_recon = (r, s)
    \<and> run_source (\<lambda>n. n) ''x2'' ''r1'' ''acme'' ''git'' outage sample_source_config [] 29999999 s = (Inr None, s)"
proof -
  obtain r s where run: "run_source (\<lambda>n. n) ''x1'' ''r1'' ''acme'' ''git'' outage sample_source_config [] 0 empty_recon = (r, s)" by fastforce
  have c: "reconciliation_source_config_fields sample_source_config" "validate_source_config sample_source_config = Inr sample_source_config"
    "rsc_enabled sample_source_config" "rsc_source_system sample_source_config = ''git''"
    "get_cursor ''acme'' ''git'' empty_recon = None" "rsc_base_backoff_seconds sample_source_config = 30"
    by (simp_all add: sample_source_config_def reconciliation_source_config_fields_def validate_source_config_def sample_names
        get_cursor_def empty_recon_def)
  have "\<exists>d. 30 * 1000000 \<le> d \<and> (\<forall>later rid' run' collect' actions'. later < 0 + d \<longrightarrow>
      run_source (\<lambda>n. n) rid' run' ''acme'' ''git'' collect' sample_source_config actions' later s = (Inr None, s))"
    using failed_poll_backs_off [where collect = outage, OF sample_names _ c(1-4) _ _ refl run] c(5,6) by auto
  with run show ?thesis by auto
qed

end
