(* ===== verification/Attestations.thy ===== *)
theory Attestations
  imports Sample_Data
begin

text \<open>
  Signed checkpoints and retention locks: the trust contracts of \<open>contracts/attestations.py\<close>, the
  signer \<open>Ed25519CheckpointSigner\<close> and the checks \<open>verify_checkpoint\<close> and \<open>verify_retention_lock\<close>
  of \<open>OfflineAssuranceVerifier\<close> (the runtime's \<open>attestations.py\<close>). Ed25519 is a parameter, a
  signing function for the private key and a verification function; base64 is written out.
\<close>

section \<open>Strict base64\<close>

text \<open>\<open>base64.b64encode\<close>, and \<open>base64.b64decode\<close> with \<open>validate=True\<close>; bytes are the characters below 256.\<close>

definition b64_char :: "nat \<Rightarrow> char" where
  "b64_char n = (if n < 26 then char_of (65 + n) else if n < 52 then char_of (71 + n)
     else if n < 62 then char_of (n - 4) else if n = 62 then CHR ''+'' else CHR ''/'')"

definition b64_val :: "char \<Rightarrow> nat option" where
  "b64_val c = (let n = of_char c :: nat in
     if 65 \<le> n \<and> n \<le> 90 then Some (n - 65) else if 97 \<le> n \<and> n \<le> 122 then Some (n - 71)
     else if 48 \<le> n \<and> n \<le> 57 then Some (n + 4) else if n = 43 then Some 62 else if n = 47 then Some 63 else None)"

fun b64encode :: "string \<Rightarrow> string" where
  "b64encode [] = []"
| "b64encode [a] = (let n = of_char a :: nat in [b64_char (n div 4), b64_char (n mod 4 * 16), CHR ''='', CHR ''=''])"
| "b64encode [a, b] = (let n = of_char a :: nat; m = of_char b :: nat in
     [b64_char (n div 4), b64_char (n mod 4 * 16 + m div 16), b64_char (m mod 16 * 4), CHR ''=''])"
| "b64encode (a # b # c # r) = (let n = of_char a :: nat; m = of_char b :: nat; k = of_char c :: nat in
     [b64_char (n div 4), b64_char (n mod 4 * 16 + m div 16), b64_char (m mod 16 * 4 + k div 64), b64_char (k mod 64)]
     @ b64encode r)"

definition byte1 :: "nat \<Rightarrow> nat \<Rightarrow> char" where "byte1 w x = char_of (w * 4 + x div 16)"
definition byte2 :: "nat \<Rightarrow> nat \<Rightarrow> char" where "byte2 x y = char_of (x mod 16 * 16 + y div 4)"
definition byte3 :: "nat \<Rightarrow> nat \<Rightarrow> char" where "byte3 y z = char_of (y mod 4 * 64 + z)"

fun b64decode :: "string \<Rightarrow> string option" where
  "b64decode [] = Some []"
| "b64decode (w # x # y # z # r) =
    (case (b64_val w, b64_val x) of
       (Some w, Some x) \<Rightarrow>
         if y = CHR ''='' then (if z = CHR ''='' \<and> r = [] then Some [byte1 w x] else None)
         else (case b64_val y of
             None \<Rightarrow> None
           | Some y \<Rightarrow>
               if z = CHR ''='' then (if r = [] then Some [byte1 w x, byte2 x y] else None)
               else (case (b64_val z, b64decode r) of
                   (Some z, Some bs) \<Rightarrow> Some (byte1 w x # byte2 x y # byte3 y z # bs)
                 | _ \<Rightarrow> None))
     | _ \<Rightarrow> None)"
| "b64decode _ = None"

section \<open>Contracts\<close>

datatype checkpoint_signing_algorithm =
    Signing_ED25519

fun checkpoint_signing_algorithm_value :: "checkpoint_signing_algorithm \<Rightarrow> string" where
  "checkpoint_signing_algorithm_value Signing_ED25519 = ''ed25519''"

datatype signing_requirement =
    SigningReq_OPTIONAL
  | SigningReq_REQUIRED

datatype retention_lock_mode =
    LockMode_LOGICAL
  | LockMode_GOVERNANCE
  | LockMode_COMPLIANCE
  | LockMode_WRITE_ONCE

record trusted_signing_key =
  tsk_key_id :: string
  tsk_algorithm :: checkpoint_signing_algorithm
  tsk_public_key_base64 :: string
  tsk_signer_id :: string
  tsk_valid_from :: datetime
  tsk_valid_until :: "datetime option"
  tsk_revoked_at :: "datetime option"

definition trusted_signing_key_fields :: "trusted_signing_key \<Rightarrow> bool" where
  "trusted_signing_key_fields r = (nonblank (tsk_key_id r) \<and>
     nonblank (tsk_public_key_base64 r) \<and>
     nonblank (tsk_signer_id r))"

definition dump_trusted_signing_key :: "trusted_signing_key \<Rightarrow> pyval" where
  "dump_trusted_signing_key r = PDict
    [(KStr ''key_id'', PStr (tsk_key_id r)),
     (KStr ''algorithm'', PEnum (checkpoint_signing_algorithm_value (tsk_algorithm r))),
     (KStr ''public_key_base64'', PStr (tsk_public_key_base64 r)),
     (KStr ''signer_id'', PStr (tsk_signer_id r)),
     (KStr ''valid_from'', PDatetime (tsk_valid_from r)),
     (KStr ''valid_until'', dump_opt PDatetime (tsk_valid_until r)),
     (KStr ''revoked_at'', dump_opt PDatetime (tsk_revoked_at r))]"

record trust_root_policy =
  trp_schema_name :: string
  trp_schema_version :: string
  trp_policy_id :: string
  trp_revision :: string
  trp_trusted_keys :: "trusted_signing_key list"
  trp_allowed_signers :: "string list"
  trp_allow_historical_signatures_before_revocation :: bool

definition trust_root_policy_fields :: "trust_root_policy \<Rightarrow> bool" where
  "trust_root_policy_fields r = (trp_schema_name r = ''prodkit.trust-root-policy'' \<and>
     trp_schema_version r = ''1.0.0'' \<and>
     nonblank (trp_policy_id r) \<and>
     nonblank (trp_revision r) \<and>
     (list_all trusted_signing_key_fields) (trp_trusted_keys r) \<and>
     (list_all nonblank) (trp_allowed_signers r))"

definition dump_trust_root_policy :: "trust_root_policy \<Rightarrow> pyval" where
  "dump_trust_root_policy r = PDict
    [(KStr ''schema_name'', PStr (trp_schema_name r)),
     (KStr ''schema_version'', PStr (trp_schema_version r)),
     (KStr ''policy_id'', PStr (trp_policy_id r)),
     (KStr ''revision'', PStr (trp_revision r)),
     (KStr ''trusted_keys'', PTuple (map dump_trusted_signing_key (trp_trusted_keys r))),
     (KStr ''allowed_signers'', PTuple (map PStr (trp_allowed_signers r))),
     (KStr ''allow_historical_signatures_before_revocation'', PBool (trp_allow_historical_signatures_before_revocation r))]"

record assurance_profile =
  asp_schema_name :: string
  asp_schema_version :: string
  asp_profile_id :: string
  asp_signing :: signing_requirement
  asp_require_retention_lock :: bool
  asp_minimum_retention_days :: int
  asp_accepted_retention_modes :: "retention_lock_mode list"

definition assurance_profile_fields :: "assurance_profile \<Rightarrow> bool" where
  "assurance_profile_fields r = (asp_schema_name r = ''prodkit.assurance-profile'' \<and>
     asp_schema_version r = ''1.0.0'' \<and>
     nonblank (asp_profile_id r) \<and>
     1 \<le> asp_minimum_retention_days r)"

record signed_checkpoint =
  scp_schema_name :: string
  scp_schema_version :: string
  scp_checkpoint_id :: uuid
  scp_run_id :: uuid
  scp_tenant_id :: string
  scp_created_at :: datetime
  scp_sequence :: int
  scp_final_event_hash :: string
  scp_evidence_bundle_sha256 :: string
  scp_attestation_sha256 :: "string option"
  scp_previous_checkpoint_sha256 :: "string option"
  scp_signer_id :: string
  scp_key_id :: string
  scp_algorithm :: checkpoint_signing_algorithm
  scp_signature_base64 :: string

definition signed_checkpoint_fields :: "signed_checkpoint \<Rightarrow> bool" where
  "signed_checkpoint_fields r = (scp_schema_name r = ''prodkit.signed-checkpoint'' \<and>
     scp_schema_version r = ''1.0.0'' \<and>
     nonblank (scp_tenant_id r) \<and>
     1 \<le> scp_sequence r \<and>
     is_sha256 (scp_final_event_hash r) \<and>
     is_sha256 (scp_evidence_bundle_sha256 r) \<and>
     (pred_option is_sha256) (scp_attestation_sha256 r) \<and>
     (pred_option is_sha256) (scp_previous_checkpoint_sha256 r) \<and>
     nonblank (scp_signer_id r) \<and>
     nonblank (scp_key_id r) \<and>
     nonblank (scp_signature_base64 r))"

definition signing_material :: "signed_checkpoint \<Rightarrow> pyval" where
  "signing_material r = PDict
    [(KStr ''schema_name'', PStr (scp_schema_name r)),
     (KStr ''schema_version'', PStr (scp_schema_version r)),
     (KStr ''checkpoint_id'', PUuid (scp_checkpoint_id r)),
     (KStr ''run_id'', PUuid (scp_run_id r)),
     (KStr ''tenant_id'', PStr (scp_tenant_id r)),
     (KStr ''created_at'', PDatetime (scp_created_at r)),
     (KStr ''sequence'', PInt (scp_sequence r)),
     (KStr ''final_event_hash'', PStr (scp_final_event_hash r)),
     (KStr ''evidence_bundle_sha256'', PStr (scp_evidence_bundle_sha256 r)),
     (KStr ''attestation_sha256'', dump_opt PStr (scp_attestation_sha256 r)),
     (KStr ''previous_checkpoint_sha256'', dump_opt PStr (scp_previous_checkpoint_sha256 r)),
     (KStr ''signer_id'', PStr (scp_signer_id r)),
     (KStr ''key_id'', PStr (scp_key_id r)),
     (KStr ''algorithm'', PEnum (checkpoint_signing_algorithm_value (scp_algorithm r)))]"

record retention_lock_receipt =
  rlr_schema_name :: string
  rlr_schema_version :: string
  rlr_object_sha256 :: string
  rlr_locked_at :: datetime
  rlr_retain_until :: datetime
  rlr_mode :: retention_lock_mode
  rlr_provider :: string
  rlr_provider_reference :: string
  rlr_immutable :: bool

definition retention_lock_receipt_fields :: "retention_lock_receipt \<Rightarrow> bool" where
  "retention_lock_receipt_fields r = (rlr_schema_name r = ''prodkit.retention-lock-receipt'' \<and>
     rlr_schema_version r = ''1.0.0'' \<and>
     is_sha256 (rlr_object_sha256 r) \<and>
     nonblank (rlr_provider r) \<and>
     nonblank (rlr_provider_reference r))"

definition validate_trusted_key :: "trusted_signing_key \<Rightarrow> trusted_signing_key result" where
  "validate_trusted_key k =
    (case b64decode (tsk_public_key_base64 k) of
       None \<Rightarrow> Inl (ValueError ''trusted signing key must contain strict base64'')
     | Some key_bytes \<Rightarrow>
         if tsk_algorithm k = Signing_ED25519 \<and> length key_bytes \<noteq> 32
         then Inl (ValueError ''Ed25519 public keys must be exactly 32 bytes'')
         else if \<exists>u. tsk_valid_until k = Some u \<and> u \<le> tsk_valid_from k
         then Inl (ValueError ''trusted signing key valid_until must follow valid_from'')
         else if \<exists>r. tsk_revoked_at k = Some r \<and> r < tsk_valid_from k
         then Inl (ValueError ''trusted signing key cannot be revoked before becoming valid'')
         else Inr k)"

definition validate_trust_policy :: "trust_root_policy \<Rightarrow> trust_root_policy result" where
  "validate_trust_policy p =
    (if trp_trusted_keys p = [] then Inl (ValueError ''trust-root policy requires at least one trusted key'')
     else if \<not> distinct (map tsk_key_id (trp_trusted_keys p)) then Inl (ValueError ''trust-root policy key ids must be unique'')
     else Inr p)"

definition validate_checkpoint :: "signed_checkpoint \<Rightarrow> signed_checkpoint result" where
  "validate_checkpoint c =
    (case b64decode (scp_signature_base64 c) of
       None \<Rightarrow> Inl (ValueError ''checkpoint signature must contain strict base64'')
     | Some signature \<Rightarrow>
         if scp_algorithm c = Signing_ED25519 \<and> length signature \<noteq> 64
         then Inl (ValueError ''Ed25519 signatures must be exactly 64 bytes'')
         else Inr c)"

definition validate_retention_lock :: "retention_lock_receipt \<Rightarrow> retention_lock_receipt result" where
  "validate_retention_lock r =
    (if rlr_retain_until r \<le> rlr_locked_at r then Inl (ValueError ''retention lock must expire after it is established'')
     else if \<not> rlr_immutable r then Inl (ValueError ''retention lock receipts must attest immutable retention'')
     else Inr r)"

section \<open>The signer\<close>

text \<open>
  The private key is its signing function together with its raw public key; \<open>u5\<close> is
  \<open>uuid5(NAMESPACE_URL, _)\<close>.
\<close>

record checkpoint_signer =
  sg_key_id :: string
  sg_signer_id :: string
  sg_public_bytes :: string
  sg_sign :: "string \<Rightarrow> string"

definition new_signer :: "string \<Rightarrow> string \<Rightarrow> string \<Rightarrow> (string \<Rightarrow> string) \<Rightarrow> checkpoint_signer result" where
  "new_signer key_id signer_id public_bytes sign =
    (if key_id = [] \<or> signer_id = [] then Inl (ValueError ''checkpoint signer requires non-empty key and signer ids'')
     else Inr \<lparr>sg_key_id = key_id, sg_signer_id = signer_id, sg_public_bytes = public_bytes, sg_sign = sign\<rparr>)"

definition trusted_key ::
  "checkpoint_signer \<Rightarrow> datetime \<Rightarrow> datetime option \<Rightarrow> datetime option \<Rightarrow> trusted_signing_key result" where
  "trusted_key s valid_from valid_until revoked_at =
    rbind (check_fields ''TrustedSigningKey'' trusted_signing_key_fields
      \<lparr>tsk_key_id = strip (sg_key_id s), tsk_algorithm = Signing_ED25519,
       tsk_public_key_base64 = strip (b64encode (sg_public_bytes s)), tsk_signer_id = strip (sg_signer_id s),
       tsk_valid_from = valid_from, tsk_valid_until = valid_until, tsk_revoked_at = revoked_at\<rparr>)
    validate_trusted_key"

text \<open>The material \<open>sign\<close> signs: the arguments as given, not yet stripped by the model.\<close>

definition sign_material ::
  "(string \<Rightarrow> uuid) \<Rightarrow> checkpoint_signer \<Rightarrow> uuid \<Rightarrow> string \<Rightarrow> datetime \<Rightarrow> int \<Rightarrow> string \<Rightarrow> string \<Rightarrow> string option
    \<Rightarrow> string option \<Rightarrow> signed_checkpoint" where
  "sign_material u5 s run_id tenant created_at sequence final_event_hash bundle_sha256 attestation previous =
    \<lparr>scp_schema_name = ''prodkit.signed-checkpoint'', scp_schema_version = ''1.0.0'',
     scp_checkpoint_id = u5 (join '':'' [''prodkit-control-checkpoint-v1'', run_id, int_str sequence, bundle_sha256,
       (if truthy attestation then the attestation else ''none''), sg_signer_id s, sg_key_id s]),
     scp_run_id = run_id, scp_tenant_id = tenant, scp_created_at = created_at, scp_sequence = sequence,
     scp_final_event_hash = final_event_hash, scp_evidence_bundle_sha256 = bundle_sha256,
     scp_attestation_sha256 = attestation, scp_previous_checkpoint_sha256 = previous,
     scp_signer_id = sg_signer_id s, scp_key_id = sg_key_id s, scp_algorithm = Signing_ED25519,
     scp_signature_base64 = []\<rparr>"

definition sign_checkpoint ::
  "(string \<Rightarrow> uuid) \<Rightarrow> checkpoint_signer \<Rightarrow> uuid \<Rightarrow> string \<Rightarrow> datetime \<Rightarrow> int \<Rightarrow> string \<Rightarrow> string \<Rightarrow> string option
    \<Rightarrow> string option \<Rightarrow> signed_checkpoint result" where
  "sign_checkpoint u5 s run_id tenant created_at sequence final_event_hash bundle_sha256 attestation previous =
    (let m = sign_material u5 s run_id tenant created_at sequence final_event_hash bundle_sha256 attestation previous;
         signature = sg_sign s (canonical_json_bytes (signing_material m))
     in rbind (check_fields ''SignedCheckpoint'' signed_checkpoint_fields
          (m\<lparr>scp_tenant_id := strip tenant, scp_signer_id := strip (sg_signer_id s), scp_key_id := strip (sg_key_id s),
             scp_signature_base64 := strip (b64encode signature)\<rparr>))
        validate_checkpoint)"

section \<open>The verifier\<close>

definition verify_key_window :: "signed_checkpoint \<Rightarrow> trust_root_policy \<Rightarrow> trusted_signing_key \<Rightarrow> unit result" where
  "verify_key_window c p key =
    (if scp_algorithm c \<noteq> tsk_algorithm key
     then Inl (IntegrityViolationError ''checkpoint signing algorithm does not match trusted key'')
     else if scp_signer_id c \<noteq> tsk_signer_id key
     then Inl (IntegrityViolationError ''checkpoint signer identity does not match trusted key'')
     else if trp_allowed_signers p \<noteq> [] \<and> scp_signer_id c \<notin> set (trp_allowed_signers p)
     then Inl (IntegrityViolationError ''checkpoint signer is not allowed by trust-root policy'')
     else if scp_created_at c < tsk_valid_from key
     then Inl (IntegrityViolationError ''checkpoint predates signing-key validity'')
     else if \<exists>u. tsk_valid_until key = Some u \<and> u < scp_created_at c
     then Inl (IntegrityViolationError ''checkpoint postdates signing-key validity'')
     else if tsk_revoked_at key \<noteq> None \<and> \<not> trp_allow_historical_signatures_before_revocation p
     then Inl (IntegrityViolationError ''checkpoint signing key has been revoked'')
     else if \<exists>r. tsk_revoked_at key = Some r \<and> r \<le> scp_created_at c
     then Inl (IntegrityViolationError ''checkpoint was created after signing-key revocation'')
     else Inr ())"

text \<open>\<open>verify public signature message\<close> is \<open>Ed25519PublicKey.verify\<close>; \<open>from_public_bytes\<close> demands 32 bytes.\<close>

definition verify_signature ::
  "(string \<Rightarrow> string \<Rightarrow> string \<Rightarrow> bool) \<Rightarrow> signed_checkpoint \<Rightarrow> trusted_signing_key \<Rightarrow> unit result" where
  "verify_signature verify c key =
    (case (b64decode (tsk_public_key_base64 key), b64decode (scp_signature_base64 c)) of
       (Some public_bytes, Some signature) \<Rightarrow>
         if length public_bytes \<noteq> 32 then Inl (ValueError ''An Ed25519 public key is 32 bytes long'')
         else if \<not> verify public_bytes signature (canonical_json_bytes (signing_material c))
         then Inl (IntegrityViolationError ''checkpoint signature verification failed'')
         else Inr ()
     | _ \<Rightarrow> Inl (IntegrityViolationError ''checkpoint signing material is malformed''))"

definition verify_checkpoint ::
  "(string \<Rightarrow> string \<Rightarrow> string \<Rightarrow> bool) \<Rightarrow> signed_checkpoint \<Rightarrow> trust_root_policy \<Rightarrow> trusted_signing_key result" where
  "verify_checkpoint verify c p =
    (case filter (\<lambda>k. tsk_key_id k = scp_key_id c) (trp_trusted_keys p) of
       [key] \<Rightarrow> rbind (verify_key_window c p key) (\<lambda>_. rbind (verify_signature verify c key) (\<lambda>_. Inr key))
     | _ \<Rightarrow> Inl (IntegrityViolationError ''checkpoint signing key is not uniquely trusted''))"

definition verify_retention_lock :: "retention_lock_receipt \<Rightarrow> string \<Rightarrow> assurance_profile \<Rightarrow> unit result" where
  "verify_retention_lock r object_sha256 profile =
    (if rlr_object_sha256 r \<noteq> object_sha256
     then Inl (IntegrityViolationError ''retention-lock receipt does not identify evidence object'')
     else if rlr_mode r \<notin> set (asp_accepted_retention_modes profile)
     then Inl (IntegrityViolationError ''retention-lock mode is not accepted by assurance profile'')
     else if rlr_retain_until r - rlr_locked_at r < asp_minimum_retention_days profile * 86400 * 1000000
     then Inl (IntegrityViolationError ''retention-lock duration is below assurance profile minimum'')
     else Inr ())"

text \<open>Dumps and digests of what is stored beside an archive.\<close>

definition dump_signed_checkpoint :: "signed_checkpoint \<Rightarrow> pyval" where
  "dump_signed_checkpoint c = (case signing_material c of
     PDict kvs \<Rightarrow> PDict (kvs @ [(KStr ''signature_base64'', PStr (scp_signature_base64 c))]) | v \<Rightarrow> v)"

definition checkpoint_sha256 :: "sha256_fn \<Rightarrow> signed_checkpoint \<Rightarrow> string" where
  "checkpoint_sha256 sha c = sha256_hex_bytes sha (canonical_json_bytes (dump_signed_checkpoint c))"

fun retention_lock_mode_value :: "retention_lock_mode \<Rightarrow> string" where
  "retention_lock_mode_value LockMode_LOGICAL = ''logical''"
| "retention_lock_mode_value LockMode_GOVERNANCE = ''governance''"
| "retention_lock_mode_value LockMode_COMPLIANCE = ''compliance''"
| "retention_lock_mode_value LockMode_WRITE_ONCE = ''write_once''"

definition dump_retention_lock_receipt :: "retention_lock_receipt \<Rightarrow> pyval" where
  "dump_retention_lock_receipt r = PDict
    [(KStr ''schema_name'', PStr (rlr_schema_name r)),
     (KStr ''schema_version'', PStr (rlr_schema_version r)),
     (KStr ''object_sha256'', PStr (rlr_object_sha256 r)),
     (KStr ''locked_at'', PDatetime (rlr_locked_at r)),
     (KStr ''retain_until'', PDatetime (rlr_retain_until r)),
     (KStr ''mode'', PEnum (retention_lock_mode_value (rlr_mode r))),
     (KStr ''provider'', PStr (rlr_provider r)),
     (KStr ''provider_reference'', PStr (rlr_provider_reference r)),
     (KStr ''immutable'', PBool (rlr_immutable r))]"

section \<open>Base64 round trip\<close>

lemma b64_val_char [simp]: "n < 64 \<Longrightarrow> b64_val (b64_char n) = Some n"
proof -
  assume "n < 64"
  then consider "n < 26" | "26 \<le> n" "n < 52" | "52 \<le> n" "n < 62" | "n = 62" | "n = 63" by linarith
  then show ?thesis
  proof cases
    case 3
    then have "b64_char n = char_of (n - 4)" "n - 4 < 256" "48 \<le> n - 4" "n - 4 \<le> 57" "n - 4 + 4 = n" by (auto simp: b64_char_def)
    then show ?thesis by (simp add: b64_val_def of_char_of)
  qed (simp_all add: b64_val_def b64_char_def Let_def of_char_of)
qed

lemma b64_val_pad: "b64_val (CHR ''='') = None"
  by (simp add: b64_val_def)

lemma b64_char_not_pad [simp]: "n < 64 \<Longrightarrow> b64_char n \<noteq> CHR ''=''"
  using b64_val_char [of n] b64_val_pad by (metis option.distinct(1))

lemma b64_val_not_space: "b64_val c \<noteq> None \<or> c = CHR ''='' \<Longrightarrow> \<not> py_isspace c"
  by (auto simp: b64_val_def py_isspace_def Let_def split: if_splits)

lemma byte_bound: "(of_char (c :: char) :: nat) < 256"
  by (metis of_char_mod_256 mod_less_divisor zero_less_numeral)

lemma bytes_join:
  fixes n m k :: nat
  assumes "n < 256" "m < 256" "k < 256"
  shows "n div 4 * 4 + (n mod 4 * 16) div 16 = n" "n div 4 * 4 + (n mod 4 * 16 + m div 16) div 16 = n"
    "(n mod 4 * 16 + m div 16) mod 16 * 16 + (m mod 16 * 4) div 4 = m"
    "(n mod 4 * 16 + m div 16) mod 16 * 16 + (m mod 16 * 4 + k div 64) div 4 = m"
    "(m mod 16 * 4 + k div 64) mod 4 * 64 + k mod 64 = k"
proof -
  have parts: "m div 16 < 16" "k div 64 < 4" using assms by simp_all
  have r: "(x * 16 + y) div 16 = x" "(x * 16 + y) mod 16 = y" if "y < 16" for x y :: nat using that by simp_all
  have u: "(x * 4 + y) div 4 = x" "(x * 4 + y) mod 4 = y" if "y < 4" for x y :: nat using that by simp_all
  show "n div 4 * 4 + (n mod 4 * 16) div 16 = n" by simp
  show "n div 4 * 4 + (n mod 4 * 16 + m div 16) div 16 = n" unfolding r(1) [OF parts(1)] by simp
  show "(n mod 4 * 16 + m div 16) mod 16 * 16 + (m mod 16 * 4) div 4 = m" unfolding r(2) [OF parts(1)] by simp
  show "(n mod 4 * 16 + m div 16) mod 16 * 16 + (m mod 16 * 4 + k div 64) div 4 = m"
    unfolding r(2) [OF parts(1)] u(1) [OF parts(2)] by simp
  show "(m mod 16 * 4 + k div 64) mod 4 * 64 + k mod 64 = k" unfolding u(2) [OF parts(2)] by simp
qed

lemma b64_bounds:
  fixes n m k :: nat
  assumes "n < 256" "m < 256" "k < 256"
  shows "n div 4 < 64" "n mod 4 * 16 < 64" "n mod 4 * 16 + m div 16 < 64" "m mod 16 * 4 < 64" "m mod 16 * 4 + k div 64 < 64" "k mod 64 < 64"
proof -
  have "n div 4 < 64" "n mod 4 < 4" "m div 16 < 16" "m mod 16 < 16" "k div 64 < 4" "k mod 64 < 64" using assms by simp_all
  then show "n div 4 < 64" "n mod 4 * 16 < 64" "n mod 4 * 16 + m div 16 < 64" "m mod 16 * 4 < 64" "m mod 16 * 4 + k div 64 < 64"
    "k mod 64 < 64" by linarith+
qed

lemma b64_round_trip: "b64decode (b64encode s) = Some s"
proof (induction s rule: b64encode.induct)
  case (2 a)
  have b: "(of_char a :: nat) < 256" by (rule byte_bound)
  show ?case using b64_bounds [OF b b b] bytes_join(1) [OF b b b]
    by (simp add: Let_def byte1_def)
next
  case (3 a b)
  have l: "(of_char a :: nat) < 256" "(of_char b :: nat) < 256" by (rule byte_bound)+
  show ?case using b64_bounds [OF l l(2)] bytes_join(2,3) [OF l l(2)]
    by (simp add: Let_def byte1_def byte2_def)
next
  case (4 a b c r)
  have l: "(of_char a :: nat) < 256" "(of_char b :: nat) < 256" "(of_char c :: nat) < 256" by (rule byte_bound)+
  show ?case using b64_bounds [OF l] bytes_join(2,4,5) [OF l] 4
    by (simp add: Let_def byte1_def byte2_def byte3_def)
qed simp

lemma b64_alphabet: "c \<in> set (b64encode s) \<Longrightarrow> b64_val c \<noteq> None \<or> c = CHR ''=''"
proof (induction s rule: b64encode.induct)
  case (2 a)
  have b: "(of_char a :: nat) < 256" by (rule byte_bound)
  with 2 b64_bounds [OF b b b] show ?case by (auto simp: Let_def)
next
  case (3 a b)
  have l: "(of_char a :: nat) < 256" "(of_char b :: nat) < 256" by (rule byte_bound)+
  from 3 b64_bounds [OF l l(2)] show ?case by (auto simp: Let_def)
next
  case (4 a b d r)
  have l: "(of_char a :: nat) < 256" "(of_char b :: nat) < 256" "(of_char d :: nat) < 256" by (rule byte_bound)+
  from 4 b64_bounds [OF l] show ?case by (auto simp: Let_def)
qed simp

lemma b64encode_not_Nil: "s \<noteq> [] \<Longrightarrow> b64encode s \<noteq> []"
  by (cases s rule: b64encode.cases) (simp_all add: Let_def)

lemma nonblank_b64encode: "s \<noteq> [] \<Longrightarrow> nonblank (b64encode s)"
  by (intro nonblankI b64_val_not_space b64_alphabet [of _ s]) (simp_all add: b64encode_not_Nil)

lemma strip_b64encode [simp]: "s \<noteq> [] \<Longrightarrow> strip (b64encode s) = b64encode s"
  using nonblank_b64encode [of s] by (simp add: nonblank_def)

section \<open>The signed material is read back uniquely\<close>

lemma sort_key_fst_inject:
  assumes "sort_key fst kvs = sort_key fst kvs'" "map fst kvs = map fst kvs'" "distinct (map fst kvs)"
  shows "kvs = kvs'"
proof (rule nth_equalityI)
  show len: "length kvs = length kvs'" using assms(2) by (metis length_map)
  have "set kvs = set kvs'" using assms(1) by (metis set_sort)
  fix i
  assume i: "i < length kvs"
  then have "kvs ! i \<in> set kvs'" using \<open>set kvs = set kvs'\<close> by (metis nth_mem)
  then obtain j where j: "j < length kvs'" "kvs' ! j = kvs ! i" by (metis in_set_conv_nth)
  have "map fst kvs ! j = map fst kvs ! i" using j i len assms(2) by (metis nth_map)
  then have "i = j" using assms(3) i j(1) len by (metis length_map nth_eq_iff_index_eq)
  with j(2) show "kvs ! i = kvs' ! i" by simp
qed

lemma jsort_obj_inject:
  assumes "jsort (JObj kvs) = jsort (JObj kvs')" "map fst kvs = map fst kvs'" "distinct (map fst kvs)"
  shows "map (jsort \<circ> snd) kvs = map (jsort \<circ> snd) kvs'"
proof -
  let ?m = "map (\<lambda>(k, v). (k, jsort v))"
  have "?m kvs = ?m kvs'"
  proof (rule sort_key_fst_inject)
    show "sort_key fst (?m kvs) = sort_key fst (?m kvs')" using assms(1) by simp
  qed (use assms(2,3) in \<open>simp_all add: comp_def case_prod_unfold\<close>)
  then have "map snd (?m kvs) = map snd (?m kvs')" by simp
  then show ?thesis by (simp add: comp_def case_prod_unfold)
qed

lemma dump_opt_str_inject:
  "jsort (normalize_value (dump_opt PStr x)) = jsort (normalize_value (dump_opt PStr y)) \<longleftrightarrow> x = y"
  by (cases x; cases y) simp_all

text \<open>Two checkpoints whose signed parts agree; times are compared by their printed form.\<close>

definition signs_same :: "signed_checkpoint \<Rightarrow> signed_checkpoint \<Rightarrow> bool" where
  "signs_same c a \<longleftrightarrow> scp_tenant_id c = scp_tenant_id a \<and> scp_run_id c = scp_run_id a \<and> scp_sequence c = scp_sequence a
    \<and> scp_checkpoint_id c = scp_checkpoint_id a \<and> isoformat_utc (scp_created_at c) = isoformat_utc (scp_created_at a)
    \<and> scp_final_event_hash c = scp_final_event_hash a \<and> scp_evidence_bundle_sha256 c = scp_evidence_bundle_sha256 a
    \<and> scp_attestation_sha256 c = scp_attestation_sha256 a
    \<and> scp_previous_checkpoint_sha256 c = scp_previous_checkpoint_sha256 a
    \<and> scp_signer_id c = scp_signer_id a \<and> scp_key_id c = scp_key_id a"

lemma py_wf_signing_material: "py_wf (signing_material c)"
proof -
  have opt: "py_wf (dump_opt PStr x)" for x by (cases x) simp_all
  show ?thesis by (simp add: signing_material_def opt)
qed

definition material_keys :: "string list" where
  "material_keys = [''schema_name'', ''schema_version'', ''checkpoint_id'', ''run_id'', ''tenant_id'', ''created_at'', ''sequence'',
     ''final_event_hash'', ''evidence_bundle_sha256'', ''attestation_sha256'', ''previous_checkpoint_sha256'', ''signer_id'',
     ''key_id'', ''algorithm'']"

definition material_json :: "signed_checkpoint \<Rightarrow> json list" where
  "material_json c = [JStr (scp_schema_name c), JStr (scp_schema_version c), JStr (scp_checkpoint_id c), JStr (scp_run_id c),
     JStr (scp_tenant_id c), JStr (isoformat_utc (scp_created_at c)), JInt (scp_sequence c), JStr (scp_final_event_hash c),
     JStr (scp_evidence_bundle_sha256 c), normalize_value (dump_opt PStr (scp_attestation_sha256 c)),
     normalize_value (dump_opt PStr (scp_previous_checkpoint_sha256 c)), JStr (scp_signer_id c), JStr (scp_key_id c),
     JStr (checkpoint_signing_algorithm_value (scp_algorithm c))]"

lemma signing_material_normal:
  "\<exists>kvs. normalize_value (signing_material c) = JObj kvs \<and> map fst kvs = material_keys \<and> map snd kvs = material_json c"
  using normalize_PDict [OF py_wf_signing_material [of c, unfolded signing_material_def]]
  unfolding signing_material_def material_keys_def material_json_def by simp

lemma signing_material_inject:
  assumes "canonical_json_bytes (signing_material c) = canonical_json_bytes (signing_material a)"
  shows "signs_same c a"
proof -
  obtain kc where kc: "normalize_value (signing_material c) = JObj kc" "map fst kc = material_keys" "map snd kc = material_json c"
    using signing_material_normal by blast
  obtain ka where ka: "normalize_value (signing_material a) = JObj ka" "map fst ka = material_keys" "map snd ka = material_json a"
    using signing_material_normal by blast
  have "jsort (JObj kc) = jsort (JObj ka)"
    using assms unfolding canonical_json_bytes_eq_iff [OF py_wf_signing_material py_wf_signing_material] kc(1) ka(1) .
  moreover have "distinct material_keys" by (simp add: material_keys_def)
  ultimately have "map (jsort \<circ> snd) kc = map (jsort \<circ> snd) ka"
    by (intro jsort_obj_inject) (simp_all only: kc(2) ka(2))
  then have "map jsort (material_json c) = map jsort (material_json a)" by (simp only: map_map [symmetric] kc(3) ka(3))
  then show ?thesis unfolding material_json_def by (simp add: signs_same_def dump_opt_str_inject)
qed

section \<open>Properties\<close>

lemma verify_key_window_iff:
  "verify_key_window c p key = Inr () \<longleftrightarrow> scp_algorithm c = tsk_algorithm key \<and> scp_signer_id c = tsk_signer_id key
    \<and> (trp_allowed_signers p \<noteq> [] \<longrightarrow> scp_signer_id c \<in> set (trp_allowed_signers p))
    \<and> tsk_valid_from key \<le> scp_created_at c \<and> pred_option (\<lambda>u. scp_created_at c \<le> u) (tsk_valid_until key)
    \<and> pred_option (\<lambda>r. trp_allow_historical_signatures_before_revocation p \<and> scp_created_at c < r) (tsk_revoked_at key)"
  by (cases "tsk_valid_until key"; cases "tsk_revoked_at key") (auto simp: verify_key_window_def)

lemma filter_singleton: "filter P xs = [x] \<Longrightarrow> x \<in> set xs \<and> P x"
  by (drule arg_cong [where f = set]) auto

lemma verify_checkpoint_cases:
  assumes "verify_checkpoint verify c p = Inr key"
  shows "filter (\<lambda>k. tsk_key_id k = scp_key_id c) (trp_trusted_keys p) = [key]"
    "verify_key_window c p key = Inr ()" "verify_signature verify c key = Inr ()"
proof -
  let ?m = "filter (\<lambda>k. tsk_key_id k = scp_key_id c) (trp_trusted_keys p)"
  have *: "?m = [key] \<and> verify_key_window c p key = Inr () \<and> verify_signature verify c key = Inr ()"
  proof (cases ?m)
    case Nil
    with assms show ?thesis by (simp add: verify_checkpoint_def)
  next
    case (Cons k ks)
    with assms show ?thesis by (cases ks) (auto simp: verify_checkpoint_def)
  qed
  then show "?m = [key]" "verify_key_window c p key = Inr ()" "verify_signature verify c key = Inr ()" by blast+
qed

lemma filter_key_unique:
  assumes "distinct (map f xs)" "x \<in> set xs"
  shows "filter (\<lambda>y. f y = f x) xs = [x]"
  using assms
proof (induction xs)
  case (Cons y ys)
  show ?case
  proof (cases "y = x")
    case True
    with Cons(2) have "filter (\<lambda>y. f y = f x) ys = []" by (auto simp: filter_empty_conv image_iff)
    with True show ?thesis by simp
  next
    case False
    with Cons(2,3) have "f y \<noteq> f x" by auto
    with Cons False show ?thesis by simp
  qed
qed simp

lemma trusted_key_shape:
  assumes "trusted_key s valid_from valid_until revoked_at = Inr key" "length (sg_public_bytes s) = 32"
    "nonblank (sg_key_id s)" "nonblank (sg_signer_id s)"
  shows "key = \<lparr>tsk_key_id = sg_key_id s, tsk_algorithm = Signing_ED25519,
       tsk_public_key_base64 = b64encode (sg_public_bytes s), tsk_signer_id = sg_signer_id s,
       tsk_valid_from = valid_from, tsk_valid_until = valid_until, tsk_revoked_at = revoked_at\<rparr>"
proof -
  have "sg_public_bytes s \<noteq> []" using assms(2) by auto
  then show ?thesis using assms unfolding trusted_key_def
    by (auto simp: validate_trusted_key_def b64_round_trip nonblank_def split: if_splits)
qed


text \<open>
  \<open>sign\<close> signs the ids as they are given, and the \<open>SignedCheckpoint\<close> it returns strips them. So a checkpoint whose key, signer or
  tenant id has surrounding whitespace is built without an error and fails its own signature check, under every key with the
  signer's public bytes, as soon as a signature verifies for the signed message only.
\<close>

lemma padded_checkpoint_never_verifies:
  assumes ideal: "\<And>m m'. verify (sg_public_bytes s) (sg_sign s m) m' \<Longrightarrow> m' = m" and "\<forall>m. length (sg_sign s m) = 64"
    and signed: "sign_checkpoint u5 s run_id tenant created_at sequence final_hash bundle attestation previous = Inr c"
    and padded: "strip tenant \<noteq> tenant \<or> strip (sg_signer_id s) \<noteq> sg_signer_id s \<or> strip (sg_key_id s) \<noteq> sg_key_id s"
    and key: "b64decode (tsk_public_key_base64 key) = Some (sg_public_bytes s)"
  shows "verify_checkpoint verify c p \<noteq> Inr key"
proof
  assume accepted: "verify_checkpoint verify c p = Inr key"
  let ?m = "sign_material u5 s run_id tenant created_at sequence final_hash bundle attestation previous"
  let ?sig = "sg_sign s (canonical_json_bytes (signing_material ?m))"
  have "?sig \<noteq> []" using assms(2) by (metis list.size(3) zero_neq_numeral)
  then have c: "c = ?m\<lparr>scp_tenant_id := strip tenant, scp_signer_id := strip (sg_signer_id s), scp_key_id := strip (sg_key_id s),
      scp_signature_base64 := b64encode ?sig\<rparr>"
    using signed unfolding sign_checkpoint_def Let_def by (auto simp: validate_checkpoint_def b64_round_trip split: if_splits)
  have "b64decode (scp_signature_base64 c) = Some ?sig" by (simp add: c b64_round_trip)
  with verify_checkpoint_cases(3) [OF accepted] key
  have "verify (sg_public_bytes s) ?sig (canonical_json_bytes (signing_material c))"
    by (auto simp: verify_signature_def split: if_splits)
  from ideal [OF this] have "signs_same c ?m" by (rule signing_material_inject)
  with padded show False by (auto simp: signs_same_def c sign_material_def)
qed

text \<open>
  C31: An accepted checkpoint is authentic. Whatever the verifier accepts under a policy is attributed to a trusted key of
  the policy with the checkpoint's key and signer identities, at a time in the key's window and before its revocation;
  and when the only messages that verify under this key are those its holder signed, then the holder signed a
  checkpoint with the same tenant, run, sequence, event hash, bundle and attestation digests and predecessor.
\<close>

theorem checkpoint_authentic:
  assumes accepted: "verify_checkpoint verify c p = Inr key"
    and unforgeable: "\<And>public_bytes signature m. b64decode (tsk_public_key_base64 key) = Some public_bytes \<Longrightarrow>
      verify public_bytes signature m \<Longrightarrow> m \<in> (\<lambda>a. canonical_json_bytes (signing_material a)) ` signed"
  shows "key \<in> set (trp_trusted_keys p) \<and> tsk_key_id key = scp_key_id c \<and> tsk_signer_id key = scp_signer_id c
    \<and> (trp_allowed_signers p \<noteq> [] \<longrightarrow> scp_signer_id c \<in> set (trp_allowed_signers p))
    \<and> tsk_valid_from key \<le> scp_created_at c \<and> pred_option (\<lambda>u. scp_created_at c \<le> u) (tsk_valid_until key)
    \<and> pred_option (\<lambda>r. scp_created_at c < r) (tsk_revoked_at key)
    \<and> (\<exists>a \<in> signed. signs_same c a)"
proof -
  note v = verify_checkpoint_cases [OF accepted]
  from v(3) obtain public_bytes signature where "b64decode (tsk_public_key_base64 key) = Some public_bytes"
    "verify public_bytes signature (canonical_json_bytes (signing_material c))"
    by (auto simp: verify_signature_def split: option.splits if_splits)
  from unforgeable [OF this] obtain a where "a \<in> signed" "signs_same c a"
    by (auto dest: signing_material_inject)
  moreover have "pred_option (\<lambda>r. scp_created_at c < r) (tsk_revoked_at key)"
    using v(2) unfolding verify_key_window_iff by (cases "tsk_revoked_at key") simp_all
  ultimately show ?thesis using filter_singleton [OF v(1)] v(2) unfolding verify_key_window_iff by auto
qed

section \<open>A concrete signer\<close>

definition sample_signer :: checkpoint_signer where
  "sample_signer = \<lparr>sg_key_id = ''key-1'', sg_signer_id = ''release'', sg_public_bytes = replicate 32 (CHR ''p''),
     sg_sign = (\<lambda>_. replicate 64 (CHR ''s''))\<rparr>"

definition sample_key :: trusted_signing_key where
  "sample_key = \<lparr>tsk_key_id = ''key-1'', tsk_algorithm = Signing_ED25519,
     tsk_public_key_base64 = b64encode (replicate 32 (CHR ''p'')), tsk_signer_id = ''release'',
     tsk_valid_from = 1000, tsk_valid_until = Some 9000, tsk_revoked_at = Some 6000\<rparr>"

definition sample_trust :: trust_root_policy where
  "sample_trust = \<lparr>trp_schema_name = ''prodkit.trust-root-policy'', trp_schema_version = ''1.0.0'',
     trp_policy_id = ''roots'', trp_revision = ''r1'', trp_trusted_keys = [sample_key],
     trp_allowed_signers = [''release''], trp_allow_historical_signatures_before_revocation = True\<rparr>"

definition sample_checkpoint :: signed_checkpoint where
  "sample_checkpoint = (sign_material (\<lambda>s. s) sample_signer ''r1'' ''acme'' 5000 3 (zero_hash []) (zero_hash []) None None)
     \<lparr>scp_signature_base64 := b64encode (replicate 64 (CHR ''s''))\<rparr>"

lemma signer_names [simp]: "strip ''key-1'' = ''key-1''" "strip ''release'' = ''release''" "strip ''acme'' = ''acme''"
  by (simp_all add: strip_def py_isspace_def)

lemma sample_signed:
  "sign_checkpoint (\<lambda>s. s) sample_signer ''r1'' ''acme'' 5000 3 (zero_hash []) (zero_hash []) None None = Inr sample_checkpoint"
  by (simp add: sign_checkpoint_def Let_def sample_checkpoint_def sample_signer_def sign_material_def signed_checkpoint_fields_def
      validate_checkpoint_def b64_round_trip nonblank_b64encode check_fields_def nonblank_def b64encode_not_Nil)

lemma sample_trusted: "trusted_key sample_signer 1000 (Some 9000) (Some 6000) = Inr sample_key"
  by (simp add: trusted_key_def sample_signer_def sample_key_def trusted_signing_key_fields_def validate_trusted_key_def
      b64_round_trip nonblank_b64encode check_fields_def nonblank_def b64encode_not_Nil)


theorem checkpoint_authentic_witness:
  "\<exists>a \<in> {sample_checkpoint}. signs_same sample_checkpoint a"
proof -
  let ?verify = "\<lambda>_ _ m. m = canonical_json_bytes (signing_material sample_checkpoint)"
  have "verify_checkpoint ?verify sample_checkpoint sample_trust = Inr sample_key"
    by (simp add: verify_checkpoint_def sample_trust_def sample_key_def sample_checkpoint_def sign_material_def sample_signer_def
        verify_key_window_def verify_signature_def b64_round_trip)
  then show ?thesis
    by (rule checkpoint_authentic [THEN conjunct2, THEN conjunct2, THEN conjunct2, THEN conjunct2, THEN conjunct2, THEN conjunct2, THEN conjunct2]) simp
qed

end
