(* ===== verification/Governance_Contracts.thy ===== *)
theory Governance_Contracts
  imports Attestations
begin

text \<open>
  The contracts of \<open>contracts/governance.py\<close>: governed change requests and their approvals, retention
  policies and decisions, legal holds, governed trust roots, evidence transfers, migration paths and
  the audit events of governance, with their field constraints, validators and methods.
\<close>

section \<open>Models\<close>

datatype governance_risk =
    GovRisk_LOW
  | GovRisk_MEDIUM
  | GovRisk_HIGH
  | GovRisk_CRITICAL

fun governance_risk_value :: "governance_risk \<Rightarrow> string" where
  "governance_risk_value GovRisk_LOW = ''low''"
| "governance_risk_value GovRisk_MEDIUM = ''medium''"
| "governance_risk_value GovRisk_HIGH = ''high''"
| "governance_risk_value GovRisk_CRITICAL = ''critical''"

datatype governance_target_type =
    Target_RETENTION_POLICY
  | Target_TRUST_ROOT_POLICY
  | Target_LEGAL_HOLD_RELEASE
  | Target_TENANT_CONFIGURATION
  | Target_COMPATIBILITY_POLICY
  | Target_DEPRECATION_POLICY

datatype governance_change_status =
    Change_PROPOSED
  | Change_APPROVED
  | Change_REJECTED
  | Change_APPLIED
  | Change_CANCELLED

datatype governance_approval_decision =
    Decide_APPROVE
  | Decide_REJECT

datatype retention_disposition =
    Dispose_RETAIN
  | Dispose_DELETE

fun retention_disposition_value :: "retention_disposition \<Rightarrow> string" where
  "retention_disposition_value Dispose_RETAIN = ''retain''"
| "retention_disposition_value Dispose_DELETE = ''delete''"

datatype legal_hold_status =
    Hold_ACTIVE
  | Hold_RELEASED

datatype governance_audit_event_type =
    GovAudit_CHANGE_PROPOSED
  | GovAudit_CHANGE_APPROVED
  | GovAudit_CHANGE_REJECTED
  | GovAudit_CHANGE_APPLIED
  | GovAudit_RETENTION_EVALUATED
  | GovAudit_RETENTION_DELETION_INTENT_RECORDED
  | GovAudit_RETENTION_DELETION_CANCELLED
  | GovAudit_RETENTION_DELETION_EXECUTED
  | GovAudit_LEGAL_HOLD_PLACED
  | GovAudit_LEGAL_HOLD_RELEASED
  | GovAudit_TRUST_ROOT_ACTIVATED
  | GovAudit_EVIDENCE_EXPORT_CREATED
  | GovAudit_EVIDENCE_IMPORT_VERIFIED
  | GovAudit_MIGRATION_RECORDED

record retention_rule =
  rr_resource_type :: string
  rr_retain_for_seconds :: "int option"
  rr_deletion_grace_seconds :: int
  rr_deletion_allowed :: bool

definition retention_rule_fields :: "retention_rule \<Rightarrow> bool" where
  "retention_rule_fields r = (nonblank (rr_resource_type r) \<and>
     pred_option (\<lambda>n. 0 \<le> n) (rr_retain_for_seconds r) \<and>
     0 \<le> rr_deletion_grace_seconds r)"

definition dump_retention_rule :: "retention_rule \<Rightarrow> pyval" where
  "dump_retention_rule r = PDict
    [(KStr ''resource_type'', PStr (rr_resource_type r)),
     (KStr ''retain_for_seconds'', dump_opt PInt (rr_retain_for_seconds r)),
     (KStr ''deletion_grace_seconds'', PInt (rr_deletion_grace_seconds r)),
     (KStr ''deletion_allowed'', PBool (rr_deletion_allowed r))]"

record retention_policy =
  rp_schema_name :: string
  rp_schema_version :: string
  rp_policy_id :: uuid
  rp_tenant_id :: string
  rp_revision :: int
  rp_effective_at :: datetime
  rp_default_retain_for_seconds :: "int option"
  rp_rules :: "retention_rule list"
  rp_created_at :: datetime
  rp_created_by :: actor_ref

definition retention_policy_fields :: "retention_policy \<Rightarrow> bool" where
  "retention_policy_fields r = (nonblank (rp_tenant_id r) \<and>
     1 \<le> rp_revision r \<and>
     pred_option (\<lambda>n. 0 \<le> n) (rp_default_retain_for_seconds r) \<and>
     (list_all retention_rule_fields) (rp_rules r) \<and>
     actor_ref_fields (rp_created_by r))"

definition dump_retention_policy :: "retention_policy \<Rightarrow> pyval" where
  "dump_retention_policy r = PDict
    [(KStr ''schema_name'', PStr (rp_schema_name r)),
     (KStr ''schema_version'', PStr (rp_schema_version r)),
     (KStr ''policy_id'', PUuid (rp_policy_id r)),
     (KStr ''tenant_id'', PStr (rp_tenant_id r)),
     (KStr ''revision'', PInt (rp_revision r)),
     (KStr ''effective_at'', PDatetime (rp_effective_at r)),
     (KStr ''default_retain_for_seconds'', dump_opt PInt (rp_default_retain_for_seconds r)),
     (KStr ''rules'', PTuple (map dump_retention_rule (rp_rules r))),
     (KStr ''created_at'', PDatetime (rp_created_at r)),
     (KStr ''created_by'', dump_actor_ref (rp_created_by r))]"

record retention_candidate =
  rc_schema_name :: string
  rc_schema_version :: string
  rc_tenant_id :: string
  rc_resource_type :: string
  rc_resource_id :: string
  rc_created_at :: datetime
  rc_content_sha256 :: "string option"
  rc_attributes :: "(string \<times> string) list"

definition retention_candidate_fields :: "retention_candidate \<Rightarrow> bool" where
  "retention_candidate_fields r = (nonblank (rc_tenant_id r) \<and>
     nonblank (rc_resource_type r) \<and>
     nonblank (rc_resource_id r) \<and>
     (pred_option is_sha256) (rc_content_sha256 r))"

record retention_decision =
  rd_schema_name :: string
  rd_schema_version :: string
  rd_tenant_id :: string
  rd_resource_type :: string
  rd_resource_id :: string
  rd_disposition :: retention_disposition
  rd_evaluated_at :: datetime
  rd_policy_id :: uuid
  rd_policy_revision :: int
  rd_delete_not_before :: "datetime option"
  rd_legal_hold_ids :: "uuid list"
  rd_reason :: string

definition retention_decision_fields :: "retention_decision \<Rightarrow> bool" where
  "retention_decision_fields r = (nonblank (rd_tenant_id r) \<and>
     nonblank (rd_resource_type r) \<and>
     nonblank (rd_resource_id r) \<and>
     1 \<le> rd_policy_revision r \<and>
     nonblank (rd_reason r))"

definition dump_retention_decision :: "retention_decision \<Rightarrow> pyval" where
  "dump_retention_decision r = PDict
    [(KStr ''schema_name'', PStr (rd_schema_name r)),
     (KStr ''schema_version'', PStr (rd_schema_version r)),
     (KStr ''tenant_id'', PStr (rd_tenant_id r)),
     (KStr ''resource_type'', PStr (rd_resource_type r)),
     (KStr ''resource_id'', PStr (rd_resource_id r)),
     (KStr ''disposition'', PEnum (retention_disposition_value (rd_disposition r))),
     (KStr ''evaluated_at'', PDatetime (rd_evaluated_at r)),
     (KStr ''policy_id'', PUuid (rd_policy_id r)),
     (KStr ''policy_revision'', PInt (rd_policy_revision r)),
     (KStr ''delete_not_before'', dump_opt PDatetime (rd_delete_not_before r)),
     (KStr ''legal_hold_ids'', PTuple (map PUuid (rd_legal_hold_ids r))),
     (KStr ''reason'', PStr (rd_reason r))]"

record retention_execution_record =
  rx_schema_name :: string
  rx_schema_version :: string
  rx_execution_id :: uuid
  rx_tenant_id :: string
  rx_resource_type :: string
  rx_resource_id :: string
  rx_executed_at :: datetime
  rx_executed_by :: actor_ref
  rx_policy_id :: uuid
  rx_policy_revision :: int
  rx_content_sha256 :: "string option"
  rx_deletion_reference :: string

definition retention_execution_record_fields :: "retention_execution_record \<Rightarrow> bool" where
  "retention_execution_record_fields r = (nonblank (rx_tenant_id r) \<and>
     nonblank (rx_resource_type r) \<and>
     nonblank (rx_resource_id r) \<and>
     actor_ref_fields (rx_executed_by r) \<and>
     1 \<le> rx_policy_revision r \<and>
     (pred_option is_sha256) (rx_content_sha256 r) \<and>
     nonblank (rx_deletion_reference r))"

record legal_hold =
  lh_schema_name :: string
  lh_schema_version :: string
  lh_hold_id :: uuid
  lh_tenant_id :: string
  lh_status :: legal_hold_status
  lh_reason :: string
  lh_case_reference :: string
  lh_resource_types :: "string list"
  lh_resource_ids :: "string list"
  lh_placed_at :: datetime
  lh_placed_by :: actor_ref
  lh_released_at :: "datetime option"
  lh_released_by :: "actor_ref option"
  lh_release_change_request_id :: "uuid option"

definition legal_hold_fields :: "legal_hold \<Rightarrow> bool" where
  "legal_hold_fields r = (nonblank (lh_tenant_id r) \<and>
     nonblank (lh_reason r) \<and>
     nonblank (lh_case_reference r) \<and>
     (list_all nonblank) (lh_resource_types r) \<and>
     (list_all nonblank) (lh_resource_ids r) \<and>
     actor_ref_fields (lh_placed_by r) \<and>
     (pred_option actor_ref_fields) (lh_released_by r))"

record governance_change_request =
  gcr_schema_name :: string
  gcr_schema_version :: string
  gcr_request_id :: uuid
  gcr_tenant_id :: string
  gcr_target_type :: governance_target_type
  gcr_target_id :: string
  gcr_proposed_digest :: string
  gcr_expected_current_digest :: "string option"
  gcr_risk :: governance_risk
  gcr_reason :: string
  gcr_ticket_reference :: string
  gcr_proposed_at :: datetime
  gcr_proposed_by :: actor_ref
  gcr_status :: governance_change_status
  gcr_approved_at :: "datetime option"
  gcr_approved_by :: "actor_ref option"
  gcr_applied_at :: "datetime option"

definition governance_change_request_fields :: "governance_change_request \<Rightarrow> bool" where
  "governance_change_request_fields r = (nonblank (gcr_tenant_id r) \<and>
     nonblank (gcr_target_id r) \<and>
     is_sha256 (gcr_proposed_digest r) \<and>
     (pred_option is_sha256) (gcr_expected_current_digest r) \<and>
     nonblank (gcr_reason r) \<and>
     nonblank (gcr_ticket_reference r) \<and>
     actor_ref_fields (gcr_proposed_by r) \<and>
     (pred_option actor_ref_fields) (gcr_approved_by r))"

record governance_approval =
  gap_schema_name :: string
  gap_schema_version :: string
  gap_approval_id :: uuid
  gap_request_id :: uuid
  gap_tenant_id :: string
  gap_decision :: governance_approval_decision
  gap_actor :: actor_ref
  gap_occurred_at :: datetime
  gap_reason :: string

definition governance_approval_fields :: "governance_approval \<Rightarrow> bool" where
  "governance_approval_fields r = (nonblank (gap_tenant_id r) \<and>
     actor_ref_fields (gap_actor r) \<and>
     nonblank (gap_reason r))"

record governed_trust_root =
  gtr_schema_name :: string
  gtr_schema_version :: string
  gtr_tenant_id :: string
  gtr_revision :: int
  gtr_policy :: trust_root_policy
  gtr_policy_sha256 :: string
  gtr_activated_at :: datetime
  gtr_retired_at :: "datetime option"
  gtr_change_request_id :: uuid

definition governed_trust_root_fields :: "governed_trust_root \<Rightarrow> bool" where
  "governed_trust_root_fields r = (nonblank (gtr_tenant_id r) \<and>
     1 \<le> gtr_revision r \<and>
     trust_root_policy_fields (gtr_policy r) \<and>
     is_sha256 (gtr_policy_sha256 r))"

record key_rotation_plan =
  krp_schema_name :: string
  krp_schema_version :: string
  krp_rotation_id :: uuid
  krp_tenant_id :: string
  krp_from_revision :: int
  krp_to_revision :: int
  krp_activate_at :: datetime
  krp_overlap_until :: datetime
  krp_change_request_id :: uuid
  krp_emergency :: bool

definition key_rotation_plan_fields :: "key_rotation_plan \<Rightarrow> bool" where
  "key_rotation_plan_fields r = (nonblank (krp_tenant_id r) \<and>
     1 \<le> krp_from_revision r \<and>
     2 \<le> krp_to_revision r)"

record trust_root_history =
  trh_schema_name :: string
  trh_schema_version :: string
  trh_tenant_id :: string
  trh_roots :: "governed_trust_root list"

definition trust_root_history_fields :: "trust_root_history \<Rightarrow> bool" where
  "trust_root_history_fields r = (nonblank (trh_tenant_id r) \<and>
     (list_all governed_trust_root_fields) (trh_roots r))"

record evidence_transfer_manifest =
  etm_schema_name :: string
  etm_schema_version :: string
  etm_transfer_id :: uuid
  etm_tenant_id :: string
  etm_created_at :: datetime
  etm_created_by :: actor_ref
  etm_source_control_version :: string
  etm_source_schema_version :: int
  etm_archive_sha256 :: string
  etm_bundle_manifest_sha256 :: string
  etm_trust_root_revision :: "int option"
  etm_legal_hold_preserved :: bool

definition evidence_transfer_manifest_fields :: "evidence_transfer_manifest \<Rightarrow> bool" where
  "evidence_transfer_manifest_fields r = (nonblank (etm_tenant_id r) \<and>
     actor_ref_fields (etm_created_by r) \<and>
     nonblank (etm_source_control_version r) \<and>
     1 \<le> etm_source_schema_version r \<and>
     is_sha256 (etm_archive_sha256 r) \<and>
     is_sha256 (etm_bundle_manifest_sha256 r) \<and>
     pred_option (\<lambda>n. 1 \<le> n) (etm_trust_root_revision r))"

definition dump_evidence_transfer_manifest :: "evidence_transfer_manifest \<Rightarrow> pyval" where
  "dump_evidence_transfer_manifest r = PDict
    [(KStr ''schema_name'', PStr (etm_schema_name r)),
     (KStr ''schema_version'', PStr (etm_schema_version r)),
     (KStr ''transfer_id'', PUuid (etm_transfer_id r)),
     (KStr ''tenant_id'', PStr (etm_tenant_id r)),
     (KStr ''created_at'', PDatetime (etm_created_at r)),
     (KStr ''created_by'', dump_actor_ref (etm_created_by r)),
     (KStr ''source_control_version'', PStr (etm_source_control_version r)),
     (KStr ''source_schema_version'', PInt (etm_source_schema_version r)),
     (KStr ''archive_sha256'', PStr (etm_archive_sha256 r)),
     (KStr ''bundle_manifest_sha256'', PStr (etm_bundle_manifest_sha256 r)),
     (KStr ''trust_root_revision'', dump_opt PInt (etm_trust_root_revision r)),
     (KStr ''legal_hold_preserved'', PBool (etm_legal_hold_preserved r))]"

record evidence_import_receipt =
  eir_schema_name :: string
  eir_schema_version :: string
  eir_import_id :: uuid
  eir_transfer_id :: uuid
  eir_tenant_id :: string
  eir_imported_at :: datetime
  eir_imported_by :: actor_ref
  eir_source_control_version :: string
  eir_source_schema_version :: int
  eir_archive_sha256 :: string
  eir_verification_id :: uuid
  eir_verification_sha256 :: string
  eir_trust_anchor_sha256 :: string
  eir_verified :: bool

definition evidence_import_receipt_fields :: "evidence_import_receipt \<Rightarrow> bool" where
  "evidence_import_receipt_fields r = (nonblank (eir_tenant_id r) \<and>
     actor_ref_fields (eir_imported_by r) \<and>
     nonblank (eir_source_control_version r) \<and>
     1 \<le> eir_source_schema_version r \<and>
     is_sha256 (eir_archive_sha256 r) \<and>
     is_sha256 (eir_verification_sha256 r) \<and>
     is_sha256 (eir_trust_anchor_sha256 r))"

definition dump_evidence_import_receipt :: "evidence_import_receipt \<Rightarrow> pyval" where
  "dump_evidence_import_receipt r = PDict
    [(KStr ''schema_name'', PStr (eir_schema_name r)),
     (KStr ''schema_version'', PStr (eir_schema_version r)),
     (KStr ''import_id'', PUuid (eir_import_id r)),
     (KStr ''transfer_id'', PUuid (eir_transfer_id r)),
     (KStr ''tenant_id'', PStr (eir_tenant_id r)),
     (KStr ''imported_at'', PDatetime (eir_imported_at r)),
     (KStr ''imported_by'', dump_actor_ref (eir_imported_by r)),
     (KStr ''source_control_version'', PStr (eir_source_control_version r)),
     (KStr ''source_schema_version'', PInt (eir_source_schema_version r)),
     (KStr ''archive_sha256'', PStr (eir_archive_sha256 r)),
     (KStr ''verification_id'', PUuid (eir_verification_id r)),
     (KStr ''verification_sha256'', PStr (eir_verification_sha256 r)),
     (KStr ''trust_anchor_sha256'', PStr (eir_trust_anchor_sha256 r)),
     (KStr ''verified'', PBool (eir_verified r))]"

record migration_path =
  mp_from_schema_version :: int
  mp_to_schema_version :: int
  mp_minimum_control_version :: string
  mp_requires_backup :: bool
  mp_reversible :: bool

definition migration_path_fields :: "migration_path \<Rightarrow> bool" where
  "migration_path_fields r = (1 \<le> mp_from_schema_version r \<and>
     2 \<le> mp_to_schema_version r \<and>
     nonblank (mp_minimum_control_version r))"

record deprecation_window =
  dw_surface :: string
  dw_deprecated_in_version :: string
  dw_removal_not_before_version :: string
  dw_announced_at :: datetime
  dw_replacement :: "string option"

definition deprecation_window_fields :: "deprecation_window \<Rightarrow> bool" where
  "deprecation_window_fields r = (nonblank (dw_surface r) \<and>
     nonblank (dw_deprecated_in_version r) \<and>
     nonblank (dw_removal_not_before_version r) \<and>
     (pred_option nonblank) (dw_replacement r))"

record compatibility_policy =
  cp_schema_name :: string
  cp_schema_version :: string
  cp_current_schema_version :: int
  cp_minimum_supported_schema_version :: int
  cp_migration_paths :: "migration_path list"
  cp_deprecations :: "deprecation_window list"

definition compatibility_policy_fields :: "compatibility_policy \<Rightarrow> bool" where
  "compatibility_policy_fields r = (1 \<le> cp_current_schema_version r \<and>
     1 \<le> cp_minimum_supported_schema_version r \<and>
     (list_all migration_path_fields) (cp_migration_paths r) \<and>
     (list_all deprecation_window_fields) (cp_deprecations r))"

record governance_audit_event =
  gae_schema_name :: string
  gae_schema_version :: string
  gae_event_id :: uuid
  gae_tenant_id :: string
  gae_event_type :: governance_audit_event_type
  gae_actor :: actor_ref
  gae_occurred_at :: datetime
  gae_request_id :: "uuid option"
  gae_target_type :: "governance_target_type option"
  gae_target_id :: "string option"
  gae_before_digest :: "string option"
  gae_after_digest :: "string option"
  gae_reason :: string
  gae_ticket_reference :: "string option"
  gae_attributes :: "(string \<times> string) list"

definition governance_audit_event_fields :: "governance_audit_event \<Rightarrow> bool" where
  "governance_audit_event_fields r = (nonblank (gae_tenant_id r) \<and>
     actor_ref_fields (gae_actor r) \<and>
     (pred_option nonblank) (gae_target_id r) \<and>
     (pred_option is_sha256) (gae_before_digest r) \<and>
     (pred_option is_sha256) (gae_after_digest r) \<and>
     nonblank (gae_reason r) \<and>
     (pred_option nonblank) (gae_ticket_reference r))"






section \<open>Validators and methods\<close>

definition validate_retention_rule :: "retention_rule \<Rightarrow> retention_rule result" where
  "validate_retention_rule r =
    (if \<not> rr_deletion_allowed r \<and> rr_retain_for_seconds r \<noteq> None
     then Inl (ValueError ''non-deletable retention rules must retain indefinitely'')
     else Inr r)"

definition validate_retention_policy :: "retention_policy \<Rightarrow> retention_policy result" where
  "validate_retention_policy p =
    (if \<not> distinct (map rr_resource_type (rp_rules p)) then Inl (ValueError ''retention policy resource types must be unique'')
     else if rp_effective_at p < rp_created_at p
     then Inl (ValueError ''retention policy cannot become effective before it is created'')
     else Inr p)"

definition rule_for :: "retention_policy \<Rightarrow> string \<Rightarrow> retention_rule option" where
  "rule_for p resource_type = find (\<lambda>r. rr_resource_type r = resource_type) (rp_rules p)"

definition validate_retention_decision :: "retention_decision \<Rightarrow> retention_decision result" where
  "validate_retention_decision d =
    (if rd_disposition d = Dispose_DELETE
     then (if rd_delete_not_before d = None then Inl (ValueError ''delete decisions require delete_not_before'')
           else if rd_legal_hold_ids d \<noteq> [] then Inl (ValueError ''legal hold cannot coexist with a delete decision'')
           else Inr d)
     else if rd_delete_not_before d \<noteq> None then Inl (ValueError ''retain decisions cannot carry delete_not_before'')
     else Inr d)"

definition validate_legal_hold :: "legal_hold \<Rightarrow> legal_hold result" where
  "validate_legal_hold h =
    (if \<not> distinct (lh_resource_types h) then Inl (ValueError ''legal-hold resource types must be unique'')
     else if \<not> distinct (lh_resource_ids h) then Inl (ValueError ''legal-hold resource ids must be unique'')
     else if lh_status h = Hold_ACTIVE
     then (if lh_released_at h \<noteq> None \<or> lh_released_by h \<noteq> None \<or> lh_release_change_request_id h \<noteq> None
           then Inl (ValueError ''active legal holds cannot carry release metadata'')
           else Inr h)
     else if lh_released_at h = None \<or> lh_released_by h = None \<or> lh_release_change_request_id h = None
     then Inl (ValueError ''released legal holds require complete release metadata'')
     else if \<exists>r. lh_released_at h = Some r \<and> r < lh_placed_at h
     then Inl (ValueError ''legal hold cannot be released before placement'')
     else Inr h)"

definition hold_applies :: "legal_hold \<Rightarrow> retention_candidate \<Rightarrow> bool" where
  "hold_applies h c =
    (if lh_status h \<noteq> Hold_ACTIVE \<or> lh_tenant_id h \<noteq> rc_tenant_id c then False
     else if lh_resource_types h \<noteq> [] \<and> rc_resource_type c \<notin> set (lh_resource_types h) then False
     else if lh_resource_ids h \<noteq> [] \<and> rc_resource_id c \<notin> set (lh_resource_ids h) then False
     else True)"

definition validate_change :: "governance_change_request \<Rightarrow> governance_change_request result" where
  "validate_change r =
    (let approval = (if gcr_status r \<in> {Change_APPROVED, Change_APPLIED}
         then (case (gcr_approved_at r, gcr_approved_by r) of
             (Some _, Some a) \<Rightarrow>
               if gcr_risk r \<in> {GovRisk_HIGH, GovRisk_CRITICAL} \<and> actor_kind a = actor_kind (gcr_proposed_by r)
                  \<and> actor_id a = actor_id (gcr_proposed_by r) \<and> actor_tenant_id a = actor_tenant_id (gcr_proposed_by r)
               then Inl (ValueError ''high-risk governance changes require independent approval'')
               else Inr ()
           | _ \<Rightarrow> Inl (ValueError ''approved governance changes require approval evidence''))
         else if gcr_approved_at r \<noteq> None \<or> gcr_approved_by r \<noteq> None
         then Inl (ValueError ''unapproved governance changes cannot carry approval evidence'')
         else Inr ())
     in rbind approval (\<lambda>_.
        if gcr_status r = Change_APPLIED \<and> gcr_applied_at r = None
        then Inl (ValueError ''applied governance changes require applied_at'')
        else if gcr_status r \<noteq> Change_APPLIED \<and> gcr_applied_at r \<noteq> None
        then Inl (ValueError ''only applied governance changes can carry applied_at'')
        else Inr r))"

definition validate_trust_root :: "governed_trust_root \<Rightarrow> governed_trust_root result" where
  "validate_trust_root r =
    (if \<exists>t. gtr_retired_at r = Some t \<and> t \<le> gtr_activated_at r
     then Inl (ValueError ''trust-root retirement must follow activation'')
     else Inr r)"

definition validate_rotation :: "key_rotation_plan \<Rightarrow> key_rotation_plan result" where
  "validate_rotation p =
    (if krp_to_revision p \<le> krp_from_revision p then Inl (ValueError ''key rotation must advance trust-root revision'')
     else if krp_overlap_until p < krp_activate_at p
     then Inl (ValueError ''key rotation overlap cannot end before activation'')
     else Inr p)"

definition validate_trust_history :: "trust_root_history \<Rightarrow> trust_root_history result" where
  "validate_trust_history h =
    (let revisions = map gtr_revision (trh_roots h)
     in if trh_roots h = [] then Inl (ValueError ''trust-root history requires at least one revision'')
        else if revisions \<noteq> sort revisions \<or> \<not> distinct revisions
        then Inl (ValueError ''trust-root revisions must be unique and ascending'')
        else if length (filter (\<lambda>r. gtr_retired_at r = None) (trh_roots h)) \<noteq> 1
        then Inl (ValueError ''trust-root history requires exactly one current revision'')
        else Inr h)"

definition root_covers :: "datetime \<Rightarrow> string option \<Rightarrow> governed_trust_root \<Rightarrow> bool" where
  "root_covers signed_at key_id r = (gtr_activated_at r \<le> signed_at
     \<and> (gtr_retired_at r = None \<or> (\<exists>t. gtr_retired_at r = Some t \<and> signed_at < t))
     \<and> (key_id = None \<or> list_ex (\<lambda>k. Some (tsk_key_id k) = key_id) (trp_trusted_keys (gtr_policy r))))"

definition policy_for :: "trust_root_history \<Rightarrow> datetime \<Rightarrow> string option \<Rightarrow> trust_root_policy result" where
  "policy_for h signed_at key_id =
    (case filter (root_covers signed_at key_id) (trh_roots h) of
       [r] \<Rightarrow> Inr (gtr_policy r)
     | _ \<Rightarrow> Inl (ValueError ''no unique trust-root revision covers the signing evidence''))"

definition validate_import_receipt :: "evidence_import_receipt \<Rightarrow> evidence_import_receipt result" where
  "validate_import_receipt r =
    (if \<not> eir_verified r then Inl (ValueError ''evidence import receipts are emitted only after verification'') else Inr r)"

definition validate_migration_path :: "migration_path \<Rightarrow> migration_path result" where
  "validate_migration_path p =
    (if mp_to_schema_version p \<noteq> mp_from_schema_version p + 1
     then Inl (ValueError ''supported migration paths must be single-step and sequential'')
     else Inr p)"

definition validate_compatibility :: "compatibility_policy \<Rightarrow> compatibility_policy result" where
  "validate_compatibility p =
    (if cp_current_schema_version p < cp_minimum_supported_schema_version p
     then Inl (ValueError ''minimum supported schema version cannot exceed current'')
     else if map mp_from_schema_version (cp_migration_paths p)
             \<noteq> [cp_minimum_supported_schema_version p..cp_current_schema_version p - 1]
     then Inl (ValueError ''compatibility policy must enumerate every supported upgrade step'')
     else if list_ex (\<lambda>m. mp_to_schema_version m \<noteq> mp_from_schema_version m + 1) (cp_migration_paths p)
     then Inl (ValueError ''compatibility policy contains a non-sequential migration'')
     else Inr p)"

definition path_from :: "compatibility_policy \<Rightarrow> int \<Rightarrow> migration_path list result" where
  "path_from p schema_version =
    (if schema_version < cp_minimum_supported_schema_version p
     then Inl (ValueError ''database schema is older than the supported upgrade window'')
     else if cp_current_schema_version p < schema_version
     then Inl (ValueError ''database schema is newer than this runtime'')
     else Inr (filter (\<lambda>m. schema_version \<le> mp_from_schema_version m) (cp_migration_paths p)))"

definition dump_transfer_verification :: "evidence_transfer_verification \<Rightarrow> pyval" where
  "dump_transfer_verification r = PDict
    [(KStr ''schema_name'', PStr (tv_schema_name r)),
     (KStr ''schema_version'', PStr (tv_schema_version r)),
     (KStr ''verification_id'', PUuid (tv_verification_id r)),
     (KStr ''transfer_id'', PUuid (tv_transfer_id r)),
     (KStr ''tenant_id'', PStr (tv_tenant_id r)),
     (KStr ''verified_at'', PDatetime (tv_verified_at r)),
     (KStr ''source_control_version'', PStr (tv_source_control_version r)),
     (KStr ''source_schema_version'', PInt (tv_source_schema_version r)),
     (KStr ''package_sha256'', PStr (tv_package_sha256 r)),
     (KStr ''bundle_manifest_sha256'', PStr (tv_bundle_manifest_sha256 r)),
     (KStr ''trust_anchor_sha256'', PStr (tv_trust_anchor_sha256 r)),
     (KStr ''verified_offline'', PBool (tv_verified_offline r))]"

section \<open>Facts\<close>

lemma validate_change_iff:
  "validate_change r = Inr r \<longleftrightarrow>
    (if gcr_status r \<in> {Change_APPROVED, Change_APPLIED}
     then gcr_approved_at r \<noteq> None \<and> (\<exists>a. gcr_approved_by r = Some a
       \<and> (gcr_risk r \<in> {GovRisk_HIGH, GovRisk_CRITICAL} \<longrightarrow> \<not> (actor_kind a = actor_kind (gcr_proposed_by r)
            \<and> actor_id a = actor_id (gcr_proposed_by r) \<and> actor_tenant_id a = actor_tenant_id (gcr_proposed_by r))))
     else gcr_approved_at r = None \<and> gcr_approved_by r = None)
    \<and> (gcr_status r = Change_APPLIED \<longleftrightarrow> gcr_applied_at r \<noteq> None)"
  by (cases "gcr_approved_at r"; cases "gcr_approved_by r") (auto simp: validate_change_def Let_def)

lemma rule_for_Some: "rule_for p t = Some r \<Longrightarrow> r \<in> set (rp_rules p) \<and> rr_resource_type r = t"
  by (auto simp: rule_for_def find_Some_iff)

end
