(* ===== verification/Governance.thy ===== *)
theory Governance
  imports Governance_Contracts Tenancy
begin

text \<open>
  Governance: \<open>InMemoryGovernanceStore\<close> of the runtime's \<open>governance.py\<close>. Every operation runs under
  the store's lock and is one step. Clock readings (\<open>at0\<close> of \<open>context.require\<close>, \<open>now\<close> of the body) and
  \<open>uuid4\<close> results are arguments; a step keeps the mutations made before it raises. The deletion
  adapter is a parameter that acts on a world of its own and cannot reach the store, whose lock is held.
\<close>

section \<open>State\<close>

record governance_store =
  gs_changes :: "(string \<times> uuid) \<rightharpoonup> governance_change_request"
  gs_approvals :: "(string \<times> uuid) \<Rightarrow> governance_approval list"
  gs_retention :: "string \<Rightarrow> retention_policy list"
  gs_holds :: "((string \<times> uuid) \<times> legal_hold) list"
  gs_trust_roots :: "string \<Rightarrow> governed_trust_root list"
  gs_exports :: "(string \<times> uuid) \<rightharpoonup> evidence_transfer_manifest"
  gs_imports :: "(string \<times> uuid) \<rightharpoonup> evidence_import_receipt"
  gs_audit :: "string \<Rightarrow> governance_audit_event list"

definition empty_governance :: governance_store where
  "empty_governance = \<lparr>gs_changes = Map.empty, gs_approvals = (\<lambda>_. []), gs_retention = (\<lambda>_. []), gs_holds = [],
     gs_trust_roots = (\<lambda>_. []), gs_exports = Map.empty, gs_imports = Map.empty, gs_audit = (\<lambda>_. [])\<rparr>"

section \<open>Shared steps\<close>

definition legal_hold_release_digest :: "sha256_fn \<Rightarrow> string \<Rightarrow> uuid \<Rightarrow> string" where
  "legal_hold_release_digest sha tenant hold_id = sha256_hex sha (PDict
     [(KStr ''schema'', PStr ''prodkit.legal-hold-release-intent/v1''), (KStr ''tenant_id'', PStr tenant),
      (KStr ''hold_id'', PStr hold_id)])"

definition gov_require :: "tenant_access_context \<Rightarrow> tenant_capability \<Rightarrow> datetime \<Rightarrow> unit result" where
  "gov_require c capability at0 =
    (if tac_mode c \<noteq> Access_TENANT
     then Inl (AuthorizationDeniedError ''standalone governance cannot use support elevation without live grant revalidation'')
     else case context_require c capability at0 of
       Inl e \<Rightarrow> Inl (AuthorizationDeniedError (exn_str e))
     | Inr _ \<Rightarrow> Inr ())"

definition same_governance_actor :: "actor_ref \<Rightarrow> actor_ref \<Rightarrow> bool" where
  "same_governance_actor l r = (actor_kind l = actor_kind r \<and> actor_id l = actor_id r \<and> actor_tenant_id l = actor_tenant_id r)"

text \<open>An audit event of a call with its optional fields unset, and its validated construction and append.\<close>

definition gov_event ::
  "uuid \<Rightarrow> tenant_access_context \<Rightarrow> governance_audit_event_type \<Rightarrow> datetime \<Rightarrow> string \<Rightarrow> governance_audit_event" where
  "gov_event event_id c ty at1 reason =
    \<lparr>gae_schema_name = ''prodkit.governance-audit-event'', gae_schema_version = ''1.0.0'', gae_event_id = event_id,
     gae_tenant_id = strip (tac_tenant_id c), gae_event_type = ty, gae_actor = tac_actor c, gae_occurred_at = at1,
     gae_request_id = None, gae_target_type = None, gae_target_id = None, gae_before_digest = None,
     gae_after_digest = None, gae_reason = strip reason, gae_ticket_reference = None, gae_attributes = []\<rparr>"

definition append_gov_audit :: "governance_audit_event \<Rightarrow> (governance_store, unit) prog" where
  "append_gov_audit ev =
    bindE (lift_result (check_fields ''GovernanceAuditEvent'' governance_audit_event_fields ev)) (\<lambda>e s.
    (Inr (), s\<lparr>gs_audit := (gs_audit s)(gae_tenant_id e := gs_audit s (gae_tenant_id e) @ [e])\<rparr>))"

definition request_locked :: "string \<Rightarrow> uuid \<Rightarrow> governance_store \<Rightarrow> governance_change_request result" where
  "request_locked tenant request_id s =
    (case gs_changes s (tenant, request_id) of None \<Rightarrow> Inl (KeyError request_id) | Some r \<Rightarrow> Inr r)"

definition approved_request ::
  "string \<Rightarrow> uuid \<Rightarrow> governance_target_type \<Rightarrow> string \<Rightarrow> string \<Rightarrow> string option \<Rightarrow> governance_store
    \<Rightarrow> governance_change_request result" where
  "approved_request tenant request_id target_type target_id proposed_digest current_digest s =
    rbind (request_locked tenant request_id s) (\<lambda>r.
      if gcr_status r \<noteq> Change_APPROVED then Inl (AuthorizationDeniedError ''governance change is not approved'')
      else if gcr_target_type r \<noteq> target_type \<or> gcr_target_id r \<noteq> target_id \<or> gcr_proposed_digest r \<noteq> proposed_digest
      then Inl (AuthorizationDeniedError ''approved governance change does not match payload'')
      else if gcr_expected_current_digest r \<noteq> current_digest
      then Inl (AuthorizationDeniedError ''governance change lost optimistic-concurrency race'')
      else Inr r)"

definition put_change :: "string \<times> uuid \<Rightarrow> governance_change_request \<Rightarrow> (governance_store, unit) prog" where
  "put_change k r s = (Inr (), s\<lparr>gs_changes := (gs_changes s)(k \<mapsto> r)\<rparr>)"

definition mark_applied :: "datetime \<Rightarrow> governance_change_request \<Rightarrow> (governance_store, unit) prog" where
  "mark_applied at1 r = put_change (gcr_tenant_id r, gcr_request_id r) (r\<lparr>gcr_status := Change_APPLIED, gcr_applied_at := Some at1\<rparr>)"

definition effective_policy :: "string \<Rightarrow> datetime \<Rightarrow> governance_store \<Rightarrow> retention_policy option" where
  "effective_policy tenant at1 s =
    (case filter (\<lambda>p. rp_effective_at p \<le> at1) (gs_retention s tenant) of [] \<Rightarrow> None | ps \<Rightarrow> Some (last ps))"

section \<open>Changes and approvals\<close>

record change_proposal =
  pa_target_type :: governance_target_type
  pa_target_id :: string
  pa_proposed_digest :: string
  pa_risk :: governance_risk
  pa_reason :: string
  pa_ticket_reference :: string
  pa_expected_current_digest :: "string option"

definition new_change :: "datetime \<Rightarrow> uuid \<Rightarrow> tenant_access_context \<Rightarrow> change_proposal \<Rightarrow> governance_change_request result" where
  "new_change now request_id c a =
    rbind (check_fields ''GovernanceChangeRequest'' governance_change_request_fields
      \<lparr>gcr_schema_name = ''prodkit.governance-change-request'', gcr_schema_version = ''1.0.0'', gcr_request_id = request_id,
       gcr_tenant_id = strip (tac_tenant_id c), gcr_target_type = pa_target_type a, gcr_target_id = strip (pa_target_id a),
       gcr_proposed_digest = pa_proposed_digest a, gcr_expected_current_digest = pa_expected_current_digest a,
       gcr_risk = pa_risk a, gcr_reason = strip (pa_reason a), gcr_ticket_reference = strip (pa_ticket_reference a),
       gcr_proposed_at = now, gcr_proposed_by = tac_actor c, gcr_status = Change_PROPOSED, gcr_approved_at = None,
       gcr_approved_by = None, gcr_applied_at = None\<rparr>)
    validate_change"

definition propose_change ::
  "datetime \<Rightarrow> datetime \<Rightarrow> uuid \<Rightarrow> uuid \<Rightarrow> tenant_access_context \<Rightarrow> change_proposal
    \<Rightarrow> (governance_store, governance_change_request) prog" where
  "propose_change at0 now request_id audit_id c a =
    bindE (lift_result (gov_require c Capability_CONFIGURE at0)) (\<lambda>_.
    bindE (lift_result (new_change now request_id c a)) (\<lambda>r.
    bindE (put_change (tac_tenant_id c, gcr_request_id r) r) (\<lambda>_.
    bindE (append_gov_audit ((gov_event audit_id c GovAudit_CHANGE_PROPOSED now (pa_reason a))
      \<lparr>gae_request_id := Some (gcr_request_id r), gae_target_type := Some (pa_target_type a),
       gae_target_id := Some (strip (pa_target_id a)), gae_after_digest := Some (pa_proposed_digest a),
       gae_ticket_reference := Some (strip (pa_ticket_reference a)),
       gae_attributes := [(''risk'', governance_risk_value (pa_risk a))]\<rparr>)) (\<lambda>_.
    ret r))))"

definition new_approval ::
  "datetime \<Rightarrow> uuid \<Rightarrow> tenant_access_context \<Rightarrow> uuid \<Rightarrow> governance_approval_decision \<Rightarrow> string \<Rightarrow> governance_approval result" where
  "new_approval now approval_id c request_id decision reason =
    check_fields ''GovernanceApproval'' governance_approval_fields
      \<lparr>gap_schema_name = ''prodkit.governance-approval'', gap_schema_version = ''1.0.0'', gap_approval_id = approval_id,
       gap_request_id = request_id, gap_tenant_id = strip (tac_tenant_id c), gap_decision = decision, gap_actor = tac_actor c,
       gap_occurred_at = now, gap_reason = strip reason\<rparr>"

definition decided_copy ::
  "governance_approval_decision \<Rightarrow> datetime \<Rightarrow> actor_ref \<Rightarrow> governance_change_request \<Rightarrow> governance_change_request" where
  "decided_copy decision now actor r =
    (if decision = Decide_REJECT then r\<lparr>gcr_status := Change_REJECTED\<rparr>
     else r\<lparr>gcr_status := Change_APPROVED, gcr_approved_at := Some now, gcr_approved_by := Some actor\<rparr>)"

definition approve_change ::
  "datetime \<Rightarrow> datetime \<Rightarrow> uuid \<Rightarrow> uuid \<Rightarrow> tenant_access_context \<Rightarrow> uuid \<Rightarrow> governance_approval_decision \<Rightarrow> string
    \<Rightarrow> (governance_store, governance_change_request) prog" where
  "approve_change at0 now approval_id audit_id c request_id decision reason =
    bindE (lift_result (gov_require c Capability_APPROVE at0)) (\<lambda>_.
    bindE (\<lambda>s. (request_locked (tac_tenant_id c) request_id s, s)) (\<lambda>r.
    bindE (lift_result (raise_if (gcr_status r \<noteq> Change_PROPOSED)
      (AuthorizationDeniedError ''governance change is no longer awaiting approval''))) (\<lambda>_.
    bindE (lift_result (raise_if (gcr_risk r \<in> {GovRisk_HIGH, GovRisk_CRITICAL} \<and> same_governance_actor (gcr_proposed_by r) (tac_actor c))
      (AuthorizationDeniedError ''high-risk governance changes require an independent approver''))) (\<lambda>_.
    bindE (lift_result (new_approval now approval_id c request_id decision reason)) (\<lambda>approval.
    bindE (\<lambda>s. (Inr (), s\<lparr>gs_approvals := (gs_approvals s)((tac_tenant_id c, request_id) :=
        gs_approvals s (tac_tenant_id c, request_id) @ [approval])\<rparr>)) (\<lambda>_.
    bindE (put_change (tac_tenant_id c, request_id) (decided_copy decision now (tac_actor c) r)) (\<lambda>_.
    bindE (append_gov_audit ((gov_event audit_id c
        (if decision = Decide_REJECT then GovAudit_CHANGE_REJECTED else GovAudit_CHANGE_APPROVED) now reason)
      \<lparr>gae_request_id := Some request_id, gae_target_type := Some (gcr_target_type r),
       gae_target_id := Some (gcr_target_id r), gae_after_digest := Some (gcr_proposed_digest r),
       gae_ticket_reference := Some (gcr_ticket_reference r)\<rparr>)) (\<lambda>_.
    ret (decided_copy decision now (tac_actor c) r)))))))))"

section \<open>Retention policies and legal holds\<close>

definition retention_digest :: "sha256_fn \<Rightarrow> retention_policy list \<Rightarrow> string option" where
  "retention_digest sha history = (if history = [] then None else Some (sha256_hex sha (dump_retention_policy (last history))))"

definition next_revision :: "retention_policy list \<Rightarrow> int" where
  "next_revision history = (if history = [] then 1 else rp_revision (last history) + 1)"

definition push_policy :: "string \<Rightarrow> retention_policy \<Rightarrow> (governance_store, unit) prog" where
  "push_policy tenant p s = (Inr (), s\<lparr>gs_retention := (gs_retention s)(tenant := gs_retention s tenant @ [p])\<rparr>)"

definition apply_retention_policy ::
  "sha256_fn \<Rightarrow> datetime \<Rightarrow> datetime \<Rightarrow> uuid \<Rightarrow> retention_policy \<Rightarrow> tenant_access_context \<Rightarrow> uuid
    \<Rightarrow> (governance_store, retention_policy) prog" where
  "apply_retention_policy sha at0 now audit_id policy c request_id =
    bindE (lift_result (gov_require c Capability_CONFIGURE at0)) (\<lambda>_.
    bindE (lift_result (raise_if (rp_tenant_id policy \<noteq> tac_tenant_id c)
      (AuthorizationDeniedError ''retention policy crossed tenant boundary''))) (\<lambda>_ s.
    let history = gs_retention s (tac_tenant_id c); before = retention_digest sha history;
        digest = sha256_hex sha (dump_retention_policy policy)
    in bindE (lift_result (raise_if (rp_revision policy \<noteq> next_revision history)
         (ValueError (''retention policy revision must advance to '' @ int_str (next_revision history))))) (\<lambda>_.
       bindE (lift_result (approved_request (tac_tenant_id c) request_id Target_RETENTION_POLICY (rp_policy_id policy) digest before s)) (\<lambda>r.
       bindE (push_policy (tac_tenant_id c) policy) (\<lambda>_.
       bindE (mark_applied now r) (\<lambda>_.
       bindE (append_gov_audit ((gov_event audit_id c GovAudit_CHANGE_APPLIED now (gcr_reason r))
         \<lparr>gae_request_id := Some request_id, gae_target_type := Some Target_RETENTION_POLICY,
          gae_target_id := Some (strip (rp_policy_id policy)), gae_before_digest := before, gae_after_digest := Some digest,
          gae_ticket_reference := Some (gcr_ticket_reference r),
          gae_attributes := [(''revision'', int_str (rp_revision policy))]\<rparr>)) (\<lambda>_.
       ret policy))))) s))"

definition current_retention_policy ::
  "datetime \<Rightarrow> datetime \<Rightarrow> tenant_access_context \<Rightarrow> datetime option \<Rightarrow> governance_store \<Rightarrow> retention_policy option result" where
  "current_retention_policy at0 now c at1 s =
    rbind (gov_require c Capability_READ at0) (\<lambda>_.
    Inr (effective_policy (tac_tenant_id c) (case at1 of None \<Rightarrow> now | Some t \<Rightarrow> t) s))"

definition set_hold :: "string \<times> uuid \<Rightarrow> legal_hold \<Rightarrow> (governance_store, unit) prog" where
  "set_hold k h s = (Inr (), s\<lparr>gs_holds := AList.update k h (gs_holds s)\<rparr>)"

definition place_legal_hold ::
  "datetime \<Rightarrow> uuid \<Rightarrow> tenant_access_context \<Rightarrow> legal_hold \<Rightarrow> (governance_store, legal_hold) prog" where
  "place_legal_hold at0 audit_id c hold =
    bindE (lift_result (gov_require c Capability_LEGAL_HOLD at0)) (\<lambda>_.
    bindE (lift_result (raise_if (lh_tenant_id hold \<noteq> tac_tenant_id c)
      (AuthorizationDeniedError ''legal hold crossed tenant boundary''))) (\<lambda>_.
    bindE (lift_result (raise_if (lh_status hold \<noteq> Hold_ACTIVE) (ValueError ''only active legal holds can be placed''))) (\<lambda>_.
    bindE (\<lambda>s. (raise_if (map_of (gs_holds s) (tac_tenant_id c, lh_hold_id hold) \<noteq> None) (ValueError ''legal hold already exists''), s)) (\<lambda>_.
    bindE (set_hold (tac_tenant_id c, lh_hold_id hold) hold) (\<lambda>_.
    bindE (append_gov_audit ((gov_event audit_id c GovAudit_LEGAL_HOLD_PLACED (lh_placed_at hold) (lh_reason hold))
      \<lparr>gae_target_id := Some (strip (lh_hold_id hold)), gae_ticket_reference := Some (lh_case_reference hold)\<rparr>)) (\<lambda>_.
    ret hold))))))"

definition active_hold :: "string \<Rightarrow> uuid \<Rightarrow> governance_store \<Rightarrow> legal_hold result" where
  "active_hold tenant hold_id s =
    (case map_of (gs_holds s) (tenant, hold_id) of
       None \<Rightarrow> Inl (KeyError hold_id)
     | Some h \<Rightarrow> if lh_status h \<noteq> Hold_ACTIVE then Inl (KeyError hold_id) else Inr h)"

definition propose_legal_hold_release ::
  "sha256_fn \<Rightarrow> datetime \<Rightarrow> datetime \<Rightarrow> datetime \<Rightarrow> uuid \<Rightarrow> uuid \<Rightarrow> tenant_access_context \<Rightarrow> uuid \<Rightarrow> string \<Rightarrow> string
    \<Rightarrow> (governance_store, governance_change_request) prog" where
  "propose_legal_hold_release sha at0 at1 now request_id audit_id c hold_id reason ticket =
    bindE (lift_result (gov_require c Capability_CONFIGURE at0)) (\<lambda>_.
    bindE (\<lambda>s. (active_hold (tac_tenant_id c) hold_id s, s)) (\<lambda>_.
    propose_change at1 now request_id audit_id c
      \<lparr>pa_target_type = Target_LEGAL_HOLD_RELEASE, pa_target_id = hold_id,
       pa_proposed_digest = legal_hold_release_digest sha (tac_tenant_id c) hold_id, pa_risk = GovRisk_CRITICAL,
       pa_reason = reason, pa_ticket_reference = ticket, pa_expected_current_digest = None\<rparr>))"

definition released_copy :: "datetime \<Rightarrow> actor_ref \<Rightarrow> uuid \<Rightarrow> legal_hold \<Rightarrow> legal_hold" where
  "released_copy now actor request_id h = h\<lparr>lh_status := Hold_RELEASED, lh_released_at := Some now,
     lh_released_by := Some actor, lh_release_change_request_id := Some request_id\<rparr>"

definition release_legal_hold ::
  "sha256_fn \<Rightarrow> datetime \<Rightarrow> datetime \<Rightarrow> uuid \<Rightarrow> tenant_access_context \<Rightarrow> uuid \<Rightarrow> uuid \<Rightarrow> (governance_store, legal_hold) prog" where
  "release_legal_hold sha at0 now audit_id c hold_id request_id =
    bindE (lift_result (gov_require c Capability_LEGAL_HOLD at0)) (\<lambda>_.
    bindE (\<lambda>s. (active_hold (tac_tenant_id c) hold_id s, s)) (\<lambda>hold.
    let digest = legal_hold_release_digest sha (tac_tenant_id c) hold_id
    in bindE (\<lambda>s. (approved_request (tac_tenant_id c) request_id Target_LEGAL_HOLD_RELEASE hold_id digest None s, s)) (\<lambda>r.
       bindE (set_hold (tac_tenant_id c, hold_id) (released_copy now (tac_actor c) request_id hold)) (\<lambda>_.
       bindE (mark_applied now r) (\<lambda>_.
       bindE (append_gov_audit ((gov_event audit_id c GovAudit_LEGAL_HOLD_RELEASED now (gcr_reason r))
         \<lparr>gae_request_id := Some request_id, gae_target_type := Some Target_LEGAL_HOLD_RELEASE,
          gae_target_id := Some (strip hold_id), gae_after_digest := Some digest,
          gae_ticket_reference := Some (gcr_ticket_reference r)\<rparr>)) (\<lambda>_.
       ret (released_copy now (tac_actor c) request_id hold)))))))"

section \<open>Retention\<close>

definition new_decision ::
  "retention_policy \<Rightarrow> retention_candidate \<Rightarrow> datetime \<Rightarrow> retention_disposition \<Rightarrow> datetime option \<Rightarrow> uuid list \<Rightarrow> string
    \<Rightarrow> retention_decision result" where
  "new_decision policy candidate at1 disposition not_before holds reason =
    rbind (check_fields ''RetentionDecision'' retention_decision_fields
      \<lparr>rd_schema_name = ''prodkit.retention-decision'', rd_schema_version = ''1.0.0'', rd_tenant_id = rc_tenant_id candidate,
       rd_resource_type = rc_resource_type candidate, rd_resource_id = rc_resource_id candidate,
       rd_disposition = disposition, rd_evaluated_at = at1, rd_policy_id = rp_policy_id policy,
       rd_policy_revision = rp_revision policy, rd_delete_not_before = not_before, rd_legal_hold_ids = holds,
       rd_reason = reason\<rparr>)
    validate_retention_decision"

text \<open>The retention of a resource in seconds, and the end of its retention and grace windows.\<close>

definition retain_for :: "retention_policy \<Rightarrow> retention_rule option \<Rightarrow> int option" where
  "retain_for policy rule = (case rule of None \<Rightarrow> rp_default_retain_for_seconds policy | Some r \<Rightarrow> rr_retain_for_seconds r)"

definition deletion_grace :: "retention_rule option \<Rightarrow> int" where
  "deletion_grace rule = (case rule of None \<Rightarrow> 0 | Some r \<Rightarrow> rr_deletion_grace_seconds r)"

definition deletable_from :: "retention_rule option \<Rightarrow> int \<Rightarrow> retention_candidate \<Rightarrow> datetime" where
  "deletable_from rule seconds candidate = rc_created_at candidate + (seconds + deletion_grace rule) * 1000000"

definition decision_for ::
  "retention_policy \<Rightarrow> legal_hold list \<Rightarrow> datetime \<Rightarrow> retention_candidate \<Rightarrow> retention_decision result" where
  "decision_for policy holds at1 candidate =
    (if rc_tenant_id candidate \<noteq> rp_tenant_id policy
     then Inl (AuthorizationDeniedError ''retention candidate crossed tenant boundary'')
     else let matching = map lh_hold_id (filter (\<lambda>h. hold_applies h candidate) holds);
              rule = rule_for policy (rc_resource_type candidate)
       in if matching \<noteq> []
          then new_decision policy candidate at1 Dispose_RETAIN None matching ''active legal hold takes precedence over deletion policy''
          else if \<exists>r. rule = Some r \<and> \<not> rr_deletion_allowed r
          then new_decision policy candidate at1 Dispose_RETAIN None [] ''resource type is configured as non-deletable''
          else case retain_for policy rule of
            None \<Rightarrow> new_decision policy candidate at1 Dispose_RETAIN None [] ''retention policy keeps this resource indefinitely''
          | Some seconds \<Rightarrow>
              if at1 < deletable_from rule seconds candidate
              then new_decision policy candidate at1 Dispose_RETAIN None [] ''retention window has not elapsed''
              else new_decision policy candidate at1 Dispose_DELETE (Some (deletable_from rule seconds candidate)) []
                     ''retention and deletion-grace windows elapsed'')"

definition active_holds :: "string \<Rightarrow> governance_store \<Rightarrow> legal_hold list" where
  "active_holds tenant s = map snd (filter (\<lambda>kh. fst (fst kh) = tenant \<and> lh_status (snd kh) = Hold_ACTIVE) (gs_holds s))"

definition retention_decisions ::
  "string \<Rightarrow> retention_candidate list \<Rightarrow> datetime \<Rightarrow> governance_store \<Rightarrow> retention_decision list result" where
  "retention_decisions tenant candidates at1 s =
    (case effective_policy tenant at1 s of
       None \<Rightarrow> Inl (AuthorizationDeniedError ''no effective retention policy is configured'')
     | Some policy \<Rightarrow> rmap (decision_for policy (active_holds tenant s) at1) candidates)"

definition resource_name :: "string \<Rightarrow> string \<Rightarrow> string" where
  "resource_name resource_type resource_id = strip (resource_type @ '':'' @ resource_id)"

text \<open>The \<open>uuid4\<close> results of a batch are drawn from \<open>ids\<close>, by the position of the candidate.\<close>

definition audit_decisions ::
  "(nat \<Rightarrow> uuid) \<Rightarrow> tenant_access_context \<Rightarrow> datetime \<Rightarrow> retention_decision list \<Rightarrow> (governance_store, unit) prog" where
  "audit_decisions ids c at1 decisions =
    bindE (run_all (\<lambda>(i, d). append_gov_audit ((gov_event (ids i) c GovAudit_RETENTION_EVALUATED at1 (rd_reason d))
        \<lparr>gae_target_id := Some (resource_name (rd_resource_type d) (rd_resource_id d)),
         gae_attributes := [(''disposition'', retention_disposition_value (rd_disposition d))]\<rparr>))
      (enumerate 0 decisions)) (\<lambda>_. ret ())"

definition evaluate_retention ::
  "datetime \<Rightarrow> datetime \<Rightarrow> (nat \<Rightarrow> uuid) \<Rightarrow> tenant_access_context \<Rightarrow> retention_candidate list \<Rightarrow> datetime option
    \<Rightarrow> (governance_store, retention_decision list) prog" where
  "evaluate_retention at0 now ids c candidates at1 =
    bindE (lift_result (gov_require c Capability_READ at0)) (\<lambda>_.
    let decision_at = (case at1 of None \<Rightarrow> now | Some t \<Rightarrow> t)
    in bindE (\<lambda>s. (retention_decisions (tac_tenant_id c) candidates decision_at s, s)) (\<lambda>decisions.
       bindE (audit_decisions ids c decision_at decisions) (\<lambda>_. ret decisions)))"

text \<open>The deletion adapter reads the call and acts on the outside world \<open>'w\<close>; it returns a reference or raises.\<close>

type_synonym 'w deletion_adapter =
  "tenant_access_context \<Rightarrow> retention_candidate \<Rightarrow> retention_decision \<Rightarrow> ('w, string) prog"

definition deletion_intent ::
  "sha256_fn \<Rightarrow> uuid \<Rightarrow> uuid \<Rightarrow> tenant_access_context \<Rightarrow> datetime \<Rightarrow> retention_candidate \<Rightarrow> retention_decision \<Rightarrow> governance_audit_event" where
  "deletion_intent sha event_id execution_id c at1 cand d =
    (gov_event event_id c GovAudit_RETENTION_DELETION_INTENT_RECORDED at1 (rd_reason d))
      \<lparr>gae_target_id := Some (resource_name (rc_resource_type cand) (rc_resource_id cand)),
       gae_attributes := [(''execution_id'', execution_id), (''decision_sha256'', sha256_hex sha (dump_retention_decision d)),
         (''content_sha256'', case rc_content_sha256 cand of None \<Rightarrow> [] | Some h \<Rightarrow> h)]\<rparr>"

definition deletion_executed ::
  "uuid \<Rightarrow> uuid \<Rightarrow> tenant_access_context \<Rightarrow> datetime \<Rightarrow> retention_candidate \<Rightarrow> retention_decision \<Rightarrow> string \<Rightarrow> governance_audit_event" where
  "deletion_executed event_id execution_id c at1 cand d reference =
    (gov_event event_id c GovAudit_RETENTION_DELETION_EXECUTED at1 (rd_reason d))
      \<lparr>gae_target_id := Some (resource_name (rc_resource_type cand) (rc_resource_id cand)),
       gae_attributes := [(''execution_id'', execution_id), (''deletion_reference'', reference)]\<rparr>"

definition execution_record ::
  "uuid \<Rightarrow> tenant_access_context \<Rightarrow> datetime \<Rightarrow> retention_candidate \<Rightarrow> retention_decision \<Rightarrow> string \<Rightarrow> retention_execution_record result" where
  "execution_record execution_id c at1 cand d reference =
    check_fields ''RetentionExecutionRecord'' retention_execution_record_fields
      \<lparr>rx_schema_name = ''prodkit.retention-execution'', rx_schema_version = ''1.0.0'', rx_execution_id = execution_id,
       rx_tenant_id = strip (tac_tenant_id c), rx_resource_type = rc_resource_type cand, rx_resource_id = rc_resource_id cand,
       rx_executed_at = at1, rx_executed_by = tac_actor c, rx_policy_id = rd_policy_id d,
       rx_policy_revision = rd_policy_revision d, rx_content_sha256 = rc_content_sha256 cand,
       rx_deletion_reference = strip reference\<rparr>"

definition delete_candidate ::
  "sha256_fn \<Rightarrow> (nat \<Rightarrow> uuid) \<Rightarrow> (nat \<Rightarrow> uuid) \<Rightarrow> 'w deletion_adapter \<Rightarrow> tenant_access_context \<Rightarrow> datetime
    \<Rightarrow> nat \<times> retention_candidate \<times> retention_decision \<Rightarrow> (governance_store \<times> 'w, retention_execution_record option) prog" where
  "delete_candidate sha ids executions adapter c at1 = (\<lambda>(i, cand, d).
    if rd_disposition d \<noteq> Dispose_DELETE then ret None
    else bindE (on_store (append_gov_audit (deletion_intent sha (ids (2 * i)) (executions i) c at1 cand d))) (\<lambda>_.
      bindE (on_world (adapter c cand d)) (\<lambda>reference.
      bindE (lift_result (execution_record (executions i) c at1 cand d reference)) (\<lambda>record.
      bindE (on_store (append_gov_audit (deletion_executed (ids (2 * i + 1)) (executions i) c at1 cand d reference))) (\<lambda>_.
      ret (Some record))))))"

definition candidate_identity :: "retention_candidate \<Rightarrow> string \<times> string" where
  "candidate_identity c = (rc_resource_type c, rc_resource_id c)"

definition require_unique_candidates :: "retention_candidate list \<Rightarrow> unit result" where
  "require_unique_candidates candidates = raise_if (\<not> distinct (map candidate_identity candidates))
     (ValueError ''retention candidates must have unique resource identities'')"

definition execute_retention ::
  "sha256_fn \<Rightarrow> datetime \<Rightarrow> datetime \<Rightarrow> datetime \<Rightarrow> (nat \<Rightarrow> uuid) \<Rightarrow> (nat \<Rightarrow> uuid) \<Rightarrow> (nat \<Rightarrow> uuid) \<Rightarrow> 'w deletion_adapter
    \<Rightarrow> tenant_access_context \<Rightarrow> retention_candidate list \<Rightarrow> datetime option
    \<Rightarrow> (governance_store \<times> 'w, retention_execution_record list) prog" where
  "execute_retention sha at0 at1 now ids ids' executions adapter c candidates evaluation_at =
    bindE (lift_result (gov_require c Capability_DELETE at0)) (\<lambda>_.
    bindE (lift_result (gov_require c Capability_READ at1)) (\<lambda>_.
    bindE (lift_result (raise_if (evaluation_at \<noteq> None) (ValueError
      ''destructive retention execution uses authoritative current time; caller-supplied evaluation time is not permitted''))) (\<lambda>_.
    bindE (lift_result (require_unique_candidates candidates)) (\<lambda>_.
    bindE (on_store (\<lambda>s. (retention_decisions (tac_tenant_id c) candidates now s, s))) (\<lambda>decisions.
    bindE (on_store (audit_decisions ids c now decisions)) (\<lambda>_.
    bindE (run_all (delete_candidate sha ids' executions adapter c now) (enumerate 0 (zip candidates decisions))) (\<lambda>records.
    ret (map the (filter (\<lambda>x. x \<noteq> None) records)))))))))"

section \<open>Trust roots\<close>

definition new_trust_root ::
  "sha256_fn \<Rightarrow> tenant_access_context \<Rightarrow> int \<Rightarrow> trust_root_policy \<Rightarrow> datetime \<Rightarrow> uuid \<Rightarrow> governed_trust_root result" where
  "new_trust_root sha c revision policy activated_at request_id =
    rbind (check_fields ''GovernedTrustRoot'' governed_trust_root_fields
      \<lparr>gtr_schema_name = ''prodkit.governed-trust-root'', gtr_schema_version = ''1.0.0'', gtr_tenant_id = strip (tac_tenant_id c),
       gtr_revision = revision, gtr_policy = policy, gtr_policy_sha256 = sha256_hex sha (dump_trust_root_policy policy),
       gtr_activated_at = activated_at, gtr_retired_at = None, gtr_change_request_id = request_id\<rparr>)
    validate_trust_root"

definition set_roots :: "string \<Rightarrow> governed_trust_root list \<Rightarrow> (governance_store, unit) prog" where
  "set_roots tenant roots s = (Inr (), s\<lparr>gs_trust_roots := (gs_trust_roots s)(tenant := roots)\<rparr>)"

definition trust_history :: "string \<Rightarrow> governed_trust_root list \<Rightarrow> trust_root_history result" where
  "trust_history tenant roots = rbind (check_fields ''TrustRootHistory'' trust_root_history_fields
     \<lparr>trh_schema_name = ''prodkit.trust-root-history'', trh_schema_version = ''1.0.0'', trh_tenant_id = strip tenant,
      trh_roots = roots\<rparr>) validate_trust_history"

definition bootstrap_trust_root ::
  "sha256_fn \<Rightarrow> datetime \<Rightarrow> datetime \<Rightarrow> uuid \<Rightarrow> tenant_access_context \<Rightarrow> trust_root_policy \<Rightarrow> datetime \<Rightarrow> uuid
    \<Rightarrow> (governance_store, governed_trust_root) prog" where
  "bootstrap_trust_root sha at0 now audit_id c policy activated_at request_id =
    bindE (lift_result (gov_require c Capability_CONFIGURE at0)) (\<lambda>_.
    bindE (\<lambda>s. (raise_if (gs_trust_roots s (tac_tenant_id c) \<noteq> []) (ValueError ''trust-root history is already initialized''), s)) (\<lambda>_.
    let digest = sha256_hex sha (dump_trust_root_policy policy)
    in bindE (\<lambda>s. (approved_request (tac_tenant_id c) request_id Target_TRUST_ROOT_POLICY (trp_policy_id policy) digest None s, s)) (\<lambda>r.
       bindE (lift_result (new_trust_root sha c 1 policy activated_at request_id)) (\<lambda>root.
       bindE (set_roots (tac_tenant_id c) [root]) (\<lambda>_.
       bindE (mark_applied now r) (\<lambda>_.
       bindE (append_gov_audit ((gov_event audit_id c GovAudit_TRUST_ROOT_ACTIVATED now (gcr_reason r))
         \<lparr>gae_request_id := Some request_id, gae_target_type := Some Target_TRUST_ROOT_POLICY,
          gae_target_id := Some (trp_policy_id policy), gae_after_digest := Some digest,
          gae_ticket_reference := Some (gcr_ticket_reference r), gae_attributes := [(''revision'', ''1'')]\<rparr>)) (\<lambda>_.
       ret root)))))))"

definition retire_last :: "datetime \<Rightarrow> governed_trust_root list \<Rightarrow> governed_trust_root list" where
  "retire_last at1 roots = butlast roots @ [(last roots)\<lparr>gtr_retired_at := Some at1\<rparr>]"

definition rotate_trust_root ::
  "sha256_fn \<Rightarrow> datetime \<Rightarrow> datetime \<Rightarrow> uuid \<Rightarrow> tenant_access_context \<Rightarrow> key_rotation_plan \<Rightarrow> trust_root_policy
    \<Rightarrow> (governance_store, trust_root_history) prog" where
  "rotate_trust_root sha at0 now audit_id c plan policy =
    bindE (lift_result (gov_require c Capability_CONFIGURE at0)) (\<lambda>_.
    bindE (lift_result (raise_if (krp_tenant_id plan \<noteq> tac_tenant_id c)
      (AuthorizationDeniedError ''trust-root rotation crossed tenant boundary''))) (\<lambda>_.
    bindE (lift_result (raise_if (krp_activate_at plan < now \<and> \<not> krp_emergency plan)
      (ValueError ''non-emergency key rotation cannot activate in the past''))) (\<lambda>_ s.
    let digest = sha256_hex sha (dump_trust_root_policy policy); roots = gs_trust_roots s (tac_tenant_id c); current = last roots
    in if roots = [] then (Inl (ValueError ''trust-root rotation requires an initialized trust root''), s)
       else if gtr_revision current \<noteq> krp_from_revision plan \<or> krp_to_revision plan \<noteq> gtr_revision current + 1
       then (Inl (ValueError ''key rotation revisions do not match current trust root''), s)
       else bindE (lift_result (approved_request (tac_tenant_id c) (krp_change_request_id plan) Target_TRUST_ROOT_POLICY
           (trp_policy_id policy) digest (Some (gtr_policy_sha256 current)) s)) (\<lambda>r.
         bindE (set_roots (tac_tenant_id c) (retire_last (krp_overlap_until plan) roots)) (\<lambda>_.
         bindE (lift_result (new_trust_root sha c (krp_to_revision plan) policy (krp_activate_at plan) (krp_change_request_id plan))) (\<lambda>root.
         bindE (set_roots (tac_tenant_id c) (retire_last (krp_overlap_until plan) roots @ [root])) (\<lambda>_.
         bindE (mark_applied now r) (\<lambda>_.
         bindE (append_gov_audit ((gov_event audit_id c GovAudit_TRUST_ROOT_ACTIVATED now (gcr_reason r))
           \<lparr>gae_request_id := Some (krp_change_request_id plan), gae_target_type := Some Target_TRUST_ROOT_POLICY,
            gae_target_id := Some (trp_policy_id policy), gae_before_digest := Some (gtr_policy_sha256 current),
            gae_after_digest := Some digest, gae_ticket_reference := Some (gcr_ticket_reference r),
            gae_attributes := [(''from_revision'', int_str (krp_from_revision plan)), (''to_revision'', int_str (krp_to_revision plan)),
              (''overlap_until'', isoformat_offset (krp_overlap_until plan))]\<rparr>)) (\<lambda>_.
         lift_result (trust_history (tac_tenant_id c) (retire_last (krp_overlap_until plan) roots @ [root])))))))) s)))"

definition trust_root_history_of :: "datetime \<Rightarrow> tenant_access_context \<Rightarrow> governance_store \<Rightarrow> trust_root_history result" where
  "trust_root_history_of at0 c s = rbind (gov_require c Capability_READ at0) (\<lambda>_.
     trust_history (tac_tenant_id c) (gs_trust_roots s (tac_tenant_id c)))"

definition verify_checkpoint_history ::
  "(string \<Rightarrow> string \<Rightarrow> string \<Rightarrow> bool) \<Rightarrow> signed_checkpoint \<Rightarrow> trust_root_history \<Rightarrow> unit result" where
  "verify_checkpoint_history verify checkpoint history =
    (if scp_tenant_id checkpoint \<noteq> trh_tenant_id history
     then Inl (AuthorizationDeniedError ''checkpoint tenant does not match trust-root history'')
     else rbind (policy_for history (scp_created_at checkpoint) (Some (scp_key_id checkpoint))) (\<lambda>policy.
          rbind (verify_checkpoint verify checkpoint policy) (\<lambda>_. Inr ())))"

section \<open>Evidence transfers\<close>

definition or_default :: "string option \<Rightarrow> string \<Rightarrow> string" where
  "or_default x d = (if truthy x then the x else d)"

definition create_transfer_manifest ::
  "sha256_fn \<Rightarrow> datetime \<Rightarrow> datetime \<Rightarrow> uuid \<Rightarrow> uuid \<Rightarrow> tenant_access_context \<Rightarrow> string \<Rightarrow> int \<Rightarrow> string \<Rightarrow> string \<Rightarrow> int option
    \<Rightarrow> (governance_store, evidence_transfer_manifest) prog" where
  "create_transfer_manifest sha at0 now transfer_id audit_id c control_version schema_version archive_sha256 bundle_sha256 root_revision =
    bindE (lift_result (gov_require c Capability_EXPORT at0)) (\<lambda>_.
    bindE (lift_result (check_fields ''EvidenceTransferManifest'' evidence_transfer_manifest_fields
      \<lparr>etm_schema_name = ''prodkit.evidence-transfer-manifest'', etm_schema_version = ''1.0.0'', etm_transfer_id = transfer_id,
       etm_tenant_id = strip (tac_tenant_id c), etm_created_at = now, etm_created_by = tac_actor c,
       etm_source_control_version = strip control_version, etm_source_schema_version = schema_version,
       etm_archive_sha256 = archive_sha256, etm_bundle_manifest_sha256 = bundle_sha256,
       etm_trust_root_revision = root_revision, etm_legal_hold_preserved = True\<rparr>)) (\<lambda>m.
    bindE (\<lambda>s. (Inr (), s\<lparr>gs_exports := (gs_exports s)((tac_tenant_id c, transfer_id) \<mapsto> m)\<rparr>)) (\<lambda>_.
    bindE (append_gov_audit ((gov_event audit_id c GovAudit_EVIDENCE_EXPORT_CREATED now (or_default (tac_reason c) ''evidence export''))
      \<lparr>gae_target_id := Some (strip transfer_id), gae_after_digest := Some (sha256_hex sha (dump_evidence_transfer_manifest m)),
       gae_ticket_reference := map_option strip (tac_ticket_reference c)\<rparr>)) (\<lambda>_.
    ret m))))"

definition validate_import_verification ::
  "tenant_access_context \<Rightarrow> evidence_transfer_manifest \<Rightarrow> evidence_transfer_verification \<Rightarrow> string \<Rightarrow> unit result" where
  "validate_import_verification c m v archive_sha256 =
    (if etm_tenant_id m \<noteq> tac_tenant_id c \<or> tv_tenant_id v \<noteq> tac_tenant_id c
     then Inl (AuthorizationDeniedError ''evidence import crossed tenant boundary'')
     else if tv_transfer_id v \<noteq> etm_transfer_id m then Inl (ValueError ''verification does not belong to the transfer manifest'')
     else if etm_archive_sha256 m \<noteq> archive_sha256 \<or> tv_package_sha256 v \<noteq> archive_sha256
     then Inl (ValueError ''import archive digest does not match verified transfer evidence'')
     else if tv_bundle_manifest_sha256 v \<noteq> etm_bundle_manifest_sha256 m
     then Inl (ValueError ''verified bundle-manifest digest does not match transfer manifest'')
     else if tv_source_control_version v \<noteq> etm_source_control_version m
     then Inl (ValueError ''verified source control version does not match transfer manifest'')
     else if tv_source_schema_version v \<noteq> etm_source_schema_version m
     then Inl (ValueError ''verified source schema version does not match transfer manifest'')
     else if \<not> tv_verified_offline v then Inl (ValueError ''evidence import requires offline verification evidence'')
     else Inr ())"

definition record_verified_import ::
  "sha256_fn \<Rightarrow> datetime \<Rightarrow> datetime \<Rightarrow> uuid \<Rightarrow> uuid \<Rightarrow> tenant_access_context \<Rightarrow> evidence_transfer_manifest
    \<Rightarrow> evidence_transfer_verification \<Rightarrow> string \<Rightarrow> compatibility_policy \<Rightarrow> (governance_store, evidence_import_receipt) prog" where
  "record_verified_import sha at0 now import_id audit_id c m v archive_sha256 compatibility =
    bindE (lift_result (gov_require c Capability_WRITE at0)) (\<lambda>_.
    bindE (lift_result (validate_import_verification c m v archive_sha256)) (\<lambda>_.
    bindE (lift_result (path_from compatibility (etm_source_schema_version m))) (\<lambda>_.
    bindE (lift_result (rbind (check_fields ''EvidenceImportReceipt'' evidence_import_receipt_fields
      \<lparr>eir_schema_name = ''prodkit.evidence-import-receipt'', eir_schema_version = ''1.0.0'', eir_import_id = import_id,
       eir_transfer_id = etm_transfer_id m, eir_tenant_id = strip (tac_tenant_id c), eir_imported_at = now,
       eir_imported_by = tac_actor c, eir_source_control_version = etm_source_control_version m,
       eir_source_schema_version = etm_source_schema_version m, eir_archive_sha256 = archive_sha256,
       eir_verification_id = tv_verification_id v, eir_verification_sha256 = sha256_hex sha (dump_transfer_verification v),
       eir_trust_anchor_sha256 = tv_trust_anchor_sha256 v, eir_verified = True\<rparr>) validate_import_receipt)) (\<lambda>receipt.
    bindE (\<lambda>s. (Inr (), s\<lparr>gs_imports := (gs_imports s)((tac_tenant_id c, import_id) \<mapsto> receipt)\<rparr>)) (\<lambda>_.
    bindE (append_gov_audit ((gov_event audit_id c GovAudit_EVIDENCE_IMPORT_VERIFIED now
        (or_default (tac_reason c) ''verified evidence import''))
      \<lparr>gae_target_id := Some (strip import_id), gae_after_digest := Some (sha256_hex sha (dump_evidence_import_receipt receipt)),
       gae_ticket_reference := map_option strip (tac_ticket_reference c),
       gae_attributes := [(''verification_id'', tv_verification_id v),
         (''verification_sha256'', sha256_hex sha (dump_transfer_verification v)),
         (''trust_anchor_sha256'', tv_trust_anchor_sha256 v)]\<rparr>)) (\<lambda>_.
    ret receipt))))))"

definition list_governance_audit :: "datetime \<Rightarrow> tenant_access_context \<Rightarrow> governance_store \<Rightarrow> governance_audit_event list result" where
  "list_governance_audit at0 c s = rbind (gov_require c Capability_READ at0) (\<lambda>_. Inr (gs_audit s (tac_tenant_id c)))"

end
