(* ===== verification/Governance_Safety.thy ===== *)
theory Governance_Safety
  imports Governance "HOL-Library.Sublist"
begin

text \<open>
  What governance guarantees: the store refines an abstract machine in which retention policies, trust roots and the
  release of holds take a granted change request, independently granted at high risk; the numbering and backing of retention
  policies, released holds and trust roots in every reachable store; and what a retention run may delete.
\<close>

section \<open>What each operation does\<close>

text \<open>The governed part of the store: everything but approvals, transfers and audit trails.\<close>

definition gov_core :: "governance_store \<Rightarrow> governance_store" where
  "gov_core s = s\<lparr>gs_approvals := (\<lambda>_. []), gs_exports := Map.empty, gs_imports := Map.empty, gs_audit := (\<lambda>_. [])\<rparr>"

lemma gov_core_eq_iff:
  "gov_core s = gov_core t \<longleftrightarrow> gs_changes s = gs_changes t \<and> gs_retention s = gs_retention t \<and> gs_holds s = gs_holds t
    \<and> gs_trust_roots s = gs_trust_roots t"
  by (cases s; cases t) (auto simp: gov_core_def)

lemma append_gov_audit_run:
  "append_gov_audit ev s = (if governance_audit_event_fields ev
     then (Inr (), s\<lparr>gs_audit := (gs_audit s)(gae_tenant_id ev := gs_audit s (gae_tenant_id ev) @ [ev])\<rparr>)
     else (Inl (ValueError (''validation error for '' @ ''GovernanceAuditEvent'')), s))"
  by (simp add: append_gov_audit_def bindE_def check_fields_def)

lemma append_gov_audit_core: "append_gov_audit ev s = (r, s') \<Longrightarrow> gov_core s' = gov_core s"
  by (auto simp: append_gov_audit_run gov_core_def split: if_splits)

lemma audited_core: "bindE (append_gov_audit ev) (\<lambda>_. ret x) s = (r, s') \<Longrightarrow> gov_core s' = gov_core s"
  by (auto elim!: bindE_cases dest: append_gov_audit_core)

lemma audited_pure_core: "bindE (append_gov_audit ev) (\<lambda>_. lift_result x) s = (r, s') \<Longrightarrow> gov_core s' = gov_core s"
  by (auto elim!: bindE_cases dest: append_gov_audit_core)

lemma bindE_put_change: "bindE (put_change k r) f s = f () (s\<lparr>gs_changes := (gs_changes s)(k \<mapsto> r)\<rparr>)"
  by (simp add: bindE_def put_change_def)

lemma bindE_mark_applied: "bindE (mark_applied now r) f s = f () (s\<lparr>gs_changes := (gs_changes s)((gcr_tenant_id r, gcr_request_id r) \<mapsto>
    r\<lparr>gcr_status := Change_APPLIED, gcr_applied_at := Some now\<rparr>)\<rparr>)"
  by (simp add: mark_applied_def bindE_put_change)

lemma bindE_push_policy: "bindE (push_policy t p) f s = f () (s\<lparr>gs_retention := (gs_retention s)(t := gs_retention s t @ [p])\<rparr>)"
  by (simp add: bindE_def push_policy_def)

lemma bindE_set_hold: "bindE (set_hold k h) f s = f () (s\<lparr>gs_holds := AList.update k h (gs_holds s)\<rparr>)"
  by (simp add: bindE_def set_hold_def)

lemma bindE_set_roots: "bindE (set_roots t rs) f s = f () (s\<lparr>gs_trust_roots := (gs_trust_roots s)(t := rs)\<rparr>)"
  by (simp add: bindE_def set_roots_def)

lemma bindE_read: "bindE (\<lambda>s. (f s, s)) g s = (case f s of Inl e \<Rightarrow> (Inl e, s) | Inr x \<Rightarrow> g x s)"
  by (simp add: bindE_def split: sum.splits)

lemma bindE_modify: "bindE (\<lambda>s. (Inr (), f s)) g s = g () (f s)"
  by (simp add: bindE_def)

lemmas gov_run = bindE_pure bindE_put_change bindE_mark_applied bindE_push_policy bindE_set_hold bindE_set_roots bindE_read bindE_modify

definition applied_copy :: "datetime \<Rightarrow> governance_change_request \<Rightarrow> governance_change_request" where
  "applied_copy now r = r\<lparr>gcr_status := Change_APPLIED, gcr_applied_at := Some now\<rparr>"

lemma new_change_shape:
  assumes "new_change now rid c a = Inr r" "valid_context c"
  shows "gcr_request_id r = rid" "gcr_tenant_id r = tac_tenant_id c" "gcr_status r = Change_PROPOSED" "validate_change r = Inr r"
  using assms valid_context_tenant [OF assms(2)]
  by (auto simp: new_change_def nonblank_def validate_change_def)

lemma propose_change_effect:
  assumes "propose_change at0 now rid i c a s = (r, s')" "valid_context c"
  shows "gov_core s' = gov_core s \<or> (\<exists>x. new_change now rid c a = Inr x
    \<and> gov_core s' = gov_core (s\<lparr>gs_changes := (gs_changes s)((tac_tenant_id c, rid) \<mapsto> x)\<rparr>))"
  using assms(1) unfolding propose_change_def gov_run
  by (auto split: sum.splits dest: audited_core simp: new_change_shape [OF _ assms(2)])

lemma propose_release_effect:
  assumes "propose_legal_hold_release sha at0 at1 now rid i c h reason ticket s = (r, s')" "valid_context c"
  shows "gov_core s' = gov_core s \<or> (\<exists>a x. new_change now rid c a = Inr x
    \<and> gov_core s' = gov_core (s\<lparr>gs_changes := (gs_changes s)((tac_tenant_id c, rid) \<mapsto> x)\<rparr>))"
  using assms(1) unfolding propose_legal_hold_release_def gov_run
  by (auto split: sum.splits dest: propose_change_effect [OF _ assms(2)])

lemma approve_change_effect:
  assumes "approve_change at0 now ai i c rid decision reason s = (r, s')"
  shows "gov_core s' = gov_core s \<or> (\<exists>x. gs_changes s (tac_tenant_id c, rid) = Some x \<and> gcr_status x = Change_PROPOSED
    \<and> (gcr_risk x \<in> {GovRisk_HIGH, GovRisk_CRITICAL} \<longrightarrow> \<not> same_governance_actor (gcr_proposed_by x) (tac_actor c))
    \<and> gov_core s' = gov_core (s\<lparr>gs_changes := (gs_changes s)((tac_tenant_id c, rid) \<mapsto> decided_copy decision now (tac_actor c) x)\<rparr>))"
  using assms unfolding approve_change_def gov_run
  by (auto simp: raise_if_def request_locked_def gov_core_eq_iff split: sum.splits option.splits if_splits dest!: audited_core)

lemma approved_request_cases:
  assumes "approved_request t rid ty tid d cur s = Inr r"
  shows "gs_changes s (t, rid) = Some r" "gcr_status r = Change_APPROVED" "gcr_target_type r = ty" "gcr_target_id r = tid"
    "gcr_proposed_digest r = d" "gcr_expected_current_digest r = cur"
  using assms by (auto simp: approved_request_def request_locked_def split: option.splits if_splits)

lemma apply_retention_effect:
  assumes "apply_retention_policy sha at0 now i p c rid s = (r, s')"
  shows "gov_core s' = gov_core s \<or> (\<exists>x. rp_tenant_id p = tac_tenant_id c
    \<and> rp_revision p = next_revision (gs_retention s (tac_tenant_id c))
    \<and> approved_request (tac_tenant_id c) rid Target_RETENTION_POLICY (rp_policy_id p) (sha256_hex sha (dump_retention_policy p))
        (retention_digest sha (gs_retention s (tac_tenant_id c))) s = Inr x
    \<and> gov_core s' = gov_core (s\<lparr>gs_retention := (gs_retention s)(tac_tenant_id c := gs_retention s (tac_tenant_id c) @ [p]),
        gs_changes := (gs_changes s)((gcr_tenant_id x, gcr_request_id x) \<mapsto> applied_copy now x)\<rparr>))"
  using assms unfolding apply_retention_policy_def Let_def gov_run applied_copy_def
  by (auto simp: raise_if_def split: sum.splits if_splits dest: audited_core)

lemma place_hold_effect:
  assumes "place_legal_hold at0 i c h s = (r, s')"
  shows "gov_core s' = gov_core s \<or> (lh_tenant_id h = tac_tenant_id c \<and> lh_status h = Hold_ACTIVE
    \<and> map_of (gs_holds s) (tac_tenant_id c, lh_hold_id h) = None
    \<and> gov_core s' = gov_core (s\<lparr>gs_holds := AList.update (tac_tenant_id c, lh_hold_id h) h (gs_holds s)\<rparr>))"
  using assms unfolding place_legal_hold_def gov_run
  by (auto simp: raise_if_def split: sum.splits if_splits dest: audited_core)

lemma active_hold_iff: "active_hold t i s = Inr h \<longleftrightarrow> map_of (gs_holds s) (t, i) = Some h \<and> lh_status h = Hold_ACTIVE"
  by (auto simp: active_hold_def split: option.splits)

lemma release_hold_effect:
  assumes "release_legal_hold sha at0 now i c hid rid s = (r, s')"
  shows "gov_core s' = gov_core s \<or> (\<exists>h x. map_of (gs_holds s) (tac_tenant_id c, hid) = Some h \<and> lh_status h = Hold_ACTIVE
    \<and> approved_request (tac_tenant_id c) rid Target_LEGAL_HOLD_RELEASE hid (legal_hold_release_digest sha (tac_tenant_id c) hid) None s = Inr x
    \<and> gov_core s' = gov_core (s\<lparr>gs_holds := AList.update (tac_tenant_id c, hid) (released_copy now (tac_actor c) rid h) (gs_holds s),
        gs_changes := (gs_changes s)((gcr_tenant_id x, gcr_request_id x) \<mapsto> applied_copy now x)\<rparr>))"
  using assms unfolding release_legal_hold_def Let_def gov_run applied_copy_def
  by (auto simp: active_hold_iff split: sum.splits dest: audited_core)

lemma new_trust_root_shape:
  assumes "new_trust_root sha c n p t rid = Inr x" "valid_context c"
  shows "gtr_tenant_id x = tac_tenant_id c" "gtr_revision x = n" "gtr_policy x = p" "gtr_retired_at x = None"
    "gtr_policy_sha256 x = sha256_hex sha (dump_trust_root_policy p)" "gtr_change_request_id x = rid" "governed_trust_root_fields x"
  using assms valid_context_tenant [OF assms(2)]
  by (auto simp: new_trust_root_def nonblank_def validate_trust_root_def)

lemma bootstrap_effect:
  assumes "bootstrap_trust_root sha at0 now i c p t rid s = (r, s')"
  shows "gov_core s' = gov_core s \<or> (\<exists>x root. gs_trust_roots s (tac_tenant_id c) = []
    \<and> approved_request (tac_tenant_id c) rid Target_TRUST_ROOT_POLICY (trp_policy_id p) (sha256_hex sha (dump_trust_root_policy p)) None s = Inr x
    \<and> new_trust_root sha c 1 p t rid = Inr root
    \<and> gov_core s' = gov_core (s\<lparr>gs_trust_roots := (gs_trust_roots s)(tac_tenant_id c := [root]),
        gs_changes := (gs_changes s)((gcr_tenant_id x, gcr_request_id x) \<mapsto> applied_copy now x)\<rparr>))"
  using assms unfolding bootstrap_trust_root_def Let_def gov_run applied_copy_def
  by (auto simp: raise_if_def split: sum.splits if_splits dest: audited_core)

lemma new_trust_root_total:
  assumes "valid_context c" "\<forall>m. is_sha256 (sha m)" "1 \<le> n" "trust_root_policy_fields p"
  shows "\<exists>x. new_trust_root sha c n p t rid = Inr x"
  using assms valid_context_tenant [OF assms(1)]
  by (auto simp: new_trust_root_def nonblank_def governed_trust_root_fields_def check_fields_def validate_trust_root_def sha256_hex_def)

lemma rotate_effect:
  assumes op: "rotate_trust_root sha at0 now i c plan p s = (r, s')"
    and ok: "valid_context c" "\<forall>m. is_sha256 (sha m)" "key_rotation_plan_fields plan" "trust_root_policy_fields p"
  shows "gov_core s' = gov_core s \<or> (\<exists>x root. gs_trust_roots s (tac_tenant_id c) \<noteq> []
    \<and> krp_to_revision plan = gtr_revision (last (gs_trust_roots s (tac_tenant_id c))) + 1
    \<and> approved_request (tac_tenant_id c) (krp_change_request_id plan) Target_TRUST_ROOT_POLICY (trp_policy_id p)
        (sha256_hex sha (dump_trust_root_policy p)) (Some (gtr_policy_sha256 (last (gs_trust_roots s (tac_tenant_id c))))) s = Inr x
    \<and> new_trust_root sha c (krp_to_revision plan) p (krp_activate_at plan) (krp_change_request_id plan) = Inr root
    \<and> gov_core s' = gov_core (s\<lparr>gs_trust_roots := (gs_trust_roots s)(tac_tenant_id c :=
          retire_last (krp_overlap_until plan) (gs_trust_roots s (tac_tenant_id c)) @ [root]),
        gs_changes := (gs_changes s)((gcr_tenant_id x, gcr_request_id x) \<mapsto> applied_copy now x)\<rparr>))"
proof -
  have "1 \<le> krp_to_revision plan" using ok(3) by (simp add: key_rotation_plan_fields_def)
  from new_trust_root_total [OF ok(1,2) this ok(4)]
  obtain root where root: "new_trust_root sha c (krp_to_revision plan) p (krp_activate_at plan) (krp_change_request_id plan) = Inr root"
    by blast
  show ?thesis
    using op unfolding rotate_trust_root_def Let_def gov_run root applied_copy_def
    by (auto simp: raise_if_def gov_run root split: sum.splits if_splits dest: audited_pure_core)
qed

section \<open>Retention runs keep the governed state\<close>

lemma keeps_on_store: "keeps (\<lambda>s s'. gov_core s' = gov_core s) m \<Longrightarrow> keeps (\<lambda>sw sw'. gov_core (fst sw') = gov_core (fst sw)) (on_store m)"
  by (auto simp: keeps_def on_store_def split: prod.splits) (metis snd_conv)

lemma keeps_on_world: "keeps (\<lambda>sw sw'. gov_core (fst sw') = gov_core (fst sw)) (on_world m)"
  by (auto simp: keeps_def on_world_def split: prod.splits)

lemma core_refl: "reflp (\<lambda>s s'. gov_core s' = gov_core s)" "transp (\<lambda>s s'. gov_core s' = gov_core s)"
  "reflp (\<lambda>sw sw'. gov_core (fst sw') = gov_core (fst sw))" "transp (\<lambda>sw sw'. gov_core (fst sw') = gov_core (fst sw))"
  by (auto simp: reflp_def transp_def)

lemma keeps_append: "keeps (\<lambda>s s'. gov_core s' = gov_core s) (append_gov_audit ev)"
  by (rule keepsI) (rule append_gov_audit_core)

lemma keeps_read: "keeps (\<lambda>s s'. gov_core s' = gov_core s) (\<lambda>s. (f s, s))"
  by (simp add: keeps_def)

lemma keeps_audit_decisions: "keeps (\<lambda>s s'. gov_core s' = gov_core s) (audit_decisions ids c at1 ds)"
  unfolding audit_decisions_def
  by (intro keeps_bindE keeps_run_all keeps_ret core_refl) (auto intro: keeps_append split: prod.splits)

lemma evaluate_keeps: "keeps (\<lambda>s s'. gov_core s' = gov_core s) (evaluate_retention at0 now ids c cands at1)"
  unfolding evaluate_retention_def Let_def
  by (intro keeps_bindE keeps_lift keeps_ret keeps_read keeps_audit_decisions core_refl)

lemma execute_keeps:
  "keeps (\<lambda>sw sw'. gov_core (fst sw') = gov_core (fst sw)) (execute_retention sha at0 at1 now ids ids' ex adapter c cands ev)"
proof -
  have one: "keeps (\<lambda>sw sw'. gov_core (fst sw') = gov_core (fst sw)) (delete_candidate sha ids' ex adapter c now x)" for x
    unfolding delete_candidate_def
    by (cases x) (auto intro!: keeps_bindE keeps_ret keeps_lift keeps_on_store keeps_on_world keeps_append core_refl)
  show ?thesis unfolding execute_retention_def
    by (intro keeps_bindE keeps_lift keeps_ret keeps_run_all keeps_on_store keeps_read keeps_audit_decisions core_refl one)
qed

lemma export_import_keep:
  "keeps (\<lambda>s s'. gov_core s' = gov_core s) (create_transfer_manifest sha at0 now tid i c v n a b rr)"
  "keeps (\<lambda>s s'. gov_core s' = gov_core s) (record_verified_import sha at0 now iid i c m ver ar cp)"
  unfolding create_transfer_manifest_def record_verified_import_def
  by (intro keeps_bindE keeps_lift keeps_ret keeps_append core_refl; simp add: keeps_def gov_core_def)+

section \<open>Histories\<close>

text \<open>
  A call of the store by contexts and arguments that passed the validation of their models. A \<open>uuid4\<close> is
  fresh. The deletion adapter of a retention run acts on some world \<open>'w\<close>.
\<close>

inductive gov_step :: "sha256_fn \<Rightarrow> 'w itself \<Rightarrow> governance_store \<Rightarrow> governance_store \<Rightarrow> bool" for sha w where
  propose: "valid_context c \<Longrightarrow> gs_changes s (tac_tenant_id c, rid) = None \<Longrightarrow>
    propose_change at0 now rid i c a s = (r, s') \<Longrightarrow> gov_step sha w s s'"
| approve: "valid_context c \<Longrightarrow> approve_change at0 now ai i c rid decision reason s = (r, s') \<Longrightarrow> gov_step sha w s s'"
| retention: "valid_context c \<Longrightarrow> retention_policy_fields p \<Longrightarrow> validate_retention_policy p = Inr p \<Longrightarrow>
    apply_retention_policy sha at0 now i p c rid s = (r, s') \<Longrightarrow> gov_step sha w s s'"
| place: "valid_context c \<Longrightarrow> legal_hold_fields h \<Longrightarrow> validate_legal_hold h = Inr h \<Longrightarrow>
    place_legal_hold at0 i c h s = (r, s') \<Longrightarrow> gov_step sha w s s'"
| propose_release: "valid_context c \<Longrightarrow> gs_changes s (tac_tenant_id c, rid) = None \<Longrightarrow>
    propose_legal_hold_release sha at0 at1 now rid i c hid reason ticket s = (r, s') \<Longrightarrow> gov_step sha w s s'"
| release: "valid_context c \<Longrightarrow> release_legal_hold sha at0 now i c hid rid s = (r, s') \<Longrightarrow> gov_step sha w s s'"
| evaluate: "valid_context c \<Longrightarrow> evaluate_retention at0 now ids c cands evaluation_at s = (r, s') \<Longrightarrow> gov_step sha w s s'"
| execute: "valid_context c \<Longrightarrow>
    execute_retention sha at0 at1 now ids ids' executions adapter c cands evaluation_at (s, world :: 'w) = (r, (s', world')) \<Longrightarrow>
    gov_step sha w s s'"
| bootstrap: "valid_context c \<Longrightarrow> trust_root_policy_fields p \<Longrightarrow> validate_trust_policy p = Inr p \<Longrightarrow>
    bootstrap_trust_root sha at0 now i c p activated rid s = (r, s') \<Longrightarrow> gov_step sha w s s'"
| rotate: "valid_context c \<Longrightarrow> trust_root_policy_fields p \<Longrightarrow> validate_trust_policy p = Inr p \<Longrightarrow>
    key_rotation_plan_fields plan \<Longrightarrow> validate_rotation plan = Inr plan \<Longrightarrow>
    rotate_trust_root sha at0 now i c plan p s = (r, s') \<Longrightarrow> gov_step sha w s s'"
| export: "valid_context c \<Longrightarrow> create_transfer_manifest sha at0 now tid i c v n a b rr s = (r, s') \<Longrightarrow> gov_step sha w s s'"
| import: "valid_context c \<Longrightarrow> record_verified_import sha at0 now iid i c m ver ar cp s = (r, s') \<Longrightarrow> gov_step sha w s s'"

text \<open>What a call does to the governed state: nothing, or one of these changes.\<close>

inductive gov_change :: "sha256_fn \<Rightarrow> governance_store \<Rightarrow> governance_store \<Rightarrow> bool" for sha where
  proposed: "gs_changes s (tac_tenant_id c, rid) = None \<Longrightarrow> valid_context c \<Longrightarrow> new_change now rid c a = Inr x \<Longrightarrow>
    gov_change sha s (s\<lparr>gs_changes := (gs_changes s)((tac_tenant_id c, rid) \<mapsto> x)\<rparr>)"
| decided: "gs_changes s (t, rid) = Some x \<Longrightarrow> gcr_status x = Change_PROPOSED \<Longrightarrow>
    (gcr_risk x \<in> {GovRisk_HIGH, GovRisk_CRITICAL} \<longrightarrow> \<not> same_governance_actor (gcr_proposed_by x) actor) \<Longrightarrow>
    gov_change sha s (s\<lparr>gs_changes := (gs_changes s)((t, rid) \<mapsto> decided_copy decision now actor x)\<rparr>)"
| held: "map_of (gs_holds s) (t, lh_hold_id h) = None \<Longrightarrow> lh_status h = Hold_ACTIVE \<Longrightarrow> lh_tenant_id h = t \<Longrightarrow>
    gov_change sha s (s\<lparr>gs_holds := AList.update (t, lh_hold_id h) h (gs_holds s)\<rparr>)"
| policy_applied: "rp_tenant_id p = t \<Longrightarrow> rp_revision p = next_revision (gs_retention s t) \<Longrightarrow>
    approved_request t rid Target_RETENTION_POLICY (rp_policy_id p) (sha256_hex sha (dump_retention_policy p))
      (retention_digest sha (gs_retention s t)) s = Inr x \<Longrightarrow>
    gov_change sha s (s\<lparr>gs_retention := (gs_retention s)(t := gs_retention s t @ [p]),
      gs_changes := (gs_changes s)((gcr_tenant_id x, gcr_request_id x) \<mapsto> applied_copy now x)\<rparr>)"
| hold_released: "map_of (gs_holds s) (t, hid) = Some h \<Longrightarrow> lh_status h = Hold_ACTIVE \<Longrightarrow>
    approved_request t rid Target_LEGAL_HOLD_RELEASE hid (legal_hold_release_digest sha t hid) None s = Inr x \<Longrightarrow>
    gov_change sha s (s\<lparr>gs_holds := AList.update (t, hid) (released_copy now actor rid h) (gs_holds s),
      gs_changes := (gs_changes s)((gcr_tenant_id x, gcr_request_id x) \<mapsto> applied_copy now x)\<rparr>)"
| root_activated: "(roots = [] \<and> cur = None \<and> n = 1 \<or> roots \<noteq> [] \<and> cur = Some (gtr_policy_sha256 (last roots)) \<and> n = gtr_revision (last roots) + 1) \<Longrightarrow>
    roots = gs_trust_roots s t \<Longrightarrow> gtr_tenant_id root = t \<Longrightarrow> gtr_revision root = n \<Longrightarrow> gtr_policy root = p \<Longrightarrow> gtr_retired_at root = None \<Longrightarrow>
    gtr_policy_sha256 root = sha256_hex sha (dump_trust_root_policy p) \<Longrightarrow> gtr_change_request_id root = rid \<Longrightarrow>
    governed_trust_root_fields root \<Longrightarrow>
    approved_request t rid Target_TRUST_ROOT_POLICY (trp_policy_id p) (sha256_hex sha (dump_trust_root_policy p)) cur s = Inr x \<Longrightarrow>
    gov_change sha s (s\<lparr>gs_trust_roots := (gs_trust_roots s)(t := (if roots = [] then [] else retire_last until roots) @ [root]),
      gs_changes := (gs_changes s)((gcr_tenant_id x, gcr_request_id x) \<mapsto> applied_copy now x)\<rparr>)"

lemma gov_step_change:
  assumes "gov_step sha w s s'" "\<forall>m. is_sha256 (sha m)"
  shows "gov_core s' = gov_core s \<or> (\<exists>u. gov_change sha s u \<and> gov_core s' = gov_core u)"
  using assms(1)
proof cases
  case (propose c rid at0 now i a r)
  from propose_change_effect [OF propose(3,1)] show ?thesis using gov_change.proposed propose(1,2) by blast
next
  case (approve c at0 now ai i rid decision reason r)
  from approve_change_effect [OF approve(2)] show ?thesis using gov_change.decided by blast
next
  case (retention c p at0 now i rid r)
  from apply_retention_effect [OF retention(4)] show ?thesis using gov_change.policy_applied by blast
next
  case (place c h at0 i r)
  from place_hold_effect [OF place(4)] show ?thesis using gov_change.held by metis
next
  case (propose_release c rid at0 at1 now i hid reason ticket r)
  from propose_release_effect [OF propose_release(3,1)] show ?thesis using gov_change.proposed propose_release(1,2) by blast
next
  case (release c at0 now i hid rid r)
  from release_hold_effect [OF release(2)] show ?thesis using gov_change.hold_released by blast
next
  case (evaluate c at0 now ids cands evaluation_at r)
  then show ?thesis using keepsD [OF evaluate_keeps] by blast
next
  case (execute c at0 at1 now ids ids' executions adapter cands evaluation_at world r world')
  then show ?thesis using keepsD [OF execute_keeps] by fastforce
next
  case (bootstrap c p at0 now i activated rid r)
  from bootstrap_effect [OF bootstrap(4)] show ?thesis
  proof (elim disjE exE conjE)
    fix x root
    assume b: "gs_trust_roots s (tac_tenant_id c) = []"
      "approved_request (tac_tenant_id c) rid Target_TRUST_ROOT_POLICY (trp_policy_id p) (sha256_hex sha (dump_trust_root_policy p)) None s = Inr x"
      "new_trust_root sha c 1 p activated rid = Inr root"
      "gov_core s' = gov_core (s\<lparr>gs_trust_roots := (gs_trust_roots s)(tac_tenant_id c := [root]),
        gs_changes := (gs_changes s)((gcr_tenant_id x, gcr_request_id x) \<mapsto> applied_copy now x)\<rparr>)"
    note n = new_trust_root_shape [OF b(3) bootstrap(1)]
    let ?roots = "gs_trust_roots s (tac_tenant_id c)"
    have "gov_change sha s (s\<lparr>gs_trust_roots := (gs_trust_roots s)(tac_tenant_id c := (if ?roots = [] then [] else retire_last 0 ?roots) @ [root]),
        gs_changes := (gs_changes s)((gcr_tenant_id x, gcr_request_id x) \<mapsto> applied_copy now x)\<rparr>)"
      by (rule gov_change.root_activated [OF _ refl n(1) n(2) n(3) n(4) n(5) n(6) n(7) b(2)]) (use b(1) in simp)
    with b(1,4) show ?thesis by auto
  qed simp
next
  case (rotate c p plan at0 now i r)
  from rotate_effect [OF rotate(6) rotate(1) assms(2) rotate(4) rotate(2)] show ?thesis
  proof (elim disjE exE conjE)
    fix x root
    let ?roots = "gs_trust_roots s (tac_tenant_id c)"
    assume b: "?roots \<noteq> []" "krp_to_revision plan = gtr_revision (last ?roots) + 1"
      "approved_request (tac_tenant_id c) (krp_change_request_id plan) Target_TRUST_ROOT_POLICY (trp_policy_id p)
        (sha256_hex sha (dump_trust_root_policy p)) (Some (gtr_policy_sha256 (last ?roots))) s = Inr x"
      "new_trust_root sha c (krp_to_revision plan) p (krp_activate_at plan) (krp_change_request_id plan) = Inr root"
      "gov_core s' = gov_core (s\<lparr>gs_trust_roots := (gs_trust_roots s)(tac_tenant_id c := retire_last (krp_overlap_until plan) ?roots @ [root]),
        gs_changes := (gs_changes s)((gcr_tenant_id x, gcr_request_id x) \<mapsto> applied_copy now x)\<rparr>)"
    note n = new_trust_root_shape [OF b(4) rotate(1)]
    have "gov_change sha s (s\<lparr>gs_trust_roots := (gs_trust_roots s)(tac_tenant_id c := (if ?roots = [] then [] else retire_last (krp_overlap_until plan) ?roots) @ [root]),
        gs_changes := (gs_changes s)((gcr_tenant_id x, gcr_request_id x) \<mapsto> applied_copy now x)\<rparr>)"
      by (rule gov_change.root_activated [OF _ refl n(1) n(2) n(3) n(4) n(5) n(6) n(7) b(3)]) (use b(1,2) in simp)
    with b(1,5) show ?thesis by auto
  qed simp
next
  case (export c at0 now tid i v n a b rr r)
  then show ?thesis using keepsD [OF export_import_keep(1)] by blast
next
  case (import c at0 now iid i m ver ar cp r)
  then show ?thesis using keepsD [OF export_import_keep(2)] by blast
qed

section \<open>The abstract machine\<close>

text \<open>
  A change request is awaiting a decision, granted by an actor, refused, or spent. The governed resources are the
  digests of the retention policies and of the trust roots of each tenant, and its legal holds, in force or not.
  A policy or root is added, or a hold released, only when a granted request for exactly this change is spent. As in the code, a
  grant must come from another actor than the proposer only at high or critical risk, and placing a hold takes no request.
\<close>

datatype change_phase = Awaiting | Granted actor_ref | Refused | Spent actor_ref

record change_core =
  ch_target_type :: governance_target_type
  ch_target_id :: string
  ch_digest :: string
  ch_expected :: "string option"
  ch_risk :: governance_risk
  ch_proposer :: actor_ref

record governed_spec =
  sp_changes :: "(string \<times> uuid) \<rightharpoonup> change_core \<times> change_phase"
  sp_policies :: "string \<Rightarrow> string list"
  sp_roots :: "string \<Rightarrow> string list"
  sp_held :: "(string \<times> uuid) \<rightharpoonup> bool"

definition independent :: "change_core \<Rightarrow> actor_ref \<Rightarrow> bool" where
  "independent core a \<longleftrightarrow> (ch_risk core \<in> {GovRisk_HIGH, GovRisk_CRITICAL} \<longrightarrow> \<not> same_governance_actor (ch_proposer core) a)"

definition newest :: "string list \<Rightarrow> string option" where
  "newest ds = (if ds = [] then None else Some (last ds))"

inductive spec_step :: "sha256_fn \<Rightarrow> governed_spec \<Rightarrow> governed_spec \<Rightarrow> bool" for sha where
  propose: "sp_changes s k = None \<Longrightarrow> spec_step sha s (s\<lparr>sp_changes := (sp_changes s)(k \<mapsto> (core, Awaiting))\<rparr>)"
| grant: "sp_changes s k = Some (core, Awaiting) \<Longrightarrow> independent core a \<Longrightarrow>
    spec_step sha s (s\<lparr>sp_changes := (sp_changes s)(k \<mapsto> (core, Granted a))\<rparr>)"
| refuse: "sp_changes s k = Some (core, Awaiting) \<Longrightarrow> spec_step sha s (s\<lparr>sp_changes := (sp_changes s)(k \<mapsto> (core, Refused))\<rparr>)"
| hold: "sp_held s k = None \<Longrightarrow> spec_step sha s (s\<lparr>sp_held := (sp_held s)(k \<mapsto> True)\<rparr>)"
| release: "sp_changes s (t, rid) = Some (core, Granted a) \<Longrightarrow> ch_target_type core = Target_LEGAL_HOLD_RELEASE \<Longrightarrow>
    sp_held s (t, ch_target_id core) = Some True \<Longrightarrow> ch_digest core = legal_hold_release_digest sha t (ch_target_id core) \<Longrightarrow>
    spec_step sha s (s\<lparr>sp_held := (sp_held s)((t, ch_target_id core) \<mapsto> False), sp_changes := (sp_changes s)((t, rid) \<mapsto> (core, Spent a))\<rparr>)"
| set_policy: "sp_changes s (t, rid) = Some (core, Granted a) \<Longrightarrow> ch_target_type core = Target_RETENTION_POLICY \<Longrightarrow>
    ch_expected core = newest (sp_policies s t) \<Longrightarrow>
    spec_step sha s (s\<lparr>sp_policies := (sp_policies s)(t := sp_policies s t @ [ch_digest core]), sp_changes := (sp_changes s)((t, rid) \<mapsto> (core, Spent a))\<rparr>)"
| set_root: "sp_changes s (t, rid) = Some (core, Granted a) \<Longrightarrow> ch_target_type core = Target_TRUST_ROOT_POLICY \<Longrightarrow>
    ch_expected core = newest (sp_roots s t) \<Longrightarrow>
    spec_step sha s (s\<lparr>sp_roots := (sp_roots s)(t := sp_roots s t @ [ch_digest core]), sp_changes := (sp_changes s)((t, rid) \<mapsto> (core, Spent a))\<rparr>)"

text \<open>What one step may do to the resources: a request is spent when it was granted, independently at high risk, and is spent afterwards.\<close>

definition spends :: "governed_spec \<Rightarrow> governed_spec \<Rightarrow> string \<Rightarrow> change_core \<Rightarrow> bool" where
  "spends s s' t core \<longleftrightarrow> (\<exists>rid a. sp_changes s (t, rid) = Some (core, Granted a) \<and> independent core a
    \<and> sp_changes s' (t, rid) = Some (core, Spent a))"

definition guarded :: "sha256_fn \<Rightarrow> governed_spec \<Rightarrow> governed_spec \<Rightarrow> bool" where
  "guarded sha s s' \<longleftrightarrow>
    (\<forall>t. sp_policies s' t \<noteq> sp_policies s t \<longrightarrow> (\<exists>core. spends s s' t core \<and> ch_target_type core = Target_RETENTION_POLICY
        \<and> ch_expected core = newest (sp_policies s t) \<and> sp_policies s' t = sp_policies s t @ [ch_digest core]))
    \<and> (\<forall>t. sp_roots s' t \<noteq> sp_roots s t \<longrightarrow> (\<exists>core. spends s s' t core \<and> ch_target_type core = Target_TRUST_ROOT_POLICY
        \<and> ch_expected core = newest (sp_roots s t) \<and> sp_roots s' t = sp_roots s t @ [ch_digest core]))
    \<and> (\<forall>t h. sp_held s (t, h) = Some True \<longrightarrow> sp_held s' (t, h) \<noteq> Some True \<longrightarrow> sp_held s' (t, h) = Some False
        \<and> (\<exists>core. spends s s' t core \<and> ch_target_type core = Target_LEGAL_HOLD_RELEASE \<and> ch_target_id core = h
              \<and> ch_digest core = legal_hold_release_digest sha t h))
    \<and> (\<forall>k. sp_held s k = Some False \<longrightarrow> sp_held s' k = Some False)"

definition grants_independent :: "governed_spec \<Rightarrow> bool" where
  "grants_independent s \<longleftrightarrow> (\<forall>k core a. sp_changes s k = Some (core, Granted a) \<longrightarrow> independent core a)"

lemma spec_step_independent: "spec_step sha s s' \<Longrightarrow> grants_independent s \<Longrightarrow> grants_independent s'"
  by (induction rule: spec_step.induct) (auto simp: grants_independent_def split: if_splits)

lemma spec_step_guarded:
  assumes "spec_step sha s s'" "grants_independent s"
  shows "guarded sha s s'"
  using assms(1)
proof cases
  case (release t rid core a)
  then have "spends s s' t core" using assms(2) by (auto simp: spends_def grants_independent_def)
  with release show ?thesis by (auto simp: guarded_def)
next
  case (set_policy t rid core a)
  then have "spends s s' t core" using assms(2) by (auto simp: spends_def grants_independent_def)
  with set_policy show ?thesis by (auto simp: guarded_def)
next
  case (set_root t rid core a)
  then have "spends s s' t core" using assms(2) by (auto simp: spends_def grants_independent_def)
  with set_root show ?thesis by (auto simp: guarded_def)
qed (auto simp: guarded_def)

lemma guarded_refl: "guarded sha s s"
  by (simp add: guarded_def)

definition core_of :: "governance_change_request \<Rightarrow> change_core" where
  "core_of r = \<lparr>ch_target_type = gcr_target_type r, ch_target_id = gcr_target_id r, ch_digest = gcr_proposed_digest r,
     ch_expected = gcr_expected_current_digest r, ch_risk = gcr_risk r, ch_proposer = gcr_proposed_by r\<rparr>"

definition phase_of :: "governance_change_request \<Rightarrow> change_phase" where
  "phase_of r = (case gcr_status r of Change_PROPOSED \<Rightarrow> Awaiting | Change_APPROVED \<Rightarrow> Granted (the (gcr_approved_by r))
     | Change_APPLIED \<Rightarrow> Spent (the (gcr_approved_by r)) | _ \<Rightarrow> Refused)"

definition gov_abs :: "sha256_fn \<Rightarrow> governance_store \<Rightarrow> governed_spec" where
  "gov_abs sha s = \<lparr>sp_changes = (\<lambda>k. map_option (\<lambda>r. (core_of r, phase_of r)) (gs_changes s k)),
     sp_policies = (\<lambda>t. map (\<lambda>p. sha256_hex sha (dump_retention_policy p)) (gs_retention s t)),
     sp_roots = (\<lambda>t. map gtr_policy_sha256 (gs_trust_roots s t)),
     sp_held = (\<lambda>k. map_option (\<lambda>h. lh_status h = Hold_ACTIVE) (map_of (gs_holds s) k))\<rparr>"

definition spec_init :: governed_spec where
  "spec_init = \<lparr>sp_changes = Map.empty, sp_policies = (\<lambda>_. []), sp_roots = (\<lambda>_. []), sp_held = Map.empty\<rparr>"

lemma gov_abs_core: "gov_core s = gov_core t \<Longrightarrow> gov_abs sha s = gov_abs sha t"
  by (simp add: gov_core_eq_iff gov_abs_def)

lemma gov_abs_sel:
  "sp_changes (gov_abs sha s) k = map_option (\<lambda>r. (core_of r, phase_of r)) (gs_changes s k)"
  "sp_held (gov_abs sha s) k = map_option (\<lambda>h. lh_status h = Hold_ACTIVE) (map_of (gs_holds s) k)"
  by (simp_all add: gov_abs_def)

lemma gov_abs_sp_roots: "sp_roots (gov_abs sha s) t = map gtr_policy_sha256 (gs_trust_roots s t)"
  by (simp add: gov_abs_def)

lemma gov_abs_change:
  "gov_abs sha (s\<lparr>gs_changes := (gs_changes s)(k \<mapsto> x)\<rparr>) = (gov_abs sha s)\<lparr>sp_changes := (sp_changes (gov_abs sha s))(k \<mapsto> (core_of x, phase_of x))\<rparr>"
  by (auto simp: gov_abs_def)

lemma gov_abs_hold:
  "gov_abs sha (s\<lparr>gs_holds := AList.update k h (gs_holds s)\<rparr>) = (gov_abs sha s)\<lparr>sp_held := (sp_held (gov_abs sha s))(k \<mapsto> lh_status h = Hold_ACTIVE)\<rparr>"
  by (auto simp: gov_abs_def update_conv)

lemma gov_abs_policy:
  "gov_abs sha (s\<lparr>gs_retention := (gs_retention s)(t := gs_retention s t @ [p])\<rparr>)
    = (gov_abs sha s)\<lparr>sp_policies := (sp_policies (gov_abs sha s))(t := sp_policies (gov_abs sha s) t @ [sha256_hex sha (dump_retention_policy p)])\<rparr>"
  by (auto simp: gov_abs_def)

lemma gov_abs_roots:
  "gov_abs sha (s\<lparr>gs_trust_roots := (gs_trust_roots s)(t := rs)\<rparr>)
    = (gov_abs sha s)\<lparr>sp_roots := (sp_roots (gov_abs sha s))(t := map gtr_policy_sha256 rs)\<rparr>"
  by (auto simp: gov_abs_def)

lemma retire_last_map [simp]: "roots \<noteq> [] \<Longrightarrow> map gtr_policy_sha256 (retire_last u roots) = map gtr_policy_sha256 roots"
  by (cases roots rule: rev_cases) (simp_all add: retire_last_def)

lemma phase_copies [simp]:
  "core_of (applied_copy now x) = core_of x" "core_of (decided_copy decision now a x) = core_of x"
  "phase_of (applied_copy now x) = Spent (the (gcr_approved_by x))"
  "phase_of (decided_copy decision now a x) = (if decision = Decide_REJECT then Refused else Granted a)"
  by (simp_all add: core_of_def applied_copy_def decided_copy_def phase_of_def)

text \<open>Every stored request is filed under its own key and satisfies the validator of its model.\<close>

definition requests_ok :: "governance_store \<Rightarrow> bool" where
  "requests_ok s \<longleftrightarrow> (\<forall>k r. gs_changes s k = Some r \<longrightarrow> (gcr_tenant_id r, gcr_request_id r) = k \<and> validate_change r = Inr r)"

lemma abs_granted:
  assumes "approved_request t rid ty tid d cur s = Inr x"
  shows "sp_changes (gov_abs sha s) (t, rid) = Some (core_of x, Granted (the (gcr_approved_by x)))"
    "ch_target_type (core_of x) = ty" "ch_target_id (core_of x) = tid" "ch_digest (core_of x) = d" "ch_expected (core_of x) = cur"
  using approved_request_cases [OF assms] by (simp_all add: gov_abs_def phase_of_def core_of_def)

lemma requests_key: "requests_ok s \<Longrightarrow> approved_request t rid ty tid d cur s = Inr x \<Longrightarrow> (gcr_tenant_id x, gcr_request_id x) = (t, rid)"
  using approved_request_cases(1) [of t rid ty tid d cur s x] unfolding requests_ok_def by blast

lemma gov_change_refines:
  assumes "gov_change sha s s'" "requests_ok s"
  shows "spec_step sha (gov_abs sha s) (gov_abs sha s')"
  using assms(1)
proof cases
  case (proposed c rid now a x)
  have "phase_of x = Awaiting" using new_change_shape [OF proposed(4,3)] by (simp add: phase_of_def)
  with proposed show ?thesis by (simp add: gov_abs_change spec_step.propose gov_abs_sel)
next
  case (decided t rid x actor decision now)
  have "sp_changes (gov_abs sha s) (t, rid) = Some (core_of x, Awaiting)" using decided by (simp add: gov_abs_def phase_of_def)
  moreover have "independent (core_of x) actor" using decided by (simp add: independent_def core_of_def)
  ultimately show ?thesis using decided(1) by (simp add: gov_abs_change spec_step.grant spec_step.refuse)
next
  case (held t h)
  then show ?thesis by (simp add: gov_abs_hold spec_step.hold gov_abs_sel)
next
  case (policy_applied p t rid x now)
  note g = abs_granted [OF policy_applied(4)] and k = requests_key [OF assms(2) policy_applied(4)]
  have "ch_expected (core_of x) = newest (sp_policies (gov_abs sha s) t)"
    by (simp add: g(5) retention_digest_def newest_def gov_abs_def last_map)
  from spec_step.set_policy [OF g(1,2) this] k g(4) policy_applied(1) show ?thesis
    using gov_abs_change [of sha "s\<lparr>gs_retention := (gs_retention s)(t := gs_retention s t @ [p])\<rparr>"] by (simp add: gov_abs_policy)
next
  case (hold_released t hid h rid x now actor)
  note g = abs_granted [OF hold_released(4)] and k = requests_key [OF assms(2) hold_released(4)]
  have "sp_held (gov_abs sha s) (t, ch_target_id (core_of x)) = Some True" using hold_released(2,3) by (simp add: g(3) gov_abs_def)
  from spec_step.release [OF g(1,2) this] k g(3,4) hold_released(1) show ?thesis
    using gov_abs_change [of sha "s\<lparr>gs_holds := AList.update (t, hid) (released_copy now actor rid h) (gs_holds s)\<rparr>"]
    by (simp add: gov_abs_hold released_copy_def)
next
  case (root_activated roots cur n t root p rid x now until)
  note g = abs_granted [OF root_activated(11)] and k = requests_key [OF assms(2) root_activated(11)]
  have "ch_expected (core_of x) = newest (sp_roots (gov_abs sha s) t)"
    using root_activated(2,3) by (auto simp: g(5) newest_def gov_abs_def last_map)
  from spec_step.set_root [OF g(1,2) this] k g(4) root_activated(1,3,8) show ?thesis
    using gov_abs_change [of sha "s\<lparr>gs_trust_roots := (gs_trust_roots s)(t := (if roots = [] then [] else retire_last until roots) @ [root])\<rparr>"]
    by (cases "roots = []") (simp_all add: gov_abs_roots gov_abs_sp_roots)
qed

section \<open>The invariant of the governed state\<close>

text \<open>A change was made under an applied request for exactly it, approved by an actor who, at high risk, is not the proposer.\<close>

definition backed :: "governance_store \<Rightarrow> string \<Rightarrow> uuid \<Rightarrow> governance_target_type \<Rightarrow> string \<Rightarrow> string \<Rightarrow> bool" where
  "backed s t rid ty tid d \<longleftrightarrow> (\<exists>r a. gs_changes s (t, rid) = Some r \<and> gcr_status r = Change_APPLIED \<and> gcr_target_type r = ty
    \<and> gcr_target_id r = tid \<and> gcr_proposed_digest r = d \<and> gcr_approved_by r = Some a
    \<and> (gcr_risk r \<in> {GovRisk_HIGH, GovRisk_CRITICAL} \<longrightarrow> \<not> same_governance_actor (gcr_proposed_by r) a))"

definition policies_ok :: "sha256_fn \<Rightarrow> governance_store \<Rightarrow> bool" where
  "policies_ok sha s \<longleftrightarrow> (\<forall>t. map rp_revision (gs_retention s t) = [1..int (length (gs_retention s t))]
    \<and> (\<forall>p \<in> set (gs_retention s t). rp_tenant_id p = t
        \<and> (\<exists>rid. backed s t rid Target_RETENTION_POLICY (rp_policy_id p) (sha256_hex sha (dump_retention_policy p)))))"

definition holds_ok :: "sha256_fn \<Rightarrow> governance_store \<Rightarrow> bool" where
  "holds_ok sha s \<longleftrightarrow> (\<forall>t i h. map_of (gs_holds s) (t, i) = Some h \<longrightarrow> lh_tenant_id h = t \<and> (lh_status h = Hold_RELEASED \<longrightarrow>
    (\<exists>rid. lh_release_change_request_id h = Some rid
      \<and> backed s t rid Target_LEGAL_HOLD_RELEASE i (legal_hold_release_digest sha t i))))"

definition roots_ok :: "sha256_fn \<Rightarrow> governance_store \<Rightarrow> bool" where
  "roots_ok sha s \<longleftrightarrow> (\<forall>t. let roots = gs_trust_roots s t in map gtr_revision roots = [1..int (length roots)]
    \<and> (\<forall>r \<in> set (butlast roots). gtr_retired_at r \<noteq> None) \<and> (roots \<noteq> [] \<longrightarrow> gtr_retired_at (last roots) = None)
    \<and> distinct (map gtr_change_request_id roots)
    \<and> (\<forall>r \<in> set roots. gtr_tenant_id r = t \<and> governed_trust_root_fields r
        \<and> gtr_policy_sha256 r = sha256_hex sha (dump_trust_root_policy (gtr_policy r))
        \<and> backed s t (gtr_change_request_id r) Target_TRUST_ROOT_POLICY (trp_policy_id (gtr_policy r)) (gtr_policy_sha256 r)))"

definition gov_inv :: "sha256_fn \<Rightarrow> governance_store \<Rightarrow> bool" where
  "gov_inv sha s \<longleftrightarrow> requests_ok s \<and> policies_ok sha s \<and> holds_ok sha s \<and> roots_ok sha s"

lemma decided_copy_ok:
  assumes "validate_change x = Inr x" "gcr_status x = Change_PROPOSED"
    "gcr_risk x \<in> {GovRisk_HIGH, GovRisk_CRITICAL} \<longrightarrow> \<not> same_governance_actor (gcr_proposed_by x) actor"
  shows "validate_change (decided_copy decision now actor x) = Inr (decided_copy decision now actor x)"
  using assms unfolding validate_change_iff by (auto simp: decided_copy_def same_governance_actor_def)

lemma applied_copy_ok:
  assumes "validate_change x = Inr x" "gcr_status x = Change_APPROVED"
  shows "validate_change (applied_copy now x) = Inr (applied_copy now x)"
  using assms unfolding validate_change_iff by (auto simp: applied_copy_def)

lemma copies_key [simp]:
  "gcr_tenant_id (decided_copy decision now actor x) = gcr_tenant_id x" "gcr_request_id (decided_copy decision now actor x) = gcr_request_id x"
  "gcr_tenant_id (applied_copy now x) = gcr_tenant_id x" "gcr_request_id (applied_copy now x) = gcr_request_id x"
  by (simp_all add: decided_copy_def applied_copy_def)

lemma requests_ok_upd:
  assumes "requests_ok s" "(gcr_tenant_id r, gcr_request_id r) = k" "validate_change r = Inr r" "gs_changes u = (gs_changes s)(k \<mapsto> r)"
  shows "requests_ok u"
  using assms unfolding requests_ok_def by auto

lemma change_requests_ok:
  assumes "gov_change sha s s'" "requests_ok s"
  shows "requests_ok s'"
  using assms(1)
proof cases
  case (proposed c rid now a x)
  from new_change_shape [OF proposed(4,3)] show ?thesis
    by (intro requests_ok_upd [OF assms(2), where r = x and k = "(tac_tenant_id c, rid)"]) (simp_all add: proposed(1))
next
  case (decided t rid x actor decision now)
  have x: "(gcr_tenant_id x, gcr_request_id x) = (t, rid)" "validate_change x = Inr x" using assms(2) decided(2) unfolding requests_ok_def by blast+
  then show ?thesis
    by (intro requests_ok_upd [OF assms(2), where r = "decided_copy decision now actor x" and k = "(t, rid)"] decided_copy_ok decided(3,4))
      (simp_all add: decided(1))
next
  case (held t h)
  with assms(2) show ?thesis by (simp add: requests_ok_def)
next
  case (policy_applied p t rid x now)
  note a = approved_request_cases [OF policy_applied(4)]
  have x: "validate_change x = Inr x" using assms(2) a(1) unfolding requests_ok_def by blast
  show ?thesis
    by (rule requests_ok_upd [OF assms(2) _ applied_copy_ok [OF x a(2)]]) (simp_all add: policy_applied(1))
next
  case (hold_released t hid h rid x now actor)
  note a = approved_request_cases [OF hold_released(4)]
  have x: "validate_change x = Inr x" using assms(2) a(1) unfolding requests_ok_def by blast
  show ?thesis
    by (rule requests_ok_upd [OF assms(2) _ applied_copy_ok [OF x a(2)]]) (simp_all add: hold_released(1))
next
  case (root_activated roots cur n t root p rid x now until)
  note a = approved_request_cases [OF root_activated(11)]
  have x: "validate_change x = Inr x" using assms(2) a(1) unfolding requests_ok_def by blast
  show ?thesis
    by (rule requests_ok_upd [OF assms(2) _ applied_copy_ok [OF x a(2)]]) (simp_all add: root_activated(1))
qed

lemma change_keeps_applied:
  assumes "gov_change sha s s'" "requests_ok s" "gs_changes s k = Some r" "gcr_status r = Change_APPLIED"
  shows "gs_changes s' k = Some r"
proof -
  have no: "(gcr_tenant_id x, gcr_request_id x) \<noteq> k" if "approved_request t rid ty tid d cur s = Inr x" for t rid ty tid d cur x
    using approved_request_cases(1,2) [OF that] requests_key [OF assms(2) that] assms(3,4) by auto
  from assms(1) show ?thesis
  proof cases
    case (policy_applied p t rid x now)
    from no [OF policy_applied(4)] assms(3) show ?thesis by (auto simp: policy_applied(1))
  next
    case (hold_released t hid h rid x now actor)
    from no [OF hold_released(4)] assms(3) show ?thesis by (auto simp: hold_released(1))
  next
    case (root_activated roots cur n t root p rid x now until)
    from no [OF root_activated(11)] assms(3) show ?thesis by (auto simp: root_activated(1))
  qed (use assms(3,4) in auto)
qed

lemma change_keeps_backed:
  assumes "gov_change sha s s'" "requests_ok s" "backed s t rid ty tid d"
  shows "backed s' t rid ty tid d"
proof -
  obtain r a where r: "gs_changes s (t, rid) = Some r" "gcr_status r = Change_APPLIED" "gcr_target_type r = ty"
    "gcr_target_id r = tid" "gcr_proposed_digest r = d" "gcr_approved_by r = Some a"
    "gcr_risk r \<in> {GovRisk_HIGH, GovRisk_CRITICAL} \<longrightarrow> \<not> same_governance_actor (gcr_proposed_by r) a"
    using assms(3) unfolding backed_def by blast
  from change_keeps_applied [OF assms(1,2) r(1,2)] r(2-) show ?thesis unfolding backed_def by blast
qed

lemma applied_backed:
  assumes "approved_request t rid ty tid d cur s = Inr x" "requests_ok s"
    "gs_changes u = (gs_changes s)((gcr_tenant_id x, gcr_request_id x) \<mapsto> applied_copy now x)"
  shows "backed u t rid ty tid d"
proof -
  note a = approved_request_cases [OF assms(1)] and k = requests_key [OF assms(2,1)]
  have "validate_change x = Inr x" using assms(2) a(1) unfolding requests_ok_def by blast
  then obtain b where b: "gcr_approved_by x = Some b"
    "gcr_risk x \<in> {GovRisk_HIGH, GovRisk_CRITICAL} \<longrightarrow> \<not> same_governance_actor (gcr_proposed_by x) b"
    using a(2) unfolding validate_change_iff same_governance_actor_def by auto
  have "gs_changes u (t, rid) = Some (applied_copy now x)" using assms(3) k by simp
  moreover have "gcr_status (applied_copy now x) = Change_APPLIED" "gcr_target_type (applied_copy now x) = ty"
    "gcr_target_id (applied_copy now x) = tid" "gcr_proposed_digest (applied_copy now x) = d"
    "gcr_approved_by (applied_copy now x) = Some b" "gcr_risk (applied_copy now x) = gcr_risk x"
    "gcr_proposed_by (applied_copy now x) = gcr_proposed_by x"
    using a b by (simp_all add: applied_copy_def)
  ultimately show ?thesis unfolding backed_def using b(2) by metis
qed

lemma upto_snoc: "[1..int n] @ [int n + 1] = [1..int (Suc n)]"
  by (subst upto_rec2 [of 1 "int (Suc n)"]) (simp_all add: algebra_simps)

lemma numbered_last:
  assumes "map f xs = [1..int (length xs)]" "xs \<noteq> []"
  shows "f (last xs) = int (length xs)"
proof -
  have "1 \<le> int (length xs)" using assms(2) by (cases xs) simp_all
  then have "last [1..int (length xs)] = int (length xs)" by (subst upto_rec2) simp_all
  with assms show ?thesis by (metis last_map)
qed

lemma policies_okI:
  assumes "\<And>t. map rp_revision (gs_retention s t) = [1..int (length (gs_retention s t))]"
    "\<And>t p. p \<in> set (gs_retention s t) \<Longrightarrow> rp_tenant_id p = t
      \<and> (\<exists>rid. backed s t rid Target_RETENTION_POLICY (rp_policy_id p) (sha256_hex sha (dump_retention_policy p)))"
  shows "policies_ok sha s"
  using assms unfolding policies_ok_def by blast

lemma change_policies_ok:
  assumes "gov_change sha s s'" "requests_ok s" "policies_ok sha s"
  shows "policies_ok sha s'"
proof -
  have keep: "rp_tenant_id p = t \<and> (\<exists>rid. backed s' t rid Target_RETENTION_POLICY (rp_policy_id p) (sha256_hex sha (dump_retention_policy p)))"
    if "p \<in> set (gs_retention s t)" for p t
    using that assms(3) change_keeps_backed [OF assms(1,2)] unfolding policies_ok_def by blast
  have same: ?thesis if "gs_retention s' = gs_retention s"
    using that keep assms(3) unfolding policies_ok_def by simp
  from assms(1) show ?thesis
  proof cases
    case (policy_applied p t rid x now)
    have num: "map rp_revision (gs_retention s t) = [1..int (length (gs_retention s t))]" using assms(3) unfolding policies_ok_def by blast
    have rev: "rp_revision p = int (length (gs_retention s t)) + 1"
      using policy_applied(3) numbered_last [OF num] by (auto simp: next_revision_def)
    have new: "backed s' t rid Target_RETENTION_POLICY (rp_policy_id p) (sha256_hex sha (dump_retention_policy p))"
      by (rule applied_backed [OF policy_applied(4) assms(2)]) (simp add: policy_applied(1))
    show ?thesis
    proof (rule policies_okI)
      fix u
      show "map rp_revision (gs_retention s' u) = [1..int (length (gs_retention s' u))]"
        using assms(3) num rev upto_snoc by (simp add: policy_applied(1) policies_ok_def)
      fix q
      assume "q \<in> set (gs_retention s' u)"
      then have "q \<in> set (gs_retention s u) \<or> u = t \<and> q = p" by (auto simp: policy_applied(1) split: if_splits)
      then show "rp_tenant_id q = u \<and> (\<exists>rid. backed s' u rid Target_RETENTION_POLICY (rp_policy_id q) (sha256_hex sha (dump_retention_policy q)))"
        using keep new policy_applied(2) by blast
    qed
  qed (use same in simp_all)
qed

lemma change_holds_ok:
  assumes "gov_change sha s s'" "requests_ok s" "holds_ok sha s"
  shows "holds_ok sha s'"
proof -
  have keep: "lh_tenant_id h = t \<and> (lh_status h = Hold_RELEASED \<longrightarrow> (\<exists>rid. lh_release_change_request_id h = Some rid
      \<and> backed s' t rid Target_LEGAL_HOLD_RELEASE i (legal_hold_release_digest sha t i)))"
    if "map_of (gs_holds s) (t, i) = Some h" for t i h
    using that assms(3) change_keeps_backed [OF assms(1,2)] unfolding holds_ok_def by blast
  have same: ?thesis if "gs_holds s' = gs_holds s" using that keep unfolding holds_ok_def by simp
  from assms(1) show ?thesis
  proof cases
    case (held t h)
    then show ?thesis using keep unfolding holds_ok_def by (auto simp: update_conv)
  next
    case (hold_released t hid h rid x now actor)
    have new: "backed s' t rid Target_LEGAL_HOLD_RELEASE hid (legal_hold_release_digest sha t hid)"
      by (rule applied_backed [OF hold_released(4) assms(2)]) (simp add: hold_released(1))
    have "lh_tenant_id h = t" using hold_released(2) keep by blast
    then have "lh_tenant_id (released_copy now actor rid h) = t" "lh_release_change_request_id (released_copy now actor rid h) = Some rid"
      by (simp_all add: released_copy_def)
    moreover have "map_of (gs_holds s') = (map_of (gs_holds s))((t, hid) \<mapsto> released_copy now actor rid h)"
      by (simp add: hold_released(1) update_conv')
    ultimately show ?thesis using keep new unfolding holds_ok_def by auto
  qed (use same in simp_all)
qed

lemma roots_okI:
  assumes "\<And>t. map gtr_revision (gs_trust_roots s t) = [1..int (length (gs_trust_roots s t))]"
    "\<And>t r. r \<in> set (butlast (gs_trust_roots s t)) \<Longrightarrow> gtr_retired_at r \<noteq> None"
    "\<And>t. gs_trust_roots s t \<noteq> [] \<Longrightarrow> gtr_retired_at (last (gs_trust_roots s t)) = None"
    "\<And>t. distinct (map gtr_change_request_id (gs_trust_roots s t))"
    "\<And>t r. r \<in> set (gs_trust_roots s t) \<Longrightarrow> gtr_tenant_id r = t \<and> governed_trust_root_fields r
        \<and> gtr_policy_sha256 r = sha256_hex sha (dump_trust_root_policy (gtr_policy r))
        \<and> backed s t (gtr_change_request_id r) Target_TRUST_ROOT_POLICY (trp_policy_id (gtr_policy r)) (gtr_policy_sha256 r)"
  shows "roots_ok sha s"
  using assms unfolding roots_ok_def Let_def by blast

lemma roots_okD:
  assumes "roots_ok sha s"
  shows "map gtr_revision (gs_trust_roots s t) = [1..int (length (gs_trust_roots s t))]"
    "r \<in> set (butlast (gs_trust_roots s t)) \<Longrightarrow> gtr_retired_at r \<noteq> None"
    "gs_trust_roots s t \<noteq> [] \<Longrightarrow> gtr_retired_at (last (gs_trust_roots s t)) = None"
    "distinct (map gtr_change_request_id (gs_trust_roots s t))"
    "r \<in> set (gs_trust_roots s t) \<Longrightarrow> gtr_tenant_id r = t \<and> governed_trust_root_fields r
        \<and> gtr_policy_sha256 r = sha256_hex sha (dump_trust_root_policy (gtr_policy r))
        \<and> backed s t (gtr_change_request_id r) Target_TRUST_ROOT_POLICY (trp_policy_id (gtr_policy r)) (gtr_policy_sha256 r)"
  using assms unfolding roots_ok_def Let_def by blast+

definition retired_roots :: "datetime \<Rightarrow> governed_trust_root list \<Rightarrow> governed_trust_root list" where
  "retired_roots until roots = (if roots = [] then [] else retire_last until roots)"

lemma retired_roots:
  "map gtr_revision (retired_roots u roots) = map gtr_revision roots" "length (retired_roots u roots) = length roots"
  "map gtr_change_request_id (retired_roots u roots) = map gtr_change_request_id roots"
  "(\<forall>r \<in> set (butlast roots). gtr_retired_at r \<noteq> None) \<Longrightarrow> r \<in> set (retired_roots u roots) \<Longrightarrow> gtr_retired_at r \<noteq> None"
  "r \<in> set (retired_roots u roots) \<Longrightarrow> \<exists>q \<in> set roots. r = q \<or> r = q\<lparr>gtr_retired_at := Some u\<rparr>"
  by (cases roots rule: rev_cases; auto simp: retired_roots_def retire_last_def)+

lemma change_roots_ok:
  assumes "gov_change sha s s'" "requests_ok s" "roots_ok sha s"
  shows "roots_ok sha s'"
proof -
  note inv = roots_okD [OF assms(3)]
  have keep: "gtr_tenant_id r = t \<and> governed_trust_root_fields r \<and> gtr_policy_sha256 r = sha256_hex sha (dump_trust_root_policy (gtr_policy r))
        \<and> backed s' t (gtr_change_request_id r) Target_TRUST_ROOT_POLICY (trp_policy_id (gtr_policy r)) (gtr_policy_sha256 r)"
    if "r \<in> set (gs_trust_roots s t)" for r t
    using inv(5) [OF that] change_keeps_backed [OF assms(1,2)] by blast
  have same: ?thesis if "gs_trust_roots s' = gs_trust_roots s"
    using that keep inv unfolding roots_ok_def Let_def by simp
  from assms(1) show ?thesis
  proof cases
    case (root_activated roots cur n t root p rid x now until)
    have s': "gs_trust_roots s' u = (if u = t then retired_roots until roots @ [root] else gs_trust_roots s u)" for u
      by (simp add: root_activated(1) retired_roots_def)
    have num: "map gtr_revision roots = [1..int (length roots)]" using inv(1) [of t] root_activated(3) by simp
    have n: "gtr_revision root = int (length roots) + 1"
      using root_activated(2,5) numbered_last [OF num] by auto
    have new: "backed s' t rid Target_TRUST_ROOT_POLICY (trp_policy_id p) (sha256_hex sha (dump_trust_root_policy p))"
      by (rule applied_backed [OF root_activated(11) assms(2)]) (simp add: root_activated(1))
    have fresh: "rid \<notin> gtr_change_request_id ` set roots"
    proof
      assume "rid \<in> gtr_change_request_id ` set roots"
      then obtain q where "q \<in> set (gs_trust_roots s t)" "gtr_change_request_id q = rid" using root_activated(3) by auto
      with inv(5) have "backed s t rid Target_TRUST_ROOT_POLICY (trp_policy_id (gtr_policy q)) (gtr_policy_sha256 q)" by blast
      then have "\<exists>r. gs_changes s (t, rid) = Some r \<and> gcr_status r = Change_APPLIED" unfolding backed_def by blast
      with approved_request_cases(1,2) [OF root_activated(11)] show False by simp
    qed
    show ?thesis
    proof (rule roots_okI)
      fix u
      show "map gtr_revision (gs_trust_roots s' u) = [1..int (length (gs_trust_roots s' u))]"
        using inv(1) [of u] num n upto_snoc by (simp add: s' retired_roots)
      show "gtr_retired_at (last (gs_trust_roots s' u)) = None" if "gs_trust_roots s' u \<noteq> []"
        using that inv(3) [of u] root_activated(7) by (simp add: s' split: if_splits)
      show "distinct (map gtr_change_request_id (gs_trust_roots s' u))"
        using inv(4) [of u] inv(4) [of t] root_activated(3,9) fresh retired_roots(3) [of until roots]
        by (auto simp: s' simp flip: set_map)
      fix r
      show "gtr_retired_at r \<noteq> None" if "r \<in> set (butlast (gs_trust_roots s' u))"
        using that inv(2) [of r u] inv(2) [of _ t] root_activated(3) retired_roots(4) [of roots r until] by (auto simp: s' split: if_splits)
      show "gtr_tenant_id r = u \<and> governed_trust_root_fields r \<and> gtr_policy_sha256 r = sha256_hex sha (dump_trust_root_policy (gtr_policy r))
        \<and> backed s' u (gtr_change_request_id r) Target_TRUST_ROOT_POLICY (trp_policy_id (gtr_policy r)) (gtr_policy_sha256 r)"
        if mem: "r \<in> set (gs_trust_roots s' u)"
      proof (cases "u = t")
        case True
        consider "r = root" | q where "q \<in> set (gs_trust_roots s t)" "r = q \<or> r = q\<lparr>gtr_retired_at := Some until\<rparr>"
          using mem True retired_roots(5) [of r until roots] root_activated(3) by (auto simp: s')
        then show ?thesis
        proof cases
          case 1
          with root_activated(4,6,8-10) new True show ?thesis by simp
        next
          case (2 q)
          with keep [OF 2(1)] True show ?thesis by (auto simp: governed_trust_root_fields_def)
        qed
      next
        case False
        with mem have "r \<in> set (gs_trust_roots s u)" by (simp add: s')
        then show ?thesis by (rule keep)
      qed
    qed
  qed (use same in simp_all)
qed

lemma gov_inv_core: "gov_core s' = gov_core s \<Longrightarrow> gov_inv sha s' = gov_inv sha s"
  by (simp add: gov_core_eq_iff gov_inv_def requests_ok_def policies_ok_def holds_ok_def roots_ok_def backed_def)

lemma gov_step_inv:
  assumes "gov_step sha w s s'" "\<forall>m. is_sha256 (sha m)" "gov_inv sha s"
  shows "gov_inv sha s'"
  using gov_step_change [OF assms(1,2)]
proof (elim disjE exE conjE)
  fix u
  assume "gov_change sha s u" "gov_core s' = gov_core u"
  with assms(3) change_requests_ok change_policies_ok change_holds_ok change_roots_ok show ?thesis
    using gov_inv_core [of s' u sha] unfolding gov_inv_def by metis
qed (use assms(3) gov_inv_core in metis)

lemma gov_inv_reach:
  assumes "(gov_step sha w)\<^sup>*\<^sup>* empty_governance s" "\<forall>m. is_sha256 (sha m)"
  shows "gov_inv sha s"
  using assms(1)
proof (induction rule: rtranclp_induct)
  case base
  show ?case by (simp add: gov_inv_def requests_ok_def policies_ok_def holds_ok_def roots_ok_def empty_governance_def)
next
  case (step s s')
  with assms(2) show ?case by (blast intro: gov_step_inv)
qed

section \<open>What a retention run deletes\<close>

text \<open>A candidate is due when no hold applies, no rule forbids deletion and both its windows have elapsed.\<close>

definition deletable :: "retention_policy \<Rightarrow> legal_hold list \<Rightarrow> datetime \<Rightarrow> retention_candidate \<Rightarrow> bool" where
  "deletable policy holds now cand \<longleftrightarrow> rc_tenant_id cand = rp_tenant_id policy \<and> (\<forall>h \<in> set holds. \<not> hold_applies h cand)
    \<and> (\<forall>r. rule_for policy (rc_resource_type cand) = Some r \<longrightarrow> rr_deletion_allowed r)
    \<and> (\<exists>seconds. retain_for policy (rule_for policy (rc_resource_type cand)) = Some seconds
         \<and> rc_created_at cand + (seconds + deletion_grace (rule_for policy (rc_resource_type cand))) * 1000000 \<le> now)"

lemma new_decision_shape:
  "new_decision p cand at1 disp nb hs reason = Inr d \<Longrightarrow> rd_disposition d = disp \<and> rd_resource_type d = rc_resource_type cand
    \<and> rd_resource_id d = rc_resource_id cand \<and> rd_policy_id d = rp_policy_id p \<and> rd_policy_revision d = rp_revision p"
  by (auto simp: new_decision_def validate_retention_decision_def split: if_splits)

lemma decision_exact:
  assumes "decision_for p hs now cand = Inr d"
  shows "rd_disposition d = Dispose_DELETE \<longleftrightarrow> deletable p hs now cand"
proof -
  have held: "map lh_hold_id (filter (\<lambda>h. hold_applies h cand) hs) = [] \<longleftrightarrow> (\<forall>h \<in> set hs. \<not> hold_applies h cand)"
    by (auto simp: filter_empty_conv)
  show ?thesis
    using assms unfolding decision_for_def Let_def held deletable_def deletable_from_def
    by (auto split: if_splits option.splits dest!: new_decision_shape)
qed

lemma active_holds_iff: "h \<in> set (active_holds t s) \<longleftrightarrow> (\<exists>i. ((t, i), h) \<in> set (gs_holds s) \<and> lh_status h = Hold_ACTIVE)"
  by (force simp: active_holds_def)

lemma retention_decisions_cases:
  assumes "retention_decisions t cands now s = Inr ds"
  shows "\<exists>p. effective_policy t now s = Some p \<and> list_all2 (\<lambda>c d. decision_for p (active_holds t s) now c = Inr d) cands ds"
  using assms by (auto simp: retention_decisions_def rmap_eq_Inr split: option.splits)

definition gov_events :: "governance_audit_event_type \<Rightarrow> governance_audit_event list \<Rightarrow> string option list" where
  "gov_events ty evs = map gae_target_id (filter (\<lambda>e. gae_event_type e = ty) evs)"

lemma gov_events_simps [simp]:
  "gov_events ty [] = []" "gov_events ty (xs @ ys) = gov_events ty xs @ gov_events ty ys"
  "gov_events ty (e # es) = (if gae_event_type e = ty then [gae_target_id e] else []) @ gov_events ty es"
  by (simp_all add: gov_events_def)

text \<open>Appending audit events for a valid context to the trail of its tenant.\<close>

definition trail_extends :: "string \<Rightarrow> governance_store \<Rightarrow> governance_audit_event list \<Rightarrow> governance_store \<Rightarrow> bool" where
  "trail_extends t s evs s' \<longleftrightarrow> s' = s\<lparr>gs_audit := (gs_audit s)(t := gs_audit s t @ evs)\<rparr>"

lemma trail_extends_refl [simp]: "trail_extends t s [] s"
  by (simp add: trail_extends_def)

lemma trail_extends_trans: "trail_extends t s xs u \<Longrightarrow> trail_extends t u ys v \<Longrightarrow> trail_extends t s (xs @ ys) v"
  by (simp add: trail_extends_def)

lemma append_gov_audit_cases:
  assumes "append_gov_audit ev s = (r, s')" "gae_tenant_id ev = t"
  shows "(\<exists>e. r = Inl e) \<and> s' = s \<or> r = Inr () \<and> trail_extends t s [ev] s'"
  using assms by (auto simp: append_gov_audit_run trail_extends_def split: if_splits)

lemma audit_decisions_trail:
  assumes "audit_decisions ids c at1 ds s = (r, s')" "strip (tac_tenant_id c) = t"
  shows "\<exists>evs. trail_extends t s evs s' \<and> (\<forall>e \<in> set evs. gae_event_type e = GovAudit_RETENTION_EVALUATED)"
proof -
  let ?f = "\<lambda>(i, d). append_gov_audit ((gov_event (ids i) c GovAudit_RETENTION_EVALUATED at1 (rd_reason d))
        \<lparr>gae_target_id := Some (resource_name (rd_resource_type d) (rd_resource_id d)),
         gae_attributes := [(''disposition'', retention_disposition_value (rd_disposition d))]\<rparr>)"
  let ?R = "\<lambda>s s'. \<exists>evs. trail_extends t s evs s' \<and> (\<forall>e \<in> set evs. gae_event_type e = GovAudit_RETENTION_EVALUATED)"
  have "reflp ?R" using trail_extends_refl by (intro reflpI exI [of _ "[]"]) simp
  moreover have "transp ?R"
  proof (rule transpI, elim exE conjE)
    fix s u v xs ys
    assume "trail_extends t s xs u" "trail_extends t u ys v"
      "\<forall>e \<in> set xs. gae_event_type e = GovAudit_RETENTION_EVALUATED" "\<forall>e \<in> set ys. gae_event_type e = GovAudit_RETENTION_EVALUATED"
    then show "?R s v" by (intro exI [of _ "xs @ ys"]) (auto intro: trail_extends_trans)
  qed
  moreover have "keeps ?R (?f x)" for x
  proof (rule keepsI)
    fix s r s'
    assume f: "?f x s = (r, s')"
    obtain i d where x: "x = (i, d)" by fastforce
    from f have "append_gov_audit ((gov_event (ids i) c GovAudit_RETENTION_EVALUATED at1 (rd_reason d))
        \<lparr>gae_target_id := Some (resource_name (rd_resource_type d) (rd_resource_id d)),
         gae_attributes := [(''disposition'', retention_disposition_value (rd_disposition d))]\<rparr>) s = (r, s')" by (simp add: x)
    from append_gov_audit_cases [OF this, of t] assms(2) trail_extends_refl [of t s]
    show "?R s s'" by (auto simp: gov_event_def intro: exI [of _ "[]"])
  qed
  ultimately have "keeps ?R (audit_decisions ids c at1 ds)"
    unfolding audit_decisions_def by (intro keeps_bindE keeps_run_all keeps_ret) auto
  with assms(1) show ?thesis by (rule keepsD [rotated])
qed

lemma delete_candidate_cases:
  assumes "delete_candidate sha ids executions adapter c now (i, cand, d) (s, w) = (r, (s', w'))"
    "rd_disposition d = Dispose_DELETE" "strip (tac_tenant_id c) = t"
  defines "intent \<equiv> deletion_intent sha (ids (2 * i)) (executions i) c now cand d"
  obtains (refused) e where "r = Inl e" "s' = s" "w' = w"
    | (interrupted) e x where "r = Inl e" "trail_extends t s [intent] s'" "adapter c cand d w = (x, w')"
    | (deleted) x rec where "r = Inr (Some rec)" "adapter c cand d w = (Inr x, w')"
        "trail_extends t s [intent, deletion_executed (ids (2 * i + 1)) (executions i) c now cand d x] s'"
        "execution_record (executions i) c now cand d x = Inr rec"
proof -
  have ti: "gae_tenant_id intent = t" using assms(3) by (simp add: intent_def deletion_intent_def gov_event_def)
  obtain r1 s1 where a1: "append_gov_audit intent s = (r1, s1)" by fastforce
  from append_gov_audit_cases [OF a1 ti] show thesis
  proof (elim disjE exE conjE)
    fix e
    assume "r1 = Inl e" "s1 = s"
    with a1 assms(1,2) show thesis
      by (intro refused [of e]) (simp_all add: delete_candidate_def intent_def bindE_def on_store_def)
  next
    assume r1: "r1 = Inr ()" and s1: "trail_extends t s [intent] s1"
    obtain x w1 where ad: "adapter c cand d w = (x, w1)" by fastforce
    show thesis
    proof (cases x)
      case (Inl e)
      with a1 r1 ad assms(1,2) s1 show thesis
        by (intro interrupted [of e x]) (simp_all add: delete_candidate_def intent_def bindE_def on_store_def on_world_def)
    next
      case (Inr ref)
      show thesis
      proof (cases "execution_record (executions i) c now cand d ref")
        case (Inl e)
        with Inr a1 r1 ad assms(1,2) s1 show thesis
          by (intro interrupted [of e x]) (simp_all add: delete_candidate_def intent_def bindE_def on_store_def on_world_def)
      next
        case rec: (Inr rec)
        let ?ex = "deletion_executed (ids (2 * i + 1)) (executions i) c now cand d ref"
        have te: "gae_tenant_id ?ex = t" using assms(3) by (simp add: deletion_executed_def gov_event_def)
        obtain r2 s2 where a2: "append_gov_audit ?ex s1 = (r2, s2)" by fastforce
        have run: "(r, (s', w')) = (case r2 of Inl e \<Rightarrow> (Inl e, (s2, w1)) | Inr _ \<Rightarrow> (Inr (Some rec), (s2, w1)))"
          using assms(1,2) Inr a1 r1 ad rec a2
          by (simp add: delete_candidate_def intent_def bindE_def on_store_def on_world_def split: sum.splits)
        from append_gov_audit_cases [OF a2 te] show thesis
        proof (elim disjE exE conjE)
          fix e
          assume "r2 = Inl e" "s2 = s1"
          with run ad s1 show thesis by (intro interrupted [of e x]) simp_all
        next
          assume r2: "r2 = Inr ()" and s2: "trail_extends t s1 [?ex] s2"
          from trail_extends_trans [OF s1 s2] run ad rec r2 Inr show thesis by (intro deleted [of rec ref]) simp_all
        qed
      qed
    qed
  qed
qed

definition due_calls :: "(nat \<times> retention_candidate \<times> retention_decision) list \<Rightarrow> (retention_candidate \<times> retention_decision) list" where
  "due_calls xs = map snd (filter (\<lambda>x. rd_disposition (snd (snd x)) = Dispose_DELETE) xs)"

definition call_target :: "retention_candidate \<times> retention_decision \<Rightarrow> string option" where
  "call_target x = Some (resource_name (rc_resource_type (fst x)) (rc_resource_id (fst x)))"

definition record_identity :: "retention_execution_record \<Rightarrow> string \<times> string" where
  "record_identity r = (rx_resource_type r, rx_resource_id r)"

lemma deletion_loop:
  assumes "run_all (delete_candidate sha ids executions adapter c now) xs (s, w) = (r, (s', w'))" "strip (tac_tenant_id c) = t"
  shows "\<exists>calls evs. prefix calls (due_calls xs) \<and> w' = snd (run_all (\<lambda>x. adapter c (fst x) (snd x)) calls w)
    \<and> trail_extends t s evs s' \<and> gov_events GovAudit_RETENTION_DELETION_INTENT_RECORDED evs = map call_target calls
    \<and> (\<forall>rs. r = Inr rs \<longrightarrow> calls = due_calls xs
        \<and> gov_events GovAudit_RETENTION_DELETION_EXECUTED evs = map call_target calls
        \<and> map record_identity (map the (filter (\<lambda>x. x \<noteq> None) rs)) = map (candidate_identity \<circ> fst) calls)"
  using assms(1)
proof (induction xs arbitrary: s w r)
  case Nil
  then show ?case by (intro exI [of _ "[]"]) (auto simp: due_calls_def)
next
  case (Cons x xs)
  obtain i cand d where x: "x = (i, cand, d)" by (cases x)
  let ?del = "delete_candidate sha ids executions adapter c now" and ?ad = "\<lambda>x. adapter c (fst x) (snd x)"
  obtain r1 s1 w1 where one: "?del x (s, w) = (r1, (s1, w1))" by (metis surj_pair)
  have run: "(r, (s', w')) = (case r1 of Inl e \<Rightarrow> (Inl e, (s1, w1))
      | Inr y \<Rightarrow> bindE (run_all ?del xs) (\<lambda>ys. ret (y # ys)) (s1, w1))"
    using Cons(2) one by (simp add: bindE_def [of "?del x"] split: sum.splits)
  show ?case
  proof (cases "rd_disposition d = Dispose_DELETE")
    case False
    then have keep: "r1 = Inr None" "s1 = s" "w1 = w" using one by (simp_all add: x delete_candidate_def)
    have due: "due_calls (x # xs) = due_calls xs" using False by (simp add: x due_calls_def)
    obtain r2 where r2: "run_all ?del xs (s, w) = (r2, (s', w'))" "r = (case r2 of Inl e \<Rightarrow> Inl e | Inr ys \<Rightarrow> Inr (None # ys))"
      using run keep by (auto simp: bindE_def split: prod.splits sum.splits)
    from Cons(1) [OF r2(1)] show ?thesis unfolding due using r2(2) by (auto split: sum.splits)
  next
    case True
    have due: "due_calls (x # xs) = (cand, d) # due_calls xs" using True by (simp add: x due_calls_def)
    have kinds: "gae_event_type (deletion_intent sha a b c now cand d) = GovAudit_RETENTION_DELETION_INTENT_RECORDED"
      "gae_target_id (deletion_intent sha a b c now cand d) = call_target (cand, d)"
      "gae_event_type (deletion_executed a b c now cand d z) = GovAudit_RETENTION_DELETION_EXECUTED"
      "gae_target_id (deletion_executed a b c now cand d z) = call_target (cand, d)" for a b z
      by (simp_all add: deletion_intent_def deletion_executed_def gov_event_def call_target_def)
    from one [unfolded x] True assms(2) show ?thesis
    proof (cases rule: delete_candidate_cases)
      case (refused e)
      with run show ?thesis unfolding due by (intro exI [of _ "[]"]) simp
    next
      case (interrupted e y)
      with run have "r = Inl e" "s' = s1" "w' = w1" by simp_all
      with interrupted kinds show ?thesis unfolding due
        by (intro exI [of _ "[(cand, d)]"] exI [of _ "[deletion_intent sha (ids (2 * i)) (executions i) c now cand d]"])
          (simp add: bindE_def split: sum.splits)
    next
      case (deleted y rec)
      obtain r2 where r2: "run_all ?del xs (s1, w1) = (r2, (s', w'))" "r = (case r2 of Inl e \<Rightarrow> Inl e | Inr ys \<Rightarrow> Inr (Some rec # ys))"
        using run deleted(1) by (auto simp: bindE_def split: prod.splits sum.splits)
      from Cons(1) [OF r2(1)] obtain calls evs where ih: "prefix calls (due_calls xs)" "w' = snd (run_all ?ad calls w1)"
        "trail_extends t s1 evs s'" "gov_events GovAudit_RETENTION_DELETION_INTENT_RECORDED evs = map call_target calls"
        "\<And>rs. r2 = Inr rs \<Longrightarrow> calls = due_calls xs \<and> gov_events GovAudit_RETENTION_DELETION_EXECUTED evs = map call_target calls
          \<and> map record_identity (map the (filter (\<lambda>x. x \<noteq> None) rs)) = map (candidate_identity \<circ> fst) calls" by blast
      have ident: "record_identity rec = candidate_identity cand"
        using deleted(4) by (simp add: execution_record_def record_identity_def candidate_identity_def)
      have "w' = snd (run_all ?ad ((cand, d) # calls) w)"
        using ih(2) deleted(2) by (simp add: bindE_def split: prod.splits sum.splits)
      moreover note trail_extends_trans [OF deleted(3) ih(3)]
      ultimately show ?thesis unfolding due using ih(1,4,5) kinds ident r2(2)
        by (intro exI [of _ "(cand, d) # calls"] exI conjI) (auto split: sum.splits)
    qed
  qed
qed

lemma due_calls_filter:
  assumes "list_all2 (\<lambda>c d. decision_for p hs now c = Inr d) cands ds"
  shows "map fst (due_calls (enumerate n (zip cands ds))) = filter (deletable p hs now) cands"
  using assms by (induction arbitrary: n rule: list_all2_induct) (auto simp: due_calls_def decision_exact)

lemma execute_retention_cases:
  assumes "execute_retention sha at0 at1 now ids ids' executions adapter c cands ev (s, w) = (r, (s', w'))"
  obtains (refused) e where "r = Inl e" "s' = s" "w' = w"
    | (unaudited) e ds where "r = Inl e" "audit_decisions ids c now ds s = (Inl e, s')" "w' = w"
    | (run) ds s1 r2 where "distinct (map candidate_identity cands)" "retention_decisions (tac_tenant_id c) cands now s = Inr ds"
        "audit_decisions ids c now ds s = (Inr (), s1)"
        "run_all (delete_candidate sha ids' executions adapter c now) (enumerate 0 (zip cands ds)) (s1, w) = (r2, (s', w'))"
        "r = (case r2 of Inl e \<Rightarrow> Inl e | Inr rs \<Rightarrow> Inr (map the (filter (\<lambda>x. x \<noteq> None) rs)))"
proof -
  let ?loop = "\<lambda>ds. run_all (delete_candidate sha ids' executions adapter c now) (enumerate 0 (zip cands ds))"
  let ?out = "\<lambda>records. map the (filter (\<lambda>x. x \<noteq> None) records)"
  have on: "bindE (on_store m) f (s, w) = (case m s of (Inl e, s1) \<Rightarrow> (Inl e, (s1, w)) | (Inr x, s1) \<Rightarrow> f x (s1, w))"
    for m :: "(governance_store, 'x) prog" and f s w
    by (simp add: bindE_def on_store_def split: prod.splits sum.splits)
  show thesis
  proof (cases "\<exists>e. (r, (s', w')) = (Inl e, (s, w))")
    case True
    with refused show thesis by auto
  next
    case False
    note run_eq = assms [unfolded execute_retention_def bindE_pure on]
    have dist: "distinct (map candidate_identity cands)"
      using run_eq False by (auto simp: require_unique_candidates_def raise_if_def split: sum.splits if_splits)
    obtain ds where ds: "retention_decisions (tac_tenant_id c) cands now s = Inr ds"
      using run_eq False by (cases "retention_decisions (tac_tenant_id c) cands now s") (auto split: sum.splits)
    obtain r1 s1 where a: "audit_decisions ids c now ds s = (r1, s1)" by fastforce
    have rest: "(r, (s', w')) = (case r1 of Inl e \<Rightarrow> (Inl e, (s1, w)) | Inr _ \<Rightarrow> bindE (?loop ds) (\<lambda>records. ret (?out records)) (s1, w))"
      using run_eq False ds a by (auto split: sum.splits)
    show thesis
    proof (cases r1)
      case (Inl e)
      with rest a show thesis by (intro unaudited [of e ds]) simp_all
    next
      case (Inr u)
      obtain r2 s2 w2 where l: "?loop ds (s1, w) = (r2, (s2, w2))" by (metis surj_pair)
      from rest Inr l have "s2 = s'" "w2 = w'" "r = (case r2 of Inl e \<Rightarrow> Inl e | Inr rs \<Rightarrow> Inr (?out rs))"
        by (auto simp: bindE_def split: sum.splits)
      with dist ds a Inr l show thesis by (intro run [of ds s1 r2]) simp_all
    qed
  qed
qed

lemma effective_policy_mem: "effective_policy t now s = Some p \<Longrightarrow> p \<in> set (gs_retention s t) \<and> rp_effective_at p \<le> now"
proof -
  assume e: "effective_policy t now s = Some p"
  let ?ps = "filter (\<lambda>p. rp_effective_at p \<le> now) (gs_retention s t)"
  from e have "?ps \<noteq> []" "p = last ?ps" by (auto simp: effective_policy_def split: list.splits)
  then have "p \<in> set ?ps" by (metis last_in_set)
  then show ?thesis by auto
qed

section \<open>Properties\<close>

lemma governance_simulates:
  assumes "gov_step sha w s s'" "\<forall>m. is_sha256 (sha m)" "gov_inv sha s"
  shows "(spec_step sha)\<^sup>=\<^sup>= (gov_abs sha s) (gov_abs sha s')"
  using gov_step_change [OF assms(1,2)]
proof (elim disjE exE conjE)
  fix u
  assume u: "gov_change sha s u" "gov_core s' = gov_core u"
  have "requests_ok s" using assms(3) by (simp add: gov_inv_def)
  from gov_change_refines [OF u(1) this] gov_abs_core [OF u(2)] show ?thesis by simp
next
  assume "gov_core s' = gov_core s"
  from gov_abs_core [OF this] show ?thesis by simp
qed

lemma spec_reach_independent: "(spec_step sha)\<^sup>*\<^sup>* spec_init s \<Longrightarrow> grants_independent s"
proof (induction rule: rtranclp_induct)
  case base
  show ?case by (simp add: grants_independent_def spec_init_def)
qed (rule spec_step_independent)

lemma governance_reach:
  assumes "(gov_step sha w)\<^sup>*\<^sup>* empty_governance s" "\<forall>m. is_sha256 (sha m)"
  shows "(spec_step sha)\<^sup>*\<^sup>* spec_init (gov_abs sha s)"
  using assms(1)
proof (induction rule: rtranclp_induct)
  case base
  show ?case by (simp add: spec_init_def gov_abs_def empty_governance_def)
next
  case (step s s')
  from governance_simulates [OF step(2) assms(2) gov_inv_reach [OF step(1) assms(2)]] step(3)
  show ?case by (auto intro: rtranclp.rtrancl_into_rtrancl)
qed

text \<open>
  C4: Governance refines the abstract machine of governed changes. Every history of calls of the store, returning or
  raising, maps to a history of the machine, and every further call to one step of it or to none. Such a step adds a retention
  policy or a trust root, or releases a legal hold, only by spending a granted request for exactly this change of the
  resource's current digest, and a request is spent once; a released hold stays released. The grant is by another actor than the
  proposer when the risk of the request is high or critical: at lower risk the code accepts the proposer's own approval, also for
  a release (\<open>release_by_one_actor\<close>), and placing a hold takes no request.
\<close>

theorem governance_refines:
  assumes "(gov_step sha w)\<^sup>*\<^sup>* empty_governance s" "\<forall>m. is_sha256 (sha m)"
  shows "(spec_step sha)\<^sup>*\<^sup>* spec_init (gov_abs sha s)
    \<and> (\<forall>s'. gov_step sha w s s' \<longrightarrow> (gov_abs sha s' = gov_abs sha s \<or> spec_step sha (gov_abs sha s) (gov_abs sha s'))
          \<and> guarded sha (gov_abs sha s) (gov_abs sha s'))"
proof (intro conjI allI impI)
  show reach: "(spec_step sha)\<^sup>*\<^sup>* spec_init (gov_abs sha s)" using assms by (rule governance_reach)
  fix s'
  assume "gov_step sha w s s'"
  from governance_simulates [OF this assms(2) gov_inv_reach [OF assms]]
  show step: "gov_abs sha s' = gov_abs sha s \<or> spec_step sha (gov_abs sha s) (gov_abs sha s')" by auto
  with spec_step_guarded [OF _ spec_reach_independent [OF reach]] guarded_refl
  show "guarded sha (gov_abs sha s) (gov_abs sha s')" by metis
qed

lemma one_current_root:
  assumes "roots \<noteq> []" "\<forall>r \<in> set (butlast roots). gtr_retired_at r \<noteq> None" "gtr_retired_at (last roots) = None"
  shows "length (filter (\<lambda>r. gtr_retired_at r = None) roots) = 1"
  using assms by (cases roots rule: rev_cases) (auto simp: filter_empty_conv)

text \<open>
  C21: The governed state is sound in every reachable store. The retention policies of a tenant are numbered 1, 2, 3, ...,
  and each of them, each released hold and each trust root is backed by an applied request for exactly it, approved by
  another actor than its proposer when the risk is high. The trust roots are numbered 1, 2, 3, ..., exactly the last is
  current, no two come from one request, and reading their history never fails.
\<close>

theorem governance_sound:
  assumes "(gov_step sha w)\<^sup>*\<^sup>* empty_governance s" "\<forall>m. is_sha256 (sha m)"
  shows "map rp_revision (gs_retention s t) = [1..int (length (gs_retention s t))]
    \<and> (\<forall>p \<in> set (gs_retention s t). \<exists>rid. backed s t rid Target_RETENTION_POLICY (rp_policy_id p) (sha256_hex sha (dump_retention_policy p)))
    \<and> (\<forall>i h. map_of (gs_holds s) (t, i) = Some h \<and> lh_status h = Hold_RELEASED \<longrightarrow>
        (\<exists>rid. lh_release_change_request_id h = Some rid \<and> backed s t rid Target_LEGAL_HOLD_RELEASE i (legal_hold_release_digest sha t i)))
    \<and> map gtr_revision (gs_trust_roots s t) = [1..int (length (gs_trust_roots s t))]
    \<and> distinct (map gtr_change_request_id (gs_trust_roots s t))
    \<and> (\<forall>r \<in> set (gs_trust_roots s t). backed s t (gtr_change_request_id r) Target_TRUST_ROOT_POLICY (trp_policy_id (gtr_policy r))
          (sha256_hex sha (dump_trust_root_policy (gtr_policy r))))
    \<and> (gs_trust_roots s t \<noteq> [] \<longrightarrow> nonblank t \<longrightarrow> (\<exists>h. trust_history t (gs_trust_roots s t) = Inr h \<and> trh_roots h = gs_trust_roots s t))"
proof -
  have inv: "policies_ok sha s" "holds_ok sha s" "roots_ok sha s" using gov_inv_reach [OF assms] by (simp_all add: gov_inv_def)
  note r = roots_okD [OF inv(3)]
  let ?roots = "gs_trust_roots s t"
  have "\<exists>h. trust_history t ?roots = Inr h \<and> trh_roots h = ?roots" if "?roots \<noteq> []" "nonblank t"
  proof -
    have "length (filter (\<lambda>r. gtr_retired_at r = None) ?roots) = 1"
      using that(1) r(2,3) by (intro one_current_root) blast+
    moreover have "list_all governed_trust_root_fields ?roots" using r(5) by (simp add: list_all_iff)
    moreover have "sort [1..int (length ?roots)] = [1..int (length ?roots)]" by (simp add: sorted_sort_id)
    ultimately show ?thesis using that r(1) [of t]
      by (simp add: trust_history_def check_fields_def trust_root_history_fields_def validate_trust_history_def nonblank_def)
  qed
  moreover have "\<forall>q \<in> set ?roots. backed s t (gtr_change_request_id q) Target_TRUST_ROOT_POLICY (trp_policy_id (gtr_policy q))
      (sha256_hex sha (dump_trust_root_policy (gtr_policy q)))"
    using r(5) by metis
  ultimately show ?thesis using inv(1,2) r(1,4) unfolding policies_ok_def holds_ok_def by blast
qed

text \<open>
  C5: A retention run deletes only what is due. Whatever adapter it is given and however the run ends, the adapter is called
  only for distinct candidates of the tenant to which no active hold of the tenant applies, whose effective policy allows
  deletion and whose retention and grace windows have elapsed now; each call is preceded by its intent in the audit trail,
  and nothing else of the store changes. A run that returns called it for every such candidate, in order, with its record
  and audit event.
\<close>

theorem retention_deletes_only_due:
  assumes "(gov_step sha w0)\<^sup>*\<^sup>* empty_governance s" "\<forall>m. is_sha256 (sha m)" "valid_context c"
    and "execute_retention sha at0 at1 now ids ids' executions adapter c cands evaluation_at (s, w) = (r, (s', w'))"
  shows "\<exists>calls evs. w' = snd (run_all (\<lambda>x. adapter c (fst x) (snd x)) calls w)
    \<and> s' = s\<lparr>gs_audit := (gs_audit s)(tac_tenant_id c := gs_audit s (tac_tenant_id c) @ evs)\<rparr>
    \<and> gov_events GovAudit_RETENTION_DELETION_INTENT_RECORDED evs = map call_target calls
    \<and> distinct (map (candidate_identity \<circ> fst) calls)
    \<and> (\<forall>x \<in> set calls. fst x \<in> set cands \<and> rc_tenant_id (fst x) = tac_tenant_id c
        \<and> (\<forall>i h. ((tac_tenant_id c, i), h) \<in> set (gs_holds s) \<longrightarrow> \<not> hold_applies h (fst x))
        \<and> (\<exists>p seconds. effective_policy (tac_tenant_id c) now s = Some p
            \<and> (\<forall>rule. rule_for p (rc_resource_type (fst x)) = Some rule \<longrightarrow> rr_deletion_allowed rule)
            \<and> retain_for p (rule_for p (rc_resource_type (fst x))) = Some seconds
            \<and> rc_created_at (fst x) + (seconds + deletion_grace (rule_for p (rc_resource_type (fst x)))) * 1000000 \<le> now))
    \<and> (\<forall>rs. r = Inr rs \<longrightarrow> (\<exists>p. effective_policy (tac_tenant_id c) now s = Some p
          \<and> map fst calls = filter (deletable p (active_holds (tac_tenant_id c) s) now) cands)
        \<and> gov_events GovAudit_RETENTION_DELETION_EXECUTED evs = map call_target calls
        \<and> map record_identity rs = map (candidate_identity \<circ> fst) calls)"
    (is "\<exists>calls evs. ?P calls evs")
proof -
  let ?t = "tac_tenant_id c"
  have t: "strip ?t = ?t" using valid_context_tenant [OF assms(3)] by (simp add: nonblank_def)
  from assms(4) show ?thesis
  proof (cases rule: execute_retention_cases)
    case (refused e)
    then have "?P [] []" by simp
    then show ?thesis by blast
  next
    case (unaudited e ds)
    from audit_decisions_trail [OF unaudited(2) t] obtain evs where evs: "trail_extends ?t s evs s'"
      "\<forall>e \<in> set evs. gae_event_type e = GovAudit_RETENTION_EVALUATED" by blast
    then have "gov_events GovAudit_RETENTION_DELETION_INTENT_RECORDED evs = []" by (auto simp: gov_events_def filter_empty_conv)
    with evs(1) unaudited have "?P [] evs" by (simp add: trail_extends_def)
    then show ?thesis by blast
  next
    case (run ds s1 r2)
    let ?xs = "enumerate 0 (zip cands ds)"
    from audit_decisions_trail [OF run(3) t] obtain evs0 where evs0: "trail_extends ?t s evs0 s1"
      "\<forall>e \<in> set evs0. gae_event_type e = GovAudit_RETENTION_EVALUATED" by blast
    then have none: "gov_events GovAudit_RETENTION_DELETION_INTENT_RECORDED evs0 = []" "gov_events GovAudit_RETENTION_DELETION_EXECUTED evs0 = []"
      by (auto simp: gov_events_def filter_empty_conv)
    from deletion_loop [OF run(4) t] obtain calls evs where l: "prefix calls (due_calls ?xs)"
      "w' = snd (run_all (\<lambda>x. adapter c (fst x) (snd x)) calls w)" "trail_extends ?t s1 evs s'"
      "gov_events GovAudit_RETENTION_DELETION_INTENT_RECORDED evs = map call_target calls"
      "\<And>rs. r2 = Inr rs \<Longrightarrow> calls = due_calls ?xs \<and> gov_events GovAudit_RETENTION_DELETION_EXECUTED evs = map call_target calls
        \<and> map record_identity (map the (filter (\<lambda>x. x \<noteq> None) rs)) = map (candidate_identity \<circ> fst) calls" by blast
    from retention_decisions_cases [OF run(2)] obtain p where p: "effective_policy ?t now s = Some p"
      "list_all2 (\<lambda>c d. decision_for p (active_holds ?t s) now c = Inr d) cands ds" by blast
    note due = due_calls_filter [OF p(2), of 0]
    have tp: "rp_tenant_id p = ?t"
      using gov_inv_reach [OF assms(1,2)] effective_policy_mem [OF p(1)] unfolding gov_inv_def policies_ok_def by blast
    have pre: "prefix (map fst calls) (filter (deletable p (active_holds ?t s) now) cands)"
      using l(1) due map_mono_prefix by metis
    have "distinct (map candidate_identity (filter (deletable p (active_holds ?t s) now) cands))"
      using run(1) by (rule distinct_map_filter)
    then have dist: "distinct (map (candidate_identity \<circ> fst) calls)"
      using map_mono_prefix [OF pre, of candidate_identity] by (auto simp: prefix_def)
    have "fst x \<in> set (filter (deletable p (active_holds ?t s) now) cands)" if "x \<in> set calls" for x
      using that set_mono_prefix [OF pre] by auto
    then have due_all: "fst x \<in> set cands \<and> deletable p (active_holds ?t s) now (fst x)" if "x \<in> set calls" for x using that by auto
    have holds: "\<not> hold_applies h (fst x)" if "x \<in> set calls" "((?t, i), h) \<in> set (gs_holds s)" for x i h
    proof (cases "lh_status h = Hold_ACTIVE")
      case True
      with that(2) have "h \<in> set (active_holds ?t s)" by (auto simp: active_holds_iff)
      with due_all [OF that(1)] show ?thesis unfolding deletable_def by blast
    qed (simp add: hold_applies_def)
    have "?P calls (evs0 @ evs)"
    proof (intro conjI ballI allI impI)
      show "s' = s\<lparr>gs_audit := (gs_audit s)(?t := gs_audit s ?t @ evs0 @ evs)\<rparr>"
        using trail_extends_trans [OF evs0(1) l(3)] by (simp add: trail_extends_def)
      fix x
      assume x: "x \<in> set calls"
      show "fst x \<in> set cands" "rc_tenant_id (fst x) = ?t" using due_all [OF x] tp by (simp_all add: deletable_def)
      show "\<exists>p seconds. effective_policy ?t now s = Some p
            \<and> (\<forall>rule. rule_for p (rc_resource_type (fst x)) = Some rule \<longrightarrow> rr_deletion_allowed rule)
            \<and> retain_for p (rule_for p (rc_resource_type (fst x))) = Some seconds
            \<and> rc_created_at (fst x) + (seconds + deletion_grace (rule_for p (rc_resource_type (fst x)))) * 1000000 \<le> now"
        using due_all [OF x] p(1) unfolding deletable_def by blast
      show "\<And>i h. ((?t, i), h) \<in> set (gs_holds s) \<Longrightarrow> \<not> hold_applies h (fst x)" using holds [OF x] by blast
    next
      fix rs
      assume "r = Inr rs"
      then obtain xs where xs: "r2 = Inr xs" "rs = map the (filter (\<lambda>x. x \<noteq> None) xs)" using run(5) by (cases r2) auto
      from l(5) [OF xs(1)] due p(1) xs(2) none(2)
      show "\<exists>p. effective_policy ?t now s = Some p \<and> map fst calls = filter (deletable p (active_holds ?t s) now) cands"
        "gov_events GovAudit_RETENTION_DELETION_EXECUTED (evs0 @ evs) = map call_target calls"
        "map record_identity rs = map (candidate_identity \<circ> fst) calls" by auto
    qed (use l(2,4) dist none(1) in simp_all)
    then show ?thesis by blast
  qed
qed

section \<open>A concrete history\<close>

text \<open>Alice proposes a first retention policy, Bob approves it, and Alice applies it; then one of two tables is due.\<close>

definition gov_actor :: "string \<Rightarrow> actor_ref" where
  "gov_actor name = \<lparr>actor_kind = ActorKind_HUMAN, actor_id = name, actor_display_name = None, actor_tenant_id = ''acme'',
     actor_workload_identity = None, actor_attributes = []\<rparr>"

definition gov_context :: "string \<Rightarrow> tenant_access_context" where
  "gov_context name = \<lparr>tac_schema_name = ''prodkit.tenant-access-context'', tac_schema_version = ''1.0.0'', tac_tenant_id = ''acme'',
     tac_actor = gov_actor name, tac_mode = Access_TENANT,
     tac_capabilities = [Capability_READ, Capability_APPROVE, Capability_CONFIGURE, Capability_DELETE, Capability_LEGAL_HOLD],
     tac_elevation_id = None, tac_reason = None, tac_ticket_reference = None, tac_issued_at = 0, tac_expires_at = None\<rparr>"

definition gov_policy :: retention_policy where
  "gov_policy = \<lparr>rp_schema_name = ''prodkit.retention-policy'', rp_schema_version = ''1.0.0'', rp_policy_id = ''p1'', rp_tenant_id = ''acme'',
     rp_revision = 1, rp_effective_at = 5, rp_default_retain_for_seconds = None,
     rp_rules = [\<lparr>rr_resource_type = ''table'', rr_retain_for_seconds = Some 60, rr_deletion_grace_seconds = 30, rr_deletion_allowed = True\<rparr>],
     rp_created_at = 1, rp_created_by = gov_actor ''alice''\<rparr>"

definition gov_proposal :: change_proposal where
  "gov_proposal = \<lparr>pa_target_type = Target_RETENTION_POLICY, pa_target_id = ''p1'', pa_proposed_digest = zero_hash [], pa_risk = GovRisk_HIGH,
     pa_reason = ''law'', pa_ticket_reference = ''T1'', pa_expected_current_digest = None\<rparr>"

definition gov_candidate :: "string \<Rightarrow> datetime \<Rightarrow> retention_candidate" where
  "gov_candidate name created = \<lparr>rc_schema_name = ''prodkit.retention-candidate'', rc_schema_version = ''1.0.0'', rc_tenant_id = ''acme'',
     rc_resource_type = ''table'', rc_resource_id = name, rc_created_at = created, rc_content_sha256 = None, rc_attributes = []\<rparr>"

definition gov_adapter :: "string list deletion_adapter" where
  "gov_adapter c cand d w = (Inr ''gone'', w @ [rc_resource_id cand])"

definition gov_history :: governance_store where
  "gov_history =
    (let s1 = snd (propose_change 0 10 ''q1'' ''u1'' (gov_context ''alice'') gov_proposal empty_governance);
         s2 = snd (approve_change 0 20 ''g1'' ''u2'' (gov_context ''bob'') ''q1'' Decide_APPROVE ''ok'' s1)
     in snd (apply_retention_policy zero_hash 0 30 ''u3'' gov_policy (gov_context ''alice'') ''q1'' s2))"

lemma gov_nonblank [simp]:
  "nonblank ''acme''" "nonblank ''alice''" "nonblank ''bob''" "nonblank ''p1''" "nonblank ''law''" "nonblank ''ok''" "nonblank ''T1''"
  "nonblank ''table''" "nonblank ''orders''" "nonblank ''users''" "nonblank ''gone''" "nonblank ''table:orders''" "nonblank ''table:users''"
  by (simp_all add: nonblank_def strip_def py_isspace_def)

lemma gov_strip [simp]:
  "strip ''acme'' = ''acme''" "strip ''p1'' = ''p1''" "strip ''law'' = ''law''" "strip ''ok'' = ''ok''" "strip ''T1'' = ''T1''"
  "strip ''gone'' = ''gone''" "strip ''table:orders'' = ''table:orders''" "strip ''table:users'' = ''table:users''"
  using gov_nonblank by (simp_all add: nonblank_def)

lemma zero_digest [simp]: "sha256_hex zero_hash v = zero_hash []" "\<forall>m. is_sha256 (zero_hash m)"
  by (simp_all add: sha256_hex_def) (simp add: zero_hash_def)

lemma gov_context_valid: "nonblank name \<Longrightarrow> valid_context (gov_context name)"
  by (simp add: valid_context_def gov_context_def gov_actor_def tenant_access_context_fields_def actor_ref_fields_def
      validate_tenant_access_context_def)

lemma gov_policy_valid: "retention_policy_fields gov_policy" "validate_retention_policy gov_policy = Inr gov_policy"
  by (simp_all add: gov_policy_def retention_policy_fields_def retention_rule_fields_def gov_actor_def actor_ref_fields_def
      validate_retention_policy_def)

lemma gov_history_reached: "(gov_step zero_hash w)\<^sup>*\<^sup>* empty_governance gov_history"
proof -
  let ?s1 = "snd (propose_change 0 10 ''q1'' ''u1'' (gov_context ''alice'') gov_proposal empty_governance)"
  let ?s2 = "snd (approve_change 0 20 ''g1'' ''u2'' (gov_context ''bob'') ''q1'' Decide_APPROVE ''ok'' ?s1)"
  have "gov_step zero_hash w empty_governance ?s1"
    by (rule gov_step.propose [OF gov_context_valid _ prod.collapse [symmetric]]) (simp_all add: empty_governance_def)
  moreover have "gov_step zero_hash w ?s1 ?s2" by (rule gov_step.approve [OF gov_context_valid prod.collapse [symmetric]]) simp
  moreover have "gov_step zero_hash w ?s2 gov_history" unfolding gov_history_def Let_def
    by (rule gov_step.retention [OF gov_context_valid gov_policy_valid prod.collapse [symmetric]]) simp
  ultimately show ?thesis by (meson converse_rtranclp_into_rtranclp rtranclp.rtrancl_refl)
qed

lemmas gov_eval = gov_run append_gov_audit_run gov_require_def context_require_def gov_event_def check_fields_def raise_if_def
  governance_audit_event_fields_def governance_change_request_fields_def governance_approval_fields_def new_approval_def
  request_locked_def approved_request_def decided_copy_def new_change_def validate_change_def retention_digest_def next_revision_def
  gov_context_def gov_actor_def actor_ref_fields_def gov_proposal_def gov_policy_def empty_governance_def same_governance_actor_def

lemma gov_history_policy: "gs_retention gov_history ''acme'' = [gov_policy]" "gs_holds gov_history = []"
  unfolding gov_history_def Let_def propose_change_def approve_change_def apply_retention_policy_def
  by (simp_all add: gov_eval bindE_def [of "append_gov_audit _"])

theorem governance_refines_witness:
  "(spec_step zero_hash)\<^sup>*\<^sup>* spec_init (gov_abs zero_hash gov_history) \<and> sp_policies (gov_abs zero_hash gov_history) ''acme'' = [zero_hash []]"
  using governance_refines [OF gov_history_reached [where w = "TYPE(unit)"] zero_digest(2)]
  by (simp add: gov_abs_def gov_history_policy)

theorem governance_sound_witness:
  "\<exists>rid. backed gov_history ''acme'' rid Target_RETENTION_POLICY ''p1'' (zero_hash [])"
  using governance_sound [OF gov_history_reached [where w = "TYPE(unit)"] zero_digest(2), of "''acme''"]
  by (simp add: gov_history_policy gov_policy_def)

lemma gov_run_policy: "effective_policy ''acme'' 95000000 gov_history = Some gov_policy"
  by (simp add: effective_policy_def gov_history_policy) (simp add: gov_policy_def)

lemma gov_reasons [simp]:
  "nonblank ''retention and deletion-grace windows elapsed''" "nonblank ''retention window has not elapsed''"
  "strip ''retention and deletion-grace windows elapsed'' = ''retention and deletion-grace windows elapsed''"
  "strip ''retention window has not elapsed'' = ''retention window has not elapsed''"
  by (simp_all add: nonblank_def strip_def py_isspace_def)

lemma gov_run_result:
  "\<exists>rs s'. execute_retention zero_hash 0 0 95000000 (\<lambda>_. ''e'') (\<lambda>_. ''f'') (\<lambda>_. ''x'') gov_adapter (gov_context ''alice'')
      [gov_candidate ''orders'' 0, gov_candidate ''users'' 50000000] None (gov_history, []) = (Inr rs, (s', [''orders'']))"
proof -
  have on: "bindE (on_store m) f (s, w) = (case m s of (Inl e, s1) \<Rightarrow> (Inl e, (s1, w)) | (Inr x, s1) \<Rightarrow> f x (s1, w))"
    for m :: "(governance_store, 'x) prog" and f :: "'x \<Rightarrow> (governance_store \<times> 'w, 'y) prog" and s w
    by (simp add: bindE_def on_store_def split: prod.splits sum.splits)
  obtain d e where ds: "retention_decisions ''acme'' [gov_candidate ''orders'' 0, gov_candidate ''users'' 50000000] 95000000 gov_history = Inr [d, e]"
    and d: "rd_disposition d = Dispose_DELETE" "rd_resource_type d = ''table''" "rd_resource_id d = ''orders''" "rd_policy_revision d = 1"
      "rd_reason d = ''retention and deletion-grace windows elapsed''"
    and e: "rd_disposition e = Dispose_RETAIN" "rd_resource_type e = ''table''" "rd_resource_id e = ''users''"
      "rd_reason e = ''retention window has not elapsed''"
    unfolding retention_decisions_def gov_run_policy active_holds_def gov_history_policy
    by (simp add: decision_for_def Let_def rule_for_def retain_for_def deletable_from_def deletion_grace_def new_decision_def check_fields_def
      retention_decision_fields_def validate_retention_decision_def gov_policy_def gov_candidate_def)
  show ?thesis
    using ds d e
    by (simp add: execute_retention_def bindE_def on_store_def on_world_def append_gov_audit_run gov_require_def context_require_def
      gov_event_def check_fields_def raise_if_def
      governance_audit_event_fields_def gov_context_def gov_actor_def actor_ref_fields_def require_unique_candidates_def
      candidate_identity_def gov_candidate_def audit_decisions_def delete_candidate_def deletion_intent_def deletion_executed_def
      resource_name_def gov_adapter_def execution_record_def retention_execution_record_fields_def)
qed

text \<open>The run deletes the table whose windows have elapsed and keeps the other one.\<close>

theorem retention_deletes_only_due_witness:
  "\<exists>s' rs. execute_retention zero_hash 0 0 95000000 (\<lambda>_. ''e'') (\<lambda>_. ''f'') (\<lambda>_. ''x'') gov_adapter (gov_context ''alice'')
      [gov_candidate ''orders'' 0, gov_candidate ''users'' 50000000] None (gov_history, []) = (Inr rs, (s', [''orders'']))
    \<and> map record_identity rs = map candidate_identity
          (filter (deletable gov_policy [] 95000000) [gov_candidate ''orders'' 0, gov_candidate ''users'' 50000000])"
proof -
  obtain rs s' where run: "execute_retention zero_hash 0 0 95000000 (\<lambda>_. ''e'') (\<lambda>_. ''f'') (\<lambda>_. ''x'') gov_adapter (gov_context ''alice'')
      [gov_candidate ''orders'' 0, gov_candidate ''users'' 50000000] None (gov_history, []) = (Inr rs, (s', [''orders'']))"
    using gov_run_result by blast
  have c: "valid_context (gov_context ''alice'')" and t: "tac_tenant_id (gov_context ''alice'') = ''acme''"
    by (rule gov_context_valid, simp) (simp add: gov_context_def)
  have holds: "active_holds ''acme'' gov_history = []" by (simp add: active_holds_def gov_history_policy)
  from retention_deletes_only_due [OF gov_history_reached [where w = "TYPE(unit)"] zero_digest(2) c run]
  show ?thesis
  proof (elim exE conjE)
    fix calls evs
    assume "\<forall>rs'. Inr rs = Inr rs' \<longrightarrow> (\<exists>p. effective_policy (tac_tenant_id (gov_context ''alice'')) 95000000 gov_history = Some p
        \<and> map fst calls = filter (deletable p (active_holds (tac_tenant_id (gov_context ''alice'')) gov_history) 95000000)
            [gov_candidate ''orders'' 0, gov_candidate ''users'' 50000000])
      \<and> gov_events GovAudit_RETENTION_DELETION_EXECUTED evs = map call_target calls
      \<and> map record_identity rs' = map (candidate_identity \<circ> fst) calls"
    from spec [OF this, of rs] have calls: "map fst calls = filter (deletable gov_policy [] 95000000)
        [gov_candidate ''orders'' 0, gov_candidate ''users'' 50000000]" "map record_identity rs = map (candidate_identity \<circ> fst) calls"
      unfolding t gov_run_policy holds by simp_all
    from calls(2) have "map record_identity rs = map candidate_identity (map fst calls)" by simp
    with run show ?thesis unfolding calls(1) by (intro exI [of _ s'] exI [of _ rs] conjI)
  qed
qed

section \<open>A gap\<close>

text \<open>
  \<open>propose_legal_hold_release\<close> files a release at critical risk, so that another actor has to approve it, but
  \<open>release_legal_hold\<close> does not look at the risk: a release filed through \<open>propose_change\<close> at low risk is approved
  and spent by the one actor who filed it.
\<close>

definition gov_hold :: legal_hold where
  "gov_hold = \<lparr>lh_schema_name = ''prodkit.legal-hold'', lh_schema_version = ''1.0.0'', lh_hold_id = ''h1'', lh_tenant_id = ''acme'',
     lh_status = Hold_ACTIVE, lh_reason = ''law'', lh_case_reference = ''T1'', lh_resource_types = [], lh_resource_ids = [],
     lh_placed_at = 0, lh_placed_by = gov_actor ''bob'', lh_released_at = None, lh_released_by = None,
     lh_release_change_request_id = None\<rparr>"

lemma release_by_one_actor:
  "\<exists>s1 s2 s3 s4. place_legal_hold 0 ''u0'' (gov_context ''bob'') gov_hold empty_governance = (Inr gov_hold, s1)
    \<and> snd (propose_change 0 10 ''q1'' ''u1'' (gov_context ''alice'') \<lparr>pa_target_type = Target_LEGAL_HOLD_RELEASE, pa_target_id = ''h1'',
        pa_proposed_digest = legal_hold_release_digest zero_hash ''acme'' ''h1'', pa_risk = GovRisk_LOW, pa_reason = ''law'',
        pa_ticket_reference = ''T1'', pa_expected_current_digest = None\<rparr> s1) = s2
    \<and> snd (approve_change 0 20 ''g1'' ''u2'' (gov_context ''alice'') ''q1'' Decide_APPROVE ''ok'' s2) = s3
    \<and> release_legal_hold zero_hash 0 30 ''u3'' (gov_context ''alice'') ''h1'' ''q1'' s3
        = (Inr (released_copy 30 (gov_actor ''alice'') ''q1'' gov_hold), s4)"
proof -
  have h: "nonblank ''h1''" "strip ''h1'' = ''h1''" by (simp_all add: nonblank_def strip_def py_isspace_def)
  show ?thesis
    by (simp add: place_legal_hold_def propose_change_def approve_change_def release_legal_hold_def Let_def gov_eval
      bindE_def [of "append_gov_audit _"] active_hold_def gov_hold_def legal_hold_release_digest_def released_copy_def h)
qed

end
