(* ===== verification/Recovery_Contracts.thy ===== *)
theory Recovery_Contracts
  imports Complex_Main Attestations
begin

text \<open>
  The contracts of \<open>contracts/recovery.py\<close>: reliability profiles, backup manifests, restore plans and
  results, integrity scans, the recovery of uncertain attempts and of the gap since the backup,
  break-glass grants, game days and recovery audit events, with their field constraints and validators.
\<close>

section \<open>Models\<close>

datatype recovery_component =
    Comp_LEDGER
  | Comp_LINEAGE
  | Comp_CONFIGURATION
  | Comp_ARTIFACT_METADATA
  | Comp_OBJECT_STORE
  | Comp_IDEMPOTENCY
  | Comp_EXECUTION_ATTEMPTS
  | Comp_GOVERNANCE

fun recovery_component_value :: "recovery_component \<Rightarrow> string" where
  "recovery_component_value Comp_LEDGER = ''ledger''"
| "recovery_component_value Comp_LINEAGE = ''lineage''"
| "recovery_component_value Comp_CONFIGURATION = ''configuration''"
| "recovery_component_value Comp_ARTIFACT_METADATA = ''artifact_metadata''"
| "recovery_component_value Comp_OBJECT_STORE = ''object_store''"
| "recovery_component_value Comp_IDEMPOTENCY = ''idempotency''"
| "recovery_component_value Comp_EXECUTION_ATTEMPTS = ''execution_attempts''"
| "recovery_component_value Comp_GOVERNANCE = ''governance''"

datatype recovery_integrity_status =
    Integrity_VERIFIED
  | Integrity_FAILED

fun recovery_integrity_status_value :: "recovery_integrity_status \<Rightarrow> string" where
  "recovery_integrity_status_value Integrity_VERIFIED = ''verified''"
| "recovery_integrity_status_value Integrity_FAILED = ''failed''"

datatype restore_status =
    Restore_VERIFIED
  | Restore_DEGRADED
  | Restore_FAILED

fun restore_status_value :: "restore_status \<Rightarrow> string" where
  "restore_status_value Restore_VERIFIED = ''verified''"
| "restore_status_value Restore_DEGRADED = ''degraded''"
| "restore_status_value Restore_FAILED = ''failed''"

datatype recovery_finding_severity =
    RecSev_INFO
  | RecSev_WARNING
  | RecSev_ERROR
  | RecSev_CRITICAL

datatype uncertain_recovery_disposition =
    Uncertain_RECONCILE_REQUIRED
  | Uncertain_MATCHED_SUCCESS
  | Uncertain_MATCHED_FAILURE
  | Uncertain_NOT_OBSERVED
  | Uncertain_UNVERIFIABLE

fun uncertain_recovery_disposition_value :: "uncertain_recovery_disposition \<Rightarrow> string" where
  "uncertain_recovery_disposition_value Uncertain_RECONCILE_REQUIRED = ''reconcile_required''"
| "uncertain_recovery_disposition_value Uncertain_MATCHED_SUCCESS = ''matched_success''"
| "uncertain_recovery_disposition_value Uncertain_MATCHED_FAILURE = ''matched_failure''"
| "uncertain_recovery_disposition_value Uncertain_NOT_OBSERVED = ''not_observed''"
| "uncertain_recovery_disposition_value Uncertain_UNVERIFIABLE = ''unverifiable''"

datatype break_glass_capability =
    Glass_RESTORE
  | Glass_FAILOVER
  | Glass_INTEGRITY_SCAN
  | Glass_RECONCILE
  | Glass_CONFIGURE_RECOVERY

fun break_glass_capability_value :: "break_glass_capability \<Rightarrow> string" where
  "break_glass_capability_value Glass_RESTORE = ''restore''"
| "break_glass_capability_value Glass_FAILOVER = ''failover''"
| "break_glass_capability_value Glass_INTEGRITY_SCAN = ''integrity_scan''"
| "break_glass_capability_value Glass_RECONCILE = ''reconcile''"
| "break_glass_capability_value Glass_CONFIGURE_RECOVERY = ''configure_recovery''"

datatype recovery_audit_event_type =
    RecAudit_PROFILE_PUBLISHED
  | RecAudit_BACKUP_RECORDED
  | RecAudit_RESTORE_PLANNED
  | RecAudit_BREAK_GLASS_ISSUED
  | RecAudit_BREAK_GLASS_USED
  | RecAudit_BREAK_GLASS_REVOKED
  | RecAudit_INTEGRITY_SCAN_RECORDED
  | RecAudit_UNCERTAIN_ATTEMPT_RECONCILED
  | RecAudit_RECOVERY_GAP_RECONCILED
  | RecAudit_RESTORE_COMPLETED
  | RecAudit_GAME_DAY_RECORDED

record reliability_profile =
  rel_schema_name :: string
  rel_schema_version :: string
  rel_profile_id :: string
  rel_tenant_id :: string
  rel_revision :: int
  rel_rpo_seconds :: int
  rel_rto_seconds :: int
  rel_backup_interval_seconds :: int
  rel_max_backup_age_seconds :: int
  rel_restore_exercise_interval_seconds :: int
  rel_required_components :: "recovery_component list"
  rel_max_break_glass_seconds :: int
  rel_effective_at :: datetime
  rel_created_at :: datetime
  rel_created_by :: actor_ref

definition reliability_profile_fields :: "reliability_profile \<Rightarrow> bool" where
  "reliability_profile_fields r = (nonblank (rel_profile_id r) \<and>
     nonblank (rel_tenant_id r) \<and>
     1 \<le> rel_revision r \<and>
     0 \<le> rel_rpo_seconds r \<and>
     0 < rel_rto_seconds r \<and>
     0 < rel_backup_interval_seconds r \<and>
     0 < rel_max_backup_age_seconds r \<and>
     0 < rel_restore_exercise_interval_seconds r \<and>
     60 \<le> rel_max_break_glass_seconds r \<and>
     rel_max_break_glass_seconds r \<le> 3600 \<and>
     actor_ref_fields (rel_created_by r))"

record backup_component_record =
  bcr_component :: recovery_component
  bcr_reference :: string
  bcr_sha256 :: string
  bcr_size_bytes :: int
  bcr_captured_at :: datetime
  bcr_source_site :: string
  bcr_encrypted :: bool
  bcr_immutable :: bool

definition backup_component_record_fields :: "backup_component_record \<Rightarrow> bool" where
  "backup_component_record_fields r = (nonblank (bcr_reference r) \<and>
     is_sha256 (bcr_sha256 r) \<and>
     0 \<le> bcr_size_bytes r \<and>
     nonblank (bcr_source_site r))"

record backup_manifest =
  bm_schema_name :: string
  bm_schema_version :: string
  bm_backup_id :: uuid
  bm_tenant_id :: string
  bm_profile_id :: string
  bm_profile_revision :: int
  bm_source_schema_version :: int
  bm_source_control_version :: string
  bm_source_site :: string
  bm_snapshot_set_id :: string
  bm_recovery_point_at :: datetime
  bm_created_at :: datetime
  bm_components :: "backup_component_record list"
  bm_ledger_chain_tip_sha256 :: string
  bm_trusted_checkpoint_sha256 :: string
  bm_trust_anchor_sha256 :: string

definition backup_manifest_fields :: "backup_manifest \<Rightarrow> bool" where
  "backup_manifest_fields r = (nonblank (bm_tenant_id r) \<and>
     nonblank (bm_profile_id r) \<and>
     1 \<le> bm_profile_revision r \<and>
     1 \<le> bm_source_schema_version r \<and>
     nonblank (bm_source_control_version r) \<and>
     nonblank (bm_source_site r) \<and>
     nonblank (bm_snapshot_set_id r) \<and>
     (list_all backup_component_record_fields) (bm_components r) \<and>
     is_sha256 (bm_ledger_chain_tip_sha256 r) \<and>
     is_sha256 (bm_trusted_checkpoint_sha256 r) \<and>
     is_sha256 (bm_trust_anchor_sha256 r))"

record restore_plan =
  rpl_schema_name :: string
  rpl_schema_version :: string
  rpl_restore_id :: uuid
  rpl_tenant_id :: string
  rpl_profile_id :: string
  rpl_profile_revision :: int
  rpl_backup_id :: uuid
  rpl_target_site :: string
  rpl_failure_detected_at :: datetime
  rpl_requested_at :: datetime
  rpl_requested_by :: actor_ref
  rpl_break_glass_grant_id :: uuid
  rpl_reconcile_uncertain :: bool
  rpl_reconcile_recovery_gap :: bool
  rpl_prohibit_blind_replay :: bool

definition restore_plan_fields :: "restore_plan \<Rightarrow> bool" where
  "restore_plan_fields r = (nonblank (rpl_tenant_id r) \<and>
     nonblank (rpl_profile_id r) \<and>
     1 \<le> rpl_profile_revision r \<and>
     nonblank (rpl_target_site r) \<and>
     actor_ref_fields (rpl_requested_by r))"

record restored_component_observation =
  rco_component :: recovery_component
  rco_reference :: string
  rco_sha256 :: string
  rco_observed_at :: datetime

definition restored_component_observation_fields :: "restored_component_observation \<Rightarrow> bool" where
  "restored_component_observation_fields r = (nonblank (rco_reference r) \<and>
     is_sha256 (rco_sha256 r))"

record recovery_integrity_finding =
  rif_severity :: recovery_finding_severity
  rif_component :: "recovery_component option"
  rif_reference :: string
  rif_summary :: string
  rif_expected_sha256 :: "string option"
  rif_observed_sha256 :: "string option"

definition recovery_integrity_finding_fields :: "recovery_integrity_finding \<Rightarrow> bool" where
  "recovery_integrity_finding_fields r = (nonblank (rif_reference r) \<and>
     nonblank (rif_summary r) \<and>
     (pred_option is_sha256) (rif_expected_sha256 r) \<and>
     (pred_option is_sha256) (rif_observed_sha256 r))"

record integrity_scan_result =
  isr_schema_name :: string
  isr_schema_version :: string
  isr_scan_id :: uuid
  isr_restore_id :: uuid
  isr_tenant_id :: string
  isr_completed_at :: datetime
  isr_status :: recovery_integrity_status
  isr_chain_verified :: bool
  isr_checkpoint_verified :: bool
  isr_trust_anchor_verified :: bool
  isr_object_store_verified :: bool
  isr_components_verified :: "recovery_component list"
  isr_findings :: "recovery_integrity_finding list"

definition integrity_scan_result_fields :: "integrity_scan_result \<Rightarrow> bool" where
  "integrity_scan_result_fields r = (nonblank (isr_tenant_id r) \<and>
     (list_all recovery_integrity_finding_fields) (isr_findings r))"

record uncertain_execution_recovery =
  uer_schema_name :: string
  uer_schema_version :: string
  uer_recovery_id :: uuid
  uer_restore_id :: uuid
  uer_tenant_id :: string
  uer_attempt_id :: uuid
  uer_action_id :: uuid
  uer_run_id :: uuid
  uer_original_state :: execution_attempt_state
  uer_provider_operation_id :: "string option"
  uer_disposition :: uncertain_recovery_disposition
  uer_observed_at :: datetime
  uer_evidence_reference :: "string option"
  uer_replay_permitted :: bool

definition uncertain_execution_recovery_fields :: "uncertain_execution_recovery \<Rightarrow> bool" where
  "uncertain_execution_recovery_fields r = (nonblank (uer_tenant_id r) \<and>
     (pred_option nonblank) (uer_provider_operation_id r) \<and>
     (pred_option nonblank) (uer_evidence_reference r))"

record recovery_gap_reconciliation =
  rgr_schema_name :: string
  rgr_schema_version :: string
  rgr_reconciliation_id :: uuid
  rgr_restore_id :: uuid
  rgr_tenant_id :: string
  rgr_recovery_point_at :: datetime
  rgr_failure_detected_at :: datetime
  rgr_completed_at :: datetime
  rgr_source_references :: "string list"
  rgr_unexpected_effect_count :: int
  rgr_unresolved_effect_count :: int
  rgr_evidence_reference :: string
  rgr_blind_replay_permitted :: bool

definition recovery_gap_reconciliation_fields :: "recovery_gap_reconciliation \<Rightarrow> bool" where
  "recovery_gap_reconciliation_fields r = (nonblank (rgr_tenant_id r) \<and>
     (list_all nonblank) (rgr_source_references r) \<and>
     0 \<le> rgr_unexpected_effect_count r \<and>
     0 \<le> rgr_unresolved_effect_count r \<and>
     nonblank (rgr_evidence_reference r))"

record restore_result =
  rre_schema_name :: string
  rre_schema_version :: string
  rre_restore_id :: uuid
  rre_tenant_id :: string
  rre_backup_id :: uuid
  rre_started_at :: datetime
  rre_completed_at :: datetime
  rre_status :: restore_status
  rre_actual_rpo_seconds :: rat
  rre_actual_rto_seconds :: rat
  rre_integrity_scan_id :: uuid
  rre_recovery_gap_reconciliation_id :: uuid
  rre_recovery_gap_reconciled :: bool
  rre_uncertain_recoveries :: "uncertain_execution_recovery list"
  rre_promoted :: bool
  rre_completed_by :: actor_ref

definition restore_result_fields :: "restore_result \<Rightarrow> bool" where
  "restore_result_fields r = (nonblank (rre_tenant_id r) \<and>
     0 \<le> rre_actual_rpo_seconds r \<and>
     0 \<le> rre_actual_rto_seconds r \<and>
     (list_all uncertain_execution_recovery_fields) (rre_uncertain_recoveries r) \<and>
     actor_ref_fields (rre_completed_by r))"

record break_glass_grant =
  bgg_schema_name :: string
  bgg_schema_version :: string
  bgg_grant_id :: uuid
  bgg_tenant_id :: string
  bgg_operator :: actor_ref
  bgg_approved_by :: actor_ref
  bgg_capabilities :: "break_glass_capability list"
  bgg_reason :: string
  bgg_ticket_reference :: string
  bgg_issued_at :: datetime
  bgg_expires_at :: datetime

definition break_glass_grant_fields :: "break_glass_grant \<Rightarrow> bool" where
  "break_glass_grant_fields r = (nonblank (bgg_tenant_id r) \<and>
     actor_ref_fields (bgg_operator r) \<and>
     actor_ref_fields (bgg_approved_by r) \<and>
     nonblank (bgg_reason r) \<and>
     nonblank (bgg_ticket_reference r))"

record break_glass_use =
  bgu_schema_name :: string
  bgu_schema_version :: string
  bgu_use_id :: uuid
  bgu_grant_id :: uuid
  bgu_tenant_id :: string
  bgu_capability :: break_glass_capability
  bgu_actor :: actor_ref
  bgu_occurred_at :: datetime
  bgu_purpose :: string

definition break_glass_use_fields :: "break_glass_use \<Rightarrow> bool" where
  "break_glass_use_fields r = (nonblank (bgu_tenant_id r) \<and>
     actor_ref_fields (bgu_actor r) \<and>
     nonblank (bgu_purpose r))"

record game_day_exercise =
  gde_schema_name :: string
  gde_schema_version :: string
  gde_exercise_id :: uuid
  gde_tenant_id :: string
  gde_profile_id :: string
  gde_profile_revision :: int
  gde_backup_id :: uuid
  gde_restore_id :: uuid
  gde_started_at :: datetime
  gde_completed_at :: datetime
  gde_simulated_site_failure :: bool
  gde_achieved_rpo_seconds :: rat
  gde_achieved_rto_seconds :: rat
  gde_chain_verified :: bool
  gde_checkpoint_verified :: bool
  gde_trust_anchor_verified :: bool
  gde_object_store_verified :: bool
  gde_uncertain_actions_reconciled :: bool
  gde_recovery_gap_reconciled :: bool
  gde_durable_catalog_verified :: bool
  gde_blind_replay_count :: int
  gde_passed :: bool
  gde_notes :: "string list"

definition game_day_exercise_fields :: "game_day_exercise \<Rightarrow> bool" where
  "game_day_exercise_fields r = (nonblank (gde_tenant_id r) \<and>
     nonblank (gde_profile_id r) \<and>
     1 \<le> gde_profile_revision r \<and>
     0 \<le> gde_achieved_rpo_seconds r \<and>
     0 \<le> gde_achieved_rto_seconds r \<and>
     0 \<le> gde_blind_replay_count r \<and>
     (list_all nonblank) (gde_notes r))"

record recovery_audit_event =
  rae_schema_name :: string
  rae_schema_version :: string
  rae_event_id :: uuid
  rae_tenant_id :: string
  rae_event_type :: recovery_audit_event_type
  rae_actor :: actor_ref
  rae_occurred_at :: datetime
  rae_target_id :: string
  rae_reason :: string
  rae_ticket_reference :: "string option"
  rae_attributes :: "(string \<times> string) list"

definition recovery_audit_event_fields :: "recovery_audit_event \<Rightarrow> bool" where
  "recovery_audit_event_fields r = (nonblank (rae_tenant_id r) \<and>
     actor_ref_fields (rae_actor r) \<and>
     nonblank (rae_target_id r) \<and>
     nonblank (rae_reason r) \<and>
     (pred_option nonblank) (rae_ticket_reference r))"


section \<open>Validators\<close>

definition validate_reliability :: "reliability_profile \<Rightarrow> reliability_profile result" where
  "validate_reliability p =
    (if actor_tenant_id (rel_created_by p) \<noteq> rel_tenant_id p
     then Inl (ValueError ''reliability profile actor must belong to the tenant'')
     else if rel_effective_at p < rel_created_at p
     then Inl (ValueError ''reliability profile cannot be effective before creation'')
     else if rel_required_components p = []
     then Inl (ValueError ''reliability profile requires at least one recovery component'')
     else if \<not> distinct (rel_required_components p) then Inl (ValueError ''recovery components must be unique'')
     else if rel_max_backup_age_seconds p < rel_backup_interval_seconds p
     then Inl (ValueError ''backup interval cannot exceed maximum backup age'')
     else if 0 < rel_rpo_seconds p \<and> rel_rpo_seconds p < rel_backup_interval_seconds p
     then Inl (ValueError ''backup interval cannot exceed the declared RPO'')
     else Inr p)"

definition validate_backup_manifest :: "backup_manifest \<Rightarrow> backup_manifest result" where
  "validate_backup_manifest m =
    (if bm_created_at m < bm_recovery_point_at m then Inl (ValueError ''backup recovery point cannot be in the future'')
     else if bm_components m = [] then Inl (ValueError ''backup manifest requires components'')
     else if \<not> distinct (map bcr_component (bm_components m))
     then Inl (ValueError ''backup manifest requires one canonical record per component'')
     else if list_ex (\<lambda>c. bm_created_at m < bcr_captured_at c) (bm_components m)
     then Inl (ValueError ''backup component capture cannot follow manifest creation'')
     else Inr m)"

definition validate_restore_plan :: "restore_plan \<Rightarrow> restore_plan result" where
  "validate_restore_plan p =
    (if actor_tenant_id (rpl_requested_by p) \<noteq> rpl_tenant_id p
     then Inl (ValueError ''restore requester must belong to the tenant'')
     else if rpl_requested_at p < rpl_failure_detected_at p
     then Inl (ValueError ''restore request cannot predate failure detection'')
     else if \<not> rpl_reconcile_uncertain p \<or> \<not> rpl_reconcile_recovery_gap p \<or> \<not> rpl_prohibit_blind_replay p
     then Inl (ValueError
       ''restore plans must reconcile known uncertainty and the RPO gap and prohibit blind replay'')
     else Inr p)"

definition severe :: "recovery_integrity_finding \<Rightarrow> bool" where
  "severe f = (rif_severity f \<in> {RecSev_ERROR, RecSev_CRITICAL})"

definition validate_scan :: "integrity_scan_result \<Rightarrow> integrity_scan_result result" where
  "validate_scan s =
    (if \<not> distinct (isr_components_verified s) then Inl (ValueError ''verified recovery components must be unique'')
     else if isr_status s = Integrity_VERIFIED
     then (if \<not> isr_chain_verified s \<or> \<not> isr_checkpoint_verified s \<or> \<not> isr_trust_anchor_verified s
              \<or> \<not> isr_object_store_verified s
           then Inl (ValueError
             ''verified recovery requires chain, signed-checkpoint, trust-anchor, and object-store proof'')
           else if list_ex severe (isr_findings s)
           then Inl (ValueError ''verified recovery cannot contain error or critical findings'')
           else Inr s)
     else Inr s)"

definition validate_uncertain_recovery :: "uncertain_execution_recovery \<Rightarrow> uncertain_execution_recovery result" where
  "validate_uncertain_recovery r =
    (if uer_original_state r \<noteq> Attempt_UNCERTAIN
     then Inl (ValueError ''recovery records apply only to uncertain execution attempts'')
     else if uer_replay_permitted r
     then Inl (ValueError ''disaster recovery never authorizes blind replay of an uncertain action'')
     else if uer_disposition r \<in> {Uncertain_MATCHED_SUCCESS, Uncertain_MATCHED_FAILURE} \<and> uer_evidence_reference r = None
     then Inl (ValueError ''resolved uncertain outcomes require evidence_reference'')
     else Inr r)"

definition validate_gap :: "recovery_gap_reconciliation \<Rightarrow> recovery_gap_reconciliation result" where
  "validate_gap r =
    (if rgr_failure_detected_at r < rgr_recovery_point_at r
     then Inl (ValueError ''recovery gap cannot begin after failure detection'')
     else if rgr_completed_at r < rgr_failure_detected_at r
     then Inl (ValueError ''recovery-gap reconciliation cannot complete before failure detection'')
     else if rgr_source_references r = []
     then Inl (ValueError ''recovery-gap reconciliation requires independent source evidence'')
     else if \<not> distinct (rgr_source_references r)
     then Inl (ValueError ''recovery-gap source references must be unique'')
     else if rgr_blind_replay_permitted r then Inl (ValueError ''recovery-gap evidence cannot authorize blind replay'')
     else Inr r)"

definition unresolved_recovery :: "uncertain_execution_recovery \<Rightarrow> bool" where
  "unresolved_recovery r = (uer_disposition r \<in> {Uncertain_RECONCILE_REQUIRED, Uncertain_UNVERIFIABLE})"

definition validate_restore_result :: "restore_result \<Rightarrow> restore_result result" where
  "validate_restore_result r =
    (if rre_completed_at r < rre_started_at r then Inl (ValueError ''restore completion cannot precede start'')
     else if actor_tenant_id (rre_completed_by r) \<noteq> rre_tenant_id r
     then Inl (ValueError ''restore completer must belong to the tenant'')
     else if list_ex (\<lambda>u. uer_tenant_id u \<noteq> rre_tenant_id r) (rre_uncertain_recoveries r)
     then Inl (ValueError ''uncertain recovery crossed tenant boundary'')
     else if rre_status r = Restore_VERIFIED
       \<and> (list_ex unresolved_recovery (rre_uncertain_recoveries r) \<or> \<not> rre_recovery_gap_reconciled r)
     then Inl (ValueError
       ''verified restore requires all known uncertainty and the RPO recovery gap to be reconciled'')
     else if rre_promoted r \<and> (rre_status r \<noteq> Restore_VERIFIED \<or> \<not> rre_recovery_gap_reconciled r)
     then Inl (ValueError ''only a fully reconciled verified restore may be promoted'')
     else Inr r)"

definition validate_break_glass :: "break_glass_grant \<Rightarrow> break_glass_grant result" where
  "validate_break_glass g =
    (if actor_tenant_id (bgg_operator g) \<noteq> bgg_tenant_id g \<or> actor_tenant_id (bgg_approved_by g) \<noteq> bgg_tenant_id g
     then Inl (ValueError ''break-glass actors must belong to the tenant'')
     else if actor_kind (bgg_operator g) = actor_kind (bgg_approved_by g) \<and> actor_id (bgg_operator g) = actor_id (bgg_approved_by g)
     then Inl (ValueError ''break-glass use requires an independent approver'')
     else if bgg_capabilities g = [] \<or> \<not> distinct (bgg_capabilities g)
     then Inl (ValueError ''break-glass capabilities must be non-empty and unique'')
     else if bgg_expires_at g \<le> bgg_issued_at g then Inl (ValueError ''break-glass grant must expire after issuance'')
     else Inr g)"

definition validate_break_glass_use :: "break_glass_use \<Rightarrow> break_glass_use result" where
  "validate_break_glass_use u =
    (if actor_tenant_id (bgu_actor u) \<noteq> bgu_tenant_id u
     then Inl (ValueError ''break-glass use actor must belong to the tenant'') else Inr u)"

definition validate_exercise :: "game_day_exercise \<Rightarrow> game_day_exercise result" where
  "validate_exercise e =
    (if gde_completed_at e < gde_started_at e then Inl (ValueError ''game day completion cannot precede start'')
     else if gde_passed e \<and> (\<not> gde_simulated_site_failure e \<or> \<not> gde_chain_verified e \<or> \<not> gde_checkpoint_verified e
        \<or> \<not> gde_trust_anchor_verified e \<or> \<not> gde_object_store_verified e \<or> \<not> gde_uncertain_actions_reconciled e
        \<or> \<not> gde_recovery_gap_reconciled e \<or> \<not> gde_durable_catalog_verified e \<or> gde_blind_replay_count e \<noteq> 0)
     then Inl (ValueError
       ''passing game day requires durable verified recovery with gap reconciliation and no blind replay'')
     else Inr e)"

end
