(* ===== verification/Recovery.thy ===== *)
theory Recovery
  imports Recovery_Contracts Tenancy
begin

text \<open>
  Disaster recovery: \<open>RecoveryIntegrityVerifier\<close> and \<open>InMemoryRecoveryStore\<close> of the runtime's \<open>recovery.py\<close>.
  Clock readings and \<open>uuid4\<close> results are arguments. An operation that releases the lock between its sections is
  their sequence; a step keeps the mutations made before it raises. \<open>str_float\<close> is \<open>str\<close> of a float, which is
  only printed.
\<close>

section \<open>The integrity verifier\<close>

definition integrity_finding ::
  "recovery_finding_severity \<Rightarrow> recovery_component option \<Rightarrow> string \<Rightarrow> string \<Rightarrow> string option \<Rightarrow> string option
    \<Rightarrow> recovery_integrity_finding" where
  "integrity_finding severity component reference summary expected observed =
    \<lparr>rif_severity = severity, rif_component = component, rif_reference = strip reference, rif_summary = strip summary,
     rif_expected_sha256 = expected, rif_observed_sha256 = observed\<rparr>"

definition expected_components :: "backup_manifest \<Rightarrow> (recovery_component \<times> backup_component_record) list" where
  "expected_components m = dict_of (map (\<lambda>i. (bcr_component i, i)) (bm_components m))"

definition observed_components ::
  "restored_component_observation list \<Rightarrow> (recovery_component \<times> restored_component_observation) list" where
  "observed_components observations = dict_of (map (\<lambda>i. (rco_component i, i)) observations)"

definition restored ::
  "(recovery_component \<times> restored_component_observation) list \<Rightarrow> recovery_component \<times> backup_component_record \<Rightarrow> bool" where
  "restored observed e = (\<exists>ob. map_of observed (fst e) = Some ob \<and> rco_sha256 ob = bcr_sha256 (snd e))"

definition component_finding ::
  "(recovery_component \<times> restored_component_observation) list \<Rightarrow> recovery_component \<times> backup_component_record
    \<Rightarrow> recovery_integrity_finding list" where
  "component_finding observed e =
    (case map_of observed (fst e) of
       None \<Rightarrow> [integrity_finding RecSev_CRITICAL (Some (fst e)) (bcr_reference (snd e))
         ''required recovery component is missing'' (Some (bcr_sha256 (snd e))) None]
     | Some ob \<Rightarrow>
         if rco_sha256 ob \<noteq> bcr_sha256 (snd e)
         then [integrity_finding RecSev_CRITICAL (Some (fst e)) (rco_reference ob)
           ''restored recovery component digest mismatch'' (Some (bcr_sha256 (snd e))) (Some (rco_sha256 ob))]
         else [])"

text \<open>The iteration order of the set \<open>set(observed) - set(expected)\<close> is arbitrary: \<open>order\<close> lists it.\<close>

definition extra_finding :: "recovery_component \<times> restored_component_observation \<Rightarrow> recovery_integrity_finding" where
  "extra_finding e = integrity_finding RecSev_ERROR (Some (fst e)) (rco_reference (snd e))
     ''restored component was not present in the canonical backup manifest'' None (Some (rco_sha256 (snd e)))"

definition extra_components ::
  "backup_manifest \<Rightarrow> restored_component_observation list \<Rightarrow> (recovery_component \<times> restored_component_observation) list" where
  "extra_components m observations =
    filter (\<lambda>e. fst e \<notin> fst ` set (expected_components m)) (observed_components observations)"

definition binding_findings ::
  "sha256_fn \<Rightarrow> backup_manifest \<Rightarrow> string \<Rightarrow> signed_checkpoint \<Rightarrow> trust_root_policy \<Rightarrow> recovery_integrity_finding list" where
  "binding_findings sha m chain_tip checkpoint policy =
    (if chain_tip \<noteq> bm_ledger_chain_tip_sha256 m
     then [integrity_finding RecSev_CRITICAL (Some Comp_LEDGER) ''ledger-chain-tip''
       ''restored ledger chain tip does not match the backup manifest'' (Some (bm_ledger_chain_tip_sha256 m)) (Some chain_tip)]
     else []) @
    (if sha256_hex sha (dump_trust_root_policy policy) \<noteq> bm_trust_anchor_sha256 m
     then [integrity_finding RecSev_CRITICAL None ''trusted-anchor''
       ''independent trust-root policy does not match the backup manifest anchor'' (Some (bm_trust_anchor_sha256 m))
       (Some (sha256_hex sha (dump_trust_root_policy policy)))]
     else []) @
    (if checkpoint_sha256 sha checkpoint \<noteq> bm_trusted_checkpoint_sha256 m
     then [integrity_finding RecSev_CRITICAL None ''signed-checkpoint''
       ''restored signed checkpoint digest does not match the backup manifest'' (Some (bm_trusted_checkpoint_sha256 m))
       (Some (checkpoint_sha256 sha checkpoint))]
     else []) @
    (if scp_tenant_id checkpoint \<noteq> bm_tenant_id m
     then [integrity_finding RecSev_CRITICAL None ''signed-checkpoint-tenant''
       ''restored signed checkpoint belongs to another tenant'' None None]
     else []) @
    (if scp_final_event_hash checkpoint \<noteq> bm_ledger_chain_tip_sha256 m
     then [integrity_finding RecSev_CRITICAL (Some Comp_LEDGER) ''signed-checkpoint-chain-tip''
       ''signed checkpoint does not bind the restored ledger chain tip'' (Some (bm_ledger_chain_tip_sha256 m))
       (Some (scp_final_event_hash checkpoint))]
     else [])"

definition checkpoint_bound :: "sha256_fn \<Rightarrow> backup_manifest \<Rightarrow> signed_checkpoint \<Rightarrow> bool" where
  "checkpoint_bound sha m checkpoint = (checkpoint_sha256 sha checkpoint = bm_trusted_checkpoint_sha256 m
     \<and> scp_tenant_id checkpoint = bm_tenant_id m \<and> scp_final_event_hash checkpoint = bm_ledger_chain_tip_sha256 m)"

definition signature_findings ::
  "(string \<Rightarrow> string \<Rightarrow> string \<Rightarrow> bool) \<Rightarrow> signed_checkpoint \<Rightarrow> trust_root_policy \<Rightarrow> bool \<Rightarrow> recovery_integrity_finding list result" where
  "signature_findings verify checkpoint policy bound =
    (if \<not> bound then Inr []
     else case verify_checkpoint verify checkpoint policy of
       Inr _ \<Rightarrow> Inr []
     | Inl (IntegrityViolationError msg) \<Rightarrow> Inr [integrity_finding RecSev_CRITICAL None ''signed-checkpoint-signature''
         (''signed checkpoint failed independent verification: '' @ msg) None None]
     | Inl e \<Rightarrow> Inl e)"

definition object_store_findings ::
  "backup_manifest \<Rightarrow> (recovery_component \<times> restored_component_observation) list \<Rightarrow> recovery_integrity_finding list" where
  "object_store_findings m observed =
    (if list_ex (\<lambda>e. fst e = Comp_OBJECT_STORE \<and> \<not> restored observed e) (expected_components m)
     then [integrity_finding RecSev_CRITICAL (Some Comp_OBJECT_STORE) ''object-store''
       ''object-store recovery did not verify'' None None]
     else [])"

definition check_findings :: "recovery_integrity_finding list \<Rightarrow> recovery_integrity_finding list result" where
  "check_findings = rmap (check_fields ''RecoveryIntegrityFinding'' recovery_integrity_finding_fields)"

definition new_scan ::
  "uuid \<Rightarrow> uuid \<Rightarrow> backup_manifest \<Rightarrow> datetime \<Rightarrow> bool \<Rightarrow> bool \<Rightarrow> bool \<Rightarrow> bool \<Rightarrow> recovery_component list
    \<Rightarrow> recovery_integrity_finding list \<Rightarrow> integrity_scan_result result" where
  "new_scan scan_id restore_id m at1 chain checkpoint anchor objects verified findings =
    rbind (check_fields ''IntegrityScanResult'' integrity_scan_result_fields
      \<lparr>isr_schema_name = ''prodkit.recovery-integrity-scan'', isr_schema_version = ''1.0.0'', isr_scan_id = scan_id,
       isr_restore_id = restore_id, isr_tenant_id = bm_tenant_id m, isr_completed_at = at1,
       isr_status = (if findings = [] \<and> chain \<and> checkpoint \<and> anchor \<and> objects then Integrity_VERIFIED else Integrity_FAILED),
       isr_chain_verified = chain, isr_checkpoint_verified = checkpoint, isr_trust_anchor_verified = anchor,
       isr_object_store_verified = objects, isr_components_verified = verified, isr_findings = findings\<rparr>)
    validate_scan"

definition verify_recovery ::
  "sha256_fn \<Rightarrow> (string \<Rightarrow> string \<Rightarrow> string \<Rightarrow> bool)
    \<Rightarrow> ((recovery_component \<times> restored_component_observation) list \<Rightarrow> (recovery_component \<times> restored_component_observation) list)
    \<Rightarrow> uuid \<Rightarrow> datetime \<Rightarrow> backup_manifest \<Rightarrow> uuid \<Rightarrow> restored_component_observation list \<Rightarrow> string \<Rightarrow> signed_checkpoint
    \<Rightarrow> trust_root_policy \<Rightarrow> integrity_scan_result result" where
  "verify_recovery sha verify order scan_id at1 m restore_id observations chain_tip checkpoint policy =
    (let expected = expected_components m; observed = observed_components observations;
         chain = (chain_tip = bm_ledger_chain_tip_sha256 m);
         anchor = (sha256_hex sha (dump_trust_root_policy policy) = bm_trust_anchor_sha256 m);
         bound = checkpoint_bound sha m checkpoint
     in rbind (raise_if (length observed \<noteq> length observations) (ValueError ''restored component observations must be unique'')) (\<lambda>_.
        rbind (check_findings (concat (map (component_finding observed) expected)
          @ map extra_finding (order (extra_components m observations)) @ binding_findings sha m chain_tip checkpoint policy)) (\<lambda>before.
        rbind (signature_findings verify checkpoint policy (anchor \<and> bound)) (\<lambda>raw_signature.
        rbind (check_findings raw_signature) (\<lambda>signature.
        rbind (check_findings (object_store_findings m observed)) (\<lambda>objects.
        new_scan scan_id restore_id m at1 chain (bound \<and> signature = []) anchor (objects = [])
          (map fst (filter (restored observed) expected)) (before @ signature @ objects)))))))"

section \<open>State\<close>

record recovery_store =
  rcs_profiles :: "string \<Rightarrow> reliability_profile list"
  rcs_backups :: "((string \<times> uuid) \<times> backup_manifest) list"
  rcs_plans :: "(string \<times> uuid) \<rightharpoonup> restore_plan"
  rcs_scans :: "(string \<times> uuid) \<rightharpoonup> integrity_scan_result"
  rcs_recoveries :: "(string \<times> uuid) \<Rightarrow> uncertain_execution_recovery list"
  rcs_gaps :: "(string \<times> uuid) \<rightharpoonup> recovery_gap_reconciliation"
  rcs_results :: "(string \<times> uuid) \<rightharpoonup> restore_result"
  rcs_grants :: "(string \<times> uuid) \<rightharpoonup> break_glass_grant"
  rcs_grant_uses :: "(string \<times> uuid) \<Rightarrow> break_glass_use list"
  rcs_revoked_grants :: "(string \<times> uuid) \<rightharpoonup> datetime"
  rcs_game_days :: "(string \<times> uuid) \<rightharpoonup> game_day_exercise"
  rcs_audit :: "string \<Rightarrow> recovery_audit_event list"

definition empty_recovery :: recovery_store where
  "empty_recovery = \<lparr>rcs_profiles = (\<lambda>_. []), rcs_backups = [], rcs_plans = Map.empty, rcs_scans = Map.empty,
     rcs_recoveries = (\<lambda>_. []), rcs_gaps = Map.empty, rcs_results = Map.empty, rcs_grants = Map.empty,
     rcs_grant_uses = (\<lambda>_. []), rcs_revoked_grants = Map.empty, rcs_game_days = Map.empty, rcs_audit = (\<lambda>_. [])\<rparr>"

section \<open>Shared steps\<close>

definition require_tenant_mode :: "tenant_access_context \<Rightarrow> unit result" where
  "require_tenant_mode c = raise_if (tac_mode c \<noteq> Access_TENANT)
     (AuthorizationDeniedError ''support elevation is not disaster-recovery authority'')"

definition require_tenant :: "tenant_access_context \<Rightarrow> tenant_capability \<Rightarrow> unit result" where
  "require_tenant c capability = rbind (require_tenant_mode c) (\<lambda>_. raise_if (capability \<notin> set (tac_capabilities c))
     (AuthorizationDeniedError (''tenant context lacks '' @ tenant_capability_value capability @ '' capability'')))"

definition recovery_event ::
  "uuid \<Rightarrow> tenant_access_context \<Rightarrow> recovery_audit_event_type \<Rightarrow> datetime \<Rightarrow> string \<Rightarrow> string \<Rightarrow> recovery_audit_event" where
  "recovery_event event_id c ty at1 target reason =
    \<lparr>rae_schema_name = ''prodkit.recovery-audit-event'', rae_schema_version = ''1.0.0'', rae_event_id = event_id,
     rae_tenant_id = strip (tac_tenant_id c), rae_event_type = ty, rae_actor = tac_actor c, rae_occurred_at = at1,
     rae_target_id = strip target, rae_reason = strip reason, rae_ticket_reference = None, rae_attributes = []\<rparr>"

definition append_recovery_audit :: "recovery_audit_event \<Rightarrow> (recovery_store, unit) prog" where
  "append_recovery_audit ev =
    bindE (lift_result (check_fields ''RecoveryAuditEvent'' recovery_audit_event_fields ev)) (\<lambda>e s.
    (Inr (), s\<lparr>rcs_audit := (rcs_audit s)(rae_tenant_id e := rcs_audit s (rae_tenant_id e) @ [e])\<rparr>))"

text \<open>\<open>max(active, key=revision)\<close> is the first of the greatest revisions.\<close>

fun max_revision :: "reliability_profile list \<Rightarrow> reliability_profile option" where
  "max_revision [] = None"
| "max_revision (p # ps) = (case max_revision ps of
     None \<Rightarrow> Some p | Some q \<Rightarrow> if rel_revision p < rel_revision q then Some q else Some p)"

definition active_profile :: "string \<Rightarrow> datetime \<Rightarrow> recovery_store \<Rightarrow> reliability_profile option" where
  "active_profile tenant at1 s = max_revision (filter (\<lambda>p. rel_effective_at p \<le> at1) (rcs_profiles s tenant))"

definition profile_locked :: "string \<Rightarrow> datetime \<Rightarrow> recovery_store \<Rightarrow> reliability_profile result" where
  "profile_locked tenant at1 s = (case active_profile tenant at1 s of
     None \<Rightarrow> Inl (ForeignException ''RuntimeError'' ''reliability profile is not configured or not yet effective'')
   | Some p \<Rightarrow> Inr p)"

definition plan_locked :: "string \<Rightarrow> uuid \<Rightarrow> recovery_store \<Rightarrow> restore_plan result" where
  "plan_locked tenant restore_id s = (case rcs_plans s (tenant, restore_id) of None \<Rightarrow> Inl (KeyError restore_id) | Some p \<Rightarrow> Inr p)"

definition grant_locked :: "string \<Rightarrow> uuid \<Rightarrow> recovery_store \<Rightarrow> break_glass_grant result" where
  "grant_locked tenant grant_id s = (case rcs_grants s (tenant, grant_id) of None \<Rightarrow> Inl (KeyError grant_id) | Some g \<Rightarrow> Inr g)"

definition backup_of :: "string \<Rightarrow> uuid \<Rightarrow> recovery_store \<Rightarrow> backup_manifest result" where
  "backup_of tenant backup_id s = (case map_of (rcs_backups s) (tenant, backup_id) of
     None \<Rightarrow> Inl (KeyError backup_id) | Some b \<Rightarrow> Inr b)"

definition reading :: "('s \<Rightarrow> 'a result) \<Rightarrow> ('s, 'a) prog" where
  "reading f s = (f s, s)"

definition modify :: "('s \<Rightarrow> 's) \<Rightarrow> ('s, unit) prog" where
  "modify f s = (Inr (), f s)"

definition plan_and_backup :: "string \<Rightarrow> uuid \<Rightarrow> recovery_store \<Rightarrow> (restore_plan \<times> backup_manifest) result" where
  "plan_and_backup tenant restore_id s = rbind (plan_locked tenant restore_id s) (\<lambda>plan.
     rbind (backup_of tenant (rpl_backup_id plan) s) (\<lambda>backup. Inr (plan, backup)))"

definition targets_profile :: "backup_manifest \<Rightarrow> reliability_profile \<Rightarrow> bool" where
  "targets_profile b p = (bm_profile_id b = rel_profile_id p \<and> bm_profile_revision b = rel_revision p)"

section \<open>Profiles and backups\<close>

definition expected_revision :: "reliability_profile list \<Rightarrow> int" where
  "expected_revision history = (if history = [] then 1 else rel_revision (last history) + 1)"

definition publish_profile ::
  "datetime \<Rightarrow> uuid \<Rightarrow> tenant_access_context \<Rightarrow> reliability_profile \<Rightarrow> (recovery_store, reliability_profile) prog" where
  "publish_profile now audit_id c profile =
    bindE (lift_result (require_tenant c Capability_CONFIGURE)) (\<lambda>_.
    bindE (lift_result (raise_if (rel_tenant_id profile \<noteq> tac_tenant_id c)
      (AuthorizationDeniedError ''reliability profile crossed tenant boundary''))) (\<lambda>_.
    bindE (reading (\<lambda>s. raise_if (rel_revision profile \<noteq> expected_revision (rcs_profiles s (tac_tenant_id c)))
      (ValueError (''reliability profile revision must advance to '' @ int_str (expected_revision (rcs_profiles s (tac_tenant_id c))))))) (\<lambda>_.
    bindE (modify (\<lambda>s. s\<lparr>rcs_profiles := (rcs_profiles s)(tac_tenant_id c := rcs_profiles s (tac_tenant_id c) @ [profile])\<rparr>)) (\<lambda>_.
    bindE (append_recovery_audit ((recovery_event audit_id c RecAudit_PROFILE_PUBLISHED now (rel_profile_id profile)
        ''publish reliability profile'')\<lparr>rae_attributes := [(''revision'', int_str (rel_revision profile))]\<rparr>)) (\<lambda>_.
    ret profile)))))"

definition current_profile :: "datetime \<Rightarrow> tenant_access_context \<Rightarrow> recovery_store \<Rightarrow> reliability_profile option result" where
  "current_profile now c s = rbind (require_tenant c Capability_READ) (\<lambda>_. Inr (active_profile (tac_tenant_id c) now s))"

definition missing_components :: "reliability_profile \<Rightarrow> backup_manifest \<Rightarrow> string list" where
  "missing_components p m = sort (remdups (map recovery_component_value
     (filter (\<lambda>k. k \<notin> set (map bcr_component (bm_components m))) (rel_required_components p))))"

definition usable_backup :: "datetime \<Rightarrow> reliability_profile \<Rightarrow> backup_manifest \<Rightarrow> unit result" where
  "usable_backup now p m =
    (if \<not> targets_profile m p then Inl (ValueError ''backup manifest does not target the active reliability profile'')
     else if missing_components p m \<noteq> []
     then Inl (ValueError (''backup is missing required components: '' @ join '', '' (missing_components p m)))
     else if now < bm_recovery_point_at m \<or> rel_rpo_seconds p * 1000000 < now - bm_recovery_point_at m
     then Inl (ValueError ''backup recovery point exceeds the declared RPO'')
     else Inr ())"

definition record_backup ::
  "datetime \<Rightarrow> uuid \<Rightarrow> tenant_access_context \<Rightarrow> backup_manifest \<Rightarrow> (recovery_store, backup_manifest) prog" where
  "record_backup now audit_id c m =
    bindE (lift_result (require_tenant c Capability_WRITE)) (\<lambda>_.
    bindE (lift_result (raise_if (bm_tenant_id m \<noteq> tac_tenant_id c)
      (AuthorizationDeniedError ''backup manifest crossed tenant boundary''))) (\<lambda>_.
    bindE (lift_result (raise_if (now < bm_created_at m) (ValueError ''backup manifest creation time cannot be in the future''))) (\<lambda>_.
    bindE (reading (profile_locked (tac_tenant_id c) now)) (\<lambda>p.
    bindE (lift_result (usable_backup now p m)) (\<lambda>_.
    bindE (reading (\<lambda>s. raise_if (map_of (rcs_backups s) (tac_tenant_id c, bm_backup_id m) \<notin> {None, Some m})
      (ValueError ''backup manifest identity is immutable''))) (\<lambda>_.
    bindE (modify (\<lambda>s. s\<lparr>rcs_backups := AList.update (tac_tenant_id c, bm_backup_id m) m (rcs_backups s)\<rparr>)) (\<lambda>_.
    bindE (append_recovery_audit ((recovery_event audit_id c RecAudit_BACKUP_RECORDED now (bm_backup_id m) ''record recovery backup'')
        \<lparr>rae_attributes := [(''snapshot_set_id'', bm_snapshot_set_id m)]\<rparr>)) (\<lambda>_.
    ret m))))))))"

definition latest_usable_backup :: "datetime \<Rightarrow> tenant_access_context \<Rightarrow> recovery_store \<Rightarrow> backup_manifest option result" where
  "latest_usable_backup now c s =
    rbind (require_tenant c Capability_READ) (\<lambda>_.
    rbind (profile_locked (tac_tenant_id c) now s) (\<lambda>p.
    Inr (List.find (\<lambda>b. bm_recovery_point_at b \<le> now \<and> now - bm_recovery_point_at b \<le> rel_max_backup_age_seconds p * 1000000)
      (sort_key (\<lambda>b. - bm_recovery_point_at b)
        (map snd (filter (\<lambda>kb. fst (fst kb) = tac_tenant_id c \<and> targets_profile (snd kb) p) (rcs_backups s)))))))"

section \<open>Break-glass grants\<close>

record glass_request =
  bgr_operator :: actor_ref
  bgr_capabilities :: "break_glass_capability list"
  bgr_reason :: string
  bgr_ticket_reference :: string
  bgr_ttl_seconds :: int

definition new_grant :: "datetime \<Rightarrow> uuid \<Rightarrow> tenant_access_context \<Rightarrow> glass_request \<Rightarrow> break_glass_grant result" where
  "new_grant now grant_id c a =
    rbind (check_fields ''BreakGlassGrant'' break_glass_grant_fields
      \<lparr>bgg_schema_name = ''prodkit.break-glass-grant'', bgg_schema_version = ''1.0.0'', bgg_grant_id = grant_id,
       bgg_tenant_id = strip (tac_tenant_id c), bgg_operator = bgr_operator a, bgg_approved_by = tac_actor c,
       bgg_capabilities = bgr_capabilities a, bgg_reason = strip (bgr_reason a),
       bgg_ticket_reference = strip (bgr_ticket_reference a), bgg_issued_at = now,
       bgg_expires_at = now + bgr_ttl_seconds a * 1000000\<rparr>)
    validate_break_glass"

definition put_grant :: "string \<Rightarrow> break_glass_grant \<Rightarrow> (recovery_store, unit) prog" where
  "put_grant tenant g = modify (\<lambda>s. s\<lparr>rcs_grants := (rcs_grants s)((tenant, bgg_grant_id g) \<mapsto> g)\<rparr>)"

definition issue_break_glass ::
  "datetime \<Rightarrow> uuid \<Rightarrow> uuid \<Rightarrow> tenant_access_context \<Rightarrow> glass_request \<Rightarrow> (recovery_store, break_glass_grant) prog" where
  "issue_break_glass now grant_id audit_id c a =
    bindE (lift_result (require_tenant c Capability_APPROVE)) (\<lambda>_.
    bindE (reading (profile_locked (tac_tenant_id c) now)) (\<lambda>p.
    bindE (lift_result (raise_if (bgr_ttl_seconds a < 60 \<or> rel_max_break_glass_seconds p < bgr_ttl_seconds a)
      (ValueError ''break-glass TTL is outside the reliability profile''))) (\<lambda>_.
    bindE (lift_result (new_grant now grant_id c a)) (\<lambda>grant.
    bindE (put_grant (tac_tenant_id c) grant) (\<lambda>_.
    bindE (append_recovery_audit ((recovery_event audit_id c RecAudit_BREAK_GLASS_ISSUED now grant_id (bgr_reason a))
        \<lparr>rae_ticket_reference := Some (strip (bgr_ticket_reference a)),
         rae_attributes := [(''operator'', actor_id (bgr_operator a))]\<rparr>)) (\<lambda>_.
    ret grant))))))"

definition revoke_break_glass ::
  "datetime \<Rightarrow> uuid \<Rightarrow> tenant_access_context \<Rightarrow> uuid \<Rightarrow> string \<Rightarrow> (recovery_store, unit) prog" where
  "revoke_break_glass now audit_id c grant_id reason =
    bindE (lift_result (require_tenant c Capability_APPROVE)) (\<lambda>_.
    bindE (reading (grant_locked (tac_tenant_id c) grant_id)) (\<lambda>grant.
    bindE (modify (\<lambda>s. s\<lparr>rcs_revoked_grants := (rcs_revoked_grants s)((tac_tenant_id c, grant_id) \<mapsto> now)\<rparr>)) (\<lambda>_.
    append_recovery_audit ((recovery_event audit_id c RecAudit_BREAK_GLASS_REVOKED now grant_id reason)
      \<lparr>rae_ticket_reference := Some (bgg_ticket_reference grant)\<rparr>))))"

definition authorize_use ::
  "datetime \<Rightarrow> tenant_access_context \<Rightarrow> uuid \<Rightarrow> break_glass_capability \<Rightarrow> recovery_store \<Rightarrow> break_glass_grant result" where
  "authorize_use now c grant_id capability s =
    rbind (grant_locked (tac_tenant_id c) grant_id s) (\<lambda>grant.
      if rcs_revoked_grants s (tac_tenant_id c, grant_id) \<noteq> None
      then Inl (AuthorizationDeniedError ''break-glass grant is revoked'')
      else if bgg_expires_at grant \<le> now then Inl (AuthorizationDeniedError ''break-glass grant is expired'')
      else if capability \<notin> set (bgg_capabilities grant)
      then Inl (AuthorizationDeniedError ''break-glass capability was not granted'')
      else if actor_kind (tac_actor c) \<noteq> actor_kind (bgg_operator grant) \<or> actor_id (tac_actor c) \<noteq> actor_id (bgg_operator grant)
      then Inl (AuthorizationDeniedError ''break-glass grant belongs to another operator'')
      else Inr grant)"

definition new_use ::
  "datetime \<Rightarrow> uuid \<Rightarrow> tenant_access_context \<Rightarrow> uuid \<Rightarrow> break_glass_capability \<Rightarrow> string \<Rightarrow> break_glass_use result" where
  "new_use now use_id c grant_id capability purpose =
    rbind (check_fields ''BreakGlassUse'' break_glass_use_fields
      \<lparr>bgu_schema_name = ''prodkit.break-glass-use'', bgu_schema_version = ''1.0.0'', bgu_use_id = use_id,
       bgu_grant_id = grant_id, bgu_tenant_id = strip (tac_tenant_id c), bgu_capability = capability,
       bgu_actor = tac_actor c, bgu_occurred_at = now, bgu_purpose = strip purpose\<rparr>)
    validate_break_glass_use"

text \<open>The identities a use of a grant draws: those of the use and of its audit event.\<close>

type_synonym use_ids = "uuid \<times> uuid"

definition use_break_glass ::
  "datetime \<Rightarrow> use_ids \<Rightarrow> tenant_access_context \<Rightarrow> uuid \<Rightarrow> break_glass_capability \<Rightarrow> string \<Rightarrow> (recovery_store, break_glass_use) prog" where
  "use_break_glass now ids c grant_id capability purpose =
    bindE (lift_result (require_tenant_mode c)) (\<lambda>_.
    bindE (reading (authorize_use now c grant_id capability)) (\<lambda>grant.
    bindE (lift_result (new_use now (fst ids) c grant_id capability purpose)) (\<lambda>use.
    bindE (modify (\<lambda>s. s\<lparr>rcs_grant_uses := (rcs_grant_uses s)((tac_tenant_id c, grant_id) :=
        rcs_grant_uses s (tac_tenant_id c, grant_id) @ [use])\<rparr>)) (\<lambda>_.
    bindE (append_recovery_audit ((recovery_event (snd ids) c RecAudit_BREAK_GLASS_USED now grant_id purpose)
        \<lparr>rae_ticket_reference := Some (bgg_ticket_reference grant),
         rae_attributes := [(''capability'', break_glass_capability_value capability)]\<rparr>)) (\<lambda>_.
    ret use)))))"

section \<open>Restores\<close>

definition new_plan ::
  "datetime \<Rightarrow> uuid \<Rightarrow> tenant_access_context \<Rightarrow> reliability_profile \<Rightarrow> uuid \<Rightarrow> string \<Rightarrow> uuid \<Rightarrow> restore_plan result" where
  "new_plan now restore_id c p backup_id target_site grant_id =
    rbind (check_fields ''RestorePlan'' restore_plan_fields
      \<lparr>rpl_schema_name = ''prodkit.restore-plan'', rpl_schema_version = ''1.0.0'', rpl_restore_id = restore_id,
       rpl_tenant_id = strip (tac_tenant_id c), rpl_profile_id = rel_profile_id p, rpl_profile_revision = rel_revision p,
       rpl_backup_id = backup_id, rpl_target_site = strip target_site, rpl_failure_detected_at = now,
       rpl_requested_at = now, rpl_requested_by = tac_actor c, rpl_break_glass_grant_id = grant_id,
       rpl_reconcile_uncertain = True, rpl_reconcile_recovery_gap = True, rpl_prohibit_blind_replay = True\<rparr>)
    validate_restore_plan"

definition plan_restore ::
  "datetime \<Rightarrow> datetime \<Rightarrow> use_ids \<Rightarrow> uuid \<Rightarrow> uuid \<Rightarrow> tenant_access_context \<Rightarrow> uuid \<Rightarrow> string \<Rightarrow> uuid
    \<Rightarrow> (recovery_store, restore_plan) prog" where
  "plan_restore at0 now ids restore_id audit_id c backup_id target_site grant_id =
    bindE (use_break_glass at0 ids c grant_id Glass_RESTORE (''restore backup '' @ backup_id @ '' to '' @ target_site)) (\<lambda>_.
    bindE (reading (backup_of (tac_tenant_id c) backup_id)) (\<lambda>backup.
    bindE (reading (profile_locked (tac_tenant_id c) now)) (\<lambda>p.
    bindE (lift_result (raise_if (\<not> targets_profile backup p)
      (ValueError ''restore backup does not target the active reliability profile''))) (\<lambda>_.
    bindE (lift_result (new_plan now restore_id c p backup_id target_site grant_id)) (\<lambda>plan.
    bindE (modify (\<lambda>s. s\<lparr>rcs_plans := (rcs_plans s)((tac_tenant_id c, restore_id) \<mapsto> plan)\<rparr>)) (\<lambda>_.
    bindE (append_recovery_audit ((recovery_event audit_id c RecAudit_RESTORE_PLANNED now restore_id ''plan disaster recovery restore'')
        \<lparr>rae_attributes := [(''target_site'', target_site), (''backup_id'', backup_id)]\<rparr>)) (\<lambda>_.
    ret plan)))))))"

definition verify_restore ::
  "sha256_fn \<Rightarrow> (string \<Rightarrow> string \<Rightarrow> string \<Rightarrow> bool)
    \<Rightarrow> ((recovery_component \<times> restored_component_observation) list \<Rightarrow> (recovery_component \<times> restored_component_observation) list)
    \<Rightarrow> datetime \<Rightarrow> datetime \<Rightarrow> use_ids \<Rightarrow> uuid \<Rightarrow> uuid \<Rightarrow> tenant_access_context \<Rightarrow> uuid \<Rightarrow> restored_component_observation list
    \<Rightarrow> string \<Rightarrow> signed_checkpoint \<Rightarrow> trust_root_policy \<Rightarrow> (recovery_store, integrity_scan_result) prog" where
  "verify_restore sha verify order at0 now ids scan_id audit_id c restore_id observations chain_tip checkpoint policy =
    bindE (reading (plan_and_backup (tac_tenant_id c) restore_id)) (\<lambda>(plan, manifest).
    bindE (use_break_glass at0 ids c (rpl_break_glass_grant_id plan) Glass_INTEGRITY_SCAN
      (''verify restored assurance state for '' @ restore_id)) (\<lambda>_.
    bindE (lift_result (verify_recovery sha verify order scan_id now manifest restore_id observations chain_tip checkpoint policy)) (\<lambda>scan.
    bindE (modify (\<lambda>s. s\<lparr>rcs_scans := (rcs_scans s)((tac_tenant_id c, scan_id) \<mapsto> scan)\<rparr>)) (\<lambda>_.
    bindE (append_recovery_audit ((recovery_event audit_id c RecAudit_INTEGRITY_SCAN_RECORDED now scan_id
          ''verify post-restore assurance integrity'')
        \<lparr>rae_attributes := [(''status'', recovery_integrity_status_value (isr_status scan)), (''restore_id'', restore_id)]\<rparr>)) (\<lambda>_.
    ret scan)))))"

text \<open>The resolver of uncertain attempts asks the outside world \<open>'w\<close> what became of an attempt.\<close>

type_synonym 'w attempt_resolver = "execution_attempt_record \<Rightarrow> uuid \<Rightarrow> ('w, uncertain_execution_recovery) prog"

definition recovery_matches ::
  "string \<Rightarrow> uuid \<Rightarrow> execution_attempt_record \<Rightarrow> uncertain_execution_recovery \<Rightarrow> bool" where
  "recovery_matches tenant restore_id a r = (uer_tenant_id r = tenant \<and> uer_restore_id r = restore_id
     \<and> uer_attempt_id r = att_attempt_id a \<and> uer_action_id r = att_action_id a \<and> uer_run_id r = att_run_id a
     \<and> \<not> uer_replay_permitted r)"

definition resolve_attempt ::
  "'w attempt_resolver \<Rightarrow> string \<Rightarrow> uuid \<Rightarrow> execution_attempt_record \<Rightarrow> ('w, uncertain_execution_recovery) prog" where
  "resolve_attempt resolver tenant restore_id a =
    bindE (lift_result (raise_if (att_tenant_id a \<noteq> tenant)
      (AuthorizationDeniedError ''uncertain attempt crossed tenant boundary''))) (\<lambda>_.
    bindE (lift_result (raise_if (att_state a \<noteq> Attempt_UNCERTAIN)
      (ValueError ''only uncertain execution attempts are recovery candidates''))) (\<lambda>_.
    bindE (resolver a restore_id) (\<lambda>r.
    bindE (lift_result (raise_if (\<not> recovery_matches tenant restore_id a r)
      (ValueError ''uncertain-attempt resolver returned mismatched recovery evidence''))) (\<lambda>_.
    ret r))))"

definition audit_recoveries ::
  "(nat \<Rightarrow> uuid) \<Rightarrow> tenant_access_context \<Rightarrow> datetime \<Rightarrow> uncertain_execution_recovery list \<Rightarrow> (recovery_store, unit) prog" where
  "audit_recoveries ids c now records =
    bindE (run_all (\<lambda>(i, r). append_recovery_audit ((recovery_event (ids i) c RecAudit_UNCERTAIN_ATTEMPT_RECONCILED now
        (uer_attempt_id r) ''reconcile uncertain execution after disaster recovery'')
        \<lparr>rae_attributes := [(''disposition'', uncertain_recovery_disposition_value (uer_disposition r))]\<rparr>))
      (enumerate 0 records)) (\<lambda>_. ret ())"

definition reconcile_uncertain_attempts ::
  "datetime \<Rightarrow> datetime \<Rightarrow> use_ids \<Rightarrow> (nat \<Rightarrow> uuid) \<Rightarrow> 'w attempt_resolver \<Rightarrow> tenant_access_context \<Rightarrow> uuid
    \<Rightarrow> execution_attempt_record list \<Rightarrow> (recovery_store \<times> 'w, uncertain_execution_recovery list) prog" where
  "reconcile_uncertain_attempts at0 now ids audit_ids resolver c restore_id attempts =
    bindE (on_store (reading (plan_locked (tac_tenant_id c) restore_id))) (\<lambda>plan.
    bindE (on_store (use_break_glass at0 ids c (rpl_break_glass_grant_id plan) Glass_RECONCILE
      (''reconcile uncertain execution after restore '' @ restore_id))) (\<lambda>_.
    bindE (lift_result (raise_if (\<not> distinct (map att_attempt_id attempts))
      (ValueError ''uncertain recovery candidates must have unique attempt identities''))) (\<lambda>_.
    bindE (on_world (run_all (resolve_attempt resolver (tac_tenant_id c) restore_id) attempts)) (\<lambda>records.
    bindE (on_store (modify (\<lambda>s. s\<lparr>rcs_recoveries := (rcs_recoveries s)((tac_tenant_id c, restore_id) := records)\<rparr>))) (\<lambda>_.
    bindE (on_store (audit_recoveries audit_ids c now records)) (\<lambda>_.
    ret records))))))"

record gap_evidence =
  gpe_source_references :: "string list"
  gpe_unexpected_effect_count :: int
  gpe_unresolved_effect_count :: int
  gpe_evidence_reference :: string

definition new_gap ::
  "datetime \<Rightarrow> uuid \<Rightarrow> tenant_access_context \<Rightarrow> restore_plan \<Rightarrow> backup_manifest \<Rightarrow> uuid \<Rightarrow> gap_evidence
    \<Rightarrow> recovery_gap_reconciliation result" where
  "new_gap now reconciliation_id c plan backup restore_id e =
    rbind (check_fields ''RecoveryGapReconciliation'' recovery_gap_reconciliation_fields
      \<lparr>rgr_schema_name = ''prodkit.recovery-gap-reconciliation'', rgr_schema_version = ''1.0.0'',
       rgr_reconciliation_id = reconciliation_id, rgr_restore_id = restore_id, rgr_tenant_id = strip (tac_tenant_id c),
       rgr_recovery_point_at = bm_recovery_point_at backup, rgr_failure_detected_at = rpl_failure_detected_at plan,
       rgr_completed_at = now, rgr_source_references = map strip (gpe_source_references e),
       rgr_unexpected_effect_count = gpe_unexpected_effect_count e, rgr_unresolved_effect_count = gpe_unresolved_effect_count e,
       rgr_evidence_reference = strip (gpe_evidence_reference e), rgr_blind_replay_permitted = False\<rparr>)
    validate_gap"

definition record_recovery_gap ::
  "datetime \<Rightarrow> datetime \<Rightarrow> use_ids \<Rightarrow> uuid \<Rightarrow> uuid \<Rightarrow> tenant_access_context \<Rightarrow> uuid \<Rightarrow> gap_evidence
    \<Rightarrow> (recovery_store, recovery_gap_reconciliation) prog" where
  "record_recovery_gap at0 now ids reconciliation_id audit_id c restore_id e =
    bindE (reading (plan_and_backup (tac_tenant_id c) restore_id)) (\<lambda>(plan, backup).
    bindE (use_break_glass at0 ids c (rpl_break_glass_grant_id plan) Glass_RECONCILE
      (''reconcile RPO recovery gap for '' @ restore_id)) (\<lambda>_.
    bindE (lift_result (new_gap now reconciliation_id c plan backup restore_id e)) (\<lambda>record s.
    case rcs_gaps s (tac_tenant_id c, restore_id) of
      Some existing \<Rightarrow>
        (if existing \<noteq> record then Inl (ValueError ''recovery-gap reconciliation is immutable once recorded'') else Inr existing, s)
    | None \<Rightarrow>
        bindE (modify (\<lambda>s. s\<lparr>rcs_gaps := (rcs_gaps s)((tac_tenant_id c, restore_id) \<mapsto> record)\<rparr>)) (\<lambda>_.
        bindE (append_recovery_audit ((recovery_event audit_id c RecAudit_RECOVERY_GAP_RECONCILED now restore_id
              ''reconcile effects across the backup RPO gap'')
            \<lparr>rae_attributes := [(''unexpected_effect_count'', int_str (gpe_unexpected_effect_count e)),
               (''unresolved_effect_count'', int_str (gpe_unresolved_effect_count e))]\<rparr>)) (\<lambda>_.
        ret record)) s)))"

text \<open>\<open>max(0.0, (b - a).total_seconds())\<close> of two instants in microseconds.\<close>

definition elapsed_seconds :: "datetime \<Rightarrow> datetime \<Rightarrow> rat" where
  "elapsed_seconds a b = max 0 (of_int (b - a) / 1000000)"

definition restore_verdict ::
  "reliability_profile \<Rightarrow> integrity_scan_result \<Rightarrow> bool \<Rightarrow> bool \<Rightarrow> rat \<Rightarrow> rat \<Rightarrow> restore_status \<times> bool" where
  "restore_verdict p scan unresolved gap_reconciled rpo rto =
    (if isr_status scan = Integrity_VERIFIED \<and> \<not> unresolved \<and> gap_reconciled
        \<and> rpo \<le> of_int (rel_rpo_seconds p) \<and> rto \<le> of_int (rel_rto_seconds p)
     then (Restore_VERIFIED, True)
     else if isr_status scan = Integrity_VERIFIED then (Restore_DEGRADED, False)
     else (Restore_FAILED, False))"

definition new_restore_result ::
  "datetime \<Rightarrow> tenant_access_context \<Rightarrow> restore_plan \<Rightarrow> backup_manifest \<Rightarrow> reliability_profile \<Rightarrow> integrity_scan_result
    \<Rightarrow> recovery_gap_reconciliation \<Rightarrow> uncertain_execution_recovery list \<Rightarrow> uuid \<Rightarrow> uuid \<Rightarrow> restore_result result" where
  "new_restore_result now c plan backup p scan gap recoveries restore_id scan_id =
    (let rpo = elapsed_seconds (bm_recovery_point_at backup) (rpl_failure_detected_at plan);
         rto = elapsed_seconds (rpl_failure_detected_at plan) now;
         reconciled = (rgr_unresolved_effect_count gap = 0);
         verdict = restore_verdict p scan (list_ex unresolved_recovery recoveries) reconciled rpo rto
     in rbind (check_fields ''RestoreResult'' restore_result_fields
          \<lparr>rre_schema_name = ''prodkit.restore-result'', rre_schema_version = ''1.0.0'', rre_restore_id = restore_id,
           rre_tenant_id = strip (tac_tenant_id c), rre_backup_id = bm_backup_id backup,
           rre_started_at = rpl_failure_detected_at plan, rre_completed_at = now, rre_status = fst verdict,
           rre_actual_rpo_seconds = rpo, rre_actual_rto_seconds = rto, rre_integrity_scan_id = scan_id,
           rre_recovery_gap_reconciliation_id = rgr_reconciliation_id gap, rre_recovery_gap_reconciled = reconciled,
           rre_uncertain_recoveries = recoveries, rre_promoted = snd verdict, rre_completed_by = tac_actor c\<rparr>)
        validate_restore_result)"

definition scan_for :: "string \<Rightarrow> uuid \<Rightarrow> uuid \<Rightarrow> recovery_store \<Rightarrow> integrity_scan_result result" where
  "scan_for tenant restore_id scan_id s = (case rcs_scans s (tenant, scan_id) of
     Some scan \<Rightarrow> (if isr_restore_id scan = restore_id then Inr scan
       else Inl (ValueError ''restore requires an integrity scan for the same restore''))
   | None \<Rightarrow> Inl (ValueError ''restore requires an integrity scan for the same restore''))"

definition gap_for :: "string \<Rightarrow> uuid \<Rightarrow> recovery_store \<Rightarrow> recovery_gap_reconciliation result" where
  "gap_for tenant restore_id s = (case rcs_gaps s (tenant, restore_id) of
     None \<Rightarrow> Inl (ValueError ''restore requires reconciliation of the RPO recovery gap'') | Some gap \<Rightarrow> Inr gap)"

definition complete_restore ::
  "(rat \<Rightarrow> string) \<Rightarrow> datetime \<Rightarrow> datetime \<Rightarrow> use_ids \<Rightarrow> uuid \<Rightarrow> tenant_access_context \<Rightarrow> uuid \<Rightarrow> uuid
    \<Rightarrow> (recovery_store, restore_result) prog" where
  "complete_restore str_float at0 now ids audit_id c restore_id scan_id =
    bindE (reading (plan_locked (tac_tenant_id c) restore_id)) (\<lambda>plan.
    bindE (use_break_glass at0 ids c (rpl_break_glass_grant_id plan) Glass_FAILOVER
      (''authorize promotion of verified restore '' @ restore_id)) (\<lambda>_.
    bindE (reading (backup_of (tac_tenant_id c) (rpl_backup_id plan))) (\<lambda>backup.
    bindE (reading (profile_locked (tac_tenant_id c) now)) (\<lambda>p.
    bindE (reading (scan_for (tac_tenant_id c) restore_id scan_id)) (\<lambda>scan.
    bindE (reading (gap_for (tac_tenant_id c) restore_id)) (\<lambda>gap.
    bindE (reading (\<lambda>s. new_restore_result now c plan backup p scan gap (rcs_recoveries s (tac_tenant_id c, restore_id)) restore_id scan_id)) (\<lambda>result.
    bindE (modify (\<lambda>s. s\<lparr>rcs_results := (rcs_results s)((tac_tenant_id c, restore_id) \<mapsto> result)\<rparr>)) (\<lambda>_.
    bindE (append_recovery_audit ((recovery_event audit_id c RecAudit_RESTORE_COMPLETED now restore_id
          ''complete disaster recovery restore'')
        \<lparr>rae_attributes := [(''status'', restore_status_value (rre_status result)),
           (''actual_rpo_seconds'', str_float (rre_actual_rpo_seconds result)),
           (''actual_rto_seconds'', str_float (rre_actual_rto_seconds result)),
           (''recovery_gap_reconciled'', if rre_recovery_gap_reconciled result then ''true'' else ''false'')]\<rparr>)) (\<lambda>_.
    ret result)))))))))"

section \<open>Game days and the audit trail\<close>

definition new_exercise ::
  "datetime \<Rightarrow> uuid \<Rightarrow> tenant_access_context \<Rightarrow> reliability_profile \<Rightarrow> integrity_scan_result \<Rightarrow> restore_result \<Rightarrow> bool \<Rightarrow> string list
    \<Rightarrow> game_day_exercise result" where
  "new_exercise now exercise_id c p scan result simulated notes =
    rbind (check_fields ''GameDayExercise'' game_day_exercise_fields
      \<lparr>gde_schema_name = ''prodkit.dr-game-day'', gde_schema_version = ''1.0.0'', gde_exercise_id = exercise_id,
       gde_tenant_id = strip (tac_tenant_id c), gde_profile_id = rel_profile_id p, gde_profile_revision = rel_revision p,
       gde_backup_id = rre_backup_id result, gde_restore_id = rre_restore_id result, gde_started_at = rre_started_at result,
       gde_completed_at = now, gde_simulated_site_failure = simulated,
       gde_achieved_rpo_seconds = rre_actual_rpo_seconds result, gde_achieved_rto_seconds = rre_actual_rto_seconds result,
       gde_chain_verified = isr_chain_verified scan, gde_checkpoint_verified = isr_checkpoint_verified scan,
       gde_trust_anchor_verified = isr_trust_anchor_verified scan, gde_object_store_verified = isr_object_store_verified scan,
       gde_uncertain_actions_reconciled = (\<not> list_ex unresolved_recovery (rre_uncertain_recoveries result)),
       gde_recovery_gap_reconciled = rre_recovery_gap_reconciled result, gde_durable_catalog_verified = False,
       gde_blind_replay_count = 0, gde_passed = False, gde_notes = map strip notes\<rparr>)
    validate_exercise"

definition record_game_day ::
  "datetime \<Rightarrow> uuid \<Rightarrow> uuid \<Rightarrow> tenant_access_context \<Rightarrow> restore_result \<Rightarrow> bool \<Rightarrow> string list
    \<Rightarrow> (recovery_store, game_day_exercise) prog" where
  "record_game_day now exercise_id audit_id c result simulated notes =
    bindE (lift_result (require_tenant c Capability_CONFIGURE)) (\<lambda>_.
    bindE (lift_result (raise_if (rre_tenant_id result \<noteq> tac_tenant_id c)
      (AuthorizationDeniedError ''game-day result crossed tenant boundary''))) (\<lambda>_.
    bindE (reading (profile_locked (tac_tenant_id c) now)) (\<lambda>p.
    bindE (reading (\<lambda>s. case rcs_scans s (tac_tenant_id c, rre_integrity_scan_id result) of
      None \<Rightarrow> Inl (KeyError (rre_integrity_scan_id result)) | Some scan \<Rightarrow> Inr scan)) (\<lambda>scan.
    bindE (lift_result (new_exercise now exercise_id c p scan result simulated notes)) (\<lambda>exercise.
    bindE (modify (\<lambda>s. s\<lparr>rcs_game_days := (rcs_game_days s)((tac_tenant_id c, exercise_id) \<mapsto> exercise)\<rparr>)) (\<lambda>_.
    bindE (append_recovery_audit ((recovery_event audit_id c RecAudit_GAME_DAY_RECORDED now exercise_id
          ''record standalone disaster recovery exercise'')
        \<lparr>rae_attributes := [(''passed'', ''false''), (''durable_catalog_verified'', ''false'')]\<rparr>)) (\<lambda>_.
    ret exercise)))))))"

definition recovery_audit_events :: "tenant_access_context \<Rightarrow> recovery_store \<Rightarrow> recovery_audit_event list result" where
  "recovery_audit_events c s = rbind (require_tenant c Capability_READ) (\<lambda>_. Inr (rcs_audit s (tac_tenant_id c)))"

end
