(* ===== verification/Recovery_Safety.thy ===== *)
theory Recovery_Safety
  imports Recovery
begin

text \<open>
  What disaster recovery guarantees: an integrity scan verifies exactly the restored state the backup manifest
  describes; break-glass authority is independent, bounded and ends with its revocation; and only a restore that
  was verified, reconciled and in time is promoted.
\<close>

section \<open>The integrity scan is exact\<close>

text \<open>What it means for a restored system to be the one the manifest describes.\<close>

definition same_component :: "backup_component_record \<Rightarrow> restored_component_observation \<Rightarrow> bool" where
  "same_component b ob \<longleftrightarrow> rco_component ob = bcr_component b \<and> rco_sha256 ob = bcr_sha256 b"

definition restored_exactly ::
  "sha256_fn \<Rightarrow> (string \<Rightarrow> string \<Rightarrow> string \<Rightarrow> bool) \<Rightarrow> backup_manifest \<Rightarrow> restored_component_observation list
    \<Rightarrow> string \<Rightarrow> signed_checkpoint \<Rightarrow> trust_root_policy \<Rightarrow> bool" where
  "restored_exactly sha verify m observations chain_tip checkpoint policy \<longleftrightarrow>
    (\<forall>b \<in> set (bm_components m). \<exists>ob \<in> set observations. same_component b ob)
    \<and> rco_component ` set observations \<subseteq> bcr_component ` set (bm_components m)
    \<and> chain_tip = bm_ledger_chain_tip_sha256 m
    \<and> sha256_hex sha (dump_trust_root_policy policy) = bm_trust_anchor_sha256 m
    \<and> checkpoint_sha256 sha checkpoint = bm_trusted_checkpoint_sha256 m
    \<and> scp_tenant_id checkpoint = bm_tenant_id m \<and> scp_final_event_hash checkpoint = chain_tip
    \<and> (\<exists>key. verify_checkpoint verify checkpoint policy = Inr key)"

lemma keys_dict_of: "fst ` set (dict_of xs) = fst ` set xs"
proof -
  have "fst ` set (foldl (\<lambda>d p. AList.update (fst p) (snd p) d) d xs) = fst ` set d \<union> fst ` set xs" for d
  proof (induction xs arbitrary: d)
    case (Cons p xs)
    have "fst ` set (AList.update (fst p) (snd p) d) = insert (fst p) (fst ` set d)"
      unfolding set_map [symmetric] map_fst_update by auto
    with Cons show ?case by auto
  qed simp
  from this [of "[]"] show ?thesis by (simp add: dict_of_def)
qed

lemma length_dict_of: "length (dict_of xs) = length xs \<longleftrightarrow> distinct (map fst xs)"
proof
  assume l: "length (dict_of xs) = length xs"
  have "length (dict_of xs) = card (set (map fst (dict_of xs)))" using distinct_card [OF distinct_dict_of, of xs] by simp
  with l have "card (set (map fst xs)) = length (map fst xs)" by (simp add: keys_dict_of)
  then show "distinct (map fst xs)" by (rule card_distinct)
qed simp

lemma manifest_components:
  assumes "validate_backup_manifest m = Inr m"
  shows "expected_components m = map (\<lambda>b. (bcr_component b, b)) (bm_components m)" "distinct (map bcr_component (bm_components m))"
proof -
  show d: "distinct (map bcr_component (bm_components m))" using assms by (simp add: validate_backup_manifest_def split: if_splits)
  then show "expected_components m = map (\<lambda>b. (bcr_component b, b)) (bm_components m)"
    unfolding expected_components_def by (intro dict_of_distinct) (simp add: comp_def)
qed

lemma observed_distinct:
  assumes "distinct (map rco_component obs)"
  shows "observed_components obs = map (\<lambda>ob. (rco_component ob, ob)) obs"
    "map_of (observed_components obs) k = Some ob \<longleftrightarrow> ob \<in> set obs \<and> rco_component ob = k"
proof -
  show eq: "observed_components obs = map (\<lambda>ob. (rco_component ob, ob)) obs"
    unfolding observed_components_def using assms by (intro dict_of_distinct) (simp add: comp_def)
  have "distinct (map fst (map (\<lambda>ob. (rco_component ob, ob)) obs))" using assms by (simp add: comp_def)
  from map_of_eq_Some_iff [OF this] show "map_of (observed_components obs) k = Some ob \<longleftrightarrow> ob \<in> set obs \<and> rco_component ob = k"
    unfolding eq by auto
qed

lemma restored_iff:
  "distinct (map rco_component obs) \<Longrightarrow> restored (observed_components obs) (bcr_component b, b) \<longleftrightarrow> (\<exists>ob \<in> set obs. same_component b ob)"
  by (auto simp: restored_def observed_distinct(2) same_component_def)

lemma component_finding_empty: "component_finding observed e = [] \<longleftrightarrow> restored observed e"
  by (auto simp: component_finding_def restored_def split: option.splits)

lemma check_findings_id: "check_findings fs = Inr gs \<Longrightarrow> gs = fs"
proof (induction fs arbitrary: gs)
  case (Cons f fs)
  then show ?case by (auto simp: check_findings_def split: sum.splits)
qed (simp add: check_findings_def)

lemma signature_findings_empty:
  "signature_findings verify checkpoint policy bound = Inr fs \<Longrightarrow> bound \<Longrightarrow>
    fs = [] \<longleftrightarrow> (\<exists>key. verify_checkpoint verify checkpoint policy = Inr key)"
  by (auto simp: signature_findings_def split: sum.splits exn.splits)

lemma binding_findings_empty:
  "binding_findings sha m tip checkpoint policy = [] \<longleftrightarrow> tip = bm_ledger_chain_tip_sha256 m
    \<and> sha256_hex sha (dump_trust_root_policy policy) = bm_trust_anchor_sha256 m \<and> checkpoint_bound sha m checkpoint"
  by (auto simp: binding_findings_def checkpoint_bound_def)

lemma object_findings_empty:
  "object_store_findings m observed = [] \<longleftrightarrow> (\<forall>e \<in> set (expected_components m). fst e = Comp_OBJECT_STORE \<longrightarrow> restored observed e)"
  by (auto simp: object_store_findings_def list_ex_iff)

lemma verify_recovery_cases:
  assumes "verify_recovery sha verify order scan_id now m restore_id obs tip checkpoint policy = Inr scan"
  obtains signature where "distinct (map rco_component obs)"
    "signature_findings verify checkpoint policy
      (sha256_hex sha (dump_trust_root_policy policy) = bm_trust_anchor_sha256 m \<and> checkpoint_bound sha m checkpoint) = Inr signature"
    "isr_findings scan = concat (map (component_finding (observed_components obs)) (expected_components m))
      @ map extra_finding (order (extra_components m obs)) @ binding_findings sha m tip checkpoint policy @ signature
      @ object_store_findings m (observed_components obs)"
    "isr_status scan = (if isr_findings scan = [] then Integrity_VERIFIED else Integrity_FAILED)"
    "isr_components_verified scan = map fst (filter (restored (observed_components obs)) (expected_components m))"
    "isr_scan_id scan = scan_id" "isr_restore_id scan = restore_id" "isr_tenant_id scan = bm_tenant_id m" "isr_completed_at scan = now"
proof -
  let ?observed = "observed_components obs"
  let ?anchor = "sha256_hex sha (dump_trust_root_policy policy) = bm_trust_anchor_sha256 m"
  let ?chain = "tip = bm_ledger_chain_tip_sha256 m" and ?bound = "checkpoint_bound sha m checkpoint"
  from assms obtain signature where len: "length ?observed = length obs"
    and sig: "signature_findings verify checkpoint policy (?anchor \<and> ?bound) = Inr signature"
    and new: "new_scan scan_id restore_id m now ?chain (?bound \<and> signature = []) ?anchor (object_store_findings m ?observed = [])
        (map fst (filter (restored ?observed) (expected_components m)))
        ((concat (map (component_finding ?observed) (expected_components m))
          @ map extra_finding (order (extra_components m obs)) @ binding_findings sha m tip checkpoint policy)
          @ signature @ object_store_findings m ?observed) = Inr scan"
    by (auto simp: verify_recovery_def Let_def raise_if_def dest!: check_findings_id split: if_splits)
  show thesis
  proof (rule that [OF _ sig])
    show "distinct (map rco_component obs)" using len length_dict_of [of "map (\<lambda>i. (rco_component i, i)) obs"]
      by (simp add: observed_components_def comp_def)
    show "isr_status scan = (if isr_findings scan = [] then Integrity_VERIFIED else Integrity_FAILED)"
      using new binding_findings_empty [of sha m tip checkpoint policy] by (auto simp: new_scan_def validate_scan_def split: if_splits)
  qed (use new in \<open>auto simp: new_scan_def validate_scan_def split: if_splits\<close>)
qed

lemma scan_exact:
  assumes m: "validate_backup_manifest m = Inr m" and order: "\<And>xs. mset (order xs) = mset xs"
    and scan: "verify_recovery sha verify order scan_id now m restore_id obs tip checkpoint policy = Inr scan"
  shows "distinct (map rco_component obs)"
    "isr_status scan = Integrity_VERIFIED \<longleftrightarrow> restored_exactly sha verify m obs tip checkpoint policy"
    "isr_status scan = Integrity_VERIFIED \<longleftrightarrow> isr_findings scan = []"
    "isr_components_verified scan = map bcr_component (filter (\<lambda>b. \<exists>ob \<in> set obs. same_component b ob) (bm_components m))"
proof -
  from verify_recovery_cases [OF scan] obtain signature where d: "distinct (map rco_component obs)"
    and sig: "signature_findings verify checkpoint policy
      (sha256_hex sha (dump_trust_root_policy policy) = bm_trust_anchor_sha256 m \<and> checkpoint_bound sha m checkpoint) = Inr signature"
    and f: "isr_findings scan = concat (map (component_finding (observed_components obs)) (expected_components m))
      @ map extra_finding (order (extra_components m obs)) @ binding_findings sha m tip checkpoint policy @ signature
      @ object_store_findings m (observed_components obs)"
    and st: "isr_status scan = (if isr_findings scan = [] then Integrity_VERIFIED else Integrity_FAILED)"
    and v: "isr_components_verified scan = map fst (filter (restored (observed_components obs)) (expected_components m))"
    by metis
  note mc = manifest_components [OF m] and od = observed_distinct [OF d]
  show "distinct (map rco_component obs)" by (rule d)
  show status: "isr_status scan = Integrity_VERIFIED \<longleftrightarrow> isr_findings scan = []" using st by simp
  have "order (extra_components m obs) = [] \<longleftrightarrow> extra_components m obs = []" using order by (metis mset_zero_iff_right)
  also have "\<dots> \<longleftrightarrow> rco_component ` set obs \<subseteq> bcr_component ` set (bm_components m)"
    by (simp add: extra_components_def mc od filter_empty_conv image_image image_subset_iff)
  finally have extra: "order (extra_components m obs) = [] \<longleftrightarrow> rco_component ` set obs \<subseteq> bcr_component ` set (bm_components m)" .
  have comps: "concat (map (component_finding (observed_components obs)) (expected_components m)) = []
      \<longleftrightarrow> (\<forall>b \<in> set (bm_components m). \<exists>ob \<in> set obs. same_component b ob)"
    by (simp add: mc component_finding_empty restored_iff [OF d])
  have objects: "(\<forall>b \<in> set (bm_components m). \<exists>ob \<in> set obs. same_component b ob) \<Longrightarrow> object_store_findings m (observed_components obs) = []"
    by (simp add: object_findings_empty mc) (metis restored_iff [OF d])
  show "isr_status scan = Integrity_VERIFIED \<longleftrightarrow> restored_exactly sha verify m obs tip checkpoint policy"
    unfolding status f append_is_Nil_conv comps binding_findings_empty map_is_Nil_conv extra restored_exactly_def
    using objects signature_findings_empty [OF sig] by (auto simp: checkpoint_bound_def)
  show "isr_components_verified scan = map bcr_component (filter (\<lambda>b. \<exists>ob \<in> set obs. same_component b ob) (bm_components m))"
    unfolding v mc by (simp add: filter_map comp_def restored_iff [OF d])
qed

section \<open>What each operation does\<close>

text \<open>The part of the store the guarantees speak of: everything but audit trails, recoveries, results and game days.\<close>

definition rec_core :: "recovery_store \<Rightarrow> recovery_store" where
  "rec_core s = s\<lparr>rcs_audit := (\<lambda>_. []), rcs_recoveries := (\<lambda>_. []), rcs_results := Map.empty, rcs_game_days := Map.empty\<rparr>"

lemma rec_core_eq_iff:
  "rec_core s = rec_core t \<longleftrightarrow> rcs_profiles s = rcs_profiles t \<and> rcs_backups s = rcs_backups t \<and> rcs_plans s = rcs_plans t
    \<and> rcs_scans s = rcs_scans t \<and> rcs_gaps s = rcs_gaps t \<and> rcs_grants s = rcs_grants t
    \<and> rcs_grant_uses s = rcs_grant_uses t \<and> rcs_revoked_grants s = rcs_revoked_grants t"
  by (cases s; cases t) (auto simp: rec_core_def)

text \<open>
  The changes a call makes to it. Arguments passed the validation of their models; a grant, a plan and a scan
  have a fresh \<open>uuid4\<close>.
\<close>

inductive rec_change ::
  "sha256_fn \<Rightarrow> (string \<Rightarrow> string \<Rightarrow> string \<Rightarrow> bool)
    \<Rightarrow> ((recovery_component \<times> restored_component_observation) list \<Rightarrow> (recovery_component \<times> restored_component_observation) list)
    \<Rightarrow> recovery_store \<Rightarrow> recovery_store \<Rightarrow> bool" for sha verify order where
  published: "reliability_profile_fields p \<Longrightarrow> rel_tenant_id p = t \<Longrightarrow> rel_revision p = expected_revision (rcs_profiles s t) \<Longrightarrow>
    rec_change sha verify order s (s\<lparr>rcs_profiles := (rcs_profiles s)(t := rcs_profiles s t @ [p])\<rparr>)"
| backed_up: "validate_backup_manifest m = Inr m \<Longrightarrow> bm_tenant_id m = t \<Longrightarrow>
    map_of (rcs_backups s) (t, bm_backup_id m) \<in> {None, Some m} \<Longrightarrow>
    rec_change sha verify order s (s\<lparr>rcs_backups := AList.update (t, bm_backup_id m) m (rcs_backups s)\<rparr>)"
| granted: "rcs_grants s (t, gid) = None \<Longrightarrow> bgg_grant_id g = gid \<Longrightarrow> bgg_tenant_id g = t \<Longrightarrow>
    validate_break_glass g = Inr g \<Longrightarrow> bgg_expires_at g \<le> bgg_issued_at g + 3600 * 1000000 \<Longrightarrow>
    rec_change sha verify order s (s\<lparr>rcs_grants := (rcs_grants s)((t, gid) \<mapsto> g)\<rparr>)"
| revoked: "rec_change sha verify order s (s\<lparr>rcs_revoked_grants := (rcs_revoked_grants s)((t, gid) \<mapsto> now)\<rparr>)"
| used: "authorize_use now c gid cap s = Inr g \<Longrightarrow> tac_tenant_id c = t \<Longrightarrow> bgu_actor u = tac_actor c \<Longrightarrow> bgu_occurred_at u = now \<Longrightarrow>
    bgu_capability u = cap \<Longrightarrow>
    rec_change sha verify order s (s\<lparr>rcs_grant_uses := (rcs_grant_uses s)((t, gid) := rcs_grant_uses s (t, gid) @ [u])\<rparr>)"
| planned: "rcs_plans s (t, rid) = None \<Longrightarrow> backup_of t (rpl_backup_id p) s = Inr b \<Longrightarrow> rpl_restore_id p = rid \<Longrightarrow>
    rec_change sha verify order s (s\<lparr>rcs_plans := (rcs_plans s)((t, rid) \<mapsto> p)\<rparr>)"
| scanned: "rcs_scans s (t, sid) = None \<Longrightarrow> plan_and_backup t rid s = Inr (p, m) \<Longrightarrow>
    verify_recovery sha verify order sid now m rid obs tip checkpoint policy = Inr scan \<Longrightarrow>
    rec_change sha verify order s (s\<lparr>rcs_scans := (rcs_scans s)((t, sid) \<mapsto> scan)\<rparr>)"
| gap_closed: "rcs_gaps s (t, rid) = None \<Longrightarrow> plan_and_backup t rid s = Inr (p, m) \<Longrightarrow>
    rgr_recovery_point_at gap = bm_recovery_point_at m \<Longrightarrow> rgr_failure_detected_at gap = rpl_failure_detected_at p \<Longrightarrow>
    rec_change sha verify order s (s\<lparr>rcs_gaps := (rcs_gaps s)((t, rid) \<mapsto> gap)\<rparr>)"

definition rec_move where
  "rec_move sha verify order s s' \<longleftrightarrow> rec_core s' = rec_core s \<or> rec_change sha verify order s s'"

lemma move_core: "rec_core s' = rec_core s \<Longrightarrow> (rec_move sha verify order)\<^sup>*\<^sup>* s s'"
  by (auto simp: rec_move_def)

lemma move_change: "rec_change sha verify order s u \<Longrightarrow> rec_core s' = rec_core u \<Longrightarrow> (rec_move sha verify order)\<^sup>*\<^sup>* s s'"
  by (rule converse_rtranclp_into_rtranclp [of _ s u]) (auto simp: rec_move_def)

lemma bindE_reading: "bindE (reading f) g s = (case f s of Inl e \<Rightarrow> (Inl e, s) | Inr x \<Rightarrow> g x s)"
  by (simp add: bindE_def reading_def split: sum.splits)

lemma bindE_update: "bindE (modify f) g s = g () (f s)"
  by (simp add: bindE_def modify_def)

lemmas rec_run = bindE_pure bindE_reading bindE_update put_grant_def

lemma append_recovery_audit_run:
  "append_recovery_audit ev s = (if recovery_audit_event_fields ev
     then (Inr (), s\<lparr>rcs_audit := (rcs_audit s)(rae_tenant_id ev := rcs_audit s (rae_tenant_id ev) @ [ev])\<rparr>)
     else (Inl (ValueError (''validation error for '' @ ''RecoveryAuditEvent'')), s))"
  by (simp add: append_recovery_audit_def bindE_def check_fields_def)

lemma append_recovery_audit_core: "append_recovery_audit ev s = (r, s') \<Longrightarrow> rec_core s' = rec_core s"
  by (auto simp: append_recovery_audit_run rec_core_def split: if_splits)

lemma audited_rec_core: "bindE (append_recovery_audit ev) (\<lambda>_. ret x) s = (r, s') \<Longrightarrow> rec_core s' = rec_core s"
  by (auto elim!: bindE_cases dest: append_recovery_audit_core)

lemmas rec_core_dests = audited_rec_core append_recovery_audit_core

lemma publish_moves:
  assumes "publish_profile now i c p s = (r, s')" "reliability_profile_fields p"
  shows "(rec_move sha verify order)\<^sup>*\<^sup>* s s'"
  using assms unfolding publish_profile_def rec_run
  by (auto simp: raise_if_def split: sum.splits if_splits intro: move_core dest!: rec_core_dests intro!: move_change [OF rec_change.published])

lemma backup_moves:
  assumes "record_backup now i c m s = (r, s')" "validate_backup_manifest m = Inr m"
  shows "(rec_move sha verify order)\<^sup>*\<^sup>* s s'"
  using assms unfolding record_backup_def rec_run
  by (auto simp: raise_if_def split: sum.splits if_splits intro: move_core dest!: rec_core_dests intro!: move_change [OF rec_change.backed_up])

lemma revoke_moves: "revoke_break_glass now i c gid reason s = (r, s') \<Longrightarrow> (rec_move sha verify order)\<^sup>*\<^sup>* s s'"
  unfolding revoke_break_glass_def rec_run
  by (auto split: sum.splits intro: move_core dest!: rec_core_dests intro!: move_change [OF rec_change.revoked])

lemma use_moves:
  assumes "use_break_glass now ids c gid cap purpose s = (r, s')"
  shows "(rec_move sha verify order)\<^sup>*\<^sup>* s s'"
  using assms unfolding use_break_glass_def rec_run
  by (auto simp: new_use_def validate_break_glass_use_def split: sum.splits if_splits intro: move_core dest!: rec_core_dests
      intro!: move_change [OF rec_change.used])

definition profiles_ok :: "recovery_store \<Rightarrow> bool" where
  "profiles_ok s \<longleftrightarrow> (\<forall>t. \<forall>p \<in> set (rcs_profiles s t). reliability_profile_fields p \<and> rel_tenant_id p = t)"

lemma max_revision_mem: "max_revision ps = Some p \<Longrightarrow> p \<in> set ps"
  by (induction ps arbitrary: p) (auto split: option.splits if_splits)

lemma profile_locked_iff: "profile_locked t now s = Inr p \<longleftrightarrow> active_profile t now s = Some p"
  by (auto simp: profile_locked_def split: option.splits)

lemma active_profile_mem: "active_profile t now s = Some p \<Longrightarrow> p \<in> set (rcs_profiles s t) \<and> rel_effective_at p \<le> now"
  by (auto simp: active_profile_def dest: max_revision_mem)

lemma new_grant_shape:
  assumes "new_grant now gid c a = Inr g" "valid_context c"
  shows "bgg_grant_id g = gid" "bgg_tenant_id g = tac_tenant_id c" "validate_break_glass g = Inr g"
    "bgg_issued_at g = now" "bgg_expires_at g = now + bgr_ttl_seconds a * 1000000" "bgg_approved_by g = tac_actor c"
  using assms valid_context_tenant [OF assms(2)]
  by (auto simp: new_grant_def nonblank_def validate_break_glass_def split: if_splits)

lemma issue_moves:
  assumes op: "issue_break_glass now gid i c a s = (r, s')" and ok: "valid_context c" "profiles_ok s"
    and fresh: "rcs_grants s (tac_tenant_id c, gid) = None"
  shows "(rec_move sha verify order)\<^sup>*\<^sup>* s s'"
proof -
  have lim: "bgr_ttl_seconds a \<le> 3600"
    if "profile_locked (tac_tenant_id c) now s = Inr p" "\<not> rel_max_break_glass_seconds p < bgr_ttl_seconds a" for p
    using that ok(2) active_profile_mem [of "tac_tenant_id c" now s p]
    by (fastforce simp: profile_locked_iff profiles_ok_def reliability_profile_fields_def)
  show ?thesis
    using op fresh unfolding issue_break_glass_def rec_run
    by (auto simp: raise_if_def new_grant_shape [OF _ ok(1)] lim split: sum.splits if_splits intro: move_core dest!: rec_core_dests
        intro!: move_change [OF rec_change.granted])
qed

lemma plan_and_backup_iff:
  "plan_and_backup t rid s = Inr (p, m) \<longleftrightarrow> rcs_plans s (t, rid) = Some p \<and> map_of (rcs_backups s) (t, rpl_backup_id p) = Some m"
  by (auto simp: plan_and_backup_def plan_locked_def backup_of_def split: option.splits)

lemma use_frame:
  assumes "use_break_glass now ids c gid cap purpose s = (r, s')"
  shows "rcs_plans s' = rcs_plans s" "rcs_backups s' = rcs_backups s" "rcs_scans s' = rcs_scans s" "rcs_gaps s' = rcs_gaps s"
    "rcs_profiles s' = rcs_profiles s" "rcs_grants s' = rcs_grants s" "rcs_recoveries s' = rcs_recoveries s"
    "rcs_revoked_grants s' = rcs_revoked_grants s" "rcs_results s' = rcs_results s"
  using assms unfolding use_break_glass_def rec_run append_recovery_audit_run
  by (auto simp: bindE_def append_recovery_audit_run split: sum.splits if_splits)

lemma new_plan_shape: "new_plan now rid c p bid site gid = Inr plan \<Longrightarrow> rpl_restore_id plan = rid \<and> rpl_backup_id plan = bid
    \<and> rpl_break_glass_grant_id plan = gid \<and> rpl_failure_detected_at plan = now"
  by (auto simp: new_plan_def validate_restore_plan_def split: if_splits)

lemma plan_moves:
  assumes op: "plan_restore at0 now ids rid i c bid site gid s = (r, s')" and fresh: "rcs_plans s (tac_tenant_id c, rid) = None"
  shows "(rec_move sha verify order)\<^sup>*\<^sup>* s s'"
  using op unfolding plan_restore_def
proof (cases rule: bindE_cases)
  case (raised e)
  then show ?thesis by (rule_tac use_moves)
next
  case (returned x u)
  note frame = use_frame [OF returned(1)]
  have "(rec_move sha verify order)\<^sup>*\<^sup>* u s'"
    using returned(2) fresh unfolding rec_run
    by (auto simp: raise_if_def frame dest: new_plan_shape split: sum.splits if_splits intro: move_core dest!: rec_core_dests
        intro!: move_change [OF rec_change.planned])
  with use_moves [OF returned(1)] show ?thesis by (rule rtranclp_trans)
qed

lemma verify_moves:
  assumes op: "verify_restore sha verify order at0 now ids sid i c rid obs tip checkpoint policy s = (r, s')"
    and fresh: "rcs_scans s (tac_tenant_id c, sid) = None"
  shows "(rec_move sha verify order)\<^sup>*\<^sup>* s s'"
proof (cases "plan_and_backup (tac_tenant_id c) rid s")
  case (Inl e)
  then show ?thesis using op by (auto simp: verify_restore_def bindE_reading)
next
  case (Inr pm)
  obtain p m where pm: "pm = (p, m)" by (metis surj_pair)
  from op have "bindE (use_break_glass at0 ids c (rpl_break_glass_grant_id p) Glass_INTEGRITY_SCAN (''verify restored assurance state for '' @ rid)) (\<lambda>_.
      bindE (lift_result (verify_recovery sha verify order sid now m rid obs tip checkpoint policy)) (\<lambda>scan.
      bindE (modify (\<lambda>s. s\<lparr>rcs_scans := (rcs_scans s)((tac_tenant_id c, sid) \<mapsto> scan)\<rparr>)) (\<lambda>_.
      bindE (append_recovery_audit ((recovery_event i c RecAudit_INTEGRITY_SCAN_RECORDED now sid ''verify post-restore assurance integrity'')
        \<lparr>rae_attributes := [(''status'', recovery_integrity_status_value (isr_status scan)), (''restore_id'', rid)]\<rparr>)) (\<lambda>_. ret scan)))) s = (r, s')"
    by (simp add: verify_restore_def bindE_reading Inr pm)
  then show ?thesis
  proof (cases rule: bindE_cases)
    case (raised e)
    then show ?thesis by (rule_tac use_moves)
  next
    case (returned x u)
    note frame = use_frame [OF returned(1)]
    have "plan_and_backup (tac_tenant_id c) rid u = Inr (p, m)" using Inr pm by (simp add: plan_and_backup_iff frame)
    then have "(rec_move sha verify order)\<^sup>*\<^sup>* u s'"
      using returned(2) fresh unfolding rec_run
      by (auto simp: frame split: sum.splits intro: move_core dest!: rec_core_dests intro!: move_change [OF rec_change.scanned])
    with use_moves [OF returned(1)] show ?thesis by (rule rtranclp_trans)
  qed
qed

lemma gap_moves:
  assumes op: "record_recovery_gap at0 now ids gap_id i c rid e s = (r, s')"
  shows "(rec_move sha verify order)\<^sup>*\<^sup>* s s'"
proof (cases "plan_and_backup (tac_tenant_id c) rid s")
  case (Inl e)
  then show ?thesis using op by (auto simp: record_recovery_gap_def bindE_reading)
next
  case (Inr pm)
  obtain p m where pm: "pm = (p, m)" by (metis surj_pair)
  from op show ?thesis
    unfolding record_recovery_gap_def bindE_reading Inr pm sum.case prod.case
  proof (cases rule: bindE_cases)
    case (raised e)
    then show ?thesis by (rule_tac use_moves)
  next
    case (returned x u)
    note frame = use_frame [OF returned(1)]
    have "plan_and_backup (tac_tenant_id c) rid u = Inr (p, m)" using Inr pm by (simp add: plan_and_backup_iff frame)
    then have "(rec_move sha verify order)\<^sup>*\<^sup>* u s'"
      using returned(2) unfolding rec_run
      by (auto simp: frame new_gap_def validate_gap_def rec_run split: sum.splits option.splits if_splits intro: move_core
          dest!: rec_core_dests intro!: move_change [OF rec_change.gap_closed])
    with use_moves [OF returned(1)] show ?thesis by (rule rtranclp_trans)
  qed
qed

text \<open>The remaining operations use a grant at most, and leave the rest of this part alone.\<close>

lemma moves_closure: "reflp (rec_move sha verify order)\<^sup>*\<^sup>*" "transp (rec_move sha verify order)\<^sup>*\<^sup>*"
  by (auto simp: reflp_def transp_def)

lemma keeps_use: "keeps (rec_move sha verify order)\<^sup>*\<^sup>* (use_break_glass now ids c gid cap purpose)"
  by (rule keepsI) (rule use_moves)

lemma keeps_append_recovery: "keeps (rec_move sha verify order)\<^sup>*\<^sup>* (append_recovery_audit ev)"
  by (rule keepsI) (auto dest: append_recovery_audit_core intro: move_core)

lemma keeps_reading: "keeps (rec_move sha verify order)\<^sup>*\<^sup>* (reading f)"
  by (simp add: keeps_def reading_def)

lemma keeps_modify: "(\<And>s. rec_core (f s) = rec_core s) \<Longrightarrow> keeps (rec_move sha verify order)\<^sup>*\<^sup>* (modify f)"
  by (simp add: keeps_def modify_def move_core)

lemma complete_moves: "keeps (rec_move sha verify order)\<^sup>*\<^sup>* (complete_restore str_float at0 now ids i c rid sid)"
  unfolding complete_restore_def
  by (intro keeps_bindE keeps_ret keeps_use keeps_append_recovery keeps_reading keeps_modify moves_closure) (simp add: rec_core_def)

lemma game_day_moves: "keeps (rec_move sha verify order)\<^sup>*\<^sup>* (record_game_day now gid i c result simulated notes)"
  unfolding record_game_day_def
  by (intro keeps_bindE keeps_ret keeps_lift keeps_append_recovery keeps_reading keeps_modify moves_closure) (simp add: rec_core_def)

lemma reconcile_moves:
  "keeps (\<lambda>sw sw'. (rec_move sha verify order)\<^sup>*\<^sup>* (fst sw) (fst sw')) (reconcile_uncertain_attempts at0 now ids aids resolver c rid attempts)"
proof -
  have store: "keeps (\<lambda>sw sw'. (rec_move sha verify order)\<^sup>*\<^sup>* (fst sw) (fst sw')) (on_store m)"
    if "keeps (rec_move sha verify order)\<^sup>*\<^sup>* m" for m :: "(recovery_store, 'b) prog"
    using that by (auto simp: keeps_def on_store_def split: prod.splits) (metis snd_conv)
  have world: "keeps (\<lambda>sw sw'. (rec_move sha verify order)\<^sup>*\<^sup>* (fst sw) (fst sw')) (on_world m)" for m :: "('w, 'b) prog"
    by (auto simp: keeps_def on_world_def split: prod.splits)
  have closure: "reflp (\<lambda>sw sw' :: recovery_store \<times> 'w. (rec_move sha verify order)\<^sup>*\<^sup>* (fst sw) (fst sw'))"
    "transp (\<lambda>sw sw' :: recovery_store \<times> 'w. (rec_move sha verify order)\<^sup>*\<^sup>* (fst sw) (fst sw'))"
    by (auto simp: reflp_def transp_def)
  have audits: "keeps (rec_move sha verify order)\<^sup>*\<^sup>* (audit_recoveries aids c now records)" for records
    unfolding audit_recoveries_def
    by (intro keeps_bindE keeps_run_all keeps_ret moves_closure) (auto intro: keeps_append_recovery split: prod.splits)
  show ?thesis unfolding reconcile_uncertain_attempts_def
    by (intro keeps_bindE keeps_ret keeps_lift store world closure keeps_use keeps_reading keeps_modify audits) (simp add: rec_core_def)
qed

end
