(* ===== verification/Restore_Guarantees.thy ===== *)
theory Restore_Guarantees
  imports Recovery_Safety Sample_Data
begin

text \<open>
  The reachable stores of disaster recovery, their invariant, and what follows for break-glass authority and for
  promoted restores.
\<close>

section \<open>Histories\<close>

text \<open>
  A call of the store by contexts and arguments that passed the validation of their models; a \<open>uuid4\<close> is fresh.
  The resolver of uncertain attempts acts on some world \<open>'w\<close>.
\<close>

inductive recovery_step ::
  "sha256_fn \<Rightarrow> (string \<Rightarrow> string \<Rightarrow> string \<Rightarrow> bool)
    \<Rightarrow> ((recovery_component \<times> restored_component_observation) list \<Rightarrow> (recovery_component \<times> restored_component_observation) list)
    \<Rightarrow> 'w itself \<Rightarrow> recovery_store \<Rightarrow> recovery_store \<Rightarrow> bool" for sha verify order w where
  publish: "reliability_profile_fields p \<Longrightarrow> publish_profile now i c p s = (r, s') \<Longrightarrow> recovery_step sha verify order w s s'"
| backup: "validate_backup_manifest m = Inr m \<Longrightarrow> record_backup now i c m s = (r, s') \<Longrightarrow> recovery_step sha verify order w s s'"
| issue: "valid_context c \<Longrightarrow> rcs_grants s (tac_tenant_id c, gid) = None \<Longrightarrow> issue_break_glass now gid i c a s = (r, s') \<Longrightarrow>
    recovery_step sha verify order w s s'"
| revoke: "revoke_break_glass now i c gid reason s = (r, s') \<Longrightarrow> recovery_step sha verify order w s s'"
| "use": "use_break_glass now ids c gid cap purpose s = (r, s') \<Longrightarrow> recovery_step sha verify order w s s'"
| plan: "rcs_plans s (tac_tenant_id c, rid) = None \<Longrightarrow> plan_restore at0 now ids rid i c bid site gid s = (r, s') \<Longrightarrow>
    recovery_step sha verify order w s s'"
| scan: "rcs_scans s (tac_tenant_id c, sid) = None \<Longrightarrow>
    verify_restore sha verify order at0 now ids sid i c rid obs tip checkpoint policy s = (r, s') \<Longrightarrow> recovery_step sha verify order w s s'"
| reconcile: "reconcile_uncertain_attempts at0 now ids aids resolver c rid attempts (s, world :: 'w) = (r, (s', world')) \<Longrightarrow>
    recovery_step sha verify order w s s'"
| gap: "record_recovery_gap at0 now ids gap_id i c rid e s = (r, s') \<Longrightarrow> recovery_step sha verify order w s s'"
| complete: "complete_restore str_float at0 now ids i c rid sid s = (r, s') \<Longrightarrow> recovery_step sha verify order w s s'"
| game_day: "record_game_day now gid i c result simulated notes s = (r, s') \<Longrightarrow> recovery_step sha verify order w s s'"

lemma recovery_step_moves:
  assumes "recovery_step sha verify order w s s'" "profiles_ok s"
  shows "(rec_move sha verify order)\<^sup>*\<^sup>* s s'"
  using assms
proof (induction rule: recovery_step.induct)
  case (reconcile at0 now ids aids resolver c rid attempts s world r s' world')
  then show ?case using keepsD [OF reconcile_moves] by fastforce
next
  case (complete str_float at0 now ids i c rid sid s r s')
  then show ?case using keepsD [OF complete_moves] by blast
next
  case (game_day now gid i c result simulated lines s r s')
  then show ?case using keepsD [OF game_day_moves] by blast
qed (blast intro: publish_moves backup_moves issue_moves revoke_moves use_moves plan_moves verify_moves gap_moves)+

section \<open>The invariant\<close>

definition grant_ok :: "string \<Rightarrow> uuid \<Rightarrow> break_glass_grant \<Rightarrow> bool" where
  "grant_ok t gid g \<longleftrightarrow> bgg_grant_id g = gid \<and> bgg_tenant_id g = t \<and> validate_break_glass g = Inr g
    \<and> bgg_expires_at g \<le> bgg_issued_at g + 3600 * 1000000"

definition grants_ok :: "recovery_store \<Rightarrow> bool" where
  "grants_ok s \<longleftrightarrow> (\<forall>t gid g. rcs_grants s (t, gid) = Some g \<longrightarrow> grant_ok t gid g)"

definition covered_by :: "break_glass_grant \<Rightarrow> break_glass_use \<Rightarrow> bool" where
  "covered_by g u \<longleftrightarrow> bgu_capability u \<in> set (bgg_capabilities g) \<and> bgu_occurred_at u < bgg_expires_at g
    \<and> actor_kind (bgu_actor u) = actor_kind (bgg_operator g) \<and> actor_id (bgu_actor u) = actor_id (bgg_operator g)"

definition uses_ok :: "recovery_store \<Rightarrow> bool" where
  "uses_ok s \<longleftrightarrow> (\<forall>t gid. \<forall>u \<in> set (rcs_grant_uses s (t, gid)). \<exists>g. rcs_grants s (t, gid) = Some g \<and> covered_by g u)"

definition backups_ok :: "recovery_store \<Rightarrow> bool" where
  "backups_ok s \<longleftrightarrow> (\<forall>t bid m. map_of (rcs_backups s) (t, bid) = Some m \<longrightarrow>
    bm_tenant_id m = t \<and> bm_backup_id m = bid \<and> validate_backup_manifest m = Inr m)"

definition plans_ok :: "recovery_store \<Rightarrow> bool" where
  "plans_ok s \<longleftrightarrow> (\<forall>t rid p. rcs_plans s (t, rid) = Some p \<longrightarrow> rpl_restore_id p = rid \<and> (\<exists>m. plan_and_backup t rid s = Inr (p, m)))"

definition scans_ok where
  "scans_ok sha verify order s \<longleftrightarrow> (\<forall>t sid scan. rcs_scans s (t, sid) = Some scan \<longrightarrow>
    (\<exists>p m now obs tip checkpoint policy. plan_and_backup t (isr_restore_id scan) s = Inr (p, m)
      \<and> verify_recovery sha verify order sid now m (isr_restore_id scan) obs tip checkpoint policy = Inr scan))"

definition gaps_ok :: "recovery_store \<Rightarrow> bool" where
  "gaps_ok s \<longleftrightarrow> (\<forall>t rid gap. rcs_gaps s (t, rid) = Some gap \<longrightarrow> (\<exists>p m. plan_and_backup t rid s = Inr (p, m)
    \<and> rgr_recovery_point_at gap = bm_recovery_point_at m \<and> rgr_failure_detected_at gap = rpl_failure_detected_at p))"

definition rec_inv where
  "rec_inv sha verify order s \<longleftrightarrow> profiles_ok s \<and> grants_ok s \<and> uses_ok s \<and> backups_ok s \<and> plans_ok s
    \<and> scans_ok sha verify order s \<and> gaps_ok s"

lemmas rec_inv_defs = profiles_ok_def grants_ok_def uses_ok_def backups_ok_def plans_ok_def scans_ok_def gaps_ok_def

lemma rec_inv_core: "rec_core s' = rec_core s \<Longrightarrow> rec_inv sha verify order s' = rec_inv sha verify order s"
  by (simp add: rec_core_eq_iff rec_inv_def rec_inv_defs plan_and_backup_iff)

text \<open>A stored plan, its backup and a stored grant never change.\<close>

lemma change_keeps_plans:
  assumes "rec_change sha verify order s s'" "plan_and_backup t rid s = Inr (p, m)"
  shows "plan_and_backup t rid s' = Inr (p, m)"
  using assms by cases (auto simp: plan_and_backup_iff update_conv')

lemma change_keeps_grants:
  assumes "rec_change sha verify order s s'" "rcs_grants s k = Some g"
  shows "rcs_grants s' k = Some g"
  using assms by cases auto

lemma authorize_use_iff:
  "authorize_use now c gid cap s = Inr g \<longleftrightarrow> rcs_grants s (tac_tenant_id c, gid) = Some g \<and> rcs_revoked_grants s (tac_tenant_id c, gid) = None
    \<and> now < bgg_expires_at g \<and> cap \<in> set (bgg_capabilities g) \<and> actor_kind (tac_actor c) = actor_kind (bgg_operator g)
    \<and> actor_id (tac_actor c) = actor_id (bgg_operator g)"
  by (auto simp: authorize_use_def grant_locked_def split: option.splits)

lemma change_grants_ok: "rec_change sha verify order s s' \<Longrightarrow> grants_ok s \<Longrightarrow> grants_ok s'"
  by (erule rec_change.cases) (auto simp: grants_ok_def grant_ok_def)

lemma change_profiles_ok: "rec_change sha verify order s s' \<Longrightarrow> profiles_ok s \<Longrightarrow> profiles_ok s'"
  by (erule rec_change.cases) (auto simp: profiles_ok_def)

lemma change_backups_ok: "rec_change sha verify order s s' \<Longrightarrow> backups_ok s \<Longrightarrow> backups_ok s'"
  by (erule rec_change.cases) (auto simp: backups_ok_def update_conv' split: if_splits)

lemma authorized_covered:
  "authorize_use (bgu_occurred_at u) c gid (bgu_capability u) s = Inr g \<Longrightarrow> bgu_actor u = tac_actor c \<Longrightarrow>
    rcs_grants s (tac_tenant_id c, gid) = Some g \<and> covered_by g u"
  by (simp add: authorize_use_iff covered_by_def)

lemma change_uses_ok:
  assumes change: "rec_change sha verify order s s'" and ok: "uses_ok s"
  shows "uses_ok s'"
proof -
  have old: "\<exists>g. rcs_grants s' (t, gid) = Some g \<and> covered_by g u" if "u \<in> set (rcs_grant_uses s (t, gid))" for t gid u
    using ok that change_keeps_grants [OF change] by (fastforce simp: uses_ok_def)
  from change show ?thesis
    by cases (use old in \<open>auto simp: uses_ok_def dest: authorized_covered split: if_splits\<close>)
qed

lemma change_plans_ok:
  assumes change: "rec_change sha verify order s s'" and ok: "plans_ok s"
  shows "plans_ok s'"
proof -
  have old: "rpl_restore_id p = rid \<and> (\<exists>m. plan_and_backup t rid s' = Inr (p, m))" if "rcs_plans s (t, rid) = Some p" for t rid p
    using ok that change_keeps_plans [OF change] by (fastforce simp: plans_ok_def)
  from change show ?thesis
    by cases (use old in \<open>auto simp: plans_ok_def plan_and_backup_iff backup_of_def split: if_splits option.splits\<close>)
qed

lemma change_scans_ok:
  assumes change: "rec_change sha verify order s s'" and ok: "scans_ok sha verify order s"
  shows "scans_ok sha verify order s'"
  unfolding scans_ok_def
proof (intro allI impI)
  fix t sid scan
  assume new: "rcs_scans s' (t, sid) = Some scan"
  have stable: "plan_and_backup t rid s = Inr (p, m) \<Longrightarrow> plan_and_backup t rid s' = Inr (p, m)" for rid p m
    by (rule change_keeps_plans [OF change])
  show "\<exists>p m now obs tip checkpoint policy. plan_and_backup t (isr_restore_id scan) s' = Inr (p, m)
      \<and> verify_recovery sha verify order sid now m (isr_restore_id scan) obs tip checkpoint policy = Inr scan"
  proof (cases "rcs_scans s (t, sid) = Some scan")
    case True
    with ok show ?thesis unfolding scans_ok_def by (metis stable)
  next
    case False
    from change new False obtain rid p m now obs tip checkpoint policy where "plan_and_backup t rid s = Inr (p, m)"
      "verify_recovery sha verify order sid now m rid obs tip checkpoint policy = Inr scan"
      by cases (auto split: if_splits)
    moreover from this(2) have "isr_restore_id scan = rid" by (rule verify_recovery_cases)
    ultimately show ?thesis by (metis stable)
  qed
qed

lemma change_gaps_ok:
  assumes change: "rec_change sha verify order s s'" and ok: "gaps_ok s"
  shows "gaps_ok s'"
  unfolding gaps_ok_def
proof (intro allI impI)
  fix t rid gap
  assume new: "rcs_gaps s' (t, rid) = Some gap"
  have "\<exists>p m. plan_and_backup t rid s = Inr (p, m) \<and> rgr_recovery_point_at gap = bm_recovery_point_at m
      \<and> rgr_failure_detected_at gap = rpl_failure_detected_at p"
  proof (cases "rcs_gaps s (t, rid) = Some gap")
    case True
    with ok show ?thesis by (auto simp: gaps_ok_def)
  next
    case False
    with change new show ?thesis by cases (auto split: if_splits)
  qed
  then show "\<exists>p m. plan_and_backup t rid s' = Inr (p, m) \<and> rgr_recovery_point_at gap = bm_recovery_point_at m
      \<and> rgr_failure_detected_at gap = rpl_failure_detected_at p"
    using change_keeps_plans [OF change] by blast
qed

lemma moves_inv: "(rec_move sha verify order)\<^sup>*\<^sup>* s s' \<Longrightarrow> rec_inv sha verify order s \<Longrightarrow> rec_inv sha verify order s'"
proof (induction rule: rtranclp_induct)
  case (step u v)
  then have u: "rec_inv sha verify order u" by blast
  from step(2) consider "rec_core v = rec_core u" | "rec_change sha verify order u v" unfolding rec_move_def by blast
  then show ?case
  proof cases
    case 1
    from rec_inv_core [OF this] u show ?thesis by blast
  next
    case 2
    with u show ?thesis unfolding rec_inv_def
      using change_grants_ok change_profiles_ok change_backups_ok change_uses_ok change_plans_ok change_scans_ok change_gaps_ok by metis
  qed
qed

lemma recovery_reach_inv:
  assumes "(recovery_step sha verify order w)\<^sup>*\<^sup>* empty_recovery s"
  shows "rec_inv sha verify order s"
  using assms
proof (induction rule: rtranclp_induct)
  case base
  show ?case by (simp add: rec_inv_def rec_inv_defs empty_recovery_def)
next
  case (step u v)
  then have u: "rec_inv sha verify order u" by blast
  then have "(rec_move sha verify order)\<^sup>*\<^sup>* u v" by (intro recovery_step_moves [OF step(2)]) (simp add: rec_inv_def)
  with u show ?case by (rule_tac moves_inv)
qed

section \<open>Break-glass authority\<close>

lemma change_after_revocation:
  assumes "rec_change sha verify order s s'" "rcs_revoked_grants s k \<noteq> None"
  shows "rcs_revoked_grants s' k \<noteq> None \<and> rcs_grant_uses s' k = rcs_grant_uses s k"
  using assms by cases (auto simp: authorize_use_iff)

lemma moves_after_revocation:
  assumes "(rec_move sha verify order)\<^sup>*\<^sup>* s s'" "rcs_revoked_grants s k \<noteq> None"
  shows "rcs_revoked_grants s' k \<noteq> None \<and> rcs_grant_uses s' k = rcs_grant_uses s k"
  using assms
proof (induction rule: rtranclp_induct)
  case (step u v)
  from step(2) consider "rec_core v = rec_core u" | "rec_change sha verify order u v" unfolding rec_move_def by blast
  then show ?case
  proof cases
    case 1
    then show ?thesis using step(3,4) by (simp add: rec_core_eq_iff)
  next
    case 2
    with step(3,4) change_after_revocation [OF 2, of k] show ?thesis by metis
  qed
qed simp

lemma steps_after_revocation:
  assumes "(recovery_step sha verify order w)\<^sup>*\<^sup>* s s'" "rec_inv sha verify order s" "rcs_revoked_grants s k \<noteq> None"
  shows "rcs_revoked_grants s' k \<noteq> None \<and> rcs_grant_uses s' k = rcs_grant_uses s k \<and> rec_inv sha verify order s'"
  using assms
proof (induction rule: rtranclp_induct)
  case (step u v)
  then have u: "rcs_revoked_grants u k \<noteq> None" "rcs_grant_uses u k = rcs_grant_uses s k" "rec_inv sha verify order u" by blast+
  then have m: "(rec_move sha verify order)\<^sup>*\<^sup>* u v" by (intro recovery_step_moves [OF step(2)]) (simp add: rec_inv_def)
  from moves_after_revocation [OF m u(1)] moves_inv [OF m u(3)] u(2) show ?case by simp
qed simp

lemma independent_grant:
  assumes "grant_ok t gid g"
  shows "bgg_tenant_id g = t" "bgg_expires_at g \<le> bgg_issued_at g + 3600 * 1000000"
    "\<not> (actor_kind (bgg_operator g) = actor_kind (bgg_approved_by g) \<and> actor_id (bgg_operator g) = actor_id (bgg_approved_by g))"
    "actor_tenant_id (bgg_operator g) = t" "actor_tenant_id (bgg_approved_by g) = t"
  using assms by (auto simp: grant_ok_def validate_break_glass_def split: if_splits)

text \<open>
  C23: Break-glass authority is independent, bounded and revocable. In every reachable recovery store each recorded use of a
  grant was of a granted capability, before the grant expired and by its operator, who is not its approver; operator
  and approver belong to the tenant, and no grant lives longer than an hour. Once a grant is revoked it is never used
  again, whatever calls follow.
\<close>

theorem break_glass_sound:
  assumes reached: "(recovery_step sha verify order w)\<^sup>*\<^sup>* empty_recovery s"
    and later: "(recovery_step sha verify order w)\<^sup>*\<^sup>* s s'"
  shows "(\<forall>u \<in> set (rcs_grant_uses s (t, gid)). \<exists>g. rcs_grants s (t, gid) = Some g
      \<and> bgu_capability u \<in> set (bgg_capabilities g) \<and> bgu_occurred_at u < bgg_expires_at g
      \<and> bgg_expires_at g \<le> bgg_issued_at g + 3600 * 1000000
      \<and> actor_kind (bgu_actor u) = actor_kind (bgg_operator g) \<and> actor_id (bgu_actor u) = actor_id (bgg_operator g)
      \<and> \<not> (actor_kind (bgu_actor u) = actor_kind (bgg_approved_by g) \<and> actor_id (bgu_actor u) = actor_id (bgg_approved_by g))
      \<and> actor_tenant_id (bgg_operator g) = t \<and> actor_tenant_id (bgg_approved_by g) = t)
    \<and> (rcs_revoked_grants s (t, gid) \<noteq> None \<longrightarrow>
        rcs_revoked_grants s' (t, gid) \<noteq> None \<and> rcs_grant_uses s' (t, gid) = rcs_grant_uses s (t, gid))"
proof (intro conjI ballI impI)
  have inv: "rec_inv sha verify order s" by (rule recovery_reach_inv [OF reached])
  {
    fix u
    assume "u \<in> set (rcs_grant_uses s (t, gid))"
    with inv obtain g where g: "rcs_grants s (t, gid) = Some g" "covered_by g u" unfolding rec_inv_def uses_ok_def by blast
    with inv have "grant_ok t gid g" by (simp add: rec_inv_def grants_ok_def)
    from g independent_grant [OF this] show "\<exists>g. rcs_grants s (t, gid) = Some g
      \<and> bgu_capability u \<in> set (bgg_capabilities g) \<and> bgu_occurred_at u < bgg_expires_at g
      \<and> bgg_expires_at g \<le> bgg_issued_at g + 3600 * 1000000
      \<and> actor_kind (bgu_actor u) = actor_kind (bgg_operator g) \<and> actor_id (bgu_actor u) = actor_id (bgg_operator g)
      \<and> \<not> (actor_kind (bgu_actor u) = actor_kind (bgg_approved_by g) \<and> actor_id (bgu_actor u) = actor_id (bgg_approved_by g))
      \<and> actor_tenant_id (bgg_operator g) = t \<and> actor_tenant_id (bgg_approved_by g) = t"
      by (intro exI [of _ g]) (simp add: covered_by_def)
  }
  assume "rcs_revoked_grants s (t, gid) \<noteq> None"
  from steps_after_revocation [OF later inv this] show "rcs_revoked_grants s' (t, gid) \<noteq> None"
    "rcs_grant_uses s' (t, gid) = rcs_grant_uses s (t, gid)" by simp_all
qed

section \<open>Where a recorded scan comes from\<close>

text \<open>Only \<open>verify_restore\<close> records scans.\<close>

definition same_scans :: "recovery_store \<Rightarrow> recovery_store \<Rightarrow> bool" where
  "same_scans s s' \<longleftrightarrow> rcs_scans s' = rcs_scans s"

lemma same_scans_closure: "reflp same_scans" "transp same_scans"
  "reflp (\<lambda>sw sw'. same_scans (fst sw) (fst sw'))" "transp (\<lambda>sw sw'. same_scans (fst sw) (fst sw'))"
  by (auto simp: same_scans_def reflp_def transp_def)

lemma same_scans_basic:
  "keeps same_scans (reading f)" "keeps same_scans (append_recovery_audit ev)" "keeps same_scans (put_grant t g)"
  "(\<And>s. rcs_scans (f' s) = rcs_scans s) \<Longrightarrow> keeps same_scans (modify f')"
  by (auto simp: keeps_def same_scans_def reading_def modify_def put_grant_def append_recovery_audit_run split: if_splits)

lemma same_scans_pair: "(\<And>a b. keeps R (f a b)) \<Longrightarrow> keeps R (case x of (a, b) \<Rightarrow> f a b)"
  by (cases x) simp

lemma same_scans_found: "keeps same_scans m \<Longrightarrow> keeps same_scans (\<lambda>s. case f s of Some x \<Rightarrow> (g x s, s) | None \<Rightarrow> m s)"
  by (auto simp: keeps_def same_scans_def split: option.splits)

lemma same_scans_world:
  "keeps same_scans m \<Longrightarrow> keeps (\<lambda>sw sw'. same_scans (fst sw) (fst sw')) (on_store m)"
  "keeps (\<lambda>sw sw'. same_scans (fst sw) (fst sw')) (on_world n)"
  by (auto simp: keeps_def on_store_def on_world_def same_scans_def split: prod.splits) (metis snd_conv)

lemmas same_scans_rules = keeps_bindE keeps_ret keeps_lift keeps_run_all same_scans_basic same_scans_pair same_scans_found same_scans_world
  same_scans_closure

lemma use_scans: "keeps same_scans (use_break_glass now ids c gid cap purpose)"
  unfolding use_break_glass_def by (intro same_scans_rules) simp

lemma other_scans:
  "keeps same_scans (publish_profile now i c p)" "keeps same_scans (record_backup now i c m)"
  "keeps same_scans (issue_break_glass now gid i c a)" "keeps same_scans (revoke_break_glass now i c gid reason)"
  "keeps same_scans (plan_restore at0 now ids rid i c bid site gid)" "keeps same_scans (record_recovery_gap at0 now ids gap_id i c rid e)"
  "keeps same_scans (complete_restore str_float at0 now ids i c rid sid)" "keeps same_scans (record_game_day now gid i c result simulated notes)"
  unfolding publish_profile_def record_backup_def issue_break_glass_def revoke_break_glass_def plan_restore_def record_recovery_gap_def
    complete_restore_def record_game_day_def
  by (intro same_scans_rules use_scans; simp)+

lemma reconcile_scans:
  "keeps (\<lambda>sw sw'. same_scans (fst sw) (fst sw')) (reconcile_uncertain_attempts at0 now ids aids resolver c rid attempts)"
  unfolding reconcile_uncertain_attempts_def audit_recoveries_def by (intro same_scans_rules use_scans; simp)

text \<open>A call of \<open>verify_restore\<close> records at most the scan of its own observations, against the backup of its plan.\<close>

lemma verify_restore_scans:
  assumes op: "verify_restore sha verify order at0 now ids sid i c rid obs tip checkpoint policy s = (r, s')"
  shows "rcs_scans s' = rcs_scans s \<or> (\<exists>p m scan. plan_and_backup (tac_tenant_id c) rid s = Inr (p, m)
    \<and> verify_recovery sha verify order sid now m rid obs tip checkpoint policy = Inr scan
    \<and> rcs_scans s' = (rcs_scans s)((tac_tenant_id c, sid) \<mapsto> scan))"
proof (cases "plan_and_backup (tac_tenant_id c) rid s")
  case (Inl e)
  then show ?thesis using op by (auto simp: verify_restore_def bindE_reading)
next
  case (Inr pm)
  obtain p m where pm: "pm = (p, m)" by (metis surj_pair)
  from op [unfolded verify_restore_def bindE_reading Inr pm sum.case prod.case] show ?thesis
  proof (cases rule: bindE_cases)
    case (raised e)
    then show ?thesis using use_frame(3) by blast
  next
    case (returned x u)
    from use_frame(3) [OF returned(1)] returned(2) show ?thesis unfolding rec_run
      by (auto simp: Inr pm bindE_def append_recovery_audit_run split: sum.splits if_splits)
  qed
qed

definition scanned_by ::
  "sha256_fn \<Rightarrow> (string \<Rightarrow> string \<Rightarrow> string \<Rightarrow> bool)
    \<Rightarrow> ((recovery_component \<times> restored_component_observation) list \<Rightarrow> (recovery_component \<times> restored_component_observation) list)
    \<Rightarrow> 'w itself \<Rightarrow> recovery_store \<Rightarrow> string \<Rightarrow> uuid \<Rightarrow> uuid \<Rightarrow> integrity_scan_result \<Rightarrow> restored_component_observation list
    \<Rightarrow> string \<Rightarrow> signed_checkpoint \<Rightarrow> trust_root_policy \<Rightarrow> bool" where
  "scanned_by sha verify order w s t rid sid scan obs tip checkpoint policy \<longleftrightarrow>
    (\<exists>s0 s1 at0 now ids i c r. (recovery_step sha verify order w)\<^sup>*\<^sup>* empty_recovery s0
      \<and> verify_restore sha verify order at0 now ids sid i c rid obs tip checkpoint policy s0 = (r, s1)
      \<and> tac_tenant_id c = t \<and> rcs_scans s0 (t, sid) = None \<and> rcs_scans s1 (t, sid) = Some scan
      \<and> (recovery_step sha verify order w)\<^sup>*\<^sup>* s1 s)"

lemma scanned_by_later:
  "scanned_by sha verify order w s t rid sid scan obs tip checkpoint policy \<Longrightarrow> recovery_step sha verify order w s s' \<Longrightarrow>
    scanned_by sha verify order w s' t rid sid scan obs tip checkpoint policy"
  unfolding scanned_by_def using rtranclp.rtrancl_into_rtrancl [of "recovery_step sha verify order w"] by blast

lemma step_scans:
  assumes step: "recovery_step sha verify order w s s'" and reach: "(recovery_step sha verify order w)\<^sup>*\<^sup>* empty_recovery s"
    and new: "rcs_scans s' (t, sid) = Some scan"
  shows "rcs_scans s (t, sid) = Some scan
    \<or> (\<exists>rid obs tip checkpoint policy. scanned_by sha verify order w s' t rid sid scan obs tip checkpoint policy)"
  using step
proof (cases rule: recovery_step.cases)
  case (scan c sid' at0 now ids i rid obs tip checkpoint policy r)
  from verify_restore_scans [OF scan(2)] show ?thesis
  proof (elim disjE exE conjE)
    fix p m scan'
    assume v: "plan_and_backup (tac_tenant_id c) rid s = Inr (p, m)"
      "verify_recovery sha verify order sid' now m rid obs tip checkpoint policy = Inr scan'"
      "rcs_scans s' = (rcs_scans s)((tac_tenant_id c, sid') \<mapsto> scan')"
    show ?thesis
    proof (cases "(tac_tenant_id c, sid') = (t, sid)")
      case True
      then have "scanned_by sha verify order w s' t rid sid scan obs tip checkpoint policy"
        unfolding scanned_by_def using reach scan v new
        by (intro exI [of _ s] exI [of _ s'] exI [of _ at0] exI [of _ now] exI [of _ ids] exI [of _ i] exI [of _ c] exI [of _ r]) auto
      then show ?thesis by blast
    qed (use v(3) new in auto)
  qed (use new in simp)
next
  case (reconcile at0 now ids aids resolver c rid attempts world r world')
  then have "same_scans s s'" using keepsD [OF reconcile_scans] by fastforce
  with new show ?thesis by (simp add: same_scans_def)
qed (use new keepsD [OF use_scans] keepsD [OF other_scans(1)] keepsD [OF other_scans(2)] keepsD [OF other_scans(3)] keepsD [OF other_scans(4)]
    keepsD [OF other_scans(5)] keepsD [OF other_scans(6)] keepsD [OF other_scans(7)] keepsD [OF other_scans(8)]
    in \<open>metis same_scans_def\<close>)+

lemma recorded_scan:
  assumes "(recovery_step sha verify order w)\<^sup>*\<^sup>* empty_recovery s" "rcs_scans s (t, sid) = Some scan"
  shows "\<exists>rid obs tip checkpoint policy. scanned_by sha verify order w s t rid sid scan obs tip checkpoint policy"
  using assms
proof (induction rule: rtranclp_induct)
  case base
  then show ?case by (simp add: empty_recovery_def)
next
  case (step u v)
  from step_scans [OF step(2,1,4)] step(3) scanned_by_later [OF _ step(2)] show ?case by blast
qed

section \<open>Integrity scans and promoted restores\<close>

text \<open>
  C22: The integrity scan is exact. When the scan of a restore returns, the restored components were distinct; it is VERIFIED,
  without findings, if and only if every component of the manifest was restored with its digest and nothing else
  was, the ledger tip, trust-anchor and checkpoint digests, tenant and final event match the manifest, and the checkpoint
  verifies under the trust policy; and it lists exactly the components restored with their digest, in the manifest's order.
\<close>

theorem integrity_scan_exact:
  assumes "validate_backup_manifest m = Inr m" and "\<And>xs. mset (order xs) = mset xs"
    and "verify_recovery sha verify order scan_id now m restore_id obs tip checkpoint policy = Inr scan"
  shows "distinct (map rco_component obs)
    \<and> (isr_status scan = Integrity_VERIFIED \<longleftrightarrow> isr_findings scan = [])
    \<and> (isr_status scan = Integrity_VERIFIED \<longleftrightarrow> restored_exactly sha verify m obs tip checkpoint policy)
    \<and> isr_components_verified scan =
        map bcr_component (filter (\<lambda>b. \<exists>ob \<in> set obs. rco_component ob = bcr_component b \<and> rco_sha256 ob = bcr_sha256 b) (bm_components m))"
  using scan_exact [OF assms] by (simp add: same_component_def)

lemma use_authorized:
  assumes "use_break_glass now ids c gid cap purpose s = (Inr u, s')"
  shows "\<exists>g. authorize_use now c gid cap s = Inr g"
  using assms unfolding use_break_glass_def rec_run by (auto split: sum.splits)

lemma elapsed_within: "0 \<le> n \<Longrightarrow> elapsed_seconds a b \<le> of_int n \<longleftrightarrow> b - a \<le> n * 1000000"
proof -
  assume n: "0 \<le> n"
  have "elapsed_seconds a b \<le> of_int n \<longleftrightarrow> (of_int (b - a) / 1000000 :: rat) \<le> of_int n"
    using n by (simp add: elapsed_seconds_def)
  also have "\<dots> \<longleftrightarrow> (of_int (b - a) :: rat) \<le> of_int (n * 1000000)" by (simp add: divide_le_eq)
  finally show ?thesis by (simp only: of_int_le_iff)
qed

lemma complete_cases:
  assumes "complete_restore str_float at0 now ids i c rid sid s = (Inr r, s')"
  obtains plan m p g scan gap where
    "plan_and_backup (tac_tenant_id c) rid s = Inr (plan, m)"
    "authorize_use at0 c (rpl_break_glass_grant_id plan) Glass_FAILOVER s = Inr g"
    "active_profile (tac_tenant_id c) now s = Some p"
    "rcs_scans s (tac_tenant_id c, sid) = Some scan" "isr_restore_id scan = rid"
    "rcs_gaps s (tac_tenant_id c, rid) = Some gap"
    "new_restore_result now c plan m p scan gap (rcs_recoveries s (tac_tenant_id c, rid)) rid sid = Inr r"
    "rcs_results s' (tac_tenant_id c, rid) = Some r"
proof (cases "plan_locked (tac_tenant_id c) rid s")
  case (Inl e)
  with assms show thesis by (simp add: complete_restore_def bindE_reading)
next
  case (Inr plan)
  have dict: "rcs_plans s (tac_tenant_id c, rid) = Some plan" using Inr by (auto simp: plan_locked_def split: option.splits)
  from assms show thesis
    unfolding complete_restore_def bindE_reading Inr sum.case
  proof (cases rule: bindE_cases)
    case (returned x u)
    note frame = use_frame [OF returned(1)]
    from use_authorized [OF returned(1)] obtain g where g: "authorize_use at0 c (rpl_break_glass_grant_id plan) Glass_FAILOVER s = Inr g" by blast
    have s: "backup_of (tac_tenant_id c) bid u = backup_of (tac_tenant_id c) bid s" "profile_locked (tac_tenant_id c) now u = profile_locked (tac_tenant_id c) now s"
      "scan_for (tac_tenant_id c) rid sid u = scan_for (tac_tenant_id c) rid sid s" "gap_for (tac_tenant_id c) rid u = gap_for (tac_tenant_id c) rid s" for bid
      by (simp_all add: backup_of_def profile_locked_def active_profile_def scan_for_def gap_for_def frame)
    from returned(2) dict show thesis
      unfolding rec_run s
      by (auto simp: bindE_def append_recovery_audit_run frame backup_of_def profile_locked_iff scan_for_def gap_for_def plan_and_backup_iff
          split: sum.splits option.splits if_splits intro!: that [OF _ g])
  qed simp
qed

lemma validate_restore_result_id: "validate_restore_result r = Inr x \<Longrightarrow> x = r"
  by (simp add: validate_restore_result_def split: if_splits)

lemma validated_result:
  assumes "new_restore_result now c plan m p scan gap recoveries rid sid = Inr r"
  shows "rre_promoted r = snd (restore_verdict p scan (list_ex unresolved_recovery recoveries) (rgr_unresolved_effect_count gap = 0)
      (elapsed_seconds (bm_recovery_point_at m) (rpl_failure_detected_at plan)) (elapsed_seconds (rpl_failure_detected_at plan) now))"
  using assms unfolding new_restore_result_def Let_def by (auto dest!: validate_restore_result_id)

lemma validated_scan_id: "new_restore_result now c plan m p scan gap recoveries rid sid = Inr r \<Longrightarrow> rre_integrity_scan_id r = sid"
  unfolding new_restore_result_def Let_def by (auto dest!: validate_restore_result_id)

lemma result_promoted:
  assumes "new_restore_result now c plan m p scan gap recoveries rid sid = Inr r" "0 \<le> rel_rpo_seconds p" "0 \<le> rel_rto_seconds p"
  shows "rre_promoted r \<longleftrightarrow> isr_status scan = Integrity_VERIFIED \<and> rgr_unresolved_effect_count gap = 0
      \<and> (\<forall>x \<in> set recoveries. \<not> unresolved_recovery x)
      \<and> rpl_failure_detected_at plan - bm_recovery_point_at m \<le> rel_rpo_seconds p * 1000000
      \<and> now - rpl_failure_detected_at plan \<le> rel_rto_seconds p * 1000000"
proof -
  have "rre_promoted r = snd (restore_verdict p scan (list_ex unresolved_recovery recoveries) (rgr_unresolved_effect_count gap = 0)
      (elapsed_seconds (bm_recovery_point_at m) (rpl_failure_detected_at plan)) (elapsed_seconds (rpl_failure_detected_at plan) now))"
    using validated_result [OF assms(1)] by simp
  then show ?thesis unfolding restore_verdict_def elapsed_within [OF assms(2)] elapsed_within [OF assms(3)]
    by (simp add: list_ex_iff)
qed

lemma moves_keep_plans:
  "(rec_move sha verify order)\<^sup>*\<^sup>* s s' \<Longrightarrow> plan_and_backup t rid s = Inr (p, m) \<Longrightarrow> plan_and_backup t rid s' = Inr (p, m)"
proof (induction rule: rtranclp_induct)
  case (step u v)
  then have u: "plan_and_backup t rid u = Inr (p, m)" by blast
  from step(2) consider "rec_core v = rec_core u" | "rec_change sha verify order u v" unfolding rec_move_def by blast
  then show ?case
  proof cases
    case 1
    with u show ?thesis by (simp add: plan_and_backup_iff rec_core_eq_iff)
  qed (rule change_keeps_plans [OF _ u])
qed

lemma steps_keep_plans:
  assumes "(recovery_step sha verify order w)\<^sup>*\<^sup>* s s'" "rec_inv sha verify order s" "plan_and_backup t rid s = Inr (p, m)"
  shows "plan_and_backup t rid s' = Inr (p, m) \<and> rec_inv sha verify order s'"
  using assms
proof (induction rule: rtranclp_induct)
  case (step u v)
  then have u: "rec_inv sha verify order u" "plan_and_backup t rid u = Inr (p, m)" by blast+
  then have "(rec_move sha verify order)\<^sup>*\<^sup>* u v" by (intro recovery_step_moves [OF step(2)]) (simp add: rec_inv_def)
  with u moves_keep_plans moves_inv show ?case by blast
qed simp

text \<open>The verdict of a recorded scan is exact for the observations of the call that recorded it.\<close>

lemma recorded_scan_exact:
  assumes reached: "(recovery_step sha verify order w)\<^sup>*\<^sup>* empty_recovery s" and order: "\<And>xs. mset (order xs) = mset xs"
    and scan: "rcs_scans s (t, sid) = Some scan" and plan: "plan_and_backup t (isr_restore_id scan) s = Inr (plan, m)"
  obtains obs tip checkpoint policy where "scanned_by sha verify order w s t (isr_restore_id scan) sid scan obs tip checkpoint policy"
    "isr_status scan = Integrity_VERIFIED \<longleftrightarrow> restored_exactly sha verify m obs tip checkpoint policy"
proof -
  from recorded_scan [OF reached scan] obtain rid obs tip checkpoint policy
    where by_call: "scanned_by sha verify order w s t rid sid scan obs tip checkpoint policy" by blast
  then obtain s0 s1 at0 now ids i c r where s0: "(recovery_step sha verify order w)\<^sup>*\<^sup>* empty_recovery s0"
    and call: "verify_restore sha verify order at0 now ids sid i c rid obs tip checkpoint policy s0 = (r, s1)"
    and c: "tac_tenant_id c = t" "rcs_scans s0 (t, sid) = None" "rcs_scans s1 (t, sid) = Some scan"
    and later: "(recovery_step sha verify order w)\<^sup>*\<^sup>* s1 s" unfolding scanned_by_def by blast
  from verify_restore_scans [OF call] c obtain p0 m0 where p0: "plan_and_backup t rid s0 = Inr (p0, m0)"
    and v: "verify_recovery sha verify order sid now m0 rid obs tip checkpoint policy = Inr scan" by auto
  have rid: "isr_restore_id scan = rid" by (rule verify_recovery_cases [OF v])
  have "recovery_step sha verify order w s0 s1" by (rule recovery_step.scan [OF _ call]) (simp add: c)
  from this later have "(recovery_step sha verify order w)\<^sup>*\<^sup>* s0 s" by (rule converse_rtranclp_into_rtranclp)
  from steps_keep_plans [OF this recovery_reach_inv [OF s0] p0] plan rid
  have m: "m0 = m" and inv: "rec_inv sha verify order s" by simp_all
  from inv have "backups_ok s" by (simp add: rec_inv_def)
  with plan have "validate_backup_manifest m = Inr m" by (auto simp: backups_ok_def plan_and_backup_iff)
  from scan_exact(2) [OF this order v [unfolded m]] by_call that rid show thesis by blast
qed


section \<open>A concrete restore\<close>

definition dr_actor :: "string \<Rightarrow> actor_ref" where
  "dr_actor name = \<lparr>actor_kind = ActorKind_HUMAN, actor_id = name, actor_display_name = None, actor_tenant_id = ''acme'',
     actor_workload_identity = None, actor_attributes = []\<rparr>"

definition dr_context :: "string \<Rightarrow> tenant_access_context" where
  "dr_context name = \<lparr>tac_schema_name = ''prodkit.tenant-access-context'', tac_schema_version = ''1.0.0'', tac_tenant_id = ''acme'',
     tac_actor = dr_actor name, tac_mode = Access_TENANT,
     tac_capabilities = [Capability_READ, Capability_WRITE, Capability_APPROVE, Capability_CONFIGURE],
     tac_elevation_id = None, tac_reason = None, tac_ticket_reference = None, tac_issued_at = 0, tac_expires_at = None\<rparr>"

definition dr_profile :: reliability_profile where
  "dr_profile = \<lparr>rel_schema_name = ''prodkit.reliability-profile'', rel_schema_version = ''1.0.0'', rel_profile_id = ''p1'', rel_tenant_id = ''acme'',
     rel_revision = 1, rel_rpo_seconds = 3600, rel_rto_seconds = 7200, rel_backup_interval_seconds = 600,
     rel_max_backup_age_seconds = 7200, rel_restore_exercise_interval_seconds = 86400, rel_required_components = [Comp_LEDGER],
     rel_max_break_glass_seconds = 1800, rel_effective_at = 0, rel_created_at = 0, rel_created_by = dr_actor ''alice''\<rparr>"

definition dr_component :: backup_component_record where
  "dr_component = \<lparr>bcr_component = Comp_LEDGER, bcr_reference = ''s3'', bcr_sha256 = zero_hash [], bcr_size_bytes = 1,
     bcr_captured_at = 10, bcr_source_site = ''eu'', bcr_encrypted = True, bcr_immutable = True\<rparr>"

definition dr_manifest :: backup_manifest where
  "dr_manifest = \<lparr>bm_schema_name = ''prodkit.backup-manifest'', bm_schema_version = ''1.0.0'', bm_backup_id = ''b1'', bm_tenant_id = ''acme'',
     bm_profile_id = ''p1'', bm_profile_revision = 1, bm_source_schema_version = 1, bm_source_control_version = ''1'',
     bm_source_site = ''eu'', bm_snapshot_set_id = ''s1'', bm_recovery_point_at = 10, bm_created_at = 20, bm_components = [dr_component],
     bm_ledger_chain_tip_sha256 = zero_hash [], bm_trusted_checkpoint_sha256 = zero_hash [], bm_trust_anchor_sha256 = zero_hash []\<rparr>"

definition dr_observation :: restored_component_observation where
  "dr_observation = \<lparr>rco_component = Comp_LEDGER, rco_reference = ''s3'', rco_sha256 = zero_hash [], rco_observed_at = 55\<rparr>"

definition dr_scan :: "uuid \<Rightarrow> uuid \<Rightarrow> integrity_scan_result" where
  "dr_scan scan_id restore_id = \<lparr>isr_schema_name = ''prodkit.recovery-integrity-scan'', isr_schema_version = ''1.0.0'', isr_scan_id = scan_id,
     isr_restore_id = restore_id, isr_tenant_id = ''acme'', isr_completed_at = 60, isr_status = Integrity_VERIFIED, isr_chain_verified = True,
     isr_checkpoint_verified = True, isr_trust_anchor_verified = True, isr_object_store_verified = True,
     isr_components_verified = [Comp_LEDGER], isr_findings = []\<rparr>"

definition accept_all :: "string \<Rightarrow> string \<Rightarrow> string \<Rightarrow> bool" where
  "accept_all _ _ _ = True"

lemma dr_names [simp]:
  "strip ''p1'' = ''p1''" "strip ''s3'' = ''s3''" "strip ''eu'' = ''eu''" "strip ''b1'' = ''b1''" "strip ''g1'' = ''g1''" "strip ''x1'' = ''x1''"
  "strip ''c1'' = ''c1''" "strip ''fire'' = ''fire''" "strip ''T1'' = ''T1''" "strip ''alice'' = ''alice''" "strip ''bob'' = ''bob''"
  "strip ''audit log'' = ''audit log''" "strip ''done'' = ''done''"
  by (simp_all add: strip_def py_isspace_def)

lemma dr_zero [simp]: "sha256_hex zero_hash v = zero_hash []" "sha256_hex_bytes zero_hash b = zero_hash []" "length (zero_hash []) = 64"
  by (simp_all add: sha256_hex_def sha256_hex_bytes_def zero_hash_def)

lemma dr_checkpoint_accepted: "verify_checkpoint accept_all sample_checkpoint sample_trust = Inr sample_key"
  by (simp add: accept_all_def verify_checkpoint_def sample_trust_def sample_key_def sample_checkpoint_def sign_material_def
      sample_signer_def verify_key_window_def verify_signature_def b64_round_trip)

lemma dr_checkpoint_sel: "scp_tenant_id sample_checkpoint = ''acme''" "scp_final_event_hash sample_checkpoint = zero_hash []"
  "checkpoint_sha256 zero_hash c = zero_hash []"
  by (simp_all add: sample_checkpoint_def sign_material_def checkpoint_sha256_def)

lemma dr_verified:
  "verify_recovery zero_hash accept_all (\<lambda>xs. xs) scan_id 60 dr_manifest restore_id [dr_observation] (zero_hash []) sample_checkpoint sample_trust
    = Inr (dr_scan scan_id restore_id)"
  by (simp add: verify_recovery_def Let_def expected_components_def observed_components_def dr_manifest_def dr_observation_def dr_component_def
      raise_if_def component_finding_def extra_components_def binding_findings_def dr_checkpoint_sel checkpoint_bound_def
      signature_findings_def dr_checkpoint_accepted check_findings_def object_store_findings_def restored_def new_scan_def dr_scan_def
      check_fields_def integrity_scan_result_fields_def validate_scan_def nonblank_def)

lemma dr_manifest_valid: "validate_backup_manifest dr_manifest = Inr dr_manifest"
  by (simp add: dr_manifest_def validate_backup_manifest_def dr_component_def)

theorem integrity_scan_exact_witness:
  "restored_exactly zero_hash accept_all dr_manifest [dr_observation] (zero_hash []) sample_checkpoint sample_trust"
  using integrity_scan_exact [OF dr_manifest_valid _ dr_verified [of "''c1''" "''x1''"]] by (simp add: dr_scan_def)

definition dr_request :: glass_request where
  "dr_request = \<lparr>bgr_operator = dr_actor ''bob'', bgr_capabilities = [Glass_RESTORE, Glass_INTEGRITY_SCAN, Glass_RECONCILE, Glass_FAILOVER],
     bgr_reason = ''fire'', bgr_ticket_reference = ''T1'', bgr_ttl_seconds = 600\<rparr>"

definition dr_grant :: break_glass_grant where
  "dr_grant = \<lparr>bgg_schema_name = ''prodkit.break-glass-grant'', bgg_schema_version = ''1.0.0'', bgg_grant_id = ''g1'', bgg_tenant_id = ''acme'',
     bgg_operator = dr_actor ''bob'', bgg_approved_by = dr_actor ''alice'',
     bgg_capabilities = [Glass_RESTORE, Glass_INTEGRITY_SCAN, Glass_RECONCILE, Glass_FAILOVER], bgg_reason = ''fire'',
     bgg_ticket_reference = ''T1'', bgg_issued_at = 40, bgg_expires_at = 600000040\<rparr>"

definition dr_plan :: restore_plan where
  "dr_plan = \<lparr>rpl_schema_name = ''prodkit.restore-plan'', rpl_schema_version = ''1.0.0'', rpl_restore_id = ''x1'', rpl_tenant_id = ''acme'',
     rpl_profile_id = ''p1'', rpl_profile_revision = 1, rpl_backup_id = ''b1'', rpl_target_site = ''eu'', rpl_failure_detected_at = 50,
     rpl_requested_at = 50, rpl_requested_by = dr_actor ''bob'', rpl_break_glass_grant_id = ''g1'', rpl_reconcile_uncertain = True,
     rpl_reconcile_recovery_gap = True, rpl_prohibit_blind_replay = True\<rparr>"

definition dr_evidence :: gap_evidence where
  "dr_evidence = \<lparr>gpe_source_references = [''audit log''], gpe_unexpected_effect_count = 0, gpe_unresolved_effect_count = 0,
     gpe_evidence_reference = ''done''\<rparr>"

definition dr1 :: recovery_store where "dr1 = snd (publish_profile 10 ''i1'' (dr_context ''alice'') dr_profile empty_recovery)"
definition dr2 :: recovery_store where "dr2 = snd (record_backup 30 ''i2'' (dr_context ''alice'') dr_manifest dr1)"
definition dr3 :: recovery_store where "dr3 = snd (issue_break_glass 40 ''g1'' ''i3'' (dr_context ''alice'') dr_request dr2)"
definition dr4 :: recovery_store where "dr4 = snd (plan_restore 50 50 (''u1'', ''i4'') ''x1'' ''i5'' (dr_context ''bob'') ''b1'' ''eu'' ''g1'' dr3)"
definition dr5 :: recovery_store where
  "dr5 = snd (verify_restore zero_hash accept_all (\<lambda>xs. xs) 60 60 (''u2'', ''i6'') ''c1'' ''i7'' (dr_context ''bob'') ''x1'' [dr_observation]
     (zero_hash []) sample_checkpoint sample_trust dr4)"
definition dr6 :: recovery_store where "dr6 = snd (record_recovery_gap 70 70 (''u3'', ''i8'') ''q1'' ''i9'' (dr_context ''bob'') ''x1'' dr_evidence dr5)"
definition dr7 :: recovery_store where "dr7 = snd (revoke_break_glass 80 ''i10'' (dr_context ''alice'') ''g1'' ''done'' dr6)"

lemma dr_actor_fields: "nonblank name \<Longrightarrow> actor_ref_fields (dr_actor name)"
  by (simp add: dr_actor_def actor_ref_fields_def nonblank_def)

lemma dr_context_valid: "nonblank name \<Longrightarrow> valid_context (dr_context name)"
  by (simp add: valid_context_def dr_context_def dr_actor_def tenant_access_context_fields_def actor_ref_fields_def
      validate_tenant_access_context_def nonblank_def)

lemma dr_blank [simp]: "nonblank ''alice''" "nonblank ''bob''" "nonblank ''acme''" "nonblank ''p1''" "nonblank ''eu''" "nonblank ''fire''"
  "nonblank ''T1''" "nonblank ''g1''" "nonblank ''x1''" "nonblank ''b1''" "nonblank ''c1''" "nonblank ''audit log''" "nonblank ''done''"
  by (simp_all add: nonblank_def)

lemma dr_event_ok:
  "nonblank name \<Longrightarrow> nonblank (strip tgt) \<Longrightarrow> nonblank (strip why) \<Longrightarrow> pred_option nonblank ticket \<Longrightarrow>
    recovery_audit_event_fields ((recovery_event i (dr_context name) ty now tgt why)\<lparr>rae_ticket_reference := ticket, rae_attributes := at1\<rparr>)"
  "nonblank name \<Longrightarrow> nonblank (strip tgt) \<Longrightarrow> nonblank (strip why) \<Longrightarrow>
    recovery_audit_event_fields ((recovery_event i (dr_context name) ty now tgt why)\<lparr>rae_attributes := at1\<rparr>)"
  "nonblank name \<Longrightarrow> nonblank (strip tgt) \<Longrightarrow> nonblank (strip why) \<Longrightarrow> pred_option nonblank ticket \<Longrightarrow>
    recovery_audit_event_fields ((recovery_event i (dr_context name) ty now tgt why)\<lparr>rae_ticket_reference := ticket\<rparr>)"
  by (simp_all add: recovery_audit_event_fields_def recovery_event_def dr_context_def dr_actor_fields)

lemma nonblank_strip: "\<not> py_isspace x \<Longrightarrow> nonblank (strip (x # s))"
proof -
  assume x: "\<not> py_isspace x"
  then have "strip (x # s) = rev (dropWhile py_isspace (rev s @ [x]))" by (simp add: strip_def)
  moreover have "dropWhile py_isspace (rev s @ [x]) \<noteq> []" using x by (simp add: dropWhile_append)
  ultimately have "strip (x # s) \<noteq> []" by simp
  then show ?thesis by (simp add: nonblank_def)
qed

definition logged :: "recovery_audit_event \<Rightarrow> recovery_store \<Rightarrow> recovery_store" where
  "logged ev s = s\<lparr>rcs_audit := (rcs_audit s)(rae_tenant_id ev := rcs_audit s (rae_tenant_id ev) @ [ev])\<rparr>"

lemma logged_sel [simp]:
  "rcs_profiles (logged ev s) = rcs_profiles s" "rcs_backups (logged ev s) = rcs_backups s" "rcs_plans (logged ev s) = rcs_plans s"
  "rcs_scans (logged ev s) = rcs_scans s" "rcs_recoveries (logged ev s) = rcs_recoveries s" "rcs_gaps (logged ev s) = rcs_gaps s"
  "rcs_results (logged ev s) = rcs_results s" "rcs_grants (logged ev s) = rcs_grants s" "rcs_grant_uses (logged ev s) = rcs_grant_uses s"
  "rcs_revoked_grants (logged ev s) = rcs_revoked_grants s" "rcs_game_days (logged ev s) = rcs_game_days s"
  by (simp_all add: logged_def)

lemma append_logged: "recovery_audit_event_fields ev \<Longrightarrow> append_recovery_audit ev s = (Inr (), logged ev s)"
  by (simp add: append_recovery_audit_run logged_def)

lemma bindE_logged: "recovery_audit_event_fields ev \<Longrightarrow> bindE (append_recovery_audit ev) g s = g () (logged ev s)"
  by (simp add: bindE_def append_logged)

lemmas dr_eval = rec_run append_logged bindE_logged raise_if_def check_fields_def require_tenant_def require_tenant_mode_def dr_event_ok
  nonblank_strip py_isspace_def

lemma dr_selectors:
  "tac_tenant_id (dr_context name) = ''acme''" "tac_actor (dr_context name) = dr_actor name" "tac_mode (dr_context name) = Access_TENANT"
  "tac_capabilities (dr_context name) = [Capability_READ, Capability_WRITE, Capability_APPROVE, Capability_CONFIGURE]"
  "actor_id (dr_actor name) = name" "actor_kind (dr_actor name) = ActorKind_HUMAN" "actor_tenant_id (dr_actor name) = ''acme''"
  by (simp_all add: dr_context_def dr_actor_def)

lemma dr1_run: "publish_profile 10 ''i1'' (dr_context ''alice'') dr_profile empty_recovery = (Inr dr_profile, dr1)"
  by (simp add: dr1_def publish_profile_def dr_eval dr_selectors dr_profile_def expected_revision_def empty_recovery_def)

lemma dr1_sel: "rcs_profiles dr1 ''acme'' = [dr_profile]" "rcs_backups dr1 = []" "rcs_grants dr1 = Map.empty" "rcs_grant_uses dr1 = (\<lambda>_. [])"
  "rcs_plans dr1 = Map.empty" "rcs_scans dr1 = Map.empty" "rcs_gaps dr1 = Map.empty" "rcs_revoked_grants dr1 = Map.empty" "rcs_recoveries dr1 = (\<lambda>_. [])"
  by (simp_all add: dr1_def publish_profile_def dr_eval dr_selectors dr_profile_def expected_revision_def empty_recovery_def)

lemma dr_active: "0 \<le> now \<Longrightarrow> rcs_profiles s ''acme'' = [dr_profile] \<Longrightarrow> profile_locked ''acme'' now s = Inr dr_profile"
  by (simp add: profile_locked_iff active_profile_def dr_profile_def)

lemma dr_usable: "usable_backup 30 dr_profile dr_manifest = Inr ()" "targets_profile dr_manifest dr_profile"
  by (simp_all add: usable_backup_def targets_profile_def dr_profile_def dr_manifest_def missing_components_def dr_component_def)

lemma dr_manifest_sel: "bm_tenant_id dr_manifest = ''acme''" "bm_created_at dr_manifest = 20" "bm_backup_id dr_manifest = ''b1''"
  "bm_recovery_point_at dr_manifest = 10" "bm_snapshot_set_id dr_manifest = ''s1''"
  by (simp_all add: dr_manifest_def)

lemmas dr_step = dr_eval dr_selectors dr_active dr_manifest_sel dr_usable

lemma dr2_run: "record_backup 30 ''i2'' (dr_context ''alice'') dr_manifest dr1 = (Inr dr_manifest, dr2)"
  by (simp add: dr2_def record_backup_def dr_step dr1_sel)

lemma dr2_sel: "rcs_profiles dr2 ''acme'' = [dr_profile]" "rcs_backups dr2 = [((''acme'', ''b1''), dr_manifest)]" "rcs_grants dr2 = Map.empty"
  "rcs_grant_uses dr2 = (\<lambda>_. [])" "rcs_plans dr2 = Map.empty" "rcs_scans dr2 = Map.empty" "rcs_gaps dr2 = Map.empty"
  "rcs_revoked_grants dr2 = Map.empty" "rcs_recoveries dr2 = (\<lambda>_. [])"
  by (simp_all add: dr2_def record_backup_def dr_step dr1_sel)

lemma dr_new_grant: "new_grant 40 ''g1'' (dr_context ''alice'') dr_request = Inr dr_grant"
  by (simp add: new_grant_def dr_step dr_request_def dr_grant_def break_glass_grant_fields_def dr_actor_fields validate_break_glass_def)

lemma dr3_run: "issue_break_glass 40 ''g1'' ''i3'' (dr_context ''alice'') dr_request dr2 = (Inr dr_grant, dr3)"
  and dr3_sel: "rcs_profiles dr3 ''acme'' = [dr_profile]" "rcs_backups dr3 = [((''acme'', ''b1''), dr_manifest)]" "rcs_grants dr3 = [(''acme'', ''g1'') \<mapsto> dr_grant]"
  "rcs_grant_uses dr3 = (\<lambda>_. [])" "rcs_plans dr3 = Map.empty" "rcs_scans dr3 = Map.empty" "rcs_gaps dr3 = Map.empty"
  "rcs_revoked_grants dr3 = Map.empty" "rcs_recoveries dr3 = (\<lambda>_. [])"
  by (simp_all add: dr3_def issue_break_glass_def dr_step dr2_sel dr_new_grant) (simp_all add: dr_request_def dr_profile_def dr_step dr2_sel dr_new_grant dr_grant_def)

text \<open>Bob's uses of the grant succeed, and leave everything but its uses and the trail as it was.\<close>

lemmas use_frame_simps [simp] = use_frame [OF prod.collapse [symmetric]]

lemma dr_use:
  assumes "rcs_grants s (''acme'', ''g1'') = Some dr_grant" "rcs_revoked_grants s (''acme'', ''g1'') = None" "now < 600000040"
    "cap \<in> {Glass_RESTORE, Glass_INTEGRITY_SCAN, Glass_RECONCILE, Glass_FAILOVER}" "nonblank (strip purpose)"
  shows "bindE (use_break_glass now ids (dr_context ''bob'') ''g1'' cap purpose) (\<lambda>_. g) s
    = g (snd (use_break_glass now ids (dr_context ''bob'') ''g1'' cap purpose s))"
proof -
  have "authorize_use now (dr_context ''bob'') ''g1'' cap s = Inr dr_grant"
    using assms by (auto simp: authorize_use_iff dr_selectors dr_grant_def)
  then have "\<exists>u. fst (use_break_glass now ids (dr_context ''bob'') ''g1'' cap purpose s) = Inr u"
    using assms(5) by (simp add: use_break_glass_def dr_eval dr_selectors new_use_def break_glass_use_fields_def dr_actor_fields
      validate_break_glass_use_def dr_grant_def)
  then show ?thesis by (auto simp: bindE_def split: prod.splits)
qed

lemma dr_new_plan: "new_plan 50 ''x1'' (dr_context ''bob'') dr_profile ''b1'' ''eu'' ''g1'' = Inr dr_plan"
  by (simp add: new_plan_def dr_step dr_plan_def dr_profile_def restore_plan_fields_def dr_actor_fields validate_restore_plan_def)

lemma dr_backup: "rcs_backups s = [((''acme'', ''b1''), dr_manifest)] \<Longrightarrow> backup_of ''acme'' ''b1'' s = Inr dr_manifest"
  by (simp add: backup_of_def)

lemma dr4_run: "plan_restore 50 50 (''u1'', ''i4'') ''x1'' ''i5'' (dr_context ''bob'') ''b1'' ''eu'' ''g1'' dr3 = (Inr dr_plan, dr4)"
  and dr4_sel: "rcs_profiles dr4 ''acme'' = [dr_profile]" "rcs_backups dr4 = [((''acme'', ''b1''), dr_manifest)]"
  "rcs_grants dr4 = [(''acme'', ''g1'') \<mapsto> dr_grant]" "rcs_plans dr4 = [(''acme'', ''x1'') \<mapsto> dr_plan]" "rcs_scans dr4 = Map.empty"
  "rcs_gaps dr4 = Map.empty" "rcs_revoked_grants dr4 = Map.empty" "rcs_recoveries dr4 = (\<lambda>_. [])"
  by (simp_all add: dr4_def plan_restore_def dr_use dr_step dr3_sel dr_new_plan dr_backup)

lemma dr_plan_found: "rcs_plans s (''acme'', ''x1'') = Some dr_plan \<Longrightarrow> rcs_backups s = [((''acme'', ''b1''), dr_manifest)] \<Longrightarrow>
    plan_and_backup ''acme'' ''x1'' s = Inr (dr_plan, dr_manifest)"
  by (simp add: plan_and_backup_iff dr_plan_def)

lemma dr_plan_sel: "rpl_break_glass_grant_id dr_plan = ''g1''" "rpl_backup_id dr_plan = ''b1''" "rpl_failure_detected_at dr_plan = 50"
  by (simp_all add: dr_plan_def)

lemma dr5_run: "verify_restore zero_hash accept_all (\<lambda>xs. xs) 60 60 (''u2'', ''i6'') ''c1'' ''i7'' (dr_context ''bob'') ''x1'' [dr_observation]
     (zero_hash []) sample_checkpoint sample_trust dr4 = (Inr (dr_scan ''c1'' ''x1''), dr5)"
  and dr5_sel: "rcs_profiles dr5 ''acme'' = [dr_profile]" "rcs_backups dr5 = [((''acme'', ''b1''), dr_manifest)]"
  "rcs_grants dr5 = [(''acme'', ''g1'') \<mapsto> dr_grant]" "rcs_plans dr5 = [(''acme'', ''x1'') \<mapsto> dr_plan]"
  "rcs_scans dr5 = [(''acme'', ''c1'') \<mapsto> dr_scan ''c1'' ''x1'']"
  "rcs_gaps dr5 = Map.empty" "rcs_revoked_grants dr5 = Map.empty" "rcs_recoveries dr5 = (\<lambda>_. [])"
  by (simp_all add: dr5_def verify_restore_def dr_use dr_step dr4_sel dr_plan_found dr_plan_sel dr_verified)

definition dr_gap :: recovery_gap_reconciliation where
  "dr_gap = \<lparr>rgr_schema_name = ''prodkit.recovery-gap-reconciliation'', rgr_schema_version = ''1.0.0'', rgr_reconciliation_id = ''q1'',
     rgr_restore_id = ''x1'', rgr_tenant_id = ''acme'', rgr_recovery_point_at = 10, rgr_failure_detected_at = 50, rgr_completed_at = 70,
     rgr_source_references = [''audit log''], rgr_unexpected_effect_count = 0, rgr_unresolved_effect_count = 0,
     rgr_evidence_reference = ''done'', rgr_blind_replay_permitted = False\<rparr>"

lemma dr_new_gap: "new_gap 70 ''q1'' (dr_context ''bob'') dr_plan dr_manifest ''x1'' dr_evidence = Inr dr_gap"
  by (simp add: new_gap_def dr_step dr_plan_sel dr_evidence_def dr_gap_def recovery_gap_reconciliation_fields_def validate_gap_def)

lemma dr6_run: "record_recovery_gap 70 70 (''u3'', ''i8'') ''q1'' ''i9'' (dr_context ''bob'') ''x1'' dr_evidence dr5 = (Inr dr_gap, dr6)"
  and dr6_sel: "rcs_profiles dr6 ''acme'' = [dr_profile]" "rcs_backups dr6 = [((''acme'', ''b1''), dr_manifest)]"
  "rcs_grants dr6 = [(''acme'', ''g1'') \<mapsto> dr_grant]" "rcs_plans dr6 = [(''acme'', ''x1'') \<mapsto> dr_plan]"
  "rcs_scans dr6 = [(''acme'', ''c1'') \<mapsto> dr_scan ''c1'' ''x1'']"
  "rcs_gaps dr6 = [(''acme'', ''x1'') \<mapsto> dr_gap]" "rcs_revoked_grants dr6 = Map.empty" "rcs_recoveries dr6 = (\<lambda>_. [])"
  by (simp_all add: dr6_def record_recovery_gap_def dr_use dr_step dr5_sel dr_plan_found dr_plan_sel dr_new_gap)

lemma dr6_reached: "(recovery_step zero_hash accept_all (\<lambda>xs. xs) w)\<^sup>*\<^sup>* empty_recovery dr6"
proof -
  let ?step = "recovery_step zero_hash accept_all (\<lambda>xs. xs) w"
  have "reliability_profile_fields dr_profile" by (simp add: dr_profile_def reliability_profile_fields_def dr_actor_fields)
  then have "?step empty_recovery dr1" by (rule recovery_step.publish) (rule dr1_run)
  moreover have "?step dr1 dr2" by (rule recovery_step.backup [OF dr_manifest_valid dr2_run])
  moreover have "?step dr2 dr3" by (rule recovery_step.issue [OF dr_context_valid _ dr3_run]) (simp_all add: dr2_sel)
  moreover have "?step dr3 dr4" by (rule recovery_step.plan [OF _ dr4_run]) (simp add: dr3_sel)
  moreover have "?step dr4 dr5" by (rule recovery_step.scan [OF _ dr5_run]) (simp add: dr4_sel)
  moreover have "?step dr5 dr6" by (rule recovery_step.gap [OF dr6_run])
  ultimately show ?thesis by (meson converse_rtranclp_into_rtranclp rtranclp.rtrancl_refl)
qed

lemma dr_completed:
  "\<exists>r s'. complete_restore (\<lambda>_. ''1.0'') 80 80 (''u4'', ''i10'') ''i11'' (dr_context ''bob'') ''x1'' ''c1'' dr6 = (Inr r, s') \<and> rre_promoted r"
proof -
  have verdict: "restore_verdict dr_profile (dr_scan ''c1'' ''x1'') False True (1 / 25000) (3 / 100000) = (Restore_VERIFIED, True)"
    by (simp add: restore_verdict_def dr_profile_def dr_scan_def)
  have sel: "rgr_unresolved_effect_count dr_gap = 0" "isr_restore_id (dr_scan ''c1'' ''x1'') = ''x1''"
    by (simp_all add: dr_gap_def dr_scan_def)
  have result: "\<exists>r. new_restore_result 80 (dr_context ''bob'') dr_plan dr_manifest dr_profile (dr_scan ''c1'' ''x1'') dr_gap [] ''x1'' ''c1'' = Inr r \<and> rre_promoted r"
    by (simp add: new_restore_result_def Let_def verdict sel dr_step dr_plan_sel restore_result_fields_def dr_actor_fields validate_restore_result_def
        elapsed_seconds_def)
  then obtain r where r: "new_restore_result 80 (dr_context ''bob'') dr_plan dr_manifest dr_profile (dr_scan ''c1'' ''x1'') dr_gap [] ''x1'' ''c1'' = Inr r"
    "rre_promoted r" by blast
  show ?thesis
    by (simp add: complete_restore_def plan_locked_def scan_for_def gap_for_def dr_use dr_step dr6_sel dr_plan_sel dr_backup sel r)
qed


lemma dr7_step: "recovery_step zero_hash accept_all (\<lambda>xs. xs) w dr6 dr7" "rcs_revoked_grants dr7 (''acme'', ''g1'') \<noteq> None"
proof -
  have "fst (revoke_break_glass 80 ''i10'' (dr_context ''alice'') ''g1'' ''done'' dr6) = Inr ()"
    by (simp add: revoke_break_glass_def grant_locked_def dr_step dr6_sel dr_grant_def)
  then have "revoke_break_glass 80 ''i10'' (dr_context ''alice'') ''g1'' ''done'' dr6 = (Inr (), dr7)" by (simp add: dr7_def prod_eq_iff)
  then show "recovery_step zero_hash accept_all (\<lambda>xs. xs) w dr6 dr7" by (rule recovery_step.revoke)
  show "rcs_revoked_grants dr7 (''acme'', ''g1'') \<noteq> None"
    by (simp add: dr7_def revoke_break_glass_def grant_locked_def dr_step dr6_sel dr_grant_def)
qed

theorem break_glass_sound_witness:
  "rcs_grant_uses (snd (use_break_glass 90 (''u5'', ''i12'') (dr_context ''bob'') ''g1'' Glass_FAILOVER ''again'' dr7)) (''acme'', ''g1'')
    = rcs_grant_uses dr7 (''acme'', ''g1'')"
proof -
  have "(recovery_step zero_hash accept_all (\<lambda>xs. xs) TYPE(unit))\<^sup>*\<^sup>* empty_recovery dr7"
    using dr6_reached dr7_step(1) by (rule rtranclp.rtrancl_into_rtrancl)
  moreover have "(recovery_step zero_hash accept_all (\<lambda>xs. xs) TYPE(unit))\<^sup>*\<^sup>* dr7
      (snd (use_break_glass 90 (''u5'', ''i12'') (dr_context ''bob'') ''g1'' Glass_FAILOVER ''again'' dr7))"
    by (rule r_into_rtranclp) (rule recovery_step.use [OF prod.collapse [symmetric]])
  ultimately show ?thesis using break_glass_sound dr7_step(2) by blast
qed

end
