(* ===== verification/Security_Contracts.thy ===== *)
theory Security_Contracts
  imports Complex_Main Attestations
begin

text \<open>
  The contracts of \<open>contracts/security.py\<close>: secret references, workload identities, security audit events,
  rate limits, artifact provenance, service objectives and incident response, with their field constraints
  and validators. \<open>urllib.parse.urlsplit\<close> is written out up to the network location; the check of a bracketed
  host is the parameter \<open>bracketed\<close>.
\<close>

section \<open>Python strings\<close>

text \<open>\<open>str.lower\<close> on the code points below 256, \<open>str.replace\<close> of one character, \<open>in\<close>, \<open>startswith\<close>, \<open>rstrip\<close>.\<close>

definition lower_char :: "char \<Rightarrow> char" where
  "lower_char c = (let n = of_char c :: nat in
     if 65 \<le> n \<and> n \<le> 90 \<or> 192 \<le> n \<and> n \<le> 222 \<and> n \<noteq> 215 then char_of (n + 32) else c)"

definition lower :: "string \<Rightarrow> string" where
  "lower = map lower_char"

definition replace_char :: "char \<Rightarrow> char \<Rightarrow> string \<Rightarrow> string" where
  "replace_char a b = map (\<lambda>c. if c = a then b else c)"

definition starts_with :: "string \<Rightarrow> string \<Rightarrow> bool" where
  "starts_with p s = (take (length p) s = p)"

fun contains :: "string \<Rightarrow> string \<Rightarrow> bool" where
  "contains p [] = (p = [])"
| "contains p (c # s) = (starts_with p (c # s) \<or> contains p s)"

definition rstrip_char :: "char \<Rightarrow> string \<Rightarrow> string" where
  "rstrip_char c s = rev (dropWhile (\<lambda>x. x = c) (rev s))"

section \<open>The network location of a URL\<close>

definition is_alpha :: "char \<Rightarrow> bool" where
  "is_alpha c = (let n = of_char c :: nat in 65 \<le> n \<and> n \<le> 90 \<or> 97 \<le> n \<and> n \<le> 122)"

definition scheme_char :: "char \<Rightarrow> bool" where
  "scheme_char c = (is_alpha c \<or> c \<in> set ''0123456789+-.'')"

text \<open>The URL without leading control characters and without tabs and line breaks.\<close>

definition clean_url :: "string \<Rightarrow> string" where
  "clean_url u = filter (\<lambda>c. c \<notin> {CHR 0x09, CHR 0x0A, CHR 0x0D}) (dropWhile (\<lambda>c. (of_char c :: nat) \<le> 32) u)"

definition without_scheme :: "string \<Rightarrow> string" where
  "without_scheme u = (let s = takeWhile (\<lambda>c. c \<noteq> CHR '':'') u in
     if length s < length u \<and> s \<noteq> [] \<and> is_alpha (hd s) \<and> list_all scheme_char s then drop (length s + 1) u else u)"

definition url_netloc :: "(string \<Rightarrow> bool) \<Rightarrow> string \<Rightarrow> string result" where
  "url_netloc bracketed u = (let v = without_scheme (clean_url u) in
     if \<not> starts_with ''//'' v then Inr []
     else let netloc = takeWhile (\<lambda>c. c \<notin> set ''/?#'') (drop 2 v); host = takeWhile (\<lambda>c. c \<noteq> CHR '']'') (drop 1 (dropWhile (\<lambda>c. c \<noteq> CHR ''['') netloc))
       in if (CHR ''['' \<in> set netloc) \<noteq> (CHR '']'' \<in> set netloc) then Inl (ValueError ''Invalid IPv6 URL'')
          else if CHR ''['' \<in> set netloc \<and> \<not> bracketed host then Inl (ValueError ''invalid bracketed host'')
          else Inr netloc)"

section \<open>Models\<close>

datatype security_severity =
    SecSev_INFO
  | SecSev_LOW
  | SecSev_MEDIUM
  | SecSev_HIGH
  | SecSev_CRITICAL

fun security_severity_value :: "security_severity \<Rightarrow> string" where
  "security_severity_value SecSev_INFO = ''info''"
| "security_severity_value SecSev_LOW = ''low''"
| "security_severity_value SecSev_MEDIUM = ''medium''"
| "security_severity_value SecSev_HIGH = ''high''"
| "security_severity_value SecSev_CRITICAL = ''critical''"

datatype security_outcome =
    SecOut_ALLOWED
  | SecOut_DENIED
  | SecOut_DETECTED
  | SecOut_FAILED

fun security_outcome_value :: "security_outcome \<Rightarrow> string" where
  "security_outcome_value SecOut_ALLOWED = ''allowed''"
| "security_outcome_value SecOut_DENIED = ''denied''"
| "security_outcome_value SecOut_DETECTED = ''detected''"
| "security_outcome_value SecOut_FAILED = ''failed''"

datatype incident_class =
    Incident_CREDENTIAL_COMPROMISE
  | Incident_IDENTITY_REPLAY
  | Incident_ABUSE_OR_DOS
  | Incident_SUPPLY_CHAIN
  | Incident_DATA_INTEGRITY
  | Incident_CONTROL_PLANE_BYPASS
  | Incident_AVAILABILITY

fun incident_class_value :: "incident_class \<Rightarrow> string" where
  "incident_class_value Incident_CREDENTIAL_COMPROMISE = ''credential_compromise''"
| "incident_class_value Incident_IDENTITY_REPLAY = ''identity_replay''"
| "incident_class_value Incident_ABUSE_OR_DOS = ''abuse_or_dos''"
| "incident_class_value Incident_SUPPLY_CHAIN = ''supply_chain''"
| "incident_class_value Incident_DATA_INTEGRITY = ''data_integrity''"
| "incident_class_value Incident_CONTROL_PLANE_BYPASS = ''control_plane_bypass''"
| "incident_class_value Incident_AVAILABILITY = ''availability''"

record secret_reference =
  sec_schema_name :: string
  sec_schema_version :: string
  sec_provider :: string
  sec_reference :: string
  sec_version :: "string option"
  sec_tenant_id :: string
  sec_purpose :: string
  sec_audience :: "string list"

definition secret_reference_fields :: "secret_reference \<Rightarrow> bool" where
  "secret_reference_fields r = (sec_schema_name r = ''prodkit.secret-reference'' \<and>
     sec_schema_version r = ''1.0.0'' \<and>
     nonblank (sec_provider r) \<and>
     nonblank (sec_reference r) \<and>
     (pred_option nonblank) (sec_version r) \<and>
     nonblank (sec_tenant_id r) \<and>
     nonblank (sec_purpose r) \<and>
     (list_all nonblank) (sec_audience r))"

record workload_identity_policy =
  wip_schema_name :: string
  wip_schema_version :: string
  wip_issuer :: string
  wip_audience :: string
  wip_subject_prefixes :: "string list"
  wip_allowed_client_ids :: "string list"
  wip_max_assertion_lifetime_seconds :: int
  wip_clock_skew_seconds :: int
  wip_require_not_before :: bool
  wip_require_nonce :: bool

definition workload_identity_policy_fields :: "workload_identity_policy \<Rightarrow> bool" where
  "workload_identity_policy_fields r = (wip_schema_name r = ''prodkit.workload-identity-policy'' \<and>
     wip_schema_version r = ''1.0.0'' \<and>
     nonblank (wip_issuer r) \<and>
     nonblank (wip_audience r) \<and>
     (list_all nonblank) (wip_subject_prefixes r) \<and>
     (list_all nonblank) (wip_allowed_client_ids r) \<and>
     30 \<le> wip_max_assertion_lifetime_seconds r \<and>
     wip_max_assertion_lifetime_seconds r \<le> 900 \<and>
     0 \<le> wip_clock_skew_seconds r \<and>
     wip_clock_skew_seconds r \<le> 120)"

record workload_identity_assertion =
  wia_schema_name :: string
  wia_schema_version :: string
  wia_issuer :: string
  wia_subject :: string
  wia_audience :: string
  wia_tenant_id :: string
  wia_issued_at :: datetime
  wia_expires_at :: datetime
  wia_not_before :: "datetime option"
  wia_nonce :: "string option"
  wia_client_id :: "string option"

definition workload_identity_assertion_fields :: "workload_identity_assertion \<Rightarrow> bool" where
  "workload_identity_assertion_fields r = (wia_schema_name r = ''prodkit.workload-identity-assertion'' \<and>
     wia_schema_version r = ''1.0.0'' \<and>
     nonblank (wia_issuer r) \<and>
     nonblank (wia_subject r) \<and>
     nonblank (wia_audience r) \<and>
     nonblank (wia_tenant_id r) \<and>
     (pred_option nonblank) (wia_nonce r) \<and>
     (pred_option nonblank) (wia_client_id r))"

record security_audit_event =
  sae_schema_name :: string
  sae_schema_version :: string
  sae_event_id :: uuid
  sae_occurred_at :: datetime
  sae_event_type :: string
  sae_severity :: security_severity
  sae_outcome :: security_outcome
  sae_tenant_id :: "string option"
  sae_principal_id :: "string option"
  sae_action_id :: "uuid option"
  sae_request_id :: "string option"
  sae_attributes :: "(string \<times> string) list"

definition security_audit_event_fields :: "security_audit_event \<Rightarrow> bool" where
  "security_audit_event_fields r = (sae_schema_name r = ''prodkit.security-audit-event'' \<and>
     sae_schema_version r = ''1.0.0'' \<and>
     nonblank (sae_event_type r) \<and>
     (pred_option nonblank) (sae_tenant_id r) \<and>
     (pred_option nonblank) (sae_principal_id r) \<and>
     (pred_option nonblank) (sae_request_id r))"

definition dump_security_audit_event :: "security_audit_event \<Rightarrow> pyval" where
  "dump_security_audit_event r = PDict
    [(KStr ''schema_name'', PStr (sae_schema_name r)),
     (KStr ''schema_version'', PStr (sae_schema_version r)),
     (KStr ''event_id'', PUuid (sae_event_id r)),
     (KStr ''occurred_at'', PDatetime (sae_occurred_at r)),
     (KStr ''event_type'', PStr (sae_event_type r)),
     (KStr ''severity'', PEnum (security_severity_value (sae_severity r))),
     (KStr ''outcome'', PEnum (security_outcome_value (sae_outcome r))),
     (KStr ''tenant_id'', dump_opt PStr (sae_tenant_id r)),
     (KStr ''principal_id'', dump_opt PStr (sae_principal_id r)),
     (KStr ''action_id'', dump_opt PUuid (sae_action_id r)),
     (KStr ''request_id'', dump_opt PStr (sae_request_id r)),
     (KStr ''attributes'', dump_dict PStr (sae_attributes r))]"

record rate_limit_policy =
  rlp_schema_name :: string
  rlp_schema_version :: string
  rlp_policy_id :: string
  rlp_limit :: int
  rlp_window_seconds :: int
  rlp_burst :: int
  rlp_max_keys :: int

definition rate_limit_policy_fields :: "rate_limit_policy \<Rightarrow> bool" where
  "rate_limit_policy_fields r = (rlp_schema_name r = ''prodkit.rate-limit-policy'' \<and>
     rlp_schema_version r = ''1.0.0'' \<and>
     nonblank (rlp_policy_id r) \<and>
     1 \<le> rlp_limit r \<and>
     rlp_limit r \<le> 1000000 \<and>
     1 \<le> rlp_window_seconds r \<and>
     rlp_window_seconds r \<le> 86400 \<and>
     0 \<le> rlp_burst r \<and>
     rlp_burst r \<le> 1000000 \<and>
     1 \<le> rlp_max_keys r \<and>
     rlp_max_keys r \<le> 10000000)"

record artifact_provenance_policy =
  app_schema_name :: string
  app_schema_version :: string
  app_policy_id :: string
  app_required_predicate_type :: string
  app_allowed_builder_ids :: "string list"
  app_allowed_build_types :: "string list"
  app_require_verified_signature :: bool

definition artifact_provenance_policy_fields :: "artifact_provenance_policy \<Rightarrow> bool" where
  "artifact_provenance_policy_fields r = (app_schema_name r = ''prodkit.artifact-provenance-policy'' \<and>
     app_schema_version r = ''1.0.0'' \<and>
     nonblank (app_policy_id r) \<and>
     nonblank (app_required_predicate_type r) \<and>
     (list_all nonblank) (app_allowed_builder_ids r) \<and>
     (list_all nonblank) (app_allowed_build_types r))"

record operational_slo =
  slo_schema_name :: string
  slo_schema_version :: string
  slo_slo_id :: string
  slo_metric :: string
  slo_target_ratio :: rat
  slo_window_seconds :: int
  slo_page_burn_rate :: rat
  slo_ticket_burn_rate :: rat

definition operational_slo_fields :: "operational_slo \<Rightarrow> bool" where
  "operational_slo_fields r = (slo_schema_name r = ''prodkit.operational-slo'' \<and>
     slo_schema_version r = ''1.0.0'' \<and>
     nonblank (slo_slo_id r) \<and>
     nonblank (slo_metric r) \<and>
     0 < slo_target_ratio r \<and>
     slo_target_ratio r \<le> 1 \<and>
     60 \<le> slo_window_seconds r \<and>
     slo_window_seconds r \<le> 31536000 \<and>
     0 < slo_page_burn_rate r \<and>
     0 < slo_ticket_burn_rate r)"

record incident_response_policy =
  irp_schema_name :: string
  irp_schema_version :: string
  irp_incident_class :: incident_class
  irp_owner :: string
  irp_severity :: security_severity
  irp_acknowledge_within_seconds :: int
  irp_contain_within_seconds :: int
  irp_patch_within_seconds :: "int option"

definition incident_response_policy_fields :: "incident_response_policy \<Rightarrow> bool" where
  "incident_response_policy_fields r = (irp_schema_name r = ''prodkit.incident-response-policy'' \<and>
     irp_schema_version r = ''1.0.0'' \<and>
     nonblank (irp_owner r) \<and>
     60 \<le> irp_acknowledge_within_seconds r \<and>
     irp_acknowledge_within_seconds r \<le> 86400 \<and>
     60 \<le> irp_contain_within_seconds r \<and>
     irp_contain_within_seconds r \<le> 604800 \<and>
     pred_option (\<lambda>n. 60 \<le> n \<and> n \<le> 2592000) (irp_patch_within_seconds r))"

record security_control_evidence =
  sce_schema_name :: string
  sce_schema_version :: string
  sce_control_id :: string
  sce_evidence_sha256 :: string
  sce_collected_at :: datetime
  sce_source :: string

definition security_control_evidence_fields :: "security_control_evidence \<Rightarrow> bool" where
  "security_control_evidence_fields r = (sce_schema_name r = ''prodkit.security-control-evidence'' \<and>
     sce_schema_version r = ''1.0.0'' \<and>
     nonblank (sce_control_id r) \<and>
     is_sha256 (sce_evidence_sha256 r) \<and>
     nonblank (sce_source r))"

section \<open>Validators\<close>

definition secret_markers :: "string list" where
  "secret_markers = [''password='', ''token='', ''secret='', ''private_key='', ''authorization:'', ''api_key='', ''apikey='', ''access_key='']"

definition normalized :: "string \<Rightarrow> string" where
  "normalized s = replace_char (CHR ''-'') (CHR ''_'') (lower s)"

definition validate_secret_reference :: "(string \<Rightarrow> bool) \<Rightarrow> secret_reference \<Rightarrow> secret_reference result" where
  "validate_secret_reference bracketed r =
    rbind (url_netloc bracketed (sec_reference r)) (\<lambda>netloc.
      if list_ex (\<lambda>m. contains m (normalized (sec_reference r))) secret_markers \<or> CHR ''@'' \<in> set netloc
      then Inl (ValueError ''secret references must not contain inline secret material'')
      else if \<not> distinct (sec_audience r) then Inl (ValueError ''secret reference audience values must be unique'')
      else Inr r)"

definition validate_identity_policy :: "workload_identity_policy \<Rightarrow> workload_identity_policy result" where
  "validate_identity_policy p =
    (if \<not> starts_with ''https://'' (wip_issuer p) then Inl (ValueError ''workload identity issuer must use HTTPS'')
     else if wip_subject_prefixes p = []
     then Inl (ValueError ''workload identity policy requires at least one subject prefix'')
     else if \<not> distinct (wip_subject_prefixes p)
     then Inl (ValueError ''workload identity subject prefixes must be unique'')
     else if \<not> distinct (wip_allowed_client_ids p) then Inl (ValueError ''workload identity client ids must be unique'')
     else Inr p)"

definition validate_identity_assertion :: "workload_identity_assertion \<Rightarrow> workload_identity_assertion result" where
  "validate_identity_assertion a =
    (if wia_expires_at a \<le> wia_issued_at a then Inl (ValueError ''workload assertion expiry must follow issuance'')
     else if \<exists>t. wia_not_before a = Some t \<and> wia_expires_at a < t
     then Inl (ValueError ''workload assertion not_before cannot follow expiry'')
     else Inr a)"

definition assertion_lifetime :: "workload_identity_assertion \<Rightarrow> timedelta" where
  "assertion_lifetime a = wia_expires_at a - wia_issued_at a"

definition validate_provenance_policy :: "artifact_provenance_policy \<Rightarrow> artifact_provenance_policy result" where
  "validate_provenance_policy p =
    (if app_allowed_builder_ids p = [] then Inl (ValueError ''provenance policy requires at least one trusted builder'')
     else if \<not> distinct (app_allowed_builder_ids p) then Inl (ValueError ''provenance builder ids must be unique'')
     else if \<not> distinct (app_allowed_build_types p) then Inl (ValueError ''provenance build types must be unique'')
     else Inr p)"

definition validate_slo :: "operational_slo \<Rightarrow> operational_slo result" where
  "validate_slo s = (if slo_page_burn_rate s \<le> slo_ticket_burn_rate s
     then Inl (ValueError ''page burn rate must be greater than ticket burn rate'') else Inr s)"

end
