(* ===== verification/Security.thy ===== *)
theory Security
  imports Security_Contracts Binary64 "HOL-Library.Product_Lexorder" "HOL-Library.List_Lexorder" "HOL-Library.Char_ord"
begin

text \<open>
  The runtime's \<open>security.py\<close> without its rate limiter: the replay store, secret references, workload identity
  verification, redaction and export of audit events and service objectives. A \<open>heapq\<close> is a sorted list: its least entry is
  the head, \<open>heappush\<close> is \<open>insort\<close>. The authenticator of credentials and the export callback are parameters.
\<close>

section \<open>The replay store\<close>

record replay_store =
  rps_max_entries :: int
  rps_claims :: "(string \<times> datetime) list"
  rps_expirations :: "(datetime \<times> string) list"

definition new_replay_store :: "int \<Rightarrow> replay_store result" where
  "new_replay_store max_entries =
    (if max_entries < 1 then Inl (ValueError ''max_entries must be positive'')
     else Inr \<lparr>rps_max_entries = max_entries, rps_claims = [], rps_expirations = []\<rparr>)"

fun evict_replays ::
  "datetime \<Rightarrow> (datetime \<times> string) list \<Rightarrow> (string \<times> datetime) list \<Rightarrow> (datetime \<times> string) list \<times> (string \<times> datetime) list" where
  "evict_replays now [] claims = ([], claims)"
| "evict_replays now ((expires_at, key) # heap) claims =
    (if expires_at \<le> now
     then evict_replays now heap (if map_of claims key = Some expires_at then AList.delete key claims else claims)
     else ((expires_at, key) # heap, claims))"

definition evict_expired_replays :: "datetime \<Rightarrow> (replay_store, unit) prog" where
  "evict_expired_replays now s = (case evict_replays now (rps_expirations s) (rps_claims s) of
     (heap, claims) \<Rightarrow> (Inr (), s\<lparr>rps_expirations := heap, rps_claims := claims\<rparr>))"

definition claim_once :: "string \<Rightarrow> datetime \<Rightarrow> datetime \<Rightarrow> (replay_store, bool) prog" where
  "claim_once key expires_at now =
    bindE (evict_expired_replays now) (\<lambda>_ s.
      if map_of (rps_claims s) key \<noteq> None then (Inr False, s)
      else if rps_max_entries s \<le> int (length (rps_claims s))
      then (Inl (ForeignException ''RuntimeError'' ''replay store capacity exhausted; fail closed''), s)
      else (Inr True, s\<lparr>rps_claims := AList.update key expires_at (rps_claims s),
        rps_expirations := insort (expires_at, key) (rps_expirations s)\<rparr>))"

section \<open>Secret references\<close>

record secret_guard =
  sgd_allowed_providers :: "string list"
  sgd_require_version :: bool

definition new_secret_guard :: "string list \<Rightarrow> bool \<Rightarrow> secret_guard result" where
  "new_secret_guard allowed require_version =
    (let providers = filter (\<lambda>p. p \<noteq> []) (map strip allowed)
     in if providers = [] then Inl (ValueError ''at least one secret provider must be allowed'')
        else Inr \<lparr>sgd_allowed_providers = providers, sgd_require_version = require_version\<rparr>)"

definition guard_secret :: "secret_guard \<Rightarrow> secret_reference \<Rightarrow> string \<Rightarrow> string \<Rightarrow> string option \<Rightarrow> unit result" where
  "guard_secret g r tenant purpose audience =
    (if sec_provider r \<notin> set (sgd_allowed_providers g) then Inl (PermissionError ''secret provider is not allowed'')
     else if sgd_require_version g \<and> sec_version r = None
     then Inl (PermissionError ''production secret references must be version-pinned'')
     else if sec_tenant_id r \<noteq> tenant \<or> sec_purpose r \<noteq> purpose then Inl (PermissionError ''secret reference binding mismatch'')
     else if \<exists>a. audience = Some a \<and> (sec_audience r = [] \<or> a \<notin> set (sec_audience r))
     then Inl (PermissionError ''secret reference audience mismatch'')
     else Inr ())"

section \<open>Workload identities\<close>

text \<open>The authenticator gets the credential, the expected issuer and audience, and the time.\<close>

type_synonym identity_authenticator = "string \<Rightarrow> string \<Rightarrow> string \<Rightarrow> datetime \<Rightarrow> workload_identity_assertion result"

definition skew_of :: "workload_identity_policy \<Rightarrow> timedelta" where
  "skew_of p = wip_clock_skew_seconds p * 1000000"

definition check_assertion :: "workload_identity_policy \<Rightarrow> string \<Rightarrow> datetime \<Rightarrow> workload_identity_assertion \<Rightarrow> unit result" where
  "check_assertion p tenant now a =
    (if wia_tenant_id a \<noteq> tenant then Inl (PermissionError ''workload identity tenant mismatch'')
     else if rstrip_char (CHR ''/'') (wia_issuer a) \<noteq> rstrip_char (CHR ''/'') (wip_issuer p)
     then Inl (PermissionError ''workload identity issuer mismatch'')
     else if wia_audience a \<noteq> wip_audience p then Inl (PermissionError ''workload identity audience mismatch'')
     else if \<not> list_ex (\<lambda>prefix. starts_with prefix (wia_subject a)) (wip_subject_prefixes p)
     then Inl (PermissionError ''workload identity subject is not allowed'')
     else if wip_allowed_client_ids p \<noteq> [] \<and> (case wia_client_id a of None \<Rightarrow> True | Some i \<Rightarrow> i \<notin> set (wip_allowed_client_ids p))
     then Inl (PermissionError ''workload identity client is not allowed'')
     else if wip_max_assertion_lifetime_seconds p * 1000000 < assertion_lifetime a
     then Inl (PermissionError ''workload identity assertion lifetime is too long'')
     else if now + skew_of p < wia_issued_at a \<or> wia_expires_at a \<le> now - skew_of p
     then Inl (PermissionError ''workload identity assertion is outside its validity window'')
     else if wip_require_not_before p \<and> wia_not_before a = None
     then Inl (PermissionError ''workload identity assertion requires not_before'')
     else if \<exists>t. wia_not_before a = Some t \<and> now + skew_of p < t
     then Inl (PermissionError ''workload identity assertion is not active yet'')
     else if wip_require_nonce p \<and> wia_nonce a = None then Inl (PermissionError ''workload identity assertion requires nonce'')
     else Inr ())"

definition replay_key :: "sha256_fn \<Rightarrow> workload_identity_assertion \<Rightarrow> string \<Rightarrow> string" where
  "replay_key sha a nonce = sha256_hex_bytes sha (utf8 (join [CHR 0x00] [wia_issuer a, wia_subject a, wia_tenant_id a, nonce]))"

text \<open>The verifier over any replay store, given by its operation \<open>claim\<close>.\<close>

definition verify_and_claim ::
  "sha256_fn \<Rightarrow> (string \<Rightarrow> datetime \<Rightarrow> datetime \<Rightarrow> ('s, bool) prog) \<Rightarrow> workload_identity_policy \<Rightarrow> identity_authenticator
    \<Rightarrow> string \<Rightarrow> string \<Rightarrow> datetime \<Rightarrow> ('s, workload_identity_assertion) prog" where
  "verify_and_claim sha claim p authenticate credential tenant now =
    bindE (lift_result (raise_if (is_blank credential) (ValueError ''workload identity credential must be non-empty''))) (\<lambda>_.
    bindE (lift_result (authenticate credential (wip_issuer p) (wip_audience p) now)) (\<lambda>a.
    bindE (lift_result (check_assertion p tenant now a)) (\<lambda>_.
    case wia_nonce a of
      None \<Rightarrow> ret a
    | Some nonce \<Rightarrow>
        bindE (claim (replay_key sha a nonce) (wia_expires_at a + skew_of p) now) (\<lambda>granted.
        bindE (lift_result (raise_if (\<not> granted) (PermissionError ''workload identity assertion replay detected''))) (\<lambda>_.
        ret a)))))"

section \<open>Redaction and export\<close>

definition sensitive_fragments :: "string list" where
  "sensitive_fragments = [''access_key'', ''api_key'', ''apikey'', ''authorization'', ''cookie'', ''credential'', ''password'',
     ''private_key'', ''secret'', ''session'', ''token'']"

definition sensitive :: "string \<Rightarrow> bool" where
  "sensitive key = list_ex (\<lambda>f. contains f (normalized key)) sensitive_fragments"

text \<open>
  \<open>json.dumps(value, sort_keys=True)\<close> with compact separators: what is not a JSON value raises, and characters
  outside of printable ASCII are escaped.
\<close>

fun json_of :: "pyval \<Rightarrow> json result" where
  "json_of PNone = Inr JNull"
| "json_of (PBool b) = Inr (JBool b)"
| "json_of (PInt i) = Inr (JInt i)"
| "json_of (PFloat t) = Inr (JFloat t)"
| "json_of (PStr s) = Inr (JStr s)"
| "json_of (PEnum s) = Inr (JStr s)"
| "json_of (PList vs) = rbind (rmap json_of vs) (\<lambda>js. Inr (JList js))"
| "json_of (PTuple vs) = rbind (rmap json_of vs) (\<lambda>js. Inr (JList js))"
| "json_of (PDict kvs) = rbind (rmap (\<lambda>(k, v). rbind (json_of v) (\<lambda>j. Inr (key_str k, j))) kvs) (\<lambda>js. Inr (JObj js))"
| "json_of v = Inl (TypeError ''Object is not JSON serializable'')"

definition ascii_escape :: "string \<Rightarrow> string" where
  "ascii_escape s = concat (map (\<lambda>c. if (of_char c :: nat) < 127 then [c]
     else [CHR 0x5C, CHR ''u'', CHR ''0'', CHR ''0'', hex_char (of_char c div 16), hex_char (of_char c mod 16)]) s)"

definition json_dumps :: "pyval \<Rightarrow> string result" where
  "json_dumps v = rbind (json_of v) (\<lambda>j. Inr (ascii_escape (dumps j)))"

definition attribute_text :: "pyval \<Rightarrow> string result" where
  "attribute_text v = (case v of
     PStr s \<Rightarrow> Inr s | PEnum s \<Rightarrow> Inr s | PInt i \<Rightarrow> Inr (int_str i) | PFloat t \<Rightarrow> Inr t
   | PBool b \<Rightarrow> Inr (if b then ''True'' else ''False'') | PNone \<Rightarrow> Inr ''None''
   | _ \<Rightarrow> json_dumps v)"

definition redact_attribute :: "string \<times> pyval \<Rightarrow> (string \<times> string) result" where
  "redact_attribute kv =
    (if sensitive (fst kv) then Inr (fst kv, ''[REDACTED]'') else rbind (attribute_text (snd kv)) (\<lambda>t. Inr (fst kv, t)))"

definition redact_security_attributes :: "(string \<times> pyval) list \<Rightarrow> (string \<times> string) list result" where
  "redact_security_attributes = rmap redact_attribute"

definition with_attributes :: "pyval \<Rightarrow> pyval \<Rightarrow> pyval" where
  "with_attributes payload attributes = (case payload of
     PDict kvs \<Rightarrow> PDict (AList.update (KStr ''attributes'') attributes kvs) | v \<Rightarrow> v)"

definition export_line :: "security_audit_event \<Rightarrow> string result" where
  "export_line ev =
    rbind (redact_security_attributes (map (\<lambda>(k, v). (k, PStr v)) (sae_attributes ev))) (\<lambda>redacted.
    json_dumps (with_attributes (json_mode (dump_security_audit_event ev)) (dump_dict PStr redacted)))"

definition export_events :: "(string \<Rightarrow> ('w, unit) prog) \<Rightarrow> security_audit_event list \<Rightarrow> ('w, unit) prog" where
  "export_events emit events =
    bindE (run_all (\<lambda>ev. bindE (lift_result (export_line ev)) emit) events) (\<lambda>_. ret ())"

section \<open>Service objectives\<close>

text \<open>A burn rate is \<open>None\<close> where the code has \<open>inf\<close>; every quotient and difference is rounded by \<open>fl\<close>.\<close>

record slo_evaluation =
  sle_error_budget_fraction :: rat
  sle_burn_rate :: "rat option"
  sle_page :: bool
  sle_ticket :: bool

definition burn_rate :: "operational_slo \<Rightarrow> int \<Rightarrow> int \<Rightarrow> rat option" where
  "burn_rate s good samples =
    (let bad = fl (of_int (samples - good) / of_int samples); budget = fl (1 - slo_target_ratio s)
     in if 0 < budget then Some (fl (bad / budget)) else if bad \<noteq> 0 then None else Some 0)"

definition reaches :: "rat option \<Rightarrow> rat \<Rightarrow> bool" where
  "reaches rate threshold = (case rate of None \<Rightarrow> True | Some r \<Rightarrow> threshold \<le> r)"

definition evaluate_slo :: "operational_slo \<Rightarrow> int \<Rightarrow> int \<Rightarrow> slo_evaluation result" where
  "evaluate_slo s good samples =
    (if samples \<le> 0 \<or> good < 0 \<or> samples < good
     then Inl (ValueError ''SLO samples require 0 <= good <= total and total > 0'')
     else Inr \<lparr>sle_error_budget_fraction = fl (1 - slo_target_ratio s), sle_burn_rate = burn_rate s good samples,
       sle_page = reaches (burn_rate s good samples) (slo_page_burn_rate s),
       sle_ticket = reaches (burn_rate s good samples) (slo_ticket_burn_rate s)\<rparr>)"

end
