(* ===== verification/Security_Safety.thy ===== *)
theory Security_Safety
  imports Security Sample_Data
begin

text \<open>
  What the security components guarantee: an identity assertion is accepted at most once, over any replay store
  that keeps its claims and over the in-memory one; and exported audit lines do not depend on sensitive values.
\<close>

section \<open>Replay boundaries\<close>

text \<open>A replay store keeps a claim until it expires, and grants a key only when no unexpired claim holds it.\<close>

locale replay_claims =
  fixes claim :: "string \<Rightarrow> datetime \<Rightarrow> datetime \<Rightarrow> ('s, bool) prog" and invar :: "'s \<Rightarrow> bool"
    and live :: "'s \<Rightarrow> string \<Rightarrow> datetime \<Rightarrow> bool"
  assumes claim_invar: "invar s \<Longrightarrow> claim k e now s = (r, s') \<Longrightarrow> invar s'"
    and claim_keeps: "invar s \<Longrightarrow> claim k e now s = (r, s') \<Longrightarrow> live s k' e' \<Longrightarrow> now < e' \<Longrightarrow> live s' k' e'"
    and claim_granted: "invar s \<Longrightarrow> claim k e now s = (Inr True, s') \<Longrightarrow> live s' k e \<and> (\<forall>e'. live s k e' \<longrightarrow> e' \<le> now)"

text \<open>A history of verifications: each call with its authenticator's answers, credential, tenant and clock reading.\<close>

record verification_call =
  vc_authenticate :: identity_authenticator
  vc_credential :: string
  vc_tenant :: string
  vc_now :: datetime

definition verify_call ::
  "sha256_fn \<Rightarrow> (string \<Rightarrow> datetime \<Rightarrow> datetime \<Rightarrow> ('s, bool) prog) \<Rightarrow> workload_identity_policy \<Rightarrow> verification_call
    \<Rightarrow> ('s, workload_identity_assertion) prog" where
  "verify_call sha claim p c = verify_and_claim sha claim p (vc_authenticate c) (vc_credential c) (vc_tenant c) (vc_now c)"

fun verify_all ::
  "sha256_fn \<Rightarrow> (string \<Rightarrow> datetime \<Rightarrow> datetime \<Rightarrow> ('s, bool) prog) \<Rightarrow> workload_identity_policy \<Rightarrow> verification_call list
    \<Rightarrow> 's \<Rightarrow> workload_identity_assertion result list \<times> 's" where
  "verify_all sha claim p [] s = ([], s)"
| "verify_all sha claim p (c # cs) s = (case verify_call sha claim p c s of
     (r, u) \<Rightarrow> (case verify_all sha claim p cs u of (rs, t) \<Rightarrow> (r # rs, t)))"

text \<open>What identifies an assertion: its issuer, subject, tenant and nonce.\<close>

definition same_nonce :: "workload_identity_assertion \<Rightarrow> workload_identity_assertion \<Rightarrow> bool" where
  "same_nonce a b \<longleftrightarrow> wia_issuer a = wia_issuer b \<and> wia_subject a = wia_subject b \<and> wia_tenant_id a = wia_tenant_id b
    \<and> wia_nonce a = wia_nonce b \<and> wia_nonce a \<noteq> None"

context replay_claims begin

lemma verify_cases:
  assumes "verify_call sha claim p c s = (r, s')"
  obtains (untouched) "s' = s" "\<And>a n. r = Inr a \<Longrightarrow> wia_nonce a \<noteq> Some n"
    | (claimed) a n g where "wia_nonce a = Some n" "claim (replay_key sha a n) (wia_expires_at a + skew_of p) (vc_now c) s = (g, s')"
        "\<And>b. r = Inr b \<Longrightarrow> b = a \<and> g = Inr True"
proof (cases "\<exists>a n. vc_authenticate c (vc_credential c) (wip_issuer p) (wip_audience p) (vc_now c) = Inr a \<and> wia_nonce a = Some n
    \<and> \<not> is_blank (vc_credential c) \<and> check_assertion p (vc_tenant c) (vc_now c) a = Inr ()")
  case True
  then obtain a n where a: "vc_authenticate c (vc_credential c) (wip_issuer p) (wip_audience p) (vc_now c) = Inr a" "wia_nonce a = Some n"
    "\<not> is_blank (vc_credential c)" "check_assertion p (vc_tenant c) (vc_now c) a = Inr ()" by blast
  obtain g u where g: "claim (replay_key sha a n) (wia_expires_at a + skew_of p) (vc_now c) s = (g, u)" by (metis surj_pair)
  from assms have "s' = u \<and> (\<forall>b. r = Inr b \<longrightarrow> b = a \<and> g = Inr True)"
    by (auto simp: verify_call_def verify_and_claim_def bindE_pure raise_if_def a bindE_def g split: sum.splits if_splits)
  with g a(2) show thesis by (auto intro: claimed)
next
  case False
  have "s' = s \<and> (\<forall>a n. r = Inr a \<longrightarrow> wia_nonce a \<noteq> Some n)"
    using assms False by (auto simp: verify_call_def verify_and_claim_def bindE_pure raise_if_def split: sum.splits option.splits if_splits)
  then show thesis by (auto intro: untouched)
qed

lemma verify_invar: "invar s \<Longrightarrow> verify_call sha claim p c s = (r, s') \<Longrightarrow> invar s'"
  by (erule verify_cases) (auto intro: claim_invar)

lemma verify_keeps: "invar s \<Longrightarrow> verify_call sha claim p c s = (r, s') \<Longrightarrow> live s k e \<Longrightarrow> vc_now c < e \<Longrightarrow> live s' k e"
  by (erule verify_cases) (auto intro: claim_keeps)

lemma verify_granted:
  assumes "invar s" "verify_call sha claim p c s = (Inr a, s')" "wia_nonce a = Some n"
  shows "live s' (replay_key sha a n) (wia_expires_at a + skew_of p)" "live s (replay_key sha a n) e \<Longrightarrow> e \<le> vc_now c"
  using assms(2) by (cases rule: verify_cases; use assms(1,3) claim_granted in fastforce)+

lemma live_blocks:
  assumes "verify_all sha claim p cs s = (rs, t)" "invar s" "live s (replay_key sha b n) e" "j < length cs" "rs ! j = Inr b"
    "wia_nonce b = Some n" "sorted (map vc_now cs)"
  shows "e \<le> vc_now (cs ! j)"
  using assms
proof (induction cs arbitrary: s rs j)
  case (Cons c cs)
  obtain r u where r: "verify_call sha claim p c s = (r, u)" by (metis surj_pair)
  obtain rs' t' where rs': "verify_all sha claim p cs u = (rs', t')" by (metis surj_pair)
  with Cons.prems(1) r have rs: "rs = r # rs'" "t = t'" by auto
  show ?case
  proof (cases j)
    case 0
    with Cons.prems rs r show ?thesis using verify_granted(2) [of s sha p c b u n e] by simp
  next
    case (Suc i)
    show ?thesis
    proof (cases "vc_now c < e")
      case True
      from verify_keeps [OF Cons.prems(2) r Cons.prems(3) this] have "live u (replay_key sha b n) e" .
      from Cons.IH [OF rs'[folded rs(2)] verify_invar [OF Cons.prems(2) r] this] Cons.prems Suc rs show ?thesis by simp
    next
      case False
      moreover have "vc_now c \<le> vc_now ((c # cs) ! j)" using Cons.prems(4,7) Suc by auto
      ultimately show ?thesis by linarith
    qed
  qed
qed simp

lemma no_replay:
  assumes "verify_all sha claim p cs s = (rs, t)" "invar s" "i < j" "j < length cs" "rs ! i = Inr a" "rs ! j = Inr b"
    "same_nonce a b" "sorted (map vc_now cs)"
  shows "wia_expires_at a + skew_of p \<le> vc_now (cs ! j)"
  using assms
proof (induction cs arbitrary: s rs i j)
  case (Cons c cs)
  obtain r u where r: "verify_call sha claim p c s = (r, u)" by (metis surj_pair)
  obtain rs' t' where rs': "verify_all sha claim p cs u = (rs', t')" by (metis surj_pair)
  with Cons.prems(1) r have rs: "rs = r # rs'" "t = t'" by auto
  from Cons.prems(3) obtain j' where j: "j = Suc j'" by (cases j) auto
  note u = verify_invar [OF Cons.prems(2) r]
  show ?case
  proof (cases i)
    case 0
    from Cons.prems(7) obtain n where "wia_nonce a = Some n" by (cases "wia_nonce a") (auto simp: same_nonce_def)
    with Cons.prems(7) have n: "wia_nonce a = Some n" "wia_nonce b = Some n" "replay_key sha b n = replay_key sha a n"
      by (simp_all add: same_nonce_def replay_key_def)
    from 0 rs Cons.prems(5) r have "verify_call sha claim p c s = (Inr a, u)" by simp
    from verify_granted(1) [OF Cons.prems(2) this n(1)] n(3) have "live u (replay_key sha b n) (wia_expires_at a + skew_of p)" by simp
    from live_blocks [OF rs' u this _ _ n(2), of j'] Cons.prems j rs show ?thesis by simp
  next
    case (Suc i')
    from Cons.IH [OF rs'[folded rs(2)] u, of i' j'] Cons.prems j Suc rs show ?thesis by simp
  qed
qed simp

end

section \<open>The in-memory replay store\<close>

definition replay_invar :: "replay_store \<Rightarrow> bool" where
  "replay_invar s \<longleftrightarrow> sorted (rps_expirations s) \<and> distinct (map fst (rps_claims s))
    \<and> (\<forall>k e. map_of (rps_claims s) k = Some e \<longrightarrow> (e, k) \<in> set (rps_expirations s))"

lemma evict_replays_spec:
  assumes "evict_replays now heap claims = (heap', claims')" "distinct (map fst claims)" "sorted heap"
    "\<forall>k e. map_of claims k = Some e \<longrightarrow> (e, k) \<in> set heap"
  shows "sorted heap' \<and> distinct (map fst claims') \<and> (\<forall>k e. map_of claims' k = Some e \<longrightarrow> (e, k) \<in> set heap')
    \<and> (\<forall>k e. map_of claims k = Some e \<longrightarrow> now < e \<longrightarrow> map_of claims' k = Some e)
    \<and> (\<forall>k e. map_of claims' k = Some e \<longrightarrow> map_of claims k = Some e)"
  using assms
proof (induction now heap claims rule: evict_replays.induct)
  case (2 now e k heap claims)
  define c where "c = (if map_of claims k = Some e then AList.delete k claims else claims)"
  show ?case
  proof (cases "e \<le> now")
    case True
    have old: "map_of claims k' = Some e' \<and> (e', k') \<noteq> (e, k)" if "map_of c k' = Some e'" for k' e'
      using that by (cases "k' = k") (auto simp: c_def delete_conv' split: if_splits)
    have kept: "map_of c k' = Some e'" if "map_of claims k' = Some e'" "now < e'" for k' e'
      using that True by (auto simp: c_def delete_conv')
    have heap: "\<forall>k' e'. map_of c k' = Some e' \<longrightarrow> (e', k') \<in> set heap" using 2(5) old by fastforce
    have d: "distinct (map fst c)" using 2(3) by (simp add: c_def distinct_delete)
    have "evict_replays now heap c = (heap', claims')" using 2(2) True by (simp add: c_def)
    note IH = 2(1) [folded c_def, OF True this d _ heap]
    have "sorted heap" using 2(4) by simp
    from IH [OF this] show ?thesis using old kept by blast
  qed (use 2 in auto)
qed auto

lemma claim_once_run:
  assumes "claim_once k e now s = (r, s')" "replay_invar s"
  shows "\<exists>u. replay_invar u \<and> (\<forall>k e. map_of (rps_claims s) k = Some e \<longrightarrow> now < e \<longrightarrow> map_of (rps_claims u) k = Some e)
    \<and> (s' = u \<and> r \<noteq> Inr True \<or> r = Inr True \<and> map_of (rps_claims u) k = None
        \<and> s' = u\<lparr>rps_claims := AList.update k e (rps_claims u), rps_expirations := insort (e, k) (rps_expirations u)\<rparr>)"
proof -
  obtain heap claims where ev: "evict_replays now (rps_expirations s) (rps_claims s) = (heap, claims)" by (metis surj_pair)
  define u where "u = s\<lparr>rps_expirations := heap, rps_claims := claims\<rparr>"
  have "replay_invar u \<and> (\<forall>k e. map_of (rps_claims s) k = Some e \<longrightarrow> now < e \<longrightarrow> map_of (rps_claims u) k = Some e)"
    using evict_replays_spec [OF ev] assms(2) unfolding replay_invar_def u_def by simp
  moreover have "s' = u \<and> r \<noteq> Inr True \<or> r = Inr True \<and> map_of (rps_claims u) k = None
        \<and> s' = u\<lparr>rps_claims := AList.update k e (rps_claims u), rps_expirations := insort (e, k) (rps_expirations u)\<rparr>"
    using assms(1) unfolding claim_once_def evict_expired_replays_def bindE_def
    by (auto simp: ev u_def split: if_splits)
  ultimately show ?thesis by blast
qed

lemma replay_invar_insert:
  assumes "replay_invar u"
  shows "replay_invar (u\<lparr>rps_claims := AList.update k e (rps_claims u), rps_expirations := insort (e, k) (rps_expirations u)\<rparr>)"
  using assms by (auto simp: replay_invar_def update_conv' set_insort_key sorted_insort distinct_update split: if_splits)

interpretation replay: replay_claims claim_once replay_invar "\<lambda>s k e. map_of (rps_claims s) k = Some e"
proof
  fix s k e now r s'
  assume "replay_invar s" "claim_once k e now s = (r, s')"
  from claim_once_run [OF this(2,1)] show "replay_invar s'" by (auto intro: replay_invar_insert)
next
  fix s k e now r s' k' e'
  assume "replay_invar s" "claim_once k e now s = (r, s')" "map_of (rps_claims s) k' = Some e'" "now < e'"
  from claim_once_run [OF this(2,1)] this(3,4) show "map_of (rps_claims s') k' = Some e'" by (auto simp: update_conv')
next
  fix s k e now s'
  assume "replay_invar s" "claim_once k e now s = (Inr True, s')"
  from claim_once_run [OF this(2,1)] show "map_of (rps_claims s') k = Some e \<and> (\<forall>e'. map_of (rps_claims s) k = Some e' \<longrightarrow> e' \<le> now)"
    by (force simp: update_conv')
qed

lemma verify_all_nth:
  assumes "verify_all sha claim p cs s = (rs, t)" "j < length cs"
  shows "\<exists>u u'. verify_call sha claim p (cs ! j) u = (rs ! j, u')"
  using assms
proof (induction cs arbitrary: s rs j)
  case (Cons c cs)
  obtain r u where r: "verify_call sha claim p c s = (r, u)" by (metis surj_pair)
  obtain rs' t' where rs': "verify_all sha claim p cs u = (rs', t')" by (metis surj_pair)
  with Cons.prems(1) r have rs: "rs = r # rs'" "t = t'" by auto
  show ?case
  proof (cases j)
    case 0
    with r rs show ?thesis by auto
  next
    case (Suc i)
    with Cons.IH [OF rs'[folded rs(2)], of i] Cons.prems(2) rs show ?thesis by auto
  qed
qed simp

lemma accepted_checked:
  assumes "verify_call sha claim p c s = (Inr a, s')"
  shows "check_assertion p (vc_tenant c) (vc_now c) a = Inr ()"
  using assms by (auto simp: verify_call_def verify_and_claim_def bindE_pure bindE_def split: sum.splits option.splits prod.splits)

lemma checked_window:
  assumes "check_assertion p tenant now a = Inr ()"
  shows "wia_tenant_id a = tenant" "wia_audience a = wip_audience p" "now - skew_of p < wia_expires_at a" "wia_issued_at a \<le> now + skew_of p"
    "assertion_lifetime a \<le> wip_max_assertion_lifetime_seconds p * 1000000" "wip_require_nonce p \<Longrightarrow> wia_nonce a \<noteq> None"
    "list_ex (\<lambda>prefix. starts_with prefix (wia_subject a)) (wip_subject_prefixes p)"
  using assms by (auto simp: check_assertion_def split: if_splits)

text \<open>
  C27: A workload identity is accepted once. In any history of verifications at non-decreasing times, by whatever the authenticators
  answer, over the in-memory replay store from its creation, every accepted assertion is for the caller's tenant and the policy's
  audience and within its validity window; and a second acceptance of the same issuer, subject, tenant and nonce comes only after
  the first assertion has expired beyond the clock skew, so no assertion is accepted twice.
\<close>

theorem identity_no_replay:
  assumes store: "new_replay_store n = Inr s" and run: "verify_all sha claim_once p cs s = (rs, t)" and clock: "sorted (map vc_now cs)"
    and calls: "i < j" "j < length cs" and accepted: "rs ! i = Inr a" "rs ! j = Inr b" and same: "same_nonce a b"
  shows "wia_expires_at a + skew_of p \<le> vc_now (cs ! j) \<and> a \<noteq> b
    \<and> wia_tenant_id b = vc_tenant (cs ! j) \<and> wia_audience b = wip_audience p
    \<and> vc_now (cs ! j) < wia_expires_at b + skew_of p \<and> wia_issued_at b \<le> vc_now (cs ! j) + skew_of p"
proof -
  from store have "replay_invar s" by (auto simp: new_replay_store_def replay_invar_def split: if_splits)
  from replay.no_replay [OF run this calls accepted same clock] have e: "wia_expires_at a + skew_of p \<le> vc_now (cs ! j)" .
  from verify_all_nth [OF run calls(2)] accepted(2) obtain u u' where "verify_call sha claim_once p (cs ! j) u = (Inr b, u')" by auto
  note w = checked_window [OF accepted_checked [OF this]]
  show ?thesis using e w(1-4) by auto
qed

section \<open>Redaction hides what it must\<close>

definition same_public :: "security_audit_event \<Rightarrow> security_audit_event \<Rightarrow> bool" where
  "same_public ev ev' \<longleftrightarrow> ev' = ev\<lparr>sae_attributes := sae_attributes ev'\<rparr>
    \<and> list_all2 (\<lambda>kv kv'. fst kv = fst kv' \<and> (\<not> sensitive (fst kv) \<longrightarrow> snd kv = snd kv')) (sae_attributes ev) (sae_attributes ev')"

lemma redaction_agrees:
  assumes "list_all2 (\<lambda>kv kv'. fst kv = fst kv' \<and> (\<not> sensitive (fst kv) \<longrightarrow> snd kv = snd kv')) kvs kvs'"
  shows "redact_security_attributes (map (\<lambda>(k, v). (k, PStr v)) kvs) = redact_security_attributes (map (\<lambda>(k, v). (k, PStr v)) kvs')"
  using assms
proof (induction rule: list_all2_induct)
  case (Cons kv kvs kv' kvs')
  then have "redact_attribute (fst kv, PStr (snd kv)) = redact_attribute (fst kv', PStr (snd kv'))"
    by (auto simp: redact_attribute_def)
  with Cons show ?case by (simp add: redact_security_attributes_def case_prod_unfold)
qed simp

lemma export_line_agrees:
  assumes "same_public ev ev'"
  shows "export_line ev = export_line ev'"
proof -
  obtain kvs' where ev': "ev' = ev\<lparr>sae_attributes := kvs'\<rparr>" using assms [unfolded same_public_def] by blast
  have payload: "with_attributes (json_mode (dump_security_audit_event ev)) x = with_attributes (json_mode (dump_security_audit_event ev')) x" for x
    by (simp add: ev' with_attributes_def dump_security_audit_event_def dump_dict_def)
  have attributes: "redact_security_attributes (map (\<lambda>(k, v). (k, PStr v)) (sae_attributes ev))
      = redact_security_attributes (map (\<lambda>(k, v). (k, PStr v)) (sae_attributes ev'))"
    by (rule redaction_agrees) (rule assms [unfolded same_public_def, THEN conjunct2])
  show ?thesis by (simp only: export_line_def payload attributes)
qed

text \<open>
  C29: Exported audit lines hide sensitive values. Two sequences of audit events that differ only in the values of attributes with
  credential-like keys are exported alike: the exporter makes the same calls of its callback with the same lines and ends in
  the same state, or raises the same error; and every line keeps the keys of its event's attributes.
\<close>

theorem redaction_hides:
  assumes "list_all2 same_public events events'"
  shows "export_events emit events w = export_events emit events' w
    \<and> (\<forall>kvs out. redact_security_attributes kvs = Inr out \<longrightarrow> map fst out = map fst kvs
        \<and> (\<forall>k v. (k, v) \<in> set out \<longrightarrow> sensitive k \<longrightarrow> v = ''[REDACTED]''))"
proof (intro conjI allI impI)
  have "run_all (\<lambda>ev. bindE (lift_result (export_line ev)) emit) events = run_all (\<lambda>ev. bindE (lift_result (export_line ev)) emit) events'"
    using assms by (induction rule: list_all2_induct) (simp_all add: export_line_agrees)
  then show "export_events emit events w = export_events emit events' w" by (simp add: export_events_def)
next
  fix kvs out
  assume out: "redact_security_attributes kvs = Inr out"
  have one: "fst y = fst x \<and> (sensitive (fst y) \<longrightarrow> snd y = ''[REDACTED]'')" if "redact_attribute x = Inr y" for x y
    using that by (auto simp: redact_attribute_def split: if_splits)
  from out have l: "list_all2 (\<lambda>x y. redact_attribute x = Inr y) kvs out" by (simp add: redact_security_attributes_def rmap_eq_Inr)
  then show "map fst out = map fst kvs" by (induction rule: list_all2_induct) (simp_all add: one)
  fix k v
  assume kv: "(k, v) \<in> set out" "sensitive k"
  from l kv(1) obtain x where "redact_attribute x = Inr (k, v)" by (induction rule: list_all2_induct) auto
  with one [OF this] kv(2) show "v = ''[REDACTED]''" by simp
qed

section \<open>Concrete calls\<close>

definition sec_policy :: workload_identity_policy where
  "sec_policy = \<lparr>wip_schema_name = ''prodkit.workload-identity-policy'', wip_schema_version = ''1.0.0'', wip_issuer = ''https://id'',
     wip_audience = ''prodkit'', wip_subject_prefixes = [''agent:''], wip_allowed_client_ids = [], wip_max_assertion_lifetime_seconds = 300,
     wip_clock_skew_seconds = 30, wip_require_not_before = False, wip_require_nonce = True\<rparr>"

definition sec_assertion :: "datetime \<Rightarrow> workload_identity_assertion" where
  "sec_assertion issued = \<lparr>wia_schema_name = ''prodkit.workload-identity-assertion'', wia_schema_version = ''1.0.0'', wia_issuer = ''https://id'',
     wia_subject = ''agent:7'', wia_audience = ''prodkit'', wia_tenant_id = ''acme'', wia_issued_at = issued, wia_expires_at = issued + 1000,
     wia_not_before = None, wia_nonce = Some ''n'', wia_client_id = None\<rparr>"

definition sec_call :: "datetime \<Rightarrow> verification_call" where
  "sec_call now = \<lparr>vc_authenticate = (\<lambda>_ _ _ t. Inr (sec_assertion t)), vc_credential = ''c'', vc_tenant = ''acme'', vc_now = now\<rparr>"

definition sec_store :: replay_store where
  "sec_store = \<lparr>rps_max_entries = 5, rps_claims = [], rps_expirations = []\<rparr>"

lemma sec_checked: "check_assertion sec_policy ''acme'' now (sec_assertion now) = Inr ()"
  by (simp add: check_assertion_def sec_policy_def sec_assertion_def starts_with_def assertion_lifetime_def skew_of_def)

lemma sec_accepts:
  assumes "claim_once (replay_key zero_hash (sec_assertion now) ''n'') (now + 30001000) now s = (Inr True, s')"
  shows "verify_call zero_hash claim_once sec_policy (sec_call now) s = (Inr (sec_assertion now), s')"
proof -
  have e: "wia_expires_at (sec_assertion now) + skew_of sec_policy = now + 30001000" "wia_nonce (sec_assertion now) = Some ''n''"
    by (simp_all add: sec_assertion_def skew_of_def sec_policy_def)
  show ?thesis using assms
    by (simp add: verify_call_def verify_and_claim_def sec_call_def bindE_pure raise_if_def sec_checked e bindE_def is_blank_def strip_def py_isspace_def)
qed

lemma sec_history:
  "\<exists>t. verify_all zero_hash claim_once sec_policy [sec_call 0, sec_call 40000000] sec_store
    = ([Inr (sec_assertion 0), Inr (sec_assertion 40000000)], t)"
proof -
  let ?k = "replay_key zero_hash (sec_assertion 0) ''n''"
  have k: "replay_key zero_hash (sec_assertion 40000000) ''n'' = ?k" by (simp add: replay_key_def sec_assertion_def)
  let ?u = "\<lparr>rps_max_entries = 5, rps_claims = [(?k, 30001000)], rps_expirations = [(30001000, ?k)]\<rparr>"
  have "claim_once ?k (0 + 30001000) 0 sec_store = (Inr True, ?u)"
    by (simp add: claim_once_def evict_expired_replays_def bindE_def sec_store_def)
  from sec_accepts [OF this] have one: "verify_call zero_hash claim_once sec_policy (sec_call 0) sec_store = (Inr (sec_assertion 0), ?u)" .
  let ?v = "\<lparr>rps_max_entries = 5, rps_claims = [(?k, 70001000)], rps_expirations = [(70001000, ?k)]\<rparr>"
  have "claim_once (replay_key zero_hash (sec_assertion 40000000) ''n'') (40000000 + 30001000) 40000000 ?u = (Inr True, ?v)"
    by (simp add: k claim_once_def evict_expired_replays_def bindE_def)
  from sec_accepts [OF this] one show ?thesis by simp
qed

theorem identity_no_replay_witness:
  "wia_expires_at (sec_assertion 0) + skew_of sec_policy \<le> 40000000"
proof -
  from sec_history obtain t where
    run: "verify_all zero_hash claim_once sec_policy [sec_call 0, sec_call 40000000] sec_store = ([Inr (sec_assertion 0), Inr (sec_assertion 40000000)], t)"
    by blast
  have "new_replay_store 5 = Inr sec_store" by (simp add: new_replay_store_def sec_store_def)
  from identity_no_replay [OF this run, of 0 1 "sec_assertion 0" "sec_assertion 40000000"] show ?thesis
    by (simp add: sec_call_def same_nonce_def sec_assertion_def)
qed

definition sec_event :: "string \<Rightarrow> security_audit_event" where
  "sec_event password = \<lparr>sae_schema_name = ''prodkit.security-audit-event'', sae_schema_version = ''1.0.0'', sae_event_id = ''e1'',
     sae_occurred_at = 0, sae_event_type = ''login'', sae_severity = SecSev_HIGH, sae_outcome = SecOut_DENIED, sae_tenant_id = Some ''acme'',
     sae_principal_id = None, sae_action_id = None, sae_request_id = None,
     sae_attributes = [(''User-Password'', password), (''host'', ''h1'')]\<rparr>"

theorem redaction_hides_witness:
  "export_events (\<lambda>l w. (Inr (), w @ [l])) [sec_event ''one''] [] = export_events (\<lambda>l w. (Inr (), w @ [l])) [sec_event ''two''] []"
proof -
  have "sensitive ''User-Password''" by code_simp
  then have "same_public (sec_event ''one'') (sec_event ''two'')" unfolding same_public_def sec_event_def by simp
  then have "list_all2 same_public [sec_event ''one''] [sec_event ''two'']" by (simp only: list_all2_Cons list_all2_Nil simp_thms)
  then show ?thesis by (rule redaction_hides [THEN conjunct1])
qed

end
