(* ===== verification/Rate_Limiter.thy ===== *)
theory Rate_Limiter
  imports Security_Contracts Binary64 "HOL-Library.Product_Lexorder" "HOL-Library.List_Lexorder" "HOL-Library.Char_ord"
begin

text \<open>
  \<open>SlidingWindowRateLimiter\<close> of the runtime's \<open>security.py\<close>: buckets of accepted times per key with a lazily cleaned
  heap of their expirations, the termination of its eviction loop, and the sliding window over all accepted
  times that it implements. A \<open>heapq\<close> is a sorted list (its least entry is the head, \<open>heappush\<close> is \<open>insort\<close>).
  Readings of the monotonic clock are finite floats, and every sum and difference of the code is rounded by \<open>fl\<close>.
\<close>

section \<open>The limiter\<close>

record rate_limit_decision =
  rld_allowed :: bool
  rld_remaining :: int
  rld_retry_after_seconds :: int

record limiter =
  lim_entries :: "(string \<times> rat list) list"
  lim_expirations :: "(rat \<times> string \<times> rat) list"

definition new_limiter :: limiter where
  "new_limiter = \<lparr>lim_entries = [], lim_expirations = []\<rparr>"

definition window :: "rate_limit_policy \<Rightarrow> rat" where
  "window p = of_int (rlp_window_seconds p)"

definition capacity :: "rate_limit_policy \<Rightarrow> int" where
  "capacity p = rlp_limit p + rlp_burst p"

definition schedule_expiration :: "rat \<Rightarrow> string \<Rightarrow> rat list \<Rightarrow> limiter \<Rightarrow> limiter" where
  "schedule_expiration w key events s = (case events of
     [] \<Rightarrow> s | first # _ \<Rightarrow> s\<lparr>lim_expirations := insort (fl (first + w), key, first) (lim_expirations s)\<rparr>)"

definition prune_bucket :: "rat \<Rightarrow> string \<Rightarrow> rat list \<Rightarrow> rat \<Rightarrow> limiter \<Rightarrow> rat list option \<times> limiter" where
  "prune_bucket w key events cutoff s =
    (let kept = dropWhile (\<lambda>t. t \<le> cutoff) events
     in if kept = [] then (None, s\<lparr>lim_entries := AList.delete key (lim_entries s)\<rparr>)
        else let u = s\<lparr>lim_entries := AList.update key kept (lim_entries s)\<rparr>
          in (Some kept, if hd kept \<noteq> hd events then schedule_expiration w key kept u else u))"

text \<open>\<open>_next_valid_expiration\<close>: the first entry of the heap that is up to date, and the heap from it on.\<close>

fun next_valid :: "(string \<times> rat list) list \<Rightarrow> (rat \<times> string \<times> rat) list \<Rightarrow> rat option \<times> (rat \<times> string \<times> rat) list" where
  "next_valid entries [] = (None, [])"
| "next_valid entries ((expires_at, key, first) # heap) =
    (case map_of entries key of
       Some (x # xs) \<Rightarrow> if x = first then (Some expires_at, (expires_at, key, first) # heap) else next_valid entries heap
     | _ \<Rightarrow> next_valid entries heap)"

text \<open>The loop of \<open>_evict_expired\<close>; that it returns is proved below.\<close>

partial_function (option) evict_expired :: "rat \<Rightarrow> rat \<Rightarrow> rat \<Rightarrow> limiter \<Rightarrow> limiter option" where
  "evict_expired w now cutoff s =
    (case next_valid (lim_entries s) (lim_expirations s) of
       (None, heap) \<Rightarrow> Some (s\<lparr>lim_expirations := heap\<rparr>)
     | (Some expires_at, heap) \<Rightarrow>
         if now < expires_at then Some (s\<lparr>lim_expirations := heap\<rparr>)
         else case heap of
           [] \<Rightarrow> Some (s\<lparr>lim_expirations := heap\<rparr>)
         | (_, key, first) # rest \<Rightarrow>
             (case map_of (lim_entries s) key of
                Some (x # xs) \<Rightarrow>
                  if x \<noteq> first then evict_expired w now cutoff (s\<lparr>lim_expirations := rest\<rparr>)
                  else evict_expired w now cutoff (snd (prune_bucket w key (x # xs) cutoff (s\<lparr>lim_expirations := rest\<rparr>)))
              | _ \<Rightarrow> evict_expired w now cutoff (s\<lparr>lim_expirations := rest\<rparr>)))"

text \<open>\<open>max(1, int(r + 0.999))\<close>, where \<open>r\<close> is a difference of floats; \<open>int\<close> truncates.\<close>

definition py_int :: "rat \<Rightarrow> int" where
  "py_int r = (if 0 \<le> r then \<lfloor>r\<rfloor> else - \<lfloor>- r\<rfloor>)"

definition retry_after :: "rat \<Rightarrow> int" where
  "retry_after r = max 1 (py_int (fl (r + fl (999 / 1000))))"

definition deny_decision :: "int \<Rightarrow> rate_limit_decision" where
  "deny_decision retry = \<lparr>rld_allowed = False, rld_remaining = 0, rld_retry_after_seconds = retry\<rparr>"

definition allow_decision :: "int \<Rightarrow> rate_limit_decision" where
  "allow_decision remaining = \<lparr>rld_allowed = True, rld_remaining = remaining, rld_retry_after_seconds = 0\<rparr>"

definition current_bucket :: "rat \<Rightarrow> string \<Rightarrow> rat \<Rightarrow> limiter \<Rightarrow> rat list option \<times> limiter" where
  "current_bucket w key cutoff s = (case map_of (lim_entries s) key of
     None \<Rightarrow> (None, s) | Some events \<Rightarrow> prune_bucket w key events cutoff s)"

definition admit :: "rate_limit_policy \<Rightarrow> string \<Rightarrow> rat \<Rightarrow> rat list \<Rightarrow> limiter \<Rightarrow> rate_limit_decision \<times> limiter" where
  "admit p key now events s =
    (if capacity p \<le> int (length events)
     then (deny_decision (retry_after (fl (fl (hd events + window p) - now))), s)
     else let events' = events @ [now]; u = s\<lparr>lim_entries := AList.update key events' (lim_entries s)\<rparr>
       in (allow_decision (capacity p - int (length events')),
           if length events' = 1 then schedule_expiration (window p) key events' u else u))"

definition check_evicted :: "rate_limit_policy \<Rightarrow> string \<Rightarrow> rat \<Rightarrow> limiter \<Rightarrow> rate_limit_decision \<times> limiter" where
  "check_evicted p key now s =
    (case current_bucket (window p) key (fl (now - window p)) s of
       (Some events, u) \<Rightarrow> admit p key now events u
     | (None, u) \<Rightarrow>
         if rlp_max_keys p \<le> int (length (lim_entries u))
         then (case next_valid (lim_entries u) (lim_expirations u) of
                 (None, heap) \<Rightarrow> (deny_decision (rlp_window_seconds p), u\<lparr>lim_expirations := heap\<rparr>)
               | (Some expires_at, heap) \<Rightarrow> (deny_decision (retry_after (fl (expires_at - now))), u\<lparr>lim_expirations := heap\<rparr>))
         else admit p key now [] u)"

definition check :: "rate_limit_policy \<Rightarrow> string \<Rightarrow> rat \<Rightarrow> limiter \<Rightarrow> (rate_limit_decision result \<times> limiter) option" where
  "check p key now s =
    (if is_blank key then Some (Inl (ValueError ''rate-limit key must be non-empty''), s)
     else case evict_expired (window p) now (fl (now - window p)) s of
       None \<Rightarrow> None
     | Some u \<Rightarrow> (case check_evicted p key now u of (d, v) \<Rightarrow> Some (Inr d, v)))"

text \<open>A history of checks, each with its key and clock reading.\<close>

fun check_all :: "rate_limit_policy \<Rightarrow> (string \<times> rat) list \<Rightarrow> limiter \<Rightarrow> rate_limit_decision result list option" where
  "check_all p [] s = Some []"
| "check_all p ((key, now) # calls) s = (case check p key now s of
     None \<Rightarrow> None | Some (d, u) \<Rightarrow> map_option (\<lambda>ds. d # ds) (check_all p calls u))"

section \<open>Termination\<close>

text \<open>Every round of the loop pops an expiration; a bucket that loses events may push one back.\<close>

definition stored_calls :: "(string \<times> rat list) list \<Rightarrow> nat" where
  "stored_calls entries = sum_list (map (\<lambda>b. length (snd b)) entries)"

definition work :: "limiter \<Rightarrow> nat" where
  "work s = 2 * stored_calls (lim_entries s) + length (lim_expirations s)"

lemma stored_calls_update: "map_of al k = Some ev \<Longrightarrow> stored_calls (AList.update k kept al) + length ev = stored_calls al + length kept"
  by (induction al) (auto simp: stored_calls_def)

lemma stored_calls_delete: "stored_calls (AList.delete k al) \<le> stored_calls al"
  by (induction al) (auto simp: stored_calls_def)

lemma next_valid_suffix: "next_valid entries heap = (r, heap') \<Longrightarrow> length heap' \<le> length heap"
  by (induction entries heap rule: next_valid.induct) (fastforce split: option.splits list.splits if_splits)+

lemma next_valid_head:
  "next_valid entries heap = (Some e, heap') \<Longrightarrow> \<exists>k f rest xs. heap' = (e, k, f) # rest \<and> map_of entries k = Some (f # xs)"
  by (induction entries heap rule: next_valid.induct) (auto split: option.splits list.splits if_splits)

lemma prune_work:
  assumes "map_of (lim_entries s) k = Some ev"
  shows "work (snd (prune_bucket w k ev cutoff s)) \<le> work s"
proof -
  let ?kept = "dropWhile (\<lambda>t. t \<le> cutoff) ev"
  show ?thesis
  proof (cases "?kept = []")
    case True
    then show ?thesis using stored_calls_delete [of k "lim_entries s"] by (simp add: prune_bucket_def work_def)
  next
    case False
    then have s: "stored_calls (AList.update k ?kept (lim_entries s)) + length ev = stored_calls (lim_entries s) + length ?kept"
      using stored_calls_update [OF assms] by blast
    have le: "length ?kept \<le> length ev" by (rule length_dropWhile_le)
    have "length ?kept < length ev" if "hd ?kept \<noteq> hd ev"
      using that le by (cases ev) (auto simp: less_Suc_eq_le length_dropWhile_le split: if_splits)
    with s le False show ?thesis
      by (auto simp: prune_bucket_def work_def Let_def schedule_expiration_def split: list.splits)
  qed
qed

text \<open>One round of the loop, if there is one.\<close>

lemma evict_round:
  obtains (stop) heap where "next_valid (lim_entries s) (lim_expirations s) = (None, heap)" "evict_expired w now cutoff s = Some (s\<lparr>lim_expirations := heap\<rparr>)"
    | (later) e heap where "next_valid (lim_entries s) (lim_expirations s) = (Some e, heap)" "now < e"
        "evict_expired w now cutoff s = Some (s\<lparr>lim_expirations := heap\<rparr>)"
    | (due) e k f xs rest where "next_valid (lim_entries s) (lim_expirations s) = (Some e, (e, k, f) # rest)" "e \<le> now"
        "map_of (lim_entries s) k = Some (f # xs)"
        "evict_expired w now cutoff s = evict_expired w now cutoff (snd (prune_bucket w k (f # xs) cutoff (s\<lparr>lim_expirations := rest\<rparr>)))"
        "work (snd (prune_bucket w k (f # xs) cutoff (s\<lparr>lim_expirations := rest\<rparr>))) < work s"
proof (cases "next_valid (lim_entries s) (lim_expirations s)")
  case (Pair r heap)
  show thesis
  proof (cases r)
    case None
    with Pair stop show ?thesis by (simp add: evict_expired.simps)
  next
    case (Some e)
    from next_valid_head [OF Pair [unfolded Some]] obtain k f rest xs where
      h: "heap = (e, k, f) # rest" "map_of (lim_entries s) k = Some (f # xs)" by blast
    show ?thesis
    proof (cases "now < e")
      case True
      with Pair Some later show ?thesis by (simp add: evict_expired.simps)
    next
      case False
      let ?u = "snd (prune_bucket w k (f # xs) cutoff (s\<lparr>lim_expirations := rest\<rparr>))"
      have "work ?u < work s"
        using next_valid_suffix [OF Pair] h prune_work [of "s\<lparr>lim_expirations := rest\<rparr>" k "f # xs" w cutoff] by (simp add: work_def)
      moreover have "evict_expired w now cutoff s = evict_expired w now cutoff ?u"
        using Pair Some False h by (subst evict_expired.simps) simp
      ultimately show ?thesis using due Pair Some h False by simp
    qed
  qed
qed

lemma evict_returns: "\<exists>u. evict_expired w now cutoff s = Some u"
proof (induction "work s" arbitrary: s rule: less_induct)
  case less
  show ?case by (rule evict_round [of s w now cutoff]) (use less in auto)
qed

text \<open>What prunes and new heaps keep, the loop keeps.\<close>

lemma evict_keeps:
  assumes "evict_expired w now cutoff s = Some u" "P s"
    and prune: "\<And>s k ev heap. P s \<Longrightarrow> map_of (lim_entries s) k = Some ev \<Longrightarrow> P (snd (prune_bucket w k ev cutoff (s\<lparr>lim_expirations := heap\<rparr>)))"
    and heap: "\<And>s heap. P s \<Longrightarrow> P (s\<lparr>lim_expirations := heap\<rparr>)"
  shows "P u"
  using assms(1,2)
proof (induction "work s" arbitrary: s rule: less_induct)
  case less
  show ?case
    by (rule evict_round [of s w now cutoff]) (use less prune heap in auto)
qed

lemma check_returns: "\<exists>r u. check p key now s = Some (r, u)"
  using evict_returns [of "window p" now "fl (now - window p)" s] by (auto simp: check_def split: prod.splits)

lemma check_all_returns: "\<exists>ds. check_all p calls s = Some ds"
proof (induction calls arbitrary: s)
  case (Cons c calls)
  obtain r u where "check p (fst c) (snd c) s = Some (r, u)" using check_returns by blast
  with Cons [of u] show ?case by (cases c) auto
qed simp

text \<open>
  C30: A rate-limit check always returns. From every state of the limiter, whatever its heap holds and whatever the clock reads, the
  eviction loop ends, so that every check decides or raises, and so does every history of checks.
\<close>

theorem limiter_terminates:
  "(\<exists>r u. check p key now s = Some (r, u)) \<and> (\<exists>ds. check_all p calls s = Some ds)"
  using check_returns check_all_returns by blast

section \<open>The sliding window it implements\<close>

text \<open>
  The reference keeps every accepted call, in order, and looks at those of the last window, those later than \<open>now - window\<close> as the
  code computes it.
\<close>

type_synonym call_log = "(string \<times> rat) list"

definition recent :: "rate_limit_policy \<Rightarrow> rat \<Rightarrow> call_log \<Rightarrow> call_log" where
  "recent p now calls = filter (\<lambda>c. fl (now - window p) < snd c) calls"

definition times_of :: "string \<Rightarrow> call_log \<Rightarrow> rat list" where
  "times_of key calls = map snd (filter (\<lambda>c. fst c = key) calls)"

definition seconds_left :: "rate_limit_policy \<Rightarrow> rat \<Rightarrow> rat \<Rightarrow> int" where
  "seconds_left p first now = retry_after (fl (fl (first + window p) - now))"

definition window_check :: "rate_limit_policy \<Rightarrow> call_log \<Rightarrow> string \<Rightarrow> rat \<Rightarrow> rate_limit_decision" where
  "window_check p calls key now =
    (let live = recent p now calls; mine = times_of key live
     in if mine = [] \<and> rlp_max_keys p \<le> int (length (remdups (map fst live)))
        then deny_decision (seconds_left p (snd (hd live)) now)
        else if capacity p \<le> int (length mine) then deny_decision (seconds_left p (hd mine) now)
        else allow_decision (capacity p - int (length mine) - 1))"

fun window_all :: "rate_limit_policy \<Rightarrow> (string \<times> rat) list \<Rightarrow> call_log \<Rightarrow> rate_limit_decision result list" where
  "window_all p [] calls = []"
| "window_all p ((key, now) # rest) calls =
    (if is_blank key then Inl (ValueError ''rate-limit key must be non-empty'') # window_all p rest calls
     else Inr (window_check p calls key now)
       # window_all p rest (if rld_allowed (window_check p calls key now) then calls @ [(key, now)] else calls))"

text \<open>
  What holds of the decisions whatever the rounding: against the window over the calls that were in fact accepted, an allowed call is
  one the window allows, with the capacity it has left, and a key with a live call gets exactly the decision of the
  window. Only a key without a live call can be denied in disagreement with it.
\<close>

definition agrees :: "rate_limit_policy \<Rightarrow> call_log \<Rightarrow> string \<Rightarrow> rat \<Rightarrow> rate_limit_decision \<Rightarrow> bool" where
  "agrees p calls key now d \<longleftrightarrow>
    (rld_allowed d \<or> times_of key (recent p now calls) \<noteq> [] \<longrightarrow> d = window_check p calls key now)"

fun within_window :: "rate_limit_policy \<Rightarrow> (string \<times> rat) list \<Rightarrow> rate_limit_decision result list \<Rightarrow> call_log \<Rightarrow> bool" where
  "within_window p ((key, now) # rest) (Inl x # ds) calls =
    (is_blank key \<and> x = ValueError ''rate-limit key must be non-empty'' \<and> within_window p rest ds calls)"
| "within_window p ((key, now) # rest) (Inr d # ds) calls =
    (\<not> is_blank key \<and> agrees p calls key now d \<and> within_window p rest ds (if rld_allowed d then calls @ [(key, now)] else calls))"
| "within_window p [] [] calls = True"
| "within_window p _ _ calls = False"

text \<open>The two roundings of the code agree on which times have left the window: \<open>first + window \<le> now\<close> and \<open>first \<le> now - window\<close>.\<close>

definition roundings_agree :: "rate_limit_policy \<Rightarrow> rat list \<Rightarrow> bool" where
  "roundings_agree p ts \<longleftrightarrow> (\<forall>first \<in> set ts. \<forall>now \<in> set ts. fl (first + window p) \<le> now \<longleftrightarrow> first \<le> fl (now - window p))"

lemma exact_agree: "\<forall>t \<in> set ts. fl (t + window p) = t + window p \<and> fl (t - window p) = t - window p \<Longrightarrow> roundings_agree p ts"
  by (auto simp: roundings_agree_def)

definition bucket :: "limiter \<Rightarrow> string \<Rightarrow> rat list" where
  "bucket s key = (case map_of (lim_entries s) key of None \<Rightarrow> [] | Some events \<Rightarrow> events)"

lemma sorted_drop_filter: "sorted xs \<Longrightarrow> dropWhile (\<lambda>x. x \<le> c) xs = filter (\<lambda>x. c < x) (xs :: 'a :: linorder list)"
proof (induction xs)
  case (Cons x xs)
  show ?case
  proof (cases "x \<le> c")
    case False
    with Cons.prems have "\<forall>y \<in> set (x # xs). c < y" by auto
    with False show ?thesis by simp
  qed (use Cons in auto)
qed simp

lemma times_of_append [simp]: "times_of k (xs @ ys) = times_of k xs @ times_of k ys"
  by (simp add: times_of_def)

lemma times_of_one [simp]: "times_of k [(k', t)] = (if k' = k then [t] else [])"
  by (simp add: times_of_def)

lemma times_recent: "times_of k (recent p now calls) = filter (\<lambda>x. fl (now - window p) < x) (times_of k calls)"
  by (induction calls) (auto simp: times_of_def recent_def)

lemma sorted_times: "sorted (map snd calls) \<Longrightarrow> sorted (times_of k calls)"
  by (simp add: times_of_def sorted_filter)

lemma times_in: "set (times_of k calls) \<subseteq> set (map snd calls)"
  by (auto simp: times_of_def)

lemma bucket_SomeI: "map_of (lim_entries s) k = Some ev \<Longrightarrow> bucket s k = ev"
  by (simp add: bucket_def)

lemma bucket_heap [simp]: "bucket (s\<lparr>lim_expirations := h\<rparr>) k = bucket s k"
  by (simp add: bucket_def)

subsection \<open>Buckets under any rounding\<close>

text \<open>
  The buckets against the log of accepted calls: a bucket may still hold times that have left the window, but what is gone from it
  has left the window.
\<close>

definition well_keyed :: "limiter \<Rightarrow> bool" where
  "well_keyed s \<longleftrightarrow> distinct (map fst (lim_entries s)) \<and> (\<forall>k ev. map_of (lim_entries s) k = Some ev \<longrightarrow> ev \<noteq> [])"

definition follows :: "rate_limit_policy \<Rightarrow> call_log \<Rightarrow> limiter \<Rightarrow> rat \<Rightarrow> bool" where
  "follows p calls s t \<longleftrightarrow> well_keyed s \<and> sorted (map snd calls) \<and> (\<forall>c \<in> set calls. snd c \<le> t)
    \<and> (\<forall>k. \<exists>gone. times_of k calls = gone @ bucket s k \<and> (\<forall>x \<in> set gone. x \<le> fl (t - window p)))"

lemma well_keyed_heap [simp]: "well_keyed (s\<lparr>lim_expirations := h\<rparr>) = well_keyed s"
  by (simp add: well_keyed_def)

lemma follows_heap [simp]: "follows p calls (s\<lparr>lim_expirations := h\<rparr>) t = follows p calls s t"
  by (simp add: follows_def)

lemma prune_buckets:
  assumes "well_keyed s" "map_of (lim_entries s) k = Some ev"
  shows "well_keyed (snd (prune_bucket w k ev cutoff s))"
    "bucket (snd (prune_bucket w k ev cutoff s)) k' = (if k' = k then dropWhile (\<lambda>t. t \<le> cutoff) ev else bucket s k')"
    "fst (prune_bucket w k ev cutoff s) = (let kept = dropWhile (\<lambda>t. t \<le> cutoff) ev in if kept = [] then None else Some kept)"
proof -
  let ?kept = "dropWhile (\<lambda>t. t \<le> cutoff) ev" and ?u = "snd (prune_bucket w k ev cutoff s)"
  have e: "lim_entries ?u = (if ?kept = [] then AList.delete k (lim_entries s) else AList.update k ?kept (lim_entries s))"
    by (simp add: prune_bucket_def Let_def schedule_expiration_def split: list.split)
  have m: "map_of (lim_entries ?u) i = (if i = k then if ?kept = [] then None else Some ?kept else map_of (lim_entries s) i)" for i
    unfolding e by (simp add: delete_conv' update_conv')
  have d: "distinct (map fst (lim_entries ?u))" using assms(1) unfolding e well_keyed_def by (simp add: distinct_delete distinct_update)
  have "ev' \<noteq> []" if "map_of (lim_entries ?u) i = Some ev'" for i ev'
    using that assms(1) unfolding m well_keyed_def by (metis option.inject option.distinct(1))
  with d show "well_keyed ?u" unfolding well_keyed_def by blast
  show "bucket ?u k' = (if k' = k then ?kept else bucket s k')" 
    by (cases ?kept) (simp_all add: bucket_def m del: dropWhile_eq_Nil_conv)
  show "fst (prune_bucket w k ev cutoff s) = (let kept = ?kept in if kept = [] then None else Some kept)"
    by (simp add: prune_bucket_def Let_def)
qed

lemma follows_later:
  assumes "follows p calls s t" "t \<le> now"
  shows "follows p calls s now"
proof -
  have "fl (t - window p) \<le> fl (now - window p)" using assms(2) by (intro fl_mono) simp
  then show ?thesis using assms unfolding follows_def by (meson order_trans)
qed

lemma dropped_due: "\<exists>gone. xs = gone @ dropWhile (\<lambda>t. t \<le> c) xs \<and> (\<forall>x \<in> set gone. x \<le> c)"
  by (intro exI [of _ "takeWhile (\<lambda>t. t \<le> c) xs"]) (auto dest: set_takeWhileD)

lemma prune_follows:
  assumes f: "follows p calls s now" and m: "map_of (lim_entries s) k = Some ev"
  shows "follows p calls (snd (prune_bucket w k ev (fl (now - window p)) (s\<lparr>lim_expirations := heap\<rparr>))) now"
proof -
  let ?c = "fl (now - window p)"
  let ?u = "snd (prune_bucket w k ev ?c (s\<lparr>lim_expirations := heap\<rparr>))"
  have ev: "bucket s k = ev" by (rule bucket_SomeI [OF m])
  have wk: "well_keyed (s\<lparr>lim_expirations := heap\<rparr>)" using f by (simp add: follows_def)
  note b = prune_buckets [OF wk, of k ev w ?c]
  have "\<exists>gone. times_of k' calls = gone @ bucket ?u k' \<and> (\<forall>x \<in> set gone. x \<le> ?c)" for k'
  proof -
    from f obtain gone where g: "times_of k' calls = gone @ bucket s k'" "\<forall>x \<in> set gone. x \<le> ?c" unfolding follows_def by blast
    show ?thesis
    proof (cases "k' = k")
      case True
      obtain more where "ev = more @ dropWhile (\<lambda>t. t \<le> ?c) ev" "\<forall>x \<in> set more. x \<le> ?c" using dropped_due by blast
      with True g ev b(2) [of k'] m show ?thesis by (intro exI [of _ "gone @ more"]) auto
    next
      case False
      with g b(2) [of k'] m show ?thesis by auto
    qed
  qed
  with f b(1) m show ?thesis by (simp add: follows_def)
qed

lemma evict_follows:
  assumes "follows p calls s t" "t \<le> now" "evict_expired (window p) now (fl (now - window p)) s = Some u"
  shows "follows p calls u now"
  using assms(3) follows_later [OF assms(1,2)] by (rule evict_keeps) (auto intro: prune_follows)

text \<open>A pruned bucket is the live part of the log.\<close>

lemma follows_live:
  assumes f: "follows p calls s now"
  shows "dropWhile (\<lambda>t. t \<le> fl (now - window p)) (bucket s k) = times_of k (recent p now calls)"
proof -
  from f obtain gone where g: "times_of k calls = gone @ bucket s k" "\<forall>x \<in> set gone. x \<le> fl (now - window p)" unfolding follows_def by blast
  have "sorted (gone @ bucket s k)" using f sorted_times [of calls k] unfolding g(1) [symmetric] by (simp add: follows_def)
  then have "sorted (bucket s k)" by (simp add: sorted_append)
  from sorted_drop_filter [OF this] g show ?thesis by (auto simp: times_recent filter_empty_conv not_less)
qed

lemma current_bucket_follows:
  fixes key
  assumes f: "follows p calls u now"
  defines "mine \<equiv> times_of key (recent p now calls)"
  obtains v where "current_bucket (window p) key (fl (now - window p)) u = (if mine = [] then None else Some mine, v)"
    "follows p calls v now" "bucket v key = mine"
proof (cases "map_of (lim_entries u) key")
  case None
  then have "bucket u key = []" by (simp add: bucket_def)
  with follows_live [OF f, of key] have "mine = []" by (simp add: mine_def)
  show ?thesis
    by (rule that [of u]) (simp_all add: None f \<open>bucket u key = []\<close> \<open>mine = []\<close> current_bucket_def)
next
  case (Some ev)
  have live: "dropWhile (\<lambda>t. t \<le> fl (now - window p)) ev = mine"
    using follows_live [OF f, of key] bucket_SomeI [OF Some] by (simp add: mine_def)
  have wk: "well_keyed u" using f by (simp add: follows_def)
  let ?r = "prune_bucket (window p) key ev (fl (now - window p)) u"
  have "current_bucket (window p) key (fl (now - window p)) u = ?r" using Some by (simp add: current_bucket_def)
  moreover have "?r = (fst ?r, snd ?r)" by simp
  moreover have "fst ?r = (if mine = [] then None else Some mine)" unfolding prune_buckets(3) [OF wk Some] live Let_def ..
  moreover have "follows p calls (snd ?r) now" using prune_follows [OF f Some, of "window p" "lim_expirations u"] by simp
  moreover have "bucket (snd ?r) key = mine" using prune_buckets(2) [OF wk Some] live by simp
  ultimately show ?thesis by (intro that [of "snd ?r"]) simp_all
qed

lemma live_keys_stored:
  assumes f: "follows p calls s now"
  shows "length (remdups (map fst (recent p now calls))) \<le> length (lim_entries s)"
proof -
  have "k \<in> set (map fst (lim_entries s))" if k: "k \<in> set (map fst (recent p now calls))" for k
  proof -
    have "times_of k (recent p now calls) \<noteq> []" using k by (auto simp: times_of_def filter_empty_conv)
    then have "bucket s k \<noteq> []" unfolding follows_live [OF f, symmetric] by auto
    then show ?thesis by (auto simp: bucket_def dest!: map_of_SomeD intro: rev_image_eqI split: option.splits)
  qed
  then have "card (set (map fst (recent p now calls))) \<le> card (set (map fst (lim_entries s)))" by (intro card_mono) auto
  also have "\<dots> \<le> length (lim_entries s)" using card_length [of "map fst (lim_entries s)"] by simp
  finally show ?thesis by (simp add: length_remdups_card_conv)
qed

lemma admit_follows:
  assumes f: "follows p calls u now" and b: "bucket u key = mine" and a: "admit p key now mine u = (d, v)"
  shows "d = (if capacity p \<le> int (length mine) then deny_decision (seconds_left p (hd mine) now)
      else allow_decision (capacity p - int (length mine) - 1))"
    and "follows p (if rld_allowed d then calls @ [(key, now)] else calls) v now"
proof -
  show d: "d = (if capacity p \<le> int (length mine) then deny_decision (seconds_left p (hd mine) now)
      else allow_decision (capacity p - int (length mine) - 1))"
    using a by (auto simp: admit_def Let_def seconds_left_def algebra_simps split: if_splits)
  show "follows p (if rld_allowed d then calls @ [(key, now)] else calls) v now"
  proof (cases "capacity p \<le> int (length mine)")
    case True
    then have "v = u" "\<not> rld_allowed d" using a d by (simp_all add: admit_def deny_decision_def)
    with f show ?thesis by simp
  next
    case False
    then have e: "lim_entries v = AList.update key (mine @ [now]) (lim_entries u)"
      using a by (auto simp: admit_def Let_def schedule_expiration_def split: list.splits)
    have v: "bucket v k = (if k = key then mine @ [now] else bucket u k)" for k by (simp add: bucket_def e update_conv')
    have "\<exists>gone. times_of k (calls @ [(key, now)]) = gone @ bucket v k \<and> (\<forall>x \<in> set gone. x \<le> fl (now - window p))" for k
      using f b unfolding v follows_def by auto
    moreover have "well_keyed v" using f unfolding follows_def well_keyed_def e by (auto simp: distinct_update update_conv')
    moreover have "rld_allowed d" using d False by (simp add: allow_decision_def)
    ultimately show ?thesis using f by (auto simp: follows_def sorted_append)
  qed
qed

lemma check_follows:
  assumes p: "rate_limit_policy_fields p" and f: "follows p calls u now" and c: "check_evicted p key now u = (d, v)"
  shows "agrees p calls key now d" "follows p (if rld_allowed d then calls @ [(key, now)] else calls) v now"
proof -
  let ?mine = "times_of key (recent p now calls)"
  obtain u' where cur: "current_bucket (window p) key (fl (now - window p)) u = (if ?mine = [] then None else Some ?mine, u')"
    and f': "follows p calls u' now" and b: "bucket u' key = ?mine" by (rule current_bucket_follows [OF f])
  have cap: "0 < capacity p" using p by (simp add: capacity_def rate_limit_policy_fields_def)
  have "agrees p calls key now d \<and> follows p (if rld_allowed d then calls @ [(key, now)] else calls) v now"
  proof (cases "?mine = [] \<and> rlp_max_keys p \<le> int (length (lim_entries u'))")
    case True
    then obtain r h where "d = deny_decision r" "v = u'\<lparr>lim_expirations := h\<rparr>"
      using c cur by (auto simp: check_evicted_def split: prod.splits option.splits)
    with True f' show ?thesis by (simp add: agrees_def deny_decision_def)
  next
    case False
    then have a: "admit p key now ?mine u' = (d, v)" using c cur by (auto simp: check_evicted_def split: if_splits)
    have "window_check p calls key now = (if capacity p \<le> int (length ?mine) then deny_decision (seconds_left p (hd ?mine) now)
      else allow_decision (capacity p - int (length ?mine) - 1))"
      using False cap live_keys_stored [OF f'] by (auto simp: window_check_def Let_def)
    with admit_follows [OF f' b a] show ?thesis by (simp add: agrees_def)
  qed
  then show "agrees p calls key now d" "follows p (if rld_allowed d then calls @ [(key, now)] else calls) v now" by blast+
qed

lemma check_all_within:
  assumes p: "rate_limit_policy_fields p"
  shows "follows p past s t \<Longrightarrow> sorted (map snd calls) \<Longrightarrow> \<forall>c \<in> set calls. t \<le> snd c \<Longrightarrow> check_all p calls s = Some ds \<Longrightarrow>
    within_window p calls ds past"
proof (induction calls arbitrary: s t past ds)
  case (Cons c calls)
  obtain key now where c: "c = (key, now)" by (cases c)
  have later: "sorted (map snd calls)" "\<forall>c \<in> set calls. now \<le> snd c" "\<forall>c \<in> set calls. t \<le> snd c" "t \<le> now" using Cons.prems c by auto
  show ?case
  proof (cases "is_blank key")
    case True
    with Cons.prems(4) obtain es where "ds = Inl (ValueError ''rate-limit key must be non-empty'') # es" "check_all p calls s = Some es"
      by (auto simp: c check_def)
    with Cons.IH [OF Cons.prems(1) later(1,3)] True show ?thesis by (simp add: c)
  next
    case False
    obtain u where e: "evict_expired (window p) now (fl (now - window p)) s = Some u" using evict_returns by blast
    obtain d v where ch: "check_evicted p key now u = (d, v)" by fastforce
    from False e ch Cons.prems(4) obtain es where "ds = Inr d # es" "check_all p calls v = Some es" by (auto simp: c check_def)
    with Cons.IH [OF _ later(1,2)] check_follows [OF p evict_follows [OF Cons.prems(1) later(4) e] ch] False show ?thesis by (simp add: c)
  qed
qed simp

lemma follows_new: "follows p [] new_limiter t"
  by (simp add: follows_def new_limiter_def well_keyed_def bucket_def times_of_def)

subsection \<open>Exactness where the roundings agree\<close>

text \<open>
  Every bucket has the expiration of its first time in the heap. This is what rounding can break: a due expiration is popped, but its
  bucket, whose first time is not due in the other rounding, stays.
\<close>

definition heap_ok :: "rat \<Rightarrow> limiter \<Rightarrow> bool" where
  "heap_ok w s \<longleftrightarrow> sorted (lim_expirations s)
    \<and> (\<forall>e k f. (e, k, f) \<in> set (lim_expirations s) \<longrightarrow> e = fl (f + w))
    \<and> (\<forall>k ev. map_of (lim_entries s) k = Some ev \<longrightarrow> ev \<noteq> [] \<and> (fl (hd ev + w), k, hd ev) \<in> set (lim_expirations s))"

lemma next_valid_skip:
  "\<nexists>xs. map_of entries k = Some (f # xs) \<Longrightarrow> next_valid entries ((e, k, f) # heap) = next_valid entries heap"
  by (auto split: option.splits list.splits)

lemma next_valid_stop:
  "map_of entries k = Some (f # xs) \<Longrightarrow> next_valid entries ((e, k, f) # heap) = (Some e, (e, k, f) # heap)"
  by simp

lemma next_valid_spec:
  assumes "next_valid entries heap = (r, heap')" "sorted heap"
  shows "sorted heap' \<and> set heap' \<subseteq> set heap \<and> (r = None \<longrightarrow> heap' = [])
    \<and> (\<forall>e k f xs. (e, k, f) \<in> set heap \<longrightarrow> map_of entries k = Some (f # xs) \<longrightarrow> (e, k, f) \<in> set heap')"
  using assms
proof (induction heap)
  case (Cons c heap)
  obtain e k f where c: "c = (e, k, f)" by (cases c)
  show ?case
  proof (cases "\<exists>xs. map_of entries k = Some (f # xs)")
    case True
    then obtain xs where "map_of entries k = Some (f # xs)" by blast
    from next_valid_stop [OF this, of e heap] Cons.prems(1) have "r = Some e" "heap' = c # heap" unfolding c by simp_all
    then show ?thesis using Cons.prems(2) by blast
  next
    case False
    then have n: "next_valid entries heap = (r, heap')" using next_valid_skip [OF False, of e heap] Cons.prems(1) unfolding c by metis
    have "sorted heap" using Cons.prems(2) by (meson sorted_simps(2))
    from Cons.IH [OF n this] False show ?thesis unfolding c by (metis (no_types, lifting) prod.inject set_ConsD set_subset_Cons subset_trans)
  qed
qed simp

lemma heap_okD:
  assumes "heap_ok w s"
  shows "sorted (lim_expirations s)" "(e, k, f) \<in> set (lim_expirations s) \<Longrightarrow> e = fl (f + w)"
    "map_of (lim_entries s) k = Some ev \<Longrightarrow> ev \<noteq> [] \<and> (fl (hd ev + w), k, hd ev) \<in> set (lim_expirations s)"
  using assms unfolding heap_ok_def by blast+

lemma heap_okI:
  assumes "sorted (lim_expirations s)" "\<And>e k f. (e, k, f) \<in> set (lim_expirations s) \<Longrightarrow> e = fl (f + w)"
    "\<And>k ev. map_of (lim_entries s) k = Some ev \<Longrightarrow> ev \<noteq> [] \<and> (fl (hd ev + w), k, hd ev) \<in> set (lim_expirations s)"
  shows "heap_ok w s"
  using assms unfolding heap_ok_def by blast

lemma heap_ok_suffix:
  assumes ok: "heap_ok w s" and n: "next_valid (lim_entries s) (lim_expirations s) = (r, heap)"
  shows "heap_ok w (s\<lparr>lim_expirations := heap\<rparr>)"
proof -
  note spec = next_valid_spec [OF n heap_okD(1) [OF ok]]
  have kept: "ev \<noteq> [] \<and> (fl (hd ev + w), k, hd ev) \<in> set heap" if m: "map_of (lim_entries s) k = Some ev" for k ev
  proof -
    from heap_okD(3) [OF ok m] have g: "ev \<noteq> []" "(fl (hd ev + w), k, hd ev) \<in> set (lim_expirations s)" by blast+
    from m g(1) have "map_of (lim_entries s) k = Some (hd ev # tl ev)" by (metis list.collapse)
    with g spec show ?thesis by blast
  qed
  show ?thesis
  proof (rule heap_okI)
    show "e = fl (f + w)" if "(e, k, f) \<in> set (lim_expirations (s\<lparr>lim_expirations := heap\<rparr>))" for e k f
      using heap_okD(2) [OF ok, of e k f] that spec by auto
  qed (use spec kept in simp_all)
qed

lemma prune_same:
  assumes "cutoff < f"
  shows "prune_bucket w k (f # xs) cutoff s = (Some (f # xs), s\<lparr>lim_entries := AList.update k (f # xs) (lim_entries s)\<rparr>)"
  using assms by (simp add: prune_bucket_def Let_def)

lemma heap_ok_pruned:
  assumes ok: "heap_ok w s" and heap: "lim_expirations s = (e, k, f) # rest" and m: "map_of (lim_entries s) k = Some (f # xs)"
    and due: "f \<le> cutoff"
  shows "heap_ok w (snd (prune_bucket w k (f # xs) cutoff (s\<lparr>lim_expirations := rest\<rparr>)))" (is "heap_ok w ?u")
proof -
  let ?kept = "dropWhile (\<lambda>t. t \<le> cutoff) (f # xs)"
  have "f < hd ?kept" if "?kept \<noteq> []" using hd_dropWhile [OF that] due by simp
  then have heap_u: "lim_expirations ?u = (if ?kept = [] then rest else insort (fl (hd ?kept + w), k, hd ?kept) rest)"
    by (cases ?kept) (auto simp: prune_bucket_def Let_def schedule_expiration_def)
  then have set_u: "set (lim_expirations ?u) = (if ?kept = [] then set rest else insert (fl (hd ?kept + w), k, hd ?kept) (set rest))"
    by (simp add: set_insort_key)
  have "lim_entries ?u = (if ?kept = [] then AList.delete k (lim_entries s) else AList.update k ?kept (lim_entries s))"
    by (simp add: prune_bucket_def Let_def schedule_expiration_def split: list.split)
  then have m_u: "map_of (lim_entries ?u) i = (if i = k then if ?kept = [] then None else Some ?kept else map_of (lim_entries s) i)" for i
    by (simp add: delete_conv' update_conv')
  show ?thesis
  proof (rule heap_okI)
    have "sorted rest" using heap_okD(1) [OF ok] unfolding heap by (meson sorted_simps(2))
    then show "sorted (lim_expirations ?u)" unfolding heap_u by (simp only: sorted_insort split: if_split) blast
    show "e' = fl (f' + w)" if "(e', i, f') \<in> set (lim_expirations ?u)" for e' i f'
      using that heap_okD(2) [OF ok, of e' i f'] unfolding set_u heap by (auto split: if_splits)
    show "ev \<noteq> [] \<and> (fl (hd ev + w), i, hd ev) \<in> set (lim_expirations ?u)" if "map_of (lim_entries ?u) i = Some ev" for i ev
    proof (cases "i = k")
      case True
      have k: "?kept \<noteq> []" "ev = ?kept" using that True unfolding m_u by (metis option.distinct(1), metis option.distinct(1) option.inject)
      have "set (lim_expirations ?u) = insert (fl (hd ?kept + w), k, hd ?kept) (set rest)" unfolding set_u using k(1) by (rule if_not_P)
      with k True show ?thesis by (metis insertI1)
    next
      case False
      with that heap_okD(3) [OF ok, of i ev] show ?thesis unfolding m_u set_u heap by auto
    qed
  qed
qed

lemma prod_le_fst: "(a :: 'a :: linorder \<times> 'b :: linorder) \<le> b \<Longrightarrow> fst a \<le> fst b"
  by (auto simp: less_eq_prod_def)

lemma heap_least:
  assumes "sorted ((e, k, f) # rest)" "x \<in> set ((e, k, f) # rest)" shows "e \<le> fst (x :: rat \<times> string \<times> rat)"
proof -
  from assms have "(e, k, f) \<le> x" by (metis order_refl set_ConsD sorted_simps(2))
  from prod_le_fst [OF this] show ?thesis by simp
qed

lemma bucket_entry:
  assumes ok: "heap_ok w s" and ne: "bucket s k \<noteq> []"
  shows "map_of (lim_entries s) k = Some (bucket s k)" "(fl (hd (bucket s k) + w), k, hd (bucket s k)) \<in> set (lim_expirations s)"
proof -
  show m: "map_of (lim_entries s) k = Some (bucket s k)" using ne by (auto simp: bucket_def split: option.splits)
  from heap_okD(3) [OF ok m] show "(fl (hd (bucket s k) + w), k, hd (bucket s k)) \<in> set (lim_expirations s)" by blast
qed

text \<open>After the loop no bucket holds a time that has left the window.\<close>

lemma evict_exact:
  assumes "heap_ok w s" "well_keyed s" "evict_expired w now cutoff s = Some u"
    and agree: "\<And>k x. x \<in> set (bucket s k) \<Longrightarrow> fl (x + w) \<le> now \<longleftrightarrow> x \<le> cutoff"
  shows "heap_ok w u \<and> (\<forall>k. dropWhile (\<lambda>t. t \<le> cutoff) (bucket u k) = bucket u k)"
  using assms
proof (induction "work s" arbitrary: s rule: less_induct)
  case less
  note ok = less.prems(1) and agree = less.prems(4)
  have final: ?case if n: "next_valid (lim_entries s) (lim_expirations s) = (r, heap)" and u: "u = s\<lparr>lim_expirations := heap\<rparr>"
    and late: "\<And>x. x \<in> set heap \<Longrightarrow> now < fst x" for r heap
  proof -
    have oku: "heap_ok w u" unfolding u by (rule heap_ok_suffix [OF ok n])
    have "dropWhile (\<lambda>t. t \<le> cutoff) (bucket u k) = bucket u k" for k
    proof (cases "bucket u k")
      case (Cons x xs)
      with bucket_entry(2) [OF oku, of k] late have "now < fl (x + w)" by (fastforce simp: u)
      with agree [of x k] Cons show ?thesis by (simp add: u)
    qed simp
    with oku show ?thesis by blast
  qed
  show ?case
  proof (rule evict_round [of s w now cutoff])
    fix heap assume n: "next_valid (lim_entries s) (lim_expirations s) = (None, heap)"
      and "evict_expired w now cutoff s = Some (s\<lparr>lim_expirations := heap\<rparr>)"
    then show ?thesis using final [OF n] next_valid_spec [OF n heap_okD(1) [OF ok]] less.prems(3) by simp
  next
    fix e heap assume n: "next_valid (lim_entries s) (lim_expirations s) = (Some e, heap)" and e: "now < e"
      and r: "evict_expired w now cutoff s = Some (s\<lparr>lim_expirations := heap\<rparr>)"
    from next_valid_head [OF n] obtain k f rest where h: "heap = (e, k, f) # rest" by blast
    have "sorted heap" using next_valid_spec [OF n heap_okD(1) [OF ok]] by blast
    then have "now < fst x" if "x \<in> set heap" for x using heap_least [of e k f rest x] that e unfolding h by simp
    with final [OF n] r less.prems(3) show ?thesis by simp
  next
    fix e k f xs rest assume n: "next_valid (lim_entries s) (lim_expirations s) = (Some e, (e, k, f) # rest)" and e: "e \<le> now"
      and m: "map_of (lim_entries s) k = Some (f # xs)"
      and run: "evict_expired w now cutoff s = evict_expired w now cutoff (snd (prune_bucket w k (f # xs) cutoff (s\<lparr>lim_expirations := rest\<rparr>)))"
      and dec: "work (snd (prune_bucket w k (f # xs) cutoff (s\<lparr>lim_expirations := rest\<rparr>))) < work s"
    let ?v = "snd (prune_bucket w k (f # xs) cutoff (s\<lparr>lim_expirations := rest\<rparr>))"
    note ok' = heap_ok_suffix [OF ok n]
    have "f \<le> cutoff" using heap_okD(2) [OF ok', of e k f] agree [of f k] e bucket_SomeI [OF m] by simp
    then have okv: "heap_ok w ?v" using heap_ok_pruned [OF ok', of e k f rest xs cutoff] m by simp
    have wk: "well_keyed (s\<lparr>lim_expirations := rest\<rparr>)" using less.prems(2) by simp
    have m': "map_of (lim_entries (s\<lparr>lim_expirations := rest\<rparr>)) k = Some (f # xs)" using m by simp
    note b = prune_buckets [OF wk m', of w cutoff]
    have sub: "set (bucket ?v k') \<subseteq> set (bucket s k')" for k'
      unfolding b(2) using bucket_SomeI [OF m] by (auto dest: set_dropWhileD)
    have agree_v: "fl (x + w) \<le> now \<longleftrightarrow> x \<le> cutoff" if "x \<in> set (bucket ?v k')" for k' x
      using agree [of x k'] sub that by blast
    have "evict_expired w now cutoff ?v = Some u" using run less.prems(3) by simp
    from less.hyps [OF dec okv b(1) this agree_v] show ?thesis .
  qed
qed

definition tracks :: "rate_limit_policy \<Rightarrow> call_log \<Rightarrow> limiter \<Rightarrow> rat \<Rightarrow> bool" where
  "tracks p calls u now \<longleftrightarrow> heap_ok (window p) u \<and> follows p calls u now \<and> (\<forall>k. bucket u k = times_of k (recent p now calls))"

lemma evict_tracks:
  assumes ok: "heap_ok (window p) s" and f: "follows p calls s t" and "t \<le> now"
    and e: "evict_expired (window p) now (fl (now - window p)) s = Some u"
    and ts: "roundings_agree p ts" "snd ` set calls \<subseteq> set ts" "now \<in> set ts"
  shows "tracks p calls u now"
proof -
  have "x \<in> set ts" if "x \<in> set (bucket s k)" for x k
  proof -
    from f obtain gone where "times_of k calls = gone @ bucket s k" unfolding follows_def by blast
    with that have "x \<in> set (times_of k calls)" by simp
    with times_in [of k calls] ts(2) show ?thesis by auto
  qed
  then have agree: "fl (x + window p) \<le> now \<longleftrightarrow> x \<le> fl (now - window p)" if "x \<in> set (bucket s k)" for x k
    using ts that unfolding roundings_agree_def by blast
  have wk: "well_keyed s" using f by (simp add: follows_def)
  have fu: "follows p calls u now" using evict_follows [OF f \<open>t \<le> now\<close> e] .
  from evict_exact [OF ok wk e agree] follows_live [OF fu] fu show ?thesis by (simp add: tracks_def)
qed

lemma update_same: "map_of al k = Some v \<Longrightarrow> AList.update k v al = al"
  by (induction al) (auto split: if_splits)

lemma bucket_None_iff: "well_keyed s \<Longrightarrow> map_of (lim_entries s) k = None \<longleftrightarrow> bucket s k = []"
  by (auto simp: well_keyed_def bucket_def split: option.splits)

lemma tracksD:
  assumes "tracks p calls u now"
  shows "heap_ok (window p) u" "well_keyed u" "sorted (map snd calls)" "bucket u k = times_of k (recent p now calls)"
  using assms by (simp_all add: tracks_def follows_def)

lemma current_tracked:
  assumes t: "tracks p calls u now"
  shows "current_bucket (window p) key (fl (now - window p)) u
    = (if times_of key (recent p now calls) = [] then None else Some (times_of key (recent p now calls)), u)"
proof (cases "times_of key (recent p now calls)")
  case Nil
  then show ?thesis using bucket_None_iff [OF tracksD(2) [OF t], of key] tracksD(4) [OF t, of key] by (simp add: current_bucket_def)
next
  case (Cons x xs)
  have b: "bucket u key = x # xs" using tracksD(4) [OF t, of key] Cons by simp
  have m: "map_of (lim_entries u) key = Some (x # xs)" using bucket_entry(1) [OF tracksD(1) [OF t], of key] b by simp
  have "x \<in> set (times_of key (recent p now calls))" using Cons by simp
  then have "fl (now - window p) < x" unfolding times_recent by simp
  from prune_same [OF this] m update_same [OF m] Cons show ?thesis by (simp add: current_bucket_def)
qed

lemma keys_tracked:
  assumes t: "tracks p calls u now"
  shows "length (lim_entries u) = length (remdups (map fst (recent p now calls)))"
proof -
  have "set (map fst (lim_entries u)) = {k. map_of (lim_entries u) k \<noteq> None}" by (auto simp: map_of_eq_None_iff)
  also have "\<dots> = {k. times_of k (recent p now calls) \<noteq> []}"
    using bucket_None_iff [OF tracksD(2) [OF t]] tracksD(4) [OF t] by auto
  also have "\<dots> = set (map fst (recent p now calls))"
    by (force simp: times_of_def filter_empty_conv)
  finally have "card (set (map fst (lim_entries u))) = card (set (map fst (recent p now calls)))" by simp
  moreover have "distinct (map fst (lim_entries u))" using tracksD(2) [OF t] by (simp add: well_keyed_def)
  ultimately show ?thesis using distinct_card by (fastforce simp: length_remdups_card_conv)
qed

lemma least_expiration:
  assumes t: "tracks p calls u now" and some: "recent p now calls \<noteq> []"
    and n: "next_valid (lim_entries u) (lim_expirations u) = (r, heap)"
  shows "r = Some (fl (snd (hd (recent p now calls)) + window p))"
proof -
  let ?live = "recent p now calls"
  obtain k0 t0 rest0 where live: "?live = (k0, t0) # rest0" using some by (cases ?live) auto
  have srt: "sorted (map snd ?live)" using tracksD(3) [OF t] unfolding recent_def by (simp add: sorted_filter)
  note ok = tracksD(1) [OF t]
  note ok' = heap_ok_suffix [OF ok n]
  have b0: "bucket (u\<lparr>lim_expirations := heap\<rparr>) k0 = t0 # times_of k0 rest0"
    using tracksD(4) [OF t, of k0] live by (simp add: times_of_def)
  have in0: "(fl (t0 + window p), k0, t0) \<in> set heap" using bucket_entry(2) [OF ok', of k0] b0 by simp
  then obtain e where r: "r = Some e" using next_valid_spec [OF n heap_okD(1) [OF ok]] by (cases r) auto
  from next_valid_head [OF n [unfolded r]] obtain k f rest xs where
    h: "heap = (e, k, f) # rest" and m: "map_of (lim_entries u) k = Some (f # xs)" by blast
  have "e \<le> fl (t0 + window p)" using heap_least [of e k f rest] heap_okD(1) [OF ok'] in0 unfolding h by fastforce
  moreover have e: "e = fl (f + window p)" using heap_okD(2) [OF ok', of e k f] by (simp add: h)
  moreover have "f \<in> set (times_of k ?live)" using tracksD(4) [OF t, of k] bucket_SomeI [OF m] by (metis list.set_intros(1))
  then have "f \<in> set (map snd ?live)" by (auto simp: times_of_def)
  then have "t0 \<le> f" using srt unfolding live by auto
  then have "fl (t0 + window p) \<le> e" unfolding e by (intro fl_mono) simp
  ultimately show ?thesis using r live by simp
qed

lemma admit_heap_ok:
  assumes ok: "heap_ok (window p) u" and b: "bucket u key = mine" and a: "admit p key now mine u = (d, v)"
  shows "heap_ok (window p) v"
proof (cases "capacity p \<le> int (length mine)")
  case True
  with a ok show ?thesis by (simp add: admit_def)
next
  case False
  let ?new = "(fl (now + window p), key, now)"
  have v: "v = u\<lparr>lim_entries := AList.update key (mine @ [now]) (lim_entries u),
      lim_expirations := if mine = [] then insort ?new (lim_expirations u) else lim_expirations u\<rparr>"
    using a False by (auto simp: admit_def Let_def schedule_expiration_def split: list.splits)
  have heap: "lim_expirations v = (if mine = [] then insort ?new (lim_expirations u) else lim_expirations u)" unfolding v by simp
  have in_heap: "x \<in> set (lim_expirations v) \<longleftrightarrow> x \<in> set (lim_expirations u) \<or> mine = [] \<and> x = ?new" for x
    unfolding heap by (auto simp: set_insort_key)
  have m: "map_of (lim_entries v) k = (if k = key then Some (mine @ [now]) else map_of (lim_entries u) k)" for k unfolding v by (simp add: update_conv')
  show ?thesis
  proof (rule heap_okI)
    show "sorted (lim_expirations v)" using heap_okD(1) [OF ok] sorted_insort [of ?new "lim_expirations u"] unfolding heap by presburger
    show "e = fl (f + window p)" if "(e, k, f) \<in> set (lim_expirations v)" for e k f
      using heap_okD(2) [OF ok, of e k f] that unfolding in_heap by auto
    show "ev \<noteq> [] \<and> (fl (hd ev + window p), k, hd ev) \<in> set (lim_expirations v)" if e: "map_of (lim_entries v) k = Some ev" for k ev
    proof (cases "k = key")
      case False
      with e heap_okD(3) [OF ok, of k ev] show ?thesis unfolding m in_heap by simp
    next
      case True
      have "(fl (hd mine + window p), key, hd mine) \<in> set (lim_expirations u)" if "mine \<noteq> []"
        using bucket_entry(2) [OF ok, of key] that unfolding b by blast
      with True e show ?thesis unfolding m in_heap by (cases "mine = []") auto
    qed
  qed
qed

lemma check_tracks:
  assumes p: "rate_limit_policy_fields p" and t: "tracks p calls u now" and c: "check_evicted p key now u = (d, v)"
  shows "d = window_check p calls key now" "heap_ok (window p) v"
proof -
  let ?live = "recent p now calls"
  let ?mine = "times_of key ?live"
  note cur = current_tracked [OF t, of key] and keys = keys_tracked [OF t]
  have cap: "0 < capacity p" "0 < rlp_max_keys p" using p by (auto simp: capacity_def rate_limit_policy_fields_def)
  have "d = window_check p calls key now \<and> heap_ok (window p) v"
  proof (cases "?mine = [] \<and> rlp_max_keys p \<le> int (length (remdups (map fst ?live)))")
    case True
    then have live: "?live \<noteq> []" using cap by auto
    obtain r heap where n: "next_valid (lim_entries u) (lim_expirations u) = (r, heap)" by fastforce
    have "window_check p calls key now = deny_decision (seconds_left p (snd (hd ?live)) now)" using True by (simp add: window_check_def)
    moreover have "(d, v) = (deny_decision (seconds_left p (snd (hd ?live)) now), u\<lparr>lim_expirations := heap\<rparr>)"
      using c True keys cur n least_expiration [OF t live n] by (simp add: check_evicted_def seconds_left_def)
    ultimately show ?thesis using heap_ok_suffix [OF tracksD(1) [OF t] n] by simp
  next
    case False
    have adm: "admit p key now ?mine u = (d, v)" using c False cur keys by (auto simp: check_evicted_def split: if_splits)
    have f: "follows p calls u now" using t by (simp add: tracks_def)
    have "window_check p calls key now = (if capacity p \<le> int (length ?mine) then deny_decision (seconds_left p (hd ?mine) now)
      else allow_decision (capacity p - int (length ?mine) - 1))"
      using False cap by (auto simp: window_check_def Let_def)
    with admit_follows(1) [OF f tracksD(4) [OF t] adm] admit_heap_ok [OF tracksD(1) [OF t] tracksD(4) [OF t] adm] show ?thesis by simp
  qed
  then show "d = window_check p calls key now" "heap_ok (window p) v" by blast+
qed

lemma check_all_exact:
  assumes p: "rate_limit_policy_fields p" and ts: "roundings_agree p ts"
  shows "follows p past s t \<Longrightarrow> heap_ok (window p) s \<Longrightarrow> sorted (map snd calls) \<Longrightarrow> \<forall>c \<in> set calls. t \<le> snd c \<Longrightarrow>
    snd ` set past \<subseteq> set ts \<Longrightarrow> snd ` set calls \<subseteq> set ts \<Longrightarrow> check_all p calls s = Some (window_all p calls past)"
proof (induction calls arbitrary: s t past)
  case (Cons c calls)
  obtain key now where c: "c = (key, now)" by (cases c)
  have later: "sorted (map snd calls)" "\<forall>c \<in> set calls. now \<le> snd c" "\<forall>c \<in> set calls. t \<le> snd c" "t \<le> now"
    "now \<in> set ts" "snd ` set calls \<subseteq> set ts" using Cons.prems c by auto
  show ?case
  proof (cases "is_blank key")
    case True
    from Cons.IH [OF Cons.prems(1,2) later(1,3) Cons.prems(5) later(6)] True show ?thesis by (simp add: c check_def)
  next
    case False
    obtain u where e: "evict_expired (window p) now (fl (now - window p)) s = Some u" using evict_returns by blast
    obtain d v where ch: "check_evicted p key now u = (d, v)" by fastforce
    note exact = check_tracks [OF p evict_tracks [OF Cons.prems(2,1) later(4) e ts Cons.prems(5) later(5)] ch]
    note fu = evict_follows [OF Cons.prems(1) later(4) e]
    have "check_all p calls v = Some (window_all p calls (if rld_allowed d then past @ [(key, now)] else past))"
      using Cons.prems(5) later(5) by (intro Cons.IH [OF check_follows(2) [OF p fu ch] exact(2) later(1,2) _ later(6)]) auto
    with False e ch exact(1) show ?thesis by (simp add: c check_def)
  qed
qed simp

lemma heap_ok_new: "heap_ok w new_limiter"
  by (simp add: heap_ok_def new_limiter_def)

text \<open>
  C28: The rate limiter against the sliding window. For a valid policy and a clock that does not go back, a new limiter answers every
  history of checks, and each decision is sound for the window over the calls it accepted so far, those later than
  \<open>now - window\<close>: a call is allowed only where the window allows it, with the capacity it has left, and a key with a
  live call is answered exactly as the window answers it. Where the two roundings \<open>first + window\<close> and \<open>now - window\<close> agree on
  which times have left the window, as they do when they are exact, every decision is that of the window: a key
  is denied when the window holds \<open>limit + burst\<close> of its calls, or when it is new and \<open>max_keys\<close> other keys are live, with
  the seconds until the oldest call in question expires. \<open>limiter_loses_expirations\<close> shows that the condition is needed.
\<close>

theorem limiter_is_sliding_window:
  assumes "rate_limit_policy_fields p" and "sorted (map snd calls)"
  shows "\<exists>ds. check_all p calls new_limiter = Some ds \<and> within_window p calls ds []
    \<and> (roundings_agree p (map snd calls) \<longrightarrow> ds = window_all p calls [])"
proof -
  obtain t where t: "\<forall>c \<in> set calls. t \<le> snd c" using assms(2) by (cases calls) auto
  obtain ds where ds: "check_all p calls new_limiter = Some ds" using check_all_returns by blast
  have "within_window p calls ds []" by (rule check_all_within [OF assms(1) follows_new assms(2) t ds])
  moreover have "ds = window_all p calls []" if "roundings_agree p (map snd calls)"
    using check_all_exact [OF assms(1) that follows_new heap_ok_new assms(2) t] ds by simp
  ultimately show ?thesis using ds by blast
qed

definition sample_rate_policy :: rate_limit_policy where
  "sample_rate_policy = \<lparr>rlp_schema_name = ''prodkit.rate-limit-policy'', rlp_schema_version = ''1.0.0'', rlp_policy_id = ''edge'',
     rlp_limit = 1, rlp_window_seconds = 10, rlp_burst = 1, rlp_max_keys = 1\<rparr>"

lemma limiter_is_sliding_window_witness:
  "check_all sample_rate_policy [(''a'', 0), (''a'', 4), (''a'', 5), (''b'', 6), ('''', 7), (''a'', 12), (''b'', 30)] new_limiter
    = Some [Inr (allow_decision 1), Inr (allow_decision 0), Inr (deny_decision 5), Inr (deny_decision 4),
        Inl (ValueError ''rate-limit key must be non-empty''), Inr (allow_decision 0), Inr (allow_decision 1)]"
proof -
  have p: "rate_limit_policy_fields sample_rate_policy" by code_simp
  let ?calls = "[(''a'', 0), (''a'', 4), (''a'', 5), (''b'', 6), ('''', 7), (''a'', 12), (''b'', 30)] :: (string \<times> rat) list"
  have s: "sorted (map snd ?calls)" by simp
  have "roundings_agree sample_rate_policy (map snd ?calls)"
    by (rule exact_agree) (simp add: window_def sample_rate_policy_def)
  moreover have "window_all sample_rate_policy ?calls [] = [Inr (allow_decision 1), Inr (allow_decision 0), Inr (deny_decision 5), Inr (deny_decision 4),
        Inl (ValueError ''rate-limit key must be non-empty''), Inr (allow_decision 0), Inr (allow_decision 1)]" by code_simp
  ultimately show ?thesis using limiter_is_sliding_window [OF p s] by auto
qed

text \<open>
  Where the roundings disagree the limiter loses an expiration. With a single slot and a window of 10 seconds, key \<open>a\<close> calls at 0.1.
  At 10.1 its expiration is due, since \<open>0.1 + 10 <= 10.1\<close>, and is popped, but its bucket is kept, since \<open>0.1 > 10.1 - 10\<close> in floats.
  No later check of another key evicts it: \<open>b\<close> is still denied at 100.0, when the window is long empty.
\<close>

lemma limiter_loses_expirations:
  defines "p \<equiv> sample_rate_policy\<lparr>rlp_burst := 0\<rparr>" and "calls \<equiv> [(''a'', fl (1 / 10)), (''b'', fl (101 / 10)), (''b'', 100)]"
  shows "check_all p calls new_limiter = Some [Inr (allow_decision 0), Inr (deny_decision 10), Inr (deny_decision 10)]"
    and "window_all p calls [] = [Inr (allow_decision 0), Inr (deny_decision 1), Inr (allow_decision 0)]"
proof -
  let ?a = "fl (1 / 10)" and ?b = "fl (101 / 10)"
  have ab: "?a = 3602879701896397 / 36028797018963968" "?b = 5685794529555251 / 562949953421312" by code_simp+
  have due: "fl (?a + 10) \<le> ?b" and kept: "\<not> ?a \<le> fl (?b - 10)" unfolding ab by code_simp+
  have p: "window p = 10" "capacity p = 1" "rlp_max_keys p = 1" "rlp_window_seconds p = 10"
    by (simp_all add: p_def sample_rate_policy_def window_def capacity_def)
  have blank: "\<not> is_blank ''a''" "\<not> is_blank ''b''" by code_simp+
  let ?s = "\<lparr>lim_entries = [(''a'', [?a])], lim_expirations = [(fl (?a + 10), ''a'', ?a)]\<rparr>"
  let ?t = "\<lparr>lim_entries = [(''a'', [?a])], lim_expirations = []\<rparr>"
  have a: "check p ''a'' ?a new_limiter = Some (Inr (allow_decision 0), ?s)"
    by (simp add: check_def blank p new_limiter_def evict_expired.simps check_evicted_def current_bucket_def admit_def schedule_expiration_def)
  have b: "check p ''b'' now ?t = Some (Inr (deny_decision 10), ?t)" for now
    by (simp add: check_def blank p evict_expired.simps check_evicted_def current_bucket_def)
  have "evict_expired 10 ?b (fl (?b - 10)) ?s = Some ?t"
    using due kept by (simp add: evict_expired.simps [of 10 ?b _ ?s] evict_expired.simps [of 10 ?b _ ?t] prune_bucket_def Let_def)
  then have "check p ''b'' ?b ?s = Some (Inr (deny_decision 10), ?t)"
    by (simp add: check_def blank p check_evicted_def current_bucket_def)
  with a b show "check_all p calls new_limiter = Some [Inr (allow_decision 0), Inr (deny_decision 10), Inr (deny_decision 10)]"
    by (simp add: calls_def)
  show "window_all p calls [] = [Inr (allow_decision 0), Inr (deny_decision 1), Inr (allow_decision 0)]"
    unfolding p_def calls_def ab by code_simp
qed

end
