(* ===== verification/Json_Reader.thy ===== *)
theory Json_Reader
  imports Canonical
begin

text \<open>
  \<open>json.loads\<close> on bytes, as the evidence verifiers use it, and its round trip with the canonical encoder. The reader covers
  UTF-8 texts, with or without a byte order mark, whose characters are below 256: other texts (UTF-16 and UTF-32
  among them) are refused. \<open>repr\<close> of a float literal's value is a parameter. The reader recurses on fuel; the
  twice the length of the text is enough, since every nested value takes at least one character.
\<close>

section \<open>Bytes and blanks\<close>

fun utf8_decode :: "string \<Rightarrow> string option" where
  "utf8_decode [] = Some []"
| "utf8_decode [b] = (if (of_char b :: nat) < 128 then Some [b] else None)"
| "utf8_decode (b # c # bs) =
    (let m = of_char b :: nat; n = of_char c :: nat in
     if m < 128 then map_option ((#) b) (utf8_decode (c # bs))
     else if (m = 194 \<or> m = 195) \<and> 128 \<le> n \<and> n < 192 then map_option ((#) (char_of ((m - 192) * 64 + (n - 128)))) (utf8_decode bs)
     else None)"

definition skip_bom :: "string \<Rightarrow> string" where
  "skip_bom bs = (if take 3 bs = [CHR 0xEF, CHR 0xBB, CHR 0xBF] then drop 3 bs else bs)"

definition skip_blanks :: "string \<Rightarrow> string" where
  "skip_blanks = dropWhile (\<lambda>c. c \<in> {CHR '' '', CHR 0x09, CHR 0x0A, CHR 0x0D})"

section \<open>Tokens\<close>

definition hex_value :: "char \<Rightarrow> nat option" where
  "hex_value c = (let n = of_char c :: nat in
     if 48 \<le> n \<and> n \<le> 57 then Some (n - 48) else if 97 \<le> n \<and> n \<le> 102 then Some (n - 87)
     else if 65 \<le> n \<and> n \<le> 70 then Some (n - 55) else None)"

definition hex_code :: "char \<Rightarrow> char \<Rightarrow> char \<Rightarrow> char \<Rightarrow> char option" where
  "hex_code a b c d = (case (hex_value a, hex_value b, hex_value c, hex_value d) of
     (Some w, Some x, Some y, Some z) \<Rightarrow> if w = 0 \<and> x = 0 then Some (char_of (y * 16 + z)) else None
   | _ \<Rightarrow> None)"

definition unescaped :: "char \<Rightarrow> char option" where
  "unescaped c = map_of [(CHR 0x22, CHR 0x22), (CHR 0x5C, CHR 0x5C), (CHR ''/'', CHR ''/''), (CHR ''b'', CHR 0x08), (CHR ''f'', CHR 0x0C),
     (CHR ''n'', CHR 0x0A), (CHR ''r'', CHR 0x0D), (CHR ''t'', CHR 0x09)] c"

text \<open>The rest of a string after its opening quote.\<close>

fun read_string :: "string \<Rightarrow> (string \<times> string) option" where
  "read_string [] = None"
| "read_string (c # s) =
    (if c = CHR 0x22 then Some ([], s)
     else if (of_char c :: nat) < 32 then None
     else if c \<noteq> CHR 0x5C then map_option (\<lambda>(t, r). (c # t, r)) (read_string s)
     else case s of
       [] \<Rightarrow> None
     | e # s' \<Rightarrow>
         if e \<noteq> CHR ''u'' then (case unescaped e of None \<Rightarrow> None | Some d \<Rightarrow> map_option (\<lambda>(t, r). (d # t, r)) (read_string s'))
         else case s' of
           w # x # y # z # s'' \<Rightarrow> (case hex_code w x y z of None \<Rightarrow> None | Some d \<Rightarrow> map_option (\<lambda>(t, r). (d # t, r)) (read_string s''))
         | _ \<Rightarrow> None)"

text \<open>A number: its integer part, its fraction with exponent, and what follows.\<close>

definition read_int :: "string \<Rightarrow> (string \<times> string) option" where
  "read_int s = (case s of
     [] \<Rightarrow> None
   | c # r \<Rightarrow> if c = CHR ''0'' then Some ([c], r) else if is_digit c then Some (takeWhile is_digit s, dropWhile is_digit s) else None)"

definition read_frac :: "string \<Rightarrow> string \<times> string" where
  "read_frac s = (case s of
     c # r \<Rightarrow> if c = CHR ''.'' \<and> takeWhile is_digit r \<noteq> [] then (c # takeWhile is_digit r, dropWhile is_digit r) else ([], s)
   | [] \<Rightarrow> ([], []))"

definition read_exp :: "string \<Rightarrow> string \<times> string" where
  "read_exp s = (case s of
     c # r \<Rightarrow>
       let sign = takeWhile (\<lambda>x. x \<in> {CHR ''+'', CHR ''-''}) (take 1 r); d = drop (length sign) r
       in if c \<in> {CHR ''e'', CHR ''E''} \<and> takeWhile is_digit d \<noteq> [] then (c # sign @ takeWhile is_digit d, dropWhile is_digit d) else ([], s)
   | [] \<Rightarrow> ([], []))"

definition read_number :: "string \<Rightarrow> (string \<times> string \<times> string) option" where
  "read_number s =
    (let sign = takeWhile (\<lambda>x. x = CHR ''-'') (take 1 s)
     in case read_int (drop (length sign) s) of
       None \<Rightarrow> None
     | Some (i, r) \<Rightarrow> (case read_frac r of (f, r') \<Rightarrow> case read_exp r' of (e, r'') \<Rightarrow> Some (sign @ i, f @ e, r'')))"

definition int_of_text :: "string \<Rightarrow> int" where
  "int_of_text s = (case s of
     c # r \<Rightarrow> if c = CHR ''-'' then - int (digits_val r) else int (digits_val s) | [] \<Rightarrow> 0)"

definition number_value :: "(string \<Rightarrow> string) \<Rightarrow> string \<Rightarrow> string \<Rightarrow> json" where
  "number_value fr i f = (if f = [] then JInt (int_of_text i) else JFloat (fr (i @ f)))"

definition starting :: "string \<Rightarrow> string \<Rightarrow> bool" where
  "starting p s = (take (length p) s = p)"

text \<open>Literals, numbers and the constants of \<open>json\<close> that are not JSON.\<close>

definition read_scalar :: "(string \<Rightarrow> string) \<Rightarrow> string \<Rightarrow> (json \<times> string) option" where
  "read_scalar fr s =
    (if starting ''null'' s then Some (JNull, drop 4 s)
     else if starting ''true'' s then Some (JBool True, drop 4 s)
     else if starting ''false'' s then Some (JBool False, drop 5 s)
     else if starting ''NaN'' s then Some (JFloat ''nan'', drop 3 s)
     else if starting ''Infinity'' s then Some (JFloat ''inf'', drop 8 s)
     else if starting ''-Infinity'' s then Some (JFloat ''-inf'', drop 9 s)
     else map_option (\<lambda>(i, f, r). (number_value fr i f, r)) (read_number s))"

section \<open>Values\<close>

definition after :: "char \<Rightarrow> string \<Rightarrow> string option" where
  "after c s = (case skip_blanks s of d # r \<Rightarrow> if d = c then Some (skip_blanks r) else None | [] \<Rightarrow> None)"

fun read_value :: "(string \<Rightarrow> string) \<Rightarrow> nat \<Rightarrow> string \<Rightarrow> (json \<times> string) option"
  and read_items :: "(string \<Rightarrow> string) \<Rightarrow> nat \<Rightarrow> string \<Rightarrow> (json list \<times> string) option"
  and read_members :: "(string \<Rightarrow> string) \<Rightarrow> nat \<Rightarrow> string \<Rightarrow> ((string \<times> json) list \<times> string) option"
where
  "read_value fr 0 s = None"
| "read_value fr (Suc n) s = (case s of
     [] \<Rightarrow> None
   | c # r \<Rightarrow>
       if c = CHR 0x22 then map_option (\<lambda>(t, r). (JStr t, r)) (read_string r)
       else if c = CHR ''{'' then
         (if starting ''}'' (skip_blanks r) then Some (JObj [], tl (skip_blanks r))
          else map_option (\<lambda>(kvs, r). (JObj (dict_of kvs), r)) (read_members fr n (skip_blanks r)))
       else if c = CHR ''['' then
         (if starting '']'' (skip_blanks r) then Some (JList [], tl (skip_blanks r))
          else map_option (\<lambda>(vs, r). (JList vs, r)) (read_items fr n (skip_blanks r)))
       else read_scalar fr s)"
| "read_items fr 0 s = None"
| "read_items fr (Suc n) s = (case read_value fr n s of
     None \<Rightarrow> None
   | Some (v, r) \<Rightarrow>
       if starting '']'' (skip_blanks r) then Some ([v], tl (skip_blanks r))
       else case after (CHR '','') r of
         None \<Rightarrow> None
       | Some r' \<Rightarrow> map_option (\<lambda>(vs, r). (v # vs, r)) (read_items fr n r'))"
| "read_members fr 0 s = None"
| "read_members fr (Suc n) s = (case s of
     [] \<Rightarrow> None
   | c # r \<Rightarrow>
       if c \<noteq> CHR 0x22 then None
       else case read_string r of
         None \<Rightarrow> None
       | Some (k, r1) \<Rightarrow> (case after (CHR '':'') r1 of
           None \<Rightarrow> None
         | Some r2 \<Rightarrow> (case read_value fr n r2 of
             None \<Rightarrow> None
           | Some (v, r3) \<Rightarrow>
               if starting ''}'' (skip_blanks r3) then Some ([(k, v)], tl (skip_blanks r3))
               else case after (CHR '','') r3 of
                 None \<Rightarrow> None
               | Some r4 \<Rightarrow> map_option (\<lambda>(kvs, r). ((k, v) # kvs, r)) (read_members fr n r4))))"

definition json_loads :: "(string \<Rightarrow> string) \<Rightarrow> string \<Rightarrow> json option" where
  "json_loads fr bs = (case utf8_decode (skip_bom bs) of
     None \<Rightarrow> None
   | Some t \<Rightarrow> (case read_value fr (Suc (2 * length t)) (skip_blanks t) of
       Some (v, r) \<Rightarrow> if skip_blanks r = [] then Some v else None | None \<Rightarrow> None))"

section \<open>The fuel is enough\<close>

lemma skip_blanks_le: "length (skip_blanks s) \<le> length s"
  by (simp add: skip_blanks_def length_dropWhile_le)

lemma after_less: "after c s = Some r \<Longrightarrow> length r < length s"
proof -
  assume "after c s = Some r"
  then obtain d u where u: "skip_blanks s = d # u" "r = skip_blanks u" by (auto simp: after_def split: list.splits if_splits)
  with skip_blanks_le [of s] skip_blanks_le [of u] show ?thesis by simp
qed

lemma read_string_less: "read_string s = Some (t, r) \<Longrightarrow> length r < length s"
  by (induction s arbitrary: t rule: read_string.induct)
    (force split: if_splits list.splits option.splits)+

lemma read_int_less: "read_int s = Some (i, r) \<Longrightarrow> length r < length s"
  by (auto simp: read_int_def length_dropWhile_le less_Suc_eq_le split: list.splits if_splits)

lemma read_frac_le: "read_frac s = (f, r) \<Longrightarrow> length r \<le> length s"
  by (auto simp: read_frac_def length_dropWhile_le le_SucI split: list.splits if_splits)

lemma read_exp_le: "read_exp s = (f, r) \<Longrightarrow> length r \<le> length s"
proof -
  assume a: "read_exp s = (f, r)"
  show ?thesis
  proof (cases s)
    case (Cons c u)
    let ?d = "drop (length (takeWhile (\<lambda>x. x \<in> {CHR ''+'', CHR ''-''}) (take 1 u))) u"
    from a Cons have "r = dropWhile is_digit ?d \<or> r = s" unfolding read_exp_def Let_def by (simp only: list.case split: if_splits) blast+
    moreover have "length (dropWhile is_digit ?d) \<le> length ?d" "length ?d \<le> length u" by (rule length_dropWhile_le, simp)
    ultimately show ?thesis using Cons by auto
  qed (use a in \<open>simp add: read_exp_def\<close>)
qed

lemma read_number_less: "read_number s = Some (i, f, r) \<Longrightarrow> length r < length s"
proof -
  assume a: "read_number s = Some (i, f, r)"
  let ?s = "drop (length (takeWhile (\<lambda>x. x = CHR ''-'') (take 1 s))) s"
  from a obtain j u f' v e where "read_int ?s = Some (j, u)" "read_frac u = (f', v)" "read_exp v = (e, r)"
    by (auto simp: read_number_def Let_def split: option.splits prod.splits)
  with read_int_less read_frac_le read_exp_le have "length u < length ?s" "length v \<le> length u" "length r \<le> length v" by blast+
  moreover have "length ?s \<le> length s" by simp
  ultimately show ?thesis by linarith
qed

lemma starting_nonempty: "starting (c # p) s \<Longrightarrow> s \<noteq> []"
  by (auto simp: starting_def)

lemma read_scalar_less: "read_scalar fr s = Some (v, r) \<Longrightarrow> length r < length s"
  by (cases s) (auto simp: read_scalar_def starting_def dest!: read_number_less split: if_splits)

lemma tl_less: "starting (c # p) (skip_blanks s) \<Longrightarrow> length (tl (skip_blanks s)) < length s"
  using skip_blanks_le [of s] starting_nonempty [of c p "skip_blanks s"] by (cases "skip_blanks s") auto

lemma read_value_open:
  "read_value fr (Suc n) (CHR 0x22 # r) = map_option (\<lambda>(t, r). (JStr t, r)) (read_string r)"
  "read_value fr (Suc n) (CHR ''{'' # r) = (if starting ''}'' (skip_blanks r) then Some (JObj [], tl (skip_blanks r))
     else map_option (\<lambda>(kvs, r). (JObj (dict_of kvs), r)) (read_members fr n (skip_blanks r)))"
  "read_value fr (Suc n) (CHR ''['' # r) = (if starting '']'' (skip_blanks r) then Some (JList [], tl (skip_blanks r))
     else map_option (\<lambda>(vs, r). (JList vs, r)) (read_items fr n (skip_blanks r)))"
  "c \<notin> {CHR 0x22, CHR ''{'', CHR ''[''} \<Longrightarrow> read_value fr (Suc n) (c # r) = read_scalar fr (c # r)"
  "read_value fr (Suc n) [] = None"
  by simp_all

lemma read_value_less:
  assumes "\<And>s vs r. read_items fr n s = Some (vs, r) \<Longrightarrow> length r < length s"
    and "\<And>s kvs r. read_members fr n s = Some (kvs, r) \<Longrightarrow> length r < length s"
    and a: "read_value fr (Suc n) s = Some (v, r)"
  shows "length r < length s"
proof (cases s)
  case (Cons c u)
  have step: "length t < length s" if "length t < length (skip_blanks u) \<or> t = tl (skip_blanks u)" for t
    using that skip_blanks_le [of u] Cons by (auto simp: less_Suc_eq_le)
  consider "c = CHR 0x22" | "c = CHR ''{''" | "c = CHR ''[''" | "c \<notin> {CHR 0x22, CHR ''{'', CHR ''[''}" by blast
  then show ?thesis
  proof cases
    case 1
    with a Cons show ?thesis by (auto simp del: read_value.simps simp: read_value_open dest!: read_string_less)
  next
    case 2
    with a Cons have "(\<exists>kvs. read_members fr n (skip_blanks u) = Some (kvs, r)) \<or> r = tl (skip_blanks u)"
      by (auto simp del: read_value.simps simp: read_value_open split: if_splits)
    with assms(2) step show ?thesis by blast
  next
    case 3
    with a Cons have "(\<exists>vs. read_items fr n (skip_blanks u) = Some (vs, r)) \<or> r = tl (skip_blanks u)"
      by (auto simp del: read_value.simps simp: read_value_open split: if_splits)
    with assms(1) step show ?thesis by blast
  next
    case 4
    have "read_scalar fr s = Some (v, r)" using a unfolding Cons read_value_open(4) [OF 4] .
    then show ?thesis by (rule read_scalar_less)
  qed
qed (use a in simp)

text \<open>The shape of a successful step over the items of a list and the members of an object.\<close>

lemma read_items_step:
  assumes "read_items fr (Suc n) s = Some (vs, r)"
  obtains v u where "read_value fr n s = Some (v, u)" "starting '']'' (skip_blanks u)" "vs = [v]" "r = tl (skip_blanks u)"
  | v u w ws where "read_value fr n s = Some (v, u)" "\<not> starting '']'' (skip_blanks u)" "after (CHR '','') u = Some w"
      "read_items fr n w = Some (ws, r)" "vs = v # ws"
  using assms by (auto split: option.splits if_splits)

lemma read_members_step:
  assumes "read_members fr (Suc n) s = Some (kvs, r)"
  obtains s0 k r1 r2 v u where "s = CHR 0x22 # s0" "read_string s0 = Some (k, r1)" "after (CHR '':'') r1 = Some r2"
      "read_value fr n r2 = Some (v, u)" "starting ''}'' (skip_blanks u)" "kvs = [(k, v)]" "r = tl (skip_blanks u)"
  | s0 k r1 r2 v u w ws where "s = CHR 0x22 # s0" "read_string s0 = Some (k, r1)" "after (CHR '':'') r1 = Some r2"
      "read_value fr n r2 = Some (v, u)" "\<not> starting ''}'' (skip_blanks u)" "after (CHR '','') u = Some w"
      "read_members fr n w = Some (ws, r)" "kvs = (k, v) # ws"
  using assms by (auto split: option.splits list.splits if_splits)

lemma read_members_more:
  assumes "read_string s = Some (k, r1)" "after (CHR '':'') r1 = Some r2" "read_value fr n r2 = Some (v, u)" "after (CHR '','') u = Some w"
  shows "read_members fr (Suc n) (CHR 0x22 # s) = (if starting ''}'' (skip_blanks u) then Some ([(k, v)], tl (skip_blanks u))
    else map_option (\<lambda>(kvs, r). ((k, v) # kvs, r)) (read_members fr n w))"
  using assms by simp

lemma read_members_last:
  assumes "read_string s = Some (k, r1)" "after (CHR '':'') r1 = Some r2" "read_value fr n r2 = Some (v, u)" "after (CHR '','') u = None"
  shows "read_members fr (Suc n) (CHR 0x22 # s) = (if starting ''}'' (skip_blanks u) then Some ([(k, v)], tl (skip_blanks u)) else None)"
  using assms by simp

lemma read_less_all:
  "(\<forall>s v r. read_value fr n s = Some (v, r) \<longrightarrow> length r < length s)
    \<and> (\<forall>s vs r. read_items fr n s = Some (vs, r) \<longrightarrow> length r < length s)
    \<and> (\<forall>s kvs r. read_members fr n s = Some (kvs, r) \<longrightarrow> length r < length s)"
proof (induction n)
  case (Suc n)
  have v: "length r < length s" if "read_value fr n s = Some (v, r)" for s v r using Suc that by blast
  have i: "length r < length s" if "read_items fr n s = Some (vs, r)" for s vs r using Suc that by blast
  have m: "length r < length s" if "read_members fr n s = Some (kvs, r)" for s kvs r using Suc that by blast
  have "length r < length s" if "read_items fr (Suc n) s = Some (vs, r)" for s vs r
    using that
  proof (cases rule: read_items_step)
    case (1 x u)
    with v [OF 1(1)] tl_less [OF 1(2)] show ?thesis by simp
  next
    case (2 x u w ws)
    with v [OF 2(1)] after_less [OF 2(3)] i [OF 2(4)] show ?thesis by simp
  qed
  moreover have "length r < length s" if "read_members fr (Suc n) s = Some (kvs, r)" for s kvs r
    using that
  proof (cases rule: read_members_step)
    case (1 s0 k r1 r2 x u)
    with v [OF 1(4)] read_string_less [OF 1(2)] after_less [OF 1(3)] tl_less [OF 1(5)] show ?thesis by simp
  next
    case (2 s0 k r1 r2 x u w ws)
    with v [OF 2(4)] read_string_less [OF 2(2)] after_less [OF 2(3)] after_less [OF 2(6)] m [OF 2(7)] show ?thesis by simp
  qed
  moreover have "length r < length s" if "read_value fr (Suc n) s = Some (v, r)" for s v r
    by (rule read_value_less [OF _ _ that]) (use i m in blast)+
  ultimately show ?case by blast
qed simp

lemma read_value_shrinks: "read_value fr n s = Some (v, r) \<Longrightarrow> length r < length s"
  using read_less_all by blast

lemma read_value_fuel:
  assumes "\<And>s. length s \<le> l \<Longrightarrow> read_items fr m s = read_items fr n s"
    and "\<And>s. length s \<le> l \<Longrightarrow> read_members fr m s = read_members fr n s" and "length s \<le> Suc l"
  shows "read_value fr (Suc m) s = read_value fr (Suc n) s"
proof (cases s)
  case (Cons c u)
  have "length (skip_blanks u) \<le> l" using assms(3) skip_blanks_le [of u] Cons by simp
  with assms(1,2) have eq: "read_items fr m (skip_blanks u) = read_items fr n (skip_blanks u)"
    "read_members fr m (skip_blanks u) = read_members fr n (skip_blanks u)" by blast+
  show ?thesis unfolding Cons by (simp add: eq)
qed simp

lemma fuel_enough_all:
  "(\<forall>s n m. length s \<le> l \<and> 2 * length s < n \<and> 2 * length s < m \<longrightarrow> read_value fr n s = read_value fr m s)
    \<and> (\<forall>s n m. length s \<le> l \<and> 2 * length s + 1 < n \<and> 2 * length s + 1 < m \<longrightarrow> read_items fr n s = read_items fr m s)
    \<and> (\<forall>s n m. length s \<le> l \<and> 2 * length s + 1 < n \<and> 2 * length s + 1 < m \<longrightarrow> read_members fr n s = read_members fr m s)"
proof (induction l rule: less_induct)
  case (less l)
  have i: "read_items fr n s = read_items fr m s" if "length s < l" "2 * length s + 1 < n" "2 * length s + 1 < m" for s n m
    using less [of "length s"] that by blast
  have k: "read_members fr n s = read_members fr m s" if "length s < l" "2 * length s + 1 < n" "2 * length s + 1 < m" for s n m
    using less [of "length s"] that by blast
  have v: "read_value fr n s = read_value fr m s" if s: "length s \<le> l" "2 * length s < n" "2 * length s < m" for s n m
  proof (cases s)
    case (Cons c u)
    obtain n' m' where n: "n = Suc n'" "m = Suc m'" using s by (cases n; cases m) auto
    have l: "length u < l" using s(1) Cons by simp
    show ?thesis unfolding n
    proof (rule read_value_fuel [of "length u"])
      show "read_items fr n' t = read_items fr m' t" if "length t \<le> length u" for t using i [of t n' m'] that s Cons n l by simp
      show "read_members fr n' t = read_members fr m' t" if "length t \<le> length u" for t using k [of t n' m'] that s Cons n l by simp
    qed (simp add: Cons)
  qed (use s in \<open>cases n; cases m; simp\<close>)
  have "read_items fr n s = read_items fr m s" if s: "length s \<le> l" "2 * length s + 1 < n" "2 * length s + 1 < m" for s n m
  proof -
    obtain n' m' where n: "n = Suc n'" "m = Suc m'" using s by (cases n; cases m) auto
    have eq: "read_value fr n' s = read_value fr m' s" using v [of s n' m'] s n by simp
    show ?thesis
    proof (cases "read_value fr m' s")
      case (Some p)
      obtain x u where p: "p = (x, u)" by (cases p)
      have u: "length u < length s" using read_value_shrinks [of fr m' s x u] Some p by simp
      have "read_items fr n' w = read_items fr m' w" if "after (CHR '','') u = Some w" for w
        using i [of w n' m'] after_less [OF that] u s n by simp
      then show ?thesis unfolding n read_items.simps eq Some p by (auto split: option.split)
    qed (simp add: n eq)
  qed
  moreover have "read_members fr n s = read_members fr m s" if s: "length s \<le> l" "2 * length s + 1 < n" "2 * length s + 1 < m" for s n m
  proof -
    obtain n' m' where n: "n = Suc n'" "m = Suc m'" using s by (cases n; cases m) auto
    show ?thesis
    proof (cases "\<exists>s0 y r1 r2. s = CHR 0x22 # s0 \<and> read_string s0 = Some (y, r1) \<and> after (CHR '':'') r1 = Some r2")
      case False
      then show ?thesis unfolding n by (auto split: list.split option.split)
    next
      case True
      then obtain s0 y r1 r2 where s0: "s = CHR 0x22 # s0" "read_string s0 = Some (y, r1)" "after (CHR '':'') r1 = Some r2" by blast
      have r2: "length r2 < length s" using read_string_less [OF s0(2)] after_less [OF s0(3)] s0(1) by simp
      have eq: "read_value fr n' r2 = read_value fr m' r2" using v [of r2 n' m'] r2 s n by simp
      show ?thesis
      proof (cases "read_value fr m' r2")
        case None
        with s0 eq show ?thesis unfolding n by simp
      next
        case (Some p)
        obtain x u where p: "p = (x, u)" by (cases p)
        have u: "length u < length s" using read_value_shrinks [of fr m' r2 x u] Some p r2 by simp
        have w: "read_members fr n' w = read_members fr m' w" if "after (CHR '','') u = Some w" for w
          using k [of w n' m'] after_less [OF that] u s n by simp
        from Some p eq have x: "read_value fr n' r2 = Some (x, u)" "read_value fr m' r2 = Some (x, u)" by simp_all
        show ?thesis
        proof (cases "after (CHR '','') u")
          case None
          show ?thesis unfolding n s0(1) read_members_last [OF s0(2,3) x(1) None] read_members_last [OF s0(2,3) x(2) None] ..
        next
          case (Some r4)
          show ?thesis unfolding n s0(1) read_members_more [OF s0(2,3) x(1) Some] read_members_more [OF s0(2,3) x(2) Some] w [OF Some] ..
        qed
      qed
    qed
  qed
  ultimately show ?case using v by blast
qed

text \<open>More fuel than twice the length of the text never changes what is read.\<close>

lemma read_fuel_enough: "2 * length s < n \<Longrightarrow> read_value fr n s = read_value fr (Suc (2 * length s)) s"
proof -
  assume "2 * length s < n"
  then have "length s \<le> length s \<and> 2 * length s < n \<and> 2 * length s < Suc (2 * length s)" by simp
  with fuel_enough_all [of "length s" fr, THEN conjunct1] show ?thesis by blast
qed

section \<open>Reading what was written\<close>

lemma utf8_decode_char: "utf8_decode (utf8_char c @ s) = map_option ((#) c) (utf8_decode s)"
proof (cases "(of_char c :: nat) < 128")
  case True
  then show ?thesis by (cases s) (simp_all add: utf8_char_def Let_def)
next
  case False
  let ?n = "of_char c :: nat"
  have n: "?n < 256" "128 \<le> ?n" using False by simp_all
  have q: "2 \<le> ?n div 64" "?n div 64 < 4" using div_le_mono [OF n(2), of 64] n(1) by (simp_all add: less_mult_imp_div_less)
  have hi: "(of_char (char_of (192 + ?n div 64)) :: nat) = 192 + ?n div 64" and lo: "(of_char (char_of (128 + ?n mod 64)) :: nat) = 128 + ?n mod 64"
    using q by (simp_all add: of_char_of)
  have "192 + ?n div 64 = 194 \<or> 192 + ?n div 64 = 195" using q by linarith
  moreover have "(192 + ?n div 64 - 192) * 64 + (128 + ?n mod 64 - 128) = ?n" by simp
  then have "char_of ((192 + ?n div 64 - 192) * 64 + (128 + ?n mod 64 - 128)) = c" by (metis char_of_char)
  ultimately show ?thesis using False unfolding utf8_char_def Let_def if_not_P [OF False] append_Cons append_Nil utf8_decode.simps hi lo
    by (simp only: if_False if_True) simp
qed

lemma utf8_decode_utf8 [simp]: "utf8_decode (utf8 s) = Some s"
  by (induction s) (simp_all add: utf8_def utf8_decode_char)

lemma skip_bom_utf8 [simp]: "skip_bom (utf8 s) = utf8 s"
proof (cases s)
  case (Cons c u)
  have "hd (utf8_char c) \<noteq> CHR 0xEF"
  proof -
    have "(of_char c :: nat) div 64 < 4" by (simp add: less_mult_imp_div_less)
    then have "192 + (of_char c :: nat) div 64 < 239" by simp
    then have "char_of (192 + (of_char c :: nat) div 64) \<noteq> CHR 0xEF" by (auto dest!: arg_cong [where f = "of_char :: char \<Rightarrow> nat"])
    then show ?thesis by (auto simp: utf8_char_def Let_def)
  qed
  moreover obtain d w where "utf8_char c = d # w" using utf8_char_not_Nil [of c] by (cases "utf8_char c") auto
  ultimately show ?thesis by (simp add: Cons utf8_def skip_bom_def)
qed (simp add: utf8_def skip_bom_def)

lemma hex_value_char: "n < 16 \<Longrightarrow> hex_value (hex_char n) = Some n"
  by (auto simp: hex_value_def Let_def)

lemma read_esc: "read_string (esc_char c @ s) = map_option (\<lambda>(t, r). (c # t, r)) (read_string s)"
proof -
  have "(of_char c :: nat) div 16 * 16 + of_char c mod 16 = of_char c" by simp
  then have "char_of ((of_char c :: nat) div 16 * 16 + of_char c mod 16) = c" by simp
  moreover have "hex_value (CHR ''0'') = Some 0" by (simp add: hex_value_def)
  ultimately have h: "hex_code (CHR ''0'') (CHR ''0'') (hex_char (of_char c div 16)) (hex_char (of_char c mod 16)) = Some c"
    if "(of_char c :: nat) < 32" using that by (simp add: hex_code_def hex_value_char)
  show ?thesis by (auto simp: esc_char_def unescaped_def h)
qed

lemma read_json_str: "read_string (concat (map esc_char s) @ CHR 0x22 # r) = Some (s, r)"
  by (induction s) (simp_all add: read_esc)

text \<open>What may follow a value inside of a text.\<close>

definition stops :: "string \<Rightarrow> bool" where
  "stops r = (case r of [] \<Rightarrow> True | c # _ \<Rightarrow> c \<in> set '',]}'')"

lemma stops_digits: "stops r \<Longrightarrow> takeWhile is_digit (s @ r) = takeWhile is_digit s \<and> dropWhile is_digit (s @ r) = dropWhile is_digit s @ r"
  by (induction s) (auto simp: stops_def is_digit_def split: list.splits)

lemma read_int_append: "read_int s = Some (i, u) \<Longrightarrow> stops r \<Longrightarrow> read_int (s @ r) = Some (i, u @ r)"
  using stops_digits [of r s] by (auto simp: read_int_def split: list.splits if_splits)

lemma read_frac_append: "read_frac s = (f, u) \<Longrightarrow> stops r \<Longrightarrow> read_frac (s @ r) = (f, u @ r)"
  using stops_digits [of r "tl s"] by (cases s) (auto simp: read_frac_def stops_def split: list.splits if_splits)

lemma read_exp_append: "read_exp s = (f, u) \<Longrightarrow> stops r \<Longrightarrow> read_exp (s @ r) = (f, u @ r)"
proof (cases s)
  case Nil
  then show "read_exp s = (f, u) \<Longrightarrow> stops r \<Longrightarrow> read_exp (s @ r) = (f, u @ r)"
    by (auto simp: read_exp_def stops_def Let_def split: list.splits)
next
  case (Cons c v)
  assume a: "read_exp s = (f, u)" and r: "stops r"
  let ?P = "\<lambda>x. x \<in> {CHR ''+'', CHR ''-''}"
  let ?sign = "takeWhile ?P (take 1 v)"
  have sign: "takeWhile ?P (take 1 (v @ r)) = ?sign" using r by (cases v) (auto simp: stops_def split: list.splits)
  have "length ?sign \<le> length v" by (cases v) auto
  then have d: "drop (length ?sign) (v @ r) = drop (length ?sign) v @ r" by simp
  note dig = stops_digits [OF r, of "drop (length ?sign) v"]
  show "read_exp (s @ r) = (f, u @ r)"
    using a unfolding Cons read_exp_def Let_def append_Cons list.case sign d using dig by (auto split: if_splits)
qed

lemma read_int_parts: "read_int s = Some (i, u) \<Longrightarrow> s = i @ u \<and> (\<exists>c j. i = c # j \<and> is_digit c)"
proof (cases s)
  case (Cons c v)
  assume a: "read_int s = Some (i, u)"
  show ?thesis
  proof (cases "c = CHR ''0''")
    case True
    then have "i = ''0''" "u = v" using a Cons by (simp_all add: read_int_def)
    moreover have "is_digit (CHR ''0'')" by code_simp
    ultimately show ?thesis using True Cons by simp
  next
    case False
    with a Cons have "is_digit c" "i = takeWhile is_digit s" "u = dropWhile is_digit s" by (simp_all add: read_int_def split: if_splits)
    with Cons show ?thesis by simp
  qed
qed (simp add: read_int_def)

lemma read_frac_parts: "read_frac s = (f, u) \<Longrightarrow> s = f @ u"
  by (auto simp: read_frac_def split: list.splits if_splits)

lemma read_exp_parts: "read_exp s = (f, u) \<Longrightarrow> s = f @ u"
proof (cases s)
  case (Cons c v)
  assume a: "read_exp s = (f, u)"
  let ?sign = "takeWhile (\<lambda>x. x \<in> {CHR ''+'', CHR ''-''}) (take 1 v)"
  have "v = ?sign @ drop (length ?sign) v" by (cases v) auto
  moreover have "drop (length ?sign) v = takeWhile is_digit (drop (length ?sign) v) @ dropWhile is_digit (drop (length ?sign) v)" by simp
  ultimately have "v = ?sign @ takeWhile is_digit (drop (length ?sign) v) @ dropWhile is_digit (drop (length ?sign) v)" by metis
  moreover have "f = c # ?sign @ takeWhile is_digit (drop (length ?sign) v) \<and> u = dropWhile is_digit (drop (length ?sign) v) \<or> f = [] \<and> u = s"
    using a unfolding Cons read_exp_def Let_def list.case by (simp split: if_splits)
  ultimately show ?thesis unfolding Cons by (metis append_Cons append_Nil append_assoc)
qed (simp add: read_exp_def)

lemma read_number_append:
  assumes n: "read_number s = Some (i, f, u)" and r: "stops r"
  shows "read_number (s @ r) = Some (i, f, u @ r)" "s = i @ f @ u"
    "\<exists>c t. s = c # t \<and> (is_digit c \<or> c = CHR ''-'' \<and> (\<exists>d w. t = d # w \<and> is_digit d))"
proof -
  let ?m = "\<lambda>s. takeWhile (\<lambda>x. x = CHR ''-'') (take 1 s)"
  from n obtain j x g y e where p: "read_int (drop (length (?m s)) s) = Some (j, x)" "read_frac x = (g, y)" "read_exp y = (e, u)"
    and if': "i = ?m s @ j" "f = g @ e" by (auto simp: read_number_def Let_def split: option.splits prod.splits)
  have m: "?m s = [] \<or> (\<exists>t. s = CHR ''-'' # t \<and> ?m s = ''-'')" by (cases s) auto
  have s: "s = ?m s @ drop (length (?m s)) s" using m by auto
  have "s \<noteq> []" using read_int_parts [OF p(1)] by auto
  then have ms: "?m (s @ r) = ?m s" by (cases s) auto
  have le: "length (?m s) \<le> length s" using m by auto
  show "read_number (s @ r) = Some (i, f, u @ r)"
    using read_int_append [OF p(1) r] read_frac_append [OF p(2) r] read_exp_append [OF p(3) r] le
    unfolding read_number_def Let_def ms if' by simp
  show "s = i @ f @ u" using s read_int_parts [OF p(1)] read_frac_parts [OF p(2)] read_exp_parts [OF p(3)] if' by (metis append.assoc)
  show "\<exists>c t. s = c # t \<and> (is_digit c \<or> c = CHR ''-'' \<and> (\<exists>d w. t = d # w \<and> is_digit d))"
    using m read_int_parts [OF p(1)] by fastforce
qed

lemma nat_str_zero: "hd (nat_str n) = CHR ''0'' \<Longrightarrow> n = 0"
proof (induction n rule: nat_str.induct)
  case (1 n)
  show ?case
  proof (cases "n < 10")
    case True
    with 1(2) have "digit_char n = CHR ''0''" by (simp add: nat_str.simps [of n])
    then have "(of_char (digit_char n) :: nat) = 48" by simp
    with True show ?thesis by simp
  next
    case False
    have "hd (nat_str (n div 10)) = CHR ''0''" using 1(2) False by (simp add: nat_str.simps [of n])
    from 1(1) [OF False this] False show ?thesis by simp
  qed
qed

lemma read_int_nat: "read_int (nat_str n) = Some (nat_str n, [])"
proof (cases "n = 0")
  case True
  have "read_int (nat_str 0) = Some (nat_str 0, [])" by code_simp
  with True show ?thesis by simp
next
  case False
  have all: "\<forall>c \<in> set (nat_str n). is_digit c" using nat_str_digits [of n] by (simp add: list_all_iff)
  obtain c t where c: "nat_str n = c # t" by (cases "nat_str n") auto
  have "c \<noteq> CHR ''0''" using nat_str_zero [of n] False c by auto
  with all c show ?thesis by (simp add: read_int_def)
qed

lemma read_number_int: "read_number (int_str i) = Some (int_str i, [], [])"
proof (cases "i < 0")
  case True
  then show ?thesis by (simp add: read_number_def int_str_def read_int_nat read_frac_def read_exp_def)
next
  case False
  obtain c t where c: "nat_str (nat i) = c # t" by (cases "nat_str (nat i)") auto
  have "c \<noteq> CHR ''-''" using nat_str_no_minus [of "nat i" t] c by auto
  with False c have "takeWhile (\<lambda>x. x = CHR ''-'') (take 1 (nat_str (nat i))) = []" by simp
  with False show ?thesis by (simp add: read_number_def int_str_def read_int_nat read_frac_def read_exp_def)
qed

lemma int_of_int_str: "int_of_text (int_str i) = i"
proof (cases "i < 0")
  case False
  obtain c t where c: "nat_str (nat i) = c # t" by (cases "nat_str (nat i)") auto
  have "c \<noteq> CHR ''-''" using nat_str_no_minus [of "nat i" t] c by auto
  with False show ?thesis using digits_val_nat_str [of "nat i"] by (simp add: int_of_text_def int_str_def c)
qed (simp add: int_of_text_def int_str_def)

text \<open>A float of a value is the text of its number.\<close>

definition float_text :: "(string \<Rightarrow> string) \<Rightarrow> string \<Rightarrow> bool" where
  "float_text fr t = (case read_number t of Some (i, f, r) \<Rightarrow> f \<noteq> [] \<and> r = [] \<and> fr t = t | None \<Rightarrow> False)"

fun readable :: "(string \<Rightarrow> string) \<Rightarrow> json \<Rightarrow> bool" where
  "readable fr (JFloat t) = float_text fr t"
| "readable fr (JList vs) = (\<forall>v \<in> set vs. readable fr v)"
| "readable fr (JObj kvs) = (distinct (map fst kvs) \<and> (\<forall>kv \<in> set kvs. readable fr (snd kv)))"
| "readable fr v = True"

lemma not_starting: "s = c # t \<Longrightarrow> c \<noteq> d \<Longrightarrow> \<not> starting (d # p) s"
  by (simp add: starting_def)

lemma read_scalar_number:
  assumes n: "read_number t = Some (i, f, [])" and r: "stops r"
  shows "read_scalar fr (t @ r) = Some (number_value fr i f, r)"
proof -
  obtain c u where c: "t @ r = c # (u @ r)" "t = c # u" and d: "is_digit c \<or> c = CHR ''-'' \<and> (\<exists>d w. u = d # w \<and> is_digit d)"
    using read_number_append(3) [OF n r] by auto
  have k: "c \<notin> {CHR ''n'', CHR ''t'', CHR ''f'', CHR ''N'', CHR ''I''}" using d by (auto simp: is_digit_def)
  have neg: "\<not> starting ''-Infinity'' (t @ r)"
  proof
    assume s: "starting ''-Infinity'' (t @ r)"
    then have "c = CHR ''-''" unfolding c(1) by (simp add: starting_def)
    with d obtain e w where w: "u = e # w" "is_digit e" by (auto simp: is_digit_def)
    with s have "e = CHR ''I''" unfolding c(1) by (simp add: starting_def)
    with w(2) show False by (simp add: is_digit_def)
  qed
  have "\<not> starting ''null'' (t @ r)" "\<not> starting ''true'' (t @ r)" "\<not> starting ''false'' (t @ r)" "\<not> starting ''NaN'' (t @ r)"
    "\<not> starting ''Infinity'' (t @ r)" using k by (auto intro!: not_starting [OF c(1)])
  with neg read_number_append(1) [OF n r] show ?thesis by (simp add: read_scalar_def)
qed

lemma digit_not_open: "is_digit c \<or> c = CHR ''-'' \<Longrightarrow> c \<notin> {CHR 0x22, CHR ''{'', CHR ''[''}"
  by (auto simp: is_digit_def)

lemma read_value_number:
  assumes n: "read_number t = Some (i, f, [])" and r: "stops r"
  shows "read_value fr (Suc m) (t @ r) = Some (number_value fr i f, r)"
proof -
  obtain c u where c: "t = c # u" "is_digit c \<or> c = CHR ''-''" using read_number_append(3) [OF n r] by auto
  have "read_value fr (Suc m) (t @ r) = read_scalar fr (t @ r)"
    using read_value_open(4) [OF digit_not_open [OF c(2)]] unfolding c(1) append_Cons .
  with read_scalar_number [OF n r] show ?thesis by simp
qed

text \<open>The first character of a text is neither blank nor a closing bracket.\<close>

definition opens :: "string \<Rightarrow> bool" where
  "opens s = (case s of c # _ \<Rightarrow> c \<notin> set '' ]}'' \<and> c \<notin> {CHR 0x09, CHR 0x0A, CHR 0x0D} | [] \<Rightarrow> False)"

lemma opens_blanks: "opens s \<Longrightarrow> skip_blanks (s @ r) = s @ r \<and> \<not> starting (CHR '']'' # p) (s @ r) \<and> \<not> starting (CHR ''}'' # p) (s @ r)"
  by (auto simp: opens_def skip_blanks_def starting_def split: list.splits)

lemma opens_number: "read_number t = Some (i, f, []) \<Longrightarrow> opens t"
  using read_number_append(3) [of t i f "[]" "[]"] by (auto simp: opens_def stops_def is_digit_def split: list.splits)

lemma opens_render: "readable fr v \<Longrightarrow> opens (render v)"
proof (cases v)
  case (JInt i)
  then show ?thesis using opens_number [OF read_number_int] by simp
next
  case (JFloat t)
  assume "readable fr v"
  with JFloat obtain i f where "read_number t = Some (i, f, [])" by (auto simp: float_text_def split: option.splits)
  then show ?thesis using opens_number JFloat by simp
qed (simp_all add: opens_def json_str_def split: list.splits)

lemma closes:
  "skip_blanks (CHR '']'' # r) = CHR '']'' # r" "skip_blanks (CHR ''}'' # r) = CHR ''}'' # r" "skip_blanks (CHR '','' # r) = CHR '','' # r"
  "starting '']'' (CHR '']'' # r)" "starting ''}'' (CHR ''}'' # r)" "\<not> starting '']'' (CHR '','' # r)" "\<not> starting ''}'' (CHR '','' # r)"
  "stops (CHR '']'' # r)" "stops (CHR ''}'' # r)" "stops (CHR '','' # r)"
  by (simp_all add: skip_blanks_def starting_def stops_def)

lemma after_comma: "opens s \<Longrightarrow> after (CHR '','') (CHR '','' # s @ r) = Some (s @ r)"
  using opens_blanks [of s r] by (simp add: after_def closes)

lemma after_colon: "opens s \<Longrightarrow> after (CHR '':'') (CHR '':'' # s @ r) = Some (s @ r)"
  using opens_blanks [of s r] by (simp add: after_def skip_blanks_def)

definition reads :: "(string \<Rightarrow> string) \<Rightarrow> json \<Rightarrow> bool" where
  "reads fr v = (\<forall>n r. stops r \<longrightarrow> length (render v) < n \<longrightarrow> read_value fr n (render v @ r) = Some (v, r))"

lemma readsD: "reads fr v \<Longrightarrow> stops r \<Longrightarrow> length (render v) < n \<Longrightarrow> read_value fr n (render v @ r) = Some (v, r)"
  by (simp add: reads_def)

lemma read_items_render:
  assumes "\<forall>v \<in> set vs. reads fr v \<and> opens (render v)" "vs \<noteq> []" "length (join '','' (map render vs)) + 2 \<le> n"
  shows "read_items fr n (join '','' (map render vs) @ CHR '']'' # r) = Some (vs, r)"
  using assms
proof (induction vs arbitrary: n)
  case (Cons v vs)
  obtain m where n: "n = Suc m" using Cons.prems(3) by (cases n) auto
  have v: "reads fr v" using Cons.prems(1) by simp
  show ?case
  proof (cases "vs = []")
    case True
    then have "read_value fr m (render v @ CHR '']'' # r) = Some (v, CHR '']'' # r)"
      using readsD [OF v closes(8)] Cons.prems(3) n by simp
    with True show ?thesis unfolding n by (simp add: closes)
  next
    case False
    let ?t = "join '','' (map render vs)"
    have j: "join '','' (map render (v # vs)) = render v @ CHR '','' # ?t" using False by (simp add: join_Cons)
    have len: "length (render v) < m" "length ?t + 2 \<le> m" using Cons.prems(3) unfolding j n by simp_all
    have "opens ?t" using Cons.prems(1) False by (cases vs) (auto simp: join_Cons opens_def split: list.splits)
    then have aft: "after (CHR '','') (CHR '','' # ?t @ CHR '']'' # r) = Some (?t @ CHR '']'' # r)" by (rule after_comma)
    have v1: "read_value fr m (render v @ CHR '','' # ?t @ CHR '']'' # r) = Some (v, CHR '','' # ?t @ CHR '']'' # r)"
      by (rule readsD [OF v closes(10) len(1)])
    have "read_items fr m (?t @ CHR '']'' # r) = Some (vs, r)" using Cons.IH [OF _ False len(2)] Cons.prems(1) by simp
    with v1 aft show ?thesis unfolding n j by (simp add: closes)
  qed
qed simp

lemma read_members_render:
  assumes "\<forall>kv \<in> set kvs. reads fr (snd kv) \<and> opens (render (snd kv))" "kvs \<noteq> []"
    "length (join '','' (map (\<lambda>(k, v). json_member (k, render v)) kvs)) + 2 \<le> n"
  shows "read_members fr n (join '','' (map (\<lambda>(k, v). json_member (k, render v)) kvs) @ CHR ''}'' # r) = Some (kvs, r)"
  using assms
proof (induction kvs arbitrary: n)
  case (Cons kv kvs)
  obtain k v where kv: "kv = (k, v)" by (cases kv)
  obtain m where n: "n = Suc m" using Cons.prems(3) by (cases n) auto
  let ?f = "\<lambda>(k, v). json_member (k, render v)" and ?s = "concat (map esc_char k)"
  have v: "reads fr v" "opens (render v)" using Cons.prems(1) kv by simp_all
  have m: "json_member (k, render v) = CHR 0x22 # ?s @ CHR 0x22 # CHR '':'' # render v" by (simp add: json_member_def json_str_def)
  have str: "read_string (?s @ CHR 0x22 # CHR '':'' # render v @ x) = Some (k, CHR '':'' # render v @ x)" for x by (rule read_json_str)
  note col = after_colon [OF v(2)]
  show ?case
  proof (cases "kvs = []")
    case True
    then have "read_value fr m (render v @ CHR ''}'' # r) = Some (v, CHR ''}'' # r)"
      using readsD [OF v(1) closes(9)] Cons.prems(3) n kv m by simp
    with True str col show ?thesis unfolding n kv by (simp add: m closes)
  next
    case False
    let ?t = "join '','' (map ?f kvs)"
    have j: "join '','' (map ?f (kv # kvs)) = CHR 0x22 # ?s @ CHR 0x22 # CHR '':'' # render v @ CHR '','' # ?t"
      using False by (simp add: join_Cons kv m)
    have len: "length (render v) < m" "length ?t + 2 \<le> m" using Cons.prems(3) unfolding j n by simp_all
    have "opens ?t" using False by (cases kvs) (auto simp: join_Cons opens_def json_member_def json_str_def split: list.splits)
    then have aft: "after (CHR '','') (CHR '','' # ?t @ CHR ''}'' # r) = Some (?t @ CHR ''}'' # r)" by (rule after_comma)
    have v1: "read_value fr m (render v @ CHR '','' # ?t @ CHR ''}'' # r) = Some (v, CHR '','' # ?t @ CHR ''}'' # r)"
      by (rule readsD [OF v(1) closes(10) len(1)])
    have "read_members fr m (?t @ CHR ''}'' # r) = Some (kvs, r)" using Cons.IH [OF _ False len(2)] Cons.prems(1) by simp
    with read_members_more [OF str col v1 aft] show ?thesis unfolding n j by (simp add: closes kv)
  qed
qed simp

lemma reads_render: "readable fr v \<Longrightarrow> reads fr v"
proof (induction v)
  case (JObj kvs)
  have ih: "\<forall>kv \<in> set kvs. reads fr (snd kv) \<and> opens (render (snd kv))"
    using JObj opens_render by (fastforce simp: snds.simps)
  show ?case unfolding reads_def
  proof (intro allI impI)
    fix n r assume n: "length (render (JObj kvs)) < n"
    then obtain m where m: "n = Suc m" by (cases n) auto
    show "read_value fr n (render (JObj kvs) @ r) = Some (JObj kvs, r)"
    proof (cases "kvs = []")
      case False
      let ?t = "join '','' (map (\<lambda>(k, v). json_member (k, render v)) kvs)"
      have "read_members fr m (?t @ CHR ''}'' # r) = Some (kvs, r)" using read_members_render [OF ih False] n m by simp
      moreover have "opens ?t" using False by (cases kvs) (auto simp: join_Cons opens_def json_member_def json_str_def split: list.splits)
      moreover have "distinct (map fst kvs)" using JObj.prems by simp
      ultimately show ?thesis unfolding m using opens_blanks [of ?t "CHR ''}'' # r"] by (simp add: read_value_open del: read_value.simps)
    qed (simp add: m closes)
  qed
next
  case (JList vs)
  have ih: "\<forall>v \<in> set vs. reads fr v \<and> opens (render v)" using JList opens_render by auto
  show ?case unfolding reads_def
  proof (intro allI impI)
    fix n r assume n: "length (render (JList vs)) < n"
    then obtain m where m: "n = Suc m" by (cases n) auto
    show "read_value fr n (render (JList vs) @ r) = Some (JList vs, r)"
    proof (cases "vs = []")
      case False
      let ?t = "join '','' (map render vs)"
      have "read_items fr m (?t @ CHR '']'' # r) = Some (vs, r)" using read_items_render [OF ih False] n m by simp
      moreover have "opens ?t" using ih False by (cases vs) (auto simp: join_Cons opens_def split: list.splits)
      ultimately show ?thesis unfolding m using opens_blanks [of ?t "CHR '']'' # r"] by (simp add: read_value_open del: read_value.simps)
    qed (simp add: m closes)
  qed
next
  case (JStr s)
  show ?case unfolding reads_def
  proof (intro allI impI)
    fix n r assume "length (render (JStr s)) < n"
    then obtain m where m: "n = Suc m" by (cases n) auto
    show "read_value fr n (render (JStr s) @ r) = Some (JStr s, r)" unfolding m by (simp add: json_str_def read_json_str)
  qed
next
  case (JInt i)
  show ?case unfolding reads_def
  proof (intro allI impI)
    fix n r assume "stops r" "length (render (JInt i)) < n"
    then show "read_value fr n (render (JInt i) @ r) = Some (JInt i, r)"
      using read_value_number [OF read_number_int] by (cases n) (simp_all add: number_value_def int_of_int_str del: read_value.simps)
  qed
next
  case (JFloat t)
  then obtain i f where f: "read_number t = Some (i, f, [])" "f \<noteq> []" "fr t = t" by (auto simp: float_text_def split: option.splits)
  have "t = i @ f" using read_number_append(2) [OF f(1), of "[]"] by (simp add: stops_def)
  then have v: "number_value fr i f = JFloat t" using f(2,3) by (simp add: number_value_def)
  show ?case unfolding reads_def
  proof (intro allI impI)
    fix n r assume r: "stops r" and "length (render (JFloat t)) < n"
    then obtain m where m: "n = Suc m" by (cases n) auto
    show "read_value fr n (render (JFloat t) @ r) = Some (JFloat t, r)" using read_value_number [OF f(1) r, of fr m] unfolding m v render.simps .
  qed
next
  case (JBool b)
  show ?case unfolding reads_def
  proof (intro allI impI)
    fix n r assume "length (render (JBool b)) < n"
    then show "read_value fr n (render (JBool b) @ r) = Some (JBool b, r)" by (cases n) (auto simp: read_scalar_def starting_def)
  qed
next
  case JNull
  show ?case unfolding reads_def
  proof (intro allI impI)
    fix n r assume "length (render JNull) < n"
    then show "read_value fr n (render JNull @ r) = Some (JNull, r)" by (cases n) (auto simp: read_scalar_def starting_def)
  qed
qed

lemma json_loads_render:
  assumes "readable fr v" shows "json_loads fr (utf8 (render v)) = Some v"
proof -
  have "read_value fr (Suc (2 * length (render v))) (render v @ []) = Some (v, [])"
    by (rule readsD [OF reads_render [OF assms]]) (simp_all add: stops_def)
  moreover have "skip_blanks (render v @ []) = render v @ []" using opens_blanks [OF opens_render [OF assms]] by blast
  ultimately show ?thesis by (simp add: json_loads_def skip_blanks_def del: read_value.simps)
qed

end
