(* ===== verification/Evidence_Bundles.thy ===== *)
theory Evidence_Bundles
  imports Coordinator Lineage Security_Contracts Json_Reader
begin

text \<open>
  The runtime's \<open>bundles.py\<close>: the builder of evidence archives and their offline verifier. An archive is its bytes. Zip is
  a parameter, a writer of named contents and a reader of members; so are \<open>str(UUID(s))\<close> and the parser of lineage
  graphs. The file system is a map from paths to contents.
\<close>

section \<open>Archives\<close>

record zip_member =
  zm_name :: string
  zm_size :: int
  zm_content :: "string result"

type_synonym zip_reader = "string \<Rightarrow> zip_member list result"
type_synonym zip_writer = "(string \<times> string) list \<Rightarrow> string"
type_synonym files = "string \<Rightarrow> string option"

definition max_member_bytes :: int where "max_member_bytes = 64 * 1024 * 1024"
definition max_total_bytes :: int where "max_total_bytes = 128 * 1024 * 1024"

definition allowed_members :: "string list" where
  "allowed_members = [''manifest.json'', ''events.jsonl'', ''lineage.json'']"

definition bundle_schema_name :: string where "bundle_schema_name = ''prodkit.evidence-bundle-manifest''"
definition bundle_schema_version :: string where "bundle_schema_version = ''1.1.0''"

definition evidence_bundle_sha256 :: "sha256_fn \<Rightarrow> string \<Rightarrow> string" where
  "evidence_bundle_sha256 sha archive = sha256_hex_bytes sha archive"

text \<open>\<open>except (zipfile.BadZipFile, KeyError, OSError)\<close>; a \<open>PermissionError\<close> is an \<open>OSError\<close>.\<close>

fun zip_error :: "exn \<Rightarrow> bool" where
  "zip_error (KeyError m) = True"
| "zip_error (PermissionError m) = True"
| "zip_error (ForeignException kind m) = (kind \<in> {''BadZipFile'', ''OSError''})"
| "zip_error e = False"

definition catching :: "(exn \<Rightarrow> bool) \<Rightarrow> exn \<Rightarrow> 'a result \<Rightarrow> 'a result" where
  "catching caught e r = (case r of Inl x \<Rightarrow> Inl (if caught x then e else x) | Inr v \<Rightarrow> Inr v)"

definition member_content :: "string \<Rightarrow> zip_member list \<Rightarrow> string result" where
  "member_content name ms = (case find (\<lambda>m. zm_name m = name) ms of
     None \<Rightarrow> Inl (KeyError name) | Some m \<Rightarrow> zm_content m)"

definition is_dir :: "zip_member \<Rightarrow> bool" where
  "is_dir m = (zm_name m \<noteq> [] \<and> last (zm_name m) = CHR ''/'')"

definition check_members :: "zip_member list \<Rightarrow> unit result" where
  "check_members ms =
    (let names = map zm_name ms in
     if \<not> distinct names then Inl (IntegrityViolationError ''evidence bundle contains duplicate members'')
     else if \<not> {''manifest.json'', ''events.jsonl''} \<subseteq> set names
     then Inl (IntegrityViolationError ''evidence bundle is missing required members'')
     else if \<not> set names \<subseteq> set allowed_members then Inl (IntegrityViolationError ''evidence bundle contains unexpected members'')
     else if list_ex (\<lambda>m. is_dir m \<or> max_member_bytes < zm_size m) ms
     then Inl (IntegrityViolationError ''evidence bundle contains an invalid member'')
     else if max_total_bytes < sum_list (map zm_size ms)
     then Inl (IntegrityViolationError ''evidence bundle exceeds total size limit'')
     else Inr ())"

definition read_members_of :: "zip_member list \<Rightarrow> (string \<times> string \<times> string option) result" where
  "read_members_of ms =
    rbind (check_members ms) (\<lambda>_.
    rbind (member_content ''manifest.json'' ms) (\<lambda>manifest.
    rbind (member_content ''events.jsonl'' ms) (\<lambda>events.
    if ''lineage.json'' \<in> set (map zm_name ms)
    then rbind (member_content ''lineage.json'' ms) (\<lambda>lineage. Inr (manifest, events, Some lineage))
    else Inr (manifest, events, None))))"

definition read_archive :: "zip_reader \<Rightarrow> string \<Rightarrow> (string \<times> string \<times> string option) result" where
  "read_archive unzip archive =
    catching zip_error (IntegrityViolationError ''evidence bundle is not a valid archive'') (rbind (unzip archive) read_members_of)"

section \<open>JSON objects\<close>

type_synonym json_dict = "(string \<times> json) list"

text \<open>\<open>dict.get\<close>, whose default \<open>None\<close> is also the value of \<open>null\<close>.\<close>

definition jget :: "string \<Rightarrow> json_dict \<Rightarrow> json" where
  "jget k d = (case map_of d k of None \<Rightarrow> JNull | Some v \<Rightarrow> v)"

fun pyval_of :: "json \<Rightarrow> pyval" where
  "pyval_of JNull = PNone"
| "pyval_of (JBool b) = PBool b"
| "pyval_of (JInt i) = PInt i"
| "pyval_of (JFloat t) = PFloat t"
| "pyval_of (JStr s) = PStr s"
| "pyval_of (JList vs) = PList (map pyval_of vs)"
| "pyval_of (JObj kvs) = PDict (map (\<lambda>(k, v). (KStr k, pyval_of v)) kvs)"

definition nonfinite :: "string list" where
  "nonfinite = [''nan'', ''inf'', ''-inf'']"

fun has_nonfinite :: "json \<Rightarrow> bool" where
  "has_nonfinite (JFloat t) = (t \<in> set nonfinite)"
| "has_nonfinite (JList vs) = (\<exists>v \<in> set vs. has_nonfinite v)"
| "has_nonfinite (JObj kvs) = (\<exists>kv \<in> set kvs. has_nonfinite (snd kv))"
| "has_nonfinite v = False"

definition is_sha256_value :: "json \<Rightarrow> bool" where
  "is_sha256_value v = (case v of JStr s \<Rightarrow> is_sha256 s | _ \<Rightarrow> False)"

text \<open>\<open>==\<close> with a positive integer: \<open>True\<close> is 1, and a float below \<open>10 ** 16\<close> with an integral value prints as that with \<open>.0\<close>.\<close>

definition equals_int :: "json \<Rightarrow> int \<Rightarrow> bool" where
  "equals_int v i = (case v of JInt j \<Rightarrow> j = i | JBool b \<Rightarrow> b \<and> i = 1 | JFloat t \<Rightarrow> t = int_str i @ ''.0'' | _ \<Rightarrow> False)"

definition load_object :: "(string \<Rightarrow> string) \<Rightarrow> string \<Rightarrow> string \<Rightarrow> string \<Rightarrow> json_dict result" where
  "load_object fr invalid no_object payload = (case json_loads fr payload of
     None \<Rightarrow> Inl (IntegrityViolationError invalid)
   | Some (JObj d) \<Rightarrow> Inr d
   | Some _ \<Rightarrow> Inl (IntegrityViolationError no_object))"

definition load_manifest :: "(string \<Rightarrow> string) \<Rightarrow> string \<Rightarrow> json_dict result" where
  "load_manifest fr = load_object fr ''evidence bundle manifest is not valid JSON'' ''evidence bundle manifest must be an object''"

section \<open>The manifest\<close>

definition manifest_count :: "json_dict \<Rightarrow> string \<Rightarrow> int \<Rightarrow> int result" where
  "manifest_count manifest key minimum = (case jget key manifest of
     JInt i \<Rightarrow> if i < minimum then Inl (IntegrityViolationError (''evidence bundle manifest '' @ key @ '' is invalid'')) else Inr i
   | _ \<Rightarrow> Inl (IntegrityViolationError (''evidence bundle manifest '' @ key @ '' is invalid'')))"

text \<open>\<open>schema_version not in _SUPPORTED\<close>: a list or an object is not hashable.\<close>

definition check_schema :: "json_dict \<Rightarrow> string result" where
  "check_schema manifest =
    (if jget ''schema_name'' manifest \<noteq> JStr bundle_schema_name
     then Inl (IntegrityViolationError ''evidence bundle manifest schema name is unsupported'')
     else case jget ''schema_version'' manifest of
       JStr v \<Rightarrow> if v \<in> {''1.0.0'', bundle_schema_version} then Inr v
         else Inl (IntegrityViolationError ''evidence bundle manifest schema version is unsupported'')
     | JList _ \<Rightarrow> Inl (TypeError ''unhashable type: list'')
     | JObj _ \<Rightarrow> Inl (TypeError ''unhashable type: dict'')
     | _ \<Rightarrow> Inl (IntegrityViolationError ''evidence bundle manifest schema version is unsupported''))"

definition manifest_run_id :: "(string \<Rightarrow> string option) \<Rightarrow> json_dict \<Rightarrow> string result" where
  "manifest_run_id str_uuid manifest = (case jget ''run_id'' manifest of
     JStr s \<Rightarrow> (case str_uuid s of
         None \<Rightarrow> Inl (IntegrityViolationError ''evidence bundle manifest run id is invalid'')
       | Some u \<Rightarrow> if u \<noteq> s then Inl (IntegrityViolationError ''evidence bundle manifest run id is not canonical'') else Inr u)
   | _ \<Rightarrow> Inl (IntegrityViolationError ''evidence bundle manifest run id is invalid''))"

definition manifest_tenant :: "json_dict \<Rightarrow> string \<Rightarrow> string option result" where
  "manifest_tenant manifest version = (case jget ''tenant_id'' manifest of
     JStr t \<Rightarrow> if is_blank t then Inl (IntegrityViolationError ''evidence bundle manifest tenant is invalid'') else Inr (Some t)
   | JNull \<Rightarrow> if version = bundle_schema_version
       then Inl (IntegrityViolationError ''evidence bundle manifest tenant is invalid'') else Inr None
   | _ \<Rightarrow> Inl (IntegrityViolationError ''evidence bundle manifest tenant is invalid''))"

definition check_files :: "sha256_fn \<Rightarrow> json_dict \<Rightarrow> string \<Rightarrow> string option \<Rightarrow> unit result" where
  "check_files sha manifest events lineage = (case jget ''files'' manifest of
     JObj files \<Rightarrow>
       if set (map fst files) \<noteq> insert ''events.jsonl'' (if lineage = None then {} else {''lineage.json''})
       then Inl (IntegrityViolationError ''evidence bundle manifest members do not match archive'')
       else if \<not> is_sha256_value (jget ''events.jsonl'' files) then Inl (IntegrityViolationError ''evidence bundle events digest is invalid'')
       else if JStr (sha256_hex_bytes sha events) \<noteq> jget ''events.jsonl'' files \<or> JStr (sha256_hex_bytes sha events) \<noteq> jget ''events_sha256'' manifest
       then Inl (IntegrityViolationError ''evidence bundle events digest does not match manifest'')
       else Inr ()
   | _ \<Rightarrow> Inl (IntegrityViolationError ''evidence bundle manifest files are invalid''))"

definition count_value :: "json \<Rightarrow> int option" where
  "count_value v = (case v of JInt i \<Rightarrow> if i < 0 then None else Some i | _ \<Rightarrow> None)"

definition check_counts :: "json_dict \<Rightarrow> int \<Rightarrow> unit result" where
  "check_counts manifest event_count = (case jget ''counts_by_type'' manifest of
     JObj counts \<Rightarrow>
       if list_ex (\<lambda>kv. count_value (snd kv) = None) counts then Inl (IntegrityViolationError ''evidence bundle event counts are invalid'')
       else if sum_list (map (\<lambda>kv. case count_value (snd kv) of Some i \<Rightarrow> i | None \<Rightarrow> 0) counts) \<noteq> event_count
       then Inl (IntegrityViolationError ''evidence bundle event counts do not match event count'')
       else Inr ()
   | _ \<Rightarrow> Inl (IntegrityViolationError ''evidence bundle event counts are invalid''))"

definition validate_manifest ::
  "sha256_fn \<Rightarrow> (string \<Rightarrow> string option) \<Rightarrow> json_dict \<Rightarrow> string \<Rightarrow> string option \<Rightarrow> (string \<times> string option) result" where
  "validate_manifest sha str_uuid manifest events lineage =
    rbind (check_schema manifest) (\<lambda>version.
    rbind (manifest_run_id str_uuid manifest) (\<lambda>run_id.
    rbind (manifest_tenant manifest version) (\<lambda>tenant.
    rbind (manifest_count manifest ''event_count'' 1) (\<lambda>event_count.
    rbind (manifest_count manifest ''lineage_node_count'' 0) (\<lambda>_.
    rbind (manifest_count manifest ''lineage_relation_count'' 0) (\<lambda>_.
    rbind (check_files sha manifest events lineage) (\<lambda>_.
    rbind (raise_if (\<not> is_sha256_value (jget ''final_event_hash'' manifest))
      (IntegrityViolationError ''evidence bundle final event hash is invalid'')) (\<lambda>_.
    rbind (check_counts manifest event_count) (\<lambda>_.
    Inr (run_id, tenant))))))))))"

section \<open>The event stream\<close>

text \<open>\<open>bytes.splitlines\<close>: at line feeds, carriage returns and their pair.\<close>

fun split_lines :: "string \<Rightarrow> string \<Rightarrow> string list" where
  "split_lines acc [] = (if acc = [] then [] else [rev acc])"
| "split_lines acc [c] = (if c = CHR 0x0A \<or> c = CHR 0x0D then [rev acc] else [rev (c # acc)])"
| "split_lines acc (c # d # s) =
    (if c = CHR 0x0D \<and> d = CHR 0x0A then rev acc # split_lines [] s
     else if c = CHR 0x0A \<or> c = CHR 0x0D then rev acc # split_lines [] (d # s)
     else split_lines (c # acc) (d # s))"

definition splitlines :: "string \<Rightarrow> string list" where
  "splitlines = split_lines []"

text \<open>The hashed value of an event without its integrity block, after the event with the hash \<open>previous\<close>.\<close>

definition hash_envelope :: "json_dict \<Rightarrow> string option \<Rightarrow> pyval" where
  "hash_envelope event previous = PDict [(KStr ''event'', pyval_of (JObj event)), (KStr ''previous_event_hash'', dump_opt PStr previous)]"

definition json_opt :: "string option \<Rightarrow> json" where
  "json_opt s = (case s of None \<Rightarrow> JNull | Some t \<Rightarrow> JStr t)"

definition check_integrity :: "sha256_fn \<Rightarrow> json_dict \<Rightarrow> json_dict \<Rightarrow> string option \<Rightarrow> string result" where
  "check_integrity sha event integrity previous =
    (if jget ''previous_event_hash'' integrity \<noteq> json_opt previous
     then Inl (IntegrityViolationError ''evidence bundle contains a broken previous hash'')
     else if \<not> is_sha256_value (jget ''event_hash'' integrity) then Inl (IntegrityViolationError ''evidence bundle event hash is invalid'')
     else if has_nonfinite (JObj event) then Inl (ValueError ''Out of range float values are not JSON compliant'')
     else if jget ''event_hash'' integrity \<noteq> JStr (sha256_hex sha (hash_envelope event previous))
     then Inl (IntegrityViolationError ''evidence bundle contains a modified event'')
     else Inr (sha256_hex sha (hash_envelope event previous)))"

definition nonempty_text :: "json \<Rightarrow> string option" where
  "nonempty_text v = (case v of JStr s \<Rightarrow> if s = [] then None else Some s | _ \<Rightarrow> None)"

text \<open>One line: its tenant, event type and hash; \<open>tenant\<close> is that of the lines before.\<close>

definition check_event ::
  "sha256_fn \<Rightarrow> string \<Rightarrow> int \<Rightarrow> string option \<Rightarrow> string option \<Rightarrow> json_dict \<Rightarrow> (string \<times> string \<times> string) result" where
  "check_event sha run_id index previous tenant event =
    (if \<not> equals_int (jget ''sequence'' event) index then Inl (IntegrityViolationError ''evidence bundle contains a sequence gap'')
     else if jget ''run_id'' event \<noteq> JStr run_id
     then Inl (IntegrityViolationError ''evidence bundle event run id does not match manifest'')
     else case nonempty_text (jget ''tenant_id'' event) of
       None \<Rightarrow> Inl (IntegrityViolationError ''evidence bundle event tenant is invalid'')
     | Some event_tenant \<Rightarrow>
         if tenant \<noteq> None \<and> tenant \<noteq> Some event_tenant
         then Inl (IntegrityViolationError ''evidence bundle contains mixed tenant events'')
         else case nonempty_text (jget ''event_type'' event) of
           None \<Rightarrow> Inl (IntegrityViolationError ''evidence bundle event type is invalid'')
         | Some event_type \<Rightarrow>
             (case jget ''integrity'' event of
                JObj integrity \<Rightarrow>
                  rbind (check_integrity sha (AList.delete ''integrity'' event) integrity previous) (\<lambda>event_hash.
                  Inr (event_tenant, event_type, event_hash))
              | _ \<Rightarrow> Inl (IntegrityViolationError ''evidence bundle event integrity is invalid'')))"

definition load_event :: "(string \<Rightarrow> string) \<Rightarrow> string \<Rightarrow> json_dict result" where
  "load_event fr = load_object fr ''evidence bundle contains malformed event JSON'' ''evidence bundle event must be an object''"

text \<open>The loop over the lines, with the hash, tenant and counts so far.\<close>

record stream_state =
  ss_previous :: "string option"
  ss_tenant :: "string option"
  ss_counts :: "(string \<times> nat) list"

fun read_events :: "sha256_fn \<Rightarrow> (string \<Rightarrow> string) \<Rightarrow> string \<Rightarrow> int \<Rightarrow> stream_state \<Rightarrow> string list \<Rightarrow> stream_state result" where
  "read_events sha fr run_id index st [] = Inr st"
| "read_events sha fr run_id index st (line # lines) =
    rbind (load_event fr line) (\<lambda>event.
    rbind (check_event sha run_id index (ss_previous st) (ss_tenant st) event) (\<lambda>(tenant, event_type, event_hash).
    read_events sha fr run_id (index + 1)
      \<lparr>ss_previous = Some event_hash, ss_tenant = Some tenant, ss_counts = counter (ss_counts st) [event_type]\<rparr> lines))"

definition same_counts :: "(string \<times> nat) list \<Rightarrow> json \<Rightarrow> bool" where
  "same_counts counts v = (case v of
     JObj d \<Rightarrow> set (map fst counts) = set (map fst d) \<and> list_all (\<lambda>(k, n). map_of d k = Some (JInt (int n))) counts
   | _ \<Rightarrow> False)"

definition validate_events :: "sha256_fn \<Rightarrow> (string \<Rightarrow> string) \<Rightarrow> json_dict \<Rightarrow> string \<Rightarrow> string \<Rightarrow> string result" where
  "validate_events sha fr manifest run_id events =
    (let lines = splitlines events in
     rbind (raise_if (lines = [] \<or> [] \<in> set lines) (IntegrityViolationError ''evidence bundle contains an invalid event stream'')) (\<lambda>_.
     rbind (raise_if (jget ''event_count'' manifest \<noteq> JInt (int (length lines)))
       (IntegrityViolationError ''evidence bundle event count does not match manifest'')) (\<lambda>_.
     rbind (read_events sha fr run_id 1 \<lparr>ss_previous = None, ss_tenant = None, ss_counts = []\<rparr> lines) (\<lambda>st.
     rbind (raise_if (json_opt (ss_previous st) \<noteq> jget ''final_event_hash'' manifest)
       (IntegrityViolationError ''evidence bundle final hash does not match manifest'')) (\<lambda>_.
     rbind (raise_if (\<not> same_counts (ss_counts st) (jget ''counts_by_type'' manifest))
       (IntegrityViolationError ''evidence bundle event-type counts do not match manifest'')) (\<lambda>_.
     case ss_tenant st of
       None \<Rightarrow> Inl (IntegrityViolationError ''evidence bundle contains no tenant evidence'')
     | Some tenant \<Rightarrow> Inr tenant))))))"

section \<open>Lineage and verification\<close>

definition validate_lineage ::
  "sha256_fn \<Rightarrow> (string \<Rightarrow> lineage_graph result) \<Rightarrow> json_dict \<Rightarrow> string \<Rightarrow> string \<Rightarrow> string option \<Rightarrow> unit result" where
  "validate_lineage sha parse_graph manifest run_id tenant lineage = (case lineage of
     None \<Rightarrow>
       raise_if (jget ''lineage_node_count'' manifest \<noteq> JInt 0 \<or> jget ''lineage_relation_count'' manifest \<noteq> JInt 0)
         (IntegrityViolationError ''evidence bundle declares lineage without lineage evidence'')
   | Some bytes \<Rightarrow>
       (let digest = (case jget ''files'' manifest of JObj files \<Rightarrow> jget ''lineage.json'' files | _ \<Rightarrow> JNull) in
        rbind (raise_if (\<not> is_sha256_value digest \<or> JStr (sha256_hex_bytes sha bytes) \<noteq> digest)
          (IntegrityViolationError ''evidence bundle lineage digest does not match manifest'')) (\<lambda>_.
        rbind (catching (\<lambda>e. \<exists>m. e = ValueError m) (IntegrityViolationError ''evidence bundle lineage is invalid'') (parse_graph bytes)) (\<lambda>g.
        rbind (raise_if (lg_run_id g \<noteq> run_id) (IntegrityViolationError ''evidence bundle lineage run id does not match manifest'')) (\<lambda>_.
        rbind (raise_if (lg_tenant_id g \<noteq> tenant) (IntegrityViolationError ''evidence bundle lineage tenant does not match events'')) (\<lambda>_.
        rbind (raise_if (jget ''lineage_node_count'' manifest \<noteq> JInt (int (length (lg_nodes g))))
          (IntegrityViolationError ''evidence bundle lineage node count does not match'')) (\<lambda>_.
        raise_if (jget ''lineage_relation_count'' manifest \<noteq> JInt (int (length (lg_relations g))))
          (IntegrityViolationError ''evidence bundle lineage relation count does not match''))))))))"

text \<open>What the verifier takes from outside: hash, zip, float repr, UUID and lineage parsing.\<close>

record bundle_env =
  be_sha :: sha256_fn
  be_unzip :: zip_reader
  be_float :: "string \<Rightarrow> string"
  be_uuid :: "string \<Rightarrow> string option"
  be_graph :: "string \<Rightarrow> lineage_graph result"

definition verify_contents :: "bundle_env \<Rightarrow> string \<times> string \<times> string option \<Rightarrow> json_dict result" where
  "verify_contents E contents = (case contents of (manifest_bytes, events, lineage) \<Rightarrow>
     rbind (load_manifest (be_float E) manifest_bytes) (\<lambda>manifest.
     rbind (validate_manifest (be_sha E) (be_uuid E) manifest events lineage) (\<lambda>(run_id, manifest_tenant).
     rbind (validate_events (be_sha E) (be_float E) manifest run_id events) (\<lambda>event_tenant.
     rbind (raise_if (manifest_tenant \<noteq> None \<and> manifest_tenant \<noteq> Some event_tenant)
       (IntegrityViolationError ''evidence bundle tenant does not match events'')) (\<lambda>_.
     rbind (validate_lineage (be_sha E) (be_graph E) manifest run_id event_tenant lineage) (\<lambda>_.
     Inr manifest))))))"

definition verify_bundle :: "bundle_env \<Rightarrow> string \<Rightarrow> string option \<Rightarrow> json_dict result" where
  "verify_bundle E archive expected =
    rbind (raise_if (\<exists>d. expected = Some d \<and> evidence_bundle_sha256 (be_sha E) archive \<noteq> lower d)
      (IntegrityViolationError ''evidence bundle archive digest does not match external trust anchor'')) (\<lambda>_.
    rbind (read_archive (be_unzip E) archive) (verify_contents E))"

section \<open>The builder\<close>

definition dump_integrity :: "event_integrity \<Rightarrow> pyval" where
  "dump_integrity i = PDict
    [(KStr ''algorithm'', PStr (integ_algorithm i)),
     (KStr ''canonicalization'', PStr (integ_canonicalization i)),
     (KStr ''previous_event_hash'', dump_opt PStr (integ_previous_event_hash i)),
     (KStr ''event_hash'', PStr (integ_event_hash i)),
     (KStr ''signature'', dump_opt PStr (integ_signature i)),
     (KStr ''signing_key_id'', dump_opt PStr (integ_signing_key_id i))]"

definition dump_control_event :: "control_event \<Rightarrow> pyval" where
  "dump_control_event e =
    PDict (draft_items e @ [(KStr ''sequence'', PInt (ev_sequence e)), (KStr ''integrity'', dump_integrity (ev_integrity e))])"

fun dump_detail :: "lineage_node_detail \<Rightarrow> (pykey \<times> pyval) list" where
  "dump_detail (SpecificationRevisionNode i r c) =
    [(KStr ''specification_id'', PStr i), (KStr ''revision'', PStr r), (KStr ''constraints_digest'', PStr c)]"
| "dump_detail (DecisionSetNode i r) = [(KStr ''decision_set_id'', PStr i), (KStr ''revision'', PStr r)]"
| "dump_detail (GeneratorConfigurationNode n v d p m ok) =
    [(KStr ''generator_name'', PStr n), (KStr ''generator_version'', PStr v), (KStr ''input_digest'', PStr d),
     (KStr ''provider_name'', dump_opt PStr p), (KStr ''model_name'', dump_opt PStr m), (KStr ''succeeded'', PBool ok)]"
| "dump_detail (SourceTreeNode repo r) = [(KStr ''repository'', dump_opt PStr repo), (KStr ''revision'', dump_opt PStr r)]"
| "dump_detail (VerificationNode n v q r oc) =
    [(KStr ''verifier_name'', PStr n), (KStr ''verifier_version'', PStr v), (KStr ''requirements_digest'', PStr q),
     (KStr ''results_digest'', PStr r), (KStr ''outcome'', PEnum (verification_outcome_value oc))]"
| "dump_detail (BuildArtifactNode b i ok) =
    [(KStr ''build_id'', PStr b), (KStr ''builder_identity'', PStr i), (KStr ''succeeded'', PBool ok)]"
| "dump_detail (AuthorizationNode p a v ok) =
    [(KStr ''policy_digest'', PStr p), (KStr ''action_set_digest'', PStr a), (KStr ''approval_digest'', dump_opt PStr v),
     (KStr ''authorized'', PBool ok)]"
| "dump_detail (AgentActionNode a d e ok) =
    [(KStr ''action_id'', PUuid a), (KStr ''action_digest'', PStr d), (KStr ''executor_identity'', PStr e), (KStr ''succeeded'', PBool ok)]"
| "dump_detail (DeploymentNode d e t at1 ok) =
    [(KStr ''deployment_id'', PStr d), (KStr ''environment'', PStr e), (KStr ''target'', PStr t), (KStr ''deployed_at'', PDatetime at1),
     (KStr ''succeeded'', PBool ok)]"
| "dump_detail (ProductionObservationNode ob e i at1) =
    [(KStr ''observation_id'', PUuid ob), (KStr ''environment'', PStr e), (KStr ''observer_identity'', PStr i), (KStr ''observed_at'', PDatetime at1)]"
| "dump_detail (ReconciliationNode i n f oc) =
    [(KStr ''reconciliation_id'', PUuid i), (KStr ''reconciler_name'', PStr n), (KStr ''findings_digest'', PStr f),
     (KStr ''outcome'', PEnum (reconciliation_outcome_value oc))]"

definition dump_lineage_node :: "lineage_node \<Rightarrow> pyval" where
  "dump_lineage_node n = PDict
    ([(KStr ''kind'', PEnum (lineage_node_kind_value (node_kind (ln_detail n)))),
      (KStr ''node_id'', PUuid (ln_node_id n)),
      (KStr ''run_id'', PUuid (ln_run_id n)),
      (KStr ''tenant_id'', PStr (ln_tenant_id n)),
      (KStr ''digest'', PStr (ln_digest n)),
      (KStr ''recorded_at'', PDatetime (ln_recorded_at n)),
      (KStr ''external_uri'', dump_opt PStr (ln_external_uri n)),
      (KStr ''evidence'', PTuple (map dump_artifact_ref (ln_evidence n))),
      (KStr ''attributes'', dump_dict (\<lambda>v. v) (ln_attributes n))] @ dump_detail (ln_detail n))"

definition dump_lineage_relation :: "lineage_relation \<Rightarrow> pyval" where
  "dump_lineage_relation r = PDict
    [(KStr ''relation'', PEnum (lineage_relation_type_value (lr_relation r))),
     (KStr ''subject'', dump_lineage_node_ref (lr_subject r)),
     (KStr ''object'', dump_lineage_node_ref (lr_object r)),
     (KStr ''recorded_at'', PDatetime (lr_recorded_at r)),
     (KStr ''evidence'', PTuple (map dump_artifact_ref (lr_evidence r)))]"

definition dump_lineage_graph :: "lineage_graph \<Rightarrow> pyval" where
  "dump_lineage_graph g = PDict
    [(KStr ''schema_name'', PStr (lg_schema_name g)),
     (KStr ''schema_version'', PStr (lg_schema_version g)),
     (KStr ''run_id'', PUuid (lg_run_id g)),
     (KStr ''tenant_id'', PStr (lg_tenant_id g)),
     (KStr ''nodes'', PTuple (map dump_lineage_node (lg_nodes g))),
     (KStr ''relations'', PTuple (map dump_lineage_relation (lg_relations g)))]"

text \<open>\<open>Path.with_suffix(".zip")\<close> on the text of a path.\<close>

definition path_name :: "string \<Rightarrow> string" where
  "path_name p = rev (takeWhile (\<lambda>c. c \<noteq> CHR ''/'') (rev p))"

definition zip_path :: "string \<Rightarrow> string" where
  "zip_path p =
    (let name = path_name p; suffix = rev (takeWhile (\<lambda>c. c \<noteq> CHR ''.'') (rev name))
     in if length suffix + 1 < length name \<and> suffix \<noteq> []
        then take (length p - (length suffix + 1)) p @ ''.zip'' else p @ ''.zip'')"

definition write_file :: "string \<Rightarrow> string \<Rightarrow> (files, unit) prog" where
  "write_file path content fs = (Inr (), fs(path \<mapsto> content))"

definition events_bytes :: "control_event list \<Rightarrow> string" where
  "events_bytes events = join [CHR 0x0A] (map (\<lambda>e. canonical_json_bytes (dump_control_event e)) events) @ [CHR 0x0A]"

definition bundle_manifest ::
  "sha256_fn \<Rightarrow> uuid \<Rightarrow> string \<Rightarrow> datetime \<Rightarrow> control_event list \<Rightarrow> run_projection \<Rightarrow> lineage_graph option \<Rightarrow> pyval" where
  "bundle_manifest sha run_id tenant now events projection lineage = PDict
    [(KStr ''schema_name'', PStr bundle_schema_name),
     (KStr ''schema_version'', PStr bundle_schema_version),
     (KStr ''run_id'', PStr run_id),
     (KStr ''tenant_id'', PStr tenant),
     (KStr ''generated_at'', PStr (isoformat_offset now)),
     (KStr ''event_count'', PInt (int (length events))),
     (KStr ''events_sha256'', PStr (sha256_hex_bytes sha (events_bytes events))),
     (KStr ''final_event_hash'', dump_opt PStr (proj_final_event_hash projection)),
     (KStr ''counts_by_type'', dump_dict (\<lambda>n. PInt (int n)) (proj_counts_by_type projection)),
     (KStr ''lineage_node_count'', PInt (case lineage of None \<Rightarrow> 0 | Some g \<Rightarrow> int (length (lg_nodes g)))),
     (KStr ''lineage_relation_count'', PInt (case lineage of None \<Rightarrow> 0 | Some g \<Rightarrow> int (length (lg_relations g)))),
     (KStr ''files'', dump_dict PStr ((''events.jsonl'', sha256_hex_bytes sha (events_bytes events)) #
       (case lineage of None \<Rightarrow> [] | Some g \<Rightarrow> [(''lineage.json'', sha256_hex_bytes sha (canonical_json_bytes (dump_lineage_graph g)))])))]"

definition archive_members :: "string \<Rightarrow> control_event list \<Rightarrow> lineage_graph option \<Rightarrow> (string \<times> string) list" where
  "archive_members manifest events lineage =
    (''events.jsonl'', events_bytes events) # (case lineage of None \<Rightarrow> [] | Some g \<Rightarrow> [(''lineage.json'', canonical_json_bytes (dump_lineage_graph g))])
    @ [(''manifest.json'', manifest)]"

definition run_events_of :: "sha256_fn \<Rightarrow> event_ledger_state \<Rightarrow> uuid \<Rightarrow> string \<Rightarrow> control_event list result" where
  "run_events_of sha ledger run_id tenant =
    rbind (verify_run sha tenant run_id ledger) (\<lambda>_.
    let events = list_run_events tenant run_id ledger in
    rbind (raise_if (events = []) (ValueError (''run '' @ run_id @ '' has no events for tenant '' @ str_repr tenant))) (\<lambda>_.
    rbind (raise_if (list_ex (\<lambda>e. ev_tenant_id e \<noteq> tenant) events)
      (IntegrityViolationError ''evidence builder received a foreign-tenant event'')) (\<lambda>_.
    Inr events)))"

definition build_bundle ::
  "sha256_fn \<Rightarrow> zip_writer \<Rightarrow> event_ledger_state \<Rightarrow> datetime \<Rightarrow> uuid \<Rightarrow> string \<Rightarrow> string \<Rightarrow> lineage_graph option \<Rightarrow> (files, string) prog" where
  "build_bundle sha write_zip ledger now run_id destination tenant lineage =
    bindE (lift_result (run_events_of sha ledger run_id tenant)) (\<lambda>events.
    bindE (lift_result (project_run events)) (\<lambda>projection.
    bindE (write_file (destination @ ''/events.jsonl'') (events_bytes events)) (\<lambda>_.
    bindE (lift_result (raise_if (\<exists>g. lineage = Some g \<and> (lg_run_id g \<noteq> run_id \<or> lg_tenant_id g \<noteq> tenant))
      (ValueError ''lineage graph and evidence bundle scope must match''))) (\<lambda>_.
    let manifest = canonical_json_bytes (bundle_manifest sha run_id tenant now events projection lineage) in
    bindE (write_file (destination @ ''/manifest.json'') manifest) (\<lambda>_.
    bindE (write_file (zip_path destination) (write_zip (archive_members manifest events lineage))) (\<lambda>_.
    ret (zip_path destination)))))))"

end
