(* ===== verification/Evidence_Packages.thy ===== *)
theory Evidence_Packages
  imports Evidence_Bundles Governance
begin

text \<open>
  Attestations and signed export packages: the in-toto and SLSA contracts of \<open>contracts/attestations.py\<close>, the statement
  builder and \<open>verify_evidence_archive\<close> of the runtime's \<open>attestations.py\<close>, its \<open>portable.py\<close> and \<open>transfers.py\<close>, and
  \<open>ArtifactProvenanceVerifier\<close> of its \<open>security.py\<close>. A free-form dict holds JSON values. The pydantic parsers of the
  documents in a package are parameters.
\<close>

section \<open>Statements\<close>

definition in_toto_statement_v1 :: string where "in_toto_statement_v1 = ''https://in-toto.io/Statement/v1''"
definition slsa_provenance_v1 :: string where "slsa_provenance_v1 = ''https://slsa.dev/provenance/v1''"
definition prodkit_evidence_predicate_v1 :: string where
  "prodkit_evidence_predicate_v1 = ''https://schemas.prodkit.dev/control/evidence/v1''"

record resource_descriptor =
  ard_name :: "string option"
  ard_uri :: "string option"
  ard_digest :: "(string \<times> string) list"
  ard_download_location :: "string option"
  ard_media_type :: "string option"
  ard_annotations :: json_dict

definition nonblank_pairs :: "(string \<times> string) list \<Rightarrow> bool" where
  "nonblank_pairs = list_all (\<lambda>(k, v). nonblank k \<and> nonblank v)"

definition resource_descriptor_fields :: "resource_descriptor \<Rightarrow> bool" where
  "resource_descriptor_fields r = (pred_option nonblank (ard_name r) \<and>
     pred_option nonblank (ard_uri r) \<and>
     nonblank_pairs (ard_digest r) \<and>
     pred_option nonblank (ard_download_location r) \<and>
     pred_option nonblank (ard_media_type r))"

definition validate_resource_descriptor :: "resource_descriptor \<Rightarrow> resource_descriptor result" where
  "validate_resource_descriptor r =
    (if ard_digest r = [] then Inl (ValueError ''attestation resources require at least one immutable digest'') else Inr r)"

record in_toto_statement =
  its_type :: string
  its_subject :: "resource_descriptor list"
  its_predicate_type :: string
  its_predicate :: json_dict

definition in_toto_statement_fields :: "in_toto_statement \<Rightarrow> bool" where
  "in_toto_statement_fields r = (its_type r = in_toto_statement_v1 \<and>
     (list_all resource_descriptor_fields) (its_subject r) \<and>
     nonblank (its_predicate_type r))"

definition validate_in_toto_statement :: "in_toto_statement \<Rightarrow> in_toto_statement result" where
  "validate_in_toto_statement r =
    (if its_subject r = [] then Inl (ValueError ''in-toto statements require at least one subject'') else Inr r)"

text \<open>Dumps by alias, without the fields that are \<open>None\<close>; they hold no datetime, so both modes have the same JSON.\<close>

definition optional_str :: "string \<Rightarrow> string option \<Rightarrow> json_dict" where
  "optional_str k v = (case v of None \<Rightarrow> [] | Some s \<Rightarrow> [(k, JStr s)])"

definition str_dict :: "(string \<times> string) list \<Rightarrow> json" where
  "str_dict d = JObj (map (\<lambda>(k, v). (k, JStr v)) d)"

definition dump_resource_descriptor :: "resource_descriptor \<Rightarrow> json" where
  "dump_resource_descriptor r = JObj
    (optional_str ''name'' (ard_name r) @
     optional_str ''uri'' (ard_uri r) @
     [(''digest'', str_dict (ard_digest r))] @
     optional_str ''downloadLocation'' (ard_download_location r) @
     optional_str ''mediaType'' (ard_media_type r) @
     [(''annotations'', JObj (ard_annotations r))])"

definition dump_in_toto_statement :: "in_toto_statement \<Rightarrow> pyval" where
  "dump_in_toto_statement r = PDict
    [(KStr ''_type'', PStr (its_type r)),
     (KStr ''subject'', PTuple (map (\<lambda>s. pyval_of (dump_resource_descriptor s)) (its_subject r))),
     (KStr ''predicateType'', PStr (its_predicate_type r)),
     (KStr ''predicate'', pyval_of (JObj (its_predicate r)))]"

definition statement_nonfinite :: "in_toto_statement \<Rightarrow> bool" where
  "statement_nonfinite r = (has_nonfinite (JObj (its_predicate r)) \<or> list_ex (\<lambda>s. has_nonfinite (JObj (ard_annotations s))) (its_subject r))"

text \<open>\<open>canonical_json_bytes\<close> rejects a NaN or infinite float.\<close>

definition attestation_bytes :: "in_toto_statement \<Rightarrow> string result" where
  "attestation_bytes r =
    (if statement_nonfinite r then Inl (ValueError ''Out of range float values are not JSON compliant'')
     else Inr (canonical_json_bytes (dump_in_toto_statement r)))"

definition attestation_sha256 :: "sha256_fn \<Rightarrow> in_toto_statement \<Rightarrow> string result" where
  "attestation_sha256 sha r = rbind (attestation_bytes r) (\<lambda>b. Inr (sha256_hex_bytes sha b))"

section \<open>Predicates\<close>

record slsa_build_definition =
  sbd_build_type :: string
  sbd_external_parameters :: json_dict
  sbd_internal_parameters :: json_dict
  sbd_resolved_dependencies :: "resource_descriptor list"

record slsa_builder =
  slb_id :: string
  slb_version :: "(string \<times> string) list"
  slb_builder_dependencies :: "resource_descriptor list"

record slsa_build_metadata =
  sbm_invocation_id :: "string option"
  sbm_started_on :: "datetime option"
  sbm_finished_on :: "datetime option"

record slsa_run_details =
  srd_builder :: slsa_builder
  srd_metadata :: slsa_build_metadata
  srd_byproducts :: "resource_descriptor list"

record slsa_provenance =
  slp_build_definition :: slsa_build_definition
  slp_run_details :: slsa_run_details

definition slsa_build_definition_fields :: "slsa_build_definition \<Rightarrow> bool" where
  "slsa_build_definition_fields r = (nonblank (sbd_build_type r) \<and>
     (list_all resource_descriptor_fields) (sbd_resolved_dependencies r))"

definition slsa_builder_fields :: "slsa_builder \<Rightarrow> bool" where
  "slsa_builder_fields r = (nonblank (slb_id r) \<and>
     nonblank_pairs (slb_version r) \<and>
     (list_all resource_descriptor_fields) (slb_builder_dependencies r))"

definition slsa_build_metadata_fields :: "slsa_build_metadata \<Rightarrow> bool" where
  "slsa_build_metadata_fields r = (pred_option nonblank (sbm_invocation_id r))"

definition validate_slsa_build_metadata :: "slsa_build_metadata \<Rightarrow> slsa_build_metadata result" where
  "validate_slsa_build_metadata r = (case (sbm_started_on r, sbm_finished_on r) of
     (Some s, Some f) \<Rightarrow> if f < s then Inl (ValueError ''SLSA build finishedOn cannot precede startedOn'') else Inr r
   | _ \<Rightarrow> Inr r)"

definition optional_time :: "string \<Rightarrow> datetime option \<Rightarrow> json_dict" where
  "optional_time k v = optional_str k (map_option isoformat_utc v)"

definition dump_slsa_provenance :: "slsa_provenance \<Rightarrow> json_dict" where
  "dump_slsa_provenance p = (let b = slp_build_definition p; d = slp_run_details p; m = srd_metadata d in
    [(''buildDefinition'', JObj
       [(''buildType'', JStr (sbd_build_type b)),
        (''externalParameters'', JObj (sbd_external_parameters b)),
        (''internalParameters'', JObj (sbd_internal_parameters b)),
        (''resolvedDependencies'', JList (map dump_resource_descriptor (sbd_resolved_dependencies b)))]),
     (''runDetails'', JObj
       [(''builder'', JObj
          [(''id'', JStr (slb_id (srd_builder d))),
           (''version'', str_dict (slb_version (srd_builder d))),
           (''builderDependencies'', JList (map dump_resource_descriptor (slb_builder_dependencies (srd_builder d))))]),
        (''metadata'', JObj (optional_str ''invocationId'' (sbm_invocation_id m) @
           optional_time ''startedOn'' (sbm_started_on m) @ optional_time ''finishedOn'' (sbm_finished_on m))),
        (''byproducts'', JList (map dump_resource_descriptor (srd_byproducts d)))])])"

record evidence_predicate =
  evp_run_id :: uuid
  evp_tenant_id :: string
  evp_bundle_manifest_sha256 :: string
  evp_final_event_hash :: string

definition evidence_predicate_fields :: "evidence_predicate \<Rightarrow> bool" where
  "evidence_predicate_fields r = (nonblank (evp_tenant_id r) \<and>
     is_sha256 (evp_bundle_manifest_sha256 r) \<and>
     is_sha256 (evp_final_event_hash r))"

definition dump_evidence_predicate :: "evidence_predicate \<Rightarrow> json_dict" where
  "dump_evidence_predicate r =
    [(''schema_name'', JStr ''prodkit.control-evidence-attestation''),
     (''schema_version'', JStr ''1.0.0''),
     (''run_id'', JStr (evp_run_id r)),
     (''tenant_id'', JStr (evp_tenant_id r)),
     (''bundle_manifest_sha256'', JStr (evp_bundle_manifest_sha256 r)),
     (''final_event_hash'', JStr (evp_final_event_hash r)),
     (''canonicalization'', JStr ''prodkit-json-v1'')]"

section \<open>The statement builder\<close>

definition new_statement :: "resource_descriptor list \<Rightarrow> string \<Rightarrow> json_dict \<Rightarrow> in_toto_statement result" where
  "new_statement subject predicate_type predicate =
    rbind (check_fields ''InTotoStatementV1'' in_toto_statement_fields
      \<lparr>its_type = in_toto_statement_v1, its_subject = subject, its_predicate_type = predicate_type, its_predicate = predicate\<rparr>)
    validate_in_toto_statement"

definition attested_resource ::
  "string \<Rightarrow> string option \<Rightarrow> string option \<Rightarrow> string option \<Rightarrow> json_dict option \<Rightarrow> resource_descriptor result" where
  "attested_resource sha256 name uri media_type annotations =
    rbind (check_fields ''AttestationResourceDescriptor'' resource_descriptor_fields
      \<lparr>ard_name = map_option strip name, ard_uri = map_option strip uri, ard_digest = [(''sha256'', strip sha256)],
       ard_download_location = None, ard_media_type = map_option strip media_type,
       ard_annotations = (case annotations of None \<Rightarrow> [] | Some a \<Rightarrow> a)\<rparr>)
    validate_resource_descriptor"

definition evidence_statement :: "uuid \<Rightarrow> string \<Rightarrow> string \<Rightarrow> string \<Rightarrow> string \<Rightarrow> string \<Rightarrow> in_toto_statement result" where
  "evidence_statement run_id tenant bundle_name bundle_sha256 bundle_manifest_sha256 final_event_hash =
    rbind (check_fields ''ProdKitEvidencePredicateV1'' evidence_predicate_fields
      \<lparr>evp_run_id = run_id, evp_tenant_id = strip tenant, evp_bundle_manifest_sha256 = bundle_manifest_sha256,
       evp_final_event_hash = final_event_hash\<rparr>) (\<lambda>predicate.
    rbind (attested_resource bundle_sha256 (Some bundle_name) None None None) (\<lambda>subject.
    new_statement [subject] prodkit_evidence_predicate_v1 (dump_evidence_predicate predicate)))"

definition slsa_build_provenance_statement ::
  "resource_descriptor list \<Rightarrow> string \<Rightarrow> string \<Rightarrow> json_dict \<Rightarrow> string option \<Rightarrow> datetime option \<Rightarrow> datetime option \<Rightarrow> json_dict option
    \<Rightarrow> resource_descriptor list \<Rightarrow> (string \<times> string) list option \<Rightarrow> resource_descriptor list \<Rightarrow> resource_descriptor list
    \<Rightarrow> in_toto_statement result" where
  "slsa_build_provenance_statement subjects build_type builder_id external invocation_id started_on finished_on internal
      resolved_dependencies builder_versions builder_dependencies byproducts =
    rbind (check_fields ''SlsaBuildDefinitionV1'' slsa_build_definition_fields
      \<lparr>sbd_build_type = strip build_type, sbd_external_parameters = external,
       sbd_internal_parameters = (case internal of None \<Rightarrow> [] | Some p \<Rightarrow> p), sbd_resolved_dependencies = resolved_dependencies\<rparr>) (\<lambda>build.
    rbind (check_fields ''SlsaBuilderV1'' slsa_builder_fields
      \<lparr>slb_id = strip builder_id,
       slb_version = (case builder_versions of None \<Rightarrow> [] | Some vs \<Rightarrow> dict_of (map (\<lambda>(k, v). (strip k, strip v)) vs)),
       slb_builder_dependencies = builder_dependencies\<rparr>) (\<lambda>builder.
    rbind (rbind (check_fields ''SlsaBuildMetadataV1'' slsa_build_metadata_fields
      \<lparr>sbm_invocation_id = map_option strip invocation_id, sbm_started_on = started_on, sbm_finished_on = finished_on\<rparr>)
      validate_slsa_build_metadata) (\<lambda>metadata.
    new_statement subjects slsa_provenance_v1 (dump_slsa_provenance
      \<lparr>slp_build_definition = build,
       slp_run_details = \<lparr>srd_builder = builder, srd_metadata = metadata, srd_byproducts = byproducts\<rparr>\<rparr>))))"

text \<open>\<open>parse_slsa\<close> is \<open>SlsaProvenancePredicateV1.model_validate\<close>.\<close>

definition covers_digest :: "string \<Rightarrow> in_toto_statement \<Rightarrow> bool" where
  "covers_digest sha256 statement = list_ex (\<lambda>s. map_of (ard_digest s) ''sha256'' = Some sha256) (its_subject statement)"

definition verify_artifact_provenance ::
  "(json_dict \<Rightarrow> slsa_provenance result) \<Rightarrow> artifact_provenance_policy \<Rightarrow> in_toto_statement \<Rightarrow> string \<Rightarrow> bool \<Rightarrow> unit result" where
  "verify_artifact_provenance parse_slsa policy statement artifact_sha256 signature_verified =
    (if app_require_verified_signature policy \<and> \<not> signature_verified
     then Inl (PermissionError ''artifact provenance signature is not verified'')
     else if its_predicate_type statement \<noteq> app_required_predicate_type policy
     then Inl (PermissionError ''artifact provenance predicate type is not allowed'')
     else if \<not> covers_digest artifact_sha256 statement
     then Inl (PermissionError ''artifact digest is not covered by provenance'')
     else rbind (parse_slsa (its_predicate statement)) (\<lambda>predicate.
       if slb_id (srd_builder (slp_run_details predicate)) \<notin> set (app_allowed_builder_ids policy)
       then Inl (PermissionError ''artifact provenance builder is not trusted'')
       else if app_allowed_build_types policy \<noteq> []
         \<and> sbd_build_type (slp_build_definition predicate) \<notin> set (app_allowed_build_types policy)
       then Inl (PermissionError ''artifact provenance build type is not allowed'')
       else Inr ()))"

section \<open>Assurance of an evidence archive\<close>

type_synonym ed25519 = "string \<Rightarrow> string \<Rightarrow> string \<Rightarrow> bool"

definition default_profile :: assurance_profile where
  "default_profile = \<lparr>asp_schema_name = ''prodkit.assurance-profile'', asp_schema_version = ''1.0.0'',
     asp_profile_id = ''prodkit-enterprise-default'', asp_signing = SigningReq_REQUIRED, asp_require_retention_lock = True,
     asp_minimum_retention_days = 30, asp_accepted_retention_modes = [LockMode_COMPLIANCE, LockMode_WRITE_ONCE]\<rparr>"

definition verify_statement_subject :: "in_toto_statement \<Rightarrow> string \<Rightarrow> unit result" where
  "verify_statement_subject statement expected =
    raise_if (\<not> covers_digest expected statement) (IntegrityViolationError ''attestation does not identify the expected subject digest'')"

text \<open>The sections of \<open>verify_evidence_archive\<close>: signature, manifest against checkpoint, statement and retention lock.\<close>

definition check_signed ::
  "ed25519 \<Rightarrow> signed_checkpoint option \<Rightarrow> trust_root_policy option \<Rightarrow> assurance_profile \<Rightarrow> string \<Rightarrow> unit result" where
  "check_signed verify checkpoint trust_policy profile digest = (case checkpoint of
     None \<Rightarrow> raise_if (asp_signing profile = SigningReq_REQUIRED)
       (IntegrityViolationError ''assurance profile requires a signed checkpoint'')
   | Some c \<Rightarrow> (case trust_policy of
       None \<Rightarrow> Inl (IntegrityViolationError ''signed checkpoint verification requires a trust-root policy'')
     | Some p \<Rightarrow> rbind (verify_checkpoint verify c p) (\<lambda>_.
         raise_if (scp_evidence_bundle_sha256 c \<noteq> digest)
           (IntegrityViolationError ''signed checkpoint does not identify evidence archive''))))"

definition check_manifest :: "signed_checkpoint option \<Rightarrow> json_dict \<Rightarrow> unit result" where
  "check_manifest checkpoint manifest = (case checkpoint of
     None \<Rightarrow> Inr ()
   | Some c \<Rightarrow>
       rbind (raise_if (JStr (scp_run_id c) \<noteq> jget ''run_id'' manifest)
         (IntegrityViolationError ''checkpoint run id does not match evidence bundle'')) (\<lambda>_.
       raise_if (JStr (scp_final_event_hash c) \<noteq> jget ''final_event_hash'' manifest)
         (IntegrityViolationError ''checkpoint final event hash does not match evidence bundle'')))"

definition check_statement ::
  "sha256_fn \<Rightarrow> signed_checkpoint option \<Rightarrow> in_toto_statement option \<Rightarrow> string \<Rightarrow> unit result" where
  "check_statement sha checkpoint statement digest = (case statement of
     None \<Rightarrow> Inr ()
   | Some st \<Rightarrow>
       rbind (verify_statement_subject st digest) (\<lambda>_.
       rbind (attestation_sha256 sha st) (\<lambda>statement_digest.
       raise_if (\<exists>c. checkpoint = Some c \<and> scp_attestation_sha256 c \<noteq> Some statement_digest)
         (IntegrityViolationError ''checkpoint attestation digest does not match statement''))))"

definition check_retention :: "retention_lock_receipt option \<Rightarrow> assurance_profile \<Rightarrow> string \<Rightarrow> unit result" where
  "check_retention receipt profile digest = (case receipt of
     None \<Rightarrow> raise_if (asp_require_retention_lock profile)
       (IntegrityViolationError ''assurance profile requires a retention-lock receipt'')
   | Some r \<Rightarrow> verify_retention_lock r digest profile)"

definition verify_evidence_archive ::
  "bundle_env \<Rightarrow> ed25519 \<Rightarrow> string \<Rightarrow> signed_checkpoint option \<Rightarrow> trust_root_policy option \<Rightarrow> in_toto_statement option
    \<Rightarrow> retention_lock_receipt option \<Rightarrow> assurance_profile option \<Rightarrow> string option \<Rightarrow> json_dict result" where
  "verify_evidence_archive E verify archive checkpoint trust_policy statement receipt profile expected =
    (let profile = (case profile of None \<Rightarrow> default_profile | Some p \<Rightarrow> p);
         digest = evidence_bundle_sha256 (be_sha E) archive
     in rbind (raise_if (\<exists>d. expected = Some d \<and> digest \<noteq> lower d)
          (IntegrityViolationError ''evidence archive does not match independent digest anchor'')) (\<lambda>_.
        rbind (check_signed verify checkpoint trust_policy profile digest) (\<lambda>_.
        rbind (verify_bundle E archive (Some digest)) (\<lambda>manifest.
        rbind (check_manifest checkpoint manifest) (\<lambda>_.
        rbind (check_statement (be_sha E) checkpoint statement digest) (\<lambda>_.
        rbind (check_retention receipt profile digest) (\<lambda>_.
        Inr manifest)))))))"

section \<open>Portable packages\<close>

definition package_schema_name :: string where "package_schema_name = ''prodkit.portable-evidence-package''"
definition package_schema_version :: string where "package_schema_version = ''1.0.0''"
definition package_max_member_bytes :: int where "package_max_member_bytes = 128 * 1024 * 1024"
definition package_max_total_bytes :: int where "package_max_total_bytes = 256 * 1024 * 1024"

definition payload_members :: "string list" where
  "payload_members = [''evidence.zip'', ''attestation.json'', ''checkpoint.json'', ''trust-root.json'', ''retention-lock.json'']"

definition package_members :: "string list" where
  "package_members = ''package-manifest.json'' # payload_members"

definition portable_package_sha256 :: "sha256_fn \<Rightarrow> string \<Rightarrow> string" where
  "portable_package_sha256 sha package = sha256_hex_bytes sha package"

definition check_package_members :: "zip_member list \<Rightarrow> unit result" where
  "check_package_members ms =
    (let names = map zm_name ms in
     if \<not> distinct names then Inl (IntegrityViolationError ''portable package contains duplicate members'')
     else if set names \<noteq> set package_members then Inl (IntegrityViolationError ''portable package member set is invalid'')
     else if list_ex (\<lambda>m. is_dir m \<or> package_max_member_bytes < zm_size m) ms
     then Inl (IntegrityViolationError ''portable package contains an invalid member'')
     else if package_max_total_bytes < sum_list (map zm_size ms)
     then Inl (IntegrityViolationError ''portable package exceeds total size limit'')
     else Inr ())"

fun read_payloads :: "zip_member list \<Rightarrow> (string \<times> string) list result" where
  "read_payloads [] = Inr []"
| "read_payloads (m # ms) = rbind (zm_content m) (\<lambda>content. rbind (read_payloads ms) (\<lambda>rest. Inr ((zm_name m, content) # rest)))"

definition read_package :: "zip_reader \<Rightarrow> string \<Rightarrow> (string \<times> string) list result" where
  "read_package unzip package =
    catching zip_error (IntegrityViolationError ''portable package is not a valid archive'')
      (rbind (unzip package) (\<lambda>ms. rbind (check_package_members ms) (\<lambda>_. read_payloads ms)))"

definition load_package_manifest :: "(string \<Rightarrow> string) \<Rightarrow> string \<Rightarrow> json_dict result" where
  "load_package_manifest fr =
    load_object fr ''portable package manifest is not valid JSON'' ''portable package manifest must be an object''"

text \<open>\<open>payloads[name]\<close>; the names used are always there.\<close>

definition payload :: "string \<Rightarrow> (string \<times> string) list \<Rightarrow> string" where
  "payload name payloads = (case map_of payloads name of Some b \<Rightarrow> b | None \<Rightarrow> [])"

definition check_file_digest :: "sha256_fn \<Rightarrow> (string \<times> string) list \<Rightarrow> string \<times> json \<Rightarrow> unit result" where
  "check_file_digest sha payloads file = (case file of (name, digest) \<Rightarrow>
     (case digest of
        JStr d \<Rightarrow>
          if length d \<noteq> 64 then Inl (IntegrityViolationError ''portable package contains an invalid file digest'')
          else if \<not> list_all is_hex d then Inl (IntegrityViolationError ''portable package contains a non-canonical file digest'')
          else if sha256_hex_bytes sha (payload name payloads) \<noteq> d
          then Inl (IntegrityViolationError (''portable package member digest mismatch: '' @ name))
          else Inr ()
      | _ \<Rightarrow> Inl (IntegrityViolationError ''portable package contains an invalid file digest'')))"

fun check_each :: "('a \<Rightarrow> unit result) \<Rightarrow> 'a list \<Rightarrow> unit result" where
  "check_each f [] = Inr ()"
| "check_each f (x # xs) = rbind (f x) (\<lambda>_. check_each f xs)"

definition scalar_digests :: "(string \<times> string) list" where
  "scalar_digests =
    [(''evidence_bundle_sha256'', ''evidence.zip''), (''attestation_sha256'', ''attestation.json''), (''checkpoint_sha256'', ''checkpoint.json''),
     (''trust_root_sha256'', ''trust-root.json''), (''retention_lock_sha256'', ''retention-lock.json'')]"

text \<open>Returns the \<open>standards\<close> object the caller goes on to read.\<close>

definition validate_package_manifest :: "sha256_fn \<Rightarrow> json_dict \<Rightarrow> (string \<times> string) list \<Rightarrow> json_dict result" where
  "validate_package_manifest sha manifest payloads =
    (if jget ''schema_name'' manifest \<noteq> JStr package_schema_name
     then Inl (IntegrityViolationError ''portable package schema name is unsupported'')
     else if jget ''schema_version'' manifest \<noteq> JStr package_schema_version
     then Inl (IntegrityViolationError ''portable package schema version is unsupported'')
     else case jget ''files'' manifest of
       JObj files \<Rightarrow>
         if set (map fst files) \<noteq> set payload_members then Inl (IntegrityViolationError ''portable package file manifest is invalid'')
         else rbind (check_each (check_file_digest sha payloads) files) (\<lambda>_.
           rbind (check_each (\<lambda>(field, member). raise_if (jget field manifest \<noteq> jget member files)
             (IntegrityViolationError (''portable package '' @ field @ '' is inconsistent''))) scalar_digests) (\<lambda>_.
           case jget ''standards'' manifest of
             JObj standards \<Rightarrow>
               if jget ''in_toto_statement'' standards \<noteq> JStr in_toto_statement_v1
               then Inl (IntegrityViolationError ''portable package in-toto statement version is unsupported'')
               else if jget ''canonicalization'' standards \<noteq> JStr ''prodkit-json-v1''
               then Inl (IntegrityViolationError ''portable package canonicalization is unsupported'')
               else Inr standards
           | _ \<Rightarrow> Inl (IntegrityViolationError ''portable package standards metadata is invalid'')))
     | _ \<Rightarrow> Inl (IntegrityViolationError ''portable package file manifest is invalid''))"

text \<open>What the package verifier takes from outside: that of bundles, Ed25519 and the parsers of the documents.\<close>

record package_env =
  pe_bundle :: bundle_env
  pe_verify :: ed25519
  pe_trust :: "string \<Rightarrow> trust_root_policy result"
  pe_checkpoint :: "string \<Rightarrow> signed_checkpoint result"
  pe_retention :: "string \<Rightarrow> retention_lock_receipt result"
  pe_statement :: "string \<Rightarrow> in_toto_statement result"

fun value_error :: "exn \<Rightarrow> bool" where
  "value_error (ValueError m) = True"
| "value_error e = False"

definition parse_metadata ::
  "package_env \<Rightarrow> (string \<times> string) list
    \<Rightarrow> (trust_root_policy \<times> signed_checkpoint \<times> retention_lock_receipt \<times> in_toto_statement) result" where
  "parse_metadata K payloads =
    catching value_error (IntegrityViolationError ''portable package contains invalid assurance metadata'')
      (rbind (pe_trust K (payload ''trust-root.json'' payloads)) (\<lambda>trust.
       rbind (pe_checkpoint K (payload ''checkpoint.json'' payloads)) (\<lambda>checkpoint.
       rbind (pe_retention K (payload ''retention-lock.json'' payloads)) (\<lambda>retention.
       rbind (pe_statement K (payload ''attestation.json'' payloads)) (\<lambda>statement.
       Inr (trust, checkpoint, retention, statement))))))"

definition parse_statement :: "package_env \<Rightarrow> string \<Rightarrow> in_toto_statement result" where
  "parse_statement K bytes =
    catching value_error (IntegrityViolationError ''attestation is not a supported in-toto Statement v1'') (pe_statement K bytes)"

definition check_standards :: "json_dict \<Rightarrow> in_toto_statement \<Rightarrow> unit result" where
  "check_standards standards statement =
    (let marker = jget ''slsa_provenance'' standards in
     if jget ''predicate_type'' standards \<noteq> JStr (its_predicate_type statement)
     then Inl (IntegrityViolationError ''portable package predicate metadata is inconsistent'')
     else if its_predicate_type statement = slsa_provenance_v1
     then raise_if (marker \<noteq> JStr slsa_provenance_v1) (IntegrityViolationError ''portable package SLSA metadata is inconsistent'')
     else raise_if (marker \<noteq> JNull) (IntegrityViolationError ''portable package falsely declares SLSA provenance''))"

text \<open>The trust root that counts: the caller's, or the embedded one when it has the digest the caller trusts.\<close>

definition effective_trust ::
  "sha256_fn \<Rightarrow> trust_root_policy \<Rightarrow> trust_root_policy option \<Rightarrow> string option \<Rightarrow> trust_root_policy result" where
  "effective_trust sha embedded trusted_policy expected =
    (let digest = sha256_hex sha (dump_trust_root_policy embedded) in
     case trusted_policy of
       Some p \<Rightarrow> if sha256_hex sha (dump_trust_root_policy p) \<noteq> digest
         then Inl (IntegrityViolationError ''embedded trust root does not match trusted policy'') else Inr p
     | None \<Rightarrow> (case expected of
         Some d \<Rightarrow> if digest \<noteq> lower d
           then Inl (IntegrityViolationError ''embedded trust root does not match independent anchor'') else Inr embedded
       | None \<Rightarrow> Inl (IntegrityViolationError
           ''portable package verification requires an independent trust-root policy or digest'')))"

text \<open>\<open>manifest[key]\<close>, and \<open>str(manifest["evidence_bundle_sha256"])\<close>, which is text by then.\<close>

definition manifest_item :: "string \<Rightarrow> json_dict \<Rightarrow> json result" where
  "manifest_item key manifest = (case map_of manifest key of None \<Rightarrow> Inl (KeyError key) | Some v \<Rightarrow> Inr v)"

definition json_text :: "json \<Rightarrow> string" where
  "json_text v = (case v of JStr s \<Rightarrow> s | _ \<Rightarrow> [])"

definition check_scope :: "signed_checkpoint \<Rightarrow> json_dict \<Rightarrow> unit result" where
  "check_scope checkpoint manifest =
    rbind (manifest_item ''run_id'' manifest) (\<lambda>run_id.
    rbind (raise_if (JStr (scp_run_id checkpoint) \<noteq> run_id)
      (IntegrityViolationError ''portable package checkpoint run id is inconsistent'')) (\<lambda>_.
    rbind (manifest_item ''tenant_id'' manifest) (\<lambda>tenant.
    raise_if (JStr (scp_tenant_id checkpoint) \<noteq> tenant)
      (IntegrityViolationError ''portable package checkpoint tenant is inconsistent''))))"

text \<open>The part of \<open>verify\<close> after the manifest; \<open>AssuranceProfile\<close> defaults as in \<open>verify_evidence_archive\<close>.\<close>

definition verify_payloads ::
  "package_env \<Rightarrow> json_dict \<Rightarrow> json_dict \<Rightarrow> (string \<times> string) list \<Rightarrow> trust_root_policy option \<Rightarrow> string option
    \<Rightarrow> assurance_profile option \<Rightarrow> json_dict result" where
  "verify_payloads K manifest standards payloads trusted_policy expected_trust profile =
    (let sha = be_sha (pe_bundle K) in
     rbind (parse_metadata K payloads) (\<lambda>(embedded, checkpoint, retention, statement).
     rbind (check_standards standards statement) (\<lambda>_.
     rbind (effective_trust sha embedded trusted_policy expected_trust) (\<lambda>trust.
     rbind (raise_if (jget ''trust_root_sha256'' manifest \<noteq> JStr (sha256_hex sha (dump_trust_root_policy embedded)))
       (IntegrityViolationError ''portable package trust-root digest is inconsistent'')) (\<lambda>_.
     rbind (verify_evidence_archive (pe_bundle K) (pe_verify K) (payload ''evidence.zip'' payloads) (Some checkpoint) (Some trust)
       (Some statement) (Some retention) profile (Some (json_text (jget ''evidence_bundle_sha256'' manifest)))) (\<lambda>evidence_manifest.
     rbind (check_scope checkpoint manifest) (\<lambda>_.
     Inr evidence_manifest)))))))"

definition verify_package ::
  "package_env \<Rightarrow> string \<Rightarrow> trust_root_policy option \<Rightarrow> string option \<Rightarrow> string option \<Rightarrow> assurance_profile option
    \<Rightarrow> (json_dict \<times> json_dict) result" where
  "verify_package K package trusted_policy expected_trust expected_package profile =
    (let E = pe_bundle K in
     rbind (raise_if (\<exists>d. expected_package = Some d \<and> portable_package_sha256 (be_sha E) package \<noteq> lower d)
       (IntegrityViolationError ''portable package does not match independent digest anchor'')) (\<lambda>_.
     rbind (read_package (be_unzip E) package) (\<lambda>payloads.
     rbind (load_package_manifest (be_float E) (payload ''package-manifest.json'' payloads)) (\<lambda>manifest.
     rbind (validate_package_manifest (be_sha E) manifest payloads) (\<lambda>standards.
     rbind (verify_payloads K manifest standards payloads trusted_policy expected_trust profile) (\<lambda>evidence_manifest.
     Inr (manifest, evidence_manifest)))))))"

section \<open>The package builder\<close>

definition package_manifest ::
  "sha256_fn \<Rightarrow> string \<Rightarrow> in_toto_statement \<Rightarrow> string \<Rightarrow> signed_checkpoint \<Rightarrow> trust_root_policy \<Rightarrow> retention_lock_receipt \<Rightarrow> pyval" where
  "package_manifest sha evidence statement statement_bytes checkpoint trust_policy receipt =
    (let digest = sha256_hex_bytes sha;
         trust_bytes = canonical_json_bytes (dump_trust_root_policy trust_policy);
         retention_bytes = canonical_json_bytes (dump_retention_lock_receipt receipt)
     in PDict
      [(KStr ''schema_name'', PStr package_schema_name),
       (KStr ''schema_version'', PStr package_schema_version),
       (KStr ''run_id'', PStr (scp_run_id checkpoint)),
       (KStr ''tenant_id'', PStr (scp_tenant_id checkpoint)),
       (KStr ''evidence_bundle_sha256'', PStr (evidence_bundle_sha256 sha evidence)),
       (KStr ''attestation_sha256'', PStr (digest statement_bytes)),
       (KStr ''checkpoint_sha256'', PStr (checkpoint_sha256 sha checkpoint)),
       (KStr ''trust_root_sha256'', PStr (digest trust_bytes)),
       (KStr ''retention_lock_sha256'', PStr (digest retention_bytes)),
       (KStr ''standards'', PDict
         [(KStr ''in_toto_statement'', PStr in_toto_statement_v1),
          (KStr ''predicate_type'', PStr (its_predicate_type statement)),
          (KStr ''slsa_provenance'', if its_predicate_type statement = slsa_provenance_v1 then PStr slsa_provenance_v1 else PNone),
          (KStr ''canonicalization'', PStr ''prodkit-json-v1'')]),
       (KStr ''files'', PDict
         [(KStr ''evidence.zip'', PStr (digest evidence)),
          (KStr ''attestation.json'', PStr (digest statement_bytes)),
          (KStr ''checkpoint.json'', PStr (digest (canonical_json_bytes (dump_signed_checkpoint checkpoint)))),
          (KStr ''trust-root.json'', PStr (digest trust_bytes)),
          (KStr ''retention-lock.json'', PStr (digest retention_bytes))])])"

definition package_contents ::
  "string \<Rightarrow> string \<Rightarrow> string \<Rightarrow> signed_checkpoint \<Rightarrow> trust_root_policy \<Rightarrow> retention_lock_receipt \<Rightarrow> (string \<times> string) list" where
  "package_contents manifest evidence statement_bytes checkpoint trust_policy receipt =
    [(''package-manifest.json'', manifest),
     (''evidence.zip'', evidence),
     (''attestation.json'', statement_bytes),
     (''checkpoint.json'', canonical_json_bytes (dump_signed_checkpoint checkpoint)),
     (''trust-root.json'', canonical_json_bytes (dump_trust_root_policy trust_policy)),
     (''retention-lock.json'', canonical_json_bytes (dump_retention_lock_receipt receipt))]"

definition build_package ::
  "bundle_env \<Rightarrow> ed25519 \<Rightarrow> zip_writer \<Rightarrow> string \<Rightarrow> in_toto_statement \<Rightarrow> signed_checkpoint \<Rightarrow> trust_root_policy
    \<Rightarrow> retention_lock_receipt \<Rightarrow> string \<Rightarrow> assurance_profile option \<Rightarrow> (files, string) prog" where
  "build_package E verify write_zip evidence_archive statement checkpoint trust_policy receipt destination profile fs =
    (case fs evidence_archive of
       None \<Rightarrow> (Inl (ValueError ''portable package evidence archive must be an existing file''), fs)
     | Some evidence \<Rightarrow>
         bindE (lift_result (verify_evidence_archive E verify evidence (Some checkpoint) (Some trust_policy) (Some statement)
           (Some receipt) profile None)) (\<lambda>_.
         bindE (lift_result (attestation_bytes statement)) (\<lambda>statement_bytes.
         let manifest = canonical_json_bytes
           (package_manifest (be_sha E) evidence statement statement_bytes checkpoint trust_policy receipt) in
         bindE (write_file destination
           (write_zip (package_contents manifest evidence statement_bytes checkpoint trust_policy receipt))) (\<lambda>_.
         ret destination))) fs)"

section \<open>Governed transfers\<close>

definition verify_transfer ::
  "package_env \<Rightarrow> uuid \<Rightarrow> datetime \<Rightarrow> evidence_transfer_manifest \<Rightarrow> string \<Rightarrow> compatibility_policy \<Rightarrow> trust_root_policy option
    \<Rightarrow> string option \<Rightarrow> assurance_profile option \<Rightarrow> evidence_transfer_verification result" where
  "verify_transfer K verification_id now manifest package compatibility trusted_policy expected_trust profile =
    (let sha = be_sha (pe_bundle K); package_digest = portable_package_sha256 sha package in
     rbind (raise_if (package_digest \<noteq> etm_archive_sha256 manifest)
       (IntegrityViolationError ''transfer package digest does not match export manifest'')) (\<lambda>_.
     rbind (path_from compatibility (etm_source_schema_version manifest)) (\<lambda>_.
     rbind (verify_package K package trusted_policy expected_trust (Some package_digest) profile) (\<lambda>(package_manifest, evidence_manifest).
     rbind (raise_if (jget ''tenant_id'' package_manifest \<noteq> JStr (etm_tenant_id manifest))
       (IntegrityViolationError ''transfer tenant does not match portable package'')) (\<lambda>_.
     rbind (raise_if (has_nonfinite (JObj evidence_manifest)) (ValueError ''Out of range float values are not JSON compliant'')) (\<lambda>_.
     let bundle_digest = sha256_hex sha (pyval_of (JObj evidence_manifest)) in
     rbind (raise_if (bundle_digest \<noteq> etm_bundle_manifest_sha256 manifest)
       (IntegrityViolationError ''transfer bundle manifest digest does not match package'')) (\<lambda>_.
     rbind (case trusted_policy of
         Some p \<Rightarrow> Inr (sha256_hex sha (dump_trust_root_policy p))
       | None \<Rightarrow> (case expected_trust of
           Some d \<Rightarrow> Inr (lower d)
         | None \<Rightarrow> Inl (IntegrityViolationError ''transfer verification requires an independent trust anchor''))) (\<lambda>anchor.
     rbind (check_fields ''EvidenceTransferVerification'' evidence_transfer_verification_fields
       \<lparr>tv_schema_name = ''prodkit.evidence-transfer-verification'', tv_schema_version = ''1.0.0'',
        tv_verification_id = verification_id, tv_transfer_id = etm_transfer_id manifest, tv_tenant_id = etm_tenant_id manifest,
        tv_verified_at = now, tv_source_control_version = etm_source_control_version manifest,
        tv_source_schema_version = etm_source_schema_version manifest, tv_package_sha256 = package_digest,
        tv_bundle_manifest_sha256 = bundle_digest, tv_trust_anchor_sha256 = anchor, tv_verified_offline = True\<rparr>)
     validate_transfer_verification))))))))"

end
