(* ===== verification/Bundle_Guarantees.thy ===== *)
theory Bundle_Guarantees
  imports Evidence_Bundles Sample_Data
begin

text \<open>
  What evidence archives guarantee: the archive built for a run verifies, with the hash of the ledger's last event; and two
  archives that verify with one final hash record the same events, or exhibit a collision.
\<close>

section \<open>Objects read back\<close>

lemma fst_map_pairs: "map fst (map (\<lambda>(k, v). (f k, g v)) kvs) = map (f \<circ> fst) kvs" "map fst (map (\<lambda>(k, v). (k, g v)) kvs) = map fst kvs"
  by (induction kvs) auto

definition loaded :: "(pykey \<times> pyval) list \<Rightarrow> json_dict" where
  "loaded kvs = sort_key fst (map (\<lambda>(k, v). (key_str k, jsort (normalize_value v))) kvs)"

lemma jsort_PDict:
  "distinct (map (key_str \<circ> fst) kvs) \<Longrightarrow> jsort (normalize_value (PDict kvs)) = JObj (loaded kvs)"
  by (simp add: loaded_def comp_def case_prod_unfold)

lemma map_of_loaded:
  assumes "distinct (map (key_str \<circ> fst) kvs)"
  shows "map_of (loaded kvs) k = map_option (\<lambda>v. jsort (normalize_value v)) (map_of (map (\<lambda>(k, v). (key_str k, v)) kvs) k)"
proof -
  have "map_of (loaded kvs) k = map_of (map (\<lambda>(k, v). (key_str k, jsort (normalize_value v))) kvs) k"
    unfolding loaded_def by (rule map_of_sort_key_fst [THEN fun_cong]) (use assms in \<open>simp only: fst_map_pairs\<close>)
  also have "\<dots> = map_option (\<lambda>v. jsort (normalize_value v)) (map_of (map (\<lambda>(k, v). (key_str k, v)) kvs) k)"
    by (induction kvs) auto
  finally show ?thesis .
qed

lemma jget_loaded:
  "distinct (map (key_str \<circ> fst) kvs) \<Longrightarrow> jget k (loaded kvs) = (case map_of (map (\<lambda>(k, v). (key_str k, v)) kvs) k of
     None \<Rightarrow> JNull | Some v \<Rightarrow> jsort (normalize_value v))"
  by (simp add: jget_def map_of_loaded split: option.splits)

lemma delete_loaded: "AList.delete k (loaded kvs) = loaded (filter (\<lambda>(k', v). key_str k' \<noteq> k) kvs)"
proof -
  have "AList.delete k (loaded kvs) = filter (\<lambda>kv. k \<noteq> fst kv) (loaded kvs)" by (simp add: AList.delete_eq case_prod_unfold)
  also have "\<dots> = sort_key fst (filter (\<lambda>kv. k \<noteq> fst kv) (map (\<lambda>(k, v). (key_str k, jsort (normalize_value v))) kvs))"
    unfolding loaded_def by (rule filter_sort)
  also have "filter (\<lambda>kv. k \<noteq> fst kv) (map (\<lambda>(k, v). (key_str k, jsort (normalize_value v))) kvs)
      = map (\<lambda>(k, v). (key_str k, jsort (normalize_value v))) (filter (\<lambda>(k', v). key_str k' \<noteq> k) kvs)"
    by (induction kvs) auto
  finally show ?thesis unfolding loaded_def .
qed

section \<open>Canonical values are read back\<close>

lemma readable_jsort: "readable fr v \<Longrightarrow> readable fr (jsort v)"
proof (induction v)
  case (JObj kvs)
  let ?xs = "map (\<lambda>(k, v). (k, jsort v)) kvs"
  have d: "distinct (map fst ?xs)" using JObj.prems by (simp only: fst_map_pairs(2) readable.simps)
  then have "distinct (map fst (sort_key fst ?xs))" by (metis mset_map mset_sort mset_eq_imp_distinct_iff)
  moreover have "\<forall>kv \<in> set (sort_key fst ?xs). readable fr (snd kv)" using JObj by (fastforce simp: snds.simps)
  ultimately show ?case by simp
qed auto

lemma jsort_jsort [simp]: "jsort (jsort v) = jsort v"
proof (induction v)
  case (JObj kvs)
  let ?g = "\<lambda>q. (fst q, jsort (snd q))"
  have g: "(\<lambda>(k, v). (k, jsort v)) = ?g" by auto
  have "map ?g (sort_key fst (map ?g kvs)) = sort_key fst (map ?g (map ?g kvs))" by (rule sort_key_map_snd [symmetric])
  also have "map ?g (map ?g kvs) = map ?g kvs" using JObj by (fastforce simp: snds.simps)
  also have "sort_key fst (map ?g kvs) = sort_key fst (sort_key fst (map ?g kvs))" by (rule sort_key_id_if_sorted [symmetric]) simp
  finally show ?case by (simp only: jsort.simps g) (simp add: sort_key_id_if_sorted)
qed auto

lemma normalize_pyval_of: "readable fr v \<Longrightarrow> normalize_value (pyval_of v) = v"
proof (induction v)
  case (JObj kvs)
  have "normalize_value (pyval_of (snd kv)) = snd kv" if "kv \<in> set kvs" for kv using JObj that by (cases kv) (fastforce simp: snds.simps)
  then have "map (\<lambda>(k, v). (key_str k, normalize_value v)) (map (\<lambda>(k, v). (KStr k, pyval_of v)) kvs) = kvs"
    unfolding map_map by (intro map_idI) (auto simp: case_prod_unfold)
  with JObj.prems show ?case by (simp only: pyval_of.simps normalize_value.simps dict_of_distinct readable.simps)
qed (auto intro: map_idI)

lemma readable_finite: "readable fr v \<Longrightarrow> \<not> has_nonfinite v"
proof (induction v)
  case (JFloat t)
  have "read_number ''nan'' = None" "read_number ''inf'' = None" "read_number ''-inf'' = None" by code_simp+
  with JFloat show ?case by (auto simp: nonfinite_def float_text_def)
qed (fastforce simp: snds.simps)+

lemma canonical_render: "canonical_json_bytes v = utf8 (render (jsort (normalize_value v)))"
  by (simp add: canonical_json_bytes_def dumps_eq_render)

lemma json_loads_canonical:
  "readable fr (normalize_value v) \<Longrightarrow> json_loads fr (canonical_json_bytes v) = Some (jsort (normalize_value v))"
  by (simp add: canonical_render json_loads_render readable_jsort)

text \<open>Values whose dictionaries have distinct keys and whose floats are their own texts.\<close>

fun faithful :: "(string \<Rightarrow> string) \<Rightarrow> pyval \<Rightarrow> bool" where
  "faithful fr (PFloat t) = float_text fr t"
| "faithful fr (PList vs) = (\<forall>v \<in> set vs. faithful fr v)"
| "faithful fr (PTuple vs) = (\<forall>v \<in> set vs. faithful fr v)"
| "faithful fr (PDict kvs) = (distinct (map (key_str \<circ> fst) kvs) \<and> (\<forall>kv \<in> set kvs. faithful fr (snd kv)))"
| "faithful fr v = True"

lemma readable_normalize: "faithful fr v \<Longrightarrow> readable fr (normalize_value v)"
proof (induction v rule: normalize_value.induct)
  case (8 kvs)
  have eq: "map fst (map (\<lambda>(k, v). (key_str k, normalize_value v)) kvs) = map (key_str \<circ> fst) kvs" by auto
  have d: "distinct (map fst (map (\<lambda>(k, v). (key_str k, normalize_value v)) kvs))" unfolding eq using 8(2) by simp
  have "readable fr (snd kv)" if "kv \<in> set (map (\<lambda>(k, v). (key_str k, normalize_value v)) kvs)" for kv using that 8 by fastforce
  with d show ?case unfolding normalize_value.simps dict_of_distinct [OF d] readable.simps by blast
qed auto

lemma load_object_dict:
  assumes "faithful fr (PDict kvs)"
  shows "load_object fr x y (canonical_json_bytes (PDict kvs)) = Inr (loaded kvs)"
  using json_loads_canonical [OF readable_normalize [OF assms]] jsort_PDict [of kvs] assms by (simp add: load_object_def)

section \<open>Events\<close>

definition event_items :: "control_event \<Rightarrow> (pykey \<times> pyval) list" where
  "event_items e = draft_items e @ [(KStr ''sequence'', PInt (ev_sequence e)), (KStr ''integrity'', dump_integrity (ev_integrity e))]"

definition bundle_event :: "(string \<Rightarrow> string) \<Rightarrow> control_event \<Rightarrow> bool" where
  "bundle_event fr e = faithful fr (dump_control_event e)"

lemma dump_control_event_items: "dump_control_event e = PDict (event_items e)"
  by (simp add: dump_control_event_def event_items_def)

lemma event_items_distinct: "distinct (map (key_str \<circ> fst) (event_items e))"
  by (simp add: event_items_def draft_items_def)

lemma load_event_line:
  "bundle_event fr e \<Longrightarrow> load_event fr (canonical_json_bytes (dump_control_event e)) = Inr (loaded (event_items e))"
  unfolding bundle_event_def dump_control_event_items load_event_def by (rule load_object_dict)

definition integrity_items :: "event_integrity \<Rightarrow> (pykey \<times> pyval) list" where
  "integrity_items i =
    [(KStr ''algorithm'', PStr (integ_algorithm i)),
     (KStr ''canonicalization'', PStr (integ_canonicalization i)),
     (KStr ''previous_event_hash'', dump_opt PStr (integ_previous_event_hash i)),
     (KStr ''event_hash'', PStr (integ_event_hash i)),
     (KStr ''signature'', dump_opt PStr (integ_signature i)),
     (KStr ''signing_key_id'', dump_opt PStr (integ_signing_key_id i))]"

lemma dump_integrity_items: "dump_integrity i = PDict (integrity_items i)"
  by (simp add: dump_integrity_def integrity_items_def)

lemma integrity_items_distinct: "distinct (map (key_str \<circ> fst) (integrity_items i))"
  by (simp add: integrity_items_def)

lemma loaded_opt: "jsort (normalize_value (dump_opt PStr s)) = json_opt s"
  by (cases s) (simp_all add: json_opt_def)

lemma event_lookups:
  "jget ''sequence'' (loaded (event_items e)) = JInt (ev_sequence e)"
  "jget ''run_id'' (loaded (event_items e)) = JStr (ev_run_id e)"
  "jget ''tenant_id'' (loaded (event_items e)) = JStr (ev_tenant_id e)"
  "jget ''event_type'' (loaded (event_items e)) = JStr (event_type_value (ev_event_type e))"
  unfolding jget_loaded [OF event_items_distinct] by (simp_all add: event_items_def draft_items_def)

lemma event_integrity_lookup:
  "jget ''integrity'' (loaded (event_items e)) = JObj (loaded (integrity_items (ev_integrity e)))"
  unfolding jget_loaded [OF event_items_distinct] jsort_PDict [OF integrity_items_distinct, symmetric] dump_integrity_items [symmetric]
  by (simp add: event_items_def draft_items_def)

lemma integrity_lookups:
  "jget ''previous_event_hash'' (loaded (integrity_items i)) = json_opt (integ_previous_event_hash i)"
  "jget ''event_hash'' (loaded (integrity_items i)) = JStr (integ_event_hash i)"
  unfolding jget_loaded [OF integrity_items_distinct] by (simp_all add: integrity_items_def loaded_opt)

lemma delete_integrity:
  "AList.delete ''integrity'' (loaded (event_items e)) = loaded (draft_items e @ [(KStr ''sequence'', PInt (ev_sequence e))])"
  unfolding delete_loaded by (simp add: event_items_def draft_items_def)

lemma hash_items_distinct: "distinct (map (key_str \<circ> fst) (draft_items e @ [(KStr ''sequence'', PInt (ev_sequence e))]))"
  by (simp add: draft_items_def)

lemma material_readable:
  assumes "bundle_event fr e" shows "readable fr (normalize_value (hash_material e))"
proof -
  have "faithful fr (hash_material e)"
    using assms unfolding bundle_event_def dump_control_event_items hash_material_def event_items_def
    by (auto simp: hash_items_distinct simp del: map_append)
  then show ?thesis by (rule readable_normalize)
qed

lemma envelope_bytes:
  assumes "bundle_event fr e"
  shows "canonical_json_bytes (hash_envelope (AList.delete ''integrity'' (loaded (event_items e))) p) = canonical_json_bytes (event_envelope (hash_material e) p)"
    "\<not> has_nonfinite (JObj (AList.delete ''integrity'' (loaded (event_items e))))"
proof -
  let ?d = "AList.delete ''integrity'' (loaded (event_items e))"
  have d: "JObj ?d = jsort (normalize_value (hash_material e))"
    unfolding delete_integrity hash_material_def by (rule jsort_PDict [OF hash_items_distinct, symmetric])
  have r: "readable fr (JObj ?d)" unfolding d by (rule readable_jsort [OF material_readable [OF assms]])
  show "\<not> has_nonfinite (JObj ?d)" by (rule readable_finite [OF r])
  have n: "normalize_value (pyval_of (JObj ?d)) = JObj ?d" by (rule normalize_pyval_of [OF r])
  have j: "jsort (JObj ?d) = jsort (normalize_value (hash_material e))" by (simp only: d jsort_jsort)
  have nd: "normalize_value (PDict [(KStr ''event'', v), (KStr ''previous_event_hash'', w)])
      = JObj [(''event'', normalize_value v), (''previous_event_hash'', normalize_value w)]" for v w
    by (simp add: dict_of_def)
  show "canonical_json_bytes (hash_envelope ?d p) = canonical_json_bytes (event_envelope (hash_material e) p)"
    unfolding canonical_render hash_envelope_def event_envelope_def nd n using j by (simp only: jsort.simps(2) list.map prod.case)
qed

lemma event_hash_read:
  "bundle_event fr e \<Longrightarrow> sha256_hex sha (hash_envelope (AList.delete ''integrity'' (loaded (event_items e))) p) = sha256_hex sha (event_envelope (hash_material e) p)"
  by (simp only: sha256_hex_def envelope_bytes(1))

lemma event_type_value_nonempty [simp]: "event_type_value t \<noteq> []"
  by (cases t) simp_all

lemma check_event_line:
  assumes e: "bundle_event fr e" and link: "link_ok sha tenant prev n e" and "ev_run_id e = run_id" "tenant \<noteq> []"
    and sha: "is_sha256 (integ_event_hash (ev_integrity e))" and tn: "tn = None \<or> tn = Some tenant"
  shows "check_event sha run_id n prev tn (loaded (event_items e))
    = Inr (tenant, event_type_value (ev_event_type e), integ_event_hash (ev_integrity e))"
proof -
  let ?d = "loaded (integrity_items (ev_integrity e))"
  note d = event_integrity_lookup [of e] integrity_lookups [of "ev_integrity e"]
  have h: "sha256_hex sha (hash_envelope (AList.delete ''integrity'' (loaded (event_items e))) prev) = integ_event_hash (ev_integrity e)"
    using link event_hash_read [OF e] by (simp add: link_ok_def)
  have "check_integrity sha (AList.delete ''integrity'' (loaded (event_items e))) ?d prev = Inr (integ_event_hash (ev_integrity e))"
    using link d sha envelope_bytes(2) [OF e] unfolding check_integrity_def h by (simp add: link_ok_def is_sha256_value_def)
  then show ?thesis using link assms(3,4) tn d(1)
    by (auto simp: check_event_def event_lookups link_ok_def equals_int_def nonempty_text_def)
qed

lemma read_events_chain:
  assumes "verify_events sha tenant r prev n es = Inr ()" "\<forall>e \<in> set es. bundle_event fr e \<and> ev_run_id e = run_id \<and> is_sha256 (integ_event_hash (ev_integrity e))"
    and "tenant \<noteq> []" "ss_previous st = prev" "ss_tenant st = None \<or> ss_tenant st = Some tenant"
  shows "read_events sha fr run_id n st (map (\<lambda>e. canonical_json_bytes (dump_control_event e)) es) = Inr
    (if es = [] then st else \<lparr>ss_previous = last_event_hash es, ss_tenant = Some tenant,
      ss_counts = counter (ss_counts st) (map (\<lambda>e. event_type_value (ev_event_type e)) es)\<rparr>)"
  using assms
proof (induction es arbitrary: prev n st)
  case (Cons e es)
  let ?st = "\<lparr>ss_previous = Some (integ_event_hash (ev_integrity e)), ss_tenant = Some tenant,
      ss_counts = counter (ss_counts st) [event_type_value (ev_event_type e)]\<rparr>"
  have e: "bundle_event fr e" using Cons.prems(2) by simp
  have "check_event sha run_id n prev (ss_tenant st) (loaded (event_items e))
      = Inr (tenant, event_type_value (ev_event_type e), integ_event_hash (ev_integrity e))"
    by (rule check_event_line [OF e _ _ Cons.prems(3) _ Cons.prems(5)]) (use Cons.prems in simp_all)
  then have step: "read_events sha fr run_id n st (map (\<lambda>e. canonical_json_bytes (dump_control_event e)) (e # es))
      = read_events sha fr run_id (n + 1) ?st (map (\<lambda>e. canonical_json_bytes (dump_control_event e)) es)"
    using Cons.prems(4) by (simp add: load_event_line [OF e])
  have "read_events sha fr run_id (n + 1) ?st (map (\<lambda>e. canonical_json_bytes (dump_control_event e)) es) = Inr
      (if es = [] then ?st else \<lparr>ss_previous = last_event_hash es, ss_tenant = Some tenant,
        ss_counts = counter (ss_counts ?st) (map (\<lambda>e. event_type_value (ev_event_type e)) es)\<rparr>)"
    by (rule Cons.IH) (use Cons.prems in simp_all)
  then show ?case unfolding step by (simp add: last_event_hash_def)
qed simp

section \<open>Lines\<close>

definition plain :: "string \<Rightarrow> bool" where
  "plain s \<longleftrightarrow> (\<forall>c \<in> set s. 32 \<le> (of_char c :: nat))"

lemma plain_simps [simp]: "plain []" "plain (c # s) \<longleftrightarrow> 32 \<le> (of_char c :: nat) \<and> plain s" "plain (s @ t) \<longleftrightarrow> plain s \<and> plain t"
  by (auto simp: plain_def)

lemma plain_esc: "plain (esc_char c)"
proof -
  have "32 \<le> (of_char (hex_char n) :: nat)" if "n < 16" for n using that by simp
  then show ?thesis by (auto simp: esc_char_def less_mult_imp_div_less)
qed

lemma plain_json_str: "plain (json_str s)"
proof -
  have "plain (concat (map esc_char s))" by (induction s) (simp_all add: plain_esc)
  then show ?thesis by (simp add: json_str_def)
qed

lemma plain_join: "plain sep \<Longrightarrow> \<forall>x \<in> set xs. plain x \<Longrightarrow> plain (join sep xs)"
  by (induction xs) (auto simp: join_Cons)

lemma plain_digits: "\<forall>c \<in> set s. is_digit c \<Longrightarrow> plain s"
  by (auto simp: plain_def is_digit_def Let_def dest!: bspec)

lemma digit_ge: "is_digit c \<Longrightarrow> 32 \<le> (of_char c :: nat)"
  by (simp add: is_digit_def Let_def)

lemma plain_int: "plain (int_str i)"
  using nat_str_digits by (auto simp: int_str_def list_all_iff intro!: plain_digits)

lemma plain_number: "read_number t = Some (i, f, []) \<Longrightarrow> plain t"
proof -
  assume n: "read_number t = Some (i, f, [])"
  let ?m = "takeWhile (\<lambda>x. x = CHR ''-'') (take 1 t)"
  from n obtain j x g y e where p: "read_int (drop (length ?m) t) = Some (j, x)" "read_frac x = (g, y)" "read_exp y = (e, [])"
    and if': "i = ?m @ j" "f = g @ e" by (auto simp: read_number_def Let_def split: option.splits prod.splits)
  have digits: "plain (takeWhile is_digit u)" for u by (rule plain_digits) (auto dest: set_takeWhileD)
  have "plain j" using p(1) digits digit_ge by (auto simp: read_int_def split: list.splits if_splits)
  moreover have "plain g" using p(2) digits by (auto simp: read_frac_def split: list.splits if_splits)
  moreover have "plain (takeWhile (\<lambda>x. x \<in> {CHR ''+'', CHR ''-''}) u)" for u by (auto simp: plain_def dest!: set_takeWhileD)
  then have "plain e" using p(3) digits by (auto simp: read_exp_def Let_def split: list.splits if_splits)
  moreover have "plain ?m" by (auto simp: plain_def dest!: set_takeWhileD)
  ultimately have "plain (i @ f @ [])" unfolding if' by simp
  moreover have "t = i @ f @ []" by (rule read_number_append(2) [OF n, of "[]"]) (simp add: stops_def)
  ultimately show ?thesis by metis
qed

lemma plain_render: "readable fr v \<Longrightarrow> plain (render v)"
proof (induction v)
  case (JFloat t)
  then show ?case using plain_number by (auto simp: float_text_def split: option.splits)
next
  case (JObj kvs)
  have "\<forall>x \<in> set (map (\<lambda>(k, v). json_member (k, render v)) kvs). plain x"
    using JObj by (fastforce simp: snds.simps json_member_def plain_json_str)
  then show ?case by (simp add: plain_join)
next
  case (JList vs)
  then show ?case by (auto intro!: plain_join)
qed (simp_all add: plain_json_str plain_int)

lemma plain_utf8: "plain s \<Longrightarrow> plain (utf8 s)"
proof (induction s)
  case (Cons c s)
  have q: "(of_char c :: nat) div 64 < 4" by (simp add: less_mult_imp_div_less)
  have "32 \<le> (of_char (char_of (192 + (of_char c :: nat) div 64)) :: nat)" using q by (simp add: of_char_of)
  moreover have "32 \<le> (of_char (char_of (128 + (of_char c :: nat) mod 64)) :: nat)" by (simp add: of_char_of)
  ultimately have "plain (utf8_char c)" using Cons.prems by (simp add: utf8_char_def Let_def)
  with Cons show ?case by (simp add: utf8_def)
qed (simp add: utf8_def)

lemma plain_canonical: "readable fr (normalize_value v) \<Longrightarrow> plain (canonical_json_bytes v)"
  unfolding canonical_render by (intro plain_utf8 plain_render readable_jsort)

lemma canonical_nonempty: "readable fr (normalize_value v) \<Longrightarrow> canonical_json_bytes v \<noteq> []"
proof -
  assume "readable fr (normalize_value v)"
  then have "opens (render (jsort (normalize_value v)))" by (intro opens_render readable_jsort)
  then show ?thesis unfolding canonical_render by (auto simp: opens_def utf8_def utf8_char_not_Nil split: list.splits)
qed

lemma split_lines_plain: "plain s \<Longrightarrow> split_lines acc (s @ CHR 0x0A # r) = (rev acc @ s) # split_lines [] r"
proof (induction s arbitrary: acc)
  case Nil
  show ?case by (cases r) simp_all
next
  case (Cons c s)
  have c: "c \<noteq> CHR 0x0A" "c \<noteq> CHR 0x0D" using Cons.prems by auto
  obtain d u where d: "s @ CHR 0x0A # r = d # u" by (cases s) auto
  have "split_lines acc ((c # s) @ CHR 0x0A # r) = split_lines (c # acc) (s @ CHR 0x0A # r)" unfolding append_Cons d using c by simp
  with Cons show ?case by simp
qed

lemma splitlines_joined:
  "ls \<noteq> [] \<Longrightarrow> \<forall>l \<in> set ls. plain l \<Longrightarrow> splitlines (join [CHR 0x0A] ls @ [CHR 0x0A]) = ls"
proof (induction ls)
  case (Cons l ls)
  show ?case
  proof (cases "ls = []")
    case True
    with Cons.prems split_lines_plain [of l "[]" "[]"] show ?thesis by (simp add: splitlines_def)
  next
    case False
    with Cons split_lines_plain [of l "[]" "join [CHR 0x0A] ls @ [CHR 0x0A]"] show ?thesis
      by (simp add: splitlines_def join_Cons)
  qed
qed simp

lemma event_lines:
  assumes "es \<noteq> []" "\<forall>e \<in> set es. bundle_event fr e"
  shows "splitlines (events_bytes es) = map (\<lambda>e. canonical_json_bytes (dump_control_event e)) es"
    "[] \<notin> set (splitlines (events_bytes es))"
proof -
  have r: "readable fr (normalize_value (dump_control_event e))" if "e \<in> set es" for e
    using assms(2) that by (auto simp: bundle_event_def intro: readable_normalize)
  show lines: "splitlines (events_bytes es) = map (\<lambda>e. canonical_json_bytes (dump_control_event e)) es"
    unfolding events_bytes_def by (rule splitlines_joined) (use assms(1) r plain_canonical in auto)
  show "[] \<notin> set (splitlines (events_bytes es))" unfolding lines using r canonical_nonempty by fastforce
qed

section \<open>The manifest of a built archive\<close>

definition count_items :: "(string \<times> nat) list \<Rightarrow> (pykey \<times> pyval) list" where
  "count_items counts = map (\<lambda>(k, n). (KStr k, PInt (int n))) counts"

definition file_items :: "sha256_fn \<Rightarrow> control_event list \<Rightarrow> lineage_graph option \<Rightarrow> (pykey \<times> pyval) list" where
  "file_items sha events lineage = (KStr ''events.jsonl'', PStr (sha256_hex_bytes sha (events_bytes events))) #
    (case lineage of None \<Rightarrow> [] | Some g \<Rightarrow> [(KStr ''lineage.json'', PStr (sha256_hex_bytes sha (canonical_json_bytes (dump_lineage_graph g))))])"

definition manifest_items ::
  "sha256_fn \<Rightarrow> uuid \<Rightarrow> string \<Rightarrow> datetime \<Rightarrow> control_event list \<Rightarrow> run_projection \<Rightarrow> lineage_graph option \<Rightarrow> (pykey \<times> pyval) list" where
  "manifest_items sha run_id tenant now events projection lineage =
    [(KStr ''schema_name'', PStr bundle_schema_name),
     (KStr ''schema_version'', PStr bundle_schema_version),
     (KStr ''run_id'', PStr run_id),
     (KStr ''tenant_id'', PStr tenant),
     (KStr ''generated_at'', PStr (isoformat_offset now)),
     (KStr ''event_count'', PInt (int (length events))),
     (KStr ''events_sha256'', PStr (sha256_hex_bytes sha (events_bytes events))),
     (KStr ''final_event_hash'', dump_opt PStr (proj_final_event_hash projection)),
     (KStr ''counts_by_type'', PDict (count_items (proj_counts_by_type projection))),
     (KStr ''lineage_node_count'', PInt (case lineage of None \<Rightarrow> 0 | Some g \<Rightarrow> int (length (lg_nodes g)))),
     (KStr ''lineage_relation_count'', PInt (case lineage of None \<Rightarrow> 0 | Some g \<Rightarrow> int (length (lg_relations g)))),
     (KStr ''files'', PDict (file_items sha events lineage))]"

lemma bundle_manifest_items: "bundle_manifest sha run_id tenant now events p lineage = PDict (manifest_items sha run_id tenant now events p lineage)"
  by (simp add: bundle_manifest_def manifest_items_def file_items_def count_items_def dump_dict_def split: option.splits)

lemma manifest_items_distinct: "distinct (map (key_str \<circ> fst) (manifest_items sha run_id tenant now events p lineage))"
  by (simp add: manifest_items_def)

lemma file_items_distinct: "distinct (map (key_str \<circ> fst) (file_items sha events lineage))"
  by (simp add: file_items_def split: option.splits)

lemma count_items_distinct: "distinct (map fst counts) \<Longrightarrow> distinct (map (key_str \<circ> fst) (count_items counts))"
  unfolding count_items_def map_map by (simp add: comp_def case_prod_unfold)

lemma manifest_faithful:
  assumes "distinct (map fst (proj_counts_by_type p))"
  shows "faithful fr (bundle_manifest sha run_id tenant now events p lineage)"
proof -
  have o: "faithful fr (dump_opt PStr s)" for s by (cases s) simp_all
  have c: "faithful fr (PDict (count_items (proj_counts_by_type p)))"
    using count_items_distinct [OF assms] by (auto simp: count_items_def)
  have f: "faithful fr (PDict (file_items sha events lineage))"
    using file_items_distinct [of sha events lineage] by (auto simp: file_items_def split: option.splits)
  show ?thesis using c f o manifest_items_distinct [of sha run_id tenant now events p lineage]
    unfolding bundle_manifest_items by (simp add: manifest_items_def del: faithful.simps(4)) (simp only: faithful.simps, auto)
qed

definition built :: "sha256_fn \<Rightarrow> uuid \<Rightarrow> string \<Rightarrow> datetime \<Rightarrow> control_event list \<Rightarrow> run_projection \<Rightarrow> lineage_graph option \<Rightarrow> json_dict" where
  "built sha run_id tenant now events p lineage = loaded (manifest_items sha run_id tenant now events p lineage)"

lemma built_lookups:
  assumes "distinct (map fst (proj_counts_by_type p))"
  shows "jget ''schema_name'' (built sha run_id tenant now events p lineage) = JStr bundle_schema_name"
    "jget ''schema_version'' (built sha run_id tenant now events p lineage) = JStr bundle_schema_version"
    "jget ''run_id'' (built sha run_id tenant now events p lineage) = JStr run_id"
    "jget ''tenant_id'' (built sha run_id tenant now events p lineage) = JStr tenant"
    "jget ''event_count'' (built sha run_id tenant now events p lineage) = JInt (int (length events))"
    "jget ''events_sha256'' (built sha run_id tenant now events p lineage) = JStr (sha256_hex_bytes sha (events_bytes events))"
    "jget ''final_event_hash'' (built sha run_id tenant now events p lineage) = json_opt (proj_final_event_hash p)"
    "jget ''counts_by_type'' (built sha run_id tenant now events p lineage) = JObj (loaded (count_items (proj_counts_by_type p)))"
    "jget ''lineage_node_count'' (built sha run_id tenant now events p lineage) = JInt (case lineage of None \<Rightarrow> 0 | Some g \<Rightarrow> int (length (lg_nodes g)))"
    "jget ''lineage_relation_count'' (built sha run_id tenant now events p lineage)
      = JInt (case lineage of None \<Rightarrow> 0 | Some g \<Rightarrow> int (length (lg_relations g)))"
    "jget ''files'' (built sha run_id tenant now events p lineage) = JObj (loaded (file_items sha events lineage))"
  unfolding built_def jget_loaded [OF manifest_items_distinct] jsort_PDict [OF file_items_distinct, symmetric]
    jsort_PDict [OF count_items_distinct [OF assms], symmetric]
  by (simp_all add: manifest_items_def loaded_opt)

lemma load_built:
  assumes "distinct (map fst (proj_counts_by_type p))"
  shows "load_manifest fr (canonical_json_bytes (bundle_manifest sha run_id tenant now events p lineage))
    = Inr (built sha run_id tenant now events p lineage)"
  using load_object_dict [OF manifest_faithful [OF assms, unfolded bundle_manifest_items]]
  unfolding load_manifest_def built_def bundle_manifest_items by blast

text \<open>The counts.\<close>

lemma loaded_counts: "loaded (count_items counts) = sort_key fst (map (\<lambda>(k, n). (k, JInt (int n))) counts)"
  unfolding loaded_def count_items_def by (simp add: comp_def case_prod_unfold)

lemma sum_list_sort_key: "sum_list (map f (sort_key g xs)) = (sum_list (map f xs) :: 'b :: comm_monoid_add)"
  by (metis mset_map mset_sort sum_mset_sum_list)

lemma sum_update:
  "distinct (map fst c) \<Longrightarrow> sum_list (map snd (AList.update x (case map_of c x of None \<Rightarrow> 1 | Some n \<Rightarrow> n + 1) c)) = sum_list (map snd c) + (1 :: nat)"
proof (induction c)
  case (Cons kv c)
  obtain k n where kv: "kv = (k, n)" by (cases kv)
  show ?case
  proof (cases "k = x")
    case False
    with Cons kv show ?thesis by (simp split: option.splits)
  qed (simp add: kv)
qed simp

lemma counter_sum: "distinct (map fst c) \<Longrightarrow> sum_list (map snd (counter c xs)) = sum_list (map snd c) + length xs"
proof (induction xs arbitrary: c)
  case (Cons x xs)
  let ?d = "AList.update x (case map_of c x of None \<Rightarrow> 1 | Some n \<Rightarrow> n + 1) c"
  have "distinct (map fst ?d)" using Cons.prems by (rule distinct_update)
  from Cons.IH [OF this] sum_update [OF Cons.prems, of x] show ?case by (simp del: map_fst_update)
qed simp

lemma counts_checked:
  assumes "distinct (map fst counts)" and "jget ''counts_by_type'' manifest = JObj (loaded (count_items counts))"
  shows "check_counts manifest (int (sum_list (map snd counts))) = Inr ()"
proof -
  have all: "\<not> list_ex (\<lambda>kv. count_value (snd kv) = None) (loaded (count_items counts))"
    unfolding loaded_counts by (auto simp: list_ex_iff count_value_def)
  have "sum_list (map (\<lambda>kv. case count_value (snd kv) of Some i \<Rightarrow> i | None \<Rightarrow> 0) (loaded (count_items counts)))
      = sum_list (map (\<lambda>kv. case count_value (snd kv) of Some i \<Rightarrow> i | None \<Rightarrow> 0) (map (\<lambda>(k, n). (k, JInt (int n))) counts))"
    unfolding loaded_counts by (rule sum_list_sort_key)
  also have "\<dots> = int (sum_list (map snd counts))" by (induction counts) (auto simp: count_value_def)
  finally show ?thesis using all assms(2) by (simp add: check_counts_def)
qed

lemma counts_same:
  assumes "distinct (map fst counts)"
  shows "same_counts counts (JObj (loaded (count_items (sort_key fst counts))))"
proof -
  have d: "distinct (map fst (sort_key fst counts))" using assms by (metis mset_eq_imp_distinct_iff mset_map mset_sort)
  let ?l = "loaded (count_items (sort_key fst counts))"
  have keys: "set (map fst ?l) = set (map fst counts)" unfolding loaded_counts by force
  have "map_of ?l k = Some (JInt (int n))" if "(k, n) \<in> set counts" for k n
  proof -
    have "map_of ?l k = map_of (map (\<lambda>(k, n). (k, JInt (int n))) (sort_key fst counts)) k"
      unfolding loaded_counts by (rule map_of_sort_key_fst [THEN fun_cong]) (use d in \<open>simp only: fst_map_pairs(2)\<close>)
    also have "\<dots> = Some (JInt (int n))"
      by (rule map_of_is_SomeI) (use d that in \<open>force simp only: fst_map_pairs(2), force\<close>)
    finally show ?thesis .
  qed
  with keys show ?thesis by (auto simp: same_counts_def list_all_iff)
qed

section \<open>Built archives verify\<close>

text \<open>The members of a written archive, as a zip reader lists them, and the limits of the verifier.\<close>

definition stored_member :: "string \<times> string \<Rightarrow> zip_member" where
  "stored_member nc = \<lparr>zm_name = fst nc, zm_size = int (length (snd nc)), zm_content = Inr (snd nc)\<rparr>"

definition within_limits :: "zip_member list \<Rightarrow> bool" where
  "within_limits ms \<longleftrightarrow> list_all (\<lambda>m. zm_size m \<le> max_member_bytes) ms \<and> sum_list (map zm_size ms) \<le> max_total_bytes"

lemma read_built_archive:
  assumes "unzip archive = Inr (map stored_member (archive_members manifest events lineage))"
    "within_limits (map stored_member (archive_members manifest events lineage))"
  shows "read_archive unzip archive = Inr (manifest, events_bytes events, map_option (\<lambda>g. canonical_json_bytes (dump_lineage_graph g)) lineage)"
proof (cases lineage)
  case None
  with assms show ?thesis
    by (auto simp: read_archive_def read_members_of_def check_members_def catching_def archive_members_def stored_member_def within_limits_def
        Let_def allowed_members_def member_content_def is_dir_def)
next
  case (Some g)
  with assms show ?thesis
    by (auto simp: read_archive_def read_members_of_def check_members_def catching_def archive_members_def stored_member_def within_limits_def
        Let_def allowed_members_def member_content_def is_dir_def)
qed

lemma project_run_facts:
  assumes "project_run es = Inr p"
  shows "proj_final_event_hash p = last_event_hash es" "es \<noteq> []"
    "proj_counts_by_type p = sort_key fst (counter [] (map (\<lambda>e. event_type_value (ev_event_type e)) es))"
  using assms by (auto simp: project_run_def last_event_hash_def Let_def split: list.splits if_splits)

lemma chain_hashes: "verify_events sha t r p n es = Inr () \<Longrightarrow> e \<in> set es \<Longrightarrow> \<exists>x. integ_event_hash (ev_integrity e) = sha x"
  by (induction es arbitrary: p n) (auto simp: link_ok_def sha256_hex_def)

lemma nonblank_text: "nonblank s \<Longrightarrow> \<not> is_blank s \<and> s \<noteq> []"
  by (auto simp: nonblank_def is_blank_def)

lemma built_events_valid:
  fixes now :: datetime and lineage :: "lineage_graph option"
  assumes chain: "verify_events (be_sha E) tenant r None 1 es = Inr ()" and sha: "\<forall>x. is_sha256 (be_sha E x)"
    and es: "\<forall>e \<in> set es. bundle_event (be_float E) e \<and> ev_run_id e = run_id" and p: "project_run es = Inr p" and tenant: "nonblank tenant"
  defines "m \<equiv> built (be_sha E) run_id tenant now es p lineage"
  shows "validate_events (be_sha E) (be_float E) m run_id (events_bytes es) = Inr tenant"
proof -
  let ?vals = "map (\<lambda>e. event_type_value (ev_event_type e)) es" and ?lines = "map (\<lambda>e. canonical_json_bytes (dump_control_event e)) es"
  note facts = project_run_facts [OF p]
  have d: "distinct (map fst (counter [] ?vals))" by (rule counter_distinct) simp
  then have d': "distinct (map fst (proj_counts_by_type p))" unfolding facts(3) by (metis mset_eq_imp_distinct_iff mset_map mset_sort)
  note look = built_lookups [OF d', of "be_sha E" run_id tenant now es lineage, folded m_def]
  have h: "\<forall>e \<in> set es. bundle_event (be_float E) e \<and> ev_run_id e = run_id \<and> is_sha256 (integ_event_hash (ev_integrity e))"
    using es chain_hashes [OF chain] sha by metis
  have t: "tenant \<noteq> []" using nonblank_text [OF tenant] by simp
  have lines: "splitlines (events_bytes es) = ?lines" "[] \<notin> set (splitlines (events_bytes es))"
    using event_lines [OF facts(2)] es by blast+
  have read: "read_events (be_sha E) (be_float E) run_id 1 \<lparr>ss_previous = None, ss_tenant = None, ss_counts = []\<rparr> ?lines
      = Inr \<lparr>ss_previous = last_event_hash es, ss_tenant = Some tenant, ss_counts = counter [] ?vals\<rparr>"
    using read_events_chain [OF chain h t, of "\<lparr>ss_previous = None, ss_tenant = None, ss_counts = []\<rparr>"] facts(2) by simp
  have same: "same_counts (counter [] ?vals) (jget ''counts_by_type'' m)" unfolding look(8) facts(3) by (rule counts_same [OF d])
  have hash: "json_opt (last_event_hash es) = jget ''final_event_hash'' m" unfolding look(7) facts(1) ..
  have count: "jget ''event_count'' m = JInt (int (length ?lines))" unfolding look(5) by simp
  have ne: "?lines \<noteq> []" "[] \<notin> set ?lines" using facts(2) lines by (simp, metis)
  show ?thesis unfolding validate_events_def Let_def lines(1) count read using ne hash same by (simp add: raise_if_def)
qed

lemma built_manifest_valid:
  fixes now :: datetime and lineage :: "lineage_graph option"
  assumes sha: "\<forall>x. is_sha256 (be_sha E x)" and chain: "verify_events (be_sha E) tenant r None 1 es = Inr ()"
    and uuid: "be_uuid E run_id = Some run_id" and p: "project_run es = Inr p" and tenant: "nonblank tenant"
  defines "m \<equiv> built (be_sha E) run_id tenant now es p lineage"
  shows "validate_manifest (be_sha E) (be_uuid E) m (events_bytes es) (map_option (\<lambda>g. canonical_json_bytes (dump_lineage_graph g)) lineage)
    = Inr (run_id, Some tenant)" "distinct (map fst (proj_counts_by_type p))"
proof -
  let ?vals = "map (\<lambda>e. event_type_value (ev_event_type e)) es"
  let ?lin = "map_option (\<lambda>g. canonical_json_bytes (dump_lineage_graph g)) lineage"
  note facts = project_run_facts [OF p]
  have d: "distinct (map fst (counter [] ?vals))" by (rule counter_distinct) simp
  then show d': "distinct (map fst (proj_counts_by_type p))" unfolding facts(3) by (metis mset_eq_imp_distinct_iff mset_map mset_sort)
  note look = built_lookups [OF d', of "be_sha E" run_id tenant now es lineage, folded m_def]
  have schema: "check_schema m = Inr bundle_schema_version" by (simp add: check_schema_def look)
  have run: "manifest_run_id (be_uuid E) m = Inr run_id" using uuid by (simp add: manifest_run_id_def look)
  have ten: "manifest_tenant m bundle_schema_version = Inr (Some tenant)" using nonblank_text [OF tenant] by (simp add: manifest_tenant_def look)
  have len: "1 \<le> int (length es)" using facts(2) by (cases es) simp_all
  have counts: "manifest_count m ''event_count'' 1 = Inr (int (length es))" "\<exists>i. manifest_count m ''lineage_node_count'' 0 = Inr i"
    "\<exists>i. manifest_count m ''lineage_relation_count'' 0 = Inr i"
    using len by (auto simp: manifest_count_def look split: option.splits)
  have keys: "set (map fst (loaded (file_items (be_sha E) es lineage))) = insert ''events.jsonl'' (if ?lin = None then {} else {''lineage.json''})"
    by (auto simp: loaded_def file_items_def split: option.splits)
  have ev: "jget ''events.jsonl'' (loaded (file_items (be_sha E) es lineage)) = JStr (sha256_hex_bytes (be_sha E) (events_bytes es))"
    unfolding jget_loaded [OF file_items_distinct] by (simp add: file_items_def)
  have files: "check_files (be_sha E) m (events_bytes es) ?lin = Inr ()"
    using sha unfolding check_files_def look(11) json.case keys ev by (simp add: look(6) is_sha256_value_def sha256_hex_bytes_def)
  obtain x where "last_event_hash es = Some (be_sha E x)"
    using chain_hashes [OF chain, of "last es"] facts(2) by (auto simp: last_event_hash_def)
  then have final: "is_sha256_value (jget ''final_event_hash'' m)" using sha by (simp add: look facts(1) json_opt_def is_sha256_value_def)
  have "int (sum_list (map snd (proj_counts_by_type p))) = int (length es)"
    using counter_sum [of "[]" ?vals] unfolding facts(3) by (metis (no_types, lifting) add_0 length_map list.simps(8) distinct.simps(1) mset_map mset_sort sum_list.Nil sum_mset_sum_list)
  then have total: "check_counts m (int (length es)) = Inr ()" using counts_checked [OF d' look(8)] by simp
  show "validate_manifest (be_sha E) (be_uuid E) m (events_bytes es) ?lin = Inr (run_id, Some tenant)"
    using schema run ten counts files final total by (auto simp: validate_manifest_def raise_if_def)
qed

lemma built_lineage_valid:
  fixes now :: datetime
  assumes sha: "\<forall>x. is_sha256 (be_sha E x)" and d: "distinct (map fst (proj_counts_by_type p))"
    and scope: "\<forall>g. lineage = Some g \<longrightarrow> lg_run_id g = run_id \<and> lg_tenant_id g = tenant"
    and graph: "\<forall>g. lineage = Some g \<longrightarrow> be_graph E (canonical_json_bytes (dump_lineage_graph g)) = Inr g"
  shows "validate_lineage (be_sha E) (be_graph E) (built (be_sha E) run_id tenant now es p lineage) run_id tenant
      (map_option (\<lambda>g. canonical_json_bytes (dump_lineage_graph g)) lineage) = Inr ()"
proof (cases lineage)
  case None
  then show ?thesis by (simp add: validate_lineage_def built_lookups [OF d] raise_if_def)
next
  case (Some g)
  have "jget ''lineage.json'' (loaded (file_items (be_sha E) es lineage)) = JStr (be_sha E (canonical_json_bytes (dump_lineage_graph g)))"
    unfolding jget_loaded [OF file_items_distinct] by (simp add: file_items_def Some sha256_hex_bytes_def)
  with Some scope graph sha show ?thesis
    by (simp add: validate_lineage_def Let_def built_lookups [OF d] raise_if_def is_sha256_value_def sha256_hex_bytes_def catching_def)
qed

lemma appended_run_ids:
  assumes "\<forall>t r. \<forall>e \<in> set (list_run_events t r L). ev_run_id e = r"
  shows "\<forall>e \<in> set (list_run_events t r (snd (run_all (ledger_append sha) drafts L))). ev_run_id e = r"
  using assms
proof (induction drafts arbitrary: L)
  case (Cons d drafts)
  obtain x L' where a: "ledger_append sha d L = (x, L')" by fastforce
  have ids: "\<forall>t r. \<forall>e \<in> set (list_run_events t r L'). ev_run_id e = r"
    using a Cons.prems by (auto simp: ledger_append_def Let_def list_run_events_update split: if_splits)
  have "snd (run_all (ledger_append sha) (d # drafts) L) = (case x of Inl _ \<Rightarrow> L' | Inr _ \<Rightarrow> snd (run_all (ledger_append sha) drafts L'))"
    by (auto simp: bindE_def a ret_def split: sum.splits prod.splits)
  with Cons.IH [OF ids] ids show ?case by (cases x) simp_all
qed simp

lemma lower_sha256: "is_sha256 s \<Longrightarrow> lower s = s"
proof -
  have "lower_char c = c" if "is_hex c" for c using that by (auto simp: is_hex_def lower_char_def Let_def)
  then show "is_sha256 s \<Longrightarrow> lower s = s" by (auto simp: is_sha256_def hex_pattern_def lower_def list_all_iff intro!: map_idI)
qed

lemma build_bundle_run:
  assumes "build_bundle sha write_zip L now run_id dest tenant lineage fs = (Inr path, fs')"
  obtains es p where "es = list_run_events tenant run_id L" "verify_events sha tenant run_id None 1 es = Inr ()" "project_run es = Inr p"
    "\<forall>g. lineage = Some g \<longrightarrow> lg_run_id g = run_id \<and> lg_tenant_id g = tenant"
    "fs' path = Some (write_zip (archive_members (canonical_json_bytes (bundle_manifest sha run_id tenant now es p lineage)) es lineage))"
  using assms
  by (auto simp: build_bundle_def bindE_def run_events_of_def verify_run_def write_file_def lift_result_def raise_if_def ret_def Let_def
      split: sum.splits if_splits)

lemma archive_names: "distinct (map fst (archive_members manifest events lineage))"
  by (simp add: archive_members_def split: option.splits)

lemma built_archive_accepted:
  assumes L: "L = snd (run_all (ledger_append (be_sha E)) drafts empty_ledger)"
    and run: "build_bundle (be_sha E) write_zip L now run_id dest tenant lineage fs = (Inr path, fs')"
    and sha: "\<forall>x. is_sha256 (be_sha E x)" and uuid: "be_uuid E run_id = Some run_id" and tenant: "nonblank tenant"
    and zip: "\<forall>ms. distinct (map fst ms) \<longrightarrow> be_unzip E (write_zip ms) = Inr (map stored_member ms)"
    and events: "\<forall>e \<in> set (list_run_events tenant run_id L). bundle_event (be_float E) e"
    and graph: "\<forall>g. lineage = Some g \<longrightarrow> be_graph E (canonical_json_bytes (dump_lineage_graph g)) = Inr g"
    and size: "\<forall>ms. be_unzip E (the (fs' path)) = Inr ms \<longrightarrow> within_limits ms"
  shows "\<exists>archive manifest. fs' path = Some archive \<and> verify_bundle E archive (Some (be_sha E archive)) = Inr manifest
    \<and> jget ''run_id'' manifest = JStr run_id \<and> jget ''tenant_id'' manifest = JStr tenant
    \<and> jget ''event_count'' manifest = JInt (int (length (list_run_events tenant run_id L)))
    \<and> jget ''final_event_hash'' manifest = json_opt (last_event_hash (list_run_events tenant run_id L))"
proof -
  obtain es p where es: "es = list_run_events tenant run_id L" "verify_events (be_sha E) tenant run_id None 1 es = Inr ()" "project_run es = Inr p"
    "\<forall>g. lineage = Some g \<longrightarrow> lg_run_id g = run_id \<and> lg_tenant_id g = tenant"
    "fs' path = Some (write_zip (archive_members (canonical_json_bytes (bundle_manifest (be_sha E) run_id tenant now es p lineage)) es lineage))"
    by (rule build_bundle_run [OF run])
  let ?manifest = "canonical_json_bytes (bundle_manifest (be_sha E) run_id tenant now es p lineage)"
  let ?archive = "write_zip (archive_members ?manifest es lineage)" and ?m = "built (be_sha E) run_id tenant now es p lineage"
  have ev: "\<forall>e \<in> set es. bundle_event (be_float E) e \<and> ev_run_id e = run_id"
    using events appended_run_ids [of empty_ledger tenant run_id "be_sha E" drafts] unfolding es(1) L by (auto simp: list_run_events_def empty_ledger_def)
  have unzip: "be_unzip E ?archive = Inr (map stored_member (archive_members ?manifest es lineage))" using zip archive_names by blast
  have "within_limits (map stored_member (archive_members ?manifest es lineage))" using size es(5) unzip by simp
  with unzip have archive: "read_archive (be_unzip E) ?archive = Inr (?manifest, events_bytes es, map_option (\<lambda>g. canonical_json_bytes (dump_lineage_graph g)) lineage)"
    by (rule read_built_archive)
  note man = built_manifest_valid(1) [OF sha es(2) uuid es(3) tenant, of now lineage]
    and keys = built_manifest_valid(2) [OF sha es(2) uuid es(3) tenant]
  have "verify_bundle E ?archive (Some (be_sha E ?archive)) = Inr ?m"
    using sha lower_sha256 built_lineage_valid [OF sha keys es(4) graph]
    by (simp add: verify_bundle_def evidence_bundle_sha256_def sha256_hex_bytes_def raise_if_def archive verify_contents_def
        load_built [OF keys] man built_events_valid [OF es(2) sha ev es(3) tenant])
  moreover note built_lookups [OF keys, of "be_sha E" run_id tenant now es lineage] project_run_facts(1) [OF es(3)]
  ultimately show ?thesis using es(1,5) by auto
qed

section \<open>Tamper evidence\<close>

text \<open>The events an archive records, without their integrity blocks, and the chain of hashes over such events.\<close>

definition bundle_events :: "bundle_env \<Rightarrow> string \<Rightarrow> json_dict list" where
  "bundle_events E archive = (case read_archive (be_unzip E) archive of
     Inl _ \<Rightarrow> []
   | Inr (manifest, events, lineage) \<Rightarrow>
       map (\<lambda>line. case load_event (be_float E) line of Inr event \<Rightarrow> AList.delete ''integrity'' event | Inl _ \<Rightarrow> []) (splitlines events))"

fun chain_hash :: "sha256_fn \<Rightarrow> string option \<Rightarrow> json_dict list \<Rightarrow> string option" where
  "chain_hash sha p [] = p"
| "chain_hash sha p (e # es) = chain_hash sha (Some (sha256_hex sha (hash_envelope e p))) es"

fun chain_bytes :: "sha256_fn \<Rightarrow> string option \<Rightarrow> json_dict list \<Rightarrow> string list" where
  "chain_bytes sha p [] = []"
| "chain_bytes sha p (e # es) = canonical_json_bytes (hash_envelope e p) # chain_bytes sha (Some (sha256_hex sha (hash_envelope e p))) es"

lemma chain_hash_snoc [simp]: "chain_hash sha p (es @ [e]) = Some (sha256_hex sha (hash_envelope e (chain_hash sha p es)))"
  by (induction es arbitrary: p) simp_all

lemma chain_bytes_snoc [simp]: "chain_bytes sha p (es @ [e]) = chain_bytes sha p es @ [canonical_json_bytes (hash_envelope e (chain_hash sha p es))]"
  by (induction es arbitrary: p) simp_all

text \<open>What is read has distinct keys, and floats that print as number tokens unless they are not finite.\<close>

fun read_ok :: "json \<Rightarrow> bool" where
  "read_ok (JFloat t) = (float_tok t \<or> t \<in> set nonfinite)"
| "read_ok (JList vs) = (\<forall>v \<in> set vs. read_ok v)"
| "read_ok (JObj kvs) = (distinct (map fst kvs) \<and> (\<forall>kv \<in> set kvs. read_ok (snd kv)))"
| "read_ok v = True"

lemma read_scalar_ok: "\<forall>t. float_tok (fr t) \<or> fr t \<in> set nonfinite \<Longrightarrow> read_scalar fr s = Some (v, r) \<Longrightarrow> read_ok v"
  by (auto simp: read_scalar_def number_value_def nonfinite_def split: if_splits)

lemma read_ok_all:
  assumes fr: "\<forall>t. float_tok (fr t) \<or> fr t \<in> set nonfinite"
  shows "(\<forall>s v r. read_value fr n s = Some (v, r) \<longrightarrow> read_ok v)
    \<and> (\<forall>s vs r. read_items fr n s = Some (vs, r) \<longrightarrow> (\<forall>v \<in> set vs. read_ok v))
    \<and> (\<forall>s kvs r. read_members fr n s = Some (kvs, r) \<longrightarrow> (\<forall>kv \<in> set kvs. read_ok (snd kv)))"
proof (induction n)
  case (Suc n)
  have v: "read_ok v" if "read_value fr n s = Some (v, r)" for s v r using Suc that by blast
  have i: "\<forall>v \<in> set vs. read_ok v" if "read_items fr n s = Some (vs, r)" for s vs r using Suc that by blast
  have m: "\<forall>kv \<in> set kvs. read_ok (snd kv)" if "read_members fr n s = Some (kvs, r)" for s kvs r using Suc that by blast
  have "\<forall>v \<in> set vs. read_ok v" if "read_items fr (Suc n) s = Some (vs, r)" for s vs r
    using that by (cases rule: read_items_step) (use v i in auto)
  moreover have "\<forall>kv \<in> set kvs. read_ok (snd kv)" if "read_members fr (Suc n) s = Some (kvs, r)" for s kvs r
    using that by (cases rule: read_members_step) (use v m in auto)
  moreover have "read_ok v" if a: "read_value fr (Suc n) s = Some (v, r)" for s v r
  proof (cases s)
    case (Cons c u)
    consider "c = CHR 0x22" | "c = CHR ''{''" | "c = CHR ''[''" | "c \<notin> {CHR 0x22, CHR ''{'', CHR ''[''}" by blast
    then show ?thesis
    proof cases
      case 1
      with a Cons show ?thesis by (auto simp del: read_value.simps simp: read_value_open)
    next
      case 2
      have "read_ok (JObj (dict_of kvs))" if "\<forall>kv \<in> set kvs. read_ok (snd kv)" for kvs
        using that set_dict_of [of _ _ kvs] distinct_dict_of [of kvs] by fastforce
      moreover have "v = JObj [] \<or> (\<exists>kvs. read_members fr n (skip_blanks u) = Some (kvs, r) \<and> v = JObj (dict_of kvs))"
        using 2 a Cons by (auto simp del: read_value.simps simp: read_value_open split: if_splits)
      ultimately show ?thesis using m by fastforce
    next
      case 3
      with a Cons i show ?thesis by (auto simp del: read_value.simps simp: read_value_open split: if_splits)
    next
      case 4
      have "read_scalar fr s = Some (v, r)" using a unfolding Cons read_value_open(4) [OF 4] .
      with fr show ?thesis by (rule read_scalar_ok)
    qed
  qed (use a in simp)
  ultimately show ?case by blast
qed simp

lemma json_loads_ok: "\<forall>t. float_tok (fr t) \<or> fr t \<in> set nonfinite \<Longrightarrow> json_loads fr bs = Some v \<Longrightarrow> read_ok v"
  using read_ok_all [of fr] by (fastforce simp: json_loads_def simp del: read_value.simps split: option.splits prod.splits if_splits)

lemma read_ok_wf: "read_ok v \<Longrightarrow> \<not> has_nonfinite v \<Longrightarrow> py_wf (pyval_of v) \<and> normalize_value (pyval_of v) = v"
proof (induction v)
  case (JObj kvs)
  have each: "py_wf (pyval_of (snd kv)) \<and> normalize_value (pyval_of (snd kv)) = snd kv" if "kv \<in> set kvs" for kv
    using JObj that by (cases kv) (fastforce simp: snds.simps)
  have keys: "map (key_str \<circ> fst) (map (\<lambda>(k, v). (KStr k, pyval_of v)) kvs) = map fst kvs" by auto
  have "map (\<lambda>(k, v). (key_str k, normalize_value v)) (map (\<lambda>(k, v). (KStr k, pyval_of v)) kvs) = kvs"
    unfolding map_map by (intro map_idI) (use each in \<open>auto simp: case_prod_unfold\<close>)
  then have "normalize_value (pyval_of (JObj kvs)) = JObj kvs"
    using JObj.prems(1) by (simp only: pyval_of.simps normalize_value.simps dict_of_distinct read_ok.simps)
  moreover have "py_wf (pyval_of (JObj kvs))" unfolding pyval_of.simps py_wf.simps keys using JObj.prems(1) each by fastforce
  ultimately show ?case by blast
qed (auto simp: nonfinite_def intro!: map_idI)

lemma hash_envelope_inject:
  assumes "read_ok (JObj e)" "\<not> has_nonfinite (JObj e)" "read_ok (JObj f)" "\<not> has_nonfinite (JObj f)"
    and eq: "canonical_json_bytes (hash_envelope e p) = canonical_json_bytes (hash_envelope f q)"
  shows "jsort (JObj e) = jsort (JObj f) \<and> p = q"
proof -
  note e = read_ok_wf [OF assms(1,2)] and f = read_ok_wf [OF assms(3,4)]
  have o: "py_wf (dump_opt PStr s)" "normalize_value (dump_opt PStr s) = json_opt s" for s by (cases s; simp add: json_opt_def)+
  have wf: "py_wf (hash_envelope e p)" "py_wf (hash_envelope f q)" using e f o(1) unfolding hash_envelope_def by (auto simp del: pyval_of.simps)
  have nd: "normalize_value (PDict [(KStr ''event'', v), (KStr ''previous_event_hash'', w)])
      = JObj [(''event'', normalize_value v), (''previous_event_hash'', normalize_value w)]" for v w
    by (simp add: dict_of_def)
  from eq have "jsort (normalize_value (hash_envelope e p)) = jsort (normalize_value (hash_envelope f q))"
    using canonical_json_bytes_eq_iff [OF wf] by blast
  moreover have "jsort (normalize_value (hash_envelope d s)) = JObj [(''event'', jsort (JObj d)), (''previous_event_hash'', json_opt s)]"
    if "normalize_value (pyval_of (JObj d)) = JObj d" for d s
  proof -
    have "jsort (json_opt s) = json_opt s" by (cases s) (simp_all add: json_opt_def)
    then show ?thesis unfolding hash_envelope_def nd that o(2) by (simp only: jsort.simps(2) list.map prod.case) simp
  qed
  ultimately have "jsort (JObj e) = jsort (JObj f)" "json_opt p = json_opt q" using e f by simp_all
  then show ?thesis by (auto simp: json_opt_def split: option.splits)
qed

lemma bundle_chains_agree:
  assumes "\<forall>e \<in> set es \<union> set fs. read_ok (JObj e) \<and> \<not> has_nonfinite (JObj e)"
    and "inj_on sha (set (chain_bytes sha None es) \<union> set (chain_bytes sha None fs))" and "chain_hash sha None es = chain_hash sha None fs"
  shows "map (\<lambda>e. jsort (JObj e)) es = map (\<lambda>e. jsort (JObj e)) fs"
  using assms
proof (induction es arbitrary: fs rule: rev_induct)
  case Nil
  then show ?case by (cases fs rule: rev_cases) simp_all
next
  case (snoc e es)
  show ?case
  proof (cases fs rule: rev_cases)
    case Nil
    with snoc.prems(3) show ?thesis by simp
  next
    case (snoc fs' f)
    let ?p = "chain_hash sha None es" and ?q = "chain_hash sha None fs'"
    have "sha (canonical_json_bytes (hash_envelope e ?p)) = sha (canonical_json_bytes (hash_envelope f ?q))"
      using snoc.prems(3) snoc by (simp add: sha256_hex_def)
    then have "canonical_json_bytes (hash_envelope e ?p) = canonical_json_bytes (hash_envelope f ?q)"
      by (rule inj_onD [OF snoc.prems(2)]) (simp_all add: snoc)
    moreover have "e \<in> set (es @ [e]) \<union> set fs" "f \<in> set (es @ [e]) \<union> set fs" by (simp_all add: snoc)
    ultimately have "jsort (JObj e) = jsort (JObj f) \<and> ?p = ?q" using hash_envelope_inject snoc.prems(1) by blast
    moreover have "map (\<lambda>e. jsort (JObj e)) es = map (\<lambda>e. jsort (JObj e)) fs'" if "?p = ?q"
      using snoc.IH [of fs'] snoc.prems(1,2) snoc that by (auto intro: inj_on_subset)
    ultimately show ?thesis using snoc by simp
  qed
qed

lemma check_event_hash:
  assumes "check_event sha run_id n prev tn event = Inr (tenant, ty, h)"
  shows "h = sha256_hex sha (hash_envelope (AList.delete ''integrity'' event) prev) \<and> \<not> has_nonfinite (JObj (AList.delete ''integrity'' event))"
  using assms by (auto simp: check_event_def check_integrity_def split: if_splits option.splits json.splits)

definition recorded_event :: "(string \<Rightarrow> string) \<Rightarrow> string \<Rightarrow> json_dict" where
  "recorded_event fr line = (case load_event fr line of Inr event \<Rightarrow> AList.delete ''integrity'' event | Inl _ \<Rightarrow> [])"

lemma read_events_hash:
  assumes fr: "\<forall>t. float_tok (fr t) \<or> fr t \<in> set nonfinite"
  shows "read_events sha fr run_id n st lines = Inr st' \<Longrightarrow> ss_previous st' = chain_hash sha (ss_previous st) (map (recorded_event fr) lines)
    \<and> (\<forall>e \<in> set (map (recorded_event fr) lines). read_ok (JObj e) \<and> \<not> has_nonfinite (JObj e))"
proof (induction lines arbitrary: n st)
  case (Cons line lines)
  from Cons.prems obtain event tenant ty h where
    ev: "load_event fr line = Inr event" "check_event sha run_id n (ss_previous st) (ss_tenant st) event = Inr (tenant, ty, h)" and
    rest: "read_events sha fr run_id (n + 1) \<lparr>ss_previous = Some h, ss_tenant = Some tenant, ss_counts = counter (ss_counts st) [ty]\<rparr> lines = Inr st'"
    by auto
  have "json_loads fr line = Some (JObj event)" using ev(1) by (auto simp: load_event_def load_object_def split: option.splits json.splits)
  from json_loads_ok [OF fr this] have "read_ok (JObj (AList.delete ''integrity'' event))"
    by (auto simp: AList.delete_eq intro: distinct_map_filter)
  with ev check_event_hash [OF ev(2)] Cons.IH [OF rest] show ?case by (simp add: recorded_event_def)
qed simp

lemma accepted_chain:
  assumes fr: "\<forall>t. float_tok (be_float E t) \<or> be_float E t \<in> set nonfinite" and v: "verify_bundle E archive x = Inr m"
  shows "jget ''final_event_hash'' m = json_opt (chain_hash (be_sha E) None (bundle_events E archive))
    \<and> (\<forall>e \<in> set (bundle_events E archive). read_ok (JObj e) \<and> \<not> has_nonfinite (JObj e))"
proof -
  from v obtain mb events lineage run_id mt tenant where
    a: "read_archive (be_unzip E) archive = Inr (mb, events, lineage)" "load_manifest (be_float E) mb = Inr m"
      "validate_manifest (be_sha E) (be_uuid E) m events lineage = Inr (run_id, mt)"
      "validate_events (be_sha E) (be_float E) m run_id events = Inr tenant"
    by (auto simp: verify_bundle_def verify_contents_def split: prod.splits)
  from a(4) obtain st where
    r: "read_events (be_sha E) (be_float E) run_id 1 \<lparr>ss_previous = None, ss_tenant = None, ss_counts = []\<rparr> (splitlines events) = Inr st"
      "json_opt (ss_previous st) = jget ''final_event_hash'' m"
    by (auto simp: validate_events_def Let_def raise_if_def split: if_splits)
  have "bundle_events E archive = map (recorded_event (be_float E)) (splitlines events)" by (simp add: bundle_events_def a(1) recorded_event_def)
  with read_events_hash [OF fr r(1)] r(2) show ?thesis by simp
qed

text \<open>The byte strings an archive's chain hashes.\<close>

definition hashed :: "bundle_env \<Rightarrow> string \<Rightarrow> string set" where
  "hashed E archive = set (chain_bytes (be_sha E) None (bundle_events E archive))"

lemma accepted_archives_agree:
  assumes fr: "\<forall>t. float_tok (be_float E t) \<or> be_float E t \<in> set nonfinite"
    and "verify_bundle E a x = Inr m" "verify_bundle E b y = Inr n" "jget ''final_event_hash'' m = jget ''final_event_hash'' n"
  shows "map (\<lambda>e. jsort (JObj e)) (bundle_events E a) = map (\<lambda>e. jsort (JObj e)) (bundle_events E b)
    \<or> (\<exists>u \<in> hashed E a \<union> hashed E b. \<exists>v \<in> hashed E a \<union> hashed E b. u \<noteq> v \<and> be_sha E u = be_sha E v)"
proof -
  note ca = accepted_chain [OF fr assms(2)] and cb = accepted_chain [OF fr assms(3)]
  have "chain_hash (be_sha E) None (bundle_events E a) = chain_hash (be_sha E) None (bundle_events E b)"
    using ca cb assms(4) by (auto simp: json_opt_def split: option.splits)
  moreover have "\<forall>e \<in> set (bundle_events E a) \<union> set (bundle_events E b). read_ok (JObj e) \<and> \<not> has_nonfinite (JObj e)" using ca cb by blast
  ultimately show ?thesis using bundle_chains_agree [of "bundle_events E a" "bundle_events E b" "be_sha E"]
    unfolding hashed_def inj_on_def by blast
qed

section \<open>A concrete archive\<close>

definition demo_zip :: zip_writer where
  "demo_zip ms = utf8 (render (JList (map (\<lambda>(n, c). JList [JStr n, JStr c]) ms)))"

definition demo_unzip :: zip_reader where
  "demo_unzip bs = (case json_loads (\<lambda>_. ''1.0'') bs of
     Some (JList vs) \<Rightarrow> Inr (map (\<lambda>v. case v of JList [JStr n, JStr c] \<Rightarrow> stored_member (n, c) | _ \<Rightarrow> stored_member ([], [])) vs)
   | _ \<Rightarrow> Inl (ForeignException ''BadZipFile'' ''File is not a zip file''))"

definition demo_env :: bundle_env where
  "demo_env = \<lparr>be_sha = zero_hash, be_unzip = demo_unzip, be_float = (\<lambda>_. ''1.0''), be_uuid = Some, be_graph = (\<lambda>_. Inl (ValueError []))\<rparr>"

text \<open>A bound on the length of canonical bytes.\<close>

fun weight :: "json \<Rightarrow> nat" where
  "weight JNull = 4"
| "weight (JBool b) = 5"
| "weight (JInt i) = length (int_str i)"
| "weight (JFloat t) = length t"
| "weight (JStr s) = 6 * length s + 2"
| "weight (JList vs) = sum_list (map (\<lambda>v. weight v + 1) vs) + 2"
| "weight (JObj kvs) = sum_list (map (\<lambda>kv. 6 * length (fst kv) + weight (snd kv) + 4) kvs) + 2"

lemma length_join: "length (join [c] xs) \<le> sum_list (map (\<lambda>x. length x + 1) xs)"
  by (induction xs) (auto simp: join_Cons)

lemma length_json_str: "length (json_str s) \<le> 6 * length s + 2"
proof -
  have "length (concat (map esc_char s)) \<le> 6 * length s" by (induction s) (auto simp: esc_char_def)
  then show ?thesis by (simp add: json_str_def)
qed

lemma render_weight: "length (render v) \<le> weight v"
proof (induction v)
  case (JObj kvs)
  have "sum_list (map (\<lambda>x. length x + 1) (map (\<lambda>(k, v). json_member (k, render v)) kvs)) \<le> sum_list (map (\<lambda>kv. 6 * length (fst kv) + weight (snd kv) + 4) kvs)"
    unfolding map_map
  proof (rule sum_list_mono)
    fix kv assume "kv \<in> set kvs"
    with JObj have "length (render (snd kv)) \<le> weight (snd kv)" by (cases kv) (fastforce simp: snds.simps)
    with length_json_str [of "fst kv"]
    show "((\<lambda>x. length x + 1) \<circ> (\<lambda>(k, v). json_member (k, render v))) kv \<le> 6 * length (fst kv) + weight (snd kv) + 4"
      by (simp add: json_member_def case_prod_unfold)
  qed
  with length_join [of "CHR '',''" "map (\<lambda>(k, v). json_member (k, render v)) kvs"] show ?case by simp
next
  case (JList vs)
  have "sum_list (map (\<lambda>x. length x + 1) (map render vs)) \<le> sum_list (map (\<lambda>v. weight v + 1) vs)"
    unfolding map_map by (rule sum_list_mono) (use JList in simp)
  with length_join [of "CHR '',''" "map render vs"] show ?case by simp
qed (simp_all add: length_json_str [simplified])

lemma weight_jsort: "weight (jsort v) = weight v"
proof (induction v)
  case (JObj kvs)
  let ?f = "\<lambda>kv. 6 * length (fst kv) + weight (snd kv) + 4"
  have "sum_list (map ?f (sort_key fst (map (\<lambda>(k, v). (k, jsort v)) kvs))) = sum_list (map ?f (map (\<lambda>(k, v). (k, jsort v)) kvs))"
    by (rule sum_list_sort_key)
  also have "map ?f (map (\<lambda>(k, v). (k, jsort v)) kvs) = map ?f kvs" using JObj by (fastforce simp: snds.simps)
  finally show ?case by simp
qed (simp_all cong: map_cong)

lemma length_canonical: "length (canonical_json_bytes v) \<le> 2 * weight (normalize_value v)"
proof -
  have "length (utf8 s) \<le> 2 * length s" for s by (induction s) (auto simp: utf8_def utf8_char_def Let_def)
  from this [of "render (jsort (normalize_value v))"] show ?thesis
    unfolding canonical_render using render_weight [of "jsort (normalize_value v)"] by (simp add: weight_jsort)
qed

lemma demo_simps [simp]:
  "be_sha demo_env = zero_hash" "be_unzip demo_env = demo_unzip" "be_float demo_env = (\<lambda>_. ''1.0'')" "be_uuid demo_env = Some"
  by (simp_all add: demo_env_def)

lemma demo_unzip_zip: "demo_unzip (demo_zip ms) = Inr (map stored_member ms)"
proof -
  have "readable (\<lambda>_. ''1.0'') (JList (map (\<lambda>(n, c). JList [JStr n, JStr c]) ms))" by auto
  from json_loads_render [OF this] show ?thesis by (simp add: demo_unzip_def demo_zip_def comp_def case_prod_unfold)
qed

definition demo_ledger :: event_ledger_state where
  "demo_ledger = snd (run_all (ledger_append zero_hash) [sample_draft] empty_ledger)"

lemma demo_events: "list_run_events ''acme'' ''r1'' demo_ledger = [make_event zero_hash sample_draft []]"
  by (simp add: demo_ledger_def bindE_def ret_def ledger_append_def Let_def empty_ledger_def list_run_events_def sample_draft_def)

lemma demo_event_faithful: "bundle_event fr (make_event zero_hash sample_draft [])"
  by (simp add: bundle_event_def dump_control_event_def draft_items_def make_event_def Let_def sample_draft_def sample_actor_def dump_actor_ref_def
      dump_dict_def dump_integrity_def control_event_draft.defs control_event.defs last_event_hash_def)

lemma demo_build:
  obtains p where "build_bundle zero_hash demo_zip demo_ledger now ''r1'' ''out'' ''acme'' None fs
    = (Inr ''out.zip'', fs(''out/events.jsonl'' \<mapsto> events_bytes [make_event zero_hash sample_draft []],
        ''out/manifest.json'' \<mapsto> canonical_json_bytes (bundle_manifest zero_hash ''r1'' ''acme'' now [make_event zero_hash sample_draft []] p None),
        ''out.zip'' \<mapsto> demo_zip (archive_members
          (canonical_json_bytes (bundle_manifest zero_hash ''r1'' ''acme'' now [make_event zero_hash sample_draft []] p None))
          [make_event zero_hash sample_draft []] None)))"
    "project_run [make_event zero_hash sample_draft []] = Inr p"
proof -
  have v: "verify_run zero_hash ''acme'' ''r1'' demo_ledger = Inr ()"
    using verify_make_event [of zero_hash "''acme''" "''r1''" "[]" sample_draft] unfolding verify_run_def demo_events by (simp add: sample_draft_def)
  have "run_events_of zero_hash demo_ledger ''r1'' ''acme'' = Inr [make_event zero_hash sample_draft []]"
    unfolding run_events_of_def v rbind_simps Let_def demo_events by (simp add: raise_if_def sample_draft_def)
  moreover obtain p where p: "project_run [make_event zero_hash sample_draft []] = Inr p" by (simp add: project_run_def Let_def)
  moreover have "zip_path ''out'' = ''out.zip''" by code_simp
  ultimately show ?thesis
    by (intro that [of p]) (simp_all add: build_bundle_def bindE_def lift_result_def write_file_def ret_def raise_if_def Let_def)
qed

lemma demo_lengths:
  assumes iso: "length (isoformat_utc now) \<le> 27" and p: "project_run [make_event zero_hash sample_draft []] = Inr p"
  shows "length (events_bytes [make_event zero_hash sample_draft []]) \<le> 20001"
    "length (canonical_json_bytes (bundle_manifest zero_hash ''r1'' ''acme'' now [make_event zero_hash sample_draft []] p None)) \<le> 20000"
proof -
  let ?e = "make_event zero_hash sample_draft []"
  have ints: "length (int_str 1) = 1" "length (int_str 0) = 1" and e1: "length (isoformat_utc 1000) = 27" by code_simp+
  have z: "length (zero_hash x) = 64" for x by (simp add: zero_hash_def)
  have w: "weight (normalize_value (dump_control_event ?e)) \<le> 10000"
    by (simp add: dump_control_event_def draft_items_def make_event_def Let_def sample_draft_def sample_actor_def dump_actor_ref_def dict_of_def
      dump_dict_def dump_integrity_def control_event_draft.defs control_event.defs last_event_hash_def ints e1 z sha256_hex_def del: int_str_inject)
  then show "length (events_bytes [?e]) \<le> 20001" using length_canonical [of "dump_control_event ?e"] by (simp add: events_bytes_def)
  have m: "weight (normalize_value (bundle_manifest zero_hash ''r1'' ''acme'' now [?e] p None)) \<le> 10000"
    using iso p by (auto simp: project_run_def Let_def bundle_manifest_def dict_of_def dump_dict_def bundle_schema_name_def bundle_schema_version_def
      isoformat_offset_def ints z sha256_hex_bytes_def make_event_def sha256_hex_def control_event_draft.defs control_event.defs sample_draft_def)
  then show "length (canonical_json_bytes (bundle_manifest zero_hash ''r1'' ''acme'' now [?e] p None)) \<le> 20000"
    using length_canonical [of "bundle_manifest zero_hash ''r1'' ''acme'' now [?e] p None"] by linarith
qed

lemma demo_size:
  assumes "length (isoformat_utc now) \<le> 27" "project_run [make_event zero_hash sample_draft []] = Inr p"
  shows "within_limits (map stored_member (archive_members
    (canonical_json_bytes (bundle_manifest zero_hash ''r1'' ''acme'' now [make_event zero_hash sample_draft []] p None))
    [make_event zero_hash sample_draft []] None))"
  using demo_lengths [OF assms]
  by (simp add: within_limits_def archive_members_def stored_member_def max_member_bytes_def max_total_bytes_def)

lemma length_demo_zip: "length (demo_zip ms) \<le> 12 * sum_list (map (\<lambda>(n, c). length n + length c + 2) ms) + 4"
proof -
  let ?v = "JList (map (\<lambda>(n, c). JList [JStr n, JStr c]) ms)"
  have u: "length (utf8 s) \<le> 2 * length s" for s by (induction s) (auto simp: utf8_def utf8_char_def Let_def)
  have "weight ?v \<le> 6 * sum_list (map (\<lambda>(n, c). length n + length c + 2) ms) + 2" by (induction ms) auto
  with render_weight [of ?v] u [of "render ?v"] show ?thesis unfolding demo_zip_def by linarith
qed

lemma demo_accepted:
  assumes iso: "length (isoformat_utc now) \<le> 27"
  shows "\<exists>archive manifest. verify_bundle demo_env archive (Some (zero_hash archive)) = Inr manifest
    \<and> jget ''final_event_hash'' manifest = JStr (replicate 64 (CHR ''0'')) \<and> jget ''run_id'' manifest = JStr ''r1''
    \<and> length archive \<le> 500000"
proof -
  obtain p where b: "build_bundle zero_hash demo_zip demo_ledger now ''r1'' ''out'' ''acme'' None Map.empty
    = (Inr ''out.zip'', [''out/events.jsonl'' \<mapsto> events_bytes [make_event zero_hash sample_draft []],
        ''out/manifest.json'' \<mapsto> canonical_json_bytes (bundle_manifest zero_hash ''r1'' ''acme'' now [make_event zero_hash sample_draft []] p None),
        ''out.zip'' \<mapsto> demo_zip (archive_members
          (canonical_json_bytes (bundle_manifest zero_hash ''r1'' ''acme'' now [make_event zero_hash sample_draft []] p None))
          [make_event zero_hash sample_draft []] None)])" (is "_ = (_, ?fs)")
    and p: "project_run [make_event zero_hash sample_draft []] = Inr p" by (rule demo_build [of now Map.empty])
  have n: "nonblank ''acme''" by code_simp
  have l: "demo_ledger = snd (run_all (ledger_append (be_sha demo_env)) [sample_draft] empty_ledger)" unfolding demo_simps demo_ledger_def ..
  have b': "build_bundle (be_sha demo_env) demo_zip demo_ledger now ''r1'' ''out'' ''acme'' None Map.empty = (Inr ''out.zip'', ?fs)"
    unfolding demo_simps by (rule b)
  note verified = built_archive_accepted [OF l b' _ _ n]
  have "\<exists>archive manifest. ?fs ''out.zip'' = Some archive \<and> verify_bundle demo_env archive (Some (be_sha demo_env archive)) = Inr manifest
    \<and> jget ''run_id'' manifest = JStr ''r1'' \<and> jget ''tenant_id'' manifest = JStr ''acme''
    \<and> jget ''event_count'' manifest = JInt (int (length (list_run_events ''acme'' ''r1'' demo_ledger)))
    \<and> jget ''final_event_hash'' manifest = json_opt (last_event_hash (list_run_events ''acme'' ''r1'' demo_ledger))"
    by (rule verified) (use demo_event_faithful demo_size [OF iso p] in \<open>simp_all add: demo_unzip_zip demo_events\<close>)
  moreover have "last_event_hash [make_event zero_hash sample_draft []] = Some (replicate 64 (CHR ''0''))"
    by (simp add: last_event_hash_def integrity_make_event sha256_hex_def zero_hash_def del: hash_material_make_event)
  moreover have "length (the (?fs ''out.zip'')) \<le> 500000"
    using demo_lengths [OF iso p] length_demo_zip [of "archive_members
      (canonical_json_bytes (bundle_manifest zero_hash ''r1'' ''acme'' now [make_event zero_hash sample_draft []] p None))
      [make_event zero_hash sample_draft []] None"]
    by (simp add: archive_members_def)
  ultimately show ?thesis unfolding demo_events by (auto simp: json_opt_def)
qed

lemma iso_lengths: "length (isoformat_utc 0) \<le> 27" "length (isoformat_utc 1000) \<le> 27"
  by code_simp+

text \<open>
  C12: A built archive verifies. For a run of any ledger history, whenever the builder returns, the verifier accepts the archive it
  wrote, also against the archive's own digest as trust anchor, and returns the manifest with the run, its tenant, the
  number of events and the hash of the last one. It is assumed that zip reads back what it wrote, that the members are
  within the verifier's limits, and that floats in the events print as what they were read from.
\<close>

theorem bundle_verifies:
  assumes "L = snd (run_all (ledger_append (be_sha E)) drafts empty_ledger)"
    and "build_bundle (be_sha E) write_zip L now run_id destination tenant lineage fs = (Inr path, fs')"
    and "\<forall>x. is_sha256 (be_sha E x)" and "be_uuid E run_id = Some run_id" and "nonblank tenant"
    and "\<forall>ms. distinct (map fst ms) \<longrightarrow> be_unzip E (write_zip ms) = Inr (map stored_member ms)"
    and "\<forall>e \<in> set (list_run_events tenant run_id L). bundle_event (be_float E) e"
    and "\<forall>g. lineage = Some g \<longrightarrow> be_graph E (canonical_json_bytes (dump_lineage_graph g)) = Inr g"
    and "\<forall>ms. be_unzip E (the (fs' path)) = Inr ms \<longrightarrow> within_limits ms"
  shows "\<exists>archive manifest. fs' path = Some archive \<and> verify_bundle E archive (Some (be_sha E archive)) = Inr manifest
    \<and> jget ''run_id'' manifest = JStr run_id \<and> jget ''tenant_id'' manifest = JStr tenant
    \<and> jget ''event_count'' manifest = JInt (int (length (list_run_events tenant run_id L)))
    \<and> jget ''final_event_hash'' manifest = json_opt (last_event_hash (list_run_events tenant run_id L))"
  using assms by (rule built_archive_accepted)

theorem bundle_verifies_witness:
  "\<exists>archive manifest. verify_bundle demo_env archive (Some (zero_hash archive)) = Inr manifest
    \<and> jget ''event_count'' manifest = JInt 1 \<and> jget ''final_event_hash'' manifest = JStr (replicate 64 (CHR ''0''))"
proof -
  obtain p where b: "build_bundle zero_hash demo_zip demo_ledger 0 ''r1'' ''out'' ''acme'' None Map.empty
    = (Inr ''out.zip'', [''out/events.jsonl'' \<mapsto> events_bytes [make_event zero_hash sample_draft []],
        ''out/manifest.json'' \<mapsto> canonical_json_bytes (bundle_manifest zero_hash ''r1'' ''acme'' 0 [make_event zero_hash sample_draft []] p None),
        ''out.zip'' \<mapsto> demo_zip (archive_members
          (canonical_json_bytes (bundle_manifest zero_hash ''r1'' ''acme'' 0 [make_event zero_hash sample_draft []] p None))
          [make_event zero_hash sample_draft []] None)])" (is "_ = (_, ?fs)")
    and p: "project_run [make_event zero_hash sample_draft []] = Inr p" by (rule demo_build [of 0 Map.empty])
  have n: "nonblank ''acme''" by code_simp
  have l: "demo_ledger = snd (run_all (ledger_append (be_sha demo_env)) [sample_draft] empty_ledger)" unfolding demo_simps demo_ledger_def ..
  have b': "build_bundle (be_sha demo_env) demo_zip demo_ledger 0 ''r1'' ''out'' ''acme'' None Map.empty = (Inr ''out.zip'', ?fs)"
    unfolding demo_simps by (rule b)
  note verified = bundle_verifies [OF l b' _ _ n]
  have "\<exists>archive manifest. ?fs ''out.zip'' = Some archive \<and> verify_bundle demo_env archive (Some (be_sha demo_env archive)) = Inr manifest
    \<and> jget ''run_id'' manifest = JStr ''r1'' \<and> jget ''tenant_id'' manifest = JStr ''acme''
    \<and> jget ''event_count'' manifest = JInt (int (length (list_run_events ''acme'' ''r1'' demo_ledger)))
    \<and> jget ''final_event_hash'' manifest = json_opt (last_event_hash (list_run_events ''acme'' ''r1'' demo_ledger))"
    by (rule verified) (use demo_event_faithful demo_size [OF iso_lengths(1) p] in \<open>simp_all add: demo_unzip_zip demo_events\<close>)
  moreover have "last_event_hash [make_event zero_hash sample_draft []] = Some (replicate 64 (CHR ''0''))"
    by (simp add: last_event_hash_def integrity_make_event sha256_hex_def zero_hash_def del: hash_material_make_event)
  ultimately show ?thesis unfolding demo_events by (auto simp: json_opt_def)
qed

text \<open>
  C14: Archives are tamper evident. If two archives both verify and their manifests name the same final event hash, they record the
  same events, up to the order of keys, unless two of the byte strings hashed along their chains collide. So an archive
  whose manifest carries the head of the ledger holds the ledger's events, whoever assembled it. It is assumed
  that the text of a finite float has a point or an exponent.
\<close>

theorem bundle_tamper_evident:
  assumes "\<forall>t. float_tok (be_float E t) \<or> be_float E t \<in> set nonfinite"
    and "verify_bundle E a x = Inr m" and "verify_bundle E b y = Inr n" and "jget ''final_event_hash'' m = jget ''final_event_hash'' n"
  shows "map (\<lambda>e. jsort (JObj e)) (bundle_events E a) = map (\<lambda>e. jsort (JObj e)) (bundle_events E b)
    \<or> (\<exists>u \<in> hashed E a \<union> hashed E b. \<exists>v \<in> hashed E a \<union> hashed E b. u \<noteq> v \<and> be_sha E u = be_sha E v)"
  using assms by (rule accepted_archives_agree)

theorem bundle_tamper_evident_witness:
  "\<exists>a b m n. verify_bundle demo_env a (Some (zero_hash a)) = Inr m \<and> verify_bundle demo_env b (Some (zero_hash b)) = Inr n \<and>
    (map (\<lambda>e. jsort (JObj e)) (bundle_events demo_env a) = map (\<lambda>e. jsort (JObj e)) (bundle_events demo_env b)
    \<or> (\<exists>u \<in> hashed demo_env a \<union> hashed demo_env b. \<exists>v \<in> hashed demo_env a \<union> hashed demo_env b. u \<noteq> v \<and> zero_hash u = zero_hash v))"
proof -
  obtain a m where a: "verify_bundle demo_env a (Some (zero_hash a)) = Inr m" "jget ''final_event_hash'' m = JStr (replicate 64 (CHR ''0''))"
    using demo_accepted [OF iso_lengths(1)] by blast
  obtain b n where b: "verify_bundle demo_env b (Some (zero_hash b)) = Inr n" "jget ''final_event_hash'' n = JStr (replicate 64 (CHR ''0''))"
    using demo_accepted [OF iso_lengths(2)] by blast
  have f: "float_tok ''1.0''" by code_simp
  from bundle_tamper_evident [OF _ a(1) b(1)] f a b show ?thesis by (intro exI conjI) auto
qed

end
