(* ===== verification/Package_Guarantees.thy ===== *)
theory Package_Guarantees
  imports Evidence_Packages Bundle_Guarantees
begin

text \<open>
  What signed packages guarantee: a package of an archive verifies against its trust root, and what is accepted under a
  trust root whose signers sign ledger heads holds the events of the ledger, or exhibits a collision.
\<close>

section \<open>What an accepted package establishes\<close>

lemma catching_Inr [simp]: "catching caught e r = Inr v \<longleftrightarrow> r = Inr v"
  by (auto simp: catching_def split: sum.splits)

lemma check_signed_some: "check_signed verify (Some c) (Some p) profile digest = Inr () \<longleftrightarrow>
    (\<exists>key. verify_checkpoint verify c p = Inr key) \<and> scp_evidence_bundle_sha256 c = digest"
  by (cases "verify_checkpoint verify c p") (auto simp: check_signed_def raise_if_def)

lemma check_manifest_some: "check_manifest (Some c) m = Inr () \<longleftrightarrow>
    jget ''run_id'' m = JStr (scp_run_id c) \<and> jget ''final_event_hash'' m = JStr (scp_final_event_hash c)"
  by (auto simp: check_manifest_def raise_if_def)

lemma check_scope_Inr: "check_scope c m = Inr () \<longleftrightarrow>
    map_of m ''run_id'' = Some (JStr (scp_run_id c)) \<and> map_of m ''tenant_id'' = Some (JStr (scp_tenant_id c))"
  by (auto simp: check_scope_def manifest_item_def raise_if_def split: option.splits)

lemma verify_evidence_archive_facts:
  assumes "verify_evidence_archive E verify archive (Some c) (Some p) st receipt profile expected = Inr m"
  obtains key where "verify_checkpoint verify c p = Inr key" "scp_evidence_bundle_sha256 c = be_sha E archive"
    "verify_bundle E archive (Some (be_sha E archive)) = Inr m"
    "jget ''run_id'' m = JStr (scp_run_id c)" "jget ''final_event_hash'' m = JStr (scp_final_event_hash c)"
    "check_retention receipt (case profile of None \<Rightarrow> default_profile | Some q \<Rightarrow> q) (be_sha E archive) = Inr ()"
    "check_statement (be_sha E) (Some c) st (be_sha E archive) = Inr ()"
  using assms
  by (auto simp: verify_evidence_archive_def Let_def raise_if_def evidence_bundle_sha256_def sha256_hex_bytes_def
      check_signed_some check_manifest_some split: if_splits)

definition evidence_member :: "package_env \<Rightarrow> string \<Rightarrow> string" where
  "evidence_member K package = (case read_package (be_unzip (pe_bundle K)) package of
     Inl _ \<Rightarrow> [] | Inr payloads \<Rightarrow> payload ''evidence.zip'' payloads)"

lemma verify_package_facts:
  assumes "verify_package K package (Some p) expected_trust expected_package profile = Inr (pm, em)"
  obtains c st receipt expected where
    "verify_evidence_archive (pe_bundle K) (pe_verify K) (evidence_member K package) (Some c) (Some p) st receipt profile expected = Inr em"
    "map_of pm ''run_id'' = Some (JStr (scp_run_id c))" "map_of pm ''tenant_id'' = Some (JStr (scp_tenant_id c))"
proof -
  from assms obtain payloads standards where
    r: "read_package (be_unzip (pe_bundle K)) package = Inr payloads"
      "verify_payloads K pm standards payloads (Some p) expected_trust profile = Inr em"
    by (auto simp: verify_package_def Let_def)
  from r(2) obtain c st receipt expected where
    "verify_evidence_archive (pe_bundle K) (pe_verify K) (payload ''evidence.zip'' payloads) (Some c) (Some p) st receipt profile expected = Inr em"
    "check_scope c pm = Inr ()"
    by (auto simp: verify_payloads_def Let_def effective_trust_def split: if_splits)
  with r(1) that show thesis by (auto simp: evidence_member_def check_scope_Inr)
qed

section \<open>The ledger behind a signed head\<close>

text \<open>An event as an archive records it.\<close>

definition archived :: "bundle_env \<Rightarrow> control_event \<Rightarrow> json_dict" where
  "archived E e = recorded_event (be_float E) (canonical_json_bytes (dump_control_event e))"

lemma archived_eq: "bundle_event (be_float E) e \<Longrightarrow> archived E e = AList.delete ''integrity'' (loaded (event_items e))"
  by (simp add: archived_def recorded_event_def load_event_line)

lemma archived_chain:
  assumes "verify_events (be_sha E) tenant r prev n es = Inr ()" "\<forall>e \<in> set es. bundle_event (be_float E) e"
  shows "chain_hash (be_sha E) prev (map (archived E) es) = (if es = [] then prev else last_event_hash es)"
  using assms
proof (induction es arbitrary: prev n)
  case (Cons e es)
  then have e: "bundle_event (be_float E) e" and link: "link_ok (be_sha E) tenant prev n e" by simp_all
  from link event_hash_read [OF e] have h: "sha256_hex (be_sha E) (hash_envelope (archived E e) prev) = integ_event_hash (ev_integrity e)"
    by (simp add: archived_eq [OF e] link_ok_def)
  have "chain_hash (be_sha E) (Some (integ_event_hash (ev_integrity e))) (map (archived E) es)
      = (if es = [] then Some (integ_event_hash (ev_integrity e)) else last_event_hash es)"
    by (rule Cons.IH [of _ "n + 1"]) (use Cons.prems in simp_all)
  then show ?case by (simp add: h last_event_hash_def)
qed simp

lemma archived_ok:
  assumes "\<forall>t. float_tok (be_float E t) \<or> be_float E t \<in> set nonfinite" and e: "bundle_event (be_float E) e"
  shows "read_ok (JObj (archived E e)) \<and> \<not> has_nonfinite (JObj (archived E e))"
proof -
  have "json_loads (be_float E) (canonical_json_bytes (dump_control_event e)) = Some (JObj (loaded (event_items e)))"
    using load_event_line [OF e] by (auto simp: load_event_def load_object_def split: option.splits json.splits)
  from json_loads_ok [OF assms(1) this] have "read_ok (JObj (archived E e))"
    unfolding archived_eq [OF e] by (auto simp: AList.delete_eq intro: distinct_map_filter)
  with envelope_bytes(2) [OF e] show ?thesis by (simp add: archived_eq [OF e])
qed

text \<open>The byte strings hashed along the events of a run.\<close>

definition run_hashed :: "bundle_env \<Rightarrow> control_event list \<Rightarrow> string set" where
  "run_hashed E es = set (chain_bytes (be_sha E) None (map (archived E) es))"

lemma archive_of_head:
  assumes fr: "\<forall>t. float_tok (be_float E t) \<or> be_float E t \<in> set nonfinite"
    and v: "verify_bundle E archive x = Inr m" "jget ''final_event_hash'' m = JStr h"
    and L: "verify_events (be_sha E) tenant r None 1 es = Inr ()" "\<forall>e \<in> set es. bundle_event (be_float E) e" "last_event_hash es = Some h"
  shows "map (\<lambda>e. jsort (JObj e)) (bundle_events E archive) = map (\<lambda>e. jsort (JObj (archived E e))) es
    \<or> (\<exists>u \<in> hashed E archive \<union> run_hashed E es. \<exists>w \<in> hashed E archive \<union> run_hashed E es. u \<noteq> w \<and> be_sha E u = be_sha E w)"
proof -
  note a = accepted_chain [OF fr v(1)]
  have "es \<noteq> []" using L(3) by (auto simp: last_event_hash_def)
  then have "chain_hash (be_sha E) None (map (archived E) es) = Some h" using archived_chain [OF L(1,2)] L(3) by simp
  moreover have "chain_hash (be_sha E) None (bundle_events E archive) = Some h"
    using a v(2) by (simp add: json_opt_def split: option.splits)
  moreover have "\<forall>e \<in> set (bundle_events E archive) \<union> set (map (archived E) es). read_ok (JObj e) \<and> \<not> has_nonfinite (JObj e)"
    using a archived_ok [OF fr] L(2) by auto
  ultimately have "map (\<lambda>e. jsort (JObj e)) (bundle_events E archive) = map (\<lambda>e. jsort (JObj e)) (map (archived E) es)
      \<or> \<not> inj_on (be_sha E) (hashed E archive \<union> run_hashed E es)"
    using bundle_chains_agree [of "bundle_events E archive" "map (archived E) es" "be_sha E"] unfolding hashed_def run_hashed_def by metis
  then show ?thesis unfolding map_map comp_def inj_on_def by blast
qed

text \<open>The messages that verify under the keys of a trust root are checkpoints of the set.\<close>

definition only_signed :: "ed25519 \<Rightarrow> trust_root_policy \<Rightarrow> signed_checkpoint set \<Rightarrow> bool" where
  "only_signed verify p signed \<longleftrightarrow> (\<forall>key \<in> set (trp_trusted_keys p). \<forall>public_bytes signature m.
     b64decode (tsk_public_key_base64 key) = Some public_bytes \<longrightarrow> verify public_bytes signature m \<longrightarrow>
     m \<in> (\<lambda>a. canonical_json_bytes (signing_material a)) ` signed)"

lemma signed_checkpoint_of:
  assumes "verify_checkpoint verify c p = Inr key" "only_signed verify p signed"
  obtains a where "a \<in> signed" "signs_same c a"
proof -
  note v = verify_checkpoint_cases [OF assms(1)]
  from v(3) obtain public_bytes signature where d: "b64decode (tsk_public_key_base64 key) = Some public_bytes"
    "verify public_bytes signature (canonical_json_bytes (signing_material c))"
    by (auto simp: verify_signature_def split: option.splits if_splits)
  have "key \<in> set (trp_trusted_keys p)" using filter_singleton [OF v(1)] by blast
  with d assms(2) have "canonical_json_bytes (signing_material c) \<in> (\<lambda>a. canonical_json_bytes (signing_material a)) ` signed"
    unfolding only_signed_def by blast
  with that show thesis by (auto dest: signing_material_inject)
qed

lemma package_of_ledger:
  fixes L :: event_ledger_state
  assumes fr: "\<forall>t. float_tok (be_float E t) \<or> be_float E t \<in> set nonfinite" and E: "E = pe_bundle K"
    and accepted: "verify_package K package (Some p) expected_trust expected_package profile = Inr (pm, em)"
    and signers: "only_signed (pe_verify K) p signed"
    and L: "L = snd (run_all (ledger_append (be_sha E)) drafts empty_ledger)"
    and heads: "\<forall>a \<in> signed. last_event_hash (list_run_events (scp_tenant_id a) (scp_run_id a) L) = Some (scp_final_event_hash a)"
    and events: "\<forall>t r. \<forall>e \<in> set (list_run_events t r L). bundle_event (be_float E) e"
  shows "\<exists>tenant run. jget ''tenant_id'' pm = JStr tenant \<and> jget ''run_id'' pm = JStr run \<and> jget ''run_id'' em = JStr run
    \<and> (let es = list_run_events tenant run L; archive = evidence_member K package in
      map (\<lambda>e. jsort (JObj e)) (bundle_events E archive) = map (\<lambda>e. jsort (JObj (archived E e))) es
      \<or> (\<exists>u \<in> hashed E archive \<union> run_hashed E es. \<exists>w \<in> hashed E archive \<union> run_hashed E es. u \<noteq> w \<and> be_sha E u = be_sha E w))"
proof -
  obtain c st receipt expected where
    v: "verify_evidence_archive E (pe_verify K) (evidence_member K package) (Some c) (Some p) st receipt profile expected = Inr em"
    and scope: "map_of pm ''run_id'' = Some (JStr (scp_run_id c))" "map_of pm ''tenant_id'' = Some (JStr (scp_tenant_id c))"
    unfolding E by (rule verify_package_facts [OF accepted])
  obtain key where key: "verify_checkpoint (pe_verify K) c p = Inr key"
    and m: "verify_bundle E (evidence_member K package) (Some (be_sha E (evidence_member K package))) = Inr em"
      "jget ''run_id'' em = JStr (scp_run_id c)" "jget ''final_event_hash'' em = JStr (scp_final_event_hash c)"
    by (rule verify_evidence_archive_facts [OF v])
  obtain a where a: "a \<in> signed" "signs_same c a" by (rule signed_checkpoint_of [OF key signers])
  let ?es = "list_run_events (scp_tenant_id c) (scp_run_id c) L"
  have "last_event_hash ?es = Some (scp_final_event_hash c)" using heads a by (simp add: signs_same_def)
  moreover have "verify_events (be_sha E) (scp_tenant_id c) (scp_run_id c) None 1 ?es = Inr ()"
    using mem_ledger.appends_verify [OF empty_ledger_inv] unfolding L verify_run_def by (metis prod.collapse)
  moreover have "\<forall>e \<in> set ?es. bundle_event (be_float E) e" using events by blast
  ultimately have "map (\<lambda>e. jsort (JObj e)) (bundle_events E (evidence_member K package)) = map (\<lambda>e. jsort (JObj (archived E e))) ?es
      \<or> (\<exists>u \<in> hashed E (evidence_member K package) \<union> run_hashed E ?es. \<exists>w \<in> hashed E (evidence_member K package) \<union> run_hashed E ?es.
          u \<noteq> w \<and> be_sha E u = be_sha E w)"
    using archive_of_head [OF fr m(1,3)] by blast
  with m(2) scope show ?thesis by (auto simp: jget_def Let_def)
qed

section \<open>Built packages verify\<close>

lemma check_each_Inr: "check_each f xs = Inr () \<longleftrightarrow> (\<forall>x \<in> set xs. f x = Inr ())"
  by (induction xs) auto

lemma read_payloads_stored: "read_payloads (map stored_member ms) = Inr ms"
  by (induction ms) (auto simp: stored_member_def)

definition within_package_limits :: "zip_member list \<Rightarrow> bool" where
  "within_package_limits ms \<longleftrightarrow> list_all (\<lambda>m. zm_size m \<le> package_max_member_bytes) ms \<and> sum_list (map zm_size ms) \<le> package_max_total_bytes"

lemma read_built_package:
  fixes contents :: "(string \<times> string) list"
  assumes "contents = package_contents manifest evidence sb c p receipt" "unzip package = Inr (map stored_member contents)"
    "within_package_limits (map stored_member contents)"
  shows "read_package unzip package = Inr contents"
proof -
  have "check_package_members (map stored_member contents) = Inr ()"
    using assms(3) unfolding assms(1)
    by (auto simp: check_package_members_def within_package_limits_def package_contents_def stored_member_def package_members_def
        payload_members_def is_dir_def Let_def)
  then show ?thesis unfolding read_package_def assms(2) by (simp add: read_payloads_stored)
qed

definition package_files :: "sha256_fn \<Rightarrow> (string \<times> string) list \<Rightarrow> (pykey \<times> pyval) list" where
  "package_files sha payloads = map (\<lambda>n. (KStr n, PStr (sha256_hex_bytes sha (payload n payloads)))) payload_members"

definition package_standards :: "in_toto_statement \<Rightarrow> (pykey \<times> pyval) list" where
  "package_standards st =
    [(KStr ''in_toto_statement'', PStr in_toto_statement_v1),
     (KStr ''predicate_type'', PStr (its_predicate_type st)),
     (KStr ''slsa_provenance'', if its_predicate_type st = slsa_provenance_v1 then PStr slsa_provenance_v1 else PNone),
     (KStr ''canonicalization'', PStr ''prodkit-json-v1'')]"

definition package_items ::
  "sha256_fn \<Rightarrow> in_toto_statement \<Rightarrow> signed_checkpoint \<Rightarrow> (string \<times> string) list \<Rightarrow> (pykey \<times> pyval) list" where
  "package_items sha st c payloads =
    [(KStr ''schema_name'', PStr package_schema_name),
     (KStr ''schema_version'', PStr package_schema_version),
     (KStr ''run_id'', PStr (scp_run_id c)),
     (KStr ''tenant_id'', PStr (scp_tenant_id c))] @
    map (\<lambda>(field, member). (KStr field, PStr (sha256_hex_bytes sha (payload member payloads)))) scalar_digests @
    [(KStr ''standards'', PDict (package_standards st)),
     (KStr ''files'', PDict (package_files sha payloads))]"

lemma package_items_distinct:
  "distinct (map (key_str \<circ> fst) (package_items sha st c payloads))"
  "distinct (map (key_str \<circ> fst) (package_standards st))"
  "distinct (map (key_str \<circ> fst) (package_files sha payloads))"
  by (simp_all add: package_items_def package_standards_def package_files_def scalar_digests_def payload_members_def)

lemma package_manifest_items:
  "package_manifest sha evidence st sb c p receipt = PDict (package_items sha st c (package_contents manifest evidence sb c p receipt))"
  by (simp add: package_manifest_def package_items_def package_standards_def package_files_def scalar_digests_def payload_members_def
      package_contents_def payload_def Let_def evidence_bundle_sha256_def checkpoint_sha256_def)

lemma package_items_faithful: "faithful fr (PDict (package_items sha st c payloads))"
proof -
  have "faithful fr (PDict (package_standards st))" "faithful fr (PDict (package_files sha payloads))"
    using package_items_distinct(2,3) by (auto simp: package_standards_def package_files_def)
  then have "faithful fr (snd kv)" if "kv \<in> set (package_items sha st c payloads)" for kv
    using that by (auto simp: package_items_def simp del: faithful.simps(4))
  with package_items_distinct(1) show ?thesis unfolding faithful.simps by blast
qed

lemma package_lookups:
  "jget ''schema_name'' (loaded (package_items sha st c payloads)) = JStr package_schema_name"
  "jget ''schema_version'' (loaded (package_items sha st c payloads)) = JStr package_schema_version"
  "jget ''run_id'' (loaded (package_items sha st c payloads)) = JStr (scp_run_id c)"
  "jget ''tenant_id'' (loaded (package_items sha st c payloads)) = JStr (scp_tenant_id c)"
  "jget ''evidence_bundle_sha256'' (loaded (package_items sha st c payloads)) = JStr (sha256_hex_bytes sha (payload ''evidence.zip'' payloads))"
  "jget ''trust_root_sha256'' (loaded (package_items sha st c payloads)) = JStr (sha256_hex_bytes sha (payload ''trust-root.json'' payloads))"
  "jget ''standards'' (loaded (package_items sha st c payloads)) = JObj (loaded (package_standards st))"
  "jget ''files'' (loaded (package_items sha st c payloads)) = JObj (loaded (package_files sha payloads))"
  unfolding jget_loaded [OF package_items_distinct(1)] jsort_PDict [OF package_items_distinct(2), symmetric]
    jsort_PDict [OF package_items_distinct(3), symmetric]
  by (simp_all add: package_items_def scalar_digests_def)

lemma package_scope:
  "map_of (loaded (package_items sha st c payloads)) ''run_id'' = Some (JStr (scp_run_id c))"
  "map_of (loaded (package_items sha st c payloads)) ''tenant_id'' = Some (JStr (scp_tenant_id c))"
  unfolding map_of_loaded [OF package_items_distinct(1)] by (simp_all add: package_items_def scalar_digests_def)

lemma package_digest_lookups:
  assumes "(field, member) \<in> set scalar_digests"
  shows "jget field (loaded (package_items sha st c payloads)) = JStr (sha256_hex_bytes sha (payload member payloads))"
    "jget member (loaded (package_files sha payloads)) = JStr (sha256_hex_bytes sha (payload member payloads))"
proof -
  from assms have "field = ''evidence_bundle_sha256'' \<and> member = ''evidence.zip'' \<or> field = ''attestation_sha256'' \<and> member = ''attestation.json''
      \<or> field = ''checkpoint_sha256'' \<and> member = ''checkpoint.json'' \<or> field = ''trust_root_sha256'' \<and> member = ''trust-root.json''
      \<or> field = ''retention_lock_sha256'' \<and> member = ''retention-lock.json''"
    by (simp only: scalar_digests_def list.set insert_iff empty_iff prod.inject simp_thms)
  then show "jget field (loaded (package_items sha st c payloads)) = JStr (sha256_hex_bytes sha (payload member payloads))"
    "jget member (loaded (package_files sha payloads)) = JStr (sha256_hex_bytes sha (payload member payloads))"
    unfolding jget_loaded [OF package_items_distinct(1)] jget_loaded [OF package_items_distinct(3)]
    by (elim disjE conjE; simp add: package_items_def package_files_def scalar_digests_def payload_members_def)+
qed

lemma package_standards_lookups:
  "jget ''in_toto_statement'' (loaded (package_standards st)) = JStr in_toto_statement_v1"
  "jget ''canonicalization'' (loaded (package_standards st)) = JStr ''prodkit-json-v1''"
  "jget ''predicate_type'' (loaded (package_standards st)) = JStr (its_predicate_type st)"
  "jget ''slsa_provenance'' (loaded (package_standards st))
    = (if its_predicate_type st = slsa_provenance_v1 then JStr slsa_provenance_v1 else JNull)"
  unfolding jget_loaded [OF package_items_distinct(2)] by (simp_all add: package_standards_def)

lemma built_package_manifest:
  assumes sha: "\<forall>x. is_sha256 (sha x)"
  shows "validate_package_manifest sha (loaded (package_items sha st c payloads)) payloads = Inr (loaded (package_standards st))"
proof -
  let ?files = "loaded (package_files sha payloads)"
  have files: "set ?files = (\<lambda>n. (n, JStr (sha (payload n payloads)))) ` set payload_members"
    by (auto simp: loaded_def package_files_def sha256_hex_bytes_def)
  have keys: "set (map fst ?files) = set payload_members" unfolding set_map files image_image by simp
  have "length (sha x) = 64 \<and> list_all is_hex (sha x)" for x using sha by (auto simp: is_sha256_def hex_pattern_def)
  then have "check_each (check_file_digest sha payloads) ?files = Inr ()"
    unfolding check_each_Inr files by (auto simp: check_file_digest_def sha256_hex_bytes_def)
  moreover have "check_each (\<lambda>(field, member). raise_if (jget field (loaded (package_items sha st c payloads)) \<noteq> jget member ?files)
      (IntegrityViolationError (''portable package '' @ field @ '' is inconsistent''))) scalar_digests = Inr ()"
    unfolding check_each_Inr by (clarify, simp only: package_digest_lookups prod.case raise_if_def simp_thms if_False)
  ultimately show ?thesis
    unfolding validate_package_manifest_def package_lookups json.case keys by (simp add: package_standards_lookups)
qed

lemma load_package:
  "load_package_manifest fr (canonical_json_bytes (package_manifest sha evidence st sb c p receipt))
    = Inr (loaded (package_items sha st c (package_contents manifest evidence sb c p receipt)))"
  unfolding package_manifest_items [of sha evidence st sb c p receipt manifest] load_package_manifest_def
  by (rule load_object_dict [OF package_items_faithful])

text \<open>A receipt, statement, checkpoint and trust root read back as what was written.\<close>

definition parses ::
  "package_env \<Rightarrow> in_toto_statement \<Rightarrow> signed_checkpoint \<Rightarrow> trust_root_policy \<Rightarrow> retention_lock_receipt \<Rightarrow> bool" where
  "parses K st c p receipt \<longleftrightarrow>
    (\<forall>b. attestation_bytes st = Inr b \<longrightarrow> pe_statement K b = Inr st) \<and>
    pe_checkpoint K (canonical_json_bytes (dump_signed_checkpoint c)) = Inr c \<and>
    pe_trust K (canonical_json_bytes (dump_trust_root_policy p)) = Inr p \<and>
    pe_retention K (canonical_json_bytes (dump_retention_lock_receipt receipt)) = Inr receipt"

lemma verify_evidence_archive_anchored:
  assumes "verify_evidence_archive E verify archive c p st receipt profile None = Inr m" "\<forall>x. is_sha256 (be_sha E x)"
  shows "verify_evidence_archive E verify archive c p st receipt profile (Some (be_sha E archive)) = Inr m"
  using assms by (simp add: verify_evidence_archive_def Let_def raise_if_def evidence_bundle_sha256_def sha256_hex_bytes_def lower_sha256)

lemma built_payloads_accepted:
  assumes sha: "\<forall>x. is_sha256 (be_sha (pe_bundle K) x)" and parses: "parses K st c p receipt"
    and v: "verify_evidence_archive (pe_bundle K) (pe_verify K) evidence (Some c) (Some p) (Some st) (Some receipt) profile None = Inr m"
    and sb: "attestation_bytes st = Inr sb"
    and trust: "effective_trust (be_sha (pe_bundle K)) p trusted expected = Inr p"
  shows "verify_payloads K (loaded (package_items (be_sha (pe_bundle K)) st c (package_contents manifest evidence sb c p receipt)))
    (loaded (package_standards st)) (package_contents manifest evidence sb c p receipt) trusted expected profile = Inr m"
proof -
  let ?sha = "be_sha (pe_bundle K)" and ?contents = "package_contents manifest evidence sb c p receipt"
  have pay: "payload ''evidence.zip'' ?contents = evidence" "payload ''trust-root.json'' ?contents = canonical_json_bytes (dump_trust_root_policy p)"
    by (simp_all add: package_contents_def payload_def)
  have "parse_metadata K ?contents = Inr (p, c, receipt, st)"
    using parses sb by (simp add: parse_metadata_def parses_def package_contents_def payload_def)
  moreover have "check_standards (loaded (package_standards st)) st = Inr ()"
    by (simp add: check_standards_def package_standards_lookups raise_if_def)
  moreover have "check_scope c (loaded (package_items ?sha st c ?contents)) = Inr ()" by (simp add: check_scope_Inr package_scope)
  ultimately show ?thesis
    using verify_evidence_archive_anchored [OF v sha] trust
    by (simp add: verify_payloads_def Let_def package_lookups pay raise_if_def sha256_hex_def sha256_hex_bytes_def json_text_def)
qed

lemma built_package_accepted:
  fixes write_zip :: zip_writer
  assumes run: "build_package (pe_bundle K) (pe_verify K) write_zip source st c p receipt dest profile fs = (Inr path, fs')"
    and sha: "\<forall>x. is_sha256 (be_sha (pe_bundle K) x)"
    and zip: "\<forall>ms. distinct (map fst ms) \<longrightarrow> be_unzip (pe_bundle K) (write_zip ms) = Inr (map stored_member ms)"
    and size: "\<forall>ms. be_unzip (pe_bundle K) (the (fs' path)) = Inr ms \<longrightarrow> within_package_limits ms"
    and parses: "parses K st c p receipt"
    and trust: "effective_trust (be_sha (pe_bundle K)) p trusted expected = Inr p"
  shows "\<exists>archive package pm em. fs source = Some archive \<and> fs' path = Some package
    \<and> verify_package K package trusted expected (Some (be_sha (pe_bundle K) package)) profile = Inr (pm, em)
    \<and> jget ''run_id'' pm = JStr (scp_run_id c) \<and> jget ''tenant_id'' pm = JStr (scp_tenant_id c)
    \<and> evidence_member K package = archive \<and> verify_bundle (pe_bundle K) archive (Some (be_sha (pe_bundle K) archive)) = Inr em"
proof -
  let ?E = "pe_bundle K"
  let ?man = "\<lambda>evidence sb. canonical_json_bytes (package_manifest (be_sha ?E) evidence st sb c p receipt)"
  from run obtain evidence m sb where
    source: "fs source = Some evidence" and
    v: "verify_evidence_archive ?E (pe_verify K) evidence (Some c) (Some p) (Some st) (Some receipt) profile None = Inr m" and
    sb: "attestation_bytes st = Inr sb" and
    written: "fs' path = Some (write_zip (package_contents (?man evidence sb) evidence sb c p receipt))"
    by (auto simp: build_package_def bindE_def lift_result_def write_file_def ret_def Let_def split: option.splits sum.splits)
  let ?contents = "package_contents (?man evidence sb) evidence sb c p receipt"
  let ?package = "write_zip ?contents" and ?pm = "loaded (package_items (be_sha ?E) st c ?contents)"
  have "distinct (map fst ?contents)" by (simp add: package_contents_def)
  with zip have unzip: "be_unzip ?E ?package = Inr (map stored_member ?contents)" by blast
  have "within_package_limits (map stored_member ?contents)" using size written unzip by simp
  with unzip have read: "read_package (be_unzip ?E) ?package = Inr ?contents" by (intro read_built_package) (rule refl)
  have pay: "payload ''package-manifest.json'' ?contents = ?man evidence sb" "payload ''evidence.zip'' ?contents = evidence"
    by (simp_all add: package_contents_def payload_def)
  note load = load_package [of "be_float ?E" "be_sha ?E" evidence st sb c p receipt "?man evidence sb"]
  note verified = built_payloads_accepted [OF sha parses v sb trust, of "?man evidence sb"]
  have "verify_package K ?package trusted expected (Some (be_sha ?E ?package)) profile = Inr (?pm, m)"
    using sha by (simp add: verify_package_def Let_def raise_if_def portable_package_sha256_def sha256_hex_bytes_def lower_sha256 read pay load
        built_package_manifest verified)
  moreover obtain key where "verify_bundle ?E evidence (Some (be_sha ?E evidence)) = Inr m"
    by (rule verify_evidence_archive_facts [OF v])
  moreover have "evidence_member K ?package = evidence" by (simp add: evidence_member_def read pay)
  ultimately show ?thesis using source written package_lookups(3,4) [of "be_sha ?E" st c ?contents] by blast
qed

section \<open>Statements\<close>

text \<open>An evidence statement identifies its archive; a build statement passes the provenance policy that trusts its builder.\<close>

lemma evidence_statement_covers:
  assumes "evidence_statement run_id tenant name bundle manifest final = Inr st" "nonblank bundle"
  shows "verify_statement_subject st bundle = Inr ()" "its_predicate_type st = prodkit_evidence_predicate_v1"
  using assms by (auto simp: evidence_statement_def attested_resource_def new_statement_def validate_in_toto_statement_def
      validate_resource_descriptor_def verify_statement_subject_def covers_digest_def raise_if_def nonblank_def split: if_splits)

lemma verify_artifact_provenance_Inr:
  "verify_artifact_provenance parse_slsa policy st digest signed = Inr () \<longleftrightarrow>
    (app_require_verified_signature policy \<longrightarrow> signed) \<and> its_predicate_type st = app_required_predicate_type policy \<and> covers_digest digest st
    \<and> (\<exists>predicate. parse_slsa (its_predicate st) = Inr predicate
      \<and> slb_id (srd_builder (slp_run_details predicate)) \<in> set (app_allowed_builder_ids policy)
      \<and> (app_allowed_build_types policy \<noteq> [] \<longrightarrow> sbd_build_type (slp_build_definition predicate) \<in> set (app_allowed_build_types policy)))"
  by (cases "parse_slsa (its_predicate st)") (auto simp: verify_artifact_provenance_def)

lemma slsa_statement_accepted:
  assumes "slsa_build_provenance_statement subjects build_type builder_id external invocation started finished internal deps versions bdeps byproducts = Inr st"
    and "\<forall>d. parse_slsa (dump_slsa_provenance d) = Inr d" and "covers_digest digest st"
    and "app_required_predicate_type policy = slsa_provenance_v1" "strip builder_id \<in> set (app_allowed_builder_ids policy)"
    and "app_allowed_build_types policy = [] \<or> strip build_type \<in> set (app_allowed_build_types policy)"
  shows "verify_artifact_provenance parse_slsa policy st digest True = Inr ()"
  using assms unfolding verify_artifact_provenance_Inr
  by (auto simp: slsa_build_provenance_statement_def new_statement_def validate_in_toto_statement_def validate_slsa_build_metadata_def
      split: if_splits option.splits)

section \<open>Imports of verified transfers\<close>

text \<open>What the transfer verifier returns passes the checks of \<open>record_verified_import\<close> in the tenant of the transfer.\<close>

lemma transfer_supports_import:
  assumes v: "verify_transfer K vid now m package compatibility trusted expected profile = Inr v"
    and tenant: "etm_tenant_id m = tac_tenant_id ctx"
  shows "validate_import_verification ctx m v (be_sha (pe_bundle K) package) = Inr ()
    \<and> (\<exists>steps. path_from compatibility (etm_source_schema_version m) = Inr steps)
    \<and> (\<exists>pm em. verify_package K package trusted expected (Some (be_sha (pe_bundle K) package)) profile = Inr (pm, em)
      \<and> jget ''tenant_id'' pm = JStr (tac_tenant_id ctx))"
  using assms
  by (auto simp: verify_transfer_def Let_def raise_if_def portable_package_sha256_def sha256_hex_bytes_def validate_transfer_verification_def
      validate_import_verification_def split: if_splits option.splits)

section \<open>A concrete package\<close>

definition demo_checkpoint :: signed_checkpoint where
  "demo_checkpoint = (sign_material (\<lambda>s. s) sample_signer ''r1'' ''acme'' 0 1 (replicate 64 (CHR ''0'')) (replicate 64 (CHR ''0''))
     (Some (replicate 64 (CHR ''0''))) None)
     \<lparr>scp_signature_base64 := b64encode (replicate 64 (CHR ''s''))\<rparr>"

definition demo_key :: trusted_signing_key where
  "demo_key = \<lparr>tsk_key_id = ''key-1'', tsk_algorithm = Signing_ED25519, tsk_public_key_base64 = b64encode (replicate 32 (CHR ''p'')),
     tsk_signer_id = ''release'', tsk_valid_from = 0, tsk_valid_until = None, tsk_revoked_at = None\<rparr>"

definition demo_trust :: trust_root_policy where
  "demo_trust = \<lparr>trp_schema_name = ''prodkit.trust-root-policy'', trp_schema_version = ''1.0.0'', trp_policy_id = ''roots'',
     trp_revision = ''r1'', trp_trusted_keys = [demo_key], trp_allowed_signers = [''release''],
     trp_allow_historical_signatures_before_revocation = True\<rparr>"

definition demo_statement :: in_toto_statement where
  "demo_statement = \<lparr>its_type = in_toto_statement_v1, its_subject = [\<lparr>ard_name = None, ard_uri = None,
       ard_digest = [(''sha256'', replicate 64 (CHR ''0''))], ard_download_location = None, ard_media_type = None, ard_annotations = []\<rparr>],
     its_predicate_type = prodkit_evidence_predicate_v1, its_predicate = []\<rparr>"

definition demo_receipt :: retention_lock_receipt where
  "demo_receipt = \<lparr>rlr_schema_name = ''prodkit.retention-lock-receipt'', rlr_schema_version = ''1.0.0'',
     rlr_object_sha256 = replicate 64 (CHR ''0''), rlr_locked_at = 0, rlr_retain_until = 2592000000000,
     rlr_mode = LockMode_COMPLIANCE, rlr_provider = ''vault'', rlr_provider_reference = ''lock-1'', rlr_immutable = True\<rparr>"

definition demo_packages :: package_env where
  "demo_packages = \<lparr>pe_bundle = demo_env, pe_verify = (\<lambda>_ _ m. m = canonical_json_bytes (signing_material demo_checkpoint)),
     pe_trust = (\<lambda>_. Inr demo_trust), pe_checkpoint = (\<lambda>_. Inr demo_checkpoint), pe_retention = (\<lambda>_. Inr demo_receipt),
     pe_statement = (\<lambda>_. Inr demo_statement)\<rparr>"

lemma demo_packages_simps [simp]:
  "pe_bundle demo_packages = demo_env" "pe_verify demo_packages = (\<lambda>_ _ m. m = canonical_json_bytes (signing_material demo_checkpoint))"
  by (simp_all add: demo_packages_def)

lemma demo_parses: "parses demo_packages demo_statement demo_checkpoint demo_trust demo_receipt"
  by (simp add: parses_def demo_packages_def)

lemma demo_trusted: "verify_checkpoint (\<lambda>_ _ m. m = canonical_json_bytes (signing_material demo_checkpoint)) demo_checkpoint demo_trust = Inr demo_key"
  by (simp add: verify_checkpoint_def demo_trust_def demo_key_def demo_checkpoint_def sign_material_def sample_signer_def
      verify_key_window_def verify_signature_def b64_round_trip)

lemma demo_scope: "scp_run_id demo_checkpoint = ''r1''" "scp_tenant_id demo_checkpoint = ''acme''"
  "scp_final_event_hash demo_checkpoint = replicate 64 (CHR ''0'')" "scp_evidence_bundle_sha256 demo_checkpoint = replicate 64 (CHR ''0'')"
  "scp_attestation_sha256 demo_checkpoint = Some (replicate 64 (CHR ''0''))"
  by (simp_all add: demo_checkpoint_def sign_material_def)

lemma demo_assured:
  assumes "verify_bundle demo_env archive (Some (zero_hash archive)) = Inr m"
    "jget ''final_event_hash'' m = JStr (replicate 64 (CHR ''0''))" "jget ''run_id'' m = JStr ''r1''"
  shows "verify_evidence_archive demo_env (\<lambda>_ _ m. m = canonical_json_bytes (signing_material demo_checkpoint)) archive
    (Some demo_checkpoint) (Some demo_trust) (Some demo_statement) (Some demo_receipt) None None = Inr m"
proof -
  have z: "zero_hash x = replicate 64 (CHR ''0'')" for x by (simp add: zero_hash_def)
  have f: "\<not> statement_nonfinite demo_statement" by (simp add: statement_nonfinite_def demo_statement_def)
  have c: "covers_digest (replicate 64 (CHR ''0'')) demo_statement" by (simp add: covers_digest_def demo_statement_def)
  have "check_statement zero_hash (Some demo_checkpoint) (Some demo_statement) (replicate 64 (CHR ''0'')) = Inr ()"
    unfolding check_statement_def verify_statement_subject_def attestation_sha256_def attestation_bytes_def sha256_hex_bytes_def z
    using f c by (simp add: raise_if_def demo_scope)
  moreover have "check_retention (Some demo_receipt) default_profile (replicate 64 (CHR ''0'')) = Inr ()"
    by (simp add: check_retention_def verify_retention_lock_def demo_receipt_def default_profile_def)
  moreover have "check_signed (\<lambda>_ _ m. m = canonical_json_bytes (signing_material demo_checkpoint)) (Some demo_checkpoint) (Some demo_trust)
      default_profile (replicate 64 (CHR ''0'')) = Inr ()"
    unfolding check_signed_some using demo_trusted demo_scope(4) by blast
  moreover have "check_manifest (Some demo_checkpoint) m = Inr ()" unfolding check_manifest_some using assms(2,3) demo_scope by simp
  ultimately show ?thesis using assms(1)
    by (simp add: verify_evidence_archive_def Let_def evidence_bundle_sha256_def sha256_hex_bytes_def raise_if_def z)
qed

lemma length_b64encode: "length (b64encode s) \<le> 4 * length s"
proof (induction s rule: b64encode.induct)
  case (4 a b c r)
  from 4 have "length (b64encode r) \<le> 4 * length r" by simp
  then show ?case by (simp add: Let_def)
qed (simp_all add: Let_def)

lemma short_document: "weight (normalize_value v) \<le> 10000 \<Longrightarrow> length (canonical_json_bytes v) \<le> 20000"
  using length_canonical [of v] by linarith

lemma demo_texts: "length (int_str 1) = 1" "length (isoformat_utc 0) \<le> 30" "length (isoformat_utc 2592000000000) \<le> 30"
  by code_simp+

lemma demo_statement_short: "length (canonical_json_bytes (dump_in_toto_statement demo_statement)) \<le> 20000"
  by (rule short_document) (simp add: dump_in_toto_statement_def demo_statement_def dump_resource_descriptor_def optional_str_def str_dict_def
      dict_of_def in_toto_statement_v1_def prodkit_evidence_predicate_v1_def)

lemma demo_checkpoint_short: "length (canonical_json_bytes (dump_signed_checkpoint demo_checkpoint)) \<le> 20000"
  using demo_texts length_b64encode [of "replicate 64 (CHR ''s'')"]
  by (intro short_document) (simp add: dump_signed_checkpoint_def signing_material_def demo_checkpoint_def sign_material_def sample_signer_def
      dict_of_def join_Cons truthy_def del: int_str_inject)

lemma demo_trust_short: "length (canonical_json_bytes (dump_trust_root_policy demo_trust)) \<le> 20000"
  using demo_texts length_b64encode [of "replicate 32 (CHR ''p'')"]
  by (intro short_document) (simp add: dump_trust_root_policy_def demo_trust_def dump_trusted_signing_key_def demo_key_def dict_of_def)

lemma demo_receipt_short: "length (canonical_json_bytes (dump_retention_lock_receipt demo_receipt)) \<le> 20000"
  using demo_texts by (intro short_document) (simp add: dump_retention_lock_receipt_def demo_receipt_def dict_of_def)

lemma demo_manifest_short:
  "length (canonical_json_bytes (package_manifest zero_hash archive demo_statement sb demo_checkpoint demo_trust demo_receipt)) \<le> 20000"
proof (rule short_document)
  have z: "length (zero_hash x) = 64" for x by (simp add: zero_hash_def)
  show "weight (normalize_value (package_manifest zero_hash archive demo_statement sb demo_checkpoint demo_trust demo_receipt)) \<le> 10000"
    by (simp add: package_manifest_def Let_def dict_of_def z demo_scope evidence_bundle_sha256_def sha256_hex_bytes_def checkpoint_sha256_def
        package_schema_name_def package_schema_version_def in_toto_statement_v1_def slsa_provenance_v1_def demo_statement_def
        prodkit_evidence_predicate_v1_def)
qed

lemmas demo_short = demo_statement_short demo_checkpoint_short demo_trust_short demo_receipt_short demo_manifest_short

lemma demo_package:
  obtains package fs fs' where
    "build_package demo_env (pe_verify demo_packages) demo_zip ''a.zip'' demo_statement demo_checkpoint demo_trust demo_receipt ''p.zip'' None fs
      = (Inr ''p.zip'', fs')"
    "fs' ''p.zip'' = Some package" "\<forall>ms. demo_unzip package = Inr ms \<longrightarrow> within_package_limits ms"
proof -
  obtain archive m where a: "verify_bundle demo_env archive (Some (zero_hash archive)) = Inr m" "length archive \<le> 500000"
    "jget ''final_event_hash'' m = JStr (replicate 64 (CHR ''0''))" "jget ''run_id'' m = JStr ''r1''"
    using demo_accepted [OF iso_lengths(1)] by blast
  let ?sb = "canonical_json_bytes (dump_in_toto_statement demo_statement)"
  let ?man = "canonical_json_bytes (package_manifest zero_hash archive demo_statement ?sb demo_checkpoint demo_trust demo_receipt)"
  let ?contents = "package_contents ?man archive ?sb demo_checkpoint demo_trust demo_receipt"
  have sb: "attestation_bytes demo_statement = Inr ?sb"
    by (simp add: attestation_bytes_def statement_nonfinite_def demo_statement_def)
  have "build_package demo_env (pe_verify demo_packages) demo_zip ''a.zip'' demo_statement demo_checkpoint demo_trust demo_receipt ''p.zip'' None
      [''a.zip'' \<mapsto> archive] = (Inr ''p.zip'', [''a.zip'' \<mapsto> archive, ''p.zip'' \<mapsto> demo_zip ?contents])"
    using demo_assured [OF a(1,3,4)] sb
    by (simp add: build_package_def bindE_def lift_result_def write_file_def ret_def Let_def)
  moreover have "within_package_limits (map stored_member ?contents)"
    using demo_short(1-4) demo_short(5) [of archive ?sb] a(2)
    by (simp add: within_package_limits_def package_contents_def stored_member_def package_max_member_bytes_def package_max_total_bytes_def)
  ultimately show thesis
    using that [of "[''a.zip'' \<mapsto> archive]" "[''a.zip'' \<mapsto> archive, ''p.zip'' \<mapsto> demo_zip ?contents]" "demo_zip ?contents"]
    by (simp add: demo_unzip_zip)
qed

text \<open>
  C15: A built package verifies. Whenever the builder returns, the verifier accepts the package it wrote, against the signer's
  trust root or against its digest, and against the package's own digest. It returns a manifest with the run and
  tenant of the signed checkpoint, and the manifest of the archive packed. It is assumed that zip and the parsers read
  back what was written and that the package is within the verifier's size limits.
\<close>

theorem package_verifies:
  assumes "build_package (pe_bundle K) (pe_verify K) write_zip source st c p receipt dest profile fs = (Inr path, fs')"
    and "\<forall>x. is_sha256 (be_sha (pe_bundle K) x)"
    and "\<forall>ms. distinct (map fst ms) \<longrightarrow> be_unzip (pe_bundle K) (write_zip ms) = Inr (map stored_member ms)"
    and "\<forall>ms. be_unzip (pe_bundle K) (the (fs' path)) = Inr ms \<longrightarrow> within_package_limits ms"
    and "parses K st c p receipt"
    and "trusted = Some p \<or> trusted = None \<and> expected = Some (sha256_hex (be_sha (pe_bundle K)) (dump_trust_root_policy p))"
  shows "\<exists>archive package pm em. fs source = Some archive \<and> fs' path = Some package
    \<and> verify_package K package trusted expected (Some (be_sha (pe_bundle K) package)) profile = Inr (pm, em)
    \<and> jget ''run_id'' pm = JStr (scp_run_id c) \<and> jget ''tenant_id'' pm = JStr (scp_tenant_id c)
    \<and> evidence_member K package = archive \<and> verify_bundle (pe_bundle K) archive (Some (be_sha (pe_bundle K) archive)) = Inr em"
proof (rule built_package_accepted [OF assms(1-5)])
  show "effective_trust (be_sha (pe_bundle K)) p trusted expected = Inr p"
    using assms(2,6) by (auto simp: effective_trust_def Let_def lower_sha256 sha256_hex_def)
qed

theorem package_verifies_witness:
  "\<exists>package pm em. verify_package demo_packages package None (Some (zero_hash (canonical_json_bytes (dump_trust_root_policy demo_trust))))
    (Some (zero_hash package)) None = Inr (pm, em) \<and> jget ''tenant_id'' pm = JStr ''acme''"
proof -
  obtain package fs fs' where b: "build_package demo_env (pe_verify demo_packages) demo_zip ''a.zip'' demo_statement demo_checkpoint
      demo_trust demo_receipt ''p.zip'' None fs = (Inr ''p.zip'', fs')"
    "fs' ''p.zip'' = Some package" "\<forall>ms. demo_unzip package = Inr ms \<longrightarrow> within_package_limits ms"
    by (rule demo_package)
  then have b': "build_package (pe_bundle demo_packages) (pe_verify demo_packages) demo_zip ''a.zip'' demo_statement demo_checkpoint
      demo_trust demo_receipt ''p.zip'' None fs = (Inr ''p.zip'', fs')" unfolding demo_packages_simps(1) by blast
  from package_verifies [OF b' _ _ _ demo_parses, of None "Some (zero_hash (canonical_json_bytes (dump_trust_root_policy demo_trust)))"] b(2,3)
  show ?thesis by (auto simp: demo_unzip_zip demo_scope sha256_hex_def)
qed

lemma demo_run_events: "list_run_events t r demo_ledger = (if t = ''acme'' \<and> r = ''r1'' then [make_event zero_hash sample_draft []] else [])"
  by (simp add: demo_ledger_def bindE_def ret_def ledger_append_def Let_def empty_ledger_def list_run_events_def sample_draft_def)

text \<open>
  C13: A trusted package holds the ledger's events. Consider any ledger history, and a trust root whose keys verify only checkpoints
  that their holders signed, each for the head of the run it names. Then whatever package is accepted under this trust
  root, whoever assembled it, its archive records exactly the events the ledger has for the tenant and run named in
  the package manifest, up to the order of keys, unless two of the byte strings hashed along the two chains collide. It is
  assumed that events print as they are read, and that the text of a finite float has a point or an exponent.
\<close>

theorem package_holds_the_ledger:
  assumes "\<forall>t. float_tok (be_float E t) \<or> be_float E t \<in> set nonfinite" and "E = pe_bundle K"
    and "verify_package K package (Some p) expected_trust expected_package profile = Inr (pm, em)"
    and "only_signed (pe_verify K) p signed"
    and "L = snd (run_all (ledger_append (be_sha E)) drafts empty_ledger)"
    and "\<forall>a \<in> signed. last_event_hash (list_run_events (scp_tenant_id a) (scp_run_id a) L) = Some (scp_final_event_hash a)"
    and "\<forall>t r. \<forall>e \<in> set (list_run_events t r L). bundle_event (be_float E) e"
  shows "\<exists>tenant run. jget ''tenant_id'' pm = JStr tenant \<and> jget ''run_id'' pm = JStr run \<and> jget ''run_id'' em = JStr run
    \<and> (let es = list_run_events tenant run L; archive = evidence_member K package in
      map (\<lambda>e. jsort (JObj e)) (bundle_events E archive) = map (\<lambda>e. jsort (JObj (archived E e))) es
      \<or> (\<exists>u \<in> hashed E archive \<union> run_hashed E es. \<exists>w \<in> hashed E archive \<union> run_hashed E es. u \<noteq> w \<and> be_sha E u = be_sha E w))"
  using assms by (rule package_of_ledger)

theorem package_holds_the_ledger_witness:
  "\<exists>package pm em tenant run. verify_package demo_packages package (Some demo_trust) None None None = Inr (pm, em)
    \<and> jget ''tenant_id'' pm = JStr tenant \<and> jget ''run_id'' pm = JStr run \<and> jget ''run_id'' em = JStr run
    \<and> (let es = list_run_events tenant run demo_ledger; archive = evidence_member demo_packages package in
      map (\<lambda>e. jsort (JObj e)) (bundle_events demo_env archive) = map (\<lambda>e. jsort (JObj (archived demo_env e))) es
      \<or> (\<exists>u \<in> hashed demo_env archive \<union> run_hashed demo_env es. \<exists>w \<in> hashed demo_env archive \<union> run_hashed demo_env es.
          u \<noteq> w \<and> zero_hash u = zero_hash w))"
proof -
  obtain package fs fs' where b: "build_package demo_env (pe_verify demo_packages) demo_zip ''a.zip'' demo_statement demo_checkpoint
      demo_trust demo_receipt ''p.zip'' None fs = (Inr ''p.zip'', fs')"
    "fs' ''p.zip'' = Some package" "\<forall>ms. demo_unzip package = Inr ms \<longrightarrow> within_package_limits ms"
    by (rule demo_package)
  then have b': "build_package (pe_bundle demo_packages) (pe_verify demo_packages) demo_zip ''a.zip'' demo_statement demo_checkpoint
      demo_trust demo_receipt ''p.zip'' None fs = (Inr ''p.zip'', fs')" unfolding demo_packages_simps(1) by blast
  from built_package_accepted [OF b' _ _ _ demo_parses, of "Some demo_trust" None] b(2,3) obtain pm em where
    "verify_package demo_packages package (Some demo_trust) None (Some (zero_hash package)) None = Inr (pm, em)"
    by (auto simp: demo_unzip_zip effective_trust_def)
  then have v: "verify_package demo_packages package (Some demo_trust) None None None = Inr (pm, em)"
    by (simp add: verify_package_def Let_def raise_if_def split: if_splits)
  have f: "float_tok ''1.0''" by code_simp
  have signed: "only_signed (pe_verify demo_packages) demo_trust {demo_checkpoint}" by (simp add: only_signed_def)
  have l: "demo_ledger = snd (run_all (ledger_append (be_sha demo_env)) [sample_draft] empty_ledger)" unfolding demo_simps demo_ledger_def ..
  have h: "last_event_hash [make_event zero_hash sample_draft []] = Some (replicate 64 (CHR ''0''))"
    by (simp add: last_event_hash_def integrity_make_event sha256_hex_def zero_hash_def del: hash_material_make_event)
  have "\<exists>tenant run. jget ''tenant_id'' pm = JStr tenant \<and> jget ''run_id'' pm = JStr run \<and> jget ''run_id'' em = JStr run
    \<and> (let es = list_run_events tenant run demo_ledger; archive = evidence_member demo_packages package in
      map (\<lambda>e. jsort (JObj e)) (bundle_events demo_env archive) = map (\<lambda>e. jsort (JObj (archived demo_env e))) es
      \<or> (\<exists>u \<in> hashed demo_env archive \<union> run_hashed demo_env es. \<exists>w \<in> hashed demo_env archive \<union> run_hashed demo_env es.
          u \<noteq> w \<and> be_sha demo_env u = be_sha demo_env w))"
    by (rule package_holds_the_ledger [OF _ _ v signed l])
       (use f h demo_event_faithful in \<open>auto simp: demo_run_events demo_scope\<close>)
  with v show ?thesis unfolding demo_simps by blast
qed

end
