(* ===== verification/Spec2Isabelle.thy ===== *)
theory Spec2Isabelle
  imports Standalone_Broker Coordinator Scheduler Lineage Tenancy Reconciliation Governance_Safety Restore_Guarantees
    Security_Safety Rate_Limiter Package_Guarantees
begin

text \<open>
  Verification development for ProdKit Control, the control plane that authorises, executes, records
  and reconciles the externally visible actions of agents.

  THE PROGRAM. \<open>prodkit-control-core\<close> (below: core) declares the contracts, frozen pydantic models with
  validators and canonical digests, and \<open>prodkit-control-runtime\<close> (below: rt) the components over
  them. A request to act is an \<open>ActionSpec\<close>. The \<open>ActionBroker\<close> checks its tenant and expiry, asks the
  policy engines, obtains an approval where policy demands one, claims the action's idempotency key,
  leases a credential, records a durable attempt, calls the executor, and has the observed state
  verified; each stage is an event of the hash-chained ledger of the run. The \<open>RunCoordinator\<close> opens and
  closes runs. Work is distributed by fenced leases, a durable queue, a scheduler and an admission
  controller. Lineage graphs tie production observations to what was specified, built, authorised and
  deployed. Reconciliation compares evidence of independent sources with the controlled actions. Tenant
  control and governance guard what may be configured, retained, held and deleted, signed
  checkpoints anchor the evidence outside the control plane, and disaster recovery restores it from backups
  under break-glass authority. Security components guard the edge: secret references, workload identities,
  rate limits, and the redaction of exported audit
  events. A run leaves the control plane as an evidence archive, which is
  verified offline, and as a package that binds the archive to a signed checkpoint.

  THEORIES AND SOURCES.
  \<^item> \<open>Control_Prelude\<close>: names of types, exceptions (core \<open>exceptions.py\<close>), results, state-passing programs,
    Python strings and dicts.
  \<^item> \<open>Canonical\<close>: core \<open>canonical.py\<close>, the canonical JSON behind every digest and its portable profile.
  \<^item> \<open>Contracts\<close>: core \<open>contracts/\<close> base, identity, artifacts, events, actions, policy, approvals, execution,
    runs, verification and transfers. For a model \<open>X\<close>, the record has its fields, \<open>x_fields\<close> the constraints of the
    field types, \<open>validate_x\<close> the model validator in the order of the code, \<open>dump_x\<close> its \<open>model_dump\<close>.
  \<^item> \<open>Event_Ledger\<close>: \<open>InMemoryEventLedger\<close> of rt \<open>memory.py\<close>; locale \<open>event_ledger\<close>.
  \<^item> \<open>Stores\<close>: approval, idempotency and artifact stores of rt \<open>memory.py\<close>, \<open>attempts.py\<close> and \<open>runs.py\<close>; locales
    \<open>idempotency\<close>, \<open>attempt_storage\<close>, \<open>run_storage\<close>.
  \<^item> \<open>Policy\<close>: rt \<open>policy_semantics.py\<close> and \<open>policy.py\<close>.
  \<^item> \<open>Broker\<close>, \<open>Broker_Safety\<close>, \<open>Standalone_Broker\<close>: rt \<open>broker.py\<close> over any stores of the locale \<open>broker_stores\<close>, what
    every such broker guarantees, and the broker over the in-memory stores with the registry, dry-run
    executor and digest verifier of rt \<open>executors.py\<close>.
  \<^item> \<open>Coordinator\<close>: rt \<open>coordinator.py\<close> (locale \<open>run_coordination\<close>) and \<open>projectors.py\<close>.
  \<^item> \<open>Binary64\<close>: rounding of exact results to the 53 significant bits of a Python \<open>float\<close>.
  \<^item> \<open>Leases\<close>, \<open>Work_Queue\<close>, \<open>Scheduler\<close>: core \<open>contracts/ha.py\<close> and rt \<open>ha.py\<close>; locales \<open>fencing\<close>,
    \<open>fenced_ownership\<close>, \<open>durable_queue\<close>.
  \<^item> \<open>Lineage\<close>: core \<open>contracts/lineage.py\<close> and rt \<open>lineage.py\<close>.
  \<^item> \<open>Reconciliation_Engine\<close>, \<open>Reconciliation\<close>: core \<open>contracts/reconciliation.py\<close> and \<open>reconciliation/engine.py\<close>,
    rt \<open>reconciliation.py\<close>.
  \<^item> \<open>Tenancy\<close>: core \<open>contracts/tenancy.py\<close> and rt \<open>tenancy.py\<close>.
  \<^item> \<open>Attestations\<close>: the trust contracts of core \<open>contracts/attestations.py\<close>, signer and checkpoint verifier of
    rt \<open>attestations.py\<close>.
  \<^item> \<open>Governance_Contracts\<close>, \<open>Governance\<close>, \<open>Governance_Safety\<close>: core \<open>contracts/governance.py\<close>, rt \<open>governance.py\<close>, and
    the abstract machine of governed changes it refines.
  \<^item> \<open>Recovery_Contracts\<close>, \<open>Recovery\<close>, \<open>Recovery_Safety\<close>, \<open>Restore_Guarantees\<close>: core \<open>contracts/recovery.py\<close>, the integrity
    verifier and store of rt \<open>recovery.py\<close>, what each operation does, and the guarantees of every history.
  \<^item> \<open>Security_Contracts\<close>, \<open>Security\<close>, \<open>Security_Safety\<close>, \<open>Rate_Limiter\<close>: core \<open>contracts/security.py\<close> and rt \<open>security.py\<close>;
    locale \<open>replay_claims\<close>.
  \<^item> \<open>Json_Reader\<close>: \<open>json.loads\<close> on bytes, and its round trip with \<open>canonical_json_bytes\<close>.
  \<^item> \<open>Evidence_Bundles\<close>, \<open>Bundle_Guarantees\<close>: rt \<open>bundles.py\<close>, and the guarantees of builder and verifier.
  \<^item> \<open>Evidence_Packages\<close>, \<open>Package_Guarantees\<close>: the in-toto and SLSA contracts of core \<open>contracts/attestations.py\<close>, the statement
    builder and \<open>verify_evidence_archive\<close> of rt \<open>attestations.py\<close>, rt \<open>portable.py\<close> and \<open>transfers.py\<close>,
    \<open>ArtifactProvenanceVerifier\<close> of rt \<open>security.py\<close>, and the guarantees of signed packages.
  \<^item> \<open>Sample_Data\<close>: concrete values for the witnesses; it models no code.

  STATE AND OPERATIONS. The attributes of a store class are the fields of a record (\<open>_changes\<close> is
  \<open>gs_changes\<close>), a dict is a map, or an association list where its order is observable, a list kept by
  \<open>setdefault(k, [])\<close> is a function to lists. A method is one definition of type
  \<open>state \<Rightarrow> (exn + result) \<times> state\<close> built with \<open>bindE\<close>, in the order of the code, so that what it wrote before it raised
  stays; a method that only reads is a function of the state. Every exception, guard and early return of
  the source is a branch. A method that holds its component's lock throughout is one step, and an
  operation that releases the lock in between is the sequence of its sections; histories are
  arbitrary sequences of steps (\<open>..._step\<close> relations or lists of calls), which covers every interleaving of
  callers. Clock readings and \<open>uuid4\<close> results are arguments; a hypothesis that a \<open>uuid4\<close> is fresh is part of the
  step relation.

  VALUES. A \<open>str\<close> is a list of code points below 256, a \<open>UUID\<close> its text, an aware \<open>datetime\<close> or a \<open>timedelta\<close>
  its microseconds as an integer, an \<open>int\<close> unbounded as in Python, a finite \<open>float\<close> the rational it
  denotes where it is computed with, and its repr where it is only printed. The float arithmetic of the rate limiter and of
  the service objectives is rounded to binary64 (\<open>fl\<close>, with an unbounded exponent: results that overflow are not modelled).
  Elsewhere floats only become or come from \<open>timedelta\<close>s: comparisons of \<open>total_seconds()\<close> are made on the microseconds.
  The overflow of \<open>datetime\<close> arithmetic beyond year 9999 is not modelled.

  PARAMETERS. SHA-256 (\<open>sha\<close>, with the hypothesis where needed that it yields 64 hexadecimal digits, and
  otherwise statements up to a collision), \<open>uuid5\<close>, Ed25519, policy engines, approval and credential providers,
  executors, verifiers, reconciliation sources, the retention deletion adapter, the resolver of
  uncertain attempts and the authenticator of workload credentials are arguments. So are, for evidence archives, the
  zip reader and writer, \<open>str(UUID(s))\<close>, the repr of a parsed float and the pydantic parsers of lineage graphs and
  of the documents in a package; that a reader returns what the writer stored is a hypothesis of the statement that uses it.

  WHAT THE LEMMAS SHOW.
  \<^item> Encoding and evidence: canonical bytes identify content; every history of appends verifies, only grows and
    keeps a run in one tenant; two verifying chains with one head have the same contents or exhibit a collision;
    artifacts are retrieved unchanged; a checkpoint signed with ids free of surrounding whitespace verifies, one with padded
    ids does not, and an accepted one is authentic. A completed run keeps its status and completion time, which an event records.
  \<^item> Authorisation: the strictest engine wins and conflicts deny; a broker calls an executor only after every
    check of the same request passed, and at most once per idempotency key over any history; what each
    completed, reused or failed execution records.
  \<^item> Availability: leases exclude each other and fence stale owners, queue depth and attempts are bounded,
    acquisition makes progress, admission stays within its limits and drains.
  \<^item> Evidence of production: the cycle check decides acyclicity, stored graphs are valid, an enforced observation
    has a complete lineage; every controlled action gets its due finding, a failed or blocked source never
    becomes success, since a completeness assessment can not regain what a blocking finding took.
  \<^item> Tenants and governance: tenants are isolated and audited: a call neither changes nor reads more than the slice of its
    caller's tenant; support access needs a live grant, held tenants are not deleted. A retention policy or trust root is added, or
    a hold released, only by spending a request granted for exactly this change, by another actor than its proposer when
    its risk is high or critical; placing a hold takes no request. Revisions are consecutive, and a retention run deletes exactly what is due and not held.
  \<^item> Disaster recovery: an integrity scan verifies exactly the state of the backup; break-glass authority is independent,
    bounded and ends with its revocation; a restore is promoted only if the scan it cites was given exactly the state of the
    backup, the recovery gap is reconciled and the targets are met.
  \<^item> Security: a workload identity is accepted once, exported audit lines do not depend on sensitive values, and the
    rate limiter, whose eviction loop always ends, never allows more than a window over the accepted calls does; it decides like
    that window when its two roundings of the window's edge agree, and may deny new keys when they do not.
  \<^item> Evidence archives: JSON that was rendered canonically reads back as the same value; an archive the builder returns
    verifies; two archives that verify with one final event hash record the same events or exhibit a collision.
    A package built over an archive verifies; one accepted under a trust root whose holders sign only ledger heads holds
    the events of the ledger.

  TERMINATION. All definitions are total. The depth-first search of \<open>Lineage\<close> and \<open>canonical_portable_json\<close> recurse by
  measures (the nodes off the current path; the size of the value). The eviction loop of the rate limiter is a
  \<open>partial_function\<close> and proved to return from every state, since each round pops an expiration and only a bucket that lost calls pushes one back. The JSON reader
  recurses with fuel, twice the length of the text plus one: \<open>read_fuel_enough\<close> proves that more fuel changes nothing.
  Everything else recurses on its data.

  NOT MODELLED. The PostgreSQL stores, whose behaviour is that of SQL statements and row locks of the server; the HTTP service, command
  line, executor, provider, integration and reconciler packages, which translate between contracts and
  external systems; scripts and TypeScript clients. Task cancellation inside an operation and the interleaving
  of two \<open>execute\<close> calls between their awaits, or of two restore operations between their sections, are not modelled:
  the steps are whole calls.
\<close>

end
